(* ===== verification/Prelude.thy ===== *)
theory Prelude
  imports Complex_Main "HOL-Library.AList" "HOL-Library.Char_ord" "HOL-Library.List_Lexorder"
    "HOL-Library.Product_Lexorder" "HOL-Library.Option_ord" "HOL-Library.Multiset"
begin

text \<open>
  Shared vocabulary of the development: results of fallible code, Python dictionaries as
  insertion-ordered association lists, first-match search, order-preserving removal of
  duplicates, and the stable \<^verbatim>\<open>sorted(..., key=...)\<close>. The facts collected
  in \<open>res_simps\<close> and \<open>dict_simps\<close> carry the proofs of the components.
\<close>

named_theorems res_simps \<open>unfolding of fallible code\<close>
named_theorems dict_simps \<open>laws of insertion-ordered dictionaries\<close>

section \<open>Results of fallible code\<close>

type_synonym ('e, 'a) result = "'e + 'a"

fun bind_r :: "('e, 'a) result \<Rightarrow> ('a \<Rightarrow> ('e, 'b) result) \<Rightarrow> ('e, 'b) result" where
  "bind_r (Inl e) f = Inl e"
| "bind_r (Inr x) f = f x"

definition guard_r :: "bool \<Rightarrow> 'e \<Rightarrow> ('e, unit) result" where
  "guard_r ok e = (if ok then Inr () else Inl e)"

lemma bind_r_Inr [res_simps]: "bind_r m f = Inr y \<longleftrightarrow> (\<exists>x. m = Inr x \<and> f x = Inr y)"
  by (cases m) auto

lemma bind_r_Inl [res_simps]:
  "bind_r m f = Inl e \<longleftrightarrow> m = Inl e \<or> (\<exists>x. m = Inr x \<and> f x = Inl e)"
  by (cases m) auto

lemma guard_r_Inr [res_simps]: "guard_r ok e = Inr u \<longleftrightarrow> ok"
  by (simp add: guard_r_def)

lemma guard_r_Inl [res_simps]: "guard_r ok e = Inl e' \<longleftrightarrow> \<not> ok \<and> e' = e"
  by (auto simp: guard_r_def)

fun map_r :: "('a \<Rightarrow> ('e, 'b) result) \<Rightarrow> 'a list \<Rightarrow> ('e, 'b list) result" where
  "map_r f [] = Inr []"
| "map_r f (x # xs) = bind_r (f x) (\<lambda>y. bind_r (map_r f xs) (\<lambda>ys. Inr (y # ys)))"

lemma map_r_length: "map_r f xs = Inr ys \<Longrightarrow> length ys = length xs"
  by (induction xs arbitrary: ys) (auto simp: res_simps)

lemma map_r_all: "map_r f xs = Inr ys \<Longrightarrow> list_all2 (\<lambda>x y. f x = Inr y) xs ys"
  by (induction xs arbitrary: ys) (auto simp: res_simps)

section \<open>Truth of optional values\<close>

definition is_some :: "'a option \<Rightarrow> bool" where
  "is_some x = (x \<noteq> None)"

definition truthy :: "'a list option \<Rightarrow> bool" where
  \<comment> \<open>Python truth of an optional string or sequence: present and not empty\<close>
  "truthy x = (case x of None \<Rightarrow> False | Some s \<Rightarrow> s \<noteq> [])"

definition default_to :: "'a option \<Rightarrow> 'a \<Rightarrow> 'a" where
  "default_to x d = (case x of None \<Rightarrow> d | Some v \<Rightarrow> v)"

lemma is_some_simps [simp]: "is_some (Some x)" "\<not> is_some None"
  by (simp_all add: is_some_def)

lemma truthy_simps [simp]: "truthy (Some (x # xs))" "\<not> truthy (Some [])" "\<not> truthy None"
  by (simp_all add: truthy_def)

lemma default_to_simps [simp]: "default_to (Some x) d = x" "default_to None d = d"
  by (simp_all add: default_to_def)

section \<open>First match\<close>

fun first_match :: "('a \<Rightarrow> bool) \<Rightarrow> 'a list \<Rightarrow> 'a option" where
  "first_match p [] = None"
| "first_match p (x # xs) = (if p x then Some x else first_match p xs)"

lemma first_match_Some: "first_match p xs = Some x \<Longrightarrow> x \<in> set xs \<and> p x"
  by (induction xs) (auto split: if_splits)

lemma first_match_None [simp]: "first_match p xs = None \<longleftrightarrow> (\<forall>x\<in>set xs. \<not> p x)"
  by (induction xs) auto

lemma first_match_append:
  "first_match p (xs @ ys) = (case first_match p xs of None \<Rightarrow> first_match p ys | Some x \<Rightarrow> Some x)"
  by (induction xs) auto

lemma first_match_snoc: "\<lbrakk>\<forall>x\<in>set xs. \<not> p x; p y\<rbrakk> \<Longrightarrow> first_match p (xs @ [y]) = Some y"
  by (induction xs) auto

lemma first_match_cong:
  "(\<And>x. x \<in> set xs \<Longrightarrow> p x = q x) \<Longrightarrow> first_match p xs = first_match q xs"
  by (induction xs) auto

section \<open>Dictionaries in insertion order\<close>

type_synonym ('k, 'v) dict = "('k \<times> 'v) list"

abbreviation dget :: "('k, 'v) dict \<Rightarrow> 'k \<Rightarrow> 'v option" where
  "dget d k \<equiv> map_of d k"

abbreviation dset :: "'k \<Rightarrow> 'v \<Rightarrow> ('k, 'v) dict \<Rightarrow> ('k, 'v) dict" where
  "dset k v d \<equiv> AList.update k v d"

definition dpop :: "'k \<Rightarrow> ('k, 'v) dict \<Rightarrow> ('k, 'v) dict" where
  "dpop k d = filter (\<lambda>p. fst p \<noteq> k) d"

definition dvalues :: "('k, 'v) dict \<Rightarrow> 'v list" where
  "dvalues d = map snd d"

definition dkeys :: "('k, 'v) dict \<Rightarrow> 'k list" where
  "dkeys d = map fst d"

definition dict_wf :: "('k, 'v) dict \<Rightarrow> bool" where
  "dict_wf d = distinct (map fst d)"

lemma dget_dset [dict_simps]: "dget (dset k v d) k' = (if k = k' then Some v else dget d k')"
  by (simp add: update_conv)

lemma dget_dpop [dict_simps]: "dget (dpop k d) k' = (if k = k' then None else dget d k')"
  by (induction d) (auto simp: dpop_def)

lemma dict_wf_Nil [dict_simps]: "dict_wf []"
  by (simp add: dict_wf_def)

lemma dict_wf_dset [dict_simps]: "dict_wf d \<Longrightarrow> dict_wf (dset k v d)"
  by (simp add: dict_wf_def distinct_update)

lemma dict_wf_dpop [dict_simps]: "dict_wf d \<Longrightarrow> dict_wf (dpop k d)"
  by (induction d) (auto simp: dict_wf_def dpop_def)

lemma dvalues_dget: "dict_wf d \<Longrightarrow> v \<in> set (dvalues d) \<longleftrightarrow> (\<exists>k. dget d k = Some v)"
  by (force simp: dvalues_def dict_wf_def map_of_eq_Some_iff)

lemma dvalues_dset_subset: "set (dvalues (dset k v d)) \<subseteq> insert v (set (dvalues d))"
  by (induction d) (auto simp: dvalues_def)

lemma dset_new: "dget d k = None \<Longrightarrow> dset k v d = d @ [(k, v)]"
  by (induction d) (auto split: if_splits)

section \<open>Removing duplicates, keeping the first\<close>

fun dedup_by :: "('a \<Rightarrow> 'k) \<Rightarrow> 'k list \<Rightarrow> 'a list \<Rightarrow> 'a list" where
  "dedup_by f seen [] = []"
| "dedup_by f seen (x # xs) =
     (if f x \<in> set seen then dedup_by f seen xs else x # dedup_by f (f x # seen) xs)"

lemma dedup_by_subset: "set (dedup_by f seen xs) \<subseteq> set xs"
  by (induction f seen xs rule: dedup_by.induct) auto

lemma dedup_by_keys: "f ` set (dedup_by f seen xs) = f ` set xs - set seen"
  by (induction f seen xs rule: dedup_by.induct) auto

lemma dedup_by_distinct: "distinct (map f (dedup_by f seen xs))"
  by (induction f seen xs rule: dedup_by.induct) (auto simp: dedup_by_keys image_set[symmetric] simp del: image_set)

lemma dedup_by_sorted:
  "sorted (map k xs) \<Longrightarrow> sorted (map k (dedup_by f seen xs))"
  by (induction f seen xs rule: dedup_by.induct) (use dedup_by_subset in fastforce)+

text \<open>On a sorted list the element kept for an identity has the least key of that identity.\<close>

lemma dedup_by_least:
  "sorted (map k xs) \<Longrightarrow> y \<in> set (dedup_by f seen xs) \<Longrightarrow> x \<in> set xs \<Longrightarrow> f x = f y \<Longrightarrow> k y \<le> k x"
proof (induction f seen xs rule: dedup_by.induct)
  case (1 f seen)
  then show ?case by simp
next
  case (2 f seen z zs)
  show ?case
  proof (cases "f z \<in> set seen")
    case True
    have "f y \<notin> set seen"
      using "2.prems"(2) dedup_by_keys[of f seen "z # zs"] by (metis DiffD2 imageI)
    then show ?thesis using 2 True by auto
  next
    case False
    have "y = z \<or> y \<in> set (dedup_by f (f z # seen) zs)" using "2.prems"(2) False by auto
    moreover have "f y \<noteq> f z" if "y \<in> set (dedup_by f (f z # seen) zs)"
      using that dedup_by_keys[of f "f z # seen" zs] by (metis DiffD2 imageI list.set_intros(1))
    ultimately show ?thesis using 2 False by auto
  qed
qed

definition unique :: "'a list \<Rightarrow> 'a list" where
  \<comment> \<open>\<open>tuple(dict.fromkeys(xs))\<close>\<close>
  "unique xs = dedup_by (\<lambda>x. x) [] xs"

lemma set_unique [simp]: "set (unique xs) = set xs"
  using dedup_by_keys[of "\<lambda>x. x" "[]" xs] by (simp add: unique_def)

lemma distinct_unique [simp]: "distinct (unique xs)"
  using dedup_by_distinct[of "\<lambda>x. x" "[]" xs] by (simp add: unique_def)

definition sorted_set :: "'a::linorder list \<Rightarrow> 'a list" where
  \<comment> \<open>\<open>sorted(set(xs))\<close>\<close>
  "sorted_set xs = sort (remdups xs)"

lemma sorted_set_simps [simp]:
  "set (sorted_set xs) = set xs" "distinct (sorted_set xs)" "sorted (sorted_set xs)"
  by (simp_all add: sorted_set_def)

section \<open>Sums over lists\<close>

lemma sum_list_nonneg_map: "(\<And>x. x \<in> set xs \<Longrightarrow> 0 \<le> f x) \<Longrightarrow> 0 \<le> (\<Sum>x\<leftarrow>xs. f x :: 'a::linordered_idom)"
  by (induction xs) auto

lemma sum_list_le_map:
  "(\<And>x. x \<in> set xs \<Longrightarrow> f x \<le> g x) \<Longrightarrow> (\<Sum>x\<leftarrow>xs. f x) \<le> (\<Sum>x\<leftarrow>xs. g x :: 'a::linordered_idom)"
  by (induction xs) (auto intro: add_mono)

end
