(* ===== verification/Pystd.thy ===== *)
theory Pystd
  imports Prelude
begin

text \<open>
  The part of the Python standard library the modelled code uses: \<^verbatim>\<open>Decimal\<close>
  (exact rationals, with the two roundings the code asks for written out), calendar dates and
  date-times with an optional UTC offset, strings (case, whitespace, decimal digits), and the
  JSON values that are serialised before hashing.
\<close>

section \<open>Decimal\<close>

type_synonym decimal = rat

text \<open>\<^verbatim>\<open>value.quantize(Decimal(".01"), rounding=ROUND_HALF_UP)\<close>: ties away from zero.\<close>

definition round_half_up :: "rat \<Rightarrow> int" where
  "round_half_up x = (if 0 \<le> x then \<lfloor>x + 1/2\<rfloor> else - \<lfloor>- x + 1/2\<rfloor>)"

definition quantize2 :: "decimal \<Rightarrow> decimal" where
  "quantize2 x = rat_of_int (round_half_up (x * 100)) / 100"

lemma round_half_up_mono: "x \<le> y \<Longrightarrow> round_half_up x \<le> round_half_up y"
proof -
  assume "x \<le> y"
  consider "0 \<le> x" | "x < 0" "0 \<le> y" | "y < 0" using \<open>x \<le> y\<close> by linarith
  then show ?thesis
  proof cases
    case 1
    then show ?thesis using \<open>x \<le> y\<close> by (simp add: round_half_up_def floor_mono)
  next
    case 2
    have "0 \<le> \<lfloor>- x + 1/2\<rfloor>" "0 \<le> \<lfloor>y + 1/2\<rfloor>" using 2 by (simp_all add: zero_le_floor)
    then have "- \<lfloor>- x + 1/2\<rfloor> \<le> \<lfloor>y + 1/2\<rfloor>" by linarith
    with 2 show ?thesis by (simp only: round_half_up_def if_True if_False not_le[symmetric, of x 0])
  next
    case 3
    then show ?thesis using \<open>x \<le> y\<close> by (simp add: round_half_up_def floor_mono)
  qed
qed

lemma round_half_up_int [simp]: "round_half_up (of_int n) = n"
proof -
  have half: "\<lfloor>of_int m + (1/2::rat)\<rfloor> = m" for m :: int
    by (rule floor_unique) simp_all
  show ?thesis using half[of n] half[of "- n"] by (simp add: round_half_up_def)
qed

lemma round_half_up_error: "\<bar>of_int (round_half_up x) - x\<bar> \<le> 1/2"
proof (cases "0 \<le> x")
  case True
  have "of_int \<lfloor>x + 1/2\<rfloor> \<le> x + 1/2" "x + 1/2 < of_int \<lfloor>x + 1/2\<rfloor> + 1"
    using floor_correct[of "x + 1/2"] by simp_all
  with True show ?thesis unfolding round_half_up_def by (simp only: if_True)
next
  case False
  have "of_int \<lfloor>- x + 1/2\<rfloor> \<le> - x + 1/2" "- x + 1/2 < of_int \<lfloor>- x + 1/2\<rfloor> + 1"
    using floor_correct[of "- x + 1/2"] by simp_all
  with False show ?thesis unfolding round_half_up_def by (simp only: if_False of_int_minus)
qed

lemma quantize2_mono: "x \<le> y \<Longrightarrow> quantize2 x \<le> quantize2 y"
  by (simp add: quantize2_def divide_right_mono round_half_up_mono)

lemma quantize2_grid: "quantize2 (of_int n / 100) = of_int n / 100"
  by (simp add: quantize2_def)

lemma quantize2_idem [simp]: "quantize2 (quantize2 x) = quantize2 x"
  by (simp add: quantize2_def)

lemma quantize2_0 [simp]: "quantize2 0 = 0" and quantize2_100 [simp]: "quantize2 100 = 100"
  using quantize2_grid[of 0] quantize2_grid[of 10000] by simp_all

lemma quantize2_error: "\<bar>quantize2 x - x\<bar> \<le> 1/200"
proof -
  have "\<bar>of_int (round_half_up (x * 100)) - x * 100\<bar> \<le> 1/2" by (rule round_half_up_error)
  then show ?thesis by (simp add: quantize2_def abs_le_iff field_simps)
qed

text \<open>
  A rounding interface: monotone, and the identity on the values of its grid. What the scoring
  code relies on follows: a rounded value stays within any bounds that lie on the grid.
\<close>

locale rounding =
  fixes rnd :: "rat \<Rightarrow> rat"
    and on_grid :: "rat \<Rightarrow> bool"
  assumes rnd_mono: "x \<le> y \<Longrightarrow> rnd x \<le> rnd y"
    and rnd_fix: "on_grid g \<Longrightarrow> rnd g = g"
begin

lemma rnd_upper: "on_grid g \<Longrightarrow> x \<le> g \<Longrightarrow> rnd x \<le> g"
  using rnd_mono[of x g] by (simp add: rnd_fix)

lemma rnd_lower: "on_grid g \<Longrightarrow> g \<le> x \<Longrightarrow> g \<le> rnd x"
  using rnd_mono[of g x] by (simp add: rnd_fix)

lemma rnd_between: "on_grid a \<Longrightarrow> on_grid b \<Longrightarrow> a \<le> x \<Longrightarrow> x \<le> b \<Longrightarrow> a \<le> rnd x \<and> rnd x \<le> b"
  by (simp add: rnd_upper rnd_lower)

text \<open>A threshold on the grid can only be reached, never lost, by rounding.\<close>

lemma rnd_threshold: "on_grid t \<Longrightarrow> rnd x < t \<Longrightarrow> x < t"
  using rnd_lower[of t x] by linarith

end

definition cents_grid :: "rat \<Rightarrow> bool" where
  "cents_grid x = (\<exists>n::int. x = of_int n / 100)"

interpretation cents: rounding quantize2 cents_grid
  by (unfold_locales, rule quantize2_mono, assumption) (metis cents_grid_def quantize2_grid)

lemma cents_grid_int [simp]: "cents_grid (of_int n)"
  by (auto simp: cents_grid_def intro!: exI[of _ "n * 100"])

lemma cents_grid_numerals [simp]: "cents_grid 0" "cents_grid 1" "cents_grid (numeral k)"
  using cents_grid_int[of 0] cents_grid_int[of 1] cents_grid_int[of "numeral k"] by simp_all

text \<open>
  Division in the default context keeps 28 significant digits, ties to even
  (\<^verbatim>\<open>Decimal.__truediv__\<close>). Sums and products of the short decimals used here are
  exact, so only division rounds.
\<close>

fun digit_count :: "nat \<Rightarrow> nat" where
  "digit_count n = (if n < 10 then 1 else Suc (digit_count (n div 10)))"

declare digit_count.simps [simp del]

definition adjusted_exp :: "rat \<Rightarrow> int" where
  \<comment> \<open>exponent of the leading digit of a positive value\<close>
  "adjusted_exp a =
     (case quotient_of a of (p, q) \<Rightarrow>
        let d = int (digit_count (nat p)) - int (digit_count (nat q))
        in if 10 powi d \<le> a then d else d - 1)"

definition round_half_even :: "rat \<Rightarrow> int" where
  "round_half_even y =
     (let f = \<lfloor>y\<rfloor>; r = y - of_int f
      in if r < 1/2 then f else if 1/2 < r then f + 1 else if even f then f else f + 1)"

definition dec28_pos :: "rat \<Rightarrow> rat" where
  "dec28_pos a =
     (let u = 10 powi (adjusted_exp a - 27) in of_int (round_half_even (a / u)) * u)"

definition dec28 :: "rat \<Rightarrow> decimal" where
  "dec28 x = (if x = 0 then 0 else if x < 0 then - dec28_pos (- x) else dec28_pos x)"

definition ddiv :: "decimal \<Rightarrow> decimal \<Rightarrow> decimal" where
  "ddiv a b = dec28 (a / b)"

lemma digit_count_bounds: "0 < n \<Longrightarrow> 10 ^ (digit_count n - 1) \<le> n \<and> n < 10 ^ digit_count n"
proof (induction n rule: digit_count.induct)
  case (1 n)
  show ?case
  proof (cases "n < 10")
    case True
    then show ?thesis using "1.prems" by (simp add: digit_count.simps)
  next
    case False
    let ?d = "digit_count (n div 10)"
    from False "1.IH" have IH: "10 ^ (?d - 1) \<le> n div 10" "n div 10 < 10 ^ ?d" by auto
    have "0 < ?d" by (subst digit_count.simps) simp
    then have "10 * 10 ^ (?d - 1) = (10::nat) ^ ?d" by (metis power_eq_if neq0_conv)
    moreover have "10 * 10 ^ (?d - 1) \<le> n" "n < 10 * 10 ^ ?d" using IH by linarith+
    ultimately show ?thesis using False by (simp add: digit_count.simps[of n])
  qed
qed

lemma digit_count_pos [simp]: "0 < digit_count n"
  by (subst digit_count.simps) simp

lemma digit_count_rat:
  assumes "0 < p"
  shows "10 powi (int (digit_count (nat p)) - 1) \<le> (of_int p :: rat) \<and>
    (of_int p :: rat) < 10 powi int (digit_count (nat p))"
proof -
  let ?d = "digit_count (nat p)"
  have e: "int ?d - 1 = int (?d - 1)" using digit_count_pos[of "nat p"] by linarith
  have b: "10 ^ (?d - 1) \<le> nat p" "nat p < 10 ^ ?d" using digit_count_bounds[of "nat p"] assms by auto
  have "of_nat (10 ^ (?d - 1)) \<le> (of_nat (nat p) :: rat)" using b(1) by (rule of_nat_mono)
  moreover have "(of_nat (nat p) :: rat) < of_nat (10 ^ ?d)" using b(2) by (simp only: of_nat_less_iff)
  ultimately show ?thesis using assms by (simp add: e power_int_of_nat del: of_nat_diff)
qed

lemma round_half_even_mono: "x \<le> y \<Longrightarrow> round_half_even x \<le> round_half_even y"
proof -
  assume "x \<le> y"
  then have le: "\<lfloor>x\<rfloor> \<le> \<lfloor>y\<rfloor>" by (rule floor_mono)
  show ?thesis
  proof (cases "\<lfloor>x\<rfloor> = \<lfloor>y\<rfloor>")
    case True
    then show ?thesis using \<open>x \<le> y\<close> by (auto simp: round_half_even_def Let_def)
  next
    case False
    then have "\<lfloor>x\<rfloor> + 1 \<le> \<lfloor>y\<rfloor>" using le by linarith
    then show ?thesis by (auto simp: round_half_even_def Let_def)
  qed
qed

lemma round_half_even_int [simp]: "round_half_even (of_int n) = n"
  by (simp add: round_half_even_def)

text \<open>The exponent found by counting digits is the true one.\<close>

lemma adjusted_exp_bounds:
  assumes "0 < a"
  shows "10 powi adjusted_exp a \<le> a \<and> a < 10 powi (adjusted_exp a + 1)"
proof -
  obtain p q where pq: "quotient_of a = (p, q)" by fastforce
  then have q: "0 < q" by (rule quotient_of_denom_pos)
  have a: "a = of_int p / of_int q" using pq by (rule quotient_of_div)
  have p: "0 < p" using assms q by (simp add: a zero_less_divide_iff)
  define i j where "i = digit_count (nat p)" and "j = digit_count (nat q)"
  have P: "10 powi (int i - 1) \<le> (of_int p :: rat)" "(of_int p :: rat) < 10 powi int i"
    and Q: "10 powi (int j - 1) \<le> (of_int q :: rat)" "(of_int q :: rat) < 10 powi int j"
    using digit_count_rat[OF p] digit_count_rat[OF q] by (simp_all add: i_def j_def)
  have q': "(0::rat) < of_int q" using q by simp
  have upper: "a < 10 powi (int i - int j + 1)"
  proof -
    have "a * of_int q < 10 powi int i" using P q' by (simp add: a)
    also have "(10::rat) powi int i = 10 powi (int i - int j + 1) * 10 powi (int j - 1)"
      by (simp add: power_int_add[symmetric])
    also have "\<dots> \<le> 10 powi (int i - int j + 1) * of_int q" using Q by (simp add: mult_left_mono)
    finally show ?thesis using q' by simp
  qed
  have lower: "10 powi (int i - int j - 1) \<le> a"
  proof -
    have "10 powi (int i - int j - 1) * of_int q \<le> 10 powi (int i - int j - 1) * (10 powi int j :: rat)"
      using Q by (simp add: mult_left_mono)
    also have "\<dots> = 10 powi (int i - 1)"
      using power_int_add[of "10::rat" "int i - int j - 1" "int j"] by simp
    also have "\<dots> \<le> a * of_int q" using P q' by (simp add: a)
    finally show ?thesis using q' by simp
  qed
  show ?thesis using upper lower by (auto simp: adjusted_exp_def pq i_def[symmetric] j_def[symmetric] Let_def)
qed

lemma adjusted_exp_mono: "0 < a \<Longrightarrow> a \<le> b \<Longrightarrow> adjusted_exp a \<le> adjusted_exp b"
proof (rule ccontr)
  assume "0 < a" "a \<le> b" "\<not> adjusted_exp a \<le> adjusted_exp b"
  then have "(10::rat) powi (adjusted_exp b + 1) \<le> 10 powi adjusted_exp a"
    by (intro power_int_increasing) auto
  moreover have "b < 10 powi (adjusted_exp b + 1)" "10 powi adjusted_exp a \<le> a"
    using adjusted_exp_bounds[of a] adjusted_exp_bounds[of b] \<open>0 < a\<close> \<open>a \<le> b\<close> by auto
  ultimately show False using \<open>a \<le> b\<close> by linarith
qed

text \<open>A rounded positive value stays between the powers of ten around it.\<close>

lemma dec28_pos_range:
  assumes "0 < a"
  shows "10 powi adjusted_exp a \<le> dec28_pos a \<and> dec28_pos a \<le> 10 powi (adjusted_exp a + 1)"
proof -
  define u where "u = (10::rat) powi (adjusted_exp a - 27)"
  have u: "0 < u" by (simp add: u_def)
  have low: "10 powi adjusted_exp a = of_int (10 ^ 27) * u"
    and high: "10 powi (adjusted_exp a + 1) = of_int (10 ^ 28) * u"
    by (simp_all add: u_def power_int_diff power_int_add)
  have "of_int (10 ^ 27) \<le> a / u" "a / u \<le> of_int (10 ^ 28)"
    using adjusted_exp_bounds[OF assms] u unfolding low high by (simp_all add: field_simps)
  then have "round_half_even (of_int (10 ^ 27)) \<le> round_half_even (a / u)"
    "round_half_even (a / u) \<le> round_half_even (of_int (10 ^ 28))"
    by (simp_all only: round_half_even_mono)
  then have "10 ^ 27 \<le> round_half_even (a / u)" "round_half_even (a / u) \<le> 10 ^ 28"
    by (simp_all only: round_half_even_int)
  then have "of_int (10 ^ 27) \<le> (of_int (round_half_even (a / u)) :: rat)"
    "(of_int (round_half_even (a / u)) :: rat) \<le> of_int (10 ^ 28)"
    by (simp_all only: of_int_le_iff)
  then show ?thesis using u unfolding low high dec28_pos_def Let_def u_def[symmetric]
    by (simp add: mult_right_mono)
qed

lemma dec28_pos_mono: "0 < a \<Longrightarrow> a \<le> b \<Longrightarrow> dec28_pos a \<le> dec28_pos b"
proof -
  assume "0 < a" "a \<le> b"
  then have "adjusted_exp a \<le> adjusted_exp b" by (rule adjusted_exp_mono)
  then consider "adjusted_exp a = adjusted_exp b" | "adjusted_exp a + 1 \<le> adjusted_exp b" by linarith
  then show ?thesis
  proof cases
    case 1
    then show ?thesis using \<open>a \<le> b\<close>
      by (simp add: dec28_pos_def Let_def mult_right_mono round_half_even_mono divide_right_mono)
  next
    case 2
    then have "(10::rat) powi (adjusted_exp a + 1) \<le> 10 powi adjusted_exp b"
      by (intro power_int_increasing) auto
    then show ?thesis using dec28_pos_range[of a] dec28_pos_range[of b] \<open>0 < a\<close> \<open>a \<le> b\<close> by linarith
  qed
qed

lemma dec28_pos_pos: "0 < a \<Longrightarrow> 0 < dec28_pos a"
  using dec28_pos_range[of a] zero_less_power_int[of "10::rat" "adjusted_exp a"] by linarith

lemma dec28_mono: "x \<le> y \<Longrightarrow> dec28 x \<le> dec28 y"
proof -
  assume "x \<le> y"
  consider "0 < x" | "x \<le> 0" "0 \<le> y" | "y < 0" using \<open>x \<le> y\<close> by linarith
  then show ?thesis
  proof cases
    case 1
    then show ?thesis using \<open>x \<le> y\<close> by (simp add: dec28_def dec28_pos_mono)
  next
    case 2
    have "dec28 x \<le> 0" using 2 dec28_pos_pos[of "- x"] by (auto simp: dec28_def)
    moreover have "0 \<le> dec28 y" using 2 dec28_pos_pos[of y] by (auto simp: dec28_def)
    ultimately show ?thesis by linarith
  next
    case 3
    then show ?thesis using \<open>x \<le> y\<close> dec28_pos_mono[of "- y" "- x"] by (simp add: dec28_def)
  qed
qed

lemma dec28_0 [simp]: "dec28 0 = 0"
  by (simp add: dec28_def)

text \<open>Values with at most 28 significant digits are left alone.\<close>

definition short_decimal :: "rat \<Rightarrow> bool" where
  "short_decimal x = (x = 0 \<or> (\<exists>n::int. \<bar>x\<bar> = of_int n * 10 powi (adjusted_exp \<bar>x\<bar> - 27)))"

lemma dec28_fix: "short_decimal x \<Longrightarrow> dec28 x = x"
proof (cases "x = 0")
  case False
  assume "short_decimal x"
  then obtain n :: int where n: "\<bar>x\<bar> = of_int n * 10 powi (adjusted_exp \<bar>x\<bar> - 27)"
    using False by (auto simp: short_decimal_def)
  define u where "u = (10::rat) powi (adjusted_exp \<bar>x\<bar> - 27)"
  have "u \<noteq> 0" by (simp add: u_def)
  then have "\<bar>x\<bar> / u = of_int n" using n by (simp add: u_def[symmetric])
  then have "dec28_pos \<bar>x\<bar> = of_int n * u" by (simp add: dec28_pos_def Let_def u_def[symmetric])
  then have "dec28_pos \<bar>x\<bar> = \<bar>x\<bar>" using n by (simp add: u_def[symmetric])
  then show ?thesis using False by (cases "x < 0") (simp_all add: dec28_def)
qed simp

interpretation ctx28: rounding dec28 short_decimal
  by unfold_locales (auto simp: dec28_mono dec28_fix)

end
