(* ===== verification/Dates.thy ===== *)
theory Dates
  imports Pystd
begin

text \<open>
  \<^verbatim>\<open>datetime.date\<close> and \<^verbatim>\<open>datetime.datetime\<close>. A date is its year,
  month and day, ordered lexicographically as ISO text is; \<open>toordinal\<close> is the proleptic
  Gregorian day number of the library, and the two orders agree on valid dates. A date-time is a
  local time in microseconds with an optional UTC offset; it is aware when the offset is there.
\<close>

datatype date = Date (d_year: int) (d_month: int) (d_day: int)

instantiation date :: linorder
begin

definition less_date :: "date \<Rightarrow> date \<Rightarrow> bool" where
  "less_date a b = (d_year a < d_year b \<or> d_year a = d_year b \<and>
     (d_month a < d_month b \<or> d_month a = d_month b \<and> d_day a < d_day b))"

definition less_eq_date :: "date \<Rightarrow> date \<Rightarrow> bool" where
  "less_eq_date a (b::date) = (a = b \<or> a < b)"

instance
proof
  fix a b c :: date
  show "(a < b) = (a \<le> b \<and> \<not> b \<le> a)" by (auto simp: less_date_def less_eq_date_def)
  show "a \<le> a" by (simp add: less_eq_date_def)
  show "a \<le> b \<Longrightarrow> b \<le> c \<Longrightarrow> a \<le> c" by (auto simp: less_date_def less_eq_date_def)
  show "a \<le> b \<Longrightarrow> b \<le> a \<Longrightarrow> a = b" by (auto simp: less_date_def less_eq_date_def)
  show "a \<le> b \<or> b \<le> a" by (cases a; cases b) (auto simp: less_date_def less_eq_date_def)
qed

end

definition leap :: "int \<Rightarrow> bool" where
  "leap y = (y mod 4 = 0 \<and> (y mod 100 \<noteq> 0 \<or> y mod 400 = 0))"

definition days_in_month :: "int \<Rightarrow> int \<Rightarrow> int" where
  "days_in_month y m =
     (if m = 2 then (if leap y then 29 else 28)
      else if m = 4 \<or> m = 6 \<or> m = 9 \<or> m = 11 then 30 else 31)"

definition days_before_month :: "int \<Rightarrow> int \<Rightarrow> int" where
  "days_before_month y m = (\<Sum>k\<leftarrow>[1..m - 1]. days_in_month y k)"

definition days_before_year :: "int \<Rightarrow> int" where
  "days_before_year y = (let p = y - 1 in p * 365 + p div 4 - p div 100 + p div 400)"

definition toordinal :: "date \<Rightarrow> int" where
  "toordinal d = days_before_year (d_year d) + days_before_month (d_year d) (d_month d) + d_day d"

definition valid_date :: "date \<Rightarrow> bool" where
  "valid_date d = (1 \<le> d_year d \<and> d_year d \<le> 9999 \<and> 1 \<le> d_month d \<and> d_month d \<le> 12 \<and>
     1 \<le> d_day d \<and> d_day d \<le> days_in_month (d_year d) (d_month d))"

definition days_between :: "date \<Rightarrow> date \<Rightarrow> int" where
  \<comment> \<open>\<open>(later - earlier).days\<close>\<close>
  "days_between later earlier = toordinal later - toordinal earlier"

lemma days_in_month_pos: "0 < days_in_month y m"
  by (simp add: days_in_month_def)

lemma days_before_month_Suc:
  "1 \<le> m \<Longrightarrow> days_before_month y (m + 1) = days_before_month y m + days_in_month y m"
proof -
  assume "1 \<le> m"
  then have "[1..m] = [1..m - 1] @ [m]" by (rule upto_rec2)
  then show ?thesis by (simp add: days_before_month_def)
qed

lemma days_before_month_less:
  assumes "1 \<le> m" "m < n"
  shows "days_before_month y m + days_in_month y m \<le> days_before_month y n"
  using \<open>m < n\<close>
proof (induction n rule: int_gr_induct)
  case base
  show ?case using days_before_month_Suc[OF \<open>1 \<le> m\<close>] by simp
next
  case (step i)
  have "days_before_month y (i + 1) = days_before_month y i + days_in_month y i"
    by (rule days_before_month_Suc) (use \<open>1 \<le> m\<close> step in simp)
  then show ?case using step days_in_month_pos[of y i] by linarith
qed

lemma days_before_month_13: "days_before_month y 13 = (if leap y then 366 else 365)"
proof -
  have "[1..12] = [1, 2, 3, 4, 5, 6, 7, 8, 9, 10, 11, 12::int]" by (simp add: upto_rec1)
  then show ?thesis by (simp add: days_before_month_def days_in_month_def)
qed

lemma days_before_year_Suc: "days_before_year (y + 1) = days_before_year y + (if leap y then 366 else 365)"
proof -
  have m: "y div k = (y - 1) div k + (if y mod k = 0 then 1 else 0)" if "0 < k" for k :: int
  proof (cases "y mod k = 0")
    case True
    then obtain q where "y = k * q" by auto
    moreover have "(k * q - 1) div k = q - 1"
      using that by (intro int_div_pos_eq[where r = "k - 1"]) (simp_all add: algebra_simps)
    ultimately show ?thesis using that by simp
  next
    case False
    then have "0 < y mod k" using that by (simp add: less_le)
    have "y - 1 = k * (y div k) + (y mod k - 1)" by (simp add: mult_div_mod_eq)
    moreover have "y mod k < k" using that by simp
    ultimately have "(y - 1) div k = y div k"
      using \<open>0 < y mod k\<close> by (intro int_div_pos_eq[where r = "y mod k - 1"]) auto
    with False show ?thesis by simp
  qed
  have sub: "y mod 100 = 0 \<Longrightarrow> y mod 4 = 0" "y mod 400 = 0 \<Longrightarrow> y mod 100 = 0"
    by presburger+
  have "days_before_year (y + 1) = y * 365 + y div 4 - y div 100 + y div 400"
    by (simp add: days_before_year_def)
  also have "\<dots> = days_before_year y + 365 + (if y mod 4 = 0 then 1 else 0)
      - (if y mod 100 = 0 then 1 else 0) + (if y mod 400 = 0 then 1 else 0)"
    unfolding days_before_year_def Let_def m[of 4, simplified] m[of 100, simplified] m[of 400, simplified]
    by (simp add: algebra_simps)
  also have "\<dots> = days_before_year y + (if leap y then 366 else 365)"
    using sub by (cases "y mod 4 = 0"; cases "y mod 100 = 0"; cases "y mod 400 = 0") (simp_all add: leap_def)
  finally show ?thesis .
qed

lemma days_before_year_less:
  assumes "x < y"
  shows "days_before_year x + (if leap x then 366 else 365) \<le> days_before_year y"
  using assms
proof (induction y rule: int_gr_induct)
  case base
  show ?case by (simp add: days_before_year_Suc)
next
  case (step i)
  then show ?case by (simp add: days_before_year_Suc split: if_splits)
qed

lemma toordinal_less:
  assumes "valid_date a" "valid_date b" "a < b"
  shows "toordinal a < toordinal b"
proof -
  have in_year: "days_before_month (d_year c) (d_month c) + d_day c \<le> days_before_month (d_year c) 13"
    if "valid_date c" for c
    using that days_before_month_less[of "d_month c" 13 "d_year c"] by (simp add: valid_date_def)
  have first: "0 \<le> days_before_month (d_year c) (d_month c)" if "valid_date c" for c
    unfolding days_before_month_def
    by (rule sum_list_nonneg_map) (simp add: less_imp_le[OF days_in_month_pos])
  consider (year) "d_year a < d_year b"
    | (month) "d_year a = d_year b" "d_month a < d_month b"
    | (day) "d_year a = d_year b" "d_month a = d_month b" "d_day a < d_day b"
    using \<open>a < b\<close> by (auto simp: less_date_def)
  then show ?thesis
  proof cases
    case year
    then show ?thesis
      using days_before_year_less[OF year] in_year[OF assms(1)] first[OF assms(2)] assms
      by (simp add: toordinal_def days_before_month_13 valid_date_def)
  next
    case month
    then show ?thesis using days_before_month_less[of "d_month a" "d_month b" "d_year a"] assms
      by (simp add: toordinal_def valid_date_def)
  next
    case day
    then show ?thesis by (simp add: toordinal_def)
  qed
qed

lemma toordinal_less_iff: "valid_date a \<Longrightarrow> valid_date b \<Longrightarrow> toordinal a < toordinal b \<longleftrightarrow> a < b"
  using toordinal_less[of a b] toordinal_less[of b a] by (cases a b rule: linorder_cases) auto

lemma toordinal_le_iff: "valid_date a \<Longrightarrow> valid_date b \<Longrightarrow> toordinal a \<le> toordinal b \<longleftrightarrow> a \<le> b"
  using toordinal_less_iff[of b a] by (metis linorder_not_less)

section \<open>Date-times\<close>

record datetime =
  dt_local :: int            \<comment> \<open>microseconds of local wall-clock time since day 1\<close>
  dt_offset :: "int option"  \<comment> \<open>UTC offset in microseconds; \<open>None\<close> is a naive value\<close>

definition day_micros :: int where
  "day_micros = 86400000000"

definition aware :: "datetime \<Rightarrow> bool" where
  "aware t = (dt_offset t \<noteq> None)"

definition instant :: "datetime \<Rightarrow> int" where
  "instant t = dt_local t - default_to (dt_offset t) 0"

definition at_midnight_utc :: "date \<Rightarrow> datetime" where
  \<comment> \<open>\<open>datetime.combine(d, time.min, UTC)\<close>\<close>
  "at_midnight_utc d = \<lparr>dt_local = (toordinal d - 1) * day_micros, dt_offset = Some 0\<rparr>"

definition to_utc :: "datetime \<Rightarrow> datetime" where
  \<comment> \<open>\<open>replace(tzinfo=UTC)\<close> for a naive value, \<open>astimezone(UTC)\<close> for an aware one\<close>
  "to_utc t = (case dt_offset t of
       None \<Rightarrow> t\<lparr>dt_offset := Some 0\<rparr>
     | Some off \<Rightarrow> \<lparr>dt_local = dt_local t - off, dt_offset = Some 0\<rparr>)"

lemma instant_to_utc [simp]: "instant (to_utc t) = instant t"
  by (simp add: instant_def to_utc_def split: option.splits)

lemma aware_to_utc [simp]: "aware (to_utc t)"
  by (simp add: aware_def to_utc_def split: option.splits)

lemma instant_midnight: "instant (at_midnight_utc d) = (toordinal d - 1) * day_micros"
  by (simp add: instant_def at_midnight_utc_def)

text \<open>
  The arguments the code calls \<^verbatim>\<open>str | date | datetime\<close>: ISO text is represented by
  the value it denotes, and text that \<^verbatim>\<open>fromisoformat\<close> rejects by \<open>W_malformed\<close>.
\<close>

datatype moment = W_date date | W_datetime datetime | W_malformed

section \<open>ISO text\<close>

text \<open>\<open>fromordinal\<close> follows the library's \<^verbatim>\<open>_ord2ymd\<close>.\<close>

definition fromordinal :: "int \<Rightarrow> date" where
  "fromordinal ordinal =
     (let n = ordinal - 1;
          n400 = n div 146097; n = n mod 146097;
          n100 = n div 36524; n = n mod 36524;
          n4 = n div 1461; n = n mod 1461;
          n1 = n div 365; n = n mod 365;
          y = n400 * 400 + n100 * 100 + n4 * 4 + n1 + 1
      in if n1 = 4 \<or> n100 = 4 then Date (y - 1) 12 31
         else case first_match (\<lambda>m. n < days_before_month y (m + 1)) [1..12] of
                Some m \<Rightarrow> Date y m (n - days_before_month y m + 1)
              | None \<Rightarrow> Date y 12 31)"

definition date_of :: "datetime \<Rightarrow> date" where
  \<comment> \<open>\<open>value.date()\<close>: the local calendar day\<close>
  "date_of t = fromordinal (dt_local t div day_micros + 1)"

definition date_max :: date where
  "date_max = Date 9999 12 31"

fun digits_padded :: "nat \<Rightarrow> int \<Rightarrow> string" where
  \<comment> \<open>the last \<open>k\<close> decimal digits\<close>
  "digits_padded 0 n = []"
| "digits_padded (Suc k) n = digits_padded k (n div 10) @ [char_of (48 + nat (n mod 10))]"

definition iso_date :: "date \<Rightarrow> string" where
  "iso_date d = digits_padded 4 (d_year d) @ ''-'' @ digits_padded 2 (d_month d) @ ''-'' @ digits_padded 2 (d_day d)"

definition iso_datetime :: "datetime \<Rightarrow> string" where
  "iso_datetime t =
     (let us = dt_local t mod day_micros; secs = us div 1000000; frac = us mod 1000000
      in iso_date (date_of t) @ ''T'' @ digits_padded 2 (secs div 3600) @ '':'' @ digits_padded 2 (secs div 60 mod 60)
         @ '':'' @ digits_padded 2 (secs mod 60) @ (if frac = 0 then [] else ''.'' @ digits_padded 6 frac)
         @ (case dt_offset t of None \<Rightarrow> []
            | Some off \<Rightarrow>
                (let m = \<bar>off\<bar> div 60000000
                 in (if off < 0 then ''-'' else ''+'') @ digits_padded 2 (m div 60) @ '':'' @ digits_padded 2 (m mod 60))))"

end
