(* ===== verification/Text_Json.thy ===== *)
theory Text_Json
  imports Pystd "HOL-Library.Countable"
begin

text \<open>
  Strings as the code uses them (whitespace, case, joining, decimal text) on ASCII, and the JSON
  values that are serialised for fingerprints and audit metadata.
\<close>

definition is_space :: "char \<Rightarrow> bool" where
  "is_space c = (let n = of_char c :: nat in n = 32 \<or> 9 \<le> n \<and> n \<le> 13 \<or> 28 \<le> n \<and> n \<le> 31)"

definition lower_char :: "char \<Rightarrow> char" where
  "lower_char c = (let n = of_char c :: nat in if 65 \<le> n \<and> n \<le> 90 then char_of (n + 32) else c)"

definition upper_char :: "char \<Rightarrow> char" where
  "upper_char c = (let n = of_char c :: nat in if 97 \<le> n \<and> n \<le> 122 then char_of (n - 32) else c)"

definition lower :: "string \<Rightarrow> string" where
  \<comment> \<open>\<open>str.lower\<close> and \<open>str.casefold\<close>\<close>
  "lower s = map lower_char s"

definition upper :: "string \<Rightarrow> string" where
  "upper s = map upper_char s"

definition strip :: "string \<Rightarrow> string" where
  "strip s = rev (dropWhile is_space (rev (dropWhile is_space s)))"

fun split_ws_acc :: "string \<Rightarrow> string \<Rightarrow> string list" where
  "split_ws_acc cur [] = (if cur = [] then [] else [rev cur])"
| "split_ws_acc cur (c # cs) =
     (if is_space c then (if cur = [] then split_ws_acc [] cs else rev cur # split_ws_acc [] cs)
      else split_ws_acc (c # cur) cs)"

definition split_ws :: "string \<Rightarrow> string list" where
  \<comment> \<open>\<open>s.split()\<close>\<close>
  "split_ws s = split_ws_acc [] s"

fun join :: "string \<Rightarrow> string list \<Rightarrow> string" where
  "join sep [] = []"
| "join sep [x] = x"
| "join sep (x # y # zs) = x @ sep @ join sep (y # zs)"

definition blank :: "string \<Rightarrow> bool" where
  \<comment> \<open>\<open>not s.strip()\<close>\<close>
  "blank s = (strip s = [])"

definition starts_with :: "string \<Rightarrow> string \<Rightarrow> bool" where
  "starts_with p s = (take (length p) s = p)"

lemma all_dropWhile: "(\<forall>c\<in>set (dropWhile p s). p c) \<longleftrightarrow> (\<forall>c\<in>set s. p c)"
  by (induction s) auto

lemma blank_iff: "blank s \<longleftrightarrow> (\<forall>c\<in>set s. is_space c)"
  by (simp add: blank_def strip_def dropWhile_eq_Nil_conv all_dropWhile)

lemma split_ws_acc_no_space:
  assumes "\<forall>c\<in>set cur. \<not> is_space c" "w \<in> set (split_ws_acc cur s)"
  shows "w \<noteq> [] \<and> (\<forall>c\<in>set w. \<not> is_space c)"
  using assms
proof (induction s arbitrary: cur)
  case Nil
  then show ?case by (simp split: if_splits)
next
  case (Cons c cs)
  consider "is_space c" "cur = []" | "is_space c" "cur \<noteq> []" "w = rev cur"
    | "is_space c" "w \<in> set (split_ws_acc [] cs)" | "\<not> is_space c"
    using Cons.prems by (auto split: if_splits)
  then show ?case
  proof cases
    case 1
    then show ?thesis using Cons.IH[of "[]"] Cons.prems by simp
  next
    case 2
    then show ?thesis using Cons.prems by simp
  next
    case 3
    then show ?thesis using Cons.IH[of "[]"] by simp
  next
    case 4
    show ?thesis by (rule Cons.IH[of "c # cur"]) (use 4 Cons.prems in \<open>simp_all\<close>)
  qed
qed

lemma split_ws_words: "w \<in> set (split_ws s) \<Longrightarrow> w \<noteq> [] \<and> (\<forall>c\<in>set w. \<not> is_space c)"
  using split_ws_acc_no_space[of "[]" w s] by (simp add: split_ws_def)

lemma concat_split_ws_acc:
  "concat (split_ws_acc cur s) = rev cur @ filter (\<lambda>c. \<not> is_space c) s"
  by (induction cur s rule: split_ws_acc.induct) simp_all

lemma concat_split_ws: "concat (split_ws s) = filter (\<lambda>c. \<not> is_space c) s"
  by (simp add: split_ws_def concat_split_ws_acc)

text \<open>Decimal text of a natural number and an integer.\<close>

fun show_nat :: "nat \<Rightarrow> string" where
  "show_nat n = (if n < 10 then [char_of (48 + n)] else show_nat (n div 10) @ [char_of (48 + n mod 10)])"

declare show_nat.simps [simp del]

definition show_int :: "int \<Rightarrow> string" where
  "show_int i = (if i < 0 then ''-'' @ show_nat (nat (- i)) else show_nat (nat i))"

datatype json =
    J_null
  | J_bool bool
  | J_int int
  | J_num rat
  | J_str string
  | J_arr "json list"
  | J_obj "(string \<times> json) list"

instance json :: countable
  by countable_datatype

definition j_opt :: "('a \<Rightarrow> json) \<Rightarrow> 'a option \<Rightarrow> json" where
  "j_opt f x = (case x of None \<Rightarrow> J_null | Some v \<Rightarrow> f v)"

fun j_get :: "json \<Rightarrow> string \<Rightarrow> json option" where
  "j_get (J_obj kvs) k = map_of kvs k"
| "j_get _ k = None"

end
