(* ===== verification/Core.thy ===== *)
theory Core
  imports Dates Text_Json
begin

text \<open>
  \<^verbatim>\<open>btx_omni/core\<close> and \<^verbatim>\<open>btx_omni/domain/common.py\<close>: the data
  classification boundary, the model-context policy, provenance with its constructor checks, the
  business clock (\<^verbatim>\<open>core/clock.py\<close>), and the market taxonomy of
  \<^verbatim>\<open>domain/markets.py\<close>.
\<close>

datatype py_error = ValueError string | KeyError string | TypeError string | StopIteration

section \<open>Common vocabulary\<close>

datatype data_mode = SAMPLE | CONNECTED | IMPORTED

datatype evidence_class = CONFIRMED | INFERRED | MISSING | CONFLICTING

fun evidence_class_value :: "evidence_class \<Rightarrow> string" where
  "evidence_class_value CONFIRMED = ''CONFIRMED''"
| "evidence_class_value INFERRED = ''INFERRED''"
| "evidence_class_value MISSING = ''MISSING''"
| "evidence_class_value CONFLICTING = ''CONFLICTING''"

datatype match_state =
  EXACT_PART | STRUCTURED_SIMILARITY | SEMANTIC_SIMILARITY | NO_MATCH | INSUFFICIENT_DATA

definition require_aware :: "datetime \<Rightarrow> string \<Rightarrow> (py_error, unit) result" where
  "require_aware value field =
     (if dt_offset value = None then Inl (ValueError (field @ '' must be timezone-aware'')) else Inr ())"

lemma require_aware_Inr [res_simps]: "require_aware v f = Inr u \<longleftrightarrow> aware v"
  by (simp add: require_aware_def aware_def)

section \<open>Classification and model-context policy\<close>

datatype classification =
  PUBLIC | INTERNAL_COMMERCIAL | CONFIDENTIAL | CONTROLLED | CUI | ITAR | UNKNOWN_REQUIRES_REVIEW

datatype sensitivity_tag =
  CUSTOMER_CONFIDENTIAL | FINANCIAL | PII | DRAWING | CAD | RESTRICTED_TECHNICAL

datatype policy_decision = ALLOW | DENY | HUMAN_CONFIRMATION_REQUIRED

record model_context_decision =
  mcp_decision :: policy_decision
  mcp_reason :: string

definition model_context_policy :: "classification \<Rightarrow> sensitivity_tag set \<Rightarrow> model_context_decision" where
  "model_context_policy c tags =
     (if c \<notin> {PUBLIC, INTERNAL_COMMERCIAL}
      then \<lparr>mcp_decision = DENY, mcp_reason = ''classification is not eligible for model context''\<rparr>
      else if tags \<noteq> {}
      then \<lparr>mcp_decision = DENY, mcp_reason = ''sensitivity tags require exclusion from model context''\<rparr>
      else \<lparr>mcp_decision = ALLOW, mcp_reason = ''governed source context is eligible''\<rparr>)"

lemma model_context_allow_iff:
  "mcp_decision (model_context_policy c tags) = ALLOW \<longleftrightarrow> c \<in> {PUBLIC, INTERNAL_COMMERCIAL} \<and> tags = {}"
  by (simp add: model_context_policy_def)

section \<open>Provenance\<close>

record provenance =
  prov_source_system :: string
  prov_source_record_id :: string
  prov_source_url :: "string option"
  prov_observed_at :: datetime
  prov_recorded_at :: datetime
  prov_classification :: classification
  prov_evidence_state :: evidence_class
  prov_data_mode :: data_mode
  prov_synthetic :: bool
  prov_sensitivity_tags :: "sensitivity_tag set"
  prov_missing_fields :: "string list"

definition provenance_post_init :: "provenance \<Rightarrow> (py_error, provenance) result" where
  "provenance_post_init p =
     bind_r (require_aware (prov_observed_at p) ''observed_at'') (\<lambda>_.
     bind_r (require_aware (prov_recorded_at p) ''recorded_at'') (\<lambda>_.
     if prov_data_mode p \<in> {CONNECTED, IMPORTED} \<and> prov_synthetic p
     then Inl (ValueError ''connected and imported facts cannot be synthetic'')
     else Inr p))"

definition provenance_ok :: "provenance \<Rightarrow> bool" where
  "provenance_ok p = (aware (prov_observed_at p) \<and> aware (prov_recorded_at p) \<and>
     (prov_synthetic p \<longrightarrow> prov_data_mode p = SAMPLE))"

lemma provenance_post_init_Inr [res_simps]:
  "provenance_post_init p = Inr q \<longleftrightarrow> q = p \<and> provenance_ok p"
  by (cases "prov_data_mode p") (auto simp: provenance_post_init_def provenance_ok_def res_simps)

section \<open>The business clock\<close>

text \<open>\<open>demo\<close> is \<^verbatim>\<open>get_settings().demo_as_of_date\<close>, the value an absent argument stands for.\<close>

definition as_of_datetime :: "date \<Rightarrow> moment option \<Rightarrow> (py_error, datetime) result" where
  "as_of_datetime demo value =
     (case (case value of None \<Rightarrow> W_date demo | Some v \<Rightarrow> v) of
        W_malformed \<Rightarrow> Inl (ValueError ''Invalid isoformat string'')
      | W_datetime t \<Rightarrow> Inr (to_utc t)
      | W_date d \<Rightarrow> Inr (at_midnight_utc d))"

datatype evidence_clock = EV_CURRENT | EV_STALE | EV_UNKNOWN | EV_CONFLICTING

definition evidence_state :: "date \<Rightarrow> moment option \<Rightarrow> moment option \<Rightarrow> int \<Rightarrow> evidence_clock" where
  "evidence_state demo observed_at as_of window_days =
     (case observed_at of
        None \<Rightarrow> EV_UNKNOWN
      | Some obs \<Rightarrow>
          (case as_of_datetime demo as_of of
             Inl _ \<Rightarrow> EV_UNKNOWN
           | Inr now \<Rightarrow>
               (case as_of_datetime demo (Some obs) of
                  Inl _ \<Rightarrow> EV_UNKNOWN
                | Inr seen \<Rightarrow>
                    (let age = instant now - instant seen
                     in if age < 0 then EV_UNKNOWN
                        else if age \<le> window_days * day_micros then EV_CURRENT else EV_STALE))))"

lemma evidence_state_not_conflicting [simp]: "evidence_state demo obs now w \<noteq> EV_CONFLICTING"
  by (simp add: evidence_state_def Let_def split: option.splits sum.splits)

lemma evidence_state_dates:
  "evidence_state demo (Some (W_date d)) (Some (W_date now)) w =
     (let age = days_between now d in if age < 0 then EV_UNKNOWN else if age \<le> w then EV_CURRENT else EV_STALE)"
proof -
  have "instant (at_midnight_utc now) - instant (at_midnight_utc d) = days_between now d * day_micros"
    by (simp add: instant_midnight days_between_def algebra_simps)
  then show ?thesis
    by (simp add: evidence_state_def as_of_datetime_def Let_def day_micros_def mult_less_0_iff)
qed

text \<open>Used by every window of the scoring code: widening it never ages evidence.\<close>

lemma evidence_state_window_mono:
  "evidence_state demo obs now w = EV_CURRENT \<Longrightarrow> w \<le> w' \<Longrightarrow> evidence_state demo obs now w' = EV_CURRENT"
proof -
  assume a: "evidence_state demo obs now w = EV_CURRENT" "w \<le> w'"
  have "w * day_micros \<le> w' * day_micros" using a(2) by (simp add: day_micros_def)
  with a(1) show ?thesis
    by (auto simp: evidence_state_def Let_def split: option.splits sum.splits if_splits)
qed

section \<open>Markets\<close>

datatype canonical_market =
  DEFENSE | COMMERCIAL_AEROSPACE | SPACE | ROBOTICS | SEMICONDUCTOR | MEDICAL | ENERGY

fun market_value :: "canonical_market \<Rightarrow> string" where
  "market_value DEFENSE = ''Defense''"
| "market_value COMMERCIAL_AEROSPACE = ''Commercial Aerospace''"
| "market_value SPACE = ''Space''"
| "market_value ROBOTICS = ''Robotics''"
| "market_value SEMICONDUCTOR = ''Semiconductor''"
| "market_value MEDICAL = ''Medical''"
| "market_value ENERGY = ''Energy''"

definition PRIMARY_MARKET_ORDER :: "string list" where
  "PRIMARY_MARKET_ORDER = map market_value
     [DEFENSE, COMMERCIAL_AEROSPACE, SPACE, ROBOTICS, SEMICONDUCTOR, MEDICAL, ENERGY]"

definition UNCLASSIFIED_MARKET :: string where
  "UNCLASSIFIED_MARKET = ''Unclassified''"

definition SOURCE_ALIASES :: "(string \<times> canonical_market) list" where
  "SOURCE_ALIASES =
     [(''commercial aerospace'', COMMERCIAL_AEROSPACE), (''commercial_aerospace'', COMMERCIAL_AEROSPACE),
      (''defense'', DEFENSE), (''space'', SPACE), (''space exploration'', SPACE),
      (''robotics'', ROBOTICS), (''semiconductor'', SEMICONDUCTOR), (''semiconductors'', SEMICONDUCTOR),
      (''medical'', MEDICAL), (''energy'', ENERGY)]"

definition AMBIGUOUS_SOURCE_MARKETS :: "string list" where
  "AMBIGUOUS_SOURCE_MARKETS = [''aerospace'']"

datatype market_error = AmbiguousMarket | UnsupportedMarket string

definition normalize_source_market :: "string \<Rightarrow> (market_error, string) result" where
  "normalize_source_market value =
     (let key = join '' '' (split_ws (lower (strip value)))
      in if key \<in> set AMBIGUOUS_SOURCE_MARKETS then Inl AmbiguousMarket
         else case map_of SOURCE_ALIASES key of
                None \<Rightarrow> Inl (UnsupportedMarket value)
              | Some m \<Rightarrow> Inr (market_value m))"

definition primary_market_label :: "string list \<Rightarrow> string" where
  "primary_market_label markets = (if markets \<noteq> [] then hd markets else UNCLASSIFIED_MARKET)"

lemma market_value_primary: "market_value m \<in> set PRIMARY_MARKET_ORDER"
  by (cases m) (simp_all add: PRIMARY_MARKET_ORDER_def)

end
