(* ===== verification/Domain.thy ===== *)
theory Domain
  imports Core
begin

text \<open>
  The framework-free domain records of \<^verbatim>\<open>btx_omni/domain\<close>, one record per
  dataclass. A \<open>_post_init\<close> function is the constructor check of the dataclass: it
  returns the record or the error the constructor raises.
\<close>

section \<open>Evidence (domain/evidence.py)\<close>

record evidence =
  evd_id :: string
  evd_subject_id :: string
  evd_summary :: string
  evd_state :: evidence_class
  evd_provenance :: provenance
  evd_occurred_at :: datetime

definition evidence_post_init :: "evidence \<Rightarrow> (py_error, evidence) result" where
  "evidence_post_init e =
     bind_r (require_aware (evd_occurred_at e) ''occurred_at'') (\<lambda>_.
     if evd_state e = MISSING \<and> \<not> blank (evd_summary e)
     then Inl (ValueError ''missing evidence cannot claim a value'')
     else Inr e)"

record source_identity =
  sid_source_system :: string
  sid_source_key :: string
  sid_canonical_account_id :: string
  sid_provenance :: provenance

section \<open>Accounts (domain/accounts.py)\<close>

datatype account_relationship = PUBLIC_MARKET | CURRENT_CUSTOMER | FORMER_CUSTOMER | PROSPECT | TARGET

datatype identity_verification =
    VERIFIED_AUTHORITATIVE | VERIFIED_OFFICIAL_PUBLISHER | IDENTITY_INFERRED | AMBIGUOUS_IDENTITY
  | UNVERIFIED | NOT_APPLICABLE

datatype public_relationship_state =
    BTX_CONFIRMED | PUBLICLY_EVIDENCED_RELATIONSHIP | PUBLIC_INTERACTION_INFERENCE
  | NO_RELATIONSHIP_EVIDENCE

record research_provenance =
  rp_source_ids :: "string list"
  rp_source_urls :: "string list"
  rp_verification_state :: string
  rp_last_verified_at :: "datetime option"
  rp_research_only :: bool

record public_relationship_evidence =
  pre_state :: public_relationship_state
  pre_confidence :: string
  pre_basis :: string
  pre_replaceable_by_internal :: bool
  pre_provenance :: research_provenance

record public_contact_research =
  pcr_contact_type :: string
  pcr_role_family :: string
  pcr_verification_state :: string
  pcr_source_type :: "string option"
  pcr_source_url :: "string option"
  pcr_provenance :: research_provenance
  pcr_name :: "string option"
  pcr_title_or_function :: "string option"
  pcr_division :: "string option"
  pcr_location :: "string option"
  pcr_public_email :: "string option"
  pcr_public_phone :: "string option"

record public_identity_field =
  pif_value :: string
  pif_verification_state :: identity_verification
  pif_provenance :: provenance
  pif_last_verified_at :: datetime
  pif_source_native_identifier :: "(string \<times> string) option"

definition public_identity_field_post_init ::
  "public_identity_field \<Rightarrow> (py_error, public_identity_field) result" where
  "public_identity_field_post_init f =
     (if pif_verification_state f \<in> {VERIFIED_AUTHORITATIVE, VERIFIED_OFFICIAL_PUBLISHER} \<and>
         (prov_data_mode (pif_provenance f) \<noteq> CONNECTED \<or> prov_synthetic (pif_provenance f))
      then Inl (ValueError ''verified public identity requires non-synthetic connected provenance'')
      else Inr f)"

record public_company_identity =
  pci_verification_state :: identity_verification
  pci_legal_name :: "public_identity_field option"
  pci_display_name :: "public_identity_field option"
  pci_aliases :: "public_identity_field list"
  pci_former_names :: "public_identity_field list"
  pci_subsidiaries :: "public_identity_field list"
  pci_official_domain :: "public_identity_field option"
  pci_official_website :: "public_identity_field option"
  pci_newsroom_url :: "public_identity_field option"
  pci_investor_relations_url :: "public_identity_field option"
  pci_official_feed_urls :: "public_identity_field list"
  pci_sec_cik :: "public_identity_field option"
  pci_ticker :: "public_identity_field option"
  pci_exchange :: "public_identity_field option"
  pci_source_native_identifiers :: "public_identity_field list"

text \<open>One entry of \<^verbatim>\<open>prospect_fit_evidence\<close>: the keys the projection reads with \<^verbatim>\<open>.get\<close>.\<close>

record fit_evidence =
  fe_state :: "string option"
  fe_ttm_revenue_usd :: "decimal option"   \<comment> \<open>organization_ttm_revenue_usd, when it parses as a finite decimal\<close>
  fe_reviewed_as_of :: "moment option"
  fe_evidence_state :: "string option"
  fe_account_id :: "string option"
  fe_evidence_ids :: "string list option"
  fe_source_urls :: "string list option"
  fe_review_state :: "string option"
  fe_reason :: "string option"

record canonical_account =
  acc_id :: string
  acc_legal_name :: string
  acc_relationship :: account_relationship
  acc_domain :: "string option"
  acc_industries :: "string list"
  acc_business_units :: "string list"
  acc_parent_account_id :: "string option"
  acc_contact_role_families :: "string list"
  acc_provenance :: "provenance option"
  acc_public_research_state :: string
  acc_public_identity :: "public_company_identity option"
  acc_research_account_id :: "string option"
  acc_public_relationship :: "public_relationship_evidence option"
  acc_prospect_research_priority :: "string option"
  acc_prospect_rationale :: "string option"
  acc_public_contacts :: "public_contact_research list"
  acc_secondary_classifications :: "string list"
  acc_btx_top_100 :: bool
  acc_btx_top_100_provenance :: "research_provenance option"
  acc_prospect_fit_evidence :: "(string, fit_evidence) dict"

record account_facility =
  fac_id :: string
  fac_account_id :: string
  fac_name :: string
  fac_city :: string
  fac_region :: string
  fac_latitude :: decimal
  fac_longitude :: decimal
  fac_country :: string
  fac_facility_type :: string
  fac_verification_state :: string
  fac_source_url :: "string option"
  fac_source_type :: "string option"
  fac_last_verified_at :: "datetime option"
  fac_provenance :: "research_provenance option"

section \<open>Scores (domain/scores.py)\<close>

datatype score_status = AVAILABLE | INSUFFICIENT | HYPOTHESIS

record score_assessment =
  sa_id :: string
  sa_account_id :: string
  sa_configuration_id :: string
  sa_status :: score_status
  sa_score :: "decimal option"
  sa_coverage :: decimal
  sa_evidence_ids :: "string list"
  sa_missing_fields :: "string list"
  sa_calculated_at :: datetime

definition score_assessment_post_init :: "score_assessment \<Rightarrow> (py_error, score_assessment) result" where
  "score_assessment_post_init a =
     bind_r (require_aware (sa_calculated_at a) ''calculated_at'') (\<lambda>_.
     if sa_status a = AVAILABLE \<and> sa_score a = None
     then Inl (ValueError ''available scores require a value'') else Inr a)"

record attractiveness_record =
  ar_account_id :: string
  ar_status :: score_status
  ar_score :: "decimal option"
  ar_configuration_version :: string
  ar_evidence_ids :: "string list"
  ar_missing_fields :: "string list"
  ar_calculated_at :: datetime

definition attractiveness_record_post_init ::
  "attractiveness_record \<Rightarrow> (py_error, attractiveness_record) result" where
  "attractiveness_record_post_init a =
     bind_r (require_aware (ar_calculated_at a) ''calculated_at'') (\<lambda>_.
     if ar_status a = AVAILABLE \<and> ar_score a = None
     then Inl (ValueError ''available scores require a value'')
     else case ar_score a of
            None \<Rightarrow> Inr a
          | Some s \<Rightarrow>
              (if \<not> (0 \<le> s \<and> s \<le> 100)
               then Inl (ValueError ''Customer Attractiveness score must be between zero and 100'')
               else Inr a))"

record score_configuration =
  sc_id :: string
  sc_version :: string
  sc_hypothesis :: bool
  sc_interpretation_note :: string
  sc_created_at :: datetime

definition score_configuration_post_init ::
  "score_configuration \<Rightarrow> (py_error, score_configuration) result" where
  "score_configuration_post_init c = bind_r (require_aware (sc_created_at c) ''created_at'') (\<lambda>_. Inr c)"

record external_industry_rank =
  eir_account_id :: string
  eir_industry :: string
  eir_rank :: int
  eir_source :: string
  eir_methodology :: string

definition external_industry_rank_post_init ::
  "external_industry_rank \<Rightarrow> (py_error, external_industry_rank) result" where
  "external_industry_rank_post_init r =
     (if eir_rank r < 1 then Inl (ValueError ''external rank must be positive'') else Inr r)"

section \<open>Commercial context, orders, quotes (domain/commercial.py, orders.py, quotes.py)\<close>

record monthly_commercial_history =
  mch_month :: date
  mch_revenue_minor :: "int option"
  mch_bookings_minor :: "int option"
  mch_provenance :: provenance

record commercial_context =
  cc_account_id :: string
  cc_business_unit :: string
  cc_currency :: string
  cc_ttm_revenue_minor :: "int option"
  cc_ttm_bookings_minor :: "int option"
  cc_customer_segment :: "string option"
  cc_end_market :: "string option"
  cc_platform_program :: "string option"
  cc_part_number :: "string option"
  cc_last_booking_date :: "date option"
  cc_last_order_date :: "date option"
  cc_monthly_history :: "monthly_commercial_history list"
  cc_provenance :: provenance
  cc_last_crm_activity_date :: "date option"
  cc_intelligence_evidence_ids :: "string list"
  cc_jamie_validation_required :: "string list"

record order =
  ord_id :: string
  ord_quote_id :: "string option"
  ord_account_id :: string
  ord_business_unit_id :: string
  ord_part_number :: "string option"
  ord_component_class_id :: string
  ord_program_id :: string
  ord_ship_to_city :: "string option"
  ord_ship_to_region :: "string option"
  ord_promised_date :: "date option"
  ord_actual_ship_date :: "date option"
  ord_status :: string
  ord_quantity :: int
  ord_amount_minor :: int
  ord_provenance :: provenance
  ord_parent_order_id :: "string option"

datatype quote_status = Q_OPEN | Q_WON | Q_LOST | Q_EXPIRED | Q_CANCELLED

record quote_line_item =
  qli_id :: string
  qli_part_number :: "string option"
  qli_component_class_id :: string
  qli_quantity :: int
  qli_unit_price_minor :: int
  qli_lead_time_days :: "int option"
  qli_provenance :: provenance

record commercial_quote =
  cq_id :: string
  cq_account_id :: string
  cq_business_unit :: string
  cq_status :: quote_status
  cq_quoted_at :: date
  cq_value_minor :: "int option"
  cq_currency :: string
  cq_contact_id :: "string option"
  cq_facility_id :: "string option"
  cq_part_family :: "string option"
  cq_provenance :: provenance
  cq_quote_to_book_evidence_ids :: "string list"
  cq_program_id :: "string option"
  cq_component_class_ids :: "string list"
  cq_paperless_account_id :: "string option"
  cq_paperless_contact_id :: "string option"
  cq_line_items :: "quote_line_item list"
  cq_business_unit_ids :: "string list"

section \<open>Alerts (domain/alerts.py)\<close>

datatype alert_kind =
    CUSTOMER_INACTIVITY | BOOKINGS_DECLINE | STALE_QUOTE | QUOTE_FOLLOW_UP | CRM_INACTIVITY
  | CROSS_BU_COORDINATION | INTELLIGENCE_COMMERCIAL_CONTEXT | OVERDUE_ORDER

fun alert_kind_value :: "alert_kind \<Rightarrow> string" where
  "alert_kind_value CUSTOMER_INACTIVITY = ''CUSTOMER_INACTIVITY''"
| "alert_kind_value BOOKINGS_DECLINE = ''BOOKINGS_DECLINE''"
| "alert_kind_value STALE_QUOTE = ''STALE_QUOTE''"
| "alert_kind_value QUOTE_FOLLOW_UP = ''QUOTE_FOLLOW_UP''"
| "alert_kind_value CRM_INACTIVITY = ''CRM_INACTIVITY''"
| "alert_kind_value CROSS_BU_COORDINATION = ''CROSS_BU_COORDINATION''"
| "alert_kind_value INTELLIGENCE_COMMERCIAL_CONTEXT = ''INTELLIGENCE_COMMERCIAL_CONTEXT''"
| "alert_kind_value OVERDUE_ORDER = ''OVERDUE_ORDER''"

text \<open>\<^verbatim>\<open>actual_value\<close> and \<^verbatim>\<open>threshold\<close> are \<^verbatim>\<open>Any\<close>: the shapes the engine stores.\<close>

datatype alert_value = AV_int int | AV_num rat | AV_text string | AV_texts "string list"

record commercial_alert =
  al_id :: string
  al_account_id :: string
  al_type :: alert_kind
  al_business_unit :: "string option"
  al_severity :: string
  al_trigger_reason :: string
  al_actual_value :: alert_value
  al_threshold :: alert_value
  al_evidence_ids :: "string list"
  al_observed_at :: datetime
  al_recommended_action :: string
  al_owner_id :: "string option"
  al_status :: string
  al_synthetic :: bool
  al_provenance_state :: string
  al_order_data_required :: bool
  al_subject_id :: "string option"
  al_hard_stop :: bool

definition commercial_alert_post_init :: "commercial_alert \<Rightarrow> (py_error, commercial_alert) result" where
  "commercial_alert_post_init a =
     bind_r (require_aware (al_observed_at a) ''observed_at'') (\<lambda>_.
     if al_evidence_ids a = [] then Inl (ValueError ''commercial alerts require evidence'') else Inr a)"

lemma commercial_alert_post_init_Inr [res_simps]:
  "commercial_alert_post_init a = Inr b \<longleftrightarrow> b = a \<and> aware (al_observed_at a) \<and> al_evidence_ids a \<noteq> []"
  by (auto simp: commercial_alert_post_init_def res_simps)

end
