(* ===== verification/Work.thy ===== *)
theory Work
  imports Domain
begin

text \<open>
  The Action workflow: the records of \<^verbatim>\<open>domain/work.py\<close>, the authorization policy and
  the service of \<^verbatim>\<open>modules/work/service.py\<close>. The service is written against the
  operations of an \<^verbatim>\<open>ActionRepository\<close>, as the code is; \<open>mem_ops\<close> is the
  repository class of the same file. Hashing (\<^verbatim>\<open>sha256(...).hexdigest()\<close> of a text
  or of serialised JSON) is a parameter.
\<close>

section \<open>Domain records (domain/work.py)\<close>

datatype action_status = OPEN | IN_PROGRESS | COMPLETED | CANCELED

fun status_value :: "action_status \<Rightarrow> string" where
  "status_value OPEN = ''OPEN''"
| "status_value IN_PROGRESS = ''IN_PROGRESS''"
| "status_value COMPLETED = ''COMPLETED''"
| "status_value CANCELED = ''CANCELED''"

datatype action_priority = P_HIGH | P_MEDIUM | P_LOW

fun priority_value :: "action_priority \<Rightarrow> string" where
  "priority_value P_HIGH = ''HIGH''"
| "priority_value P_MEDIUM = ''MEDIUM''"
| "priority_value P_LOW = ''LOW''"

datatype approval_status = NOT_REQUIRED | PENDING | APPROVED | REJECTED | REQUESTED | CHANGES_REQUESTED

fun approval_value :: "approval_status \<Rightarrow> string" where
  "approval_value NOT_REQUIRED = ''NOT_REQUIRED''"
| "approval_value PENDING = ''PENDING''"
| "approval_value APPROVED = ''APPROVED''"
| "approval_value REJECTED = ''REJECTED''"
| "approval_value REQUESTED = ''REQUESTED''"
| "approval_value CHANGES_REQUESTED = ''CHANGES_REQUESTED''"

datatype principal_role = SALESPERSON | MANAGER

record principal =
  pr_user_id :: string
  pr_display_name :: string
  pr_role :: principal_role
  pr_tenant_id :: "string option"

datatype work_error =
    ActionNotFound string
  | ActionConflict string
  | ActionForbidden string
  | WorkInvalid py_error

record subtask =
  sub_id :: string
  sub_parent_id :: string
  sub_title :: string
  sub_done :: bool
  sub_due_date :: "date option"
  sub_owner_id :: "string option"
  sub_removed :: bool

definition subtask_post_init :: "subtask \<Rightarrow> (work_error, subtask) result" where
  "subtask_post_init s =
     (if blank (sub_title s) then Inl (WorkInvalid (ValueError ''Subtask title is required.'')) else Inr s)"

record action =
  act_id :: string
  act_account_id :: "string option"
  act_title :: string
  act_description :: "string option"
  act_owner_id :: "string option"
  act_priority :: action_priority
  act_due_date :: "date option"
  act_status :: action_status
  act_approval_status :: approval_status
  act_source_suggestion_id :: "string option"
  act_evidence_ids :: "string list"
  act_created_by :: string
  act_created_at :: datetime
  act_updated_at :: datetime
  act_completed_at :: "datetime option"
  act_canceled_at :: "datetime option"
  act_version :: int
  act_context_referents :: "(string \<times> string) list"
  act_previous_status :: "action_status option"
  act_approval_requested_by :: "string option"
  act_approval_comment :: "string option"
  act_subtasks :: "subtask list"

definition allowed_transitions :: "action \<Rightarrow> action_status list" where
  "allowed_transitions a =
     (case act_status a of
        OPEN \<Rightarrow> [IN_PROGRESS, COMPLETED, CANCELED]
      | IN_PROGRESS \<Rightarrow> [COMPLETED, CANCELED]
      | COMPLETED \<Rightarrow> [IN_PROGRESS]
      | CANCELED \<Rightarrow> (case act_previous_status a of None \<Rightarrow> [] | Some p \<Rightarrow> [p]))"

definition opt_aware :: "datetime option \<Rightarrow> string \<Rightarrow> (py_error, unit) result" where
  "opt_aware t field = (case t of None \<Rightarrow> Inr () | Some v \<Rightarrow> require_aware v field)"

definition lift_work :: "(py_error, 'a) result \<Rightarrow> (work_error, 'a) result" where
  "lift_work m = (case m of Inl e \<Rightarrow> Inl (WorkInvalid e) | Inr x \<Rightarrow> Inr x)"

definition action_post_init :: "action \<Rightarrow> (work_error, action) result" where
  "action_post_init a = lift_work (
     bind_r (require_aware (act_created_at a) ''created_at'') (\<lambda>_.
     bind_r (require_aware (act_updated_at a) ''updated_at'') (\<lambda>_.
     bind_r (opt_aware (act_completed_at a) ''completed_at'') (\<lambda>_.
     bind_r (opt_aware (act_canceled_at a) ''canceled_at'') (\<lambda>_.
     if blank (act_title a) then Inl (ValueError ''Action title is required.'')
     else if act_version a < 1 then Inl (ValueError ''Action version must be positive.'')
     else Inr a)))))"

definition is_overdue :: "action \<Rightarrow> date \<Rightarrow> bool" where
  "is_overdue a today =
     (case act_due_date a of None \<Rightarrow> False | Some d \<Rightarrow> d < today \<and> act_status a \<in> {OPEN, IN_PROGRESS})"

record audit_event =
  ev_id :: "int option"
  ev_action_id :: string
  ev_actor_id :: string
  ev_event :: string
  ev_occurred_at :: datetime
  ev_metadata :: "(string \<times> json) list"

definition audit_event_post_init :: "audit_event \<Rightarrow> (work_error, audit_event) result" where
  "audit_event_post_init e = lift_work (bind_r (require_aware (ev_occurred_at e) ''occurred_at'') (\<lambda>_. Inr e))"

section \<open>Repository operations\<close>

text \<open>The protocol \<^verbatim>\<open>ActionRepository\<close>: what the service calls.\<close>

record 'r action_repo =
  repo_get :: "'r \<Rightarrow> string \<Rightarrow> action option"
  repo_by_suggestion :: "'r \<Rightarrow> string \<Rightarrow> action option"
  repo_list :: "'r \<Rightarrow> action list"
  repo_save :: "'r \<Rightarrow> action \<Rightarrow> audit_event \<Rightarrow> int option \<Rightarrow> (work_error, action) result \<times> 'r"
  repo_history :: "'r \<Rightarrow> string \<Rightarrow> audit_event list"
  repo_dismiss :: "'r \<Rightarrow> string \<Rightarrow> string \<Rightarrow> datetime \<Rightarrow> 'r"
  repo_dismissed :: "'r \<Rightarrow> string option \<Rightarrow> string set"

text \<open>\<^verbatim>\<open>MemoryActionRepository\<close>: two dictionaries, an event log and a set.\<close>

record mem_repo =
  mem_items :: "(string, action) dict"
  mem_events :: "audit_event list"
  mem_dismissed :: "string set"
  mem_dismissed_actors :: "(string, string) dict"

definition mem_init :: mem_repo where
  "mem_init = \<lparr>mem_items = [], mem_events = [], mem_dismissed = {}, mem_dismissed_actors = []\<rparr>"

definition mem_get :: "mem_repo \<Rightarrow> string \<Rightarrow> action option" where
  "mem_get r i = dget (mem_items r) i"

definition mem_by_suggestion :: "mem_repo \<Rightarrow> string \<Rightarrow> action option" where
  "mem_by_suggestion r s =
     first_match (\<lambda>x. act_source_suggestion_id x = Some s) (dvalues (mem_items r))"

definition mem_list :: "mem_repo \<Rightarrow> action list" where
  "mem_list r = dvalues (mem_items r)"

definition mem_history :: "mem_repo \<Rightarrow> string \<Rightarrow> audit_event list" where
  "mem_history r i = filter (\<lambda>e. ev_action_id e = i) (mem_events r)"

definition mem_save :: "mem_repo \<Rightarrow> action \<Rightarrow> audit_event \<Rightarrow> int option \<Rightarrow> (work_error, action) result \<times> mem_repo" where
  "mem_save r a e expected =
     (if (case expected of
            None \<Rightarrow> False
          | Some v \<Rightarrow> (case dget (mem_items r) (act_id a) of None \<Rightarrow> True | Some cur \<Rightarrow> act_version cur \<noteq> v))
      then (Inl (ActionConflict ''Action has changed; reload it before saving.''), r)
      else (Inr a, r\<lparr>mem_items := dset (act_id a) a (mem_items r), mem_events := mem_events r @ [e]\<rparr>))"

definition mem_dismiss :: "mem_repo \<Rightarrow> string \<Rightarrow> string \<Rightarrow> datetime \<Rightarrow> mem_repo" where
  "mem_dismiss r sid actor now =
     r\<lparr>mem_dismissed := insert sid (mem_dismissed r),
       mem_dismissed_actors := dset sid actor (mem_dismissed_actors r)\<rparr>"

definition mem_dismissed_suggestions :: "mem_repo \<Rightarrow> string option \<Rightarrow> string set" where
  "mem_dismissed_suggestions r actor =
     {sid \<in> mem_dismissed r. actor = None \<or> dget (mem_dismissed_actors r) sid = actor}"

definition mem_transact_audit ::
  "mem_repo \<Rightarrow> string \<Rightarrow> (action \<Rightarrow> audit_event list \<Rightarrow> (work_error, audit_event option \<times> 'x) result)
    \<Rightarrow> (work_error, 'x) result \<times> mem_repo" where
  "mem_transact_audit r i operation =
     (case mem_get r i of
        None \<Rightarrow> (Inl (ActionNotFound i), r)
      | Some a \<Rightarrow>
          (case operation a (mem_history r i) of
             Inl e \<Rightarrow> (Inl e, r)
           | Inr (None, x) \<Rightarrow> (Inr x, r)
           | Inr (Some ev, x) \<Rightarrow> (Inr x, r\<lparr>mem_events := mem_events r @ [ev]\<rparr>)))"

definition mem_ops :: "mem_repo action_repo" where
  "mem_ops = \<lparr>repo_get = mem_get, repo_by_suggestion = mem_by_suggestion, repo_list = mem_list,
     repo_save = mem_save, repo_history = mem_history, repo_dismiss = mem_dismiss,
     repo_dismissed = mem_dismissed_suggestions\<rparr>"

section \<open>Policy\<close>

definition require_manage :: "principal \<Rightarrow> action \<Rightarrow> (work_error, unit) result" where
  "require_manage p a =
     (if pr_role p = MANAGER then Inr ()
      else if act_owner_id a \<notin> {None, Some (pr_user_id p)} \<and> act_created_by a \<noteq> pr_user_id p
      then Inl (ActionForbidden ''This Action is outside the current principal's permitted work.'')
      else Inr ())"

definition require_manager :: "principal \<Rightarrow> (work_error, unit) result" where
  "require_manager p =
     (if pr_role p \<noteq> MANAGER then Inl (ActionForbidden ''Manager authorization is required.'') else Inr ())"

definition may_manage :: "principal \<Rightarrow> action \<Rightarrow> bool" where
  "may_manage p a = (pr_role p = MANAGER \<or> act_owner_id a = None \<or> act_owner_id a = Some (pr_user_id p)
     \<or> act_created_by a = pr_user_id p)"

lemma require_manage_Inr [res_simps]: "require_manage p a = Inr u \<longleftrightarrow> may_manage p a"
  by (auto simp: require_manage_def may_manage_def)

lemma require_manager_Inr [res_simps]: "require_manager p = Inr u \<longleftrightarrow> pr_role p = MANAGER"
  by (simp add: require_manager_def)

lemma lift_work_Inr [res_simps]: "lift_work m = Inr x \<longleftrightarrow> m = Inr x"
  by (simp add: lift_work_def split: sum.splits)

lemma opt_aware_Inr [res_simps]: "opt_aware t f = Inr u \<longleftrightarrow> (case t of None \<Rightarrow> True | Some v \<Rightarrow> aware v)"
  by (simp add: opt_aware_def res_simps split: option.splits)

definition opt_is_aware :: "datetime option \<Rightarrow> bool" where
  "opt_is_aware t = (case t of None \<Rightarrow> True | Some v \<Rightarrow> aware v)"

definition action_ok :: "action \<Rightarrow> bool" where
  "action_ok a = (aware (act_created_at a) \<and> aware (act_updated_at a) \<and> opt_is_aware (act_completed_at a)
     \<and> opt_is_aware (act_canceled_at a) \<and> \<not> blank (act_title a) \<and> 1 \<le> act_version a)"

lemma action_post_init_Inr [res_simps]: "action_post_init a = Inr b \<longleftrightarrow> b = a \<and> action_ok a"
  by (auto simp: action_post_init_def action_ok_def opt_is_aware_def res_simps)

lemma audit_event_post_init_Inr [res_simps]:
  "audit_event_post_init e = Inr b \<longleftrightarrow> b = e \<and> aware (ev_occurred_at e)"
  by (auto simp: audit_event_post_init_def res_simps)

lemma subtask_post_init_Inr [res_simps]: "subtask_post_init s = Inr t \<longleftrightarrow> t = s \<and> \<not> blank (sub_title s)"
  by (auto simp: subtask_post_init_def)

end
