(* ===== verification/WorkService.thy ===== *)
theory WorkService
  imports Work
begin

text \<open>
  \<^verbatim>\<open>WorkService\<close> of \<^verbatim>\<open>modules/work/service.py\<close>: creation with
  idempotent replay, edits, status transitions, approval, subtasks. An operation reads the
  repository, decides, and ends either by returning an Action unchanged (\<open>Keep\<close>) or by one
  \<^verbatim>\<open>repository.save\<close> (\<open>Store\<close>); \<open>finish\<close> is that last step.
\<close>

datatype plan = Keep action | Store action audit_event "int option"

definition finish :: "'r action_repo \<Rightarrow> 'r \<Rightarrow> (work_error, plan) result \<Rightarrow> (work_error, action) result \<times> 'r" where
  "finish ops r m =
     (case m of
        Inl e \<Rightarrow> (Inl e, r)
      | Inr (Keep a) \<Rightarrow> (Inr a, r)
      | Inr (Store a ev expected) \<Rightarrow> repo_save ops r a ev expected)"

definition mk_event :: "string \<Rightarrow> principal \<Rightarrow> string \<Rightarrow> datetime \<Rightarrow> (string \<times> json) list \<Rightarrow> (work_error, audit_event) result" where
  "mk_event i p name now metadata = audit_event_post_init
     \<lparr>ev_id = None, ev_action_id = i, ev_actor_id = pr_user_id p, ev_event = name,
      ev_occurred_at = now, ev_metadata = metadata\<rparr>"

definition require_version :: "action \<Rightarrow> int option \<Rightarrow> (work_error, unit) result" where
  "require_version a expected =
     (case expected of
        None \<Rightarrow> Inr ()
      | Some v \<Rightarrow> if act_version a \<noteq> v
          then Inl (ActionConflict ''Action has changed; reload it before saving.'') else Inr ())"

lemma require_version_Inr [res_simps]:
  "require_version a expected = Inr u \<longleftrightarrow> (case expected of None \<Rightarrow> True | Some v \<Rightarrow> act_version a = v)"
  by (simp add: require_version_def split: option.splits)

definition svc_get :: "'r action_repo \<Rightarrow> 'r \<Rightarrow> string \<Rightarrow> (work_error, action) result" where
  "svc_get ops r i = (case repo_get ops r i of None \<Rightarrow> Inl (ActionNotFound i) | Some a \<Rightarrow> Inr a)"

lemma svc_get_Inr [res_simps]: "svc_get ops r i = Inr a \<longleftrightarrow> repo_get ops r i = Some a"
  by (simp add: svc_get_def split: option.splits)

section \<open>Hashing\<close>

record hashing =
  h_text :: "string \<Rightarrow> string"  \<comment> \<open>\<open>sha256(text.encode()).hexdigest()\<close>\<close>
  h_json :: "json \<Rightarrow> string"    \<comment> \<open>\<open>sha256(json.dumps(value).encode()).hexdigest()\<close>\<close>

definition creation_fingerprint ::
  "hashing \<Rightarrow> string option \<Rightarrow> string \<Rightarrow> string option \<Rightarrow> string option \<Rightarrow> action_priority \<Rightarrow> date option
    \<Rightarrow> string list \<Rightarrow> (string \<times> string) list \<Rightarrow> string option \<Rightarrow> bool \<Rightarrow> string" where
  "creation_fingerprint h account_id title description owner_id priority due_date evidence_ids context_referents
      source_suggestion_id approval_required =
     h_json h (J_arr [j_opt J_str account_id, J_str title, j_opt J_str description, j_opt J_str owner_id,
       J_str (priority_value priority), j_opt (\<lambda>d. J_str (iso_date d)) due_date,
       J_arr (map J_str (sort evidence_ids)),
       J_arr (map (\<lambda>(k, v). J_arr [J_str k, J_str v])
         (sort (filter (\<lambda>(k, v). \<not> starts_with ''source_'' k) context_referents))),
       j_opt J_str source_suggestion_id, J_bool approval_required])"

definition own_fingerprint :: "hashing \<Rightarrow> action \<Rightarrow> string" where
  "own_fingerprint h a = creation_fingerprint h (act_account_id a) (act_title a) (act_description a)
     (act_owner_id a) (act_priority a) (act_due_date a) (act_evidence_ids a) (act_context_referents a)
     (act_source_suggestion_id a) (act_approval_status a = PENDING)"

definition recorded_fingerprint :: "audit_event list \<Rightarrow> json option" where
  \<comment> \<open>the \<open>creation_fingerprint\<close> entry of the first CREATED event\<close>
  "recorded_fingerprint history =
     (case first_match (\<lambda>e. ev_event e = ''CREATED'') history of
        None \<Rightarrow> None | Some e \<Rightarrow> map_of (ev_metadata e) ''creation_fingerprint'')"

definition creation_replay ::
  "'r action_repo \<Rightarrow> hashing \<Rightarrow> 'r \<Rightarrow> action \<Rightarrow> principal \<Rightarrow> string option \<Rightarrow> (work_error, action) result" where
  "creation_replay ops h r a p fingerprint =
     bind_r (require_manage p a) (\<lambda>_.
     case fingerprint of
       None \<Rightarrow> Inr a
     | Some fp \<Rightarrow>
         (let recorded = recorded_fingerprint (repo_history ops r (act_id a));
              original = (if recorded = None \<and> act_version a = 1 then Some (J_str (own_fingerprint h a)) else recorded)
          in if original \<noteq> Some (J_str fp)
             then Inl (ActionConflict ''Retry does not match the original proposal; inspect existing work before retrying.'')
             else Inr a))"

section \<open>create\<close>

record create_args =
  ca_account_id :: "string option"
  ca_occurred_at :: datetime
  ca_title :: "string option"
  ca_principal :: "principal option"
  ca_summary :: "string option"
  ca_actor_id :: "string option"
  ca_description :: "string option"
  ca_owner_id :: "string option"
  ca_priority :: action_priority
  ca_due_date :: "date option"
  ca_evidence_ids :: "string list"
  ca_context_referents :: "(string \<times> string) list"
  ca_source_suggestion_id :: "string option"
  ca_approval_required :: bool
  ca_idempotency_key :: "string option"

definition first_truthy :: "string option \<Rightarrow> string \<Rightarrow> string" where
  \<comment> \<open>\<open>x or default\<close>\<close>
  "first_truthy x d = (case x of Some s \<Rightarrow> if s \<noteq> [] then s else d | None \<Rightarrow> d)"

definition server_principal :: "string option \<Rightarrow> string \<Rightarrow> string \<Rightarrow> principal_role \<Rightarrow> principal" where
  "server_principal tenant user_id display_name role =
     \<lparr>pr_user_id = user_id, pr_display_name = display_name, pr_role = role, pr_tenant_id = tenant\<rparr>"

definition create_title :: "create_args \<Rightarrow> string" where
  "create_title c = first_truthy (ca_title c) (first_truthy (ca_summary c) [])"

definition create_principal :: "string option \<Rightarrow> create_args \<Rightarrow> principal" where
  "create_principal tenant c =
     (case ca_principal c of
        Some p \<Rightarrow> p
      | None \<Rightarrow> server_principal tenant (first_truthy (ca_actor_id c) ''seller-1'')
                  (first_truthy (ca_actor_id c) ''Salesperson'') SALESPERSON)"

definition create_owner :: "create_args \<Rightarrow> principal \<Rightarrow> string" where
  "create_owner c p = first_truthy (ca_owner_id c) (pr_user_id p)"

definition create_fingerprint_of :: "hashing \<Rightarrow> create_args \<Rightarrow> principal \<Rightarrow> string option" where
  "create_fingerprint_of h c p =
     (if truthy (ca_idempotency_key c)
      then Some (creation_fingerprint h (ca_account_id c) (strip (create_title c)) (ca_description c)
             (Some (create_owner c p)) (ca_priority c) (ca_due_date c) (ca_evidence_ids c)
             (ca_context_referents c) (ca_source_suggestion_id c) (ca_approval_required c))
      else None)"

definition create_key :: "create_args \<Rightarrow> principal \<Rightarrow> string" where
  "create_key c p = first_truthy (ca_idempotency_key c)
     (pr_user_id p @ '':'' @ default_to (ca_account_id c) ''None'' @ '':'' @ create_title c @ '':''
       @ iso_datetime (ca_occurred_at c))"

definition plain_identifier :: "hashing \<Rightarrow> create_args \<Rightarrow> principal \<Rightarrow> string" where
  "plain_identifier h c p = ''action-'' @ take 20 (h_text h (create_key c p))"

definition scoped_identifier :: "hashing \<Rightarrow> create_args \<Rightarrow> principal \<Rightarrow> string" where
  "scoped_identifier h c p =
     (if truthy (ca_idempotency_key c)
      then ''action-'' @ take 20 (h_json h (J_arr [J_str ''action-create-v2'', J_str (pr_user_id p),
             j_opt J_str (ca_account_id c), J_str (create_key c p)]))
      else plain_identifier h c p)"

definition new_action :: "hashing \<Rightarrow> create_args \<Rightarrow> principal \<Rightarrow> action" where
  "new_action h c p =
     \<lparr>act_id = scoped_identifier h c p, act_account_id = ca_account_id c, act_title = strip (create_title c),
      act_description = ca_description c, act_owner_id = Some (create_owner c p), act_priority = ca_priority c,
      act_due_date = ca_due_date c, act_status = OPEN,
      act_approval_status = (if ca_approval_required c then PENDING else NOT_REQUIRED),
      act_source_suggestion_id = ca_source_suggestion_id c, act_evidence_ids = ca_evidence_ids c,
      act_created_by = pr_user_id p, act_created_at = ca_occurred_at c, act_updated_at = ca_occurred_at c,
      act_completed_at = None, act_canceled_at = None, act_version = 1,
      act_context_referents = ca_context_referents c, act_previous_status = None,
      act_approval_requested_by = None, act_approval_comment = None, act_subtasks = []\<rparr>"

datatype create_step = Existing action | Insert action audit_event

definition create_decide ::
  "'r action_repo \<Rightarrow> hashing \<Rightarrow> create_args \<Rightarrow> principal \<Rightarrow> 'r \<Rightarrow> (work_error, create_step) result" where
  "create_decide ops h c p r =
     bind_r (if truthy (ca_owner_id c) \<and> ca_owner_id c \<noteq> Some (pr_user_id p) then require_manager p else Inr ()) (\<lambda>_.
     case (if truthy (ca_source_suggestion_id c) then repo_by_suggestion ops r (the (ca_source_suggestion_id c)) else None) of
       Some existing \<Rightarrow>
         bind_r (require_manage p existing) (\<lambda>_.
         if act_account_id existing \<noteq> ca_account_id c
         then Inl (ActionConflict ''Suggestion belongs to a different account.'')
         else Inr (Existing existing))
     | None \<Rightarrow>
         (let fingerprint = create_fingerprint_of h c p;
              legacy = (if truthy (ca_idempotency_key c) then repo_get ops r (plain_identifier h c p) else None)
          in case (case legacy of
                     Some l \<Rightarrow> if act_created_by l = pr_user_id p \<and> act_account_id l = ca_account_id c then Some l else None
                   | None \<Rightarrow> None) of
               Some l \<Rightarrow> bind_r (creation_replay ops h r l p fingerprint) (\<lambda>a. Inr (Existing a))
             | None \<Rightarrow>
                 (case repo_get ops r (scoped_identifier h c p) of
                    Some existing \<Rightarrow> bind_r (creation_replay ops h r existing p fingerprint) (\<lambda>a. Inr (Existing a))
                  | None \<Rightarrow>
                      bind_r (action_post_init (new_action h c p)) (\<lambda>a.
                      bind_r (mk_event (act_id a) p ''CREATED'' (ca_occurred_at c)
                          ((''status'', J_str (status_value (act_status a)))
                           # (case fingerprint of None \<Rightarrow> [] | Some fp \<Rightarrow> [(''creation_fingerprint'', J_str fp)]))) (\<lambda>ev.
                      Inr (Insert a ev))))))"

definition create ::
  "'r action_repo \<Rightarrow> hashing \<Rightarrow> string option \<Rightarrow> create_args \<Rightarrow> 'r \<Rightarrow> (work_error, action) result \<times> 'r" where
  "create ops h tenant c r =
     (let p = create_principal tenant c
      in case create_decide ops h c p r of
           Inl e \<Rightarrow> (Inl e, r)
         | Inr (Existing a) \<Rightarrow> (Inr a, r)
         | Inr (Insert a ev) \<Rightarrow>
             (case repo_save ops r a ev None of
                (Inl e, r') \<Rightarrow> (Inl e, r')
              | (Inr saved, r') \<Rightarrow>
                  (if act_account_id saved \<noteq> ca_account_id c
                   then (Inl (ActionConflict ''Suggestion belongs to a different account.''), r')
                   else (creation_replay ops h r' saved p (create_fingerprint_of h c p), r'))))"

section \<open>list\<close>

definition svc_list :: "'r action_repo \<Rightarrow> 'r \<Rightarrow> principal option \<Rightarrow> action list" where
  "svc_list ops r who =
     (let items = repo_list ops r;
          visible = (case who of
              Some p \<Rightarrow> if pr_role p = SALESPERSON
                then filter (\<lambda>x. act_owner_id x \<in> {None, Some (pr_user_id p)} \<or> act_created_by x = pr_user_id p) items
                else items
            | None \<Rightarrow> items)
      in sort_key (\<lambda>x. (act_due_date x = None, default_to (act_due_date x) date_max,
           instant (act_created_at x), act_id x)) visible)"

section \<open>edit\<close>

text \<open>The keyword arguments \<^verbatim>\<open>**changes\<close>: a field is present or absent, and its value may be absent.\<close>

record edit_changes =
  ec_title :: "string option option"
  ec_description :: "string option option"
  ec_owner_id :: "string option option"
  ec_priority :: "action_priority option option"
  ec_due_date :: "date option option"
  ec_account_id :: "string option option"

datatype field_change =
    Ch_title string | Ch_description "string option" | Ch_owner_id "string option"
  | Ch_priority action_priority | Ch_due_date "date option" | Ch_account_id "string option"

definition permitted_changes :: "action \<Rightarrow> edit_changes \<Rightarrow> field_change list" where
  "permitted_changes a c =
     (case ec_title c of Some (Some t) \<Rightarrow> if t \<noteq> act_title a then [Ch_title t] else [] | _ \<Rightarrow> [])
   @ (case ec_description c of Some d \<Rightarrow> if d \<noteq> act_description a then [Ch_description d] else [] | None \<Rightarrow> [])
   @ (case ec_owner_id c of Some w \<Rightarrow> if w \<noteq> act_owner_id a then [Ch_owner_id w] else [] | None \<Rightarrow> [])
   @ (case ec_priority c of Some (Some q) \<Rightarrow> if q \<noteq> act_priority a then [Ch_priority q] else [] | _ \<Rightarrow> [])
   @ (case ec_due_date c of Some d \<Rightarrow> if d \<noteq> act_due_date a then [Ch_due_date d] else [] | None \<Rightarrow> [])
   @ (case ec_account_id c of Some x \<Rightarrow> if x \<noteq> act_account_id a then [Ch_account_id x] else [] | None \<Rightarrow> [])"

fun apply_change :: "field_change \<Rightarrow> action \<Rightarrow> action" where
  "apply_change (Ch_title t) a = a\<lparr>act_title := t\<rparr>"
| "apply_change (Ch_description d) a = a\<lparr>act_description := d\<rparr>"
| "apply_change (Ch_owner_id w) a = a\<lparr>act_owner_id := w\<rparr>"
| "apply_change (Ch_priority q) a = a\<lparr>act_priority := q\<rparr>"
| "apply_change (Ch_due_date d) a = a\<lparr>act_due_date := d\<rparr>"
| "apply_change (Ch_account_id x) a = a\<lparr>act_account_id := x\<rparr>"

fun change_entry :: "action \<Rightarrow> field_change \<Rightarrow> string \<times> json" where
  "change_entry a (Ch_title t) = (''title'', J_obj [(''before'', J_str (act_title a)), (''after'', J_str t)])"
| "change_entry a (Ch_description d) =
     (''description'', J_obj [(''before'', j_opt J_str (act_description a)), (''after'', j_opt J_str d)])"
| "change_entry a (Ch_owner_id w) =
     (''owner_id'', J_obj [(''before'', j_opt J_str (act_owner_id a)), (''after'', j_opt J_str w)])"
| "change_entry a (Ch_priority q) =
     (''priority'', J_obj [(''before'', J_str (priority_value (act_priority a))), (''after'', J_str (priority_value q))])"
| "change_entry a (Ch_due_date d) =
     (''due_date'', J_obj [(''before'', j_opt (\<lambda>x. J_str (iso_date x)) (act_due_date a)),
        (''after'', j_opt (\<lambda>x. J_str (iso_date x)) d)])"
| "change_entry a (Ch_account_id x) =
     (''account_id'', J_obj [(''before'', j_opt J_str (act_account_id a)), (''after'', j_opt J_str x)])"

definition edit_plan ::
  "action \<Rightarrow> principal \<Rightarrow> datetime \<Rightarrow> int option \<Rightarrow> edit_changes \<Rightarrow> (work_error, plan) result" where
  "edit_plan a p now expected c =
     bind_r (require_manage p a) (\<lambda>_.
     bind_r (guard_r (case ec_title c of None \<Rightarrow> True | Some None \<Rightarrow> False | Some (Some t) \<Rightarrow> \<not> blank t)
        (WorkInvalid (ValueError ''Action title is required.''))) (\<lambda>_.
     bind_r (guard_r (ec_priority c \<noteq> Some None) (WorkInvalid (ValueError ''Action priority is required.''))) (\<lambda>_.
     bind_r (if default_to (ec_owner_id c) (act_owner_id a) \<noteq> act_owner_id a then require_manager p else Inr ()) (\<lambda>_.
     (let permitted = permitted_changes a c
      in if permitted = [] then Inr (Keep a)
         else
           bind_r (require_version a expected) (\<lambda>_.
           bind_r (action_post_init ((fold apply_change permitted a)
               \<lparr>act_updated_at := now, act_version := act_version a + 1\<rparr>)) (\<lambda>updated.
           bind_r (mk_event (act_id a) p ''EDITED'' now [(''changes'', J_obj (map (change_entry a) permitted))]) (\<lambda>ev.
           Inr (Store updated ev (Some (act_version a)))))))))))"

definition edit ::
  "'r action_repo \<Rightarrow> string \<Rightarrow> principal \<Rightarrow> datetime \<Rightarrow> int option \<Rightarrow> edit_changes \<Rightarrow> 'r
    \<Rightarrow> (work_error, action) result \<times> 'r" where
  "edit ops i p now expected c r = finish ops r (bind_r (svc_get ops r i) (\<lambda>a. edit_plan a p now expected c))"

section \<open>transition\<close>

definition open_child :: "subtask \<Rightarrow> bool" where
  "open_child s = (\<not> sub_done s \<and> \<not> sub_removed s)"

definition completed_children :: "action \<Rightarrow> action_status \<Rightarrow> bool \<Rightarrow> string list" where
  "completed_children a status complete_open_subtasks =
     (if status = COMPLETED \<and> complete_open_subtasks then map sub_id (filter open_child (act_subtasks a)) else [])"

definition transition_updated :: "action \<Rightarrow> action_status \<Rightarrow> datetime \<Rightarrow> bool \<Rightarrow> action" where
  "transition_updated a status now complete_open_subtasks =
     a\<lparr>act_status := status,
       act_previous_status := (if status = CANCELED then Some (act_status a) else act_previous_status a),
       act_subtasks := map (\<lambda>s. if sub_id s \<in> set (completed_children a status complete_open_subtasks)
           then s\<lparr>sub_done := True\<rparr> else s) (act_subtasks a),
       act_updated_at := now,
       act_completed_at := (if status = COMPLETED then Some now else None),
       act_canceled_at := (if status = CANCELED then Some now else None),
       act_version := act_version a + 1\<rparr>"

definition transition_plan ::
  "action \<Rightarrow> action_status \<Rightarrow> principal \<Rightarrow> datetime \<Rightarrow> int option \<Rightarrow> bool \<Rightarrow> (work_error, plan) result" where
  "transition_plan a status p now expected complete_open_subtasks =
     bind_r (require_manage p a) (\<lambda>_.
     bind_r (require_version a expected) (\<lambda>_.
     bind_r (guard_r (status \<in> set (allowed_transitions a))
        (ActionConflict (status_value (act_status a) @ '' cannot transition to '' @ status_value status @ ''.''))) (\<lambda>_.
     bind_r (guard_r (status = COMPLETED \<longrightarrow> act_approval_status a \<in> {NOT_REQUIRED, APPROVED})
        (ActionConflict ''Approval is required before completion.'')) (\<lambda>_.
     bind_r (guard_r (status = COMPLETED \<longrightarrow> (\<forall>s\<in>set (act_subtasks a). \<not> open_child s) \<or> complete_open_subtasks)
        (ActionConflict ''Open subtasks remain. Explicitly complete all and finish.'')) (\<lambda>_.
     bind_r (action_post_init (transition_updated a status now complete_open_subtasks)) (\<lambda>updated.
     bind_r (mk_event (act_id a) p ''STATUS_CHANGED'' now
        [(''before'', J_str (status_value (act_status a))), (''after'', J_str (status_value status)),
         (''completed_subtasks'', J_arr (map J_str (completed_children a status complete_open_subtasks)))]) (\<lambda>ev.
     Inr (Store updated ev (Some (act_version a))))))))))"

definition transition ::
  "'r action_repo \<Rightarrow> string \<Rightarrow> action_status \<Rightarrow> principal \<Rightarrow> datetime \<Rightarrow> int option \<Rightarrow> bool \<Rightarrow> 'r
    \<Rightarrow> (work_error, action) result \<times> 'r" where
  "transition ops i status p now expected complete_open r =
     finish ops r (bind_r (svc_get ops r i) (\<lambda>a. transition_plan a status p now expected complete_open))"

section \<open>approval\<close>

definition approval_requester :: "action \<Rightarrow> string" where
  "approval_requester a = first_truthy (act_approval_requested_by a) (act_created_by a)"

definition stripped_comment :: "string option \<Rightarrow> string option" where
  \<comment> \<open>\<open>(comment or "").strip() or None\<close>\<close>
  "stripped_comment comment = (let c = strip (default_to comment []) in if c = [] then None else Some c)"

definition decide_plan ::
  "action \<Rightarrow> approval_status \<Rightarrow> principal \<Rightarrow> datetime \<Rightarrow> int option \<Rightarrow> string option \<Rightarrow> (work_error, plan) result" where
  "decide_plan a decision p now expected comment =
     bind_r (require_version a expected) (\<lambda>_.
     bind_r (guard_r (act_status a \<notin> {COMPLETED, CANCELED})
        (ActionConflict ''Reopen the task before deciding its approval.'')) (\<lambda>_.
     bind_r (guard_r (pr_user_id p \<noteq> approval_requester a)
        (ActionForbidden ''The requester cannot decide their own approval request.'')) (\<lambda>_.
     bind_r (guard_r (act_approval_status a \<in> {PENDING, REQUESTED} \<and> decision \<in> {APPROVED, REJECTED, CHANGES_REQUESTED})
        (ActionConflict ''This Action has no pending approval decision.'')) (\<lambda>_.
     bind_r (guard_r (\<not> (decision \<in> {REJECTED, CHANGES_REQUESTED} \<and> stripped_comment comment = None))
        (ActionConflict ''A comment is required for request changes or reject.'')) (\<lambda>_.
     bind_r (action_post_init (a\<lparr>act_approval_status := decision,
          act_approval_comment := stripped_comment comment,
          act_status := (if decision = CHANGES_REQUESTED then IN_PROGRESS else act_status a),
          act_updated_at := now, act_version := act_version a + 1\<rparr>)) (\<lambda>updated.
     bind_r (mk_event (act_id a) p ''APPROVAL_DECIDED'' now
        [(''before'', J_str (approval_value (act_approval_status a))), (''after'', J_str (approval_value decision)),
         (''comment'', j_opt J_str (act_approval_comment updated)),
         (''work_status_before'', J_str (status_value (act_status a))),
         (''work_status_after'', J_str (status_value (act_status updated)))]) (\<lambda>ev.
     Inr (Store updated ev (Some (act_version a))))))))))"

definition decide_approval ::
  "'r action_repo \<Rightarrow> string \<Rightarrow> approval_status \<Rightarrow> principal \<Rightarrow> datetime \<Rightarrow> int option \<Rightarrow> string option \<Rightarrow> 'r
    \<Rightarrow> (work_error, action) result \<times> 'r" where
  "decide_approval ops i decision p now expected comment r =
     finish ops r (bind_r (require_manager p) (\<lambda>_. bind_r (svc_get ops r i) (\<lambda>a.
       decide_plan a decision p now expected comment)))"

definition request_plan :: "action \<Rightarrow> principal \<Rightarrow> datetime \<Rightarrow> int \<Rightarrow> (work_error, plan) result" where
  "request_plan a p now expected =
     bind_r (guard_r (act_owner_id a = Some (pr_user_id p))
        (ActionForbidden ''Only the task owner can request approval.'')) (\<lambda>_.
     bind_r (require_version a (Some expected)) (\<lambda>_.
     bind_r (guard_r (\<not> (act_status a \<in> {COMPLETED, CANCELED} \<or> act_approval_status a = REQUESTED))
        (ActionConflict ''Approval can only be requested on active work without a pending request.'')) (\<lambda>_.
     bind_r (action_post_init (a\<lparr>act_approval_status := REQUESTED,
          act_approval_requested_by := Some (pr_user_id p), act_approval_comment := None,
          act_updated_at := now, act_version := act_version a + 1\<rparr>)) (\<lambda>updated.
     bind_r (mk_event (act_id a) p ''APPROVAL_REQUESTED'' now
        [(''before'', J_str (approval_value (act_approval_status a))), (''after'', J_str ''REQUESTED'')]) (\<lambda>ev.
     Inr (Store updated ev (Some (act_version a))))))))"

definition request_approval ::
  "'r action_repo \<Rightarrow> string \<Rightarrow> principal \<Rightarrow> datetime \<Rightarrow> int \<Rightarrow> 'r \<Rightarrow> (work_error, action) result \<times> 'r" where
  "request_approval ops i p now expected r =
     finish ops r (bind_r (svc_get ops r i) (\<lambda>a. request_plan a p now expected))"

section \<open>subtasks\<close>

record subtask_changes =
  sc_title_arg :: "string option"
  sc_done_arg :: "bool option"
  sc_due_date_arg :: "date option option"
  sc_owner_id_arg :: "string option option"
  sc_removed_arg :: "bool option"
  sc_other_args :: "string list"  \<comment> \<open>keyword names outside the supported five\<close>

definition changes_json :: "subtask_changes \<Rightarrow> json" where
  "changes_json c = J_obj (
     (case sc_done_arg c of None \<Rightarrow> [] | Some b \<Rightarrow> [(''done'', J_bool b)])
   @ (case sc_due_date_arg c of None \<Rightarrow> [] | Some d \<Rightarrow> [(''due_date'', j_opt (\<lambda>x. J_str (iso_date x)) d)])
   @ (case sc_owner_id_arg c of None \<Rightarrow> [] | Some w \<Rightarrow> [(''owner_id'', j_opt J_str w)])
   @ (case sc_removed_arg c of None \<Rightarrow> [] | Some b \<Rightarrow> [(''removed'', J_bool b)])
   @ (case sc_title_arg c of None \<Rightarrow> [] | Some t \<Rightarrow> [(''title'', J_str t)]))"

definition subtask_json :: "subtask \<Rightarrow> json" where
  "subtask_json s = J_obj [(''id'', J_str (sub_id s)), (''parent_id'', J_str (sub_parent_id s)),
     (''title'', J_str (sub_title s)), (''done'', J_bool (sub_done s)),
     (''due_date'', j_opt (\<lambda>x. J_str (iso_date x)) (sub_due_date s)),
     (''owner_id'', j_opt J_str (sub_owner_id s)), (''removed'', J_bool (sub_removed s))]"

definition subtask_updated :: "subtask \<Rightarrow> subtask_changes \<Rightarrow> subtask" where
  "subtask_updated s c = s\<lparr>sub_title := default_to (sc_title_arg c) (sub_title s),
     sub_done := default_to (sc_done_arg c) (sub_done s),
     sub_due_date := default_to (sc_due_date_arg c) (sub_due_date s),
     sub_owner_id := default_to (sc_owner_id_arg c) (sub_owner_id s),
     sub_removed := default_to (sc_removed_arg c) (sub_removed s)\<rparr>"

definition subtask_new :: "string \<Rightarrow> string \<Rightarrow> subtask_changes \<Rightarrow> (work_error, subtask) result" where
  "subtask_new i parent c =
     (case sc_title_arg c of
        None \<Rightarrow> Inl (WorkInvalid (TypeError ''missing required argument: title''))
      | Some t \<Rightarrow> subtask_post_init \<lparr>sub_id = i, sub_parent_id = parent, sub_title = t,
          sub_done = default_to (sc_done_arg c) False, sub_due_date = default_to (sc_due_date_arg c) None,
          sub_owner_id = default_to (sc_owner_id_arg c) None, sub_removed = default_to (sc_removed_arg c) False\<rparr>)"

definition prior_mutation :: "audit_event list \<Rightarrow> principal \<Rightarrow> string \<Rightarrow> audit_event option" where
  "prior_mutation history p key = first_match (\<lambda>e. ev_actor_id e = pr_user_id p \<and>
     map_of (ev_metadata e) ''idempotency_key'' = Some (J_str key)) history"

definition subtask_plan ::
  "hashing \<Rightarrow> audit_event list \<Rightarrow> action \<Rightarrow> string option \<Rightarrow> principal \<Rightarrow> datetime \<Rightarrow> int \<Rightarrow> string \<Rightarrow> subtask_changes
    \<Rightarrow> (work_error, plan) result" where
  "subtask_plan h history a subtask_id p now expected key c =
     bind_r (require_manage p a) (\<lambda>_.
     bind_r (guard_r (\<not> blank key) (WorkInvalid (ValueError ''Subtask mutations require an idempotency key.''))) (\<lambda>_.
     bind_r (guard_r (sc_other_args c = []) (WorkInvalid (ValueError ''Only one level of subtasks is supported.''))) (\<lambda>_.
     (let fingerprint = h_json h (J_arr [j_opt J_str subtask_id, changes_json c])
      in case prior_mutation history p key of
           Some e \<Rightarrow>
             (if map_of (ev_metadata e) ''fingerprint'' \<noteq> Some (J_str fingerprint)
              then Inl (ActionConflict ''Retry does not match the original subtask mutation.'')
              else Inr (Keep a))
         | None \<Rightarrow>
             bind_r (require_version a (Some expected)) (\<lambda>_.
             bind_r (guard_r (act_status a \<notin> {COMPLETED, CANCELED})
                (ActionConflict ''Reopen the task before editing its subtasks.'')) (\<lambda>_.
             bind_r (if default_to (sc_owner_id_arg c) None \<notin> {None, Some (pr_user_id p)} then require_manager p else Inr ()) (\<lambda>_.
             (let original = first_match (\<lambda>s. Some (sub_id s) = subtask_id) (act_subtasks a)
              in bind_r (guard_r (\<not> (truthy subtask_id \<and> original = None)) (ActionNotFound (default_to subtask_id []))) (\<lambda>_.
                 bind_r (case original of
                     Some s \<Rightarrow> (case sc_owner_id_arg c of
                         Some w \<Rightarrow> if w \<noteq> sub_owner_id s then require_manager p else Inr ()
                       | None \<Rightarrow> Inr ())
                   | None \<Rightarrow> Inr ()) (\<lambda>_.
                 bind_r (case original of
                     Some s \<Rightarrow> subtask_post_init (subtask_updated s c)
                   | None \<Rightarrow> subtask_new (''subtask-'' @ take 20 (h_text h (act_id a @ '':'' @ pr_user_id p @ '':'' @ key)))
                       (act_id a) c) (\<lambda>child.
                 bind_r (action_post_init (a\<lparr>act_subtasks :=
                      (case original of
                         Some _ \<Rightarrow> map (\<lambda>cur. if sub_id cur = sub_id child then child else cur) (act_subtasks a)
                       | None \<Rightarrow> act_subtasks a @ [child]),
                      act_updated_at := now, act_version := act_version a + 1\<rparr>)) (\<lambda>updated.
                 bind_r (mk_event (act_id a) p ''SUBTASK_CHANGED'' now
                    [(''before'', j_opt subtask_json original), (''after'', subtask_json child),
                     (''idempotency_key'', J_str key), (''fingerprint'', J_str fingerprint)]) (\<lambda>ev.
                 Inr (Store updated ev (Some (act_version a))))))))))))))))"

definition change_subtask ::
  "'r action_repo \<Rightarrow> hashing \<Rightarrow> string \<Rightarrow> string option \<Rightarrow> principal \<Rightarrow> datetime \<Rightarrow> int \<Rightarrow> string \<Rightarrow> subtask_changes
    \<Rightarrow> 'r \<Rightarrow> (work_error, action) result \<times> 'r" where
  "change_subtask ops h i subtask_id p now expected key c r =
     finish ops r (bind_r (svc_get ops r i) (\<lambda>a.
       subtask_plan h (repo_history ops r i) a subtask_id p now expected key c))"

section \<open>audit and suggestions\<close>

definition audit :: "'r action_repo \<Rightarrow> string \<Rightarrow> 'r \<Rightarrow> (work_error, audit_event list) result" where
  "audit ops i r = bind_r (svc_get ops r i) (\<lambda>_. Inr (repo_history ops r i))"

definition dismiss_suggestion :: "'r action_repo \<Rightarrow> string \<Rightarrow> principal \<Rightarrow> datetime \<Rightarrow> 'r \<Rightarrow> 'r" where
  "dismiss_suggestion ops sid p now r = repo_dismiss ops r sid (pr_user_id p) now"

end
