(* ===== verification/WorkProofs.thy ===== *)
theory WorkProofs
  imports WorkService
begin

text \<open>
  What the Action workflow guarantees. Each operation's plan keeps the lifecycle invariant of an
  Action; the locale \<open>action_store\<close> states the repository contract the service relies
  on, and its lemmas lift the plans to the store: version numbers count audit events, errors
  change nothing, retries are idempotent. \<open>mem_ops\<close> is the interpretation.
\<close>

section \<open>The lifecycle of one Action\<close>

definition lifecycle_ok :: "action \<Rightarrow> bool" where
  "lifecycle_ok a \<longleftrightarrow>
     (act_status a = COMPLETED \<longrightarrow>
        act_approval_status a \<in> {NOT_REQUIRED, APPROVED} \<and> (\<forall>s\<in>set (act_subtasks a). \<not> open_child s))
   \<and> (act_completed_at a \<noteq> None \<longleftrightarrow> act_status a = COMPLETED)
   \<and> (act_canceled_at a \<noteq> None \<longleftrightarrow> act_status a = CANCELED)
   \<and> (act_status a = CANCELED \<longrightarrow> act_previous_status a \<in> {Some OPEN, Some IN_PROGRESS})"

definition workflow_events :: "string set" where
  "workflow_events = {''CREATED'', ''EDITED'', ''STATUS_CHANGED'', ''APPROVAL_DECIDED'', ''APPROVAL_REQUESTED'',
     ''SUBTASK_CHANGED''}"

text \<open>What a plan may do to the Action it was made for.\<close>

fun step_of :: "action \<Rightarrow> plan \<Rightarrow> bool" where
  "step_of a (Keep b) \<longleftrightarrow> b = a"
| "step_of a (Store u ev v) \<longleftrightarrow> action_ok u \<and> lifecycle_ok u \<and> act_id u = act_id a
     \<and> act_version u = act_version a + 1 \<and> v = Some (act_version a)
     \<and> act_created_by u = act_created_by a \<and> act_source_suggestion_id u = act_source_suggestion_id a
     \<and> ev_action_id ev = act_id a \<and> ev_event ev \<in> workflow_events - {''CREATED''}"

lemma mk_event_Inr [res_simps]:
  "mk_event i p name now md = Inr e \<longleftrightarrow> aware now \<and> e =
     \<lparr>ev_id = None, ev_action_id = i, ev_actor_id = pr_user_id p, ev_event = name, ev_occurred_at = now, ev_metadata = md\<rparr>"
  by (auto simp: mk_event_def res_simps)

lemma apply_change_frame [simp]:
  "act_id (apply_change c a) = act_id a" "act_version (apply_change c a) = act_version a"
  "act_status (apply_change c a) = act_status a" "act_approval_status (apply_change c a) = act_approval_status a"
  "act_subtasks (apply_change c a) = act_subtasks a" "act_completed_at (apply_change c a) = act_completed_at a"
  "act_canceled_at (apply_change c a) = act_canceled_at a" "act_previous_status (apply_change c a) = act_previous_status a"
  "act_created_by (apply_change c a) = act_created_by a"
  "act_source_suggestion_id (apply_change c a) = act_source_suggestion_id a"
  by (cases c; simp)+

lemma apply_changes_frame [simp]:
  "act_id (fold apply_change cs a) = act_id a" "act_version (fold apply_change cs a) = act_version a"
  "act_status (fold apply_change cs a) = act_status a"
  "act_approval_status (fold apply_change cs a) = act_approval_status a"
  "act_subtasks (fold apply_change cs a) = act_subtasks a"
  "act_completed_at (fold apply_change cs a) = act_completed_at a"
  "act_canceled_at (fold apply_change cs a) = act_canceled_at a"
  "act_previous_status (fold apply_change cs a) = act_previous_status a"
  "act_created_by (fold apply_change cs a) = act_created_by a"
  "act_source_suggestion_id (fold apply_change cs a) = act_source_suggestion_id a"
  by (induction cs arbitrary: a; simp)+

lemma edit_plan_step:
  assumes "edit_plan a p now expected c = Inr pl" "lifecycle_ok a"
  shows "step_of a pl"
  using assms
  by (auto simp: edit_plan_def res_simps Let_def workflow_events_def lifecycle_ok_def split: if_splits)

lemma transition_updated_closed:
  assumes "\<forall>s\<in>set (act_subtasks a). \<not> open_child s \<or> fin"
  shows "\<forall>s\<in>set (act_subtasks (transition_updated a COMPLETED now fin)). \<not> open_child s"
  using assms by (auto simp: transition_updated_def completed_children_def open_child_def)

lemma transition_plan_Inr:
  "transition_plan a status p now expected fin = Inr pl \<longleftrightarrow>
     may_manage p a \<and> (case expected of None \<Rightarrow> True | Some v \<Rightarrow> act_version a = v)
     \<and> status \<in> set (allowed_transitions a)
     \<and> (status = COMPLETED \<longrightarrow> act_approval_status a \<in> {NOT_REQUIRED, APPROVED})
     \<and> (status = COMPLETED \<longrightarrow> (\<forall>s\<in>set (act_subtasks a). \<not> open_child s) \<or> fin)
     \<and> action_ok (transition_updated a status now fin) \<and> aware now
     \<and> pl = Store (transition_updated a status now fin)
          \<lparr>ev_id = None, ev_action_id = act_id a, ev_actor_id = pr_user_id p, ev_event = ''STATUS_CHANGED'',
           ev_occurred_at = now, ev_metadata =
             [(''before'', J_str (status_value (act_status a))), (''after'', J_str (status_value status)),
              (''completed_subtasks'', J_arr (map J_str (completed_children a status fin)))]\<rparr> (Some (act_version a))"
  unfolding transition_plan_def res_simps by blast

lemma transition_plan_step:
  assumes "transition_plan a status p now expected fin = Inr pl" "lifecycle_ok a"
  shows "step_of a pl"
proof -
  let ?u = "transition_updated a status now fin"
  note t = assms(1)[unfolded transition_plan_Inr]
  have "\<forall>s\<in>set (act_subtasks ?u). \<not> open_child s" if "status = COMPLETED"
    using transition_updated_closed[of a fin now] t that by blast
  moreover have "act_status a \<in> {OPEN, IN_PROGRESS}" if "status = CANCELED"
    using t that assms(2) by (auto simp: allowed_transitions_def lifecycle_ok_def split: action_status.splits option.splits)
  ultimately have "lifecycle_ok ?u"
    using t unfolding lifecycle_ok_def by (auto simp: transition_updated_def)
  then show ?thesis using t by (simp add: workflow_events_def) (simp add: transition_updated_def)
qed

lemma decide_plan_step:
  assumes "decide_plan a d p now expected comment = Inr pl" "lifecycle_ok a"
  shows "step_of a pl"
  using assms by (auto simp: decide_plan_def res_simps lifecycle_ok_def workflow_events_def)

lemma request_plan_step:
  assumes "request_plan a p now expected = Inr pl" "lifecycle_ok a"
  shows "step_of a pl"
  using assms by (auto simp: request_plan_def res_simps lifecycle_ok_def workflow_events_def)

lemma subtask_plan_step:
  assumes "subtask_plan h hist a sid p now expected key c = Inr pl" "lifecycle_ok a"
  shows "step_of a pl"
  using assms
  by (auto simp: subtask_plan_def res_simps lifecycle_ok_def workflow_events_def Let_def split: option.splits if_splits)

section \<open>The repository contract\<close>

definition stored :: "'r action_repo \<Rightarrow> 'r \<Rightarrow> action \<Rightarrow> audit_event \<Rightarrow> 'r \<Rightarrow> bool" where
  \<comment> \<open>\<open>r'\<close> is \<open>r\<close> with \<open>u\<close> stored under its id and \<open>e\<close> appended to its history\<close>
  "stored ops r u e r' \<longleftrightarrow>
     (\<forall>i. repo_get ops r' i = (if i = act_id u then Some u else repo_get ops r i))
   \<and> (\<forall>i. repo_history ops r' i = (if i = act_id u then repo_history ops r i @ [e] else repo_history ops r i))"

locale action_store =
  fixes ops :: "'r action_repo"
    and inv :: "'r \<Rightarrow> bool"
  assumes save_existing:
    "\<lbrakk>inv r; repo_get ops r (act_id u) = Some a; ev_action_id e = act_id u\<rbrakk> \<Longrightarrow>
     \<exists>r'. repo_save ops r u e (Some (act_version a)) = (Inr u, r') \<and> inv r' \<and> stored ops r u e r'"
    and save_new:
    "\<lbrakk>inv r; repo_get ops r (act_id u) = None; ev_action_id e = act_id u\<rbrakk> \<Longrightarrow>
     \<exists>r'. repo_save ops r u e None = (Inr u, r') \<and> inv r' \<and> stored ops r u e r'"
    and get_id: "\<lbrakk>inv r; repo_get ops r i = Some a\<rbrakk> \<Longrightarrow> act_id a = i"
    and history_absent: "\<lbrakk>inv r; repo_get ops r i = None\<rbrakk> \<Longrightarrow> repo_history ops r i = []"
    and suggestion_sound: "\<lbrakk>inv r; repo_by_suggestion ops r s = Some a\<rbrakk> \<Longrightarrow>
       repo_get ops r (act_id a) = Some a \<and> act_source_suggestion_id a = Some s"
    and suggestion_complete: "\<lbrakk>inv r; repo_get ops r i = Some a; act_source_suggestion_id a = Some s\<rbrakk> \<Longrightarrow>
       repo_by_suggestion ops r s \<noteq> None"
    and list_sound: "inv r \<Longrightarrow> set (repo_list ops r) = {a. repo_get ops r (act_id a) = Some a}"
    and dismiss_frame: "inv r \<Longrightarrow> inv (repo_dismiss ops r s p t)
       \<and> repo_get ops (repo_dismiss ops r s p t) = repo_get ops r
       \<and> repo_history ops (repo_dismiss ops r s p t) = repo_history ops r"
begin

definition mutations :: "'r \<Rightarrow> string \<Rightarrow> nat" where
  "mutations r i = length (filter (\<lambda>e. ev_event e \<in> workflow_events) (repo_history ops r i))"

definition store_ok :: "'r \<Rightarrow> bool" where
  "store_ok r \<longleftrightarrow> inv r \<and> (\<forall>i a. repo_get ops r i = Some a \<longrightarrow>
     action_ok a \<and> lifecycle_ok a \<and> act_version a = int (mutations r i))"

lemma store_okD: "store_ok r \<Longrightarrow> repo_get ops r i = Some a \<Longrightarrow>
    inv r \<and> act_id a = i \<and> action_ok a \<and> lifecycle_ok a \<and> act_version a = int (mutations r i)"
  by (auto simp: store_ok_def get_id)

text \<open>Every operation but creation ends in \<open>finish\<close>; these two facts serve all of them.\<close>

lemma finish_ok:
  assumes ok: "store_ok r" and a: "repo_get ops r i = Some a" and step: "m = Inr pl \<Longrightarrow> step_of a pl"
    and m: "m = Inl e \<or> m = Inr pl"
  shows "store_ok (snd (finish ops r m))"
proof (cases m)
  case (Inl e')
  then show ?thesis using ok by (simp add: finish_def)
next
  case (Inr pl')
  then have pl: "m = Inr pl" using m by auto
  show ?thesis
  proof (cases pl)
    case (Keep b)
    then show ?thesis using ok pl by (simp add: finish_def)
  next
    case (Store u ev v)
    note A = store_okD[OF ok a]
    have s: "action_ok u" "lifecycle_ok u" "act_id u = i" "act_version u = act_version a + 1"
      "v = Some (act_version a)" "ev_action_id ev = act_id u" "ev_event ev \<in> workflow_events"
      using step[OF pl] A unfolding Store by auto
    obtain r' where r': "repo_save ops r u ev v = (Inr u, r')" "inv r'" "stored ops r u ev r'"
      using save_existing[of r u a ev] A a s by auto
    have "store_ok r'" unfolding store_ok_def
    proof (intro conjI allI impI r'(2))
      fix j b
      assume b: "repo_get ops r' j = Some b"
      show "action_ok b" "lifecycle_ok b" "act_version b = int (mutations r' j)"
        using b r'(3) s A store_okD[OF ok, of j b] by (auto simp: stored_def mutations_def split: if_splits)
    qed
    then show ?thesis using r' pl Store by (simp add: finish_def)
  qed
qed

lemma finish_error:
  assumes ok: "store_ok r" and a: "repo_get ops r i = Some a" and step: "\<And>pl. m = Inr pl \<Longrightarrow> step_of a pl"
    and err: "fst (finish ops r m) = Inl e"
  shows "snd (finish ops r m) = r"
proof (cases m)
  case (Inl e')
  then show ?thesis by (simp add: finish_def)
next
  case (Inr pl)
  show ?thesis
  proof (cases pl)
    case (Keep b)
    then show ?thesis using Inr by (simp add: finish_def)
  next
    case (Store u ev v)
    have "\<exists>r'. repo_save ops r u ev v = (Inr u, r')"
      using step[OF Inr] save_existing[of r u a ev] store_okD[OF ok a] a unfolding Store by auto
    then show ?thesis using err Inr Store by (auto simp: finish_def)
  qed
qed

text \<open>What a successful operation leaves in the store.\<close>

lemma finish_stored:
  assumes ok: "store_ok r" and a: "repo_get ops r i = Some a" and step: "step_of a (Store u ev v)"
  shows "\<exists>r'. finish ops r (Inr (Store u ev v)) = (Inr u, r') \<and> stored ops r u ev r'"
  using step save_existing[of r u a ev] store_okD[OF ok a] a by (auto simp: finish_def)

text \<open>An operation on an existing Action, as a plan: the shape shared by the five mutations.\<close>

lemma planned_ok:
  assumes ok: "store_ok r" and step: "\<And>a pl. lifecycle_ok a \<Longrightarrow> f a = Inr pl \<Longrightarrow> step_of a pl"
  shows "store_ok (snd (finish ops r (bind_r (svc_get ops r i) f)))"
proof (cases "repo_get ops r i")
  case None
  then show ?thesis using ok by (simp add: finish_def svc_get_def)
next
  case (Some a)
  then have g: "bind_r (svc_get ops r i) f = f a" by (simp add: svc_get_def)
  show ?thesis
  proof (cases "f a")
    case (Inl e)
    then show ?thesis using ok g by (simp add: finish_def)
  next
    case (Inr pl)
    have "step_of a pl" using step Inr store_okD[OF ok Some] by blast
    then show ?thesis unfolding g using finish_ok[OF ok Some, of "f a" pl] Inr by simp
  qed
qed

lemma planned_error:
  assumes ok: "store_ok r" and step: "\<And>a pl. lifecycle_ok a \<Longrightarrow> f a = Inr pl \<Longrightarrow> step_of a pl"
    and err: "finish ops r (bind_r (svc_get ops r i) f) = (Inl e, r')"
  shows "r' = r"
proof (cases "repo_get ops r i")
  case None
  then show ?thesis using err by (simp add: finish_def svc_get_def)
next
  case (Some a)
  then have g: "bind_r (svc_get ops r i) f = f a" by (simp add: svc_get_def)
  have "snd (finish ops r (f a)) = r"
    by (rule finish_error[OF ok Some, where e = e]) (use step store_okD[OF ok Some] err g in auto)
  then show ?thesis using err g by simp
qed


section \<open>Creation\<close>

lemma create_decide_Insert:
  assumes "create_decide ops h c p r = Inr (Insert a ev)"
  shows "a = new_action h c p \<and> action_ok a \<and> repo_get ops r (act_id a) = None
     \<and> ev_action_id ev = act_id a \<and> ev_event ev = ''CREATED''
     \<and> (truthy (ca_source_suggestion_id c) \<longrightarrow> repo_by_suggestion ops r (the (ca_source_suggestion_id c)) = None)
     \<and> map_of (ev_metadata ev) ''creation_fingerprint'' = map_option J_str (create_fingerprint_of h c p)"
  using assms unfolding create_decide_def
  by (auto simp: res_simps Let_def new_action_def split: option.splits if_splits)

lemma create_decide_Existing:
  assumes "create_decide ops h c p r = Inr (Existing a)"
  shows "may_manage p a"
  using assms unfolding create_decide_def creation_replay_def
  by (auto simp: res_simps Let_def split: option.splits if_splits)


lemma new_action_fields [simp]:
  "act_account_id (new_action h c p) = ca_account_id c" "act_created_by (new_action h c p) = pr_user_id p"
  "act_source_suggestion_id (new_action h c p) = ca_source_suggestion_id c"
  "act_id (new_action h c p) = scoped_identifier h c p" "act_version (new_action h c p) = 1"
  "lifecycle_ok (new_action h c p)" "may_manage p (new_action h c p)"
  by (simp_all add: new_action_def lifecycle_ok_def may_manage_def)

lemma replay_of_recorded:
  assumes "may_manage p a" "repo_history ops r (act_id a) = [ev]" "ev_event ev = ''CREATED''"
    and "map_of (ev_metadata ev) ''creation_fingerprint'' = map_option J_str fp"
  shows "creation_replay ops h r a p fp = Inr a"
  using assms by (cases fp) (auto simp: creation_replay_def recorded_fingerprint_def require_manage_Inr bind_r_Inr Let_def)

text \<open>A creation that inserts stores exactly the new Action and its CREATED event, and returns it.\<close>

lemma create_inserts:
  assumes ok: "store_ok r" and d: "create_decide ops h c (create_principal tenant c) r = Inr (Insert a ev)"
  shows "\<exists>r'. create ops h tenant c r = (Inr a, r') \<and> stored ops r a ev r' \<and> store_ok r'
     \<and> (\<forall>fp. fp = create_fingerprint_of h c (create_principal tenant c) \<longrightarrow>
           creation_replay ops h r' a (create_principal tenant c) fp = Inr a)"
proof -
  let ?p = "create_principal tenant c"
  note D = create_decide_Insert[OF d]
  have inv: "inv r" using ok by (simp add: store_ok_def)
  obtain r' where r': "repo_save ops r a ev None = (Inr a, r')" "inv r'" "stored ops r a ev r'"
    using save_new[OF inv, of a ev] D by auto
  have "repo_history ops r (act_id a) = []" using history_absent[OF inv] D by blast
  then have hist: "repo_history ops r' (act_id a) = [ev]"
    using r'(3) unfolding stored_def by (metis append_Nil)
  have replay: "creation_replay ops h r' a ?p (create_fingerprint_of h c ?p) = Inr a"
    by (rule replay_of_recorded[OF _ hist]) (use D in auto)
  have "store_ok r'" unfolding store_ok_def
  proof (intro conjI allI impI r'(2))
    fix j b
    assume b: "repo_get ops r' j = Some b"
    show "action_ok b" "lifecycle_ok b" "act_version b = int (mutations r' j)"
      using b r'(3) D hist store_okD[OF ok, of j b]
      by (auto simp: stored_def mutations_def workflow_events_def split: if_splits)
  qed
  then show ?thesis using r' replay d D by (auto simp: create_def Let_def)
qed

lemma create_ok: "store_ok r \<Longrightarrow> store_ok (snd (create ops h tenant c r))"
proof (cases "create_decide ops h c (create_principal tenant c) r")
  case (Inr st)
  assume ok: "store_ok r"
  show ?thesis
  proof (cases st)
    case (Insert a ev)
    then show ?thesis using create_inserts[OF ok, of h c tenant a ev] Inr by auto
  qed (use ok Inr in \<open>simp add: create_def Let_def\<close>)
qed (simp add: create_def Let_def)

lemma create_error_frame:
  assumes ok: "store_ok r" and e: "create ops h tenant c r = (Inl e, r')"
  shows "r' = r"
proof (cases "create_decide ops h c (create_principal tenant c) r")
  case (Inr st)
  then show ?thesis using e create_inserts[OF ok, of h c tenant] by (cases st) (force simp: create_def Let_def)+
qed (use e in \<open>simp add: create_def Let_def\<close>)

lemma create_idempotent:
  assumes ok: "store_ok r" and c: "create ops h tenant c r = (Inr a, r')"
  shows "create ops h tenant c r' = (Inr a, r')"
proof -
  let ?p = "create_principal tenant c"
  obtain st where st: "create_decide ops h c ?p r = Inr st"
    using c by (cases "create_decide ops h c ?p r") (auto simp: create_def Let_def)
  show ?thesis
  proof (cases st)
    case (Existing b)
    then show ?thesis using c st by (auto simp: create_def Let_def)
  next
    case (Insert b ev)
    note I = st[unfolded Insert]
    obtain r'' where r'': "create ops h tenant c r = (Inr b, r'')" "stored ops r b ev r''" "store_ok r''"
      "creation_replay ops h r'' b ?p (create_fingerprint_of h c ?p) = Inr b"
      using create_inserts[OF ok I] by auto
    then have [simp]: "b = a" "r'' = r'" using c by auto
    note D = create_decide_Insert[OF I]
    have inv: "inv r" "inv r'" using ok r''(3) by (simp_all add: store_ok_def)
    have get: "repo_get ops r' i = (if i = act_id a then Some a else repo_get ops r i)" for i
      using r''(2) by (simp add: stored_def)
    have sugg: "repo_by_suggestion ops r' (the (ca_source_suggestion_id c)) = Some a"
      if t: "truthy (ca_source_suggestion_id c)"
    proof -
      obtain s where s: "ca_source_suggestion_id c = Some s" using t by (cases "ca_source_suggestion_id c") auto
      obtain x where x: "repo_by_suggestion ops r' s = Some x"
        using suggestion_complete[OF inv(2), of "act_id a" a s] get D s by auto
      then have xs: "repo_get ops r' (act_id x) = Some x" "act_source_suggestion_id x = Some s"
        using suggestion_sound[OF inv(2)] by auto
      then have "x = a"
        using get[of "act_id x"] suggestion_complete[OF inv(1), of "act_id x" x s] D t s
        by (auto split: if_splits)
      then show ?thesis using x s by simp
    qed
    have "create_decide ops h c ?p r' = Inr (Existing a)"
      using I sugg r''(4) get D unfolding create_decide_def
      by (auto simp: bind_r_Inr require_manage_Inr Let_def split: option.splits if_splits)
    then show ?thesis by (simp add: create_def Let_def)
  qed
qed

end

section \<open>Runs of the service\<close>

datatype work_op =
    Op_create create_args
  | Op_edit string principal datetime "int option" edit_changes
  | Op_transition string action_status principal datetime "int option" bool
  | Op_decide string approval_status principal datetime "int option" "string option"
  | Op_request string principal datetime int
  | Op_subtask string "string option" principal datetime int string subtask_changes

fun exec_op :: "'r action_repo \<Rightarrow> hashing \<Rightarrow> string option \<Rightarrow> work_op \<Rightarrow> 'r \<Rightarrow> (work_error, action) result \<times> 'r" where
  "exec_op ops h tenant (Op_create c) r = create ops h tenant c r"
| "exec_op ops h tenant (Op_edit i p now v c) r = edit ops i p now v c r"
| "exec_op ops h tenant (Op_transition i s p now v f) r = transition ops i s p now v f r"
| "exec_op ops h tenant (Op_decide i d p now v c) r = decide_approval ops i d p now v c r"
| "exec_op ops h tenant (Op_request i p now v) r = request_approval ops i p now v r"
| "exec_op ops h tenant (Op_subtask i sid p now v key c) r = change_subtask ops h i sid p now v key c r"

inductive work_step :: "'r action_repo \<Rightarrow> hashing \<Rightarrow> string option \<Rightarrow> 'r \<Rightarrow> 'r \<Rightarrow> bool"
  for ops :: "'r action_repo" and h tenant where
  step_op: "exec_op ops h tenant op r = (res, r') \<Longrightarrow> work_step ops h tenant r r'"
| step_dismiss: "work_step ops h tenant r (dismiss_suggestion ops s p now r)"

inductive work_reachable :: "'r action_repo \<Rightarrow> hashing \<Rightarrow> string option \<Rightarrow> 'r \<Rightarrow> 'r \<Rightarrow> bool"
  for ops :: "'r action_repo" and h tenant r0 where
  reach_start: "work_reachable ops h tenant r0 r0"
| reach_step: "work_reachable ops h tenant r0 r \<Longrightarrow> work_step ops h tenant r r' \<Longrightarrow> work_reachable ops h tenant r0 r'"

lemma planned_manager:
  "finish ops r (bind_r (require_manager p) (\<lambda>_. m)) = (case require_manager p of Inl e \<Rightarrow> (Inl e, r) | Inr _ \<Rightarrow> finish ops r m)"
  by (simp add: finish_def split: sum.splits)

context action_store begin

lemma exec_op_ok: "store_ok r \<Longrightarrow> store_ok (snd (exec_op ops h tenant op r))"
proof (cases op)
  case (Op_subtask i sid p now v key c)
  assume ok: "store_ok r"
  show ?thesis unfolding Op_subtask exec_op.simps change_subtask_def
    by (rule planned_ok[OF ok]) (rule subtask_plan_step)
next
  case (Op_decide i d p now v c)
  assume ok: "store_ok r"
  have "store_ok (snd (finish ops r (bind_r (svc_get ops r i) (\<lambda>a. decide_plan a d p now v c))))"
    by (rule planned_ok[OF ok]) (rule decide_plan_step)
  then show ?thesis using ok unfolding Op_decide exec_op.simps decide_approval_def planned_manager
    by (simp split: sum.splits)
next
  case (Op_edit i p now v c)
  assume ok: "store_ok r"
  show ?thesis unfolding Op_edit exec_op.simps edit_def by (rule planned_ok[OF ok]) (rule edit_plan_step)
next
  case (Op_transition i s p now v f)
  assume ok: "store_ok r"
  show ?thesis unfolding Op_transition exec_op.simps transition_def
    by (rule planned_ok[OF ok]) (rule transition_plan_step)
next
  case (Op_request i p now v)
  assume ok: "store_ok r"
  show ?thesis unfolding Op_request exec_op.simps request_approval_def
    by (rule planned_ok[OF ok]) (rule request_plan_step)
qed (simp add: create_ok)

lemma exec_op_error:
  assumes ok: "store_ok r" and err: "exec_op ops h tenant op r = (Inl e, r')"
  shows "r' = r"
proof (cases op)
  case (Op_create c)
  then show ?thesis using err create_error_frame[OF ok] by simp
next
  case (Op_edit i p now v c)
  show ?thesis by (rule planned_error[OF ok _ err[unfolded Op_edit exec_op.simps edit_def]]) (rule edit_plan_step)
next
  case (Op_transition i s p now v f)
  show ?thesis
    by (rule planned_error[OF ok _ err[unfolded Op_transition exec_op.simps transition_def]]) (rule transition_plan_step)
next
  case (Op_decide i d p now v c)
  note e = err[unfolded Op_decide exec_op.simps decide_approval_def planned_manager]
  show ?thesis
  proof (cases "require_manager p")
    case (Inr u)
    have f: "finish ops r (bind_r (svc_get ops r i) (\<lambda>a. decide_plan a d p now v c)) = (Inl e, r')" using e Inr by simp
    show ?thesis by (rule planned_error[OF ok _ f]) (rule decide_plan_step)
  qed (use e in simp)
next
  case (Op_request i p now v)
  show ?thesis
    by (rule planned_error[OF ok _ err[unfolded Op_request exec_op.simps request_approval_def]]) (rule request_plan_step)
next
  case (Op_subtask i sid p now v key c)
  show ?thesis
    by (rule planned_error[OF ok _ err[unfolded Op_subtask exec_op.simps change_subtask_def]]) (rule subtask_plan_step)
qed

lemma work_step_ok: "work_step ops h tenant r r' \<Longrightarrow> store_ok r \<Longrightarrow> store_ok r'"
proof (induction rule: work_step.induct)
  case (step_op op r res r')
  then show ?case using exec_op_ok[of r h tenant op] by simp
next
  case (step_dismiss r s p now)
  then show ?case using dismiss_frame[of r s "pr_user_id p" now]
    by (auto simp: dismiss_suggestion_def store_ok_def mutations_def)
qed

lemma reachable_ok: "work_reachable ops h tenant r0 r \<Longrightarrow> store_ok r0 \<Longrightarrow> store_ok r"
  by (induction rule: work_reachable.induct) (auto intro: work_step_ok)

text \<open>A repeated subtask mutation with the same retry key changes nothing.\<close>

lemma subtask_idempotent:
  assumes ok: "store_ok r" and c: "change_subtask ops h i sid p now v key chg r = (Inr u, r')"
  shows "change_subtask ops h i sid p now v key chg r' = (Inr u, r')"
proof -
  obtain a where a: "repo_get ops r i = Some a"
    using c by (cases "repo_get ops r i") (auto simp: change_subtask_def finish_def svc_get_def)
  define m where "m = subtask_plan h (repo_history ops r i) a sid p now v key chg"
  have f: "finish ops r m = (Inr u, r')" using c a by (simp add: change_subtask_def svc_get_def m_def)
  obtain pl where pl: "m = Inr pl" using f by (cases m) (auto simp: finish_def)
  have st: "step_of a pl" using subtask_plan_step pl store_okD[OF ok a] unfolding m_def by blast
  show ?thesis
  proof (cases pl)
    case (Keep b)
    then have "r' = r" using f pl by (simp add: finish_def)
    then show ?thesis using c by simp
  next
    case (Store w ev ver)
    note P = pl[unfolded Store]
    have w: "w = u" "stored ops r u ev r'"
      using finish_stored[OF ok a st[unfolded Store]] f P by auto
    have id: "act_id u = i" using st Store w store_okD[OF ok a] by simp
    have get: "repo_get ops r' i = Some u" and hist: "repo_history ops r' i = repo_history ops r i @ [ev]"
      using w(2) id by (simp_all add: stored_def)
    have facts: "may_manage p u" "\<not> blank key" "sc_other_args chg = []"
      "prior_mutation (repo_history ops r i) p key = None" "ev_actor_id ev = pr_user_id p"
      "map_of (ev_metadata ev) ''idempotency_key'' = Some (J_str key)"
      "map_of (ev_metadata ev) ''fingerprint'' = Some (J_str (h_json h (J_arr [j_opt J_str sid, changes_json chg])))"
      using P w(1) unfolding m_def subtask_plan_def
      by (auto simp: res_simps Let_def may_manage_def split: option.splits if_splits)
    have "prior_mutation (repo_history ops r' i) p key = Some ev"
      using facts(4,5,6) unfolding hist prior_mutation_def by (intro first_match_snoc) auto
    then have "subtask_plan h (repo_history ops r' i) u sid p now v key chg = Inr (Keep u)"
      using facts by (simp add: subtask_plan_def bind_r_Inr require_manage_Inr guard_r_Inr Let_def)
    then show ?thesis by (simp add: change_subtask_def svc_get_def get finish_def)
  qed
qed

end

section \<open>The in-memory repository keeps the contract\<close>

definition mem_inv :: "mem_repo \<Rightarrow> bool" where
  "mem_inv r \<longleftrightarrow> dict_wf (mem_items r) \<and> (\<forall>k a. dget (mem_items r) k = Some a \<longrightarrow> act_id a = k)
     \<and> (\<forall>e\<in>set (mem_events r). dget (mem_items r) (ev_action_id e) \<noteq> None)"

lemma mem_inv_init: "mem_inv mem_init"
  by (simp add: mem_inv_def mem_init_def dict_simps)

lemma mem_ops_simps [simp]:
  "repo_get mem_ops = mem_get" "repo_by_suggestion mem_ops = mem_by_suggestion" "repo_list mem_ops = mem_list"
  "repo_save mem_ops = mem_save" "repo_history mem_ops = mem_history" "repo_dismiss mem_ops = mem_dismiss"
  "repo_dismissed mem_ops = mem_dismissed_suggestions"
  by (simp_all add: mem_ops_def)

lemma mem_save_stored:
  assumes "mem_inv r" "ev_action_id e = act_id u"
    and "expected = None \<or> (\<exists>a. mem_get r (act_id u) = Some a \<and> expected = Some (act_version a))"
  shows "\<exists>r'. mem_save r u e expected = (Inr u, r') \<and> mem_inv r' \<and> stored mem_ops r u e r'"
  using assms by (auto simp: mem_save_def mem_get_def mem_inv_def stored_def mem_history_def dict_simps)

lemma mem_values_iff: "mem_inv r \<Longrightarrow> a \<in> set (mem_list r) \<longleftrightarrow> mem_get r (act_id a) = Some a"
  by (auto simp: mem_list_def mem_get_def mem_inv_def dvalues_dget)

interpretation mem: action_store mem_ops mem_inv
proof
  fix r and e :: audit_event and u a :: action
  assume "mem_inv r" "repo_get mem_ops r (act_id u) = Some a" "ev_action_id e = act_id u"
  then show "\<exists>r'. repo_save mem_ops r u e (Some (act_version a)) = (Inr u, r') \<and> mem_inv r' \<and> stored mem_ops r u e r'"
    using mem_save_stored[of r e u "Some (act_version a)"] by simp
next
  fix r and e :: audit_event and u :: action
  assume "mem_inv r" "ev_action_id e = act_id u"
  then show "\<exists>r'. repo_save mem_ops r u e None = (Inr u, r') \<and> mem_inv r' \<and> stored mem_ops r u e r'"
    using mem_save_stored[of r e u None] by simp
next
  fix r i and a :: action
  assume "mem_inv r" "repo_get mem_ops r i = Some a"
  then show "act_id a = i" by (simp add: mem_inv_def mem_get_def)
next
  fix r i
  assume "mem_inv r" "repo_get mem_ops r i = None"
  then show "repo_history mem_ops r i = []" by (auto simp: mem_inv_def mem_get_def mem_history_def filter_empty_conv)
next
  fix r s and a :: action
  assume "mem_inv r" "repo_by_suggestion mem_ops r s = Some a"
  then show "repo_get mem_ops r (act_id a) = Some a \<and> act_source_suggestion_id a = Some s"
    using mem_values_iff[of r a]
    by (auto simp: mem_by_suggestion_def mem_list_def dest: first_match_Some)
next
  fix r i s and a :: action
  assume "mem_inv r" "repo_get mem_ops r i = Some a" "act_source_suggestion_id a = Some s"
  moreover from this have "act_id a = i" by (simp add: mem_inv_def mem_get_def)
  ultimately show "repo_by_suggestion mem_ops r s \<noteq> None"
    using mem_values_iff[of r a] by (auto simp: mem_by_suggestion_def mem_list_def)
next
  fix r
  assume "mem_inv r"
  then show "set (repo_list mem_ops r) = {a. repo_get mem_ops r (act_id a) = Some a}"
    by (auto simp: mem_values_iff)
next
  fix r s p t
  assume "mem_inv r"
  then show "mem_inv (repo_dismiss mem_ops r s p t)
       \<and> repo_get mem_ops (repo_dismiss mem_ops r s p t) = repo_get mem_ops r
       \<and> repo_history mem_ops (repo_dismiss mem_ops r s p t) = repo_history mem_ops r"
    by (auto simp: mem_dismiss_def mem_inv_def mem_get_def mem_history_def fun_eq_iff)
qed

lemma mem_init_ok: "mem.store_ok mem_init"
  unfolding mem.store_ok_def using mem_inv_init by (simp add: mem_get_def) (simp add: mem_init_def)

lemma mem_reachable_ok: "work_reachable mem_ops h tenant mem_init r \<Longrightarrow> mem.store_ok r"
  by (erule mem.reachable_ok) (rule mem_init_ok)

inductive_cases work_step_cases: "work_step ops h tenant r r'"

end
