(* ===== verification/Json_Read.thy ===== *)
theory Json_Read
  imports Core
begin

text \<open>
  Reading untyped values the way the code does: \<open>dict.get\<close> with its default, the truth of a
  value, \<open>x or y\<close>, and \<open>Decimal(str(x))\<close>. A Python value that the code only
  inspects is a \<^typ>\<open>json\<close>; an absent key or attribute is \<open>J_null\<close>.
\<close>

section \<open>Truth and access\<close>

fun py_truth :: "json \<Rightarrow> bool" where
  "py_truth J_null = False"
| "py_truth (J_bool b) = b"
| "py_truth (J_int i) = (i \<noteq> 0)"
| "py_truth (J_num q) = (q \<noteq> 0)"
| "py_truth (J_str s) = (s \<noteq> [])"
| "py_truth (J_arr xs) = (xs \<noteq> [])"
| "py_truth (J_obj kvs) = (kvs \<noteq> [])"

definition j_read :: "json \<Rightarrow> string \<Rightarrow> json" where
  \<comment> \<open>\<open>(d or {}).get(key)\<close>\<close>
  "j_read d k = (case j_get d k of None \<Rightarrow> J_null | Some v \<Rightarrow> v)"

definition j_or :: "json \<Rightarrow> json \<Rightarrow> json" where
  "j_or a b = (if py_truth a then a else b)"

fun j_items :: "json \<Rightarrow> json list" where
  \<comment> \<open>\<open>tuple(x or ())\<close>\<close>
  "j_items (J_arr xs) = xs"
| "j_items _ = []"

fun j_text :: "json \<Rightarrow> string option" where
  "j_text (J_str s) = Some s"
| "j_text _ = None"

fun j_bool :: "json \<Rightarrow> bool option" where
  \<comment> \<open>\<open>x if type(x) is bool else None\<close>\<close>
  "j_bool (J_bool b) = Some b"
| "j_bool _ = None"

lemma j_read_simps [simp]:
  "j_read J_null k = J_null" "j_read (J_obj []) k = J_null"
  "j_read (J_obj ((k', v) # kvs)) k = (if k = k' then v else j_read (J_obj kvs) k)"
  by (simp_all add: j_read_def)

section \<open>Decimal literals\<close>

definition is_digit :: "char \<Rightarrow> bool" where
  "is_digit c = (let n = of_char c :: nat in 48 \<le> n \<and> n \<le> 57)"

definition digits_value :: "string \<Rightarrow> nat" where
  "digits_value s = foldl (\<lambda>acc c. acc * 10 + (of_char c - 48)) 0 s"

definition split_sign :: "string \<Rightarrow> bool \<times> string" where
  "split_sign s = (case s of
       c # cs \<Rightarrow> (if c = CHR ''-'' then (True, cs) else if c = CHR ''+'' then (False, cs) else (False, s))
     | [] \<Rightarrow> (False, []))"

definition parse_exponent :: "string \<Rightarrow> int option" where
  "parse_exponent s = (case s of [] \<Rightarrow> Some 0
     | c # cs \<Rightarrow> (case split_sign cs of (neg, ds) \<Rightarrow>
         if ds = [] \<or> \<not> list_all is_digit ds then None
         else Some (if neg then - int (digits_value ds) else int (digits_value ds))))"

text \<open>
  \<open>Decimal(text)\<close> for finite literals: surrounding space and underscores are dropped, then
  sign, digits with an optional point, and an optional exponent. \<open>None\<close> is an
  \<open>InvalidOperation\<close> or a NaN or an infinity.
\<close>

definition parse_decimal :: "string \<Rightarrow> decimal option" where
  "parse_decimal text =
     (case split_sign (filter (\<lambda>c. c \<noteq> CHR ''_'') (strip text)) of (neg, s) \<Rightarrow>
        let mant = takeWhile (\<lambda>c. c \<noteq> CHR ''e'' \<and> c \<noteq> CHR ''E'') s;
            ex = parse_exponent (dropWhile (\<lambda>c. c \<noteq> CHR ''e'' \<and> c \<noteq> CHR ''E'') s);
            whole = takeWhile (\<lambda>c. c \<noteq> CHR ''.'') mant;
            frac = drop 1 (dropWhile (\<lambda>c. c \<noteq> CHR ''.'') mant)
        in if whole @ frac = [] \<or> \<not> list_all is_digit (whole @ frac) then None
           else (case ex of None \<Rightarrow> None
             | Some e \<Rightarrow>
                 (let v = of_nat (digits_value (whole @ frac)) / 10 ^ length frac;
                      w = (if 0 \<le> e then v * 10 ^ nat e else v / 10 ^ nat (- e))
                  in Some (if neg then - w else w))))"

fun py_decimal :: "json \<Rightarrow> decimal option" where
  \<comment> \<open>\<open>Decimal(str(x))\<close> where it is a finite number\<close>
  "py_decimal (J_int i) = Some (of_int i)"
| "py_decimal (J_num q) = Some q"
| "py_decimal (J_str s) = parse_decimal s"
| "py_decimal _ = None"

definition governed_number :: "json \<Rightarrow> decimal option" where
  \<comment> \<open>a finite number of the 0 to 100 scale, or nothing\<close>
  "governed_number v = (case py_decimal v of None \<Rightarrow> None | Some q \<Rightarrow> if 0 \<le> q \<and> q \<le> 100 then Some q else None)"

lemma governed_number_bounds: "governed_number v = Some q \<Longrightarrow> 0 \<le> q \<and> q \<le> 100"
  by (auto simp: governed_number_def split: option.splits if_splits)

lemma parse_decimal_examples:
  "parse_decimal '' 12.50 '' = Some (25/2)" "parse_decimal ''-1_0e-1'' = Some (-1)"
  "parse_decimal ''.5'' = Some (1/2)" "parse_decimal ''None'' = None" "parse_decimal ''NaN'' = None"
  by code_simp+

end
