(* ===== verification/CrmProposals.thy ===== *)
theory CrmProposals
  imports WorkProofs Json_Read
begin

text \<open>
  CRM follow-up proposals: the CRM records of \<^verbatim>\<open>domain/crm.py\<close>, the sample adapter of
  \<^verbatim>\<open>integrations/hubspot/contracts.py\<close> and the versioned proposal workflow of
  \<^verbatim>\<open>modules/work/crm_proposals.py\<close>, which keeps its state in the audit history of the Action.
  The digest \<^verbatim>\<open>sha256(json.dumps(value, sort_keys=True, ...))\<close> is a parameter. The dash of the
  destination label is written in ASCII.
\<close>

section \<open>CRM records (domain/crm.py)\<close>

record crm_company =
  crc_id :: string
  crc_account_id :: string
  crc_owner_id :: "string option"
  crc_provenance :: provenance
  crc_name :: "string option"
  crc_properties :: "json option"

record crm_contact =
  crt_id :: string
  crt_company_id :: string
  crt_role_family :: string
  crt_provenance :: provenance
  crt_account_id :: "string option"
  crt_properties :: "json option"

record crm_deal =
  crd_id :: string
  crd_company_id :: string
  crd_business_unit :: "string option"
  crd_provenance :: provenance
  crd_account_id :: "string option"
  crd_program_id :: "string option"
  crd_properties :: "json option"

record crm_activity =
  cra_id :: string
  cra_company_id :: string
  cra_occurred_at :: datetime
  cra_provenance :: provenance
  cra_account_id :: "string option"
  cra_properties :: "json option"

definition crm_activity_post_init :: "crm_activity \<Rightarrow> (py_error, crm_activity) result" where
  "crm_activity_post_init a = bind_r (require_aware (cra_occurred_at a) ''occurred_at'') (\<lambda>_. Inr a)"

section \<open>The sample adapter (integrations/hubspot/contracts.py)\<close>

datatype crm_provider_state = CRM_AVAILABLE | CRM_UNAVAILABLE

record crm_account_context =
  cac_company :: "crm_company option"
  cac_contacts :: "crm_contact list"
  cac_deals :: "crm_deal list"
  cac_activities :: "crm_activity list"
  cac_shared_owner_ids :: "string list"
  cac_state :: crm_provider_state
  cac_detail :: "string option"

fun latest_activity :: "crm_activity \<Rightarrow> crm_activity list \<Rightarrow> crm_activity" where
  \<comment> \<open>\<open>max\<close> keeps the first of the greatest\<close>
  "latest_activity best [] = best"
| "latest_activity best (a # rest) =
     latest_activity (if instant (cra_occurred_at best) < instant (cra_occurred_at a) then a else best) rest"

definition last_meaningful_contact :: "crm_account_context \<Rightarrow> crm_activity option" where
  "last_meaningful_contact c =
     (case cac_activities c of [] \<Rightarrow> None | a # rest \<Rightarrow> Some (latest_activity a rest))"

record crm_action_preview =
  cap_action_id :: string
  cap_account_id :: "string option"
  cap_operation :: json
  cap_payload :: json
  cap_confirmed :: bool
  cap_executed :: bool
  cap_unavailable_reason :: "string option"

record sample_hubspot =
  sh_contexts :: "(string, crm_account_context) dict"
  sh_state :: crm_provider_state

definition no_crm_context :: "crm_provider_state \<Rightarrow> string \<Rightarrow> crm_account_context" where
  "no_crm_context s detail = \<lparr>cac_company = None, cac_contacts = [], cac_deals = [], cac_activities = [],
     cac_shared_owner_ids = [], cac_state = s, cac_detail = Some detail\<rparr>"

definition account_context :: "sample_hubspot \<Rightarrow> string option \<Rightarrow> crm_account_context" where
  "account_context a account_id =
     (if sh_state a = CRM_UNAVAILABLE then no_crm_context (sh_state a) ''HubSpot provider is unavailable.''
      else case (case account_id of None \<Rightarrow> None | Some i \<Rightarrow> dget (sh_contexts a) i) of
             Some c \<Rightarrow> c
           | None \<Rightarrow> no_crm_context (sh_state a) ''No CRM company is linked to this canonical account.'')"

definition preview_action :: "string \<Rightarrow> string option \<Rightarrow> json \<Rightarrow> json \<Rightarrow> crm_action_preview" where
  "preview_action action_id account_id operation payload =
     \<lparr>cap_action_id = action_id, cap_account_id = account_id, cap_operation = operation, cap_payload = payload,
      cap_confirmed = False, cap_executed = False, cap_unavailable_reason = None\<rparr>"

datatype crm_write_error = Crm_permission_error string

definition execute_action :: "sample_hubspot \<Rightarrow> crm_action_preview \<Rightarrow> (crm_write_error, crm_action_preview) result" where
  "execute_action a preview =
     (if \<not> cap_confirmed preview
      then Inl (Crm_permission_error ''explicit human confirmation is required before CRM execution'')
      else if sh_state a = CRM_UNAVAILABLE
      then Inr (preview\<lparr>cap_unavailable_reason := Some ''HubSpot provider is unavailable.''\<rparr>)
      else Inr (preview\<lparr>cap_executed := True\<rparr>))"

section \<open>The workflow\<close>

type_synonym metadata = "(string \<times> json) list"

text \<open>The adapter a workflow is built with: the sample class itself, or anything else.\<close>

datatype crm_adapter = Sample_adapter sample_hubspot | Live_adapter

record crm_workflow =
  wf_adapter :: crm_adapter
  wf_commercial_revision :: string

definition CRM_VERSION :: string where
  "CRM_VERSION = ''BTX_CRM_PROPOSAL_1''"

definition str_datetime :: "datetime \<Rightarrow> string" where
  \<comment> \<open>\<open>str(value)\<close>, what \<open>json.dumps(..., default=str)\<close> writes\<close>
  "str_datetime t = (let s = iso_datetime t in take 10 s @ '' '' @ drop 11 s)"

definition action_json :: "action \<Rightarrow> json" where
  \<comment> \<open>\<open>asdict(action)\<close>\<close>
  "action_json a = J_obj
     [(''id'', J_str (act_id a)), (''account_id'', j_opt J_str (act_account_id a)), (''title'', J_str (act_title a)),
      (''description'', j_opt J_str (act_description a)), (''owner_id'', j_opt J_str (act_owner_id a)),
      (''priority'', J_str (priority_value (act_priority a))),
      (''due_date'', j_opt (\<lambda>d. J_str (iso_date d)) (act_due_date a)),
      (''status'', J_str (status_value (act_status a))),
      (''approval_status'', J_str (approval_value (act_approval_status a))),
      (''source_suggestion_id'', j_opt J_str (act_source_suggestion_id a)),
      (''evidence_ids'', J_arr (map J_str (act_evidence_ids a))), (''created_by'', J_str (act_created_by a)),
      (''created_at'', J_str (str_datetime (act_created_at a))), (''updated_at'', J_str (str_datetime (act_updated_at a))),
      (''completed_at'', j_opt (\<lambda>t. J_str (str_datetime t)) (act_completed_at a)),
      (''canceled_at'', j_opt (\<lambda>t. J_str (str_datetime t)) (act_canceled_at a)), (''version'', J_int (act_version a)),
      (''context_referents'', J_arr (map (\<lambda>(k, v). J_arr [J_str k, J_str v]) (act_context_referents a))),
      (''previous_status'', j_opt (\<lambda>s. J_str (status_value s)) (act_previous_status a)),
      (''approval_requested_by'', j_opt J_str (act_approval_requested_by a)),
      (''approval_comment'', j_opt J_str (act_approval_comment a)),
      (''subtasks'', J_arr (map subtask_json (act_subtasks a))),
      (''allowed_transitions'', J_arr (map (\<lambda>s. J_str (status_value s)) (allowed_transitions a)))]"

definition crm_mapping :: "action \<Rightarrow> crm_company option \<Rightarrow> metadata" where
  "crm_mapping a company =
     [(''company_id'', j_opt (\<lambda>c. J_str (crc_id c)) company),
      (''crm_owner_id'', (case company of None \<Rightarrow> J_null | Some c \<Rightarrow> j_opt J_str (crc_owner_id c))),
      (''account_id'', j_opt J_str (act_account_id a)), (''truth_class'', J_str ''INTERNAL_SCENARIO_MAPPING''),
      (''portal_id'', J_null),
      (''source_mapping'', (case company of None \<Rightarrow> J_null | Some c \<Rightarrow> j_opt (\<lambda>p. p) (crc_properties c)))]"

definition crm_payload :: "action \<Rightarrow> metadata \<Rightarrow> metadata" where
  "crm_payload a mapping =
     [(''title'', J_str (act_title a)), (''description'', j_opt J_str (act_description a)),
      (''local_owner_id'', j_opt J_str (act_owner_id a)), (''crm_owner_id'', j_read (J_obj mapping) ''crm_owner_id''),
      (''due_date'', j_opt (\<lambda>d. J_str (iso_date d)) (act_due_date a)),
      (''evidence_ids'', J_arr (map J_str (act_evidence_ids a))),
      (''company_id'', j_read (J_obj mapping) ''company_id'')]"

definition crm_blockers :: "action \<Rightarrow> crm_company option \<Rightarrow> string list" where
  "crm_blockers a company =
     (if act_status a \<notin> {OPEN, IN_PROGRESS} then [''Action is closed; no new follow-up execution is permitted.''] else [])
   @ (if \<not> truthy (act_owner_id a) then [''Assign a local Action owner before proceeding.''] else [])
   @ (if act_approval_status a \<in> {PENDING, REJECTED}
      then [''The existing Action approval must be approved before proposal execution review.''] else [])
   @ (if (case company of None \<Rightarrow> True | Some c \<Rightarrow> \<not> truthy (crc_owner_id c))
      then [''A scoped CRM company and owner mapping are required.''] else [])"

definition crm_snapshot_body :: "(json \<Rightarrow> string) \<Rightarrow> string \<Rightarrow> action \<Rightarrow> crm_company option \<Rightarrow> metadata" where
  "crm_snapshot_body digest revision a company =
     (let mapping = crm_mapping a company
      in [(''schema_version'', J_str CRM_VERSION), (''action_id'', J_str (act_id a)),
          (''action_version'', J_int (act_version a)), (''account_id'', j_opt J_str (act_account_id a)),
          (''commercial_revision'', J_str revision), (''action_fingerprint'', J_str (digest (action_json a))),
          (''mapping'', J_obj mapping), (''mapping_revision'', J_str (digest (J_obj mapping))),
          (''operation'', J_str ''CREATE_FOLLOW_UP''), (''payload'', J_obj (crm_payload a mapping)),
          (''blockers'', J_arr (map J_str (crm_blockers a company))), (''destination'', J_str ''LOCAL_SAMPLE_ONLY''),
          (''external_write'', J_bool False),
          (''destination_label'', J_str ''Local HubSpot workflow demonstration - no HubSpot account will be changed'')])"

definition crm_proposal_id :: "(json \<Rightarrow> string) \<Rightarrow> metadata \<Rightarrow> string" where
  "crm_proposal_id digest body = ''crm-proposal-'' @ digest (J_obj body)"

definition crm_snapshot :: "(json \<Rightarrow> string) \<Rightarrow> crm_workflow \<Rightarrow> action \<Rightarrow> (work_error, metadata) result" where
  "crm_snapshot digest w a =
     (case wf_adapter w of
        Live_adapter \<Rightarrow> Inl (ActionConflict ''Live CRM execution is not authorized in this SAMPLE workflow.'')
      | Sample_adapter ad \<Rightarrow>
          (let company = cac_company (account_context ad (act_account_id a))
           in if (case company of None \<Rightarrow> False | Some c \<Rightarrow> Some (crc_account_id c) \<noteq> act_account_id a)
              then Inl (ActionConflict ''CRM mapping is outside the canonical account scope.'')
              else let body = crm_snapshot_body digest (wf_commercial_revision w) a company
                   in Inr (body @ [(''proposal_id'', J_str (crm_proposal_id digest body))])))"

definition meta_is :: "metadata \<Rightarrow> string \<Rightarrow> string \<Rightarrow> bool" where
  \<comment> \<open>\<open>metadata[key] == text\<close>; the events of this workflow always carry the keys it reads\<close>
  "meta_is m key text = (map_of m key = Some (J_str text))"

definition meta_text :: "metadata \<Rightarrow> string \<Rightarrow> string option" where
  "meta_text m key = (case map_of m key of None \<Rightarrow> None | Some v \<Rightarrow> j_text v)"

definition crm_events :: "string \<Rightarrow> audit_event list \<Rightarrow> metadata list" where
  "crm_events name history = map ev_metadata (filter (\<lambda>e. ev_event e = name) history)"

definition find_proposal :: "audit_event list \<Rightarrow> string \<Rightarrow> metadata option" where
  "find_proposal history proposal_id =
     first_match (\<lambda>m. meta_is m ''proposal_id'' proposal_id) (crm_events ''CRM_PROPOSED'' history)"

definition proposal_decisions :: "audit_event list \<Rightarrow> string \<Rightarrow> metadata list" where
  "proposal_decisions history proposal_id =
     filter (\<lambda>m. meta_is m ''proposal_id'' proposal_id) (crm_events ''CRM_DECIDED'' history)"

definition snapshot_id :: "metadata \<Rightarrow> string" where
  "snapshot_id m = default_to (meta_text m ''proposal_id'') []"

section \<open>preview\<close>

definition preview_operation ::
  "(json \<Rightarrow> string) \<Rightarrow> crm_workflow \<Rightarrow> int \<Rightarrow> principal \<Rightarrow> datetime \<Rightarrow> action \<Rightarrow> audit_event list
    \<Rightarrow> (work_error, audit_event option \<times> metadata) result" where
  "preview_operation digest w expected_version p now a history =
     bind_r (require_manage p a) (\<lambda>_.
     bind_r (guard_r (act_version a = expected_version)
        (ActionConflict ''Action changed; refresh before preparing its exact CRM proposal.'')) (\<lambda>_.
     bind_r (crm_snapshot digest w a) (\<lambda>proposal.
     (case find_proposal history (snapshot_id proposal) of
        Some _ \<Rightarrow> Inr (None, proposal)
      | None \<Rightarrow>
          bind_r (guard_r (length (crm_events ''CRM_PROPOSED'' history) < 50)
             (ActionConflict ''The bounded proposal history limit was reached; operator review is required.'')) (\<lambda>_.
          bind_r (mk_event (act_id a) p ''CRM_PROPOSED'' now proposal) (\<lambda>ev.
          Inr (Some ev, proposal)))))))"

definition preview_proposal ::
  "(json \<Rightarrow> string) \<Rightarrow> crm_workflow \<Rightarrow> string \<Rightarrow> int \<Rightarrow> principal \<Rightarrow> datetime \<Rightarrow> mem_repo
    \<Rightarrow> (work_error, metadata) result \<times> mem_repo" where
  "preview_proposal digest w i expected_version p now r =
     mem_transact_audit r i (preview_operation digest w expected_version p now)"

section \<open>decide\<close>

definition proposal_blockers :: "metadata \<Rightarrow> string list" where
  "proposal_blockers proposal =
     map (\<lambda>b. default_to (j_text b) []) (j_items (j_read (J_obj proposal) ''blockers''))"

definition current_proposal ::
  "(json \<Rightarrow> string) \<Rightarrow> crm_workflow \<Rightarrow> action \<Rightarrow> audit_event list \<Rightarrow> string \<Rightarrow> (work_error, metadata) result" where
  "current_proposal digest w a history proposal_id =
     (case find_proposal history proposal_id of
        None \<Rightarrow> Inl (ActionConflict ''Inspect a saved proposal in this Action scope first.'')
      | Some proposal \<Rightarrow>
          bind_r (crm_snapshot digest w a) (\<lambda>snapshot.
          if snapshot_id snapshot \<noteq> proposal_id
          then Inl (ActionConflict ''Action, mapping or commercial evidence changed; create and review a new proposal.'')
          else if proposal_blockers proposal \<noteq> []
          then Inl (ActionConflict (join '' '' (proposal_blockers proposal)))
          else Inr proposal))"

definition decision_id_of :: "(json \<Rightarrow> string) \<Rightarrow> string \<Rightarrow> principal \<Rightarrow> string \<Rightarrow> string option \<Rightarrow> string" where
  "decision_id_of digest proposal_id p decision expected =
     ''crm-decision-'' @ digest (J_arr [J_str proposal_id, J_str (pr_user_id p), J_str decision, j_opt J_str expected])"

definition latest :: "'a list \<Rightarrow> 'a option" where
  "latest xs = (if xs = [] then None else Some (last xs))"

definition crm_decide_operation ::
  "(json \<Rightarrow> string) \<Rightarrow> crm_workflow \<Rightarrow> string \<Rightarrow> string \<Rightarrow> string option \<Rightarrow> principal \<Rightarrow> datetime \<Rightarrow> action
    \<Rightarrow> audit_event list \<Rightarrow> (work_error, audit_event option \<times> metadata) result" where
  "crm_decide_operation digest w proposal_id decision expected p now a history =
     bind_r (require_manager p) (\<lambda>_.
     bind_r (require_manage p a) (\<lambda>_.
     bind_r (current_proposal digest w a history proposal_id) (\<lambda>_.
     (let decisions = proposal_decisions history proposal_id;
          prior_decision = latest decisions;
          identifier = decision_id_of digest proposal_id p decision expected
      in case first_match (\<lambda>m. meta_is m ''decision_id'' identifier) decisions of
           Some replay \<Rightarrow>
             Inr (None, dset ''is_current''
               (J_bool (case prior_decision of None \<Rightarrow> False | Some m \<Rightarrow> meta_is m ''decision_id'' identifier)) replay)
         | None \<Rightarrow>
             bind_r (guard_r (expected = (case prior_decision of None \<Rightarrow> None | Some m \<Rightarrow> meta_text m ''decision_id''))
                (ActionConflict ''Proposal approval changed; inspect its latest decision.'')) (\<lambda>_.
             (let decided = [(''proposal_id'', J_str proposal_id), (''decision_id'', J_str identifier),
                   (''decision'', J_str decision), (''actor_id'', J_str (pr_user_id p)),
                   (''decided_at'', J_str (iso_datetime now)), (''external_write'', J_bool False)]
              in bind_r (mk_event (act_id a) p ''CRM_DECIDED'' now decided) (\<lambda>ev.
                 Inr (Some ev, decided @ [(''is_current'', J_bool True)]))))))))"

definition decide_proposal ::
  "(json \<Rightarrow> string) \<Rightarrow> crm_workflow \<Rightarrow> string \<Rightarrow> string \<Rightarrow> string \<Rightarrow> string option \<Rightarrow> principal \<Rightarrow> datetime
    \<Rightarrow> mem_repo \<Rightarrow> (work_error, metadata) result \<times> mem_repo" where
  "decide_proposal digest w i proposal_id decision expected p now r =
     (if decision \<notin> {''APPROVED'', ''REJECTED''}
      then (Inl (WorkInvalid (ValueError ''Unsupported CRM proposal decision.'')), r)
      else mem_transact_audit r i (crm_decide_operation digest w proposal_id decision expected p now))"

section \<open>execute\<close>

definition key_char :: "char \<Rightarrow> bool" where
  "key_char c = (let n = of_char c :: nat in 48 \<le> n \<and> n \<le> 57 \<or> 65 \<le> n \<and> n \<le> 90 \<or> 97 \<le> n \<and> n \<le> 122
     \<or> c = CHR ''.'' \<or> c = CHR ''_'' \<or> c = CHR ''-'')"

definition retry_key_ok :: "string \<Rightarrow> bool" where
  \<comment> \<open>\<open>re.fullmatch(r'[A-Za-z0-9._-]{8,64}', key)\<close>\<close>
  "retry_key_ok k = (8 \<le> length k \<and> length k \<le> 64 \<and> list_all key_char k)"

definition without_request :: "metadata \<Rightarrow> metadata" where
  "without_request m = filter (\<lambda>(k, v). \<not> starts_with ''request_'' k) m"

definition as_replayed :: "metadata \<Rightarrow> metadata" where
  "as_replayed m = dset ''replayed'' (J_bool True) (without_request m)"

definition approved_now :: "metadata list \<Rightarrow> string option \<Rightarrow> bool" where
  "approved_now decisions expected =
     (case latest decisions of
        None \<Rightarrow> False
      | Some m \<Rightarrow> meta_is m ''decision'' ''APPROVED'' \<and> meta_text m ''decision_id'' = expected)"

definition attempt_record ::
  "(json \<Rightarrow> string) \<Rightarrow> string \<Rightarrow> string option \<Rightarrow> principal \<Rightarrow> datetime \<Rightarrow> action \<Rightarrow> string \<Rightarrow> string
    \<Rightarrow> crm_action_preview \<Rightarrow> metadata" where
  "attempt_record digest proposal_id expected p now a key_hash fingerprint res =
     [(''proposal_id'', J_str proposal_id),
      (''attempt_id'', J_str (''crm-attempt-'' @ digest (J_arr [J_str (act_id a), J_str key_hash]))),
      (''decision_id'', j_opt J_str expected), (''actor_id'', J_str (pr_user_id p)),
      (''attempted_at'', J_str (iso_datetime now)),
      (''status'', J_str (if cap_executed res \<and> \<not> truthy (cap_unavailable_reason res)
                          then ''SAMPLE_COMPLETED'' else ''SAMPLE_FAILED'')),
      (''detail'', J_str (first_truthy (cap_unavailable_reason res)
         ''Local sample attempt recorded. No HubSpot record was created or updated.'')),
      (''external_write'', J_bool False), (''destination'', J_str ''LOCAL_SAMPLE_ONLY''),
      (''request_key_hash'', J_str key_hash), (''request_fingerprint'', J_str fingerprint)]"

definition adapter_execute :: "crm_adapter \<Rightarrow> crm_action_preview \<Rightarrow> (work_error, crm_action_preview) result" where
  \<comment> \<open>a live adapter never gets here: \<open>current_proposal\<close> has refused it\<close>
  "adapter_execute ad preview =
     (case ad of
        Sample_adapter s \<Rightarrow> (case execute_action s preview of
            Inr res \<Rightarrow> Inr res
          | Inl (Crm_permission_error msg) \<Rightarrow> Inl (ActionForbidden msg))
      | Live_adapter \<Rightarrow> Inl (ActionConflict ''Live CRM execution is not authorized in this SAMPLE workflow.''))"

definition key_hash_of :: "(json \<Rightarrow> string) \<Rightarrow> principal \<Rightarrow> string \<Rightarrow> string" where
  "key_hash_of digest p key = digest (J_arr [J_str (pr_user_id p), J_str key])"

definition request_fingerprint_of :: "(json \<Rightarrow> string) \<Rightarrow> string \<Rightarrow> string option \<Rightarrow> string" where
  "request_fingerprint_of digest proposal_id expected =
     digest (J_arr [J_str proposal_id, j_opt J_str expected, J_str ''LOCAL_SAMPLE_ONLY''])"

definition execute_operation ::
  "(json \<Rightarrow> string) \<Rightarrow> crm_workflow \<Rightarrow> string \<Rightarrow> string option \<Rightarrow> string \<Rightarrow> principal \<Rightarrow> datetime \<Rightarrow> action
    \<Rightarrow> audit_event list \<Rightarrow> (work_error, audit_event option \<times> metadata) result" where
  "execute_operation digest w proposal_id expected key p now a history =
     bind_r (require_manager p) (\<lambda>_.
     bind_r (require_manage p a) (\<lambda>_.
     (let key_hash = key_hash_of digest p key;
          fingerprint = request_fingerprint_of digest proposal_id expected;
          attempts = crm_events ''CRM_SAMPLE_ATTEMPT'' history
      in case first_match (\<lambda>m. meta_is m ''request_key_hash'' key_hash) attempts of
           Some replay \<Rightarrow>
             (if \<not> meta_is replay ''request_fingerprint'' fingerprint
              then Inl (ActionConflict ''Retry key belongs to a different CRM proposal request.'')
              else Inr (None, as_replayed replay))
         | None \<Rightarrow>
             bind_r (current_proposal digest w a history proposal_id) (\<lambda>proposal.
             bind_r (guard_r (approved_now (proposal_decisions history proposal_id) expected)
                (ActionConflict ''Current explicit Manager approval of this exact proposal is required.'')) (\<lambda>_.
             (case first_match (\<lambda>m. meta_is m ''proposal_id'' proposal_id \<and> meta_is m ''status'' ''SAMPLE_COMPLETED'') attempts of
                Some successful \<Rightarrow> Inr (None, as_replayed successful)
              | None \<Rightarrow>
                  bind_r (guard_r (length attempts < 50)
                     (ActionConflict ''The bounded SAMPLE attempt limit was reached; operator review is required.'')) (\<lambda>_.
                  (let preview = preview_action (act_id a) (act_account_id a)
                         (j_read (J_obj proposal) ''operation'') (j_read (J_obj proposal) ''payload'')
                   in bind_r (adapter_execute (wf_adapter w) (preview\<lparr>cap_confirmed := True\<rparr>)) (\<lambda>res.
                      (let attempt = attempt_record digest proposal_id expected p now a key_hash fingerprint res
                       in bind_r (mk_event (act_id a) p ''CRM_SAMPLE_ATTEMPT'' now attempt) (\<lambda>ev.
                          Inr (Some ev, without_request attempt))))))))))))"

definition execute_sample ::
  "(json \<Rightarrow> string) \<Rightarrow> crm_workflow \<Rightarrow> string \<Rightarrow> string \<Rightarrow> string option \<Rightarrow> string \<Rightarrow> principal \<Rightarrow> datetime
    \<Rightarrow> mem_repo \<Rightarrow> (work_error, metadata) result \<times> mem_repo" where
  "execute_sample digest w i proposal_id expected key p now r =
     (if \<not> retry_key_ok key then (Inl (WorkInvalid (ValueError ''A bounded retry key is required.'')), r)
      else mem_transact_audit r i (execute_operation digest w proposal_id expected key p now))"

section \<open>inspect\<close>

record crm_inspected_event =
  cie_kind :: string
  cie_actor_id :: string
  cie_occurred_at :: datetime
  cie_data :: metadata

record crm_inspection =
  ci_action_id :: string
  ci_action_version :: int
  ci_current_proposal_id :: string
  ci_events :: "crm_inspected_event list"
  ci_earlier_event_count :: int
  ci_external_write :: bool

definition inspect_operation ::
  "(json \<Rightarrow> string) \<Rightarrow> crm_workflow \<Rightarrow> principal \<Rightarrow> action \<Rightarrow> audit_event list
    \<Rightarrow> (work_error, audit_event option \<times> crm_inspection) result" where
  "inspect_operation digest w p a history =
     bind_r (require_manage p a) (\<lambda>_.
     bind_r (crm_snapshot digest w a) (\<lambda>snapshot.
     (let events = map (\<lambda>e. \<lparr>cie_kind = ev_event e, cie_actor_id = ev_actor_id e, cie_occurred_at = ev_occurred_at e,
              cie_data = without_request (ev_metadata e)\<rparr>)
            (filter (\<lambda>e. ev_event e \<in> {''CRM_PROPOSED'', ''CRM_DECIDED'', ''CRM_SAMPLE_ATTEMPT''}) history)
      in Inr (None, \<lparr>ci_action_id = act_id a, ci_action_version = act_version a,
           ci_current_proposal_id = snapshot_id snapshot, ci_events = drop (length events - 100) events,
           ci_earlier_event_count = max 0 (int (length events) - 100), ci_external_write = False\<rparr>))))"

definition inspect_proposals ::
  "(json \<Rightarrow> string) \<Rightarrow> crm_workflow \<Rightarrow> string \<Rightarrow> principal \<Rightarrow> mem_repo \<Rightarrow> (work_error, crm_inspection) result \<times> mem_repo" where
  "inspect_proposals digest w i p r = mem_transact_audit r i (inspect_operation digest w p)"

end
