(* ===== verification/WorkProps.thy ===== *)
theory WorkProps
  imports WorkProofs
begin

text \<open>
  The promises of the Action workflow on the in-memory repository, over every state reachable
  from the empty one, each with an example run that meets its hypotheses.
\<close>

section \<open>A worked example\<close>

definition demo_time :: datetime where
  "demo_time = \<lparr>dt_local = 63800000000000000, dt_offset = Some 0\<rparr>"

definition demo_hash :: hashing where
  "demo_hash = \<lparr>h_text = (\<lambda>s. s), h_json = (\<lambda>j. ''f'')\<rparr>"

definition demo_seller :: principal where
  "demo_seller = \<lparr>pr_user_id = ''u1'', pr_display_name = ''U'', pr_role = SALESPERSON, pr_tenant_id = None\<rparr>"

definition demo_stranger :: principal where
  "demo_stranger = \<lparr>pr_user_id = ''u2'', pr_display_name = ''V'', pr_role = SALESPERSON, pr_tenant_id = None\<rparr>"

definition demo_manager :: principal where
  "demo_manager = \<lparr>pr_user_id = ''m1'', pr_display_name = ''M'', pr_role = MANAGER, pr_tenant_id = None\<rparr>"

definition demo_create :: create_args where
  "demo_create = \<lparr>ca_account_id = Some ''acc'', ca_occurred_at = demo_time, ca_title = Some ''Call'',
     ca_principal = Some demo_seller, ca_summary = None, ca_actor_id = None, ca_description = None,
     ca_owner_id = None, ca_priority = P_HIGH, ca_due_date = None, ca_evidence_ids = [''e1''],
     ca_context_referents = [], ca_source_suggestion_id = Some ''s1'', ca_approval_required = True,
     ca_idempotency_key = Some ''key''\<rparr>"

definition demo_change :: subtask_changes where
  "demo_change = \<lparr>sc_title_arg = Some ''Prepare'', sc_done_arg = None, sc_due_date_arg = None,
     sc_owner_id_arg = None, sc_removed_arg = None, sc_other_args = []\<rparr>"

definition demo_id :: string where
  "demo_id = ''action-f''"

definition demo_r1 :: mem_repo where
  "demo_r1 = snd (create mem_ops demo_hash None demo_create mem_init)"

definition demo_r2 :: mem_repo where
  "demo_r2 = snd (decide_approval mem_ops demo_id APPROVED demo_manager demo_time (Some 1) None demo_r1)"

definition demo_r3 :: mem_repo where
  "demo_r3 = snd (transition mem_ops demo_id COMPLETED demo_seller demo_time (Some 2) False demo_r2)"

lemma reach_op: "work_reachable ops h tenant r0 r \<Longrightarrow>
    work_reachable ops h tenant r0 (snd (exec_op ops h tenant op r))"
  by (rule reach_step[where r = r], assumption) (rule step_op[OF prod.collapse[symmetric]])

lemma demo_reach1: "work_reachable mem_ops demo_hash None mem_init demo_r1"
  using reach_op[OF reach_start, of mem_ops demo_hash None mem_init "Op_create demo_create"]
  by (simp add: demo_r1_def)

lemma demo_reach2: "work_reachable mem_ops demo_hash None mem_init demo_r2"
  using reach_op[OF demo_reach1, of "Op_decide demo_id APPROVED demo_manager demo_time (Some 1) None"]
  by (simp add: demo_r2_def)

lemma demo_reach3: "work_reachable mem_ops demo_hash None mem_init demo_r3"
  using reach_op[OF demo_reach2, of "Op_transition demo_id COMPLETED demo_seller demo_time (Some 2) False"]
  by (simp add: demo_r3_def)

lemma demo_states:
  "map_option act_status (mem_get demo_r1 demo_id) = Some OPEN"
  "map_option act_version (mem_get demo_r1 demo_id) = Some 1"
  "map_option (\<lambda>a. may_manage demo_stranger a) (mem_get demo_r1 demo_id) = Some False"
  "map_option act_status (mem_get demo_r3 demo_id) = Some COMPLETED"
  by code_simp+

section \<open>Safety of completed work\<close>

text \<open>
  C1. In every reachable state an Action that is COMPLETED carries no unresolved approval (it was
  never required, or a manager granted it), has no open subtask, and the other lifecycle fields of an Action agree
  with its status: it has a completion time exactly when it is COMPLETED, a cancellation time exactly when it is
  CANCELED, and a CANCELED one remembers the active status it had, its only way back.
\<close>

theorem completed_work_is_closed:
  assumes "work_reachable mem_ops h tenant mem_init r" and "mem_get r i = Some a"
  shows "(act_completed_at a \<noteq> None \<longleftrightarrow> act_status a = COMPLETED)
    \<and> (act_canceled_at a \<noteq> None \<longleftrightarrow> act_status a = CANCELED)
    \<and> (act_status a = CANCELED \<longrightarrow> (\<exists>s\<in>{OPEN, IN_PROGRESS}. act_previous_status a = Some s \<and> allowed_transitions a = [s]))
    \<and> (act_status a = COMPLETED \<longrightarrow>
        act_approval_status a \<in> {NOT_REQUIRED, APPROVED} \<and> (\<forall>s\<in>set (act_subtasks a). sub_done s \<or> sub_removed s))"
  using mem.store_okD[OF mem_reachable_ok[OF assms(1)], of i a] assms(2)
  by (auto simp: lifecycle_ok_def open_child_def allowed_transitions_def)

theorem completed_work_is_closed_witness:
  "\<exists>a. mem_get demo_r3 demo_id = Some a \<and> act_status a = COMPLETED \<and> act_completed_at a \<noteq> None
     \<and> act_approval_status a \<in> {NOT_REQUIRED, APPROVED}"
proof -
  obtain a where a: "mem_get demo_r3 demo_id = Some a" "act_status a = COMPLETED"
    using demo_states(4) by (cases "mem_get demo_r3 demo_id") auto
  show ?thesis using completed_work_is_closed[OF demo_reach3 a(1)] a by blast
qed

section \<open>Audit\<close>

text \<open>
  The version number of a stored Action equals the number of workflow events in its audit
  history: no mutation goes unrecorded and no event is recorded without a new version.
\<close>

theorem version_counts_audit_events:
  assumes "work_reachable mem_ops h tenant mem_init r" and "mem_get r i = Some a"
  shows "act_version a = int (length (filter (\<lambda>e. ev_event e \<in> workflow_events) (mem_history r i)))"
  using mem.store_okD[OF mem_reachable_ok[OF assms(1)], of i a] assms(2) by (simp add: mem.mutations_def)

theorem version_counts_audit_events_witness:
  "\<exists>a. mem_get demo_r3 demo_id = Some a \<and>
     act_version a = int (length (filter (\<lambda>e. ev_event e \<in> workflow_events) (mem_history demo_r3 demo_id)))"
proof -
  obtain a where a: "mem_get demo_r3 demo_id = Some a"
    using demo_states(4) by (cases "mem_get demo_r3 demo_id") auto
  show ?thesis using version_counts_audit_events[OF demo_reach3 a] a by blast
qed

section \<open>Retries and failures\<close>

text \<open>
  Creation is idempotent: when a creation succeeds, sending the same request again (the same
  retry key, or the same suggestion, or the same title at the same instant) returns the same
  Action and leaves the repository as it is.
\<close>

theorem create_retry_returns_same_action:
  assumes "work_reachable mem_ops h tenant mem_init r"
    and "create mem_ops h tenant c r = (Inr a, r')"
  shows "create mem_ops h tenant c r' = (Inr a, r')"
  by (rule mem.create_idempotent[OF mem_reachable_ok[OF assms(1)] assms(2)])

theorem create_retry_returns_same_action_witness:
  "\<exists>a. create mem_ops demo_hash None demo_create demo_r1 = (Inr a, demo_r1)"
proof -
  have "\<exists>a. fst (create mem_ops demo_hash None demo_create mem_init) = Inr a"
    by (rule exI[of _ "the (mem_get demo_r1 demo_id)"]) code_simp
  then obtain a where "create mem_ops demo_hash None demo_create mem_init = (Inr a, demo_r1)"
    unfolding demo_r1_def by (metis prod.collapse)
  then show ?thesis using create_retry_returns_same_action[OF reach_start] by blast
qed

text \<open>
  C20. An operation that reports an error (not found, forbidden, conflicting version, invalid value)
  leaves the repository exactly as it was.
\<close>

theorem failed_operation_changes_nothing:
  assumes "work_reachable mem_ops h tenant mem_init r"
    and "exec_op mem_ops h tenant op r = (Inl e, r')"
  shows "r' = r"
  by (rule mem.exec_op_error[OF mem_reachable_ok[OF assms(1)] assms(2)])

theorem failed_operation_changes_nothing_witness:
  "snd (exec_op mem_ops demo_hash None (Op_request ''none'' demo_seller demo_time 1) mem_init) = mem_init"
proof -
  have "fst (exec_op mem_ops demo_hash None (Op_request ''none'' demo_seller demo_time 1) mem_init)
      = Inl (ActionNotFound ''none'')"
    by code_simp
  then show ?thesis
    using failed_operation_changes_nothing[OF reach_start] by (metis prod.collapse)
qed

text \<open>
  Optimistic concurrency: a caller that names a version other than the stored one cannot
  change the status, decide or request an approval; it gets an error and nothing is written.
\<close>

theorem stale_version_is_rejected:
  assumes "mem_get r i = Some a" and "v \<noteq> act_version a"
  shows "(\<exists>e. transition mem_ops i s p now (Some v) fin r = (Inl e, r))
    \<and> (\<exists>e. decide_approval mem_ops i d p now (Some v) comment r = (Inl e, r))
    \<and> (\<exists>e. request_approval mem_ops i p now v r = (Inl e, r))"
proof (intro conjI)
  have ver: "require_version a (Some v) = Inl (ActionConflict ''Action has changed; reload it before saving.'')"
    using assms(2) by (simp add: require_version_def)
  show "\<exists>e. transition mem_ops i s p now (Some v) fin r = (Inl e, r)"
    using assms ver by (cases "require_manage p a") (auto simp: transition_def svc_get_def transition_plan_def finish_def)
  show "\<exists>e. decide_approval mem_ops i d p now (Some v) comment r = (Inl e, r)"
    using assms ver by (cases "require_manager p") (auto simp: decide_approval_def svc_get_def decide_plan_def finish_def)
  show "\<exists>e. request_approval mem_ops i p now v r = (Inl e, r)"
    using assms ver by (cases "act_owner_id a = Some (pr_user_id p)")
      (auto simp: request_approval_def svc_get_def request_plan_def finish_def guard_r_def)
qed

theorem stale_version_is_rejected_witness:
  "\<exists>e. transition mem_ops demo_id IN_PROGRESS demo_seller demo_time (Some 7) False demo_r1 = (Inl e, demo_r1)"
proof -
  obtain a where a: "mem_get demo_r1 demo_id = Some a" "(7::int) \<noteq> act_version a"
    using demo_states(2) by (cases "mem_get demo_r1 demo_id") auto
  show ?thesis using stale_version_is_rejected[OF a] by blast
qed

section \<open>Authorization\<close>

text \<open>
  Separation of duties: an approval decision is made by a manager who is not the person that
  requested it (or created the Action), on work that is still active and has a pending request,
  and a refusal carries a comment.
\<close>

theorem approval_needs_second_person:
  assumes "work_reachable mem_ops h tenant mem_init r"
    and "decide_approval mem_ops i d p now v comment r = (Inr u, r')"
  shows "\<exists>a. mem_get r i = Some a \<and> pr_role p = MANAGER \<and> pr_user_id p \<noteq> approval_requester a
    \<and> act_status a \<in> {OPEN, IN_PROGRESS} \<and> act_approval_status a \<in> {PENDING, REQUESTED}
    \<and> d \<in> {APPROVED, REJECTED, CHANGES_REQUESTED} \<and> act_approval_status u = d
    \<and> (d \<noteq> APPROVED \<longrightarrow> act_approval_comment u \<noteq> None) \<and> mem_get r' i = Some u"
proof -
  obtain a where a: "mem_get r i = Some a" and man: "pr_role p = MANAGER"
    using assms(2) by (auto simp: decide_approval_def finish_def svc_get_def require_manager_def
        split: if_splits option.splits)
  note ok = mem_reachable_ok[OF assms(1)]
  note A = mem.store_okD[OF ok, of i a]
  have f: "finish mem_ops r (decide_plan a d p now v comment) = (Inr u, r')"
    using assms(2) a man by (simp add: decide_approval_def svc_get_def require_manager_def)
  then obtain pl where pl: "decide_plan a d p now v comment = Inr pl"
    by (cases "decide_plan a d p now v comment") (auto simp: finish_def)
  then obtain w ev ver where st: "pl = Store w ev ver"
    and facts: "act_status a \<notin> {COMPLETED, CANCELED}" "pr_user_id p \<noteq> approval_requester a"
      "act_approval_status a \<in> {PENDING, REQUESTED}" "d \<in> {APPROVED, REJECTED, CHANGES_REQUESTED}"
      "\<not> (d \<in> {REJECTED, CHANGES_REQUESTED} \<and> stripped_comment comment = None)"
      "act_approval_status w = d" "act_approval_comment w = stripped_comment comment"
    unfolding decide_plan_def bind_r_Inr guard_r_Inr action_post_init_Inr by auto
  have "step_of a (Store w ev ver)" using decide_plan_step[OF pl] A a st by simp
  then have "\<exists>r''. finish mem_ops r (Inr (Store w ev ver)) = (Inr w, r'') \<and> stored mem_ops r w ev r''"
    using mem.finish_stored[OF ok] a by simp
  then have "w = u" "mem_get r' i = Some u" using f pl st A a \<open>step_of a (Store w ev ver)\<close>
    by (auto simp: stored_def)
  then show ?thesis using a man facts by (cases "act_status a") auto
qed

theorem approval_needs_second_person_witness:
  "pr_user_id demo_manager \<noteq> ''u1'' \<and> (\<exists>a. mem_get demo_r1 demo_id = Some a
     \<and> pr_user_id demo_manager \<noteq> approval_requester a)"
proof -
  have "case fst (decide_approval mem_ops demo_id APPROVED demo_manager demo_time (Some 1) None demo_r1) of
      Inl _ \<Rightarrow> False | Inr _ \<Rightarrow> True"
    by code_simp
  then obtain u r' where "decide_approval mem_ops demo_id APPROVED demo_manager demo_time (Some 1) None demo_r1 = (Inr u, r')"
    by (cases "decide_approval mem_ops demo_id APPROVED demo_manager demo_time (Some 1) None demo_r1")
      (auto split: sum.splits)
  then show ?thesis using approval_needs_second_person[OF demo_reach1] by (fastforce simp: demo_manager_def)
qed

text \<open>
  Isolation: a salesperson who neither owns nor created an Action cannot edit it, move it or
  touch its subtasks; each attempt is refused as forbidden and writes nothing.
\<close>

theorem outsider_is_forbidden:
  assumes "mem_get r i = Some a" and "\<not> may_manage p a"
  shows "(\<exists>m. edit mem_ops i p now v c r = (Inl (ActionForbidden m), r))
    \<and> (\<exists>m. transition mem_ops i s p now v fin r = (Inl (ActionForbidden m), r))
    \<and> (\<exists>m. change_subtask mem_ops h i sid p now ver key chg r = (Inl (ActionForbidden m), r))"
proof -
  have "require_manage p a = Inl (ActionForbidden ''This Action is outside the current principal's permitted work.'')"
    using assms(2) by (auto simp: require_manage_def may_manage_def)
  then show ?thesis using assms(1)
    by (simp add: edit_def transition_def change_subtask_def svc_get_def edit_plan_def transition_plan_def
        subtask_plan_def finish_def)
qed

theorem outsider_is_forbidden_witness:
  "\<exists>m. transition mem_ops demo_id IN_PROGRESS demo_stranger demo_time None False demo_r1
     = (Inl (ActionForbidden m), demo_r1)"
proof -
  obtain a where a: "mem_get demo_r1 demo_id = Some a" "\<not> may_manage demo_stranger a"
    using demo_states(3) by (cases "mem_get demo_r1 demo_id") auto
  show ?thesis using outsider_is_forbidden[OF a] by blast
qed

section \<open>Transitions\<close>

lemma transition_iff:
  assumes "work_reachable mem_ops h tenant mem_init r" and "mem_get r i = Some a"
  shows "(\<exists>r'. transition mem_ops i s p now v fin r = (Inr u, r')) \<longleftrightarrow>
     may_manage p a \<and> (v = None \<or> v = Some (act_version a)) \<and> s \<in> set (allowed_transitions a)
     \<and> (s = COMPLETED \<longrightarrow> act_approval_status a \<in> {NOT_REQUIRED, APPROVED}
          \<and> ((\<forall>c\<in>set (act_subtasks a). \<not> open_child c) \<or> fin))
     \<and> aware now \<and> u = transition_updated a s now fin"
proof -
  note ok = mem_reachable_ok[OF assms(1)]
  note A = mem.store_okD[OF ok, of i a]
  have t: "transition mem_ops i s p now v fin r = finish mem_ops r (transition_plan a s p now v fin)"
    using assms(2) by (simp add: transition_def svc_get_def)
  have upd: "aware now \<Longrightarrow> action_ok (transition_updated a s now fin)"
    using A assms(2) by (auto simp: action_ok_def transition_updated_def opt_is_aware_def)
  have save: "\<exists>r'. finish mem_ops r (Inr (Store w ev ver)) = (Inr w, r')"
    if "transition_plan a s p now v fin = Inr (Store w ev ver)" for w ev ver
    using mem.finish_stored[OF ok, of i a w ev ver] transition_plan_step[OF that] A assms(2) by auto
  show ?thesis
  proof
    assume "\<exists>r'. transition mem_ops i s p now v fin r = (Inr u, r')"
    then obtain r' where f: "finish mem_ops r (transition_plan a s p now v fin) = (Inr u, r')" using t by auto
    then obtain pl where pl: "transition_plan a s p now v fin = Inr pl"
      by (cases "transition_plan a s p now v fin") (auto simp: finish_def)
    note P = pl[unfolded transition_plan_Inr]
    then obtain ev ver where st: "pl = Store (transition_updated a s now fin) ev ver" by blast
    have "u = transition_updated a s now fin" using save[OF pl[unfolded st]] f pl st by auto
    then show "may_manage p a \<and> (v = None \<or> v = Some (act_version a)) \<and> s \<in> set (allowed_transitions a)
     \<and> (s = COMPLETED \<longrightarrow> act_approval_status a \<in> {NOT_REQUIRED, APPROVED}
          \<and> ((\<forall>c\<in>set (act_subtasks a). \<not> open_child c) \<or> fin))
     \<and> aware now \<and> u = transition_updated a s now fin"
      using P by (cases v) auto
  next
    assume R: "may_manage p a \<and> (v = None \<or> v = Some (act_version a)) \<and> s \<in> set (allowed_transitions a)
     \<and> (s = COMPLETED \<longrightarrow> act_approval_status a \<in> {NOT_REQUIRED, APPROVED}
          \<and> ((\<forall>c\<in>set (act_subtasks a). \<not> open_child c) \<or> fin))
     \<and> aware now \<and> u = transition_updated a s now fin"
    then obtain ev ver where "transition_plan a s p now v fin = Inr (Store u ev ver)"
      unfolding transition_plan_Inr using upd by (auto split: option.splits)
    then show "\<exists>r'. transition mem_ops i s p now v fin r = (Inr u, r')" using save t by simp
  qed
qed

text \<open>
  C19. A status change succeeds exactly when the principal may manage the Action, the version
  matches, the target is an allowed transition, completion is approved and leaves no open subtask
  (or the caller asks to close them), and the time is aware; the result is the updated Action.
\<close>

theorem transition_succeeds_iff:
  assumes "work_reachable mem_ops h tenant mem_init r" and "mem_get r i = Some a"
  shows "(\<exists>r'. transition mem_ops i s p now v fin r = (Inr u, r')) \<longleftrightarrow>
     may_manage p a \<and> (v = None \<or> v = Some (act_version a)) \<and> s \<in> set (allowed_transitions a)
     \<and> (s = COMPLETED \<longrightarrow> act_approval_status a \<in> {NOT_REQUIRED, APPROVED}
          \<and> ((\<forall>c\<in>set (act_subtasks a). \<not> open_child c) \<or> fin))
     \<and> aware now \<and> u = transition_updated a s now fin"
  by (rule transition_iff[OF assms])

theorem transition_succeeds_iff_witness:
  "\<exists>u r'. transition mem_ops demo_id IN_PROGRESS demo_seller demo_time (Some 1) False demo_r1 = (Inr u, r')"
proof -
  obtain a where a: "mem_get demo_r1 demo_id = Some a" "act_status a = OPEN" "act_version a = 1"
    using demo_states(1,2) by (cases "mem_get demo_r1 demo_id") auto
  have "map_option (may_manage demo_seller) (mem_get demo_r1 demo_id) = Some True" by code_simp
  then have "may_manage demo_seller a" using a by simp
  then show ?thesis
    using transition_succeeds_iff[OF demo_reach1 a(1), of IN_PROGRESS demo_seller demo_time "Some 1" False
        "transition_updated a IN_PROGRESS demo_time False"] a
    by (auto simp: allowed_transitions_def demo_time_def aware_def)
qed

lemma transition_stores:
  assumes "work_reachable mem_ops h tenant mem_init r" and "mem_get r i = Some a"
    and t: "transition mem_ops i s p now v fin r = (Inr u, r')"
  shows "mem_get r' i = Some u" "work_reachable mem_ops h tenant mem_init r'"
proof -
  note ok = mem_reachable_ok[OF assms(1)]
  note A = mem.store_okD[OF ok, of i a]
  have f: "finish mem_ops r (transition_plan a s p now v fin) = (Inr u, r')"
    using t assms(2) by (simp add: transition_def svc_get_def)
  then obtain pl where pl: "transition_plan a s p now v fin = Inr pl"
    by (cases "transition_plan a s p now v fin") (auto simp: finish_def)
  then obtain w ev ver where st: "pl = Store w ev ver" unfolding transition_plan_Inr by blast
  have "step_of a (Store w ev ver)" using transition_plan_step[OF pl] A assms(2) st by simp
  moreover from this have "\<exists>r''. finish mem_ops r (Inr (Store w ev ver)) = (Inr w, r'') \<and> stored mem_ops r w ev r''"
    using mem.finish_stored[OF ok] assms(2) by simp
  ultimately show "mem_get r' i = Some u" using f pl st A assms(2) by (auto simp: stored_def)
  show "work_reachable mem_ops h tenant mem_init r'"
    using reach_op[OF assms(1), of "Op_transition i s p now v fin"] t by simp
qed

text \<open>
  C40. Cancelling is undone by reopening, and only to where the work was: after a cancellation, a
  transition to any other status than the one before is refused and writes nothing; the transition to that status, by
  anyone who may manage the Action, at an aware time and on the cancelled version, succeeds and stores the Action as
  it was before, but for two new versions, the time of the update and the remembered status.
\<close>

theorem cancel_then_reopen:
  assumes "work_reachable mem_ops h tenant mem_init r" and "mem_get r i = Some a"
    and "transition mem_ops i CANCELED p now v fin r = (Inr u, r')"
    and "may_manage q a" and "aware t" and "w \<in> {None, Some (act_version a + 1)}"
  shows "act_status a \<in> {OPEN, IN_PROGRESS}
    \<and> (let b = a\<lparr>act_previous_status := Some (act_status a), act_updated_at := t, act_version := act_version a + 2\<rparr>
       in \<exists>r''. transition mem_ops i (act_status a) q t w fin' r' = (Inr b, r'') \<and> mem_get r'' i = Some b)
    \<and> (\<forall>s. s \<noteq> act_status a \<longrightarrow> (\<exists>e. transition mem_ops i s q t w fin' r' = (Inl e, r')))"
proof -
  define b where "b = a\<lparr>act_previous_status := Some (act_status a), act_updated_at := t, act_version := act_version a + 2\<rparr>"
  have c: "CANCELED \<in> set (allowed_transitions a)" and u: "u = transition_updated a CANCELED now fin"
    using transition_iff[OF assms(1,2), of CANCELED p now v fin u] assms(3) by auto
  have life: "lifecycle_ok a" using mem.store_okD[OF mem_reachable_ok[OF assms(1)], of i a] assms(2) by simp
  have active: "act_status a \<in> {OPEN, IN_PROGRESS}"
    using c life by (auto simp: allowed_transitions_def lifecycle_ok_def split: action_status.splits option.splits)
  note R = transition_stores[OF assms(1-3)]
  note iff = transition_iff[OF R(2,1)]
  have allowed: "allowed_transitions u = [act_status a]" by (simp add: u allowed_transitions_def transition_updated_def)
  have "act_completed_at a = None" "act_canceled_at a = None" using active life by (auto simp: lifecycle_ok_def)
  then have undo: "transition_updated u (act_status a) t fin' = b"
    using active by (cases "act_status a") (auto simp: u transition_updated_def completed_children_def b_def)
  have "may_manage q u" using assms(4) by (simp add: u transition_updated_def may_manage_def)
  moreover have "act_version u = act_version a + 1" by (simp add: u transition_updated_def)
  ultimately obtain r'' where tr: "transition mem_ops i (act_status a) q t w fin' r' = (Inr b, r'')"
    using iff[of "act_status a" q t w fin' b] active allowed assms(5,6) undo by auto
  have "\<exists>e. transition mem_ops i s q t w fin' r' = (Inl e, r')" if "s \<noteq> act_status a" for s
  proof -
    obtain res x where x: "transition mem_ops i s q t w fin' r' = (res, x)" by (cases "transition mem_ops i s q t w fin' r'")
    have no: "\<nexists>b y. transition mem_ops i s q t w fin' r' = (Inr b, y)" using iff[of s q t w fin'] allowed that by auto
    then obtain e where "res = Inl e" using x by (cases res) auto
    moreover from this have "x = r'"
      using mem.exec_op_error[OF mem_reachable_ok[OF R(2)], where op = "Op_transition i s q t w fin'" and e = e and r' = x] x by simp
    ultimately show ?thesis using x by blast
  qed
  then show ?thesis using active tr transition_stores(1)[OF R(2,1) tr] by (auto simp: b_def[symmetric])
qed

theorem cancel_then_reopen_witness:
  "\<exists>a u r' b r''. mem_get demo_r1 demo_id = Some a \<and>
     transition mem_ops demo_id CANCELED demo_seller demo_time None False demo_r1 = (Inr u, r') \<and>
     transition mem_ops demo_id (act_status a) demo_manager demo_time None False r' = (Inr b, r'') \<and>
     act_status b = act_status a"
proof -
  obtain a where a: "mem_get demo_r1 demo_id = Some a"
    using demo_states(1) by (cases "mem_get demo_r1 demo_id") auto
  have "case fst (transition mem_ops demo_id CANCELED demo_seller demo_time None False demo_r1) of
      Inl _ \<Rightarrow> False | Inr _ \<Rightarrow> True"
    by code_simp
  then obtain u r' where t: "transition mem_ops demo_id CANCELED demo_seller demo_time None False demo_r1 = (Inr u, r')"
    by (cases "transition mem_ops demo_id CANCELED demo_seller demo_time None False demo_r1") (auto split: sum.splits)
  have "may_manage demo_manager a" "aware demo_time" by (simp_all add: may_manage_def demo_manager_def demo_time_def aware_def)
  from cancel_then_reopen[OF demo_reach1 a t this, of None False, unfolded Let_def]
  obtain b r'' where "transition mem_ops demo_id (act_status a) demo_manager demo_time None False r' = (Inr b, r'')"
    "act_status b = act_status a" by (auto intro: that)
  then show ?thesis using a t by blast
qed

text \<open>
  A subtask mutation is idempotent under its retry key: repeating a successful call with the
  same arguments returns the same Action and writes nothing.
\<close>

theorem subtask_retry_changes_nothing:
  assumes "work_reachable mem_ops h tenant mem_init r"
    and "change_subtask mem_ops h i sid p now v key chg r = (Inr u, r')"
  shows "change_subtask mem_ops h i sid p now v key chg r' = (Inr u, r')"
  by (rule mem.subtask_idempotent[OF mem_reachable_ok[OF assms(1)] assms(2)])

theorem subtask_retry_changes_nothing_witness:
  "\<exists>u r'. change_subtask mem_ops demo_hash demo_id None demo_seller demo_time 1 ''k'' demo_change demo_r1 = (Inr u, r')
    \<and> change_subtask mem_ops demo_hash demo_id None demo_seller demo_time 1 ''k'' demo_change r' = (Inr u, r')"
proof -
  have "case fst (change_subtask mem_ops demo_hash demo_id None demo_seller demo_time 1 ''k'' demo_change demo_r1) of
      Inl _ \<Rightarrow> False | Inr _ \<Rightarrow> True"
    by code_simp
  then obtain u r' where t:
      "change_subtask mem_ops demo_hash demo_id None demo_seller demo_time 1 ''k'' demo_change demo_r1 = (Inr u, r')"
    by (cases "change_subtask mem_ops demo_hash demo_id None demo_seller demo_time 1 ''k'' demo_change demo_r1")
      (auto split: sum.splits)
  show ?thesis using subtask_retry_changes_nothing[OF demo_reach1 t] t by blast
qed

text \<open>
  The work list of a salesperson holds exactly the stored Actions that salesperson may manage,
  ordered by due date (undated last), creation time and identity.
\<close>

theorem salesperson_sees_own_work:
  assumes "work_reachable mem_ops h tenant mem_init r" and "pr_role p = SALESPERSON"
  shows "set (svc_list mem_ops r (Some p)) = {a. mem_get r (act_id a) = Some a \<and> may_manage p a}
    \<and> sorted (map (\<lambda>x. (act_due_date x = None, default_to (act_due_date x) date_max,
         instant (act_created_at x), act_id x)) (svc_list mem_ops r (Some p)))"
proof -
  have "mem_inv r" using mem_reachable_ok[OF assms(1)] by (simp add: mem.store_ok_def)
  then have "set (mem_list r) = {a. mem_get r (act_id a) = Some a}" by (auto simp: mem_values_iff)
  then show ?thesis using assms(2) by (auto simp: svc_list_def Let_def may_manage_def)
qed

theorem salesperson_sees_own_work_witness:
  "set (svc_list mem_ops demo_r1 (Some demo_stranger))
     = {a. mem_get demo_r1 (act_id a) = Some a \<and> may_manage demo_stranger a}"
  using salesperson_sees_own_work[OF demo_reach1, of demo_stranger] by (simp add: demo_stranger_def)

end
