(* ===== verification/CrmProps.thy ===== *)
theory CrmProps
  imports CrmProposals WorkProps
begin

text \<open>
  The promises of the CRM proposal workflow, over every interleaving of its operations with those of
  the Action workflow on the same in-memory repository.
\<close>

section \<open>Runs of both workflows\<close>

datatype crm_op =
    Crm_preview string int principal datetime
  | Crm_decide string string string "string option" principal datetime
  | Crm_execute string string "string option" string principal datetime

fun exec_crm :: "(json \<Rightarrow> string) \<Rightarrow> crm_workflow \<Rightarrow> crm_op \<Rightarrow> mem_repo \<Rightarrow> (work_error, metadata) result \<times> mem_repo" where
  "exec_crm dg w (Crm_preview i v p now) r = preview_proposal dg w i v p now r"
| "exec_crm dg w (Crm_decide i pid d e p now) r = decide_proposal dg w i pid d e p now r"
| "exec_crm dg w (Crm_execute i pid e key p now) r = execute_sample dg w i pid e key p now r"

text \<open>The adapter and the commercial revision may differ from one CRM operation to the next.\<close>

inductive joint_step :: "(json \<Rightarrow> string) \<Rightarrow> hashing \<Rightarrow> string option \<Rightarrow> mem_repo \<Rightarrow> mem_repo \<Rightarrow> bool"
  for dg h tenant where
  joint_work: "work_step mem_ops h tenant r r' \<Longrightarrow> joint_step dg h tenant r r'"
| joint_crm: "exec_crm dg w op r = (res, r') \<Longrightarrow> joint_step dg h tenant r r'"

inductive joint_reachable :: "(json \<Rightarrow> string) \<Rightarrow> hashing \<Rightarrow> string option \<Rightarrow> mem_repo \<Rightarrow> bool"
  for dg h tenant where
  joint_start: "joint_reachable dg h tenant mem_init"
| joint_more: "joint_reachable dg h tenant r \<Longrightarrow> joint_step dg h tenant r r' \<Longrightarrow> joint_reachable dg h tenant r'"

section \<open>What one operation does\<close>

definition crm_names :: "string set" where
  "crm_names = {''CRM_PROPOSED'', ''CRM_DECIDED'', ''CRM_SAMPLE_ATTEMPT''}"

lemma crm_names_workflow: "n \<in> crm_names \<Longrightarrow> n \<notin> workflow_events"
  by (auto simp: crm_names_def workflow_events_def)

definition logged :: "audit_event \<Rightarrow> mem_repo \<Rightarrow> mem_repo" where
  "logged ev r = r\<lparr>mem_events := mem_events r @ [ev]\<rparr>"

lemma logged_simps [simp]: "mem_get (logged ev r) = mem_get r" "mem_items (logged ev r) = mem_items r"
  "mem_history (logged ev r) i = mem_history r i @ (if ev_action_id ev = i then [ev] else [])"
  by (simp_all add: logged_def mem_get_def mem_history_def fun_eq_iff)

lemma logged_neq [simp]: "logged ev r \<noteq> r"
  by (auto simp: logged_def dest: arg_cong[of _ _ mem_events])

lemma transact_cases:
  assumes "mem_transact_audit r i f = (res, r')"
  obtains (same) "r' = r"
    | (logs) a ev x where "mem_get r i = Some a" "f a (mem_history r i) = Inr (Some ev, x)" "res = Inr x" "r' = logged ev r"
proof (cases "mem_get r i")
  case None
  then show thesis using assms same by (simp add: mem_transact_audit_def)
next
  case (Some a)
  then have t: "(case f a (mem_history r i) of
      Inl e \<Rightarrow> (Inl e, r) | Inr (None, x) \<Rightarrow> (Inr x, r) | Inr (Some ev, x) \<Rightarrow> (Inr x, logged ev r)) = (res, r')"
    using assms unfolding mem_transact_audit_def logged_def by simp
  show thesis
  proof (cases "f a (mem_history r i)")
    case (Inl e)
    then show thesis using t same by simp
  next
    case (Inr out)
    obtain evo x where out: "out = (evo, x)" by (cases out)
    show thesis
    proof (cases evo)
      case None
      then show thesis using t same Inr out by simp
    next
      case (Some ev)
      then show thesis using t logs[OF \<open>mem_get r i = Some a\<close>, of ev x] Inr out by simp
    qed
  qed
qed

lemma preview_logs:
  assumes "preview_operation dg w v p now a hist = Inr (Some ev, x)"
  shows "ev_action_id ev = act_id a \<and> ev_event ev = ''CRM_PROPOSED'' \<and> ev_metadata ev = x
    \<and> find_proposal hist (snapshot_id x) = None \<and> length (crm_events ''CRM_PROPOSED'' hist) < 50
    \<and> crm_snapshot dg w a = Inr x"
proof -
  obtain proposal where p: "crm_snapshot dg w a = Inr proposal"
    and rest: "(case find_proposal hist (snapshot_id proposal) of
        Some _ \<Rightarrow> Inr (None, proposal)
      | None \<Rightarrow>
          bind_r (guard_r (length (crm_events ''CRM_PROPOSED'' hist) < 50)
             (ActionConflict ''The bounded proposal history limit was reached; operator review is required.'')) (\<lambda>_.
          bind_r (mk_event (act_id a) p ''CRM_PROPOSED'' now proposal) (\<lambda>ev. Inr (Some ev, proposal)))) = Inr (Some ev, x)"
    using assms unfolding preview_operation_def bind_r_Inr by blast
  then show ?thesis
    by (cases "find_proposal hist (snapshot_id proposal)") (simp_all only: option.case bind_r_Inr guard_r_Inr mk_event_Inr, auto)
qed

lemma decide_logs:
  assumes "crm_decide_operation dg w pid d e p now a hist = Inr (Some ev, x)"
  shows "ev_action_id ev = act_id a \<and> ev_event ev = ''CRM_DECIDED'' \<and> pr_role p = MANAGER \<and> ev_actor_id ev = pr_user_id p
    \<and> meta_is (ev_metadata ev) ''proposal_id'' pid \<and> meta_is (ev_metadata ev) ''decision'' d"
  using assms by (auto simp: crm_decide_operation_def meta_is_def res_simps Let_def split: option.splits)

lemma execute_logs:
  assumes "execute_operation dg w pid e key p now a hist = Inr (Some ev, x)"
  shows "\<exists>proposal ad res. ev_action_id ev = act_id a \<and> ev_event ev = ''CRM_SAMPLE_ATTEMPT''
    \<and> ev_metadata ev = attempt_record dg pid e p now a (key_hash_of dg p key) (request_fingerprint_of dg pid e) res
    \<and> x = without_request (ev_metadata ev) \<and> pr_role p = MANAGER
    \<and> first_match (\<lambda>m. meta_is m ''request_key_hash'' (key_hash_of dg p key)) (crm_events ''CRM_SAMPLE_ATTEMPT'' hist) = None
    \<and> first_match (\<lambda>m. meta_is m ''proposal_id'' pid \<and> meta_is m ''status'' ''SAMPLE_COMPLETED'')
        (crm_events ''CRM_SAMPLE_ATTEMPT'' hist) = None
    \<and> current_proposal dg w a hist pid = Inr proposal \<and> wf_adapter w = Sample_adapter ad
    \<and> approved_now (proposal_decisions hist pid) e \<and> length (crm_events ''CRM_SAMPLE_ATTEMPT'' hist) < 50"
  using assms
  by (auto simp: execute_operation_def adapter_execute_def res_simps Let_def simp del: first_match_None
      split: option.splits if_splits crm_adapter.splits sum.splits crm_write_error.splits)

text \<open>A CRM operation leaves every Action alone and logs at most one event of its own kind.\<close>

lemma exec_crm_cases:
  assumes "exec_crm dg w op r = (res, r')"
  obtains (same) "r' = r"
    | (logs) i a ev x where "mem_get r i = Some a" "r' = logged ev r" "ev_action_id ev = act_id a" "ev_event ev \<in> crm_names"
proof (cases op)
  case (Crm_preview i v p now)
  have e: "mem_transact_audit r i (preview_operation dg w v p now) = (res, r')"
    using assms Crm_preview by (simp add: preview_proposal_def)
  show thesis by (rule transact_cases[OF e]) (use same logs preview_logs in \<open>fastforce simp: crm_names_def\<close>)+
next
  case (Crm_decide i pid d e p now)
  show thesis
  proof (cases "d \<in> {''APPROVED'', ''REJECTED''}")
    case True
    then have t: "mem_transact_audit r i (crm_decide_operation dg w pid d e p now) = (res, r')"
      using assms Crm_decide by (auto simp: decide_proposal_def)
    show thesis by (rule transact_cases[OF t]) (use same logs decide_logs in \<open>fastforce simp: crm_names_def\<close>)+
  qed (use assms Crm_decide same in \<open>simp add: decide_proposal_def\<close>)
next
  case (Crm_execute i pid e key p now)
  show thesis
  proof (cases "retry_key_ok key")
    case True
    then have t: "mem_transact_audit r i (execute_operation dg w pid e key p now) = (res, r')"
      using assms Crm_execute by (auto simp: execute_sample_def)
    show thesis by (rule transact_cases[OF t]) (use same logs execute_logs in \<open>fastforce simp: crm_names_def\<close>)+
  qed (use assms Crm_execute same in \<open>simp add: execute_sample_def\<close>)
qed


section \<open>The history of an Action\<close>

definition completed_attempts :: "audit_event list \<Rightarrow> metadata list" where
  "completed_attempts hist = filter (\<lambda>m. meta_is m ''status'' ''SAMPLE_COMPLETED'') (crm_events ''CRM_SAMPLE_ATTEMPT'' hist)"

definition approval_for :: "metadata \<Rightarrow> metadata \<Rightarrow> bool" where
  "approval_for d m \<longleftrightarrow> meta_is d ''decision'' ''APPROVED''
     \<and> meta_text d ''proposal_id'' = meta_text m ''proposal_id'' \<and> meta_text d ''decision_id'' = meta_text m ''decision_id''"

definition crm_history_ok :: "audit_event list \<Rightarrow> bool" where
  "crm_history_ok hist \<longleftrightarrow>
     length (crm_events ''CRM_PROPOSED'' hist) \<le> 50 \<and> distinct (map snapshot_id (crm_events ''CRM_PROPOSED'' hist))
   \<and> length (crm_events ''CRM_SAMPLE_ATTEMPT'' hist) \<le> 50
   \<and> distinct (map (\<lambda>m. meta_text m ''proposal_id'') (completed_attempts hist))
   \<and> (\<forall>m\<in>set (crm_events ''CRM_SAMPLE_ATTEMPT'' hist). map_of m ''external_write'' = Some (J_bool False)
        \<and> (\<exists>d\<in>set (crm_events ''CRM_DECIDED'' hist). approval_for d m))"

lemma crm_events_snoc: "crm_events n (hist @ [ev]) = crm_events n hist @ (if ev_event ev = n then [ev_metadata ev] else [])"
  by (simp add: crm_events_def)

lemma crm_history_ok_Nil: "crm_history_ok []"
  by (simp add: crm_history_ok_def crm_events_def completed_attempts_def)

lemma other_event_ok: "ev_event ev \<notin> {''CRM_PROPOSED'', ''CRM_SAMPLE_ATTEMPT''} \<Longrightarrow> crm_history_ok hist \<Longrightarrow> crm_history_ok (hist @ [ev])"
  by (auto simp: crm_history_ok_def completed_attempts_def crm_events_snoc)

lemma snapshot_has_id:
  assumes "crm_snapshot dg w a = Inr m"
  shows "map_of m ''proposal_id'' = Some (J_str (snapshot_id m))"
proof -
  obtain body where "m = body @ [(''proposal_id'', J_str (crm_proposal_id dg body))]" "map_of body ''proposal_id'' = None"
    using assms by (auto simp: crm_snapshot_def crm_snapshot_body_def Let_def split: crm_adapter.splits if_splits)
  then show ?thesis by (simp add: snapshot_id_def meta_text_def map_add_def)
qed

lemma find_proposal_None: "find_proposal hist pid = None \<Longrightarrow> m \<in> set (crm_events ''CRM_PROPOSED'' hist) \<Longrightarrow> \<not> meta_is m ''proposal_id'' pid"
  by (simp add: find_proposal_def)

text \<open>Every recorded proposal carries its id.\<close>

definition proposals_named :: "audit_event list \<Rightarrow> bool" where
  "proposals_named hist \<longleftrightarrow> (\<forall>m\<in>set (crm_events ''CRM_PROPOSED'' hist). map_of m ''proposal_id'' = Some (J_str (snapshot_id m)))"

lemma preview_event_ok:
  assumes "preview_operation dg w v p now a hist = Inr (Some ev, x)" "crm_history_ok hist" "proposals_named hist"
  shows "crm_history_ok (hist @ [ev]) \<and> proposals_named (hist @ [ev])"
proof -
  note l = preview_logs[OF assms(1)]
  have id: "map_of x ''proposal_id'' = Some (J_str (snapshot_id x))" using l snapshot_has_id by blast
  have "snapshot_id m \<noteq> snapshot_id x" if "m \<in> set (crm_events ''CRM_PROPOSED'' hist)" for m
    using find_proposal_None[OF _ that, of "snapshot_id x"] l assms(3) that by (auto simp: proposals_named_def meta_is_def)
  then have "snapshot_id x \<notin> snapshot_id ` set (crm_events ''CRM_PROPOSED'' hist)" by fastforce
  then show ?thesis using l id assms(2,3)
    by (auto simp: crm_history_ok_def completed_attempts_def crm_events_snoc proposals_named_def)
qed

lemma attempt_record_reads:
  "meta_text (attempt_record dg pid e p now a kh fp res) ''proposal_id'' = Some pid"
  "meta_text (attempt_record dg pid e p now a kh fp res) ''decision_id'' = e"
  "map_of (attempt_record dg pid e p now a kh fp res) ''external_write'' = Some (J_bool False)"
  "meta_is (attempt_record dg pid e p now a kh fp res) ''proposal_id'' pid"
  "meta_is (attempt_record dg pid e p now a kh fp res) ''request_key_hash'' kh"
  "meta_is (attempt_record dg pid e p now a kh fp res) ''request_fingerprint'' fp"
  by (simp_all add: attempt_record_def meta_text_def meta_is_def j_opt_def split: option.splits)

lemma meta_text_is: "meta_text m k = Some t \<longleftrightarrow> meta_is m k t"
  by (cases "map_of m k") (auto simp: meta_text_def meta_is_def elim: j_text.elims)

lemma execute_event_ok:
  assumes x: "execute_operation dg w pid e key p now a hist = Inr (Some ev, x)" and ok: "crm_history_ok hist"
  shows "crm_history_ok (hist @ [ev])"
proof -
  obtain res where ev: "ev_event ev = ''CRM_SAMPLE_ATTEMPT''"
    "ev_metadata ev = attempt_record dg pid e p now a (key_hash_of dg p key) (request_fingerprint_of dg pid e) res"
    and no: "first_match (\<lambda>m. meta_is m ''proposal_id'' pid \<and> meta_is m ''status'' ''SAMPLE_COMPLETED'')
        (crm_events ''CRM_SAMPLE_ATTEMPT'' hist) = None"
    and ap: "approved_now (proposal_decisions hist pid) e" and len: "length (crm_events ''CRM_SAMPLE_ATTEMPT'' hist) < 50"
    using execute_logs[OF x] by blast
  let ?m = "ev_metadata ev"
  have mid: "meta_text ?m ''proposal_id'' = Some pid" "meta_text ?m ''decision_id'' = e"
    "map_of ?m ''external_write'' = Some (J_bool False)" unfolding ev(2) by (rule attempt_record_reads)+
  define d where "d = last (proposal_decisions hist pid)"
  have "proposal_decisions hist pid \<noteq> [] \<and> meta_is d ''decision'' ''APPROVED'' \<and> meta_text d ''decision_id'' = e"
    using ap by (simp add: approved_now_def latest_def d_def split: if_splits)
  then have "d \<in> set (proposal_decisions hist pid)" "meta_is d ''decision'' ''APPROVED''" "meta_text d ''decision_id'' = e"
    using last_in_set[of "proposal_decisions hist pid"] by (auto simp: d_def)
  then have d: "d \<in> set (crm_events ''CRM_DECIDED'' hist)" "approval_for d ?m"
    unfolding approval_for_def mid by (auto simp: proposal_decisions_def meta_text_is)
  have "meta_text m ''proposal_id'' \<noteq> Some pid" if "m \<in> set (completed_attempts hist)" for m
    using that no by (auto simp: completed_attempts_def meta_text_is)
  then have "Some pid \<notin> (\<lambda>m. meta_text m ''proposal_id'') ` set (completed_attempts hist)" by force
  then have dist: "distinct (map (\<lambda>m. meta_text m ''proposal_id'') (completed_attempts (hist @ [ev])))"
    using ok mid(1) ev(1) by (auto simp: crm_history_ok_def completed_attempts_def crm_events_snoc)
  show ?thesis using ok len d mid(3) ev(1) dist
    by (auto simp: crm_history_ok_def crm_events_snoc)
qed

section \<open>Every reachable store\<close>

definition joint_ok :: "mem_repo \<Rightarrow> bool" where
  "joint_ok r \<longleftrightarrow> mem.store_ok r \<and> (\<forall>i. crm_history_ok (mem_history r i) \<and> proposals_named (mem_history r i))"

lemma other_event_named: "ev_event ev \<noteq> ''CRM_PROPOSED'' \<Longrightarrow> proposals_named hist \<Longrightarrow> proposals_named (hist @ [ev])"
  by (auto simp: proposals_named_def crm_events_snoc)

lemma logged_store_ok:
  assumes "mem.store_ok r" "mem_get r i = Some a" "ev_action_id ev = act_id a" "ev_event ev \<in> crm_names"
  shows "mem.store_ok (logged ev r)"
proof -
  have inv: "mem_inv r" and id: "act_id a = i" using mem.store_okD[OF assms(1), of i a] assms(2) by simp_all
  have "mem_inv (logged ev r)"
    using inv assms(2,3) id by (auto simp: mem_inv_def logged_def mem_get_def)
  then show ?thesis using assms(1) crm_names_workflow[OF assms(4)]
    by (auto simp: mem.store_ok_def mem.mutations_def)
qed

lemma crm_op_ok:
  assumes ok: "joint_ok r" and x: "exec_crm dg w op r = (res, r')"
  shows "joint_ok r'"
proof -
  have store: "mem.store_ok r'"
    by (rule exec_crm_cases[OF x]) (use ok logged_store_ok in \<open>auto simp: joint_ok_def\<close>)
  have keep: "\<forall>j. crm_history_ok (mem_history (logged ev r) j) \<and> proposals_named (mem_history (logged ev r) j)"
    if "ev_action_id ev = act_id a" "mem_get r i = Some a"
      "crm_history_ok (mem_history r i @ [ev]) \<and> proposals_named (mem_history r i @ [ev])" for i a ev
  proof -
    have "act_id a = i" using mem.store_okD[of r i a] ok that(2) by (simp add: joint_ok_def)
    then show ?thesis using that ok by (simp add: joint_ok_def)
  qed
  have H: "crm_history_ok (mem_history r j)" "proposals_named (mem_history r j)" for j
    using ok by (simp_all add: joint_ok_def)
  have "\<forall>j. crm_history_ok (mem_history r' j) \<and> proposals_named (mem_history r' j)"
  proof (cases op)
    case (Crm_preview i v p now)
    have t: "mem_transact_audit r i (preview_operation dg w v p now) = (res, r')"
      using x Crm_preview by (simp add: preview_proposal_def)
    show ?thesis
      by (rule transact_cases[OF t]) (use H keep preview_logs preview_event_ok in \<open>metis+\<close>)
  next
    case (Crm_decide i pid d e p now)
    show ?thesis
    proof (cases "d \<in> {''APPROVED'', ''REJECTED''}")
      case True
      then have t: "mem_transact_audit r i (crm_decide_operation dg w pid d e p now) = (res, r')"
        using x Crm_decide by (auto simp: decide_proposal_def)
      show ?thesis
      proof (rule transact_cases[OF t])
        fix a ev y
        assume s: "mem_get r i = Some a" "crm_decide_operation dg w pid d e p now a (mem_history r i) = Inr (Some ev, y)"
          "r' = logged ev r"
        note l = decide_logs[OF s(2)]
        have "crm_history_ok (mem_history r i @ [ev])" by (rule other_event_ok) (use l H in auto)
        moreover have "proposals_named (mem_history r i @ [ev])" by (rule other_event_named) (use l H in auto)
        ultimately show ?thesis unfolding s(3) using l s(1) keep by blast
      qed (use H in simp)
    qed (use x H Crm_decide in \<open>simp add: decide_proposal_def\<close>)
  next
    case (Crm_execute i pid e key p now)
    show ?thesis
    proof (cases "retry_key_ok key")
      case True
      then have t: "mem_transact_audit r i (execute_operation dg w pid e key p now) = (res, r')"
        using x Crm_execute by (auto simp: execute_sample_def)
      show ?thesis
      proof (rule transact_cases[OF t])
        fix a ev y
        assume s: "mem_get r i = Some a" "execute_operation dg w pid e key p now a (mem_history r i) = Inr (Some ev, y)"
          "r' = logged ev r"
        have l: "ev_action_id ev = act_id a" "ev_event ev = ''CRM_SAMPLE_ATTEMPT''" using execute_logs[OF s(2)] by blast+
        have "proposals_named (mem_history r i @ [ev])" by (rule other_event_named) (use l H in auto)
        then show ?thesis unfolding s(3) using l s(1) keep execute_event_ok[OF s(2) H(1)] by blast
      qed (use H in simp)
    qed (use x H Crm_execute in \<open>simp add: execute_sample_def\<close>)
  qed
  then show ?thesis using store by (simp add: joint_ok_def)
qed

text \<open>An Action operation logs workflow events only.\<close>

definition grows :: "mem_repo \<Rightarrow> mem_repo \<Rightarrow> bool" where
  "grows r r' \<longleftrightarrow> mem_events r' = mem_events r \<or> (\<exists>ev. mem_events r' = mem_events r @ [ev] \<and> ev_event ev \<in> workflow_events)"

lemma finish_grows:
  assumes "\<And>u ev v. m = Inr (Store u ev v) \<Longrightarrow> ev_event ev \<in> workflow_events"
  shows "grows r (snd (finish mem_ops r m))"
proof (cases m)
  case (Inr pl)
  then show ?thesis using assms by (cases pl) (auto simp: finish_def grows_def mem_save_def)
qed (simp add: finish_def grows_def)

lemma planned_grows:
  assumes ok: "mem.store_ok r" and step: "\<And>a pl. lifecycle_ok a \<Longrightarrow> f a = Inr pl \<Longrightarrow> step_of a pl"
  shows "grows r (snd (finish mem_ops r (bind_r (svc_get mem_ops r i) f)))"
proof (rule finish_grows)
  fix u ev v
  assume "bind_r (svc_get mem_ops r i) f = Inr (Store u ev v)"
  then obtain a where a: "mem_get r i = Some a" "f a = Inr (Store u ev v)" by (auto simp: res_simps)
  then have "lifecycle_ok a" using mem.store_okD[OF ok, of i a] by simp
  then have "step_of a (Store u ev v)" using a(2) by (rule step)
  then show "ev_event ev \<in> workflow_events" by simp
qed

lemma exec_op_grows: "mem.store_ok r \<Longrightarrow> grows r (snd (exec_op mem_ops h tenant op r))"
proof (cases op)
  case (Op_create c)
  show ?thesis
  proof (cases "create_decide mem_ops h c (create_principal tenant c) r")
    case (Inr st)
    then show ?thesis using mem.create_decide_Insert[of h c "create_principal tenant c" r]
      by (cases st) (auto simp: Op_create create_def Let_def grows_def mem_save_def workflow_events_def)
  qed (simp add: Op_create create_def Let_def grows_def)
next
  case (Op_edit i p now v c)
  assume ok: "mem.store_ok r"
  show ?thesis unfolding Op_edit exec_op.simps edit_def by (rule planned_grows[OF ok]) (rule edit_plan_step)
next
  case (Op_transition i s p now v f)
  assume ok: "mem.store_ok r"
  show ?thesis unfolding Op_transition exec_op.simps transition_def by (rule planned_grows[OF ok]) (rule transition_plan_step)
next
  case (Op_decide i d p now v c)
  assume ok: "mem.store_ok r"
  have "grows r (snd (finish mem_ops r (bind_r (svc_get mem_ops r i) (\<lambda>a. decide_plan a d p now v c))))"
    by (rule planned_grows[OF ok]) (rule decide_plan_step)
  then show ?thesis unfolding Op_decide exec_op.simps decide_approval_def planned_manager
    by (simp add: grows_def split: sum.splits)
next
  case (Op_request i p now v)
  assume ok: "mem.store_ok r"
  show ?thesis unfolding Op_request exec_op.simps request_approval_def by (rule planned_grows[OF ok]) (rule request_plan_step)
next
  case (Op_subtask i sid p now v key c)
  assume ok: "mem.store_ok r"
  show ?thesis unfolding Op_subtask exec_op.simps change_subtask_def by (rule planned_grows[OF ok]) (rule subtask_plan_step)
qed

lemma workflow_not_crm: "ev_event ev \<in> workflow_events \<Longrightarrow> ev_event ev \<notin> {''CRM_PROPOSED'', ''CRM_SAMPLE_ATTEMPT''}"
  by (auto simp: workflow_events_def)

lemma grows_ok:
  assumes "grows r r'" "crm_history_ok (mem_history r i)" "proposals_named (mem_history r i)"
  shows "crm_history_ok (mem_history r' i) \<and> proposals_named (mem_history r' i)"
proof (cases "mem_events r' = mem_events r")
  case True
  then show ?thesis using assms by (simp add: mem_history_def)
next
  case False
  then obtain ev where ev: "mem_events r' = mem_events r @ [ev]" "ev_event ev \<in> workflow_events"
    using assms(1) by (auto simp: grows_def)
  have h: "mem_history r' i = mem_history r i @ (if ev_action_id ev = i then [ev] else [])"
    by (simp add: mem_history_def ev(1))
  have n: "ev_event ev \<notin> {''CRM_PROPOSED'', ''CRM_SAMPLE_ATTEMPT''}" "ev_event ev \<noteq> ''CRM_PROPOSED''"
    using workflow_not_crm[OF ev(2)] by simp_all
  show ?thesis unfolding h
    using assms(2,3) other_event_ok[OF n(1) assms(2)] other_event_named[OF n(2) assms(3)] by simp
qed

lemma joint_step_ok: "joint_step dg h tenant r r' \<Longrightarrow> joint_ok r \<Longrightarrow> joint_ok r'"
proof (induction rule: joint_step.induct)
  case (joint_work r r')
  have ok: "mem.store_ok r" using joint_work.prems by (simp add: joint_ok_def)
  have "grows r r'" using joint_work.hyps
  proof (rule work_step_cases)
    fix op res
    assume "exec_op mem_ops h tenant op r = (res, r')"
    then show ?thesis using exec_op_grows[OF ok, of h tenant op] by simp
  qed (simp add: dismiss_suggestion_def mem_dismiss_def grows_def)
  moreover have "mem.store_ok r'" using mem.work_step_ok[OF joint_work.hyps ok] .
  ultimately show ?case using joint_work.prems grows_ok by (auto simp: joint_ok_def)
qed (rule crm_op_ok)

lemma joint_reachable_ok: "joint_reachable dg h tenant r \<Longrightarrow> joint_ok r"
proof (induction rule: joint_reachable.induct)
  case joint_start
  have "mem_history mem_init i = []" for i by (simp add: mem_history_def mem_init_def)
  then show ?case
    using mem_init_ok crm_history_ok_Nil by (simp add: joint_ok_def proposals_named_def crm_events_def)
qed (rule joint_step_ok)


section \<open>Who decided\<close>

text \<open>
  A recorded decision stands on an act of a manager: in an earlier state of the run a manager decided, and that is the
  operation that logged it.
\<close>

definition manager_decided :: "(json \<Rightarrow> string) \<Rightarrow> hashing \<Rightarrow> string option \<Rightarrow> mem_repo \<Rightarrow> audit_event \<Rightarrow> bool" where
  "manager_decided dg h tenant r ev \<longleftrightarrow> (\<exists>r0 r1 w pid d e q t m. joint_reachable dg h tenant r0
     \<and> decide_proposal dg w (ev_action_id ev) pid d e q t r0 = (Inr m, r1) \<and> mem_events r1 = mem_events r0 @ [ev]
     \<and> (joint_step dg h tenant)\<^sup>*\<^sup>* r1 r
     \<and> pr_role q = MANAGER \<and> ev_actor_id ev = pr_user_id q
     \<and> meta_is (ev_metadata ev) ''proposal_id'' pid \<and> meta_is (ev_metadata ev) ''decision'' d)"

lemma manager_decided_later: "manager_decided dg h tenant r ev \<Longrightarrow> joint_step dg h tenant r r' \<Longrightarrow> manager_decided dg h tenant r' ev"
  unfolding manager_decided_def by (meson rtranclp.rtrancl_into_rtrancl)

lemma crm_step_decided:
  assumes reach: "joint_reachable dg h tenant r" and x: "exec_crm dg w op r = (res, r')"
    and ev: "ev \<in> set (mem_events r')" "ev_event ev = ''CRM_DECIDED''"
  shows "ev \<in> set (mem_events r) \<or> manager_decided dg h tenant r' ev"
proof (cases op)
  case (Crm_preview i v p now)
  have t: "mem_transact_audit r i (preview_operation dg w v p now) = (res, r')"
    using x Crm_preview by (simp add: preview_proposal_def)
  show ?thesis by (rule transact_cases[OF t]) (use ev preview_logs in \<open>fastforce simp: logged_def\<close>)+
next
  case (Crm_decide i pid d e p now)
  show ?thesis
  proof (cases "d \<in> {''APPROVED'', ''REJECTED''}")
    case True
    then have dec: "decide_proposal dg w i pid d e p now r = (res, r')"
      and t: "mem_transact_audit r i (crm_decide_operation dg w pid d e p now) = (res, r')"
      using x Crm_decide by (auto simp: decide_proposal_def)
    show ?thesis
    proof (rule transact_cases[OF t])
      fix a ev' y
      assume s: "mem_get r i = Some a" "crm_decide_operation dg w pid d e p now a (mem_history r i) = Inr (Some ev', y)"
        "res = Inr y" "r' = logged ev' r"
      note l = decide_logs[OF s(2)]
      have "act_id a = i" using joint_reachable_ok[OF reach] mem.store_okD[of r i a] s(1) by (simp add: joint_ok_def)
      then have "manager_decided dg h tenant r' ev'"
        unfolding manager_decided_def using reach dec s l by (fastforce simp: logged_def)
      then show ?thesis using ev(1) s(4) by (auto simp: logged_def)
    qed (use ev in simp)
  qed (use x ev Crm_decide in \<open>simp add: decide_proposal_def\<close>)
next
  case (Crm_execute i pid e key p now)
  show ?thesis
  proof (cases "retry_key_ok key")
    case True
    then have t: "mem_transact_audit r i (execute_operation dg w pid e key p now) = (res, r')"
      using x Crm_execute by (auto simp: execute_sample_def)
    show ?thesis by (rule transact_cases[OF t]) (use ev execute_logs in \<open>fastforce simp: logged_def\<close>)+
  qed (use x ev Crm_execute in \<open>simp add: execute_sample_def\<close>)
qed

lemma work_step_grows:
  assumes ok: "mem.store_ok r" and w: "work_step mem_ops h tenant r r'"
  shows "grows r r'"
  using w
proof (rule work_step_cases)
  fix op res
  assume "exec_op mem_ops h tenant op r = (res, r')"
  then show ?thesis using exec_op_grows[OF ok, of h tenant op] by simp
qed (simp add: dismiss_suggestion_def mem_dismiss_def grows_def)

lemma decisions_are_managers:
  "joint_reachable dg h tenant r \<Longrightarrow> ev \<in> set (mem_events r) \<Longrightarrow> ev_event ev = ''CRM_DECIDED'' \<Longrightarrow> manager_decided dg h tenant r ev"
proof (induction rule: joint_reachable.induct)
  case joint_start
  then show ?case by (simp add: mem_init_def)
next
  case (joint_more r r')
  have old: "manager_decided dg h tenant r' ev" if "ev \<in> set (mem_events r)"
    using joint_more.IH[OF that joint_more.prems(2)] manager_decided_later joint_more.hyps(2) by blast
  show ?case using joint_more.hyps(2)
  proof (cases rule: joint_step.cases)
    case joint_work
    have "grows r r'" using work_step_grows joint_reachable_ok[OF joint_more.hyps(1)] joint_work by (simp add: joint_ok_def)
    then show ?thesis using joint_more.prems old by (auto simp: grows_def workflow_events_def)
  next
    case (joint_crm w op res)
    then show ?thesis using crm_step_decided[OF joint_more.hyps(1) joint_crm joint_more.prems] old by blast
  qed
qed

section \<open>A worked run\<close>

abbreviation demo_digest :: "json \<Rightarrow> string" where
  "demo_digest \<equiv> (\<lambda>j. ''d'')"

definition demo_company :: crm_company where
  "demo_company = \<lparr>crc_id = ''c1'', crc_account_id = ''acc'', crc_owner_id = Some ''o1'',
     crc_provenance = \<lparr>prov_source_system = ''hubspot'', prov_source_record_id = ''c1'', prov_source_url = None,
       prov_observed_at = demo_time, prov_recorded_at = demo_time, prov_classification = INTERNAL_COMMERCIAL,
       prov_evidence_state = CONFIRMED, prov_data_mode = SAMPLE, prov_synthetic = True, prov_sensitivity_tags = {},
       prov_missing_fields = []\<rparr>, crc_name = None, crc_properties = None\<rparr>"

definition demo_workflow :: crm_workflow where
  "demo_workflow = \<lparr>wf_adapter = Sample_adapter \<lparr>sh_contexts = [(''acc'',
       (no_crm_context CRM_AVAILABLE [])\<lparr>cac_company := Some demo_company\<rparr>)], sh_state = CRM_AVAILABLE\<rparr>,
     wf_commercial_revision = ''r1''\<rparr>"

definition demo_c1 :: mem_repo where
  "demo_c1 = snd (exec_crm demo_digest demo_workflow (Crm_preview demo_id 2 demo_manager demo_time) demo_r2)"

definition demo_c2 :: mem_repo where
  "demo_c2 = snd (exec_crm demo_digest demo_workflow
     (Crm_decide demo_id ''crm-proposal-d'' ''APPROVED'' None demo_manager demo_time) demo_c1)"

definition demo_c3 :: mem_repo where
  "demo_c3 = snd (execute_sample demo_digest demo_workflow demo_id ''crm-proposal-d'' (Some ''crm-decision-d'')
     ''key-0001'' demo_manager demo_time demo_c2)"

lemma joint_of_work: "work_reachable mem_ops h tenant mem_init r \<Longrightarrow> joint_reachable dg h tenant r"
  by (induction rule: work_reachable.induct) (auto intro: joint_start joint_more joint_work)

lemma reach_crm: "joint_reachable dg h tenant r \<Longrightarrow> joint_reachable dg h tenant (snd (exec_crm dg w op r))"
  by (rule joint_more[where r = r], assumption) (rule joint_crm[OF prod.collapse[symmetric]])

lemma demo_joint2: "joint_reachable demo_digest demo_hash None demo_c2"
  unfolding demo_c2_def demo_c1_def by (intro reach_crm joint_of_work demo_reach2)

lemma demo_joint3: "joint_reachable demo_digest demo_hash None demo_c3"
  using reach_crm[OF demo_joint2, of demo_workflow "Crm_execute demo_id ''crm-proposal-d'' (Some ''crm-decision-d'')
    ''key-0001'' demo_manager demo_time"] by (simp add: demo_c3_def)

lemma demo_crm_run:
  "length (mem_events demo_c2) = 4" "length (mem_events demo_c3) = 5"
  "map_sum (\<lambda>_. ()) (\<lambda>m. meta_text m ''status'') (fst (execute_sample demo_digest demo_workflow demo_id ''crm-proposal-d''
     (Some ''crm-decision-d'') ''key-0001'' demo_manager demo_time demo_c2)) = Inr (Some ''SAMPLE_COMPLETED'')"
  by code_simp+

section \<open>Properties\<close>

text \<open>
  C3. However the two workflows interleave, the CRM log of an Action stays sound: at most fifty
  proposals, no two alike, and at most fifty attempts; a proposal is completed at most once; every
  attempt is marked as no external write and answers a recorded approval of its very proposal; and
  the version of the Action still counts exactly its workflow events.
\<close>

theorem crm_log_sound:
  assumes "joint_reachable dg h tenant r"
  shows "crm_history_ok (mem_history r i)
    \<and> (\<forall>a. mem_get r i = Some a \<longrightarrow>
        act_version a = int (length (filter (\<lambda>e. ev_event e \<in> workflow_events) (mem_history r i))))"
  using joint_reachable_ok[OF assms] mem.store_okD[of r i] by (auto simp: joint_ok_def mem.mutations_def)

lemma attempt_facts:
  assumes "execute_sample dg w i pid e key p now r = (res, r')" and "r' \<noteq> r"
  shows "pr_role p = MANAGER \<and> (\<exists>ad. wf_adapter w = Sample_adapter ad) \<and> mem_items r' = mem_items r \<and>
    (\<exists>a ev snapshot proposal. mem_get r i = Some a \<and> mem_events r' = mem_events r @ [ev]
      \<and> ev_event ev = ''CRM_SAMPLE_ATTEMPT'' \<and> ev_action_id ev = act_id a
      \<and> map_of (ev_metadata ev) ''external_write'' = Some (J_bool False)
      \<and> crm_snapshot dg w a = Inr snapshot \<and> snapshot_id snapshot = pid
      \<and> find_proposal (mem_history r i) pid = Some proposal \<and> proposal_blockers proposal = []
      \<and> approved_now (proposal_decisions (mem_history r i) pid) e)"
proof -
  have key: "retry_key_ok key" using assms by (auto simp: execute_sample_def split: if_splits)
  then have t: "mem_transact_audit r i (execute_operation dg w pid e key p now) = (res, r')"
    using assms(1) by (simp add: execute_sample_def)
  show ?thesis
  proof (rule transact_cases[OF t])
    fix a ev x
    assume s: "mem_get r i = Some a" "execute_operation dg w pid e key p now a (mem_history r i) = Inr (Some ev, x)"
      "r' = logged ev r"
    from execute_logs[OF s(2)] obtain proposal ad eff where l: "ev_action_id ev = act_id a"
      "ev_event ev = ''CRM_SAMPLE_ATTEMPT''" "pr_role p = MANAGER" "wf_adapter w = Sample_adapter ad"
      "ev_metadata ev = attempt_record dg pid e p now a (key_hash_of dg p key) (request_fingerprint_of dg pid e) eff"
      "current_proposal dg w a (mem_history r i) pid = Inr proposal" "approved_now (proposal_decisions (mem_history r i) pid) e"
      by blast
    from l(6) obtain snapshot where "crm_snapshot dg w a = Inr snapshot" "snapshot_id snapshot = pid"
      "find_proposal (mem_history r i) pid = Some proposal" "proposal_blockers proposal = []"
      by (auto simp: current_proposal_def res_simps split: option.splits if_splits)
    moreover have "map_of (ev_metadata ev) ''external_write'' = Some (J_bool False)"
      unfolding l(5) by (rule attempt_record_reads)
    ultimately show ?thesis using l s by (auto simp: logged_def)
  qed (use assms(2) in simp)
qed

lemma latest_decision_event:
  assumes "approved_now (proposal_decisions hist pid) e"
  obtains ev where "ev \<in> set hist" "ev_event ev = ''CRM_DECIDED''" "ev_metadata ev = last (proposal_decisions hist pid)"
    "meta_is (ev_metadata ev) ''proposal_id'' pid" "meta_is (ev_metadata ev) ''decision'' ''APPROVED''"
    "meta_text (ev_metadata ev) ''decision_id'' = e"
proof -
  let ?d = "last (proposal_decisions hist pid)"
  have d: "proposal_decisions hist pid \<noteq> []" "meta_is ?d ''decision'' ''APPROVED''" "meta_text ?d ''decision_id'' = e"
    using assms by (auto simp: approved_now_def latest_def split: if_splits)
  have "?d \<in> set (proposal_decisions hist pid)" using d(1) by simp
  then obtain ev where "ev \<in> set hist" "ev_event ev = ''CRM_DECIDED''" "ev_metadata ev = ?d" "meta_is ?d ''proposal_id'' pid"
    by (auto simp: proposal_decisions_def crm_events_def)
  then show thesis using that d by simp
qed

text \<open>
  C7. Nothing is attempted without a manager's standing approval: in any run of both workflows, an execution that logs an attempt was
  asked for by a manager, through the sample adapter, for the proposal that matches the Action as it is now, with no
  blocker; the latest decision on that proposal is the approval the caller names, and an operation of a manager, named
  as its actor, recorded it earlier in the run. The execution logs just that attempt and changes no Action.
\<close>

theorem attempt_needs_current_approval:
  assumes "joint_reachable dg h tenant r" and "execute_sample dg w i pid e key p now r = (res, r')" and "r' \<noteq> r"
  shows "pr_role p = MANAGER \<and> (\<exists>ad. wf_adapter w = Sample_adapter ad) \<and> mem_items r' = mem_items r \<and>
    (\<exists>a ev snapshot proposal. mem_get r i = Some a \<and> mem_events r' = mem_events r @ [ev]
      \<and> ev_event ev = ''CRM_SAMPLE_ATTEMPT'' \<and> ev_action_id ev = act_id a
      \<and> map_of (ev_metadata ev) ''external_write'' = Some (J_bool False)
      \<and> crm_snapshot dg w a = Inr snapshot \<and> snapshot_id snapshot = pid
      \<and> find_proposal (mem_history r i) pid = Some proposal \<and> proposal_blockers proposal = [])
    \<and> (\<exists>ev\<in>set (mem_history r i). ev_event ev = ''CRM_DECIDED''
      \<and> ev_metadata ev = last (proposal_decisions (mem_history r i) pid)
      \<and> meta_is (ev_metadata ev) ''proposal_id'' pid \<and> meta_is (ev_metadata ev) ''decision'' ''APPROVED''
      \<and> meta_text (ev_metadata ev) ''decision_id'' = e \<and> manager_decided dg h tenant r ev)"
proof -
  note F = attempt_facts[OF assms(2,3)]
  have "approved_now (proposal_decisions (mem_history r i) pid) e" using F by blast
  then obtain ev where ev: "ev \<in> set (mem_history r i)" "ev_event ev = ''CRM_DECIDED''"
    "ev_metadata ev = last (proposal_decisions (mem_history r i) pid)" "meta_is (ev_metadata ev) ''proposal_id'' pid"
    "meta_is (ev_metadata ev) ''decision'' ''APPROVED''" "meta_text (ev_metadata ev) ''decision_id'' = e"
    by (rule latest_decision_event)
  have "manager_decided dg h tenant r ev"
    by (rule decisions_are_managers[OF assms(1) _ ev(2)]) (use ev(1) in \<open>simp add: mem_history_def\<close>)
  then show ?thesis using F ev by blast
qed

lemma dset_twice: "dset k v (dset k v d) = dset k v d"
  by (induction d) auto

lemma execute_again:
  assumes x: "execute_operation dg w pid e key p now a hist = Inr (evo, res)"
    and hist: "hist' = hist @ (case evo of None \<Rightarrow> [] | Some ev \<Rightarrow> [ev])"
  shows "execute_operation dg w pid e key p now' a hist' = Inr (None, dset ''replayed'' (J_bool True) res)"
proof (cases evo)
  case (Some ev)
  from execute_logs[OF x[unfolded Some]] obtain eff where l: "ev_event ev = ''CRM_SAMPLE_ATTEMPT''"
    "ev_metadata ev = attempt_record dg pid e p now a (key_hash_of dg p key) (request_fingerprint_of dg pid e) eff"
    "res = without_request (ev_metadata ev)"
    and no: "first_match (\<lambda>m. meta_is m ''request_key_hash'' (key_hash_of dg p key)) (crm_events ''CRM_SAMPLE_ATTEMPT'' hist) = None"
    by blast
  have keys: "meta_is (ev_metadata ev) ''request_key_hash'' (key_hash_of dg p key)"
    "meta_is (ev_metadata ev) ''request_fingerprint'' (request_fingerprint_of dg pid e)"
    unfolding l(2) by (rule attempt_record_reads)+
  have found: "first_match (\<lambda>m. meta_is m ''request_key_hash'' (key_hash_of dg p key)) (crm_events ''CRM_SAMPLE_ATTEMPT'' hist')
      = Some (ev_metadata ev)"
    using no keys(1) l(1) by (simp add: hist Some crm_events_snoc first_match_snoc)
  have "require_manager p = Inr ()" "require_manage p a = Inr ()"
    using x unfolding execute_operation_def by (cases "require_manager p"; cases "require_manage p a"; simp)+
  then show ?thesis by (simp add: execute_operation_def Let_def found keys(2) as_replayed_def l(3))
next
  case None
  have m: "require_manager p = Inr ()" "require_manage p a = Inr ()"
    using x unfolding execute_operation_def by (cases "require_manager p"; cases "require_manage p a"; simp)+
  let ?A = "crm_events ''CRM_SAMPLE_ATTEMPT'' hist"
  show ?thesis
  proof (cases "first_match (\<lambda>m. meta_is m ''request_key_hash'' (key_hash_of dg p key)) ?A")
    case (Some replay)
    then show ?thesis using x m
      by (auto simp: execute_operation_def Let_def hist None as_replayed_def dset_twice split: if_splits)
  next
    case N: None
    then obtain proposal where c: "current_proposal dg w a hist pid = Inr proposal"
      "approved_now (proposal_decisions hist pid) e"
      using x m by (auto simp: execute_operation_def Let_def bind_r_Inr guard_r_Inr simp del: first_match_None)
    show ?thesis
    proof (cases "first_match (\<lambda>m. meta_is m ''proposal_id'' pid \<and> meta_is m ''status'' ''SAMPLE_COMPLETED'') ?A")
      case (Some done_before)
      then show ?thesis using x m N c
        by (auto simp: execute_operation_def Let_def hist None as_replayed_def dset_twice guard_r_def simp del: first_match_None)
    next
      case N2: None
      then show ?thesis using x m N c None
        by (auto simp: execute_operation_def Let_def bind_r_Inr guard_r_def simp del: first_match_None split: if_splits)
    qed
  qed
qed

text \<open>
  Execution is idempotent: repeating a successful request with the same retry key, at any later
  time, returns the same record marked as replayed and changes nothing.
\<close>

theorem execution_retry_is_idempotent:
  assumes "joint_reachable dg h tenant r" and "execute_sample dg w i pid e key p now r = (Inr res, r')"
  shows "execute_sample dg w i pid e key p now' r' = (Inr (dset ''replayed'' (J_bool True) res), r')"
proof -
  have key: "retry_key_ok key" using assms(2) by (auto simp: execute_sample_def split: if_splits)
  then have t: "mem_transact_audit r i (execute_operation dg w pid e key p now) = (Inr res, r')"
    using assms(2) by (simp add: execute_sample_def)
  obtain a where a: "mem_get r i = Some a"
    using t by (cases "mem_get r i") (simp_all add: mem_transact_audit_def)
  have id: "act_id a = i"
    using joint_reachable_ok[OF assms(1)] mem.store_okD[of r i a] a by (simp add: joint_ok_def)
  obtain evo where o1: "execute_operation dg w pid e key p now a (mem_history r i) = Inr (evo, res)"
    "r' = (case evo of None \<Rightarrow> r | Some ev \<Rightarrow> logged ev r)"
    using t a by (auto simp: mem_transact_audit_def logged_def split: sum.splits option.splits)
  have h: "mem_history r' i = mem_history r i @ (case evo of None \<Rightarrow> [] | Some ev \<Rightarrow> [ev])"
  proof (cases evo)
    case (Some ev)
    have "ev_action_id ev = i" using execute_logs[OF o1(1)[unfolded Some]] id by blast
    then show ?thesis by (simp add: o1(2) Some)
  qed (simp add: o1(2))
  have "mem_get r' i = Some a" using a by (simp add: o1(2) split: option.splits)
  then show ?thesis
    using execute_again[OF o1(1) h] key by (simp add: execute_sample_def mem_transact_audit_def)
qed


text \<open>The worked run meets the hypotheses.\<close>

theorem crm_log_sound_witness:
  "crm_history_ok (mem_history demo_c3 demo_id) \<and> length (mem_events demo_c3) = 5"
  using crm_log_sound[OF demo_joint3, of demo_id] demo_crm_run(2) by simp

theorem attempt_needs_current_approval_witness:
  "\<exists>ev\<in>set (mem_history demo_c2 demo_id). manager_decided demo_digest demo_hash None demo_c2 ev
     \<and> meta_is (ev_metadata ev) ''decision'' ''APPROVED''"
proof -
  have "demo_c3 \<noteq> demo_c2" using demo_crm_run(1,2) by auto
  then show ?thesis
    using attempt_needs_current_approval[OF demo_joint2, where r' = demo_c3, OF surjective_pairing[of
      "execute_sample demo_digest demo_workflow demo_id ''crm-proposal-d'' (Some ''crm-decision-d'')
         ''key-0001'' demo_manager demo_time demo_c2", folded demo_c3_def]] by blast
qed

theorem execution_retry_is_idempotent_witness:
  "\<exists>res. execute_sample demo_digest demo_workflow demo_id ''crm-proposal-d'' (Some ''crm-decision-d'')
     ''key-0001'' demo_manager demo_time demo_c3 = (Inr (dset ''replayed'' (J_bool True) res), demo_c3)"
proof -
  let ?x = "execute_sample demo_digest demo_workflow demo_id ''crm-proposal-d'' (Some ''crm-decision-d'')
     ''key-0001'' demo_manager demo_time demo_c2"
  obtain res where "fst ?x = Inr res" using demo_crm_run(3) by (cases "fst ?x") auto
  then have "?x = (Inr res, demo_c3)" by (simp add: demo_c3_def prod_eq_iff)
  from execution_retry_is_idempotent[OF demo_joint2 this, of demo_time] show ?thesis by blast
qed

end
