(* ===== verification/Rubric.thy ===== *)
theory Rubric
  imports Core
begin

text \<open>
  The contract every scoring rubric of the program keeps: non-negative weights that add up to one.
  The clients (the fixed-weight opportunity rubric, the decision families, Prospect Fit) get from it
  that an index of values in a range stays in the range and grows with its inputs; a range of lower
  and upper values per factor gives a range of the index.
\<close>

locale weighted_index =
  fixes ws :: "('k \<times> rat) list"
  assumes weight_nonneg: "(k, w) \<in> set ws \<Longrightarrow> 0 \<le> w"
    and weight_total: "(\<Sum>(k, w)\<leftarrow>ws. w) = 1"
begin

definition index :: "('k \<Rightarrow> rat) \<Rightarrow> rat" where
  "index g = (\<Sum>(k, w)\<leftarrow>ws. g k * w)"

lemma index_mono: "(\<And>k. k \<in> fst ` set ws \<Longrightarrow> g k \<le> h k) \<Longrightarrow> index g \<le> index h"
  unfolding index_def
  by (rule sum_list_le_map) (force intro: mult_right_mono weight_nonneg)

lemma index_const: "index (\<lambda>_. c) = c"
proof -
  have "(\<Sum>(k, w)\<leftarrow>ws. c * w) = c * (\<Sum>(k, w)\<leftarrow>ws. w)"
    by (induction ws) (auto simp: algebra_simps)
  then show ?thesis by (simp add: index_def weight_total)
qed

lemma index_bounds:
  assumes "\<And>k. k \<in> fst ` set ws \<Longrightarrow> a \<le> g k \<and> g k \<le> b"
  shows "a \<le> index g \<and> index g \<le> b"
  using index_mono[of "\<lambda>_. a" g] index_mono[of g "\<lambda>_. b"] assms by (simp add: index_const)

end

text \<open>A range of the index: every factor has a lower and an upper value, within a common scale.\<close>

locale ranged_index = weighted_index ws for ws :: "('k \<times> rat) list" +
  fixes lo hi :: "'k \<Rightarrow> rat" and bottom top :: rat
  assumes in_scale: "k \<in> fst ` set ws \<Longrightarrow> bottom \<le> lo k \<and> lo k \<le> hi k \<and> hi k \<le> top"
begin

lemma range_ordered: "index lo \<le> index hi"
  by (rule index_mono) (use in_scale in blast)

lemma range_in_scale: "bottom \<le> index lo \<and> index hi \<le> top"
  using index_bounds[of bottom lo top] index_bounds[of bottom hi top] in_scale by (meson order_trans)

end

end
