(* ===== verification/Attractiveness.thy ===== *)
theory Attractiveness
  imports Rubric Domain
begin

text \<open>
  The fixed-weight opportunity rubric of \<^verbatim>\<open>modules/scoring/account_attractiveness.py\<close>:
  the rubrics with their bins, the weighted factors, the calculation with its low/high range, and
  the seller-facing projection.
\<close>

section \<open>Rubrics\<close>

record rubric_bin =
  rb_key :: string
  rb_label :: string
  rb_points :: int

definition rubric_bin_post_init :: "rubric_bin \<Rightarrow> (py_error, rubric_bin) result" where
  "rubric_bin_post_init b =
     (if \<not> (0 \<le> rb_points b \<and> rb_points b \<le> 100)
      then Inl (ValueError ''rubric points must be between zero and 100'') else Inr b)"

record rubric =
  rub_key :: string
  rub_label :: string
  rub_bins :: "rubric_bin list"

definition bin_for :: "rubric \<Rightarrow> string \<Rightarrow> (py_error, rubric_bin) result" where
  "bin_for r key =
     (case first_match (\<lambda>b. rb_key b = key) (rub_bins r) of
        Some b \<Rightarrow> Inr b
      | None \<Rightarrow> Inl (ValueError (key @ '' is not a bin of '' @ rub_key r)))"

definition mk_rubric :: "string \<Rightarrow> string \<Rightarrow> (string \<times> string \<times> int) list \<Rightarrow> rubric" where
  "mk_rubric key label bins = \<lparr>rub_key = key, rub_label = label,
     rub_bins = map (\<lambda>(k, l, p). \<lparr>rb_key = k, rb_label = l, rb_points = p\<rparr>) bins\<rparr>"

definition HORIZON :: rubric where
  "HORIZON = mk_rubric ''expected_production_horizon'' ''Expected production horizon''
     [(''TEN_PLUS_YEARS'', ''10+ years'', 100), (''FIVE_TO_NINE_YEARS'', ''5-9 years'', 80),
      (''TWO_TO_FOUR_YEARS'', ''2-4 years'', 55), (''UNDER_TWO_YEARS_OR_ONE_OFF'', ''<2 years or one-off'', 25)]"

definition REPEAT :: rubric where
  "REPEAT = mk_rubric ''repeat_production_pattern'' ''Repeat production pattern''
     [(''ESTABLISHED_RECURRING'', ''established recurring'', 100),
      (''MULTIPLE_BATCHES_NOT_LOCKED'', ''multiple batches'', 70), (''SINGLE_DEFINED_RUN'', ''single run'', 30)]"

definition COMMITMENT :: rubric where
  "COMMITMENT = mk_rubric ''commitment_strength'' ''Commitment strength''
     [(''FUNDED_AWARDED_CONTRACTED'', ''funded/awarded'', 100), (''BUDGETED_CREDIBLE_FUNDING'', ''credible funding'', 70),
      (''EARLY_STAGE_CONDITIONAL'', ''early/conditional'', 40), (''CANCELLATION_OR_FUNDING_RISK'', ''risk'', 20)]"

definition MATURITY :: rubric where
  "MATURITY = mk_rubric ''industry_specific_maturity_evidence'' ''Industry maturity evidence''
     [(''STRONG_EVIDENCE'', ''strong'', 100), (''PARTIAL_CREDIBLE'', ''partial'', 60), (''WEAK_EARLY'', ''weak'', 30)]"

definition MATERIAL :: rubric where
  "MATERIAL = mk_rubric ''material_match'' ''Material match''
     [(''ROUTINE'', ''routine'', 100), (''EXTENDED_ANALOGOUS'', ''analogous'', 70), (''KNOWN_MISMATCH'', ''mismatch'', 20)]"

definition PROCESS :: rubric where
  "PROCESS = mk_rubric ''process_tolerance_match'' ''Process / tolerance match''
     [(''ROUTINE'', ''routine'', 100), (''EDGE_BUT_ANALOGOUS'', ''analogous'', 70), (''KNOWN_MISMATCH'', ''mismatch'', 20)]"

definition CERT :: rubric where
  "CERT = mk_rubric ''certification_compliance_fit'' ''Certification fit''
     [(''ALL_MET'', ''all met'', 100), (''MINOR_GAP'', ''minor gap'', 70), (''MAJOR_GAP'', ''major gap'', 20)]"

definition VOLUME :: rubric where
  "VOLUME = mk_rubric ''volume_compatibility'' ''Volume compatibility''
     [(''NORMAL_RANGE'', ''normal'', 100), (''WORKABLE_NOT_IDEAL'', ''workable'', 70), (''POOR_FIT'', ''poor'', 30)]"

definition CONTENT :: rubric where
  "CONTENT = mk_rubric ''btx_relevant_component_content'' ''BTX-relevant component content''
     [(''MULTIPLE_FAMILIES'', ''multiple'', 100), (''ONE_FAMILY'', ''one'', 75), (''LIMITED_SET'', ''limited'', 50),
      (''MINIMAL'', ''minimal'', 20)]"

definition REPEAT_VOLUME :: rubric where
  "REPEAT_VOLUME = mk_rubric ''repeat_volume_potential'' ''Repeat volume potential''
     [(''LARGE_RECURRING'', ''large'', 100), (''MEANINGFUL_RECURRING'', ''meaningful'', 75),
      (''SMALL_EPISODIC'', ''small'', 40), (''ONE_OFF'', ''one-off'', 20)]"

definition CROSS_BU :: rubric where
  "CROSS_BU = mk_rubric ''cross_bu_applicability'' ''Cross-BU applicability''
     [(''TWO_PLUS_BU'', ''two+'', 100), (''ONE_BU'', ''one'', 70), (''WEAK_OR_NONE'', ''weak'', 20)]"

definition MAKE_BUY :: rubric where
  "MAKE_BUY = mk_rubric ''make_buy_propensity'' ''Make/buy propensity''
     [(''SOURCES_EXTERNALLY'', ''external'', 100), (''MIXED'', ''mixed'', 60), (''MOSTLY_CAPTIVE'', ''captive'', 30)]"

definition AWARDS :: rubric where
  "AWARDS = mk_rubric ''recent_awards_funding_production_increases'' ''Recent awards''
     [(''CLEAR_POSITIVE_RECENT'', ''positive'', 100), (''SOME_POSITIVE'', ''some'', 70),
      (''NO_MATERIAL_CHANGE'', ''none'', 50), (''REDUCTION_OR_CANCELLATION'', ''reduction'', 20)]"

definition HIRING :: rubric where
  "HIRING = mk_rubric ''program_linked_hiring_staffing'' ''Program hiring''
     [(''VISIBLE_SURGE'', ''surge'', 100), (''STEADY'', ''steady'', 60), (''NONE'', ''none'', 50),
      (''VISIBLE_LAYOFFS'', ''layoffs'', 20)]"

definition MILESTONES :: rubric where
  "MILESTONES = mk_rubric ''production_delivery_milestones'' ''Production milestones''
     [(''SCALE_UP_OR_MAJOR'', ''scale'', 100), (''ON_TRACK'', ''on track'', 70), (''NONE_IDENTIFIED'', ''none'', 50),
      (''DELAY_SLIPPAGE'', ''delay'', 20)]"

definition REGULATORY :: rubric where
  "REGULATORY = mk_rubric ''regulatory_funding_events'' ''Regulatory events''
     [(''MATERIALLY_IMPROVES'', ''improves'', 100), (''STABLE'', ''stable'', 60), (''MATERIALLY_HURTS'', ''hurts'', 20)]"

definition STRATEGIC :: rubric where
  "STRATEGIC = mk_rubric ''strategic_target_fit'' ''Strategic Target Fit''
     [(''CORE_TARGET_ARCHETYPE'', ''core'', 100), (''STRONG_TARGET_ARCHETYPE'', ''strong'', 80),
      (''PLAUSIBLE_UNCLEAR'', ''plausible'', 60), (''INDUSTRY_ADJACENT_WEAK'', ''weak'', 40), (''UNLIKELY'', ''unlikely'', 20)]"

definition ADJACENCY :: rubric where
  "ADJACENCY = mk_rubric ''btx_commercial_adjacency'' ''BTX Commercial Adjacency''
     [(''EXISTING_MULTI_BU_ACTIVE'', ''multi BU'', 100), (''EXISTING_ONE_BU_ACTIVE'', ''one BU'', 85),
      (''PRIOR_CUSTOMER_WARM_CRM'', ''warm CRM'', 75), (''QUOTE_OR_WARM_NO_SALES'', ''quote/warm'', 65),
      (''ANALOGOUS_HISTORY_NO_DIRECT'', ''analogous'', 60), (''COLD_PROSPECT'', ''cold'', 50)]"

record subfactor_weight =
  sw_rubric :: rubric
  sw_weight :: decimal

record factor_definition =
  fd_key :: string
  fd_label :: string
  fd_weight :: decimal
  fd_subfactors :: "subfactor_weight list"
  fd_single_rubric :: "rubric option"

definition mk_factor :: "string \<Rightarrow> string \<Rightarrow> decimal \<Rightarrow> (rubric \<times> decimal) list \<Rightarrow> factor_definition" where
  "mk_factor key label weight items = \<lparr>fd_key = key, fd_label = label, fd_weight = weight,
     fd_subfactors = map (\<lambda>(r, w). \<lparr>sw_rubric = r, sw_weight = w\<rparr>) items, fd_single_rubric = None\<rparr>"

definition FACTORS :: "factor_definition list" where
  "FACTORS =
     [mk_factor ''program_durability'' ''Program Durability'' (30/100)
        [(HORIZON, 40/100), (REPEAT, 30/100), (COMMITMENT, 20/100), (MATURITY, 10/100)],
      mk_factor ''btx_manufacturing_fit'' ''BTX Manufacturing Fit'' (25/100)
        [(MATERIAL, 30/100), (PROCESS, 30/100), (CERT, 20/100), (VOLUME, 20/100)],
      mk_factor ''addressable_btx_work'' ''Addressable BTX Work'' (15/100)
        [(CONTENT, 40/100), (REPEAT_VOLUME, 30/100), (CROSS_BU, 20/100), (MAKE_BUY, 10/100)],
      mk_factor ''program_momentum'' ''Program Momentum'' (10/100)
        [(AWARDS, 40/100), (HIRING, 20/100), (MILESTONES, 20/100), (REGULATORY, 20/100)],
      \<lparr>fd_key = ''strategic_target_fit'', fd_label = ''Strategic Target Fit'', fd_weight = 10/100,
        fd_subfactors = [], fd_single_rubric = Some STRATEGIC\<rparr>,
      \<lparr>fd_key = ''btx_commercial_adjacency'', fd_label = ''BTX Commercial Adjacency'', fd_weight = 10/100,
        fd_subfactors = [], fd_single_rubric = Some ADJACENCY\<rparr>]"

section \<open>Calculation\<close>

record attractiveness_inputs =
  ai_selections :: "(string, string) dict"
  ai_evidence_by_factor :: "(string, string list) dict"

record factor_result =
  fr_key :: string
  fr_configured_weight :: decimal
  fr_effective_weight :: "decimal option"
  fr_factor_score :: "decimal option"
  fr_missing :: bool
  fr_missing_subfactors :: "string list"
  fr_contribution :: "decimal option"
  fr_input_coverage :: decimal
  fr_evidence_ids :: "string list"
  fr_score_low :: decimal
  fr_score_high :: decimal

record attractiveness_result =
  res_configuration_version :: string
  res_status :: score_status
  res_score :: "decimal option"
  res_coverage :: decimal
  res_factors :: "factor_result list"
  res_missingness :: "string list"
  res_evidence_ids :: "string list"
  res_calculated_at :: datetime
  res_hypothesis :: bool
  res_interpretation_note :: string
  res_range_low :: decimal
  res_range_high :: decimal
  res_rule_version :: string

definition CONFIGURATION_VERSION :: string where
  "CONFIGURATION_VERSION = ''account-attractiveness-v2-fixed-weights''"

definition SCORE_UNIT :: string where
  "SCORE_UNIT = ''STRUCTURAL_INDEX_0_TO_100''"

definition INTERPRETATION_NOTE :: string where
  "INTERPRETATION_NOTE = ''Fixed-weight rubric index, not a probability. Missing inputs produce a range; account context does not qualify a specific pursuit.''"

definition RUBRIC_VERSION :: string where
  "RUBRIC_VERSION = ''BTX_SCORING_RUBRIC_V2.0''"

definition subfactor_path :: "string \<Rightarrow> string \<Rightarrow> string" where
  "subfactor_path factor_key subfactor_key = factor_key @ ''.'' @ subfactor_key"

definition valid_keys :: "string list" where
  "valid_keys = map fd_key (filter (\<lambda>f. is_some (fd_single_rubric f)) FACTORS)
     @ concat (map (\<lambda>f. map (\<lambda>s. subfactor_path (fd_key f) (rub_key (sw_rubric s))) (fd_subfactors f)) FACTORS)"

definition selected :: "(string, string) dict \<Rightarrow> string \<Rightarrow> string option" where
  \<comment> \<open>\<open>selections.get(key)\<close> where it is truthy\<close>
  "selected sel key = (case dget sel key of None \<Rightarrow> None | Some v \<Rightarrow> if v = [] then None else Some v)"

definition sub_selected :: "(string, string) dict \<Rightarrow> factor_definition \<Rightarrow> subfactor_weight \<Rightarrow> string option" where
  "sub_selected sel f s = selected sel (subfactor_path (fd_key f) (rub_key (sw_rubric s)))"

record raw_factor =
  raw_factor_def :: factor_definition
  raw_score :: "decimal option"
  raw_missing :: "string list"
  raw_coverage :: decimal

fun weighted_points :: "(subfactor_weight \<times> string option) list \<Rightarrow> (py_error, decimal) result" where
  \<comment> \<open>the sum of bin points times weight over the known subfactors\<close>
  "weighted_points [] = Inr 0"
| "weighted_points ((s, None) # rest) = weighted_points rest"
| "weighted_points ((s, Some v) # rest) =
     bind_r (bin_for (sw_rubric s) v) (\<lambda>b.
     bind_r (weighted_points rest) (\<lambda>t. Inr (of_int (rb_points b) * sw_weight s + t)))"

definition raw_of :: "(string, string) dict \<Rightarrow> factor_definition \<Rightarrow> (py_error, raw_factor) result" where
  "raw_of sel f =
     (case fd_single_rubric f of
        Some rub \<Rightarrow>
          (case selected sel (fd_key f) of
             Some v \<Rightarrow> bind_r (bin_for rub v) (\<lambda>b. Inr \<lparr>raw_factor_def = f,
                 raw_score = Some (of_int (rb_points b)), raw_missing = [], raw_coverage = 1\<rparr>)
           | None \<Rightarrow> Inr \<lparr>raw_factor_def = f, raw_score = None, raw_missing = [rub_label rub], raw_coverage = 0\<rparr>)
      | None \<Rightarrow>
          (let available = map (\<lambda>s. (s, sub_selected sel f s)) (fd_subfactors f);
               known = filter (\<lambda>(s, v). v \<noteq> None) available;
               missing = map (\<lambda>(s, v). rub_label (sw_rubric s)) (filter (\<lambda>(s, v). v = None) available)
           in if known = []
              then Inr \<lparr>raw_factor_def = f, raw_score = None, raw_missing = missing, raw_coverage = 0\<rparr>
              else bind_r (weighted_points available) (\<lambda>score.
                   Inr \<lparr>raw_factor_def = f, raw_score = Some score, raw_missing = missing,
                     raw_coverage = (\<Sum>(s, v)\<leftarrow>known. sw_weight s)\<rparr>)))"

definition raw_floor :: "raw_factor \<Rightarrow> decimal" where
  "raw_floor r = default_to (raw_score r) 0"

definition raw_ceiling :: "raw_factor \<Rightarrow> decimal" where
  "raw_ceiling r = raw_floor r + 100 * (1 - raw_coverage r)"

definition result_of_raw :: "raw_factor \<Rightarrow> factor_result" where
  "result_of_raw r =
     (let f = raw_factor_def r; complete = (raw_coverage r = 1)
      in \<lparr>fr_key = fd_key f, fr_configured_weight = fd_weight f, fr_effective_weight = Some (fd_weight f),
          fr_factor_score = (if complete then raw_score r else None), fr_missing = (\<not> complete),
          fr_missing_subfactors = raw_missing r,
          fr_contribution = (if complete then Some (quantize2 (raw_floor r * fd_weight f)) else None),
          fr_input_coverage = raw_coverage r, fr_evidence_ids = [],
          fr_score_low = raw_floor r, fr_score_high = raw_ceiling r\<rparr>)"

definition missing_messages :: "raw_factor \<Rightarrow> string list" where
  "missing_messages r =
     (let label = fd_label (raw_factor_def r)
      in if raw_score r = None then [label @ '': missing'']
         else map (\<lambda>name. label @ '' > '' @ name @ '': missing'') (raw_missing r))"

definition total_low :: "raw_factor list \<Rightarrow> decimal" where
  "total_low raw = (\<Sum>r\<leftarrow>raw. raw_floor r * fd_weight (raw_factor_def r))"

definition total_high :: "raw_factor list \<Rightarrow> decimal" where
  "total_high raw = (\<Sum>r\<leftarrow>raw. raw_ceiling r * fd_weight (raw_factor_def r))"

definition total_coverage :: "raw_factor list \<Rightarrow> decimal" where
  "total_coverage raw = (\<Sum>r\<leftarrow>filter (\<lambda>r. raw_coverage r = 1) raw. fd_weight (raw_factor_def r))"

definition calculate_account_attractiveness ::
  "attractiveness_inputs \<Rightarrow> string list \<Rightarrow> datetime \<Rightarrow> (py_error, attractiveness_result) result" where
  "calculate_account_attractiveness inputs evidence_ids calculated_at =
     (if \<not> set (dkeys (ai_selections inputs)) \<subseteq> set valid_keys
      then Inl (ValueError ''Unknown factor cannot modify the approved opportunity rubric'')
      else bind_r (map_r (raw_of (ai_selections inputs)) FACTORS) (\<lambda>raw.
        let coverage = total_coverage raw
        in Inr \<lparr>res_configuration_version = CONFIGURATION_VERSION,
             res_status = (if coverage = 1 then AVAILABLE else INSUFFICIENT),
             res_score = (if coverage = 1 then Some (quantize2 (total_low raw)) else None),
             res_coverage = coverage, res_factors = map result_of_raw raw,
             res_missingness = concat (map missing_messages raw), res_evidence_ids = evidence_ids,
             res_calculated_at = calculated_at, res_hypothesis = True,
             res_interpretation_note = INTERPRETATION_NOTE,
             res_range_low = quantize2 (total_low raw), res_range_high = quantize2 (total_high raw),
             res_rule_version = RUBRIC_VERSION\<rparr>))"

section \<open>Seller projection\<close>

datatype projection_status = UNAVAILABLE | SIMULATED_BTX_CONTEXT | NEEDS_RESEARCH

record seller_projection =
  sp_score :: "decimal option"
  sp_coverage :: decimal
  sp_status :: projection_status
  sp_score_unit :: string
  sp_configuration_version :: string
  sp_hypothesis :: bool
  sp_data_mode :: string
  sp_interpretation_note :: string
  sp_factors :: "factor_result list"
  sp_missingness :: "string list"
  sp_evidence_ids :: "string list"
  sp_exclusion_reason :: "string option"
  sp_score_range :: "(decimal \<times> decimal) option"  \<comment> \<open>low and high; absent when excluded\<close>
  sp_rule_version :: string

definition SELLER_PRESENTATION_MINIMUM_COVERAGE :: decimal where
  "SELLER_PRESENTATION_MINIMUM_COVERAGE = 50/100"

definition factor_evidence :: "(string, string list) dict \<Rightarrow> string \<Rightarrow> string list" where
  "factor_evidence ev fkey = sorted_set (concat (map snd
     (filter (\<lambda>(key, values). key = fkey \<or> starts_with (fkey @ ''.'') key) ev)))"

definition seller_attractiveness_projection ::
  "attractiveness_inputs \<Rightarrow> datetime \<Rightarrow> bool \<Rightarrow> string option \<Rightarrow> (py_error, seller_projection) result" where
  "seller_attractiveness_projection inputs calculated_at excluded exclusion_reason =
     (let evidence_ids = sorted_set (concat (dvalues (ai_evidence_by_factor inputs)))
      in bind_r (calculate_account_attractiveness inputs evidence_ids calculated_at) (\<lambda>result.
         let factors = map (\<lambda>f. f\<lparr>fr_evidence_ids := factor_evidence (ai_evidence_by_factor inputs) (fr_key f)\<rparr>)
               (res_factors result);
             eligible = (\<not> excluded \<and> res_score result \<noteq> None
               \<and> SELLER_PRESENTATION_MINIMUM_COVERAGE \<le> res_coverage result)
         in Inr \<lparr>sp_score = (if eligible then res_score result else None), sp_coverage = res_coverage result,
              sp_status = (if excluded \<or> res_coverage result = 0 then UNAVAILABLE
                 else if eligible then SIMULATED_BTX_CONTEXT else NEEDS_RESEARCH),
              sp_score_unit = SCORE_UNIT, sp_configuration_version = res_configuration_version result,
              sp_hypothesis = True, sp_data_mode = ''SIMULATED_HYPOTHESIS'',
              sp_interpretation_note = res_interpretation_note result, sp_factors = factors,
              sp_missingness = res_missingness result, sp_evidence_ids = evidence_ids,
              sp_exclusion_reason = exclusion_reason,
              sp_score_range = (if excluded then None else Some (res_range_low result, res_range_high result)),
              sp_rule_version = RUBRIC_VERSION\<rparr>))"

end
