(* ===== verification/AttractivenessProps.thy ===== *)
theory AttractivenessProps
  imports Attractiveness
begin

text \<open>
  The opportunity rubric never turns missing evidence into a better score. The factor weights and
  every factor's subfactor weights are interpretations of \<open>weighted_index\<close>; the calculation
  is the index of the known points from below and of the possible points from above.
\<close>

section \<open>The rubric tables keep the weight contract\<close>

definition sub_weights :: "factor_definition \<Rightarrow> (subfactor_weight \<times> rat) list" where
  "sub_weights f = map (\<lambda>s. (s, sw_weight s)) (fd_subfactors f)"

definition factor_weights :: "(factor_definition \<times> rat) list" where
  "factor_weights = map (\<lambda>f. (f, fd_weight f)) FACTORS"

definition positive_unit :: "rat list \<Rightarrow> bool" where
  "positive_unit ws = (list_all (\<lambda>w. 0 < w) ws \<and> sum_list ws = 1)"

definition rubric_in_scale :: "rubric \<Rightarrow> bool" where
  "rubric_in_scale r = list_all (\<lambda>b. 0 \<le> rb_points b \<and> rb_points b \<le> 100) (rub_bins r)"

definition factor_wf :: "factor_definition \<Rightarrow> bool" where
  "factor_wf f = (case fd_single_rubric f of
       Some r \<Rightarrow> rubric_in_scale r
     | None \<Rightarrow> fd_subfactors f \<noteq> [] \<and> positive_unit (map sw_weight (fd_subfactors f))
         \<and> list_all (\<lambda>s. rubric_in_scale (sw_rubric s)) (fd_subfactors f))"

lemma FACTORS_wf: "list_all factor_wf FACTORS" "positive_unit (map fd_weight FACTORS)"
  by code_simp+

lemma factor_wfD: "f \<in> set FACTORS \<Longrightarrow> factor_wf f"
  using FACTORS_wf(1) by (simp add: list_all_iff)

lemma weighted_index_of_unit:
  assumes "positive_unit (map snd ws)"
  shows "weighted_index ws"
proof
  fix k w
  assume "(k, w) \<in> set ws"
  then show "0 \<le> w" using assms by (force simp: positive_unit_def list_all_iff)
next
  show "(\<Sum>(k, w)\<leftarrow>ws. w) = 1" using assms by (simp add: positive_unit_def case_prod_unfold comp_def)
qed

interpretation factors: weighted_index factor_weights
  by (rule weighted_index_of_unit) (simp add: factor_weights_def comp_def FACTORS_wf)

lemma sub_weights_index:
  assumes "f \<in> set FACTORS" "fd_single_rubric f = None"
  shows "weighted_index (sub_weights f)"
  by (rule weighted_index_of_unit) (use factor_wfD[OF assms(1)] assms(2) in \<open>simp add: factor_wf_def sub_weights_def comp_def\<close>)

lemma sub_index:
  assumes "f \<in> set FACTORS" "fd_single_rubric f = None"
  shows "weighted_index.index (sub_weights f) g = (\<Sum>s\<leftarrow>fd_subfactors f. g s * sw_weight s)"
  unfolding weighted_index.index_def[OF sub_weights_index[OF assms]] by (simp add: sub_weights_def comp_def)

lemma factors_index: "factors.index g = (\<Sum>f\<leftarrow>FACTORS. g f * fd_weight f)"
  unfolding factors.index_def by (simp add: factor_weights_def comp_def)

section \<open>Known points and possible points\<close>

definition bin_points :: "rubric \<Rightarrow> string \<Rightarrow> rat" where
  "bin_points r v = (case bin_for r v of Inl _ \<Rightarrow> 0 | Inr b \<Rightarrow> of_int (rb_points b))"

definition points_or :: "rat \<Rightarrow> rubric \<Rightarrow> string option \<Rightarrow> rat" where
  "points_or d r x = (case x of None \<Rightarrow> d | Some v \<Rightarrow> bin_points r v)"

definition factor_points :: "rat \<Rightarrow> (string, string) dict \<Rightarrow> factor_definition \<Rightarrow> rat" where
  "factor_points d sel f = (case fd_single_rubric f of
       Some r \<Rightarrow> points_or d r (selected sel (fd_key f))
     | None \<Rightarrow> weighted_index.index (sub_weights f) (\<lambda>s. points_or d (sw_rubric s) (sub_selected sel f s)))"

definition factor_complete :: "(string, string) dict \<Rightarrow> factor_definition \<Rightarrow> bool" where
  "factor_complete sel f = (case fd_single_rubric f of
       Some r \<Rightarrow> selected sel (fd_key f) \<noteq> None
     | None \<Rightarrow> (\<forall>s\<in>set (fd_subfactors f). sub_selected sel f s \<noteq> None))"

lemma bin_points_bounds: "rubric_in_scale r \<Longrightarrow> 0 \<le> bin_points r v \<and> bin_points r v \<le> 100"
proof -
  assume r: "rubric_in_scale r"
  show ?thesis
  proof (cases "bin_for r v")
    case (Inr b)
    then have "b \<in> set (rub_bins r)"
      by (auto simp: bin_for_def dest: first_match_Some split: option.splits)
    then show ?thesis using r Inr by (auto simp: bin_points_def rubric_in_scale_def list_all_iff)
  qed (simp add: bin_points_def)
qed

lemma points_or_order:
  assumes "rubric_in_scale r"
  shows "0 \<le> points_or 0 r x \<and> points_or 0 r x \<le> points_or 100 r x \<and> points_or 100 r x \<le> 100"
  using bin_points_bounds[OF assms] by (cases x) (auto simp: points_or_def)

lemma weighted_points_value:
  "weighted_points (map (\<lambda>s. (s, g s)) xs) = Inr t \<Longrightarrow>
     t = (\<Sum>s\<leftarrow>xs. points_or 0 (sw_rubric s) (g s) * sw_weight s)"
proof (induction xs arbitrary: t)
  case (Cons s xs)
  show ?case
  proof (cases "g s")
    case None
    then show ?thesis using Cons by (simp add: points_or_def)
  next
    case (Some v)
    then obtain b t' where b: "bin_for (sw_rubric s) v = Inr b"
      and t': "weighted_points (map (\<lambda>s. (s, g s)) xs) = Inr t'" "t = of_int (rb_points b) * sw_weight s + t'"
      using Cons.prems by (auto simp: res_simps)
    then show ?thesis using Cons.IH[OF t'(1)] Some by (simp add: points_or_def bin_points_def)
  qed
qed simp

lemma known_weight:
  "(\<Sum>(s, v)\<leftarrow>filter (\<lambda>(s, v). v \<noteq> None) (map (\<lambda>s. (s, g s)) xs). sw_weight s)
     = (\<Sum>s\<leftarrow>xs. if g s = None then 0 else sw_weight s)"
  by (induction xs) auto

lemma floor_ceiling_gap:
  "(\<Sum>s\<leftarrow>xs. points_or 0 (sw_rubric s) (g s) * sw_weight s)
     + 100 * ((\<Sum>s\<leftarrow>xs. sw_weight s) - (\<Sum>s\<leftarrow>xs. if g s = None then 0 else sw_weight s))
   = (\<Sum>s\<leftarrow>xs. points_or 100 (sw_rubric s) (g s) * sw_weight s)"
proof (induction xs)
  case (Cons s xs)
  then show ?case by (cases "g s") (simp_all add: points_or_def algebra_simps)
qed simp

lemma full_weight_iff:
  assumes "list_all (\<lambda>s. 0 < w s) xs"
  shows "(\<Sum>s\<leftarrow>xs. if P s then 0 else w s) = (\<Sum>s\<leftarrow>xs. w s :: rat) \<longleftrightarrow> (\<forall>s\<in>set xs. \<not> P s)"
proof -
  have le: "(\<Sum>s\<leftarrow>ys. if P s then 0 else w s) \<le> (\<Sum>s\<leftarrow>ys. w s)" if "list_all (\<lambda>s. 0 < w s) ys" for ys
    using that by (intro sum_list_le_map) (auto simp: list_all_iff less_imp_le)
  show ?thesis using assms
  proof (induction xs)
    case (Cons x xs)
    show ?case
    proof (cases "P x")
      case True
      then show ?thesis using Cons.prems le[of xs] by auto
    next
      case False
      then show ?thesis using Cons by simp
    qed
  qed simp
qed

lemma raw_of_value:
  assumes f: "f \<in> set FACTORS" and r: "raw_of sel f = Inr r"
  shows "raw_factor_def r = f \<and> raw_floor r = factor_points 0 sel f \<and> raw_ceiling r = factor_points 100 sel f
    \<and> (raw_coverage r = 1 \<longleftrightarrow> factor_complete sel f)"
proof (cases "fd_single_rubric f")
  case (Some rub)
  then show ?thesis using r
    by (auto simp: raw_of_def raw_floor_def raw_ceiling_def factor_points_def factor_complete_def points_or_def
        bin_points_def res_simps split: option.splits)
next
  case None
  let ?xs = "fd_subfactors f" and ?g = "sub_selected sel f"
  note W = sub_weights_index[OF f None]
  have wf: "?xs \<noteq> []" "list_all (\<lambda>s. 0 < sw_weight s) ?xs" "(\<Sum>s\<leftarrow>?xs. sw_weight s) = 1"
    using factor_wfD[OF f] None by (simp_all add: factor_wf_def positive_unit_def list_all_length)
  have pts: "factor_points d sel f = (\<Sum>s\<leftarrow>?xs. points_or d (sw_rubric s) (?g s) * sw_weight s)" for d
    by (simp add: factor_points_def None sub_index[OF f None])
  have comp: "factor_complete sel f \<longleftrightarrow> (\<forall>s\<in>set ?xs. ?g s \<noteq> None)" by (simp add: factor_complete_def None)
  note gap = floor_ceiling_gap[of ?g ?xs, unfolded wf(3)]
  show ?thesis
  proof (cases "\<forall>s\<in>set ?xs. ?g s = None")
    case True
    then have z: "(\<Sum>s\<leftarrow>?xs. points_or 0 (sw_rubric s) (?g s) * sw_weight s) = 0"
      "(\<Sum>s\<leftarrow>?xs. if ?g s = None then 0 else sw_weight s) = 0"
      by (simp_all add: points_or_def sum_list_0 cong: map_cong)
    have "filter (\<lambda>(s, v). v \<noteq> None) (map (\<lambda>s. (s, ?g s)) ?xs) = []"
      using True by (auto simp: filter_empty_conv)
    then have "raw_factor_def r = f \<and> raw_score r = None \<and> raw_coverage r = 0"
      using r None by (auto simp: raw_of_def Let_def)
    moreover have "\<not> factor_complete sel f" using True wf(1) comp by (cases ?xs) auto
    ultimately show ?thesis using z gap by (simp add: raw_floor_def raw_ceiling_def pts)
  next
    case False
    then have "filter (\<lambda>(s, v). v \<noteq> None) (map (\<lambda>s. (s, ?g s)) ?xs) \<noteq> []"
      by (auto simp: filter_empty_conv)
    then obtain t where t: "weighted_points (map (\<lambda>s. (s, ?g s)) ?xs) = Inr t"
      and rr: "raw_factor_def r = f" "raw_score r = Some t"
        "raw_coverage r = (\<Sum>s\<leftarrow>?xs. if ?g s = None then 0 else sw_weight s)"
      using r None unfolding raw_of_def by (auto simp: Let_def bind_r_Inr known_weight simp del: not_None_eq)
    have "t = (\<Sum>s\<leftarrow>?xs. points_or 0 (sw_rubric s) (?g s) * sw_weight s)"
      by (rule weighted_points_value[OF t])
    then show ?thesis
      using rr gap full_weight_iff[OF wf(2), of "\<lambda>s. ?g s = None"] wf(3) comp
      by (simp add: raw_floor_def raw_ceiling_def pts)
  qed
qed

lemma factor_points_order:
  assumes f: "f \<in> set FACTORS"
  shows "0 \<le> factor_points 0 sel f \<and> factor_points 0 sel f \<le> factor_points 100 sel f \<and> factor_points 100 sel f \<le> 100"
proof (cases "fd_single_rubric f")
  case (Some r)
  then show ?thesis using factor_wfD[OF f] points_or_order[of r] by (simp add: factor_points_def factor_wf_def)
next
  case None
  have R: "ranged_index (sub_weights f) (\<lambda>s. points_or 0 (sw_rubric s) (sub_selected sel f s))
      (\<lambda>s. points_or 100 (sw_rubric s) (sub_selected sel f s)) 0 100"
  proof (rule ranged_index.intro[OF sub_weights_index[OF f None]], unfold_locales)
    fix s
    assume "s \<in> fst ` set (sub_weights f)"
    then have "rubric_in_scale (sw_rubric s)"
      using factor_wfD[OF f] None by (auto simp: sub_weights_def factor_wf_def list_all_iff)
    then show "0 \<le> points_or 0 (sw_rubric s) (sub_selected sel f s) \<and>
        points_or 0 (sw_rubric s) (sub_selected sel f s) \<le> points_or 100 (sw_rubric s) (sub_selected sel f s) \<and>
        points_or 100 (sw_rubric s) (sub_selected sel f s) \<le> 100"
      by (rule points_or_order)
  qed
  show ?thesis using ranged_index.range_ordered[OF R] ranged_index.range_in_scale[OF R]
    by (simp add: factor_points_def None)
qed

lemma factor_points_mono:
  assumes f: "f \<in> set FACTORS" and ext: "\<And>k v. selected sel k = Some v \<Longrightarrow> selected sel' k = Some v"
  shows "factor_points 0 sel f \<le> factor_points 0 sel' f \<and> factor_points 100 sel' f \<le> factor_points 100 sel f"
proof -
  have p: "points_or 0 r (selected sel k) \<le> points_or 0 r (selected sel' k) \<and>
      points_or 100 r (selected sel' k) \<le> points_or 100 r (selected sel k)" if "rubric_in_scale r" for r k
    using ext[of k] points_or_order[OF that, of "selected sel' k"] by (cases "selected sel k") (auto simp: points_or_def)
  show ?thesis
  proof (cases "fd_single_rubric f")
    case (Some r)
    then show ?thesis using factor_wfD[OF f] p by (simp add: factor_points_def factor_wf_def)
  next
    case None
    have r: "rubric_in_scale (sw_rubric s)" if "s \<in> fst ` set (sub_weights f)" for s
      using that factor_wfD[OF f] None by (auto simp: sub_weights_def factor_wf_def list_all_iff)
    show ?thesis unfolding factor_points_def None option.case sub_selected_def
      by (intro conjI weighted_index.index_mono[OF sub_weights_index[OF f None]]) (use p r in blast)+
  qed
qed

interpretation factor_range: ranged_index factor_weights "factor_points 0 sel" "factor_points 100 sel" 0 100
  for sel
  by unfold_locales (auto simp: factor_weights_def dest: factor_points_order)

section \<open>The calculation as an index\<close>

lemma raws_value:
  assumes "map_r (raw_of sel) fs = Inr raw" "set fs \<subseteq> set FACTORS"
  shows "total_low raw = (\<Sum>f\<leftarrow>fs. factor_points 0 sel f * fd_weight f)
    \<and> total_high raw = (\<Sum>f\<leftarrow>fs. factor_points 100 sel f * fd_weight f)
    \<and> total_coverage raw = (\<Sum>f\<leftarrow>fs. if \<not> factor_complete sel f then 0 else fd_weight f)
    \<and> map raw_factor_def raw = fs"
  using assms
proof (induction fs arbitrary: raw)
  case Nil
  then show ?case by (simp add: total_low_def total_high_def total_coverage_def)
next
  case (Cons f fs)
  then obtain r rs where "raw_of sel f = Inr r" "map_r (raw_of sel) fs = Inr rs" "raw = r # rs"
    by (auto simp: res_simps)
  then show ?case using Cons raw_of_value[of f sel r]
    by (simp add: total_low_def total_high_def total_coverage_def)
qed

lemma calculation_Inr:
  assumes "calculate_account_attractiveness i ids t = Inr res"
  defines "sel \<equiv> ai_selections i"
  shows "res_range_low res = quantize2 (factors.index (factor_points 0 sel))"
    and "res_range_high res = quantize2 (factors.index (factor_points 100 sel))"
    and "res_score res = (if \<forall>f\<in>set FACTORS. factor_complete sel f then Some (res_range_low res) else None)"
    and "res_coverage res = 1 \<longleftrightarrow> (\<forall>f\<in>set FACTORS. factor_complete sel f)"
    and "set (dkeys sel) \<subseteq> set valid_keys"
proof -
  obtain raw where raw: "map_r (raw_of sel) FACTORS = Inr raw" and keys: "set (dkeys sel) \<subseteq> set valid_keys"
    and res: "res_coverage res = total_coverage raw" "res_range_low res = quantize2 (total_low raw)"
      "res_range_high res = quantize2 (total_high raw)"
      "res_score res = (if total_coverage raw = 1 then Some (quantize2 (total_low raw)) else None)"
    using assms(1) unfolding calculate_account_attractiveness_def sel_def
    by (auto simp: Let_def bind_r_Inr split: if_splits)
  note v = raws_value[OF raw subset_refl]
  have pos: "list_all (\<lambda>f. 0 < fd_weight f) FACTORS" "(\<Sum>f\<leftarrow>FACTORS. fd_weight f) = 1"
    using FACTORS_wf(2) by (simp_all add: positive_unit_def list_all_length)
  have cov: "total_coverage raw = 1 \<longleftrightarrow> (\<forall>f\<in>set FACTORS. factor_complete sel f)"
    using v full_weight_iff[OF pos(1), of "\<lambda>f. \<not> factor_complete sel f"] pos(2) by simp
  show "res_range_low res = quantize2 (factors.index (factor_points 0 sel))"
    "res_range_high res = quantize2 (factors.index (factor_points 100 sel))"
    using res v by (simp_all add: factors_index)
  show "res_score res = (if \<forall>f\<in>set FACTORS. factor_complete sel f then Some (res_range_low res) else None)"
    "res_coverage res = 1 \<longleftrightarrow> (\<forall>f\<in>set FACTORS. factor_complete sel f)" "set (dkeys sel) \<subseteq> set valid_keys"
    using res cov keys by auto
qed

lemma complete_points_equal: "factor_complete sel f \<Longrightarrow> f \<in> set FACTORS \<Longrightarrow> factor_points 0 sel f = factor_points 100 sel f"
proof -
  assume c: "factor_complete sel f" and f: "f \<in> set FACTORS"
  show ?thesis
  proof (cases "fd_single_rubric f")
    case (Some r)
    then show ?thesis using c by (auto simp: factor_complete_def factor_points_def points_or_def)
  next
    case None
    have "points_or 0 (sw_rubric s) (sub_selected sel f s) = points_or 100 (sw_rubric s) (sub_selected sel f s)"
      if "s \<in> set (fd_subfactors f)" for s
      using c that None by (auto simp: factor_complete_def points_or_def split: option.splits)
    then show ?thesis
      by (simp add: factor_points_def None sub_index[OF f None] cong: map_cong)
  qed
qed

section \<open>Properties\<close>

definition demo_selections :: "(string, string) dict" where
  "demo_selections = [(''program_durability.commitment_strength'', ''FUNDED_AWARDED_CONTRACTED''),
     (''btx_commercial_adjacency'', ''EXISTING_ONE_BU_ACTIVE'')]"

definition demo_inputs :: attractiveness_inputs where
  "demo_inputs = \<lparr>ai_selections = demo_selections, ai_evidence_by_factor = [(''btx_commercial_adjacency'', [''ev1''])]\<rparr>"

definition demo_more :: attractiveness_inputs where
  "demo_more = demo_inputs\<lparr>ai_selections := (''strategic_target_fit'', ''UNLIKELY'') # demo_selections\<rparr>"

definition demo_now :: datetime where
  "demo_now = \<lparr>dt_local = 0, dt_offset = Some 0\<rparr>"

lemma demo_runs:
  "map_sum (\<lambda>_. ()) (\<lambda>x. (res_range_low x, res_range_high x)) (calculate_account_attractiveness demo_inputs [] demo_now)
     = Inr (29/2, 99/1 - 1/2)"
  by code_simp

text \<open>
  Every successful calculation reports a range inside the scale, 0 to 100, low not above high;
  and a score, when there is one, is both ends of the range.
\<close>

theorem attractiveness_range_sound:
  assumes "calculate_account_attractiveness i ids t = Inr res"
  shows "0 \<le> res_range_low res \<and> res_range_low res \<le> res_range_high res \<and> res_range_high res \<le> 100 \<and>
    (\<forall>s. res_score res = Some s \<longrightarrow> s = res_range_low res \<and> s = res_range_high res)"
proof -
  let ?sel = "ai_selections i"
  have idx: "0 \<le> factors.index (factor_points 0 ?sel)"
    "factors.index (factor_points 0 ?sel) \<le> factors.index (factor_points 100 ?sel)"
    "factors.index (factor_points 100 ?sel) \<le> 100"
    using factor_range.range_ordered[of ?sel] factor_range.range_in_scale[of ?sel] by auto
  have "s = res_range_low res \<and> s = res_range_high res" if "res_score res = Some s" for s
  proof -
    have "\<forall>f\<in>set FACTORS. factor_complete ?sel f" "s = res_range_low res"
      using that calculation_Inr(3)[OF assms] by (auto split: if_splits)
    moreover have "factors.index (factor_points 0 ?sel) = factors.index (factor_points 100 ?sel)"
      unfolding factors_index using calculation(1) complete_points_equal by (simp cong: map_cong)
    ultimately show ?thesis using calculation_Inr(1,2)[OF assms] by simp
  qed
  then show ?thesis
    using idx cents.rnd_lower[of 0] cents.rnd_upper[of 100] quantize2_mono[OF idx(2)]
    unfolding calculation_Inr(1,2)[OF assms] by auto
qed

theorem attractiveness_range_sound_witness:
  "\<exists>res. calculate_account_attractiveness demo_inputs [] demo_now = Inr res \<and> res_range_low res \<le> res_range_high res"
proof -
  obtain res where r: "calculate_account_attractiveness demo_inputs [] demo_now = Inr res"
    using demo_runs by (cases "calculate_account_attractiveness demo_inputs [] demo_now") auto
  then show ?thesis using attractiveness_range_sound[OF r] by blast
qed

text \<open>
  Evidence only narrows the range: when a second set of selections keeps every selection of the
  first and adds some, its low end is not lower and its high end not higher. A missing input can
  therefore never produce a better score than the input it is missing.
\<close>

theorem more_evidence_narrows_range:
  assumes "calculate_account_attractiveness i ids t = Inr res"
    and "calculate_account_attractiveness i' ids' t' = Inr res'"
    and "\<And>k v. selected (ai_selections i) k = Some v \<Longrightarrow> selected (ai_selections i') k = Some v"
  shows "res_range_low res \<le> res_range_low res' \<and> res_range_high res' \<le> res_range_high res"
proof -
  have mem: "f \<in> fst ` set factor_weights \<Longrightarrow> f \<in> set FACTORS" for f by (auto simp: factor_weights_def)
  note m = factor_points_mono[OF mem, of _ "ai_selections i" "ai_selections i'", OF _ assms(3)]
  have "factors.index (factor_points 0 (ai_selections i)) \<le> factors.index (factor_points 0 (ai_selections i'))"
    "factors.index (factor_points 100 (ai_selections i')) \<le> factors.index (factor_points 100 (ai_selections i))"
    by (rule factors.index_mono; use m in blast)+
  then show ?thesis
    unfolding calculation_Inr(1,2)[OF assms(1)] calculation_Inr(1,2)[OF assms(2)] by (simp add: quantize2_mono)
qed

theorem more_evidence_narrows_range_witness:
  "\<exists>res res'. calculate_account_attractiveness demo_inputs [] demo_now = Inr res
     \<and> calculate_account_attractiveness demo_more [] demo_now = Inr res'
     \<and> res_range_low res \<le> res_range_low res' \<and> res_range_high res' \<le> res_range_high res"
proof -
  obtain res where r: "calculate_account_attractiveness demo_inputs [] demo_now = Inr res"
    using demo_runs by (cases "calculate_account_attractiveness demo_inputs [] demo_now") auto
  have "map_sum (\<lambda>_. ()) (\<lambda>_. ()) (calculate_account_attractiveness demo_more [] demo_now) = Inr ()"
    by code_simp
  then obtain res' where r': "calculate_account_attractiveness demo_more [] demo_now = Inr res'"
    by (cases "calculate_account_attractiveness demo_more [] demo_now") auto
  have "selected (ai_selections demo_more) k = Some v" if "selected (ai_selections demo_inputs) k = Some v" for k v
    using that by (auto simp: demo_more_def demo_inputs_def demo_selections_def selected_def split: if_splits)
  then show ?thesis using more_evidence_narrows_range[OF r r'] r r' by blast
qed

text \<open>
  A point score exists exactly when every leaf of the rubric has a selection, which is also
  exactly when the coverage is complete.
\<close>

theorem attractiveness_score_iff_complete:
  assumes "calculate_account_attractiveness i ids t = Inr res"
  shows "(res_score res \<noteq> None \<longleftrightarrow> (\<forall>f\<in>set FACTORS. factor_complete (ai_selections i) f))
    \<and> (res_score res \<noteq> None \<longleftrightarrow> res_coverage res = 1)"
  using calculation_Inr(3,4)[OF assms] by (cases "\<forall>f\<in>set FACTORS. factor_complete (ai_selections i) f") simp_all

theorem attractiveness_score_iff_complete_witness:
  "\<exists>res. calculate_account_attractiveness demo_inputs [] demo_now = Inr res
     \<and> (res_score res \<noteq> None \<longleftrightarrow> res_coverage res = 1)"
proof -
  obtain res where r: "calculate_account_attractiveness demo_inputs [] demo_now = Inr res"
    using demo_runs by (cases "calculate_account_attractiveness demo_inputs [] demo_now") auto
  then show ?thesis using attractiveness_score_iff_complete[OF r] by blast
qed

text \<open>
  The seller never sees an ineligible number: a projection shows a score only when it is not
  excluded and the rubric is complete, an excluded one shows neither score nor range, and each
  factor lists only evidence of the projection.
\<close>

theorem seller_projection_is_guarded:
  assumes "seller_attractiveness_projection i t excluded reason = Inr p"
  shows "(sp_score p \<noteq> None \<longrightarrow> \<not> excluded \<and> sp_coverage p = 1 \<and> sp_status p = SIMULATED_BTX_CONTEXT)
    \<and> (excluded \<longrightarrow> sp_score p = None \<and> sp_score_range p = None \<and> sp_status p = UNAVAILABLE)
    \<and> (\<forall>f\<in>set (sp_factors p). set (fr_evidence_ids f) \<subseteq> set (sp_evidence_ids p))"
proof -
  obtain res where res: "calculate_account_attractiveness i (sorted_set (concat (dvalues (ai_evidence_by_factor i)))) t = Inr res"
    and p: "sp_coverage p = res_coverage res" "sp_evidence_ids p = sorted_set (concat (dvalues (ai_evidence_by_factor i)))"
      "sp_score p = (if \<not> excluded \<and> res_score res \<noteq> None \<and> SELLER_PRESENTATION_MINIMUM_COVERAGE \<le> res_coverage res
         then res_score res else None)"
      "sp_status p = (if excluded \<or> res_coverage res = 0 then UNAVAILABLE
         else if \<not> excluded \<and> res_score res \<noteq> None \<and> SELLER_PRESENTATION_MINIMUM_COVERAGE \<le> res_coverage res
         then SIMULATED_BTX_CONTEXT else NEEDS_RESEARCH)"
      "sp_score_range p = (if excluded then None else Some (res_range_low res, res_range_high res))"
      "sp_factors p = map (\<lambda>f. f\<lparr>fr_evidence_ids := factor_evidence (ai_evidence_by_factor i) (fr_key f)\<rparr>) (res_factors res)"
    using assms unfolding seller_attractiveness_projection_def Let_def bind_r_Inr by auto
  have "set (factor_evidence ev k) \<subseteq> set (concat (dvalues ev))" for ev k
    by (auto simp: factor_evidence_def dvalues_def)
  moreover have "res_score res \<noteq> None \<Longrightarrow> res_coverage res = 1"
    using calculation_Inr(3,4)[OF res] by (cases "\<forall>f\<in>set FACTORS. factor_complete (ai_selections i) f") simp_all
  ultimately show ?thesis unfolding p by auto
qed

theorem seller_projection_is_guarded_witness:
  "\<exists>p. seller_attractiveness_projection demo_inputs demo_now True None = Inr p \<and> sp_score p = None"
proof -
  have "map_sum (\<lambda>_. ()) (\<lambda>_. ()) (seller_attractiveness_projection demo_inputs demo_now True None) = Inr ()"
    by code_simp
  then obtain p where p: "seller_attractiveness_projection demo_inputs demo_now True None = Inr p"
    by (cases "seller_attractiveness_projection demo_inputs demo_now True None") auto
  then show ?thesis using seller_projection_is_guarded[OF p] by blast
qed

end
