(* ===== verification/Families.thy ===== *)
theory Families
  imports AttractivenessProps
begin

text \<open>
  The separate decision families of \<^verbatim>\<open>modules/scoring/families.py\<close>: the weighted
  assessment with its missingness policy, the bands, the roll-up of public risk events and the
  overall customer risk with its floors. A \<open>Decimal\<close> is a finite exact number here, so the
  \<open>is_finite\<close> tests are the type. The SHA-256 of the \<open>repr\<close> of the inputs is the
  parameter \<open>digest\<close>.
\<close>

section \<open>The families\<close>

record family =
  fam_key :: string
  fam_subject_kind :: string
  fam_weights :: "(string \<times> int) list"
  fam_minimum_coverage :: decimal
  fam_interpretation :: string

definition VERSION :: string where
  "VERSION = ''BTX_SCORING_RUBRIC_V2.0''"

definition family_default :: "string \<Rightarrow> string \<Rightarrow> (string \<times> int) list \<Rightarrow> family" where
  "family_default key kind weights = \<lparr>fam_key = key, fam_subject_kind = kind, fam_weights = weights,
     fam_minimum_coverage = 70/100,
     fam_interpretation = ''Provisional deterministic POC index, not calibrated probability.''\<rparr>"

definition FAMILIES :: "family list" where
  "FAMILIES =
     [family_default ''signal_confidence'' ''signal''
        [(''source_reliability'', 30), (''entity_match'', 25), (''event_specificity'', 20),
         (''independent_corroboration'', 15), (''freshness'', 10)],
      family_default ''opportunity_priority'' ''opportunity''
        (map (\<lambda>f. (fd_key f, \<lfloor>fd_weight f * 100\<rfloor>)) FACTORS),
      \<lparr>fam_key = ''pwin'', fam_subject_kind = ''qualified_deal'',
        fam_weights = [(''buyer_access'', 25), (''competitive_position'', 20), (''requirement_fit'', 20),
          (''budget_process'', 15), (''price_competitiveness'', 10), (''track_record'', 10)],
        fam_minimum_coverage = 1,
        fam_interpretation = ''Rubric v2 pursuit-readiness index; not a calibrated win probability.''\<rparr>,
      \<lparr>fam_key = ''delivery_feasibility'', fam_subject_kind = ''proposed_solution'',
        fam_weights = [(''capability_match'', 30), (''schedule_feasibility'', 25), (''material_readiness'', 15),
          (''quality_certification'', 15), (''margin'', 10), (''coordination'', 5)],
        fam_minimum_coverage = 1,
        fam_interpretation = ''Rubric v2 scoped delivery readiness; mandatory constraints override the weighted result.''\<rparr>,
      (family_default ''customer_health'' ''current_customer''
        [(''commercial_trajectory'', 30), (''relationship_coverage'', 20), (''engagement_cadence'', 20),
         (''backlog_coverage'', 15), (''relationship_history'', 10), (''attached_risk_history'', 5)])
        \<lparr>fam_interpretation := ''Relationship health over time; material current risks remain visible independently. Rubric v2 section 10.''\<rparr>,
      family_default ''risk_severity'' ''public_risk_event''
        [(''impact'', 30), (''materiality'', 20), (''imminence'', 15), (''persistence'', 15), (''breadth'', 10),
         (''mitigation'', 10)],
      family_default ''internal_commercial_risk'' ''current_customer''
        [(''commercial_momentum'', 30), (''pipeline'', 20), (''backlog'', 15), (''engagement'', 15),
         (''concentration'', 10), (''friction'', 10)]]"

definition family_of :: "string \<Rightarrow> (py_error, family) result" where
  \<comment> \<open>\<open>FAMILIES[family_key]\<close>\<close>
  "family_of key = (case first_match (\<lambda>f. fam_key f = key) FAMILIES of
     Some f \<Rightarrow> Inr f | None \<Rightarrow> Inl (KeyError key))"

section \<open>Factor inputs\<close>

datatype raw_value = RV_text string | RV_int int

record factor_input =
  fi_points :: "decimal option"
  fi_evidence_ids :: "string list"
  fi_reason :: string
  fi_raw_value :: "raw_value option"
  fi_period :: "string option"
  fi_truth_class :: string
  fi_required_fields :: "string list"
  fi_observed_fields :: "string list"
  fi_lower_bound :: "decimal option"
  fi_upper_bound :: "decimal option"
  fi_evidence_state :: evidence_clock

definition factor_input_default :: "decimal option \<Rightarrow> string list \<Rightarrow> string \<Rightarrow> factor_input" where
  "factor_input_default points evidence reason = \<lparr>fi_points = points, fi_evidence_ids = evidence,
     fi_reason = reason, fi_raw_value = None, fi_period = None, fi_truth_class = ''POC_SCENARIO'',
     fi_required_fields = [], fi_observed_fields = [], fi_lower_bound = None, fi_upper_bound = None,
     fi_evidence_state = EV_CURRENT\<rparr>"

definition factor_input_post_init :: "factor_input \<Rightarrow> (py_error, factor_input) result" where
  "factor_input_post_init i =
     (if (case fi_points i of None \<Rightarrow> False | Some p \<Rightarrow> \<not> (0 \<le> p \<and> p \<le> 100))
      then Inl (ValueError ''Factor points must be finite in [0, 100]'')
      else if fi_points i \<noteq> None \<and> fi_evidence_ids i = []
      then Inl (ValueError ''A scored factor requires linked evidence'')
      else if blank (fi_reason i) then Inl (ValueError ''A factor requires a seller-readable reason'')
      else if \<not> distinct (fi_required_fields i) \<or> \<not> distinct (fi_observed_fields i)
        \<or> \<not> set (fi_observed_fields i) \<subseteq> set (fi_required_fields i)
      then Inl (ValueError ''Invalid factor field coverage contract'')
      else if (fi_lower_bound i = None) \<noteq> (fi_upper_bound i = None)
      then Inl (ValueError ''A partial factor requires both bounds'')
      else case (fi_lower_bound i, fi_upper_bound i) of
          (Some lo, Some hi) \<Rightarrow>
            (if fi_points i \<noteq> None \<or> fi_evidence_ids i = []
             then Inl (ValueError ''Partial bounds require evidence and no point score'')
             else if \<not> (0 \<le> lo \<and> lo \<le> hi \<and> hi \<le> 100)
             then Inl (ValueError ''Invalid partial factor bounds'')
             else Inr i)
        | _ \<Rightarrow> Inr i)"

definition factor_input_ok :: "factor_input \<Rightarrow> bool" where
  "factor_input_ok i = (case factor_input_post_init i of Inl _ \<Rightarrow> False | Inr _ \<Rightarrow> True)"

section \<open>Bands\<close>

definition family_bands :: "string \<Rightarrow> (decimal \<times> string) list" where
  "family_bands fam =
     (if fam = ''signal_confidence'' then [(70, ''HIGH''), (40, ''MEDIUM''), (0, ''LOW'')]
      else if fam = ''prospect_fit'' then [(75, ''STRONG''), (50, ''RELEVANT''), (0, ''LIMITED'')]
      else if fam = ''opportunity_priority''
      then [(75, ''HIGH_PRIORITY''), (50, ''WORTH_DEVELOPING''), (0, ''LOWER_PRIORITY'')]
      else if fam = ''pwin'' then [(75, ''STRONG''), (50, ''DEVELOPING''), (0, ''WEAK'')]
      else if fam = ''delivery_feasibility''
      then [(93, ''A+''), (85, ''A''), (78, ''B+''), (70, ''B''), (55, ''C''), (40, ''D''), (0, ''F'')]
      else if fam = ''customer_health''
      then [(70, ''HEALTHY''), (50, ''WATCH''), (30, ''AT_RISK''), (0, ''CRITICAL'')]
      else [(85, ''CRITICAL''), (70, ''HIGH''), (40, ''MODERATE''), (0, ''LOW'')])"

definition score_band :: "string \<Rightarrow> decimal option \<Rightarrow> (py_error, string) result" where
  \<comment> \<open>\<open>next\<close> over the bands raises StopIteration below the lowest threshold\<close>
  "score_band fam score =
     (case score of None \<Rightarrow> Inr ''INSUFFICIENT_EVIDENCE''
      | Some s \<Rightarrow> (case first_match (\<lambda>(threshold, label). threshold \<le> s) (family_bands fam) of
            Some (threshold, label) \<Rightarrow> Inr label
          | None \<Rightarrow> Inl StopIteration))"

section \<open>Assessment\<close>

record factor_view =
  fv_key :: string
  fv_weight :: int
  fv_points :: "decimal option"
  fv_contribution :: "decimal option"
  fv_contribution_exact :: "decimal option"
  fv_evidence_ids :: "string list"
  fv_reason :: string
  fv_raw_value :: "raw_value option"
  fv_period :: "string option"
  fv_required_fields :: "string list"
  fv_observed_fields :: "string list"
  fv_lower_bound :: "decimal option"
  fv_upper_bound :: "decimal option"
  fv_truth_class :: "string option"
  fv_evidence_state :: evidence_clock
  fv_configured_contribution :: "decimal option"
  fv_effective_weight_percent :: decimal

record data_coverage =
  dc_subject_id :: string
  dc_present :: nat
  dc_applicable :: nat
  dc_ratio :: decimal
  dc_score :: decimal
  dc_missing_fields :: "string list"
  dc_missing_factors :: "string list"
  dc_factor_coverage :: decimal

datatype decision_status = DS_BLOCKED | DS_INELIGIBLE | DS_SCORED | DS_INSUFFICIENT_EVIDENCE

record decision =
  dec_decision_id :: string
  dec_family :: string
  dec_subject_kind :: string
  dec_subject_id :: string
  dec_as_of :: string
  dec_revision :: string
  dec_configuration_version :: string
  dec_weighted_score :: "decimal option"
  dec_band :: string
  dec_weighted_band :: "string option"
  dec_score :: "decimal option"
  dec_range_low :: decimal
  dec_range_high :: decimal
  dec_status :: decision_status
  dec_eligible :: bool
  dec_eligibility_reasons :: "string list"
  dec_blocking_constraints :: "string list"
  dec_factors :: "factor_view list"
  dec_data_coverage :: data_coverage
  dec_interpretation :: string
  dec_what_would_change_result :: "string list"

text \<open>What the decision identity is a digest of.\<close>

record decision_key =
  dk_family :: family
  dk_subject_id :: string
  dk_as_of :: string
  dk_revision :: string
  dk_inputs :: "(string \<times> factor_input) list"  \<comment> \<open>sorted by factor\<close>
  dk_eligible :: bool
  dk_eligibility_reasons :: "string list"
  dk_blocking_constraints :: "string list"

definition current_points :: "factor_input option \<Rightarrow> decimal option" where
  "current_points v = (case v of None \<Rightarrow> None
     | Some i \<Rightarrow> if fi_evidence_state i = EV_CURRENT then fi_points i else None)"

definition required_of :: "string \<Rightarrow> factor_input option \<Rightarrow> string list" where
  "required_of name v = (case v of None \<Rightarrow> [name]
     | Some i \<Rightarrow> if fi_required_fields i = [] then [name] else fi_required_fields i)"

definition observed_of :: "string \<Rightarrow> factor_input option \<Rightarrow> string list" where
  "observed_of name v =
     (let scored = (if current_points v \<noteq> None then [name] else [])
      in case v of None \<Rightarrow> scored
         | Some i \<Rightarrow> if fi_required_fields i = [] then scored else fi_observed_fields i)"

definition view_factor :: "string \<times> int \<Rightarrow> factor_input option \<Rightarrow> factor_view" where
  "view_factor nw v = (case nw of (name, weight) \<Rightarrow>
     let points = current_points v
     in \<lparr>fv_key = name, fv_weight = weight, fv_points = points,
         fv_contribution = map_option (\<lambda>p. quantize2 (p * of_int weight / 100)) points,
         fv_contribution_exact = map_option (\<lambda>p. p * of_int weight / 100) points,
         fv_evidence_ids = (case v of None \<Rightarrow> [] | Some i \<Rightarrow> fi_evidence_ids i),
         fv_reason = (case v of None \<Rightarrow> ''Required evidence has not been established.'' | Some i \<Rightarrow> fi_reason i),
         fv_raw_value = Option.bind v fi_raw_value, fv_period = Option.bind v fi_period,
         fv_required_fields = required_of name v, fv_observed_fields = observed_of name v,
         fv_lower_bound = Option.bind v fi_lower_bound, fv_upper_bound = Option.bind v fi_upper_bound,
         fv_truth_class = map_option fi_truth_class v,
         fv_evidence_state = (case v of None \<Rightarrow> EV_UNKNOWN | Some i \<Rightarrow> fi_evidence_state i),
         fv_configured_contribution = None, fv_effective_weight_percent = 0\<rparr>)"

definition fields_observed :: "factor_view \<Rightarrow> bool" where
  "fields_observed f = (set (fv_required_fields f) \<subseteq> set (fv_observed_fields f))"

definition factor_done :: "factor_view \<Rightarrow> bool" where
  "factor_done f = (fv_points f \<noteq> None \<and> fields_observed f)"

definition known_weight :: "factor_view list \<Rightarrow> int" where
  "known_weight fs = (\<Sum>f\<leftarrow>filter (\<lambda>f. fv_points f \<noteq> None) fs. fv_weight f)"

definition usable_weight :: "factor_view list \<Rightarrow> int" where
  "usable_weight fs = (\<Sum>f\<leftarrow>filter factor_done fs. fv_weight f)"

definition factor_floor :: "factor_view \<Rightarrow> decimal" where
  "factor_floor f =
     (if factor_done f then default_to (fv_points f) 0
      else if fv_evidence_state f = EV_CURRENT then default_to (fv_lower_bound f) 0 else 0)"

definition factor_ceiling :: "factor_view \<Rightarrow> decimal" where
  "factor_ceiling f =
     (if factor_done f then default_to (fv_points f) 0
      else if fv_evidence_state f = EV_CURRENT then default_to (fv_upper_bound f) 100 else 100)"

definition weighted_total :: "(factor_view \<Rightarrow> decimal) \<Rightarrow> factor_view list \<Rightarrow> decimal" where
  "weighted_total g fs = (\<Sum>f\<leftarrow>fs. g f * of_int (fv_weight f) / 100)"

definition settle_factor :: "factor_view \<Rightarrow> factor_view" where
  "settle_factor f = f\<lparr>fv_configured_contribution := fv_contribution f,
     fv_effective_weight_percent := of_int (fv_weight f),
     fv_contribution := (if fields_observed f then fv_contribution f else None)\<rparr>"

definition spaced :: "string \<Rightarrow> string" where
  \<comment> \<open>\<open>key.replace('_', ' ')\<close>\<close>
  "spaced s = map (\<lambda>c. if c = CHR ''_'' then CHR '' '' else c) s"

definition change_hints :: "factor_view list \<Rightarrow> string list" where
  "change_hints fs =
     (let verify = map (\<lambda>f. ''Verify current '' @ spaced (fv_key f) @ '' evidence; its fixed weight is ''
            @ show_int (fv_weight f) @ '' points.'') (filter (\<lambda>f. fv_points f = None) fs)
      in if verify \<noteq> [] then verify
         else map (\<lambda>f. ''A different evidenced '' @ spaced (fv_key f) @ '' band changes its ''
            @ show_int (fv_weight f) @ ''-point contribution.'') fs)"

definition dotted :: "(factor_view \<Rightarrow> string list) \<Rightarrow> factor_view list \<Rightarrow> string list" where
  "dotted keys fs = concat (map (\<lambda>f. map (\<lambda>k. fv_key f @ ''.'' @ k) (keys f)) fs)"

definition coverage_of :: "string \<Rightarrow> factor_view list \<Rightarrow> data_coverage" where
  "coverage_of subject_id fs =
     (let required = dotted fv_required_fields fs; observed = dotted fv_observed_fields fs;
          coverage = of_int (usable_weight fs) / 100
      in \<lparr>dc_subject_id = subject_id, dc_present = length observed, dc_applicable = length required,
          dc_ratio = coverage, dc_score = coverage * 100,
          dc_missing_fields = sorted_set (filter (\<lambda>x. x \<notin> set observed) required),
          dc_missing_factors = map fv_key (filter (\<lambda>f. fv_points f = None) fs),
          dc_factor_coverage = of_int (known_weight fs) / 100\<rparr>)"

definition assess ::
  "(decision_key \<Rightarrow> string) \<Rightarrow> string \<Rightarrow> string \<Rightarrow> string \<Rightarrow> string \<Rightarrow> (string, factor_input) dict \<Rightarrow>
   bool \<Rightarrow> string list \<Rightarrow> string list \<Rightarrow> (py_error, decision) result" where
  "assess digest family_key subject_id as_of revision inputs eligible eligibility_reasons blocking =
     bind_r (family_of family_key) (\<lambda>fam.
     if \<not> set (dkeys inputs) \<subseteq> set (map fst (fam_weights fam))
     then Inl (ValueError ''Unknown factor cannot alter the governed rubric'')
     else if (\<Sum>(name, weight)\<leftarrow>fam_weights fam. weight) \<noteq> 100
     then Inl (ValueError ''Invalid family configuration'')
     else
       let fs = map (\<lambda>nw. view_factor nw (dget inputs (fst nw))) (fam_weights fam);
           cov = coverage_of subject_id fs;
           usable = (eligible \<and> fam_minimum_coverage fam \<le> min (dc_ratio cov) (dc_factor_coverage cov)
             \<and> blocking = []);
           lower = quantize2 (weighted_total factor_floor fs);
           score = (if usable \<and> usable_weight fs = 100 then Some lower else None);
           weighted = (if usable_weight fs = 100 then Some lower else None);
           key = \<lparr>dk_family = fam, dk_subject_id = subject_id, dk_as_of = as_of, dk_revision = revision,
             dk_inputs = sort_key fst inputs, dk_eligible = eligible,
             dk_eligibility_reasons = eligibility_reasons, dk_blocking_constraints = blocking\<rparr>
       in bind_r (if blocking \<noteq> [] then Inr ''BLOCKED'' else score_band family_key score) (\<lambda>band.
          bind_r (if usable_weight fs = 100 then map_sum id Some (score_band family_key (Some lower))
                  else Inr None) (\<lambda>weighted_band.
          Inr \<lparr>dec_decision_id = ''decision:'' @ take 32 (digest key), dec_family = family_key,
            dec_subject_kind = fam_subject_kind fam, dec_subject_id = subject_id, dec_as_of = as_of,
            dec_revision = revision, dec_configuration_version = VERSION, dec_weighted_score = weighted,
            dec_band = band, dec_weighted_band = weighted_band, dec_score = score, dec_range_low = lower,
            dec_range_high = quantize2 (weighted_total factor_ceiling fs),
            dec_status = (if blocking \<noteq> [] then DS_BLOCKED else if \<not> eligible then DS_INELIGIBLE
               else if score \<noteq> None then DS_SCORED else DS_INSUFFICIENT_EVIDENCE),
            dec_eligible = eligible, dec_eligibility_reasons = eligibility_reasons,
            dec_blocking_constraints = blocking, dec_factors = map settle_factor fs, dec_data_coverage = cov,
            dec_interpretation = fam_interpretation fam, dec_what_would_change_result = change_hints fs\<rparr>)))"

section \<open>Public risk events\<close>

record public_event =
  pe_active :: bool
  pe_severity :: decimal
  pe_signal_confidence :: "decimal option"
  pe_underlying_event_id :: string
  pe_risk_domain :: string
  pe_synthetic :: bool
  pe_data_mode :: "string option"

record risk_rollup =
  rr_score :: "decimal option"
  rr_independent_event_ids :: "string list"
  rr_uplift :: int
  rr_configuration_version :: string
  rr_score_range :: "(decimal \<times> decimal) option"  \<comment> \<open>only without a confirmed event\<close>
  rr_monitoring_complete :: "bool option"
  rr_interpretation :: "string option"
  rr_calibration :: "string option"

definition collect_event ::
  "(string, public_event) dict \<Rightarrow> public_event \<Rightarrow> (py_error, (string, public_event) dict) result" where
  "collect_event unq e =
     (if \<not> pe_active e then Inr unq
      else case pe_signal_confidence e of
          None \<Rightarrow> Inr unq
        | Some c \<Rightarrow>
            (if \<not> (0 \<le> c \<and> c \<le> 100) then Inl (ValueError ''Invalid signal confidence'')
             else if c < 70 then Inr unq
             else if \<not> (0 \<le> pe_severity e \<and> pe_severity e \<le> 100)
             then Inl (ValueError ''Invalid public risk severity'')
             else case dget unq (pe_underlying_event_id e) of
                 Some p \<Rightarrow>
                   (if (pe_severity p, pe_risk_domain p) \<noteq> (pe_severity e, pe_risk_domain e)
                    then Inl (ValueError ''Conflicting copies require event resolution before roll-up'')
                    else Inr (dset (pe_underlying_event_id e) e unq))
               | None \<Rightarrow> Inr (dset (pe_underlying_event_id e) e unq)))"

fun collect_events ::
  "(string, public_event) dict \<Rightarrow> public_event list \<Rightarrow> (py_error, (string, public_event) dict) result" where
  "collect_events unq [] = Inr unq"
| "collect_events unq (e # es) = bind_r (collect_event unq e) (\<lambda>unq'. collect_events unq' es)"

definition ranked_events :: "(string, public_event) dict \<Rightarrow> public_event list" where
  "ranked_events unq = sort_key (\<lambda>e. (- pe_severity e, pe_underlying_event_id e)) (dvalues unq)"

definition allowed_domains :: "string list" where
  "allowed_domains = [''financial/legal'', ''demand/program'', ''operations/site'', ''supplier/service'']"

definition material_domains :: "public_event list \<Rightarrow> string list" where
  \<comment> \<open>the set of allowed domains with a material event\<close>
  "material_domains ranked = remdups (filter (\<lambda>d. d \<in> set allowed_domains)
     (map pe_risk_domain (filter (\<lambda>e. 40 \<le> pe_severity e) ranked)))"

definition domain_uplift :: "public_event list \<Rightarrow> int" where
  "domain_uplift ranked =
     (let additional = filter (\<lambda>d. d \<noteq> pe_risk_domain (hd ranked)) (material_domains ranked)
      in if 2 \<le> length additional then 10 else if additional \<noteq> [] then 5 else 0)"

definition public_risk_rollup :: "public_event list \<Rightarrow> bool \<Rightarrow> (py_error, risk_rollup) result" where
  "public_risk_rollup events monitoring_complete =
     bind_r (collect_events [] events) (\<lambda>unq.
     if unq = []
     then Inr \<lparr>rr_score = (if monitoring_complete then Some 0 else None), rr_independent_event_ids = [],
            rr_uplift = 0, rr_configuration_version = VERSION,
            rr_score_range = Some (0, if monitoring_complete then 0 else 100),
            rr_monitoring_complete = Some monitoring_complete,
            rr_interpretation = Some (if monitoring_complete then ''No confirmed active public risk.''
              else ''Monitoring coverage is incomplete; public risk is not assumed to be zero.''),
            rr_calibration = None\<rparr>
     else
       let ranked = ranked_events unq; uplift = domain_uplift ranked
       in Inr \<lparr>rr_score = Some (min 100 (pe_severity (hd ranked) + of_int uplift)),
            rr_independent_event_ids = map pe_underlying_event_id ranked, rr_uplift = uplift,
            rr_configuration_version = VERSION, rr_score_range = None, rr_monitoring_complete = None,
            rr_interpretation = None,
            rr_calibration = Some ''Rubric v2: each additional material domain requires severity >=40 and confidence >=70.''\<rparr>)"

section \<open>Overall customer risk\<close>

datatype range_side = Low | High

record overall_risk =
  or_band :: string
  or_status :: decision_status
  or_score :: "decimal option"
  or_score_range :: "(decimal \<times> decimal) option"
  or_internal_contribution :: "decimal option"
  or_public_contribution :: "decimal option"
  or_pre_floor_total :: "decimal option"
  or_convergence_uplift :: int
  or_convergence_evidence_ids :: "string list"
  or_critical_override_evidence_ids :: "string list"
  or_execution_blocked :: bool
  or_applicable_floors :: "(string \<times> decimal) list"
  or_missing_fields :: "string list"

definition valid_index :: "decimal option \<Rightarrow> bool" where
  "valid_index v = (case v of None \<Rightarrow> True | Some x \<Rightarrow> 0 \<le> x \<and> x \<le> 100)"

definition risk_floors :: "decimal option \<Rightarrow> decimal option \<Rightarrow> bool \<Rightarrow> string list \<Rightarrow> (string \<times> decimal) list" where
  "risk_floors internal_score public_score public_confirmed critical_ids =
     (if public_confirmed \<and> (case public_score of None \<Rightarrow> False | Some p \<Rightarrow> 85 \<le> p)
      then [(''CONFIRMED_PUBLIC_CRITICAL'', 75)] else [])
     @ (if (case internal_score of None \<Rightarrow> False | Some i \<Rightarrow> 85 \<le> i) then [(''INTERNAL_CRITICAL'', 80)] else [])
     @ (if critical_ids \<noteq> [] then [(''CONFIRMED_CRITICAL_OVERRIDE'', 85)] else [])"

definition risk_bound ::
  "decimal option \<Rightarrow> range_side \<Rightarrow> (decimal option \<times> decimal option) option \<Rightarrow> (py_error, decimal) result" where
  \<comment> \<open>a known value is both ends; otherwise the supplied end, or the end of the scale\<close>
  "risk_bound value side supplied =
     (case value of Some v \<Rightarrow> Inr v
      | None \<Rightarrow>
          (let given = (case supplied of None \<Rightarrow> None
                | Some (lo, hi) \<Rightarrow> (case side of Low \<Rightarrow> lo | High \<Rightarrow> hi));
               v = default_to given (case side of Low \<Rightarrow> 0 | High \<Rightarrow> 100)
           in if \<not> (0 \<le> v \<and> v \<le> 100)
              then Inl (ValueError ''Risk range endpoints must be governed indices'') else Inr v))"

definition combine_risk :: "decimal \<Rightarrow> decimal \<Rightarrow> string list \<Rightarrow> string list \<Rightarrow> decimal" where
  "combine_risk internal_value public_value convergence_ids critical_ids =
     (let base = 6/10 * internal_value + 4/10 * public_value;
          value = (if 60 \<le> internal_value \<and> 60 \<le> public_value \<and> convergence_ids \<noteq> [] then base + 5 else base)
      in quantize2 (min 100 (max (max (max value (if 85 \<le> internal_value then 80 else 0))
           (if 85 \<le> public_value then 75 else 0)) (if critical_ids \<noteq> [] then 85 else 0))))"

definition risk_bounds ::
  "decimal option \<Rightarrow> decimal option \<Rightarrow> bool \<Rightarrow> (decimal option \<times> decimal option) option \<Rightarrow> string list \<Rightarrow>
   string list \<Rightarrow> range_side \<Rightarrow> (py_error, decimal) result" where
  "risk_bounds internal_score public_score public_confirmed internal_range convergence_ids critical_ids side =
     bind_r (risk_bound internal_score side internal_range) (\<lambda>i.
     bind_r (risk_bound (if public_confirmed then public_score else None) side None) (\<lambda>p.
     Inr (combine_risk i p convergence_ids critical_ids)))"

definition overall_customer_risk ::
  "bool \<Rightarrow> decimal option \<Rightarrow> decimal option \<Rightarrow> bool \<Rightarrow> string list \<Rightarrow> string list \<Rightarrow>
   (decimal option \<times> decimal option) option \<Rightarrow> (py_error, overall_risk) result" where
  "overall_customer_risk current_customer internal_score public_score public_confirmed convergence_ids
       critical_ids internal_range =
     (if \<not> valid_index internal_score \<or> \<not> valid_index public_score
      then Inl (ValueError ''Risk inputs must be valid governed indices'')
      else
        let eligible = (current_customer \<and> internal_score \<noteq> None \<and> public_score \<noteq> None \<and> public_confirmed);
            i = default_to internal_score 0; p = default_to public_score 0;
            floors = risk_floors internal_score public_score public_confirmed critical_ids;
            uplift = (if eligible \<and> 60 \<le> i \<and> 60 \<le> p \<and> convergence_ids \<noteq> [] then 5 else 0);
            raw = (if eligible then Some (6/10 * i + 4/10 * p + of_int uplift) else None);
            score = (case raw of Some r \<Rightarrow>
                (if floors \<noteq> [] then Some (min 100 (foldl max r (map snd floors))) else raw) | None \<Rightarrow> None)
        in bind_r (risk_bounds internal_score public_score public_confirmed internal_range convergence_ids critical_ids Low) (\<lambda>lo.
           bind_r (risk_bounds internal_score public_score public_confirmed internal_range convergence_ids critical_ids High) (\<lambda>hi.
           if hi < lo then Inl (ValueError ''Risk range is reversed'')
           else bind_r (score_band ''overall_customer_risk'' score) (\<lambda>band.
           Inr \<lparr>or_band = band,
             or_status = (if \<not> current_customer then DS_INELIGIBLE else if eligible then DS_SCORED
               else DS_INSUFFICIENT_EVIDENCE),
             or_score = map_option quantize2 score,
             or_score_range = (if current_customer then Some (lo, hi) else None),
             or_internal_contribution = map_option (\<lambda>x. x * (6/10)) internal_score,
             or_public_contribution = (if public_confirmed then map_option (\<lambda>x. x * (4/10)) public_score else None),
             or_pre_floor_total = raw, or_convergence_uplift = uplift,
             or_convergence_evidence_ids = convergence_ids,
             or_critical_override_evidence_ids = critical_ids, or_execution_blocked = (critical_ids \<noteq> []),
             or_applicable_floors = (if current_customer then floors else []),
             or_missing_fields = (if internal_score = None then [''internal_commercial_risk''] else [])
               @ (if public_score = None then [''public_risk_rollup''] else [])\<rparr>))))"

section \<open>The projection for one account\<close>

record risk_brief =
  rb_id :: string
  rb_account_ids :: "string list"
  rb_risk_score :: "decimal option"  \<comment> \<open>risk_severity['score'], absent when there is no severity\<close>
  rb_risk_synthetic :: bool
  rb_risk_data_mode :: "string option"
  rb_freshness :: "string option"
  rb_promotion_state :: "string option"
  rb_confidence_score :: "decimal option"
  rb_confidence_status :: "decision_status option"
  rb_event_type :: "string option"

record risk_projection =
  rpj_account_id :: string
  rpj_public :: risk_rollup
  rpj_overall :: overall_risk
  rpj_events :: "public_event list"
  rpj_confirmed_ids :: "string list"

definition RISK_DOMAINS :: "(string \<times> string) list" where
  "RISK_DOMAINS =
     [(''FINANCIAL_DISTRESS'', ''financial/legal''), (''EXPORT_RESTRICTION'', ''financial/legal''),
      (''CONTRACT_REDUCTION'', ''demand/program''), (''PROGRAM_CANCELLATION'', ''demand/program''),
      (''FACILITY_CLOSURE'', ''operations/site''), (''WORKFORCE_REDUCTION'', ''operations/site''),
      (''PRODUCTION_DELAY'', ''operations/site'')]"

definition account_briefs :: "string \<Rightarrow> risk_brief list \<Rightarrow> risk_brief list" where
  "account_briefs account_id briefs =
     filter (\<lambda>b. account_id \<in> set (rb_account_ids b) \<and> rb_risk_score b \<noteq> None) (sort_key rb_id briefs)"

definition brief_active :: "risk_brief \<Rightarrow> bool" where
  "brief_active b = (rb_freshness b = Some ''CURRENT'' \<and> rb_promotion_state b = Some ''RESOLVED_ELIGIBLE'')"

definition brief_event :: "risk_brief \<Rightarrow> public_event" where
  "brief_event b = \<lparr>pe_active = brief_active b, pe_severity = default_to (rb_risk_score b) 0,
     pe_signal_confidence = rb_confidence_score b, pe_underlying_event_id = rb_id b,
     pe_risk_domain = default_to (Option.bind (rb_event_type b) (dget RISK_DOMAINS)) ''unclassified'',
     pe_synthetic = rb_risk_synthetic b, pe_data_mode = rb_risk_data_mode b\<rparr>"

definition brief_confirmed :: "risk_brief \<Rightarrow> bool" where
  "brief_confirmed b = (brief_active b \<and> (case rb_confidence_score b of None \<Rightarrow> False | Some c \<Rightarrow> 70 \<le> c)
     \<and> rb_confidence_status b = Some DS_SCORED)"

definition customer_risk_projection ::
  "string \<Rightarrow> bool \<Rightarrow> decimal option \<Rightarrow> (decimal option \<times> decimal option) option \<Rightarrow> risk_brief list \<Rightarrow> bool \<Rightarrow>
   string list \<Rightarrow> string list \<Rightarrow> (py_error, risk_projection) result" where
  "customer_risk_projection account_id current_customer internal_score internal_range briefs monitoring_complete
       convergence_ids critical_ids =
     (let relevant = account_briefs account_id briefs; events = map brief_event relevant;
          confirmed = map rb_id (filter brief_confirmed relevant)
      in bind_r (public_risk_rollup events monitoring_complete) (\<lambda>public.
         bind_r (overall_customer_risk current_customer internal_score (rr_score public)
             (confirmed \<noteq> [] \<or> monitoring_complete) convergence_ids critical_ids internal_range) (\<lambda>combined.
         Inr \<lparr>rpj_account_id = account_id, rpj_public = public, rpj_overall = combined, rpj_events = events,
           rpj_confirmed_ids = confirmed\<rparr>)))"

end
