(* ===== verification/FamilyProps.thy ===== *)
theory FamilyProps
  imports Families
begin

text \<open>
  The families keep the weight contract, so an assessment's range is the range of an index; the
  roll-up of public events depends on the set of events only; the overall risk respects its floors
  and grows with its inputs.
\<close>

section \<open>The families are weighted indices\<close>

definition family_weights :: "family \<Rightarrow> ((string \<times> int) \<times> rat) list" where
  "family_weights f = map (\<lambda>nw. (nw, of_int (snd nw) / 100)) (fam_weights f)"

definition family_wf :: "family \<Rightarrow> bool" where
  "family_wf f = (positive_unit (map snd (family_weights f)) \<and> fam_minimum_coverage f \<le> 1
     \<and> (\<Sum>(name, weight)\<leftarrow>fam_weights f. weight) = 100 \<and> list_all (\<lambda>nw. 0 < snd nw) (fam_weights f))"

lemma FAMILIES_wf: "list_all family_wf FAMILIES"
  by code_simp

lemma family_of_wf: "family_of k = Inr f \<Longrightarrow> family_wf f \<and> fam_key f = k"
  using FAMILIES_wf by (auto simp: family_of_def list_all_iff dest!: first_match_Some split: option.splits)

lemma family_index: "family_wf f \<Longrightarrow> weighted_index (family_weights f)"
  by (rule weighted_index_of_unit) (simp add: family_wf_def)

definition views :: "family \<Rightarrow> (string, factor_input) dict \<Rightarrow> factor_view list" where
  "views f inputs = map (\<lambda>nw. view_factor nw (dget inputs (fst nw))) (fam_weights f)"

lemma view_weight [simp]: "fv_weight (view_factor nw v) = snd nw"
  by (cases nw) (simp add: view_factor_def Let_def)

lemma weighted_total_index:
  assumes "family_wf f"
  shows "weighted_total g (views f inputs)
    = weighted_index.index (family_weights f) (\<lambda>nw. g (view_factor nw (dget inputs (fst nw))))"
  unfolding weighted_index.index_def[OF family_index[OF assms]]
  by (simp add: weighted_total_def views_def family_weights_def comp_def)

section \<open>Floors and ceilings\<close>

definition inputs_ok :: "(string, factor_input) dict \<Rightarrow> bool" where
  "inputs_ok inputs = list_all (\<lambda>(k, i). factor_input_ok i) inputs"

lemma inputs_okD: "inputs_ok inputs \<Longrightarrow> dget inputs k = Some i \<Longrightarrow> factor_input_ok i"
  by (auto simp: inputs_ok_def list_all_iff dest: map_of_SomeD)

lemma factor_input_okD:
  assumes "factor_input_ok i"
  shows "\<And>p. fi_points i = Some p \<Longrightarrow> 0 \<le> p \<and> p \<le> 100"
    and "\<And>lo. fi_lower_bound i = Some lo \<Longrightarrow> \<exists>hi. fi_upper_bound i = Some hi \<and> 0 \<le> lo \<and> lo \<le> hi \<and> hi \<le> 100"
    and "fi_lower_bound i = None \<longleftrightarrow> fi_upper_bound i = None"
  using assms by (auto simp: factor_input_ok_def factor_input_post_init_def split: if_splits option.splits)

lemma view_fields [simp]:
  "fv_points (view_factor nw v) = current_points v"
  "fv_lower_bound (view_factor nw v) = Option.bind v fi_lower_bound"
  "fv_upper_bound (view_factor nw v) = Option.bind v fi_upper_bound"
  "fv_evidence_state (view_factor nw v) = (case v of None \<Rightarrow> EV_UNKNOWN | Some i \<Rightarrow> fi_evidence_state i)"
  by (cases nw, simp add: view_factor_def Let_def)+

lemma floor_ceiling_in_scale:
  assumes "case v of None \<Rightarrow> True | Some i \<Rightarrow> factor_input_ok i"
  shows "0 \<le> factor_floor (view_factor nw v) \<and> factor_floor (view_factor nw v) \<le> factor_ceiling (view_factor nw v)
    \<and> factor_ceiling (view_factor nw v) \<le> 100"
proof (cases v)
  case None
  then show ?thesis by (simp add: factor_floor_def factor_ceiling_def factor_done_def current_points_def)
next
  case (Some i)
  then have ok: "factor_input_ok i" using assms by simp
  show ?thesis
  proof (cases "factor_done (view_factor nw v)")
    case True
    then obtain p where "current_points v = Some p" "fi_points i = Some p"
      using Some by (auto simp: factor_done_def current_points_def split: if_splits)
    then show ?thesis using True factor_input_okD(1)[OF ok] by (simp add: factor_floor_def factor_ceiling_def)
  next
    case False
    then show ?thesis using Some factor_input_okD(2,3)[OF ok]
      by (cases "fi_lower_bound i") (auto simp: factor_floor_def factor_ceiling_def)
  qed
qed

lemma done_floor_ceiling: "factor_done f \<Longrightarrow> factor_floor f = factor_ceiling f"
  by (simp add: factor_floor_def factor_ceiling_def)

lemma input_view_in_scale:
  assumes "inputs_ok inputs"
  shows "0 \<le> factor_floor (view_factor nw (dget inputs k)) \<and>
    factor_floor (view_factor nw (dget inputs k)) \<le> factor_ceiling (view_factor nw (dget inputs k))
    \<and> factor_ceiling (view_factor nw (dget inputs k)) \<le> 100"
  by (rule floor_ceiling_in_scale) (auto dest: inputs_okD[OF assms] split: option.splits)

lemma assessment_range:
  assumes "family_wf f" "inputs_ok inputs"
  shows "0 \<le> weighted_total factor_floor (views f inputs)"
    and "weighted_total factor_floor (views f inputs) \<le> weighted_total factor_ceiling (views f inputs)"
    and "weighted_total factor_ceiling (views f inputs) \<le> 100"
proof -
  have R: "ranged_index (family_weights f) (\<lambda>nw. factor_floor (view_factor nw (dget inputs (fst nw))))
      (\<lambda>nw. factor_ceiling (view_factor nw (dget inputs (fst nw)))) 0 100"
    by (rule ranged_index.intro[OF family_index[OF assms(1)]], unfold_locales)
      (rule input_view_in_scale[OF assms(2)])
  show "0 \<le> weighted_total factor_floor (views f inputs)"
    "weighted_total factor_floor (views f inputs) \<le> weighted_total factor_ceiling (views f inputs)"
    "weighted_total factor_ceiling (views f inputs) \<le> 100"
    unfolding weighted_total_index[OF assms(1)]
    using ranged_index.range_ordered[OF R] ranged_index.range_in_scale[OF R] by blast+
qed

section \<open>Complete assessments\<close>

definition all_done :: "family \<Rightarrow> (string, factor_input) dict \<Rightarrow> bool" where
  "all_done f inputs = (\<forall>nw\<in>set (fam_weights f). factor_done (view_factor nw (dget inputs (fst nw))))"

lemma filter_weight:
  "(\<Sum>f\<leftarrow>filter P fs. fv_weight f) = (\<Sum>f\<leftarrow>fs. if P f then fv_weight f else 0)"
  by (induction fs) auto

lemma partial_weight:
  fixes w :: "'a \<Rightarrow> int"
  assumes "list_all (\<lambda>x. 0 < w x) xs"
  shows "(\<Sum>x\<leftarrow>xs. if P x then w x else 0) \<le> (\<Sum>x\<leftarrow>xs. w x)"
    and "(\<Sum>x\<leftarrow>xs. if P x then w x else 0) = (\<Sum>x\<leftarrow>xs. w x) \<longleftrightarrow> (\<forall>x\<in>set xs. P x)"
proof -
  have le: "(\<Sum>x\<leftarrow>ys. if P x then w x else 0) \<le> (\<Sum>x\<leftarrow>ys. w x)" if "list_all (\<lambda>x. 0 < w x) ys" for ys
    using that by (intro sum_list_le_map) (auto simp: list_all_iff less_imp_le)
  then show "(\<Sum>x\<leftarrow>xs. if P x then w x else 0) \<le> (\<Sum>x\<leftarrow>xs. w x)" using assms by blast
  show "(\<Sum>x\<leftarrow>xs. if P x then w x else 0) = (\<Sum>x\<leftarrow>xs. w x) \<longleftrightarrow> (\<forall>x\<in>set xs. P x)"
    using assms
  proof (induction xs)
    case (Cons x xs)
    show ?case
    proof (cases "P x")
      case True
      then show ?thesis using Cons by simp
    next
      case False
      then show ?thesis using Cons.prems le[of xs] by auto
    qed
  qed simp
qed

lemma usable_weight_full:
  assumes "family_wf f"
  shows "usable_weight (views f inputs) = 100 \<longleftrightarrow> all_done f inputs"
    and "all_done f inputs \<Longrightarrow> known_weight (views f inputs) = 100"
proof -
  have pos: "list_all (\<lambda>nw. 0 < snd nw) (fam_weights f)" and sum: "(\<Sum>nw\<leftarrow>fam_weights f. snd nw) = 100"
    using assms by (simp_all add: family_wf_def case_prod_unfold)
  have uw: "usable_weight (views f inputs)
      = (\<Sum>nw\<leftarrow>fam_weights f. if factor_done (view_factor nw (dget inputs (fst nw))) then snd nw else 0)"
    unfolding usable_weight_def filter_weight by (simp add: views_def comp_def cong: if_cong)
  show "usable_weight (views f inputs) = 100 \<longleftrightarrow> all_done f inputs"
    unfolding uw all_done_def
    using partial_weight(2)[OF pos, of "\<lambda>nw. factor_done (view_factor nw (dget inputs (fst nw)))"] sum by simp
  have kw: "known_weight (views f inputs)
      = (\<Sum>nw\<leftarrow>fam_weights f. if current_points (dget inputs (fst nw)) \<noteq> None then snd nw else 0)"
    unfolding known_weight_def filter_weight by (simp add: views_def comp_def cong: if_cong)
  show "known_weight (views f inputs) = 100" if "all_done f inputs"
    using that sum unfolding kw all_done_def factor_done_def by (simp cong: map_cong)
qed

text \<open>Every band list ends at zero, so a score of the scale always has a band.\<close>

lemma score_band_total: "(case s of None \<Rightarrow> True | Some x \<Rightarrow> 0 \<le> x) \<Longrightarrow> \<exists>b. score_band fam s = Inr b"
proof -
  assume a: "case s of None \<Rightarrow> True | Some x \<Rightarrow> 0 \<le> x"
  have "\<exists>b. (0, b) \<in> set (family_bands fam)" by (auto simp: family_bands_def)
  then have "first_match (\<lambda>(t, l). t \<le> x) (family_bands fam) \<noteq> None" if "0 \<le> x" for x :: rat
    using that by auto
  then show ?thesis using a by (auto simp: score_band_def split: option.splits)
qed

lemma assess_Inr:
  assumes "assess digest k sid t revn inputs eligible reasons blocking = Inr d"
  obtains f where "family_of k = Inr f" "set (dkeys inputs) \<subseteq> set (map fst (fam_weights f))"
    "dec_range_low d = quantize2 (weighted_total factor_floor (views f inputs))"
    "dec_range_high d = quantize2 (weighted_total factor_ceiling (views f inputs))"
    "dec_score d = (if eligible \<and> blocking = [] \<and> all_done f inputs then Some (dec_range_low d) else None)"
    "dec_status d = (if blocking \<noteq> [] then DS_BLOCKED else if \<not> eligible then DS_INELIGIBLE
       else if dec_score d \<noteq> None then DS_SCORED else DS_INSUFFICIENT_EVIDENCE)"
    "dec_factors d = map settle_factor (views f inputs)"
proof -
  obtain f where f: "family_of k = Inr f" and sub: "set (dkeys inputs) \<subseteq> set (map fst (fam_weights f))"
    using assms unfolding assess_def bind_r_Inr by (auto split: if_splits)
  have wf: "family_wf f" using family_of_wf[OF f] by blast
  have w100: "(\<Sum>(name, weight)\<leftarrow>fam_weights f. weight) = 100" using wf by (simp add: family_wf_def)
  have usable: "eligible \<and> fam_minimum_coverage f \<le> min (dc_ratio (coverage_of sid (views f inputs)))
        (dc_factor_coverage (coverage_of sid (views f inputs))) \<and> blocking = [] \<and> usable_weight (views f inputs) = 100
      \<longleftrightarrow> eligible \<and> blocking = [] \<and> all_done f inputs"
    using usable_weight_full[OF wf, of inputs] wf
    by (auto simp: coverage_of_def Let_def family_wf_def)
  let ?vs = "map (\<lambda>nw. view_factor nw (dget inputs (fst nw))) (fam_weights f)"
  have r: "dec_range_low d = quantize2 (weighted_total factor_floor ?vs)"
    "dec_range_high d = quantize2 (weighted_total factor_ceiling ?vs)"
    "dec_score d = (if (eligible \<and> fam_minimum_coverage f \<le> min (dc_ratio (coverage_of sid ?vs))
        (dc_factor_coverage (coverage_of sid ?vs)) \<and> blocking = []) \<and> usable_weight ?vs = 100
       then Some (quantize2 (weighted_total factor_floor ?vs)) else None)"
    "dec_status d = (if blocking \<noteq> [] then DS_BLOCKED else if \<not> eligible then DS_INELIGIBLE
       else if dec_score d \<noteq> None then DS_SCORED else DS_INSUFFICIENT_EVIDENCE)"
    "dec_factors d = map settle_factor ?vs"
    using assms sub w100 unfolding assess_def f bind_r.simps
    by (auto simp: Let_def bind_r_Inr simp del: not_None_eq)
  show ?thesis
    by (rule that[OF f sub]) (use r usable in \<open>auto simp: views_def\<close>)
qed

section \<open>Collected public events\<close>

definition counted :: "public_event \<Rightarrow> bool" where
  "counted e = (pe_active e \<and> (case pe_signal_confidence e of None \<Rightarrow> False | Some c \<Rightarrow> 70 \<le> c))"

definition event_facts :: "public_event \<Rightarrow> decimal \<times> string \<times> string" where
  "event_facts e = (pe_severity e, pe_underlying_event_id e, pe_risk_domain e)"

definition by_id :: "(string, public_event) dict \<Rightarrow> bool" where
  "by_id u = (dict_wf u \<and> (\<forall>k e. dget u k = Some e \<longrightarrow> pe_underlying_event_id e = k))"

lemma dvalues_set: "dict_wf d \<Longrightarrow> set (dvalues d) = {v. \<exists>k. dget d k = Some v}"
  by (auto simp: dvalues_dget)

lemma collect_event_facts:
  assumes u: "by_id u" and c: "collect_event u e = Inr u'"
  shows "by_id u' \<and> event_facts ` set (dvalues u')
    = event_facts ` set (dvalues u) \<union> event_facts ` (if counted e then {e} else {})"
proof (cases "counted e")
  case False
  then have "u' = u" using c by (auto simp: collect_event_def counted_def split: if_splits option.splits)
  then show ?thesis using u False by simp
next
  case True
  let ?k = "pe_underlying_event_id e"
  have u': "u' = dset ?k e u"
    and same: "\<And>p. dget u ?k = Some p \<Longrightarrow> event_facts p = event_facts e"
    using c True u by (auto simp: collect_event_def counted_def event_facts_def by_id_def split: if_splits option.splits)
  have b: "by_id u'" using u by (auto simp: u' by_id_def dict_simps)
  have "event_facts ` set (dvalues u') = insert (event_facts e) (event_facts ` set (dvalues u))"
  proof -
    have v': "set (dvalues u') = insert e {v. \<exists>k. k \<noteq> ?k \<and> dget u k = Some v}"
      unfolding dvalues_set[OF conjunct1[OF b[unfolded by_id_def]]] by (auto simp: u' dict_simps) metis+
    have v: "set (dvalues u) = {v. \<exists>k. dget u k = Some v}"
      using u by (simp add: by_id_def dvalues_set)
    show ?thesis unfolding v' v using same by (auto simp: image_iff) metis+
  qed
  then show ?thesis using b True by simp
qed

lemma collect_events_facts:
  assumes "by_id u" "collect_events u es = Inr u'"
  shows "by_id u' \<and> event_facts ` set (dvalues u')
    = event_facts ` set (dvalues u) \<union> event_facts ` {e \<in> set es. counted e}"
  using assms
proof (induction es arbitrary: u)
  case Nil
  then show ?case by simp
next
  case (Cons e es)
  then obtain u1 where u1: "collect_event u e = Inr u1" "collect_events u1 es = Inr u'"
    by (auto simp: res_simps)
  note a = collect_event_facts[OF Cons.prems(1) u1(1)] and b = Cons.IH[OF _ u1(2)]
  have "event_facts ` {x \<in> set (e # es). counted x}
      = event_facts ` (if counted e then {e} else {}) \<union> event_facts ` {x \<in> set es. counted x}"
    by auto
  then show ?case using a b by auto
qed

text \<open>The ranked events are determined by the set of facts: the ids are unique in it.\<close>

lemma ranked_unique:
  assumes "by_id u" "by_id v" "event_facts ` set (dvalues u) = event_facts ` set (dvalues v)"
  shows "map event_facts (ranked_events u) = map event_facts (ranked_events v)"
proof -
  let ?key = "\<lambda>(s, i, d). (- s :: decimal, i :: string)"
  have key: "?key (event_facts e) = (- pe_severity e, pe_underlying_event_id e)" for e
    by (simp add: event_facts_def)
  have keys: "map ?key (map event_facts xs) = map (\<lambda>e. (- pe_severity e, pe_underlying_event_id e)) xs" for xs
    by (simp add: key)
  have srt: "sorted (map ?key (map event_facts (ranked_events w)))" for w
    unfolding keys ranked_events_def by (rule sorted_sort_key)
  have val: "pe_underlying_event_id e = k" if "by_id w" "(k, e) \<in> set w" for w k e
    using that by (auto simp: by_id_def dict_wf_def map_of_eq_Some_iff)
  have ids: "distinct (map pe_underlying_event_id (dvalues w))" if w: "by_id w" for w
  proof -
    have "map pe_underlying_event_id (dvalues w) = map fst w"
      using val[OF w] by (auto simp: dvalues_def intro!: map_cong)
    then show ?thesis using w by (simp add: by_id_def dict_wf_def)
  qed
  have ids_inj: "inj_on pe_underlying_event_id (set (dvalues w))" if "by_id w" for w
    using ids[OF that] by (simp add: distinct_map)
  have dst: "distinct (map ?key (map event_facts (ranked_events w)))" if w: "by_id w" for w
  proof -
    have "distinct (ranked_events w)" using ids[OF w] by (simp add: ranked_events_def distinct_map)
    moreover have "inj_on (\<lambda>e. (- pe_severity e, pe_underlying_event_id e)) (set (ranked_events w))"
      using ids_inj[OF w] by (auto simp: inj_on_def ranked_events_def)
    ultimately show ?thesis unfolding keys by (simp add: distinct_map)
  qed
  have set_eq: "set (map event_facts (ranked_events u)) = set (map event_facts (ranked_events v))"
    using assms(3) by (simp add: ranked_events_def)
  have inj: "inj_on ?key (set (map event_facts (ranked_events u)) \<union> set (map event_facts (ranked_events v)))"
    unfolding set_eq using ids_inj[OF assms(2)]
    by (auto simp: inj_on_def ranked_events_def event_facts_def)
  show ?thesis
    by (rule map_sorted_distinct_set_unique[OF inj srt dst[OF assms(1)] srt dst[OF assms(2)] set_eq])
qed

lemma map_eq_list_all2: "map f xs = map f ys \<Longrightarrow> list_all2 (\<lambda>x y. f x = f y) xs ys"
  by (induction xs arbitrary: ys) (auto simp: Cons_eq_map_conv)

lemma same_facts:
  assumes "map event_facts xs = map event_facts ys"
  shows "map pe_underlying_event_id xs = map pe_underlying_event_id ys"
    and "domain_uplift xs = domain_uplift ys"
    and "xs \<noteq> [] \<Longrightarrow> pe_severity (hd xs) = pe_severity (hd ys)"
proof -
  have all: "list_all2 (\<lambda>x y. event_facts x = event_facts y) xs ys"
    by (rule map_eq_list_all2[OF assms])
  show "map pe_underlying_event_id xs = map pe_underlying_event_id ys"
    using all by (induction rule: list_all2_induct) (auto simp: event_facts_def)
  have f: "map pe_risk_domain (filter (\<lambda>e. 40 \<le> pe_severity e) xs)
      = map pe_risk_domain (filter (\<lambda>e. 40 \<le> pe_severity e) ys)"
    using all by (induction rule: list_all2_induct) (auto simp: event_facts_def)
  show h: "xs \<noteq> [] \<Longrightarrow> pe_severity (hd xs) = pe_severity (hd ys)"
    using all by (cases xs; cases ys) (auto simp: event_facts_def)
  show "domain_uplift xs = domain_uplift ys"
  proof (cases xs)
    case Nil
    then show ?thesis using all by (simp add: domain_uplift_def)
  next
    case (Cons x xs')
    then have "pe_risk_domain (hd xs) = pe_risk_domain (hd ys)"
      using all by (cases ys) (auto simp: event_facts_def)
    then show ?thesis using f by (simp add: domain_uplift_def material_domains_def Let_def)
  qed
qed

section \<open>The combined index\<close>

lemma combine_risk_mono:
  assumes "i \<le> i'" "p \<le> p'" "conv \<noteq> [] \<Longrightarrow> conv' \<noteq> []" "crit \<noteq> [] \<Longrightarrow> crit' \<noteq> []"
  shows "combine_risk i p conv crit \<le> combine_risk i' p' conv' crit'"
proof -
  have base: "6/10 * i + 4/10 * p \<le> 6/10 * i' + 4/10 * p'" using assms(1,2) by linarith
  have "(if 60 \<le> i \<and> 60 \<le> p \<and> conv \<noteq> [] then 6/10 * i + 4/10 * p + 5 else 6/10 * i + 4/10 * p)
      \<le> (if 60 \<le> i' \<and> 60 \<le> p' \<and> conv' \<noteq> [] then 6/10 * i' + 4/10 * p' + 5 else 6/10 * i' + 4/10 * p')"
    using base assms by auto
  moreover have "(if 85 \<le> i then 80 else 0 :: rat) \<le> (if 85 \<le> i' then 80 else 0)"
    "(if 85 \<le> p then 75 else 0 :: rat) \<le> (if 85 \<le> p' then 75 else 0)"
    "(if crit \<noteq> [] then 85 else 0 :: rat) \<le> (if crit' \<noteq> [] then 85 else 0)"
    using assms by auto
  ultimately show ?thesis unfolding combine_risk_def Let_def
    by (intro quantize2_mono min.mono max.mono order_refl)
qed

lemma capped_max_ge:
  fixes t :: decimal
  shows "t \<le> 100 \<Longrightarrow> t \<le> a \<or> t \<le> b \<or> t \<le> c \<or> t \<le> d \<Longrightarrow> t \<le> min 100 (max (max (max a b) c) d)"
  by auto

lemma combine_risk_floors:
  assumes "0 \<le> i" "0 \<le> p"
  shows "0 \<le> combine_risk i p conv crit" "combine_risk i p conv crit \<le> 100"
    "85 \<le> i \<Longrightarrow> 80 \<le> combine_risk i p conv crit" "85 \<le> p \<Longrightarrow> 75 \<le> combine_risk i p conv crit"
    "crit \<noteq> [] \<Longrightarrow> 85 \<le> combine_risk i p conv crit"
proof -
  let ?v = "min 100 (max (max (max (if 60 \<le> i \<and> 60 \<le> p \<and> conv \<noteq> [] then 6/10 * i + 4/10 * p + 5
      else 6/10 * i + 4/10 * p) (if 85 \<le> i then 80 else 0)) (if 85 \<le> p then 75 else 0))
      (if crit \<noteq> [] then 85 else 0))"
  have v: "combine_risk i p conv crit = quantize2 ?v" unfolding combine_risk_def Let_def by (rule refl)
  show "0 \<le> combine_risk i p conv crit" unfolding v by (rule cents.rnd_lower, simp, rule capped_max_ge, simp, intro disjI2, simp)
  show "combine_risk i p conv crit \<le> 100" unfolding v by (rule cents.rnd_upper, simp, rule min.cobounded1)
  show "80 \<le> combine_risk i p conv crit" if "85 \<le> i"
    unfolding v by (rule cents.rnd_lower, simp, rule capped_max_ge, simp, rule disjI2, rule disjI1, simp add: that)
  show "75 \<le> combine_risk i p conv crit" if "85 \<le> p"
    unfolding v by (rule cents.rnd_lower, simp, rule capped_max_ge, simp, rule disjI2, rule disjI2, rule disjI1, simp add: that)
  show "85 \<le> combine_risk i p conv crit" if "crit \<noteq> []"
    unfolding v by (rule cents.rnd_lower, simp, rule capped_max_ge, simp, intro disjI2, simp add: that)
qed

lemma fold_floors:
  fixes r :: decimal
  assumes "0 \<le> r"
  shows "foldl max r (map snd (risk_floors (Some i) (Some p) True crit))
    = max (max (max r (if 85 \<le> i then 80 else 0)) (if 85 \<le> p then 75 else 0)) (if crit \<noteq> [] then 85 else 0)"
  using assms by (cases "85 \<le> i"; cases "85 \<le> p"; cases "crit = []") (simp_all add: risk_floors_def max_def)

lemma floored_total:
  fixes conv crit :: "string list"
  assumes "0 \<le> i" "i \<le> 100" "0 \<le> p" "p \<le> 100"
  defines "up \<equiv> (if 60 \<le> i \<and> 60 \<le> p \<and> conv \<noteq> [] then 5 else 0 :: int)"
  defines "raw \<equiv> 6/10 * i + 4/10 * p + of_int up"
  defines "floors \<equiv> risk_floors (Some i) (Some p) True crit"
  shows "quantize2 (if floors \<noteq> [] then min 100 (foldl max raw (map snd floors)) else raw) = combine_risk i p conv crit"
proof -
  have raw0: "0 \<le> raw" using assms(1,3) by (simp add: raw_def up_def)
  have val: "(if 60 \<le> i \<and> 60 \<le> p \<and> conv \<noteq> [] then 6/10 * i + 4/10 * p + 5 else 6/10 * i + 4/10 * p) = raw"
    by (simp add: raw_def up_def)
  have "(if floors \<noteq> [] then min 100 (foldl max raw (map snd floors)) else raw)
      = min 100 (max (max (max raw (if 85 \<le> i then 80 else 0)) (if 85 \<le> p then 75 else 0)) (if crit \<noteq> [] then 85 else 0))"
  proof (cases "floors = []")
    case True
    then have "i < 85" "p < 85" "crit = []" by (auto simp: floors_def risk_floors_def split: if_splits)
    moreover have "raw \<le> 100" using \<open>i < 85\<close> \<open>p < 85\<close> by (simp add: raw_def up_def)
    ultimately show ?thesis using True raw0 by simp
  next
    case False
    have "foldl max raw (map snd floors)
        = max (max (max raw (if 85 \<le> i then 80 else 0)) (if 85 \<le> p then 75 else 0)) (if crit \<noteq> [] then 85 else 0)"
      unfolding floors_def by (rule fold_floors[OF raw0])
    then show ?thesis using False by simp
  qed
  then show ?thesis by (simp only: combine_risk_def Let_def val)
qed

lemma overall_score_value:
  assumes "overall_customer_risk cc internal public confirmed conv crit rng = Inr res"
  shows "or_score res = Some s \<Longrightarrow> \<exists>i p. internal = Some i \<and> public = Some p \<and> cc \<and> confirmed
    \<and> 0 \<le> i \<and> i \<le> 100 \<and> 0 \<le> p \<and> p \<le> 100
    \<and> s = combine_risk i p conv crit \<and> or_score_range res = Some (s, s)"
    and "or_status res = (if \<not> cc then DS_INELIGIBLE else if or_score res \<noteq> None then DS_SCORED else DS_INSUFFICIENT_EVIDENCE)"
proof -
  let ?el = "cc \<and> internal \<noteq> None \<and> public \<noteq> None \<and> confirmed"
  have v: "valid_index internal" "valid_index public"
    using assms by (auto simp: overall_customer_risk_def split: if_splits)
  obtain lo hi where b: "risk_bounds internal public confirmed rng conv crit Low = Inr lo"
      "risk_bounds internal public confirmed rng conv crit High = Inr hi"
    and st: "or_status res = (if \<not> cc then DS_INELIGIBLE else if ?el then DS_SCORED else DS_INSUFFICIENT_EVIDENCE)"
    and r: "or_score_range res = (if cc then Some (lo, hi) else None)"
    and sc: "or_score res = (if ?el then
        let i = default_to internal 0; p = default_to public 0; floors = risk_floors internal public confirmed crit;
          raw = 6/10 * i + 4/10 * p + of_int (if 60 \<le> i \<and> 60 \<le> p \<and> conv \<noteq> [] then 5 else 0 :: int)
        in Some (quantize2 (if floors \<noteq> [] then min 100 (foldl max raw (map snd floors)) else raw)) else None)"
    using assms v unfolding overall_customer_risk_def Let_def
    by (auto simp: bind_r_Inr simp del: not_None_eq split: if_splits)
  show "or_status res = (if \<not> cc then DS_INELIGIBLE else if or_score res \<noteq> None then DS_SCORED else DS_INSUFFICIENT_EVIDENCE)"
    unfolding st sc by (simp add: Let_def)
  assume s: "or_score res = Some s"
  then have el: ?el unfolding sc by (simp split: if_splits)
  then obtain i p where ip: "internal = Some i" "public = Some p" "cc" "confirmed" by blast
  have in100: "0 \<le> i" "i \<le> 100" "0 \<le> p" "p \<le> 100" using v ip by (auto simp: valid_index_def)
  have "or_score res = Some (combine_risk i p conv crit)"
    unfolding sc ip Let_def default_to_simps using ip(3,4)
    by (simp only: floored_total[OF in100] option.distinct not_False_eq_True simp_thms if_True)
  then have "s = combine_risk i p conv crit" using s by simp
  moreover have "lo = combine_risk i p conv crit" "hi = combine_risk i p conv crit"
    using b ip by (simp_all add: risk_bounds_def risk_bound_def)
  ultimately show "\<exists>i p. internal = Some i \<and> public = Some p \<and> cc \<and> confirmed
    \<and> 0 \<le> i \<and> i \<le> 100 \<and> 0 \<le> p \<and> p \<le> 100
    \<and> s = combine_risk i p conv crit \<and> or_score_range res = Some (s, s)"
    using ip in100 r by simp
qed


section \<open>Properties\<close>

definition demo_factor :: "decimal \<Rightarrow> factor_input" where
  "demo_factor x = factor_input_default (Some x) [''ev1''] ''observed''"

definition demo_signal :: "(string, factor_input) dict" where
  "demo_signal = map (\<lambda>k. (k, demo_factor 80)) [''source_reliability'', ''entity_match'', ''event_specificity'',
     ''independent_corroboration'', ''freshness'']"

definition demo_partial :: "(string, factor_input) dict" where
  "demo_partial = [(''freshness'', demo_factor 80)]"

lemma demo_inputs_ok: "inputs_ok demo_signal" "inputs_ok demo_partial"
  by code_simp+

lemma demo_assessments:
  "map_sum (\<lambda>_. ()) (\<lambda>d. (dec_score d, dec_range_low d, dec_range_high d))
     (assess (\<lambda>_. []) ''signal_confidence'' ''s'' ''2026-01-01'' ''r'' demo_signal True [] []) = Inr (Some 80, 80, 80)"
  "map_sum (\<lambda>_. ()) (\<lambda>d. (dec_score d, dec_range_low d, dec_range_high d))
     (assess (\<lambda>_. []) ''signal_confidence'' ''s'' ''2026-01-01'' ''r'' demo_partial True [] []) = Inr (None, 8, 98)"
  by code_simp+

lemma map_sum_InrD: "map_sum f g x = Inr y \<Longrightarrow> \<exists>d. x = Inr d \<and> g d = y"
  by (cases x) auto

text \<open>
  C24. An assessment of well-formed inputs reports a range inside 0 to 100 with the low end not above
  the high end, and a score, where there is one, is both ends of it.
\<close>

theorem assessment_range_sound:
  assumes "assess digest k sid t revn inputs eligible reasons blocking = Inr d" and "inputs_ok inputs"
  shows "0 \<le> dec_range_low d \<and> dec_range_low d \<le> dec_range_high d \<and> dec_range_high d \<le> 100
    \<and> (\<forall>s. dec_score d = Some s \<longrightarrow> s = dec_range_low d \<and> s = dec_range_high d)"
proof -
  obtain f where f: "family_of k = Inr f"
    and r: "dec_range_low d = quantize2 (weighted_total factor_floor (views f inputs))"
      "dec_range_high d = quantize2 (weighted_total factor_ceiling (views f inputs))"
      "dec_score d = (if eligible \<and> blocking = [] \<and> all_done f inputs then Some (dec_range_low d) else None)"
    using assess_Inr[OF assms(1)] by blast
  have wf: "family_wf f" using family_of_wf[OF f] by blast
  note a = assessment_range[OF wf assms(2)]
  have "weighted_total factor_floor (views f inputs) = weighted_total factor_ceiling (views f inputs)"
    if "all_done f inputs"
    using that by (auto simp: weighted_total_def views_def all_done_def done_floor_ceiling intro!: arg_cong[where f = sum_list])
  then show ?thesis
    using r cents.rnd_lower[OF _ a(1)] cents.rnd_upper[OF _ a(3)] quantize2_mono[OF a(2)] by auto
qed

theorem assessment_range_sound_witness:
  "\<exists>d. assess (\<lambda>_. []) ''signal_confidence'' ''s'' ''2026-01-01'' ''r'' demo_partial True [] [] = Inr d
     \<and> dec_range_low d = 8 \<and> dec_range_low d \<le> dec_range_high d"
proof -
  obtain d where d: "assess (\<lambda>_. []) ''signal_confidence'' ''s'' ''2026-01-01'' ''r'' demo_partial True [] [] = Inr d"
    "dec_range_low d = 8"
    using map_sum_InrD[OF demo_assessments(2)] by auto
  then show ?thesis using assessment_range_sound[OF d(1) demo_inputs_ok(2)] by auto
qed

text \<open>
  C25. A score is given exactly when the subject is eligible, nothing blocks it, and every weighted
  factor has current points with all its required fields observed: nothing is ever reweighted around a
  missing factor. A decision without a score is blocked, ineligible or short of evidence.
\<close>

definition factor_evidenced :: "(string, factor_input) dict \<Rightarrow> string \<Rightarrow> bool" where
  "factor_evidenced inputs name = (case dget inputs name of None \<Rightarrow> False
     | Some i \<Rightarrow> fi_evidence_state i = EV_CURRENT \<and> fi_points i \<noteq> None
         \<and> set (fi_required_fields i) \<subseteq> set (fi_observed_fields i))"

lemma factor_done_evidenced: "factor_done (view_factor nw (dget inputs (fst nw))) \<longleftrightarrow> factor_evidenced inputs (fst nw)"
  by (cases nw) (auto simp: factor_done_def fields_observed_def view_factor_def Let_def current_points_def
      factor_evidenced_def required_of_def observed_of_def split: option.splits)

theorem scored_iff_fully_evidenced:
  assumes "assess digest k sid t revn inputs eligible reasons blocking = Inr d" and "family_of k = Inr f"
  shows "(dec_score d \<noteq> None \<longleftrightarrow>
      eligible \<and> blocking = [] \<and> (\<forall>(name, weight)\<in>set (fam_weights f). factor_evidenced inputs name))
    \<and> dec_status d = (if blocking \<noteq> [] then DS_BLOCKED else if \<not> eligible then DS_INELIGIBLE
        else if dec_score d \<noteq> None then DS_SCORED else DS_INSUFFICIENT_EVIDENCE)"
proof -
  have r: "dec_score d = (if eligible \<and> blocking = [] \<and> all_done f inputs then Some (dec_range_low d) else None)"
    "dec_status d = (if blocking \<noteq> [] then DS_BLOCKED else if \<not> eligible then DS_INELIGIBLE
        else if dec_score d \<noteq> None then DS_SCORED else DS_INSUFFICIENT_EVIDENCE)"
    using assess_Inr[OF assms(1)] assms(2) by (metis sum.inject(2))+
  have "all_done f inputs \<longleftrightarrow> (\<forall>(name, weight)\<in>set (fam_weights f). factor_evidenced inputs name)"
    by (auto simp: all_done_def factor_done_evidenced)
  then show ?thesis using r by simp
qed

theorem scored_iff_fully_evidenced_witness:
  "\<exists>d f. assess (\<lambda>_. []) ''signal_confidence'' ''s'' ''2026-01-01'' ''r'' demo_signal True [] [] = Inr d
     \<and> family_of ''signal_confidence'' = Inr f \<and> dec_status d = DS_SCORED
     \<and> (\<forall>(name, weight)\<in>set (fam_weights f). factor_evidenced demo_signal name)"
proof -
  obtain d where d: "assess (\<lambda>_. []) ''signal_confidence'' ''s'' ''2026-01-01'' ''r'' demo_signal True [] [] = Inr d"
    "dec_score d = Some 80"
    using map_sum_InrD[OF demo_assessments(1)] by auto
  obtain f where f: "family_of ''signal_confidence'' = Inr f"
    by (auto simp: family_of_def FAMILIES_def family_default_def)
  show ?thesis using scored_iff_fully_evidenced[OF d(1) f] d f by auto
qed

lemma assess_succeeds_iff:
  assumes "inputs_ok inputs"
  shows "(\<exists>d. assess digest k sid t revn inputs eligible reasons blocking = Inr d) \<longleftrightarrow>
    (\<exists>f\<in>set FAMILIES. fam_key f = k \<and> family_of k = Inr f \<and> set (dkeys inputs) \<subseteq> set (map fst (fam_weights f)))"
proof
  assume "\<exists>d. assess digest k sid t revn inputs eligible reasons blocking = Inr d"
  then obtain d where d: "assess digest k sid t revn inputs eligible reasons blocking = Inr d" by blast
  obtain f where f: "family_of k = Inr f" "set (dkeys inputs) \<subseteq> set (map fst (fam_weights f))"
    using assess_Inr[OF d] by blast
  then have "f \<in> set FAMILIES" "fam_key f = k"
    by (auto simp: family_of_def dest!: first_match_Some split: option.splits)
  then show "\<exists>f\<in>set FAMILIES. fam_key f = k \<and> family_of k = Inr f \<and> set (dkeys inputs) \<subseteq> set (map fst (fam_weights f))"
    using f by blast
next
  assume "\<exists>f\<in>set FAMILIES. fam_key f = k \<and> family_of k = Inr f \<and> set (dkeys inputs) \<subseteq> set (map fst (fam_weights f))"
  then obtain f where f: "family_of k = Inr f" "set (dkeys inputs) \<subseteq> set (map fst (fam_weights f))" by blast
  have wf: "family_wf f" using family_of_wf[OF f(1)] by blast
  let ?low = "quantize2 (weighted_total factor_floor (views f inputs))"
  have low: "0 \<le> ?low" using cents.rnd_lower[OF _ assessment_range(1)[OF wf assms]] by simp
  have band: "\<exists>b. score_band k (if c then Some ?low else None) = Inr b" for c
    by (rule score_band_total) (use low in simp)
  obtain b1 b2 where "score_band k (Some ?low) = Inr b1" "score_band k None = Inr b2"
    using band[of True] band[of False] by auto
  moreover have "(\<Sum>(name, weight)\<leftarrow>fam_weights f. weight) = 100" using wf by (simp add: family_wf_def)
  ultimately show "\<exists>d. assess digest k sid t revn inputs eligible reasons blocking = Inr d"
    using f by (simp add: assess_def Let_def views_def[symmetric] split: if_split)
qed

text \<open>
  On well-formed inputs an assessment fails exactly for an unknown family or for a factor the
  family does not have: the band look-up, which raises below its last threshold, always finds a band.
\<close>

theorem assess_fails_only_on_unknown_names:
  assumes "inputs_ok inputs"
  shows "(\<exists>d. assess digest k sid t revn inputs eligible reasons blocking = Inr d) \<longleftrightarrow>
    (\<exists>f\<in>set FAMILIES. fam_key f = k \<and> family_of k = Inr f \<and> set (dkeys inputs) \<subseteq> set (map fst (fam_weights f)))"
  by (rule assess_succeeds_iff[OF assms])

theorem assess_fails_only_on_unknown_names_witness:
  "\<not> (\<exists>d. assess (\<lambda>_. []) ''no_such_family'' ''s'' ''2026-01-01'' ''r'' demo_partial True [] [] = Inr d)"
proof -
  have "\<not> (\<exists>f\<in>set FAMILIES. fam_key f = ''no_such_family'')"
    by (simp add: FAMILIES_def family_default_def)
  then show ?thesis
    using assess_fails_only_on_unknown_names[OF demo_inputs_ok(2), of "\<lambda>_. []" "''no_such_family''" "''s''"
        "''2026-01-01''" "''r''" True "[]" "[]"] by blast
qed

text \<open>
  The public roll-up depends only on the set of confirmed active events, as severity, event and
  domain: neither their order nor the number of copies of an article changes it.
\<close>

theorem rollup_ignores_order_and_copies:
  assumes "public_risk_rollup es mc = Inr r" "public_risk_rollup es' mc = Inr r'"
    and "event_facts ` {e \<in> set es. counted e} = event_facts ` {e \<in> set es'. counted e}"
  shows "r = r'"
proof -
  obtain u u' where u: "collect_events [] es = Inr u" "collect_events [] es' = Inr u'"
    using assms(1,2) unfolding public_risk_rollup_def bind_r_Inr by blast
  have e: "by_id []" by (simp add: by_id_def dict_simps)
  note f = collect_events_facts[OF e u(1)] and f' = collect_events_facts[OF e u(2)]
  have eq: "event_facts ` set (dvalues u) = event_facts ` set (dvalues u')"
    using f f' assms(3) by (simp add: dvalues_def)
  note m = ranked_unique[OF conjunct1[OF f] conjunct1[OF f'] eq]
  have nil: "u = [] \<longleftrightarrow> u' = []" using eq by (auto simp: dvalues_def)
  have hd_eq: "u \<noteq> [] \<Longrightarrow> pe_severity (hd (ranked_events u)) = pe_severity (hd (ranked_events u'))"
    by (rule same_facts(3)[OF m]) (metis dvalues_def length_greater_0_conv length_map length_sort ranked_events_def)
  show ?thesis
    using assms(1,2) u nil hd_eq same_facts(1,2)[OF m] by (auto simp: public_risk_rollup_def Let_def)
qed

definition demo_event :: public_event where
  "demo_event = \<lparr>pe_active = True, pe_severity = 90, pe_signal_confidence = Some 80,
     pe_underlying_event_id = ''e1'', pe_risk_domain = ''operations/site'', pe_synthetic = False, pe_data_mode = None\<rparr>"

definition demo_event2 :: public_event where
  "demo_event2 = demo_event\<lparr>pe_underlying_event_id := ''e2'', pe_severity := 50, pe_risk_domain := ''demand/program''\<rparr>"

theorem rollup_ignores_order_and_copies_witness:
  "\<exists>r. public_risk_rollup [demo_event, demo_event2] False = Inr r
     \<and> public_risk_rollup [demo_event2, demo_event, demo_event2] False = Inr r \<and> rr_score r = Some 95"
proof -
  have "map_sum (\<lambda>_. ()) rr_score (public_risk_rollup [demo_event, demo_event2] False) = Inr (Some 95)"
    "map_sum (\<lambda>_. ()) rr_score (public_risk_rollup [demo_event2, demo_event, demo_event2] False) = Inr (Some 95)"
    by code_simp+
  from this[THEN map_sum_InrD] obtain r r' where
    r: "public_risk_rollup [demo_event, demo_event2] False = Inr r" "rr_score r = Some 95"
      "public_risk_rollup [demo_event2, demo_event, demo_event2] False = Inr r'" by blast
  have "r = r'"
    by (rule rollup_ignores_order_and_copies[OF r(1,3)]) (rule arg_cong[where f = "(`) event_facts"], auto)
  then show ?thesis using r by blast
qed

text \<open>
  A combined risk is between 0 and 100, collapses its range to itself, is given only for a current
  customer with both indices and confirmed public evidence, and never dilutes a critical condition: 80
  when the internal index is critical, 75 when the confirmed public one is, 85 under a critical override.
\<close>

theorem overall_risk_floors:
  assumes "overall_customer_risk cc internal public confirmed conv crit rng = Inr res"
    and "or_score res = Some s"
  shows "0 \<le> s \<and> s \<le> 100 \<and> or_score_range res = Some (s, s) \<and> cc \<and> confirmed
    \<and> (\<exists>i p. internal = Some i \<and> public = Some p \<and> (85 \<le> i \<longrightarrow> 80 \<le> s) \<and> (85 \<le> p \<longrightarrow> 75 \<le> s))
    \<and> (crit \<noteq> [] \<longrightarrow> 85 \<le> s)"
proof -
  obtain i p where v: "internal = Some i" "public = Some p" "cc" "confirmed" "0 \<le> i" "0 \<le> p"
    "s = combine_risk i p conv crit" "or_score_range res = Some (s, s)"
    using overall_score_value(1)[OF assms] by blast
  show ?thesis using v combine_risk_floors[OF v(5,6), where conv = conv and crit = crit] by simp
qed

lemma demo_overall:
  "map_sum (\<lambda>_. ()) or_score (overall_customer_risk True (Some 90) (Some 20) True [] [] None) = Inr (Some 80)"
  "map_sum (\<lambda>_. ()) or_score (overall_customer_risk True (Some 70) (Some 20) True [] [] None) = Inr (Some 50)"
  by code_simp+

theorem overall_risk_floors_witness:
  "\<exists>res s. overall_customer_risk True (Some 90) (Some 20) True [] [] None = Inr res
     \<and> or_score res = Some s \<and> 80 \<le> s"
proof -
  obtain res where r: "overall_customer_risk True (Some 90) (Some 20) True [] [] None = Inr res" "or_score res = Some 80"
    using map_sum_InrD[OF demo_overall(1)] by blast
  then show ?thesis using overall_risk_floors[OF r] by auto
qed

text \<open>
  The combined risk grows with its inputs: a higher internal or public index, a convergence link
  or a critical override never lowers it.
\<close>

theorem overall_risk_monotone:
  assumes "overall_customer_risk cc (Some i) (Some p) confirmed conv crit rng = Inr res"
    and "overall_customer_risk cc (Some i') (Some p') confirmed conv' crit' rng' = Inr res'"
    and "i \<le> i'" "p \<le> p'" "conv \<noteq> [] \<Longrightarrow> conv' \<noteq> []" "crit \<noteq> [] \<Longrightarrow> crit' \<noteq> []"
    and "or_score res = Some s" "or_score res' = Some s'"
  shows "s \<le> s'"
  using overall_score_value(1)[OF assms(1,7)] overall_score_value(1)[OF assms(2,8)] combine_risk_mono[OF assms(3-6)]
  by auto

theorem overall_risk_monotone_witness:
  "\<exists>res res' s s'. overall_customer_risk True (Some 70) (Some 20) True [] [] None = Inr res
     \<and> overall_customer_risk True (Some 90) (Some 20) True [] [] None = Inr res'
     \<and> or_score res = Some s \<and> or_score res' = Some s' \<and> s \<le> s'"
proof -
  obtain res res' where r: "overall_customer_risk True (Some 70) (Some 20) True [] [] None = Inr res" "or_score res = Some 50"
    "overall_customer_risk True (Some 90) (Some 20) True [] [] None = Inr res'" "or_score res' = Some 80"
    using map_sum_InrD[OF demo_overall(1)] map_sum_InrD[OF demo_overall(2)] by blast
  have "(50::rat) \<le> 80" by (rule overall_risk_monotone[OF r(1,3) _ _ _ _ r(2,4)]) simp_all
  then show ?thesis using r by blast
qed

text \<open>
  The projection of an account combines risk only from its own evidence: a combined score needs a
  current customer, an internal score, and complete monitoring or a confirmed event, and every confirmed
  event is a brief of this account that is current, promoted, scored and at least 70 confident.
\<close>

theorem risk_projection_needs_confirmation:
  assumes "customer_risk_projection aid cc internal rng briefs mc conv crit = Inr r"
  shows "(or_score (rpj_overall r) \<noteq> None \<longrightarrow> cc \<and> internal \<noteq> None \<and> (mc \<or> rpj_confirmed_ids r \<noteq> []))
    \<and> (\<forall>x\<in>set (rpj_confirmed_ids r). \<exists>b\<in>set briefs. rb_id b = x \<and> aid \<in> set (rb_account_ids b)
        \<and> rb_freshness b = Some ''CURRENT'' \<and> rb_promotion_state b = Some ''RESOLVED_ELIGIBLE''
        \<and> rb_confidence_status b = Some DS_SCORED \<and> (\<exists>c\<ge>70. rb_confidence_score b = Some c))"
proof -
  let ?rel = "account_briefs aid briefs"
  obtain public combined where c: "overall_customer_risk cc internal (rr_score public)
      (map rb_id (filter brief_confirmed ?rel) \<noteq> [] \<or> mc) conv crit rng = Inr combined"
    and r: "r = \<lparr>rpj_account_id = aid, rpj_public = public, rpj_overall = combined,
      rpj_events = map brief_event ?rel, rpj_confirmed_ids = map rb_id (filter brief_confirmed ?rel)\<rparr>"
    using assms unfolding customer_risk_projection_def Let_def bind_r_Inr by blast
  have o: "overall_customer_risk cc internal (rr_score public)
      (map rb_id (filter brief_confirmed ?rel) \<noteq> [] \<or> mc) conv crit rng = Inr (rpj_overall r)"
    and ids: "rpj_confirmed_ids r = map rb_id (filter brief_confirmed ?rel)"
    using c r by simp_all
  have "cc \<and> internal \<noteq> None \<and> (mc \<or> rpj_confirmed_ids r \<noteq> [])" if "or_score (rpj_overall r) \<noteq> None"
    using that overall_score_value(1)[OF o] ids by auto
  moreover have "\<exists>b\<in>set briefs. rb_id b = x \<and> aid \<in> set (rb_account_ids b)
        \<and> rb_freshness b = Some ''CURRENT'' \<and> rb_promotion_state b = Some ''RESOLVED_ELIGIBLE''
        \<and> rb_confidence_status b = Some DS_SCORED \<and> (\<exists>c\<ge>70. rb_confidence_score b = Some c)"
    if "x \<in> set (rpj_confirmed_ids r)" for x
    using that unfolding ids
    by (auto simp: account_briefs_def brief_confirmed_def brief_active_def split: option.splits)
  ultimately show ?thesis by blast
qed

definition demo_brief :: risk_brief where
  "demo_brief = \<lparr>rb_id = ''b1'', rb_account_ids = [''acct-1''], rb_risk_score = Some 90, rb_risk_synthetic = False,
     rb_risk_data_mode = None, rb_freshness = Some ''CURRENT'', rb_promotion_state = Some ''RESOLVED_ELIGIBLE'',
     rb_confidence_score = Some 80, rb_confidence_status = Some DS_SCORED,
     rb_event_type = Some ''FACILITY_CLOSURE''\<rparr>"

theorem risk_projection_needs_confirmation_witness:
  "\<exists>r. customer_risk_projection ''acct-1'' True (Some 50) None [demo_brief] False [] [] = Inr r
     \<and> or_score (rpj_overall r) = Some 75 \<and> rpj_confirmed_ids r \<noteq> []"
proof -
  have "map_sum (\<lambda>_. ()) (\<lambda>r. or_score (rpj_overall r))
      (customer_risk_projection ''acct-1'' True (Some 50) None [demo_brief] False [] []) = Inr (Some 75)"
    by code_simp
  from map_sum_InrD[OF this] obtain r where
    r: "customer_risk_projection ''acct-1'' True (Some 50) None [demo_brief] False [] [] = Inr r"
      "or_score (rpj_overall r) = Some 75" by blast
  have "rpj_confirmed_ids r \<noteq> []" using conjunct1[OF risk_projection_needs_confirmation[OF r(1)]] r(2) by simp
  then show ?thesis using r by blast
qed

end
