(* ===== verification/Ranked_Queue.thy ===== *)
theory Ranked_Queue
  imports Prelude
begin

text \<open>
  The contract of the work queues: filter, sort by a key, keep the first item of each identity. The
  clients are the action queue (\<^verbatim>\<open>action_priority.py\<close>) and the Today
  ordering (\<^verbatim>\<open>priority_ordering.py\<close>).
\<close>

lemma sorted_map_fst: "sorted ks \<Longrightarrow> sorted (map fst (ks :: ('a::linorder \<times> 'b::linorder) list))"
  by (induction ks) (auto simp: less_eq_prod_def)

lemma map_enumerate_snd: "map (\<lambda>(i, x). f x) (enumerate n xs) = map f xs"
  by (induction xs arbitrary: n) auto

locale ranked_queue =
  fixes key :: "'a \<Rightarrow> 'k::linorder"
    and ident :: "'a \<Rightarrow> 'i"
    and admitted :: "'a list \<Rightarrow> 'a \<Rightarrow> bool"
    and queue :: "'a list \<Rightarrow> 'a list"
  assumes queue_def: "queue xs = dedup_by ident [] (sort_key key (filter (admitted xs) xs))"
    and admitted_set: "set xs = set ys \<Longrightarrow> admitted xs = admitted ys"
begin

lemma queue_members: "x \<in> set (queue xs) \<Longrightarrow> x \<in> set xs \<and> admitted xs x"
  unfolding queue_def using dedup_by_subset[of ident "[]" "sort_key key (filter (admitted xs) xs)"] by auto

lemma queue_sorted: "sorted (map key (queue xs))"
  unfolding queue_def by (rule dedup_by_sorted) (rule sorted_sort_key)

lemma queue_distinct: "distinct (map ident (queue xs))"
  unfolding queue_def by (rule dedup_by_distinct)

lemma queue_complete: "ident ` set (queue xs) = ident ` {x \<in> set xs. admitted xs x}"
  unfolding queue_def dedup_by_keys by auto

lemma queue_best: "\<lbrakk>y \<in> set (queue xs); x \<in> set xs; admitted xs x; ident x = ident y\<rbrakk> \<Longrightarrow> key y \<le> key x"
  unfolding queue_def
  by (rule dedup_by_least[where f = ident and k = key and seen = "[]"
        and xs = "sort_key key (filter (admitted xs) xs)", OF sorted_sort_key]) simp_all

lemma queue_positions: "\<lbrakk>i < j; j < length (queue xs)\<rbrakk> \<Longrightarrow> key (queue xs ! i) \<le> key (queue xs ! j)"
  using queue_sorted[of xs] by (auto simp: sorted_iff_nth_mono_less)

text \<open>With different keys the queue does not depend on the order of its source.\<close>

lemma queue_permutation:
  assumes "mset xs = mset ys" "inj_on key (set xs)"
  shows "queue xs = queue ys"
proof -
  have s: "set xs = set ys" using assms(1) by (metis set_mset_mset)
  have m: "mset (filter (admitted xs) xs) = mset (filter (admitted xs) ys)"
    using assms(1) by simp
  have i: "inj_on key (set (filter (admitted xs) xs))" using assms(2) by (auto simp: inj_on_def)
  have "sort_key key (filter (admitted xs) xs) = sort_key key (filter (admitted xs) ys)"
    by (rule sort_key_inj_key_eq) (use m i in simp_all)
  then show ?thesis by (simp add: queue_def admitted_set[OF s])
qed

end

end
