(* ===== verification/ActionQueue.thy ===== *)
theory ActionQueue
  imports Ranked_Queue Json_Read
begin

text \<open>
  Rubric v2 section 13, \<^verbatim>\<open>modules/scoring/action_priority.py\<close>: an ordered queue
  of actions, never a blended score.
\<close>

definition VERSION :: string where
  "VERSION = ''BTX_ACTION_PRIORITY_V2''"

definition EXCLUDED :: "string list" where
  "EXCLUDED = [''COMPLETED'', ''CANCELED'', ''DISMISSED'', ''SNOOZED'', ''DUPLICATE'', ''INVALID'']"

text \<open>
  The keys of the item dictionary the code reads. \<open>qi_dedup\<close> is \<open>None\<close> when the item
  has no \<^verbatim>\<open>deduplication_key\<close>, which is not the same as a key that is null.
\<close>

record queue_item =
  qi_id :: string
  qi_decision :: json
  qi_confirmed_block :: json
  qi_due_date :: "string option"
  qi_created_at :: "string option"
  qi_status :: "string option"
  qi_valid :: "json option"
  qi_dedup :: "string option option"

record ranked_item =
  ri_item :: queue_item
  ri_priority_rank :: nat
  ri_priority_class :: int
  ri_configuration_version :: string

definition priority_class :: "bool \<Rightarrow> string option \<Rightarrow> int" where
  "priority_class confirmed_block disposition =
     (if confirmed_block then 0 else if disposition = Some ''ESCALATE_NOW'' then 1
      else if disposition = Some ''VALIDATE_IMMEDIATELY'' then 2 else 3)"

type_synonym action_key = "int \<times> int \<times> rat \<times> string \<times> string \<times> string"

definition or_late :: "string option \<Rightarrow> string" where
  "or_late d = (if truthy d then the d else ''9999-12-31'')"

definition action_sort_key :: "queue_item \<Rightarrow> action_key" where
  "action_sort_key item =
     (let d = qi_decision item;
          score = governed_number (j_read d ''score'');
          ceiling = governed_number (j_read (j_read d ''score_range'') ''high'')
      in (priority_class (qi_confirmed_block item = J_bool True) (j_text (j_read d ''disposition'')),
          if score \<noteq> None then 0 else 1,
          - (case score of Some s \<Rightarrow> s | None \<Rightarrow> default_to ceiling 100),
          or_late (qi_due_date item), or_late (qi_created_at item), qi_id item))"

definition item_identity :: "queue_item \<Rightarrow> string option" where
  "item_identity item = (case qi_dedup item of None \<Rightarrow> Some (qi_id item) | Some k \<Rightarrow> k)"

definition item_eligible :: "queue_item \<Rightarrow> bool" where
  "item_eligible item = ((case qi_status item of None \<Rightarrow> True | Some s \<Rightarrow> s \<notin> set EXCLUDED)
     \<and> (case qi_valid item of None \<Rightarrow> True | Some v \<Rightarrow> py_truth v))"

definition action_queue :: "queue_item list \<Rightarrow> queue_item list" where
  "action_queue items = dedup_by item_identity [] (sort_key action_sort_key (filter item_eligible items))"

definition rank_actions :: "queue_item list \<Rightarrow> ranked_item list" where
  "rank_actions items = map (\<lambda>(i, item). \<lparr>ri_item = item, ri_priority_rank = i,
       ri_priority_class = fst (action_sort_key item), ri_configuration_version = VERSION\<rparr>)
     (enumerate 1 (action_queue items))"

interpretation actions: ranked_queue action_sort_key item_identity "\<lambda>_. item_eligible" action_queue
  by unfold_locales (simp_all add: action_queue_def)

lemma rank_actions_items:
  "map ri_item (rank_actions xs) = action_queue xs"
  "map ri_priority_class (rank_actions xs) = map fst (map action_sort_key (action_queue xs))"
  "map ri_priority_rank (rank_actions xs) = [1..<Suc (length (rank_actions xs))]"
proof -
  have "map f (rank_actions xs) = map (\<lambda>(i, x). f \<lparr>ri_item = x, ri_priority_rank = i,
      ri_priority_class = fst (action_sort_key x), ri_configuration_version = VERSION\<rparr>) (enumerate 1 (action_queue xs))"
    for f :: "ranked_item \<Rightarrow> 'a"
    by (simp add: rank_actions_def comp_def case_prod_unfold)
  note f = this
  show "map ri_item (rank_actions xs) = action_queue xs"
    "map ri_priority_class (rank_actions xs) = map fst (map action_sort_key (action_queue xs))"
    unfolding f by (simp_all add: map_enumerate_snd[where f = "\<lambda>x. x", simplified] map_enumerate_snd comp_def)
  show "map ri_priority_rank (rank_actions xs) = [1..<Suc (length (rank_actions xs))]"
    unfolding f by (simp add: rank_actions_def case_prod_unfold enumerate_eq_zip)
qed

text \<open>The key ends with the item's id, so items with different ids have different keys.\<close>

lemma action_key_id: "action_sort_key x = action_sort_key y \<Longrightarrow> qi_id x = qi_id y"
  by (simp add: action_sort_key_def Let_def)

section \<open>Properties\<close>

definition demo_item :: queue_item where
  "demo_item = \<lparr>qi_id = ''a'', qi_decision = J_obj [(''score'', J_int 80)], qi_confirmed_block = J_null,
     qi_due_date = None, qi_created_at = None, qi_status = Some ''OPEN'', qi_valid = None, qi_dedup = None\<rparr>"

definition demo_block :: queue_item where
  "demo_block = demo_item\<lparr>qi_id := ''b'', qi_decision := J_null, qi_confirmed_block := J_bool True\<rparr>"

text \<open>
  The action queue keeps one item of every eligible identity, the best one; ranks count from one
  along the queue, and a rank before another never has the worse class.
\<close>

theorem action_queue_ranks:
  shows "item_identity ` ri_item ` set (rank_actions xs) = item_identity ` {x \<in> set xs. item_eligible x}
    \<and> distinct (map (item_identity \<circ> ri_item) (rank_actions xs))
    \<and> map ri_priority_rank (rank_actions xs) = [1..<Suc (length (rank_actions xs))]
    \<and> sorted (map ri_priority_class (rank_actions xs))
    \<and> (\<forall>r\<in>set (rank_actions xs). ri_item r \<in> set xs \<and>
         (\<forall>x\<in>set xs. item_eligible x \<longrightarrow> item_identity x = item_identity (ri_item r)
            \<longrightarrow> action_sort_key (ri_item r) \<le> action_sort_key x))"
proof -
  have items: "ri_item ` set (rank_actions xs) = set (action_queue xs)"
    using arg_cong[OF rank_actions_items(1)[of xs], of set] by simp
  have "distinct (map (item_identity \<circ> ri_item) (rank_actions xs))"
    using actions.queue_distinct[of xs] by (simp flip: rank_actions_items(1)[of xs])
  moreover have "sorted (map ri_priority_class (rank_actions xs))"
    unfolding rank_actions_items by (rule sorted_map_fst[OF actions.queue_sorted])
  moreover have "ri_item r \<in> set xs \<and> (\<forall>x\<in>set xs. item_eligible x \<longrightarrow> item_identity x = item_identity (ri_item r)
      \<longrightarrow> action_sort_key (ri_item r) \<le> action_sort_key x)" if "r \<in> set (rank_actions xs)" for r
  proof -
    have "ri_item r \<in> set (action_queue xs)" using that items by blast
    then show ?thesis using actions.queue_members actions.queue_best by blast
  qed
  ultimately show ?thesis
    unfolding items rank_actions_items(3) by (simp add: actions.queue_complete)
qed

theorem action_queue_ranks_witness:
  "map ri_priority_rank (rank_actions [demo_item, demo_block]) = [1, 2]
     \<and> sorted (map ri_priority_class (rank_actions [demo_item, demo_block]))
     \<and> length (rank_actions [demo_item, demo_block]) = 2"
proof -
  have "length (rank_actions [demo_item, demo_block]) = 2" by code_simp
  with action_queue_ranks[of "[demo_item, demo_block]"] show ?thesis by (simp add: numeral_2_eq_2)
qed

text \<open>
  Neither the order of the source nor anything outside the keys decides the queue: over items with
  different ids, every permutation of the input is ranked alike.
\<close>

theorem action_queue_source_order_irrelevant:
  assumes "mset xs = mset ys" and "inj_on qi_id (set xs)"
  shows "rank_actions xs = rank_actions ys"
proof -
  have "inj_on action_sort_key (set xs)"
    using assms(2) by (auto simp: inj_on_def dest!: action_key_id)
  then have "action_queue xs = action_queue ys" by (rule actions.queue_permutation[OF assms(1)])
  then show ?thesis by (simp add: rank_actions_def)
qed

theorem action_queue_source_order_irrelevant_witness:
  "rank_actions [demo_item, demo_block] = rank_actions [demo_block, demo_item]
     \<and> map (qi_id \<circ> ri_item) (rank_actions [demo_item, demo_block]) = [''b'', ''a'']"
proof
  show "rank_actions [demo_item, demo_block] = rank_actions [demo_block, demo_item]"
    by (rule action_queue_source_order_irrelevant) (simp_all add: demo_item_def demo_block_def)
  show "map (qi_id \<circ> ri_item) (rank_actions [demo_item, demo_block]) = [''b'', ''a'']"
    by code_simp
qed

end
