(* ===== verification/PriorityOrdering.thy ===== *)
theory PriorityOrdering
  imports Ranked_Queue Json_Read
begin

text \<open>
  The Today triage of \<^verbatim>\<open>modules/priority_ordering.py\<close>: the adapter from a
  public signal or an internal alert to a candidate, the triage of a candidate, and the ordering
  without closed identities and duplicates. A score is an exact number here, where the code converts
  a \<open>Decimal\<close> to a float.
\<close>

section \<open>Vocabulary\<close>

datatype nature = RISK | OPPORTUNITY | UNKNOWN_NATURE

datatype score_kind = K_OPPORTUNITY_PRIORITY | K_RISK_SEVERITY | K_CUSTOMER_HEALTH | K_TIER_ONLY | K_NONE

record priority_metadata =
  pm_triage_class :: int
  pm_nature :: nature
  pm_underlying_score :: "decimal option"
  pm_score_kind :: score_kind
  pm_assessment_complete :: bool
  pm_high_importance :: bool
  pm_hard_stop :: bool
  pm_triage_reason :: string

definition INTERNAL_NATURE :: "(string \<times> nature) list" where
  "INTERNAL_NATURE =
     [(''CUSTOMER_INACTIVITY'', RISK), (''BOOKINGS_DECLINE'', RISK), (''STALE_QUOTE'', RISK),
      (''OVERDUE_ORDER'', RISK), (''QUOTE_FOLLOW_UP'', OPPORTUNITY), (''CRM_INACTIVITY'', OPPORTUNITY),
      (''CROSS_BU_COORDINATION'', OPPORTUNITY), (''INTELLIGENCE_COMMERCIAL_CONTEXT'', UNKNOWN_NATURE)]"

definition PUBLIC_NATURE :: "(string \<times> nature) list" where
  "PUBLIC_NATURE =
     map (\<lambda>k. (k, RISK)) [''CONTRACT_REDUCTION'', ''PROGRAM_CANCELLATION'', ''FACILITY_CLOSURE'',
       ''WORKFORCE_REDUCTION'', ''FINANCIAL_DISTRESS'', ''EXPORT_RESTRICTION'', ''PRODUCTION_DELAY'']
   @ map (\<lambda>k. (k, OPPORTUNITY)) [''CONTRACT_AWARD'', ''SOLICITATION'', ''FACILITY_EXPANSION'',
       ''CAPACITY_EXPANSION'', ''NEW_FACILITY'', ''PROGRAM_LAUNCH'', ''PRODUCTION_RAMP'', ''PRODUCT_LAUNCH'',
       ''SUPPLIER_AWARD'', ''CAPITAL_INVESTMENT'', ''PARTNERSHIP'', ''REGULATORY_APPROVAL'',
       ''GOVERNMENT_FUNDING'', ''GRANT_AWARD'']
   @ map (\<lambda>k. (k, UNKNOWN_NATURE)) [''UNCLASSIFIED_PUBLIC_UPDATE'', ''CONTRACT_MODIFICATION'',
       ''SUPPLY_CHAIN_CHANGE'', ''M_AND_A'', ''REGULATORY_CHANGE'', ''EXECUTIVE_CHANGE'', ''EARNINGS_SIGNAL'',
       ''BACKLOG_CHANGE'']"

definition EXCLUDED :: "string list" where
  "EXCLUDED = [''COMPLETED'', ''DONE'', ''DISMISSED'', ''HIDDEN'', ''SNOOZED'', ''DUPLICATE'', ''INVALID'',
     ''NO_LONGER_VALID'', ''CANCELED'', ''CANCELLED'']"

definition TIER_RANK :: "(string \<times> rat) list" where
  "TIER_RANK = [(''CRITICAL'', 100), (''HIGH'', 75), (''MEDIUM'', 50), (''MODERATE'', 50), (''LOW'', 25)]"

definition INCOMPLETE_STATUSES :: "string list" where
  \<comment> \<open>the statuses both \<open>_band\<close> and \<open>_assess\<close> list\<close>
  "INCOMPLETE_STATUSES = [''PARTIAL_RANGE'', ''INSUFFICIENT_EVIDENCE'', ''INELIGIBLE'', ''BLOCKED'']"

definition incomplete_status :: "json \<Rightarrow> bool" where
  "incomplete_status d = (case j_text (j_read d ''status'') of None \<Rightarrow> False | Some s \<Rightarrow> s \<in> set INCOMPLETE_STATUSES)"

text \<open>
  \<open>str(decision.get("band") or decision.get("tier") or "").upper()\<close>. The text of a value that
  is not a string is never one of the labels it is compared with, so it is the empty text here.
\<close>

definition tier_of :: "json \<Rightarrow> string" where
  "tier_of d = (case j_text (j_or (j_read d ''band'') (j_read d ''tier'')) of None \<Rightarrow> [] | Some s \<Rightarrow> upper s)"

definition band_of :: "json \<Rightarrow> string option" where
  "band_of d =
     (case governed_number (j_read d ''score'') of
        Some s \<Rightarrow> Some (if 70 \<le> s then ''HIGH'' else if 40 \<le> s then ''MEDIUM'' else ''LOW'')
      | None \<Rightarrow>
          (if py_truth (j_read d ''score_range'') \<or> incomplete_status d then None
           else let tier = tier_of d
             in if tier = ''CRITICAL'' then Some ''HIGH''
                else if tier \<in> {''HIGH'', ''MEDIUM'', ''MODERATE'', ''LOW''} then Some tier else None))"

text \<open>A timestamp, where infinity (the pair with \<open>True\<close>) is after every time.\<close>

type_synonym order_time = "bool \<times> int"

definition time_of :: "moment option \<Rightarrow> order_time" where
  "time_of v = (case v of None \<Rightarrow> (True, 0)
     | Some W_malformed \<Rightarrow> (True, 0)
     | Some (W_date d) \<Rightarrow> (False, instant (at_midnight_utc d))
     | Some (W_datetime t) \<Rightarrow> (False, instant (to_utc t)))"

section \<open>Candidates\<close>

record priority_item =
  pi_id :: string
  pi_public :: bool  \<comment> \<open>kind is PUBLIC_SIGNAL\<close>
  pi_alert_kind :: "string option"
  pi_observed_at :: "moment option"

text \<open>The attributes of a source the adapter reads; \<open>J_null\<close> is an absent attribute.\<close>

record priority_source =
  so_risk_severity :: json
  so_evidence_package :: json
  so_event_type :: "string option"
  so_signal_confidence :: json
  so_opportunity_priority :: json
  so_customer_health :: json
  so_severity :: "string option"
  so_evidence_confidence :: json
  so_provenance_state :: "string option"
  so_evidence_ids :: "string list"
  so_missing_fields :: "json list"
  so_status :: string
  so_valid :: "bool option"
  so_closed_flags :: bool  \<comment> \<open>one of completed, dismissed, hidden, snoozed, duplicate is true\<close>
  so_hard_stop :: bool
  so_deduplication_key :: "string option"
  so_due_date :: "moment option"
  so_created_at :: "moment option"

record priority_candidate =
  pc_item :: priority_item
  pc_nature :: nature
  pc_decision :: json
  pc_score_kind :: score_kind
  pc_confidence :: json
  pc_missing :: "json list"
  pc_hard_stop :: bool
  pc_excluded :: bool
  pc_identity :: string
  pc_due_date :: "moment option"
  pc_created_at :: "moment option"

definition public_reading :: "priority_source \<Rightarrow> nature \<times> json \<times> score_kind \<times> json" where
  "public_reading s =
     (let risk = so_risk_severity s;
          scores = j_read (so_evidence_package s) ''deterministic_scores'';
          nt = (if py_truth risk then RISK
             else default_to (Option.bind (so_event_type s) (dget PUBLIC_NATURE)) UNKNOWN_NATURE);
          decision = j_or risk (j_or (if nt = OPPORTUNITY then j_read scores ''opportunity_priority'' else J_null) (J_obj []))
      in (nt, decision,
          if py_truth risk then K_RISK_SEVERITY else if py_truth decision then K_OPPORTUNITY_PRIORITY else K_NONE,
          j_or (so_signal_confidence s) (J_obj [])))"

text \<open>
  The code names the score kind by the identity of the chosen dictionary; here it is the branch that
  chose it (the three readings of one source are different objects).
\<close>

definition internal_reading :: "priority_item \<Rightarrow> priority_source \<Rightarrow> nature \<times> json \<times> score_kind \<times> json" where
  "internal_reading item s =
     (let nt = default_to (Option.bind (pi_alert_kind item) (dget INTERNAL_NATURE)) UNKNOWN_NATURE;
          own = (case nt of RISK \<Rightarrow> so_risk_severity s | OPPORTUNITY \<Rightarrow> so_opportunity_priority s | UNKNOWN_NATURE \<Rightarrow> J_null);
          (decision, kind) =
            (if py_truth own then (own, if nt = RISK then K_RISK_SEVERITY else K_OPPORTUNITY_PRIORITY)
             else if py_truth (so_customer_health s) then (so_customer_health s, K_CUSTOMER_HEALTH)
             else (J_obj [(''band'', j_opt J_str (so_severity s))],
                   if truthy (so_severity s) then K_TIER_ONLY else K_NONE));
          confidence =
            (if so_evidence_confidence s \<noteq> J_null
             then (case so_evidence_confidence s of J_obj kvs \<Rightarrow> J_obj kvs | v \<Rightarrow> J_obj [(''band'', v)])
             else if so_provenance_state s = Some ''CONFIRMED'' \<and> so_evidence_ids s \<noteq> []
             then J_obj [(''band'', J_str ''HIGH'')] else J_obj [])
      in (nt, decision, kind, confidence))"

definition coverage_missing :: "json \<Rightarrow> json list" where
  "coverage_missing d = j_items (j_read (j_read d ''data_coverage'') ''missing_fields'')"

definition priority_candidate_of :: "priority_item \<Rightarrow> priority_source \<Rightarrow> priority_candidate" where
  "priority_candidate_of item s =
     (case (if pi_public item then public_reading s else internal_reading item s) of (nt, decision, kind, confidence) \<Rightarrow>
        \<lparr>pc_item = item, pc_nature = nt, pc_decision = decision, pc_score_kind = kind, pc_confidence = confidence,
          pc_missing = so_missing_fields s @ coverage_missing decision @ coverage_missing confidence,
          pc_hard_stop = so_hard_stop s,
          pc_excluded = (upper (so_status s) \<in> set EXCLUDED \<or> so_valid s = Some False \<or> so_closed_flags s),
          pc_identity = (if truthy (so_deduplication_key s) then the (so_deduplication_key s) else pi_id item),
          pc_due_date = so_due_date s,
          pc_created_at = (if so_created_at s \<noteq> None then so_created_at s else pi_observed_at item)\<rparr>)"

section \<open>Triage\<close>

type_synonym priority_key = "int \<times> bool \<times> rat \<times> order_time \<times> order_time \<times> string"

definition is_complete :: "priority_candidate \<Rightarrow> bool" where
  "is_complete c = (pc_nature c \<noteq> UNKNOWN_NATURE \<and> band_of (pc_confidence c) \<noteq> None \<and> pc_missing c = []
     \<and> (governed_number (j_read (pc_decision c) ''score'') \<noteq> None \<or> band_of (pc_decision c) \<noteq> None)
     \<and> \<not> incomplete_status (pc_decision c))"

definition high_risk :: "priority_candidate \<Rightarrow> bool" where
  "high_risk c = (pc_nature c = RISK \<and> pc_score_kind c \<noteq> K_CUSTOMER_HEALTH \<and> band_of (pc_decision c) = Some ''HIGH'')"

definition triage :: "priority_candidate \<Rightarrow> int \<times> string" where
  "triage c =
     (let confidence = band_of (pc_confidence c)
      in if pc_hard_stop c then (0, ''Explicit confirmed safety, legal, or stopped-shipment condition'')
         else if high_risk c \<and> confidence = Some ''HIGH''
         then (1, ''Escalate now: risk rated High with High evidence confidence'')
         else if high_risk c \<and> confidence \<in> {Some ''MEDIUM'', Some ''MODERATE'', Some ''LOW''}
         then (2, ''Validate immediately: risk rated High with Medium or Low evidence confidence'')
         else if pc_nature c = UNKNOWN_NATURE then (3, ''Risk or opportunity nature is unknown'')
         else if confidence = None then (3, ''Evidence confidence is unknown'')
         else (3, ''Other executable item ordered by assessment and underlying score''))"

definition underlying_of :: "priority_candidate \<Rightarrow> decimal option" where
  "underlying_of c =
     (let score = governed_number (j_read (pc_decision c) ''score'');
          ceiling = governed_number (j_read (j_read (pc_decision c) ''score_range'') ''high'')
      in if is_complete c then score else if ceiling \<noteq> None then ceiling else score)"

definition metadata_of :: "priority_candidate \<Rightarrow> priority_metadata" where
  "metadata_of c =
     (let score = governed_number (j_read (pc_decision c) ''score'')
      in \<lparr>pm_triage_class = fst (triage c), pm_nature = pc_nature c, pm_underlying_score = underlying_of c,
          pm_score_kind = (if underlying_of c = None \<and> band_of (pc_decision c) \<noteq> None then K_TIER_ONLY
             else pc_score_kind c),
          pm_assessment_complete = is_complete c,
          pm_high_importance = (fst (triage c) < 3 \<or> high_risk c \<or>
            (pc_nature c = OPPORTUNITY \<and> pc_score_kind c = K_OPPORTUNITY_PRIORITY
             \<and> (case score of None \<Rightarrow> False | Some s \<Rightarrow> 75 \<le> s))),
          pm_hard_stop = pc_hard_stop c, pm_triage_reason = snd (triage c)\<rparr>)"

definition tier_rank :: "json \<Rightarrow> rat" where
  "tier_rank d = (case band_of d of None \<Rightarrow> -1
     | Some b \<Rightarrow> default_to (dget TIER_RANK (tier_of d)) (default_to (dget TIER_RANK b) (-1)))"

definition priority_key_of :: "priority_candidate \<Rightarrow> priority_key" where
  "priority_key_of c =
     (fst (triage c), \<not> is_complete c, - default_to (underlying_of c) (tier_rank (pc_decision c)),
      time_of (pc_due_date c), time_of (pc_created_at c), pi_id (pc_item c))"

section \<open>Ordering\<close>

definition not_closed :: "priority_candidate list \<Rightarrow> priority_candidate \<Rightarrow> bool" where
  "not_closed cs c = (pc_identity c \<notin> pc_identity ` set (filter pc_excluded cs))"

definition ordered_candidates :: "priority_candidate list \<Rightarrow> priority_candidate list" where
  "ordered_candidates cs = dedup_by pc_identity [] (sort_key priority_key_of (filter (not_closed cs) cs))"

definition order_priorities :: "priority_candidate list \<Rightarrow> (priority_item \<times> priority_metadata) list" where
  "order_priorities cs = map (\<lambda>c. (pc_item c, metadata_of c)) (ordered_candidates cs)"

interpretation today: ranked_queue priority_key_of pc_identity not_closed ordered_candidates
  by unfold_locales (simp add: ordered_candidates_def, simp add: not_closed_def fun_eq_iff)


lemma order_priorities_length [simp]: "length (order_priorities cs) = length (ordered_candidates cs)"
  by (simp add: order_priorities_def)

lemma triage_classes: "fst (triage c) \<in> {0, 1, 2, 3}"
  by (simp add: triage_def Let_def)

lemma underlying_bounds: "underlying_of c = Some s \<Longrightarrow> 0 \<le> s \<and> s \<le> 100"
  by (auto simp: underlying_of_def Let_def split: if_splits dest: governed_number_bounds)

lemma key_order:
  assumes "priority_key_of c \<le> priority_key_of d"
  shows "fst (triage c) \<le> fst (triage d)
    \<and> (fst (triage c) = fst (triage d) \<longrightarrow> is_complete d \<longrightarrow> is_complete c)
    \<and> (fst (triage c) = fst (triage d) \<longrightarrow> is_complete c = is_complete d \<longrightarrow>
         default_to (underlying_of d) (tier_rank (pc_decision d)) \<le> default_to (underlying_of c) (tier_rank (pc_decision c)))"
  using assms by (auto simp: priority_key_of_def less_eq_prod_def)

section \<open>Properties\<close>

definition demo_source :: priority_source where
  "demo_source = \<lparr>so_risk_severity = J_obj [(''score'', J_int 82)], so_evidence_package = J_null, so_event_type = None,
     so_signal_confidence = J_null, so_opportunity_priority = J_null, so_customer_health = J_null, so_severity = None,
     so_evidence_confidence = J_null, so_provenance_state = Some ''CONFIRMED'', so_evidence_ids = [''ev''],
     so_missing_fields = [], so_status = ''OPEN'', so_valid = None, so_closed_flags = False, so_hard_stop = False,
     so_deduplication_key = None, so_due_date = None, so_created_at = None\<rparr>"

definition demo_alert :: "string \<Rightarrow> string \<Rightarrow> priority_item" where
  "demo_alert i k = \<lparr>pi_id = i, pi_public = False, pi_alert_kind = Some k, pi_observed_at = None\<rparr>"

definition demo_risk :: priority_candidate where
  "demo_risk = priority_candidate_of (demo_alert ''r'' ''STALE_QUOTE'') demo_source"

definition demo_partial_risk :: priority_candidate where
  "demo_partial_risk = priority_candidate_of (demo_alert ''p'' ''STALE_QUOTE'')
     (demo_source\<lparr>so_risk_severity := J_obj [(''band'', J_str ''CRITICAL''), (''status'', J_str ''PARTIAL_RANGE''),
        (''score_range'', J_obj [(''high'', J_int 100)])]\<rparr>)"

text \<open>
  Today lists every open identity exactly once and no closed one. Along the list the triage class
  never decreases; inside a class complete assessments come before incomplete ones, and inside those the
  higher underlying score first.
\<close>

theorem today_order_sound:
  shows "pc_identity ` set (ordered_candidates cs)
      = pc_identity ` set cs - pc_identity ` {c \<in> set cs. pc_excluded c}
    \<and> distinct (map pc_identity (ordered_candidates cs))
    \<and> (\<forall>i j. i < j \<longrightarrow> j < length (order_priorities cs) \<longrightarrow>
        (let a = snd (order_priorities cs ! i); b = snd (order_priorities cs ! j)
         in pm_triage_class a \<le> pm_triage_class b
          \<and> (pm_triage_class a = pm_triage_class b \<longrightarrow> pm_assessment_complete b \<longrightarrow> pm_assessment_complete a)
          \<and> (pm_triage_class a = pm_triage_class b \<longrightarrow> pm_assessment_complete a = pm_assessment_complete b \<longrightarrow>
              pm_underlying_score a \<noteq> None \<longrightarrow> pm_underlying_score b \<noteq> None \<longrightarrow>
              the (pm_underlying_score b) \<le> the (pm_underlying_score a))))"
proof -
  have "pc_identity ` set (ordered_candidates cs) = pc_identity ` set cs - pc_identity ` {c \<in> set cs. pc_excluded c}"
    unfolding today.queue_complete by (auto simp: not_closed_def)
  moreover have "distinct (map pc_identity (ordered_candidates cs))" by (rule today.queue_distinct)
  moreover have "let a = snd (order_priorities cs ! i); b = snd (order_priorities cs ! j)
         in pm_triage_class a \<le> pm_triage_class b
          \<and> (pm_triage_class a = pm_triage_class b \<longrightarrow> pm_assessment_complete b \<longrightarrow> pm_assessment_complete a)
          \<and> (pm_triage_class a = pm_triage_class b \<longrightarrow> pm_assessment_complete a = pm_assessment_complete b \<longrightarrow>
              pm_underlying_score a \<noteq> None \<longrightarrow> pm_underlying_score b \<noteq> None \<longrightarrow>
              the (pm_underlying_score b) \<le> the (pm_underlying_score a))"
    if ij: "i < j" "j < length (order_priorities cs)" for i j
  proof -
    have nth: "snd (order_priorities cs ! k) = metadata_of (ordered_candidates cs ! k)"
      if "k < length (ordered_candidates cs)" for k
      using that by (simp add: order_priorities_def)
    have "priority_key_of (ordered_candidates cs ! i) \<le> priority_key_of (ordered_candidates cs ! j)"
      using today.queue_positions[OF ij(1)] ij(2) by simp
    then show ?thesis
      using key_order[of "ordered_candidates cs ! i" "ordered_candidates cs ! j"] ij nth[of i] nth[of j]
      by (auto simp: metadata_of_def Let_def)
  qed
  ultimately show ?thesis by blast
qed

theorem today_order_sound_witness:
  "\<exists>cs. map (pi_id \<circ> fst) (order_priorities cs) = [''r'', ''p''] \<and>
     pm_triage_class (snd (order_priorities cs ! 0)) \<le> pm_triage_class (snd (order_priorities cs ! 1))"
proof (intro exI[of _ "[demo_partial_risk, demo_risk]"] conjI)
  show o: "map (pi_id \<circ> fst) (order_priorities [demo_partial_risk, demo_risk]) = [''r'', ''p'']"
    by code_simp
  have "length (order_priorities [demo_partial_risk, demo_risk]) = 2"
    using arg_cong[OF o, of length] by simp
  then show "pm_triage_class (snd (order_priorities [demo_partial_risk, demo_risk] ! 0))
      \<le> pm_triage_class (snd (order_priorities [demo_partial_risk, demo_risk] ! 1))"
    using today_order_sound[of "[demo_partial_risk, demo_risk]"] by (simp add: Let_def)
qed

text \<open>
  A partial assessment never escalates: without a governed score, a range or an incomplete status
  leaves a candidate in the last class (a hard stop apart), whatever its stale band label says, and it is
  not a measured top-band item.
\<close>

theorem partial_assessment_never_escalates:
  assumes "governed_number (j_read (pc_decision c) ''score'') = None"
    and "py_truth (j_read (pc_decision c) ''score_range'') \<or> incomplete_status (pc_decision c)"
    and "\<not> pc_hard_stop c"
  shows "pm_triage_class (metadata_of c) = 3 \<and> \<not> pm_high_importance (metadata_of c)
    \<and> \<not> pm_assessment_complete (metadata_of c)"
proof -
  have b: "band_of (pc_decision c) = None" using assms(1,2) by (simp add: band_of_def)
  then have h: "\<not> high_risk c" by (simp add: high_risk_def)
  then have "fst (triage c) = 3" using assms(3) by (simp add: triage_def Let_def)
  then show ?thesis using h b assms(1) by (simp add: metadata_of_def Let_def is_complete_def)
qed

theorem partial_assessment_never_escalates_witness:
  "pm_triage_class (metadata_of demo_partial_risk) = 3 \<and> pm_triage_class (metadata_of demo_risk) = 1"
proof
  show "pm_triage_class (metadata_of demo_partial_risk) = 3"
    by (rule conjunct1[OF partial_assessment_never_escalates]) code_simp+
  show "pm_triage_class (metadata_of demo_risk) = 1" by code_simp
qed

text \<open>
  The list is source neutral: over items with different ids, every permutation of the candidates is
  ordered alike.
\<close>

theorem today_order_source_neutral:
  assumes "mset cs = mset ds" and "inj_on (\<lambda>c. pi_id (pc_item c)) (set cs)"
  shows "order_priorities cs = order_priorities ds"
proof -
  have "inj_on priority_key_of (set cs)"
    using assms(2) by (auto simp: inj_on_def priority_key_of_def)
  then show ?thesis using today.queue_permutation[OF assms(1)] by (simp add: order_priorities_def)
qed

theorem today_order_source_neutral_witness:
  "order_priorities [demo_risk, demo_partial_risk] = order_priorities [demo_partial_risk, demo_risk]"
proof (rule today_order_source_neutral)
  have "pi_id (pc_item demo_risk) = ''r''" "pi_id (pc_item demo_partial_risk) = ''p''" by code_simp+
  then show "inj_on (\<lambda>c. pi_id (pc_item c)) (set [demo_risk, demo_partial_risk])"
    by (simp add: inj_on_def)
qed simp

end
