(* ===== verification/ProspectFit.thy ===== *)
theory ProspectFit
  imports AttractivenessProps
begin

text \<open>
  Prospect Fit v2, \<^verbatim>\<open>modules/scoring/prospect_fit.py\<close>: the projection from
  explicit canonical evidence and its payload. Missing factors are not reweighted. A factor's entry of
  \<^verbatim>\<open>prospect_fit_evidence\<close> is the record \<^typ>\<open>fit_evidence\<close>; an
  absent entry is \<open>no_fit_evidence\<close>, the empty dictionary.
\<close>

definition CONFIGURATION_VERSION :: string where
  "CONFIGURATION_VERSION = ''prospect-fit-v2.0''"

record prospect_factor =
  pf_key :: string
  pf_label :: string
  pf_weight :: decimal
  pf_points :: "decimal option"
  pf_reason :: string
  pf_evidence_ids :: "string list"
  pf_evidence_state :: evidence_clock

datatype fit_status = FIT_NOT_APPLICABLE | FIT_AVAILABLE | FIT_PARTIAL_RANGE

record prospect_projection =
  pp_applicable :: bool
  pp_score :: "decimal option"
  pp_score_low :: "decimal option"
  pp_score_high :: "decimal option"
  pp_coverage :: decimal
  pp_status :: fit_status
  pp_configuration_version :: string
  pp_factors :: "prospect_factor list"
  pp_missingness :: "string list"

definition DEFINITIONS :: "(string \<times> string \<times> decimal) list" where
  "DEFINITIONS =
     [(''target_cohort_match'', ''Target-cohort match'', 30), (''manufacturing_fit'', ''Manufacturing fit'', 25),
      (''scale'', ''Scale'', 15), (''outsourcing_posture'', ''Outsourcing posture'', 15),
      (''strategic_archetype'', ''Strategic archetype'', 10), (''existing_btx_access'', ''Existing BTX access'', 5)]"

definition FIT_BINS :: "(string \<times> (string \<times> int) list) list" where
  "FIT_BINS =
     [(''target_cohort_match'', [(''PRIMARY'', 100), (''ADJACENT'', 75), (''EXPLORATORY'', 50), (''EXCLUDED'', 0)]),
      (''manufacturing_fit'', [(''TWO_MATCHING_SITES'', 100), (''ONE_MATCHING_SITE'', 75), (''PARENT_OVERLAP'', 50),
         (''COMPONENT_ADJACENCY'', 25), (''MISMATCH'', 0)]),
      (''outsourcing_posture'', [(''ACTIVE_RELEVANT_SOURCING'', 100), (''EXTERNAL_SUPPLIERS'', 75), (''MIXED'', 50),
         (''HISTORICAL'', 25), (''CURRENT_CAPTIVE'', 0)]),
      (''strategic_archetype'', [(''OEM_PRIME_BUYING_AUTHORITY'', 100), (''TIER_ONE'', 75),
         (''COMPONENT_MANUFACTURER'', 50), (''INTERMEDIARY'', 25), (''NO_BUYING_FUNCTION'', 0)]),
      (''existing_btx_access'', [(''BUYER_TWO_WAY'', 100), (''WILLING_INTRODUCER'', 75), (''QUOTE_WITHIN_365_DAYS'', 50),
         (''RELEVANT_NAMED_CONTACT'', 25), (''RESEARCHED_NO_ACCESS'', 0)])]"

definition fit_points :: "string \<Rightarrow> fit_evidence \<Rightarrow> int option" where
  "fit_points key raw =
     (if key \<noteq> ''scale''
      then Option.bind (fe_state raw) (\<lambda>s. Option.bind (dget FIT_BINS key) (\<lambda>bins. dget bins s))
      else case fe_ttm_revenue_usd raw of
          None \<Rightarrow> None
        | Some revenue \<Rightarrow>
            (if revenue < 0 then None
             else Some (if revenue \<ge> 1000000000 then 100 else if revenue \<ge> 100000000 then 75
               else if revenue \<ge> 25000000 then 50 else if revenue > 0 then 25 else 0)))"

definition no_fit_evidence :: fit_evidence where
  "no_fit_evidence = \<lparr>fe_state = None, fe_ttm_revenue_usd = None, fe_reviewed_as_of = None, fe_evidence_state = None,
     fe_account_id = None, fe_evidence_ids = None, fe_source_urls = None, fe_review_state = None, fe_reason = None\<rparr>"

definition fit_raw :: "canonical_account \<Rightarrow> string \<Rightarrow> fit_evidence" where
  "fit_raw account key = default_to (dget (acc_prospect_fit_evidence account) key) no_fit_evidence"

definition fit_window :: "string \<Rightarrow> int" where
  "fit_window key = (if key = ''existing_btx_access'' then 30 else 180)"

definition fit_state :: "date \<Rightarrow> date \<Rightarrow> string \<Rightarrow> fit_evidence \<Rightarrow> evidence_clock" where
  "fit_state demo clock key raw =
     (if fe_evidence_state raw = Some ''CONFLICTING'' then EV_CONFLICTING
      else evidence_state demo (fe_reviewed_as_of raw) (Some (W_date clock)) (fit_window key))"

definition fit_valid :: "date \<Rightarrow> date \<Rightarrow> canonical_account \<Rightarrow> string \<Rightarrow> fit_evidence \<Rightarrow> bool" where
  "fit_valid demo clock account key raw =
     (fe_account_id raw = Some (acc_id account) \<and> truthy (fe_evidence_ids raw) \<and> truthy (fe_source_urls raw)
      \<and> fe_review_state raw = Some ''VERIFIED'' \<and> fit_state demo clock key raw = EV_CURRENT)"

definition in_primary_cohort :: "canonical_account \<Rightarrow> bool" where
  "in_primary_cohort account = list_ex (\<lambda>m. m \<in> set PRIMARY_MARKET_ORDER) (acc_industries account)"

definition provenance_evidence :: "canonical_account \<Rightarrow> string list" where
  "provenance_evidence account = (case acc_provenance account of None \<Rightarrow> [] | Some p \<Rightarrow> [prov_source_record_id p])"

fun state_word :: "evidence_clock \<Rightarrow> string" where
  "state_word EV_CURRENT = ''current''"
| "state_word EV_STALE = ''stale''"
| "state_word EV_UNKNOWN = ''unknown''"
| "state_word EV_CONFLICTING = ''conflicting''"

definition fit_factor :: "date \<Rightarrow> date \<Rightarrow> canonical_account \<Rightarrow> string \<times> string \<times> decimal \<Rightarrow> prospect_factor" where
  "fit_factor demo clock account d = (case d of (key, label, weight) \<Rightarrow>
     let raw = fit_raw account key;
         normalized = (if fit_valid demo clock account key raw then fit_points key raw else None);
         state = fit_state demo clock key raw
     in case normalized of
          Some n \<Rightarrow> \<lparr>pf_key = key, pf_label = label, pf_weight = weight,
            pf_points = Some (of_int n * weight / 100),
            pf_reason = (if truthy (fe_reason raw) then the (fe_reason raw)
              else label @ '' follows the documented organization evidence.''),
            pf_evidence_ids = default_to (fe_evidence_ids raw) [], pf_evidence_state = EV_CURRENT\<rparr>
        | None \<Rightarrow>
            (if key = ''target_cohort_match'' \<and> acc_industries account \<noteq> [] \<and> provenance_evidence account \<noteq> []
                \<and> raw = no_fit_evidence
             then
               let seen = evidence_state demo (map_option (W_datetime \<circ> prov_observed_at) (acc_provenance account))
                     (Some (W_date clock)) 180
               in \<lparr>pf_key = key, pf_label = label, pf_weight = weight,
                 pf_points = (if in_primary_cohort account \<and> seen = EV_CURRENT then Some weight else None),
                 pf_reason = (if in_primary_cohort account
                   then ''The canonical account classification includes an approved primary BTX market.''
                   else ''An adjacent, exploratory or excluded classification has not been reviewed.''),
                 pf_evidence_ids = provenance_evidence account, pf_evidence_state = seen\<rparr>
             else \<lparr>pf_key = key, pf_label = label, pf_weight = weight, pf_points = None,
                 pf_reason = label @ '': '' @ state_word state @ '' evidence requires verification.'',
                 pf_evidence_ids = (if fe_account_id raw = Some (acc_id account)
                   then default_to (fe_evidence_ids raw) [] else []),
                 pf_evidence_state = state\<rparr>))"

definition known_points :: "prospect_factor list \<Rightarrow> decimal" where
  "known_points fs = (\<Sum>f\<leftarrow>fs. default_to (pf_points f) 0)"

definition missing_weight :: "prospect_factor list \<Rightarrow> decimal" where
  "missing_weight fs = (\<Sum>f\<leftarrow>filter (\<lambda>f. pf_points f = None) fs. pf_weight f)"

text \<open>The weights are whole, so the coverage needs no rounding to two places.\<close>

definition prospect_fit_projection :: "date \<Rightarrow> canonical_account \<Rightarrow> bool \<Rightarrow> date option \<Rightarrow> prospect_projection" where
  "prospect_fit_projection demo account applicable as_of =
     (if \<not> applicable
      then \<lparr>pp_applicable = False, pp_score = None, pp_score_low = None, pp_score_high = None, pp_coverage = 0,
        pp_status = FIT_NOT_APPLICABLE, pp_configuration_version = CONFIGURATION_VERSION, pp_factors = [],
        pp_missingness = []\<rparr>
      else
        let fs = map (fit_factor demo (default_to as_of demo) account) DEFINITIONS;
            known = known_points fs; missing = missing_weight fs; complete = (missing = 0)
        in \<lparr>pp_applicable = True, pp_score = (if complete then Some known else None), pp_score_low = Some known,
          pp_score_high = Some (known + missing), pp_coverage = (100 - missing) / 100,
          pp_status = (if complete then FIT_AVAILABLE else FIT_PARTIAL_RANGE),
          pp_configuration_version = CONFIGURATION_VERSION, pp_factors = fs,
          pp_missingness = map (\<lambda>f. pf_label f @ '': missing scoped input'') (filter (\<lambda>f. pf_points f = None) fs)\<rparr>)"

section \<open>Payload\<close>

record factor_payload =
  fp_name :: string
  fp_label :: string
  fp_weight :: decimal
  fp_points :: "decimal option"
  fp_normalized_points :: "decimal option"
  fp_reason :: string
  fp_evidence_ids :: "string list"
  fp_evidence_state :: evidence_clock

record prospect_payload =
  py_applicable :: bool
  py_score :: "decimal option"
  py_score_low :: "decimal option"
  py_score_high :: "decimal option"
  py_coverage :: decimal
  py_status :: fit_status
  py_configuration_version :: string
  py_what_would_change_result :: "string list"
  py_factors :: "factor_payload list"
  py_missingness :: "string list"

definition prospect_fit_payload :: "prospect_projection \<Rightarrow> prospect_payload" where
  "prospect_fit_payload p =
     (let verify = map (\<lambda>f. ''Verify current scoped evidence for '' @ pf_label f @ ''.'')
            (filter (\<lambda>f. pf_points f = None) (pp_factors p))
      in \<lparr>py_applicable = pp_applicable p, py_score = pp_score p, py_score_low = pp_score_low p,
        py_score_high = pp_score_high p, py_coverage = pp_coverage p, py_status = pp_status p,
        py_configuration_version = pp_configuration_version p,
        py_what_would_change_result = (if verify \<noteq> [] then verify
          else [''A changed verified factor observation changes its fixed-weight contribution.'']),
        py_factors = map (\<lambda>f. \<lparr>fp_name = pf_key f, fp_label = pf_label f, fp_weight = pf_weight f,
            fp_points = pf_points f,
            fp_normalized_points = (if pf_weight f \<noteq> 0 then map_option (\<lambda>x. ddiv (x * 100) (pf_weight f)) (pf_points f)
              else None),
            fp_reason = pf_reason f, fp_evidence_ids = pf_evidence_ids f, fp_evidence_state = pf_evidence_state f\<rparr>)
          (pp_factors p),
        py_missingness = pp_missingness p\<rparr>)"

section \<open>The weights and the points of a factor\<close>

definition fit_weights :: "((string \<times> string \<times> decimal) \<times> rat) list" where
  "fit_weights = map (\<lambda>d. (d, snd (snd d) / 100)) DEFINITIONS"

interpretation fit: weighted_index fit_weights
  by (rule weighted_index_of_unit) code_simp

definition normalized_or :: "rat \<Rightarrow> date \<Rightarrow> date \<Rightarrow> canonical_account \<Rightarrow> string \<times> string \<times> decimal \<Rightarrow> rat" where
  \<comment> \<open>the 0 to 100 value of a factor, \<open>x\<close> where it is missing\<close>
  "normalized_or x demo clock account d =
     (case pf_points (fit_factor demo clock account d) of None \<Rightarrow> x | Some p \<Rightarrow> p * 100 / snd (snd d))"

lemma FIT_BINS_scale: "list_all (\<lambda>(k, bins). list_all (\<lambda>(s, n). 0 \<le> n \<and> n \<le> 100) bins) FIT_BINS"
  by code_simp

lemma fit_points_scale: "fit_points key raw = Some n \<Longrightarrow> 0 \<le> n \<and> n \<le> 100"
proof (cases "key = ''scale''")
  case False
  assume "fit_points key raw = Some n"
  then obtain bins s where "dget FIT_BINS key = Some bins" "dget bins s = Some n"
    using False by (auto simp: fit_points_def bind_eq_Some_conv)
  then show ?thesis using FIT_BINS_scale by (fastforce simp: list_all_iff dest!: map_of_SomeD)
qed (auto simp: fit_points_def split: option.splits if_splits)

lemma DEFINITIONS_weight: "d \<in> set DEFINITIONS \<Longrightarrow> 0 < snd (snd d)"
  by (auto simp: DEFINITIONS_def)

lemma fit_factor_fields [simp]:
  "pf_weight (fit_factor demo clock account d) = snd (snd d)" "pf_key (fit_factor demo clock account d) = fst d"
  by (simp_all add: fit_factor_def Let_def split: prod.splits option.splits)

lemma fit_factor_points:
  assumes "pf_points (fit_factor demo clock account (key, label, weight)) = Some p"
  shows "(\<exists>n. fit_valid demo clock account key (fit_raw account key) \<and> fit_points key (fit_raw account key) = Some n
        \<and> p = of_int n * weight / 100)
    \<or> (key = ''target_cohort_match'' \<and> fit_raw account key = no_fit_evidence \<and> in_primary_cohort account \<and> p = weight
        \<and> (\<exists>prov. acc_provenance account = Some prov
            \<and> evidence_state demo (Some (W_datetime (prov_observed_at prov))) (Some (W_date clock)) 180 = EV_CURRENT))"
  using assms unfolding fit_factor_def prod.case Let_def
  by (cases "acc_provenance account") (auto simp: provenance_evidence_def split: option.splits if_splits)

lemma normalized_scale:
  assumes "d \<in> set DEFINITIONS" "0 \<le> x" "x \<le> 100"
  shows "0 \<le> normalized_or x demo clock account d \<and> normalized_or x demo clock account d \<le> 100"
proof (cases "pf_points (fit_factor demo clock account d)")
  case (Some p)
  obtain key label w where d: "d = (key, label, w)" by (cases d)
  have w: "0 < w" using DEFINITIONS_weight[OF assms(1)] d by simp
  show ?thesis using fit_factor_points[of demo clock account key label w p] Some d w
    by (auto simp: normalized_or_def dest: fit_points_scale)
qed (use assms in \<open>simp add: normalized_or_def\<close>)

lemma fit_sum: "fit.index g = (\<Sum>d\<leftarrow>DEFINITIONS. g d * (snd (snd d) / 100))"
  unfolding fit.index_def by (simp add: fit_weights_def comp_def)

lemma fit_index:
  "known_points (map (fit_factor demo clock account) DEFINITIONS) = fit.index (normalized_or 0 demo clock account)"
  "known_points (map (fit_factor demo clock account) DEFINITIONS)
     + missing_weight (map (fit_factor demo clock account) DEFINITIONS) = fit.index (normalized_or 100 demo clock account)"
proof -
  let ?f = "fit_factor demo clock account"
  have one: "default_to (pf_points (?f d)) 0 = normalized_or 0 demo clock account d * (snd (snd d) / 100)"
    "default_to (pf_points (?f d)) 0 + (if pf_points (?f d) = None then snd (snd d) else 0)
       = normalized_or 100 demo clock account d * (snd (snd d) / 100)" if "d \<in> set DEFINITIONS" for d
    using DEFINITIONS_weight[OF that] by (auto simp: normalized_or_def split: option.splits)
  have miss: "missing_weight (map ?f ds) = (\<Sum>d\<leftarrow>ds. if pf_points (?f d) = None then snd (snd d) else 0)" for ds
    by (induction ds) (auto simp: missing_weight_def)
  show "known_points (map ?f DEFINITIONS) = fit.index (normalized_or 0 demo clock account)"
    unfolding fit_sum known_points_def map_map comp_def
    by (rule arg_cong[where f = sum_list], rule map_cong[OF refl one(1)])
  have "known_points (map ?f DEFINITIONS) + missing_weight (map ?f DEFINITIONS) = (\<Sum>d\<leftarrow>DEFINITIONS.
      default_to (pf_points (?f d)) 0 + (if pf_points (?f d) = None then snd (snd d) else 0))"
    unfolding miss known_points_def map_map comp_def by (simp only: sum_list_addf)
  also have "\<dots> = fit.index (normalized_or 100 demo clock account)"
    unfolding fit_sum by (rule arg_cong[where f = sum_list], rule map_cong[OF refl one(2)])
  finally show "known_points (map ?f DEFINITIONS) + missing_weight (map ?f DEFINITIONS)
      = fit.index (normalized_or 100 demo clock account)" .
qed

interpretation fit_range: ranged_index fit_weights "normalized_or 0 demo clock account"
    "normalized_or 100 demo clock account" 0 100 for demo clock account
proof
  fix d
  assume "d \<in> fst ` set fit_weights"
  then have d: "d \<in> set DEFINITIONS" by (auto simp: fit_weights_def)
  show "0 \<le> normalized_or 0 demo clock account d \<and>
      normalized_or 0 demo clock account d \<le> normalized_or 100 demo clock account d \<and>
      normalized_or 100 demo clock account d \<le> 100"
    using normalized_scale[OF d, of 0 demo clock account] normalized_scale[OF d, of 100 demo clock account]
    by (cases "pf_points (fit_factor demo clock account d)") (simp_all add: normalized_or_def)
qed

section \<open>Properties\<close>

definition demo_account :: canonical_account where
  "demo_account = \<lparr>acc_id = ''acct-1'', acc_legal_name = ''Acme'', acc_relationship = PROSPECT, acc_domain = None,
     acc_industries = [''Space''], acc_business_units = [], acc_parent_account_id = None, acc_contact_role_families = [],
     acc_provenance = None, acc_public_research_state = ''NOT_RESEARCHED'', acc_public_identity = None,
     acc_research_account_id = None, acc_public_relationship = None, acc_prospect_research_priority = None,
     acc_prospect_rationale = None, acc_public_contacts = [], acc_secondary_classifications = [], acc_btx_top_100 = False,
     acc_btx_top_100_provenance = None,
     acc_prospect_fit_evidence = [(''scale'', no_fit_evidence\<lparr>fe_ttm_revenue_usd := Some 50000000,
       fe_reviewed_as_of := Some (W_date (Date 2026 1 1)), fe_account_id := Some ''acct-1'',
       fe_evidence_ids := Some [''ev''], fe_source_urls := Some [''https://example.org''],
       fe_review_state := Some ''VERIFIED''\<rparr>)]\<rparr>"

definition demo_fit :: prospect_projection where
  "demo_fit = prospect_fit_projection (Date 2026 1 31) demo_account True None"

text \<open>
  An applicable projection has a range inside 0 to 100 with low not above high; it has a score exactly
  when every factor is known, and then the range is that score. Coverage is the known weight.
\<close>

theorem prospect_fit_range_sound:
  assumes "p = prospect_fit_projection demo account True as_of"
  shows "\<exists>low high. pp_score_low p = Some low \<and> pp_score_high p = Some high \<and> 0 \<le> low \<and> low \<le> high \<and> high \<le> 100
    \<and> (pp_score p \<noteq> None \<longleftrightarrow> (\<forall>f\<in>set (pp_factors p). pf_points f \<noteq> None))
    \<and> (\<forall>s. pp_score p = Some s \<longrightarrow> s = low \<and> s = high)
    \<and> pp_coverage p = (\<Sum>f\<leftarrow>filter (\<lambda>f. pf_points f \<noteq> None) (pp_factors p). pf_weight f) / 100"
proof -
  let ?clock = "default_to as_of demo"
  let ?fs = "map (fit_factor demo ?clock account) DEFINITIONS"
  have all_pos: "\<forall>f\<in>set ?fs. 0 < pf_weight f" by (auto dest: DEFINITIONS_weight)
  have nonneg: "0 \<le> missing_weight fs" "missing_weight fs = 0 \<longleftrightarrow> (\<forall>f\<in>set fs. pf_points f \<noteq> None)"
    if "\<forall>f\<in>set fs. 0 < pf_weight f" for fs
    using that by (induction fs) (auto simp: missing_weight_def simp del: not_None_eq)
  have total: "(\<Sum>f\<leftarrow>filter (\<lambda>f. pf_points f \<noteq> None) fs. pf_weight f) + missing_weight fs = (\<Sum>f\<leftarrow>fs. pf_weight f)" for fs
    by (induction fs) (auto simp: missing_weight_def)
  have sum100: "(\<Sum>f\<leftarrow>?fs. pf_weight f) = 100" by (simp add: DEFINITIONS_def)
  have range: "0 \<le> known_points ?fs" "known_points ?fs \<le> known_points ?fs + missing_weight ?fs"
    "known_points ?fs + missing_weight ?fs \<le> 100"
    using fit_range.range_in_scale[of demo ?clock account] fit_range.range_ordered[of demo ?clock account]
    unfolding fit_index[symmetric] by auto
  have p: "pp_score_low p = Some (known_points ?fs)" "pp_score_high p = Some (known_points ?fs + missing_weight ?fs)"
    "pp_score p = (if missing_weight ?fs = 0 then Some (known_points ?fs) else None)" "pp_factors p = ?fs"
    "pp_coverage p = (100 - missing_weight ?fs) / 100"
    unfolding assms prospect_fit_projection_def Let_def by simp_all
  have "(\<Sum>f\<leftarrow>filter (\<lambda>f. pf_points f \<noteq> None) ?fs. pf_weight f) = 100 - missing_weight ?fs"
    using total[of ?fs] sum100 by linarith
  then have c: "pp_coverage p = (\<Sum>f\<leftarrow>filter (\<lambda>f. pf_points f \<noteq> None) (pp_factors p). pf_weight f) / 100"
    unfolding p by (rule arg_cong[where f = "\<lambda>x. x / 100", symmetric])
  show ?thesis using p(1-3) range c nonneg(2)[OF all_pos] unfolding p(4)[symmetric] by auto
qed

theorem prospect_fit_range_sound_witness:
  "\<exists>low high. pp_score_low demo_fit = Some low \<and> pp_score_high demo_fit = Some high \<and> low \<le> high \<and> low = 15/2"
proof -
  have "pp_score_low demo_fit = Some (15/2)" by code_simp
  then show ?thesis using prospect_fit_range_sound[OF demo_fit_def] by auto
qed

text \<open>
  Points need verified evidence of this very account: a factor has points only from an entry that names
  the account, is reviewed as verified, is linked to evidence and sources and is current, or, for the target
  cohort without any entry, from a current classification in a primary market; a conflict never scores.
\<close>

theorem prospect_points_need_verified_evidence:
  assumes "p = prospect_fit_projection demo account True as_of"
    and "f \<in> set (pp_factors p)" and "pf_points f \<noteq> None"
  shows "(let raw = fit_raw account (pf_key f) in
      fe_account_id raw = Some (acc_id account) \<and> fe_review_state raw = Some ''VERIFIED'' \<and> truthy (fe_evidence_ids raw)
      \<and> truthy (fe_source_urls raw) \<and> fe_evidence_state raw \<noteq> Some ''CONFLICTING''
      \<and> evidence_state demo (fe_reviewed_as_of raw) (Some (W_date (default_to as_of demo))) 180 = EV_CURRENT)
    \<or> (pf_key f = ''target_cohort_match'' \<and> fit_raw account (pf_key f) = no_fit_evidence
      \<and> (\<exists>m\<in>set (acc_industries account). m \<in> set PRIMARY_MARKET_ORDER) \<and> acc_provenance account \<noteq> None)"
proof -
  obtain key label w where f: "f = fit_factor demo (default_to as_of demo) account (key, label, w)"
    using assms(2) unfolding assms(1) prospect_fit_projection_def by (auto simp: Let_def)
  obtain x where "pf_points f = Some x" using assms(3) by blast
  from fit_factor_points[OF this[unfolded f]] show ?thesis
  proof (elim disjE exE conjE)
    assume v: "fit_valid demo (default_to as_of demo) account key (fit_raw account key)"
    then have "fe_evidence_state (fit_raw account key) \<noteq> Some ''CONFLICTING''"
      "evidence_state demo (fe_reviewed_as_of (fit_raw account key)) (Some (W_date (default_to as_of demo))) (fit_window key) = EV_CURRENT"
      by (auto simp: fit_valid_def fit_state_def split: if_splits)
    moreover have "fit_window key \<le> 180" by (simp add: fit_window_def)
    ultimately show ?thesis
      using v evidence_state_window_mono unfolding f fit_valid_def by (auto simp: Let_def)
  qed (auto simp: f in_primary_cohort_def list_ex_iff)
qed

theorem prospect_points_need_verified_evidence_witness:
  "fe_review_state (fit_raw demo_account ''scale'') = Some ''VERIFIED''"
proof -
  have "fit_factor (Date 2026 1 31) (Date 2026 1 31) demo_account (''scale'', ''Scale'', 15) \<in> set (pp_factors demo_fit)"
    by (simp add: demo_fit_def prospect_fit_projection_def Let_def DEFINITIONS_def)
  moreover have "pf_points (fit_factor (Date 2026 1 31) (Date 2026 1 31) demo_account (''scale'', ''Scale'', 15)) = Some (15/2)"
    by code_simp
  ultimately show ?thesis
    using prospect_points_need_verified_evidence[OF demo_fit_def] by (fastforce simp: Let_def)
qed

end
