(* ===== verification/CommercialLedger.thy ===== *)
theory CommercialLedger
  imports Core
begin

text \<open>
  The commercial ledger and its validator, \<^verbatim>\<open>modules/commercial/ledger.py\<close>.
  A row of a collection is a record; \<open>lr_other_amounts\<close> are its fields that end in
  \<^verbatim>\<open>_minor\<close> (or are \<^verbatim>\<open>quantity\<close>) and that the
  validator does not read by name. ISO dates are dates; \<open>startswith(period)\<close> is a prefix of
  the ISO text.
\<close>

section \<open>Rows\<close>

record ledger_row =
  lr_id :: string
  lr_currency :: "string option"
  lr_account_id :: "string option"
  lr_other_amounts :: "(string \<times> int option) list"

record quote_line = ledger_row +
  ql_quote_revision_id :: string
  ql_component_id :: string
  ql_quantity :: int
  ql_unit_price_minor :: int
  ql_line_total_minor :: int

record order_line = ledger_row +
  ol_order_id :: string
  ol_component_id :: string
  ol_program_id :: string
  ol_business_unit_id :: string
  ol_quantity :: int
  ol_unit_price_minor :: int
  ol_unit_cost_minor :: int
  ol_line_total_minor :: int
  ol_committed_date :: "date option"

record quote_row = ledger_row +
  qr_rfq_id :: string
  qr_current_revision_id :: string

record quote_revision = ledger_row +
  rv_quote_id :: string
  rv_line_ids :: "string list"
  rv_total_minor :: int
  rv_supersedes_revision_id :: "string option"
  rv_revision_number :: int
  rv_issued_date :: date

record agreement = ledger_row +
  ag_accepted_revision_id :: string

record order_row = ledger_row +
  or_quote_id :: string
  or_accepted_quote_revision_id :: string
  or_ordered_date :: date
  or_line_ids :: "string list"
  or_total_minor :: int
  or_agreement_id :: "string option"

record cancellation = ledger_row +
  cn_order_line_id :: string
  cn_quantity :: int
  cn_value_minor :: int
  cn_date :: date

record shipment = ledger_row +
  sh_order_line_id :: string
  sh_quantity :: int
  sh_value_minor :: int
  sh_shipped_date :: date

record acceptance = ledger_row +
  ac_shipment_id :: string
  ac_quantity :: int
  ac_accepted_date :: date

record revenue_event = ledger_row +
  re_acceptance_id :: string
  re_order_line_id :: string
  re_quantity :: int
  re_recognized_date :: date
  re_revenue_minor :: int
  re_cost_minor :: int

record invoice = ledger_row +
  iv_revenue_event_id :: string
  iv_amount_minor :: int
  iv_invoice_date :: date

record payment = ledger_row +
  pt_invoice_id :: string
  pt_amount_minor :: int
  pt_paid_date :: date

record fulfillment_plan = ledger_row +
  fl_order_line_id :: string
  fl_effective_date :: "date option"
  fl_buyer_accepted :: bool
  fl_proposed_ship_date :: string

record bu_allocation =
  bu_revenue_minor :: int
  bu_bookings_minor :: int
  bu_shipments_minor :: int

record month_row = ledger_row +
  mo_period :: string
  mo_opening_backlog_minor :: int
  mo_bookings_minor :: int
  mo_cancellations_minor :: int
  mo_shipments_minor :: int
  mo_closing_backlog_minor :: int
  mo_revenue_minor :: int
  mo_cost_of_revenue_minor :: int
  mo_allocations :: "bu_allocation list"

record ttm_summary =
  tt_revenue_minor :: int
  tt_bookings_minor :: int
  tt_shipments_minor :: int
  tt_cancellations_minor :: int
  tt_cost_of_revenue_minor :: int
  tt_gross_margin_minor :: int
  tt_accounts_receivable_minor :: int

record ledger =
  la_account_id :: string
  la_public_events :: bool
  la_currency :: string
  la_as_of :: date
  la_programs :: "ledger_row list"
  la_components :: "ledger_row list"
  la_role_targets :: "ledger_row list"
  la_rfqs :: "ledger_row list"
  la_quotes :: "quote_row list"
  la_quote_revisions :: "quote_revision list"
  la_quote_lines :: "quote_line list"
  la_agreements :: "agreement list"
  la_orders :: "order_row list"
  la_order_lines :: "order_line list"
  la_cancellations :: "cancellation list"
  la_shipments :: "shipment list"
  la_acceptances :: "acceptance list"
  la_revenue_events :: "revenue_event list"
  la_invoices :: "invoice list"
  la_payments :: "payment list"
  la_service_events :: "ledger_row list"
  la_interactions :: "ledger_row list"
  la_opportunities :: "ledger_row list"
  la_actions :: "ledger_row list"
  la_monthly_commercial_history :: "month_row list"
  la_fulfillment_plans :: "fulfillment_plan list"
  la_ttm_summary :: ttm_summary

section \<open>Checks\<close>

datatype integrity_error = CommercialIntegrityError string string

type_synonym check = "(integrity_error, unit) result"

definition require :: "bool \<Rightarrow> string \<Rightarrow> string \<Rightarrow> check" where
  "require ok locator message = guard_r ok (CommercialIntegrityError locator message)"

fun each :: "('a \<Rightarrow> check) \<Rightarrow> 'a list \<Rightarrow> check" where
  "each f [] = Inr ()"
| "each f (x # xs) = bind_r (f x) (\<lambda>_. each f xs)"

fun in_order :: "(unit \<Rightarrow> check) list \<Rightarrow> check" where
  "in_order [] = Inr ()"
| "in_order (c # cs) = bind_r (c ()) (\<lambda>_. in_order cs)"

lemma require_Inr [res_simps]: "require ok l m = Inr u \<longleftrightarrow> ok"
  by (simp add: require_def res_simps)

lemma each_Inr [res_simps]: "each f xs = Inr u \<longleftrightarrow> (\<forall>x\<in>set xs. f x = Inr ())"
  by (induction xs) (auto simp: res_simps)

lemma in_order_Inr [res_simps]: "in_order cs = Inr u \<longleftrightarrow> (\<forall>c\<in>set cs. c () = Inr ())"
  by (induction cs) (auto simp: res_simps)

definition check_amounts :: "string \<Rightarrow> (string \<times> int option) list \<Rightarrow> check" where
  "check_amounts rid amounts = each (\<lambda>(field, value). case value of None \<Rightarrow> Inr ()
     | Some v \<Rightarrow> require (0 \<le> v) (rid @ ''/'' @ field) ''requires nonnegative integer units'') amounts"

definition check_row :: "ledger \<Rightarrow> string \<Rightarrow> 'a ledger_row_scheme \<Rightarrow> (string \<times> int) list \<Rightarrow> check" where
  "check_row acc collection row named =
     in_order [
       \<lambda>_. require (lr_id row \<noteq> []) collection ''empty identity'',
       \<lambda>_. require (default_to (lr_currency row) (la_currency acc) = la_currency acc) (lr_id row) ''mixed currency'',
       \<lambda>_. require (default_to (lr_account_id row) (la_account_id acc) = la_account_id acc) (lr_id row) ''cross-account record'',
       \<lambda>_. check_amounts (lr_id row) (map (\<lambda>(f, v). (f, Some v)) named @ lr_other_amounts row)]"

definition check_table :: "ledger \<Rightarrow> string \<Rightarrow> 'a ledger_row_scheme list \<Rightarrow> ('a ledger_row_scheme \<Rightarrow> (string \<times> int) list) \<Rightarrow> check" where
  "check_table acc collection rows named =
     bind_r (require (distinct (map lr_id rows)) collection ''duplicate record identity'') (\<lambda>_.
     each (\<lambda>row. check_row acc collection row (named row)) rows)"

definition ref :: "string \<Rightarrow> 'a ledger_row_scheme list \<Rightarrow> string \<Rightarrow> (integrity_error, 'a ledger_row_scheme) result" where
  "ref collection rows identity =
     (case first_match (\<lambda>r. lr_id r = identity) rows of
        None \<Rightarrow> Inl (CommercialIntegrityError identity (''missing '' @ collection @ '' reference''))
      | Some r \<Rightarrow> Inr r)"

lemma ref_Inr: "ref c rows i = Inr r \<Longrightarrow> r \<in> set rows \<and> lr_id r = i"
  by (auto simp: ref_def dest: first_match_Some split: option.splits)

lemma ref_unique: "distinct (map lr_id rows) \<Longrightarrow> r \<in> set rows \<Longrightarrow> ref c rows (lr_id r) = Inr r"
proof (induction rows)
  case (Cons x rows)
  then show ?case by (cases "lr_id x = lr_id r") (auto simp: ref_def)
qed (simp add: ref_def)

definition check_tables :: "ledger \<Rightarrow> check" where
  "check_tables a = in_order [
     \<lambda>_. check_table a ''programs'' (la_programs a) (\<lambda>_. []),
     \<lambda>_. check_table a ''components'' (la_components a) (\<lambda>_. []),
     \<lambda>_. check_table a ''role_targets'' (la_role_targets a) (\<lambda>_. []),
     \<lambda>_. check_table a ''rfqs'' (la_rfqs a) (\<lambda>_. []),
     \<lambda>_. check_table a ''quotes'' (la_quotes a) (\<lambda>_. []),
     \<lambda>_. check_table a ''quote_revisions'' (la_quote_revisions a) (\<lambda>r. [(''total_minor'', rv_total_minor r)]),
     \<lambda>_. check_table a ''quote_lines'' (la_quote_lines a) (\<lambda>r. [(''quantity'', ql_quantity r),
        (''unit_price_minor'', ql_unit_price_minor r), (''line_total_minor'', ql_line_total_minor r)]),
     \<lambda>_. check_table a ''agreements'' (la_agreements a) (\<lambda>_. []),
     \<lambda>_. check_table a ''orders'' (la_orders a) (\<lambda>r. [(''total_minor'', or_total_minor r)]),
     \<lambda>_. check_table a ''order_lines'' (la_order_lines a) (\<lambda>r. [(''quantity'', ol_quantity r),
        (''unit_price_minor'', ol_unit_price_minor r), (''unit_cost_minor'', ol_unit_cost_minor r),
        (''line_total_minor'', ol_line_total_minor r)]),
     \<lambda>_. check_table a ''cancellations'' (la_cancellations a) (\<lambda>r. [(''quantity'', cn_quantity r), (''value_minor'', cn_value_minor r)]),
     \<lambda>_. check_table a ''shipments'' (la_shipments a) (\<lambda>r. [(''quantity'', sh_quantity r), (''value_minor'', sh_value_minor r)]),
     \<lambda>_. check_table a ''acceptances'' (la_acceptances a) (\<lambda>r. [(''quantity'', ac_quantity r)]),
     \<lambda>_. check_table a ''revenue_events'' (la_revenue_events a) (\<lambda>r. [(''quantity'', re_quantity r),
        (''revenue_minor'', re_revenue_minor r), (''cost_minor'', re_cost_minor r)]),
     \<lambda>_. check_table a ''invoices'' (la_invoices a) (\<lambda>r. [(''amount_minor'', iv_amount_minor r)]),
     \<lambda>_. check_table a ''payments'' (la_payments a) (\<lambda>r. [(''amount_minor'', pt_amount_minor r)]),
     \<lambda>_. check_table a ''service_events'' (la_service_events a) (\<lambda>_. []),
     \<lambda>_. check_table a ''interactions'' (la_interactions a) (\<lambda>_. []),
     \<lambda>_. check_table a ''opportunities'' (la_opportunities a) (\<lambda>_. []),
     \<lambda>_. check_table a ''actions'' (la_actions a) (\<lambda>_. []),
     \<lambda>_. check_table a ''monthly_commercial_history'' (la_monthly_commercial_history a)
        (\<lambda>m. [(''opening_backlog_minor'', mo_opening_backlog_minor m), (''bookings_minor'', mo_bookings_minor m),
          (''cancellations_minor'', mo_cancellations_minor m), (''shipments_minor'', mo_shipments_minor m),
          (''closing_backlog_minor'', mo_closing_backlog_minor m), (''revenue_minor'', mo_revenue_minor m),
          (''cost_of_revenue_minor'', mo_cost_of_revenue_minor m)]),
     \<lambda>_. check_table a ''fulfillment_plans'' (la_fulfillment_plans a) (\<lambda>_. [])]"

section \<open>Quotes and orders\<close>

definition check_quote_line :: "ledger \<Rightarrow> quote_line \<Rightarrow> check" where
  "check_quote_line a row =
     bind_r (ref ''components'' (la_components a) (ql_component_id row)) (\<lambda>_.
     require (ql_quantity row * ql_unit_price_minor row = ql_line_total_minor row) (lr_id row) ''line total mismatch'')"

definition check_order_line_total :: "ledger \<Rightarrow> order_line \<Rightarrow> check" where
  "check_order_line_total a row =
     bind_r (ref ''components'' (la_components a) (ol_component_id row)) (\<lambda>_.
     require (ol_quantity row * ol_unit_price_minor row = ol_line_total_minor row) (lr_id row) ''line total mismatch'')"

definition check_revision :: "ledger \<Rightarrow> quote_revision \<Rightarrow> check" where
  "check_revision a row =
     bind_r (ref ''quotes'' (la_quotes a) (rv_quote_id row)) (\<lambda>_.
     bind_r (map_r (ref ''quote_lines'' (la_quote_lines a)) (rv_line_ids row)) (\<lambda>lines.
     in_order [
       \<lambda>_. require (length (remdups (rv_line_ids row)) = length lines) (lr_id row) ''duplicate line reference'',
       \<lambda>_. require (list_all (\<lambda>l. ql_quote_revision_id l = lr_id row) lines) (lr_id row) ''line belongs to another revision'',
       \<lambda>_. require ((\<Sum>l\<leftarrow>lines. ql_line_total_minor l) = rv_total_minor row) (lr_id row) ''revision total mismatch'',
       \<lambda>_. if truthy (rv_supersedes_revision_id row)
           then bind_r (ref ''quote_revisions'' (la_quote_revisions a) (the (rv_supersedes_revision_id row))) (\<lambda>prior.
             require (rv_quote_id prior = rv_quote_id row \<and> rv_revision_number prior < rv_revision_number row)
               (lr_id row) ''invalid superseded revision'')
           else Inr ()]))"

definition check_quote :: "ledger \<Rightarrow> quote_row \<Rightarrow> check" where
  "check_quote a row =
     bind_r (ref ''rfqs'' (la_rfqs a) (qr_rfq_id row)) (\<lambda>_.
     bind_r (ref ''quote_revisions'' (la_quote_revisions a) (qr_current_revision_id row)) (\<lambda>rev.
     require (rv_quote_id rev = lr_id row) (lr_id row) ''wrong current revision''))"

definition check_order :: "ledger \<Rightarrow> order_row \<Rightarrow> check" where
  "check_order a row =
     bind_r (ref ''quote_revisions'' (la_quote_revisions a) (or_accepted_quote_revision_id row)) (\<lambda>revision.
     bind_r (require (rv_quote_id revision = or_quote_id row) (lr_id row) ''accepted revision belongs to another quote'') (\<lambda>_.
     bind_r (require (rv_issued_date revision \<le> or_ordered_date row \<and> or_ordered_date row \<le> la_as_of a)
       (lr_id row) ''invalid order date'') (\<lambda>_.
     bind_r (map_r (ref ''order_lines'' (la_order_lines a)) (or_line_ids row)) (\<lambda>lines.
     in_order [
       \<lambda>_. require (length (remdups (or_line_ids row)) = length lines) (lr_id row) ''duplicate order line'',
       \<lambda>_. require (list_all (\<lambda>l. ol_order_id l = lr_id row) lines) (lr_id row) ''wrong order line owner'',
       \<lambda>_. require ((\<Sum>l\<leftarrow>lines. ol_line_total_minor l) = or_total_minor row) (lr_id row) ''order total mismatch'',
       \<lambda>_. if truthy (or_agreement_id row)
           then bind_r (ref ''agreements'' (la_agreements a) (the (or_agreement_id row))) (\<lambda>ag.
             require (ag_accepted_revision_id ag = or_accepted_quote_revision_id row) (lr_id row) ''agreement revision mismatch'')
           else Inr ()]))))"

section \<open>Execution: cancellations to payments\<close>

definition cancelled_of :: "ledger \<Rightarrow> string \<Rightarrow> int" where
  "cancelled_of a line = (\<Sum>r\<leftarrow>filter (\<lambda>r. cn_order_line_id r = line) (la_cancellations a). cn_quantity r)"

definition shipped_of :: "ledger \<Rightarrow> string \<Rightarrow> int" where
  "shipped_of a line = (\<Sum>r\<leftarrow>filter (\<lambda>r. sh_order_line_id r = line) (la_shipments a). sh_quantity r)"

definition check_cancellation :: "ledger \<Rightarrow> cancellation \<Rightarrow> check" where
  "check_cancellation a row =
     bind_r (ref ''order_lines'' (la_order_lines a) (cn_order_line_id row)) (\<lambda>line.
     require (cn_value_minor row = cn_quantity row * ol_unit_price_minor line) (lr_id row) ''cancellation value mismatch'')"

definition check_shipment :: "ledger \<Rightarrow> shipment \<Rightarrow> check" where
  "check_shipment a row =
     bind_r (ref ''order_lines'' (la_order_lines a) (sh_order_line_id row)) (\<lambda>line.
     bind_r (ref ''orders'' (la_orders a) (ol_order_id line)) (\<lambda>ord.
     in_order [
       \<lambda>_. require (sh_value_minor row = sh_quantity row * ol_unit_price_minor line) (lr_id row) ''shipment value mismatch'',
       \<lambda>_. require (or_ordered_date ord \<le> sh_shipped_date row \<and> sh_shipped_date row \<le> la_as_of a)
          (lr_id row) ''invalid shipment date'']))"

definition check_line_balance :: "ledger \<Rightarrow> order_line \<Rightarrow> check" where
  "check_line_balance a line =
     bind_r (ref ''orders'' (la_orders a) (ol_order_id line)) (\<lambda>_.
     require (shipped_of a (lr_id line) + cancelled_of a (lr_id line) \<le> ol_quantity line)
       (lr_id line) ''over-shipped or over-cancelled'')"

fun check_acceptances :: "ledger \<Rightarrow> (string, int) dict \<Rightarrow> acceptance list \<Rightarrow> check" where
  \<comment> \<open>\<open>accepted\<close> runs along, so the check is made at every row\<close>
  "check_acceptances a accepted [] = Inr ()"
| "check_acceptances a accepted (row # rows) =
     bind_r (ref ''shipments'' (la_shipments a) (ac_shipment_id row)) (\<lambda>s.
     let accepted' = dset (ac_shipment_id row) (default_to (dget accepted (ac_shipment_id row)) 0 + ac_quantity row) accepted
     in bind_r (require (sh_shipped_date s \<le> ac_accepted_date row \<and> ac_accepted_date row \<le> la_as_of a)
          (lr_id row) ''invalid acceptance date'') (\<lambda>_.
        bind_r (require (default_to (dget accepted' (ac_shipment_id row)) 0 \<le> sh_quantity s) (lr_id row) ''over-accepted'') (\<lambda>_.
        check_acceptances a accepted' rows)))"

fun check_revenues :: "ledger \<Rightarrow> string list \<Rightarrow> revenue_event list \<Rightarrow> check" where
  "check_revenues a recognized [] = Inr ()"
| "check_revenues a recognized (row # rows) =
     bind_r (ref ''acceptances'' (la_acceptances a) (re_acceptance_id row)) (\<lambda>acc.
     bind_r (ref ''shipments'' (la_shipments a) (ac_shipment_id acc)) (\<lambda>s.
     bind_r (ref ''order_lines'' (la_order_lines a) (re_order_line_id row)) (\<lambda>line.
     bind_r (in_order [
       \<lambda>_. require (re_acceptance_id row \<notin> set recognized) (lr_id row) ''duplicate recognition'',
       \<lambda>_. require (sh_order_line_id s = re_order_line_id row) (lr_id row) ''wrong recognized order line'',
       \<lambda>_. require (re_quantity row = ac_quantity acc \<and> re_recognized_date row = ac_accepted_date acc)
          (lr_id row) ''recognition must follow acceptance'',
       \<lambda>_. require (re_revenue_minor row = re_quantity row * ol_unit_price_minor line) (lr_id row) ''revenue mismatch'',
       \<lambda>_. require (re_cost_minor row = re_quantity row * ol_unit_cost_minor line) (lr_id row) ''cost mismatch'']) (\<lambda>_.
     check_revenues a (re_acceptance_id row # recognized) rows))))"

definition check_invoice :: "ledger \<Rightarrow> invoice \<Rightarrow> check" where
  "check_invoice a row =
     bind_r (ref ''revenue_events'' (la_revenue_events a) (iv_revenue_event_id row)) (\<lambda>revenue.
     in_order [
       \<lambda>_. require (iv_amount_minor row = re_revenue_minor revenue) (lr_id row) ''invoice mismatch'',
       \<lambda>_. require (re_recognized_date revenue \<le> iv_invoice_date row \<and> iv_invoice_date row \<le> la_as_of a)
          (lr_id row) ''invalid invoice date''])"

fun check_payments :: "ledger \<Rightarrow> (string, int) dict \<Rightarrow> payment list \<Rightarrow> check" where
  "check_payments a paid [] = Inr ()"
| "check_payments a paid (row # rows) =
     bind_r (ref ''invoices'' (la_invoices a) (pt_invoice_id row)) (\<lambda>iv.
     let paid' = dset (pt_invoice_id row) (default_to (dget paid (pt_invoice_id row)) 0 + pt_amount_minor row) paid
     in bind_r (require (iv_invoice_date iv \<le> pt_paid_date row \<and> pt_paid_date row \<le> la_as_of a)
          (lr_id row) ''invalid payment date'') (\<lambda>_.
        bind_r (require (default_to (dget paid' (pt_invoice_id row)) 0 \<le> iv_amount_minor iv) (lr_id row) ''overpayment'') (\<lambda>_.
        check_payments a paid' rows)))"

section \<open>Months and the twelve-month summary\<close>

definition in_period :: "string \<Rightarrow> date \<Rightarrow> bool" where
  "in_period period d = starts_with period (iso_date d)"

definition reconciled :: "ledger \<Rightarrow> month_row \<Rightarrow> (int \<times> int \<times> string) list" where
  \<comment> \<open>per target: the amount recorded in the period, the month's figure, the target's name\<close>
  "reconciled a m = (let p = mo_period m in
     [((\<Sum>r\<leftarrow>filter (\<lambda>r. in_period p (or_ordered_date r)) (la_orders a). or_total_minor r), mo_bookings_minor m, ''bookings_minor''),
      ((\<Sum>r\<leftarrow>filter (\<lambda>r. in_period p (sh_shipped_date r)) (la_shipments a). sh_value_minor r), mo_shipments_minor m, ''shipments_minor''),
      ((\<Sum>r\<leftarrow>filter (\<lambda>r. in_period p (cn_date r)) (la_cancellations a). cn_value_minor r), mo_cancellations_minor m, ''cancellations_minor''),
      ((\<Sum>r\<leftarrow>filter (\<lambda>r. in_period p (re_recognized_date r)) (la_revenue_events a). re_revenue_minor r), mo_revenue_minor m, ''revenue_minor''),
      ((\<Sum>r\<leftarrow>filter (\<lambda>r. in_period p (re_recognized_date r)) (la_revenue_events a). re_cost_minor r), mo_cost_of_revenue_minor m, ''cost_of_revenue_minor'')])"

definition check_month :: "ledger \<Rightarrow> int option \<Rightarrow> month_row \<Rightarrow> check" where
  "check_month a previous_closing m = in_order [
     \<lambda>_. require (mo_opening_backlog_minor m + mo_bookings_minor m - mo_cancellations_minor m - mo_shipments_minor m
         = mo_closing_backlog_minor m) (mo_period m) ''backlog mismatch'',
     \<lambda>_. case previous_closing of None \<Rightarrow> Inr ()
       | Some c \<Rightarrow> require (c = mo_opening_backlog_minor m) (mo_period m) ''backlog discontinuity'',
     \<lambda>_. each (\<lambda>(amount, figure, target). require (amount = figure) (mo_period m)
         (target @ '' not reconciled to records'')) (reconciled a m),
     \<lambda>_. require ((\<Sum>r\<leftarrow>mo_allocations m. bu_revenue_minor r) = mo_revenue_minor m) (mo_period m)
         ''revenue_minor BU allocation mismatch'',
     \<lambda>_. require ((\<Sum>r\<leftarrow>mo_allocations m. bu_bookings_minor r) = mo_bookings_minor m) (mo_period m)
         ''bookings_minor BU allocation mismatch'',
     \<lambda>_. require ((\<Sum>r\<leftarrow>mo_allocations m. bu_shipments_minor r) = mo_shipments_minor m) (mo_period m)
         ''shipments_minor BU allocation mismatch'']"

fun check_months :: "ledger \<Rightarrow> int option \<Rightarrow> month_row list \<Rightarrow> check" where
  "check_months a previous [] = Inr ()"
| "check_months a previous (m # ms) =
     bind_r (check_month a previous m) (\<lambda>_. check_months a (Some (mo_closing_backlog_minor m)) ms)"

definition paid_of :: "ledger \<Rightarrow> string \<Rightarrow> int" where
  "paid_of a i = (\<Sum>r\<leftarrow>filter (\<lambda>r. pt_invoice_id r = i) (la_payments a). pt_amount_minor r)"

definition check_ttm :: "ledger \<Rightarrow> month_row list \<Rightarrow> check" where
  "check_ttm a months = (let t = la_ttm_summary a; aid = la_account_id a in in_order [
     \<lambda>_. require ((\<Sum>m\<leftarrow>months. mo_revenue_minor m) = tt_revenue_minor t) aid ''TTM revenue_minor mismatch'',
     \<lambda>_. require ((\<Sum>m\<leftarrow>months. mo_bookings_minor m) = tt_bookings_minor t) aid ''TTM bookings_minor mismatch'',
     \<lambda>_. require ((\<Sum>m\<leftarrow>months. mo_shipments_minor m) = tt_shipments_minor t) aid ''TTM shipments_minor mismatch'',
     \<lambda>_. require ((\<Sum>m\<leftarrow>months. mo_cancellations_minor m) = tt_cancellations_minor t) aid ''TTM cancellations_minor mismatch'',
     \<lambda>_. require ((\<Sum>m\<leftarrow>months. mo_cost_of_revenue_minor m) = tt_cost_of_revenue_minor t) aid ''TTM cost_of_revenue_minor mismatch'',
     \<lambda>_. require (tt_gross_margin_minor t = tt_revenue_minor t - tt_cost_of_revenue_minor t) aid ''margin mismatch'',
     \<lambda>_. require ((\<Sum>r\<leftarrow>la_invoices a. iv_amount_minor r - paid_of a (lr_id r)) = tt_accounts_receivable_minor t) aid ''receivables mismatch''])"

definition ledger_counts :: "ledger \<Rightarrow> (string \<times> nat) list" where
  "ledger_counts a =
     [(''programs'', length (la_programs a)), (''components'', length (la_components a)),
      (''role_targets'', length (la_role_targets a)), (''rfqs'', length (la_rfqs a)),
      (''quotes'', length (la_quotes a)), (''quote_revisions'', length (la_quote_revisions a)),
      (''quote_lines'', length (la_quote_lines a)), (''agreements'', length (la_agreements a)),
      (''orders'', length (la_orders a)), (''order_lines'', length (la_order_lines a)),
      (''cancellations'', length (la_cancellations a)), (''shipments'', length (la_shipments a)),
      (''acceptances'', length (la_acceptances a)), (''revenue_events'', length (la_revenue_events a)),
      (''invoices'', length (la_invoices a)), (''payments'', length (la_payments a)),
      (''service_events'', length (la_service_events a)), (''interactions'', length (la_interactions a)),
      (''opportunities'', length (la_opportunities a)), (''actions'', length (la_actions a)),
      (''monthly_commercial_history'', length (la_monthly_commercial_history a)),
      (''fulfillment_plans'', length (la_fulfillment_plans a))]"

definition validate_commercial_account :: "ledger \<Rightarrow> (integrity_error, (string \<times> nat) list) result" where
  "validate_commercial_account a =
     (let months = sort_key mo_period (la_monthly_commercial_history a)
      in bind_r (in_order [
        \<lambda>_. require (\<not> la_public_events a) (la_account_id a) ''public events belong to Monitor'',
        \<lambda>_. require (length (la_currency a) = 3) (la_account_id a) ''currency required'',
        \<lambda>_. check_tables a,
        \<lambda>_. each (check_quote_line a) (la_quote_lines a),
        \<lambda>_. each (check_order_line_total a) (la_order_lines a),
        \<lambda>_. each (check_revision a) (la_quote_revisions a),
        \<lambda>_. each (check_quote a) (la_quotes a),
        \<lambda>_. each (check_order a) (la_orders a),
        \<lambda>_. each (check_cancellation a) (la_cancellations a),
        \<lambda>_. each (check_shipment a) (la_shipments a),
        \<lambda>_. each (check_line_balance a) (la_order_lines a),
        \<lambda>_. check_acceptances a [] (la_acceptances a),
        \<lambda>_. check_revenues a [] (la_revenue_events a),
        \<lambda>_. each (check_invoice a) (la_invoices a),
        \<lambda>_. check_payments a [] (la_payments a),
        \<lambda>_. require (distinct (map mo_period months)) (la_account_id a) ''duplicate month'',
        \<lambda>_. check_months a None months,
        \<lambda>_. check_ttm a months]) (\<lambda>_. Inr (ledger_counts a)))"

end
