(* ===== verification/Lifecycle.thy ===== *)
theory Lifecycle
  imports CommercialLedger
begin

text \<open>
  The fulfillment state of an account's order lines at a date,
  \<^verbatim>\<open>modules/commercial/lifecycle.py\<close>: what was shipped, cancelled,
  accepted and recognized by then, the constraints on the commitment, and the totals.
\<close>

record constraint =
  ct_id :: string
  ct_type :: string
  ct_scope :: "(string \<times> string) list"
  ct_evidence_ids :: "string list"
  ct_reason :: string
  ct_blocks :: string

record shipment_view =
  sv_shipment :: shipment
  sv_accepted_quantity :: int
  sv_unaccepted_value_minor :: int

datatype execution_status = EX_BLOCKED | EX_NEEDS_CHECK | EX_HISTORICAL_EXPERIENCE | EX_CANCELLED

record line_state =
  ls_order_line_id :: string
  ls_order_id :: string
  ls_component_id :: string
  ls_program_id :: string
  ls_business_unit_id :: string
  ls_ordered_quantity :: int
  ls_shipped_quantity :: int
  ls_cancelled_quantity :: int
  ls_accepted_quantity :: int
  ls_remaining_quantity :: int
  ls_shipped_unaccepted_quantity :: int
  ls_shipped_unaccepted_value_minor :: int
  ls_currency :: string
  ls_shipments :: "shipment_view list"
  ls_recognized_revenue_minor :: int
  ls_committed_date :: "date option"
  ls_overdue :: bool
  ls_plans :: "fulfillment_plan list"
  ls_constraints :: "constraint list"
  ls_execution_status :: execution_status
  ls_next_action :: string
  ls_evidence_ids :: "string list"

record fulfillment =
  fs_account_id :: string
  fs_as_of :: date
  fs_snapshot_as_of :: date
  fs_revision :: string
  fs_undated_plans_excluded :: nat
  fs_currency :: string
  fs_lines :: "line_state list"
  fs_constraints :: "constraint list"
  fs_open_line_count :: nat
  fs_overdue_line_count :: nat
  fs_totals :: "(string \<times> int) list"

definition effective_as_of :: "ledger \<Rightarrow> date option \<Rightarrow> date" where
  "effective_as_of a as_of = (case as_of of None \<Rightarrow> la_as_of a | Some d \<Rightarrow> min d (la_as_of a))"

section \<open>What happened to a line by a date\<close>

definition line_shipments :: "ledger \<Rightarrow> date \<Rightarrow> string \<Rightarrow> shipment list" where
  "line_shipments a t lid = filter (\<lambda>r. sh_order_line_id r = lid \<and> sh_shipped_date r \<le> t) (la_shipments a)"

definition line_cancellations :: "ledger \<Rightarrow> date \<Rightarrow> string \<Rightarrow> cancellation list" where
  "line_cancellations a t lid = filter (\<lambda>r. cn_order_line_id r = lid \<and> cn_date r \<le> t) (la_cancellations a)"

definition line_acceptances :: "ledger \<Rightarrow> date \<Rightarrow> string \<Rightarrow> acceptance list" where
  "line_acceptances a t lid = filter (\<lambda>r. ac_shipment_id r \<in> set (map lr_id (line_shipments a t lid))
     \<and> ac_accepted_date r \<le> t) (la_acceptances a)"

definition line_revenues :: "ledger \<Rightarrow> date \<Rightarrow> string \<Rightarrow> revenue_event list" where
  "line_revenues a t lid = filter (\<lambda>r. re_acceptance_id r \<in> set (map lr_id (line_acceptances a t lid))
     \<and> re_recognized_date r \<le> t) (la_revenue_events a)"

definition accepted_for :: "acceptance list \<Rightarrow> string \<Rightarrow> int" where
  "accepted_for accs sid = (\<Sum>r\<leftarrow>filter (\<lambda>r. ac_shipment_id r = sid) accs. ac_quantity r)"

text \<open>
  A plan counts from its effective date; an undated plan describes the recorded snapshot only, and is
  omitted (and counted) when the query is about an earlier date.
\<close>

definition plan_shown :: "ledger \<Rightarrow> date \<Rightarrow> fulfillment_plan \<Rightarrow> bool" where
  "plan_shown a t p = (case fl_effective_date p of Some d \<Rightarrow> d \<le> t | None \<Rightarrow> la_as_of a \<le> t)"

definition line_plans :: "ledger \<Rightarrow> date \<Rightarrow> string \<Rightarrow> fulfillment_plan list" where
  "line_plans a t lid = filter (plan_shown a t) (filter (\<lambda>p. fl_order_line_id p = lid) (la_fulfillment_plans a))"

definition omitted_plans :: "ledger \<Rightarrow> date \<Rightarrow> string \<Rightarrow> nat" where
  "omitted_plans a t lid = length (filter (\<lambda>p. fl_order_line_id p = lid \<and> fl_effective_date p = None \<and> t < la_as_of a)
     (la_fulfillment_plans a))"

definition missed_commitment :: "order_line \<Rightarrow> int \<Rightarrow> date \<Rightarrow> string list \<Rightarrow> constraint" where
  "missed_commitment line remaining committed shipment_ids =
     \<lparr>ct_id = ''constraint:'' @ lr_id line @ '':missed-commitment'', ct_type = ''MISSED_COMMITMENT'',
       ct_scope = [(''order_line_id'', lr_id line), (''component_id'', ol_component_id line),
         (''program_id'', ol_program_id line), (''business_unit_id'', ol_business_unit_id line)],
       ct_evidence_ids = lr_id line # shipment_ids,
       ct_reason = show_int remaining @ '' units remain against the '' @ iso_date committed @ '' commitment.'',
       ct_blocks = ''REPEAT_OR_CONFIRM_EXISTING_COMMITMENT''\<rparr>"

definition unaccepted_proposal :: "order_line \<Rightarrow> fulfillment_plan \<Rightarrow> constraint" where
  "unaccepted_proposal line plan =
     \<lparr>ct_id = ''constraint:'' @ lr_id plan @ '':buyer-acceptance'', ct_type = ''UNACCEPTED_RECOVERY_PROPOSAL'',
       ct_scope = [(''order_line_id'', lr_id line)], ct_evidence_ids = [lr_id plan],
       ct_reason = ''The proposed '' @ fl_proposed_ship_date plan @ '' dispatch has not been accepted by the buyer.'',
       ct_blocks = ''PRESENT_PROPOSAL_AS_ACCEPTED''\<rparr>"

definition line_state_at :: "ledger \<Rightarrow> date \<Rightarrow> order_line \<Rightarrow> line_state" where
  "line_state_at a t line =
     (let lid = lr_id line;
          shipments = line_shipments a t lid; cancellations = line_cancellations a t lid;
          acceptances = line_acceptances a t lid; revenues = line_revenues a t lid;
          shipment_ids = sorted_set (map lr_id shipments); accepted_ids = sorted_set (map lr_id acceptances);
          shipped = (\<Sum>r\<leftarrow>shipments. sh_quantity r); cancelled = (\<Sum>r\<leftarrow>cancellations. cn_quantity r);
          accepted = (\<Sum>r\<leftarrow>acceptances. ac_quantity r);
          remaining = ol_quantity line - shipped - cancelled;
          overdue = (0 < remaining \<and> (case ol_committed_date line of None \<Rightarrow> False | Some c \<Rightarrow> c < t));
          plans = line_plans a t lid
      in \<lparr>ls_order_line_id = lid, ls_order_id = ol_order_id line, ls_component_id = ol_component_id line,
          ls_program_id = ol_program_id line, ls_business_unit_id = ol_business_unit_id line,
          ls_ordered_quantity = ol_quantity line, ls_shipped_quantity = shipped, ls_cancelled_quantity = cancelled,
          ls_accepted_quantity = accepted, ls_remaining_quantity = remaining,
          ls_shipped_unaccepted_quantity = shipped - accepted,
          ls_shipped_unaccepted_value_minor = (shipped - accepted) * ol_unit_price_minor line,
          ls_currency = default_to (lr_currency line) (la_currency a),
          ls_shipments = map (\<lambda>s. \<lparr>sv_shipment = s, sv_accepted_quantity = accepted_for acceptances (lr_id s),
            sv_unaccepted_value_minor = (sh_quantity s - accepted_for acceptances (lr_id s)) * ol_unit_price_minor line\<rparr>) shipments,
          ls_recognized_revenue_minor = (\<Sum>r\<leftarrow>revenues. re_revenue_minor r),
          ls_committed_date = ol_committed_date line, ls_overdue = overdue, ls_plans = plans,
          ls_constraints =
            (if overdue then [missed_commitment line remaining (the (ol_committed_date line)) shipment_ids] else [])
            @ map (unaccepted_proposal line) (filter (\<lambda>p. \<not> fl_buyer_accepted p) plans),
          ls_execution_status = (if overdue then EX_BLOCKED else if remaining \<noteq> 0 \<or> accepted < shipped then EX_NEEDS_CHECK
            else if accepted \<noteq> 0 then EX_HISTORICAL_EXPERIENCE else EX_CANCELLED),
          ls_next_action = (if overdue then ''Agree a recovery plan with operations and obtain buyer acceptance.''
            else if remaining \<noteq> 0 then ''Confirm scoped capacity, qualification and the buyer requirement before a new commitment.''
            else if accepted < shipped then ''Verify outstanding acceptance; shipment alone is not recognized revenue.''
            else if accepted \<noteq> 0 then ''Review accepted work as historical experience; it does not establish spare capacity.''
            else ''Review the cancellation reason before considering new work.''),
          ls_evidence_ids = lid # shipment_ids @ accepted_ids @ map lr_id revenues\<rparr>)"

section \<open>The account\<close>

definition ordered_by :: "ledger \<Rightarrow> date \<Rightarrow> order_line \<Rightarrow> (py_error, bool) result" where
  \<comment> \<open>\<open>orders[line['order_id']]\<close>, then the date test\<close>
  "ordered_by a t line = (case first_match (\<lambda>r. lr_id r = ol_order_id line) (rev (la_orders a)) of
     None \<Rightarrow> Inl (KeyError (ol_order_id line)) | Some r \<Rightarrow> Inr (or_ordered_date r \<le> t))"

fun known_lines :: "ledger \<Rightarrow> date \<Rightarrow> order_line list \<Rightarrow> (py_error, order_line list) result" where
  "known_lines a t [] = Inr []"
| "known_lines a t (l # ls) =
     bind_r (ordered_by a t l) (\<lambda>ok. bind_r (known_lines a t ls) (\<lambda>rest. Inr (if ok then l # rest else rest)))"

definition history_totals :: "line_state list \<Rightarrow> (string \<times> int) list" where
  "history_totals ls =
     [(''ordered_quantity'', \<Sum>l\<leftarrow>ls. ls_ordered_quantity l), (''shipped_quantity'', \<Sum>l\<leftarrow>ls. ls_shipped_quantity l),
      (''cancelled_quantity'', \<Sum>l\<leftarrow>ls. ls_cancelled_quantity l), (''accepted_quantity'', \<Sum>l\<leftarrow>ls. ls_accepted_quantity l),
      (''remaining_quantity'', \<Sum>l\<leftarrow>ls. ls_remaining_quantity l),
      (''shipped_unaccepted_quantity'', \<Sum>l\<leftarrow>ls. ls_shipped_unaccepted_quantity l),
      (''shipped_unaccepted_value_minor'', \<Sum>l\<leftarrow>ls. ls_shipped_unaccepted_value_minor l),
      (''recognized_revenue_minor'', \<Sum>l\<leftarrow>ls. ls_recognized_revenue_minor l)]"

definition fulfillment_state :: "ledger \<Rightarrow> string \<Rightarrow> string \<Rightarrow> date option \<Rightarrow> (py_error, fulfillment) result" where
  "fulfillment_state a canonical_account_id revision as_of =
     (let t = effective_as_of a as_of
      in bind_r (known_lines a t (sort_key lr_id (la_order_lines a))) (\<lambda>known.
         let lines = map (line_state_at a t) known
         in Inr \<lparr>fs_account_id = canonical_account_id, fs_as_of = t, fs_snapshot_as_of = la_as_of a, fs_revision = revision,
              fs_undated_plans_excluded = (\<Sum>l\<leftarrow>known. omitted_plans a t (lr_id l)), fs_currency = la_currency a,
              fs_lines = lines, fs_constraints = concat (map ls_constraints lines),
              fs_open_line_count = length (filter (\<lambda>l. 0 < ls_remaining_quantity l) lines),
              fs_overdue_line_count = length (filter ls_overdue lines), fs_totals = history_totals lines\<rparr>))"

end
