(* ===== verification/LedgerProps.thy ===== *)
theory LedgerProps
  imports Lifecycle
begin

text \<open>
  What validation establishes (each check as a fact about the rows), and that the lifecycle calculation
  is sound on every validated ledger.
\<close>

section \<open>Sums over rows\<close>

lemma sum_filter_disjoint:
  "(\<And>x. \<not> (P x \<and> Q x)) \<Longrightarrow>
     (\<Sum>x\<leftarrow>filter (\<lambda>x. P x \<or> Q x) xs. q x) = (\<Sum>x\<leftarrow>filter P xs. q x) + (\<Sum>x\<leftarrow>filter Q xs. q x :: int)"
  by (induction xs) auto

lemma sum_by_key:
  fixes q :: "'a \<Rightarrow> int"
  assumes "distinct ids"
  shows "(\<Sum>x\<leftarrow>filter (\<lambda>x. k x \<in> set ids) xs. q x) = (\<Sum>i\<leftarrow>ids. \<Sum>x\<leftarrow>filter (\<lambda>x. k x = i) xs. q x)"
  using assms
proof (induction ids)
  case (Cons i ids)
  have "(\<Sum>x\<leftarrow>filter (\<lambda>x. k x = i \<or> k x \<in> set ids) xs. q x)
      = (\<Sum>x\<leftarrow>filter (\<lambda>x. k x = i) xs. q x) + (\<Sum>x\<leftarrow>filter (\<lambda>x. k x \<in> set ids) xs. q x)"
    by (rule sum_filter_disjoint) (use Cons.prems in auto)
  then show ?case using Cons by simp
qed simp

lemma sum_filter_le:
  fixes q :: "'a \<Rightarrow> int"
  assumes "\<And>x. x \<in> set xs \<Longrightarrow> 0 \<le> q x" "\<And>x. x \<in> set xs \<Longrightarrow> P x \<Longrightarrow> Q x"
  shows "(\<Sum>x\<leftarrow>filter P xs. q x) \<le> (\<Sum>x\<leftarrow>filter Q xs. q x)"
  using assms
proof (induction xs)
  case (Cons x xs)
  then show ?case using Cons.IH by (auto simp: add_increasing)
qed simp

lemma sum_distinct_le:
  fixes g :: "'i \<Rightarrow> int"
  assumes "distinct is" "distinct js" "set is \<subseteq> set js" "\<And>j. j \<in> set js \<Longrightarrow> 0 \<le> g j"
  shows "(\<Sum>i\<leftarrow>is. g i) \<le> (\<Sum>j\<leftarrow>js. g j)"
  unfolding sum_list_distinct_conv_sum_set[OF assms(1)] sum_list_distinct_conv_sum_set[OF assms(2)]
  by (rule sum_mono2) (use assms(3,4) in auto)

section \<open>Facts of a validated ledger\<close>

definition ledger_valid :: "ledger \<Rightarrow> bool" where
  "ledger_valid a = (\<exists>c. validate_commercial_account a = Inr c)"

lemma check_table_named:
  assumes "check_table a c rows named = Inr u" "r \<in> set rows" "(f, v) \<in> set (named r)"
  shows "0 \<le> v"
proof -
  have "check_row a c r (named r) = Inr ()" using assms(1,2) by (auto simp: check_table_def res_simps)
  then have "check_amounts (lr_id r) (map (\<lambda>(f, v). (f, Some v)) (named r) @ lr_other_amounts r) = Inr ()"
    by (simp add: check_row_def res_simps)
  then have "\<forall>x\<in>set (named r). 0 \<le> snd x"
    by (simp add: check_amounts_def each_Inr ball_Un case_prod_unfold require_Inr)
  then show ?thesis using assms(3) by force
qed

lemma check_table_distinct: "check_table a c rows named = Inr u \<Longrightarrow> distinct (map lr_id rows)"
  by (auto simp: check_table_def res_simps)

lemma valid_checks:
  assumes "ledger_valid a"
  shows "check_tables a = Inr ()" "\<forall>l\<in>set (la_order_lines a). check_line_balance a l = Inr ()"
    "check_acceptances a [] (la_acceptances a) = Inr ()" "check_revenues a [] (la_revenue_events a) = Inr ()"
    "check_payments a [] (la_payments a) = Inr ()"
    "check_months a None (sort_key mo_period (la_monthly_commercial_history a)) = Inr ()"
    "check_ttm a (sort_key mo_period (la_monthly_commercial_history a)) = Inr ()"
proof -
  obtain c where "validate_commercial_account a = Inr c" using assms by (auto simp: ledger_valid_def)
  then show "check_tables a = Inr ()" "\<forall>l\<in>set (la_order_lines a). check_line_balance a l = Inr ()"
    "check_acceptances a [] (la_acceptances a) = Inr ()" "check_revenues a [] (la_revenue_events a) = Inr ()"
    "check_payments a [] (la_payments a) = Inr ()"
    "check_months a None (sort_key mo_period (la_monthly_commercial_history a)) = Inr ()"
    "check_ttm a (sort_key mo_period (la_monthly_commercial_history a)) = Inr ()"
    unfolding validate_commercial_account_def Let_def bind_r_Inr in_order_Inr
    by (simp_all add: each_Inr)
qed

lemma valid_tables:
  assumes "ledger_valid a"
  shows "distinct (map lr_id (la_order_lines a))" "distinct (map lr_id (la_orders a))"
    "distinct (map lr_id (la_shipments a))" "distinct (map lr_id (la_acceptances a))" "distinct (map lr_id (la_invoices a))"
    and "\<And>r. r \<in> set (la_shipments a) \<Longrightarrow> 0 \<le> sh_quantity r"
    and "\<And>r. r \<in> set (la_cancellations a) \<Longrightarrow> 0 \<le> cn_quantity r"
    and "\<And>r. r \<in> set (la_acceptances a) \<Longrightarrow> 0 \<le> ac_quantity r"
    and "\<And>r. r \<in> set (la_order_lines a) \<Longrightarrow> 0 \<le> ol_unit_price_minor r"
    and "\<And>r. r \<in> set (la_revenue_events a) \<Longrightarrow> 0 \<le> re_revenue_minor r"
    and "\<And>r. r \<in> set (la_payments a) \<Longrightarrow> 0 \<le> pt_amount_minor r"
    and "\<And>r. r \<in> set (la_invoices a) \<Longrightarrow> 0 \<le> iv_amount_minor r"
proof -
  have t: "check_table a ''order_lines'' (la_order_lines a) (\<lambda>r. [(''quantity'', ol_quantity r),
        (''unit_price_minor'', ol_unit_price_minor r), (''unit_cost_minor'', ol_unit_cost_minor r),
        (''line_total_minor'', ol_line_total_minor r)]) = Inr ()"
    "check_table a ''orders'' (la_orders a) (\<lambda>r. [(''total_minor'', or_total_minor r)]) = Inr ()"
    "check_table a ''shipments'' (la_shipments a) (\<lambda>r. [(''quantity'', sh_quantity r), (''value_minor'', sh_value_minor r)]) = Inr ()"
    "check_table a ''cancellations'' (la_cancellations a) (\<lambda>r. [(''quantity'', cn_quantity r), (''value_minor'', cn_value_minor r)]) = Inr ()"
    "check_table a ''acceptances'' (la_acceptances a) (\<lambda>r. [(''quantity'', ac_quantity r)]) = Inr ()"
    "check_table a ''revenue_events'' (la_revenue_events a) (\<lambda>r. [(''quantity'', re_quantity r),
        (''revenue_minor'', re_revenue_minor r), (''cost_minor'', re_cost_minor r)]) = Inr ()"
    "check_table a ''invoices'' (la_invoices a) (\<lambda>r. [(''amount_minor'', iv_amount_minor r)]) = Inr ()"
    "check_table a ''payments'' (la_payments a) (\<lambda>r. [(''amount_minor'', pt_amount_minor r)]) = Inr ()"
    using valid_checks(1)[OF assms] unfolding check_tables_def in_order_Inr by simp_all
  show "distinct (map lr_id (la_order_lines a))" "distinct (map lr_id (la_orders a))"
    "distinct (map lr_id (la_shipments a))" "distinct (map lr_id (la_acceptances a))" "distinct (map lr_id (la_invoices a))"
    using t[THEN check_table_distinct] by blast+
  show "\<And>r. r \<in> set (la_shipments a) \<Longrightarrow> 0 \<le> sh_quantity r"
    "\<And>r. r \<in> set (la_cancellations a) \<Longrightarrow> 0 \<le> cn_quantity r"
    "\<And>r. r \<in> set (la_acceptances a) \<Longrightarrow> 0 \<le> ac_quantity r"
    "\<And>r. r \<in> set (la_order_lines a) \<Longrightarrow> 0 \<le> ol_unit_price_minor r"
    "\<And>r. r \<in> set (la_revenue_events a) \<Longrightarrow> 0 \<le> re_revenue_minor r"
    "\<And>r. r \<in> set (la_payments a) \<Longrightarrow> 0 \<le> pt_amount_minor r"
    "\<And>r. r \<in> set (la_invoices a) \<Longrightarrow> 0 \<le> iv_amount_minor r"
    using t[THEN check_table_named] by fastforce+
qed

text \<open>The running totals of acceptances and payments bound the full totals.\<close>

lemma check_acceptances_bound:
  assumes "check_acceptances a acc rows = Inr ()" "ref ''shipments'' (la_shipments a) sid = Inr s"
    "\<exists>r\<in>set rows. ac_shipment_id r = sid" "\<And>r. r \<in> set rows \<Longrightarrow> 0 \<le> ac_quantity r"
  shows "default_to (dget acc sid) 0 + accepted_for rows sid \<le> sh_quantity s"
  using assms
proof (induction rows arbitrary: acc)
  case (Cons row rows)
  let ?acc = "dset (ac_shipment_id row) (default_to (dget acc (ac_shipment_id row)) 0 + ac_quantity row) acc"
  obtain s' where s': "ref ''shipments'' (la_shipments a) (ac_shipment_id row) = Inr s'"
    and here: "default_to (dget ?acc (ac_shipment_id row)) 0 \<le> sh_quantity s'"
    and rest: "check_acceptances a ?acc rows = Inr ()"
    using Cons.prems(1) by (auto simp: res_simps Let_def)
  show ?case
  proof (cases "\<exists>r\<in>set rows. ac_shipment_id r = sid")
    case True
    then have "default_to (dget ?acc sid) 0 + accepted_for rows sid \<le> sh_quantity s"
      using Cons.IH[OF rest Cons.prems(2)] Cons.prems(4) by simp
    then show ?thesis by (auto simp: dict_simps accepted_for_def)
  next
    case False
    then have row: "ac_shipment_id row = sid" using Cons.prems(3) by auto
    have "accepted_for rows sid = 0" using False by (auto simp: accepted_for_def filter_empty_conv intro: sum_list_0)
    then have z: "(\<Sum>r\<leftarrow>filter (\<lambda>r. ac_shipment_id r = sid) rows. ac_quantity r) = 0" by (simp add: accepted_for_def)
    have "s' = s" using s' Cons.prems(2) row by simp
    then show ?thesis using here row z by (simp add: dict_simps accepted_for_def)
  qed
qed simp

lemma check_payments_bound:
  assumes "check_payments a acc rows = Inr ()" "ref ''invoices'' (la_invoices a) i = Inr ivc"
    "\<exists>r\<in>set rows. pt_invoice_id r = i"
  shows "default_to (dget acc i) 0 + (\<Sum>r\<leftarrow>filter (\<lambda>r. pt_invoice_id r = i) rows. pt_amount_minor r) \<le> iv_amount_minor ivc"
  using assms
proof (induction rows arbitrary: acc)
  case (Cons row rows)
  let ?acc = "dset (pt_invoice_id row) (default_to (dget acc (pt_invoice_id row)) 0 + pt_amount_minor row) acc"
  obtain v where v: "ref ''invoices'' (la_invoices a) (pt_invoice_id row) = Inr v"
    and here: "default_to (dget ?acc (pt_invoice_id row)) 0 \<le> iv_amount_minor v"
    and rest: "check_payments a ?acc rows = Inr ()"
    using Cons.prems(1) by (auto simp: res_simps Let_def)
  show ?case
  proof (cases "\<exists>r\<in>set rows. pt_invoice_id r = i")
    case True
    then have "default_to (dget ?acc i) 0 + (\<Sum>r\<leftarrow>filter (\<lambda>r. pt_invoice_id r = i) rows. pt_amount_minor r) \<le> iv_amount_minor ivc"
      using Cons.IH[OF rest Cons.prems(2)] by simp
    then show ?thesis by (auto simp: dict_simps)
  next
    case False
    then have row: "pt_invoice_id row = i" using Cons.prems(3) by auto
    have z: "filter (\<lambda>r. pt_invoice_id r = i) rows = []" using False by (auto simp: filter_empty_conv)
    have "v = ivc" using v Cons.prems(2) row by simp
    then show ?thesis using here row z by (simp add: dict_simps)
  qed
qed simp

lemma check_revenues_facts:
  assumes "check_revenues a seen rows = Inr ()"
  shows "distinct (map re_acceptance_id rows) \<and> set (map re_acceptance_id rows) \<inter> set seen = {}
    \<and> (\<forall>r\<in>set rows. \<exists>acc s line. ref ''acceptances'' (la_acceptances a) (re_acceptance_id r) = Inr acc
        \<and> ref ''shipments'' (la_shipments a) (ac_shipment_id acc) = Inr s
        \<and> ref ''order_lines'' (la_order_lines a) (re_order_line_id r) = Inr line
        \<and> sh_order_line_id s = re_order_line_id r \<and> re_quantity r = ac_quantity acc
        \<and> re_recognized_date r = ac_accepted_date acc \<and> re_revenue_minor r = re_quantity r * ol_unit_price_minor line)"
  using assms
proof (induction rows arbitrary: seen)
  case (Cons row rows)
  obtain acc s line where f: "ref ''acceptances'' (la_acceptances a) (re_acceptance_id row) = Inr acc"
      "ref ''shipments'' (la_shipments a) (ac_shipment_id acc) = Inr s"
      "ref ''order_lines'' (la_order_lines a) (re_order_line_id row) = Inr line"
      "re_acceptance_id row \<notin> set seen" "sh_order_line_id s = re_order_line_id row" "re_quantity row = ac_quantity acc"
      "re_recognized_date row = ac_accepted_date acc" "re_revenue_minor row = re_quantity row * ol_unit_price_minor line"
    and rest: "check_revenues a (re_acceptance_id row # seen) rows = Inr ()"
    using Cons.prems by (auto simp: res_simps)
  show ?case using Cons.IH[OF rest] f by auto
qed simp


section \<open>A line at a date\<close>

lemma accepted_for_nonneg: "(\<And>r. r \<in> set rows \<Longrightarrow> 0 \<le> ac_quantity r) \<Longrightarrow> 0 \<le> accepted_for rows sid"
  unfolding accepted_for_def by (rule sum_list_nonneg) auto

lemma shipment_accepted:
  assumes "ledger_valid a" "s \<in> set (la_shipments a)"
  shows "accepted_for (la_acceptances a) (lr_id s) \<le> sh_quantity s"
proof (cases "\<exists>r\<in>set (la_acceptances a). ac_shipment_id r = lr_id s")
  case True
  have "ref ''shipments'' (la_shipments a) (lr_id s) = Inr s"
    by (rule ref_unique[OF valid_tables(3)[OF assms(1)] assms(2)])
  then show ?thesis
    using check_acceptances_bound[OF valid_checks(3)[OF assms(1)] _ True valid_tables(8)[OF assms(1)]] by simp
next
  case False
  then have "accepted_for (la_acceptances a) (lr_id s) = 0"
    by (auto simp: accepted_for_def filter_empty_conv intro: sum_list_0)
  then show ?thesis using valid_tables(6)[OF assms(1,2)] by simp
qed

lemma line_accepted_le_shipped:
  assumes "ledger_valid a"
  shows "(\<Sum>r\<leftarrow>line_acceptances a t lid. ac_quantity r) \<le> (\<Sum>r\<leftarrow>line_shipments a t lid. sh_quantity r)"
proof -
  let ?S = "line_shipments a t lid" and ?A = "la_acceptances a"
  have sub: "set ?S \<subseteq> set (la_shipments a)" by (auto simp: line_shipments_def)
  have ids: "distinct (map lr_id ?S)"
    using valid_tables(3)[OF assms] by (simp add: line_shipments_def distinct_map_filter)
  have "(\<Sum>r\<leftarrow>line_acceptances a t lid. ac_quantity r)
      \<le> (\<Sum>r\<leftarrow>filter (\<lambda>r. ac_shipment_id r \<in> set (map lr_id ?S)) ?A. ac_quantity r)"
    unfolding line_acceptances_def by (rule sum_filter_le) (use valid_tables(8)[OF assms] in auto)
  also have "\<dots> = (\<Sum>i\<leftarrow>map lr_id ?S. accepted_for ?A i)"
    unfolding accepted_for_def by (rule sum_by_key[OF ids])
  also have "\<dots> \<le> (\<Sum>r\<leftarrow>?S. sh_quantity r)"
    unfolding map_map comp_def by (rule sum_list_le_map) (use shipment_accepted[OF assms] sub in blast)
  finally show ?thesis .
qed

lemma line_balance:
  assumes "ledger_valid a" "line \<in> set (la_order_lines a)"
  shows "(\<Sum>r\<leftarrow>line_shipments a t (lr_id line). sh_quantity r) + (\<Sum>r\<leftarrow>line_cancellations a t (lr_id line). cn_quantity r)
      \<le> ol_quantity line"
proof -
  have "(\<Sum>r\<leftarrow>line_shipments a t (lr_id line). sh_quantity r) \<le> shipped_of a (lr_id line)"
    unfolding line_shipments_def shipped_of_def by (rule sum_filter_le) (use valid_tables(6)[OF assms(1)] in auto)
  moreover have "(\<Sum>r\<leftarrow>line_cancellations a t (lr_id line). cn_quantity r) \<le> cancelled_of a (lr_id line)"
    unfolding line_cancellations_def cancelled_of_def by (rule sum_filter_le) (use valid_tables(7)[OF assms(1)] in auto)
  moreover have "shipped_of a (lr_id line) + cancelled_of a (lr_id line) \<le> ol_quantity line"
    using valid_checks(2)[OF assms(1)] assms(2) by (auto simp: check_line_balance_def res_simps)
  ultimately show ?thesis by linarith
qed

text \<open>Recognized revenue is the price of distinct accepted quantities of the same line.\<close>

lemma line_revenue_bound:
  assumes v: "ledger_valid a" and line: "line \<in> set (la_order_lines a)"
  shows "(\<Sum>r\<leftarrow>line_revenues a t (lr_id line). re_revenue_minor r)
    \<le> (\<Sum>r\<leftarrow>line_acceptances a t (lr_id line). ac_quantity r) * ol_unit_price_minor line"
proof -
  let ?R = "line_revenues a t (lr_id line)" and ?A = "line_acceptances a t (lr_id line)"
  let ?q = "\<lambda>i. case ref ''acceptances'' (la_acceptances a) i of Inl _ \<Rightarrow> 0 | Inr acc \<Rightarrow> ac_quantity acc * ol_unit_price_minor line"
  note facts = check_revenues_facts[OF valid_checks(4)[OF v]]
  have price: "0 \<le> ol_unit_price_minor line" by (rule valid_tables(9)[OF v line])
  have A: "acc \<in> set ?A \<Longrightarrow> acc \<in> set (la_acceptances a)" for acc by (auto simp: line_acceptances_def)
  have acc_ref: "acc \<in> set (la_acceptances a) \<Longrightarrow> ref c (la_acceptances a) (lr_id acc) = Inr acc" for acc c
    by (rule ref_unique[OF valid_tables(4)[OF v]])
  have rev: "re_revenue_minor r = ?q (re_acceptance_id r)" if r: "r \<in> set ?R" for r
  proof -
    obtain acc s l where f: "ref ''acceptances'' (la_acceptances a) (re_acceptance_id r) = Inr acc"
        "ref ''shipments'' (la_shipments a) (ac_shipment_id acc) = Inr s"
        "ref ''order_lines'' (la_order_lines a) (re_order_line_id r) = Inr l"
        "sh_order_line_id s = re_order_line_id r" "re_quantity r = ac_quantity acc"
        "re_revenue_minor r = re_quantity r * ol_unit_price_minor l"
      using facts r by (fastforce simp: line_revenues_def)
    obtain acc' where acc': "acc' \<in> set ?A" "lr_id acc' = re_acceptance_id r" using r by (auto simp: line_revenues_def)
    have "acc' = acc" using acc_ref[OF A[OF acc'(1)]] f(1) acc'(2) by simp
    then obtain s' where s': "s' \<in> set (la_shipments a)" "lr_id s' = ac_shipment_id acc" "sh_order_line_id s' = lr_id line"
      using acc'(1) by (auto simp: line_acceptances_def line_shipments_def)
    have "s' = s" using ref_unique[OF valid_tables(3)[OF v] s'(1), of "''shipments''"] f(2) s'(2) by simp
    then have "re_order_line_id r = lr_id line" using f(4) s'(3) by simp
    then have "l = line" using f(3) ref_unique[OF valid_tables(1)[OF v] line, of "''order_lines''"] by simp
    then show ?thesis using f by simp
  qed
  have dR: "distinct (map re_acceptance_id ?R)"
    using facts by (simp add: line_revenues_def distinct_map_filter)
  have dA: "distinct (map lr_id ?A)"
    using valid_tables(4)[OF v] by (simp add: line_acceptances_def distinct_map_filter)
  have "(\<Sum>r\<leftarrow>?R. re_revenue_minor r) = (\<Sum>i\<leftarrow>map re_acceptance_id ?R. ?q i)"
    unfolding map_map comp_def by (rule arg_cong[where f = sum_list], rule map_cong[OF refl rev])
  also have "\<dots> \<le> (\<Sum>i\<leftarrow>map lr_id ?A. ?q i)"
  proof (rule sum_distinct_le[OF dR dA])
    show "set (map re_acceptance_id ?R) \<subseteq> set (map lr_id ?A)" by (auto simp: line_revenues_def)
    show "0 \<le> ?q j" if "j \<in> set (map lr_id ?A)" for j
      using that acc_ref valid_tables(8)[OF v] A price by (auto intro: mult_nonneg_nonneg)
  qed
  also have "\<dots> = (\<Sum>r\<leftarrow>?A. ac_quantity r * ol_unit_price_minor line)"
    unfolding map_map comp_def by (rule arg_cong[where f = sum_list], rule map_cong[OF refl]) (simp add: acc_ref A)
  also have "\<dots> = (\<Sum>r\<leftarrow>?A. ac_quantity r) * ol_unit_price_minor line"
    by (simp add: sum_list_mult_const)
  finally show ?thesis .
qed

lemma known_lines_succeed:
  "(\<And>l. l \<in> set ls \<Longrightarrow> \<exists>r\<in>set (la_orders a). lr_id r = ol_order_id l) \<Longrightarrow>
     \<exists>ks. known_lines a t ls = Inr ks \<and> set ks \<subseteq> set ls"
proof (induction ls)
  case (Cons l ls)
  obtain ks where ks: "known_lines a t ls = Inr ks" "set ks \<subseteq> set ls" using Cons by auto
  obtain r where "first_match (\<lambda>r. lr_id r = ol_order_id l) (rev (la_orders a)) = Some r"
    using Cons.prems[of l] by (cases "first_match (\<lambda>r. lr_id r = ol_order_id l) (rev (la_orders a))") auto
  then show ?case using ks by (auto simp: ordered_by_def)
qed simp

section \<open>Months\<close>

lemma check_months_roll:
  assumes "check_months a c ms = Inr ()" "ms \<noteq> []"
  shows "mo_closing_backlog_minor (last ms) = mo_opening_backlog_minor (hd ms) + (\<Sum>m\<leftarrow>ms. mo_bookings_minor m)
     - (\<Sum>m\<leftarrow>ms. mo_cancellations_minor m) - (\<Sum>m\<leftarrow>ms. mo_shipments_minor m)
    \<and> (case c of None \<Rightarrow> True | Some x \<Rightarrow> x = mo_opening_backlog_minor (hd ms))"
  using assms
proof (induction ms arbitrary: c)
  case (Cons m ms)
  have m: "mo_opening_backlog_minor m + mo_bookings_minor m - mo_cancellations_minor m - mo_shipments_minor m = mo_closing_backlog_minor m"
    "case c of None \<Rightarrow> True | Some x \<Rightarrow> x = mo_opening_backlog_minor m"
    and rest: "check_months a (Some (mo_closing_backlog_minor m)) ms = Inr ()"
    using Cons.prems(1) by (auto simp: res_simps check_month_def split: option.splits)
  show ?case
  proof (cases ms)
    case Nil
    then show ?thesis using m by (cases c) simp_all
  next
    case (Cons m' ms')
    then show ?thesis using Cons.IH[OF rest] m by (cases c) simp_all
  qed
qed simp


section \<open>Properties\<close>

definition demo_row :: "string \<Rightarrow> ledger_row" where
  "demo_row i = \<lparr>lr_id = i, lr_currency = None, lr_account_id = None, lr_other_amounts = []\<rparr>"

definition demo_day :: date where
  "demo_day = Date 2026 1 10"

definition demo_line :: order_line where
  "demo_line = \<lparr>lr_id = ''ol1'', lr_currency = None, lr_account_id = None, lr_other_amounts = [], ol_order_id = ''o1'',
     ol_component_id = ''c1'', ol_program_id = ''p1'', ol_business_unit_id = ''b1'', ol_quantity = 10,
     ol_unit_price_minor = 5, ol_unit_cost_minor = 3, ol_line_total_minor = 50, ol_committed_date = Some demo_day\<rparr>"

definition demo_month :: month_row where
  "demo_month = \<lparr>lr_id = ''m1'', lr_currency = None, lr_account_id = None, lr_other_amounts = [], mo_period = ''2026-01'',
     mo_opening_backlog_minor = 7, mo_bookings_minor = 50, mo_cancellations_minor = 0, mo_shipments_minor = 30,
     mo_closing_backlog_minor = 27, mo_revenue_minor = 20, mo_cost_of_revenue_minor = 12,
     mo_allocations = [\<lparr>bu_revenue_minor = 20, bu_bookings_minor = 50, bu_shipments_minor = 30\<rparr>]\<rparr>"

definition demo_ledger :: ledger where
  "demo_ledger = \<lparr>la_account_id = ''acct'', la_public_events = False, la_currency = ''USD'', la_as_of = Date 2026 1 31,
     la_programs = [], la_components = [demo_row ''c1''], la_role_targets = [], la_rfqs = [demo_row ''r1''],
     la_quotes = [\<lparr>lr_id = ''q1'', lr_currency = None, lr_account_id = None, lr_other_amounts = [],
       qr_rfq_id = ''r1'', qr_current_revision_id = ''v1''\<rparr>],
     la_quote_revisions = [\<lparr>lr_id = ''v1'', lr_currency = None, lr_account_id = None, lr_other_amounts = [],
       rv_quote_id = ''q1'', rv_line_ids = [''ql1''], rv_total_minor = 50, rv_supersedes_revision_id = None,
       rv_revision_number = 1, rv_issued_date = Date 2026 1 2\<rparr>],
     la_quote_lines = [\<lparr>lr_id = ''ql1'', lr_currency = None, lr_account_id = None, lr_other_amounts = [],
       ql_quote_revision_id = ''v1'', ql_component_id = ''c1'', ql_quantity = 10, ql_unit_price_minor = 5,
       ql_line_total_minor = 50\<rparr>],
     la_agreements = [],
     la_orders = [\<lparr>lr_id = ''o1'', lr_currency = None, lr_account_id = None, lr_other_amounts = [], or_quote_id = ''q1'',
       or_accepted_quote_revision_id = ''v1'', or_ordered_date = Date 2026 1 5, or_line_ids = [''ol1''],
       or_total_minor = 50, or_agreement_id = None\<rparr>],
     la_order_lines = [demo_line], la_cancellations = [],
     la_shipments = [\<lparr>lr_id = ''s1'', lr_currency = None, lr_account_id = None, lr_other_amounts = [],
       sh_order_line_id = ''ol1'', sh_quantity = 6, sh_value_minor = 30, sh_shipped_date = Date 2026 1 12\<rparr>],
     la_acceptances = [\<lparr>lr_id = ''a1'', lr_currency = None, lr_account_id = None, lr_other_amounts = [],
       ac_shipment_id = ''s1'', ac_quantity = 4, ac_accepted_date = Date 2026 1 15\<rparr>],
     la_revenue_events = [\<lparr>lr_id = ''e1'', lr_currency = None, lr_account_id = None, lr_other_amounts = [],
       re_acceptance_id = ''a1'', re_order_line_id = ''ol1'', re_quantity = 4, re_recognized_date = Date 2026 1 15,
       re_revenue_minor = 20, re_cost_minor = 12\<rparr>],
     la_invoices = [\<lparr>lr_id = ''i1'', lr_currency = None, lr_account_id = None, lr_other_amounts = [],
       iv_revenue_event_id = ''e1'', iv_amount_minor = 20, iv_invoice_date = Date 2026 1 16\<rparr>],
     la_payments = [\<lparr>lr_id = ''p1'', lr_currency = None, lr_account_id = None, lr_other_amounts = [],
       pt_invoice_id = ''i1'', pt_amount_minor = 15, pt_paid_date = Date 2026 1 20\<rparr>],
     la_service_events = [], la_interactions = [], la_opportunities = [], la_actions = [],
     la_monthly_commercial_history = [demo_month], la_fulfillment_plans = [],
     la_ttm_summary = \<lparr>tt_revenue_minor = 20, tt_bookings_minor = 50, tt_shipments_minor = 30,
       tt_cancellations_minor = 0, tt_cost_of_revenue_minor = 12, tt_gross_margin_minor = 8,
       tt_accounts_receivable_minor = 5\<rparr>\<rparr>"

lemma demo_ledger_valid: "ledger_valid demo_ledger"
proof -
  have "validate_commercial_account demo_ledger = Inr (ledger_counts demo_ledger)" by code_simp
  then show ?thesis by (auto simp: ledger_valid_def)
qed

text \<open>
  C21. On a validated ledger the lifecycle calculation never fails, at any date, and every line it reports
  adds up: what was ordered is what was shipped, cancelled and remains, none of them negative; acceptance
  never exceeds shipment; and the recognized revenue is at most the accepted quantity at the line's price.
\<close>

theorem validated_lifecycle_consistent:
  assumes "validate_commercial_account a = Inr counts"
  shows "\<exists>f. fulfillment_state a aid revision as_of = Inr f \<and> (\<forall>l\<in>set (fs_lines f).
     ls_ordered_quantity l = ls_shipped_quantity l + ls_cancelled_quantity l + ls_remaining_quantity l
     \<and> 0 \<le> ls_cancelled_quantity l \<and> 0 \<le> ls_remaining_quantity l
     \<and> 0 \<le> ls_accepted_quantity l \<and> ls_accepted_quantity l \<le> ls_shipped_quantity l
     \<and> 0 \<le> ls_shipped_unaccepted_value_minor l
     \<and> (\<exists>line\<in>set (la_order_lines a). lr_id line = ls_order_line_id l \<and> 0 \<le> ls_recognized_revenue_minor l
         \<and> ls_recognized_revenue_minor l \<le> ls_accepted_quantity l * ol_unit_price_minor line))"
proof -
  have v: "ledger_valid a" using assms by (auto simp: ledger_valid_def)
  let ?t = "effective_as_of a as_of"
  have "\<exists>r\<in>set (la_orders a). lr_id r = ol_order_id l" if "l \<in> set (sort_key lr_id (la_order_lines a))" for l
    using valid_checks(2)[OF v] that by (auto simp: check_line_balance_def res_simps dest!: ref_Inr)
  then obtain ks where ks: "known_lines a ?t (sort_key lr_id (la_order_lines a)) = Inr ks"
      "set ks \<subseteq> set (sort_key lr_id (la_order_lines a))"
    using known_lines_succeed by blast
  have sub: "set ks \<subseteq> set (la_order_lines a)" using ks(2) by simp
  obtain f where f: "fulfillment_state a aid revision as_of = Inr f" "fs_lines f = map (line_state_at a ?t) ks"
    by (simp add: fulfillment_state_def ks Let_def)
  have "ls_ordered_quantity l = ls_shipped_quantity l + ls_cancelled_quantity l + ls_remaining_quantity l
     \<and> 0 \<le> ls_cancelled_quantity l \<and> 0 \<le> ls_remaining_quantity l
     \<and> 0 \<le> ls_accepted_quantity l \<and> ls_accepted_quantity l \<le> ls_shipped_quantity l
     \<and> 0 \<le> ls_shipped_unaccepted_value_minor l
     \<and> (\<exists>line\<in>set (la_order_lines a). lr_id line = ls_order_line_id l \<and> 0 \<le> ls_recognized_revenue_minor l
         \<and> ls_recognized_revenue_minor l \<le> ls_accepted_quantity l * ol_unit_price_minor line)"
    if "l \<in> set (fs_lines f)" for l
  proof -
    have "l \<in> line_state_at a ?t ` set ks" using that f(2) by simp
    then obtain line where line: "line \<in> set (la_order_lines a)" and l: "l = line_state_at a ?t line"
      using sub by blast
    let ?sh = "\<Sum>r\<leftarrow>line_shipments a ?t (lr_id line). sh_quantity r"
    let ?cn = "\<Sum>r\<leftarrow>line_cancellations a ?t (lr_id line). cn_quantity r"
    let ?ac = "\<Sum>r\<leftarrow>line_acceptances a ?t (lr_id line). ac_quantity r"
    have cn: "0 \<le> ?cn" by (rule sum_list_nonneg) (use valid_tables(7)[OF v] in \<open>auto simp: line_cancellations_def\<close>)
    have ac: "0 \<le> ?ac" by (rule sum_list_nonneg) (use valid_tables(8)[OF v] in \<open>auto simp: line_acceptances_def\<close>)
    have rev: "0 \<le> (\<Sum>r\<leftarrow>line_revenues a ?t (lr_id line). re_revenue_minor r)"
      by (rule sum_list_nonneg) (use valid_tables(10)[OF v] in \<open>auto simp: line_revenues_def\<close>)
    have val: "0 \<le> (?sh - ?ac) * ol_unit_price_minor line"
      using line_accepted_le_shipped[OF v] valid_tables(9)[OF v line] by simp
    show ?thesis
      using cn ac rev val line line_balance[OF v line, of ?t] line_accepted_le_shipped[OF v, of ?t "lr_id line"]
        line_revenue_bound[OF v line, of ?t]
      unfolding l by (auto simp: line_state_at_def Let_def)
  qed
  then show ?thesis using f(1) by blast
qed

theorem validated_lifecycle_consistent_witness:
  "\<exists>f. fulfillment_state demo_ledger ''acct'' ''r'' None = Inr f \<and>
     (\<forall>l\<in>set (fs_lines f). ls_accepted_quantity l \<le> ls_shipped_quantity l)
     \<and> map ls_remaining_quantity (fs_lines f) = [4]"
proof -
  obtain c where "validate_commercial_account demo_ledger = Inr c" using demo_ledger_valid by (auto simp: ledger_valid_def)
  from validated_lifecycle_consistent[OF this, of "''acct''" "''r''" None] obtain f where
    f: "fulfillment_state demo_ledger ''acct'' ''r'' None = Inr f"
      "\<forall>l\<in>set (fs_lines f). ls_accepted_quantity l \<le> ls_shipped_quantity l" by blast
  have "map_sum (\<lambda>_. ()) (\<lambda>f. map ls_remaining_quantity (fs_lines f)) (fulfillment_state demo_ledger ''acct'' ''r'' None)
      = Inr [4]" by code_simp
  then show ?thesis using f by simp
qed

text \<open>
  C14. A validated ledger balances: the closing backlog rolls forward from the first opening through the
  twelve-month bookings, cancellations and shipments; no invoice is paid above its amount, so the receivables
  are not negative; and no acceptance is recognized twice.
\<close>

theorem validated_ledger_balances:
  assumes "validate_commercial_account a = Inr counts"
  defines "months \<equiv> sort_key mo_period (la_monthly_commercial_history a)" and "ttm \<equiv> la_ttm_summary a"
  shows "(months \<noteq> [] \<longrightarrow> mo_closing_backlog_minor (last months) = mo_opening_backlog_minor (hd months)
        + tt_bookings_minor ttm - tt_cancellations_minor ttm - tt_shipments_minor ttm)
    \<and> (\<forall>r\<in>set (la_invoices a). paid_of a (lr_id r) \<le> iv_amount_minor r)
    \<and> 0 \<le> tt_accounts_receivable_minor ttm
    \<and> distinct (map re_acceptance_id (la_revenue_events a))"
proof -
  have v: "ledger_valid a" using assms(1) by (auto simp: ledger_valid_def)
  have ttm: "(\<Sum>m\<leftarrow>months. mo_bookings_minor m) = tt_bookings_minor ttm"
    "(\<Sum>m\<leftarrow>months. mo_shipments_minor m) = tt_shipments_minor ttm"
    "(\<Sum>m\<leftarrow>months. mo_cancellations_minor m) = tt_cancellations_minor ttm"
    "(\<Sum>r\<leftarrow>la_invoices a. iv_amount_minor r - paid_of a (lr_id r)) = tt_accounts_receivable_minor ttm"
    using valid_checks(7)[OF v] by (simp_all add: check_ttm_def Let_def res_simps months_def ttm_def)
  have roll: "months \<noteq> [] \<Longrightarrow> mo_closing_backlog_minor (last months) = mo_opening_backlog_minor (hd months)
        + tt_bookings_minor ttm - tt_cancellations_minor ttm - tt_shipments_minor ttm"
    using check_months_roll[OF valid_checks(6)[OF v]] ttm unfolding months_def by simp
  have paid: "paid_of a (lr_id r) \<le> iv_amount_minor r" if "r \<in> set (la_invoices a)" for r
  proof (cases "\<exists>p\<in>set (la_payments a). pt_invoice_id p = lr_id r")
    case True
    then show ?thesis
      using check_payments_bound[OF valid_checks(5)[OF v] ref_unique[OF valid_tables(5)[OF v] that]]
      by (simp add: paid_of_def)
  next
    case False
    then have "filter (\<lambda>p. pt_invoice_id p = lr_id r) (la_payments a) = []" by (auto simp: filter_empty_conv)
    then show ?thesis using valid_tables(12)[OF v that] by (simp add: paid_of_def)
  qed
  have "0 \<le> (\<Sum>r\<leftarrow>la_invoices a. iv_amount_minor r - paid_of a (lr_id r))"
    by (rule sum_list_nonneg) (use paid in auto)
  then show ?thesis using roll paid ttm(4) check_revenues_facts[OF valid_checks(4)[OF v]] by auto
qed

theorem validated_ledger_balances_witness:
  "0 \<le> tt_accounts_receivable_minor (la_ttm_summary demo_ledger)
     \<and> distinct (map re_acceptance_id (la_revenue_events demo_ledger))"
proof -
  obtain c where "validate_commercial_account demo_ledger = Inr c" using demo_ledger_valid by (auto simp: ledger_valid_def)
  from validated_ledger_balances[OF this] show ?thesis by blast
qed

end
