(* ===== verification/PublicRules.thy ===== *)
theory PublicRules
  imports Json_Read
begin

text \<open>
  The normative public-evidence bins of \<^verbatim>\<open>modules/scoring/public_rules.py\<close>.
  The facts of an event are an untyped dictionary.
\<close>

definition SOURCE_POINTS :: "(string \<times> int) list" where
  "SOURCE_POINTS = [(''TIER_1_AUTHORITATIVE_STRUCTURED'', 100), (''TIER_2_AUTHORITATIVE_PUBLISHER'', 75),
     (''TIER_3_REPUTABLE_SECONDARY'', 50), (''TIER_4_DISCOVERY'', 25)]"

definition AWARD_TYPES :: "string list" where
  "AWARD_TYPES = [''CONTRACT_AWARD'', ''CONTRACT_MODIFICATION'', ''SUPPLIER_AWARD'', ''CONTRACT_REDUCTION'',
     ''PROGRAM_CANCELLATION'', ''GOVERNMENT_FUNDING'', ''GRANT_AWARD'']"

definition FACILITY_TYPES :: "string list" where
  "FACILITY_TYPES = [''FACILITY_EXPANSION'', ''CAPACITY_EXPANSION'', ''NEW_FACILITY'', ''FACILITY_CLOSURE'',
     ''WORKFORCE_REDUCTION'']"

definition FILING_TYPES :: "string list" where
  "FILING_TYPES = [''REGULATORY_APPROVAL'', ''REGULATORY_CHANGE'', ''FINANCIAL_DISTRESS'', ''EXPORT_RESTRICTION'',
     ''EARNINGS_SIGNAL'']"

definition required_fields :: "string \<Rightarrow> string list" where
  "required_fields kind =
     (if kind \<in> set AWARD_TYPES
      then [''recipient'', ''instrument_id'', ''action_type'', ''amount'', ''amount_basis'', ''effective_date'', ''work_description'']
      else if kind \<in> set FACILITY_TYPES
      then [''organization'', ''site'', ''change_type'', ''effective_date'', ''affected_operation'']
      else if kind \<in> set FILING_TYPES
      then [''legal_entity'', ''record_id'', ''event_type'', ''report_date'', ''affected_scope'']
      else [''organization'', ''event_type'', ''effective_date'', ''affected_scope''])"

definition freshness_window_hours :: "string \<Rightarrow> int" where
  "freshness_window_hours kind =
     24 * (if kind \<in> set AWARD_TYPES \<union> set FACILITY_TYPES \<union> set FILING_TYPES \<or> kind = ''EXECUTIVE_CHANGE'' then 30 else 7)"

definition freshness_points :: "rat option \<Rightarrow> int \<Rightarrow> int option" where
  "freshness_points age window =
     (case age of None \<Rightarrow> None
      | Some a \<Rightarrow>
          (if a < 0 then None
           else Some (if a \<le> of_int window / 4 then 100 else if a \<le> of_int window / 2 then 75
             else if a \<le> of_int window then 50 else 0)))"

definition share_points :: "decimal \<Rightarrow> int" where
  "share_points s = (if 50 \<le> s then 100 else if 25 \<le> s then 75 else if 10 \<le> s then 50 else if 0 < s then 25 else 0)"

definition in_percent :: "decimal \<Rightarrow> bool" where
  "in_percent s = (0 \<le> s \<and> s \<le> 100)"

definition impact_points :: "json \<Rightarrow> int option" where
  "impact_points facts =
     (let kind = j_text (j_read facts ''risk_condition'')
      in if kind \<in> {Some ''BANKRUPTCY'', Some ''LEGAL_PROHIBITION'', Some ''ENTIRE_PROGRAM_CANCELLATION''} then Some 100
         else if kind = Some ''FACILITY_CLOSURE'' then Some 75
         else case py_decimal (j_read facts ''program_reduction_percent'') of
             Some r \<Rightarrow>
               (if in_percent r then Some (if 25 \<le> r then 75 else if 10 \<le> r then 50 else if 0 < r then 25 else 0)
                else case py_decimal (j_read facts ''delay_days'') of
                    Some d \<Rightarrow> (if 0 \<le> d then Some (if 30 \<le> d then 50 else if 0 < d then 25 else 0)
                      else if kind = Some ''CONFIRMED_NO_ADVERSE_CHANGE'' then Some 0 else None)
                  | None \<Rightarrow> if kind = Some ''CONFIRMED_NO_ADVERSE_CHANGE'' then Some 0 else None)
           | None \<Rightarrow>
               (case py_decimal (j_read facts ''delay_days'') of
                  Some d \<Rightarrow> (if 0 \<le> d then Some (if 30 \<le> d then 50 else if 0 < d then 25 else 0)
                    else if kind = Some ''CONFIRMED_NO_ADVERSE_CHANGE'' then Some 0 else None)
                | None \<Rightarrow> if kind = Some ''CONFIRMED_NO_ADVERSE_CHANGE'' then Some 0 else None))"

definition materiality_share :: "json \<Rightarrow> decimal option" where
  "materiality_share facts =
     (let revenue = py_decimal (j_read facts ''affected_revenue_share_percent'');
          backlog = py_decimal (j_read facts ''affected_backlog_share_percent'');
          pursuit = py_decimal (j_read facts ''affected_pursuit_share_percent'')
      in if j_text (j_read facts ''subject_kind'') = Some ''PROSPECT'' then pursuit
         else case (revenue, backlog) of
             (Some r, Some b) \<Rightarrow> (if in_percent r \<and> in_percent b then Some (max r b) else None)
           | _ \<Rightarrow> None)"

definition BREADTH_POINTS :: "(string \<times> int) list" where
  "BREADTH_POINTS = [(''ENTERPRISE'', 100), (''MULTIPLE_BUSINESS_UNITS'', 75), (''MULTIPLE_SITES_ONE_BU'', 50),
     (''FACILITY'', 25), (''PROGRAM'', 25), (''ISOLATED_COMPONENT'', 0)]"

definition MITIGATION_POINTS :: "(string \<times> int) list" where
  "MITIGATION_POINTS = [(''REMEDY_UNAVAILABLE'', 100), (''CONFIRMED_NO_PLAN'', 75), (''PLAN_NOT_STARTED'', 50),
     (''UNDERWAY_DATED_MILESTONES'', 25), (''FULLY_MITIGATED'', 0)]"

definition risk_points :: "string \<Rightarrow> json \<Rightarrow> int option" where
  "risk_points key facts =
     (if key = ''impact'' then impact_points facts
      else if key = ''materiality''
      then (case materiality_share facts of None \<Rightarrow> None | Some s \<Rightarrow> if in_percent s then Some (share_points s) else None)
      else if key = ''imminence''
      then map_option (\<lambda>d. if d \<le> 30 then 100 else if d \<le> 90 then 75 else if d \<le> 180 then 50 else if d \<le> 365 then 25 else 0)
             (py_decimal (j_read facts ''days_until_effect''))
      else if key = ''persistence''
      then (if j_read facts ''permanent_effect'' = J_str ''true'' then Some 100
            else case py_decimal (j_read facts ''remaining_effect_days'') of
                None \<Rightarrow> None
              | Some d \<Rightarrow> (if d < 0 then None else Some (if 365 < d then 75 else if 91 \<le> d then 50 else if 0 < d then 25 else 0)))
      else if key = ''breadth'' then Option.bind (j_text (j_read facts ''risk_breadth'')) (dget BREADTH_POINTS)
      else if key = ''mitigation'' then Option.bind (j_text (j_read facts ''risk_mitigation'')) (dget MITIGATION_POINTS)
      else None)"

definition RISK_FIELDS :: "(string \<times> string list) list" where
  "RISK_FIELDS =
     [(''impact'', [''risk_condition'', ''program_reduction_percent'', ''delay_days'']),
      (''materiality'', [''affected_revenue_share_percent'', ''affected_backlog_share_percent'',
         ''affected_pursuit_share_percent'', ''subject_kind'']),
      (''imminence'', [''days_until_effect'']), (''persistence'', [''permanent_effect'', ''remaining_effect_days'']),
      (''breadth'', [''risk_breadth'']), (''mitigation'', [''risk_mitigation''])]"

section \<open>Properties\<close>

lemma table_bins:
  "list_all (\<lambda>(k, n). n \<in> {0, 25, 50, 75, 100}) BREADTH_POINTS"
  "list_all (\<lambda>(k, n). n \<in> {0, 25, 50, 75, 100}) MITIGATION_POINTS"
  by code_simp+

lemma impact_bins: "impact_points facts = Some n \<Longrightarrow> n \<in> {0, 25, 50, 75, 100}"
  by (auto simp: impact_points_def Let_def split: if_splits option.splits)

lemma impact_observed:
  "impact_points facts = Some n \<Longrightarrow> \<exists>f\<in>{''risk_condition'', ''program_reduction_percent'', ''delay_days''}. j_read facts f \<noteq> J_null"
  by (cases "j_read facts ''risk_condition'' = J_null"; cases "j_read facts ''program_reduction_percent'' = J_null";
      cases "j_read facts ''delay_days'' = J_null") (simp_all add: impact_points_def)

text \<open>
  A risk factor gets points only from the bins of the rubric and only when a field of that factor was
  observed: from facts without any of its fields no factor is scored, not even as zero.
\<close>

theorem risk_points_need_observed_fields:
  assumes "risk_points key facts = Some n"
  shows "n \<in> {0, 25, 50, 75, 100} \<and> (\<exists>fs. dget RISK_FIELDS key = Some fs \<and> (\<exists>f\<in>set fs. j_read facts f \<noteq> J_null))"
proof -
  consider "key = ''impact''" | "key = ''materiality''" | "key = ''imminence''" | "key = ''persistence''" | "key = ''breadth''"
    | "key = ''mitigation''" using assms by (auto simp: risk_points_def split: if_splits)
  then show ?thesis
  proof cases
    case 1
    then show ?thesis using assms impact_bins impact_observed[of facts n] by (simp add: risk_points_def RISK_FIELDS_def)
  next
    case 2
    have "\<exists>f\<in>{''affected_revenue_share_percent'', ''affected_backlog_share_percent'', ''affected_pursuit_share_percent''}.
        j_read facts f \<noteq> J_null"
      using assms 2 by (auto simp: risk_points_def materiality_share_def Let_def split: option.splits if_splits)
    moreover have "n \<in> {0, 25, 50, 75, 100}"
      using assms 2 by (auto simp: risk_points_def share_points_def split: option.splits if_splits)
    ultimately show ?thesis using 2 by (auto simp: RISK_FIELDS_def)
  next
    case 3
    then show ?thesis using assms by (auto simp: risk_points_def RISK_FIELDS_def split: if_splits)
  next
    case 4
    then show ?thesis using assms by (auto simp: risk_points_def RISK_FIELDS_def split: if_splits option.splits)
  next
    case 5
    then show ?thesis using assms table_bins(1)
      by (fastforce simp: risk_points_def RISK_FIELDS_def bind_eq_Some_conv list_all_iff dest: map_of_SomeD)
  next
    case 6
    then show ?thesis using assms table_bins(2)
      by (fastforce simp: risk_points_def RISK_FIELDS_def bind_eq_Some_conv list_all_iff dest: map_of_SomeD)
  qed
qed

theorem risk_points_need_observed_fields_witness:
  "risk_points ''imminence'' (J_obj [(''days_until_effect'', J_str ''45'')]) = Some 75 \<and> (75::int) \<in> {0, 25, 50, 75, 100}"
proof -
  have r: "risk_points ''imminence'' (J_obj [(''days_until_effect'', J_str ''45'')]) = Some 75" by code_simp
  show ?thesis using r risk_points_need_observed_fields[OF r] by blast
qed

end
