(* ===== verification/CommercialEvidence.thy ===== *)
theory CommercialEvidence
  imports Json_Read Families
begin

text \<open>
  ISO text as \<open>datetime.fromisoformat\<close> reads it, and the account-scoped evidence resolution of
  \<^verbatim>\<open>modules/commercial/evidence.py\<close> over the ledger as an untyped value. The
  public source catalogue (\<^verbatim>\<open>public_sources()\<close>, a data file) is the
  parameter \<open>sources\<close>.
\<close>

section \<open>ISO text\<close>

definition two_digits :: "string \<Rightarrow> int option" where
  "two_digits s = (if length s = 2 \<and> list_all is_digit s then Some (int (digits_value s)) else None)"

definition parse_date :: "string \<Rightarrow> date option" where
  \<comment> \<open>\<open>date.fromisoformat\<close> on the extended format\<close>
  "parse_date s =
     (if length s = 10 \<and> s ! 4 = CHR ''-'' \<and> s ! 7 = CHR ''-'' \<and> list_all is_digit (take 4 s)
      then case (two_digits (take 2 (drop 5 s)), two_digits (drop 8 s)) of
          (Some m, Some d) \<Rightarrow>
            (let v = Date (int (digits_value (take 4 s))) m d in if valid_date v then Some v else None)
        | _ \<Rightarrow> None
      else None)"

definition split_offset :: "string \<Rightarrow> string \<times> string" where
  \<comment> \<open>the time text and the offset text\<close>
  "split_offset s = (let p = (\<lambda>c. c \<noteq> CHR ''+'' \<and> c \<noteq> CHR ''-'' \<and> c \<noteq> CHR ''Z'')
     in (takeWhile p s, dropWhile p s))"

definition parse_offset :: "string \<Rightarrow> int option option" where
  "parse_offset s =
     (if s = [] then Some None
      else if s = ''Z'' then Some (Some 0)
      else if length s = 6 \<and> s ! 3 = CHR '':''
      then (case (two_digits (take 2 (drop 1 s)), two_digits (drop 4 s)) of
            (Some h, Some m) \<Rightarrow>
              (if h < 24 \<and> m < 60
               then Some (Some ((if hd s = CHR ''-'' then -1 else 1) * (h * 3600 + m * 60) * 1000000)) else None)
          | _ \<Rightarrow> None)
      else None)"

definition parse_clock :: "string \<Rightarrow> int option" where
  \<comment> \<open>HH:MM, HH:MM:SS, or with three or six decimals; microseconds of the day\<close>
  "parse_clock s =
     (let hm = (if 5 \<le> length s \<and> s ! 2 = CHR '':'' then (two_digits (take 2 s), two_digits (take 2 (drop 3 s))) else (None, None));
          rest = drop 5 s;
          sec = (if rest = [] then Some 0 else if hd rest = CHR '':'' then two_digits (take 2 (drop 1 rest)) else None);
          frac = drop 3 rest;
          us = (if frac = [] then Some 0
            else if hd frac = CHR ''.'' \<and> list_all is_digit (tl frac) \<and> length (tl frac) = 6 then Some (int (digits_value (tl frac)))
            else if hd frac = CHR ''.'' \<and> list_all is_digit (tl frac) \<and> length (tl frac) = 3 then Some (1000 * int (digits_value (tl frac)))
            else None)
      in case (hm, sec, us) of
          ((Some h, Some m), Some x, Some u) \<Rightarrow>
            (if h < 24 \<and> m < 60 \<and> x < 60 then Some ((h * 3600 + m * 60 + x) * 1000000 + u) else None)
        | _ \<Rightarrow> None)"

definition parse_moment :: "string \<Rightarrow> moment" where
  "parse_moment s =
     (if length s \<le> 10 then (case parse_date s of None \<Rightarrow> W_malformed | Some d \<Rightarrow> W_date d)
      else case split_offset (drop 11 s) of (clock, off) \<Rightarrow>
        (case (parse_date (take 10 s), parse_clock clock, parse_offset off) of
           (Some d, Some us, Some o') \<Rightarrow> W_datetime \<lparr>dt_local = (toordinal d - 1) * day_micros + us, dt_offset = o'\<rparr>
         | _ \<Rightarrow> W_malformed))"

definition j_moment :: "json \<Rightarrow> moment option" where
  \<comment> \<open>the argument of the business clock; a value that is neither null nor text is refused by it\<close>
  "j_moment v = (if \<not> py_truth v then None else case v of J_str s \<Rightarrow> Some (parse_moment s) | _ \<Rightarrow> Some W_malformed)"

lemma parse_moment_examples:
  "parse_moment ''2026-01-31'' = W_date (Date 2026 1 31)" "parse_moment ''2026-02-30'' = W_malformed"
  "parse_moment ''2026-01-31T10:00:00+02:00''
     = W_datetime \<lparr>dt_local = (toordinal (Date 2026 1 31) - 1) * day_micros + 36000000000, dt_offset = Some 7200000000\<rparr>"
  "parse_moment ''2026-01-31 10:00:00.250Z''
     = W_datetime \<lparr>dt_local = (toordinal (Date 2026 1 31) - 1) * day_micros + 36000250000, dt_offset = Some 0\<rparr>"
  by code_simp+

section \<open>Resolution\<close>

definition EVIDENCE_KEYS :: "(string \<times> string) list" where
  "EVIDENCE_KEYS =
     [(''programs'', ''program_id''), (''components'', ''component_id''), (''role_targets'', ''role_target_id''),
      (''rfqs'', ''rfq_id''), (''quotes'', ''quote_id''), (''quote_revisions'', ''quote_revision_id''),
      (''quote_lines'', ''quote_line_id''), (''agreements'', ''agreement_id''), (''orders'', ''order_id''),
      (''order_lines'', ''order_line_id''), (''cancellations'', ''cancellation_id''), (''shipments'', ''shipment_id''),
      (''acceptances'', ''acceptance_id''), (''revenue_events'', ''revenue_event_id''), (''invoices'', ''invoice_id''),
      (''payments'', ''payment_id''), (''service_events'', ''service_event_id''), (''interactions'', ''interaction_id''),
      (''opportunities'', ''opportunity_id''), (''actions'', ''action_id''),
      (''monthly_commercial_history'', ''snapshot_id''), (''fulfillment_plans'', ''plan_id''),
      (''contacts'', ''contact_id''), (''supply_relationships'', ''relationship_id'')]"

record resolved_evidence =
  rs_kind :: string
  rs_record_id :: string
  rs_record :: json
  rs_truth_class :: json

definition record_truth_class :: "string \<Rightarrow> string" where
  "record_truth_class collection =
     (if collection = ''contacts'' then ''PUBLIC_CONTACT_CANDIDATE''
      else if collection \<in> {''programs'', ''components'', ''supply_relationships''} then ''POC_ASSUMPTION''
      else if collection = ''role_targets'' then ''ROLE_TARGET_NOT_RESEARCHED_PERSON'' else ''POC_SCENARIO_RECORD'')"

lemma size_items [termination_simp]: "x \<in> set xs \<Longrightarrow> size x < Suc (size_list size xs)"
  by (induction xs) auto

lemma size_fields [termination_simp]:
  "kv \<in> set kvs \<Longrightarrow> size (snd kv) < Suc (size_list (size_prod (\<lambda>_. 0) size) kvs)"
  by (induction kvs) auto

fun referenced :: "string \<Rightarrow> json \<Rightarrow> bool" where
  "referenced i (J_obj kvs) =
     (J_str i \<in> set (j_items (j_read (J_obj kvs) ''source_ids'')) \<or> j_read (J_obj kvs) ''source_id'' = J_str i
      \<or> list_ex (\<lambda>kv. referenced i (snd kv)) kvs)"
| "referenced i (J_arr xs) = list_ex (referenced i) xs"
| "referenced i _ = False"

definition profile_evidence :: "json \<Rightarrow> string \<Rightarrow> string \<Rightarrow> resolved_evidence option" where
  "profile_evidence ledger rid key =
     (let r = j_read ledger key
      in if j_read r ''record_id'' = J_str rid \<and> py_truth (j_read r ''provenance'')
         then Some \<lparr>rs_kind = key, rs_record_id = rid, rs_record = r,
           rs_truth_class = j_read (j_read r ''provenance'') ''truth_class''\<rparr>
         else None)"

definition table_evidence :: "json \<Rightarrow> string \<Rightarrow> string \<times> string \<Rightarrow> resolved_evidence option" where
  "table_evidence ledger rid ck = (case ck of (collection, key) \<Rightarrow>
     map_option (\<lambda>r. \<lparr>rs_kind = collection, rs_record_id = rid, rs_record = r,
         rs_truth_class = J_str (record_truth_class collection)\<rparr>)
       (first_match (\<lambda>r. j_read r key = J_str rid) (j_items (j_read ledger collection))))"

fun first_found :: "('a \<Rightarrow> 'b option) \<Rightarrow> 'a list \<Rightarrow> 'b option" where
  "first_found f [] = None"
| "first_found f (x # xs) = (case f x of Some y \<Rightarrow> Some y | None \<Rightarrow> first_found f xs)"

definition resolve_commercial_evidence :: "(string \<Rightarrow> json option) \<Rightarrow> json \<Rightarrow> string \<Rightarrow> resolved_evidence option" where
  "resolve_commercial_evidence sources ledger rid =
     (case first_found (profile_evidence ledger rid) [''relationship_profile'', ''bu_revenue_exposure''] of
        Some e \<Rightarrow> Some e
      | None \<Rightarrow>
          (case first_found (table_evidence ledger rid) EVIDENCE_KEYS of
             Some e \<Rightarrow> Some e
           | None \<Rightarrow>
               (if referenced rid ledger
                then map_option (\<lambda>s. \<lparr>rs_kind = ''public_source'', rs_record_id = rid, rs_record = s,
                    rs_truth_class = J_str ''REVIEWED_SOURCE_METADATA_NOT_LIVE_PASSAGE''\<rparr>) (sources rid)
                else None)))"

definition record_supports :: "json \<Rightarrow> json \<Rightarrow> bool" where
  \<comment> \<open>the record names the opportunity, or its component and quote revision\<close>
  "record_supports r opp =
     (j_read r ''opportunity_id'' = j_read opp ''opportunity_id''
      \<or> j_read opp ''opportunity_id'' \<in> set (j_items (j_read r ''related_record_ids''))
      \<or> (j_read r ''component_id'' = j_read opp ''component_id''
         \<and> j_read r ''quote_revision_id'' = j_read opp ''quote_revision_id''))"

definition evidence_supports_opportunity :: "(string \<Rightarrow> json option) \<Rightarrow> json \<Rightarrow> string \<Rightarrow> json \<Rightarrow> bool" where
  "evidence_supports_opportunity sources ledger rid opp =
     (case resolve_commercial_evidence sources ledger rid of
        None \<Rightarrow> False
      | Some item \<Rightarrow>
          (let r = rs_record item in
            J_str rid = j_read opp ''opportunity_id''
            \<or> j_read r ''opportunity_id'' = j_read opp ''opportunity_id''
            \<or> j_read opp ''opportunity_id'' \<in> set (j_items (j_read r ''related_record_ids''))
            \<or> (j_read r ''component_id'' = j_read opp ''component_id''
               \<and> j_read r ''quote_revision_id'' = j_read opp ''quote_revision_id''
               \<and> py_truth (j_read opp ''quote_revision_id''))))"

end
