(* ===== verification/PursuitInputs.thy ===== *)
theory PursuitInputs
  imports CommercialEvidence
begin

text \<open>
  Evidence-linked pursuit observations, \<^verbatim>\<open>modules/scoring/pursuit_inputs.py\<close>,
  and the Qualified and Durable gates, \<^verbatim>\<open>modules/scoring/opportunity_gates.py\<close>.
  Python's \<open>str\<close> of a dictionary, kept as a factor's raw value, is the parameter \<open>render\<close>.
\<close>

section \<open>Bins\<close>

definition PURSUIT_BINS :: "(string \<times> (string \<times> int) list) list" where
  "PURSUIT_BINS =
     [(''buyer_access'', [(''DECISION_AUTHORITY_TWO_WAY'', 100), (''EVALUATION_COMMITTEE_TWO_WAY'', 75),
         (''NAMED_INFLUENCER'', 50), (''VERIFIED_ROLE_NO_INTERACTION'', 25), (''CONFIRMED_UNREACHABLE'', 0)]),
      (''competitive_position'', [(''BUYER_DOCUMENTED_SOLE_SOURCE'', 100), (''ELIGIBLE_INCUMBENT'', 75),
         (''INVITED_BIDDER'', 50), (''UNSOLICITED_CHALLENGER'', 25), (''EXCLUDED'', 0)]),
      (''budget_process'', [(''BUDGET_DATE_PROCESS_CONFIRMED'', 100), (''BUDGET_DATE_CONFIRMED'', 75),
         (''BUDGET_CONFIRMED'', 50), (''CONDITIONAL_BUDGET'', 25), (''CONFIRMED_NO_FUNDING'', 0)]),
      (''track_record'', [(''TWO_ACCEPTED_SAME_REQUIREMENTS'', 100), (''ONE_ACCEPTED_SAME_REQUIREMENTS'', 75),
         (''ACCEPTED_ADJACENT_FAMILY'', 50), (''VALIDATED_PROTOTYPE'', 25), (''CONFIRMED_NONE'', 0)]),
      (''capability_match'', [(''ALL_AVAILABLE'', 100), (''ONE_FUNDED_DATED_NONCRITICAL_GAP'', 75),
         (''MULTIPLE_FUNDED_DATED_NONCRITICAL_GAPS'', 50), (''UNFUNDED_REMEDY'', 25), (''UNAVAILABLE_BY_NEED'', 0)]),
      (''quality_certification'', [(''VALID_THROUGH_DELIVERY_BUYER_APPROVED'', 100),
         (''VALID_BUYER_QUALIFICATION_SCHEDULED'', 75), (''RENEWAL_DATED_OWNER'', 50), (''UNDATED_PLAN'', 25),
         (''MANDATORY_UNAVAILABLE_BY_START'', 0)]),
      (''coordination'', [(''ALL_OWNERS_AND_DATES'', 100), (''ONE_DATE_UNKNOWN'', 75), (''ONE_OWNER_UNKNOWN'', 50),
         (''MULTIPLE_OWNERS_UNKNOWN'', 25), (''CONFLICTING_COMMITMENTS'', 0)])]"

definition both_numbers :: "json \<Rightarrow> string \<Rightarrow> string \<Rightarrow> (decimal \<times> decimal) option" where
  "both_numbers raw a b =
     (case (py_decimal (j_read raw a), py_decimal (j_read raw b)) of (Some x, Some y) \<Rightarrow> Some (x, y) | _ \<Rightarrow> None)"

definition factor_points_of :: "string \<Rightarrow> json \<Rightarrow> decimal option" where
  "factor_points_of key raw =
     (case dget PURSUIT_BINS key of
        Some bins \<Rightarrow> map_option of_int (Option.bind (j_text (j_read raw ''state'')) (dget bins))
      | None \<Rightarrow>
          if key = ''requirement_fit'' then
            (case both_numbers raw ''noncritical_met'' ''noncritical_total'' of
               Some (met, tot) \<Rightarrow> (if 0 \<le> met \<and> met \<le> tot \<and> 0 < tot then Some (ddiv (met * 100) tot) else None)
             | None \<Rightarrow> None)
          else if key = ''price_competitiveness'' then
            (case both_numbers raw ''quoted_minor'' ''buyer_target_minor'' of
               Some (quoted, target) \<Rightarrow>
                 (if quoted < 0 \<or> target \<le> 0 then None
                  else let ratio = ddiv quoted target
                    in Some (if ratio \<le> 95/100 then 100 else if ratio \<le> 1 then 75 else if ratio \<le> 110/100 then 50
                      else if ratio \<le> 125/100 then 25 else 0))
             | None \<Rightarrow> None)
          else if key = ''schedule_feasibility'' then
            (case both_numbers raw ''net_available_hours'' ''required_hours'' of
               Some (available, required) \<Rightarrow>
                 (if available < 0 \<or> required \<le> 0 then None
                  else let ratio = ddiv available required
                    in Some (if 125/100 \<le> ratio then 100 else if 110/100 \<le> ratio then 75 else if 1 \<le> ratio then 50
                      else if 90/100 \<le> ratio then 25 else 0))
             | None \<Rightarrow> None)
          else if key = ''material_readiness'' then
            map_option (\<lambda>days. if 30 \<le> days then 100 else if 14 \<le> days then 75 else if 1 \<le> days then 50
                else if days = 0 then 25 else 0)
              (py_decimal (j_read raw ''most_constrained_critical_material_days_early''))
          else if key = ''margin'' then
            (case both_numbers raw ''quoted_minor'' ''estimated_total_cost_minor'' of
               Some (quoted, cost) \<Rightarrow>
                 (if quoted \<le> 0 \<or> cost < 0 then None
                  else let margin = ddiv (quoted - cost) quoted
                    in Some (if 30/100 \<le> margin then 100 else if 20/100 \<le> margin then 75 else if 10/100 \<le> margin then 50
                      else if 0 \<le> margin then 25 else 0))
             | None \<Rightarrow> None)
          else None)"

section \<open>Inputs of a pursuit\<close>

definition evidence_clock_of :: "date \<Rightarrow> json \<Rightarrow> json \<Rightarrow> int \<Rightarrow> evidence_clock" where
  \<comment> \<open>the state of a reviewed observation of the account, a recorded conflict first\<close>
  "evidence_clock_of demo account raw window =
     (if j_read raw ''evidence_state'' = J_str ''CONFLICTING'' then EV_CONFLICTING
      else evidence_state demo (j_moment (j_read raw ''reviewed_as_of'')) (j_moment (j_read account ''as_of'')) window)"

definition pursuit_related :: "json \<Rightarrow> resolved_evidence option \<Rightarrow> bool" where
  "pursuit_related opp item =
     (case item of None \<Rightarrow> False
      | Some e \<Rightarrow> J_str (rs_record_id e) = j_read opp ''opportunity_id'' \<or> record_supports (rs_record e) opp)"

definition evidence_ids_of :: "json \<Rightarrow> string list" where
  "evidence_ids_of raw = List.map_filter j_text (j_items (j_read raw ''evidence_ids''))"

definition raw_linked :: "(string \<Rightarrow> json option) \<Rightarrow> json \<Rightarrow> json \<Rightarrow> string \<Rightarrow> json \<Rightarrow> bool" where
  "raw_linked sources account opp fam raw =
     (j_read raw ''opportunity_id'' = j_read opp ''opportunity_id''
      \<and> (fam = ''delivery_feasibility'' \<longrightarrow> py_truth (j_read opp ''delivery_facility_id'')
           \<and> j_read raw ''facility_id'' = j_read opp ''delivery_facility_id'')
      \<and> evidence_ids_of raw \<noteq> []
      \<and> list_all (\<lambda>i. pursuit_related opp (resolve_commercial_evidence sources account i)) (evidence_ids_of raw))"

definition capitalized :: "string \<Rightarrow> string" where
  "capitalized s = (case s of [] \<Rightarrow> [] | c # cs \<Rightarrow> upper_char c # lower cs)"

record pursuit_reading =
  pr_points :: "decimal option"
  pr_state :: evidence_clock
  pr_valid :: bool
  pr_linked :: bool

definition read_pursuit :: "date \<Rightarrow> (string \<Rightarrow> json option) \<Rightarrow> json \<Rightarrow> json \<Rightarrow> string \<Rightarrow> string \<Rightarrow> json \<Rightarrow> pursuit_reading" where
  "read_pursuit demo sources account opp fam key raw =
     (let state = evidence_clock_of demo account raw (if fam = ''delivery_feasibility'' then 2 else 30);
          linked = raw_linked sources account opp fam raw;
          valid = (linked \<and> state = EV_CURRENT)
      in \<lparr>pr_points = (if valid then factor_points_of key raw else None), pr_state = state, pr_valid = valid,
          pr_linked = linked\<rparr>)"

definition pursuit_blocks :: "string \<Rightarrow> string \<Rightarrow> json \<Rightarrow> pursuit_reading \<Rightarrow> string list" where
  "pursuit_blocks fam key raw r =
     (if key = ''requirement_fit'' \<and> pr_valid r \<and> j_read raw ''critical_requirements_pass'' = J_bool False
      then [''A mandatory technical requirement fails.''] else [])
     @ (if fam = ''delivery_feasibility'' \<and> pr_valid r then
          (if j_text (j_read raw ''state'') \<in> {Some ''UNAVAILABLE_BY_NEED'', Some ''MANDATORY_UNAVAILABLE_BY_START'', Some ''CONFLICTING_COMMITMENTS''}
           then [''A required delivery capability, qualification or site commitment is unavailable.''] else [])
          @ (if key = ''schedule_feasibility'' \<and> pr_points r = Some 0
             then [''Capacity mitigation is required before committing the work.''] else [])
          @ (if key = ''material_readiness'' \<and> pr_points r = Some 0
             then [''A critical material is late; confirm an approved substitute or revised plan.''] else [])
        else [])"

definition pursuit_missing :: "string \<Rightarrow> json \<Rightarrow> pursuit_reading \<Rightarrow> string list" where
  "pursuit_missing key raw r =
     (if key = ''requirement_fit'' \<and> \<not> (pr_valid r \<and> j_read raw ''critical_requirements_pass'' = J_bool False)
         \<and> (\<not> pr_valid r \<or> j_read raw ''critical_requirements_pass'' \<noteq> J_bool True)
      then [''Confirm every critical technical requirement before scoring the pursuit.''] else [])"

definition without_links :: "json \<Rightarrow> json" where
  "without_links raw = (case raw of
     J_obj kvs \<Rightarrow> J_obj (filter (\<lambda>(k, v). k \<notin> {''evidence_ids'', ''opportunity_id''}) kvs) | _ \<Rightarrow> J_obj [])"

definition pursuit_factor :: "(json \<Rightarrow> string) \<Rightarrow> json \<Rightarrow> string \<Rightarrow> json \<Rightarrow> pursuit_reading \<Rightarrow> factor_input" where
  "pursuit_factor render account key raw r =
     (let name = capitalized (spaced key)
      in \<lparr>fi_points = pr_points r, fi_evidence_ids = (if pr_linked r then evidence_ids_of raw else []),
          fi_reason = name @ (if pr_points r \<noteq> None then '': reviewed evidence for this pursuit.''
             else '': current, linked pursuit evidence is still required.''),
          fi_raw_value = (if pr_linked r then Some (RV_text (render (without_links raw))) else None),
          fi_period = j_text (j_read account ''as_of''), fi_truth_class = ''POC_SCENARIO'', fi_required_fields = [],
          fi_observed_fields = [], fi_lower_bound = None, fi_upper_bound = None, fi_evidence_state = pr_state r\<rparr>)"

definition pursuit_inputs ::
  "date \<Rightarrow> (string \<Rightarrow> json option) \<Rightarrow> (json \<Rightarrow> string) \<Rightarrow> json \<Rightarrow> json \<Rightarrow> string \<Rightarrow>
   (py_error, (string, factor_input) dict \<times> string list \<times> string list) result" where
  "pursuit_inputs demo sources render account opp fam =
     bind_r (family_of fam) (\<lambda>f.
       let records = j_read (j_read opp ''scoring_inputs'') fam;
           rows = map (\<lambda>(key, w). (key, j_read records key)) (fam_weights f);
           readings = map (\<lambda>(key, raw). (key, raw, read_pursuit demo sources account opp fam key raw)) rows
       in bind_r (map_r (\<lambda>(key, raw, r). map_sum id (\<lambda>i. (key, i))
             (factor_input_post_init (pursuit_factor render account key raw r))) readings) (\<lambda>inputs.
          Inr (inputs, concat (map (\<lambda>(key, raw, r). pursuit_blocks fam key raw r) readings),
               concat (map (\<lambda>(key, raw, r). pursuit_missing key raw r) readings))))"

section \<open>Gates\<close>

datatype gate = GATE_YES | GATE_NO | GATE_UNKNOWN

definition combine :: "bool option list \<Rightarrow> gate" where
  "combine values = (if Some False \<in> set values then GATE_NO else if None \<in> set values then GATE_UNKNOWN else GATE_YES)"

record gate_result =
  gr_qualified :: gate
  gr_durable :: gate
  gr_qualification_checks :: "(string \<times> bool option) list"
  gr_durability_checks :: "(string \<times> bool option) list"
  gr_evidence_ids :: "string list"
  gr_qualified_and_durable :: bool
  gr_durable_best_bet :: bool

definition qualification_valid :: "date \<Rightarrow> (string \<Rightarrow> json option) \<Rightarrow> json \<Rightarrow> json \<Rightarrow> bool" where
  "qualification_valid demo sources account opp =
     (let raw = j_read opp ''qualification_evidence''
      in j_read raw ''opportunity_id'' = j_read opp ''opportunity_id''
         \<and> evidence_state demo (j_moment (j_read raw ''reviewed_as_of'')) (j_moment (j_read account ''as_of'')) 30 = EV_CURRENT
         \<and> evidence_ids_of raw \<noteq> []
         \<and> list_all (\<lambda>i. evidence_supports_opportunity sources account i opp) (evidence_ids_of raw))"

fun confidence_value :: "json \<Rightarrow> decimal option" where
  \<comment> \<open>an int or float of the scale\<close>
  "confidence_value (J_int i) = (if 0 \<le> i \<and> i \<le> 100 then Some (of_int i) else None)"
| "confidence_value (J_num q) = (if 0 \<le> q \<and> q \<le> 100 then Some q else None)"
| "confidence_value _ = None"

definition confidence_values :: "json \<Rightarrow> decimal option list" where
  "confidence_values evidence = map (\<lambda>k. confidence_value (j_read (j_read evidence ''essential_assertion_confidence'') k))
     [''identity'', ''need'', ''capability'', ''timing'']"

definition timing_check :: "json \<Rightarrow> json \<Rightarrow> bool option" where
  "timing_check account evidence =
     (case (Option.bind (j_text (j_read evidence ''review_window_on'')) parse_date,
            Option.bind (j_text (j_read account ''as_of'')) parse_date) of
        (Some w, Some t) \<Rightarrow> (let days = days_between w t in Some (0 \<le> days \<and> days \<le> 180))
      | _ \<Rightarrow> None)"

definition allowed_selection :: "(string, string) dict \<Rightarrow> string \<Rightarrow> string list \<Rightarrow> bool option" where
  "allowed_selection sel key allowed = map_option (\<lambda>v. v \<in> set allowed) (dget sel key)"

definition capability_checks :: "(string, string) dict \<Rightarrow> bool option list" where
  "capability_checks sel =
     [allowed_selection sel ''btx_manufacturing_fit.material_match'' [''ROUTINE'', ''EXTENDED_ANALOGOUS''],
      allowed_selection sel ''btx_manufacturing_fit.process_tolerance_match'' [''ROUTINE'', ''EDGE_BUT_ANALOGOUS''],
      allowed_selection sel ''btx_manufacturing_fit.certification_compliance_fit'' [''ALL_MET'', ''MINOR_GAP'']]"

definition worst_of :: "bool option list \<Rightarrow> bool option" where
  "worst_of vs = (if Some False \<in> set vs then Some False else if None \<in> set vs then None else Some True)"

definition all_confident :: "decimal option list \<Rightarrow> bool option" where
  "all_confident vs = (if None \<in> set vs then None else Some (list_all (\<lambda>v. 70 \<le> default_to v 0) vs))"

definition qualification_checks :: "date \<Rightarrow> (string \<Rightarrow> json option) \<Rightarrow> json \<Rightarrow> json \<Rightarrow> (string, string) dict \<Rightarrow> (string \<times> bool option) list" where
  "qualification_checks demo sources account opp sel =
     (let evidence = (if qualification_valid demo sources account opp then j_read opp ''qualification_evidence'' else J_obj []);
          assertion = (\<lambda>name. j_bool (j_read evidence name))
      in [(''identity'', assertion ''identity_and_site_confirmed''),
          (''evidence'', all_confident (confidence_values evidence)),
          (''need'', assertion ''sourced_dated_need''),
          (''capability'', worst_of (capability_checks sel)),
          (''addressable_work'', assertion ''scoped_component_and_external_sourcing''),
          (''timing'', timing_check account evidence),
          (''no_disqualifiers'', assertion ''no_disqualifiers'')])"

definition durability_checks :: "date \<Rightarrow> (string \<Rightarrow> json option) \<Rightarrow> json \<Rightarrow> json \<Rightarrow> (string, string) dict \<Rightarrow> (string \<times> bool option) list" where
  "durability_checks demo sources account opp sel =
     (let evidence = (if qualification_valid demo sources account opp then j_read opp ''qualification_evidence'' else J_obj [])
      in [(''expected_production_horizon'', allowed_selection sel ''program_durability.expected_production_horizon''
            [''TEN_PLUS_YEARS'', ''FIVE_TO_NINE_YEARS'']),
          (''repeat_production_pattern'', allowed_selection sel ''program_durability.repeat_production_pattern''
            [''ESTABLISHED_RECURRING'', ''MULTIPLE_BATCHES_NOT_LOCKED'']),
          (''commitment_strength'', allowed_selection sel ''program_durability.commitment_strength''
            [''FUNDED_AWARDED_CONTRACTED'', ''BUDGETED_CREDIBLE_FUNDING'']),
          (''industry_specific_maturity_evidence'', allowed_selection sel ''program_durability.industry_specific_maturity_evidence''
            [''STRONG_EVIDENCE'', ''PARTIAL_CREDIBLE'']),
          (''program_current'', j_bool (j_read evidence ''program_current''))])"

definition opportunity_gates ::
  "date \<Rightarrow> (string \<Rightarrow> json option) \<Rightarrow> json \<Rightarrow> json \<Rightarrow> (string, string) dict \<Rightarrow> decimal option \<Rightarrow> decimal \<Rightarrow> gate_result" where
  "opportunity_gates demo sources account opp sel score coverage_ratio =
     (let valid = qualification_valid demo sources account opp;
          evidence = (if valid then j_read opp ''qualification_evidence'' else J_obj []);
          checks = qualification_checks demo sources account opp sel;
          durable = durability_checks demo sources account opp sel;
          qualified = combine (map snd checks); durable_state = combine (map snd durable);
          both = (qualified = GATE_YES \<and> durable_state = GATE_YES)
      in \<lparr>gr_qualified = qualified, gr_durable = durable_state, gr_qualification_checks = checks,
          gr_durability_checks = durable,
          gr_evidence_ids = (if valid then evidence_ids_of (j_read opp ''qualification_evidence'') else []),
          gr_qualified_and_durable = both,
          gr_durable_best_bet = (both \<and> (case score of None \<Rightarrow> False | Some s \<Rightarrow> 75 \<le> s)
            \<and> all_confident (confidence_values evidence) = Some True \<and> coverage_ratio = 1)\<rparr>)"

end
