(* ===== verification/PursuitProps.thy ===== *)
theory PursuitProps
  imports PursuitInputs FamilyProps
begin

text \<open>
  The inputs read from a pursuit are well-formed inputs of their family, so the assessment of a pursuit
  always succeeds; the gates open only on valid evidence.
\<close>

section \<open>Points stay in the scale\<close>

lemma short_hundred: "short_decimal 100"
proof -
  have "adjusted_exp (100::rat) = 2" by code_simp
  then have "\<bar>100 :: rat\<bar> = of_int (10 ^ 27) * 10 powi (adjusted_exp \<bar>100\<bar> - 27)" by (simp add: power_int_def power_divide)
  then show ?thesis unfolding short_decimal_def by blast
qed

lemma ddiv_fraction:
  assumes "0 \<le> met" "met \<le> tot" "0 < tot"
  shows "0 \<le> ddiv (met * 100) tot \<and> ddiv (met * 100) tot \<le> 100"
proof -
  have "0 \<le> met * 100 / tot" "met * 100 / tot \<le> 100" using assms by (simp_all add: field_simps)
  then show ?thesis
    using dec28_mono[of 0 "met * 100 / tot"] ctx28.rnd_upper[OF short_hundred] by (simp add: ddiv_def)
qed

lemma PURSUIT_BINS_scale: "list_all (\<lambda>(k, bins). list_all (\<lambda>(s, n). 0 \<le> n \<and> n \<le> 100) bins) PURSUIT_BINS"
  by code_simp

lemma factor_points_scale: "factor_points_of key raw = Some p \<Longrightarrow> 0 \<le> p \<and> p \<le> 100"
proof (cases "dget PURSUIT_BINS key")
  case (Some bins)
  assume "factor_points_of key raw = Some p"
  then obtain s n where "dget bins s = Some n" "p = of_int n"
    using Some by (auto simp: factor_points_of_def bind_eq_Some_conv)
  then show ?thesis using Some PURSUIT_BINS_scale by (fastforce simp: list_all_iff dest!: map_of_SomeD)
next
  case None
  assume "factor_points_of key raw = Some p"
  then show ?thesis
    unfolding factor_points_of_def None option.case
    by (auto simp: Let_def split: if_splits option.splits prod.splits dest: ddiv_fraction)
qed

section \<open>Readings and inputs\<close>

lemma reading_points:
  assumes "pr_points (read_pursuit demo sources account opp fam key raw) = Some p"
  shows "0 \<le> p \<and> p \<le> 100 \<and> pr_state (read_pursuit demo sources account opp fam key raw) = EV_CURRENT
    \<and> pr_linked (read_pursuit demo sources account opp fam key raw) \<and> raw_linked sources account opp fam raw"
  using assms factor_points_scale by (auto simp: read_pursuit_def Let_def split: if_splits)

lemma not_blank_reason: "\<not> blank (s @ '': reviewed evidence for this pursuit.'')"
  "\<not> blank (s @ '': current, linked pursuit evidence is still required.'')"
  by (simp_all add: blank_iff is_space_def)

lemma pursuit_factor_ok:
  "factor_input_post_init (pursuit_factor render account key raw (read_pursuit demo sources account opp fam key raw))
     = Inr (pursuit_factor render account key raw (read_pursuit demo sources account opp fam key raw))"
proof (cases "pr_points (read_pursuit demo sources account opp fam key raw)")
  case (Some p)
  then show ?thesis using reading_points[OF Some]
    by (simp add: factor_input_post_init_def pursuit_factor_def Let_def not_blank_reason raw_linked_def)
qed (simp add: factor_input_post_init_def pursuit_factor_def Let_def not_blank_reason)

definition pursuit_row :: "date \<Rightarrow> (string \<Rightarrow> json option) \<Rightarrow> (json \<Rightarrow> string) \<Rightarrow> json \<Rightarrow> json \<Rightarrow> string \<Rightarrow> string \<Rightarrow> factor_input" where
  "pursuit_row demo sources render account opp fam key =
     (let raw = j_read (j_read (j_read opp ''scoring_inputs'') fam) key
      in pursuit_factor render account key raw (read_pursuit demo sources account opp fam key raw))"

lemma map_r_Inr_map: "(\<And>x. x \<in> set xs \<Longrightarrow> f x = Inr (g x)) \<Longrightarrow> map_r f xs = Inr (map g xs)"
  by (induction xs) auto

lemma pursuit_inputs_value:
  assumes "family_of fam = Inr f"
  shows "\<exists>blocks missing. pursuit_inputs demo sources render account opp fam
    = Inr (map (\<lambda>(key, w). (key, pursuit_row demo sources render account opp fam key)) (fam_weights f), blocks, missing)"
proof -
  have "map_r (\<lambda>(key, raw, r). map_sum id (\<lambda>i. (key, i)) (factor_input_post_init (pursuit_factor render account key raw r)))
      (map (\<lambda>(key, raw). (key, raw, read_pursuit demo sources account opp fam key raw))
        (map (\<lambda>(key, w). (key, j_read (j_read (j_read opp ''scoring_inputs'') fam) key)) (fam_weights f)))
    = Inr (map (\<lambda>(key, w). (key, pursuit_row demo sources render account opp fam key)) (fam_weights f))"
    by (subst map_r_Inr_map[where g = "\<lambda>(key, raw, r). (key, pursuit_factor render account key raw r)"])
      (auto simp: pursuit_factor_ok pursuit_row_def Let_def)
  then show ?thesis by (simp add: pursuit_inputs_def assms Let_def)
qed

section \<open>Properties\<close>

definition demo_pursuit :: json where
  "demo_pursuit = J_obj [(''opportunity_id'', J_str ''opp1''), (''scoring_inputs'', J_obj [(''pwin'', J_obj
     [(''buyer_access'', J_obj [(''state'', J_str ''NAMED_INFLUENCER''), (''opportunity_id'', J_str ''opp1''),
        (''reviewed_as_of'', J_str ''2026-01-20''), (''evidence_ids'', J_arr [J_str ''int1''])])])])]"

definition demo_pursuit_account :: json where
  "demo_pursuit_account = J_obj [(''as_of'', J_str ''2026-01-31''),
     (''interactions'', J_arr [J_obj [(''interaction_id'', J_str ''int1''), (''opportunity_id'', J_str ''opp1'')]])]"

text \<open>
  The inputs read for a known family are exactly its factors, each valid, so assessing the pursuit with
  them always succeeds; a factor has points only from a current observation of this very pursuit whose every
  evidence resolves to a record related to it.
\<close>

theorem pursuit_inputs_are_assessable:
  assumes "family_of fam = Inr f"
  shows "\<exists>inputs blocks missing. pursuit_inputs demo sources render account opp fam = Inr (inputs, blocks, missing)
    \<and> dkeys inputs = map fst (fam_weights f)
    \<and> (\<exists>d. assess digest fam sid t revn inputs eligible reasons blocks = Inr d)
    \<and> (\<forall>(key, i)\<in>set inputs. fi_points i \<noteq> None \<longrightarrow> fi_evidence_state i = EV_CURRENT \<and> fi_evidence_ids i \<noteq> []
        \<and> (\<forall>e\<in>set (fi_evidence_ids i). pursuit_related opp (resolve_commercial_evidence sources account e)))"
proof -
  let ?row = "pursuit_row demo sources render account opp fam"
  let ?inputs = "map (\<lambda>(key, w). (key, ?row key)) (fam_weights f)"
  obtain blocks missing where run: "pursuit_inputs demo sources render account opp fam = Inr (?inputs, blocks, missing)"
    using pursuit_inputs_value[OF assms] by blast
  have keys: "dkeys ?inputs = map fst (fam_weights f)" by (auto simp: dkeys_def)
  have ok: "inputs_ok ?inputs"
    by (auto simp: inputs_ok_def list_all_iff factor_input_ok_def pursuit_row_def Let_def pursuit_factor_ok)
  have fam: "f \<in> set FAMILIES" "fam_key f = fam"
    using assms by (auto simp: family_of_def dest!: first_match_Some split: option.splits)
  have d: "\<exists>d. assess digest fam sid t revn ?inputs eligible reasons blocks = Inr d"
    unfolding assess_succeeds_iff[OF ok] using fam assms keys by auto
  have "fi_evidence_state (?row key) = EV_CURRENT \<and> fi_evidence_ids (?row key) \<noteq> []
        \<and> (\<forall>e\<in>set (fi_evidence_ids (?row key)). pursuit_related opp (resolve_commercial_evidence sources account e))"
    if np: "fi_points (?row key) \<noteq> None" for key
  proof -
    let ?raw = "j_read (j_read (j_read opp ''scoring_inputs'') fam) key"
    obtain p where p: "pr_points (read_pursuit demo sources account opp fam key ?raw) = Some p"
      using np by (auto simp: pursuit_row_def pursuit_factor_def Let_def)
    show ?thesis using reading_points[OF p]
      by (simp add: pursuit_row_def pursuit_factor_def Let_def raw_linked_def list_all_iff)
  qed
  then have "\<forall>(key, i)\<in>set ?inputs. fi_points i \<noteq> None \<longrightarrow> fi_evidence_state i = EV_CURRENT \<and> fi_evidence_ids i \<noteq> []
        \<and> (\<forall>e\<in>set (fi_evidence_ids i). pursuit_related opp (resolve_commercial_evidence sources account e))"
    by auto
  then show ?thesis using run keys d by blast
qed

theorem pursuit_inputs_are_assessable_witness:
  "\<exists>inputs blocks missing. pursuit_inputs (Date 2026 1 31) (\<lambda>_. None) (\<lambda>_. []) demo_pursuit_account demo_pursuit ''pwin''
       = Inr (inputs, blocks, missing)
     \<and> map_option fi_points (dget inputs ''buyer_access'') = Some (Some 50)
     \<and> (\<exists>d. assess (\<lambda>_. []) ''pwin'' ''opp1'' ''2026-01-31'' ''r'' inputs True [] blocks = Inr d)"
proof -
  obtain f where f: "family_of ''pwin'' = Inr f"
    by (simp add: family_of_def FAMILIES_def family_default_def)
  obtain inputs blocks missing where i:
    "pursuit_inputs (Date 2026 1 31) (\<lambda>_. None) (\<lambda>_. []) demo_pursuit_account demo_pursuit ''pwin'' = Inr (inputs, blocks, missing)"
    "\<exists>d. assess (\<lambda>_. []) ''pwin'' ''opp1'' ''2026-01-31'' ''r'' inputs True [] blocks = Inr d"
    using pursuit_inputs_are_assessable[OF f, of "Date 2026 1 31" "\<lambda>_. None" "\<lambda>_. []" demo_pursuit_account demo_pursuit
        "\<lambda>_. []" "''opp1''" "''2026-01-31''" "''r''" True "[]"] by blast
  have "map_sum (\<lambda>_. ()) (\<lambda>(inputs, b, m). map_option fi_points (dget inputs ''buyer_access''))
      (pursuit_inputs (Date 2026 1 31) (\<lambda>_. None) (\<lambda>_. []) demo_pursuit_account demo_pursuit ''pwin'')
    = Inr (Some (Some 50))"
    by code_simp
  then show ?thesis using i by auto
qed

text \<open>
  A best bet is complete and proven: it needs valid, current evidence supporting this opportunity, every
  qualification and durability check true, all four confidences at 70, a score of 75 and full coverage; and
  without valid evidence an opportunity is never qualified.
\<close>

theorem best_bet_needs_everything:
  assumes "g = opportunity_gates demo sources account opp sel score ratio"
  shows "(gr_durable_best_bet g \<longrightarrow> qualification_valid demo sources account opp
      \<and> (\<forall>(k, v)\<in>set (gr_qualification_checks g) \<union> set (gr_durability_checks g). v = Some True)
      \<and> (\<exists>s\<ge>75. score = Some s) \<and> ratio = 1
      \<and> (\<forall>c\<in>set (confidence_values (j_read opp ''qualification_evidence'')). \<exists>x\<ge>70. c = Some x))
    \<and> (gr_qualified g = GATE_YES \<longrightarrow> qualification_valid demo sources account opp
        \<and> (\<forall>e\<in>set (gr_evidence_ids g). evidence_supports_opportunity sources account e opp))"
proof -
  have comb: "combine vs = GATE_YES \<longleftrightarrow> (\<forall>v\<in>set vs. v = Some True)" for vs
  proof
    assume "combine vs = GATE_YES"
    then have "Some False \<notin> set vs" "None \<notin> set vs" by (auto simp: combine_def split: if_splits)
    then show "\<forall>v\<in>set vs. v = Some True" by (metis (full_types) option.exhaust)
  qed (auto simp: combine_def)
  have q: "qualification_valid demo sources account opp" if "gr_qualified g = GATE_YES"
  proof (rule ccontr)
    assume "\<not> qualification_valid demo sources account opp"
    then have "(''identity'', None) \<in> set (qualification_checks demo sources account opp sel)"
      by (simp add: qualification_checks_def Let_def)
    then show False using that unfolding assms opportunity_gates_def Let_def by (force simp: comb)
  qed
  have conf: "all_confident vs = Some True \<longleftrightarrow> (\<forall>c\<in>set vs. \<exists>x\<ge>70. c = Some x)" for vs
    by (auto simp: all_confident_def list_all_iff) (metis default_to_simps(1) option.exhaust)+
  have g: "gr_durable_best_bet g \<Longrightarrow> gr_qualified g = GATE_YES \<and> gr_durable g = GATE_YES
      \<and> (\<exists>s\<ge>75. score = Some s) \<and> ratio = 1
      \<and> all_confident (confidence_values (if qualification_valid demo sources account opp
           then j_read opp ''qualification_evidence'' else J_obj [])) = Some True"
    "gr_qualified g = combine (map snd (gr_qualification_checks g))"
    "gr_durable g = combine (map snd (gr_durability_checks g))"
    "gr_evidence_ids g = (if qualification_valid demo sources account opp
       then evidence_ids_of (j_read opp ''qualification_evidence'') else [])"
    unfolding assms opportunity_gates_def Let_def by (auto split: option.splits)
  have "\<forall>(k, v)\<in>set (gr_qualification_checks g) \<union> set (gr_durability_checks g). v = Some True"
    if "gr_durable_best_bet g"
    using g(1)[OF that] unfolding g(2,3) comb by force
  then show ?thesis using g q conf
    by (auto simp: qualification_valid_def Let_def list_all_iff)
qed

theorem best_bet_needs_everything_witness:
  "\<not> gr_durable_best_bet (opportunity_gates (Date 2026 1 31) (\<lambda>_. None) demo_pursuit_account demo_pursuit [] (Some 90) 1)"
proof
  assume b: "gr_durable_best_bet (opportunity_gates (Date 2026 1 31) (\<lambda>_. None) demo_pursuit_account demo_pursuit [] (Some 90) 1)"
  have "qualification_valid (Date 2026 1 31) (\<lambda>_. None) demo_pursuit_account demo_pursuit"
    using best_bet_needs_everything[OF refl, of "Date 2026 1 31" "\<lambda>_. None" demo_pursuit_account demo_pursuit "[]" "Some 90" 1] b
    by blast
  moreover have "\<not> qualification_valid (Date 2026 1 31) (\<lambda>_. None) demo_pursuit_account demo_pursuit" by code_simp
  ultimately show False by contradiction
qed

end
