(* ===== verification/Matching.thy ===== *)
theory Matching
  imports Domain
begin

text \<open>
  \<^verbatim>\<open>modules/matching/commercial.py\<close>: exact-first matching of a program component
  against a historical quote. Two present part references decide alone; otherwise four descriptive
  attributes are compared and two agreements without a conflict make a structured similarity.
\<close>

section \<open>Records\<close>

datatype match_review_state = UNAMBIGUOUS | CONFLICT | AMBIGUOUS

record commercial_component =
  cmp_id :: string
  cmp_account_id :: "string option"
  cmp_program_id :: "string option"
  cmp_raw_part_reference :: "string option"
  cmp_component_class :: "string option"
  cmp_material :: "string option"
  cmp_process :: "string option"
  cmp_part_family :: "string option"
  cmp_evidence_state :: evidence_class
  cmp_evidence_ids :: "string list"
  cmp_provenance :: provenance
  cmp_capability_ids :: "string list"

record historical_quote_context =
  hq_quote_id :: string
  hq_account_id :: string
  hq_business_unit :: string
  hq_raw_part_reference :: "string option"
  hq_component_class :: "string option"
  hq_material :: "string option"
  hq_process :: "string option"
  hq_part_family :: "string option"
  hq_evidence_ids :: "string list"
  hq_provenance :: provenance

record commercial_match =
  cm_component_id :: string
  cm_quote_id :: "string option"
  cm_account_id :: "string option"
  cm_method :: match_state
  cm_review_state :: match_review_state
  cm_matched_attributes :: "string list"
  cm_conflicting_attributes :: "string list"
  cm_missing_attributes :: "string list"
  cm_evidence_ids :: "string list"
  cm_evidence_state :: evidence_class
  cm_business_unit :: "string option"
  cm_capability_ids :: "string list"

section \<open>Matching\<close>

definition normalize_part_reference :: "string option \<Rightarrow> string option" where
  "normalize_part_reference value =
     (case value of
        None \<Rightarrow> None
      | Some v \<Rightarrow> if blank v then None else Some (concat (split_ws (upper v))))"

text \<open>\<open>getattr(component, name)\<close> and \<open>getattr(quote, name)\<close> for the four compared names, in order.\<close>

definition attribute_pairs ::
  "commercial_component \<Rightarrow> historical_quote_context \<Rightarrow> (string \<times> string option \<times> string option) list" where
  "attribute_pairs c q =
     [(''component_class'', cmp_component_class c, hq_component_class q),
      (''material'', cmp_material c, hq_material q),
      (''process'', cmp_process c, hq_process q),
      (''part_family'', cmp_part_family c, hq_part_family q)]"

fun compare_attributes ::
  "(string \<times> string option \<times> string option) list \<Rightarrow> string list \<Rightarrow> string list \<Rightarrow> string list
    \<Rightarrow> string list \<times> string list \<times> string list" where
  "compare_attributes [] matched conflicts missing = (matched, conflicts, missing)"
| "compare_attributes ((name, lhs, rhs) # rest) matched conflicts missing =
     (if \<not> truthy lhs \<or> \<not> truthy rhs then compare_attributes rest matched conflicts (missing @ [name])
      else if lower (the lhs) = lower (the rhs) then compare_attributes rest (matched @ [name]) conflicts missing
      else compare_attributes rest matched (conflicts @ [name]) missing)"

definition similarity_of :: "string list \<Rightarrow> string list \<Rightarrow> match_state \<times> match_review_state" where
  "similarity_of matched conflicts =
     (if conflicts \<noteq> [] then (NO_MATCH, CONFLICT)
      else if 2 \<le> length matched then (STRUCTURED_SIMILARITY, UNAMBIGUOUS)
      else (INSUFFICIENT_DATA, AMBIGUOUS))"

definition match_component_to_quote ::
  "commercial_component \<Rightarrow> historical_quote_context option \<Rightarrow> commercial_match" where
  "match_component_to_quote c quote =
     (case quote of
        None \<Rightarrow>
          \<lparr>cm_component_id = cmp_id c, cm_quote_id = None, cm_account_id = cmp_account_id c,
           cm_method = INSUFFICIENT_DATA, cm_review_state = AMBIGUOUS, cm_matched_attributes = [],
           cm_conflicting_attributes = [], cm_missing_attributes = [''historical_quote''],
           cm_evidence_ids = cmp_evidence_ids c, cm_evidence_state = cmp_evidence_state c,
           cm_business_unit = None, cm_capability_ids = []\<rparr>
      | Some q \<Rightarrow>
          (let evidence = unique (cmp_evidence_ids c @ hq_evidence_ids q);
               left = normalize_part_reference (cmp_raw_part_reference c);
               right = normalize_part_reference (hq_raw_part_reference q);
               base = \<lparr>cm_component_id = cmp_id c, cm_quote_id = Some (hq_quote_id q),
                 cm_account_id = Some (hq_account_id q), cm_method = EXACT_PART, cm_review_state = UNAMBIGUOUS,
                 cm_matched_attributes = [''part_reference''], cm_conflicting_attributes = [],
                 cm_missing_attributes = [], cm_evidence_ids = evidence,
                 cm_evidence_state = cmp_evidence_state c, cm_business_unit = Some (hq_business_unit q),
                 cm_capability_ids = cmp_capability_ids c\<rparr>
           in if truthy left \<and> truthy right
              then (if left = right then base
                    else base\<lparr>cm_method := NO_MATCH, cm_review_state := CONFLICT, cm_matched_attributes := [],
                           cm_conflicting_attributes := [''part_reference''], cm_capability_ids := []\<rparr>)
              else (case compare_attributes (attribute_pairs c q) [] [] [] of (matched, conflicts, missing) \<Rightarrow>
                    case similarity_of matched conflicts of (method, review) \<Rightarrow>
                      base\<lparr>cm_method := method, cm_review_state := review, cm_matched_attributes := matched,
                        cm_conflicting_attributes := conflicts, cm_missing_attributes := missing,
                        cm_capability_ids := (if method = STRUCTURED_SIMILARITY then cmp_capability_ids c else [])\<rparr>)))"

section \<open>Part references\<close>

lemma upper_char_space [simp]: "is_space (upper_char c) = is_space c"
  by (cases "of_char c \<le> (122 :: nat)") (auto simp: upper_char_def is_space_def Let_def)

lemma upper_char_idem [simp]: "upper_char (upper_char c) = upper_char c"
  by (auto simp: upper_char_def Let_def)

lemma normalized_text: "normalize_part_reference (Some v) = Some s \<Longrightarrow> s = upper (filter (\<lambda>c. \<not> is_space c) v) \<and> s \<noteq> []"
  by (auto simp: normalize_part_reference_def concat_split_ws upper_def filter_map o_def blank_iff filter_empty_conv
      split: if_splits)

lemma normalized_present: "truthy (normalize_part_reference v) \<longleftrightarrow> normalize_part_reference v \<noteq> None"
proof (cases "normalize_part_reference v")
  case (Some s)
  then obtain t where "v = Some t" by (cases v) (simp_all add: normalize_part_reference_def)
  then have "s \<noteq> []" using normalized_text Some by blast
  with Some show ?thesis by (simp add: truthy_def)
qed simp

lemma normalize_idem: "normalize_part_reference v = Some s \<Longrightarrow> normalize_part_reference (Some s) = Some s"
proof -
  assume a: "normalize_part_reference v = Some s"
  then obtain t where v: "v = Some t" by (cases v) (simp_all add: normalize_part_reference_def)
  have s: "s = upper (filter (\<lambda>c. \<not> is_space c) t)" "s \<noteq> []" using normalized_text a v by auto
  have nospace: "\<forall>c\<in>set s. \<not> is_space c" unfolding s(1) by (auto simp: upper_def)
  then have "\<not> blank s" using s(2) by (cases s) (auto simp: blank_iff)
  moreover have "upper s = s" unfolding s(1) by (simp add: upper_def)
  moreover have "filter (\<lambda>c. \<not> is_space c) s = s" using nospace by (simp add: filter_id_conv)
  ultimately show ?thesis by (simp add: normalize_part_reference_def concat_split_ws)
qed

section \<open>Attributes\<close>

lemma compare_attributes_partition:
  "compare_attributes ps m c u = (m', c', u') \<Longrightarrow>
     mset m' + mset c' + mset u' = mset m + mset c + mset u + mset (map fst ps)"
  by (induction ps m c u arbitrary: m' c' u' rule: compare_attributes.induct) (auto split: if_splits)

lemma compare_attributes_matched:
  "compare_attributes ps m c u = (m', c', u') \<Longrightarrow>
     set m' = set m \<union> {n. \<exists>l r. (n, Some l, Some r) \<in> set ps \<and> l \<noteq> [] \<and> r \<noteq> [] \<and> lower l = lower r}"
proof (induction ps m c u arbitrary: m' c' u' rule: compare_attributes.induct)
  case (2 name lhs rhs rest m c u)
  then show ?case by (cases lhs; cases rhs) (auto simp: truthy_def split: if_splits)
qed simp

lemma compare_attributes_conflicts:
  "compare_attributes ps m c u = (m', c', u') \<Longrightarrow>
     set c' = set c \<union> {n. \<exists>l r. (n, Some l, Some r) \<in> set ps \<and> l \<noteq> [] \<and> r \<noteq> [] \<and> lower l \<noteq> lower r}"
proof (induction ps m c u arbitrary: m' c' u' rule: compare_attributes.induct)
  case (2 name lhs rhs rest m c u)
  then show ?case by (cases lhs; cases rhs) (auto simp: truthy_def split: if_splits)
qed simp

definition agreeing :: "commercial_component \<Rightarrow> historical_quote_context \<Rightarrow> string set" where
  "agreeing c q = {n. \<exists>l r. (n, Some l, Some r) \<in> set (attribute_pairs c q) \<and> l \<noteq> [] \<and> r \<noteq> [] \<and> lower l = lower r}"

definition conflicting :: "commercial_component \<Rightarrow> historical_quote_context \<Rightarrow> string set" where
  "conflicting c q = {n. \<exists>l r. (n, Some l, Some r) \<in> set (attribute_pairs c q) \<and> l \<noteq> [] \<and> r \<noteq> [] \<and> lower l \<noteq> lower r}"

lemma compared:
  assumes "compare_attributes (attribute_pairs c q) [] [] [] = (m, x, u)"
  shows "set m = agreeing c q" "set x = conflicting c q" "length m = card (agreeing c q)"
    "mset m + mset x + mset u = mset [''component_class'', ''material'', ''process'', ''part_family'']"
proof -
  show m: "set m = agreeing c q" using compare_attributes_matched[OF assms] by (simp add: agreeing_def)
  show "set x = conflicting c q" using compare_attributes_conflicts[OF assms] by (simp add: conflicting_def)
  show p: "mset m + mset x + mset u = mset [''component_class'', ''material'', ''process'', ''part_family'']"
    using compare_attributes_partition[OF assms] by (simp add: attribute_pairs_def)
  have "distinct (m @ x @ u)"
    using mset_eq_imp_distinct_iff[of "m @ x @ u" "[''component_class'', ''material'', ''process'', ''part_family'']"] p
    by (simp add: add.assoc)
  then have "distinct m" by simp
  then show "length m = card (agreeing c q)" using m distinct_card by fastforce
qed

section \<open>The outcome of a match\<close>

text \<open>
  What each verdict of the matcher stands on: an exact part match needs both part references,
  equal after normalisation, and is found whenever they are; two different references are a
  conflict whatever the attributes say; without two references the verdict is a conflict when a
  described attribute differs, a structured similarity when at least two agree, and otherwise
  insufficient data. Capabilities are passed on only with the two positive verdicts.
\<close>

theorem match_verdict_justified:
  "let left = normalize_part_reference (cmp_raw_part_reference c);
       right = normalize_part_reference (hq_raw_part_reference q);
       m = match_component_to_quote c (Some q)
   in (cm_method m = EXACT_PART \<longleftrightarrow> left \<noteq> None \<and> left = right) \<and>
      (cm_method m = NO_MATCH \<longleftrightarrow> (if left \<noteq> None \<and> right \<noteq> None then left \<noteq> right else conflicting c q \<noteq> {})) \<and>
      (cm_method m = STRUCTURED_SIMILARITY \<longleftrightarrow>
         (left = None \<or> right = None) \<and> conflicting c q = {} \<and> 2 \<le> card (agreeing c q)) \<and>
      (cm_review_state m = UNAMBIGUOUS \<longleftrightarrow> cm_method m \<in> {EXACT_PART, STRUCTURED_SIMILARITY}) \<and>
      (cm_review_state m = CONFLICT \<longleftrightarrow> cm_conflicting_attributes m \<noteq> []) \<and>
      cm_capability_ids m = (if cm_method m \<in> {EXACT_PART, STRUCTURED_SIMILARITY} then cmp_capability_ids c else []) \<and>
      set (cm_evidence_ids m) = set (cmp_evidence_ids c) \<union> set (hq_evidence_ids q) \<and> distinct (cm_evidence_ids m)"
proof -
  obtain ms xs us where cmp: "compare_attributes (attribute_pairs c q) [] [] [] = (ms, xs, us)"
    by (metis prod_cases3)
  note facts = compared[OF cmp]
  have empty: "xs = [] \<longleftrightarrow> conflicting c q = {}" unfolding facts(2)[symmetric] by simp
  show ?thesis
    unfolding match_component_to_quote_def Let_def similarity_of_def
    by (simp add: cmp normalized_present empty[symmetric] facts(3)[symmetric] del: not_None_eq)
qed

end
