(* ===== verification/Alerts.thy ===== *)
theory Alerts
  imports Domain
begin

text \<open>
  \<^verbatim>\<open>CommercialAlertEngine\<close> of \<^verbatim>\<open>modules/alerts/commercial.py\<close>: the alerts a
  commercial context, an open quote, a multi-unit account and an order give rise to on the day of
  an observation. The bookings ratio, a float in the code, is its exact value.
\<close>

section \<open>Thresholds\<close>

definition inactivity_days :: int where "inactivity_days = 90"
definition crm_inactivity_days :: int where "crm_inactivity_days = 30"
definition stale_quote_days :: int where "stale_quote_days = 60"
definition follow_up_days :: int where "follow_up_days = 14"
definition high_value_quote_minor :: int where "high_value_quote_minor = 100000"
definition bookings_decline_ratio :: rat where "bookings_decline_ratio = 1/4"

lemmas threshold_defs = inactivity_days_def crm_inactivity_days_def stale_quote_days_def follow_up_days_def
  high_value_quote_minor_def bookings_decline_ratio_def

section \<open>Context alerts\<close>

text \<open>The closure \<^verbatim>\<open>emit\<close> of the loop body, before the record's own check.\<close>

definition emit_alert ::
  "datetime \<Rightarrow> commercial_context \<Rightarrow> alert_kind \<Rightarrow> string \<Rightarrow> alert_value \<Rightarrow> alert_value \<Rightarrow> string \<Rightarrow> string
    \<Rightarrow> string list \<Rightarrow> string option \<Rightarrow> commercial_alert" where
  "emit_alert observed_at item kind reason actual threshold next_step severity extra subject_id =
     \<lparr>al_id = ''alert-'' @ lower (alert_kind_value kind) @ ''-'' @ cc_account_id item @ ''-'' @ cc_business_unit item
        @ (if truthy subject_id then ''-'' @ the subject_id else []),
      al_account_id = cc_account_id item, al_type = kind, al_business_unit = Some (cc_business_unit item),
      al_severity = severity, al_trigger_reason = reason, al_actual_value = actual, al_threshold = threshold,
      al_evidence_ids = prov_source_record_id (cc_provenance item) # extra, al_observed_at = observed_at,
      al_recommended_action = next_step, al_owner_id = None, al_status = ''OPEN'',
      al_synthetic = prov_synthetic (cc_provenance item),
      al_provenance_state = evidence_class_value (prov_evidence_state (cc_provenance item)),
      al_order_data_required = False, al_subject_id = subject_id, al_hard_stop = False\<rparr>"

definition inactivity_alerts :: "datetime \<Rightarrow> commercial_context \<Rightarrow> commercial_alert list" where
  "inactivity_alerts observed_at c =
     (case cc_last_booking_date c of
        None \<Rightarrow> []
      | Some d \<Rightarrow>
          (let age = days_between (date_of observed_at) d
           in if inactivity_days \<le> age
              then [emit_alert observed_at c CUSTOMER_INACTIVITY ''No booking within inactivity window'' (AV_int age)
                      (AV_int inactivity_days) ''Confirm account status and schedule customer outreach.'' ''HIGH'' [] None]
              else []))"

definition decline_ratio :: "commercial_context \<Rightarrow> rat option" where
  \<comment> \<open>the drop from the month before the last to the last, when both are known and the former is not 0\<close>
  "decline_ratio c =
     (case rev (sort_key mch_month (cc_monthly_history c)) of
        last_month # before # _ \<Rightarrow>
          (case (mch_bookings_minor last_month, mch_bookings_minor before) of
             (Some b1, Some b0) \<Rightarrow> if b0 = 0 then None else Some (1 - of_int b1 / of_int b0)
           | _ \<Rightarrow> None)
      | _ \<Rightarrow> None)"

definition decline_alerts :: "datetime \<Rightarrow> commercial_context \<Rightarrow> commercial_alert list" where
  "decline_alerts observed_at c =
     (case decline_ratio c of
        None \<Rightarrow> []
      | Some ratio \<Rightarrow>
          (if bookings_decline_ratio \<le> ratio
           then [emit_alert observed_at c BOOKINGS_DECLINE ''Bookings declined versus prior period'' (AV_num ratio)
                   (AV_num bookings_decline_ratio) ''Review lost demand and recovery plan.'' ''HIGH'' [] None]
           else []))"

definition crm_alerts :: "datetime \<Rightarrow> commercial_context \<Rightarrow> commercial_alert list" where
  "crm_alerts observed_at c =
     (case cc_last_crm_activity_date c of
        None \<Rightarrow> []
      | Some d \<Rightarrow>
          (let age = days_between (date_of observed_at) d
           in if crm_inactivity_days \<le> age
              then [emit_alert observed_at c CRM_INACTIVITY ''No CRM activity within follow-up window'' (AV_int age)
                      (AV_int crm_inactivity_days) ''Log an account touchpoint and assign an owner.'' ''MEDIUM'' [] None]
              else []))"

definition intelligence_alerts :: "datetime \<Rightarrow> commercial_context \<Rightarrow> commercial_alert list" where
  "intelligence_alerts observed_at c =
     (case cc_ttm_bookings_minor c of
        None \<Rightarrow> []
      | Some booked \<Rightarrow>
          (if cc_intelligence_evidence_ids c \<noteq> []
           then [emit_alert observed_at c INTELLIGENCE_COMMERCIAL_CONTEXT ''External intelligence needs commercial review''
                   (AV_int booked) (AV_text ''commercial context present'')
                   ''Review intelligence against current commercial plan.'' ''MEDIUM'' (cc_intelligence_evidence_ids c) None]
           else []))"

section \<open>Quote alerts\<close>

definition quote_units :: "commercial_quote \<Rightarrow> string list" where
  "quote_units q = (if cq_business_unit_ids q \<noteq> [] then cq_business_unit_ids q else [cq_business_unit q])"

definition quote_in_scope :: "commercial_context \<Rightarrow> commercial_quote \<Rightarrow> bool" where
  "quote_in_scope c q = (cq_account_id q = cc_account_id c \<and> cq_status q = Q_OPEN \<and> cc_business_unit c \<in> set (quote_units q))"

definition quote_age :: "datetime \<Rightarrow> commercial_quote \<Rightarrow> int" where
  "quote_age observed_at q = days_between (date_of observed_at) (cq_quoted_at q)"

definition quote_stale :: "datetime \<Rightarrow> commercial_quote \<Rightarrow> bool" where
  "quote_stale observed_at q =
     (case cq_value_minor q of
        None \<Rightarrow> False
      | Some v \<Rightarrow> high_value_quote_minor \<le> v \<and> stale_quote_days \<le> quote_age observed_at q)"

definition quote_alerts :: "datetime \<Rightarrow> commercial_context \<Rightarrow> commercial_quote \<Rightarrow> commercial_alert list" where
  "quote_alerts observed_at c q =
     (if \<not> quote_in_scope c q then []
      else let age = quote_age observed_at q;
               quote_evidence = prov_source_record_id (cq_provenance q) # cq_quote_to_book_evidence_ids q
           in if quote_stale observed_at q
              then [emit_alert observed_at c STALE_QUOTE ''Open high-value quote is stale'' (AV_int age)
                      (AV_int stale_quote_days) ''Escalate quote disposition with the account owner.'' ''HIGH''
                      quote_evidence (Some (cq_id q))]
              else if follow_up_days \<le> age
              then [emit_alert observed_at c QUOTE_FOLLOW_UP ''Open quote requires follow-up'' (AV_int age)
                      (AV_int follow_up_days) ''Contact the quote recipient and record outcome.'' ''MEDIUM''
                      quote_evidence (Some (cq_id q))]
              else [])"

definition context_alerts :: "commercial_quote list \<Rightarrow> datetime \<Rightarrow> commercial_context \<Rightarrow> commercial_alert list" where
  "context_alerts quotes observed_at c =
     inactivity_alerts observed_at c @ decline_alerts observed_at c @ crm_alerts observed_at c
       @ intelligence_alerts observed_at c @ concat (map (quote_alerts observed_at c) quotes)"

section \<open>Account and order alerts\<close>

fun group_contexts :: "commercial_context list \<Rightarrow> (string, commercial_context list) dict \<Rightarrow> (string, commercial_context list) dict" where
  \<comment> \<open>\<open>by_account.setdefault(account_id, []).append(context)\<close>\<close>
  "group_contexts [] groups = groups"
| "group_contexts (c # cs) groups =
     group_contexts cs (dset (cc_account_id c) (default_to (dget groups (cc_account_id c)) [] @ [c]) groups)"

definition coordination_alerts :: "datetime \<Rightarrow> string \<times> commercial_context list \<Rightarrow> commercial_alert list" where
  "coordination_alerts observed_at grp =
     (case grp of (account_id, items) \<Rightarrow>
        if 1 < card (set (map cc_business_unit items))
        then [\<lparr>al_id = ''alert-cross_bu_coordination-'' @ account_id, al_account_id = account_id,
                al_type = CROSS_BU_COORDINATION, al_business_unit = None, al_severity = ''MEDIUM'',
                al_trigger_reason = ''Multiple business units have active commercial context'',
                al_actual_value = AV_texts (sort (map cc_business_unit items)), al_threshold = AV_int 1,
                al_evidence_ids = map (\<lambda>i. prov_source_record_id (cc_provenance i)) items, al_observed_at = observed_at,
                al_recommended_action = ''Coordinate account strategy across business units.'', al_owner_id = None,
                al_status = ''OPEN'', al_synthetic = list_all (\<lambda>i. prov_synthetic (cc_provenance i)) items,
                al_provenance_state = ''CONFIRMED'', al_order_data_required = False, al_subject_id = None,
                al_hard_stop = False\<rparr>]
        else [])"

definition order_overdue :: "datetime \<Rightarrow> order \<Rightarrow> bool" where
  "order_overdue observed_at o1 =
     (case ord_promised_date o1 of
        None \<Rightarrow> False
      | Some promised \<Rightarrow> ord_actual_ship_date o1 = None \<and> promised < date_of observed_at
          \<and> ord_status o1 \<notin> {''CANCELLED'', ''SHIPPED''})"

definition overdue_alert :: "datetime \<Rightarrow> order \<Rightarrow> commercial_alert" where
  "overdue_alert observed_at o1 =
     \<lparr>al_id = ''alert-overdue_order-'' @ ord_id o1, al_account_id = ord_account_id o1, al_type = OVERDUE_ORDER,
      al_business_unit = Some (ord_business_unit_id o1), al_severity = ''HIGH'',
      al_trigger_reason = ''Order is past its promised ship date'',
      al_actual_value = AV_int (days_between (date_of observed_at) (the (ord_promised_date o1))), al_threshold = AV_int 0,
      al_evidence_ids = [prov_source_record_id (ord_provenance o1)], al_observed_at = observed_at,
      al_recommended_action = ''Confirm fulfillment status and customer recovery plan.'', al_owner_id = None,
      al_status = ''OPEN'', al_synthetic = prov_synthetic (ord_provenance o1),
      al_provenance_state = evidence_class_value (prov_evidence_state (ord_provenance o1)),
      al_order_data_required = False, al_subject_id = None, al_hard_stop = False\<rparr>"

definition order_alerts :: "datetime \<Rightarrow> order \<Rightarrow> commercial_alert list" where
  "order_alerts observed_at o1 = (if order_overdue observed_at o1 then [overdue_alert observed_at o1] else [])"

definition raised_alerts ::
  "commercial_context list \<Rightarrow> commercial_quote list \<Rightarrow> datetime \<Rightarrow> order list \<Rightarrow> commercial_alert list" where
  "raised_alerts contexts quotes observed_at orders =
     concat (map (context_alerts quotes observed_at) contexts)
     @ concat (map (coordination_alerts observed_at) (group_contexts contexts []))
     @ concat (map (order_alerts observed_at) orders)"

definition evaluate_alerts ::
  "commercial_context list \<Rightarrow> commercial_quote list \<Rightarrow> datetime \<Rightarrow> order list \<Rightarrow> (py_error, commercial_alert list) result" where
  "evaluate_alerts contexts quotes observed_at orders =
     bind_r (map_r commercial_alert_post_init (raised_alerts contexts quotes observed_at orders)) (\<lambda>alerts.
     Inr (sort_key al_id alerts))"

definition overdue_order_available :: "commercial_context \<Rightarrow> order list \<Rightarrow> bool" where
  "overdue_order_available c orders = list_ex (\<lambda>o1. ord_account_id o1 = cc_account_id c
     \<and> ord_business_unit_id o1 = cc_business_unit c \<and> ord_promised_date o1 \<noteq> None) orders"

section \<open>What is raised\<close>

lemma inactivity_facts: "a \<in> set (inactivity_alerts t c) \<Longrightarrow>
    al_evidence_ids a \<noteq> [] \<and> al_observed_at a = t \<and> al_type a = CUSTOMER_INACTIVITY"
  by (cases "cc_last_booking_date c") (simp_all add: inactivity_alerts_def emit_alert_def Let_def split: if_splits)

lemma decline_facts: "a \<in> set (decline_alerts t c) \<Longrightarrow>
    al_evidence_ids a \<noteq> [] \<and> al_observed_at a = t \<and> al_type a = BOOKINGS_DECLINE"
  by (cases "decline_ratio c") (simp_all add: decline_alerts_def emit_alert_def split: if_splits)

lemma crm_facts: "a \<in> set (crm_alerts t c) \<Longrightarrow>
    al_evidence_ids a \<noteq> [] \<and> al_observed_at a = t \<and> al_type a = CRM_INACTIVITY"
  by (cases "cc_last_crm_activity_date c") (simp_all add: crm_alerts_def emit_alert_def Let_def split: if_splits)

lemma intelligence_facts: "a \<in> set (intelligence_alerts t c) \<Longrightarrow>
    al_evidence_ids a \<noteq> [] \<and> al_observed_at a = t \<and> al_type a = INTELLIGENCE_COMMERCIAL_CONTEXT"
  by (cases "cc_ttm_bookings_minor c") (simp_all add: intelligence_alerts_def emit_alert_def split: if_splits)

lemma quote_alert_facts: "a \<in> set (quote_alerts t c q) \<Longrightarrow>
    al_evidence_ids a \<noteq> [] \<and> al_observed_at a = t \<and> quote_in_scope c q \<and> al_account_id a = cc_account_id c
    \<and> al_business_unit a = Some (cc_business_unit c) \<and> al_subject_id a = Some (cq_id q)
    \<and> al_type a = (if quote_stale t q then STALE_QUOTE else QUOTE_FOLLOW_UP)"
  by (cases "quote_in_scope c q"; cases "quote_stale t q")
    (simp_all add: quote_alerts_def emit_alert_def Let_def split: if_splits)

lemmas alert_facts = inactivity_facts decline_facts crm_facts intelligence_facts quote_alert_facts

lemma context_alert_cases:
  assumes "a \<in> set (context_alerts quotes t c)"
  obtains (plain) "al_evidence_ids a \<noteq> []" "al_observed_at a = t"
      "al_type a \<in> {CUSTOMER_INACTIVITY, BOOKINGS_DECLINE, CRM_INACTIVITY, INTELLIGENCE_COMMERCIAL_CONTEXT}"
    | (of_quote) q where "q \<in> set quotes" "a \<in> set (quote_alerts t c q)"
proof -
  consider "a \<in> set (inactivity_alerts t c)" | "a \<in> set (decline_alerts t c)" | "a \<in> set (crm_alerts t c)"
    | "a \<in> set (intelligence_alerts t c)" | q where "q \<in> set quotes" "a \<in> set (quote_alerts t c q)"
    using assms by (auto simp: context_alerts_def)
  then show thesis
    by cases (use plain of_quote alert_facts in \<open>blast+\<close>)
qed

lemma context_alert_facts:
  assumes "a \<in> set (context_alerts quotes t c)"
  shows "al_evidence_ids a \<noteq> [] \<and> al_observed_at a = t \<and> al_type a \<noteq> OVERDUE_ORDER \<and> al_type a \<noteq> CROSS_BU_COORDINATION"
  using assms
proof (cases rule: context_alert_cases)
  case (of_quote q)
  then show ?thesis using quote_alert_facts[of a t c q] by (simp split: if_splits)
qed auto

lemma dset_entries: "(k', v') \<in> set (dset k v d) \<Longrightarrow> v' = v \<or> (k', v') \<in> set d"
  by (induction d) (auto split: if_splits)

lemma group_contexts_nonempty:
  "\<forall>k v. (k, v) \<in> set g \<longrightarrow> v \<noteq> [] \<Longrightarrow> (k, v) \<in> set (group_contexts cs g) \<Longrightarrow> v \<noteq> []"
proof (induction cs g rule: group_contexts.induct)
  case (2 c cs g)
  have "\<forall>k' v'. (k', v') \<in> set (dset (cc_account_id c) (default_to (dget g (cc_account_id c)) [] @ [c]) g) \<longrightarrow> v' \<noteq> []"
    using dset_entries 2(2) by fastforce
  then show ?case using 2(1) 2(3) by simp
qed auto

lemma coordination_alert_facts:
  "a \<in> set (coordination_alerts t g) \<Longrightarrow>
     (snd g \<noteq> [] \<longrightarrow> al_evidence_ids a \<noteq> []) \<and> al_observed_at a = t \<and> al_type a = CROSS_BU_COORDINATION"
  by (auto simp: coordination_alerts_def split: prod.splits if_splits)

lemma raised_alert_facts:
  assumes "a \<in> set (raised_alerts contexts quotes t orders)"
  shows "al_evidence_ids a \<noteq> [] \<and> al_observed_at a = t"
proof -
  consider c where "a \<in> set (context_alerts quotes t c)"
    | g where "g \<in> set (group_contexts contexts [])" "a \<in> set (coordination_alerts t g)"
    | o1 where "a \<in> set (order_alerts t o1)"
    using assms by (auto simp: raised_alerts_def)
  then show ?thesis
  proof cases
    case 1
    then show ?thesis using context_alert_facts by blast
  next
    case (2 g)
    then have "snd g \<noteq> []" using group_contexts_nonempty[of "[]" "fst g" "snd g" contexts] by simp
    then show ?thesis using 2 coordination_alert_facts by blast
  next
    case 3
    then show ?thesis by (auto simp: order_alerts_def overdue_alert_def split: if_splits)
  qed
qed

lemma map_r_same: "(\<And>x. x \<in> set xs \<Longrightarrow> f x = Inr x) \<Longrightarrow> map_r f xs = Inr xs"
  by (induction xs) auto

lemma evaluate_alerts_eq:
  "aware t \<Longrightarrow> evaluate_alerts contexts quotes t orders = Inr (sort_key al_id (raised_alerts contexts quotes t orders))"
proof -
  assume "aware t"
  then have "map_r commercial_alert_post_init (raised_alerts contexts quotes t orders)
      = Inr (raised_alerts contexts quotes t orders)"
    by (intro map_r_same) (simp add: res_simps raised_alert_facts)
  then show ?thesis by (simp add: evaluate_alerts_def)
qed

section \<open>When an alert is due\<close>

text \<open>
  The rules of the alerts, one for each kind, over the dates, amounts and statuses of the records: an alert of
  an id, kind, account, business unit and subject, with the value that gave rise to it, is due.
\<close>

definition day_count :: "datetime \<Rightarrow> date \<Rightarrow> int" where
  "day_count t d = toordinal (date_of t) - toordinal d"

inductive alert_due ::
  "commercial_context list \<Rightarrow> commercial_quote list \<Rightarrow> datetime \<Rightarrow> order list \<Rightarrow>
   string \<Rightarrow> alert_kind \<Rightarrow> string \<Rightarrow> string option \<Rightarrow> string option \<Rightarrow> alert_value \<Rightarrow> bool"
  for contexts quotes t orders where
  no_bookings: "\<lbrakk>c \<in> set contexts; cc_last_booking_date c = Some d; 90 \<le> day_count t d\<rbrakk> \<Longrightarrow>
     alert_due contexts quotes t orders (''alert-customer_inactivity-'' @ cc_account_id c @ ''-'' @ cc_business_unit c)
       CUSTOMER_INACTIVITY (cc_account_id c) (Some (cc_business_unit c)) None (AV_int (day_count t d))"
| fewer_bookings: "\<lbrakk>c \<in> set contexts; sort_key mch_month (cc_monthly_history c) = older @ [m0, m1];
     mch_bookings_minor m0 = Some b0; mch_bookings_minor m1 = Some b1; b0 \<noteq> 0; ratio = 1 - of_int b1 / of_int b0; 1/4 \<le> ratio\<rbrakk> \<Longrightarrow>
     alert_due contexts quotes t orders (''alert-bookings_decline-'' @ cc_account_id c @ ''-'' @ cc_business_unit c)
       BOOKINGS_DECLINE (cc_account_id c) (Some (cc_business_unit c)) None (AV_num ratio)"
| no_crm_activity: "\<lbrakk>c \<in> set contexts; cc_last_crm_activity_date c = Some d; 30 \<le> day_count t d\<rbrakk> \<Longrightarrow>
     alert_due contexts quotes t orders (''alert-crm_inactivity-'' @ cc_account_id c @ ''-'' @ cc_business_unit c)
       CRM_INACTIVITY (cc_account_id c) (Some (cc_business_unit c)) None (AV_int (day_count t d))"
| intelligence: "\<lbrakk>c \<in> set contexts; cc_ttm_bookings_minor c = Some booked; e \<in> set (cc_intelligence_evidence_ids c)\<rbrakk> \<Longrightarrow>
     alert_due contexts quotes t orders (''alert-intelligence_commercial_context-'' @ cc_account_id c @ ''-'' @ cc_business_unit c)
       INTELLIGENCE_COMMERCIAL_CONTEXT (cc_account_id c) (Some (cc_business_unit c)) None (AV_int booked)"
| open_quote: "\<lbrakk>c \<in> set contexts; q \<in> set quotes; cq_account_id q = cc_account_id c; cq_status q = Q_OPEN;
     cc_business_unit c \<in> set (cq_business_unit_ids q) \<or> cq_business_unit_ids q = [] \<and> cc_business_unit c = cq_business_unit q;
     suffix = (if cq_id q = [] then [] else ''-'' @ cq_id q);
     if 60 \<le> day_count t (cq_quoted_at q) \<and> (\<exists>v\<ge>100000. cq_value_minor q = Some v)
     then kind = STALE_QUOTE \<and> slug = ''stale_quote-''
     else 14 \<le> day_count t (cq_quoted_at q) \<and> kind = QUOTE_FOLLOW_UP \<and> slug = ''quote_follow_up-''\<rbrakk> \<Longrightarrow>
     alert_due contexts quotes t orders (''alert-'' @ slug @ cc_account_id c @ ''-'' @ cc_business_unit c @ suffix)
       kind (cc_account_id c) (Some (cc_business_unit c)) (Some (cq_id q)) (AV_int (day_count t (cq_quoted_at q)))"
| several_units: "\<lbrakk>c \<in> set contexts; c' \<in> set contexts; cc_account_id c' = cc_account_id c; cc_business_unit c' \<noteq> cc_business_unit c\<rbrakk> \<Longrightarrow>
     alert_due contexts quotes t orders (''alert-cross_bu_coordination-'' @ cc_account_id c) CROSS_BU_COORDINATION (cc_account_id c) None None
       (AV_texts (sort (map cc_business_unit (filter (\<lambda>c'. cc_account_id c' = cc_account_id c) contexts))))"
| late_order: "\<lbrakk>o1 \<in> set orders; ord_promised_date o1 = Some d; ord_actual_ship_date o1 = None; d < date_of t;
     ord_status o1 \<noteq> ''CANCELLED''; ord_status o1 \<noteq> ''SHIPPED''\<rbrakk> \<Longrightarrow>
     alert_due contexts quotes t orders (''alert-overdue_order-'' @ ord_id o1) OVERDUE_ORDER (ord_account_id o1)
       (Some (ord_business_unit_id o1)) None (AV_int (day_count t d))"

definition says :: "commercial_alert \<Rightarrow> string \<Rightarrow> alert_kind \<Rightarrow> string \<Rightarrow> string option \<Rightarrow> string option \<Rightarrow> alert_value \<Rightarrow> bool" where
  "says a i kind acct bu subj v = (al_id a = i \<and> al_type a = kind \<and> al_account_id a = acct \<and> al_business_unit a = bu
     \<and> al_subject_id a = subj \<and> al_actual_value a = v)"

lemma slugs: "lower ''CUSTOMER_INACTIVITY'' = ''customer_inactivity''"
  "lower ''BOOKINGS_DECLINE'' = ''bookings_decline''"
  "lower ''CRM_INACTIVITY'' = ''crm_inactivity''"
  "lower ''INTELLIGENCE_COMMERCIAL_CONTEXT'' = ''intelligence_commercial_context''"
  "lower ''STALE_QUOTE'' = ''stale_quote''"
  "lower ''QUOTE_FOLLOW_UP'' = ''quote_follow_up''"
  by code_simp+

lemmas alert_fields = says_def emit_alert_def slugs threshold_defs day_count_def days_between_def Let_def

lemma inactivity_due: "(\<exists>a\<in>set (inactivity_alerts t c). says a i k acct bu subj v) \<longleftrightarrow>
   (\<exists>d. cc_last_booking_date c = Some d \<and> 90 \<le> day_count t d \<and> i = ''alert-customer_inactivity-'' @ cc_account_id c @ ''-'' @ cc_business_unit c
      \<and> k = CUSTOMER_INACTIVITY \<and> acct = cc_account_id c \<and> bu = Some (cc_business_unit c) \<and> subj = None \<and> v = AV_int (day_count t d))"
  by (cases "cc_last_booking_date c") (auto simp: inactivity_alerts_def alert_fields truthy_def)

lemma crm_due: "(\<exists>a\<in>set (crm_alerts t c). says a i k acct bu subj v) \<longleftrightarrow>
   (\<exists>d. cc_last_crm_activity_date c = Some d \<and> 30 \<le> day_count t d \<and> i = ''alert-crm_inactivity-'' @ cc_account_id c @ ''-'' @ cc_business_unit c
      \<and> k = CRM_INACTIVITY \<and> acct = cc_account_id c \<and> bu = Some (cc_business_unit c) \<and> subj = None \<and> v = AV_int (day_count t d))"
  by (cases "cc_last_crm_activity_date c") (auto simp: crm_alerts_def alert_fields truthy_def)

lemma intelligence_due: "(\<exists>a\<in>set (intelligence_alerts t c). says a i k acct bu subj v) \<longleftrightarrow>
   (\<exists>b e. cc_ttm_bookings_minor c = Some b \<and> e \<in> set (cc_intelligence_evidence_ids c)
      \<and> i = ''alert-intelligence_commercial_context-'' @ cc_account_id c @ ''-'' @ cc_business_unit c
      \<and> k = INTELLIGENCE_COMMERCIAL_CONTEXT \<and> acct = cc_account_id c \<and> bu = Some (cc_business_unit c) \<and> subj = None \<and> v = AV_int b)"
  by (cases "cc_ttm_bookings_minor c"; cases "cc_intelligence_evidence_ids c")
    (auto simp: intelligence_alerts_def alert_fields truthy_def)

lemma decline_ratio_eq: "decline_ratio c = Some r \<longleftrightarrow> (\<exists>older m0 m1 b0 b1. sort_key mch_month (cc_monthly_history c) = older @ [m0, m1]
    \<and> mch_bookings_minor m0 = Some b0 \<and> mch_bookings_minor m1 = Some b1 \<and> b0 \<noteq> 0 \<and> r = 1 - of_int b1 / of_int b0)"
proof -
  have "(\<exists>older. sort_key mch_month (cc_monthly_history c) = older @ [m0, m1])
      \<longleftrightarrow> (\<exists>rest. rev (sort_key mch_month (cc_monthly_history c)) = m1 # m0 # rest)" for m0 m1
    by (metis append.assoc append_Cons append_Nil rev.simps(2) rev_rev_ident)
  then show ?thesis unfolding decline_ratio_def by (auto split: list.splits option.splits)
qed

lemma decline_due: "(\<exists>a\<in>set (decline_alerts t c). says a i k acct bu subj v) \<longleftrightarrow>
   (\<exists>r. decline_ratio c = Some r \<and> 1/4 \<le> r \<and> i = ''alert-bookings_decline-'' @ cc_account_id c @ ''-'' @ cc_business_unit c
      \<and> k = BOOKINGS_DECLINE \<and> acct = cc_account_id c \<and> bu = Some (cc_business_unit c) \<and> subj = None \<and> v = AV_num r)"
  by (cases "decline_ratio c") (auto simp: decline_alerts_def alert_fields truthy_def)

lemma quote_due: "(\<exists>a\<in>set (quote_alerts t c q). says a i k acct bu subj v) \<longleftrightarrow>
   cq_account_id q = cc_account_id c \<and> cq_status q = Q_OPEN
   \<and> (cc_business_unit c \<in> set (cq_business_unit_ids q) \<or> cq_business_unit_ids q = [] \<and> cc_business_unit c = cq_business_unit q)
   \<and> (\<exists>slug. (if 60 \<le> day_count t (cq_quoted_at q) \<and> (\<exists>v\<ge>100000. cq_value_minor q = Some v)
        then k = STALE_QUOTE \<and> slug = ''stale_quote-''
        else 14 \<le> day_count t (cq_quoted_at q) \<and> k = QUOTE_FOLLOW_UP \<and> slug = ''quote_follow_up-'')
      \<and> i = ''alert-'' @ slug @ cc_account_id c @ ''-'' @ cc_business_unit c @ (if cq_id q = [] then [] else ''-'' @ cq_id q))
   \<and> acct = cc_account_id c \<and> bu = Some (cc_business_unit c) \<and> subj = Some (cq_id q) \<and> v = AV_int (day_count t (cq_quoted_at q))"
proof (cases "quote_in_scope c q")
  case True
  have s: "quote_stale t q \<longleftrightarrow> 60 \<le> day_count t (cq_quoted_at q) \<and> (\<exists>v\<ge>100000. cq_value_minor q = Some v)"
    by (auto simp: quote_stale_def quote_age_def alert_fields split: option.split)
  have sc: "cq_account_id q = cc_account_id c" "cq_status q = Q_OPEN"
    "cc_business_unit c \<in> set (cq_business_unit_ids q) \<or> cq_business_unit_ids q = [] \<and> cc_business_unit c = cq_business_unit q"
    using True by (auto simp: quote_in_scope_def quote_units_def split: if_splits)
  have a: "quote_age t q = day_count t (cq_quoted_at q)" by (simp add: quote_age_def day_count_def days_between_def)
  show ?thesis unfolding s[symmetric] quote_alerts_def using True sc
    by (cases "quote_stale t q") (auto simp: Let_def a says_def emit_alert_def slugs threshold_defs truthy_def)
qed (auto simp: quote_alerts_def quote_in_scope_def quote_units_def split: if_splits)

lemma order_due: "(\<exists>a\<in>set (order_alerts t o1). says a i k acct bu subj v) \<longleftrightarrow>
   (\<exists>d. ord_promised_date o1 = Some d \<and> ord_actual_ship_date o1 = None \<and> d < date_of t
      \<and> ord_status o1 \<noteq> ''CANCELLED'' \<and> ord_status o1 \<noteq> ''SHIPPED'' \<and> i = ''alert-overdue_order-'' @ ord_id o1 \<and> k = OVERDUE_ORDER
      \<and> acct = ord_account_id o1 \<and> bu = Some (ord_business_unit_id o1) \<and> subj = None \<and> v = AV_int (day_count t d))"
  by (cases "ord_promised_date o1") (auto simp: order_alerts_def order_overdue_def overdue_alert_def alert_fields)

lemma group_contexts_get: "dget (group_contexts cs g) k
    = (let mine = filter (\<lambda>c. cc_account_id c = k) cs in if mine = [] then dget g k else Some (default_to (dget g k) [] @ mine))"
  by (induction cs g rule: group_contexts.induct) (auto simp: Let_def dict_simps default_to_def)

lemma group_contexts_wf: "dict_wf g \<Longrightarrow> dict_wf (group_contexts cs g)"
  by (induction cs g rule: group_contexts.induct) (simp_all add: dict_simps)

lemma groups_are_accounts: "(k, items) \<in> set (group_contexts cs [])
    \<longleftrightarrow> items = filter (\<lambda>c. cc_account_id c = k) cs \<and> items \<noteq> []"
proof -
  have "dict_wf (group_contexts cs [])" by (simp add: group_contexts_wf dict_simps)
  then have "(k, items) \<in> set (group_contexts cs []) \<longleftrightarrow> dget (group_contexts cs []) k = Some items"
    by (simp add: dict_wf_def map_of_eq_Some_iff)
  also have "\<dots> \<longleftrightarrow> items = filter (\<lambda>c. cc_account_id c = k) cs \<and> items \<noteq> []"
    by (auto simp: group_contexts_get Let_def default_to_def)
  finally show ?thesis .
qed

lemma several_values: "1 < card (f ` A) \<longleftrightarrow> (\<exists>x\<in>A. \<exists>y\<in>A. f y \<noteq> f x)" if "finite A"
proof -
  have "1 < card (f ` A) \<longleftrightarrow> \<not> (card (f ` A) \<le> Suc 0)" by auto
  also have "\<dots> \<longleftrightarrow> (\<exists>x\<in>A. \<exists>y\<in>A. f y \<noteq> f x)" using that by (auto simp: card_le_Suc0_iff_eq)
  finally show ?thesis .
qed

lemma coordination_due: "(\<exists>g\<in>set (group_contexts cs []). \<exists>a\<in>set (coordination_alerts t g). says a i k acct bu subj v) \<longleftrightarrow>
   (\<exists>c\<in>set cs. \<exists>c'\<in>set cs. cc_account_id c' = cc_account_id c \<and> cc_business_unit c' \<noteq> cc_business_unit c
      \<and> i = ''alert-cross_bu_coordination-'' @ cc_account_id c \<and> k = CROSS_BU_COORDINATION \<and> acct = cc_account_id c \<and> bu = None \<and> subj = None
      \<and> v = AV_texts (sort (map cc_business_unit (filter (\<lambda>c'. cc_account_id c' = cc_account_id c) cs))))" (is "?L \<longleftrightarrow> ?R")
proof -
  have one: "(\<exists>a\<in>set (coordination_alerts t (ac, items)). says a i k acct bu subj v) \<longleftrightarrow>
      (\<exists>c\<in>set items. \<exists>c'\<in>set items. cc_business_unit c' \<noteq> cc_business_unit c) \<and> i = ''alert-cross_bu_coordination-'' @ ac
      \<and> k = CROSS_BU_COORDINATION \<and> acct = ac \<and> bu = None \<and> subj = None \<and> v = AV_texts (sort (map cc_business_unit items))" for ac items
    using several_values[of "set items" cc_business_unit] by (auto simp: coordination_alerts_def says_def)
  have "?L \<longleftrightarrow> (\<exists>ac items. (ac, items) \<in> set (group_contexts cs []) \<and> (\<exists>a\<in>set (coordination_alerts t (ac, items)). says a i k acct bu subj v))"
    by (metis surj_pair)
  also have "\<dots> \<longleftrightarrow> ?R"
  proof
    assume "\<exists>ac items. (ac, items) \<in> set (group_contexts cs []) \<and> (\<exists>a\<in>set (coordination_alerts t (ac, items)). says a i k acct bu subj v)"
    then show ?R unfolding one groups_are_accounts by auto
  next
    assume ?R
    then obtain c c' where c: "c \<in> set cs" "c' \<in> set cs" "cc_account_id c' = cc_account_id c" "cc_business_unit c' \<noteq> cc_business_unit c"
      and rest: "i = ''alert-cross_bu_coordination-'' @ cc_account_id c" "k = CROSS_BU_COORDINATION" "acct = cc_account_id c"
        "bu = None" "subj = None" "v = AV_texts (sort (map cc_business_unit (filter (\<lambda>c'. cc_account_id c' = cc_account_id c) cs)))" by blast
    let ?items = "filter (\<lambda>c'. cc_account_id c' = cc_account_id c) cs"
    have "c \<in> set ?items" "c' \<in> set ?items" using c by simp_all
    then have "(cc_account_id c, ?items) \<in> set (group_contexts cs [])
        \<and> (\<exists>a\<in>set (coordination_alerts t (cc_account_id c, ?items)). says a i k acct bu subj v)"
      unfolding one groups_are_accounts using c(4) rest by (metis list.set_intros(1) empty_iff empty_set)
    then show "\<exists>ac items. (ac, items) \<in> set (group_contexts cs []) \<and> (\<exists>a\<in>set (coordination_alerts t (ac, items)). says a i k acct bu subj v)"
      by blast
  qed
  finally show ?thesis .
qed

lemma raised_iff_due: "(\<exists>a\<in>set (raised_alerts contexts quotes t orders). says a i k acct bu subj v)
    \<longleftrightarrow> alert_due contexts quotes t orders i k acct bu subj v"
proof -
  have "(\<exists>a\<in>set (raised_alerts contexts quotes t orders). says a i k acct bu subj v) \<longleftrightarrow>
      (\<exists>c\<in>set contexts. (\<exists>a\<in>set (inactivity_alerts t c). says a i k acct bu subj v) \<or> (\<exists>a\<in>set (decline_alerts t c). says a i k acct bu subj v)
        \<or> (\<exists>a\<in>set (crm_alerts t c). says a i k acct bu subj v) \<or> (\<exists>a\<in>set (intelligence_alerts t c). says a i k acct bu subj v)
        \<or> (\<exists>q\<in>set quotes. \<exists>a\<in>set (quote_alerts t c q). says a i k acct bu subj v))
      \<or> (\<exists>g\<in>set (group_contexts contexts []). \<exists>a\<in>set (coordination_alerts t g). says a i k acct bu subj v)
      \<or> (\<exists>o1\<in>set orders. \<exists>a\<in>set (order_alerts t o1). says a i k acct bu subj v)"
    by (simp add: raised_alerts_def context_alerts_def bex_Un)
  also have "\<dots> \<longleftrightarrow> alert_due contexts quotes t orders i k acct bu subj v" (is "?L \<longleftrightarrow> ?R")
  proof
    have "?R" if "c \<in> set contexts" "\<exists>a\<in>set (inactivity_alerts t c). says a i k acct bu subj v" for c
      using that unfolding inactivity_due by (blast intro: no_bookings)
    moreover have "?R" if "c \<in> set contexts" "\<exists>a\<in>set (decline_alerts t c). says a i k acct bu subj v" for c
      using that unfolding decline_due decline_ratio_eq by (blast intro: fewer_bookings)
    moreover have "?R" if "c \<in> set contexts" "\<exists>a\<in>set (crm_alerts t c). says a i k acct bu subj v" for c
      using that unfolding crm_due by (blast intro: no_crm_activity)
    moreover have "?R" if "c \<in> set contexts" "\<exists>a\<in>set (intelligence_alerts t c). says a i k acct bu subj v" for c
      using that unfolding intelligence_due by (blast intro: intelligence)
    moreover have "?R" if "c \<in> set contexts" "q \<in> set quotes" "\<exists>a\<in>set (quote_alerts t c q). says a i k acct bu subj v" for c q
    proof -
      from that(3) obtain slug where q: "cq_account_id q = cc_account_id c" "cq_status q = Q_OPEN"
        "cc_business_unit c \<in> set (cq_business_unit_ids q) \<or> cq_business_unit_ids q = [] \<and> cc_business_unit c = cq_business_unit q"
        "if 60 \<le> day_count t (cq_quoted_at q) \<and> (\<exists>v\<ge>100000. cq_value_minor q = Some v) then k = STALE_QUOTE \<and> slug = ''stale_quote-''
         else 14 \<le> day_count t (cq_quoted_at q) \<and> k = QUOTE_FOLLOW_UP \<and> slug = ''quote_follow_up-''"
        "i = ''alert-'' @ slug @ cc_account_id c @ ''-'' @ cc_business_unit c @ (if cq_id q = [] then [] else ''-'' @ cq_id q)"
        "acct = cc_account_id c" "bu = Some (cc_business_unit c)" "subj = Some (cq_id q)" "v = AV_int (day_count t (cq_quoted_at q))"
        unfolding quote_due by blast
      show ?R unfolding q(5-9) by (rule open_quote[OF that(1,2) q(1-3) refl q(4)])
    qed
    moreover have "?R" if "\<exists>g\<in>set (group_contexts contexts []). \<exists>a\<in>set (coordination_alerts t g). says a i k acct bu subj v"
      using that unfolding coordination_due by (blast intro: several_units)
    moreover have "?R" if "o1 \<in> set orders" "\<exists>a\<in>set (order_alerts t o1). says a i k acct bu subj v" for o1
      using that unfolding order_due by (blast intro: late_order)
    moreover assume ?L
    ultimately show ?R by blast
  next
    assume ?R
    then show ?L
    proof cases
      case (no_bookings c d)
      then show ?thesis unfolding inactivity_due by blast
    next
      case (fewer_bookings c older m0 m1 b0 b1 ratio)
      then show ?thesis unfolding decline_due decline_ratio_eq by blast
    next
      case (no_crm_activity c d)
      then show ?thesis unfolding crm_due by blast
    next
      case (intelligence c b e)
      then show ?thesis unfolding intelligence_due by blast
    next
      case (open_quote c q suffix slug)
      have "\<exists>a\<in>set (quote_alerts t c q). says a i k acct bu subj v" unfolding quote_due using open_quote by blast
      then show ?thesis using open_quote(6,7) by blast
    next
      case (several_units c c')
      have "\<exists>g\<in>set (group_contexts contexts []). \<exists>a\<in>set (coordination_alerts t g). says a i k acct bu subj v"
        unfolding coordination_due using several_units by blast
      then show ?thesis by blast
    next
      case (late_order o1 d)
      then show ?thesis unfolding order_due by blast
    qed
  qed
  finally show ?thesis .
qed

lemma raised_severity: "a \<in> set (raised_alerts contexts quotes t orders) \<Longrightarrow>
    al_severity a = (if al_type a \<in> {CUSTOMER_INACTIVITY, BOOKINGS_DECLINE, STALE_QUOTE, OVERDUE_ORDER} then ''HIGH'' else ''MEDIUM'')"
  by (auto simp: raised_alerts_def context_alerts_def inactivity_alerts_def decline_alerts_def crm_alerts_def intelligence_alerts_def
      quote_alerts_def coordination_alerts_def order_alerts_def overdue_alert_def emit_alert_def Let_def split: option.splits if_splits prod.splits)

section \<open>Properties\<close>

text \<open>
  C36. With a timezone-aware observation time the engine returns its alerts, ordered by id, each
  citing evidence, dated by the observation and of the severity of its kind. For every id, kind, account, business
  unit, subject and value such an alert is returned exactly when the rules of \<open>alert_due\<close> make it due: 90 days
  without a booking, bookings down by a quarter, 30 days without CRM activity, external intelligence on an account with known
  bookings, an open quote in scope of at least 100000 and 60 days or else of 14 days, an account
  with contexts of two business units, an order not shipped or cancelled whose promised date has passed.
\<close>

theorem alerts_sound_and_complete:
  assumes "aware t"
  shows "\<exists>alerts. evaluate_alerts contexts quotes t orders = Inr alerts \<and> sorted (map al_id alerts) \<and>
     (\<forall>a\<in>set alerts. al_evidence_ids a \<noteq> [] \<and> al_observed_at a = t \<and>
        al_severity a = (if al_type a \<in> {CUSTOMER_INACTIVITY, BOOKINGS_DECLINE, STALE_QUOTE, OVERDUE_ORDER} then ''HIGH'' else ''MEDIUM'')) \<and>
     (\<forall>i kind acct bu subj v.
        (\<exists>a\<in>set alerts. al_id a = i \<and> al_type a = kind \<and> al_account_id a = acct \<and> al_business_unit a = bu
            \<and> al_subject_id a = subj \<and> al_actual_value a = v)
        \<longleftrightarrow> alert_due contexts quotes t orders i kind acct bu subj v)"
  using evaluate_alerts_eq[OF assms] raised_alert_facts raised_severity raised_iff_due[unfolded says_def] by simp

definition demo_provenance :: provenance where
  "demo_provenance = \<lparr>prov_source_system = ''paperless'', prov_source_record_id = ''order-7'', prov_source_url = None,
     prov_observed_at = at_midnight_utc (Date 2026 1 1), prov_recorded_at = at_midnight_utc (Date 2026 1 1),
     prov_classification = INTERNAL_COMMERCIAL, prov_evidence_state = CONFIRMED, prov_data_mode = SAMPLE,
     prov_synthetic = True, prov_sensitivity_tags = {}, prov_missing_fields = []\<rparr>"

definition demo_order :: order where
  "demo_order = \<lparr>ord_id = ''7'', ord_quote_id = None, ord_account_id = ''acme'', ord_business_unit_id = ''mil'',
     ord_part_number = None, ord_component_class_id = ''housing'', ord_program_id = ''p1'', ord_ship_to_city = None,
     ord_ship_to_region = None, ord_promised_date = Some (Date 2025 12 20), ord_actual_ship_date = None,
     ord_status = ''OPEN'', ord_quantity = 4, ord_amount_minor = 120000, ord_provenance = demo_provenance,
     ord_parent_order_id = None\<rparr>"

definition demo_observed :: datetime where
  "demo_observed = at_midnight_utc (Date 2026 1 2)"

lemma demo_observed_date: "date_of demo_observed = Date 2026 1 2"
proof -
  have "[1..12] = [1, 2, 3, 4, 5, 6, 7, 8, 9, 10, 11, 12::int]" by (simp add: upto_rec1)
  then show ?thesis
    by (simp add: demo_observed_def at_midnight_utc_def date_of_def toordinal_def day_micros_def fromordinal_def
        days_before_year_def days_before_month_def days_in_month_def leap_def Let_def)
qed

lemma alerts_sound_and_complete_witness:
  "\<exists>alerts. evaluate_alerts [] [] demo_observed [demo_order, demo_order\<lparr>ord_id := ''8'', ord_status := ''SHIPPED''\<rparr>] = Inr alerts \<and>
     (\<exists>a\<in>set alerts. al_id a = ''alert-overdue_order-7'' \<and> al_actual_value a = AV_int 13) \<and> (\<forall>a\<in>set alerts. al_id a \<noteq> ''alert-overdue_order-8'')"
proof -
  let ?orders = "[demo_order, demo_order\<lparr>ord_id := ''8'', ord_status := ''SHIPPED''\<rparr>]"
  have "aware demo_observed" by (simp add: demo_observed_def aware_def at_midnight_utc_def)
  from alerts_sound_and_complete[OF this, of "[]" "[]" ?orders] obtain alerts where
    a: "evaluate_alerts [] [] demo_observed ?orders = Inr alerts" and
    due: "\<forall>i kind acct bu subj v. (\<exists>a\<in>set alerts. al_id a = i \<and> al_type a = kind \<and> al_account_id a = acct \<and> al_business_unit a = bu
        \<and> al_subject_id a = subj \<and> al_actual_value a = v) \<longleftrightarrow> alert_due [] [] demo_observed ?orders i kind acct bu subj v"
    by (elim exE conjE) (rule that)
  have n: "day_count demo_observed (Date 2025 12 20) = 13" unfolding day_count_def demo_observed_date by code_simp
  have "alert_due [] [] demo_observed ?orders (''alert-overdue_order-'' @ ord_id demo_order) OVERDUE_ORDER (ord_account_id demo_order)
      (Some (ord_business_unit_id demo_order)) None (AV_int (day_count demo_observed (Date 2025 12 20)))"
    by (rule late_order) (simp_all add: demo_order_def demo_observed_date less_date_def)
  then have due7: "alert_due [] [] demo_observed ?orders ''alert-overdue_order-7'' OVERDUE_ORDER ''acme'' (Some ''mil'') None (AV_int 13)"
    by (simp add: n) (simp add: demo_order_def)
  have not8: "\<not> alert_due [] [] demo_observed ?orders ''alert-overdue_order-8'' kind acct bu subj v" for kind acct bu subj v
  proof
    assume "alert_due [] [] demo_observed ?orders ''alert-overdue_order-8'' kind acct bu subj v"
    then obtain o1 where o1: "o1 \<in> set ?orders" "ord_id o1 = ''8''" "ord_status o1 \<noteq> ''SHIPPED''"
      by cases simp_all
    have "ord_id demo_order \<noteq> ''8''" by (simp add: demo_order_def)
    then show False using o1 by auto
  qed
  have "\<exists>a\<in>set alerts. al_id a = ''alert-overdue_order-7'' \<and> al_actual_value a = AV_int 13"
    using iffD2[OF due[rule_format] due7] by blast
  moreover have "\<forall>a\<in>set alerts. al_id a \<noteq> ''alert-overdue_order-8''"
  proof
    fix a assume "a \<in> set alerts"
    then show "al_id a \<noteq> ''alert-overdue_order-8''"
      using iffD1[OF due[rule_format], of "al_id a" "al_type a" "al_account_id a" "al_business_unit a" "al_subject_id a" "al_actual_value a"]
        not8[of "al_type a" "al_account_id a" "al_business_unit a" "al_subject_id a" "al_actual_value a"] by fastforce
  qed
  ultimately show ?thesis using a by blast
qed

end
