(* ===== verification/Communications.thy ===== *)
theory Communications
  imports WorkService
begin

text \<open>
  Outbound communications: the records of \<^verbatim>\<open>domain/communications.py\<close>, the repository of
  \<^verbatim>\<open>persistence/communications.py\<close> as the two tables it keeps (with the primary key and the
  unique idempotency key of the schema; each method is one transaction), and the service of
  \<^verbatim>\<open>modules/communications/service.py\<close>. A stored column holds the value it encodes. The
  delivery port, the hash and the random ids are arguments.
\<close>

section \<open>Records (domain/communications.py)\<close>

datatype comm_channel = CC_EMAIL

datatype comm_status = CS_DRAFT | CS_READY | CS_SENT | CS_CANCELED

record comm_draft =
  cd_id :: string
  cd_account_id :: string
  cd_channel :: comm_channel
  cd_subject :: string
  cd_body :: string
  cd_recipients :: "string list"
  cd_created_by :: string
  cd_created_at :: datetime
  cd_updated_at :: datetime
  cd_approval_status :: approval_status
  cd_status :: comm_status
  cd_trigger :: "string option"
  cd_evidence_ids :: "string list"
  cd_idempotency_key :: "string option"
  cd_sent_at :: "datetime option"
  cd_version :: int

datatype comm_error =
    CommNotFound string
  | CommForbidden string
  | CommConflict string
  | CommVersionConflict string
  | CommValue py_error
  | DeliveryFailed string

definition lift_comm :: "(py_error, 'a) result \<Rightarrow> (comm_error, 'a) result" where
  "lift_comm m = (case m of Inl e \<Rightarrow> Inl (CommValue e) | Inr x \<Rightarrow> Inr x)"

definition comm_draft_post_init :: "comm_draft \<Rightarrow> (comm_error, comm_draft) result" where
  "comm_draft_post_init d = lift_comm (
     if cd_version d < 1 then Inl (ValueError ''Communication version must be a positive integer.'')
     else bind_r (require_aware (cd_created_at d) ''created_at'') (\<lambda>_.
          bind_r (require_aware (cd_updated_at d) ''updated_at'') (\<lambda>_.
          bind_r (opt_aware (cd_sent_at d) ''sent_at'') (\<lambda>_.
          if blank (cd_subject d) \<or> blank (cd_body d)
          then Inl (ValueError ''Communication subject and body are required.'') else Inr d))))"

record comm_event =
  ce_id :: "int option"
  ce_communication_id :: string
  ce_actor_id :: string
  ce_event :: string
  ce_occurred_at :: datetime
  ce_metadata :: "(string \<times> json) list"

definition comm_event_post_init :: "comm_event \<Rightarrow> (comm_error, comm_event) result" where
  "comm_event_post_init e = lift_comm (bind_r (require_aware (ce_occurred_at e) ''occurred_at'') (\<lambda>_. Inr e))"

definition mk_comm_event :: "string \<Rightarrow> principal \<Rightarrow> string \<Rightarrow> datetime \<Rightarrow> (string \<times> json) list \<Rightarrow> (comm_error, comm_event) result" where
  "mk_comm_event i p name t md = comm_event_post_init
     \<lparr>ce_id = None, ce_communication_id = i, ce_actor_id = pr_user_id p, ce_event = name, ce_occurred_at = t, ce_metadata = md\<rparr>"

section \<open>The repository (persistence/communications.py)\<close>

record comm_store =
  cs_drafts :: "comm_draft list"
  cs_events :: "comm_event list"
  cs_preferences :: "(string, bool \<times> bool) dict"

definition comm_store_init :: comm_store where
  "comm_store_init = \<lparr>cs_drafts = [], cs_events = [], cs_preferences = []\<rparr>"

definition cget :: "comm_store \<Rightarrow> string \<Rightarrow> comm_draft option" where
  "cget st i = first_match (\<lambda>d. cd_id d = i) (cs_drafts st)"

definition clist :: "comm_store \<Rightarrow> comm_draft list" where
  "clist st = sort_key (\<lambda>d. - instant (cd_updated_at d)) (cs_drafts st)"

definition by_idempotency_key :: "comm_store \<Rightarrow> string \<Rightarrow> comm_draft option" where
  "by_idempotency_key st key = first_match (\<lambda>d. cd_idempotency_key d = Some key) (cs_drafts st)"

definition row_of :: "comm_draft \<Rightarrow> comm_draft" where
  \<comment> \<open>the stored row: \<open>draft.idempotency_key or draft.id\<close>\<close>
  "row_of d = d\<lparr>cd_idempotency_key := Some (first_truthy (cd_idempotency_key d) (cd_id d))\<rparr>"

definition log_event :: "comm_event \<Rightarrow> comm_store \<Rightarrow> comm_store" where
  "log_event e st = st\<lparr>cs_events := cs_events st @ [e\<lparr>ce_id := Some (int (length (cs_events st)) + 1)\<rparr>]\<rparr>"

definition comm_save ::
  "comm_store \<Rightarrow> comm_draft \<Rightarrow> comm_event \<Rightarrow> int option \<Rightarrow> (comm_error, comm_draft) result \<times> comm_store" where
  "comm_save st d e expected =
     (if ce_event e = ''CREATED''
      then (if cget st (cd_id d) \<noteq> None \<or> by_idempotency_key st (the (cd_idempotency_key (row_of d))) \<noteq> None
            then (case by_idempotency_key st (the (cd_idempotency_key (row_of d))) of
                    None \<Rightarrow> (Inl (CommValue (ValueError ''Conflicting draft identity; inspect saved work before retrying.'')), st)
                  | Some winner \<Rightarrow> (Inr winner, st))
            else (Inr d, log_event e (st\<lparr>cs_drafts := cs_drafts st @ [row_of d]\<rparr>)))
      else case expected of
             None \<Rightarrow> (Inl (CommVersionConflict ''A saved draft version is required before changing this communication.''), st)
           | Some v \<Rightarrow>
               (if cd_version d \<noteq> v + 1
                then (Inl (CommVersionConflict ''A saved draft version is required before changing this communication.''), st)
                else if \<not> list_ex (\<lambda>x. cd_id x = cd_id d \<and> cd_version x = v) (cs_drafts st)
                then (Inl (CommVersionConflict ''This communication changed. Refresh and compare the saved draft; your local draft has not been submitted.''), st)
                else (Inr d, log_event e (st\<lparr>cs_drafts :=
                       map (\<lambda>x. if cd_id x = cd_id d \<and> cd_version x = v then row_of d else x) (cs_drafts st)\<rparr>))))"

definition append_audit :: "comm_store \<Rightarrow> comm_draft \<Rightarrow> comm_event \<Rightarrow> (comm_error, unit) result \<times> comm_store" where
  "append_audit st d e =
     (if map_option cd_version (cget st (cd_id d)) \<noteq> Some (cd_version d)
      then (Inl (CommVersionConflict ''The saved communication changed during this preview. Refresh before proceeding.''), st)
      else (Inr (), log_event (e\<lparr>ce_metadata := dset ''draft_version'' (J_int (cd_version d)) (ce_metadata e)\<rparr>) st))"

definition comm_history :: "comm_store \<Rightarrow> string \<Rightarrow> comm_event list" where
  "comm_history st i = filter (\<lambda>e. ce_communication_id e = i) (cs_events st)"

text \<open>Display preferences: the two flags, with their defaults.\<close>

definition preferences :: "comm_store \<Rightarrow> string \<Rightarrow> bool \<times> bool" where
  "preferences st user = default_to (dget (cs_preferences st) user) (True, False)"

definition save_preferences :: "comm_store \<Rightarrow> string \<Rightarrow> bool option \<times> bool option \<Rightarrow> (bool \<times> bool) \<times> comm_store" where
  "save_preferences st user values =
     (let current = (default_to (fst values) (fst (preferences st user)), default_to (snd values) (snd (preferences st user)))
      in (current, st\<lparr>cs_preferences := dset user current (cs_preferences st)\<rparr>))"

section \<open>The delivery port (integrations/communications.py)\<close>

record delivery_preview =
  dp_available :: bool
  dp_provider :: string
  dp_recipient_count :: int
  dp_message :: string

record delivery_port =
  port_preview :: "comm_draft \<Rightarrow> delivery_preview"
  port_send :: "comm_draft \<Rightarrow> string \<Rightarrow> (string, string) result"  \<comment> \<open>an exception or a receipt\<close>

definition unconfigured_delivery :: delivery_port where
  "unconfigured_delivery = \<lparr>
     port_preview = (\<lambda>d. \<lparr>dp_available = False, dp_provider = ''UNCONFIGURED'', dp_recipient_count = int (length (cd_recipients d)),
       dp_message = ''Delivery is not configured. This communication remains a draft.''\<rparr>),
     port_send = (\<lambda>d key. Inl ''Communication delivery is not configured; no external message was sent.'')\<rparr>"

section \<open>The service (modules/communications/service.py)\<close>

definition comm_get :: "comm_store \<Rightarrow> string \<Rightarrow> (comm_error, comm_draft) result" where
  "comm_get st i = (case cget st i of None \<Rightarrow> Inl (CommNotFound i) | Some d \<Rightarrow> Inr d)"

definition can_manage :: "principal \<Rightarrow> comm_draft \<Rightarrow> bool" where
  "can_manage p d = (pr_role p = MANAGER \<or> cd_created_by d = pr_user_id p)"

definition comm_list :: "comm_store \<Rightarrow> principal \<Rightarrow> comm_draft list" where
  "comm_list st p = (if pr_role p = MANAGER then clist st else filter (\<lambda>d. cd_created_by d = pr_user_id p) (clist st))"

definition comm_fingerprint ::
  "hashing \<Rightarrow> string \<Rightarrow> string \<Rightarrow> string \<Rightarrow> string list \<Rightarrow> string option \<Rightarrow> string list \<Rightarrow> string" where
  "comm_fingerprint h account_id subject body recipients trigger evidence_ids =
     h_json h (J_arr [J_str account_id, J_str (strip subject), J_str (strip body), J_arr (map J_str recipients),
       j_opt J_str trigger, J_arr (map J_str evidence_ids)])"

definition comm_creation_replay ::
  "hashing \<Rightarrow> comm_store \<Rightarrow> comm_draft \<Rightarrow> principal \<Rightarrow> string \<Rightarrow> (comm_error, comm_draft) result" where
  "comm_creation_replay h st existing p fingerprint =
     (if cd_created_by existing \<noteq> pr_user_id p then Inl (CommConflict ''This retry does not belong to the current user.'')
      else let created = first_match (\<lambda>e. ce_event e = ''CREATED'') (comm_history st (cd_id existing));
               recorded = (case created of None \<Rightarrow> None | Some e \<Rightarrow> map_of (ce_metadata e) ''creation_fingerprint'');
               original = (if recorded \<in> {None, Some J_null}
                  then J_str (comm_fingerprint h (cd_account_id existing) (cd_subject existing) (cd_body existing)
                         (cd_recipients existing) (cd_trigger existing) (cd_evidence_ids existing))
                  else the recorded)
           in if original \<noteq> J_str fingerprint
              then Inl (CommConflict ''This retry key belongs to different draft content; inspect the saved draft before creating another.'')
              else Inr existing)"

record comm_create_args =
  cc_draft_account_id :: string
  cc_subject :: string
  cc_body :: string
  cc_recipients :: "string list"
  cc_principal :: principal
  cc_occurred_at :: datetime
  cc_trigger :: "string option"
  cc_evidence :: "string list"
  cc_key :: "string option"
  cc_uuids :: "string \<times> string"  \<comment> \<open>the two \<open>uuid4()\<close> values: a key, and the draft's id\<close>

definition comm_request_key :: "comm_create_args \<Rightarrow> string" where
  "comm_request_key c = first_truthy (cc_key c) (fst (cc_uuids c))"

definition comm_stored_key :: "hashing \<Rightarrow> comm_create_args \<Rightarrow> string" where
  "comm_stored_key h c = ''comm-create-v2:'' @ h_json h (J_arr [J_str (pr_user_id (cc_principal c)), J_str (comm_request_key c)])"

definition comm_args_fingerprint :: "hashing \<Rightarrow> comm_create_args \<Rightarrow> string" where
  "comm_args_fingerprint h c =
     comm_fingerprint h (cc_draft_account_id c) (cc_subject c) (cc_body c) (cc_recipients c) (cc_trigger c) (cc_evidence c)"

definition comm_new_draft :: "hashing \<Rightarrow> comm_create_args \<Rightarrow> comm_draft" where
  "comm_new_draft h c = \<lparr>cd_id = snd (cc_uuids c), cd_account_id = cc_draft_account_id c, cd_channel = CC_EMAIL,
     cd_subject = strip (cc_subject c), cd_body = strip (cc_body c), cd_recipients = cc_recipients c,
     cd_created_by = pr_user_id (cc_principal c), cd_created_at = cc_occurred_at c, cd_updated_at = cc_occurred_at c,
     cd_approval_status = PENDING, cd_status = CS_DRAFT, cd_trigger = cc_trigger c, cd_evidence_ids = cc_evidence c,
     cd_idempotency_key = Some (comm_stored_key h c), cd_sent_at = None, cd_version = 1\<rparr>"

definition comm_new_entry :: "hashing \<Rightarrow> comm_create_args \<Rightarrow> (comm_error, comm_draft \<times> comm_event) result" where
  "comm_new_entry h c =
     bind_r (comm_draft_post_init (comm_new_draft h c)) (\<lambda>d.
     bind_r (mk_comm_event (cd_id d) (cc_principal c) ''CREATED'' (cc_occurred_at c)
       [(''status'', J_str ''DRAFT''), (''creation_fingerprint'', J_str (comm_args_fingerprint h c))]) (\<lambda>e. Inr (d, e)))"

definition comm_legacy :: "comm_create_args \<Rightarrow> comm_store \<Rightarrow> comm_draft option" where
  \<comment> \<open>a draft of the same creator stored under the request key itself\<close>
  "comm_legacy c st = (case by_idempotency_key st (comm_request_key c) of
     None \<Rightarrow> None
   | Some l \<Rightarrow> if cd_created_by l = pr_user_id (cc_principal c) then Some l else None)"

definition comm_create ::
  "hashing \<Rightarrow> comm_create_args \<Rightarrow> comm_store \<Rightarrow> (comm_error, comm_draft) result \<times> comm_store" where
  "comm_create h c st =
     (let p = cc_principal c; fingerprint = comm_args_fingerprint h c
      in if \<not> (1 \<le> length (comm_request_key c) \<and> length (comm_request_key c) \<le> 128)
         then (Inl (CommValue (ValueError ''Communication retry key must be bounded.'')), st)
         else case by_idempotency_key st (comm_stored_key h c) of
                Some existing \<Rightarrow> (comm_creation_replay h st existing p fingerprint, st)
              | None \<Rightarrow>
                  (case comm_legacy c st of
                     Some legacy \<Rightarrow> (comm_creation_replay h st legacy p fingerprint, st)
                   | None \<Rightarrow>
                       (case comm_new_entry h c of
                          Inl err \<Rightarrow> (Inl err, st)
                        | Inr (d, e) \<Rightarrow>
                            (case comm_save st d e None of
                               (Inl err, st') \<Rightarrow> (Inl err, st')
                             | (Inr saved, st') \<Rightarrow> (comm_creation_replay h st' saved p fingerprint, st')))))"

definition check_version :: "comm_draft \<Rightarrow> int option \<Rightarrow> (comm_error, unit) result" where
  "check_version d expected =
     (case expected of
        None \<Rightarrow> Inr ()
      | Some v \<Rightarrow> if cd_version d \<noteq> v
          then Inl (CommConflict ''This communication changed. Refresh and compare the saved version before retrying; your local draft remains unchanged.'')
          else Inr ())"

definition require_can_manage :: "principal \<Rightarrow> comm_draft \<Rightarrow> (comm_error, unit) result" where
  "require_can_manage p d = guard_r (can_manage p d)
     (CommForbidden ''This draft is outside the current principal's permitted work.'')"

text \<open>What an operation saves: the updated draft, its event, and the version it read.\<close>

type_synonym comm_change = "comm_draft \<times> comm_event \<times> int"

definition save_change :: "comm_store \<Rightarrow> (comm_error, comm_change) result \<Rightarrow> (comm_error, comm_draft) result \<times> comm_store" where
  "save_change st m = (case m of Inl e \<Rightarrow> (Inl e, st) | Inr (d, e, v) \<Rightarrow> comm_save st d e (Some v))"

record comm_edit_args =
  ced_subject :: "string option"
  ced_body :: "string option"
  ced_recipients :: "string list option"
  ced_ai_metadata :: "(string \<times> json) list option"

definition comm_edited :: "comm_draft \<Rightarrow> comm_edit_args \<Rightarrow> datetime \<Rightarrow> comm_draft" where
  "comm_edited d ed t = d\<lparr>cd_subject := strip (default_to (ced_subject ed) (cd_subject d)),
     cd_body := strip (default_to (ced_body ed) (cd_body d)),
     cd_recipients := default_to (ced_recipients ed) (cd_recipients d),
     cd_approval_status := PENDING, cd_status := CS_DRAFT, cd_updated_at := t, cd_version := cd_version d + 1\<rparr>"

definition edit_change ::
  "principal \<Rightarrow> datetime \<Rightarrow> comm_edit_args \<Rightarrow> int option \<Rightarrow> comm_draft \<Rightarrow> (comm_error, comm_change) result" where
  "edit_change p t ed expected d =
     bind_r (require_can_manage p d) (\<lambda>_.
     bind_r (check_version d expected) (\<lambda>_.
     bind_r (guard_r (cd_status d \<in> {CS_DRAFT, CS_READY}) (CommConflict ''Only an unsent communication can be edited.'')) (\<lambda>_.
     bind_r (comm_draft_post_init (comm_edited d ed t)) (\<lambda>updated.
     bind_r (mk_comm_event (cd_id d) p (if truthy (ced_ai_metadata ed) then ''AI_REVISED'' else ''EDITED'') t
        (default_to (ced_ai_metadata ed) [])) (\<lambda>e.
     Inr (updated, e, cd_version d))))))"

definition edit_read ::
  "string \<Rightarrow> principal \<Rightarrow> datetime \<Rightarrow> comm_edit_args \<Rightarrow> int option \<Rightarrow> comm_store \<Rightarrow> (comm_error, comm_change) result" where
  "edit_read i p t ed expected st = bind_r (comm_get st i) (edit_change p t ed expected)"

definition comm_edit ::
  "string \<Rightarrow> principal \<Rightarrow> datetime \<Rightarrow> comm_edit_args \<Rightarrow> int option \<Rightarrow> comm_store \<Rightarrow> (comm_error, comm_draft) result \<times> comm_store" where
  "comm_edit i p t ed expected st = save_change st (edit_read i p t ed expected st)"

definition review_change ::
  "approval_status \<Rightarrow> principal \<Rightarrow> datetime \<Rightarrow> int option \<Rightarrow> comm_draft \<Rightarrow> (comm_error, comm_change) result" where
  "review_change decision p t expected d =
     bind_r (check_version d expected) (\<lambda>_.
     bind_r (guard_r (cd_status d \<in> {CS_DRAFT, CS_READY}) (CommConflict ''Only an unsent communication may be reviewed.'')) (\<lambda>_.
     bind_r (comm_draft_post_init (d\<lparr>cd_approval_status := decision,
        cd_status := (if decision = APPROVED then CS_READY else CS_DRAFT), cd_updated_at := t,
        cd_version := cd_version d + 1\<rparr>)) (\<lambda>updated.
     bind_r (mk_comm_event (cd_id d) p (approval_value decision) t
        [(''approval_status'', J_str (approval_value decision)), (''reviewed_version'', J_int (cd_version d))]) (\<lambda>e.
     Inr (updated, e, cd_version d)))))"

definition decide_read ::
  "string \<Rightarrow> approval_status \<Rightarrow> principal \<Rightarrow> datetime \<Rightarrow> int option \<Rightarrow> comm_store \<Rightarrow> (comm_error, comm_change) result" where
  "decide_read i decision p t expected st =
     bind_r (guard_r (pr_role p = MANAGER) (CommForbidden ''Manager authorization is required for communication review.'')) (\<lambda>_.
     bind_r (guard_r (decision \<in> {APPROVED, REJECTED}) (CommConflict ''Approval decision must be APPROVED or REJECTED.'')) (\<lambda>_.
     bind_r (comm_get st i) (review_change decision p t expected)))"

definition comm_decide ::
  "string \<Rightarrow> approval_status \<Rightarrow> principal \<Rightarrow> datetime \<Rightarrow> int option \<Rightarrow> comm_store \<Rightarrow> (comm_error, comm_draft) result \<times> comm_store" where
  "comm_decide i decision p t expected st = save_change st (decide_read i decision p t expected st)"

definition preview_entry ::
  "delivery_port \<Rightarrow> string \<Rightarrow> principal \<Rightarrow> datetime \<Rightarrow> comm_store \<Rightarrow> (comm_error, comm_draft \<times> comm_event) result" where
  "preview_entry port i p t st =
     bind_r (comm_get st i) (\<lambda>d. bind_r (require_can_manage p d) (\<lambda>_.
     bind_r (mk_comm_event (cd_id d) p ''DELIVERY_PREVIEWED'' t
       [(''available'', J_bool (dp_available (port_preview port d))), (''provider'', J_str (dp_provider (port_preview port d)))])
     (\<lambda>e. Inr (d, e))))"

definition comm_preview ::
  "delivery_port \<Rightarrow> string \<Rightarrow> principal \<Rightarrow> datetime \<Rightarrow> comm_store \<Rightarrow> (comm_error, delivery_preview) result \<times> comm_store" where
  "comm_preview port i p t st =
     (case preview_entry port i p t st of
        Inl err \<Rightarrow> (Inl err, st)
      | Inr (d, e) \<Rightarrow>
          (case append_audit st d e of
             (Inl err, st') \<Rightarrow> (Inl err, st')
           | (Inr _, st') \<Rightarrow> (Inr (port_preview port d), st')))"

definition send_checks :: "principal \<Rightarrow> int option \<Rightarrow> comm_draft \<Rightarrow> (comm_error, unit) result" where
  "send_checks p expected d =
     bind_r (check_version d expected) (\<lambda>_.
     bind_r (guard_r (cd_approval_status d = APPROVED) (CommConflict ''Approved human review is required before delivery.'')) (\<lambda>_.
     guard_r (cd_recipients d \<noteq> []) (CommConflict ''No verified deliverable recipient is available.'')))"

definition sent_change :: "principal \<Rightarrow> datetime \<Rightarrow> string \<Rightarrow> comm_draft \<Rightarrow> (comm_error, comm_change) result" where
  "sent_change p t receipt d =
     bind_r (comm_draft_post_init (d\<lparr>cd_status := CS_SENT, cd_sent_at := Some t, cd_updated_at := t,
        cd_version := cd_version d + 1\<rparr>)) (\<lambda>sent.
     bind_r (mk_comm_event (cd_id d) p ''DELIVERED'' t [(''receipt'', J_str receipt)]) (\<lambda>e.
     Inr (sent, e, cd_version d)))"

definition block_delivery ::
  "principal \<Rightarrow> datetime \<Rightarrow> comm_draft \<Rightarrow> string \<Rightarrow> comm_store \<Rightarrow> (comm_error, comm_draft) result \<times> comm_store" where
  "block_delivery p t d msg st =
     (case mk_comm_event (cd_id d) p ''DELIVERY_BLOCKED'' t [(''reason'', J_str ''PROVIDER_UNAVAILABLE'')] of
        Inl err \<Rightarrow> (Inl err, st)
      | Inr e \<Rightarrow> (case append_audit st d e of
          (Inl err, st') \<Rightarrow> (Inl err, st')
        | (Inr _, st') \<Rightarrow> (Inl (DeliveryFailed msg), st')))"

text \<open>
  \<open>send\<close> runs in three parts: it reads and checks the draft, asks the provider outside any transaction, and then
  stores the outcome against the draft it had read.
\<close>

definition send_read :: "string \<Rightarrow> principal \<Rightarrow> bool \<Rightarrow> int option \<Rightarrow> comm_store \<Rightarrow> (comm_error, comm_draft) result" where
  "send_read i p confirmed expected st =
     bind_r (guard_r confirmed (CommConflict ''Explicit human confirmation is required before delivery.'')) (\<lambda>_.
     bind_r (comm_get st i) (\<lambda>d. bind_r (require_can_manage p d) (\<lambda>_.
     if cd_status d = CS_SENT then Inr d else bind_r (send_checks p expected d) (\<lambda>_. Inr d))))"

definition send_finish ::
  "principal \<Rightarrow> datetime \<Rightarrow> comm_draft \<Rightarrow> (string, string) result \<Rightarrow> comm_store \<Rightarrow> (comm_error, comm_draft) result \<times> comm_store" where
  "send_finish p t d answer st =
     (case answer of
        Inl msg \<Rightarrow> block_delivery p t d msg st
      | Inr receipt \<Rightarrow> save_change st (sent_change p t receipt d))"

definition comm_send ::
  "delivery_port \<Rightarrow> string \<Rightarrow> principal \<Rightarrow> datetime \<Rightarrow> bool \<Rightarrow> string \<Rightarrow> int option \<Rightarrow> comm_store
    \<Rightarrow> (comm_error, comm_draft) result \<times> comm_store" where
  "comm_send port i p t confirmed key expected st =
     (case send_read i p confirmed expected st of
        Inl err \<Rightarrow> (Inl err, st)
      | Inr d \<Rightarrow> if cd_status d = CS_SENT then (Inr d, st) else send_finish p t d (port_send port d key) st)"

definition comm_service_history :: "comm_store \<Rightarrow> string \<Rightarrow> principal \<Rightarrow> (comm_error, comm_event list) result" where
  "comm_service_history st i p =
     bind_r (comm_get st i) (\<lambda>d. bind_r (require_can_manage p d) (\<lambda>_. Inr (comm_history st i)))"

end
