(* ===== verification/CommProps.thy ===== *)
theory CommProps
  imports Communications
begin

text \<open>
  The promises of the communication workflow over every reachable store: its lifecycle as an abstract
  machine that the service refines, what a sent communication stands on, and idempotent creation.
\<close>

section \<open>What one operation may do to a draft\<close>

definition draft_ok :: "comm_draft \<Rightarrow> bool" where
  "draft_ok d \<longleftrightarrow> 1 \<le> cd_version d \<and> aware (cd_created_at d) \<and> aware (cd_updated_at d) \<and> opt_is_aware (cd_sent_at d)
     \<and> \<not> blank (cd_subject d) \<and> \<not> blank (cd_body d)"

lemma lift_comm_Inr [res_simps]: "lift_comm m = Inr x \<longleftrightarrow> m = Inr x"
  by (simp add: lift_comm_def split: sum.splits)

lemma comm_draft_post_init_Inr [res_simps]: "comm_draft_post_init d = Inr u \<longleftrightarrow> u = d \<and> draft_ok d"
  by (auto simp: comm_draft_post_init_def draft_ok_def opt_is_aware_def res_simps)

lemma mk_comm_event_Inr [res_simps]:
  "mk_comm_event i p n t md = Inr e \<longleftrightarrow> aware t \<and> e =
     \<lparr>ce_id = None, ce_communication_id = i, ce_actor_id = pr_user_id p, ce_event = n, ce_occurred_at = t, ce_metadata = md\<rparr>"
  by (auto simp: mk_comm_event_def comm_event_post_init_def res_simps)

inductive draft_change :: "comm_draft \<Rightarrow> comm_draft \<Rightarrow> comm_event \<Rightarrow> bool" for d where
  edited: "\<lbrakk>cd_status d \<in> {CS_DRAFT, CS_READY}; u = comm_edited d ed t; ce_event e \<in> {''EDITED'', ''AI_REVISED''}\<rbrakk>
     \<Longrightarrow> draft_change d u e"
| reviewed: "\<lbrakk>cd_status d \<in> {CS_DRAFT, CS_READY}; decision \<in> {APPROVED, REJECTED};
     u = d\<lparr>cd_approval_status := decision, cd_status := (if decision = APPROVED then CS_READY else CS_DRAFT),
           cd_updated_at := t, cd_version := cd_version d + 1\<rparr>;
     ce_event e = approval_value decision; map_of (ce_metadata e) ''reviewed_version'' = Some (J_int (cd_version d))\<rbrakk>
     \<Longrightarrow> draft_change d u e"
| delivered: "\<lbrakk>cd_status d \<noteq> CS_SENT; cd_approval_status d = APPROVED; cd_recipients d \<noteq> [];
     u = d\<lparr>cd_status := CS_SENT, cd_sent_at := Some t, cd_updated_at := t, cd_version := cd_version d + 1\<rparr>;
     ce_event e = ''DELIVERED''\<rbrakk> \<Longrightarrow> draft_change d u e"

inductive_cases draft_changeE: "draft_change d u e"

lemma draft_change_frame:
  "draft_change d u e \<Longrightarrow> cd_id u = cd_id d \<and> cd_version u = cd_version d + 1 \<and> cd_created_by u = cd_created_by d
     \<and> cd_idempotency_key u = cd_idempotency_key d \<and> ce_event e \<noteq> ''CREATED''"
  by (erule draft_changeE) (auto simp: comm_edited_def)

definition good_change :: "comm_draft \<Rightarrow> comm_change \<Rightarrow> bool" where
  "good_change d c \<longleftrightarrow> (case c of (u, e, v) \<Rightarrow> draft_change d u e \<and> draft_ok u \<and> v = cd_version d \<and> ce_communication_id e = cd_id d)"

lemma edit_change_good: "edit_change p t ed x d = Inr c \<Longrightarrow> good_change d c"
  by (auto simp: edit_change_def good_change_def res_simps intro!: edited[where ed = ed and t = t] split: if_splits)

lemma review_change_good: "decision \<in> {APPROVED, REJECTED} \<Longrightarrow> review_change decision p t x d = Inr c \<Longrightarrow> good_change d c"
  by (cases c) (force simp: review_change_def good_change_def res_simps intro: reviewed)

lemma sent_change_good:
  "sent_change p t receipt d = Inr c \<Longrightarrow> cd_status d \<noteq> CS_SENT \<Longrightarrow> cd_approval_status d = APPROVED \<Longrightarrow> cd_recipients d \<noteq> [] \<Longrightarrow>
     good_change d c"
  by (auto simp: sent_change_def good_change_def res_simps intro!: delivered)

section \<open>What one operation does to the store\<close>

definition replace_draft :: "comm_draft \<Rightarrow> comm_draft \<Rightarrow> comm_store \<Rightarrow> comm_store" where
  "replace_draft d u st = st\<lparr>cs_drafts :=
     map (\<lambda>x. if cd_id x = cd_id d \<and> cd_version x = cd_version d then row_of u else x) (cs_drafts st)\<rparr>"

definition audit_names :: "string set" where
  "audit_names = {''DELIVERY_PREVIEWED'', ''DELIVERY_BLOCKED''}"

inductive comm_effect :: "comm_store \<Rightarrow> comm_store \<Rightarrow> bool" for st where
  same: "comm_effect st st"
| inserted: "\<lbrakk>draft_ok d; cd_status d = CS_DRAFT; cd_approval_status d = PENDING; cd_sent_at d = None; cd_version d = 1;
     cd_idempotency_key d \<noteq> None; cd_idempotency_key d \<noteq> Some [];
     cget st (cd_id d) = None; by_idempotency_key st (the (cd_idempotency_key (row_of d))) = None;
     ce_event e = ''CREATED''; ce_communication_id e = cd_id d\<rbrakk>
     \<Longrightarrow> comm_effect st (log_event e (st\<lparr>cs_drafts := cs_drafts st @ [row_of d]\<rparr>))"
| changed: "\<lbrakk>cget st i = Some d; good_change d (u, e, v)\<rbrakk> \<Longrightarrow> comm_effect st (log_event e (replace_draft d u st))"
| audited: "\<lbrakk>cget st i = Some d; ce_event e \<in> audit_names; ce_communication_id e = i\<rbrakk> \<Longrightarrow> comm_effect st (log_event e st)"

lemma save_change_effect:
  assumes "save_change st m = (res, st')" and "\<And>c. m = Inr c \<Longrightarrow> \<exists>i d. cget st i = Some d \<and> good_change d c"
  shows "comm_effect st st'"
proof (cases m)
  case (Inl e)
  then show ?thesis using assms(1) same by (simp add: save_change_def)
next
  case (Inr c)
  obtain u e v where c: "c = (u, e, v)" by (cases c)
  obtain i d where g: "cget st i = Some d" "good_change d c" using assms(2)[OF Inr] by blast
  have f: "draft_change d u e" "v = cd_version d" using g(2) by (auto simp: good_change_def c)
  note F = draft_change_frame[OF f(1)]
  have "list_ex (\<lambda>x. cd_id x = cd_id u \<and> cd_version x = v) (cs_drafts st)"
    using first_match_Some[OF g(1)[unfolded cget_def]] F f(2) by (auto simp: list_ex_iff)
  then have "st' = log_event e (replace_draft d u st)"
    using assms(1) F f(2) by (simp add: save_change_def Inr c comm_save_def replace_draft_def)
  then show ?thesis using changed g c by blast
qed

datatype comm_op =
    Co_create hashing comm_create_args
  | Co_edit string principal datetime comm_edit_args "int option"
  | Co_decide string approval_status principal datetime "int option"
  | Co_preview delivery_port string principal datetime
  | Co_send delivery_port string principal datetime bool string "int option"

fun apply_comm :: "comm_op \<Rightarrow> comm_store \<Rightarrow> comm_store" where
  "apply_comm (Co_create h c) st = snd (comm_create h c st)"
| "apply_comm (Co_edit i p t ed x) st = snd (comm_edit i p t ed x st)"
| "apply_comm (Co_decide i dec p t x) st = snd (comm_decide i dec p t x st)"
| "apply_comm (Co_preview port i p t) st = snd (comm_preview port i p t st)"
| "apply_comm (Co_send port i p t conf key x) st = snd (comm_send port i p t conf key x st)"

inductive comm_reachable :: "comm_store \<Rightarrow> bool" where
  comm_start: "comm_reachable comm_store_init"
| comm_next: "comm_reachable st \<Longrightarrow> comm_reachable (apply_comm op st)"

lemma comm_get_Inr [res_simps]: "comm_get st i = Inr d \<longleftrightarrow> cget st i = Some d"
  by (simp add: comm_get_def split: option.splits)

lemma cget_id: "cget st i = Some d \<Longrightarrow> cd_id d = i \<and> d \<in> set (cs_drafts st)"
  using first_match_Some by (fastforce simp: cget_def)

lemma append_audit_effect:
  assumes "append_audit st d e = (res, st')" "ce_event e \<in> audit_names" "ce_communication_id e = cd_id d"
  shows "comm_effect st st'"
proof (cases "cget st (cd_id d)")
  case None
  then show ?thesis using assms(1) same by (simp add: append_audit_def)
next
  case (Some cur)
  show ?thesis
    using assms audited[OF Some, of "e\<lparr>ce_metadata := dset ''draft_version'' (J_int (cd_version d)) (ce_metadata e)\<rparr>"] same
    by (auto simp: append_audit_def split: if_splits)
qed

lemma block_delivery_effect: "comm_effect st (snd (block_delivery p t d msg st))"
proof (cases "mk_comm_event (cd_id d) p ''DELIVERY_BLOCKED'' t [(''reason'', J_str ''PROVIDER_UNAVAILABLE'')]")
  case (Inl err)
  then show ?thesis by (simp add: block_delivery_def same)
next
  case (Inr e)
  then have "ce_event e \<in> audit_names" "ce_communication_id e = cd_id d" by (auto simp: res_simps audit_names_def)
  from append_audit_effect[OF surjective_pairing[of "append_audit st d e"] this] show ?thesis using Inr
    by (cases "append_audit st d e"; cases "fst (append_audit st d e)") (simp_all add: block_delivery_def)
qed

lemma send_read_facts:
  assumes "send_read i p conf x st = Inr d" "cd_status d \<noteq> CS_SENT"
  shows "cget st i = Some d" "cd_status d \<noteq> CS_SENT" "cd_approval_status d = APPROVED" "cd_recipients d \<noteq> []"
  using assms by (auto simp: send_read_def send_checks_def res_simps split: if_splits)

lemma create_effect: "comm_effect st (snd (comm_create h c st))"
proof -
  let ?p = "cc_principal c" and ?fp = "comm_args_fingerprint h c" and ?d = "comm_new_draft h c"
  define mk where "mk = comm_new_entry h c"
  have ins: "comm_effect st (snd (comm_save st d e None))" if "mk = Inr (d, e)" for d e
  proof -
    have m: "d = ?d" "draft_ok ?d" "ce_event e = ''CREATED''" "ce_communication_id e = cd_id ?d"
      using that by (auto simp: mk_def comm_new_entry_def res_simps)
    have k: "cd_status ?d = CS_DRAFT" "cd_approval_status ?d = PENDING" "cd_sent_at ?d = None" "cd_version ?d = 1"
      "cd_idempotency_key ?d \<noteq> None" "cd_idempotency_key ?d \<noteq> Some []"
      by (simp_all add: comm_new_draft_def comm_stored_key_def)
    show ?thesis
    proof (cases "cget st (cd_id ?d) \<noteq> None \<or> by_idempotency_key st (the (cd_idempotency_key (row_of ?d))) \<noteq> None")
      case True
      then have "snd (comm_save st d e None) = st" using m
        by (cases "by_idempotency_key st (the (cd_idempotency_key (row_of ?d)))") (simp_all add: comm_save_def)
      then show ?thesis using same by simp
    next
      case False
      then show ?thesis using inserted[OF m(2) k, of st e] m by (simp add: comm_save_def)
    qed
  qed
  show ?thesis
    unfolding comm_create_def Let_def mk_def[symmetric]
    using ins same by (auto split: option.splits sum.splits prod.splits if_splits)
qed


lemma apply_comm_effect: "comm_effect st (apply_comm op st)"
proof (cases op)
  case (Co_create h c)
  then show ?thesis using create_effect by simp
next
  case (Co_edit i p t ed x)
  show ?thesis unfolding Co_edit apply_comm.simps comm_edit_def edit_read_def
    by (rule save_change_effect[OF surjective_pairing]) (auto simp: res_simps dest: edit_change_good)
next
  case (Co_decide i dec p t x)
  show ?thesis unfolding Co_decide apply_comm.simps comm_decide_def decide_read_def
    by (rule save_change_effect[OF surjective_pairing]) (auto simp: res_simps dest!: review_change_good[rotated])
next
  case (Co_preview port i p t)
  show ?thesis
  proof (cases "preview_entry port i p t st")
    case (Inl e)
    then show ?thesis by (simp add: Co_preview comm_preview_def same)
  next
    case (Inr de)
    obtain d e where de: "de = (d, e)" by (cases de)
    have "ce_event e \<in> audit_names" "ce_communication_id e = cd_id d"
      using Inr by (auto simp: de preview_entry_def res_simps audit_names_def)
    from append_audit_effect[OF surjective_pairing[of "append_audit st d e"] this] show ?thesis using Inr
      by (cases "append_audit st d e"; cases "fst (append_audit st d e)") (simp_all add: Co_preview comm_preview_def de)
  qed
next
  case (Co_send port i p t conf key x)
  show ?thesis
  proof (cases "send_read i p conf x st")
    case (Inl e)
    then show ?thesis by (simp add: Co_send comm_send_def same)
  next
    case (Inr d)
    show ?thesis
    proof (cases "cd_status d = CS_SENT")
      case True
      then show ?thesis using Inr by (simp add: Co_send comm_send_def same)
    next
      case False
      note F = send_read_facts[OF Inr False]
      have "comm_effect st (snd (send_finish p t d (port_send port d key) st))"
      proof (cases "port_send port d key")
        case (Inl msg)
        then show ?thesis using block_delivery_effect by (simp add: send_finish_def)
      next
        case (Inr receipt)
        have "comm_effect st (snd (save_change st (sent_change p t receipt d)))"
          by (rule save_change_effect[OF surjective_pairing]) (use F sent_change_good in blast)
        then show ?thesis by (simp add: send_finish_def Inr)
      qed
      then show ?thesis using Inr False by (simp add: Co_send comm_send_def)
    qed
  qed
qed

section \<open>The invariant\<close>

definition mutation_names :: "string set" where
  "mutation_names = {''CREATED'', ''EDITED'', ''AI_REVISED'', ''APPROVED'', ''REJECTED'', ''DELIVERED''}"

definition mutation_log :: "comm_store \<Rightarrow> string \<Rightarrow> comm_event list" where
  "mutation_log st i = filter (\<lambda>e. ce_event e \<in> mutation_names) (comm_history st i)"

definition coherent :: "comm_draft \<Rightarrow> bool" where
  "coherent d \<longleftrightarrow> (cd_status d, cd_approval_status d) \<in> {(CS_DRAFT, PENDING), (CS_DRAFT, REJECTED), (CS_READY, APPROVED), (CS_SENT, APPROVED)}
     \<and> (cd_sent_at d \<noteq> None \<longleftrightarrow> cd_status d = CS_SENT) \<and> (cd_status d = CS_SENT \<longrightarrow> cd_recipients d \<noteq> [])
     \<and> truthy (cd_idempotency_key d)"

definition approval_of_version :: "comm_event \<Rightarrow> int \<Rightarrow> bool" where
  "approval_of_version e v \<longleftrightarrow> ce_event e = ''APPROVED'' \<and> map_of (ce_metadata e) ''reviewed_version'' = Some (J_int v)"

definition log_matches :: "comm_draft \<Rightarrow> comm_event list \<Rightarrow> bool" where
  "log_matches d hist \<longleftrightarrow> int (length hist) = cd_version d
     \<and> (cd_status d = CS_READY \<longrightarrow> (\<exists>xs a. hist = xs @ [a] \<and> approval_of_version a (cd_version d - 1)))
     \<and> (cd_status d = CS_SENT \<longrightarrow> (\<exists>xs a e. hist = xs @ [a, e] \<and> approval_of_version a (cd_version d - 2) \<and> ce_event e = ''DELIVERED''))
     \<and> length (filter (\<lambda>e. ce_event e = ''DELIVERED'') hist) = (if cd_status d = CS_SENT then 1 else 0)"

definition comm_ok :: "comm_store \<Rightarrow> bool" where
  "comm_ok st \<longleftrightarrow> distinct (map cd_id (cs_drafts st))
     \<and> (\<forall>d\<in>set (cs_drafts st). draft_ok d \<and> coherent d \<and> log_matches d (mutation_log st (cd_id d)))
     \<and> (\<forall>e\<in>set (cs_events st). cget st (ce_communication_id e) \<noteq> None)"

lemma row_of_keeps: "truthy (cd_idempotency_key d) \<Longrightarrow> row_of d = d"
  by (cases "cd_idempotency_key d") (auto simp: row_of_def first_truthy_def truthy_def)

lemma cget_iff: "comm_ok st \<Longrightarrow> cget st i = Some d \<longleftrightarrow> d \<in> set (cs_drafts st) \<and> cd_id d = i"
proof -
  assume "comm_ok st"
  then have "distinct (map cd_id (cs_drafts st))" by (simp add: comm_ok_def)
  then have "first_match (\<lambda>d. cd_id d = i) xs = Some d \<longleftrightarrow> d \<in> set xs \<and> cd_id d = i" if "xs = cs_drafts st" for xs
    unfolding that[symmetric] by (induction xs) (auto simp: image_iff)
  then show ?thesis by (simp add: cget_def)
qed

lemma history_log: "comm_history (log_event e st) i =
    comm_history st i @ (if ce_communication_id e = i then [e\<lparr>ce_id := Some (int (length (cs_events st)) + 1)\<rparr>] else [])"
  by (simp add: comm_history_def log_event_def)

lemma mutation_log_log: "mutation_log (log_event e st) i = mutation_log st i @
    (if ce_communication_id e = i \<and> ce_event e \<in> mutation_names
     then [e\<lparr>ce_id := Some (int (length (cs_events st)) + 1)\<rparr>] else [])"
  by (simp add: mutation_log_def history_log)

lemma mutation_log_drafts [simp]: "mutation_log (st\<lparr>cs_drafts := x\<rparr>) i = mutation_log st i"
  by (simp add: mutation_log_def comm_history_def)

lemma cs_drafts_log [simp]: "cs_drafts (log_event e st) = cs_drafts st"
  by (simp add: log_event_def)

lemma cget_log [simp]: "cget (log_event e st) i = cget st i"
  by (simp add: cget_def)

text \<open>One change keeps a draft coherent and in step with its hist.\<close>

lemma change_coherent:
  assumes "draft_change d u e" "coherent d"
  shows "coherent u"
  using assms by (cases rule: draft_change.cases) (auto simp: coherent_def comm_edited_def)

lemma change_log:
  assumes "draft_change d u e" "coherent d" "log_matches d hist" "ce_event x = ce_event e" "ce_metadata x = ce_metadata e"
  shows "log_matches u (hist @ [x]) \<and> ce_event e \<in> mutation_names"
  using assms(1)
proof (cases rule: draft_change.cases)
  case (edited ed t)
  then show ?thesis using assms(2-) by (auto simp: log_matches_def comm_edited_def mutation_names_def)
next
  case (reviewed decision t)
  then show ?thesis using assms(2-)
    by (cases decision) (auto simp: log_matches_def mutation_names_def approval_of_version_def)
next
  case (delivered t)
  then have ready: "cd_status d = CS_READY" using assms(2) by (auto simp: coherent_def)
  then obtain xs a where a: "hist = xs @ [a]" "approval_of_version a (cd_version d - 1)"
    using assms(3) by (auto simp: log_matches_def)
  then show ?thesis using delivered assms(3-5) ready by (auto simp: log_matches_def mutation_names_def)
qed


lemma cget_None_iff: "cget st i = None \<longleftrightarrow> i \<notin> cd_id ` set (cs_drafts st)"
  by (auto simp: cget_def)

lemma effect_ok:
  assumes "comm_effect st st'" and ok: "comm_ok st"
  shows "comm_ok st'"
  using assms(1)
proof (cases rule: comm_effect.cases)
  case same
  then show ?thesis using ok by simp
next
  case (audited i d e)
  have "ce_event e \<notin> mutation_names" using audited(3) by (auto simp: audit_names_def mutation_names_def)
  then show ?thesis using ok audited(2,4) unfolding audited(1)
    by (auto simp: comm_ok_def mutation_log_log) (auto simp: log_event_def)
next
  case (inserted d e)
  let ?st = "st\<lparr>cs_drafts := cs_drafts st @ [row_of d]\<rparr>"
  have k: "truthy (cd_idempotency_key d)" using inserted(7,8) by (cases "cd_idempotency_key d") (auto simp: truthy_def)
  have r: "row_of d = d" by (rule row_of_keeps[OF k])
  have new: "cd_id d \<notin> cd_id ` set (cs_drafts st)" using inserted(9) by (auto simp: cget_def)
  have none: "mutation_log st (cd_id d) = []"
    using ok inserted(9) by (auto simp: comm_ok_def mutation_log_def comm_history_def filter_empty_conv)
  have "coherent d" using inserted(3-6) k by (simp add: coherent_def)
  moreover have "log_matches d (mutation_log (log_event e ?st) (cd_id d))"
    using inserted(3,6,11,12) none by (simp add: mutation_log_log log_matches_def mutation_names_def)
  moreover have "log_matches x (mutation_log (log_event e ?st) (cd_id x))" if "x \<in> set (cs_drafts st)" for x
    using ok that new inserted(12) by (auto simp: comm_ok_def mutation_log_log image_iff)
  moreover have "cget ?st i \<noteq> None \<longleftrightarrow> cget st i \<noteq> None \<or> i = cd_id d" for i
    unfolding cget_None_iff by (auto simp: r)
  ultimately show ?thesis unfolding inserted(1) using ok inserted(2,12) new
    by (auto simp: comm_ok_def r) (auto simp: log_event_def)
next
  case (changed i d u e v)
  have g: "draft_change d u e" "draft_ok u" "ce_communication_id e = cd_id d" using changed(3) by (auto simp: good_change_def)
  have d: "d \<in> set (cs_drafts st)" "cd_id d = i" using cget_iff[OF ok] changed(2) by auto
  have dist: "distinct (map cd_id (cs_drafts st))" using ok by (simp add: comm_ok_def)
  have dok: "coherent d" "log_matches d (mutation_log st (cd_id d))" using ok d by (auto simp: comm_ok_def)
  note F = draft_change_frame[OF g(1)]
  have u: "coherent u" by (rule change_coherent[OF g(1) dok(1)])
  have r: "row_of u = u" by (rule row_of_keeps) (use u in \<open>simp add: coherent_def\<close>)
  have only: "(cd_id x = cd_id d \<and> cd_version x = cd_version d) = (x = d)" if "x \<in> set (cs_drafts st)" for x
    using dist d(1) that by (auto simp: distinct_map inj_on_def)
  have drafts: "cs_drafts (replace_draft d u st) = map (\<lambda>x. if x = d then u else x) (cs_drafts st)"
    unfolding replace_draft_def using only by (simp add: r cong: map_cong)
  have ids: "map cd_id (cs_drafts (replace_draft d u st)) = map cd_id (cs_drafts st)"
    unfolding drafts using F by (simp add: o_def if_distrib cong: if_cong)
  have logs: "mutation_log (replace_draft d u st) j = mutation_log st j" for j by (simp add: replace_draft_def)
  let ?e = "e\<lparr>ce_id := Some (int (length (cs_events st)) + 1)\<rparr>"
  have ev: "cs_events (replace_draft d u st) = cs_events st" by (simp add: replace_draft_def)
  note L = change_log[OF g(1) dok, of ?e, simplified]
  have "log_matches x (mutation_log (log_event e (replace_draft d u st)) (cd_id x)) \<and> draft_ok x \<and> coherent x"
    if "x \<in> set (cs_drafts (replace_draft d u st))" for x
  proof (cases "x = u")
    case True
    then show ?thesis using L F g u by (simp add: mutation_log_log logs ev)
  next
    case False
    then have x: "x \<in> set (cs_drafts st)" "x \<noteq> d" using that by (auto simp: drafts split: if_splits)
    then have "cd_id x \<noteq> cd_id d" using dist d(1) by (auto simp: distinct_map inj_on_def)
    then show ?thesis using ok x g(3) by (auto simp: comm_ok_def mutation_log_log logs)
  qed
  moreover have "cget (replace_draft d u st) j \<noteq> None \<longleftrightarrow> j \<in> set (map cd_id (cs_drafts st))" for j
    unfolding ids[symmetric] by (auto simp: cget_def)
  moreover have "cget st j \<noteq> None \<longleftrightarrow> j \<in> set (map cd_id (cs_drafts st))" for j
    by (auto simp: cget_def)
  ultimately show ?thesis unfolding changed(1) using ok d g(3)
    by (auto simp: comm_ok_def ids) (auto simp: log_event_def ev)
qed

lemma comm_reachable_ok: "comm_reachable st \<Longrightarrow> comm_ok st"
proof (induction rule: comm_reachable.induct)
  case comm_start
  show ?case by (simp add: comm_ok_def comm_store_init_def)
qed (rule effect_ok[OF apply_comm_effect])


section \<open>The lifecycle as an abstract machine\<close>

datatype comm_life = L_open | L_rejected | L_ready | L_sent

definition life_of :: "comm_draft \<Rightarrow> comm_life" where
  "life_of d = (if cd_status d = CS_SENT then L_sent else if cd_approval_status d = APPROVED then L_ready
     else if cd_approval_status d = REJECTED then L_rejected else L_open)"

text \<open>What the workflow promises: content is open until a review, every edit reopens it, only ready content is sent, and
  what is sent is final.\<close>

inductive life_step :: "comm_life \<Rightarrow> comm_life \<Rightarrow> bool" where
  life_edit: "x \<noteq> L_sent \<Longrightarrow> life_step x L_open"
| life_approve: "x \<noteq> L_sent \<Longrightarrow> life_step x L_ready"
| life_reject: "x \<noteq> L_sent \<Longrightarrow> life_step x L_rejected"
| life_send: "life_step L_ready L_sent"

lemma change_life:
  assumes "draft_change d u e" "coherent d"
  shows "life_step (life_of d) (life_of u)
    \<and> (life_of u = L_sent \<longrightarrow> cd_subject u = cd_subject d \<and> cd_body u = cd_body d \<and> cd_recipients u = cd_recipients d)"
  using assms(1)
proof (cases rule: draft_change.cases)
  case (edited ed t)
  then show ?thesis using assms(2) by (auto simp: life_of_def coherent_def comm_edited_def intro: life_edit)
next
  case (reviewed decision t)
  then show ?thesis using assms(2) by (auto simp: life_of_def coherent_def intro: life_approve life_reject)
next
  case (delivered t)
  then have "life_of d = L_ready" "life_of u = L_sent" by (simp_all add: life_of_def)
  then show ?thesis using delivered by (simp add: life_send)
qed

lemma effect_on_draft:
  assumes "comm_effect st st'" "comm_ok st" "cget st i = Some d"
  shows "cget st' i = Some d \<or> (\<exists>u e. cget st' i = Some u \<and> draft_change d u e)"
  using assms(1)
proof (cases rule: comm_effect.cases)
  case (inserted n e)
  then show ?thesis using assms(3) by (simp add: cget_def first_match_append)
next
  case (changed j c u e v)
  have g: "draft_change c u e" "draft_ok u" "ce_communication_id e = cd_id c" using changed(3) by (auto simp: good_change_def)
  note F = draft_change_frame[OF g(1)]
  have ok': "comm_ok st'" by (rule effect_ok[OF assms(1,2)])
  have c: "c \<in> set (cs_drafts st)" "cd_id c = j" using cget_iff[OF assms(2)] changed(2) by auto
  have d: "d \<in> set (cs_drafts st)" "cd_id d = i" using cget_iff[OF assms(2)] assms(3) by auto
  have dist: "distinct (map cd_id (cs_drafts st))" and coh: "coherent c" using assms(2) c by (auto simp: comm_ok_def)
  have "coherent u" by (rule change_coherent[OF g(1) coh])
  then have r: "row_of u = u" by (intro row_of_keeps) (simp add: coherent_def)
  have in': "cs_drafts st' = map (\<lambda>x. if cd_id x = cd_id c \<and> cd_version x = cd_version c then u else x) (cs_drafts st)"
    by (simp add: changed(1) replace_draft_def r)
  show ?thesis
  proof (cases "d = c")
    case True
    then have "u \<in> set (cs_drafts st')" using d(1) by (force simp: in')
    then have "cget st' i = Some u" using cget_iff[OF ok'] F d True by simp
    then show ?thesis using g(1) True by blast
  next
    case False
    then have "cd_id d \<noteq> cd_id c" using dist d(1) c(1) by (auto simp: distinct_map inj_on_def)
    then have "d \<in> set (cs_drafts st')" using d(1) by (force simp: in')
    then show ?thesis using cget_iff[OF ok'] d(2) by simp
  qed
qed (use assms(3) in simp_all)

section \<open>Properties\<close>

text \<open>
  C8. The service refines the lifecycle machine: every operation, on any reachable store and with any
  delivery port, leaves a draft as it is or takes it through one step of the machine with the next version; so a sent
  draft never changes again, and sending changes neither subject, body nor recipients.
\<close>

theorem communications_refine_lifecycle:
  assumes "comm_reachable st" and "cget st i = Some d"
  shows "\<exists>d'. cget (apply_comm op st) i = Some d' \<and>
    (d' = d \<or> (life_step (life_of d) (life_of d') \<and> cd_version d' = cd_version d + 1 \<and> cd_created_by d' = cd_created_by d
      \<and> (life_of d' = L_sent \<longrightarrow> cd_subject d' = cd_subject d \<and> cd_body d' = cd_body d \<and> cd_recipients d' = cd_recipients d)))
    \<and> (cd_status d = CS_SENT \<longrightarrow> d' = d)"
proof -
  have ok: "comm_ok st" by (rule comm_reachable_ok[OF assms(1)])
  have coh: "coherent d" using ok cget_id[OF assms(2)] by (auto simp: comm_ok_def)
  consider "cget (apply_comm op st) i = Some d" | u e where "cget (apply_comm op st) i = Some u" "draft_change d u e"
    using effect_on_draft[OF apply_comm_effect ok assms(2)] by blast
  then show ?thesis
  proof cases
    case (2 u e)
    have "cd_status d \<noteq> CS_SENT" using 2(2) by (cases rule: draft_change.cases) auto
    then show ?thesis using 2 change_life[OF 2(2) coh] draft_change_frame[OF 2(2)] by auto
  qed auto
qed


lemma replay_fields: "comm_creation_replay h st x p fp = Inr d \<Longrightarrow> d = x"
  by (auto simp: comm_creation_replay_def Let_def split: if_splits)

lemma create_result:
  assumes x: "comm_create h c st = (Inr d, st')" and ok: "comm_ok st"
  obtains (found) "st' = st" "by_idempotency_key st (comm_stored_key h c) = Some d"
      "comm_creation_replay h st d (cc_principal c) (comm_args_fingerprint h c) = Inr d"
    | (legacy) "st' = st" "by_idempotency_key st (comm_stored_key h c) = None"
      "by_idempotency_key st (comm_request_key c) = Some d" "cd_created_by d = pr_user_id (cc_principal c)"
      "comm_creation_replay h st d (cc_principal c) (comm_args_fingerprint h c) = Inr d"
    | (fresh) e where "d = comm_new_draft h c" "st' = log_event e (st\<lparr>cs_drafts := cs_drafts st @ [d]\<rparr>)"
      "cget st (cd_id d) = None" "by_idempotency_key st (comm_stored_key h c) = None"
      "ce_event e = ''CREATED''" "ce_communication_id e = cd_id d"
      "map_of (ce_metadata e) ''creation_fingerprint'' = Some (J_str (comm_args_fingerprint h c))"
proof -
  let ?p = "cc_principal c" and ?fp = "comm_args_fingerprint h c" and ?d = "comm_new_draft h c"
  let ?legacy = "comm_legacy c st"
  define mk where "mk = comm_new_entry h c"
  have len: "1 \<le> length (comm_request_key c) \<and> length (comm_request_key c) \<le> 128"
    using x by (auto simp: comm_create_def Let_def split: if_splits)
  note X = x[unfolded comm_create_def Let_def mk_def[symmetric] if_not_P[OF iffD2[OF not_not len]]]
  show thesis
  proof (cases "by_idempotency_key st (comm_stored_key h c)")
    case (Some w)
    then have "comm_creation_replay h st w ?p ?fp = Inr d" "st' = st" using X by auto
    then show thesis using found Some replay_fields by blast
  next
    case None
    note N = None
    show thesis
    proof (cases ?legacy)
      case (Some l)
      then have r: "comm_creation_replay h st l ?p ?fp = Inr d" "st' = st" using X N by auto
      have "by_idempotency_key st (comm_request_key c) = Some l" "cd_created_by l = pr_user_id ?p"
        using Some by (auto simp: comm_legacy_def split: option.splits if_splits)
      then show thesis using legacy N r replay_fields by blast
    next
      case None
      then obtain d0 e where mk0: "mk = Inr (d0, e)" using X N by (cases mk) auto
      then have mk: "mk = Inr (?d, e)" by (auto simp: mk_def comm_new_entry_def res_simps)
      have e: "ce_event e = ''CREATED''" "ce_communication_id e = cd_id ?d"
        "map_of (ce_metadata e) ''creation_fingerprint'' = Some (J_str ?fp)"
        using mk by (auto simp: mk_def comm_new_entry_def res_simps)
      have k: "cd_idempotency_key ?d = Some (comm_stored_key h c)" "row_of ?d = ?d"
        by (simp_all add: comm_new_draft_def row_of_def comm_stored_key_def first_truthy_def)
      have "cget st (cd_id ?d) = None"
        using X N None mk e(1) k by (cases "cget st (cd_id ?d)") (auto simp: comm_save_def)
      moreover from this have "comm_save st ?d e None = (Inr ?d, log_event e (st\<lparr>cs_drafts := cs_drafts st @ [?d]\<rparr>))"
        using N e(1) k by (simp add: comm_save_def)
      moreover from this have r: "comm_creation_replay h (log_event e (st\<lparr>cs_drafts := cs_drafts st @ [?d]\<rparr>)) ?d ?p ?fp = Inr d"
        "st' = log_event e (st\<lparr>cs_drafts := cs_drafts st @ [?d]\<rparr>)" using X N None mk by auto
      ultimately show thesis using fresh[of e] N e replay_fields[OF r(1)] by simp
    qed
  qed
qed

text \<open>
  Creating a communication is idempotent: with a retry key given, repeating a successful request, at another
  time and with other random ids, returns the same draft and stores nothing.
\<close>

theorem communication_create_idempotent:
  assumes "comm_reachable st" and "comm_create h c st = (Inr d, st')" and "truthy (cc_key c)"
  shows "comm_create h (c\<lparr>cc_occurred_at := t, cc_uuids := us\<rparr>) st' = (Inr d, st')"
proof -
  let ?c = "c\<lparr>cc_occurred_at := t, cc_uuids := us\<rparr>"
  have ok: "comm_ok st" by (rule comm_reachable_ok[OF assms(1)])
  have key: "comm_request_key ?c = comm_request_key c"
    using assms(3) by (cases "cc_key c") (auto simp: comm_request_key_def first_truthy_def truthy_def)
  have same: "comm_stored_key h ?c = comm_stored_key h c" "comm_args_fingerprint h ?c = comm_args_fingerprint h c"
    by (simp_all add: comm_stored_key_def key comm_args_fingerprint_def)
  have len: "1 \<le> length (comm_request_key c) \<and> length (comm_request_key c) \<le> 128"
    using assms(2) by (auto simp: comm_create_def Let_def split: if_splits)
  show ?thesis
  proof (rule create_result[OF assms(2) ok])
    assume "st' = st" "by_idempotency_key st (comm_stored_key h c) = Some d"
      "comm_creation_replay h st d (cc_principal c) (comm_args_fingerprint h c) = Inr d"
    then show ?thesis using len by (simp add: comm_create_def Let_def key same)
  next
    assume "st' = st" "by_idempotency_key st (comm_stored_key h c) = None"
      "by_idempotency_key st (comm_request_key c) = Some d" "cd_created_by d = pr_user_id (cc_principal c)"
      "comm_creation_replay h st d (cc_principal c) (comm_args_fingerprint h c) = Inr d"
    then show ?thesis using len by (simp add: comm_create_def comm_legacy_def Let_def key same)
  next
    fix e
    assume f: "d = comm_new_draft h c" "st' = log_event e (st\<lparr>cs_drafts := cs_drafts st @ [d]\<rparr>)"
      "cget st (cd_id d) = None" "by_idempotency_key st (comm_stored_key h c) = None"
      "ce_event e = ''CREATED''" "ce_communication_id e = cd_id d"
      "map_of (ce_metadata e) ''creation_fingerprint'' = Some (J_str (comm_args_fingerprint h c))"
    have k: "cd_idempotency_key d = Some (comm_stored_key h c)" "cd_created_by d = pr_user_id (cc_principal c)"
      by (simp_all add: f(1) comm_new_draft_def)
    have found: "by_idempotency_key st' (comm_stored_key h c) = Some d"
      using f(4) k by (simp add: f(2) by_idempotency_key_def first_match_snoc)
    have "comm_history st (cd_id d) = []"
      using ok f(3) by (auto simp: comm_ok_def comm_history_def filter_empty_conv)
    then have "comm_history st' (cd_id d) = [e\<lparr>ce_id := Some (int (length (cs_events st)) + 1)\<rparr>]"
      using f(6) unfolding f(2) history_log by (simp add: comm_history_def)
    then have "comm_creation_replay h st' d (cc_principal c) (comm_args_fingerprint h c) = Inr d"
      using f(5,7) k by (simp add: comm_creation_replay_def Let_def)
    then show ?thesis using len found by (simp add: comm_create_def Let_def key same)
  qed
qed

section \<open>A worked run\<close>

definition comm_demo_time :: datetime where
  "comm_demo_time = \<lparr>dt_local = 1000, dt_offset = Some 0\<rparr>"

definition comm_demo_manager :: principal where
  "comm_demo_manager = \<lparr>pr_user_id = ''m1'', pr_display_name = ''M'', pr_role = MANAGER, pr_tenant_id = None\<rparr>"

definition comm_demo_hash :: hashing where
  "comm_demo_hash = \<lparr>h_text = (\<lambda>s. s), h_json = (\<lambda>j. ''f'')\<rparr>"

definition comm_demo_args :: comm_create_args where
  "comm_demo_args = \<lparr>cc_draft_account_id = ''acc'', cc_subject = ''Hello'', cc_body = ''Text'', cc_recipients = [''a@b.c''],
     cc_principal = comm_demo_manager, cc_occurred_at = comm_demo_time, cc_trigger = None, cc_evidence = [],
     cc_key = Some ''k1'', cc_uuids = (''u1'', ''d1'')\<rparr>"

definition comm_demo_port :: delivery_port where
  "comm_demo_port = unconfigured_delivery\<lparr>port_send := (\<lambda>d key. Inr ''receipt-1'')\<rparr>"

definition comm_demo_1 :: comm_store where
  "comm_demo_1 = apply_comm (Co_create comm_demo_hash comm_demo_args) comm_store_init"

definition comm_demo_2 :: comm_store where
  "comm_demo_2 = apply_comm (Co_decide ''d1'' APPROVED comm_demo_manager comm_demo_time (Some 1)) comm_demo_1"

definition comm_demo_3 :: comm_store where
  "comm_demo_3 = apply_comm (Co_send comm_demo_port ''d1'' comm_demo_manager comm_demo_time True ''send-1'' (Some 2)) comm_demo_2"

lemma comm_demo_reach: "comm_reachable comm_demo_2" "comm_reachable comm_demo_3"
  unfolding comm_demo_3_def comm_demo_2_def comm_demo_1_def by (intro comm_next comm_start)+

lemma comm_demo_run:
  "map_option cd_status (cget comm_demo_2 ''d1'') = Some CS_READY"
  "map_option cd_status (cget comm_demo_3 ''d1'') = Some CS_SENT"
  "map_option cd_version (cget comm_demo_3 ''d1'') = Some 3"
  by code_simp+

theorem communications_refine_lifecycle_witness:
  "\<exists>d d'. cget comm_demo_2 ''d1'' = Some d \<and> cget comm_demo_3 ''d1'' = Some d' \<and> life_step (life_of d) (life_of d') \<and> life_of d' = L_sent"
proof -
  obtain d where d: "cget comm_demo_2 ''d1'' = Some d" "cd_status d = CS_READY"
    using comm_demo_run(1) by (cases "cget comm_demo_2 ''d1''") auto
  have s: "map_option cd_status (cget comm_demo_3 ''d1'') = Some CS_SENT" by (rule comm_demo_run(2))
  show ?thesis
    using communications_refine_lifecycle[OF comm_demo_reach(1) d(1),
        of "Co_send comm_demo_port ''d1'' comm_demo_manager comm_demo_time True ''send-1'' (Some 2)", folded comm_demo_3_def] d s
    by (auto simp: life_of_def)
qed

theorem communication_create_idempotent_witness:
  "\<exists>d. comm_create comm_demo_hash (comm_demo_args\<lparr>cc_occurred_at := comm_demo_time, cc_uuids := (''u2'', ''d2'')\<rparr>) comm_demo_1
     = (Inr d, comm_demo_1)"
proof -
  let ?x = "comm_create comm_demo_hash comm_demo_args comm_store_init"
  have "map_sum (\<lambda>_. ()) (\<lambda>d. cd_id d) (fst ?x) = Inr ''d1''" by code_simp
  then obtain d where "fst ?x = Inr d" by (cases "fst ?x") auto
  then have "?x = (Inr d, comm_demo_1)" by (simp add: comm_demo_1_def prod_eq_iff)
  from communication_create_idempotent[OF comm_start this] show ?thesis by (auto simp: comm_demo_args_def)
qed

end
