(* ===== verification/CommRaces.thy ===== *)
theory CommRaces
  imports CommProps
begin

text \<open>
  Communications under concurrency. Every method of \<^verbatim>\<open>modules/communications/service.py\<close> reads in one
  transaction and writes in another, and \<open>send\<close> asks the delivery provider in between; here each method is cut at
  those points, any number of them are in flight at once, their parts interleave in any order, and a method may stop
  at any point. The run keeps what the provider accepted.
\<close>

section \<open>Methods in flight\<close>

datatype comm_flight =
    Fl_insert comm_draft comm_event
  | Fl_change comm_change
  | Fl_audit comm_draft comm_event
  | Fl_sending comm_draft string principal datetime
  | Fl_answered comm_draft principal datetime "(string, string) result"

record comm_world =
  cw_store :: comm_store
  cw_flights :: "comm_flight list"
  cw_delivered :: "(comm_draft \<times> string \<times> string) list"

datatype comm_act =
    Ac_create hashing comm_create_args
  | Ac_edit string principal datetime comm_edit_args "int option"
  | Ac_decide string approval_status principal datetime "int option"
  | Ac_preview delivery_port string principal datetime
  | Ac_send string principal datetime bool string "int option"
  | Ac_deliver nat delivery_port
  | Ac_store nat

text \<open>The reads of \<open>create\<close>: it goes on to insert only when neither key is taken.\<close>

definition create_read :: "hashing \<Rightarrow> comm_create_args \<Rightarrow> comm_store \<Rightarrow> (comm_draft \<times> comm_event) option" where
  "create_read h c st =
     (if 1 \<le> length (comm_request_key c) \<and> length (comm_request_key c) \<le> 128
         \<and> by_idempotency_key st (comm_stored_key h c) = None \<and> comm_legacy c st = None
      then (case comm_new_entry h c of Inl _ \<Rightarrow> None | Inr de \<Rightarrow> Some de) else None)"

definition take_off :: "comm_flight option \<Rightarrow> comm_world \<Rightarrow> comm_world" where
  "take_off f w = (case f of None \<Rightarrow> w | Some x \<Rightarrow> w\<lparr>cw_flights := cw_flights w @ [x]\<rparr>)"

definition sending_flight :: "(comm_error, comm_draft) result \<Rightarrow> string \<Rightarrow> principal \<Rightarrow> datetime \<Rightarrow> comm_flight option" where
  "sending_flight m key p t =
     (case m of Inl _ \<Rightarrow> None | Inr d \<Rightarrow> if cd_status d = CS_SENT then None else Some (Fl_sending d key p t))"

definition change_flight :: "(comm_error, comm_change) result \<Rightarrow> comm_flight option" where
  "change_flight m = (case m of Inl _ \<Rightarrow> None | Inr c \<Rightarrow> Some (Fl_change c))"

definition audit_flight :: "(comm_error, comm_draft \<times> comm_event) result \<Rightarrow> comm_flight option" where
  "audit_flight m = (case m of Inl _ \<Rightarrow> None | Inr (d, e) \<Rightarrow> Some (Fl_audit d e))"

text \<open>The writing transaction of a method in flight.\<close>

fun store_flight :: "comm_flight \<Rightarrow> comm_store \<Rightarrow> comm_store option" where
  "store_flight (Fl_insert d e) st = Some (snd (comm_save st d e None))"
| "store_flight (Fl_change c) st = Some (snd (save_change st (Inr c)))"
| "store_flight (Fl_audit d e) st = Some (snd (append_audit st d e))"
| "store_flight (Fl_sending d key p t) st = None"
| "store_flight (Fl_answered d p t answer) st = Some (snd (send_finish p t d answer st))"

definition provider_answers :: "delivery_port \<Rightarrow> nat \<Rightarrow> comm_world \<Rightarrow> comm_world" where
  "provider_answers port n w =
     (if n < length (cw_flights w)
      then (case cw_flights w ! n of
              Fl_sending d key p t \<Rightarrow>
                w\<lparr>cw_flights := (cw_flights w)[n := Fl_answered d p t (port_send port d key)],
                  cw_delivered := cw_delivered w @ (case port_send port d key of Inl _ \<Rightarrow> [] | Inr receipt \<Rightarrow> [(d, key, receipt)])\<rparr>
            | _ \<Rightarrow> w)
      else w)"

definition land :: "nat \<Rightarrow> comm_world \<Rightarrow> comm_world" where
  "land n w =
     (if n < length (cw_flights w)
      then (case store_flight (cw_flights w ! n) (cw_store w) of
              None \<Rightarrow> w
            | Some st' \<Rightarrow> w\<lparr>cw_store := st', cw_flights := take n (cw_flights w) @ drop (Suc n) (cw_flights w)\<rparr>)
      else w)"

fun comm_do :: "comm_act \<Rightarrow> comm_world \<Rightarrow> comm_world" where
  "comm_do (Ac_create h c) w = take_off (map_option (\<lambda>(d, e). Fl_insert d e) (create_read h c (cw_store w))) w"
| "comm_do (Ac_edit i p t ed x) w = take_off (change_flight (edit_read i p t ed x (cw_store w))) w"
| "comm_do (Ac_decide i dec p t x) w = take_off (change_flight (decide_read i dec p t x (cw_store w))) w"
| "comm_do (Ac_preview port i p t) w = take_off (audit_flight (preview_entry port i p t (cw_store w))) w"
| "comm_do (Ac_send i p t conf key x) w = take_off (sending_flight (send_read i p conf x (cw_store w)) key p t) w"
| "comm_do (Ac_deliver n port) w = provider_answers port n w"
| "comm_do (Ac_store n) w = land n w"

text \<open>A run, its last act first.\<close>

fun comm_run :: "comm_act list \<Rightarrow> comm_world" where
  "comm_run [] = \<lparr>cw_store = comm_store_init, cw_flights = [], cw_delivered = []\<rparr>"
| "comm_run (a # acts) = comm_do a (comm_run acts)"

section \<open>What an approval is\<close>

definition same_content :: "comm_draft \<Rightarrow> comm_draft \<Rightarrow> bool" where
  "same_content r d \<longleftrightarrow> cd_id r = cd_id d \<and> cd_account_id r = cd_account_id d \<and> cd_channel r = cd_channel d
     \<and> cd_subject r = cd_subject d \<and> cd_body r = cd_body d \<and> cd_recipients r = cd_recipients d
     \<and> cd_trigger r = cd_trigger d \<and> cd_evidence_ids r = cd_evidence_ids d \<and> cd_created_by r = cd_created_by d"

text \<open>The manager \<open>p\<close> decided to approve in the run when the stored draft was \<open>r\<close>, which has the content of \<open>d\<close>.\<close>

definition reviewed :: "comm_act list \<Rightarrow> principal \<Rightarrow> comm_draft \<Rightarrow> comm_draft \<Rightarrow> bool" where
  "reviewed acts p r d \<longleftrightarrow> pr_role p = MANAGER \<and> same_content r d
     \<and> (\<exists>later earlier t x. acts = later @ Ac_decide (cd_id r) APPROVED p t x # earlier
          \<and> cget (cw_store (comm_run earlier)) (cd_id r) = Some r)"

definition approval_event :: "principal \<Rightarrow> comm_draft \<Rightarrow> comm_event \<Rightarrow> bool" where
  "approval_event p r e \<longleftrightarrow> ce_communication_id e = cd_id r \<and> ce_actor_id e = pr_user_id p \<and> approval_of_version e (cd_version r)"

definition approval_recorded :: "comm_act list \<Rightarrow> comm_store \<Rightarrow> comm_draft \<Rightarrow> int \<Rightarrow> bool" where
  "approval_recorded acts st d v \<longleftrightarrow> (\<exists>p r. reviewed acts p r d \<and> cd_version r = v \<and> (\<exists>e\<in>set (cs_events st). approval_event p r e))"

definition delivery_recorded :: "comm_world \<Rightarrow> comm_draft \<Rightarrow> bool" where
  "delivery_recorded w d \<longleftrightarrow> (\<exists>d0 key receipt. (d0, key, receipt) \<in> set (cw_delivered w) \<and> same_content d0 d
     \<and> cd_version d = cd_version d0 + 1
     \<and> (\<exists>e\<in>set (comm_history (cw_store w) (cd_id d)). ce_event e = ''DELIVERED''
          \<and> map_of (ce_metadata e) ''receipt'' = Some (J_str receipt)))"

lemma same_content_refl [simp]: "same_content d d"
  by (simp add: same_content_def)

lemma same_content_trans: "same_content a b \<Longrightarrow> same_content b c \<Longrightarrow> same_content a c"
  by (simp add: same_content_def)

lemma reviewed_later: "reviewed acts p r d \<Longrightarrow> reviewed (a # acts) p r d"
  unfolding reviewed_def by (metis append_Cons)

lemma reviewed_content: "reviewed acts p r d \<Longrightarrow> same_content d u \<Longrightarrow> reviewed acts p r u"
  using same_content_trans by (auto simp: reviewed_def)

lemma approval_recorded_mono:
  assumes "approval_recorded acts st d v" "set (cs_events st) \<subseteq> set (cs_events st')"
  shows "approval_recorded (a # acts) st' d v"
  using assms reviewed_later unfolding approval_recorded_def by blast

lemma approval_recorded_content:
  "approval_recorded acts st d v \<Longrightarrow> same_content d u \<Longrightarrow> approval_recorded acts st u v"
  using reviewed_content unfolding approval_recorded_def by blast

section \<open>The invariant\<close>

text \<open>A draft read before: the stored one has it as an earlier version, or is it.\<close>

definition read_before :: "comm_store \<Rightarrow> comm_draft \<Rightarrow> bool" where
  "read_before st d \<longleftrightarrow> (\<exists>cur. cget st (cd_id d) = Some cur \<and> cd_version d \<le> cd_version cur
     \<and> (cd_version d = cd_version cur \<longrightarrow> cur = d))"

definition cleared :: "comm_act list \<Rightarrow> comm_store \<Rightarrow> comm_draft \<Rightarrow> bool" where
  "cleared acts st d \<longleftrightarrow> read_before st d \<and> cd_status d \<noteq> CS_SENT \<and> cd_approval_status d = APPROVED \<and> cd_recipients d \<noteq> []
     \<and> approval_recorded acts st d (cd_version d - 1)"

fun flight_ok :: "comm_act list \<Rightarrow> comm_store \<Rightarrow> comm_flight \<Rightarrow> bool" where
  "flight_ok acts st (Fl_insert d e) \<longleftrightarrow> draft_ok d \<and> cd_status d = CS_DRAFT \<and> cd_approval_status d = PENDING \<and> cd_sent_at d = None
     \<and> cd_version d = 1 \<and> cd_idempotency_key d \<noteq> None \<and> cd_idempotency_key d \<noteq> Some []
     \<and> ce_event e = ''CREATED'' \<and> ce_communication_id e = cd_id d"
| "flight_ok acts st (Fl_change (u, e, v)) \<longleftrightarrow> cd_status u \<noteq> CS_SENT
     \<and> (\<exists>d. read_before st d \<and> good_change d (u, e, v)
          \<and> (cd_approval_status u = APPROVED \<longrightarrow> (\<exists>p. reviewed acts p d u \<and> approval_event p d e)))"
| "flight_ok acts st (Fl_audit d e) \<longleftrightarrow> ce_event e \<in> audit_names \<and> ce_communication_id e = cd_id d"
| "flight_ok acts st (Fl_sending d key p t) \<longleftrightarrow> cleared acts st d"
| "flight_ok acts st (Fl_answered d p t answer) \<longleftrightarrow> cleared acts st d"

fun answer_delivered :: "comm_world \<Rightarrow> comm_flight \<Rightarrow> bool" where
  "answer_delivered w (Fl_answered d p t (Inr receipt)) \<longleftrightarrow> (\<exists>key. (d, key, receipt) \<in> set (cw_delivered w))"
| "answer_delivered w f \<longleftrightarrow> True"

definition stored_ok :: "comm_act list \<Rightarrow> comm_world \<Rightarrow> comm_draft \<Rightarrow> bool" where
  "stored_ok acts w d \<longleftrightarrow>
     (cd_approval_status d = APPROVED \<longrightarrow>
        approval_recorded acts (cw_store w) d (cd_version d - (if cd_status d = CS_SENT then 2 else 1)))
     \<and> (cd_status d = CS_SENT \<longrightarrow> delivery_recorded w d)"

definition world_ok :: "comm_act list \<Rightarrow> comm_world \<Rightarrow> bool" where
  "world_ok acts w \<longleftrightarrow> comm_ok (cw_store w)
     \<and> (\<forall>i d. cget (cw_store w) i = Some d \<longrightarrow> stored_ok acts w d)
     \<and> (\<forall>f\<in>set (cw_flights w). flight_ok acts (cw_store w) f \<and> answer_delivered w f)
     \<and> (\<forall>(d, key, receipt)\<in>set (cw_delivered w). cd_recipients d \<noteq> [] \<and> approval_recorded acts (cw_store w) d (cd_version d - 1))"

section \<open>Every act keeps it\<close>

definition grown :: "comm_world \<Rightarrow> comm_world \<Rightarrow> bool" where
  "grown w w' \<longleftrightarrow> set (cs_events (cw_store w)) \<subseteq> set (cs_events (cw_store w')) \<and> set (cw_delivered w) \<subseteq> set (cw_delivered w')"

lemma effect_events: "comm_effect st st' \<Longrightarrow> set (cs_events st) \<subseteq> set (cs_events st')"
  by (cases rule: comm_effect.cases) (auto simp: log_event_def replace_draft_def)

lemma read_before_effect:
  assumes "comm_effect st st'" "comm_ok st" "read_before st d"
  shows "read_before st' d"
proof -
  obtain cur where c: "cget st (cd_id d) = Some cur" "cd_version d \<le> cd_version cur" "cd_version d = cd_version cur \<longrightarrow> cur = d"
    using assms(3) by (auto simp: read_before_def)
  show ?thesis
    using effect_on_draft[OF assms(1,2) c(1)] c draft_change_frame by (fastforce simp: read_before_def)
qed

lemma cleared_effect:
  "comm_effect st st' \<Longrightarrow> comm_ok st \<Longrightarrow> cleared acts st d \<Longrightarrow> cleared (a # acts) st' d"
  using read_before_effect approval_recorded_mono effect_events unfolding cleared_def by blast

lemma flight_ok_effect:
  assumes "comm_effect st st'" "comm_ok st" "flight_ok acts st f"
  shows "flight_ok (a # acts) st' f"
proof (cases f)
  case (Fl_change c)
  obtain u e v where c: "c = (u, e, v)" by (cases c)
  show ?thesis using assms read_before_effect[OF assms(1,2)] reviewed_later by (fastforce simp: Fl_change c)
qed (use assms cleared_effect in auto)

lemma answer_delivered_grown: "grown w w' \<Longrightarrow> answer_delivered w f \<Longrightarrow> answer_delivered w' f"
  by (cases "(w, f)" rule: answer_delivered.cases) (auto simp: grown_def)

lemma stored_ok_grown:
  assumes "grown w w'" "stored_ok acts w d"
  shows "stored_ok (a # acts) w' d"
  unfolding stored_ok_def
proof (intro conjI impI)
  assume "cd_approval_status d = APPROVED"
  then show "approval_recorded (a # acts) (cw_store w') d (cd_version d - (if cd_status d = CS_SENT then 2 else 1))"
    using assms approval_recorded_mono by (fastforce simp: stored_ok_def grown_def simp del: if_split)
next
  assume "cd_status d = CS_SENT"
  then show "delivery_recorded w' d"
    using assms by (fastforce simp: stored_ok_def grown_def delivery_recorded_def comm_history_def)
qed

text \<open>Acts that only read, or ask the provider, leave the store.\<close>

lemma same_store_ok:
  assumes ok: "world_ok acts w" and w': "cw_store w' = cw_store w" "set (cw_delivered w) \<subseteq> set (cw_delivered w')"
    and fl: "\<And>f. f \<in> set (cw_flights w') \<Longrightarrow> f \<in> set (cw_flights w) \<or> flight_ok (a # acts) (cw_store w) f \<and> answer_delivered w' f"
    and del: "\<And>x. x \<in> set (cw_delivered w') \<Longrightarrow> x \<in> set (cw_delivered w) \<or>
      cd_recipients (fst x) \<noteq> [] \<and> approval_recorded acts (cw_store w) (fst x) (cd_version (fst x) - 1)"
  shows "world_ok (a # acts) w'"
proof -
  have g: "grown w w'" using w' by (simp add: grown_def)
  have c: "comm_ok (cw_store w)" using ok by (simp add: world_ok_def)
  have "flight_ok (a # acts) (cw_store w) f \<and> answer_delivered w' f" if "f \<in> set (cw_flights w')" for f
    using fl[OF that] ok flight_ok_effect[OF same c] answer_delivered_grown[OF g] by (auto simp: world_ok_def)
  moreover have "cd_recipients d \<noteq> [] \<and> approval_recorded (a # acts) (cw_store w) d (cd_version d - 1)"
    if "(d, key, receipt) \<in> set (cw_delivered w')" for d key receipt
    using del[OF that] ok approval_recorded_mono[of acts "cw_store w" d _ "cw_store w" a] by (auto simp: world_ok_def)
  moreover have "stored_ok (a # acts) w' d" if "cget (cw_store w) i = Some d" for i d
    using ok that stored_ok_grown[OF g] by (auto simp: world_ok_def)
  ultimately show ?thesis using c by (auto simp: world_ok_def w'(1))
qed

lemma take_off_ok:
  assumes "world_ok acts w"
    and "\<And>f. m = Some f \<Longrightarrow> flight_ok (a # acts) (cw_store w) f \<and> (\<forall>w. answer_delivered w f)"
  shows "world_ok (a # acts) (take_off m w)"
  by (rule same_store_ok[OF assms(1)]) (use assms(2) in \<open>auto simp: take_off_def split: option.splits\<close>)

lemma cget_read_before: "cget st i = Some d \<Longrightarrow> read_before st d"
  using cget_id by (fastforce simp: read_before_def)

lemma create_takes_off:
  "create_read h c st = Some (d, e) \<Longrightarrow> flight_ok acts st (Fl_insert d e)"
  by (auto simp: create_read_def comm_new_entry_def comm_new_draft_def comm_stored_key_def res_simps split: if_splits sum.splits)

lemma edit_takes_off:
  assumes "edit_read i p t ed x st = Inr (u, e, v)"
  shows "flight_ok acts st (Fl_change (u, e, v))"
proof -
  obtain d where d: "cget st i = Some d" "edit_change p t ed x d = Inr (u, e, v)"
    using assms by (auto simp: edit_read_def res_simps)
  have "cd_status u = CS_DRAFT" "cd_approval_status u = PENDING"
    using d(2) by (auto simp: edit_change_def comm_edited_def res_simps)
  then show ?thesis using edit_change_good[OF d(2)] cget_read_before[OF d(1)] by auto
qed

lemma decide_takes_off:
  assumes "decide_read i dec p t x (cw_store (comm_run acts)) = Inr (u, e, v)"
  shows "flight_ok (Ac_decide i dec p t x # acts) (cw_store (comm_run acts)) (Fl_change (u, e, v))"
proof -
  obtain d where d: "cget (cw_store (comm_run acts)) i = Some d" "review_change dec p t x d = Inr (u, e, v)" "pr_role p = MANAGER"
      "dec \<in> {APPROVED, REJECTED}"
    using assms by (auto simp: decide_read_def res_simps)
  have f: "cd_status u \<noteq> CS_SENT" "cd_approval_status u = dec" "same_content d u" "ce_actor_id e = pr_user_id p"
    "ce_communication_id e = cd_id d" "dec = APPROVED \<Longrightarrow> approval_of_version e (cd_version d)"
    using d(2) by (auto simp: review_change_def same_content_def approval_of_version_def res_simps split: if_splits)
  have "reviewed (Ac_decide i dec p t x # acts) p d u" if "dec = APPROVED"
    unfolding reviewed_def using d(1,3) f(3) that cget_id[OF d(1)] by (metis append_Nil)
  then show ?thesis
    using f review_change_good[OF d(4,2)] cget_read_before[OF d(1)] by (auto simp: approval_event_def)
qed

lemma send_takes_off:
  assumes "send_read i p conf x st = Inr d" "cd_status d \<noteq> CS_SENT" "\<And>i d. cget st i = Some d \<Longrightarrow> stored_ok acts w d" "cw_store w = st"
  shows "cleared (a # acts) st d"
proof -
  note F = send_read_facts[OF assms(1,2)]
  have "approval_recorded acts st d (cd_version d - 1)" using assms(3)[OF F(1)] F assms(4) by (simp add: stored_ok_def)
  then show ?thesis using F cget_read_before[OF F(1)] approval_recorded_mono by (auto simp: cleared_def)
qed

lemma preview_takes_off: "preview_entry port i p t st = Inr (d, e) \<Longrightarrow> flight_ok acts st (Fl_audit d e)"
  by (auto simp: preview_entry_def audit_names_def res_simps)

text \<open>The writing transactions.\<close>

lemma land_store_ok:
  assumes ok: "world_ok acts w" and e: "comm_effect (cw_store w) st'" and fs: "set fs \<subseteq> set (cw_flights w)"
    and new: "\<And>j x. cget st' j = Some x \<Longrightarrow> cget (cw_store w) j = Some x \<or> stored_ok (a # acts) (w\<lparr>cw_store := st', cw_flights := fs\<rparr>) x"
  shows "world_ok (a # acts) (w\<lparr>cw_store := st', cw_flights := fs\<rparr>)"
proof -
  let ?w = "w\<lparr>cw_store := st', cw_flights := fs\<rparr>"
  have c: "comm_ok (cw_store w)" using ok by (simp add: world_ok_def)
  have g: "grown w ?w" using effect_events[OF e] by (simp add: grown_def)
  have "flight_ok (a # acts) st' f \<and> answer_delivered ?w f" if "f \<in> set fs" for f
    using that fs ok flight_ok_effect[OF e c] answer_delivered_grown[OF g] by (auto simp: world_ok_def)
  moreover have "stored_ok (a # acts) ?w x" if "cget st' j = Some x" for j x
    using new[OF that] ok stored_ok_grown[OF g] by (auto simp: world_ok_def)
  moreover have "cd_recipients d \<noteq> [] \<and> approval_recorded (a # acts) st' d (cd_version d - 1)"
    if "(d, key, receipt) \<in> set (cw_delivered w)" for d key receipt
    using that ok approval_recorded_mono[OF _ effect_events[OF e]] by (auto simp: world_ok_def)
  ultimately show ?thesis using effect_ok[OF e c] by (auto simp: world_ok_def)
qed

lemma logged: "e\<lparr>ce_id := Some (int (length (cs_events st)) + 1)\<rparr> \<in> set (cs_events (log_event e st))"
  by (simp add: log_event_def)

lemma change_lands:
  assumes ok: "comm_ok st" and rb: "read_before st d" and g: "good_change d (u, e, v)"
  obtains "snd (save_change st (Inr (u, e, v))) = st"
    | "snd (save_change st (Inr (u, e, v))) = log_event e (replace_draft d u st)" "cget st (cd_id d) = Some d"
      "\<And>j x. cget (log_event e (replace_draft d u st)) j = Some x \<Longrightarrow> cget st j = Some x \<or> x = u"
proof -
  have f: "draft_change d u e" "v = cd_version d" using g by (auto simp: good_change_def)
  note F = draft_change_frame[OF f(1)]
  obtain cur where c: "cget st (cd_id d) = Some cur" "cd_version d = cd_version cur \<longrightarrow> cur = d"
    using rb by (auto simp: read_before_def)
  show thesis
  proof (cases "list_ex (\<lambda>x. cd_id x = cd_id u \<and> cd_version x = v) (cs_drafts st)")
    case False
    then show thesis using that(1) F f(2) by (simp add: save_change_def comm_save_def)
  next
    case True
    then obtain x where x: "x \<in> set (cs_drafts st)" "cd_id x = cd_id d" "cd_version x = cd_version d"
      using F f(2) by (auto simp: list_ex_iff)
    then have "cget st (cd_id d) = Some x" using cget_iff[OF ok] by simp
    then have d: "cget st (cd_id d) = Some d" using c x(3) by simp
    have coh: "coherent d" using ok cget_id[OF d] by (auto simp: comm_ok_def)
    have r: "row_of u = u" by (rule row_of_keeps) (use change_coherent[OF f(1) coh] in \<open>simp add: coherent_def\<close>)
    have "snd (save_change st (Inr (u, e, v))) = log_event e (replace_draft d u st)"
      using True F f(2) by (simp add: save_change_def comm_save_def replace_draft_def)
    moreover have "cget st j = Some y \<or> y = u" if "cget (log_event e (replace_draft d u st)) j = Some y" for j y
    proof -
      have "cget (replace_draft d u st) j = Some y" using that by simp
      then have "cd_id y = j" "y \<in> set (cs_drafts (replace_draft d u st))" using cget_id by blast+
      then show ?thesis using cget_iff[OF ok] by (auto simp: replace_draft_def r split: if_splits)
    qed
    ultimately show thesis using that(2) d by blast
  qed
qed

lemma change_world_ok:
  assumes ok: "world_ok acts w" and fs: "set fs \<subseteq> set (cw_flights w)"
    and rb: "read_before (cw_store w) d" and g: "good_change d (u, e, v)"
    and new: "\<And>st'. st' = log_event e (replace_draft d u (cw_store w)) \<Longrightarrow> set (cs_events (cw_store w)) \<subseteq> set (cs_events st') \<Longrightarrow>
       stored_ok (a # acts) (w\<lparr>cw_store := st', cw_flights := fs\<rparr>) u"
  shows "world_ok (a # acts) (w\<lparr>cw_store := snd (save_change (cw_store w) (Inr (u, e, v))), cw_flights := fs\<rparr>)"
proof -
  have c: "comm_ok (cw_store w)" using ok by (simp add: world_ok_def)
  show ?thesis
  proof (rule change_lands[OF c rb g])
    assume "snd (save_change (cw_store w) (Inr (u, e, v))) = cw_store w"
    then show ?thesis using land_store_ok[OF ok same fs] by simp
  next
    let ?st = "log_event e (replace_draft d u (cw_store w))"
    assume s: "snd (save_change (cw_store w) (Inr (u, e, v))) = ?st" "cget (cw_store w) (cd_id d) = Some d"
      and x: "\<And>j x. cget ?st j = Some x \<Longrightarrow> cget (cw_store w) j = Some x \<or> x = u"
    have e: "comm_effect (cw_store w) ?st" by (rule changed[OF s(2) g])
    show ?thesis unfolding s(1)
      by (rule land_store_ok[OF ok e fs]) (use x new[OF refl effect_events[OF e]] in blast)
  qed
qed

lemma land_insert_ok:
  assumes ok: "world_ok acts w" and fs: "set fs \<subseteq> set (cw_flights w)" and f: "flight_ok acts (cw_store w) (Fl_insert d e)"
  shows "world_ok (a # acts) (w\<lparr>cw_store := snd (comm_save (cw_store w) d e None), cw_flights := fs\<rparr>)"
proof (cases "cget (cw_store w) (cd_id d) \<noteq> None \<or> by_idempotency_key (cw_store w) (the (cd_idempotency_key (row_of d))) \<noteq> None")
  case True
  then have "snd (comm_save (cw_store w) d e None) = cw_store w" using f
    by (cases "by_idempotency_key (cw_store w) (the (cd_idempotency_key (row_of d)))") (simp_all add: comm_save_def)
  then show ?thesis using land_store_ok[OF ok same fs] by simp
next
  case False
  let ?st = "log_event e (cw_store w\<lparr>cs_drafts := cs_drafts (cw_store w) @ [row_of d]\<rparr>)"
  have s: "snd (comm_save (cw_store w) d e None) = ?st" using False f by (simp add: comm_save_def)
  have e: "comm_effect (cw_store w) ?st" using f False by (intro inserted) auto
  have "cget (cw_store w) j = Some x \<or> x = row_of d" if "cget ?st j = Some x" for j x
    using that by (auto simp: cget_def first_match_append split: option.splits if_splits)
  moreover have "stored_ok (a # acts) (w\<lparr>cw_store := ?st, cw_flights := fs\<rparr>) (row_of d)"
    using f by (simp add: stored_ok_def row_of_def)
  ultimately show ?thesis unfolding s using land_store_ok[OF ok e fs] by blast
qed

lemma land_change_ok:
  assumes ok: "world_ok acts w" and fs: "set fs \<subseteq> set (cw_flights w)" and f: "flight_ok acts (cw_store w) (Fl_change (u, e, v))"
  shows "world_ok (a # acts) (w\<lparr>cw_store := snd (save_change (cw_store w) (Inr (u, e, v))), cw_flights := fs\<rparr>)"
proof -
  obtain d where d: "read_before (cw_store w) d" "good_change d (u, e, v)"
      "cd_approval_status u = APPROVED \<longrightarrow> (\<exists>p. reviewed acts p d u \<and> approval_event p d e)" and s: "cd_status u \<noteq> CS_SENT"
    using f by auto
  have ver: "cd_version u = cd_version d + 1" using d(2) draft_change_frame by (auto simp: good_change_def)
  show ?thesis
  proof (rule change_world_ok[OF ok fs d(1,2)])
    fix st' assume st': "st' = log_event e (replace_draft d u (cw_store w))"
    let ?e = "e\<lparr>ce_id := Some (int (length (cs_events (replace_draft d u (cw_store w)))) + 1)\<rparr>"
    have "approval_recorded (a # acts) st' u (cd_version d)" if ap: "cd_approval_status u = APPROVED"
    proof -
      obtain p where p: "reviewed acts p d u" "approval_event p d e" using d(3) ap by blast
      have "approval_event p d ?e" using p(2) by (simp add: approval_event_def approval_of_version_def)
      then show ?thesis using reviewed_later[OF p(1)] logged st' unfolding approval_recorded_def by blast
    qed
    then show "stored_ok (a # acts) (w\<lparr>cw_store := st', cw_flights := fs\<rparr>) u" using s ver by (simp add: stored_ok_def)
  qed
qed

lemma land_answer_ok:
  assumes ok: "world_ok acts w" and fs: "set fs \<subseteq> set (cw_flights w)"
    and f: "flight_ok acts (cw_store w) (Fl_answered d p t answer)" "answer_delivered w (Fl_answered d p t answer)"
  shows "world_ok (a # acts) (w\<lparr>cw_store := snd (send_finish p t d answer (cw_store w)), cw_flights := fs\<rparr>)"
proof (cases answer)
  case (Inl msg)
  have c: "comm_ok (cw_store w)" using ok by (simp add: world_ok_def)
  let ?st = "snd (block_delivery p t d msg (cw_store w))"
  have "cs_drafts ?st = cs_drafts (cw_store w)"
    by (simp add: block_delivery_def append_audit_def split: sum.split prod.split)
  then have "cget ?st j = cget (cw_store w) j" for j by (simp add: cget_def)
  then show ?thesis using land_store_ok[OF ok block_delivery_effect[of _ p t d msg] fs, of a] by (simp add: send_finish_def Inl)
next
  case (Inr receipt)
  have cl: "cleared acts (cw_store w) d" using f(1) by simp
  obtain key where k: "(d, key, receipt) \<in> set (cw_delivered w)" using f(2) Inr by auto
  show ?thesis
  proof (cases "sent_change p t receipt d")
    case (Inl err)
    then have "send_finish p t d answer (cw_store w) = (Inl err, cw_store w)" by (simp add: send_finish_def Inr save_change_def)
    then show ?thesis using land_store_ok[OF ok same fs] by simp
  next
    case (Inr c)
    obtain u e v where c: "c = (u, e, v)" by (cases c)
    have g: "good_change d (u, e, v)" using sent_change_good Inr cl by (auto simp: c cleared_def)
    have x: "same_content d u" "cd_version u = cd_version d + 1" "cd_status u = CS_SENT" "cd_id u = cd_id d"
      "ce_communication_id e = cd_id d" "ce_event e = ''DELIVERED''" "map_of (ce_metadata e) ''receipt'' = Some (J_str receipt)"
      using Inr by (auto simp: c sent_change_def same_content_def res_simps)
    have "world_ok (a # acts) (w\<lparr>cw_store := snd (save_change (cw_store w) (Inr (u, e, v))), cw_flights := fs\<rparr>)"
    proof (rule change_world_ok[OF ok fs _ g])
      show "read_before (cw_store w) d" using cl by (simp add: cleared_def)
    next
      fix st' assume st': "st' = log_event e (replace_draft d u (cw_store w))"
        and ev: "set (cs_events (cw_store w)) \<subseteq> set (cs_events st')"
      let ?w = "w\<lparr>cw_store := st', cw_flights := fs\<rparr>"
      have "approval_recorded (a # acts) st' u (cd_version d - 1)"
        using cl approval_recorded_mono[OF _ ev] approval_recorded_content[OF _ x(1)] by (auto simp: cleared_def)
      moreover have "delivery_recorded ?w u"
        unfolding delivery_recorded_def
        using k x logged[of "replace_draft d u (cw_store w)" e] st' by (fastforce simp: comm_history_def)
      ultimately show "stored_ok (a # acts) ?w u" using x(2,3) by (simp add: stored_ok_def)
    qed
    then show ?thesis by (simp add: send_finish_def \<open>answer = Inr receipt\<close> Inr c)
  qed
qed

lemma land_audit_ok:
  assumes ok: "world_ok acts w" and fs: "set fs \<subseteq> set (cw_flights w)" and f: "flight_ok acts (cw_store w) (Fl_audit d e)"
  shows "world_ok (a # acts) (w\<lparr>cw_store := snd (append_audit (cw_store w) d e), cw_flights := fs\<rparr>)"
proof -
  have "cs_drafts (snd (append_audit (cw_store w) d e)) = cs_drafts (cw_store w)" by (simp add: append_audit_def)
  then have "cget (snd (append_audit (cw_store w) d e)) j = cget (cw_store w) j" for j by (simp add: cget_def)
  then show ?thesis
    using land_store_ok[OF ok append_audit_effect[OF surjective_pairing[of "append_audit (cw_store w) d e"]] fs, of a] f by simp
qed

lemma land_ok:
  assumes "world_ok acts w"
  shows "world_ok (a # acts) (land n w)"
proof (cases "n < length (cw_flights w)")
  case False
  then show ?thesis using same_store_ok[OF assms, of w a] by (simp add: land_def)
next
  case True
  let ?f = "cw_flights w ! n" and ?fs = "take n (cw_flights w) @ drop (Suc n) (cw_flights w)"
  have fs: "set ?fs \<subseteq> set (cw_flights w)" by (auto dest: in_set_takeD in_set_dropD)
  have f: "flight_ok acts (cw_store w) ?f" "answer_delivered w ?f" using assms True by (auto simp: world_ok_def)
  note U = world_ok_def
  show ?thesis
  proof (cases ?f)
    case (Fl_insert d e)
    then show ?thesis using land_insert_ok[OF assms fs] f True by (simp add: land_def)
  next
    case (Fl_change c)
    obtain u e v where c: "c = (u, e, v)" by (cases c)
    show ?thesis using land_change_ok[OF assms fs] f True by (simp add: land_def Fl_change c del: flight_ok.simps)
  next
    case (Fl_audit d e)
    then show ?thesis using land_audit_ok[OF assms fs] f True by (simp add: land_def)
  next
    case (Fl_sending d key p t)
    then show ?thesis using same_store_ok[OF assms, of w a] True by (simp add: land_def)
  next
    case (Fl_answered d p t answer)
    then show ?thesis using land_answer_ok[OF assms fs] f True by (simp add: land_def)
  qed
qed

lemma provider_ok:
  assumes "world_ok acts w"
  shows "world_ok (a # acts) (provider_answers port n w)"
proof (cases "\<exists>d key p t. n < length (cw_flights w) \<and> cw_flights w ! n = Fl_sending d key p t")
  case False
  then have "provider_answers port n w = w" by (auto simp: provider_answers_def split: comm_flight.split)
  then show ?thesis using same_store_ok[OF assms, of w a] by simp
next
  case True
  then obtain d key p t where n: "n < length (cw_flights w)" "cw_flights w ! n = Fl_sending d key p t" by blast
  have c: "comm_ok (cw_store w)" using assms by (simp add: world_ok_def)
  have "flight_ok acts (cw_store w) (Fl_sending d key p t)" using assms nth_mem[OF n(1)] n(2) by (auto simp: world_ok_def)
  then have cl: "cleared acts (cw_store w) d" by simp
  show ?thesis
  proof (rule same_store_ok[OF assms])
    fix f assume "f \<in> set (cw_flights (provider_answers port n w))"
    then have "f \<in> set (cw_flights w) \<or> f = Fl_answered d p t (port_send port d key)"
      using n by (auto simp: provider_answers_def dest: subsetD[OF set_update_subset_insert])
    then show "f \<in> set (cw_flights w) \<or> flight_ok (a # acts) (cw_store w) f \<and> answer_delivered (provider_answers port n w) f"
      using cleared_effect[OF same c cl] n by (cases "port_send port d key") (auto simp: provider_answers_def)
  qed (use n cl in \<open>auto simp: provider_answers_def cleared_def split: sum.splits\<close>)
qed

lemma comm_do_ok:
  assumes w: "w = comm_run acts" and ok: "world_ok acts w"
  shows "world_ok (a # acts) (comm_do a w)"
proof (cases a)
  case (Ac_create h c)
  show ?thesis unfolding Ac_create comm_do.simps
    by (rule take_off_ok[OF ok]) (use create_takes_off in \<open>fastforce simp del: flight_ok.simps\<close>)
next
  case (Ac_edit i p t ed x)
  show ?thesis unfolding Ac_edit comm_do.simps
    by (rule take_off_ok[OF ok]) (use edit_takes_off in \<open>force simp: change_flight_def simp del: flight_ok.simps split: sum.splits\<close>)
next
  case (Ac_decide i dec p t x)
  show ?thesis unfolding Ac_decide comm_do.simps
    by (rule take_off_ok[OF ok]) (use decide_takes_off w in \<open>force simp: change_flight_def simp del: flight_ok.simps split: sum.splits\<close>)
next
  case (Ac_preview port i p t)
  show ?thesis unfolding Ac_preview comm_do.simps
    by (rule take_off_ok[OF ok]) (use preview_takes_off in \<open>force simp: audit_flight_def simp del: flight_ok.simps split: sum.splits\<close>)
next
  case (Ac_send i p t conf key x)
  have "cleared (a # acts) (cw_store w) d" if "send_read i p conf x (cw_store w) = Inr d" "cd_status d \<noteq> CS_SENT" for d
    by (rule send_takes_off[OF that]) (use ok in \<open>auto simp: world_ok_def\<close>)
  then show ?thesis unfolding Ac_send comm_do.simps
    by (intro take_off_ok[OF ok]) (auto simp: sending_flight_def split: sum.splits if_splits)
qed (simp_all add: provider_ok[OF ok] land_ok[OF ok])

lemma comm_run_ok: "world_ok acts (comm_run acts)"
proof (induction acts)
  case Nil
  show ?case by (simp add: world_ok_def comm_ok_def comm_store_init_def cget_def)
next
  case (Cons a acts)
  then show ?case using comm_do_ok by simp
qed

section \<open>The property, and what it does not promise\<close>

text \<open>
  C2. Whatever goes out is what a manager approved, however the methods interleave. Every draft the
  provider accepted has recipients, and a manager had decided to approve while the stored draft was the version just
  before it with the same account, channel, subject, body, recipients and evidence; the log holds that manager's
  approval of that version. A stored draft that is SENT has a sending time, exactly one delivery in its log with the
  receipt of an accepted draft of the same content, and such an approval two versions earlier; a draft that is not
  SENT has no delivery in its log.
\<close>

theorem sent_content_was_approved:
  "(\<forall>(d, key, receipt)\<in>set (cw_delivered (comm_run acts)).
      cd_recipients d \<noteq> [] \<and> approval_recorded acts (cw_store (comm_run acts)) d (cd_version d - 1))
   \<and> (\<forall>i d. cget (cw_store (comm_run acts)) i = Some d \<longrightarrow>
        length (filter (\<lambda>e. ce_event e = ''DELIVERED'') (comm_history (cw_store (comm_run acts)) i)) = (if cd_status d = CS_SENT then 1 else 0)
      \<and> (cd_status d = CS_SENT \<longrightarrow> cd_sent_at d \<noteq> None
          \<and> approval_recorded acts (cw_store (comm_run acts)) d (cd_version d - 2) \<and> delivery_recorded (comm_run acts) d))"
proof -
  let ?w = "comm_run acts"
  have ok: "world_ok acts ?w" by (rule comm_run_ok)
  have "length (filter (\<lambda>e. ce_event e = ''DELIVERED'') (comm_history (cw_store ?w) i)) = (if cd_status d = CS_SENT then 1 else 0)
      \<and> (cd_status d = CS_SENT \<longrightarrow> cd_sent_at d \<noteq> None
          \<and> approval_recorded acts (cw_store ?w) d (cd_version d - 2) \<and> delivery_recorded ?w d)"
    if c: "cget (cw_store ?w) i = Some d" for i d
  proof -
    have d: "coherent d" "log_matches d (mutation_log (cw_store ?w) i)"
      using ok cget_id[OF c] by (auto simp: world_ok_def comm_ok_def)
    have "filter (\<lambda>e. ce_event e = ''DELIVERED'') (mutation_log (cw_store ?w) i)
        = filter (\<lambda>e. ce_event e = ''DELIVERED'') (comm_history (cw_store ?w) i)"
      unfolding mutation_log_def filter_filter by (rule filter_cong) (auto simp: mutation_names_def)
    moreover have "stored_ok acts ?w d" using ok c by (auto simp: world_ok_def)
    ultimately show ?thesis using d by (auto simp: log_matches_def coherent_def stored_ok_def)
  qed
  then show ?thesis using ok by (auto simp: world_ok_def)
qed

definition race_approved :: "comm_act list" where
  "race_approved = [Ac_store 0, Ac_decide ''d1'' APPROVED comm_demo_manager comm_demo_time (Some 1),
     Ac_store 0, Ac_create comm_demo_hash comm_demo_args]"

definition race_send :: "string \<Rightarrow> comm_act" where
  "race_send key = Ac_send ''d1'' comm_demo_manager comm_demo_time True key (Some 2)"

definition race_sent :: "comm_act list" where
  "race_sent = [Ac_store 0, Ac_deliver 0 comm_demo_port, race_send ''s1''] @ race_approved"

lemma race_sent_facts:
  "map_option cd_status (cget (cw_store (comm_run race_sent)) ''d1'') = Some CS_SENT"
  "map (\<lambda>(d, key, receipt). key) (cw_delivered (comm_run race_sent)) = [''s1'']"
  by code_simp+

theorem sent_content_was_approved_witness:
  "\<exists>d. cget (cw_store (comm_run race_sent)) ''d1'' = Some d
     \<and> approval_recorded race_sent (cw_store (comm_run race_sent)) d (cd_version d - 2)
     \<and> delivery_recorded (comm_run race_sent) d"
proof -
  obtain d where "cget (cw_store (comm_run race_sent)) ''d1'' = Some d" "cd_status d = CS_SENT"
    using race_sent_facts(1) by (cases "cget (cw_store (comm_run race_sent)) ''d1''") auto
  then show ?thesis using sent_content_was_approved[of race_sent] by blast
qed

text \<open>
  What is recorded once may have gone out twice: two sends that both read the approved draft both reach the provider;
  the second to store its outcome is refused.
\<close>

lemma one_record_two_deliveries:
  "map (\<lambda>(d, key, receipt). key) (cw_delivered (comm_run ([Ac_store 0, Ac_store 0, Ac_deliver 1 comm_demo_port,
       Ac_deliver 0 comm_demo_port, race_send ''s2'', race_send ''s1''] @ race_approved))) = [''s1'', ''s2'']"
  "map_option cd_status (cget (cw_store (comm_run ([Ac_store 0, Ac_store 0, Ac_deliver 1 comm_demo_port,
       Ac_deliver 0 comm_demo_port, race_send ''s2'', race_send ''s1''] @ race_approved))) ''d1'') = Some CS_SENT"
  by code_simp+

text \<open>
  And what went out may not be recorded at all: when an edit lands while the provider is asked, the send's outcome is
  refused, the draft is open again, and neither the draft nor its log tells of the delivery.
\<close>

definition race_edit :: comm_act where
  "race_edit = Ac_edit ''d1'' comm_demo_manager comm_demo_time
     \<lparr>ced_subject = None, ced_body = Some ''Other'', ced_recipients = None, ced_ai_metadata = None\<rparr> (Some 2)"

definition race_lost :: "comm_act list" where
  "race_lost = [Ac_store 0, Ac_store 1, Ac_deliver 0 comm_demo_port, race_edit, race_send ''s1''] @ race_approved"

lemma delivery_without_record:
  "map (\<lambda>(d, key, receipt). cd_body d) (cw_delivered (comm_run race_lost)) = [''Text'']"
  "map_option (\<lambda>d. (cd_status d, cd_body d)) (cget (cw_store (comm_run race_lost)) ''d1'') = Some (CS_DRAFT, ''Other'')"
  "filter (\<lambda>e. ce_event e \<in> {''DELIVERED'', ''DELIVERY_BLOCKED''}) (comm_history (cw_store (comm_run race_lost)) ''d1'') = []"
  by code_simp+

end
