(* ===== verification/Drafting.thy ===== *)
theory Drafting
  imports Core
begin

text \<open>
  \<^verbatim>\<open>modules/communications/drafting.py\<close> with the request and draft contracts it uses from
  \<^verbatim>\<open>ai/contracts.py\<close>: language assistance is asked for, its proposal is accepted only when its
  citations are the request's, and any failure falls back to a draft built from the request alone. What the provider
  does is an argument.
\<close>

datatype provider_status =
  PV_AVAILABLE | PV_NOT_CONFIGURED | PV_AUTH_FAILED | PV_TIMEOUT | PV_QUOTA | PV_UNAVAILABLE

record governed_drafting_request =
  gdr_subject_display_name :: string
  gdr_instruction :: string
  gdr_draft_kind :: string
  gdr_governed_facts :: "string list"
  gdr_evidence_ids :: "string list"
  gdr_current_subject :: "string option"
  gdr_current_body :: "string option"
  gdr_public_evidence_ids :: "string list"  \<comment> \<open>\<open>evidence_id\<close> of each \<open>public_research\<close> finding\<close>
  gdr_contract_version :: string

definition text_over :: "nat \<Rightarrow> string option \<Rightarrow> bool" where
  "text_over n v = (case v of None \<Rightarrow> False | Some s \<Rightarrow> n < length s)"

definition governed_drafting_request_post_init ::
  "governed_drafting_request \<Rightarrow> (py_error, governed_drafting_request) result" where
  "governed_drafting_request_post_init r =
     (if blank (gdr_subject_display_name r) \<or> 300 < length (gdr_subject_display_name r)
      then Inl (ValueError ''Drafting subject exceeds bounds.'')
      else if blank (gdr_instruction r) \<or> 500 < length (gdr_instruction r) \<or> blank (gdr_draft_kind r)
              \<or> 80 < length (gdr_draft_kind r)
      then Inl (ValueError ''Drafting instruction exceeds bounds.'')
      else if 12 < length (gdr_governed_facts r) \<or> list_ex (\<lambda>f. blank f \<or> 800 < length f) (gdr_governed_facts r)
      then Inl (ValueError ''Drafting context exceeds bounds.'')
      else if 16 < length (gdr_evidence_ids r) \<or> list_ex (\<lambda>f. blank f \<or> 160 < length f) (gdr_evidence_ids r)
      then Inl (ValueError ''Drafting evidence exceeds bounds.'')
      else if text_over 6000 (gdr_current_subject r) \<or> text_over 6000 (gdr_current_body r)
      then Inl (ValueError ''Drafting source text exceeds bounds.'')
      else Inr r)"

record governed_draft =
  gd_subject :: string
  gd_body :: string
  gd_evidence_ids :: "string list"
  gd_provider :: string
  gd_model :: string
  gd_contract_version :: string

definition governed_draft_post_init :: "governed_draft \<Rightarrow> (py_error, governed_draft) result" where
  "governed_draft_post_init d =
     (if blank (gd_subject d) \<or> 300 < length (gd_subject d) \<or> blank (gd_body d) \<or> 8000 < length (gd_body d)
      then Inl (ValueError ''Draft proposal exceeds bounds.'')
      else if 16 < length (gd_evidence_ids d) then Inl (ValueError ''Draft proposal evidence exceeds bounds.'')
      else Inr d)"

record drafting_outcome =
  do_proposal :: governed_draft
  do_provider_status :: provider_status
  do_assisted :: bool

definition or_text :: "string option \<Rightarrow> string \<Rightarrow> string" where
  \<comment> \<open>\<open>x or default\<close>\<close>
  "or_text x d = (case x of None \<Rightarrow> d | Some s \<Rightarrow> if s = [] then d else s)"

definition fallback_subject :: "governed_drafting_request \<Rightarrow> string" where
  "fallback_subject r = or_text (gdr_current_subject r) (''Update regarding '' @ gdr_subject_display_name r)"

definition fallback_body :: "governed_drafting_request \<Rightarrow> string" where
  "fallback_body r = or_text (gdr_current_body r)
     (''Draft manually from the governed context for '' @ gdr_subject_display_name r @ ''. '' @
      ''Confirm every statement and citation before saving or sending.'')"

definition deterministic_draft_fallback :: "governed_drafting_request \<Rightarrow> (py_error, governed_draft) result" where
  "deterministic_draft_fallback r = governed_draft_post_init
     \<lparr>gd_subject = fallback_subject r, gd_body = fallback_body r,
      gd_evidence_ids = gdr_evidence_ids r, gd_provider = ''deterministic'', gd_model = [],
      gd_contract_version = gdr_contract_version r\<rparr>"

text \<open>A configured provider's reply: a draft, another object, or one of the exceptions that are caught.\<close>

datatype drafting_reply = Reply_draft governed_draft | Reply_other | Reply_language_error provider_status | Reply_runtime_error

datatype drafting_provider =
    Not_configured
  | No_drafting                       \<comment> \<open>configured, without a callable \<open>draft_governed_content\<close>\<close>
  | Drafts "governed_drafting_request \<Rightarrow> drafting_reply"

definition fall_back :: "governed_drafting_request \<Rightarrow> provider_status \<Rightarrow> (py_error, drafting_outcome) result" where
  "fall_back r status = bind_r (deterministic_draft_fallback r) (\<lambda>d.
     Inr \<lparr>do_proposal = d, do_provider_status = status, do_assisted = False\<rparr>)"

definition draft_governed_content ::
  "governed_drafting_request \<Rightarrow> drafting_provider \<Rightarrow> (py_error, drafting_outcome) result" where
  "draft_governed_content r provider =
     (case provider of
        Not_configured \<Rightarrow> fall_back r PV_NOT_CONFIGURED
      | No_drafting \<Rightarrow> fall_back r PV_UNAVAILABLE
      | Drafts draft \<Rightarrow>
          (case draft r of
             Reply_draft d \<Rightarrow>
               (if set (gd_evidence_ids d) \<subseteq> set (gdr_evidence_ids r) \<union> set (gdr_public_evidence_ids r)
                then Inr \<lparr>do_proposal = d, do_provider_status = PV_AVAILABLE, do_assisted = True\<rparr>
                else fall_back r PV_UNAVAILABLE)
           | Reply_other \<Rightarrow> fall_back r PV_UNAVAILABLE
           | Reply_language_error status \<Rightarrow> fall_back r status
           | Reply_runtime_error \<Rightarrow> fall_back r PV_UNAVAILABLE))"

section \<open>Properties\<close>

lemma blank_append [simp]: "blank (a @ b) \<longleftrightarrow> blank a \<and> blank b"
  by (auto simp: blank_iff)

lemma fallback_subject_bounds:
  "(\<not> blank (fallback_subject r) \<and> length (fallback_subject r) \<le> 300) \<longleftrightarrow>
     (case gdr_current_subject r of
        Some s \<Rightarrow> if s = [] then length (gdr_subject_display_name r) \<le> 283 else \<not> blank s \<and> length s \<le> 300
      | None \<Rightarrow> length (gdr_subject_display_name r) \<le> 283)"
proof -
  have "\<not> blank (''Update regarding '' @ t)" for t by (simp add: blank_iff is_space_def)
  then show ?thesis by (cases "gdr_current_subject r") (auto simp: fallback_subject_def or_text_def simp del: blank_append)
qed

lemma fallback_body_bounds:
  assumes "length (gdr_subject_display_name r) \<le> 300" "\<not> text_over 6000 (gdr_current_body r)"
  shows "length (fallback_body r) \<le> 8000"
    and "\<not> blank (fallback_body r) \<longleftrightarrow> (case gdr_current_body r of Some s \<Rightarrow> s = [] \<or> \<not> blank s | None \<Rightarrow> True)"
proof -
  have nb: "\<not> blank (''Draft manually from the governed context for '' @ t)" for t by (simp add: blank_iff is_space_def)
  show "length (fallback_body r) \<le> 8000"
    using assms by (cases "gdr_current_body r") (simp_all add: fallback_body_def or_text_def text_over_def)
  show "\<not> blank (fallback_body r) \<longleftrightarrow> (case gdr_current_body r of Some s \<Rightarrow> s = [] \<or> \<not> blank s | None \<Rightarrow> True)"
    unfolding fallback_body_def or_text_def using nb by (cases "gdr_current_body r") (auto simp del: blank_append append.simps)
qed

definition fallback_fits :: "governed_drafting_request \<Rightarrow> bool" where
  "fallback_fits r \<longleftrightarrow>
     (case gdr_current_subject r of
        Some s \<Rightarrow> if s = [] then length (gdr_subject_display_name r) \<le> 283 else \<not> blank s \<and> length s \<le> 300
      | None \<Rightarrow> length (gdr_subject_display_name r) \<le> 283)
   \<and> (case gdr_current_body r of Some s \<Rightarrow> s = [] \<or> \<not> blank s | None \<Rightarrow> True)"

lemma fallback_result:
  assumes "governed_drafting_request_post_init r = Inr r"
  shows "(\<exists>d. deterministic_draft_fallback r = Inr d) \<longleftrightarrow> fallback_fits r"
    and "deterministic_draft_fallback r = Inr d \<Longrightarrow> gd_evidence_ids d = gdr_evidence_ids r"
proof -
  have b: "length (gdr_subject_display_name r) \<le> 300" "length (gdr_evidence_ids r) \<le> 16"
    "\<not> text_over 6000 (gdr_current_body r)"
    using assms by (auto simp: governed_drafting_request_post_init_def split: if_splits)
  show "(\<exists>d. deterministic_draft_fallback r = Inr d) \<longleftrightarrow> fallback_fits r"
  proof -
    have "fallback_fits r \<longleftrightarrow> (\<not> blank (fallback_subject r) \<and> length (fallback_subject r) \<le> 300) \<and> \<not> blank (fallback_body r)"
      by (simp only: fallback_fits_def fallback_subject_bounds fallback_body_bounds(2)[OF b(1,3)])
    then show ?thesis using b(2) fallback_body_bounds(1)[OF b(1,3)]
      by (simp add: deterministic_draft_fallback_def governed_draft_post_init_def)
  qed
  show "deterministic_draft_fallback r = Inr d \<Longrightarrow> gd_evidence_ids d = gdr_evidence_ids r"
    by (auto simp: deterministic_draft_fallback_def governed_draft_post_init_def split: if_splits)
qed

text \<open>
  C39. The outcome of drafting cites only what the request allows, whatever the provider replies: an assisted
  proposal cites supplied evidence or supplied public findings, an unassisted one exactly the request's evidence. And
  on a well-formed request the fallback, meant for the case that nothing else works, is itself an error exactly
  when its subject does not fit the 300 characters of a draft (a display name above 283, or a current subject above 300 or
  blank) or the current body is blank.
\<close>

theorem drafting_is_governed:
  assumes "governed_drafting_request_post_init r = Inr r"
  shows "(\<forall>out. draft_governed_content r provider = Inr out \<longrightarrow>
        (if do_assisted out then do_provider_status out = PV_AVAILABLE
            \<and> set (gd_evidence_ids (do_proposal out)) \<subseteq> set (gdr_evidence_ids r) \<union> set (gdr_public_evidence_ids r)
         else gd_evidence_ids (do_proposal out) = gdr_evidence_ids r))
    \<and> ((\<exists>out. draft_governed_content r Not_configured = Inr out) \<longleftrightarrow> fallback_fits r)"
proof -
  have f: "fall_back r st = Inr out \<Longrightarrow> \<not> do_assisted out \<and> gd_evidence_ids (do_proposal out) = gdr_evidence_ids r" for st out
    using fallback_result(2)[OF assms] by (auto simp: fall_back_def res_simps)
  have "(\<exists>out. draft_governed_content r Not_configured = Inr out) \<longleftrightarrow> fallback_fits r"
    using fallback_result(1)[OF assms] by (auto simp: draft_governed_content_def fall_back_def res_simps)
  moreover have "if do_assisted out then do_provider_status out = PV_AVAILABLE
            \<and> set (gd_evidence_ids (do_proposal out)) \<subseteq> set (gdr_evidence_ids r) \<union> set (gdr_public_evidence_ids r)
         else gd_evidence_ids (do_proposal out) = gdr_evidence_ids r"
    if "draft_governed_content r provider = Inr out" for out
    using that f[of _ out] unfolding draft_governed_content_def
    by (auto split: drafting_provider.splits drafting_reply.splits if_splits)
  ultimately show ?thesis by blast
qed

definition demo_request :: "string \<Rightarrow> governed_drafting_request" where
  "demo_request name = \<lparr>gdr_subject_display_name = name, gdr_instruction = ''short'', gdr_draft_kind = ''EMAIL'',
     gdr_governed_facts = [], gdr_evidence_ids = [''e1''], gdr_current_subject = None, gdr_current_body = None,
     gdr_public_evidence_ids = [], gdr_contract_version = ''governed-drafting-v1''\<rparr>"

theorem drafting_is_governed_witness:
  "\<not> (\<exists>out. draft_governed_content (demo_request (replicate 290 CHR ''A'')) Not_configured = Inr out)
   \<and> (\<exists>out. draft_governed_content (demo_request ''Acme'') Not_configured = Inr out)"
proof -
  have ok: "governed_drafting_request_post_init (demo_request n) = Inr (demo_request n)"
    if "n = replicate 290 CHR ''A'' \<or> n = ''Acme''" for n
    using that by (auto simp: governed_drafting_request_post_init_def demo_request_def blank_iff is_space_def text_over_def)
  show ?thesis
    using drafting_is_governed[OF ok[of "replicate 290 CHR ''A''"], of Not_configured]
      drafting_is_governed[OF ok[of "''Acme''"], of Not_configured]
    by (simp add: fallback_fits_def demo_request_def)
qed

end
