(* ===== verification/Reference_Records.thy ===== *)
theory Reference_Records
  imports Domain
begin

text \<open>
  The reference records of \<^verbatim>\<open>btx_omni/domain\<close> without behaviour of their own: the company's
  facilities and units, programs and component classes, capabilities, opportunities and governed relationship
  edges. A float is its exact value.
\<close>

section \<open>BTX reference data (domain/btx.py)\<close>

record facility_certification =
  fct_name :: string
  fct_scope :: string
  fct_certifying_body :: "string option"
  fct_certificate_id :: "string option"
  fct_issued_on :: "date option"
  fct_expires_on :: "date option"
  fct_renewal_lead_days :: "int option"
  fct_data_mode :: "data_mode option"
  fct_synthetic :: "bool option"
  fct_source :: "string option"

record certified_process =
  cpr_process :: string
  cpr_certification_required :: "string option"
  cpr_tolerance_capability :: "string option"
  cpr_materials_supported :: "string list"
  cpr_max_part_envelope :: "string option"
  cpr_data_mode :: "data_mode option"
  cpr_synthetic :: "bool option"
  cpr_source :: "string option"

record work_center_capacity =
  wcc_work_center_id :: string
  wcc_process :: string
  wcc_machine_count :: int
  wcc_shifts_per_day :: int
  wcc_hours_per_shift :: int
  wcc_operational_days_per_week :: int
  wcc_nominal_hours_per_week :: int
  wcc_committed_hours_next_90d :: int
  wcc_available_hours_next_90d :: int
  wcc_utilisation_pct :: rat
  wcc_data_mode :: "data_mode option"
  wcc_synthetic :: "bool option"
  wcc_source :: "string option"

record facility_capacity =
  fcp_as_of :: date
  fcp_work_centers :: "work_center_capacity list"

record btx_facility =
  bfa_id :: string
  bfa_business_unit_id :: "string option"
  bfa_name :: string
  bfa_city :: "string option"
  bfa_region :: "string option"
  bfa_country :: "string option"
  bfa_latitude :: "decimal option"
  bfa_longitude :: "decimal option"
  bfa_verification_state :: string
  bfa_source_url :: "string option"
  bfa_source_type :: "string option"
  bfa_provenance :: provenance
  bfa_source_ids :: "string list"
  bfa_certifications :: "facility_certification list"
  bfa_certified_processes :: "certified_process list"
  bfa_capacity :: "facility_capacity option"
  bfa_data_mode :: "data_mode option"
  bfa_synthetic :: "bool option"
  bfa_source :: "string option"

datatype capacity_signal = CS_text string | CS_flag bool

record btx_business_unit =
  bbu_id :: string
  bbu_name :: string
  bbu_website :: "string option"
  bbu_processes :: "string list"
  bbu_certifications :: "string list"
  bbu_provenance :: provenance
  bbu_capacity_signals :: "(string \<times> capacity_signal) list"
  bbu_legal_name :: "string option"
  bbu_employees :: "int option"
  bbu_footprint_sqft :: "int option"
  bbu_founded :: "int option"
  bbu_industries_served :: "string list"
  bbu_known_products :: "string list"
  bbu_data_mode :: "data_mode option"
  bbu_synthetic :: "bool option"
  bbu_source :: "string option"

section \<open>Business units, programs, capabilities, opportunities, relationships\<close>

record business_unit =
  bun_id :: string
  bun_name :: string
  bun_active :: bool

record program =
  prg_id :: string
  prg_account_id :: "string option"
  prg_name :: string
  prg_system :: "string option"
  prg_evidence_state :: evidence_class
  prg_provenance :: provenance
  prg_expected_production_horizon_years :: "int option"
  prg_commitment_strength :: "string option"
  prg_maturity_evidence :: "string option"

record component_class =
  ccl_id :: string
  ccl_program_id :: "string option"
  ccl_name :: string
  ccl_evidence_state :: evidence_class
  ccl_provenance :: provenance
  ccl_industry :: "string option"
  ccl_business_unit_ids :: "string list"
  ccl_typical_materials :: "string list"
  ccl_typical_processes :: "string list"
  ccl_typical_tolerance :: "string option"
  ccl_typical_size_bracket :: "string option"

record capability_process_family =
  cpf_process :: string
  cpf_envelope_directional :: "string option"
  cpf_materials_supported :: "string list"
  cpf_tolerance_capability :: "string option"
  cpf_certifications_applicable :: "string list"
  cpf_specialty_note :: "string option"

record capability =
  cap_id :: string
  cap_name :: string
  cap_business_units :: "string list"
  cap_description :: "string option"
  cap_processes :: "string list"
  cap_certifications :: "string list"
  cap_provenance :: "provenance option"
  cap_volume_profile :: "string list"
  cap_process_families :: "capability_process_family list"
  cap_industries_served :: "string list"
  cap_materials_specialty :: "string option"
  cap_unique_capabilities :: "string list"
  cap_geography_advantage :: "string option"

datatype opportunity_state = QUALIFY | ACTIVE | CLOSED

record opportunity =
  opp_id :: string
  opp_account_id :: string
  opp_state :: opportunity_state
  opp_title :: string
  opp_estimated_value_minor :: "int option"
  opp_currency :: string
  opp_evidence_ids :: "string list"

record account_relationship_edge =
  are_id :: string
  are_from_account_id :: string
  are_to_account_id :: string
  are_edge_type :: string
  are_direction :: string
  are_strength :: string
  are_evidence_state :: evidence_class
  are_source_ids :: "string list"
  are_narrative :: "string option"
  are_program_id :: "string option"
  are_provenance :: provenance

end
