(* ===== verification/CustomerHealth.thy ===== *)
theory CustomerHealth
  imports Families
begin

text \<open>
  The inputs of two families read from a commercial account: \<^verbatim>\<open>modules/scoring/customer_health.py\<close>
  and \<^verbatim>\<open>modules/scoring/internal_risk.py\<close>. The rows are the keys the two readers use;
  a key read with \<^verbatim>\<open>.get\<close> or tested with \<^verbatim>\<open>in\<close> is optional. ISO dates are
  dates and an ISO month is its year and month, which order as the text does. \<open>show\<close> is
  \<^verbatim>\<open>str\<close> of a Decimal; reading that text back gives the Decimal. One
  reason's typographic apostrophe is written in ASCII.
\<close>

section \<open>The account as the readers see it\<close>

type_synonym month = "int \<times> int"

record health_month =
  hm_period :: month
  hm_snapshot_id :: string
  hm_bookings_minor :: int
  hm_revenue_minor :: int

record relationship_profile =
  rl_record_id :: "string option"
  rl_provenance :: bool  \<comment> \<open>truth of \<open>provenance\<close>\<close>
  rl_contact_review_complete :: "bool option"
  rl_expected_touch_days :: "int option"
  rl_interaction_review_complete :: "bool option"
  rl_relationship_started_on :: "date option"
  rl_terminated :: "bool option"
  rl_risk_history_review_complete :: "bool option"
  rl_quote_review_complete :: "bool option"
  rl_service_review_complete :: "bool option"
  rl_payment_review_complete :: "bool option"
  rl_current_demand_evidence_ids :: "string list"

record interaction =
  in_id :: string
  in_date :: "date option"
  in_two_way :: "bool option"
  in_participant_role_ids :: "string list"
  in_meaningful_touch :: "bool option"

record role_target =
  rt_id :: string
  rt_verified_function :: "string option"
  rt_contact_verified :: "bool option"

record health_order =
  ho_id :: string
  ho_status :: "string option"
  ho_ordered_date :: date

record service_event =
  sv_id :: string
  sv_opened_date :: date
  sv_status :: "string option"
  sv_material :: "bool option"
  sv_critical :: "bool option"
  sv_repeated_within_90_days :: "bool option"
  sv_repeated :: "bool option"

record health_quote =
  hqt_id :: string
  hqt_status :: "string option"
  hqt_current_revision_id :: "string option"
  hqt_decision_due_date :: "date option"
  hqt_decision_date :: "date option"

record health_agreement =
  hag_id :: string
  hag_effective_date :: "date option"
  hag_end_date :: "date option"

record bu_exposure =
  be_record_id :: "string option"
  be_provenance :: bool
  be_account_revenue_minor :: "int option"
  be_bu_revenue_minor :: "int option"
  be_business_unit_id :: "string option"
  be_period_start :: "date option"
  be_period_end :: "date option"

record health_invoice =
  hin_id :: string
  hin_amount_minor :: int
  hin_invoice_date :: date
  hin_due_date :: "date option"

record health_account =
  ha_as_of :: date
  ha_snapshot_observed_as_of :: "moment option option"  \<comment> \<open>absent, or present with its value\<close>
  ha_months :: "health_month list"
  ha_profile :: relationship_profile
  ha_interactions :: "interaction list"
  ha_role_targets :: "role_target list"
  ha_order_lines :: "(string \<times> int) list"  \<comment> \<open>order line id and unit price\<close>
  ha_orders :: "health_order list"
  ha_service_events :: "service_event list"
  ha_quotes :: "health_quote list"
  ha_quote_revisions :: "(string \<times> int) list"  \<comment> \<open>revision id and total\<close>
  ha_agreements :: "health_agreement list"
  ha_exposure :: bu_exposure
  ha_invoices :: "health_invoice list"
  ha_payments :: "(date \<times> string \<times> int) list"  \<comment> \<open>paid date, invoice id, amount\<close>

text \<open>\<open>{key: value for ... in rows}\<close>: the last row of a key wins.\<close>

definition table_of :: "(string \<times> 'v) list \<Rightarrow> (string, 'v) dict" where
  "table_of rows = foldl (\<lambda>d (k, v). dset k v d) [] rows"

definition health_cutoff :: "health_account \<Rightarrow> date" where
  "health_cutoff a = fromordinal (toordinal (ha_as_of a) - 365)"

definition profile_ids :: "health_account \<Rightarrow> string list" where
  "profile_ids a = (if truthy (rl_record_id (ha_profile a)) \<and> rl_provenance (ha_profile a)
     then [the (rl_record_id (ha_profile a))] else [])"

definition observed_as_of :: "health_account \<Rightarrow> moment option" where
  "observed_as_of a = default_to (ha_snapshot_observed_as_of a) (Some (W_date (ha_as_of a)))"

section \<open>Health\<close>

definition health_window :: "string \<Rightarrow> int" where
  "health_window key =
     (if key \<in> {''commercial_trajectory'', ''backlog_coverage'', ''attached_risk_history''} then 2
      else if key \<in> {''relationship_coverage'', ''engagement_cadence''} then 30 else 180)"

definition put_factor ::
  "date \<Rightarrow> health_account \<Rightarrow> int \<Rightarrow> string \<Rightarrow> int option \<Rightarrow> string list \<Rightarrow> string \<Rightarrow> raw_value option
    \<Rightarrow> (py_error, string \<times> factor_input) result" where
  "put_factor demo a window key points evidence reason raw =
     bind_r (factor_input_post_init ((factor_input_default (map_option of_int points) (sorted_set evidence) reason)
        \<lparr>fi_raw_value := raw, fi_period := Some (iso_date (ha_as_of a)),
         fi_evidence_state := evidence_state demo (observed_as_of a) (Some (W_date (ha_as_of a))) window\<rparr>)) (\<lambda>i.
     Inr (key, i))"

definition account_months :: "health_account \<Rightarrow> health_month list" where
  "account_months a = sort_key hm_period
     (filter (\<lambda>m. hm_period m \<le> (d_year (ha_as_of a), d_month (ha_as_of a))) (ha_months a))"

definition last_rows :: "nat \<Rightarrow> 'a list \<Rightarrow> 'a list" where
  \<comment> \<open>\<open>rows[-n:]\<close>\<close>
  "last_rows n xs = drop (length xs - n) xs"

definition month_number :: "health_month \<Rightarrow> int" where
  "month_number m = fst (hm_period m) * 12 + snd (hm_period m)"

definition contiguous :: "health_month list \<Rightarrow> nat \<Rightarrow> bool" where
  "contiguous rows n =
     (length rows = n \<and> (rows \<noteq> [] \<longrightarrow> map month_number rows = map (\<lambda>k. month_number (hd rows) + int k) [0..<n]))"

definition booking_change :: "health_account \<Rightarrow> decimal option" where
  "booking_change a =
     (let months = account_months a;
          recent = (\<Sum>m\<leftarrow>last_rows 3 months. hm_bookings_minor m);
          before = (\<Sum>m\<leftarrow>take (length (last_rows 6 months) - 3) (last_rows 6 months). hm_bookings_minor m)
      in if contiguous (last_rows 6 months) 6 \<and> 0 < before
         then Some (ddiv (of_int (recent - before)) (of_int before)) else None)"

definition trajectory_points :: "decimal option \<Rightarrow> int option" where
  "trajectory_points change = map_option (\<lambda>c. if 1/10 \<le> c then 100 else if 0 \<le> c then 75 else if - (1/10) < c then 50
     else if - (1/4) \<le> c then 25 else 0) change"

definition recent_interactions :: "health_account \<Rightarrow> interaction list" where
  "recent_interactions a = filter (\<lambda>r. case in_date r of None \<Rightarrow> False
     | Some d \<Rightarrow> health_cutoff a \<le> d \<and> d \<le> ha_as_of a) (ha_interactions a)"

definition role_table :: "health_account \<Rightarrow> (string, string) dict" where
  "role_table a = table_of (map (\<lambda>r. (rt_id r, the (rt_verified_function r)))
     (filter (\<lambda>r. truthy (rt_verified_function r) \<and> rt_contact_verified r = Some True) (ha_role_targets a)))"

definition active_interactions :: "health_account \<Rightarrow> interaction list" where
  "active_interactions a = filter (\<lambda>r. in_two_way r = Some True
     \<and> days_between (ha_as_of a) (the (in_date r)) \<le> 90) (recent_interactions a)"

definition engaged_functions :: "health_account \<Rightarrow> string list" where
  "engaged_functions a = remdups (List.map_filter (dget (role_table a))
     (concat (map in_participant_role_ids (active_interactions a))))"

definition coverage_complete :: "health_account \<Rightarrow> bool" where
  "coverage_complete a = (profile_ids a \<noteq> [] \<and> rl_contact_review_complete (ha_profile a) = Some True)"

definition coverage_points :: "health_account \<Rightarrow> int option" where
  "coverage_points a =
     (if coverage_complete a
      then Some (let n = length (engaged_functions a)
                 in if 3 \<le> n then 100 else if n = 2 then 75 else if 0 < n then 50 else if role_table a \<noteq> [] then 25 else 0)
      else None)"

fun latest_touch :: "interaction option \<Rightarrow> interaction list \<Rightarrow> interaction option" where
  \<comment> \<open>\<open>max(..., key=date, default=None)\<close>: the first of the latest\<close>
  "latest_touch best [] = best"
| "latest_touch best (r # rs) =
     latest_touch (case best of None \<Rightarrow> Some r
       | Some b \<Rightarrow> if the (in_date b) < the (in_date r) then Some r else Some b) rs"

definition last_touch :: "health_account \<Rightarrow> interaction option" where
  "last_touch a = latest_touch None (filter (\<lambda>r. in_meaningful_touch r = Some True) (recent_interactions a))"

definition touch_reviewed :: "health_account \<Rightarrow> bool" where
  "touch_reviewed a = (profile_ids a \<noteq> [] \<and> rl_interaction_review_complete (ha_profile a) = Some True)"

definition touch_ratio :: "health_account \<Rightarrow> decimal option" where
  "touch_ratio a =
     (case (last_touch a, rl_expected_touch_days (ha_profile a)) of
        (Some r, Some cadence) \<Rightarrow>
          (if 0 < cadence \<and> touch_reviewed a
           then Some (ddiv (of_int (days_between (ha_as_of a) (the (in_date r)))) (of_int cadence)) else None)
      | _ \<Rightarrow> None)"

definition cadence_points :: "health_account \<Rightarrow> int option" where
  "cadence_points a =
     (case touch_ratio a of
        Some q \<Rightarrow> Some (if q \<le> 1 then 100 else if q \<le> 3/2 then 75 else if q \<le> 2 then 50 else if q \<le> 3 then 25 else 0)
      | None \<Rightarrow> if touch_reviewed a \<and> last_touch a = None then Some 0 else None)"

text \<open>The open lines of the fulfilment projection: order line id and remaining quantity.\<close>

type_synonym open_lines = "(string \<times> int) list"

fun backlog_value :: "(string, int) dict \<Rightarrow> open_lines \<Rightarrow> (py_error, int) result" where
  "backlog_value prices [] = Inr 0"
| "backlog_value prices ((lid, remaining) # rest) =
     (case dget prices lid of
        None \<Rightarrow> Inl (KeyError lid)
      | Some price \<Rightarrow> bind_r (backlog_value prices rest) (\<lambda>total. Inr (remaining * price + total)))"

definition backlog_months :: "health_account \<Rightarrow> int \<Rightarrow> decimal option" where
  "backlog_months a backlog =
     (let rows = last_rows 12 (account_months a); revenue = (\<Sum>m\<leftarrow>rows. hm_revenue_minor m)
      in if contiguous rows 12 \<and> 0 < revenue then Some (ddiv (of_int (backlog * 12)) (of_int revenue)) else None)"

definition backlog_points :: "decimal option \<Rightarrow> int option" where
  "backlog_points coverage = map_option (\<lambda>c. if 6 \<le> c then 100 else if 3 \<le> c then 75 else if 1 \<le> c then 50
     else if 0 < c then 25 else 0) coverage"

definition fulfilled_orders :: "health_account \<Rightarrow> health_order list" where
  "fulfilled_orders a = filter (\<lambda>r. ho_status r = Some ''FULFILLED'' \<and> health_cutoff a \<le> ho_ordered_date r
     \<and> ho_ordered_date r \<le> ha_as_of a) (ha_orders a)"

definition relationship_years :: "health_account \<Rightarrow> int option" where
  "relationship_years a =
     (if profile_ids a = [] then None
      else map_option (\<lambda>s. let t = ha_as_of a in d_year t - d_year s -
             (if (d_month t, d_day t) < (d_month s, d_day s) then 1 else 0)) (rl_relationship_started_on (ha_profile a)))"

definition history_points :: "health_account \<Rightarrow> int option" where
  "history_points a =
     (case relationship_years a of
        None \<Rightarrow> None
      | Some years \<Rightarrow>
          (let n = length (fulfilled_orders a)
           in if years < 0 then None
              else if rl_terminated (ha_profile a) = Some True then Some 0
              else if 5 \<le> years \<and> 2 \<le> n then Some 100
              else if 2 \<le> years \<and> 2 \<le> n then Some 75
              else if 1 \<le> years \<and> 0 < n then Some 50 else Some 25))"

definition material_cases :: "health_account \<Rightarrow> service_event list" where
  "material_cases a = filter (\<lambda>r. health_cutoff a \<le> sv_opened_date r \<and> sv_opened_date r \<le> ha_as_of a
     \<and> sv_material r = Some True) (ha_service_events a)"

definition case_open :: "service_event \<Rightarrow> bool" where
  "case_open r = (sv_status r \<notin> {Some ''RESOLVED'', Some ''CLOSED''})"

definition attached_risk_points :: "health_account \<Rightarrow> int option" where
  "attached_risk_points a =
     (let cases = material_cases a; unresolved = filter case_open cases;
          reviewed = profile_ids a \<noteq> [] \<and> rl_risk_history_review_complete (ha_profile a) = Some True
            \<and> list_all (\<lambda>r. sv_material r \<noteq> None) (ha_service_events a)
      in if reviewed \<and> list_all (\<lambda>r. sv_critical r \<noteq> None) unresolved
            \<and> list_all (\<lambda>r. sv_repeated_within_90_days r \<noteq> None) cases
         then (if list_ex (\<lambda>r. sv_critical r = Some True) unresolved then Some 0
               else if 2 \<le> length unresolved then Some 25
               else if unresolved \<noteq> [] then Some 50
               else if cases = [] then Some 100
               else if \<not> list_ex (\<lambda>r. sv_repeated_within_90_days r = Some True) cases then Some 75 else None)
         else None)"

definition health_inputs ::
  "(decimal \<Rightarrow> string) \<Rightarrow> date \<Rightarrow> health_account \<Rightarrow> open_lines \<Rightarrow> (py_error, (string, factor_input) dict) result" where
  "health_inputs show demo a fulfillment =
     (let put = (\<lambda>key. put_factor demo a (health_window key) key);
          text = (\<lambda>q. Some (RV_text (show q)))
      in
     bind_r (put ''commercial_trajectory'' (trajectory_points (booking_change a))
        (map hm_snapshot_id (last_rows 6 (account_months a)))
        ''Latest three months of bookings versus the preceding three. A missing or zero comparison baseline is not assumed growth.''
        (Option.bind (booking_change a) text)) (\<lambda>trajectory.
     bind_r (put ''relationship_coverage'' (coverage_points a)
        (profile_ids a @ dkeys (role_table a) @ map in_id (active_interactions a))
        ''Distinct verified functions with two-way engagement in 90 days. Unverified role targets do not establish engagement.''
        (if coverage_complete a then Some (RV_int (int (length (engaged_functions a)))) else None)) (\<lambda>coverage.
     bind_r (put ''engagement_cadence'' (cadence_points a)
        (profile_ids a @ (case last_touch a of None \<Rightarrow> [] | Some r \<Rightarrow> [in_id r]))
        ''Meaningful touch recency compared with the documented expected cadence; generic notes are not automatically meaningful touches.''
        (Option.bind (touch_ratio a) text)) (\<lambda>cadence.
     bind_r (backlog_value (table_of (ha_order_lines a)) fulfillment) (\<lambda>backlog.
     bind_r (put ''backlog_coverage'' (backlog_points (backlog_months a backlog))
        (map hm_snapshot_id (last_rows 12 (account_months a)) @ dkeys (table_of (ha_order_lines a)))
        ''Committed remaining order value divided by average monthly revenue over twelve consecutive recorded months.''
        (Option.bind (backlog_months a backlog) text)) (\<lambda>covered.
     bind_r (put ''relationship_history'' (history_points a) (profile_ids a @ map ho_id (fulfilled_orders a))
        ''Documented relationship start and fulfilled orders; the sample file start is not assumed to be the relationship start.''
        None) (\<lambda>history.
     bind_r (put ''attached_risk_history'' (attached_risk_points a) (profile_ids a @ map sv_id (material_cases a))
        ''Material case history is independent of invoice aging. Unreviewed severity or recurrence is not assumed clear.''
        None) (\<lambda>attached.
     Inr [trajectory, coverage, cadence, covered, history, attached]))))))))"

section \<open>Internal risk\<close>

definition momentum_points :: "decimal option \<Rightarrow> int option" where
  "momentum_points change = map_option (\<lambda>c. if c < - (1/4) then 100 else if c \<le> - (1/10) then 75 else if c < 0 then 50
     else if c < 1/10 then 25 else 0) change"

definition open_quotes :: "health_account \<Rightarrow> health_quote list" where
  "open_quotes a = filter (\<lambda>q. hqt_status q = Some ''OPEN'') (ha_quotes a)"

definition quote_total :: "health_account \<Rightarrow> health_quote \<Rightarrow> int option" where
  "quote_total a q = Option.bind (hqt_current_revision_id q) (dget (table_of (ha_quote_revisions a)))"

definition quote_decision :: "health_quote \<Rightarrow> date option" where
  "quote_decision q = (case hqt_decision_due_date q of None \<Rightarrow> hqt_decision_date q | Some d \<Rightarrow> Some d)"

definition pipeline_complete :: "health_account \<Rightarrow> bool" where
  "pipeline_complete a = (profile_ids a \<noteq> [] \<and> rl_quote_review_complete (ha_profile a) = Some True
     \<and> list_all (\<lambda>q. quote_total a q \<noteq> None \<and> quote_decision q \<noteq> None) (open_quotes a))"

definition pipeline_share :: "health_account \<Rightarrow> decimal option" where
  "pipeline_share a =
     (let known = filter (\<lambda>q. quote_total a q \<noteq> None) (open_quotes a);
          total = (\<Sum>q\<leftarrow>known. the (quote_total a q));
          overdue = (\<Sum>q\<leftarrow>filter (\<lambda>q. case quote_decision q of None \<Rightarrow> False | Some d \<Rightarrow> d < ha_as_of a) known. the (quote_total a q))
      in if pipeline_complete a \<and> 0 < total then Some (ddiv (of_int overdue) (of_int total)) else None)"

definition continuity :: "health_account \<Rightarrow> string list" where
  "continuity a = map hag_id (filter (\<lambda>r. hag_id r \<in> set (rl_current_demand_evidence_ids (ha_profile a))
     \<and> (case (hag_effective_date r, hag_end_date r) of
          (Some s, Some e) \<Rightarrow> s \<le> ha_as_of a \<and> ha_as_of a \<le> e | _ \<Rightarrow> False)) (ha_agreements a))"

definition share_bins :: "decimal \<Rightarrow> decimal \<Rightarrow> decimal \<Rightarrow> decimal \<Rightarrow> decimal \<Rightarrow> int" where
  \<comment> \<open>the two share rubrics: above the first, from the second, from the third, above the fourth\<close>
  "share_bins b1 b2 b3 b4 s = (if b1 < s then 100 else if b2 \<le> s then 75 else if b3 \<le> s then 50 else if b4 < s then 25 else 0)"

definition pipeline_points :: "health_account \<Rightarrow> int option" where
  "pipeline_points a =
     (if pipeline_complete a \<and> open_quotes a = [] \<and> continuity a \<noteq> [] then Some 0
      else if pipeline_share a = Some 0 \<and> continuity a = [] then None
      else map_option (share_bins (1/2) (1/4) (1/10) 0) (pipeline_share a))"

definition risk_backlog_points :: "decimal option \<Rightarrow> int option" where
  "risk_backlog_points months = map_option (\<lambda>m. if m = 0 then 100 else if m < 1 then 75 else if m < 3 then 50
     else if m < 6 then 25 else 0) months"

definition engagement_points :: "health_account \<Rightarrow> int option" where
  "engagement_points a =
     (if coverage_complete a
      then Some (let n = length (engaged_functions a)
                 in if 3 \<le> n then 0 else if n = 2 then 25 else if n = 1 then 50
                    else if list_ex (\<lambda>r. rt_contact_verified r = Some True \<and> truthy (rt_verified_function r)) (ha_role_targets a)
                    then 75 else 100)
      else None)"

definition exposure_ids :: "health_account \<Rightarrow> string list" where
  "exposure_ids a = (let e = ha_exposure a in if truthy (be_record_id e) \<and> be_provenance e then [the (be_record_id e)] else [])"

definition exposure_share :: "health_account \<Rightarrow> decimal option" where
  "exposure_share a =
     (let e = ha_exposure a
      in case (be_account_revenue_minor e, be_bu_revenue_minor e) of
           (Some numerator, Some denominator) \<Rightarrow>
             (if exposure_ids a \<noteq> [] \<and> truthy (be_business_unit_id e) \<and> be_period_end e = Some (ha_as_of a)
                 \<and> be_period_start e \<noteq> None \<and> 0 \<le> numerator \<and> numerator \<le> denominator \<and> 0 < denominator
              then Some (ddiv (of_int numerator) (of_int denominator)) else None)
         | _ \<Rightarrow> None)"

definition open_cases :: "health_account \<Rightarrow> service_event list" where
  "open_cases a = filter (\<lambda>r. sv_opened_date r \<le> ha_as_of a \<and> case_open r) (ha_service_events a)"

definition paid_by :: "health_account \<Rightarrow> string \<Rightarrow> int" where
  "paid_by a invoice_id = (\<Sum>(d, i, amount)\<leftarrow>filter (\<lambda>(d, i, amount). d \<le> ha_as_of a \<and> i = invoice_id) (ha_payments a). amount)"

definition open_invoices :: "health_account \<Rightarrow> health_invoice list" where
  "open_invoices a = filter (\<lambda>r. hin_invoice_date r \<le> ha_as_of a \<and> paid_by a (hin_id r) < hin_amount_minor r) (ha_invoices a)"

definition friction_known :: "health_account \<Rightarrow> bool" where
  "friction_known a = (profile_ids a \<noteq> [] \<and> rl_service_review_complete (ha_profile a) = Some True
     \<and> rl_payment_review_complete (ha_profile a) = Some True
     \<and> list_all (\<lambda>r. sv_critical r \<noteq> None \<and> sv_repeated r \<noteq> None) (open_cases a)
     \<and> list_all (\<lambda>r. hin_due_date r \<noteq> None) (open_invoices a))"

definition late_days :: "health_account \<Rightarrow> int" where
  "late_days a = foldl max 0 (List.map_filter (\<lambda>r. map_option (\<lambda>d. days_between (ha_as_of a) d) (hin_due_date r)) (open_invoices a))"

definition friction_points :: "health_account \<Rightarrow> int option" where
  "friction_points a =
     (if friction_known a
      then Some (if list_ex (\<lambda>r. sv_critical r = Some True) (open_cases a) \<or> 60 \<le> late_days a then 100
                 else if 31 \<le> late_days a then 75
                 else if list_ex (\<lambda>r. sv_repeated r = Some True) (open_cases a) \<or> 16 \<le> late_days a then 50
                 else if open_cases a \<noteq> [] \<or> 0 < late_days a then 25 else 0)
      else None)"

text \<open>A health factor as the risk reader sees it: its evidence and its reason.\<close>

definition health_factor :: "(string, factor_input) dict \<Rightarrow> string \<Rightarrow> factor_input" where
  "health_factor health key = the (dget health key)"

definition risk_inputs ::
  "(decimal \<Rightarrow> string) \<Rightarrow> date \<Rightarrow> health_account \<Rightarrow> open_lines \<Rightarrow> (py_error, (string, factor_input) dict) result" where
  "risk_inputs show demo a fulfillment =
     bind_r (health_inputs show demo a fulfillment) (\<lambda>health.
     bind_r (backlog_value (table_of (ha_order_lines a)) fulfillment) (\<lambda>backlog.
     (let put = (\<lambda>key. put_factor demo a (if key = ''engagement'' then 30 else 2) key);
          text = (\<lambda>q. Some (RV_text (show q)));
          trajectory = health_factor health ''commercial_trajectory''; covered = health_factor health ''backlog_coverage'';
          coverage = health_factor health ''relationship_coverage''
      in
     bind_r (put ''commercial_momentum'' (momentum_points (booking_change a)) (fi_evidence_ids trajectory)
        (fi_reason trajectory) (fi_raw_value trajectory)) (\<lambda>momentum.
     bind_r (put ''pipeline'' (pipeline_points a) (profile_ids a @ map hqt_id (open_quotes a) @ continuity a)
        ''Past-due open quote value as a share of all open quote value. Closed-quote win rate is not this factor.''
        (Option.bind (pipeline_share a) text)) (\<lambda>pipeline.
     bind_r (put ''backlog'' (risk_backlog_points (backlog_months a backlog)) (fi_evidence_ids covered)
        (fi_reason covered) (fi_raw_value covered)) (\<lambda>backlog_factor.
     bind_r (put ''engagement'' (engagement_points a) (fi_evidence_ids coverage) (fi_reason coverage)
        (fi_raw_value coverage)) (\<lambda>engagement.
     bind_r (put ''concentration'' (map_option (share_bins (35/100) (1/5) (1/10) (1/20)) (exposure_share a)) (exposure_ids a)
        ''Account revenue as a share of the relevant BTX business unit revenue over the same documented period; not concentration within the customer's programs.''
        (Option.bind (exposure_share a) text)) (\<lambda>concentration.
     bind_r (put ''friction'' (friction_points a) (profile_ids a @ map sv_id (open_cases a) @ map hin_id (open_invoices a))
        ''Worst documented open service issue or overdue-payment age. A small overdue balance can still require attention.''
        (if friction_known a then Some (RV_int (late_days a)) else None)) (\<lambda>friction.
     Inr [momentum, pipeline, backlog_factor, engagement, concentration, friction])))))))))"

end
