(* ===== verification/HealthProps.thy ===== *)
theory HealthProps
  imports CustomerHealth FamilyProps
begin

text \<open>
  The two account readers produce exactly the factors of their families, on the rubric's grid and
  never without evidence, so the assessment of an account cannot fail on them; the three factors they
  share are complementary.
\<close>

section \<open>One factor\<close>

definition grid :: "int set" where
  "grid = {0, 25, 50, 75, 100}"

definition grid_points :: "int option \<Rightarrow> bool" where
  "grid_points p = (case p of None \<Rightarrow> True | Some v \<Rightarrow> v \<in> grid)"

definition fits :: "int option \<Rightarrow> string list \<Rightarrow> bool" where
  "fits points evidence = (grid_points points \<and> (points \<noteq> None \<longrightarrow> evidence \<noteq> []))"

named_theorems point_defs

lemmas [point_defs] = fits_def grid_points_def grid_def

definition factor_of :: "date \<Rightarrow> health_account \<Rightarrow> int \<Rightarrow> int option \<Rightarrow> string list \<Rightarrow> string \<Rightarrow> raw_value option \<Rightarrow> factor_input" where
  "factor_of demo a window points evidence reason raw =
     (factor_input_default (map_option of_int points) (sorted_set evidence) reason)
        \<lparr>fi_raw_value := raw, fi_period := Some (iso_date (ha_as_of a)),
         fi_evidence_state := evidence_state demo (observed_as_of a) (Some (W_date (ha_as_of a))) window\<rparr>"

lemma sorted_set_Nil_iff [simp]: "sorted_set xs = [] \<longleftrightarrow> xs = []"
  by (metis set_empty sorted_set_simps(1))

lemma factor_of_accepted:
  "fits points evidence \<Longrightarrow> \<not> blank reason \<Longrightarrow>
     factor_input_post_init (factor_of demo a window points evidence reason raw) = Inr (factor_of demo a window points evidence reason raw)"
  by (cases points) (auto simp: factor_of_def factor_input_post_init_def factor_input_default_def fits_def grid_points_def grid_def)

lemma put_factor_Inr:
  "fits points evidence \<Longrightarrow> \<not> blank reason \<Longrightarrow>
     put_factor demo a window key points evidence reason raw = Inr (key, factor_of demo a window points evidence reason raw)"
  using factor_of_accepted by (simp add: put_factor_def factor_of_def[symmetric])

lemma factor_of_fields [simp]:
  "fi_points (factor_of demo a window points evidence reason raw) = map_option of_int points"
  "fi_evidence_ids (factor_of demo a window points evidence reason raw) = sorted_set evidence"
  "fi_reason (factor_of demo a window points evidence reason raw) = reason"
  "fi_raw_value (factor_of demo a window points evidence reason raw) = raw"
  by (simp_all add: factor_of_def factor_input_default_def)

lemma factor_of_ok: "fits points evidence \<Longrightarrow> \<not> blank reason \<Longrightarrow> factor_input_ok (factor_of demo a window points evidence reason raw)"
  by (simp add: factor_input_ok_def factor_of_accepted)

section \<open>Every rubric stays on the grid and cites its evidence\<close>

lemma contiguous_nonempty: "contiguous rows n \<Longrightarrow> 0 < n \<Longrightarrow> rows \<noteq> []"
  by (auto simp: contiguous_def)

lemma booking_change_evidence: "booking_change a \<noteq> None \<Longrightarrow> last_rows 6 (account_months a) \<noteq> []"
  by (auto simp: booking_change_def Let_def dest: contiguous_nonempty split: if_splits)

lemma backlog_months_evidence: "backlog_months a b \<noteq> None \<Longrightarrow> last_rows 12 (account_months a) \<noteq> []"
  by (auto simp: backlog_months_def Let_def dest: contiguous_nonempty split: if_splits)

lemma trajectory_fits: "fits (trajectory_points (booking_change a)) (map hm_snapshot_id (last_rows 6 (account_months a)))"
  using booking_change_evidence[of a] by (auto simp: trajectory_points_def point_defs split: option.splits)

lemma momentum_fits: "fits (momentum_points (booking_change a)) (sorted_set (map hm_snapshot_id (last_rows 6 (account_months a))))"
  using booking_change_evidence[of a] by (auto simp: momentum_points_def point_defs split: option.splits)

lemma coverage_fits: "fits (coverage_points a) (profile_ids a @ xs)"
  by (auto simp: coverage_points_def coverage_complete_def Let_def point_defs split: option.splits if_splits)

lemma engagement_fits: "fits (engagement_points a) (sorted_set (profile_ids a @ xs))"
  by (auto simp: engagement_points_def coverage_complete_def Let_def point_defs split: option.splits if_splits)

lemma touch_ratio_reviewed: "touch_ratio a \<noteq> None \<Longrightarrow> touch_reviewed a"
  by (auto simp: touch_ratio_def split: option.splits if_splits)

lemma cadence_fits: "fits (cadence_points a) (profile_ids a @ xs)"
  using touch_ratio_reviewed[of a]
  by (auto simp: cadence_points_def touch_reviewed_def point_defs split: option.splits if_splits)

lemma backlog_fits: "fits (backlog_points (backlog_months a b)) (map hm_snapshot_id (last_rows 12 (account_months a)) @ xs)"
  using backlog_months_evidence[of a b] by (auto simp: backlog_points_def point_defs split: option.splits)

lemma risk_backlog_fits:
  "fits (risk_backlog_points (backlog_months a b)) (sorted_set (map hm_snapshot_id (last_rows 12 (account_months a)) @ xs))"
  using backlog_months_evidence[of a b] by (auto simp: risk_backlog_points_def point_defs split: option.splits)

lemma history_fits: "fits (history_points a) (profile_ids a @ xs)"
  by (auto simp: history_points_def relationship_years_def Let_def point_defs split: option.splits if_splits)

lemma attached_fits: "fits (attached_risk_points a) (profile_ids a @ xs)"
  by (auto simp: attached_risk_points_def Let_def point_defs split: option.splits if_splits)

lemma pipeline_share_complete: "pipeline_share a \<noteq> None \<Longrightarrow> pipeline_complete a"
  by (auto simp: pipeline_share_def Let_def split: if_splits)

lemma pipeline_fits: "fits (pipeline_points a) (profile_ids a @ xs)"
  using pipeline_share_complete[of a]
  by (auto simp: pipeline_points_def pipeline_complete_def share_bins_def point_defs split: option.splits if_splits)

lemma concentration_fits: "fits (map_option (share_bins p q r s) (exposure_share a)) (exposure_ids a)"
  by (auto simp: exposure_share_def share_bins_def Let_def point_defs split: option.splits if_splits)

lemma friction_fits: "fits (friction_points a) (profile_ids a @ xs)"
  by (auto simp: friction_points_def friction_known_def point_defs split: option.splits if_splits)

lemmas factor_fits = trajectory_fits momentum_fits coverage_fits engagement_fits cadence_fits backlog_fits risk_backlog_fits
  history_fits attached_fits pipeline_fits concentration_fits friction_fits

section \<open>The readers\<close>

lemma backlog_value_error:
  "backlog_value prices ls = (case first_match (\<lambda>l. dget prices (fst l) = None) ls of
     Some l \<Rightarrow> Inl (KeyError (fst l))
   | None \<Rightarrow> Inr (\<Sum>l\<leftarrow>ls. snd l * the (dget prices (fst l))))"
proof (induction ls)
  case (Cons l ls)
  show ?case
    by (cases l; cases "dget prices (fst l)"; cases "first_match (\<lambda>l. dget prices (fst l) = None) ls")
      (simp_all add: Cons.IH del: first_match_None)
qed simp

lemma sentence_not_blank: "\<not> is_space c \<Longrightarrow> \<not> blank (c # cs)"
  by (simp add: blank_iff)

lemma capital_not_space: "\<not> is_space CHR ''L''" "\<not> is_space CHR ''D''" "\<not> is_space CHR ''M''" "\<not> is_space CHR ''C''"
    "\<not> is_space CHR ''P''" "\<not> is_space CHR ''A''" "\<not> is_space CHR ''W''"
  by (simp_all add: is_space_def)

lemmas sentences = capital_not_space[THEN sentence_not_blank]

lemma health_inputs_shape:
  assumes "backlog_value (table_of (ha_order_lines a)) ls = Inr b"
  shows "\<exists>r1 r2 r3 r4 r5 r6 w1 w2 w3 w4. 
    health_inputs show demo a ls = Inr
     [(''commercial_trajectory'', factor_of demo a 2 (trajectory_points (booking_change a)) (map hm_snapshot_id (last_rows 6 (account_months a))) r1 w1),
      (''relationship_coverage'', factor_of demo a 30 (coverage_points a) (profile_ids a @ dkeys (role_table a) @ map in_id (active_interactions a)) r2 w2),
      (''engagement_cadence'', factor_of demo a 30 (cadence_points a) (profile_ids a @ (case last_touch a of None \<Rightarrow> [] | Some r \<Rightarrow> [in_id r])) r3 w3),
      (''backlog_coverage'', factor_of demo a 2 (backlog_points (backlog_months a b)) (map hm_snapshot_id (last_rows 12 (account_months a)) @ dkeys (table_of (ha_order_lines a))) r4 w4),
      (''relationship_history'', factor_of demo a 180 (history_points a) (profile_ids a @ map ho_id (fulfilled_orders a)) r5 None),
      (''attached_risk_history'', factor_of demo a 2 (attached_risk_points a) (profile_ids a @ map sv_id (material_cases a)) r6 None)]
    \<and> list_all (\<lambda>r. \<not> blank r) [r1, r2, r3, r4, r5, r6]"
  unfolding health_inputs_def Let_def assms
  by (simp add: put_factor_Inr factor_fits sentences health_window_def split del: if_split) ((rule exI conjI refl)+, simp_all add: sentences)

lemma risk_inputs_shape:
  assumes "backlog_value (table_of (ha_order_lines a)) ls = Inr b"
  shows "\<exists>r1 r2 r3 r4 r5 r6 w1 w2 w3 w4 w5 w6.
    risk_inputs show demo a ls = Inr
     [(''commercial_momentum'', factor_of demo a 2 (momentum_points (booking_change a)) (sorted_set (map hm_snapshot_id (last_rows 6 (account_months a)))) r1 w1),
      (''pipeline'', factor_of demo a 2 (pipeline_points a) (profile_ids a @ map hqt_id (open_quotes a) @ continuity a) r2 w2),
      (''backlog'', factor_of demo a 2 (risk_backlog_points (backlog_months a b)) (sorted_set (map hm_snapshot_id (last_rows 12 (account_months a)) @ dkeys (table_of (ha_order_lines a)))) r3 w3),
      (''engagement'', factor_of demo a 30 (engagement_points a) (sorted_set (profile_ids a @ dkeys (role_table a) @ map in_id (active_interactions a))) r4 w4),
      (''concentration'', factor_of demo a 2 (map_option (share_bins (35/100) (1/5) (1/10) (1/20)) (exposure_share a)) (exposure_ids a) r5 w5),
      (''friction'', factor_of demo a 2 (friction_points a) (profile_ids a @ map sv_id (open_cases a) @ map hin_id (open_invoices a)) r6 w6)]
    \<and> list_all (\<lambda>r. \<not> blank r) [r1, r2, r3, r4, r5, r6]"
proof -
  obtain h1 h2 h3 h4 h5 h6 x1 x2 x3 x4 where h: "health_inputs show demo a ls = Inr
     [(''commercial_trajectory'', factor_of demo a 2 (trajectory_points (booking_change a)) (map hm_snapshot_id (last_rows 6 (account_months a))) h1 x1),
      (''relationship_coverage'', factor_of demo a 30 (coverage_points a) (profile_ids a @ dkeys (role_table a) @ map in_id (active_interactions a)) h2 x2),
      (''engagement_cadence'', factor_of demo a 30 (cadence_points a) (profile_ids a @ (case last_touch a of None \<Rightarrow> [] | Some r \<Rightarrow> [in_id r])) h3 x3),
      (''backlog_coverage'', factor_of demo a 2 (backlog_points (backlog_months a b)) (map hm_snapshot_id (last_rows 12 (account_months a)) @ dkeys (table_of (ha_order_lines a))) h4 x4),
      (''relationship_history'', factor_of demo a 180 (history_points a) (profile_ids a @ map ho_id (fulfilled_orders a)) h5 None),
      (''attached_risk_history'', factor_of demo a 2 (attached_risk_points a) (profile_ids a @ map sv_id (material_cases a)) h6 None)]"
    and n: "\<not> blank h1" "\<not> blank h2" "\<not> blank h4"
    using health_inputs_shape[OF assms, of "show" demo] by auto
  show ?thesis
    unfolding risk_inputs_def h Let_def assms bind_r.simps health_factor_def
    by (simp add: put_factor_Inr factor_fits sentences n split del: if_split) ((rule exI conjI refl)+, simp_all add: sentences n)
qed

section \<open>Shared factors\<close>

lemma foldl_dset_empty: "foldl (\<lambda>d (k, v). dset k v d) d rows = [] \<longleftrightarrow> d = [] \<and> rows = []"
proof (induction rows arbitrary: d)
  case (Cons r rows)
  have "dset k v d \<noteq> []" for k and v :: 'b and d by (cases d) auto
  then show ?case using Cons.IH by (cases r) simp
qed simp

lemma role_table_empty_iff:
  "role_table a = [] \<longleftrightarrow> \<not> list_ex (\<lambda>r. rt_contact_verified r = Some True \<and> truthy (rt_verified_function r)) (ha_role_targets a)"
  by (auto simp: role_table_def table_of_def foldl_dset_empty filter_empty_conv list_ex_iff)

definition complementary :: "int option \<Rightarrow> int option \<Rightarrow> bool" where
  "complementary p q = (map_option (\<lambda>x. 100 - x) p = q)"

lemma trajectory_complement: "complementary (trajectory_points c) (momentum_points c)"
  by (cases c) (auto simp: complementary_def trajectory_points_def momentum_points_def)

lemma coverage_complement: "complementary (coverage_points a) (engagement_points a)"
proof -
  have "length xs = 0 \<or> length xs = 1 \<or> length xs = 2 \<or> 3 \<le> length xs" for xs :: "string list" by linarith
  from this[of "engaged_functions a"] show ?thesis
    by (auto simp: complementary_def coverage_points_def engagement_points_def Let_def role_table_empty_iff)
qed

lemma backlog_months_nonneg: "backlog_months a b = Some m \<Longrightarrow> 0 \<le> b \<Longrightarrow> 0 \<le> m"
  using dec28_mono[of 0] by (auto simp: backlog_months_def Let_def ddiv_def split: if_splits)

lemma backlog_complement:
  "0 \<le> b \<Longrightarrow> complementary (backlog_points (backlog_months a b)) (risk_backlog_points (backlog_months a b))"
  using backlog_months_nonneg[of a b]
  by (cases "backlog_months a b") (auto simp: complementary_def backlog_points_def risk_backlog_points_def)

definition unknown_line :: "health_account \<Rightarrow> string \<times> int \<Rightarrow> bool" where
  "unknown_line a l = (dget (table_of (ha_order_lines a)) (fst l) = None)"

definition open_value :: "health_account \<Rightarrow> open_lines \<Rightarrow> int" where
  "open_value a ls = (\<Sum>l\<leftarrow>ls. snd l * the (dget (table_of (ha_order_lines a)) (fst l)))"

lemma backlog_by_lines:
  "backlog_value (table_of (ha_order_lines a)) ls = (case first_match (unknown_line a) ls of
     Some l \<Rightarrow> Inl (KeyError (fst l)) | None \<Rightarrow> Inr (open_value a ls))"
  unfolding backlog_value_error open_value_def unknown_line_def[abs_def] by (rule refl)

text \<open>What the families need of a reader's dictionary.\<close>

definition family_weights_of :: "string \<Rightarrow> (string \<times> int) list" where
  "family_weights_of k = (case family_of k of Inl _ \<Rightarrow> [] | Inr f \<Rightarrow> fam_weights f)"

lemma account_families:
  "map fst (family_weights_of ''customer_health'') = [''commercial_trajectory'', ''relationship_coverage'',
     ''engagement_cadence'', ''backlog_coverage'', ''relationship_history'', ''attached_risk_history'']"
  "map fst (family_weights_of ''internal_commercial_risk'') = [''commercial_momentum'', ''pipeline'', ''backlog'',
     ''engagement'', ''concentration'', ''friction'']"
  by (simp_all add: family_weights_of_def family_of_def FAMILIES_def family_default_def)

lemma account_family_exists: "\<exists>f. family_of ''customer_health'' = Inr f" "\<exists>f. family_of ''internal_commercial_risk'' = Inr f"
  by (simp_all add: family_of_def FAMILIES_def family_default_def)

definition rubric_points :: "factor_input \<Rightarrow> bool" where
  "rubric_points i = (case fi_points i of None \<Rightarrow> True | Some p \<Rightarrow> p \<in> {0, 25, 50, 75, 100})"

definition reads_family :: "string \<Rightarrow> (string, factor_input) dict \<Rightarrow> bool" where
  "reads_family k inputs = (dkeys inputs = map fst (family_weights_of k)
     \<and> inputs_ok inputs \<and> list_all (\<lambda>(name, i). rubric_points i) inputs)"

lemma factor_of_rubric: "fits points evidence \<Longrightarrow> rubric_points (factor_of demo a window points evidence reason raw)"
  by (auto simp: point_defs rubric_points_def split: option.splits)

lemma health_reads_family:
  assumes "health_inputs show demo a ls = Inr h"
  shows "reads_family ''customer_health'' h"
proof -
  obtain b where b: "backlog_value (table_of (ha_order_lines a)) ls = Inr b"
    using assms by (auto simp: health_inputs_def Let_def bind_r_Inr)
  show ?thesis
    using health_inputs_shape[OF b, of "show" demo] assms
    by (auto simp: reads_family_def inputs_ok_def account_families factor_of_ok factor_of_rubric factor_fits dkeys_def)
qed

lemma risk_reads_family:
  assumes "risk_inputs show demo a ls = Inr r"
  shows "reads_family ''internal_commercial_risk'' r"
proof -
  obtain b where b: "backlog_value (table_of (ha_order_lines a)) ls = Inr b"
    using assms by (auto simp: risk_inputs_def Let_def bind_r_Inr)
  show ?thesis
    using risk_inputs_shape[OF b, of "show" demo] assms
    by (auto simp: reads_family_def inputs_ok_def account_families factor_of_ok factor_of_rubric factor_fits dkeys_def)
qed

lemma reads_family_assessed:
  assumes "reads_family k inputs" "\<exists>f. family_of k = Inr f"
  shows "\<exists>d. assess digest k sid t revn inputs eligible reasons blocking = Inr d"
proof -
  obtain f where f: "family_of k = Inr f" using assms(2) by blast
  then have "f \<in> set FAMILIES \<and> fam_key f = k"
     by (auto simp: family_of_def dest!: first_match_Some split: option.splits)
  then show ?thesis
    using assms(1) f by (subst assess_succeeds_iff) (auto simp: reads_family_def family_weights_of_def)
qed

definition factor_points :: "(string, factor_input) dict \<Rightarrow> string \<Rightarrow> decimal option" where
  "factor_points inputs k = Option.bind (dget inputs k) fi_points"

definition unscored :: "(string, factor_input) dict \<Rightarrow> string list \<Rightarrow> bool" where
  "unscored inputs names = list_all (\<lambda>k. factor_points inputs k = None) names"

definition cited :: "(string, factor_input) dict \<Rightarrow> bool" where
  "cited inputs = list_all (\<lambda>(name, i). fi_points i \<noteq> None \<longrightarrow> fi_evidence_ids i \<noteq> []) inputs"

lemma unreviewed_points:
  assumes "profile_ids a = []"
  shows "coverage_points a = None" "cadence_points a = None" "history_points a = None" "attached_risk_points a = None"
    "pipeline_points a = None" "engagement_points a = None" "friction_points a = None"
proof -
  have "touch_ratio a = None" "pipeline_share a = None"
    using assms pipeline_share_complete[of a] touch_ratio_reviewed[of a]
    by (auto simp: pipeline_complete_def touch_reviewed_def simp del: not_None_eq)
  then show "coverage_points a = None" "cadence_points a = None" "history_points a = None" "attached_risk_points a = None"
    "pipeline_points a = None" "engagement_points a = None" "friction_points a = None"
    using assms
    by (simp_all add: coverage_points_def cadence_points_def history_points_def attached_risk_points_def pipeline_points_def
        engagement_points_def friction_points_def coverage_complete_def touch_reviewed_def relationship_years_def
        pipeline_complete_def friction_known_def Let_def)
qed

lemma unscored_factor_no_score:
  assumes "assess digest k sid t revn inputs eligible reasons blocking = Inr d"
    and "name \<in> set (map fst (family_weights_of k))" "factor_points inputs name = None"
  shows "dec_score d = None"
proof -
  obtain f where f: "family_of k = Inr f"
    "dec_score d = (if eligible \<and> blocking = [] \<and> all_done f inputs then Some (dec_range_low d) else None)"
    using assess_Inr[OF assms(1)] by metis
  obtain w where w: "(name, w) \<in> set (fam_weights f)"
    using assms(2) f(1) by (auto simp: family_weights_of_def)
  have "\<not> factor_done (view_factor (name, w) (dget inputs name))"
    using assms(3) factor_done_evidenced[of "(name, w)" inputs]
    by (auto simp: factor_points_def factor_evidenced_def split: option.splits)
  then have "\<not> all_done f inputs" using w by (force simp: all_done_def)
  then show ?thesis using f(2) by simp
qed

lemma input_ok_cited: "inputs_ok inputs \<Longrightarrow> cited inputs"
  by (auto simp: inputs_ok_def cited_def list_all_iff factor_input_ok_def factor_input_post_init_def split: if_splits)

section \<open>Properties\<close>

text \<open>
  The two account readers fail only on a fulfilment line whose order line the account does not have,
  with the first such line. Otherwise each returns exactly the factors of its family in the family's
  order, every factor passes its own constructor with points on the rubric's grid, and the assessment of
  either dictionary succeeds whatever the eligibility and the blocking constraints are.
\<close>

theorem account_readers_feed_families:
  "case first_match (unknown_line a) ls of
     Some l \<Rightarrow> health_inputs show demo a ls = Inl (KeyError (fst l)) \<and> risk_inputs show demo a ls = Inl (KeyError (fst l))
   | None \<Rightarrow> (\<exists>h r. health_inputs show demo a ls = Inr h \<and> risk_inputs show demo a ls = Inr r
       \<and> reads_family ''customer_health'' h \<and> reads_family ''internal_commercial_risk'' r
       \<and> (\<exists>d. assess digest ''customer_health'' sid t revn h eligible reasons blocking = Inr d)
       \<and> (\<exists>d. assess digest ''internal_commercial_risk'' sid t revn r eligible reasons blocking = Inr d))"
proof (cases "first_match (unknown_line a) ls")
  case None
  then have b: "backlog_value (table_of (ha_order_lines a)) ls = Inr (open_value a ls)"
    by (simp only: backlog_by_lines option.case)
  obtain h r where "health_inputs show demo a ls = Inr h" "risk_inputs show demo a ls = Inr r"
    using health_inputs_shape[OF b, of "show" demo] risk_inputs_shape[OF b, of "show" demo] by blast
  then show ?thesis
    unfolding None option.case
    using health_reads_family risk_reads_family reads_family_assessed account_family_exists by metis
next
  case (Some l)
  then have b: "backlog_value (table_of (ha_order_lines a)) ls = Inl (KeyError (fst l))"
    by (simp add: backlog_by_lines)
  have h: "health_inputs show demo a ls = Inl (KeyError (fst l))"
    unfolding health_inputs_def Let_def b
    by (simp add: put_factor_Inr factor_fits sentences health_window_def split del: if_split)
  then show ?thesis by (simp add: Some risk_inputs_def)
qed

text \<open>
  Health and internal risk read the same three facts: bookings momentum, open backlog and engaged
  functions. When the open backlog is not negative the two readers score each of them together, and the
  points always add up to 100, at every bin boundary.
\<close>

theorem shared_factors_complementary:
  assumes "health_inputs show demo a ls = Inr h" "risk_inputs show demo a ls = Inr r" "0 \<le> open_value a ls"
  shows "list_all (\<lambda>(x, y). map_option (\<lambda>p. 100 - p) (factor_points h x) = factor_points r y)
    [(''commercial_trajectory'', ''commercial_momentum''), (''backlog_coverage'', ''backlog''),
     (''relationship_coverage'', ''engagement'')]"
proof -
  obtain b where b: "backlog_value (table_of (ha_order_lines a)) ls = Inr b"
    using assms(1) by (auto simp: health_inputs_def Let_def bind_r_Inr)
  then have "b = open_value a ls" by (simp add: backlog_by_lines split: option.splits)
  then have "0 \<le> b" using assms(3) by simp
  have c: "complementary p q \<Longrightarrow> map_option (\<lambda>x. 100 - x) (map_option rat_of_int p) = map_option rat_of_int q" for p q
    by (cases p) (auto simp: complementary_def)
  show ?thesis
    using health_inputs_shape[OF b, of "show" demo] risk_inputs_shape[OF b, of "show" demo] assms(1,2)
      c[OF trajectory_complement[of "booking_change a"]] c[OF backlog_complement[OF \<open>0 \<le> b\<close>, of a]] c[OF coverage_complement[of a]]
    by (auto simp: factor_points_def)
qed

text \<open>
  Unknown is not healthy. Without a reviewed relationship profile both readers leave their relationship
  factors without points, whatever interactions, orders and cases are recorded, so no eligible account
  gets a health score or a risk score from them, and every factor that has points cites evidence.
\<close>

theorem unreviewed_account_is_never_scored:
  assumes "profile_ids a = []" "health_inputs show demo a ls = Inr h" "risk_inputs show demo a ls = Inr r"
  shows "unscored h [''relationship_coverage'', ''engagement_cadence'', ''relationship_history'', ''attached_risk_history'']
    \<and> unscored r [''pipeline'', ''engagement'', ''friction''] \<and> cited h \<and> cited r
    \<and> (\<forall>d. assess digest ''customer_health'' sid t revn h eligible reasons blocking = Inr d \<longrightarrow> dec_score d = None)
    \<and> (\<forall>d. assess digest ''internal_commercial_risk'' sid t revn r eligible reasons blocking = Inr d \<longrightarrow> dec_score d = None)"
proof -
  obtain b where b: "backlog_value (table_of (ha_order_lines a)) ls = Inr b"
    using assms(2) by (auto simp: health_inputs_def Let_def bind_r_Inr)
  have u: "unscored h [''relationship_coverage'', ''engagement_cadence'', ''relationship_history'', ''attached_risk_history'']"
    "unscored r [''pipeline'', ''engagement'', ''friction'']"
    using health_inputs_shape[OF b, of "show" demo] risk_inputs_shape[OF b, of "show" demo] assms(2,3)
    by (auto simp: unscored_def factor_points_def unreviewed_points[OF assms(1)])
  have "cited h \<and> cited r"
    using health_reads_family[OF assms(2)] risk_reads_family[OF assms(3)] by (simp add: reads_family_def input_ok_cited)
  moreover have "dec_score d = None" if "assess digest ''customer_health'' sid t revn h eligible reasons blocking = Inr d" for d
    by (rule unscored_factor_no_score[OF that, of "''relationship_coverage''"]) (use u in \<open>simp_all add: account_families unscored_def\<close>)
  moreover have "dec_score d = None" if "assess digest ''internal_commercial_risk'' sid t revn r eligible reasons blocking = Inr d" for d
    by (rule unscored_factor_no_score[OF that, of "''pipeline''"]) (use u in \<open>simp_all add: account_families unscored_def\<close>)
  ultimately show ?thesis using u by blast
qed

section \<open>A concrete account\<close>

definition demo_profile :: "bool \<Rightarrow> relationship_profile" where
  "demo_profile reviewed = \<lparr>rl_record_id = Some ''rp1'', rl_provenance = reviewed, rl_contact_review_complete = Some True,
     rl_expected_touch_days = Some 30, rl_interaction_review_complete = Some True,
     rl_relationship_started_on = Some (Date 2020 1 15), rl_terminated = None, rl_risk_history_review_complete = None,
     rl_quote_review_complete = None, rl_service_review_complete = None, rl_payment_review_complete = None,
     rl_current_demand_evidence_ids = []\<rparr>"

definition demo_account :: "bool \<Rightarrow> health_account" where
  "demo_account reviewed = \<lparr>ha_as_of = Date 2026 7 10, ha_snapshot_observed_as_of = None,
     ha_months = map (\<lambda>k. \<lparr>hm_period = (if k < 5 then (2025, k + 8) else (2026, k - 4)), hm_snapshot_id = ''m'',
       hm_bookings_minor = 100 + (if 9 \<le> k then 5 else 0), hm_revenue_minor = 100\<rparr>) [0..11],
     ha_profile = demo_profile reviewed,
     ha_interactions = [\<lparr>in_id = ''i1'', in_date = Some (Date 2026 6 20), in_two_way = Some True,
       in_participant_role_ids = [''role1''], in_meaningful_touch = Some True\<rparr>],
     ha_role_targets = [\<lparr>rt_id = ''role1'', rt_verified_function = Some ''Quality'', rt_contact_verified = Some True\<rparr>],
     ha_order_lines = [(''ol1'', 50)], ha_orders = [], ha_service_events = [], ha_quotes = [], ha_quote_revisions = [],
     ha_agreements = [], ha_exposure = \<lparr>be_record_id = None, be_provenance = False, be_account_revenue_minor = None,
       be_bu_revenue_minor = None, be_business_unit_id = None, be_period_start = None, be_period_end = None\<rparr>,
     ha_invoices = [], ha_payments = []\<rparr>"

lemma demo_lines: "first_match (unknown_line (demo_account v)) [(''ol1'', 8)] = None" "open_value (demo_account v) [(''ol1'', 8)] = 400"
  by (simp_all add: unknown_line_def open_value_def demo_account_def table_of_def)

abbreviation demo_health :: "bool \<Rightarrow> (py_error, (string, factor_input) dict) result" where
  "demo_health v \<equiv> health_inputs (\<lambda>_. []) (Date 2026 7 10) (demo_account v) [(''ol1'', 8)]"

abbreviation demo_risk :: "bool \<Rightarrow> (py_error, (string, factor_input) dict) result" where
  "demo_risk v \<equiv> risk_inputs (\<lambda>_. []) (Date 2026 7 10) (demo_account v) [(''ol1'', 8)]"

lemma demo_read: "\<exists>h r. demo_health v = Inr h \<and> demo_risk v = Inr r"
proof -
  have b: "backlog_value (table_of (ha_order_lines (demo_account v))) [(''ol1'', 8)] = Inr 400"
    by (simp only: backlog_by_lines demo_lines option.case)
  show ?thesis using health_inputs_shape[OF b] risk_inputs_shape[OF b] by metis
qed

lemma demo_points: "map_sum (\<lambda>_. ()) (\<lambda>h. map (factor_points h) (dkeys h)) (demo_health True)
    = Inr [Some 75, Some 50, Some 100, Some 75, Some 25, None]"
  by code_simp

lemma demo_unreviewed: "profile_ids (demo_account False) = []"
  by code_simp

theorem shared_factors_complementary_witness:
  "\<exists>h r. demo_health True = Inr h \<and> demo_risk True = Inr r
     \<and> factor_points h ''backlog_coverage'' = Some 75 \<and> factor_points r ''backlog'' = Some 25"
proof -
  obtain h r where hr: "demo_health True = Inr h" "demo_risk True = Inr r" using demo_read by blast
  have "factor_points h ''backlog_coverage'' = Some 75"
    using demo_points health_reads_family[OF hr(1)] hr(1) by (simp add: reads_family_def account_families)
  then show ?thesis
    using shared_factors_complementary[OF hr] demo_lines(2)[of True] hr by auto
qed

theorem unreviewed_account_is_never_scored_witness:
  "\<exists>h r. demo_health False = Inr h \<and> demo_risk False = Inr r \<and> unscored h [''engagement_cadence''] \<and> cited r"
proof -
  obtain h r where hr: "demo_health False = Inr h" "demo_risk False = Inr r" using demo_read by blast
  show ?thesis
    using unreviewed_account_is_never_scored[OF demo_unreviewed hr, of "\<lambda>_. []" "[]" "[]" "[]" True "[]" "[]"] hr
    by (auto simp: unscored_def)
qed

end
