(* ===== verification/Followup.thy ===== *)
theory Followup
  imports CommercialEvidence WorkProps
begin

text \<open>
  \<^verbatim>\<open>modules/work/commercial_followup.py\<close>: a follow-up recorded in a commercial account is
  previewed and, on confirmation of exactly that preview, becomes an Action through the work service; and
  \<^verbatim>\<open>modules/work/planning_gaps.py\<close>. The account is its action rows and the whole ledger, which
  the evidence resolver of \<open>CommercialEvidence\<close> reads.
\<close>

section \<open>Preview\<close>

record source_followup =
  sf_action_id :: string
  sf_title :: string
  sf_status :: string
  sf_completion_criteria :: "string option"
  sf_due_date :: "string option"
  sf_evidence_record_ids :: "string list"  \<comment> \<open>absent as empty\<close>

record followup_account =
  fua_actions :: "source_followup list"
  fua_ledger :: json

record followup_proposal =
  fp_account_id :: string
  fp_title :: string
  fp_description :: "string option"
  fp_owner_id :: string
  fp_due_date :: "string option"
  fp_evidence_ids :: "string list"
  fp_context_referents :: "(string \<times> string) list"
  fp_source_suggestion_id :: string

definition followup_suggestion_id :: "string \<Rightarrow> string \<Rightarrow> string" where
  "followup_suggestion_id account_id action_id = ''commercial-follow-up:'' @ account_id @ '':'' @ action_id"

definition followup_proposal_of :: "string \<Rightarrow> principal \<Rightarrow> source_followup \<Rightarrow> followup_proposal" where
  "followup_proposal_of account_id p s = \<lparr>fp_account_id = account_id, fp_title = sf_title s,
     fp_description = sf_completion_criteria s, fp_owner_id = pr_user_id p, fp_due_date = sf_due_date s,
     fp_evidence_ids = sf_evidence_record_ids s, fp_context_referents = [(''commercial_action'', sf_action_id s)],
     fp_source_suggestion_id = followup_suggestion_id account_id (sf_action_id s)\<rparr>"

definition proposal_json :: "followup_proposal \<Rightarrow> json" where
  \<comment> \<open>\<open>sort_keys=True\<close>\<close>
  "proposal_json f = J_obj [(''account_id'', J_str (fp_account_id f)), (''approval_required'', J_bool False),
     (''context_referents'', J_arr (map (\<lambda>(k, v). J_arr [J_str k, J_str v]) (fp_context_referents f))),
     (''description'', j_opt J_str (fp_description f)), (''due_date'', j_opt J_str (fp_due_date f)),
     (''evidence_ids'', J_arr (map J_str (fp_evidence_ids f))), (''owner_id'', J_str (fp_owner_id f)),
     (''priority'', J_str ''MEDIUM''), (''source_suggestion_id'', J_str (fp_source_suggestion_id f)),
     (''title'', J_str (fp_title f))]"

definition preview_token_of :: "hashing \<Rightarrow> string \<Rightarrow> principal \<Rightarrow> followup_proposal \<Rightarrow> string" where
  "preview_token_of h revision p f = h_json h (J_arr [J_str revision, J_str (pr_user_id p), proposal_json f])"

record followup_view =
  fv_proposal :: followup_proposal
  fv_preview_token :: string
  fv_revision :: string
  fv_existing_work_id :: "string option"
  fv_existing_work_status :: "string option"

definition followup_ready :: "(string \<Rightarrow> json option) \<Rightarrow> followup_account \<Rightarrow> source_followup \<Rightarrow> (work_error, unit) result" where
  "followup_ready sources account s =
     bind_r (guard_r (sf_evidence_record_ids s \<noteq> []
         \<and> list_all (\<lambda>i. resolve_commercial_evidence sources (fua_ledger account) i \<noteq> None) (sf_evidence_record_ids s))
       (ActionConflict ''Resolve the follow-up's evidence before creating work.'')) (\<lambda>_.
     guard_r (sf_status s \<in> {''OPEN'', ''IN_PROGRESS''}) (ActionConflict ''This source follow-up is no longer open.''))"

definition followup_preview ::
  "'r action_repo \<Rightarrow> hashing \<Rightarrow> (string \<Rightarrow> json option) \<Rightarrow> followup_account \<Rightarrow> string \<Rightarrow> string \<Rightarrow> string \<Rightarrow> principal \<Rightarrow> 'r
    \<Rightarrow> (work_error, followup_view) result" where
  "followup_preview ops h sources account account_id action_id revision p r =
     (case first_match (\<lambda>s. sf_action_id s = action_id) (fua_actions account) of
        None \<Rightarrow> Inl (ActionNotFound action_id)
      | Some s \<Rightarrow>
          bind_r (followup_ready sources account s) (\<lambda>_.
          (let existing = repo_by_suggestion ops r (followup_suggestion_id account_id action_id);
               proposal = followup_proposal_of account_id p s
           in bind_r (case existing of
                  None \<Rightarrow> Inr ()
                | Some a \<Rightarrow> bind_r (require_manage p a) (\<lambda>_. guard_r (act_account_id a = Some account_id)
                    (ActionConflict ''Existing work has an incompatible account mapping.''))) (\<lambda>_.
              Inr \<lparr>fv_proposal = proposal, fv_preview_token = preview_token_of h revision p proposal, fv_revision = revision,
                fv_existing_work_id = map_option act_id existing,
                fv_existing_work_status = map_option (\<lambda>a. status_value (act_status a)) existing\<rparr>))))"

section \<open>Confirmation\<close>

definition due_date_of :: "string option \<Rightarrow> (work_error, date option) result" where
  "due_date_of x = (if truthy x
     then (case parse_date (the x) of None \<Rightarrow> Inl (WorkInvalid (ValueError ''Invalid isoformat string'')) | Some d \<Rightarrow> Inr (Some d))
     else Inr None)"

definition followup_create_args :: "followup_proposal \<Rightarrow> principal \<Rightarrow> datetime \<Rightarrow> string \<Rightarrow> date option \<Rightarrow> create_args" where
  "followup_create_args f p now key due = \<lparr>ca_account_id = Some (fp_account_id f), ca_occurred_at = now,
     ca_title = Some (fp_title f), ca_principal = Some p, ca_summary = None, ca_actor_id = None,
     ca_description = fp_description f, ca_owner_id = Some (fp_owner_id f), ca_priority = P_MEDIUM, ca_due_date = due,
     ca_evidence_ids = fp_evidence_ids f, ca_context_referents = fp_context_referents f,
     ca_source_suggestion_id = Some (fp_source_suggestion_id f), ca_approval_required = False,
     ca_idempotency_key = Some key\<rparr>"

definition confirm_followup ::
  "'r action_repo \<Rightarrow> hashing \<Rightarrow> (string \<Rightarrow> json option) \<Rightarrow> followup_account \<Rightarrow> string \<Rightarrow> string \<Rightarrow> string \<Rightarrow> principal
    \<Rightarrow> string \<Rightarrow> datetime \<Rightarrow> string option \<Rightarrow> 'r \<Rightarrow> (work_error, action) result \<times> 'r" where
  "confirm_followup ops h sources account account_id action_id revision p token now tenant r =
     (case bind_r (followup_preview ops h sources account account_id action_id revision p r) (\<lambda>v.
           bind_r (guard_r (fv_preview_token v = token)
             (ActionConflict ''The proposal or account evidence changed; review a fresh preview.'')) (\<lambda>_.
           bind_r (due_date_of (fp_due_date (fv_proposal v))) (\<lambda>due.
           Inr (followup_create_args (fv_proposal v) p now token due)))) of
        Inl e \<Rightarrow> (Inl e, r)
      | Inr c \<Rightarrow> create ops h tenant c r)"

section \<open>Planning gaps\<close>

record planning_account =
  pla_bookings_minor :: json  \<comment> \<open>\<open>ttm_summary.get("bookings_minor")\<close>\<close>
  pla_period :: json
  pla_currency :: string
  pla_sales_target_minor :: json
  pla_component_business_units :: "string list"
  pla_snapshot_ids :: "string list"

record planning_gap =
  pg_account_id :: string
  pg_period :: json
  pg_currency :: string
  pg_actual_bookings_minor :: "int option"
  pg_target_bookings_minor :: "int option"
  pg_shortfall_minor :: "int option"
  pg_status :: string
  pg_business_unit_ids :: "string list"
  pg_evidence_ids :: "string list"
  pg_revision :: string
  pg_interpretation :: string

fun j_int_opt :: "json \<Rightarrow> int option" where
  \<comment> \<open>\<open>x if isinstance(x, int) else None\<close>; a \<open>bool\<close> is an int\<close>
  "j_int_opt (J_int i) = Some i"
| "j_int_opt (J_bool b) = Some (if b then 1 else 0)"
| "j_int_opt _ = None"

definition sales_planning_gap :: "planning_account \<Rightarrow> string \<Rightarrow> string \<Rightarrow> (py_error, planning_gap) result" where
  "sales_planning_gap account canonical_account_id revision =
     (let target = j_int_opt (pla_sales_target_minor account);
          actual = j_int_opt (pla_bookings_minor account);
          shortfall = (case (target, actual) of (Some t, Some x) \<Rightarrow> Some (max 0 (t - x)) | _ \<Rightarrow> None)
      in if pla_sales_target_minor account \<noteq> J_null \<and> (case target of None \<Rightarrow> True | Some t \<Rightarrow> t < 0)
         then Inl (ValueError ''Sales target must be a non-negative integer minor-unit value.'')
         else Inr \<lparr>pg_account_id = canonical_account_id, pg_period = pla_period account, pg_currency = pla_currency account,
           pg_actual_bookings_minor = actual, pg_target_bookings_minor = target, pg_shortfall_minor = shortfall,
           pg_status = (if target = None then ''TARGET_UNAVAILABLE'' else if actual = None then ''ACTUAL_UNAVAILABLE''
             else if shortfall \<noteq> Some 0 then ''SHORTFALL'' else ''ON_OR_ABOVE_TARGET''),
           pg_business_unit_ids = sorted_set (pla_component_business_units account),
           pg_evidence_ids = pla_snapshot_ids account, pg_revision = revision,
           pg_interpretation = (if target = None
             then ''No approved sales target is recorded, so a sales shortfall cannot be calculated. Recorded TTM bookings remain available for planning context.''
             else ''Shortfall is target bookings less recorded TTM bookings, floored at zero; it is not a forecast.'')\<rparr>)"

section \<open>Confirming over any repository\<close>

lemma confirm_cases:
  assumes "confirm_followup ops h sources account account_id action_id revision p token now tenant r = (res, r')"
  obtains (refused) e where "res = Inl e" "r' = r"
  | (accepted) v s due where "followup_preview ops h sources account account_id action_id revision p r = Inr v"
      "first_match (\<lambda>s. sf_action_id s = action_id) (fua_actions account) = Some s"
      "fv_proposal v = followup_proposal_of account_id p s" "token = fv_preview_token v"
      "create ops h tenant (followup_create_args (fv_proposal v) p now token due) r = (res, r')"
      "due_date_of (sf_due_date s) = Inr due"
proof (cases "followup_preview ops h sources account account_id action_id revision p r")
  case (Inl e)
  then show ?thesis by (intro refused[of e]) (use assms in \<open>simp_all add: confirm_followup_def\<close>)
next
  case (Inr v)
  obtain s where s: "first_match (\<lambda>s. sf_action_id s = action_id) (fua_actions account) = Some s"
    "fv_proposal v = followup_proposal_of account_id p s"
    using Inr by (auto simp: followup_preview_def Let_def res_simps split: option.splits)
  show ?thesis
  proof (cases "fv_preview_token v = token \<and> (\<exists>due. due_date_of (sf_due_date s) = Inr due)")
    case True
    then obtain due where "due_date_of (sf_due_date s) = Inr due" "fv_preview_token v = token" by blast
    then show ?thesis
      using accepted[OF Inr s] assms Inr s by (auto simp: confirm_followup_def guard_r_def followup_proposal_of_def)
  next
    case False
    then obtain e where "due_date_of (sf_due_date s) = Inl e \<or> fv_preview_token v \<noteq> token"
      by (cases "due_date_of (sf_due_date s)") auto
    then have "\<exists>e. res = Inl e \<and> r' = r"
      using assms Inr s False by (auto simp: confirm_followup_def guard_r_def followup_proposal_of_def split: if_splits)
    then show ?thesis using refused by blast
  qed
qed

lemma creation_replay_same: "creation_replay ops h r b p fp = Inr a \<Longrightarrow> b = a"
  by (auto simp: creation_replay_def Let_def res_simps split: option.splits if_splits)

context action_store begin

lemma confirm_error_frame:
  assumes ok: "store_ok r"
    and c: "confirm_followup ops h sources account account_id action_id revision p token now tenant r = (Inl e, r')"
  shows "r' = r"
  by (rule confirm_cases[OF c]) (use create_error_frame[OF ok] in auto)

lemma confirm_ok:
  assumes ok: "store_ok r"
    and c: "confirm_followup ops h sources account account_id action_id revision p token now tenant r = (res, r')"
  shows "store_ok r'"
proof (rule confirm_cases[OF c])
  fix v s due
  assume "create ops h tenant (followup_create_args (fv_proposal v) p now token due) r = (res, r')"
  then show ?thesis using create_ok[OF ok] by (metis snd_conv)
qed (use ok in simp)

lemma inserted_suggestion:
  assumes inv: "inv r" "inv r'" and st: "stored ops r a e r'"
    and s: "act_source_suggestion_id a = Some sid" "repo_by_suggestion ops r sid = None"
  shows "repo_by_suggestion ops r' sid = Some a"
proof -
  have get: "repo_get ops r' i = (if i = act_id a then Some a else repo_get ops r i)" for i
    using st by (simp add: stored_def)
  obtain x where x: "repo_by_suggestion ops r' sid = Some x"
    using suggestion_complete[OF inv(2), of "act_id a" a sid] get s(1) by auto
  then have x': "repo_get ops r' (act_id x) = Some x" "act_source_suggestion_id x = Some sid"
    using suggestion_sound[OF inv(2)] by auto
  have "act_id x = act_id a"
  proof (rule ccontr)
    assume "act_id x \<noteq> act_id a"
    then have "repo_get ops r (act_id x) = Some x" using x'(1) get by simp
    then show False using suggestion_complete[OF inv(1) _ x'(2)] s(2) by blast
  qed
  then have "x = a" using x'(1) get[of "act_id x"] by simp
  then show ?thesis using x by simp
qed

lemma create_existing_stored:
  assumes "store_ok r" "create_decide ops h c p r = Inr (Existing a)"
  shows "repo_get ops r (act_id a) = Some a"
proof -
  have inv: "inv r" using assms(1) by (simp add: store_ok_def)
  have "(\<exists>s. repo_by_suggestion ops r s = Some a) \<or> (\<exists>i. repo_get ops r i = Some a)"
    using assms(2) unfolding create_decide_def
    by (auto simp: res_simps Let_def dest!: creation_replay_same split: option.splits if_splits)
  then show ?thesis using suggestion_sound[OF inv] get_id[OF inv] by metis
qed

lemma create_result_cases:
  assumes ok: "store_ok r" and c: "create ops h tenant c r = (Inr a, r')"
  obtains (kept) "r' = r" "may_manage (create_principal tenant c) a" "repo_get ops r (act_id a) = Some a"
  | (inserted) e where "a = new_action h c (create_principal tenant c)" "stored ops r a e r'" "repo_get ops r (act_id a) = None"
      "truthy (ca_source_suggestion_id c) \<Longrightarrow> repo_by_suggestion ops r (the (ca_source_suggestion_id c)) = None"
proof (cases "create_decide ops h c (create_principal tenant c) r")
  case (Inr st)
  show ?thesis
  proof (cases st)
    case (Insert b e)
    note D = create_decide_Insert[OF Inr[unfolded Insert]]
    obtain r'' where "create ops h tenant c r = (Inr b, r'')" "stored ops r b e r''"
      using create_inserts[OF ok Inr[unfolded Insert]] by blast
    then show ?thesis using inserted[of e] c D by auto
  next
    case (Existing b)
    then show ?thesis
      using kept c Inr create_decide_Existing[of h c "create_principal tenant c" r] create_existing_stored[OF ok, of h c _ b]
      by (auto simp: create_def Let_def)
  qed
qed (use c in \<open>simp add: create_def Let_def\<close>)

lemma followup_args [simp]:
  "ca_source_suggestion_id (followup_create_args f p now key due) = Some (fp_source_suggestion_id f)"
  "create_principal tenant (followup_create_args f p now key due) = p"
  "ca_account_id (followup_create_args f p now key due) = Some (fp_account_id f)"
  by (simp_all add: followup_create_args_def create_principal_def)

lemma confirm_idempotent:
  assumes ok: "store_ok r"
    and c: "confirm_followup ops h sources account account_id action_id revision p token now tenant r = (Inr a, r')"
  shows "confirm_followup ops h sources account account_id action_id revision p token now tenant r' = (Inr a, r')"
proof (rule confirm_cases[OF c])
  fix v s due
  assume v: "followup_preview ops h sources account account_id action_id revision p r = Inr v"
    and s: "first_match (\<lambda>s. sf_action_id s = action_id) (fua_actions account) = Some s"
    "fv_proposal v = followup_proposal_of account_id p s" "token = fv_preview_token v" "due_date_of (sf_due_date s) = Inr due"
    and cr: "create ops h tenant (followup_create_args (fv_proposal v) p now token due) r = (Inr a, r')"
  have sid: "fp_source_suggestion_id (fv_proposal v) = followup_suggestion_id account_id action_id"
    "fp_account_id (fv_proposal v) = account_id"
    using s first_match_Some[OF s(1)] by (simp_all add: followup_proposal_of_def)
  show ?thesis
  proof (rule create_result_cases[OF ok cr])
    fix e
    assume new: "a = new_action h (followup_create_args (fv_proposal v) p now token due)
        (create_principal tenant (followup_create_args (fv_proposal v) p now token due))"
      and st: "stored ops r a e r'"
      and none: "truthy (ca_source_suggestion_id (followup_create_args (fv_proposal v) p now token due)) \<Longrightarrow>
        repo_by_suggestion ops r (the (ca_source_suggestion_id (followup_create_args (fv_proposal v) p now token due))) = None"
    have inv: "inv r" "inv r'" using ok confirm_ok[OF ok c] by (simp_all add: store_ok_def)
    have "truthy (Some (followup_suggestion_id account_id action_id))" by (simp add: followup_suggestion_id_def truthy_def)
    then have "repo_by_suggestion ops r' (followup_suggestion_id account_id action_id) = Some a"
      using inserted_suggestion[OF inv st] none new sid by simp
    then have "\<exists>v'. followup_preview ops h sources account account_id action_id revision p r' = Inr v'
        \<and> fv_proposal v' = fv_proposal v \<and> fv_preview_token v' = token"
      using v s new sid by (auto simp: followup_preview_def Let_def res_simps split: option.splits)
    then show ?thesis using create_idempotent[OF ok cr] s sid by (auto simp: confirm_followup_def guard_r_def followup_proposal_of_def)
  qed (use c in simp)
qed simp

end

section \<open>Properties\<close>

definition evidence_resolved :: "(string \<Rightarrow> json option) \<Rightarrow> followup_account \<Rightarrow> source_followup \<Rightarrow> bool" where
  "evidence_resolved sources account s = (sf_evidence_record_ids s \<noteq> [] \<and>
     (\<forall>i\<in>set (sf_evidence_record_ids s). resolve_commercial_evidence sources (fua_ledger account) i \<noteq> None))"

text \<open>
  Confirming a follow-up over any reachable Action store either fails and changes nothing, or accepts
  exactly the preview whose token was shown, for an open source follow-up whose evidence all resolves in the
  account, and returns an Action the principal may manage; an Action it adds carries the previewed title,
  owner, evidence and due date and needs no approval. Repeating the confirmation returns the same Action and
  changes nothing.
\<close>

theorem confirmed_followup_is_previewed:
  assumes "work_reachable mem_ops h tenant mem_init r"
    and "confirm_followup mem_ops h sources account account_id action_id revision p token now tenant r = (res, r')"
  shows "case res of
      Inl e \<Rightarrow> r' = r
    | Inr a \<Rightarrow> confirm_followup mem_ops h sources account account_id action_id revision p token now tenant r' = (Inr a, r')
        \<and> may_manage p a
        \<and> (\<exists>s v. s \<in> set (fua_actions account) \<and> sf_action_id s = action_id \<and> evidence_resolved sources account s
            \<and> sf_status s \<in> {''OPEN'', ''IN_PROGRESS''}
            \<and> followup_preview mem_ops h sources account account_id action_id revision p r = Inr v \<and> fv_preview_token v = token
            \<and> (mem_get r (act_id a) = None \<longrightarrow>
                act_title a = strip (sf_title s) \<and> act_account_id a = Some account_id \<and> act_evidence_ids a = sf_evidence_record_ids s
                \<and> act_created_by a = pr_user_id p \<and> act_status a = OPEN \<and> act_approval_status a = NOT_REQUIRED
                \<and> due_date_of (sf_due_date s) = Inr (act_due_date a)
                \<and> act_source_suggestion_id a = Some (followup_suggestion_id account_id action_id)))"
proof (cases res)
  case (Inl e)
  then show ?thesis using mem.confirm_error_frame[OF mem_reachable_ok[OF assms(1)]] assms(2) by simp
next
  case (Inr a)
  have ok: "mem.store_ok r" by (rule mem_reachable_ok[OF assms(1)])
  note c = assms(2)[unfolded Inr]
  show ?thesis
  proof (rule confirm_cases[OF c])
    fix v s due
    assume v: "followup_preview mem_ops h sources account account_id action_id revision p r = Inr v"
      and s: "first_match (\<lambda>s. sf_action_id s = action_id) (fua_actions account) = Some s"
      and f: "fv_proposal v = followup_proposal_of account_id p s" and t: "token = fv_preview_token v"
      and cr: "create mem_ops h tenant (followup_create_args (fv_proposal v) p now token due) r = (Inr a, r')"
      and due: "due_date_of (sf_due_date s) = Inr due"
    have ready: "evidence_resolved sources account s" "sf_status s \<in> {''OPEN'', ''IN_PROGRESS''}"
      using v s by (auto simp: followup_preview_def followup_ready_def evidence_resolved_def res_simps list_all_iff)
    have src: "s \<in> set (fua_actions account)" "sf_action_id s = action_id" using first_match_Some[OF s] by auto
    have a: "may_manage p a \<and> (mem_get r (act_id a) = None \<longrightarrow> a = new_action h (followup_create_args (fv_proposal v) p now token due) p)"
      by (rule mem.create_result_cases[OF ok cr]) auto
    show ?thesis
      unfolding Inr sum.case
      using mem.confirm_idempotent[OF ok c] a v t s f src ready due
      by (auto simp: new_action_def followup_create_args_def followup_proposal_of_def create_title_def first_truthy_def create_owner_def)
  qed simp
qed

definition demo_followup :: source_followup where
  "demo_followup = \<lparr>sf_action_id = ''f1'', sf_title = '' Call quality '', sf_status = ''OPEN'', sf_completion_criteria = None,
     sf_due_date = Some ''2026-08-01'', sf_evidence_record_ids = [''q1'']\<rparr>"

definition demo_followup_account :: followup_account where
  "demo_followup_account = \<lparr>fua_actions = [demo_followup],
     fua_ledger = J_obj [(''quotes'', J_arr [J_obj [(''quote_id'', J_str ''q1'')]])]\<rparr>"

definition demo_confirm :: "mem_repo \<Rightarrow> (work_error, action) result \<times> mem_repo" where
  "demo_confirm = confirm_followup mem_ops demo_hash (\<lambda>_. None) demo_followup_account ''acc'' ''f1'' ''rev'' demo_seller ''f'' demo_time None"

lemma demo_confirmed: "map_sum (\<lambda>_. ()) (\<lambda>a. (act_title a, act_due_date a)) (fst (demo_confirm mem_init))
    = Inr (''Call quality'', Some (Date 2026 8 1))"
  by code_simp

theorem confirmed_followup_is_previewed_witness:
  "\<exists>a r'. demo_confirm mem_init = (Inr a, r') \<and> demo_confirm r' = (Inr a, r') \<and> act_title a = ''Call quality''"
proof -
  obtain a r' where a: "demo_confirm mem_init = (Inr a, r')" "act_title a = ''Call quality''"
    using demo_confirmed by (cases "demo_confirm mem_init"; cases "fst (demo_confirm mem_init)") auto
  show ?thesis
    using confirmed_followup_is_previewed[OF reach_start a(1)[unfolded demo_confirm_def]] a by (auto simp: demo_confirm_def)
qed

text \<open>
  A planning gap is computed exactly from a target that is absent or a non-negative integer; the
  shortfall is there exactly when both numbers are, is never negative, and the status says which holds.
\<close>

theorem planning_gap_sound:
  "case sales_planning_gap account cid revision of
     Inl e \<Rightarrow> pla_sales_target_minor account \<noteq> J_null
       \<and> (\<forall>t. j_int_opt (pla_sales_target_minor account) = Some t \<longrightarrow> t < 0)
   | Inr g \<Rightarrow> (pg_shortfall_minor g \<noteq> None \<longleftrightarrow> pg_target_bookings_minor g \<noteq> None \<and> pg_actual_bookings_minor g \<noteq> None)
       \<and> (\<forall>s. pg_shortfall_minor g = Some s \<longrightarrow> 0 \<le> s)
       \<and> (pg_status g = ''SHORTFALL'' \<longleftrightarrow> (\<exists>t x. pg_target_bookings_minor g = Some t \<and> pg_actual_bookings_minor g = Some x \<and> x < t))
       \<and> (pg_status g = ''TARGET_UNAVAILABLE'' \<longleftrightarrow> pla_sales_target_minor account = J_null)"
  by (cases "j_int_opt (pla_sales_target_minor account)"; cases "j_int_opt (pla_bookings_minor account)")
    (auto simp: sales_planning_gap_def Let_def)

end
