(* ===== verification/Suggestions.thy ===== *)
theory Suggestions
  imports Alerts WorkService Json_Read
begin

text \<open>
  \<^verbatim>\<open>modules/work/suggestions.py\<close>: commercial alerts projected to suggestions with a stable
  identity, matched against the Actions that were made from them.
\<close>

definition SUGGESTION_VERSION :: string where
  "SUGGESTION_VERSION = ''BTX_SUGGESTION_IDENTITY_2''"

definition suggestion_key :: "commercial_alert \<Rightarrow> json list" where
  "suggestion_key a = [J_str SUGGESTION_VERSION, J_str (al_account_id a), J_str (alert_kind_value (al_type a)),
     j_opt J_str (al_business_unit a), j_opt J_str (al_subject_id a), J_arr (map J_str (sorted_set (al_evidence_ids a)))]"

definition suggestion_identifier :: "hashing \<Rightarrow> commercial_alert \<Rightarrow> string" where
  "suggestion_identifier h a = ''suggestion-v2-'' @ take 32 (h_json h (J_arr (suggestion_key a)))"

definition legacy_prefix :: "commercial_alert \<Rightarrow> string" where
  "legacy_prefix a =
     (if alert_kind_value (al_type a) = ''OVERDUE_ORDER'' then al_id a
      else if alert_kind_value (al_type a) = ''CROSS_BU_COORDINATION'' then ''alert-cross_bu_coordination-'' @ al_account_id a
      else ''alert-'' @ lower (alert_kind_value (al_type a)) @ ''-'' @ al_account_id a @ ''-'' @ default_to (al_business_unit a) ''None'')"

definition numbered_after :: "string \<Rightarrow> string \<Rightarrow> bool" where
  \<comment> \<open>\<open>re.fullmatch(re.escape(prefix) + ":[0-9]+", text)\<close>\<close>
  "numbered_after prefix text =
     (let k = length prefix + 1
      in take k text = prefix @ '':'' \<and> drop k text \<noteq> [] \<and> list_all is_digit (drop k text))"

definition matched_actions :: "hashing \<Rightarrow> commercial_alert \<Rightarrow> action list \<Rightarrow> action list" where
  "matched_actions h a actions = filter (\<lambda>w.
     truthy (act_source_suggestion_id w) \<and> act_account_id w = Some (al_account_id a)
     \<and> (act_source_suggestion_id w = Some (suggestion_identifier h a)
        \<or> numbered_after (legacy_prefix a) (the (act_source_suggestion_id w))
          \<and> set (act_evidence_ids w) = set (al_evidence_ids a))) actions"

record suggestion =
  sg_id :: string
  sg_account_id :: string
  sg_title :: string
  sg_rationale :: string
  sg_priority :: string
  sg_evidence_ids :: "string list"
  sg_source :: string
  sg_observed_at :: datetime
  sg_dismissed :: bool
  sg_revision :: string
  sg_identity_version :: string
  sg_source_alert_id :: string
  sg_converted_action_id :: "string option"
  sg_conversion_blocked :: bool
  sg_legacy_work_match :: bool

fun alert_value_json :: "alert_value \<Rightarrow> json" where
  "alert_value_json (AV_int i) = J_int i"
| "alert_value_json (AV_num q) = J_num q"
| "alert_value_json (AV_text t) = J_str t"
| "alert_value_json (AV_texts ts) = J_arr (map J_str ts)"

definition suggestion_revision :: "hashing \<Rightarrow> string \<Rightarrow> commercial_alert \<Rightarrow> string" where
  "suggestion_revision h commercial_revision a = h_json h (J_arr [J_arr (suggestion_key a), J_str (al_recommended_action a),
     J_str (al_trigger_reason a), J_str (al_severity a), alert_value_json (al_actual_value a),
     alert_value_json (al_threshold a), J_str commercial_revision])"

definition suggestion_item :: "hashing \<Rightarrow> action list \<Rightarrow> string list \<Rightarrow> string \<Rightarrow> commercial_alert \<Rightarrow> suggestion" where
  "suggestion_item h actions visible commercial_revision a =
     (let identifier = suggestion_identifier h a; matched = matched_actions h a actions;
          accessible = filter (\<lambda>w. act_id w \<in> set visible) matched;
          unique = (length matched = length accessible \<and> length accessible = 1)
      in \<lparr>sg_id = identifier, sg_account_id = al_account_id a, sg_title = al_recommended_action a,
          sg_rationale = al_trigger_reason a, sg_priority = al_severity a, sg_evidence_ids = al_evidence_ids a,
          sg_source = ''SAMPLE_COMMERCIAL_ALERT'', sg_observed_at = al_observed_at a, sg_dismissed = False,
          sg_revision = suggestion_revision h commercial_revision a, sg_identity_version = SUGGESTION_VERSION,
          sg_source_alert_id = al_id a,
          sg_converted_action_id = (if unique then Some (act_id (hd accessible)) else None),
          sg_conversion_blocked = (matched \<noteq> [] \<and> \<not> unique),
          sg_legacy_work_match = (length matched = 1 \<and> act_source_suggestion_id (hd matched) \<noteq> Some identifier)\<rparr>)"

fun collect_suggestions ::
  "(commercial_alert \<Rightarrow> suggestion) \<Rightarrow> (string, suggestion) dict \<Rightarrow> commercial_alert list \<Rightarrow> (py_error, (string, suggestion) dict) result" where
  "collect_suggestions item acc [] = Inr acc"
| "collect_suggestions item acc (a # rest) =
     (if dget acc (sg_id (item a)) \<noteq> None \<and> dget acc (sg_id (item a)) \<noteq> Some (item a)
      then Inl (ValueError ''Conflicting canonical suggestion evidence requires review.'')
      else collect_suggestions item (dset (sg_id (item a)) (item a) acc) rest)"

definition project_suggestions ::
  "hashing \<Rightarrow> commercial_alert list \<Rightarrow> action list \<Rightarrow> string list \<Rightarrow> string \<Rightarrow> (py_error, suggestion list) result" where
  "project_suggestions h alerts actions visible commercial_revision =
     bind_r (collect_suggestions (suggestion_item h actions visible commercial_revision) [] alerts) (\<lambda>d.
     Inr (sort_key sg_id (dvalues d)))"

section \<open>What the projection promises\<close>

definition keyed :: "(string, suggestion) dict \<Rightarrow> bool" where
  "keyed d = (dict_wf d \<and> (\<forall>k v. dget d k = Some v \<longrightarrow> sg_id v = k))"

lemma keyed_dset: "keyed d \<Longrightarrow> keyed (dset (sg_id v) v d)"
  by (auto simp: keyed_def dict_simps)

lemma keyed_values: "keyed d \<Longrightarrow> v \<in> set (dvalues d) \<longleftrightarrow> dget d (sg_id v) = Some v"
  by (auto simp: keyed_def dvalues_dget)

definition clash :: "suggestion set \<Rightarrow> bool" where
  "clash xs = (\<exists>x\<in>xs. \<exists>y\<in>xs. sg_id x = sg_id y \<and> x \<noteq> y)"

lemma keyed_no_clash: "keyed d \<Longrightarrow> \<not> clash (set (dvalues d))"
  by (auto simp: clash_def keyed_values)

lemma values_dset_agreeing:
  assumes "keyed d" "dget d (sg_id v) \<in> {None, Some v}"
  shows "set (dvalues (dset (sg_id v) v d)) = insert v (set (dvalues d))"
proof -
  have "u \<in> set (dvalues (dset (sg_id v) v d)) \<longleftrightarrow> u = v \<or> u \<in> set (dvalues d)" for u
    using assms(2) by (simp add: keyed_values[OF assms(1)] keyed_values[OF keyed_dset[OF assms(1)]] dict_simps) auto
  then show ?thesis by auto
qed

lemma collect_suggestions_values:
  "keyed acc \<Longrightarrow> (case collect_suggestions item acc alerts of
     Inl e \<Rightarrow> clash (set (dvalues acc) \<union> item ` set alerts)
   | Inr d \<Rightarrow> keyed d \<and> set (dvalues d) = set (dvalues acc) \<union> item ` set alerts)"
proof (induction alerts arbitrary: acc)
  case (Cons a rest)
  let ?v = "item a"
  show ?case
  proof (cases "dget acc (sg_id ?v) \<in> {None, Some ?v}")
    case True
    then have c: "collect_suggestions item acc (a # rest) = collect_suggestions item (dset (sg_id ?v) ?v acc) rest" by auto
    show ?thesis
      unfolding c using Cons.IH[OF keyed_dset[OF Cons.prems], of ?v] values_dset_agreeing[OF Cons.prems True]
      by (simp split: sum.splits)
  next
    case False
    then obtain u where u: "dget acc (sg_id ?v) = Some u" "u \<noteq> ?v" by auto
    then have "sg_id u = sg_id ?v" "u \<in> set (dvalues acc)"
      using Cons.prems keyed_values[OF Cons.prems, of u] by (auto simp: keyed_def)
    then have "clash (set (dvalues acc) \<union> item ` set (a # rest))" using u(2) unfolding clash_def by (intro bexI) auto
    moreover have "\<exists>e. collect_suggestions item acc (a # rest) = Inl e" using u by auto
    ultimately show ?thesis by auto
  qed
qed simp

lemma sort_key_unique:
  assumes "\<not> clash (set xs)" "set xs = set ys" "distinct xs" "distinct ys"
  shows "sort_key sg_id xs = sort_key sg_id ys"
proof -
  have inj: "inj_on sg_id (set xs)" using assms(1) by (auto simp: clash_def inj_on_def)
  have "mset xs = mset ys" using assms(2-4) set_eq_iff_mset_eq_distinct by blast
  then show ?thesis by (intro sort_key_inj_key_eq) (simp_all add: inj)
qed

lemma keyed_distinct: "keyed d \<Longrightarrow> distinct (dvalues d)"
proof -
  assume k: "keyed d"
  have "map sg_id (dvalues d) = map fst d"
    using k by (auto simp: keyed_def dict_wf_def dvalues_def intro: map_of_is_SomeI)
  then show ?thesis using k by (metis distinct_map keyed_def dict_wf_def)
qed

lemma collect_error: "collect_suggestions item acc alerts = Inl e \<Longrightarrow>
    e = ValueError ''Conflicting canonical suggestion evidence requires review.''"
  by (induction alerts arbitrary: acc) (auto split: if_splits)

lemma project_suggestions_cases:
  obtains (clash) "clash (suggestion_item h actions visible rv ` set alerts)"
      "project_suggestions h alerts actions visible rv = Inl (ValueError ''Conflicting canonical suggestion evidence requires review.'')"
  | (ok) xs where "\<not> clash (suggestion_item h actions visible rv ` set alerts)" "distinct xs"
      "set xs = suggestion_item h actions visible rv ` set alerts"
      "project_suggestions h alerts actions visible rv = Inr (sort_key sg_id xs)"
proof -
  have k: "keyed []" by (simp add: keyed_def dict_simps)
  note c = collect_suggestions_values[OF k, of "suggestion_item h actions visible rv" alerts]
  show ?thesis
  proof (cases "collect_suggestions (suggestion_item h actions visible rv) [] alerts")
    case (Inl e)
    then show ?thesis using clash c collect_error[OF Inl] by (simp add: project_suggestions_def dvalues_def)
  next
    case (Inr d)
    then show ?thesis
      using ok[of "dvalues d"] c keyed_no_clash[of d] keyed_distinct[of d]
      by (simp add: project_suggestions_def dvalues_def[of "[]"])
  qed
qed

text \<open>
  Suggestions are the distinct items of the alerts in the order of their ids, whatever the order and the
  repetition of the alerts; the projection fails exactly when two alerts give different items for one id.
\<close>

theorem suggestions_depend_on_alert_set:
  assumes "set alerts = set alerts'"
  shows "project_suggestions h alerts actions visible rv = project_suggestions h alerts' actions visible rv
    \<and> (case project_suggestions h alerts actions visible rv of
        Inl e \<Rightarrow> clash (suggestion_item h actions visible rv ` set alerts)
      | Inr items \<Rightarrow> \<not> clash (suggestion_item h actions visible rv ` set alerts)
          \<and> set items = suggestion_item h actions visible rv ` set alerts
          \<and> sorted (map sg_id items) \<and> distinct (map sg_id items))"
proof (rule project_suggestions_cases[of h actions visible rv alerts])
  assume "clash (suggestion_item h actions visible rv ` set alerts)" and
    "project_suggestions h alerts actions visible rv = Inl (ValueError ''Conflicting canonical suggestion evidence requires review.'')"
  then show ?thesis
    using assms by (cases rule: project_suggestions_cases[of h actions visible rv alerts']) auto
next
  fix xs
  assume x: "\<not> clash (suggestion_item h actions visible rv ` set alerts)" "distinct xs"
    "set xs = suggestion_item h actions visible rv ` set alerts"
    and p: "project_suggestions h alerts actions visible rv = Inr (sort_key sg_id xs)"
  have "project_suggestions h alerts' actions visible rv = Inr (sort_key sg_id xs)"
  proof (cases rule: project_suggestions_cases[of h actions visible rv alerts'])
    case (ok ys)
    then show ?thesis using sort_key_unique[of xs ys] x assms by simp
  qed (use x assms in simp)
  moreover have "distinct (map sg_id (sort_key sg_id xs))"
    using x by (auto simp: distinct_map clash_def inj_on_def)
  ultimately show ?thesis using p x by simp
qed

lemma unique_match: "length xs = length (filter P xs) \<and> length (filter P xs) = 1 \<longleftrightarrow> (\<exists>w. xs = [w] \<and> P w)"
proof (cases xs)
  case (Cons x rest)
  then show ?thesis using length_filter_le[of P rest] by (cases rest) auto
qed simp

lemma item_conversion:
  "sg_converted_action_id (suggestion_item h actions visible rv a) = (case matched_actions h a actions of
     [w] \<Rightarrow> if act_id w \<in> set visible then Some (act_id w) else None | _ \<Rightarrow> None)"
  "sg_conversion_blocked (suggestion_item h actions visible rv a) \<longleftrightarrow> matched_actions h a actions \<noteq> []
     \<and> sg_converted_action_id (suggestion_item h actions visible rv a) = None"
  unfolding suggestion_item_def Let_def unique_match by (auto split: list.splits)

text \<open>
  A suggestion names the Action made from it only where exactly one Action of the account matches and the
  reader may see it; when several match, or one the reader may not see, conversion is blocked and no Action
  is named. Without a match neither is set.
\<close>

theorem suggestions_disclose_visible_work_only:
  assumes "project_suggestions h alerts actions visible rv = Inr items" "g \<in> set items"
  shows "\<exists>a\<in>set alerts. sg_id g = suggestion_identifier h a \<and>
    (case sg_converted_action_id g of
       Some i \<Rightarrow> i \<in> set visible \<and> \<not> sg_conversion_blocked g
         \<and> (\<exists>w. matched_actions h a actions = [w] \<and> act_id w = i \<and> act_account_id w = Some (sg_account_id g))
     | None \<Rightarrow> (sg_conversion_blocked g \<longleftrightarrow> matched_actions h a actions \<noteq> [])
         \<and> (\<forall>w. matched_actions h a actions = [w] \<longrightarrow> act_id w \<notin> set visible))"
proof (rule project_suggestions_cases[of h actions visible rv alerts])
  fix xs
  assume "set xs = suggestion_item h actions visible rv ` set alerts"
    and "project_suggestions h alerts actions visible rv = Inr (sort_key sg_id xs)"
  then obtain a where a: "a \<in> set alerts" "g = suggestion_item h actions visible rv a" using assms by auto
  let ?m = "matched_actions h a actions"
  have acc: "w \<in> set ?m \<Longrightarrow> act_account_id w = Some (al_account_id a)" for w by (simp add: matched_actions_def)
  have "case sg_converted_action_id g of
       Some i \<Rightarrow> i \<in> set visible \<and> \<not> sg_conversion_blocked g
         \<and> (\<exists>w. ?m = [w] \<and> act_id w = i \<and> act_account_id w = Some (sg_account_id g))
     | None \<Rightarrow> (sg_conversion_blocked g \<longleftrightarrow> ?m \<noteq> []) \<and> (\<forall>w. ?m = [w] \<longrightarrow> act_id w \<notin> set visible)"
  proof (cases "\<exists>w. ?m = [w] \<and> act_id w \<in> set visible")
    case True
    then obtain w where w: "?m = [w]" "act_id w \<in> set visible" by blast
    then show ?thesis using a(2) acc[of w] item_conversion[of h actions visible rv a] by (simp add: suggestion_item_def Let_def)
  next
    case False
    then show ?thesis using a(2) item_conversion[of h actions visible rv a] by (auto split: list.splits)
  qed
  then show ?thesis using a by (intro bexI[of _ a]) (simp_all add: suggestion_item_def Let_def)
qed (use assms in simp)

section \<open>A concrete projection\<close>

definition sugg_hash :: hashing where
  "sugg_hash = \<lparr>h_text = (\<lambda>_. []), h_json = (\<lambda>_. ''d'')\<rparr>"

definition sugg_time :: datetime where
  "sugg_time = \<lparr>dt_local = 63800000000000000, dt_offset = Some 0\<rparr>"

definition sugg_alert :: commercial_alert where
  "sugg_alert = \<lparr>al_id = ''alert-1'', al_account_id = ''acc'', al_type = STALE_QUOTE, al_business_unit = Some ''bu'',
     al_severity = ''HIGH'', al_trigger_reason = ''old'', al_actual_value = AV_int 40, al_threshold = AV_int 30,
     al_evidence_ids = [''q1''], al_observed_at = sugg_time, al_recommended_action = ''Call'', al_owner_id = None,
     al_status = ''OPEN'', al_synthetic = True, al_provenance_state = ''SAMPLE'', al_order_data_required = False,
     al_subject_id = None, al_hard_stop = False\<rparr>"

definition sugg_action :: "string \<Rightarrow> action" where
  "sugg_action i = \<lparr>act_id = i, act_account_id = Some ''acc'', act_title = ''Call'', act_description = None,
     act_owner_id = None, act_priority = P_LOW, act_due_date = None, act_status = OPEN, act_approval_status = NOT_REQUIRED,
     act_source_suggestion_id = Some ''alert-stale_quote-acc-bu:7'', act_evidence_ids = [''q1''], act_created_by = ''u'',
     act_created_at = sugg_time, act_updated_at = sugg_time, act_completed_at = None, act_canceled_at = None, act_version = 1,
     act_context_referents = [], act_previous_status = None, act_approval_requested_by = None,
     act_approval_comment = None, act_subtasks = []\<rparr>"

lemma sugg_identifier: "suggestion_identifier sugg_hash a = ''suggestion-v2-d''"
  by (simp add: suggestion_identifier_def sugg_hash_def)

lemma sugg_prefix: "legacy_prefix sugg_alert = ''alert-stale_quote-acc-bu''"
  by code_simp

lemma sugg_numbered: "numbered_after ''alert-stale_quote-acc-bu'' ''alert-stale_quote-acc-bu:7''"
  by code_simp

lemma sugg_matched: "matched_actions sugg_hash sugg_alert [sugg_action i] = [sugg_action i]"
  using sugg_numbered unfolding matched_actions_def sugg_identifier sugg_prefix
  by (simp add: sugg_action_def sugg_alert_def)

lemma sugg_projected:
  "\<exists>g. project_suggestions sugg_hash [sugg_alert, sugg_alert] [sugg_action ''w1''] [''w1''] ''r'' = Inr [g]
     \<and> sg_converted_action_id g = Some ''w1''"
  by (simp add: project_suggestions_def suggestion_item_def Let_def sugg_matched dict_simps dvalues_def) (simp add: sugg_action_def)

theorem suggestions_depend_on_alert_set_witness:
  "project_suggestions sugg_hash [sugg_alert, sugg_alert] [] [] ''r'' = project_suggestions sugg_hash [sugg_alert] [] [] ''r''"
  using suggestions_depend_on_alert_set[of "[sugg_alert, sugg_alert]" "[sugg_alert]" sugg_hash "[]" "[]" "''r''"] by simp

theorem suggestions_disclose_visible_work_only_witness:
  "\<exists>g. project_suggestions sugg_hash [sugg_alert, sugg_alert] [sugg_action ''w1''] [''w1''] ''r'' = Inr [g]
     \<and> sg_converted_action_id g = Some ''w1'' \<and> \<not> sg_conversion_blocked g"
proof -
  obtain g where g: "project_suggestions sugg_hash [sugg_alert, sugg_alert] [sugg_action ''w1''] [''w1''] ''r'' = Inr [g]"
    "sg_converted_action_id g = Some ''w1''"
    using sugg_projected by blast
  show ?thesis using suggestions_disclose_visible_work_only[OF g(1), of g] g by auto
qed

end
