(* ===== verification/RouteRubric.thy ===== *)
theory RouteRubric
  imports Rubric "HOL-Library.While_Combinator"
begin

text \<open>
  The commercial route rubric, \<^verbatim>\<open>modules/relationships/rubric.py\<close>: the utility of a route and
  the greedy choice of alternatives. Decimal sums and products of quotients are not exact, so they round
  to 28 digits here. The loop is a \<open>while_option\<close>, whose \<open>None\<close> is a loop that does not end.
\<close>

section \<open>Utility\<close>

definition dmul :: "decimal \<Rightarrow> decimal \<Rightarrow> decimal" where
  "dmul a b = dec28 (a * b)"

definition dadd :: "decimal \<Rightarrow> decimal \<Rightarrow> decimal" where
  "dadd a b = dec28 (a + b)"

definition COEFFICIENTS :: "decimal list" where
  "COEFFICIENTS = [40/100, 25/100, 20/100, 10/100, 5/100]"

record route_factors =
  rf_bottleneck :: int
  rf_relevance :: int
  rf_evidence :: int
  rf_freshness :: int
  rf_coverage :: decimal

definition route_factors_post_init :: "route_factors \<Rightarrow> (py_error, route_factors) result" where
  "route_factors_post_init f =
     (if list_ex (\<lambda>v. \<not> (0 \<le> v \<and> v \<le> 3)) [rf_bottleneck f, rf_relevance f, rf_evidence f]
      then Inl (ValueError ''B/R/E must be ordinal integers0..3'')
      else if \<not> (0 \<le> rf_freshness f \<and> rf_freshness f \<le> 2) then Inl (ValueError ''F must be ordinal integer0..2'')
      else if \<not> (0 \<le> rf_coverage f \<and> rf_coverage f \<le> 1) then Inl (ValueError ''Coverage must be finite0..1'')
      else Inr f)"

definition factor_values :: "route_factors \<Rightarrow> decimal list" where
  "factor_values f = [ddiv (of_int (rf_bottleneck f)) 3, ddiv (of_int (rf_relevance f)) 3, ddiv (of_int (rf_evidence f)) 3,
     ddiv (of_int (rf_freshness f)) 2, rf_coverage f]"

definition weighted_sum :: "decimal list \<Rightarrow> decimal list \<Rightarrow> decimal" where
  "weighted_sum cs vs = foldl dadd 0 (map2 dmul cs vs)"

definition raw_utility :: "decimal list \<Rightarrow> route_factors \<Rightarrow> int \<Rightarrow> decimal" where
  "raw_utility cs f hops = dadd (dmul 100 (weighted_sum cs (factor_values f))) (- of_int (2 * max 0 (hops - 1)))"

definition route_utility :: "decimal list \<Rightarrow> route_factors \<Rightarrow> int \<Rightarrow> (py_error, decimal) result" where
  "route_utility cs f hops =
     (if \<not> (1 \<le> hops \<and> hops \<le> 6) \<or> length cs \<noteq> 5 \<or> foldl dadd 0 cs \<noteq> 1 \<or> list_ex (\<lambda>c. c < 0) cs
      then Inl (ValueError ''Invalid bounded route/rubric configuration'')
      else Inr (quantize2 (min 100 (max 0 (raw_utility cs f hops)))))"

section \<open>Alternatives\<close>

record route =
  rt_path_id :: string
  rt_mode :: string
  rt_execution_status :: string
  rt_eligible :: bool
  rt_factors :: route_factors
  rt_hop_count :: int
  rt_utility :: decimal
  rt_edge_lineage :: "string list"
  rt_node_ids :: "string list"
  rt_source_lineage :: "string list"

definition jaccard :: "string list \<Rightarrow> string list \<Rightarrow> decimal" where
  "jaccard left right =
     (if left \<noteq> [] \<or> right \<noteq> []
      then ddiv (of_nat (card (set left \<inter> set right))) (of_nat (card (set left \<union> set right))) else 0)"

definition inner_nodes :: "string list \<Rightarrow> string list" where
  \<comment> \<open>\<open>node_ids[1:-1]\<close>\<close>
  "inner_nodes xs = butlast (drop 1 xs)"

definition route_redundancy :: "route \<Rightarrow> route \<Rightarrow> decimal" where
  "route_redundancy l r = dadd (dadd (dmul (50/100) (jaccard (rt_edge_lineage l) (rt_edge_lineage r)))
       (dmul (30/100) (jaccard (inner_nodes (rt_node_ids l)) (inner_nodes (rt_node_ids r)))))
     (dmul (20/100) (jaccard (rt_source_lineage l) (rt_source_lineage r)))"

definition qualifies :: "route \<Rightarrow> bool" where
  "qualifies r = (rt_eligible r \<and> 2 \<le> rf_bottleneck (rt_factors r) \<and> 2 \<le> rf_relevance (rt_factors r)
     \<and> 1 \<le> rf_evidence (rt_factors r))"

type_synonym selection = "(route \<times> decimal) list"  \<comment> \<open>a route and its \<open>diversity_selection_score\<close>\<close>

definition diversity_score :: "selection \<Rightarrow> route \<Rightarrow> decimal" where
  "diversity_score selected r = dadd (ddiv (rt_utility r) 100)
     (- dmul (20/100) (Max (set (map (\<lambda>(c, v). route_redundancy r c) selected))))"

definition best_candidate :: "selection \<Rightarrow> route list \<Rightarrow> route" where
  \<comment> \<open>\<open>min(scored, key=...)\<close>: the first of the least\<close>
  "best_candidate selected candidates = hd (sort_key (\<lambda>r. (- diversity_score selected r, rt_path_id r)) candidates)"

definition loop_cond :: "nat \<Rightarrow> route list \<times> selection \<Rightarrow> bool" where
  "loop_cond limit st = (fst st \<noteq> [] \<and> length (snd st) < limit)"

definition loop_body :: "route list \<times> selection \<Rightarrow> route list \<times> selection" where
  "loop_body st = (case st of (candidates, selected) \<Rightarrow>
     (let chosen = best_candidate selected candidates
      in (remove1 chosen candidates,
          if list_all (\<lambda>(c, v). route_redundancy chosen c < 1) selected
          then selected @ [(chosen, diversity_score selected chosen)] else selected)))"

definition ranked_routes :: "route list \<Rightarrow> route list" where
  "ranked_routes routes = sort_key (\<lambda>r. (- rt_utility r, rt_path_id r)) (filter qualifies routes)"

definition select_alternatives :: "route list \<Rightarrow> int \<Rightarrow> (py_error, selection) result option" where
  \<comment> \<open>\<open>None\<close>: the loop does not end\<close>
  "select_alternatives routes limit =
     (if \<not> (1 \<le> limit \<and> limit \<le> 3) then Some (Inl (ValueError ''At most three route cards are configured''))
      else if filter qualifies routes = [] then Some (Inr [])
      else if length (remdups (map (\<lambda>r. (rt_mode r, rt_execution_status r)) (filter qualifies routes))) \<noteq> 1
      then Some (Inl (ValueError ''Rank alternatives separately by objective and execution status''))
      else (let best = hd (ranked_routes routes);
                candidates = filter (\<lambda>r. rt_utility best - 15 \<le> rt_utility r) (tl (ranked_routes routes))
            in map_option (\<lambda>st. Inr (snd st))
                 (while_option (loop_cond (nat limit)) loop_body (candidates, [(best, ddiv (rt_utility best) 100)]))))"

section \<open>Sensitivity\<close>

definition VARIANTS :: "decimal list list" where
  "VARIANTS = [COEFFICIENTS, [35/100, 30/100, 20/100, 10/100, 5/100], [45/100, 20/100, 20/100, 10/100, 5/100],
     [40/100, 20/100, 25/100, 10/100, 5/100], [40/100, 25/100, 15/100, 15/100, 5/100]]"

definition rescored :: "decimal list \<Rightarrow> route list \<Rightarrow> (py_error, route list) result" where
  "rescored cs routes = map_r (\<lambda>r. bind_r (route_utility cs (rt_factors r) (rt_hop_count r)) (\<lambda>u. Inr (r\<lparr>rt_utility := u\<rparr>))) routes"

definition variant_run :: "route list \<Rightarrow> decimal list \<Rightarrow> (py_error, string list) result option" where
  "variant_run routes cs =
     (case rescored cs routes of
        Inl e \<Rightarrow> Some (Inl e)
      | Inr scored \<Rightarrow> map_option (\<lambda>m. bind_r m (\<lambda>sel. Inr (map (rt_path_id \<circ> fst) sel))) (select_alternatives scored 3))"

record sensitivity =
  sn_first_recommendation_stable :: bool
  sn_variants :: "(decimal list \<times> string list) list"

fun run_variants :: "route list \<Rightarrow> decimal list list \<Rightarrow> (py_error, (decimal list \<times> string list) list) result option" where
  "run_variants routes [] = Some (Inr [])"
| "run_variants routes (cs # rest) =
     (case variant_run routes cs of
        None \<Rightarrow> None
      | Some (Inl e) \<Rightarrow> Some (Inl e)
      | Some (Inr ids) \<Rightarrow> map_option (\<lambda>m. bind_r m (\<lambda>runs. Inr ((cs, ids) # runs))) (run_variants routes rest))"

definition sensitivity_report :: "route list \<Rightarrow> (py_error, sensitivity) result option" where
  "sensitivity_report routes = map_option (\<lambda>m. bind_r m (\<lambda>runs.
     Inr \<lparr>sn_first_recommendation_stable =
            (length (remdups (map (\<lambda>(cs, ids). if ids = [] then None else Some (hd ids)) runs)) \<le> 1),
          sn_variants = runs\<rparr>)) (run_variants routes VARIANTS)"

section \<open>Utility grows with the factors\<close>

lemma dadd_mono: "a \<le> a' \<Longrightarrow> b \<le> b' \<Longrightarrow> dadd a b \<le> dadd a' b'"
  by (simp add: dadd_def dec28_mono add_mono)

lemma dmul_mono: "0 \<le> c \<Longrightarrow> a \<le> b \<Longrightarrow> dmul c a \<le> dmul c b"
  by (simp add: dmul_def dec28_mono mult_left_mono)

lemma ddiv_mono: "0 < c \<Longrightarrow> a \<le> b \<Longrightarrow> ddiv a c \<le> ddiv b c"
  by (simp add: ddiv_def dec28_mono divide_right_mono)

lemma weighted_fold_mono:
  assumes "list_all2 (\<le>) vs ws" "\<forall>c\<in>set cs. 0 \<le> c" "a \<le> b"
  shows "foldl dadd a (map2 dmul cs vs) \<le> foldl dadd b (map2 dmul cs ws)"
  using assms
proof (induction cs arbitrary: vs ws a b)
  case (Cons c cs)
  show ?case
  proof (cases vs)
    case (Cons v vs')
    then obtain w ws' where "ws = w # ws'" "v \<le> w" "list_all2 (\<le>) vs' ws'"
      using Cons.prems(1) by (auto simp: list_all2_Cons1)
    then show ?thesis using Cons Cons.IH[of vs' ws' "dadd a (dmul c v)" "dadd b (dmul c w)"] Cons.prems
      by (simp add: dadd_mono dmul_mono)
  qed (use Cons.prems in simp)
qed simp

definition no_weaker :: "route_factors \<Rightarrow> route_factors \<Rightarrow> bool" where
  "no_weaker f g = (rf_bottleneck f \<le> rf_bottleneck g \<and> rf_relevance f \<le> rf_relevance g \<and> rf_evidence f \<le> rf_evidence g
     \<and> rf_freshness f \<le> rf_freshness g \<and> rf_coverage f \<le> rf_coverage g)"

lemma factor_values_mono: "no_weaker f g \<Longrightarrow> list_all2 (\<le>) (factor_values f) (factor_values g)"
  by (simp add: no_weaker_def factor_values_def ddiv_mono)

lemma raw_utility_mono:
  assumes "no_weaker f g" "hg \<le> hf" "\<forall>c\<in>set cs. 0 \<le> c"
  shows "raw_utility cs f hf \<le> raw_utility cs g hg"
  unfolding raw_utility_def weighted_sum_def
  by (intro dadd_mono dmul_mono weighted_fold_mono factor_values_mono) (use assms in auto)

lemma clamp_mono: "x \<le> y \<Longrightarrow> quantize2 (min 100 (max 0 x)) \<le> quantize2 (min 100 (max 0 (y::rat)))"
  by (rule quantize2_mono) auto

section \<open>The loop\<close>

lemma best_candidate_in: "candidates \<noteq> [] \<Longrightarrow> best_candidate selected candidates \<in> set candidates"
  unfolding best_candidate_def by (metis hd_in_set set_sort sort_key_simps(1) set_empty)

lemma loop_ends:
  assumes "P st" "\<And>st. P st \<Longrightarrow> loop_cond n st \<Longrightarrow> P (loop_body st)"
  shows "\<exists>t. P t \<and> while_option (loop_cond n) loop_body st = Some t \<and> \<not> loop_cond n t"
proof -
  have "length (fst (loop_body s)) < length (fst s)" if c: "loop_cond n s" for s
  proof -
    have "best_candidate (snd s) (fst s) \<in> set (fst s)" "fst s \<noteq> []"
      using c best_candidate_in by (auto simp: loop_cond_def)
    then show ?thesis by (auto simp: loop_body_def Let_def length_remove1 split: prod.splits)
  qed
  then obtain t where t: "while_option (loop_cond n) loop_body st = Some t"
    using measure_while_option_Some[of P "loop_cond n" loop_body "\<lambda>s. length (fst s)" st] assms by blast
  have "P t" by (rule while_option_rule[OF assms(2) t assms(1)])
  then show ?thesis using t while_option_stop[OF t] by blast
qed

definition spread :: "selection \<Rightarrow> bool" where
  \<comment> \<open>no later card repeats an earlier one\<close>
  "spread sel = sorted_wrt (\<lambda>x y. route_redundancy (fst y) (fst x) < 1) sel"

definition loop_inv :: "route \<Rightarrow> route set \<Rightarrow> nat \<Rightarrow> route list \<times> selection \<Rightarrow> bool" where
  "loop_inv best pool n st = (set (fst st) \<subseteq> pool \<and> fst ` set (snd st) \<subseteq> insert best pool \<and> snd st \<noteq> []
     \<and> fst (hd (snd st)) = best \<and> length (snd st) \<le> n \<and> spread (snd st))"

lemma loop_inv_step: "loop_inv best pool n st \<Longrightarrow> loop_cond n st \<Longrightarrow> loop_inv best pool n (loop_body st)"
proof -
  assume i: "loop_inv best pool n st" and c: "loop_cond n st"
  obtain cands sel where st: "st = (cands, sel)" by (cases st)
  let ?b = "best_candidate sel cands"
  have "?b \<in> set cands" using c st best_candidate_in by (simp add: loop_cond_def)
  moreover have "set (remove1 ?b cands) \<subseteq> set cands" by (rule set_remove1_subset)
  ultimately show ?thesis
    using i c st by (auto simp: loop_inv_def loop_cond_def loop_body_def Let_def spread_def sorted_wrt_append list_all_iff)
qed

lemma ranked_set: "set (ranked_routes routes) = {r \<in> set routes. qualifies r}"
  by (auto simp: ranked_routes_def)

lemma ranked_best:
  assumes "r \<in> set routes" "qualifies r"
  shows "rt_utility r \<le> rt_utility (hd (ranked_routes routes))"
proof -
  let ?k = "\<lambda>r. (- rt_utility r, rt_path_id r)"
  have s: "sorted (map ?k (ranked_routes routes))" by (simp add: ranked_routes_def)
  have m: "r \<in> set (ranked_routes routes)" using assms by (simp add: ranked_set)
  then obtain x xs where x: "ranked_routes routes = x # xs" by (cases "ranked_routes routes") auto
  have "?k x \<le> ?k r" using s m x by auto
  then show ?thesis by (auto simp: x less_eq_prod_def)
qed

lemma select_cases:
  obtains (limit) "\<not> (1 \<le> limit \<and> limit \<le> 3)" "\<exists>e. select_alternatives routes limit = Some (Inl e)"
  | (none) "1 \<le> limit" "limit \<le> 3" "filter qualifies routes = []" "select_alternatives routes limit = Some (Inr [])"
  | (mixed) "1 \<le> limit" "limit \<le> 3" "filter qualifies routes \<noteq> []"
      "length (remdups (map (\<lambda>r. (rt_mode r, rt_execution_status r)) (filter qualifies routes))) \<noteq> 1"
      "\<exists>e. select_alternatives routes limit = Some (Inl e)"
  | (cards) sel where "1 \<le> limit" "limit \<le> 3" "filter qualifies routes \<noteq> []"
      "length (remdups (map (\<lambda>r. (rt_mode r, rt_execution_status r)) (filter qualifies routes))) = 1"
      "select_alternatives routes limit = Some (Inr sel)" "fst (hd sel) = hd (ranked_routes routes)" "sel \<noteq> []"
      "length sel \<le> nat limit" "spread sel"
      "\<forall>r\<in>fst ` set sel. r \<in> set routes \<and> qualifies r \<and> rt_utility (hd (ranked_routes routes)) - 15 \<le> rt_utility r"
proof -
  consider "\<not> (1 \<le> limit \<and> limit \<le> 3)" | "1 \<le> limit" "limit \<le> 3" "filter qualifies routes = []"
    | "1 \<le> limit" "limit \<le> 3" "filter qualifies routes \<noteq> []"
      "length (remdups (map (\<lambda>r. (rt_mode r, rt_execution_status r)) (filter qualifies routes))) \<noteq> 1"
    | "1 \<le> limit" "limit \<le> 3" "filter qualifies routes \<noteq> []"
      "length (remdups (map (\<lambda>r. (rt_mode r, rt_execution_status r)) (filter qualifies routes))) = 1" by blast
  then show ?thesis
  proof cases
    case 4
    let ?best = "hd (ranked_routes routes)"
    let ?pool = "{r \<in> set routes. qualifies r \<and> rt_utility ?best - 15 \<le> rt_utility r}"
    let ?st = "(filter (\<lambda>r. rt_utility ?best - 15 \<le> rt_utility r) (tl (ranked_routes routes)), [(?best, ddiv (rt_utility ?best) 100)])"
    have ne: "ranked_routes routes \<noteq> []" using 4(3) by (metis ranked_routes_def set_empty set_sort)
    have best: "?best \<in> ?pool" using hd_in_set[OF ne] by (simp add: ranked_set)
    have "set (fst ?st) \<subseteq> ?pool" using ranked_set[of routes] list.set_sel(2)[OF ne] by auto
    then have "loop_inv ?best ?pool (nat limit) ?st" using 4(1) by (simp add: loop_inv_def spread_def)
    then obtain t where t: "loop_inv ?best ?pool (nat limit) t"
      "while_option (loop_cond (nat limit)) loop_body ?st = Some t"
      using loop_ends[of "loop_inv ?best ?pool (nat limit)" ?st "nat limit"] loop_inv_step by blast
    have "select_alternatives routes limit = Some (Inr (snd t))"
      using 4 t(2) by (simp add: select_alternatives_def Let_def)
    then show ?thesis using t(1) best 4 by (intro cards) (auto simp: loop_inv_def)
  qed (use limit none mixed in \<open>simp_all add: select_alternatives_def\<close>)
qed

lemma select_returns: "\<exists>m. select_alternatives routes limit = Some m"
  by (rule select_cases[of limit routes]) auto

lemma run_variants_return: "\<exists>m. run_variants routes vs = Some m"
proof (induction vs)
  case (Cons cs vs)
  have "\<exists>m. variant_run routes cs = Some m"
  proof (cases "rescored cs routes")
    case (Inr scored)
    then show ?thesis using select_returns[of scored 3] by (auto simp: variant_run_def)
  qed (simp add: variant_run_def)
  then obtain m where "variant_run routes cs = Some m" by blast
  then show ?case using Cons by (cases m) auto
qed simp

section \<open>Properties\<close>

text \<open>
  The utility of a route is computed exactly for one to six hops with five non-negative coefficients
  that add up to one; it lies between 0 and 100, and a route that is no weaker in any factor and no longer
  never has a lower utility: the roundings keep the order.
\<close>

theorem route_utility_governed:
  assumes "no_weaker f g" "hg \<le> hf"
    and "route_utility cs f hf = Inr u" "route_utility cs g hg = Inr v"
  shows "0 \<le> u \<and> u \<le> v \<and> v \<le> 100"
proof -
  have c: "\<forall>c\<in>set cs. 0 \<le> c" and u: "u = quantize2 (min 100 (max 0 (raw_utility cs f hf)))"
    and v: "v = quantize2 (min 100 (max 0 (raw_utility cs g hg)))"
    using assms(3,4) by (auto simp: route_utility_def list_ex_iff split: if_splits)
  have "u \<le> v" unfolding u v by (rule clamp_mono) (rule raw_utility_mono[OF assms(1,2) c])
  moreover have "0 \<le> u" unfolding u by (rule cents.rnd_lower) simp_all
  moreover have "v \<le> 100" unfolding v by (rule cents.rnd_upper) simp_all
  ultimately show ?thesis by blast
qed

text \<open>
  The greedy loop always ends: every call of the selection and every sensitivity report returns, with a
  result or an error.
\<close>

theorem route_selection_terminates:
  "(\<exists>m. select_alternatives routes limit = Some m) \<and> (\<exists>m. sensitivity_report routes = Some m)"
  using select_returns run_variants_return by (simp add: sensitivity_report_def)

text \<open>
  C27. A successful selection shows no card exactly when no route qualifies. Otherwise its cards are
  qualifying routes, at most the limit, the first one of greatest utility, every one within fifteen points
  of it, no later one fully redundant with an earlier one, and all of one objective and execution status.
\<close>

theorem selected_alternatives_sound:
  assumes "select_alternatives routes limit = Some (Inr sel)"
  shows "int (length sel) \<le> limit \<and> limit \<le> 3 \<and> spread sel \<and> (sel = [] \<longleftrightarrow> filter qualifies routes = [])
    \<and> (\<forall>r\<in>fst ` set sel. r \<in> set routes \<and> qualifies r \<and> rt_utility (fst (hd sel)) - 15 \<le> rt_utility r
         \<and> rt_mode r = rt_mode (fst (hd sel)) \<and> rt_execution_status r = rt_execution_status (fst (hd sel)))
    \<and> (\<forall>r\<in>set routes. qualifies r \<longrightarrow> sel \<noteq> [] \<and> rt_utility r \<le> rt_utility (fst (hd sel)))"
proof (rule select_cases[of limit routes])
  fix s
  assume l: "1 \<le> limit" "limit \<le> 3" and ne: "filter qualifies routes \<noteq> []"
    and one: "length (remdups (map (\<lambda>r. (rt_mode r, rt_execution_status r)) (filter qualifies routes))) = 1"
    and s: "select_alternatives routes limit = Some (Inr s)" "fst (hd s) = hd (ranked_routes routes)" "s \<noteq> []"
      "length s \<le> nat limit" "spread s"
      "\<forall>r\<in>fst ` set s. r \<in> set routes \<and> qualifies r \<and> rt_utility (hd (ranked_routes routes)) - 15 \<le> rt_utility r"
  have [simp]: "s = sel" using s(1) assms by simp
  obtain g where g: "set (map (\<lambda>r. (rt_mode r, rt_execution_status r)) (filter qualifies routes)) = {g}"
    using one by (metis length_remdups_card_conv card_1_singletonE)
  have same: "(rt_mode r, rt_execution_status r) = g" if "r \<in> set routes" "qualifies r" for r
    using that g by (auto simp: image_def set_eq_iff)
  have hd: "fst (hd sel) \<in> set routes" "qualifies (fst (hd sel))" using s(3,6) by (auto intro!: imageI hd_in_set)
  show ?thesis
    using s l ne ranked_best[of _ routes] same same[OF hd] by auto
qed (use assms in \<open>auto simp: spread_def filter_empty_conv\<close>)

section \<open>Concrete routes\<close>

lemma scaled_short: "\<bar>n\<bar> < 10 ^ 20 \<Longrightarrow> short_decimal (of_int n / 10 ^ k)"
proof (cases "n = 0")
  case False
  assume n: "\<bar>n\<bar> < 10 ^ 20"
  let ?x = "\<bar>of_int n / 10 ^ k :: rat\<bar>"
  let ?e = "adjusted_exp ?x"
  have x: "?x = of_int \<bar>n\<bar> / 10 ^ k" "0 < ?x" using False by simp_all
  have "10 powi ?e \<le> ?x" using adjusted_exp_bounds[OF x(2)] by simp
  also have "?x < 10 ^ 20 / 10 ^ k"
    using n unfolding x(1) by (intro divide_strict_right_mono) (simp_all flip: of_int_less_iff[where 'a = rat])
  also have "10 ^ 20 / 10 ^ k = (10::rat) powi (20 - int k)" by (simp add: power_int_diff)
  finally have lt: "(10::rat) powi ?e < 10 powi (20 - int k)" .
  have "?e < 20 - int k"
  proof (rule ccontr)
    assume "\<not> ?e < 20 - int k"
    then have "(10::rat) powi (20 - int k) \<le> 10 powi ?e" by (intro power_int_increasing) auto
    then show False using lt by simp
  qed
  then obtain m where "27 - ?e - int k = int m" 
    using zero_le_imp_eq_int[of "27 - ?e - int k"] by auto
  then have k: "- int k = int m + (?e - 27)" by simp
  have "?x = of_int \<bar>n\<bar> / 10 ^ k" by (rule x(1))
  also have "of_int \<bar>n\<bar> / 10 ^ k = (of_int \<bar>n\<bar> :: rat) * 10 powi (- int k)"
    by (simp add: power_int_minus divide_inverse)
  also have "\<dots> = of_int (\<bar>n\<bar> * 10 ^ m) * 10 powi (?e - 27)"
    unfolding k by (simp add: power_int_add)
  finally show ?thesis unfolding short_decimal_def by blast
qed (simp add: short_decimal_def)

lemma dec28_scaled: "\<bar>n\<bar> < 10 ^ 20 \<Longrightarrow> dec28 (of_int n / 10 ^ k) = of_int n / 10 ^ k"
  by (rule dec28_fix) (rule scaled_short)

definition demo_route :: "string \<Rightarrow> int \<Rightarrow> route" where
  "demo_route i v = \<lparr>rt_path_id = i, rt_mode = ''BUYER'', rt_execution_status = ''READY'', rt_eligible = True,
     rt_factors = \<lparr>rf_bottleneck = v, rf_relevance = v, rf_evidence = v, rf_freshness = 2, rf_coverage = 1\<rparr>,
     rt_hop_count = 2, rt_utility = 80, rt_edge_lineage = [i], rt_node_ids = [''a'', i, ''z''], rt_source_lineage = [i]\<rparr>"

lemma demo_loop:
  "loop_cond 2 ([demo_route ''p3'' 3], [(demo_route ''p1'' 3, 4/5)])"
  "loop_body ([demo_route ''p3'' 3], [(demo_route ''p1'' 3, 4/5)]) = ([], [(demo_route ''p1'' 3, 4/5), (demo_route ''p3'' 3, 4/5)])"
  "\<not> loop_cond 2 ([], [(demo_route ''p1'' 3, 4/5), (demo_route ''p3'' 3, 4/5)])"
  "ranked_routes [demo_route ''p1'' 3, demo_route ''p3'' 3] = [demo_route ''p1'' 3, demo_route ''p3'' 3]"
  "ddiv 80 100 = 4/5"
  by code_simp+

lemma demo_selected:
  "select_alternatives [demo_route ''p1'' 3, demo_route ''p3'' 3] 2 = Some (Inr [(demo_route ''p1'' 3, 4/5), (demo_route ''p3'' 3, 4/5)])"
proof -
  have "qualifies (demo_route i 3)" "rt_utility (demo_route i 3) = 80" "rt_mode (demo_route i 3) = ''BUYER''"
    "rt_execution_status (demo_route i 3) = ''READY''" for i by (simp_all add: demo_route_def qualifies_def)
  then show ?thesis
    by (simp add: demo_loop select_alternatives_def Let_def while_option_unfold[of _ _ "(_ # _, _)"] while_option_unfold[of _ _ "([], _)"])
qed

lemma demo_utilities:
  "route_utility COEFFICIENTS (rt_factors (demo_route ''p'' 0)) 2 = Inr 13"
  "route_utility COEFFICIENTS (rt_factors (demo_route ''p'' 3)) 2 = Inr 98"
  by code_simp+

theorem route_utility_governed_witness: "(0::rat) \<le> 13 \<and> (13::rat) \<le> 98 \<and> (98::rat) \<le> 100"
  by (rule route_utility_governed[OF _ _ demo_utilities]) (simp_all add: no_weaker_def demo_route_def)

theorem selected_alternatives_sound_witness:
  "select_alternatives [demo_route ''p1'' 3, demo_route ''p3'' 3] 2 = Some (Inr [(demo_route ''p1'' 3, 4/5), (demo_route ''p3'' 3, 4/5)])
     \<and> spread [(demo_route ''p1'' 3, 4/5), (demo_route ''p3'' 3, 4/5)]"
  using selected_alternatives_sound[OF demo_selected] demo_selected by blast

end
