(* ===== verification/MonitorContracts.thy ===== *)
theory MonitorContracts
  imports Domain
begin

text \<open>
  The vocabulary and the contracts of the Monitor: \<^verbatim>\<open>monitor/ontology.py\<close> and
  \<^verbatim>\<open>monitor/contracts.py\<close>. A \<open>_post_init\<close> function is a constructor check.
\<close>

section \<open>Vocabulary (monitor/ontology.py)\<close>

datatype event_type =
    UNCLASSIFIED_PUBLIC_UPDATE | CONTRACT_AWARD | SOLICITATION | CONTRACT_MODIFICATION | FACILITY_EXPANSION
  | CAPACITY_EXPANSION | NEW_FACILITY | PROGRAM_LAUNCH | PRODUCTION_RAMP | PRODUCT_LAUNCH | SUPPLIER_AWARD
  | SUPPLY_CHAIN_CHANGE | CAPITAL_INVESTMENT | M_AND_A | PARTNERSHIP | REGULATORY_APPROVAL | REGULATORY_CHANGE
  | GOVERNMENT_FUNDING | GRANT_AWARD | EXECUTIVE_CHANGE | EARNINGS_SIGNAL | BACKLOG_CHANGE | CONTRACT_REDUCTION
  | PROGRAM_CANCELLATION | FACILITY_CLOSURE | WORKFORCE_REDUCTION | FINANCIAL_DISTRESS | EXPORT_RESTRICTION
  | PRODUCTION_DELAY

datatype resolution_state = RS_RESOLVED | RS_AMBIGUOUS | RS_UNRESOLVED | RS_REJECTED

datatype seller_relevance_state = SR_ELIGIBLE | SR_NEEDS_REVIEW | SR_AMBIGUOUS | SR_UNRESOLVED | SR_REJECTED

datatype candidate_review_state = RV_PENDING_REVIEW | RV_AMBIGUOUS | RV_REJECTED | RV_READY_FOR_PROMOTION | RV_PROMOTED

datatype rejection_state =
    NOT_RELEVANT | NO_ENTITY_MATCH | AMBIGUOUS_ENTITY | DUPLICATE_EVENT | EXPIRED_EVENT | UNSUPPORTED_CLAIM
  | INSUFFICIENT_EVIDENCE | OUTSIDE_PHASE_1_SCOPE

datatype source_health_state =
    SH_NEVER_ATTEMPTED | SH_HEALTHY | SH_STALE | SH_PARTIAL | SH_WARNING | SH_FAILED | SH_DISABLED | SH_NOT_CONFIGURED

section \<open>Contracts (monitor/contracts.py)\<close>

definition may_aware :: "datetime option \<Rightarrow> string \<Rightarrow> (py_error, unit) result" where
  \<comment> \<open>\<open>if x is not None: require_aware(x, field)\<close>\<close>
  "may_aware t field = (case t of None \<Rightarrow> Inr () | Some v \<Rightarrow> require_aware v field)"

lemma may_aware_Inr [res_simps]: "may_aware t f = Inr u \<longleftrightarrow> (case t of None \<Rightarrow> True | Some v \<Rightarrow> aware v)"
  by (simp add: may_aware_def res_simps split: option.splits)

record monitor_source_identity =
  msi_source_system :: string
  msi_source_record_id :: string
  msi_source_native_ids :: "(string \<times> string) list"

record source_version =
  svn_source_record_id :: string
  svn_version_id :: "string option"
  svn_content_hash :: string
  svn_first_seen_at :: datetime
  svn_last_seen_at :: datetime
  svn_changed_at :: "datetime option"

definition source_version_post_init :: "source_version \<Rightarrow> (py_error, source_version) result" where
  "source_version_post_init v =
     bind_r (require_aware (svn_first_seen_at v) ''first_seen_at'') (\<lambda>_.
     bind_r (require_aware (svn_last_seen_at v) ''last_seen_at'') (\<lambda>_.
     bind_r (may_aware (svn_changed_at v) ''changed_at'') (\<lambda>_. Inr v)))"

record raw_evidence_reference =
  rev_id :: string
  rev_source_identity :: monitor_source_identity
  rev_source_version :: source_version
  rev_locator :: string
  rev_captured_at :: datetime
  rev_excerpt :: "string option"
  rev_media_type :: "string option"

definition raw_evidence_post_init :: "raw_evidence_reference \<Rightarrow> (py_error, raw_evidence_reference) result" where
  "raw_evidence_post_init r = bind_r (require_aware (rev_captured_at r) ''captured_at'') (\<lambda>_. Inr r)"

record source_observation =
  ob_id :: string
  ob_source_identity :: monitor_source_identity
  ob_source_version :: source_version
  ob_observed_at :: datetime
  ob_title :: string
  ob_raw_evidence :: raw_evidence_reference
  ob_source_published_at :: "datetime option"
  ob_raw_payload_locator :: "string option"
  ob_source_tier :: string
  ob_collection_run_id :: "string option"
  ob_structured_payload :: "string option"

definition source_observation_post_init :: "source_observation \<Rightarrow> (py_error, source_observation) result" where
  "source_observation_post_init ob =
     bind_r (require_aware (ob_observed_at ob) ''observed_at'') (\<lambda>_.
     bind_r (may_aware (ob_source_published_at ob) ''source_published_at'') (\<lambda>_. Inr ob))"

record normalized_claim =
  ncl_predicate :: string
  ncl_value :: string
  ncl_evidence_ids :: "string list"
  ncl_extraction_method :: string
  ncl_extraction_confidence :: string

record event_evidence =
  eev_evidence_id :: string
  eev_claim_predicates :: "string list"
  eev_role :: string

record entity_resolution =
  er_mention :: string
  er_canonical_account_id :: "string option"
  er_state :: resolution_state
  er_method :: string
  er_confidence_basis :: string
  er_candidate_account_ids :: "string list"

record program_resolution =
  prs_mention :: "string option"
  prs_canonical_program_id :: "string option"
  prs_state :: resolution_state
  prs_method :: string
  prs_confidence_basis :: string

record intelligence_event =
  ie_id :: string
  ie_event_type :: event_type
  ie_subject_entities :: "entity_resolution list"
  ie_related_entities :: "entity_resolution list"
  ie_program :: program_resolution
  ie_geography :: "string option"
  ie_event_date :: "datetime option"
  ie_amount :: "decimal option"
  ie_currency :: "string option"
  ie_claims :: "normalized_claim list"
  ie_evidence :: "event_evidence list"
  ie_provenance :: provenance
  ie_source_confidence_basis :: string
  ie_extraction_confidence_basis :: string
  ie_entity_resolution_confidence_basis :: string
  ie_corroboration_strength :: string
  ie_resolution_state :: resolution_state
  ie_initiative_id :: "string option"
  ie_supersedes_event_id :: "string option"
  ie_seller_relevance_state :: seller_relevance_state
  ie_markets :: "string list"
  ie_recency_state :: string
  ie_canonical_facility_id :: "string option"
  ie_source_published_at :: "datetime option"

definition intelligence_event_post_init :: "intelligence_event \<Rightarrow> (py_error, intelligence_event) result" where
  "intelligence_event_post_init e =
     bind_r (may_aware (ie_event_date e) ''event_date'') (\<lambda>_.
     bind_r (may_aware (ie_source_published_at e) ''source_published_at'') (\<lambda>_.
     if ie_evidence e = [] then Inl (ValueError ''intelligence events require evidence lineage'') else Inr e))"

record event_cluster =
  clu_id :: string
  clu_event_id :: string
  clu_observation_ids :: "string list"
  clu_evidence_ids :: "string list"
  clu_related_event_ids :: "string list"
  clu_ambiguity_reason :: "string option"

record collection_cursor =
  ccu_source_id :: string
  ccu_token :: "string option"
  ccu_page :: "int option"
  ccu_updated_at :: "datetime option"

record collection_run =
  crn_id :: string
  crn_source_id :: string
  crn_started_at :: datetime
  crn_completed_at :: "datetime option"
  crn_cursor :: "collection_cursor option"
  crn_records_seen :: int
  crn_records_new :: int
  crn_records_changed :: int
  crn_records_rejected :: int
  crn_events_created :: int
  crn_events_matched :: int
  crn_failures :: "string list"
  crn_latency_ms :: "int option"
  crn_funnel :: "json option"

record source_health =
  shl_source_id :: string
  shl_state :: source_health_state
  shl_last_attempt_at :: datetime
  shl_last_success_at :: "datetime option"
  shl_warning_code :: "string option"
  shl_detail :: "string option"

record source_operational_status =
  sop_source_id :: string
  sop_source_name :: string
  sop_state :: source_health_state
  sop_collectable :: bool
  sop_content_structure :: string
  sop_credential_requirement :: string
  sop_targeting_inputs :: "string list"
  sop_freshness_threshold_hours :: int
  sop_last_attempt_at :: "datetime option"
  sop_last_success_at :: "datetime option"
  sop_failure_summary :: "string option"
  sop_durable_state :: bool
  sop_records_seen :: int
  sop_events_created :: int
  sop_seller_promotion_permitted :: bool

record rejected_observation =
  rob_observation_id :: string
  rob_state :: rejection_state
  rob_reason :: string
  rob_evidence_id :: string
  rob_rejected_at :: datetime

record organization_candidate =
  oc_id :: string
  oc_identity_key :: string
  oc_source_name :: string
  oc_normalized_name :: string
  oc_source_identifiers :: "(string \<times> string) list"
  oc_verified_domain :: "string option"
  oc_canonical_industry :: "string option"
  oc_provenance :: provenance
  oc_event_ids :: "string list"
  oc_observation_ids :: "string list"
  oc_resolution_state :: resolution_state
  oc_review_state :: candidate_review_state
  oc_resolution_reason :: string
  oc_candidate_account_ids :: "string list"
  oc_created_at :: datetime
  oc_observed_at :: datetime
  oc_promoted_account_id :: "string option"
  oc_promoted_at :: "datetime option"
  oc_promotion_provenance :: "provenance option"

definition organization_candidate_post_init :: "organization_candidate \<Rightarrow> (py_error, organization_candidate) result" where
  "organization_candidate_post_init c =
     bind_r (require_aware (oc_created_at c) ''created_at'') (\<lambda>_.
     bind_r (require_aware (oc_observed_at c) ''observed_at'') (\<lambda>_.
     bind_r (may_aware (oc_promoted_at c) ''promoted_at'') (\<lambda>_. Inr c)))"

record program_candidate =
  pc_id :: string
  pc_identity_key :: string
  pc_source_name :: string
  pc_organization_candidate_id :: "string option"
  pc_canonical_account_id :: "string option"
  pc_event_type :: event_type
  pc_provenance :: provenance
  pc_event_ids :: "string list"
  pc_resolution_state :: resolution_state
  pc_review_state :: candidate_review_state
  pc_created_at :: datetime
  pc_observed_at :: datetime
  pc_promoted_program_id :: "string option"
  pc_promoted_at :: "datetime option"
  pc_promotion_provenance :: "provenance option"

definition program_candidate_post_init :: "program_candidate \<Rightarrow> (py_error, program_candidate) result" where
  "program_candidate_post_init c =
     bind_r (require_aware (pc_created_at c) ''created_at'') (\<lambda>_.
     bind_r (require_aware (pc_observed_at c) ''observed_at'') (\<lambda>_.
     bind_r (may_aware (pc_promoted_at c) ''promoted_at'') (\<lambda>_. Inr c)))"

lemma organization_candidate_post_init_Inr [res_simps]:
  "organization_candidate_post_init c = Inr d \<longleftrightarrow> d = c \<and> aware (oc_created_at c) \<and> aware (oc_observed_at c)
     \<and> (case oc_promoted_at c of None \<Rightarrow> True | Some t \<Rightarrow> aware t)"
  by (auto simp: organization_candidate_post_init_def res_simps)

end
