(* ===== verification/MonitorPolicy.thy ===== *)
theory MonitorPolicy
  imports MonitorContracts Alerts "HOL-Library.Sublist"
begin

text \<open>
  \<^verbatim>\<open>monitor/policy.py\<close> (freshness, market and relevance), \<^verbatim>\<open>monitor/clustering.py\<close>
  (which observations are one event) and \<^verbatim>\<open>monitor/procurement.py\<close> (collection windows and
  retries). Every function gets the present time as an argument; a default of
  \<^verbatim>\<open>datetime.now(UTC)\<close> is a call with that time.
\<close>

section \<open>Policy\<close>

definition RECENT_WINDOW_DAYS :: int where "RECENT_WINDOW_DAYS = 30"

definition HISTORICAL_WINDOW_DAYS :: int where "HISTORICAL_WINDOW_DAYS = 180"

definition MARKET_KEYWORDS :: "(string \<times> string list) list" where
  "MARKET_KEYWORDS =
     [(''Commercial Aerospace'', [''commercial aircraft'', ''civil aviation'', ''business aviation'', ''passenger aircraft'', ''faa'']),
      (''Defense'', [''defense'', ''military'', ''missile'', ''weapon'', ''army'', ''navy'', ''air force'', ''dod'']),
      (''Space'', [''space'', ''launch'', ''rocket'', ''lunar'', ''satellite'', ''nasa'', ''artemis'']),
      (''Robotics'', [''robotics'', ''robotic system'', ''automation robot'', ''autonomous warehouse'']),
      (''Semiconductor'', [''semiconductor'', ''chip'', ''wafer'', ''fab'', ''lithography'', ''packaging'']),
      (''Energy'', [''energy'', ''nuclear'', ''fusion'', ''reactor'', ''turbine'', ''power grid'']),
      (''Medical'', [''medical'', ''device'', ''surgical'', ''fda'', ''healthcare'', ''diagnostic''])]"

definition MATERIAL_EVENT_TYPES :: "event_type list" where
  "MATERIAL_EVENT_TYPES =
     [CONTRACT_AWARD, CONTRACT_MODIFICATION, SOLICITATION, FACILITY_EXPANSION, CAPACITY_EXPANSION, NEW_FACILITY,
      PROGRAM_LAUNCH, PRODUCTION_RAMP, SUPPLIER_AWARD, SUPPLY_CHAIN_CHANGE, CAPITAL_INVESTMENT, M_AND_A, PARTNERSHIP,
      REGULATORY_APPROVAL, GOVERNMENT_FUNDING, GRANT_AWARD, BACKLOG_CHANGE, REGULATORY_CHANGE, FACILITY_CLOSURE,
      WORKFORCE_REDUCTION, FINANCIAL_DISTRESS, EXPORT_RESTRICTION, PRODUCTION_DELAY, EARNINGS_SIGNAL,
      CONTRACT_REDUCTION, PROGRAM_CANCELLATION]"

definition NOISE_TERMS :: "string list" where
  "NOISE_TERMS = [''charity'', ''philanthropy'', ''scholarship'', ''lifestyle'', ''award ceremony'', ''esg report'']"

definition contains_any :: "string list \<Rightarrow> string \<Rightarrow> bool" where
  \<comment> \<open>\<open>any(term in text.casefold() for term in terms)\<close>\<close>
  "contains_any terms text = list_ex (\<lambda>t. sublist t (lower text)) terms"

definition classify_markets :: "string \<Rightarrow> string list \<Rightarrow> string list" where
  "classify_markets text source_markets =
     (let matched = map fst (filter (\<lambda>(market, terms). contains_any terms text) MARKET_KEYWORDS);
          canonical = filter (\<lambda>m. m \<in> set PRIMARY_MARKET_ORDER) source_markets
      in if matched \<noteq> [] then matched else if length canonical = 1 then canonical else [])"

definition days :: "int \<Rightarrow> int" where
  "days n = n * day_micros"

definition monitor_recency :: "datetime option \<Rightarrow> datetime \<Rightarrow> string" where
  "monitor_recency event_date now =
     (case event_date of
        None \<Rightarrow> ''UNKNOWN''
      | Some t \<Rightarrow>
          (let age = instant now - instant t
           in if age < 0 then ''FUTURE'' else if age \<le> days RECENT_WINDOW_DAYS then ''RECENT''
              else if age \<le> days HISTORICAL_WINDOW_DAYS then ''HISTORICAL'' else ''STALE''))"

definition seller_relevance ::
  "event_type \<Rightarrow> datetime option \<Rightarrow> string list \<Rightarrow> resolution_state \<Rightarrow> string \<Rightarrow> datetime \<Rightarrow> seller_relevance_state" where
  "seller_relevance kind event_date markets resolution source_text now =
     (let freshness = monitor_recency event_date now
      in if freshness = ''STALE'' \<or> kind \<notin> set MATERIAL_EVENT_TYPES \<or> markets = [] \<or> contains_any NOISE_TERMS source_text
         then SR_REJECTED
         else if resolution = RS_AMBIGUOUS then SR_AMBIGUOUS
         else if resolution = RS_UNRESOLVED then SR_UNRESOLVED
         else if freshness = ''RECENT'' then SR_ELIGIBLE else SR_NEEDS_REVIEW)"

definition analysis_eligibility :: "datetime option \<Rightarrow> datetime \<Rightarrow> datetime \<Rightarrow> int \<Rightarrow> string" where
  "analysis_eligibility published_at collected_at now lifetime_days =
     (case published_at of
        None \<Rightarrow> ''PUBLICATION_DATE_REQUIRED''
      | Some t \<Rightarrow>
          (if instant now < instant t \<or> instant now < instant collected_at then ''INVALID_FUTURE_DATE''
           else if instant now - instant t \<le> days (max 1 lifetime_days) then ''ELIGIBLE'' else ''EXPIRED''))"

section \<open>Clusters\<close>

record cluster_decision =
  cdn_cluster :: event_cluster
  cdn_created :: bool
  cdn_source_record_changed :: bool

definition observation_changed :: "source_observation option \<Rightarrow> source_observation \<Rightarrow> bool" where
  "observation_changed previous current =
     (case previous of None \<Rightarrow> False
      | Some p \<Rightarrow> svn_content_hash (ob_source_version p) \<noteq> svn_content_hash (ob_source_version current))"

definition cluster_key :: "(string \<times> string \<times> string \<Rightarrow> string) \<Rightarrow> intelligence_event \<Rightarrow> string" where
  \<comment> \<open>\<open>digest\<close> is \<open>sha256(repr(identity)).hexdigest()\<close>\<close>
  "cluster_key digest e = take 24 (digest (''BTX_SOURCE_RECORD_CLUSTER_2'', prov_source_system (ie_provenance e),
     prov_source_record_id (ie_provenance e)))"

definition cluster_event ::
  "(string \<times> string \<times> string \<Rightarrow> string) \<Rightarrow> intelligence_event \<Rightarrow> source_observation \<Rightarrow> event_cluster option
    \<Rightarrow> (py_error, cluster_decision) result" where
  "cluster_event digest e ob existing =
     (case existing of
        None \<Rightarrow> Inr \<lparr>cdn_cluster = \<lparr>clu_id = cluster_key digest e, clu_event_id = ie_id e, clu_observation_ids = [ob_id ob],
            clu_evidence_ids = [rev_id (ob_raw_evidence ob)], clu_related_event_ids = [], clu_ambiguity_reason = None\<rparr>,
          cdn_created = True, cdn_source_record_changed = False\<rparr>
      | Some c \<Rightarrow>
          (if clu_id c \<noteq> cluster_key digest e
           then Inl (ValueError ''Cannot merge a different source record into this cluster'')
           else Inr \<lparr>cdn_cluster = \<lparr>clu_id = clu_id c, clu_event_id = ie_id e,
                clu_observation_ids = unique (clu_observation_ids c @ [ob_id ob]),
                clu_evidence_ids = unique (clu_evidence_ids c @ [rev_id (ob_raw_evidence ob)]),
                clu_related_event_ids = unique (clu_related_event_ids c @ (if clu_event_id c \<noteq> ie_id e then [clu_event_id c] else [])),
                clu_ambiguity_reason = clu_ambiguity_reason c\<rparr>,
              cdn_created = False, cdn_source_record_changed = (clu_event_id c \<noteq> ie_id e)\<rparr>))"

section \<open>Procurement windows\<close>

datatype coverage_state = CV_COMPLETE | CV_PARTIAL | CV_RATE_LIMITED | CV_FAILED | CV_AWAITING_CONTINUATION

record procurement_checkpoint =
  pk_source_id :: string
  pk_query_key :: string
  pk_query_value :: string
  pk_window_start :: datetime
  pk_window_end :: datetime
  pk_offset :: int
  pk_page_size :: int
  pk_total_records :: "int option"
  pk_coverage_state :: coverage_state
  pk_last_attempt_at :: "datetime option"
  pk_last_success_at :: "datetime option"
  pk_last_complete_at :: "datetime option"
  pk_next_retry_at :: "datetime option"
  pk_source_modified_at :: "datetime option"
  pk_records_collected :: int
  pk_records_created :: int
  pk_records_updated :: int
  pk_records_unchanged :: int
  pk_records_rejected :: int
  pk_failure_count :: int
  pk_last_error :: "string option"

definition checkpoint_pending :: "procurement_checkpoint \<Rightarrow> bool" where
  "checkpoint_pending c = (pk_coverage_state c \<noteq> CV_COMPLETE)"

record procurement_collection_result =
  pcr_observations :: "source_observation list"
  pcr_checkpoints :: "procurement_checkpoint list"
  pcr_warnings :: "string list"

definition shift :: "int \<Rightarrow> datetime \<Rightarrow> datetime" where
  \<comment> \<open>\<open>t + timedelta(microseconds=us)\<close>\<close>
  "shift us t = t\<lparr>dt_local := dt_local t + us\<rparr>"

definition initial_checkpoint :: "string \<Rightarrow> string \<Rightarrow> string \<Rightarrow> datetime \<Rightarrow> int \<Rightarrow> int \<Rightarrow> procurement_checkpoint" where
  "initial_checkpoint source_id query_key query_value now lookback_days page_size =
     \<lparr>pk_source_id = source_id, pk_query_key = query_key, pk_query_value = query_value,
      pk_window_start = shift (- days lookback_days) now, pk_window_end = now, pk_offset = 0, pk_page_size = page_size,
      pk_total_records = None, pk_coverage_state = CV_AWAITING_CONTINUATION, pk_last_attempt_at = None,
      pk_last_success_at = None, pk_last_complete_at = None, pk_next_retry_at = None, pk_source_modified_at = None,
      pk_records_collected = 0, pk_records_created = 0, pk_records_updated = 0, pk_records_unchanged = 0,
      pk_records_rejected = 0, pk_failure_count = 0, pk_last_error = None\<rparr>"

definition next_incremental_window :: "procurement_checkpoint \<Rightarrow> datetime \<Rightarrow> int \<Rightarrow> procurement_checkpoint" where
  "next_incremental_window c now overlap_days =
     (if pk_coverage_state c \<noteq> CV_COMPLETE then c
      else let start = shift (- days overlap_days) (pk_window_end c);
               start' = (if instant now < instant start then shift (- days overlap_days) now else start)
           in c\<lparr>pk_window_start := start', pk_window_end := now, pk_offset := 0, pk_total_records := None,
              pk_coverage_state := CV_AWAITING_CONTINUATION, pk_records_collected := 0, pk_records_created := 0,
              pk_records_updated := 0, pk_records_unchanged := 0, pk_records_rejected := 0, pk_last_error := None,
              pk_next_retry_at := None\<rparr>)"

definition retry_seconds :: "int \<Rightarrow> int" where
  \<comment> \<open>for a count that is not negative, as the collectors keep it\<close>
  "retry_seconds failure_count = min 3600 (30 * 2 ^ nat (min failure_count 7))"

definition retry_at :: "datetime \<Rightarrow> int \<Rightarrow> datetime" where
  "retry_at now failure_count = shift (retry_seconds failure_count * 1000000) now"

definition assume_utc :: "datetime \<Rightarrow> datetime" where
  \<comment> \<open>\<open>aware\<close>\<close>
  "assume_utc t = (if dt_offset t = None then t\<lparr>dt_offset := Some 0\<rparr> else t)"

end
