(* ===== verification/Candidates.thy ===== *)
theory Candidates
  imports MonitorPolicy WorkService Json_Read
begin

text \<open>
  \<^verbatim>\<open>monitor/candidates.py\<close>: candidates for organizations and programs that are not canonical.
  \<open>digest\<close> is \<^verbatim>\<open>sha256(key.encode()).hexdigest()\<close>, \<open>parse\<close> is \<^verbatim>\<open>json.loads\<close>
  (\<open>None\<close> a decoding error) and \<open>show\<close> is \<^verbatim>\<open>str\<close>. Program candidates are built for
  a stored organization candidate or for the first subject of the event.
\<close>

section \<open>Identity\<close>

definition IDENTIFIER_KINDS :: "string list" where
  "IDENTIFIER_KINDS = [''cage'', ''cik'', ''domain'', ''official_domain'', ''uei'']"

definition PROGRAM_FIELDS :: "string list" where
  "PROGRAM_FIELDS = [''Program Name'', ''program_name'', ''program'', ''program_title'']"

definition UNUSABLE_MENTIONS :: "string list" where
  "UNUSABLE_MENTIONS = [[], ''missing recipient'', ''unresolved source subject'']"

definition is_alnum :: "char \<Rightarrow> bool" where
  "is_alnum c = (let n = of_char c :: nat in is_digit c \<or> 97 \<le> n \<and> n \<le> 122 \<or> 65 \<le> n \<and> n \<le> 90)"

definition normalized_name :: "string \<Rightarrow> string" where
  "normalized_name value = filter is_alnum (lower value)"

definition explicit_program_mention ::
  "(string \<Rightarrow> json option) \<Rightarrow> (json \<Rightarrow> string) \<Rightarrow> source_observation \<Rightarrow> string option" where
  "explicit_program_mention parse show ob =
     (case parse (first_truthy (ob_structured_payload ob) ''{}'') of
        Some (J_obj kvs) \<Rightarrow>
          map_option (\<lambda>f. strip (show (j_read (J_obj kvs) f)))
            (first_match (\<lambda>f. py_truth (j_read (J_obj kvs) f) \<and> strip (show (j_read (J_obj kvs) f)) \<noteq> []) PROGRAM_FIELDS)
      | _ \<Rightarrow> None)"

definition authoritative_identifiers :: "source_observation \<Rightarrow> (string \<times> string) list" where
  "authoritative_identifiers ob = sort (map (\<lambda>(k, v). (lower k, strip v))
     (filter (\<lambda>(k, v). lower k \<in> set IDENTIFIER_KINDS \<and> strip v \<noteq> []) (msi_source_native_ids (ob_source_identity ob))))"

definition identity_key :: "string \<Rightarrow> source_observation \<Rightarrow> string" where
  "identity_key source_name ob =
     (let ids = authoritative_identifiers ob
      in if ids \<noteq> [] then ''identifier:'' @ join ''|'' (map (\<lambda>(k, v). k @ ''='' @ lower v) ids)
         else ''source-name:'' @ msi_source_system (ob_source_identity ob) @ '':'' @ normalized_name source_name)"

definition stable_id :: "(string \<Rightarrow> string) \<Rightarrow> string \<Rightarrow> string \<Rightarrow> string" where
  "stable_id digest kind key = kind @ ''-'' @ take 24 (digest key)"

definition review_state :: "intelligence_event \<Rightarrow> candidate_review_state" where
  "review_state e =
     (if ie_resolution_state e = RS_AMBIGUOUS then RV_AMBIGUOUS
      else if ie_resolution_state e = RS_REJECTED \<or> ie_seller_relevance_state e = SR_REJECTED then RV_REJECTED
      else RV_PENDING_REVIEW)"

section \<open>Candidates\<close>

definition later :: "datetime \<Rightarrow> datetime \<Rightarrow> datetime" where
  \<comment> \<open>\<open>max(a, b)\<close>\<close>
  "later a b = (if instant a < instant b then b else a)"

definition fresh_organization ::
  "(string \<Rightarrow> string) \<Rightarrow> intelligence_event \<Rightarrow> source_observation \<Rightarrow> entity_resolution \<Rightarrow> organization_candidate" where
  "fresh_organization digest e ob subject =
     (let source_name = strip (er_mention subject); key = identity_key source_name ob
      in \<lparr>oc_id = stable_id digest ''organization-candidate'' key, oc_identity_key = key, oc_source_name = source_name,
          oc_normalized_name = normalized_name source_name, oc_source_identifiers = authoritative_identifiers ob,
          oc_verified_domain = None,
          oc_canonical_industry = (case ie_markets e of [m] \<Rightarrow> Some m | _ \<Rightarrow> None), oc_provenance = ie_provenance e,
          oc_event_ids = [ie_id e], oc_observation_ids = [ob_id ob], oc_resolution_state = ie_resolution_state e,
          oc_review_state = review_state e, oc_resolution_reason = er_confidence_basis subject,
          oc_candidate_account_ids = er_candidate_account_ids subject, oc_created_at = ob_observed_at ob,
          oc_observed_at = ob_observed_at ob, oc_promoted_account_id = None, oc_promoted_at = None,
          oc_promotion_provenance = None\<rparr>)"

definition organization_candidate_for ::
  "(string \<Rightarrow> string) \<Rightarrow> intelligence_event \<Rightarrow> source_observation \<Rightarrow> organization_candidate option
    \<Rightarrow> (py_error, organization_candidate option) result" where
  "organization_candidate_for digest e ob existing =
     (case ie_subject_entities e of
        [] \<Rightarrow> Inr None
      | subject # _ \<Rightarrow>
          (if er_state subject = RS_RESOLVED \<or> lower (strip (er_mention subject)) \<in> set UNUSABLE_MENTIONS then Inr None
           else bind_r (organization_candidate_post_init (fresh_organization digest e ob subject)) (\<lambda>current.
             case existing of
               None \<Rightarrow> Inr (Some current)
             | Some old \<Rightarrow> map_sum id Some (organization_candidate_post_init (current\<lparr>oc_id := oc_id old,
                 oc_event_ids := unique (oc_event_ids old @ [ie_id e]),
                 oc_observation_ids := unique (oc_observation_ids old @ [ob_id ob]),
                 oc_created_at := oc_created_at old, oc_observed_at := later (oc_observed_at old) (ob_observed_at ob)\<rparr>)))))"

definition program_owner :: "intelligence_event \<Rightarrow> organization_candidate option \<Rightarrow> string option" where
  "program_owner e organization = (case organization of
     Some c \<Rightarrow> Some (oc_id c)
   | None \<Rightarrow> (case ie_subject_entities e of [] \<Rightarrow> None | s # _ \<Rightarrow> er_canonical_account_id s))"

definition program_key :: "intelligence_event \<Rightarrow> source_observation \<Rightarrow> organization_candidate option \<Rightarrow> string \<Rightarrow> string" where
  "program_key e ob organization source_name =
     ''program:'' @ first_truthy (program_owner e organization) ''unassigned'' @ '':''
       @ msi_source_system (ob_source_identity ob) @ '':'' @ normalized_name source_name"

definition fresh_program ::
  "(string \<Rightarrow> string) \<Rightarrow> intelligence_event \<Rightarrow> source_observation \<Rightarrow> organization_candidate option \<Rightarrow> string \<Rightarrow> program_candidate" where
  "fresh_program digest e ob organization source_name =
     (let key = program_key e ob organization source_name
      in \<lparr>pc_id = stable_id digest ''program-candidate'' key, pc_identity_key = key, pc_source_name = source_name,
          pc_organization_candidate_id = map_option oc_id organization,
          pc_canonical_account_id = (case ie_subject_entities e of [] \<Rightarrow> None | s # _ \<Rightarrow> er_canonical_account_id s),
          pc_event_type = ie_event_type e, pc_provenance = ie_provenance e, pc_event_ids = [ie_id e],
          pc_resolution_state = prs_state (ie_program e), pc_review_state = RV_PENDING_REVIEW,
          pc_created_at = ob_observed_at ob, pc_observed_at = ob_observed_at ob, pc_promoted_program_id = None,
          pc_promoted_at = None, pc_promotion_provenance = None\<rparr>)"

definition program_candidate_for ::
  "(string \<Rightarrow> string) \<Rightarrow> intelligence_event \<Rightarrow> source_observation \<Rightarrow> organization_candidate option
    \<Rightarrow> program_candidate option \<Rightarrow> (py_error, program_candidate option) result" where
  "program_candidate_for digest e ob organization existing =
     (if truthy (prs_canonical_program_id (ie_program e)) \<or> prs_state (ie_program e) \<noteq> RS_UNRESOLVED
         \<or> \<not> truthy (prs_mention (ie_program e))
      then Inr None
      else bind_r (program_candidate_post_init (fresh_program digest e ob organization (the (prs_mention (ie_program e))))) (\<lambda>current.
        case existing of
          None \<Rightarrow> Inr (Some current)
        | Some old \<Rightarrow> map_sum id Some (program_candidate_post_init (current\<lparr>pc_id := pc_id old,
            pc_event_ids := unique (pc_event_ids old @ [ie_id e]), pc_created_at := pc_created_at old,
            pc_observed_at := later (pc_observed_at old) (ob_observed_at ob)\<rparr>))))"

end
