(* ===== verification/Resolution.thy ===== *)
theory Resolution
  imports MonitorContracts Json_Read
begin

text \<open>
  \<^verbatim>\<open>monitor/resolution.py\<close>: a mention is resolved to a canonical account by exact governed
  evidence only, in a fixed order of stages. Text is ASCII, on which NFKC is the identity; a URL is
  read as \<^verbatim>\<open>urlparse\<close> reads it, without bracketed hosts.
\<close>

section \<open>Profiles and names\<close>

record watch_profile =
  wp_canonical_account_id :: string
  wp_legal_name :: string
  wp_aliases :: "string list"
  wp_subsidiaries :: "string list"
  wp_domain :: "string option"
  wp_newsroom_url :: "string option"
  wp_investor_relations_url :: "string option"
  wp_sec_cik :: "string option"
  wp_uei :: "string option"
  wp_cage :: "string option"
  wp_source_native_identifiers :: "(string \<times> string) list"
  wp_facilities :: "string list"
  wp_programs :: "string list"
  wp_industries :: "string list"
  wp_official_feed_urls :: "string list"
  wp_usaspending_recipient_names :: "string list"
  wp_usaspending_recipient_sources :: "(string \<times> string) list"

definition CORPORATE_SUFFIXES :: "string list" where
  "CORPORATE_SUFFIXES = [''inc'', ''incorporated'', ''corp'', ''corporation'', ''llc'', ''ltd'', ''limited'', ''plc'', ''co'', ''company'']"

definition is_word :: "char \<Rightarrow> bool" where
  \<comment> \<open>\<open>\w\<close>\<close>
  "is_word c = (let n = of_char c :: nat in is_digit c \<or> 97 \<le> n \<and> n \<le> 122 \<or> 65 \<le> n \<and> n \<le> 90 \<or> n = 95)"

fun word_runs :: "string \<Rightarrow> string \<Rightarrow> string list" where
  \<comment> \<open>\<open>re.findall(r"[\w]+", s)\<close>\<close>
  "word_runs cur [] = (if cur = [] then [] else [rev cur])"
| "word_runs cur (c # cs) = (if is_word c then word_runs (c # cur) cs
     else if cur = [] then word_runs [] cs else rev cur # word_runs [] cs)"

definition normalize_governed_name :: "string \<Rightarrow> string" where
  "normalize_governed_name value =
     join '' '' (rev (dropWhile (\<lambda>t. t \<in> set CORPORATE_SUFFIXES) (rev (word_runs [] (lower value)))))"

fun cut_at :: "string \<Rightarrow> string \<Rightarrow> (string \<times> string) option" where
  \<comment> \<open>the text before and after the first occurrence\<close>
  "cut_at sep [] = (if sep = [] then Some ([], []) else None)"
| "cut_at sep (c # cs) = (if starts_with sep (c # cs) then Some ([], drop (length sep) (c # cs))
     else map_option (\<lambda>(a, b). (c # a, b)) (cut_at sep cs))"

definition url_hostname :: "string \<Rightarrow> string" where
  \<comment> \<open>\<open>urlparse(url).hostname or ""\<close> for a URL that has \<open>://\<close>\<close>
  "url_hostname url =
     (let scheme = takeWhile (\<lambda>c. c \<noteq> CHR '':'') url;
          rest = drop (length scheme + 1) url;
          named = (scheme \<noteq> [] \<and> list_all (\<lambda>c. is_word c \<and> c \<noteq> CHR ''_'' \<or> c \<in> set ''+-.'') scheme
            \<and> is_word (hd scheme) \<and> \<not> is_digit (hd scheme) \<and> hd scheme \<noteq> CHR ''_'');
          netloc = (if named \<and> starts_with ''//'' rest
            then takeWhile (\<lambda>c. c \<notin> set ''/?#'') (drop 2 rest) else []);
          host = rev (takeWhile (\<lambda>c. c \<noteq> CHR ''@'') (rev netloc))
      in lower (takeWhile (\<lambda>c. c \<noteq> CHR '':'') host))"

definition host_of :: "string option \<Rightarrow> string option" where
  "host_of value =
     (if \<not> truthy value then None
      else let url = (if cut_at ''://'' (the value) = None then ''https://'' @ the value else the value);
               host = url_hostname url;
               bare = (if starts_with ''www.'' host then drop 4 host else host)
           in if bare = [] then None else Some bare)"

definition typed_identifier_match :: "watch_profile \<Rightarrow> string \<times> string \<Rightarrow> bool" where
  "typed_identifier_match p pair =
     (let kind = lower (fst pair); supplied = strip (snd pair);
          expected = (if kind = ''uei'' then wp_uei p else if kind = ''cage'' then wp_cage p
            else if kind = ''sec_cik'' \<or> kind = ''cik'' then wp_sec_cik p else None)
      in if supplied = [] \<or> \<not> truthy expected then False
         else if kind = ''sec_cik'' \<or> kind = ''cik''
         then list_all is_digit supplied \<and> list_all is_digit (the expected) \<and> digits_value supplied = digits_value (the expected)
         else lower supplied = lower (strip (the expected)))"

section \<open>Stages\<close>

definition identifier_stage :: "(string \<times> string) list \<Rightarrow> watch_profile \<Rightarrow> bool" where
  "identifier_stage ids p = list_ex (\<lambda>pair. pair \<in> set (wp_source_native_identifiers p) \<or> typed_identifier_match p pair) ids"

definition owner_stage :: "(string \<times> string) list \<Rightarrow> watch_profile \<Rightarrow> bool" where
  "owner_stage ids p = ((''governed_source_owner'', wp_canonical_account_id p) \<in> set ids)"

definition governed_names :: "watch_profile \<Rightarrow> string list" where
  "governed_names p = wp_legal_name p # wp_aliases p @ wp_subsidiaries p @ wp_usaspending_recipient_names p"

definition exact_stage :: "string \<Rightarrow> watch_profile \<Rightarrow> bool" where
  "exact_stage mention p = (strip (lower mention) \<in> set (map lower (governed_names p)))"

definition host_stage :: "string option \<Rightarrow> watch_profile \<Rightarrow> bool" where
  "host_stage source_url p = (host_of source_url \<noteq> None \<and> host_of source_url \<in>
     set (map host_of ([wp_domain p, wp_newsroom_url p, wp_investor_relations_url p] @ map Some (wp_official_feed_urls p))))"

definition normalized_stage :: "string \<Rightarrow> watch_profile \<Rightarrow> bool" where
  "normalized_stage mention p = (normalize_governed_name mention \<noteq> []
     \<and> normalize_governed_name mention \<in> set (map normalize_governed_name (governed_names p)))"

definition distinct_profiles :: "watch_profile list \<Rightarrow> watch_profile list" where
  "distinct_profiles ms = dvalues (foldl (\<lambda>d p. dset (wp_canonical_account_id p) p d) [] ms)"

text \<open>A stage: its matches, its method and basis, and those of a collision.\<close>

record stage =
  stg_matches :: "watch_profile list"
  stg_method :: string
  stg_basis :: string
  stg_collision :: string
  stg_collision_basis :: string

definition resolution_stages ::
  "string \<Rightarrow> watch_profile list \<Rightarrow> (string \<times> string) list \<Rightarrow> string option \<Rightarrow> stage list" where
  "resolution_stages mention profiles ids source_url =
     [\<lparr>stg_matches = distinct_profiles (filter (identifier_stage ids) profiles),
       stg_method = ''source_native_identifier_exact'', stg_basis = ''exact governed identifier'',
       stg_collision = ''source_native_identifier_collision'',
       stg_collision_basis = ''multiple governed accounts match supplied exact source identifiers''\<rparr>,
      \<lparr>stg_matches = distinct_profiles (filter (owner_stage ids) profiles),
       stg_method = ''governed_source_ownership'',
       stg_basis = ''source publisher is explicitly governed as owned by this account'',
       stg_collision = ''governed_source_ownership_collision'',
       stg_collision_basis = ''multiple governed source owners were supplied''\<rparr>,
      \<lparr>stg_matches = distinct_profiles (filter (exact_stage mention) profiles),
       stg_method = ''governed_name_exact'',
       stg_basis = ''exact governed legal name, alias, subsidiary, or source recipient name'',
       stg_collision = ''governed_alias_collision'', stg_collision_basis = ''multiple governed accounts share the mention''\<rparr>,
      \<lparr>stg_matches = distinct_profiles (filter (host_stage source_url) profiles),
       stg_method = ''governed_source_ownership'',
       stg_basis = ''source URL is governed as the account's official domain'',
       stg_collision = ''governed_source_ownership_collision'',
       stg_collision_basis = ''source ownership maps to multiple governed accounts''\<rparr>,
      \<lparr>stg_matches = distinct_profiles (filter (normalized_stage mention) profiles),
       stg_method = ''governed_name_normalized'', stg_basis = ''unambiguous safe normalization of governed name'',
       stg_collision = ''governed_name_normalization_collision'',
       stg_collision_basis = ''safe normalization maps to multiple governed accounts''\<rparr>]"

fun settle :: "string \<Rightarrow> stage list \<Rightarrow> entity_resolution" where
  "settle mention [] = \<lparr>er_mention = mention, er_canonical_account_id = None, er_state = RS_UNRESOLVED,
     er_method = ''no_governed_match'',
     er_confidence_basis = ''no governed identifier, name, source ownership, or unambiguous normalized name'',
     er_candidate_account_ids = []\<rparr>"
| "settle mention (s # rest) =
     (case stg_matches s of
        [] \<Rightarrow> settle mention rest
      | [p] \<Rightarrow> \<lparr>er_mention = mention, er_canonical_account_id = Some (wp_canonical_account_id p), er_state = RS_RESOLVED,
          er_method = stg_method s, er_confidence_basis = stg_basis s, er_candidate_account_ids = []\<rparr>
      | ps \<Rightarrow> \<lparr>er_mention = mention, er_canonical_account_id = None, er_state = RS_AMBIGUOUS,
          er_method = stg_collision s, er_confidence_basis = stg_collision_basis s,
          er_candidate_account_ids = map wp_canonical_account_id ps\<rparr>)"

definition resolve_entity ::
  "string \<Rightarrow> watch_profile list \<Rightarrow> (string \<times> string) list \<Rightarrow> string option \<Rightarrow> entity_resolution" where
  "resolve_entity mention profiles ids source_url = settle mention (resolution_stages mention profiles ids source_url)"

lemma host_examples:
  "host_of (Some ''www.Example.com/news'') = Some ''example.com''"
  "host_of (Some ''https://u@news.example.com:8443?x'') = Some ''news.example.com''"
  "host_of (Some []) = None"
  "normalize_governed_name ''The Boeing Company, Inc.'' = ''the boeing''"
  by code_simp+

section \<open>The reference\<close>

definition by_account :: "(string, watch_profile) dict \<Rightarrow> bool" where
  "by_account d = (dict_wf d \<and> (\<forall>(k, p)\<in>set d. wp_canonical_account_id p = k))"

lemma by_account_dset: "by_account d \<Longrightarrow> by_account (dset (wp_canonical_account_id p) p d)"
proof -
  assume d: "by_account d"
  have "set (dset k p d) \<subseteq> insert (k, p) (set d)" for k by (induction d) auto
  from this[of "wp_canonical_account_id p"] show ?thesis
    using d by (auto simp: by_account_def dict_simps)
qed

lemma keys_dset: "fst ` set (dset k p d) = insert k (fst ` set d)"
  by (induction d) auto

lemma foldl_profiles:
  "by_account d \<Longrightarrow> by_account (foldl (\<lambda>d p. dset (wp_canonical_account_id p) p d) d ms)
    \<and> fst ` set (foldl (\<lambda>d p. dset (wp_canonical_account_id p) p d) d ms) = fst ` set d \<union> wp_canonical_account_id ` set ms"
proof (induction ms arbitrary: d)
  case (Cons p ms)
  show ?case using Cons.IH[OF by_account_dset[OF Cons.prems, of p]] by (simp add: keys_dset)
qed simp

lemma distinct_profiles_ids:
  "set (map wp_canonical_account_id (distinct_profiles ms)) = wp_canonical_account_id ` set ms"
  "distinct (map wp_canonical_account_id (distinct_profiles ms))"
proof -
  let ?d = "foldl (\<lambda>d p. dset (wp_canonical_account_id p) p d) [] ms"
  have "by_account []" by (simp add: by_account_def dict_simps)
  then have d: "by_account ?d" "fst ` set ?d = wp_canonical_account_id ` set ms"
    using foldl_profiles[of "[]" ms] by simp_all
  have "map wp_canonical_account_id (distinct_profiles ms) = map fst ?d"
    using d(1) by (auto simp: distinct_profiles_def dvalues_def by_account_def)
  then show "set (map wp_canonical_account_id (distinct_profiles ms)) = wp_canonical_account_id ` set ms"
    "distinct (map wp_canonical_account_id (distinct_profiles ms))"
    using d by (simp_all add: dict_wf_def by_account_def)
qed

definition matching_accounts :: "watch_profile set \<Rightarrow> (watch_profile \<Rightarrow> bool) \<Rightarrow> string set" where
  "matching_accounts profiles P = wp_canonical_account_id ` {p \<in> profiles. P p}"

definition stage_tests :: "string \<Rightarrow> (string \<times> string) list \<Rightarrow> string option \<Rightarrow> (watch_profile \<Rightarrow> bool) list" where
  "stage_tests mention ids source_url =
     [identifier_stage ids, owner_stage ids, exact_stage mention, host_stage source_url, normalized_stage mention]"

text \<open>What a resolution says, as a set of accounts: nothing, one account, or the colliding accounts.\<close>

definition accounts_named :: "entity_resolution \<Rightarrow> string set" where
  "accounts_named r = set (er_candidate_account_ids r) \<union> set_option (er_canonical_account_id r)"

definition verdict :: "entity_resolution \<Rightarrow> string set \<Rightarrow> bool" where
  "verdict r accounts = (accounts_named r = accounts \<and> distinct (er_candidate_account_ids r)
     \<and> (er_state r = (if accounts = {} then RS_UNRESOLVED else if card accounts = 1 then RS_RESOLVED else RS_AMBIGUOUS))
     \<and> (er_canonical_account_id r \<noteq> None \<longleftrightarrow> er_state r = RS_RESOLVED)
     \<and> (er_candidate_account_ids r \<noteq> [] \<longleftrightarrow> er_state r = RS_AMBIGUOUS))"

definition reference_accounts :: "watch_profile set \<Rightarrow> (watch_profile \<Rightarrow> bool) list \<Rightarrow> string set" where
  \<comment> \<open>the accounts of the first stage that matches anything\<close>
  "reference_accounts profiles tests =
     (case first_match (\<lambda>A. A \<noteq> {}) (map (matching_accounts profiles) tests) of None \<Rightarrow> {} | Some A \<Rightarrow> A)"

lemma settle_verdict:
  assumes "list_all (\<lambda>s. distinct (map wp_canonical_account_id (stg_matches s))) stages"
  shows "verdict (settle mention stages)
    (case first_match (\<lambda>A. A \<noteq> {}) (map (\<lambda>s. wp_canonical_account_id ` set (stg_matches s)) stages) of None \<Rightarrow> {} | Some A \<Rightarrow> A)"
  using assms
proof (induction stages)
  case (Cons s rest)
  consider "stg_matches s = []" | p where "stg_matches s = [p]" | p q qs where "stg_matches s = p # q # qs"
    by (metis neq_Nil_conv)
  then show ?case
  proof cases
    case 1
    then show ?thesis using Cons by simp
  next
    case 2
    then show ?thesis by (simp add: verdict_def accounts_named_def)
  next
    case 3
    let ?ids = "map wp_canonical_account_id (stg_matches s)"
    have d: "distinct ?ids" using Cons.prems by simp
    have "card (set ?ids) = length ?ids" by (rule distinct_card[OF d])
    then have "card (wp_canonical_account_id ` set (stg_matches s)) \<noteq> 1" by (simp add: 3)
    then show ?thesis using d 3 by (simp add: verdict_def accounts_named_def)
  qed
qed (simp add: verdict_def accounts_named_def)

text \<open>
  C26. Entity resolution is the reference: take the first stage, in the fixed order, whose test matches some
  profile, and look at the set of accounts that match. No account gives UNRESOLVED, one gives RESOLVED with
  that account and no candidates, more give AMBIGUOUS with exactly those accounts, each once. An account is
  never guessed, and the order and repetition of the profiles do not matter.
\<close>

theorem resolution_is_reference:
  "verdict (resolve_entity mention profiles ids source_url)
     (reference_accounts (set profiles) (stage_tests mention ids source_url))"
proof -
  have m: "wp_canonical_account_id ` set (distinct_profiles (filter P profiles)) = matching_accounts (set profiles) P" for P
    using distinct_profiles_ids(1)[of "filter P profiles"] by (simp add: matching_accounts_def)
  show ?thesis
    using settle_verdict[of "resolution_stages mention profiles ids source_url" mention] distinct_profiles_ids(2)
    by (simp add: resolve_entity_def resolution_stages_def reference_accounts_def stage_tests_def m)
qed

end
