(* ===== verification/MonitorProps.thy ===== *)
theory MonitorProps
  imports Candidates Resolution
begin

text \<open>
  What the Monitor's policies promise: who may see an event, what one event cluster holds, that
  collection windows leave no gap, how long a retry waits, and what a candidate is.
\<close>

section \<open>Collecting without duplicates\<close>

lemma dedup_by_append: "dedup_by (\<lambda>x. x) seen (xs @ ys) = dedup_by (\<lambda>x. x) seen xs @ dedup_by (\<lambda>x. x) (rev (dedup_by (\<lambda>x. x) seen xs) @ seen) ys"
  by (induction xs arbitrary: seen) simp_all

lemma dedup_by_distinct_id: "distinct xs \<Longrightarrow> set xs \<inter> set seen = {} \<Longrightarrow> dedup_by (\<lambda>x. x) seen xs = xs"
  by (induction xs arbitrary: seen) auto

lemma unique_unique_append: "unique (unique xs @ ys) = unique (xs @ ys)"
proof -
  have "dedup_by (\<lambda>x. x) [] (unique xs) = unique xs" by (rule dedup_by_distinct_id) simp_all
  then show ?thesis by (simp add: unique_def dedup_by_append)
qed

lemma unique_single [simp]: "unique [x] = [x]" and unique_Nil [simp]: "unique [] = []"
  by (simp_all add: unique_def)

section \<open>A run of observations\<close>

type_synonym sighting = "intelligence_event \<times> source_observation"

fun cluster_run ::
  "(string \<times> string \<times> string \<Rightarrow> string) \<Rightarrow> event_cluster option \<Rightarrow> sighting list \<Rightarrow> (py_error, event_cluster option) result" where
  "cluster_run digest c [] = Inr c"
| "cluster_run digest c ((e, ob) # rest) = bind_r (cluster_event digest e ob c) (\<lambda>d. cluster_run digest (Some (cdn_cluster d)) rest)"

definition same_record :: "(string \<times> string \<times> string \<Rightarrow> string) \<Rightarrow> string \<Rightarrow> sighting list \<Rightarrow> bool" where
  "same_record digest key items = list_all (\<lambda>(e, ob). cluster_key digest e = key) items"

lemma cluster_run_some:
  "case cluster_run digest (Some c) items of
     Inl err \<Rightarrow> \<not> same_record digest (clu_id c) items
   | Inr None \<Rightarrow> False
   | Inr (Some d) \<Rightarrow> same_record digest (clu_id c) items \<and> clu_id d = clu_id c
       \<and> clu_event_id d = (if items = [] then clu_event_id c else ie_id (fst (last items)))
       \<and> (unique (clu_observation_ids c) = clu_observation_ids c \<longrightarrow>
            clu_observation_ids d = unique (clu_observation_ids c @ map (ob_id \<circ> snd) items))
       \<and> (unique (clu_evidence_ids c) = clu_evidence_ids c \<longrightarrow>
            clu_evidence_ids d = unique (clu_evidence_ids c @ map (rev_id \<circ> ob_raw_evidence \<circ> snd) items))"
proof (induction items arbitrary: c)
  case (Cons it rest)
  obtain e ob where it: "it = (e, ob)" by (cases it)
  show ?case
  proof (cases "clu_id c = cluster_key digest e")
    case True
    then obtain d where d: "cluster_event digest e ob (Some c) = Inr d" "clu_id (cdn_cluster d) = clu_id c"
      "clu_event_id (cdn_cluster d) = ie_id e" "clu_observation_ids (cdn_cluster d) = unique (clu_observation_ids c @ [ob_id ob])"
      "clu_evidence_ids (cdn_cluster d) = unique (clu_evidence_ids c @ [rev_id (ob_raw_evidence ob)])"
      by (simp add: cluster_event_def)
    have uu: "unique (unique xs) = unique xs" for xs :: "string list" using unique_unique_append[of xs "[]"] by simp
    show ?thesis
      using Cons.IH[of "cdn_cluster d"] d it True
      by (auto simp: same_record_def uu unique_unique_append comp_def split: sum.splits option.splits)
  next
    case False
    then show ?thesis using it by (auto simp: cluster_event_def same_record_def)
  qed
qed (simp add: same_record_def)

section \<open>Windows\<close>

definition covered :: "procurement_checkpoint \<Rightarrow> int \<Rightarrow> bool" where
  "covered c t = (instant (pk_window_start c) \<le> t \<and> t \<le> instant (pk_window_end c))"

fun window_run :: "int \<Rightarrow> procurement_checkpoint \<Rightarrow> datetime list \<Rightarrow> procurement_checkpoint list" where
  \<comment> \<open>the windows collected when each one is completed before the next is opened at the given times\<close>
  "window_run ov c [] = [c]"
| "window_run ov c (now # rest) =
     c # window_run ov (next_incremental_window (c\<lparr>pk_coverage_state := CV_COMPLETE\<rparr>) now ov) rest"

lemma instant_shift [simp]: "instant (shift us t) = instant t + us"
  by (simp add: shift_def instant_def)

lemma next_window_meets:
  assumes "0 \<le> ov"
  shows "instant (pk_window_start (next_incremental_window (c\<lparr>pk_coverage_state := CV_COMPLETE\<rparr>) now ov)) \<le> instant (pk_window_end c)"
    and "pk_window_end (next_incremental_window (c\<lparr>pk_coverage_state := CV_COMPLETE\<rparr>) now ov) = now"
  using assms by (auto simp: next_incremental_window_def Let_def days_def day_micros_def)

lemma window_run_nonempty [simp]: "window_run ov c stamps \<noteq> []"
  by (cases stamps) simp_all

lemma window_run_covers:
  assumes "0 \<le> ov" "instant (pk_window_start c) \<le> t" "t \<le> instant (pk_window_end (last (window_run ov c stamps)))"
  shows "\<exists>w\<in>set (window_run ov c stamps). covered w t"
  using assms(2,3)
proof (induction stamps arbitrary: c)
  case (Cons now rest)
  let ?n = "next_incremental_window (c\<lparr>pk_coverage_state := CV_COMPLETE\<rparr>) now ov"
  show ?case
  proof (cases "t \<le> instant (pk_window_end c)")
    case True
    then show ?thesis using Cons.prems(1) by (simp add: covered_def)
  next
    case False
    then have "instant (pk_window_start ?n) \<le> t" using next_window_meets(1)[OF assms(1), of c now] by linarith
    then show ?thesis using Cons.IH[of ?n] Cons.prems(2) by simp
  qed
qed (simp add: covered_def)

section \<open>A sighting to run the properties on\<close>

definition monitor_time :: datetime where
  "monitor_time = \<lparr>dt_local = 63900000000000000, dt_offset = Some 0\<rparr>"

definition monitor_identity :: monitor_source_identity where
  "monitor_identity = \<lparr>msi_source_system = ''sam'', msi_source_record_id = ''r1'', msi_source_native_ids = [(''UEI'', ''ABC'')]\<rparr>"

definition monitor_version :: source_version where
  "monitor_version = \<lparr>svn_source_record_id = ''r1'', svn_version_id = None, svn_content_hash = ''h'', svn_first_seen_at = monitor_time,
     svn_last_seen_at = monitor_time, svn_changed_at = None\<rparr>"

definition monitor_observation :: source_observation where
  "monitor_observation = \<lparr>ob_id = ''o1'', ob_source_identity = monitor_identity, ob_source_version = monitor_version,
     ob_observed_at = monitor_time, ob_title = ''Award'',
     ob_raw_evidence = \<lparr>rev_id = ''v1'', rev_source_identity = monitor_identity, rev_source_version = monitor_version,
       rev_locator = ''sam/r1'', rev_captured_at = monitor_time, rev_excerpt = None, rev_media_type = None\<rparr>,
     ob_source_published_at = None, ob_raw_payload_locator = None, ob_source_tier = ''PRIMARY'', ob_collection_run_id = None,
     ob_structured_payload = None\<rparr>"

definition monitor_event :: intelligence_event where
  "monitor_event = \<lparr>ie_id = ''e1'', ie_event_type = CONTRACT_AWARD,
     ie_subject_entities = [\<lparr>er_mention = ''Acme'', er_canonical_account_id = None, er_state = RS_UNRESOLVED, er_method = ''NONE'',
       er_confidence_basis = ''no match'', er_candidate_account_ids = []\<rparr>],
     ie_related_entities = [], ie_program = \<lparr>prs_mention = None, prs_canonical_program_id = None, prs_state = RS_UNRESOLVED,
       prs_method = ''NONE'', prs_confidence_basis = ''none''\<rparr>,
     ie_geography = None, ie_event_date = None, ie_amount = None, ie_currency = None, ie_claims = [],
     ie_evidence = [\<lparr>eev_evidence_id = ''v1'', eev_claim_predicates = [], eev_role = ''PRIMARY''\<rparr>],
     ie_provenance = \<lparr>prov_source_system = ''sam'', prov_source_record_id = ''r1'', prov_source_url = None,
       prov_observed_at = monitor_time, prov_recorded_at = monitor_time, prov_classification = PUBLIC,
       prov_evidence_state = CONFIRMED, prov_data_mode = SAMPLE, prov_synthetic = False, prov_sensitivity_tags = {},
       prov_missing_fields = []\<rparr>,
     ie_source_confidence_basis = [], ie_extraction_confidence_basis = [], ie_entity_resolution_confidence_basis = [],
     ie_corroboration_strength = [], ie_resolution_state = RS_UNRESOLVED, ie_initiative_id = None,
     ie_supersedes_event_id = None, ie_seller_relevance_state = SR_UNRESOLVED, ie_markets = [''Defense''],
     ie_recency_state = ''UNKNOWN'', ie_canonical_facility_id = None, ie_source_published_at = None\<rparr>"

lemma monitor_candidate:
  "organization_candidate_for (\<lambda>k. k) monitor_event monitor_observation None
     = Inr (Some (fresh_organization (\<lambda>k. k) monitor_event monitor_observation (hd (ie_subject_entities monitor_event))))"
proof -
  have "lower (strip ''Acme'') \<notin> set UNUSABLE_MENTIONS" by code_simp
  then show ?thesis
    by (simp add: organization_candidate_for_def monitor_event_def organization_candidate_post_init_def res_simps may_aware_def
        fresh_organization_def Let_def monitor_observation_def require_aware_def monitor_time_def aware_def)
qed

lemma some_r: "map_sum id Some r = Inr (Some c) \<longleftrightarrow> r = Inr c"
  by (cases r) auto

section \<open>Properties\<close>

text \<open>
  A public event is shown to sellers as eligible exactly when it happened at most thirty days ago and not
  in the future, is of a material type, is evidenced in a market, carries no noise term, and its entity is
  neither ambiguous nor unresolved; it is rejected exactly when it is stale, immaterial, without a market or
  noise.
\<close>

theorem seller_relevance_exact:
  "(seller_relevance kind ed markets resolution text now = SR_ELIGIBLE \<longleftrightarrow>
      (\<exists>t. ed = Some t \<and> instant t \<le> instant now \<and> instant now - instant t \<le> days 30) \<and> kind \<in> set MATERIAL_EVENT_TYPES
      \<and> markets \<noteq> [] \<and> \<not> contains_any NOISE_TERMS text \<and> resolution \<notin> {RS_AMBIGUOUS, RS_UNRESOLVED})
   \<and> (seller_relevance kind ed markets resolution text now = SR_REJECTED \<longleftrightarrow>
      (\<exists>t. ed = Some t \<and> days 180 < instant now - instant t) \<or> kind \<notin> set MATERIAL_EVENT_TYPES
      \<or> markets = [] \<or> contains_any NOISE_TERMS text)"
proof -
  have d: "days 30 < days 180" "0 < days 30" by (simp_all add: days_def day_micros_def)
  have f: "monitor_recency ed now = ''STALE'' \<longleftrightarrow> (\<exists>t. ed = Some t \<and> days 180 < instant now - instant t)"
    "monitor_recency ed now = ''RECENT'' \<longleftrightarrow> (\<exists>t. ed = Some t \<and> instant t \<le> instant now \<and> instant now - instant t \<le> days 30)"
    using d by (auto simp: monitor_recency_def Let_def RECENT_WINDOW_DAYS_def HISTORICAL_WINDOW_DAYS_def split: option.splits)
  have n: "monitor_recency ed now = ''RECENT'' \<Longrightarrow> monitor_recency ed now \<noteq> ''STALE''" by simp
  show ?thesis
    unfolding seller_relevance_def Let_def f[symmetric]
    by (cases resolution) (use n in auto)
qed

text \<open>
  Clustering a run of sightings into one cluster succeeds exactly when they are all of one source record;
  the cluster then holds every observation and every evidence id of the run once, in the order first seen,
  and its event is the last one: different records are never merged and nothing is lost.
\<close>

theorem cluster_holds_one_record:
  "case cluster_run digest None ((e, ob) # items) of
     Inl err \<Rightarrow> \<not> same_record digest (cluster_key digest e) items
   | Inr None \<Rightarrow> False
   | Inr (Some c) \<Rightarrow> same_record digest (cluster_key digest e) items \<and> clu_id c = cluster_key digest e
       \<and> clu_event_id c = ie_id (fst (last ((e, ob) # items)))
       \<and> clu_observation_ids c = unique (map (ob_id \<circ> snd) ((e, ob) # items))
       \<and> clu_evidence_ids c = unique (map (rev_id \<circ> ob_raw_evidence \<circ> snd) ((e, ob) # items))"
proof -
  obtain c where c: "cdn_cluster (sum.projr (cluster_event digest e ob None)) = c" "clu_id c = cluster_key digest e"
    "clu_event_id c = ie_id e" "clu_observation_ids c = [ob_id ob]" "clu_evidence_ids c = [rev_id (ob_raw_evidence ob)]"
    "cluster_run digest None ((e, ob) # items) = cluster_run digest (Some c) items"
    by (simp add: cluster_event_def)
  show ?thesis using cluster_run_some[of digest c items] c by (auto split: sum.splits option.splits)
qed

text \<open>
  C38. Collection leaves no gap: however late or early the windows are opened, every instant from the start of
  the first window to the end of the last one lies in one of the windows that were collected; a window that is
  not complete is never replaced.
\<close>

theorem procurement_windows_leave_no_gap:
  assumes "0 \<le> ov" "instant (pk_window_start c) \<le> t" "t \<le> instant (pk_window_end (last (window_run ov c stamps)))"
  shows "(\<exists>w\<in>set (window_run ov c stamps). covered w t)
    \<and> (\<forall>w now. checkpoint_pending w \<longrightarrow> next_incremental_window w now ov = w)"
  using window_run_covers[OF assms] by (simp add: checkpoint_pending_def next_incremental_window_def)

theorem procurement_windows_leave_no_gap_witness:
  "\<exists>w\<in>set (window_run 1 (initial_checkpoint ''sam'' ''q'' ''v'' \<lparr>dt_local = 0, dt_offset = Some 0\<rparr> 30 100)
       [\<lparr>dt_local = 864000000000, dt_offset = Some 0\<rparr>]). covered w 5"
proof -
  let ?c = "initial_checkpoint ''sam'' ''q'' ''v'' \<lparr>dt_local = 0, dt_offset = Some 0\<rparr> 30 100"
  have "(0::int) \<le> 1" "instant (pk_window_start ?c) \<le> 5"
    "5 \<le> instant (pk_window_end (last (window_run 1 ?c [\<lparr>dt_local = 864000000000, dt_offset = Some 0\<rparr>])))"
    by (simp_all add: initial_checkpoint_def next_incremental_window_def Let_def shift_def days_def day_micros_def instant_def default_to_def)
  from procurement_windows_leave_no_gap[OF this] show ?thesis by blast
qed

text \<open>
  A retry waits between half a minute and an hour, never less after more failures, and exactly an hour
  from the seventh failure on.
\<close>

theorem retry_backoff_bounded:
  assumes "0 \<le> m" "m \<le> n"
  shows "instant now + 30000000 \<le> instant (retry_at now m) \<and> instant (retry_at now m) \<le> instant (retry_at now n)
    \<and> instant (retry_at now n) \<le> instant now + 3600000000 \<and> (7 \<le> n \<longrightarrow> instant (retry_at now n) = instant now + 3600000000)"
proof -
  have p: "(2::int) ^ nat (min m 7) \<le> 2 ^ nat (min n 7)" using assms by (intro power_increasing) auto
  have "1 \<le> (2::int) ^ nat (min m 7)" by simp
  then have "30 \<le> retry_seconds m" "retry_seconds n \<le> 3600" by (simp_all add: retry_seconds_def)
  moreover have "retry_seconds m \<le> retry_seconds n"
    using p unfolding retry_seconds_def by (intro min.mono) auto
  moreover have "retry_seconds n = 3600" if "7 \<le> n" using that by (simp add: retry_seconds_def)
  ultimately show ?thesis by (auto simp: retry_at_def)
qed

theorem retry_backoff_bounded_witness:
  "instant (retry_at \<lparr>dt_local = 0, dt_offset = Some 0\<rparr> 9) = 3600000000"
  using retry_backoff_bounded[of 3 9 "\<lparr>dt_local = 0, dt_offset = Some 0\<rparr>"] by (simp add: instant_def default_to_def)

text \<open>
  C37. An organization candidate is built only for a first subject that is not resolved; it is never promoted
  or ready for promotion by itself, and it is rejected or ambiguous as its event is. Seen again, it keeps its
  id and its first date, gathers every event and observation once, and its last date never goes back.
\<close>

theorem candidates_are_never_promoted:
  assumes "organization_candidate_for digest e ob existing = Inr (Some c)"
  shows "oc_review_state c = review_state e \<and> oc_review_state c \<notin> {RV_READY_FOR_PROMOTION, RV_PROMOTED}
    \<and> oc_promoted_account_id c = None
    \<and> (\<exists>s rest. ie_subject_entities e = s # rest \<and> er_state s \<noteq> RS_RESOLVED \<and> oc_source_name c = strip (er_mention s))
    \<and> (case existing of
        None \<Rightarrow> oc_id c = stable_id digest ''organization-candidate'' (oc_identity_key c) \<and> oc_event_ids c = [ie_id e]
      | Some old \<Rightarrow> oc_id c = oc_id old \<and> oc_created_at c = oc_created_at old
          \<and> oc_event_ids c = unique (oc_event_ids old @ [ie_id e]) \<and> oc_observation_ids c = unique (oc_observation_ids old @ [ob_id ob])
          \<and> instant (oc_observed_at old) \<le> instant (oc_observed_at c) \<and> instant (ob_observed_at ob) \<le> instant (oc_observed_at c))"
proof -
  obtain s rest where s: "ie_subject_entities e = s # rest"
    using assms by (cases "ie_subject_entities e") (auto simp: organization_candidate_for_def)
  have r: "review_state e \<notin> {RV_READY_FOR_PROMOTION, RV_PROMOTED}" by (simp add: review_state_def)
  show ?thesis
    using assms s r
    by (cases existing)
      (auto simp: organization_candidate_for_def res_simps fresh_organization_def Let_def later_def some_r split: if_splits)
qed

theorem candidates_are_never_promoted_witness:
  "\<exists>c. organization_candidate_for (\<lambda>k. k) monitor_event monitor_observation None = Inr (Some c)
     \<and> oc_review_state c = RV_PENDING_REVIEW \<and> oc_promoted_account_id c = None \<and> oc_event_ids c = [''e1'']"
proof -
  have "review_state monitor_event = RV_PENDING_REVIEW" "ie_id monitor_event = ''e1''"
    by (simp_all add: review_state_def monitor_event_def)
  then show ?thesis using candidates_are_never_promoted[OF monitor_candidate] monitor_candidate by simp
qed

end
