(* ===== verification/ResearchJournal.thy ===== *)
theory ResearchJournal
  imports MonitorPolicy WorkService Json_Read
begin

text \<open>
  \<^verbatim>\<open>monitor/research_state.py\<close>: the resumable journal of public research. Its two tables are
  lists of rows in the order of their insertion; a transaction is a function that gives an error or a value
  with the new tables, and an error rolls back. A stored time is the instant it denotes. \<open>dump\<close> is
  \<^verbatim>\<open>json.dumps(..., sort_keys=True, separators=(',', ':'), default=str)\<close> (ASCII, so its length
  is that of its bytes), \<open>parse\<close> is \<^verbatim>\<open>json.loads\<close>, \<open>sha\<close> is
  \<^verbatim>\<open>sha256(text.encode()).hexdigest()\<close> and a new token is an argument. The database is a qualified one.
\<close>

section \<open>Tables\<close>

datatype journal_error = JournalValue string | LeaseUnavailable string | BudgetExhausted string

datatype run_status = RUN_PENDING | RUN_RUNNING | RUN_PAUSED | RUN_COMPLETED

datatype step_status = STEP_STARTED | STEP_COMPLETED | STEP_FAILED | STEP_INTERRUPTED_UNKNOWN

record research_run =
  rr_id :: string
  rr_event_reference :: string
  rr_source_revision :: string
  rr_status :: run_status
  rr_created_at :: datetime
  rr_updated_at :: datetime
  rr_lease_token :: "string option"
  rr_lease_until :: "datetime option"
  rr_completed_steps :: int
  rr_attempt_count :: int
  rr_result :: "string option"

record research_step =
  rs_run_id :: string
  rs_number :: int
  rs_tool :: string
  rs_arguments_hash :: string
  rs_status :: step_status
  rs_started_at :: datetime
  rs_completed_at :: "datetime option"
  rs_result :: "string option"

record journal =
  jo_runs :: "research_run list"
  jo_steps :: "research_step list"

record codec =
  co_dump :: "json \<Rightarrow> string"
  co_parse :: "string \<Rightarrow> json option"
  co_sha :: "string \<Rightarrow> string"

definition empty_journal :: journal where
  "empty_journal = \<lparr>jo_runs = [], jo_steps = []\<rparr>"

type_synonym 'a journal_tx = "journal \<Rightarrow> (journal_error, 'a \<times> journal) result"

definition bounded_json :: "codec \<Rightarrow> json \<Rightarrow> int \<Rightarrow> (journal_error, string) result" where
  \<comment> \<open>\<open>_json\<close>\<close>
  "bounded_json c value limit =
     (if limit < int (length (co_dump c value)) then Inl (JournalValue ''Public research record exceeds its budget.'')
      else Inr (co_dump c value))"

definition find_run :: "journal \<Rightarrow> string \<Rightarrow> research_run option" where
  "find_run j i = first_match (\<lambda>r. rr_id r = i) (jo_runs j)"

definition run_steps :: "journal \<Rightarrow> string \<Rightarrow> research_step list" where
  "run_steps j i = filter (\<lambda>s. rs_run_id s = i) (jo_steps j)"

definition find_step :: "journal \<Rightarrow> string \<Rightarrow> int \<Rightarrow> research_step option" where
  "find_step j i n = first_match (\<lambda>s. rs_run_id s = i \<and> rs_number s = n) (jo_steps j)"

definition update_run :: "string \<Rightarrow> (research_run \<Rightarrow> research_run) \<Rightarrow> journal \<Rightarrow> journal" where
  "update_run i f j = j\<lparr>jo_runs := map (\<lambda>r. if rr_id r = i then f r else r) (jo_runs j)\<rparr>"

definition update_steps :: "(research_step \<Rightarrow> bool) \<Rightarrow> (research_step \<Rightarrow> research_step) \<Rightarrow> journal \<Rightarrow> journal" where
  "update_steps P f j = j\<lparr>jo_steps := map (\<lambda>s. if P s then f s else s) (jo_steps j)\<rparr>"

section \<open>Leases\<close>

record acquire_args =
  aq_event_reference :: string
  aq_source_revision :: string
  aq_configuration :: json
  aq_now :: datetime
  aq_lease_seconds :: int
  aq_max_attempts :: int
  aq_token :: string  \<comment> \<open>\<open>str(uuid4())\<close>\<close>

definition JOURNAL_VERSION :: string where "JOURNAL_VERSION = ''BTX_MONITOR_RESEARCH_JOURNAL_1''"

definition seconds :: "int \<Rightarrow> int" where "seconds n = n * 1000000"

definition acquire_bounds :: "acquire_args \<Rightarrow> bool" where
  "acquire_bounds a = (aware (aq_now a) \<and> 1 \<le> aq_lease_seconds a \<and> aq_lease_seconds a \<le> 300
     \<and> 1 \<le> aq_max_attempts a \<and> aq_max_attempts a \<le> 3
     \<and> 1 \<le> length (aq_event_reference a) \<and> length (aq_event_reference a) \<le> 200
     \<and> length (aq_source_revision a) = 64 \<and> list_all (\<lambda>ch. ch \<in> set ''0123456789abcdef'') (aq_source_revision a))"

definition new_run :: "string \<Rightarrow> acquire_args \<Rightarrow> research_run" where
  "new_run i a = \<lparr>rr_id = i, rr_event_reference = aq_event_reference a, rr_source_revision = aq_source_revision a,
     rr_status = RUN_PENDING, rr_created_at = aq_now a, rr_updated_at = aq_now a, rr_lease_token = None,
     rr_lease_until = None, rr_completed_steps = 0, rr_attempt_count = 0, rr_result = None\<rparr>"

definition insert_run :: "research_run \<Rightarrow> journal \<Rightarrow> journal" where
  \<comment> \<open>\<open>insert ... on conflict do nothing\<close>\<close>
  "insert_run r j = (if find_run j (rr_id r) = None then j\<lparr>jo_runs := jo_runs j @ [r]\<rparr> else j)"

definition lease_live :: "research_run \<Rightarrow> datetime \<Rightarrow> bool" where
  "lease_live r now = (case rr_lease_until r of None \<Rightarrow> False | Some t \<Rightarrow> instant now < instant t)"

definition cooldown_until :: "research_run \<Rightarrow> int" where
  \<comment> \<open>a paused run was acquired, so its attempt count is positive\<close>
  "cooldown_until r = instant (rr_updated_at r) + seconds (min 300 (60 * 2 ^ nat (rr_attempt_count r - 1)))"

definition lease_refusal :: "acquire_args \<Rightarrow> research_run \<Rightarrow> string option" where
  "lease_refusal a r =
     (if lease_live r (aq_now a) then Some ''An active research worker owns this run.''
      else if aq_max_attempts a \<le> rr_attempt_count r
      then Some ''Research attempt budget exhausted; inspect recorded failures.''
      else if rr_status r = RUN_PAUSED \<and> instant (aq_now a) < cooldown_until r
      then Some ''Research retry cooldown''
      else None)"

definition interrupt_steps :: "string \<Rightarrow> datetime \<Rightarrow> journal \<Rightarrow> journal" where
  "interrupt_steps i now = update_steps (\<lambda>s. rs_run_id s = i \<and> rs_status s = STEP_STARTED)
     (\<lambda>s. s\<lparr>rs_status := STEP_INTERRUPTED_UNKNOWN, rs_completed_at := Some now\<rparr>)"

definition grant_lease :: "acquire_args \<Rightarrow> research_run \<Rightarrow> research_run" where
  "grant_lease a r = r\<lparr>rr_status := RUN_RUNNING, rr_lease_token := Some (aq_token a),
     rr_lease_until := Some (shift (seconds (aq_lease_seconds a)) (aq_now a)), rr_updated_at := aq_now a,
     rr_attempt_count := rr_attempt_count r + 1\<rparr>"

definition run_identifier :: "codec \<Rightarrow> acquire_args \<Rightarrow> (journal_error, string) result" where
  "run_identifier c a = map_sum id (co_sha c) (bounded_json c (J_arr [J_str JOURNAL_VERSION, J_str (aq_event_reference a),
     J_str (aq_source_revision a), aq_configuration a]) 8000)"

definition acquire :: "codec \<Rightarrow> acquire_args \<Rightarrow> (string \<times> string option) journal_tx" where
  "acquire c a j =
     (if \<not> acquire_bounds a then Inl (JournalValue ''Invalid public research run bounds.'')
      else bind_r (run_identifier c a) (\<lambda>i.
        let j' = insert_run (new_run i a) j in
        case find_run j' i of
          None \<Rightarrow> Inl (JournalValue ''no row'')
        | Some r \<Rightarrow>
            (if rr_status r = RUN_COMPLETED then Inr ((i, None), j')
             else case lease_refusal a r of
                    Some message \<Rightarrow> Inl (LeaseUnavailable message)
                  | None \<Rightarrow> Inr ((i, Some (aq_token a)), update_run i (grant_lease a) (interrupt_steps i (aq_now a) j')))))"

definition owned :: "string \<Rightarrow> string \<Rightarrow> datetime \<Rightarrow> journal \<Rightarrow> (journal_error, research_run) result" where
  "owned i token now j =
     (case find_run j i of
        None \<Rightarrow> Inl (LeaseUnavailable ''Research lease expired or was superseded.'')
      | Some r \<Rightarrow>
          (if rr_status r \<noteq> RUN_RUNNING \<or> token = [] \<or> rr_lease_token r \<noteq> Some token \<or> \<not> lease_live r now
           then Inl (LeaseUnavailable ''Research lease expired or was superseded.'') else Inr r))"

section \<open>Steps\<close>

record start_args =
  sa_tool :: string
  sa_arguments :: json
  sa_now :: datetime
  sa_max_steps :: int

definition start_step :: "codec \<Rightarrow> string \<Rightarrow> string \<Rightarrow> start_args \<Rightarrow> int journal_tx" where
  "start_step c i token a j =
     (if sa_tool a = [] \<or> 80 < length (sa_tool a) \<or> \<not> (1 \<le> sa_max_steps a \<and> sa_max_steps a \<le> 12) \<or> \<not> aware (sa_now a)
      then Inl (JournalValue ''Invalid research step bounds.'')
      else bind_r (bounded_json c (sa_arguments a) 8000) (\<lambda>encoded.
        bind_r (owned i token (sa_now a) j) (\<lambda>_.
        let rows = run_steps j i in
        if list_ex (\<lambda>s. rs_status s = STEP_STARTED) rows
        then Inl (JournalValue ''Complete the admitted step before starting another.'')
        else if sa_max_steps a \<le> int (length rows) then Inl (BudgetExhausted ''Research step budget exhausted.'')
        else let number = foldl max 0 (map rs_number rows) + 1
             in Inr (number, j\<lparr>jo_steps := jo_steps j @ [\<lparr>rs_run_id = i, rs_number = number, rs_tool = sa_tool a,
                  rs_arguments_hash = co_sha c encoded, rs_status = STEP_STARTED, rs_started_at = sa_now a,
                  rs_completed_at = None, rs_result = None\<rparr>]\<rparr>))))"

definition complete_step :: "codec \<Rightarrow> string \<Rightarrow> string \<Rightarrow> int \<Rightarrow> json \<Rightarrow> datetime \<Rightarrow> bool \<Rightarrow> unit journal_tx" where
  "complete_step c i token number res now failed j =
     bind_r (bounded_json c res 120000) (\<lambda>encoded.
     if \<not> aware now then Inl (JournalValue ''An aware completion clock is required.'')
     else bind_r (owned i token now j) (\<lambda>_.
       case find_step j i number of
         None \<Rightarrow> Inl (JournalValue ''Unknown step or invalid completion chronology.'')
       | Some s \<Rightarrow>
           (if instant now < instant (rs_started_at s)
            then Inl (JournalValue ''Unknown step or invalid completion chronology.'')
            else let state = (if failed then STEP_FAILED else STEP_COMPLETED) in
              if rs_status s \<noteq> STEP_STARTED
              then (if rs_status s = state \<and> rs_result s = Some encoded then Inr ((), j)
                    else Inl (JournalValue ''A completed step is immutable.''))
              else Inr ((), update_run i (\<lambda>r. r\<lparr>rr_updated_at := now,
                       rr_completed_steps := rr_completed_steps r + (if failed then 0 else 1)\<rparr>)
                     (update_steps (\<lambda>x. rs_run_id x = i \<and> rs_number x = number)
                       (\<lambda>x. x\<lparr>rs_status := state, rs_completed_at := Some now, rs_result := Some encoded\<rparr>) j)))))"

definition finish_research :: "codec \<Rightarrow> string \<Rightarrow> string \<Rightarrow> json \<Rightarrow> datetime \<Rightarrow> bool \<Rightarrow> unit journal_tx" where
  "finish_research c i token res now completed j =
     (if \<not> aware now then Inl (JournalValue ''An aware completion clock is required.'')
      else bind_r (bounded_json c res 160000) (\<lambda>encoded.
        bind_r (owned i token now j) (\<lambda>_.
        if list_ex (\<lambda>s. rs_status s = STEP_STARTED) (run_steps j i)
        then Inl (JournalValue ''Cannot finish while a research call has unknown outcome.'')
        else Inr ((), update_run i (\<lambda>r. r\<lparr>rr_status := (if completed then RUN_COMPLETED else RUN_PAUSED),
               rr_result := Some encoded, rr_updated_at := now, rr_lease_token := None, rr_lease_until := None\<rparr>) j))))"

section \<open>Publication and look-up\<close>

definition published_result :: "json \<Rightarrow> json \<Rightarrow> json" where
  \<comment> \<open>the three keys written into the decoded result\<close>
  "published_result res outcome = (case res of
     J_obj kvs \<Rightarrow> J_obj (dset ''publication_outcome'' outcome (dset ''publication_state'' (j_read outcome ''state'')
       (dset ''published'' (J_bool (py_truth (j_read outcome ''published''))) kvs)))
   | _ \<Rightarrow> res)"

definition record_publication :: "codec \<Rightarrow> string \<Rightarrow> json \<Rightarrow> datetime \<Rightarrow> unit journal_tx" where
  \<comment> \<open>\<open>outcome\<close> and the stored result are dictionaries\<close>
  "record_publication c i outcome now j =
     (if \<not> aware now then Inl (JournalValue ''An aware publication clock is required.'')
      else bind_r (bounded_json c outcome 16000) (\<lambda>encoded_outcome.
        case find_run j i of
          None \<Rightarrow> Inl (JournalValue ''Only completed public research can receive a publication outcome.'')
        | Some r \<Rightarrow>
            (if rr_status r \<noteq> RUN_COMPLETED \<or> \<not> truthy (rr_result r)
             then Inl (JournalValue ''Only completed public research can receive a publication outcome.'')
             else case co_parse c (the (rr_result r)) of
                    None \<Rightarrow> Inl (JournalValue ''undecodable result'')
                  | Some res \<Rightarrow>
                      bind_r (bounded_json c (j_read res ''publication_outcome'') 16000) (\<lambda>previous.
                      if previous = encoded_outcome then Inr ((), j)
                      else bind_r (bounded_json c (published_result res outcome) 160000) (\<lambda>encoded.
                        Inr ((), update_run i (\<lambda>r. r\<lparr>rr_result := Some encoded, rr_updated_at := now\<rparr>) j))))))"

record research_view =
  rw_run :: research_run
  rw_result :: "json option"
  rw_steps :: "(research_step \<times> json option) list"

definition decoded :: "codec \<Rightarrow> string option \<Rightarrow> json option" where
  "decoded c x = (if truthy x then co_parse c (the x) else None)"

definition get_research :: "codec \<Rightarrow> journal \<Rightarrow> string \<Rightarrow> research_view option" where
  \<comment> \<open>without the lease, which stays private\<close>
  "get_research c j i = map_option (\<lambda>r. \<lparr>rw_run = r\<lparr>rr_lease_token := None, rr_lease_until := None\<rparr>,
     rw_result = decoded c (rr_result r),
     rw_steps = map (\<lambda>s. (s, decoded c (rs_result s))) (sort_key rs_number (run_steps j i))\<rparr>) (find_run j i)"

definition settled_runs :: "journal \<Rightarrow> string \<times> string \<Rightarrow> research_run list" where
  \<comment> \<open>the finished or paused runs of one source assertion, the latest first\<close>
  "settled_runs j source = sort_key (\<lambda>r. (- instant (rr_updated_at r), rr_id r))
     (filter (\<lambda>r. (rr_event_reference r, rr_source_revision r) = source \<and> rr_status r \<in> {RUN_COMPLETED, RUN_PAUSED}) (jo_runs j))"

definition latest_for_source :: "codec \<Rightarrow> journal \<Rightarrow> string \<Rightarrow> string \<Rightarrow> research_view option" where
  "latest_for_source c j event_reference source_revision =
     (case settled_runs j (event_reference, source_revision) of [] \<Rightarrow> None | r # _ \<Rightarrow> get_research c j (rr_id r))"

definition latest_statuses_for_sources ::
  "journal \<Rightarrow> (string \<times> string) list \<Rightarrow> ((string \<times> string) \<times> run_status) list" where
  "latest_statuses_for_sources j sources =
     concat (map (\<lambda>s. case settled_runs j s of [] \<Rightarrow> [] | r # _ \<Rightarrow> [(s, rr_status r)]) (unique sources))"

end
