(* ===== verification/JournalProps.thy ===== *)
theory JournalProps
  imports ResearchJournal
begin

text \<open>
  What the research journal promises when workers interleave in any order, crash and come back: its
  bookkeeping, that a worker that lost its lease can no longer write, that nobody takes a live lease, and that
  what was recorded stays.
\<close>

section \<open>Rows\<close>

lemma find_run_id: "find_run j i = Some r \<Longrightarrow> rr_id r = i"
  unfolding find_run_def by (auto dest: first_match_Some)

lemma first_match_map_keep:
  assumes "\<And>x. p (g x) = p x"
  shows "first_match p (map g xs) = map_option g (first_match p xs)"
  using assms by (induction xs) auto

lemma find_run_update:
  assumes "\<And>r. rr_id (f r) = rr_id r"
  shows "find_run (update_run i f j) k = (if k = i then map_option f (find_run j k) else find_run j k)"
proof -
  have "find_run (update_run i f j) k = map_option (\<lambda>r. if rr_id r = i then f r else r) (find_run j k)"
    unfolding find_run_def update_run_def by (simp add: first_match_map_keep assms)
  then show ?thesis by (cases "find_run j k") (auto dest: find_run_id)
qed

lemma filter_map_keep:
  assumes "\<And>x. p (g x) = p x"
  shows "filter p (map g xs) = map g (filter p xs)"
  using assms by (induction xs) auto

lemma run_steps_update:
  assumes "\<And>s. rs_run_id (f s) = rs_run_id s"
  shows "run_steps (update_steps P f j) k = map (\<lambda>s. if P s then f s else s) (run_steps j k)"
  unfolding run_steps_def update_steps_def by (simp add: filter_map_keep assms)

lemma views_simps [simp]:
  "run_steps (update_run i f j) k = run_steps j k"
  "find_run (update_steps P g j) k = find_run j k"
  "run_steps (insert_run r j) k = run_steps j k"
  "find_run (j\<lparr>jo_steps := ss\<rparr>) k = find_run j k"
  "run_steps (j\<lparr>jo_steps := jo_steps j @ [s]\<rparr>) k = run_steps j k @ (if rs_run_id s = k then [s] else [])"
  "map rr_id (jo_runs (update_steps P g j)) = map rr_id (jo_runs j)"
  by (auto simp: run_steps_def update_run_def find_run_def update_steps_def insert_run_def)

lemma find_run_insert:
  "find_run (insert_run r j) k = (if find_run j k = None \<and> k = rr_id r then Some r else find_run j k)"
proof (cases "find_run j (rr_id r)")
  case None
  then have "find_run (insert_run r j) k = (case find_run j k of None \<Rightarrow> if rr_id r = k then Some r else None | Some x \<Rightarrow> Some x)"
    by (auto simp: insert_run_def find_run_def first_match_append simp del: first_match_None split: option.splits)
  then show ?thesis by (cases "find_run j k") auto
qed (auto simp: insert_run_def)

lemma run_ids_update: "(\<And>r. rr_id (f r) = rr_id r) \<Longrightarrow> map rr_id (jo_runs (update_run i f j)) = map rr_id (jo_runs j)"
  by (simp add: update_run_def)

lemma run_ids_insert: "distinct (map rr_id (jo_runs j)) \<Longrightarrow> distinct (map rr_id (jo_runs (insert_run r j)))"
  by (auto simp: insert_run_def find_run_def)

lemma find_step_in: "find_step j i n = Some s \<Longrightarrow> s \<in> set (run_steps j i) \<and> rs_number s = n \<and> rs_run_id s = i"
  unfolding find_step_def run_steps_def by (auto dest: first_match_Some)

section \<open>Operations\<close>

datatype journal_op =
    Jo_acquire acquire_args
  | Jo_start string string start_args
  | Jo_complete string string int json datetime bool
  | Jo_finish string string json datetime bool
  | Jo_publish string json datetime

definition after :: "(journal_error, 'a \<times> journal) result \<Rightarrow> journal \<Rightarrow> journal" where
  "after res j = (case res of Inl e \<Rightarrow> j | Inr p \<Rightarrow> snd p)"

fun journal_step :: "codec \<Rightarrow> journal_op \<Rightarrow> journal \<Rightarrow> journal" where
  "journal_step c (Jo_acquire a) j = after (acquire c a j) j"
| "journal_step c (Jo_start i token a) j = after (start_step c i token a j) j"
| "journal_step c (Jo_complete i token n res now failed) j = after (complete_step c i token n res now failed j) j"
| "journal_step c (Jo_finish i token res now completed) j = after (finish_research c i token res now completed j) j"
| "journal_step c (Jo_publish i outcome now) j = after (record_publication c i outcome now j) j"

definition journal_run :: "codec \<Rightarrow> journal_op list \<Rightarrow> journal \<Rightarrow> journal" where
  "journal_run c ops j = foldl (\<lambda>j op. journal_step c op j) j ops"

lemma journal_run_simps [simp]:
  "journal_run c [] j = j" "journal_run c (op # ops) j = journal_run c ops (journal_step c op j)"
  by (simp_all add: journal_run_def)

inductive journal_reachable :: "codec \<Rightarrow> journal \<Rightarrow> bool" for c where
  start: "journal_reachable c empty_journal"
| step: "journal_reachable c j \<Longrightarrow> journal_reachable c (journal_step c op j)"

text \<open>The one change an operation may make: which run it is about and what becomes of it.\<close>

inductive journal_change :: "codec \<Rightarrow> journal_op \<Rightarrow> journal \<Rightarrow> journal \<Rightarrow> bool" for c where
  same: "journal_change c op j j"
| granted: "\<lbrakk>acquire_bounds a; run_identifier c a = Inr i; find_run (insert_run (new_run i a) j) i = Some r;
     rr_status r \<noteq> RUN_COMPLETED; lease_refusal a r = None\<rbrakk>
   \<Longrightarrow> journal_change c (Jo_acquire a) j
        (update_run i (grant_lease a) (interrupt_steps i (aq_now a) (insert_run (new_run i a) j)))"
| started: "\<lbrakk>owned i token (rs_started_at s) j = Inr r; \<forall>x\<in>set (run_steps j i). rs_status x \<noteq> STEP_STARTED;
     length (run_steps j i) < 12; rs_run_id s = i; rs_number s = foldl max 0 (map rs_number (run_steps j i)) + 1;
     rs_status s = STEP_STARTED; rs_completed_at s = None; rs_result s = None\<rbrakk>
   \<Longrightarrow> journal_change c (Jo_start i token a) j (j\<lparr>jo_steps := jo_steps j @ [s]\<rparr>)"
| completed: "\<lbrakk>owned i token now j = Inr r; find_step j i n = Some s; instant (rs_started_at s) \<le> instant now;
     rs_status s = STEP_STARTED\<rbrakk>
   \<Longrightarrow> journal_change c (Jo_complete i token n res now failed) j
        (update_run i (\<lambda>r. r\<lparr>rr_updated_at := now, rr_completed_steps := rr_completed_steps r + (if failed then 0 else 1)\<rparr>)
          (update_steps (\<lambda>x. rs_run_id x = i \<and> rs_number x = n)
            (\<lambda>x. x\<lparr>rs_status := (if failed then STEP_FAILED else STEP_COMPLETED), rs_completed_at := Some now,
               rs_result := Some encoded\<rparr>) j))"
| finished: "\<lbrakk>owned i token now j = Inr r; \<forall>x\<in>set (run_steps j i). rs_status x \<noteq> STEP_STARTED\<rbrakk>
   \<Longrightarrow> journal_change c (Jo_finish i token res now fin) j
        (update_run i (\<lambda>r. r\<lparr>rr_status := (if fin then RUN_COMPLETED else RUN_PAUSED),
            rr_result := Some encoded, rr_updated_at := now, rr_lease_token := None, rr_lease_until := None\<rparr>) j)"
| published: "\<lbrakk>find_run j i = Some r; rr_status r = RUN_COMPLETED\<rbrakk>
   \<Longrightarrow> journal_change c (Jo_publish i outcome now) j
        (update_run i (\<lambda>r. r\<lparr>rr_result := Some encoded, rr_updated_at := now\<rparr>) j)"

lemma foldl_max_upt: "foldl max (0::int) (map int [1..<Suc n]) = int n"
proof (induction n)
  case (Suc n)
  have "foldl max (0::int) (map int [1..<Suc (Suc n)]) = max (foldl max 0 (map int [1..<Suc n])) (int (Suc n))"
    by simp
  then show ?case using Suc by simp
qed simp

lemma acquire_InrE:
  assumes "acquire c a j = Inr p"
  obtains i r where "acquire_bounds a" "run_identifier c a = Inr i" "find_run (insert_run (new_run i a) j) i = Some r"
    "if rr_status r = RUN_COMPLETED then p = ((i, None), insert_run (new_run i a) j)
     else lease_refusal a r = None \<and> p = ((i, Some (aq_token a)),
       update_run i (grant_lease a) (interrupt_steps i (aq_now a) (insert_run (new_run i a) j)))"
proof -
  have b: "acquire_bounds a" using assms by (auto simp: acquire_def split: if_splits)
  then obtain i where i: "run_identifier c a = Inr i" using assms by (cases "run_identifier c a") (auto simp: acquire_def)
  obtain r where r: "find_run (insert_run (new_run i a) j) i = Some r"
      using assms b i by (cases "find_run (insert_run (new_run i a) j) i") (auto simp: acquire_def Let_def)
  have p: "if rr_status r = RUN_COMPLETED then p = ((i, None), insert_run (new_run i a) j)
        else lease_refusal a r = None \<and> p = ((i, Some (aq_token a)),
          update_run i (grant_lease a) (interrupt_steps i (aq_now a) (insert_run (new_run i a) j)))"
      using assms b i r by (cases "lease_refusal a r") (auto simp: acquire_def Let_def split: if_splits)
  show thesis using that[OF b i r p] .
qed

lemma journal_step_change: "journal_change c op j (journal_step c op j)"
proof (cases op)
  case (Jo_acquire a)
  show ?thesis
  proof (cases "acquire c a j")
    case (Inr p)
    obtain i r where b: "acquire_bounds a" and i: "run_identifier c a = Inr i"
      and r: "find_run (insert_run (new_run i a) j) i = Some r"
      and p: "if rr_status r = RUN_COMPLETED then p = ((i, None), insert_run (new_run i a) j)
        else lease_refusal a r = None \<and> p = ((i, Some (aq_token a)),
          update_run i (grant_lease a) (interrupt_steps i (aq_now a) (insert_run (new_run i a) j)))"
      by (rule acquire_InrE[OF Inr])
    show ?thesis
    proof (cases "rr_status r = RUN_COMPLETED")
      case True
      then have "find_run j i \<noteq> None" using r by (auto simp: find_run_insert new_run_def split: if_splits)
      then have "insert_run (new_run i a) j = j" by (auto simp: insert_run_def new_run_def)
      then show ?thesis using p True Inr by (simp add: Jo_acquire after_def journal_change.same)
    next
      case False
      then show ?thesis using p b i r Inr by (simp add: Jo_acquire after_def journal_change.granted)
    qed
  qed (simp add: Jo_acquire after_def journal_change.same)
next
  case (Jo_start i token a)
  show ?thesis
  proof (cases "start_step c i token a j")
    case (Inr p)
    then have e: "journal_step c op j = snd p" by (simp add: Jo_start after_def)
    show ?thesis using Inr
      unfolding e unfolding Jo_start
      by (auto simp: start_step_def res_simps Let_def list_ex_iff split: if_splits
          intro!: journal_change.started[where i = i and token = token and a = a])
  qed (simp add: Jo_start after_def journal_change.same)
next
  case (Jo_complete i token n res now failed)
  show ?thesis
  proof (cases "complete_step c i token n res now failed j")
    case (Inr p)
    then have e: "journal_step c op j = snd p" by (simp add: Jo_complete after_def)
    show ?thesis using Inr
      unfolding e unfolding Jo_complete
      by (auto simp: complete_step_def res_simps Let_def not_less split: if_splits option.splits
          intro: journal_change.same journal_change.completed[where failed = True, simplified]
            journal_change.completed[where failed = False, simplified])
  qed (simp add: Jo_complete after_def journal_change.same)
next
  case (Jo_finish i token res now completed)
  show ?thesis
  proof (cases "finish_research c i token res now completed j")
    case (Inr p)
    then have e: "journal_step c op j = snd p" by (simp add: Jo_finish after_def)
    show ?thesis using Inr
      unfolding e unfolding Jo_finish
      by (auto simp: finish_research_def res_simps list_ex_iff split: if_splits
          intro!: journal_change.finished[where fin = True, simplified] journal_change.finished[where fin = False, simplified])
  qed (simp add: Jo_finish after_def journal_change.same)
next
  case (Jo_publish i outcome now)
  show ?thesis
  proof (cases "record_publication c i outcome now j")
    case (Inr p)
    then have e: "journal_step c op j = snd p" by (simp add: Jo_publish after_def)
    obtain r where r: "find_run j i = Some r" using Inr by (cases "find_run j i") (auto simp: record_publication_def res_simps split: if_splits)
    then obtain x where "co_parse c (the (rr_result r)) = Some x"
      using Inr by (cases "co_parse c (the (rr_result r))") (auto simp: record_publication_def res_simps split: if_splits)
    then show ?thesis using Inr r unfolding e unfolding Jo_publish
      by (auto simp: record_publication_def res_simps split: if_splits intro: journal_change.same journal_change.published)
  qed (simp add: Jo_publish after_def journal_change.same)
qed

section \<open>The bookkeeping\<close>

definition step_ok :: "research_run \<Rightarrow> research_step \<Rightarrow> bool" where
  "step_ok r s = ((rs_status s = STEP_STARTED \<longleftrightarrow> rs_completed_at s = None)
     \<and> (rs_result s \<noteq> None \<longleftrightarrow> rs_status s \<in> {STEP_COMPLETED, STEP_FAILED})
     \<and> (case rs_completed_at s of
          None \<Rightarrow> (case rr_lease_until r of None \<Rightarrow> False | Some u \<Rightarrow> instant (rs_started_at s) < instant u)
        | Some t \<Rightarrow> instant (rs_started_at s) \<le> instant t))"

lemma step_ok_lease: "rr_lease_until r' = rr_lease_until r \<Longrightarrow> step_ok r' s = step_ok r s"
  by (simp add: step_ok_def split: option.split)

lemma step_ok_updates [simp]:
  "step_ok (r\<lparr>rr_updated_at := t\<rparr>) s = step_ok r s" "step_ok (r\<lparr>rr_completed_steps := n\<rparr>) s = step_ok r s"
  "step_ok (r\<lparr>rr_result := x\<rparr>) s = step_ok r s"
  by (rule step_ok_lease, simp)+

definition run_ok :: "research_run \<Rightarrow> research_step list \<Rightarrow> bool" where
  "run_ok r ss = (rr_status r \<noteq> RUN_PENDING \<and> 1 \<le> rr_attempt_count r \<and> rr_attempt_count r \<le> 3
     \<and> rr_completed_steps r = int (length (filter (\<lambda>s. rs_status s = STEP_COMPLETED) ss))
     \<and> (rr_status r = RUN_RUNNING \<longleftrightarrow> rr_lease_token r \<noteq> None) \<and> (rr_status r = RUN_RUNNING \<longleftrightarrow> rr_lease_until r \<noteq> None)
     \<and> (rr_status r = RUN_RUNNING \<or> rr_result r \<noteq> None \<and> (\<forall>s\<in>set ss. rs_status s \<noteq> STEP_STARTED))
     \<and> map rs_number ss = map int [1..<Suc (length ss)] \<and> length ss \<le> 12
     \<and> (\<forall>s\<in>set (butlast ss). rs_status s \<noteq> STEP_STARTED) \<and> (\<forall>s\<in>set ss. step_ok r s))"

fun view_ok :: "research_run option \<Rightarrow> research_step list \<Rightarrow> bool" where
  "view_ok None ss = (ss = [])"
| "view_ok (Some r) ss = run_ok r ss"

definition journal_ok :: "journal \<Rightarrow> bool" where
  "journal_ok j = (distinct (map rr_id (jo_runs j)) \<and> (\<forall>i. view_ok (find_run j i) (run_steps j i)))"

lemma journal_okD: "journal_ok j \<Longrightarrow> find_run j i = Some r \<Longrightarrow> run_ok r (run_steps j i)"
  unfolding journal_ok_def by (metis view_ok.simps(2))

definition interrupted :: "datetime \<Rightarrow> research_step \<Rightarrow> research_step" where
  "interrupted now s = (if rs_status s = STEP_STARTED then s\<lparr>rs_status := STEP_INTERRUPTED_UNKNOWN, rs_completed_at := Some now\<rparr> else s)"

lemma interrupted_simps [simp]:
  "rs_number (interrupted now s) = rs_number s" "rs_run_id (interrupted now s) = rs_run_id s"
  "rs_status (interrupted now s) \<noteq> STEP_STARTED" "(rs_status (interrupted now s) = STEP_COMPLETED) = (rs_status s = STEP_COMPLETED)"
  by (auto simp: interrupted_def)

lemma run_ok_granted:
  assumes "run_ok r ss \<or> r = new_run i a \<and> ss = []" "acquire_bounds a" "rr_status r \<noteq> RUN_COMPLETED" "lease_refusal a r = None"
  shows "run_ok (grant_lease a r) (map (interrupted (aq_now a)) ss)"
proof -
  have n: "rr_attempt_count r < 3" "0 \<le> rr_attempt_count r" "\<not> lease_live r (aq_now a)"
    using assms by (auto simp: lease_refusal_def acquire_bounds_def run_ok_def new_run_def split: if_splits)
  have s: "step_ok (grant_lease a r) (interrupted (aq_now a) s)" if "step_ok r s" for s
    using that n(3) by (auto simp: step_ok_def interrupted_def lease_live_def split: option.splits)
  have c: "length (filter (\<lambda>s. rs_status s = STEP_COMPLETED) (map (interrupted now) ss))
      = length (filter (\<lambda>s. rs_status s = STEP_COMPLETED) ss)" for now
    by (simp add: filter_map comp_def)
  show ?thesis using assms(1)
  proof
    assume ok: "run_ok r ss"
    have b: "butlast (map (interrupted (aq_now a)) ss) = map (interrupted (aq_now a)) (butlast ss)" by (simp add: map_butlast)
    show ?thesis
      using ok n s unfolding run_ok_def c b by (auto simp: grant_lease_def comp_def)
  qed (use n in \<open>auto simp: run_ok_def grant_lease_def new_run_def\<close>)
qed

lemma run_ok_started:
  assumes "run_ok r ss" "rr_status r = RUN_RUNNING" "lease_live r (rs_started_at s)" "\<forall>x\<in>set ss. rs_status x \<noteq> STEP_STARTED"
    "length ss < 12" "rs_number s = foldl max 0 (map rs_number ss) + 1" "rs_status s = STEP_STARTED" "rs_completed_at s = None"
    "rs_result s = None"
  shows "run_ok r (ss @ [s])"
proof -
  have "map rs_number ss = map int [1..<Suc (length ss)]" using assms(1) by (simp add: run_ok_def)
  then have "rs_number s = int (length ss) + 1" using assms(6) foldl_max_upt[of "length ss"] by simp
  then have n: "map rs_number (ss @ [s]) = map int [1..<Suc (length (ss @ [s]))]"
    using assms(1) by (simp add: run_ok_def)
  have "step_ok r s" using assms(3,7,8,9) by (auto simp: step_ok_def lease_live_def split: option.splits)
  then show ?thesis using assms n by (auto simp: run_ok_def simp del: upt_Suc)
qed

lemma numbered_distinct: "map rs_number ss = map int [1..<Suc (length ss)] \<Longrightarrow> distinct (map rs_number ss)"
  by (simp add: distinct_map)

lemma run_ok_completed:
  assumes "run_ok r ss" "rr_status r = RUN_RUNNING" "s \<in> set ss" "rs_number s = n" "rs_status s = STEP_STARTED"
    "instant (rs_started_at s) \<le> instant now"
  shows "run_ok (r\<lparr>rr_updated_at := now, rr_completed_steps := rr_completed_steps r + (if failed then 0 else 1)\<rparr>)
    (map (\<lambda>x. if rs_number x = n then x\<lparr>rs_status := (if failed then STEP_FAILED else STEP_COMPLETED),
       rs_completed_at := Some now, rs_result := Some encoded\<rparr> else x) ss)"
proof -
  have "ss \<noteq> []" using assms(3) by auto
  then obtain xs y where ss: "ss = xs @ [y]" by (metis append_butlast_last_id)
  have "s \<notin> set xs" using assms(1,5) ss by (auto simp: run_ok_def)
  then have y: "y = s" using assms(3) ss by simp
  have "distinct (map rs_number ss)" using assms(1) unfolding run_ok_def by (intro numbered_distinct) blast
  then have "n \<notin> rs_number ` set xs" using assms(4) by (simp add: ss y)
  then have d: "\<forall>x\<in>set xs. rs_number x \<noteq> n" by (metis imageI)
  let ?f = "\<lambda>x. if rs_number x = n then x\<lparr>rs_status := (if failed then STEP_FAILED else STEP_COMPLETED),
       rs_completed_at := Some now, rs_result := Some encoded\<rparr> else x"
  have m: "map ?f xs = xs" using d by (simp add: map_idI)
  have num: "map rs_number (xs @ [?f s]) = map rs_number ss" by (simp add: ss y)
  let ?r = "r\<lparr>rr_updated_at := now, rr_completed_steps := rr_completed_steps r + (if failed then 0 else 1)\<rparr>"
  have "step_ok ?r (?f s)" using assms(4,6) by (simp add: step_ok_def)
  then have "run_ok ?r (xs @ [?f s])"
    using assms(1,2,4,5) num unfolding ss y by (auto simp: run_ok_def simp del: upt_Suc)
  then show ?thesis by (simp add: ss y m)
qed

lemma run_steps_member: "s \<in> set (run_steps j k) \<Longrightarrow> rs_run_id s = k"
  by (simp add: run_steps_def)

lemma run_steps_interrupt:
  "run_steps (interrupt_steps i now j) k = (if k = i then map (interrupted now) (run_steps j k) else run_steps j k)"
  unfolding interrupt_steps_def
  by (subst run_steps_update) (auto simp: interrupted_def dest!: run_steps_member intro!: map_idI split: if_splits)

lemma find_run_interrupt [simp]: "find_run (interrupt_steps i now j) k = find_run j k"
  by (simp add: interrupt_steps_def)

lemma run_steps_numbered:
  assumes "\<And>s. rs_run_id (f s) = rs_run_id s"
  shows "run_steps (update_steps (\<lambda>x. rs_run_id x = i \<and> rs_number x = n) f j) k
    = (if k = i then map (\<lambda>x. if rs_number x = n then f x else x) (run_steps j k) else run_steps j k)"
  by (subst run_steps_update) (auto simp: assms dest!: run_steps_member intro!: map_idI)

lemma owned_Inr: "owned i token now j = Inr r \<longleftrightarrow>
    find_run j i = Some r \<and> rr_status r = RUN_RUNNING \<and> token \<noteq> [] \<and> rr_lease_token r = Some token \<and> lease_live r now"
  by (auto simp: owned_def split: option.splits)

lemma view_ok_change:
  assumes "\<forall>k. view_ok (find_run j k) (run_steps j k)"
    and "\<And>k. k \<noteq> i \<Longrightarrow> find_run j' k = find_run j k \<and> run_steps j' k = run_steps j k"
    and "view_ok (find_run j' i) (run_steps j' i)"
  shows "\<forall>k. view_ok (find_run j' k) (run_steps j' k)"
  using assms by metis

lemma journal_change_ok:
  assumes "journal_change c op j j'" "journal_ok j"
  shows "journal_ok j'"
proof -
  have d: "distinct (map rr_id (jo_runs j))" and v: "\<forall>k. view_ok (find_run j k) (run_steps j k)"
    using assms(2) by (simp_all add: journal_ok_def)
  have ok: "find_run j k = Some r \<Longrightarrow> run_ok r (run_steps j k)" for k r by (rule journal_okD[OF assms(2)])
  from assms(1) show ?thesis
  proof cases
    case (granted a i r)
    have g: "rr_id (grant_lease a x) = rr_id x" for x by (simp add: grant_lease_def)
    have n: "rr_id (new_run i a) = i" by (simp add: new_run_def)
    have "run_ok r (run_steps j i) \<or> r = new_run i a \<and> run_steps j i = []"
      using granted(5) ok[of i r] v[THEN spec, of i] by (auto simp: find_run_insert n split: if_splits)
    from run_ok_granted[OF this granted(3,6,7)]
    have "\<forall>k. view_ok (find_run j' k) (run_steps j' k)"
      unfolding granted(2)
      by (intro view_ok_change[OF v, of i]) (use granted(5) in \<open>auto simp: find_run_update g find_run_insert n run_steps_interrupt\<close>)
    moreover have "distinct (map rr_id (jo_runs j'))"
      unfolding granted(2) by (simp add: run_ids_update g interrupt_steps_def run_ids_insert[OF d])
    ultimately show ?thesis by (simp add: journal_ok_def)
  next
    case (started i token s r a)
    have "run_ok r (run_steps j i @ [s])"
      using started ok[of i r] by (intro run_ok_started) (auto simp: owned_Inr)
    then have "\<forall>k. view_ok (find_run j' k) (run_steps j' k)"
      unfolding started(2) by (intro view_ok_change[OF v, of i]) (use started in \<open>auto simp: owned_Inr\<close>)
    then show ?thesis using d by (simp add: journal_ok_def started(2))
  next
    case (completed i token now r n s res failed encoded)
    have s: "s \<in> set (run_steps j i)" "rs_number s = n" using find_step_in[OF completed(4)] by auto
    let ?f = "\<lambda>r. r\<lparr>rr_updated_at := now, rr_completed_steps := rr_completed_steps r + (if failed then 0 else 1)\<rparr>"
    let ?g = "\<lambda>x. x\<lparr>rs_status := (if failed then STEP_FAILED else STEP_COMPLETED), rs_completed_at := Some now, rs_result := Some encoded\<rparr>"
    have r: "find_run j i = Some r" "rr_status r = RUN_RUNNING" using completed(3) by (auto simp: owned_Inr)
    have "run_ok (?f r) (map (\<lambda>x. if rs_number x = n then ?g x else x) (run_steps j i))"
      by (rule run_ok_completed[OF ok[OF r(1)] r(2) s completed(6,5)])
    then have "\<forall>k. view_ok (find_run j' k) (run_steps j' k)"
      unfolding completed(2)
      by (intro view_ok_change[OF v, of i]) (use r in \<open>simp_all add: find_run_update run_steps_numbered\<close>)
    moreover have "map rr_id (jo_runs j') = map rr_id (jo_runs j)"
      unfolding completed(2) by (simp add: run_ids_update)
    ultimately show ?thesis using d by (simp add: journal_ok_def)
  next
    case (finished i token now r res fin encoded)
    let ?f = "\<lambda>r. r\<lparr>rr_status := (if fin then RUN_COMPLETED else RUN_PAUSED), rr_result := Some encoded,
       rr_updated_at := now, rr_lease_token := None, rr_lease_until := None\<rparr>"
    have r: "find_run j i = Some r" using finished(3) by (auto simp: owned_Inr)
    have "run_ok (?f r) (run_steps j i)" using ok[OF r] finished(4) by (auto simp: run_ok_def step_ok_def split: option.splits)
    then have "\<forall>k. view_ok (find_run j' k) (run_steps j' k)"
      unfolding finished(2) by (intro view_ok_change[OF v, of i]) (use r in \<open>simp_all add: find_run_update\<close>)
    moreover have "map rr_id (jo_runs j') = map rr_id (jo_runs j)"
      unfolding finished(2) by (simp add: run_ids_update)
    ultimately show ?thesis using d by (simp add: journal_ok_def)
  next
    case (published i r outcome now encoded)
    let ?f = "\<lambda>r. r\<lparr>rr_result := Some encoded, rr_updated_at := now\<rparr>"
    have "run_ok (?f r) (run_steps j i)" using ok[OF published(3)] by (auto simp: run_ok_def)
    then have "\<forall>k. view_ok (find_run j' k) (run_steps j' k)"
      unfolding published(2) by (intro view_ok_change[OF v, of i]) (use published(3) in \<open>simp_all add: find_run_update\<close>)
    moreover have "map rr_id (jo_runs j') = map rr_id (jo_runs j)"
      unfolding published(2) by (simp add: run_ids_update)
    ultimately show ?thesis using d by (simp add: journal_ok_def)
  qed (use assms(2) in simp)
qed

lemma journal_reachable_ok: "journal_reachable c j \<Longrightarrow> journal_ok j"
proof (induction rule: journal_reachable.induct)
  case start
  show ?case by (simp add: journal_ok_def empty_journal_def find_run_def run_steps_def)
next
  case (step j op)
  then show ?case by (blast intro: journal_change_ok journal_step_change)
qed

lemma journal_reachable_run: "journal_reachable c j \<Longrightarrow> journal_reachable c (journal_run c ops j)"
  by (induction ops arbitrary: j) (auto intro: journal_reachable.step)

section \<open>Who holds the lease\<close>

fun works_under :: "string \<Rightarrow> string \<Rightarrow> journal_op \<Rightarrow> bool" where
  \<comment> \<open>an operation of the worker that holds the token\<close>
  "works_under i t (Jo_start i' t' a) = (i' = i \<and> t' = t)"
| "works_under i t (Jo_complete i' t' n res now failed) = (i' = i \<and> t' = t)"
| "works_under i t (Jo_finish i' t' res now completed) = (i' = i \<and> t' = t)"
| "works_under i t op = False"

fun issues :: "string \<Rightarrow> journal_op \<Rightarrow> bool" where
  "issues t (Jo_acquire a) = (aq_token a = t)"
| "issues t op = False"

fun refused :: "codec \<Rightarrow> journal_op \<Rightarrow> journal \<Rightarrow> bool" where
  "refused c (Jo_acquire a) j = (isl (acquire c a j))"
| "refused c (Jo_start i t a) j = (isl (start_step c i t a j))"
| "refused c (Jo_complete i t n res now failed) j = (isl (complete_step c i t n res now failed j))"
| "refused c (Jo_finish i t res now completed) j = (isl (finish_research c i t res now completed j))"
| "refused c (Jo_publish i outcome now) j = (isl (record_publication c i outcome now j))"

lemma refused_same: "refused c op j \<Longrightarrow> journal_step c op j = j"
  by (cases op) (auto simp: after_def split: sum.splits)

fun op_time :: "journal_op \<Rightarrow> datetime" where
  \<comment> \<open>the clock an operation reads\<close>
  "op_time (Jo_acquire a) = aq_now a"
| "op_time (Jo_start i t a) = sa_now a"
| "op_time (Jo_complete i t n res now failed) = now"
| "op_time (Jo_finish i t res now completed) = now"
| "op_time (Jo_publish i outcome now) = now"

definition lease_over :: "journal \<Rightarrow> string \<Rightarrow> string \<Rightarrow> int \<Rightarrow> bool" where
  \<comment> \<open>at that instant the token has no lease of the run: it is not the run's, or its lease has ended\<close>
  "lease_over j i t n = (\<forall>r. find_run j i = Some r \<and> rr_lease_token r = Some t
     \<longrightarrow> (\<forall>u. rr_lease_until r = Some u \<longrightarrow> instant u \<le> n))"

lemma not_owned:
  assumes "lease_over j i t (instant now)"
  shows "\<exists>e. owned i t now j = Inl e"
  using assms by (cases "find_run j i") (auto simp: owned_def lease_over_def lease_live_def split: option.splits)

lemma stranger_refused:
  assumes "lease_over j i t (instant (op_time op))" "works_under i t op"
  shows "refused c op j"
proof (cases op)
  case (Jo_start i' t' a)
  then show ?thesis
    using assms(2) not_owned[of j i t "sa_now a"] assms(1) by (cases "bounded_json c (sa_arguments a) 8000") (auto simp: start_step_def)
next
  case (Jo_complete i' t' n res now failed)
  then show ?thesis
    using assms(2) not_owned[of j i t now] assms(1) by (cases "bounded_json c res 120000") (auto simp: complete_step_def)
next
  case (Jo_finish i' t' res now completed)
  then show ?thesis
    using assms(2) not_owned[of j i t now] assms(1) by (cases "bounded_json c res 160000") (auto simp: finish_research_def)
qed (use assms(2) in auto)

lemma lease_over_change:
  assumes "journal_change c op j j'" "lease_over j i t n" "\<not> issues t op"
  shows "lease_over j' i t n"
  using assms(1)
proof cases
  case (granted a k r)
  have "aq_token a \<noteq> t" using assms(3) granted(1) by simp
  then show ?thesis
    using assms(2) granted(2) by (auto simp: lease_over_def find_run_update find_run_insert grant_lease_def new_run_def split: if_splits)
qed (use assms(2) in \<open>auto simp: lease_over_def find_run_update split: option.splits if_splits\<close>)

lemma lease_over_run: "lease_over j i t n \<Longrightarrow> \<forall>op\<in>set ops. \<not> issues t op \<Longrightarrow> lease_over (journal_run c ops j) i t n"
proof (induction ops arbitrary: j)
  case (Cons op ops)
  then show ?case using Cons.IH[OF lease_over_change[OF journal_step_change Cons.prems(1)]] by simp
qed simp

definition foreign :: "codec \<Rightarrow> string \<Rightarrow> string \<Rightarrow> int \<Rightarrow> journal_op \<Rightarrow> bool" where
  \<comment> \<open>not an operation of the holder, and no attempt to take the lease after its end\<close>
  "foreign c i t until op = (\<not> works_under i t op
     \<and> (case op of Jo_acquire a \<Rightarrow> run_identifier c a = Inr i \<longrightarrow> instant (aq_now a) < until | _ \<Rightarrow> True))"

lemma foreign_change:
  assumes "journal_change c op j j'" "journal_ok j" "find_run j i = Some r" "rr_lease_token r = Some t"
    "rr_lease_until r = Some u" "foreign c i t (instant u) op"
  shows "find_run j' i = Some r \<and> run_steps j' i = run_steps j i"
proof -
  have run: "rr_status r = RUN_RUNNING" using journal_okD[OF assms(2,3)] assms(4) by (simp add: run_ok_def)
  from assms(1) show ?thesis
  proof cases
    case (granted a k q)
    have "k \<noteq> i"
    proof
      assume "k = i"
      then have "q = r" "lease_live r (aq_now a)"
        using granted assms(3,5,6) by (auto simp: find_run_insert foreign_def lease_live_def split: if_splits)
      then show False using granted(7) by (simp add: lease_refusal_def)
    qed
    then show ?thesis
      using assms(3) granted(2) by (simp add: find_run_update grant_lease_def find_run_insert run_steps_interrupt)
  qed (use assms run in \<open>auto simp: foreign_def owned_Inr find_run_update run_steps_numbered\<close>)
qed

lemma foreign_run:
  assumes "journal_reachable c j" "find_run j i = Some r" "rr_lease_token r = Some t"
    "rr_lease_until r = Some u" "\<forall>op\<in>set ops. foreign c i t (instant u) op"
  shows "find_run (journal_run c ops j) i = Some r \<and> run_steps (journal_run c ops j) i = run_steps j i"
  using assms
proof (induction ops arbitrary: j)
  case (Cons op ops)
  have "find_run (journal_step c op j) i = Some r \<and> run_steps (journal_step c op j) i = run_steps j i"
    using Cons.prems by (intro foreign_change[OF journal_step_change journal_reachable_ok]) auto
  then show ?case using Cons by (simp add: journal_reachable.step)
qed simp

section \<open>What is recorded stays\<close>

definition evolves :: "research_step \<Rightarrow> research_step \<Rightarrow> bool" where
  "evolves s s' = (s' = s \<or> rs_status s = STEP_STARTED \<and> rs_status s' \<noteq> STEP_STARTED \<and> rs_run_id s' = rs_run_id s
     \<and> rs_number s' = rs_number s \<and> rs_tool s' = rs_tool s \<and> rs_arguments_hash s' = rs_arguments_hash s
     \<and> rs_started_at s' = rs_started_at s)"

lemma evolves_trans: "evolves a b \<Longrightarrow> evolves b d \<Longrightarrow> evolves a d"
  by (auto simp: evolves_def)

definition extends :: "research_step list \<Rightarrow> research_step list \<Rightarrow> bool" where
  "extends ss ss' = (length ss \<le> length ss' \<and> (\<forall>n<length ss. evolves (ss ! n) (ss' ! n)))"

lemma extends_refl [simp]: "extends ss ss" and extends_snoc [simp]: "extends ss (ss @ [s])"
  by (auto simp: extends_def evolves_def nth_append)

lemma extends_map: "(\<And>s. s \<in> set ss \<Longrightarrow> evolves s (f s)) \<Longrightarrow> extends ss (map f ss)"
  by (auto simp: extends_def)

lemma extends_trans: "extends a b \<Longrightarrow> extends b d \<Longrightarrow> extends a d"
  unfolding extends_def by (meson evolves_trans le_trans less_le_trans)

lemma change_extends:
  assumes "journal_change c op j j'" "journal_ok j"
  shows "extends (jo_steps j) (jo_steps j')"
  using assms(1)
proof cases
  case (granted a i r)
  have "jo_steps j' = map (\<lambda>s. if rs_run_id s = i \<and> rs_status s = STEP_STARTED
      then s\<lparr>rs_status := STEP_INTERRUPTED_UNKNOWN, rs_completed_at := Some (aq_now a)\<rparr> else s) (jo_steps j)"
    unfolding granted(2) by (simp add: update_run_def interrupt_steps_def update_steps_def insert_run_def)
  then show ?thesis by (auto intro!: extends_map simp: evolves_def)
next
  case (completed i token now r n s res failed encoded)
  have s: "s \<in> set (run_steps j i)" "rs_number s = n" "rs_run_id s = i" using find_step_in[OF completed(4)] by auto
  have r: "find_run j i = Some r" using completed(3) by (simp add: owned_Inr)
  have d: "distinct (map rs_number (run_steps j i))"
    using journal_okD[OF assms(2) r] unfolding run_ok_def by (intro numbered_distinct) blast
  have one: "x = s" if "x \<in> set (jo_steps j)" "rs_run_id x = i" "rs_number x = n" for x
  proof -
    have "x \<in> set (run_steps j i)" using that by (simp add: run_steps_def)
    then show ?thesis using d s that(3) by (auto simp: distinct_map dest: inj_onD)
  qed
  show ?thesis
    unfolding completed(2) update_run_def update_steps_def
    by (auto intro!: extends_map simp: evolves_def completed(6) dest: one split: if_splits)
qed (simp_all add: update_run_def)

lemma completed_run_kept:
  assumes "journal_change c op j j'" "find_run j i = Some r" "rr_status r = RUN_COMPLETED"
  shows "\<exists>x t. find_run j' i = Some (r\<lparr>rr_result := x, rr_updated_at := t\<rparr>) \<and> run_steps j' i = run_steps j i"
  using assms(1)
proof cases
  case (granted a k q)
  have "k \<noteq> i" using granted(5,6) assms(2,3) by (auto simp: find_run_insert split: if_splits)
  moreover have "rr_id (grant_lease a x) = rr_id x" for x by (simp add: grant_lease_def)
  ultimately have "find_run j' i = Some r \<and> run_steps j' i = run_steps j i"
    using assms(2) granted(2) by (simp add: find_run_update find_run_insert run_steps_interrupt)
  then show ?thesis by (intro exI[of _ "rr_result r"] exI[of _ "rr_updated_at r"]) simp
next
  case same
  then show ?thesis using assms(2) by (intro exI[of _ "rr_result r"] exI[of _ "rr_updated_at r"]) simp
next
  case (published k q outcome now encoded)
  show ?thesis
  proof (cases "k = i")
    case True
    then show ?thesis
      using assms(2) published(2) by (intro exI[of _ "Some encoded"] exI[of _ now]) (simp add: find_run_update)
  next
    case False
    then show ?thesis
      using assms(2) published(2) by (intro exI[of _ "rr_result r"] exI[of _ "rr_updated_at r"]) (simp add: find_run_update)
  qed
next
  case (started k token s q a)
  then have "k \<noteq> i" using assms(2,3) by (auto simp: owned_Inr)
  then show ?thesis using assms(2) started by (intro exI[of _ "rr_result r"] exI[of _ "rr_updated_at r"]) simp
next
  case (completed k token now q n s res failed encoded)
  then have "k \<noteq> i" using assms(2,3) by (auto simp: owned_Inr)
  then show ?thesis
    using assms(2) completed(2) by (intro exI[of _ "rr_result r"] exI[of _ "rr_updated_at r"]) (simp add: find_run_update run_steps_numbered)
next
  case (finished k token now q res fin encoded)
  then have "k \<noteq> i" using assms(2,3) by (auto simp: owned_Inr)
  then show ?thesis
    using assms(2) finished(2) by (intro exI[of _ "rr_result r"] exI[of _ "rr_updated_at r"]) (simp add: find_run_update)
qed

lemma run_extends:
  assumes "journal_reachable c j"
  shows "extends (jo_steps j) (jo_steps (journal_run c ops j))"
  using assms
proof (induction ops arbitrary: j)
  case (Cons op ops)
  have "extends (jo_steps j) (jo_steps (journal_step c op j))"
    by (rule change_extends[OF journal_step_change journal_reachable_ok[OF Cons.prems]])
  moreover have "extends (jo_steps (journal_step c op j)) (jo_steps (journal_run c ops (journal_step c op j)))"
    by (rule Cons.IH[OF journal_reachable.step[OF Cons.prems]])
  ultimately show ?case using extends_trans by auto
qed simp

lemma completed_run_kept_run:
  assumes "find_run j i = Some r" "rr_status r = RUN_COMPLETED"
  shows "\<exists>x t. find_run (journal_run c ops j) i = Some (r\<lparr>rr_result := x, rr_updated_at := t\<rparr>)
    \<and> run_steps (journal_run c ops j) i = run_steps j i"
  using assms
proof (induction ops arbitrary: j r)
  case (Cons op ops)
  obtain x t where x: "find_run (journal_step c op j) i = Some (r\<lparr>rr_result := x, rr_updated_at := t\<rparr>)"
      "run_steps (journal_step c op j) i = run_steps j i"
    using completed_run_kept[OF journal_step_change Cons.prems] by blast
  then obtain y s where "find_run (journal_run c ops (journal_step c op j)) i = Some (r\<lparr>rr_result := x, rr_updated_at := t,
      rr_result := y, rr_updated_at := s\<rparr>) \<and> run_steps (journal_run c ops (journal_step c op j)) i = run_steps j i"
    using Cons.IH[OF x(1)] Cons.prems(2) by auto
  then show ?case by (intro exI[of _ y] exI[of _ s]) simp
next
  case Nil
  then show ?case by (intro exI[of _ "rr_result r"] exI[of _ "rr_updated_at r"]) simp
qed

section \<open>A journal to run the properties on\<close>

definition journal_codec :: codec where
  "journal_codec = \<lparr>co_dump = (\<lambda>_. ''x''), co_parse = (\<lambda>_. None), co_sha = (\<lambda>s. s)\<rparr>"

definition journal_time :: "int \<Rightarrow> datetime" where
  "journal_time n = \<lparr>dt_local = seconds n, dt_offset = Some 0\<rparr>"

definition journal_args :: "string \<Rightarrow> int \<Rightarrow> acquire_args" where
  "journal_args token n = \<lparr>aq_event_reference = ''event'', aq_source_revision = replicate 64 (CHR ''a''), aq_configuration = J_null,
     aq_now = journal_time n, aq_lease_seconds = 90, aq_max_attempts = 3, aq_token = token\<rparr>"

definition journal_begin :: journal_op where
  "journal_begin = Jo_start ''x'' ''t1'' \<lparr>sa_tool = ''search'', sa_arguments = J_null, sa_now = journal_time 5, sa_max_steps = 12\<rparr>"

lemmas journal_demo_defs = journal_codec_def journal_time_def journal_args_def journal_begin_def empty_journal_def
  acquire_def acquire_bounds_def run_identifier_def bounded_json_def insert_run_def new_run_def find_run_def lease_refusal_def
  lease_live_def grant_lease_def interrupt_steps_def update_run_def update_steps_def after_def Let_def aware_def seconds_def
  shift_def instant_def start_step_def owned_def run_steps_def list_all_iff

definition journal_first :: journal where
  "journal_first = journal_run journal_codec [Jo_acquire (journal_args ''t1'' 0), journal_begin] empty_journal"

definition journal_second :: journal where
  "journal_second = journal_step journal_codec (Jo_acquire (journal_args ''t2'' 100)) journal_first"

lemma journal_demo_reach: "journal_reachable journal_codec journal_first" "journal_reachable journal_codec journal_second"
  unfolding journal_second_def journal_first_def by (intro journal_reachable_run journal_reachable.intros)+

lemma journal_demo_acquired:
  "acquire journal_codec (journal_args ''t1'' 0) empty_journal
     = Inr ((''x'', Some ''t1''), journal_step journal_codec (Jo_acquire (journal_args ''t1'' 0)) empty_journal)"
  by (simp add: journal_demo_defs)

lemma journal_demo_runs:
  "map_option rr_attempt_count (find_run journal_first ''x'') = Some 1" "length (run_steps journal_first ''x'') = 1"
  "map_option rr_lease_token (find_run journal_second ''x'') = Some (Some ''t2'')" "map rs_status (jo_steps journal_second) = [STEP_INTERRUPTED_UNKNOWN]"
  "map rs_status (jo_steps journal_first) = [STEP_STARTED]"
  by (simp_all add: journal_second_def journal_first_def journal_demo_defs)

section \<open>Properties\<close>

text \<open>
  C4. The bookkeeping of the journal: however workers interleave, a run was attempted one to three times, its
  steps are numbered from one without a gap and never more than twelve, at most one of them is open, the count of
  completed steps is right, a run has a lease exactly while it is running, and otherwise it is paused or
  completed, has a result and no open step. No step ends before it starts.
\<close>

theorem research_journal_sound:
  assumes "journal_reachable c j" "find_run j i = Some r"
  shows "1 \<le> rr_attempt_count r \<and> rr_attempt_count r \<le> 3
    \<and> map rs_number (run_steps j i) = map int [1..<Suc (length (run_steps j i))] \<and> length (run_steps j i) \<le> 12
    \<and> (\<forall>s\<in>set (butlast (run_steps j i)). rs_status s \<noteq> STEP_STARTED)
    \<and> rr_completed_steps r = int (length (filter (\<lambda>s. rs_status s = STEP_COMPLETED) (run_steps j i)))
    \<and> (rr_status r = RUN_RUNNING \<longleftrightarrow> rr_lease_token r \<noteq> None) \<and> (rr_status r = RUN_RUNNING \<longleftrightarrow> rr_lease_until r \<noteq> None)
    \<and> (rr_status r = RUN_RUNNING \<or> rr_status r \<in> {RUN_PAUSED, RUN_COMPLETED} \<and> rr_result r \<noteq> None
        \<and> (\<forall>s\<in>set (run_steps j i). rs_status s \<noteq> STEP_STARTED))
    \<and> (\<forall>s\<in>set (run_steps j i). \<forall>t. rs_completed_at s = Some t \<longrightarrow> instant (rs_started_at s) \<le> instant t)"
proof -
  have ok: "run_ok r (run_steps j i)" by (rule journal_okD[OF journal_reachable_ok[OF assms(1)] assms(2)])
  then have "\<forall>s\<in>set (run_steps j i). step_ok r s" by (simp add: run_ok_def)
  then have "\<forall>s\<in>set (run_steps j i). \<forall>t. rs_completed_at s = Some t \<longrightarrow> instant (rs_started_at s) \<le> instant t"
    by (auto simp: step_ok_def)
  moreover have "rr_status r = RUN_RUNNING \<or> rr_status r \<in> {RUN_PAUSED, RUN_COMPLETED}"
    using ok by (cases "rr_status r") (auto simp: run_ok_def)
  ultimately show ?thesis using ok unfolding run_ok_def by blast
qed

theorem research_journal_sound_witness:
  "\<exists>r. find_run journal_first ''x'' = Some r \<and> rr_attempt_count r = 1 \<and> (rr_status r = RUN_RUNNING \<longleftrightarrow> rr_lease_token r \<noteq> None)"
  using research_journal_sound[OF journal_demo_reach(1)] journal_demo_runs(1) by auto

text \<open>
  C13. A worker that no longer holds the lease of a run is fenced off, whether another took the run over or the lease
  has only ended: whatever others do meanwhile, as long as its token is not issued again, every operation it tries on
  the run, at a time when its token has no lease that lasts longer, is refused and leaves the journal as it is.
\<close>

theorem superseded_worker_is_fenced:
  assumes "\<And>r u. find_run j i = Some r \<Longrightarrow> rr_lease_token r = Some t \<Longrightarrow> rr_lease_until r = Some u \<Longrightarrow> instant u \<le> instant (op_time op)"
    and "\<forall>op\<in>set ops. \<not> issues t op" and "works_under i t op"
  shows "refused c op (journal_run c ops j) \<and> journal_step c op (journal_run c ops j) = journal_run c ops j"
proof -
  have "lease_over j i t (instant (op_time op))" using assms(1) by (auto simp: lease_over_def)
  then show ?thesis using stranger_refused[OF lease_over_run[OF _ assms(2)] assms(3)] refused_same by blast
qed

theorem superseded_worker_is_fenced_witness:
  "journal_step journal_codec (Jo_finish ''x'' ''t1'' J_null (journal_time 101) True) journal_second = journal_second
   \<and> journal_step journal_codec (Jo_finish ''x'' ''t1'' J_null (journal_time 101) True) journal_first = journal_first"
proof -
  let ?op = "Jo_finish ''x'' ''t1'' J_null (journal_time 101) True"
  have "map_option rr_lease_token (find_run journal_second ''x'') = Some (Some ''t2'')" by (rule journal_demo_runs(3))
  moreover have "map_option (\<lambda>r. map_option instant (rr_lease_until r)) (find_run journal_first ''x'') = Some (Some (instant (journal_time 90)))"
    by (simp_all add: journal_second_def journal_first_def journal_demo_defs)
  moreover have "instant (journal_time 90) \<le> instant (op_time ?op)" by (simp add: journal_time_def instant_def seconds_def)
  ultimately have "\<And>r u. find_run journal_second ''x'' = Some r \<Longrightarrow> rr_lease_token r = Some ''t1'' \<Longrightarrow> rr_lease_until r = Some u \<Longrightarrow> instant u \<le> instant (op_time ?op)"
    "\<And>r u. find_run journal_first ''x'' = Some r \<Longrightarrow> rr_lease_token r = Some ''t1'' \<Longrightarrow> rr_lease_until r = Some u \<Longrightarrow> instant u \<le> instant (op_time ?op)"
    by auto
  from superseded_worker_is_fenced[OF this(1), where ops = "[]"] superseded_worker_is_fenced[OF this(2), where ops = "[]"]
  show ?thesis by simp
qed

text \<open>
  C9. A lease protects its holder: from the time it is granted until it ends, nothing that others do, in any
  order, touches the run or its steps or takes the lease, so the holder is still recognised as the owner at
  every instant before the end.
\<close>

theorem live_lease_is_exclusive:
  assumes "journal_reachable c j" "acquire c a j = Inr ((i, Some t), j1)"
    and "\<forall>op\<in>set ops. foreign c i t (instant (aq_now a) + seconds (aq_lease_seconds a)) op"
  shows "find_run (journal_run c ops j1) i = find_run j1 i \<and> run_steps (journal_run c ops j1) i = run_steps j1 i
    \<and> (\<forall>now. t \<noteq> [] \<and> instant now < instant (aq_now a) + seconds (aq_lease_seconds a)
         \<longrightarrow> (\<exists>r. owned i t now (journal_run c ops j1) = Inr r))"
proof -
  obtain k q where k: "find_run (insert_run (new_run k a) j) k = Some q" and p: "if rr_status q = RUN_COMPLETED
      then ((i, Some t), j1) = ((k, None), insert_run (new_run k a) j)
      else lease_refusal a q = None \<and> ((i, Some t), j1) = ((k, Some (aq_token a)),
        update_run k (grant_lease a) (interrupt_steps k (aq_now a) (insert_run (new_run k a) j)))"
    by (rule acquire_InrE[OF assms(2)])
  have g: "rr_id (grant_lease a x) = rr_id x" for x by (simp add: grant_lease_def)
  have q: "find_run j1 i = Some (grant_lease a q)" "t = aq_token a"
    using p k by (auto simp: find_run_update g split: if_splits)
  have j1: "journal_reachable c j1"
    using journal_reachable.step[OF assms(1), of "Jo_acquire a"] assms(2) by (simp add: after_def)
  let ?u = "shift (seconds (aq_lease_seconds a)) (aq_now a)"
  have u: "instant ?u = instant (aq_now a) + seconds (aq_lease_seconds a)" by (simp add: shift_def instant_def)
  have "find_run (journal_run c ops j1) i = Some (grant_lease a q) \<and> run_steps (journal_run c ops j1) i = run_steps j1 i"
    by (rule foreign_run[OF j1 q(1), of t ?u]) (use assms(3) q(2) in \<open>simp_all add: grant_lease_def u\<close>)
  then show ?thesis using q by (auto simp: owned_Inr grant_lease_def lease_live_def u)
qed

theorem live_lease_is_exclusive_witness:
  "\<exists>r. owned ''x'' ''t1'' (journal_time 60)
     (journal_run journal_codec [Jo_acquire (journal_args ''t2'' 50), Jo_finish ''x'' ''t3'' J_null (journal_time 55) True]
        (journal_step journal_codec (Jo_acquire (journal_args ''t1'' 0)) empty_journal)) = Inr r"
proof -
  let ?ops = "[Jo_acquire (journal_args ''t2'' 50), Jo_finish ''x'' ''t3'' J_null (journal_time 55) True]"
  let ?until = "instant (aq_now (journal_args ''t1'' 0)) + seconds (aq_lease_seconds (journal_args ''t1'' 0))"
  have f: "\<forall>op\<in>set ?ops. foreign journal_codec ''x'' ''t1'' ?until op"
    by (simp add: foreign_def journal_args_def journal_time_def instant_def seconds_def)
  have "''t1'' \<noteq> [] \<and> instant (journal_time 60) < ?until"
    by (simp add: journal_args_def journal_time_def instant_def seconds_def)
  then show ?thesis using live_lease_is_exclusive[OF journal_reachable.start journal_demo_acquired f] by blast
qed

text \<open>
  Research is never rewritten: whatever happens later, every recorded step stays in its place; one that has
  ended stays exactly as it is, and one that is open keeps its run, number, tool, arguments and start. A completed
  run keeps its steps and everything but its result, which a publication outcome extends.
\<close>

theorem recorded_research_is_kept:
  assumes "journal_reachable c j"
  shows "extends (jo_steps j) (jo_steps (journal_run c ops j))
    \<and> (\<forall>i r. find_run j i = Some r \<and> rr_status r = RUN_COMPLETED \<longrightarrow>
         (\<exists>x t. find_run (journal_run c ops j) i = Some (r\<lparr>rr_result := x, rr_updated_at := t\<rparr>)
            \<and> run_steps (journal_run c ops j) i = run_steps j i))"
  using run_extends[OF assms] completed_run_kept_run by blast

theorem recorded_research_is_kept_witness:
  "extends (jo_steps journal_first) (jo_steps (journal_run journal_codec [Jo_acquire (journal_args ''t2'' 100)] journal_first))"
  using recorded_research_is_kept[OF journal_demo_reach(1)] by blast

end
