(* ===== verification/AiUsage.thy ===== *)
theory AiUsage
  imports MonitorPolicy Json_Read
begin

text \<open>
  \<^verbatim>\<open>persistence/ai_usage.py\<close>: the durable budget of calls to the language model. The table of
  receipts is a list of rows; a transaction, which the advisory lock or the immediate transaction makes one step,
  is a function that gives an error (and rolls back) or a value with the new table. Times are instants, and a new
  identifier is an argument. The JSON text of a row is the record it denotes.
\<close>

section \<open>Receipts\<close>

datatype usage_error = UsageValue string | AiBudgetExceeded string | UsageIntegrity

datatype receipt_status = RESERVED | EXPIRED_OUTCOME_UNKNOWN | SETTLED string

record call_policy =
  cp_daily_environment :: int
  cp_daily_actor :: int
  cp_concurrent_environment :: int
  cp_concurrent_actor :: int
  cp_lease_seconds :: int

record call_usage =
  cu_prompt_tokens :: "int option"
  cu_output_tokens :: "int option"
  cu_total_tokens :: "int option"
  cu_thinking_token_count :: "int option"
  cu_finish_reason :: "string option"
  cu_elapsed_ms :: "rat option"

record ai_receipt =
  air_id :: string
  air_environment_id :: string
  air_actor_id :: string
  air_purpose :: string
  air_model :: string
  air_started_at :: datetime
  air_lease_expires_at :: datetime
  air_completed_at :: "datetime option"
  air_status :: receipt_status
  air_policy :: call_policy
  air_usage :: "call_usage option"

definition default_policy :: call_policy where
  "default_policy = \<lparr>cp_daily_environment = 1000, cp_daily_actor = 400, cp_concurrent_environment = 2,
     cp_concurrent_actor = 1, cp_lease_seconds = 180\<rparr>"

definition policy_bounded :: "call_policy \<Rightarrow> bool" where
  "policy_bounded p = (1 \<le> cp_daily_actor p \<and> cp_daily_actor p \<le> cp_daily_environment p \<and> cp_daily_environment p \<le> 10000
     \<and> 1 \<le> cp_concurrent_actor p \<and> cp_concurrent_actor p \<le> cp_concurrent_environment p \<and> cp_concurrent_environment p \<le> 8
     \<and> 30 \<le> cp_lease_seconds p \<and> cp_lease_seconds p \<le> 1200)"

definition has_control :: "string \<Rightarrow> bool" where
  \<comment> \<open>\<open>re.search(r'[\x00-\x1f]', value)\<close>\<close>
  "has_control s = list_ex (\<lambda>c. (of_char c :: nat) < 32) s"

definition identity_valid :: "string \<Rightarrow> nat \<Rightarrow> bool" where
  "identity_valid value maximum = (1 \<le> length value \<and> length value \<le> maximum \<and> \<not> has_control value)"

section \<open>Reserving a call\<close>

record reserve_args =
  ra_environment_id :: string
  ra_actor_id :: string
  ra_purpose :: string
  ra_model :: string
  ra_now :: datetime
  ra_policy :: call_policy
  ra_new_id :: string

definition utc_midnight :: "datetime \<Rightarrow> int" where
  "utc_midnight t = instant t div day_micros * day_micros"

definition expire_leases :: "string \<Rightarrow> datetime \<Rightarrow> ai_receipt list \<Rightarrow> ai_receipt list" where
  "expire_leases env now rows = map (\<lambda>r. if air_environment_id r = env \<and> air_status r = RESERVED
     \<and> instant (air_lease_expires_at r) \<le> instant now then r\<lparr>air_status := EXPIRED_OUTCOME_UNKNOWN\<rparr> else r) rows"

definition calls_on_day :: "string \<Rightarrow> int \<Rightarrow> ai_receipt list \<Rightarrow> ai_receipt list" where
  "calls_on_day env midnight rows = filter (\<lambda>r. air_environment_id r = env \<and> midnight \<le> instant (air_started_at r)
     \<and> instant (air_started_at r) < midnight + day_micros) rows"

definition active_calls :: "string \<Rightarrow> datetime \<Rightarrow> ai_receipt list \<Rightarrow> ai_receipt list" where
  "active_calls env now rows = filter (\<lambda>r. air_environment_id r = env \<and> air_status r = RESERVED
     \<and> instant now < instant (air_lease_expires_at r)) rows"

definition of_actor :: "string \<Rightarrow> ai_receipt list \<Rightarrow> ai_receipt list" where
  "of_actor actor rows = filter (\<lambda>r. air_actor_id r = actor) rows"

definition new_receipt :: "reserve_args \<Rightarrow> ai_receipt" where
  "new_receipt a = \<lparr>air_id = ra_new_id a, air_environment_id = ra_environment_id a, air_actor_id = ra_actor_id a,
     air_purpose = ra_purpose a, air_model = ra_model a, air_started_at = to_utc (ra_now a),
     air_lease_expires_at = shift (cp_lease_seconds (ra_policy a) * 1000000) (to_utc (ra_now a)),
     air_completed_at = None, air_status = RESERVED, air_policy = ra_policy a, air_usage = None\<rparr>"

definition reserve_refusal :: "reserve_args \<Rightarrow> ai_receipt list \<Rightarrow> string option" where
  \<comment> \<open>the four budgets, in the order of the code\<close>
  "reserve_refusal a rows =
     (let p = ra_policy a; today = calls_on_day (ra_environment_id a) (utc_midnight (ra_now a)) rows;
          active = active_calls (ra_environment_id a) (ra_now a) rows
      in if cp_daily_environment p \<le> int (length today) then Some ''Workspace daily AI call budget reached.''
         else if cp_daily_actor p \<le> int (length (of_actor (ra_actor_id a) today)) then Some ''Your daily AI call budget was reached.''
         else if cp_concurrent_environment p \<le> int (length active)
         then Some ''Workspace AI concurrency budget is occupied; retry after the active call finishes.''
         else if cp_concurrent_actor p \<le> int (length (of_actor (ra_actor_id a) active))
         then Some ''An AI call is already active for this user; wait for its result.''
         else None)"

definition ai_reserve :: "reserve_args \<Rightarrow> ai_receipt list \<Rightarrow> (usage_error, string \<times> ai_receipt list) result" where
  "ai_reserve a rows =
     (if \<not> aware (ra_now a) then Inl (UsageValue ''AI budget accounting requires a real UTC-aware clock.'')
      else if \<not> (identity_valid (ra_environment_id a) 80 \<and> identity_valid (ra_actor_id a) 128
        \<and> identity_valid (ra_purpose a) 40 \<and> identity_valid (ra_model a) 128)
      then Inl (UsageValue ''AI reservation identity is invalid.'')
      else if \<not> policy_bounded (ra_policy a) then Inl (UsageValue ''AI budget policy exceeds bounded POC limits.'')
      else let rows' = expire_leases (ra_environment_id a) (ra_now a) rows
           in case reserve_refusal a rows' of
                Some message \<Rightarrow> Inl (AiBudgetExceeded message)
              | None \<Rightarrow> (if ra_new_id a \<in> air_id ` set rows' then Inl UsageIntegrity
                  else Inr (ra_new_id a, rows' @ [new_receipt a])))"

section \<open>Completing a call\<close>

definition COMPLETION_STATUSES :: "string list" where
  "COMPLETION_STATUSES = [''RESPONSE_RECEIVED'', ''AUTH_FAILED'', ''TIMEOUT'', ''PROVIDER_QUOTA'', ''FAILED'']"

definition USAGE_KEYS :: "string list" where
  "USAGE_KEYS = [''prompt_tokens'', ''output_tokens'', ''total_tokens'', ''thinking_token_count'', ''finish_reason'', ''elapsed_ms'']"

fun bounded_tokens :: "json \<Rightarrow> int option" where
  \<comment> \<open>\<open>type(value) is int and 0 <= value <= 100000000\<close>\<close>
  "bounded_tokens (J_int n) = (if 0 \<le> n \<and> n \<le> 100000000 then Some n else None)"
| "bounded_tokens _ = None"

fun bounded_elapsed :: "json \<Rightarrow> rat option" where
  "bounded_elapsed (J_int n) = (if 0 \<le> n \<and> n \<le> 3600000 then Some (of_int n) else None)"
| "bounded_elapsed (J_num q) = (if 0 \<le> q \<and> q \<le> 3600000 then Some q else None)"
| "bounded_elapsed _ = None"

definition reason_char :: "char \<Rightarrow> bool" where
  \<comment> \<open>\<open>[A-Za-z0-9_.-]\<close>\<close>
  "reason_char c = (let n = of_char c :: nat in 65 \<le> n \<and> n \<le> 90 \<or> 97 \<le> n \<and> n \<le> 122 \<or> 48 \<le> n \<and> n \<le> 57
     \<or> n = 95 \<or> n = 46 \<or> n = 45)"

fun bounded_reason :: "json \<Rightarrow> string option" where
  "bounded_reason (J_str s) = (if 1 \<le> length s \<and> length s \<le> 64 \<and> list_all reason_char s then Some s else None)"
| "bounded_reason _ = None"

definition clean_usage :: "(string \<times> json) list \<Rightarrow> call_usage" where
  "clean_usage u = (let v = (\<lambda>k. j_read (J_obj u) k) in
     \<lparr>cu_prompt_tokens = bounded_tokens (v ''prompt_tokens''), cu_output_tokens = bounded_tokens (v ''output_tokens''),
      cu_total_tokens = bounded_tokens (v ''total_tokens''), cu_thinking_token_count = bounded_tokens (v ''thinking_token_count''),
      cu_finish_reason = bounded_reason (v ''finish_reason''), cu_elapsed_ms = bounded_elapsed (v ''elapsed_ms'')\<rparr>)"

definition settled :: "string \<Rightarrow> datetime \<Rightarrow> string \<Rightarrow> (string \<times> json) list \<Rightarrow> ai_receipt \<Rightarrow> ai_receipt" where
  "settled receipt_id now status usage r = (if air_id r = receipt_id
     then r\<lparr>air_completed_at := Some now, air_status := SETTLED status, air_usage := Some (clean_usage usage)\<rparr> else r)"

lemma settled_keeps [simp]: "air_environment_id (settled i now st u x) = air_environment_id x" "air_actor_id (settled i now st u x) = air_actor_id x"
  "air_started_at (settled i now st u x) = air_started_at x" "air_id (settled i now st u x) = air_id x"
  by (simp_all add: settled_def)

lemma settled_reserved: "air_status (settled i now st u x) = RESERVED \<Longrightarrow> air_status x = RESERVED"
  by (simp add: settled_def split: if_splits)

definition ai_complete ::
  "string \<Rightarrow> datetime \<Rightarrow> string \<Rightarrow> (string \<times> json) list \<Rightarrow> ai_receipt list \<Rightarrow> (usage_error, unit \<times> ai_receipt list) result" where
  "ai_complete receipt_id now status usage rows =
     (if \<not> aware now \<or> status \<notin> set COMPLETION_STATUSES then Inl (UsageValue ''Invalid AI receipt completion.'')
      else if \<not> set (dkeys usage) \<subseteq> set USAGE_KEYS
      then Inl (UsageValue ''Only bounded usage metadata belongs in an AI receipt.'')
      else case first_match (\<lambda>r. air_id r = receipt_id) rows of
             None \<Rightarrow> Inl (UsageValue ''AI reservation not found.'')
           | Some r \<Rightarrow>
               (if air_status r \<notin> {RESERVED, EXPIRED_OUTCOME_UNKNOWN}
                then (if air_status r \<noteq> SETTLED status \<or> air_usage r \<noteq> Some (clean_usage usage)
                      then Inl (UsageValue ''A completed AI receipt cannot be rewritten.'') else Inr ((), rows))
                else if instant now < instant (air_started_at r)
                then Inl (UsageValue ''AI completion precedes its reservation.'')
                else Inr ((), map (settled receipt_id now status usage) rows)))"

section \<open>Summary\<close>

record usage_summary =
  us_workspace_reserved_calls :: int
  us_your_reserved_calls :: int
  us_your_measured_total_tokens :: "int option"
  us_your_unknown_usage_calls :: int

definition ai_summary :: "string \<Rightarrow> string \<Rightarrow> datetime \<Rightarrow> ai_receipt list \<Rightarrow> (usage_error, usage_summary) result" where
  "ai_summary env actor now rows =
     (if \<not> aware now then Inl (UsageValue ''AI accounting requires an aware clock.'')
      else let today = calls_on_day env (utc_midnight now) rows; own = of_actor actor today;
               known = List.map_filter (\<lambda>r. Option.bind (air_usage r) cu_total_tokens) own
           in Inr \<lparr>us_workspace_reserved_calls = int (length today), us_your_reserved_calls = int (length own),
                us_your_measured_total_tokens = (if known = [] then None else Some (sum_list known)),
                us_your_unknown_usage_calls = int (length own) - int (length known)\<rparr>)"

section \<open>Runs\<close>

datatype usage_op = Uo_reserve reserve_args | Uo_complete string datetime string "(string \<times> json) list"

fun usage_step :: "usage_op \<Rightarrow> ai_receipt list \<Rightarrow> ai_receipt list" where
  "usage_step (Uo_reserve a) rows = (case ai_reserve a rows of Inl _ \<Rightarrow> rows | Inr (_, rows') \<Rightarrow> rows')"
| "usage_step (Uo_complete i now status usage) rows =
     (case ai_complete i now status usage rows of Inl _ \<Rightarrow> rows | Inr (_, rows') \<Rightarrow> rows')"

definition usage_run :: "usage_op list \<Rightarrow> ai_receipt list \<Rightarrow> ai_receipt list" where
  "usage_run ops rows = foldl (\<lambda>rows op. usage_step op rows) rows ops"

lemma usage_run_simps [simp]: "usage_run [] rows = rows" "usage_run (op # ops) rows = usage_run ops (usage_step op rows)"
  by (simp_all add: usage_run_def)

fun keeps_policy :: "call_policy \<Rightarrow> usage_op \<Rightarrow> bool" where
  "keeps_policy p (Uo_reserve a) = (ra_policy a = p)"
| "keeps_policy p (Uo_complete _ _ _ _) = True"

section \<open>The budget\<close>

definition reserved_calls :: "string \<Rightarrow> ai_receipt list \<Rightarrow> ai_receipt list" where
  "reserved_calls env rows = filter (\<lambda>r. air_environment_id r = env \<and> air_status r = RESERVED) rows"

definition within_budget :: "call_policy \<Rightarrow> ai_receipt list \<Rightarrow> string \<Rightarrow> string \<Rightarrow> int \<Rightarrow> bool" where
  "within_budget p rows env actor day =
     (int (length (calls_on_day env (day * day_micros) rows)) \<le> cp_daily_environment p
      \<and> int (length (of_actor actor (calls_on_day env (day * day_micros) rows))) \<le> cp_daily_actor p
      \<and> int (length (reserved_calls env rows)) \<le> cp_concurrent_environment p
      \<and> int (length (of_actor actor (reserved_calls env rows))) \<le> cp_concurrent_actor p)"

lemma length_filter_mono: "(\<And>x. P x \<Longrightarrow> Q x) \<Longrightarrow> length (filter P xs) \<le> length (filter Q xs)"
  by (induction xs) (auto intro: le_SucI)

lemma mapped_lengths:
  assumes "\<And>x. air_environment_id (f x) = air_environment_id x" "\<And>x. air_actor_id (f x) = air_actor_id x"
    "\<And>x. air_started_at (f x) = air_started_at x" "\<And>x. air_status (f x) = RESERVED \<Longrightarrow> air_status x = RESERVED"
  shows "length (calls_on_day env m (map f rows)) = length (calls_on_day env m rows)"
    and "length (of_actor actor (calls_on_day env m (map f rows))) = length (of_actor actor (calls_on_day env m rows))"
    and "length (reserved_calls env (map f rows)) \<le> length (reserved_calls env rows)"
    and "length (of_actor actor (reserved_calls env (map f rows))) \<le> length (of_actor actor (reserved_calls env rows))"
  by (simp_all add: calls_on_day_def of_actor_def reserved_calls_def filter_map comp_def assms(1-3))
    (rule length_filter_mono; use assms(4) in blast)+

definition expired :: "string \<Rightarrow> datetime \<Rightarrow> ai_receipt \<Rightarrow> ai_receipt" where
  "expired env now r = (if air_environment_id r = env \<and> air_status r = RESERVED \<and> instant (air_lease_expires_at r) \<le> instant now
     then r\<lparr>air_status := EXPIRED_OUTCOME_UNKNOWN\<rparr> else r)"

lemma expire_map: "expire_leases env now rows = map (expired env now) rows"
  by (simp add: expire_leases_def expired_def)

lemma expired_keeps [simp]: "air_environment_id (expired e now x) = air_environment_id x" "air_actor_id (expired e now x) = air_actor_id x"
  "air_started_at (expired e now x) = air_started_at x" "air_lease_expires_at (expired e now x) = air_lease_expires_at x"
  "air_id (expired e now x) = air_id x"
  by (simp_all add: expired_def)

lemma expired_reserved: "air_status (expired e now x) = RESERVED \<Longrightarrow> air_status x = RESERVED"
  by (simp add: expired_def split: if_splits)

lemma expire_lengths:
  "length (calls_on_day env m (expire_leases e now rows)) = length (calls_on_day env m rows)"
  "length (of_actor actor (calls_on_day env m (expire_leases e now rows))) = length (of_actor actor (calls_on_day env m rows))"
  "length (reserved_calls env (expire_leases e now rows)) \<le> length (reserved_calls env rows)"
  "length (of_actor actor (reserved_calls env (expire_leases e now rows))) \<le> length (of_actor actor (reserved_calls env rows))"
  unfolding expire_map by (rule mapped_lengths; simp add: expired_reserved)+

lemma expired_active: "active_calls env now (expire_leases env now rows) = reserved_calls env (expire_leases env now rows)"
  unfolding active_calls_def reserved_calls_def expire_map by (rule filter_cong) (auto simp: expired_def not_le)

lemma same_day: "utc_midnight t = day * day_micros \<longleftrightarrow> day * day_micros \<le> instant t \<and> instant t < day * day_micros + day_micros"
proof -
  have d: "(x div d = k) = (k * d \<le> x \<and> x < k * d + d)" if "0 < d" for x d k :: int
  proof
    assume "x div d = k"
    then have "x = k * d + x mod d" using div_mult_mod_eq[of x d] by simp
    then show "k * d \<le> x \<and> x < k * d + d" using that pos_mod_bound[of d x] pos_mod_sign[of d x] by linarith
  next
    assume "k * d \<le> x \<and> x < k * d + d"
    then show "x div d = k" using that by (intro int_div_pos_eq[of x d k "x - k * d"]) (auto simp: algebra_simps)
  qed
  have "0 < day_micros" by (simp add: day_micros_def)
  then show ?thesis using d[of day_micros "instant t" day] by (simp add: utc_midnight_def)
qed

lemma started_shift [simp]: "air_started_at (new_receipt a) = to_utc (ra_now a)" "air_environment_id (new_receipt a) = ra_environment_id a"
  "air_actor_id (new_receipt a) = ra_actor_id a" "air_status (new_receipt a) = RESERVED"
  by (simp_all add: new_receipt_def)

lemma budget_append:
  "calls_on_day env (day * day_micros) (rows @ [new_receipt a]) = calls_on_day env (day * day_micros) rows
     @ (if ra_environment_id a = env \<and> utc_midnight (ra_now a) = day * day_micros then [new_receipt a] else [])"
  "reserved_calls env (rows @ [new_receipt a]) = reserved_calls env rows @ (if ra_environment_id a = env then [new_receipt a] else [])"
  "of_actor actor (xs @ [new_receipt a]) = of_actor actor xs @ (if ra_actor_id a = actor then [new_receipt a] else [])"
  "of_actor actor (xs @ []) = of_actor actor xs"
  by (auto simp: calls_on_day_def reserved_calls_def of_actor_def same_day)

lemma reserve_keeps_budget:
  assumes "within_budget (ra_policy a) rows env actor day" "ai_reserve a rows = Inr (i, rows')"
  shows "within_budget (ra_policy a) rows' env actor day"
proof -
  let ?e = "expire_leases (ra_environment_id a) (ra_now a) rows"
  have n: "reserve_refusal a ?e = None" and r: "rows' = ?e @ [new_receipt a]"
    using assms(2) by (auto simp: ai_reserve_def Let_def split: if_splits option.splits)
  show ?thesis
    using assms(1) n expire_lengths(3)[of env "ra_environment_id a" "ra_now a" rows]
      expire_lengths(4)[of actor env "ra_environment_id a" "ra_now a" rows]
    unfolding r within_budget_def reserve_refusal_def Let_def expired_active
    by (auto simp: budget_append expire_lengths(1,2) split: if_splits)
qed

lemma complete_keeps_budget:
  assumes "within_budget p rows env actor day" "ai_complete i now status usage rows = Inr (u, rows')"
  shows "within_budget p rows' env actor day"
proof -
  let ?f = "settled i now status usage"
  have "rows' = rows \<or> rows' = map ?f rows" using assms(2) by (auto simp: ai_complete_def split: if_splits option.splits)
  moreover have "length (calls_on_day env m (map ?f rows)) = length (calls_on_day env m rows)"
    "length (of_actor actor (calls_on_day env m (map ?f rows))) = length (of_actor actor (calls_on_day env m rows))"
    "length (reserved_calls env (map ?f rows)) \<le> length (reserved_calls env rows)"
    "length (of_actor actor (reserved_calls env (map ?f rows))) \<le> length (of_actor actor (reserved_calls env rows))" for m
    by (rule mapped_lengths; simp add: settled_reserved)+
  ultimately show ?thesis using assms(1) unfolding within_budget_def by (auto intro: order_trans)
qed

section \<open>Receipts are final\<close>

lemma usage_step_cases:
  obtains "usage_step op rows = rows"
  | a where "op = Uo_reserve a" "ai_reserve a rows = Inr (ra_new_id a, usage_step op rows)"
      "usage_step op rows = map (expired (ra_environment_id a) (ra_now a)) rows @ [new_receipt a]" "ra_new_id a \<notin> air_id ` set rows"
  | i now st u r where "op = Uo_complete i now st u" "ai_complete i now st u rows = Inr ((), usage_step op rows)"
      "first_match (\<lambda>r. air_id r = i) rows = Some r" "air_status r \<in> {RESERVED, EXPIRED_OUTCOME_UNKNOWN}"
      "usage_step op rows = map (settled i now st u) rows"
proof (cases op)
  case (Uo_reserve a)
  show thesis
  proof (cases "ai_reserve a rows")
    case (Inr p)
    then have "p = (ra_new_id a, expire_leases (ra_environment_id a) (ra_now a) rows @ [new_receipt a])
        \<and> ra_new_id a \<notin> air_id ` set (expire_leases (ra_environment_id a) (ra_now a) rows)"
      by (auto simp: ai_reserve_def Let_def split: if_splits option.splits)
    then show thesis using Uo_reserve Inr by (intro that(2)[of a]) (auto simp: expire_map image_image)
  qed (use Uo_reserve that(1) in simp)
next
  case (Uo_complete i now st u)
  show thesis
  proof (cases "ai_complete i now st u rows")
    case (Inr p)
    then obtain r where r: "first_match (\<lambda>r. air_id r = i) rows = Some r"
      by (cases "first_match (\<lambda>r. air_id r = i) rows") (auto simp: ai_complete_def simp del: first_match_None split: if_splits)
    show thesis
    proof (cases "air_status r \<in> {RESERVED, EXPIRED_OUTCOME_UNKNOWN}")
      case True
      then have "p = ((), map (settled i now st u) rows)" using Inr r by (auto simp: ai_complete_def split: if_splits)
      then show thesis using Uo_complete Inr r True by (intro that(3)[of i now st u r]) auto
    next
      case False
      then have "p = ((), rows)" using Inr r by (auto simp: ai_complete_def split: if_splits)
      then show thesis using Uo_complete Inr by (intro that(1)) simp
    qed
  qed (use Uo_complete that(1) in simp)
qed

lemma usage_step_budget:
  assumes "\<forall>env actor day. within_budget p rows env actor day" "keeps_policy p op"
  shows "within_budget p (usage_step op rows) env actor day"
proof (cases rule: usage_step_cases[of op rows])
  case (2 a)
  then show ?thesis using assms reserve_keeps_budget[OF _ 2(2)] by simp
next
  case (3 i now st u r)
  then show ?thesis using assms complete_keeps_budget[OF _ 3(2)] by blast
qed (use assms in simp)

lemma usage_run_budget:
  assumes "\<forall>env actor day. within_budget p rows env actor day" "\<forall>op\<in>set ops. keeps_policy p op"
  shows "within_budget p (usage_run ops rows) env actor day"
  using assms
proof (induction ops arbitrary: rows)
  case (Cons op ops)
  then show ?case using Cons.IH[of "usage_step op rows"] usage_step_budget[OF Cons.prems(1), of op] by simp
qed simp

lemma usage_step_distinct: "distinct (map air_id rows) \<Longrightarrow> distinct (map air_id (usage_step op rows))"
  by (cases rule: usage_step_cases[of op rows]) (auto simp: comp_def new_receipt_def)

lemma settled_kept:
  assumes "distinct (map air_id rows)" "r \<in> set rows" "air_status r = SETTLED st"
  shows "r \<in> set (usage_step op rows)"
proof (cases rule: usage_step_cases[of op rows])
  case (2 a)
  have "expired (ra_environment_id a) (ra_now a) r = r" using assms(3) by (simp add: expired_def)
  then have "r \<in> set (map (expired (ra_environment_id a) (ra_now a)) rows)" using assms(2) by (metis image_eqI set_map)
  then show ?thesis unfolding 2(3) by simp
next
  case (3 i now st' u q)
  have q: "q \<in> set rows" "air_id q = i" using first_match_Some[OF 3(3)] by auto
  have "inj_on air_id (set rows)" using assms(1) by (simp add: distinct_map)
  moreover have "q \<noteq> r" using assms(3) 3(4) by auto
  ultimately have "air_id r \<noteq> i" using q assms(2) by (metis inj_onD)
  then have "settled i now st' u r = r" by (simp add: settled_def)
  then show ?thesis using assms(2) unfolding 3(5) by (metis image_eqI set_map)
qed (use assms in simp)

lemma usage_run_distinct: "distinct (map air_id rows) \<Longrightarrow> distinct (map air_id (usage_run ops rows))"
  by (induction ops arbitrary: rows) (simp_all add: usage_step_distinct)

lemma settled_kept_run:
  "distinct (map air_id rows) \<Longrightarrow> r \<in> set rows \<Longrightarrow> air_status r = SETTLED st \<Longrightarrow> r \<in> set (usage_run ops rows)"
proof (induction ops arbitrary: rows)
  case (Cons op ops)
  then show ?case using Cons.IH[OF usage_step_distinct settled_kept] by simp
qed simp

lemma first_match_distinct:
  "distinct (map air_id rows) \<Longrightarrow> r \<in> set rows \<Longrightarrow> first_match (\<lambda>x. air_id x = air_id r) rows = Some r"
  by (induction rows) (auto simp: image_iff)

section \<open>Properties\<close>

text \<open>
  C10. The budget of model calls holds in every history of reservations and completions under one policy, by any
  users, with clocks that need not agree or advance: no workspace and no user ever has more calls on a UTC day than
  the daily limits, nor more reserved calls at once than the limits of concurrency.
\<close>

theorem ai_budget_never_exceeded:
  assumes "policy_bounded p" "\<forall>op\<in>set ops. keeps_policy p op"
  shows "int (length (calls_on_day env (day * day_micros) (usage_run ops []))) \<le> cp_daily_environment p
    \<and> int (length (of_actor actor (calls_on_day env (day * day_micros) (usage_run ops [])))) \<le> cp_daily_actor p
    \<and> int (length (reserved_calls env (usage_run ops []))) \<le> cp_concurrent_environment p
    \<and> int (length (of_actor actor (reserved_calls env (usage_run ops [])))) \<le> cp_concurrent_actor p"
proof -
  have "\<forall>env actor day. within_budget p [] env actor day"
    using assms(1) by (simp add: within_budget_def policy_bounded_def calls_on_day_def reserved_calls_def of_actor_def)
  from usage_run_budget[OF this assms(2), of env actor day] show ?thesis by (simp add: within_budget_def)
qed

definition usage_demo_time :: "int \<Rightarrow> datetime" where
  "usage_demo_time n = \<lparr>dt_local = n * 1000000, dt_offset = Some 0\<rparr>"

definition usage_demo_args :: "string \<Rightarrow> int \<Rightarrow> reserve_args" where
  "usage_demo_args i n = \<lparr>ra_environment_id = ''dev'', ra_actor_id = ''u1'', ra_purpose = ''chat'', ra_model = ''m'',
     ra_now = usage_demo_time n, ra_policy = default_policy, ra_new_id = i\<rparr>"

theorem ai_budget_never_exceeded_witness:
  "int (length (of_actor ''u1'' (reserved_calls ''dev''
     (usage_run [Uo_reserve (usage_demo_args ''r1'' 0), Uo_reserve (usage_demo_args ''r2'' 10)] [])))) \<le> 1"
proof -
  let ?ops = "[Uo_reserve (usage_demo_args ''r1'' 0), Uo_reserve (usage_demo_args ''r2'' 10)]"
  have "policy_bounded default_policy" by (simp add: policy_bounded_def default_policy_def)
  moreover have "\<forall>op\<in>set ?ops. keeps_policy default_policy op" by (simp add: usage_demo_args_def)
  ultimately have "int (length (of_actor ''u1'' (reserved_calls ''dev'' (usage_run ?ops [])))) \<le> cp_concurrent_actor default_policy"
    using ai_budget_never_exceeded by blast
  then show ?thesis by (simp add: default_policy_def)
qed

text \<open>
  A completed receipt is final: in every later history it stays in the table as it is, completing it again
  with the same outcome changes nothing, and completing it with another outcome is refused.
\<close>

theorem settled_receipts_are_final:
  assumes "ai_complete i now st u (usage_run before []) = Inr (x, rows)"
  shows "\<exists>r. r \<in> set (usage_run later_ops rows) \<and> air_id r = i \<and> air_status r = SETTLED st \<and> air_usage r = Some (clean_usage u)
    \<and> (\<forall>t. aware t \<longrightarrow> ai_complete i t st u (usage_run later_ops rows) = Inr ((), usage_run later_ops rows))
    \<and> (\<forall>t st' u'. st' \<noteq> st \<or> clean_usage u' \<noteq> clean_usage u \<longrightarrow> (\<exists>e. ai_complete i t st' u' (usage_run later_ops rows) = Inl e))"
proof -
  let ?start = "usage_run before []"
  have d: "distinct (map air_id ?start)" by (simp add: usage_run_distinct)
  have step: "rows = usage_step (Uo_complete i now st u) ?start" using assms by simp
  have d': "distinct (map air_id rows)" unfolding step by (rule usage_step_distinct[OF d])
  obtain q where q: "first_match (\<lambda>r. air_id r = i) ?start = Some q" "st \<in> set COMPLETION_STATUSES" "set (dkeys u) \<subseteq> set USAGE_KEYS"
    using assms by (auto simp: ai_complete_def split: if_splits option.splits)
  have m: "q \<in> set ?start" "air_id q = i" using first_match_Some[OF q(1)] by auto
  have "\<exists>r. r \<in> set rows \<and> air_id r = i \<and> air_status r = SETTLED st \<and> air_usage r = Some (clean_usage u)"
  proof (cases "air_status q \<in> {RESERVED, EXPIRED_OUTCOME_UNKNOWN}")
    case True
    then have "rows = map (settled i now st u) ?start" using assms q by (auto simp: ai_complete_def split: if_splits)
    then show ?thesis using m by (intro exI[of _ "settled i now st u q"]) (simp add: settled_def)
  next
    case False
    then show ?thesis using assms q m by (auto simp: ai_complete_def split: if_splits)
  qed
  then obtain r where r: "r \<in> set rows" "air_id r = i" "air_status r = SETTLED st" "air_usage r = Some (clean_usage u)" by blast
  let ?finishing = "usage_run later_ops rows"
  have e: "r \<in> set ?finishing" by (rule settled_kept_run[OF d' r(1,3)])
  have f: "first_match (\<lambda>x. air_id x = i) ?finishing = Some r"
    using first_match_distinct[OF usage_run_distinct[OF d'] e] r(2) by simp
  show ?thesis
    by (intro exI[of _ r]) (use e f r q in \<open>auto simp: ai_complete_def split: if_splits\<close>)
qed

lemma usage_demo_completes:
  "\<exists>rows. ai_complete ''r1'' (usage_demo_time 20) ''FAILED'' [] (usage_run [Uo_reserve (usage_demo_args ''r1'' 0)] []) = Inr ((), rows)"
proof -
  have i: "identity_valid ''dev'' 80" "identity_valid ''u1'' 128" "identity_valid ''chat'' 40" "identity_valid ''m'' 128" by code_simp+
  have "usage_run [Uo_reserve (usage_demo_args ''r1'' 0)] [] = [new_receipt (usage_demo_args ''r1'' 0)]"
    by (simp add: ai_reserve_def i usage_demo_args_def usage_demo_time_def aware_def policy_bounded_def default_policy_def
        expire_leases_def reserve_refusal_def calls_on_day_def active_calls_def of_actor_def Let_def)
  then show ?thesis
    by (simp add: ai_complete_def new_receipt_def usage_demo_args_def usage_demo_time_def aware_def COMPLETION_STATUSES_def dkeys_def instant_def to_utc_def)
qed

theorem settled_receipts_are_final_witness:
  "\<exists>rows. (\<exists>r\<in>set (usage_run [Uo_reserve (usage_demo_args ''r2'' 30)] rows). air_id r = ''r1'' \<and> air_status r = SETTLED ''FAILED'')
     \<and> (\<exists>e. ai_complete ''r1'' (usage_demo_time 40) ''TIMEOUT'' [] (usage_run [Uo_reserve (usage_demo_args ''r2'' 30)] rows) = Inl e)"
proof -
  obtain rows where "ai_complete ''r1'' (usage_demo_time 20) ''FAILED'' [] (usage_run [Uo_reserve (usage_demo_args ''r1'' 0)] []) = Inr ((), rows)"
    using usage_demo_completes by blast
  from settled_receipts_are_final[OF this, of "[Uo_reserve (usage_demo_args ''r2'' 30)]"] show ?thesis by (intro exI[of _ rows]) auto
qed

end
