(* ===== verification/ClassificationContract.thy ===== *)
theory ClassificationContract
  imports PursuitInputs
begin

text \<open>
  \<^verbatim>\<open>modules/classification/records.py\<close> and \<^verbatim>\<open>contract.py\<close>: the evidence-linked
  classification of a factor, the validation its constructor runs, its JSON sidecar, and the builders of the
  deterministic classifiers. A constructor that raises is an \<open>Inl\<close>.
\<close>

section \<open>Records\<close>

record classification_provenance = provenance +
  cpv_truth_class :: "string option"  \<comment> \<open>\<open>None\<close> for a plain \<open>Provenance\<close>, which has no such field\<close>

record factor_classification =
  fc_classification_id :: string
  fc_subject_kind :: string
  fc_subject_id :: string
  fc_family :: string
  fc_factor_path :: string
  fc_value_kind :: string
  fc_bin_value :: "string option"
  fc_raw_input :: "(string \<times> json) list option"
  fc_state :: string
  fc_method :: string
  fc_classifier_rule_version :: "string option"
  fc_scorer_rule_version :: string
  fc_evidence_ids :: "string list"
  fc_source_revision_ids :: "string list"
  fc_authored_by :: "string option"
  fc_authored_at :: "datetime option"
  fc_note :: "string option"
  fc_observed_as_of :: "datetime option"
  fc_classified_at :: datetime
  fc_provenance :: classification_provenance

section \<open>Validation\<close>

definition raises :: "bool \<Rightarrow> string \<Rightarrow> (py_error, unit) result" where
  "raises bad message = guard_r (\<not> bad) (ValueError message)"

lemma raises_Inr [res_simps]: "raises bad m = Inr u \<longleftrightarrow> \<not> bad"
  by (simp add: raises_def res_simps)

definition aware_option :: "datetime option \<Rightarrow> bool" where
  "aware_option t = (case t of None \<Rightarrow> True | Some v \<Rightarrow> aware v)"

definition check_method :: "factor_classification \<Rightarrow> (py_error, unit) result" where
  \<comment> \<open>the lineage each method requires\<close>
  "check_method r =
     (if fc_method r = ''DETERMINISTIC'' then
        bind_r (raises (\<not> truthy (fc_classifier_rule_version r) \<or> fc_state r = ''CURRENT'' \<and> fc_evidence_ids r = [])
          ''Deterministic classifications require a rule version and current evidence'') (\<lambda>_.
        raises (truthy (fc_authored_by r) \<or> fc_authored_at r \<noteq> None) ''Deterministic classifications cannot claim fixture authorship'')
      else
        bind_r (raises (\<not> truthy (fc_authored_by r) \<or> fc_authored_at r = None \<or> \<not> truthy (fc_note r)
            \<or> length (strip (default_to (fc_note r) [])) < 12)
          ''Authored classifications require author, time, and substantive note'') (\<lambda>_.
        bind_r (raises (truthy (fc_classifier_rule_version r)) ''Authored classifications have no deterministic rule version'') (\<lambda>_.
        bind_r (raises (prov_data_mode (fc_provenance r) \<noteq> SAMPLE \<or> \<not> prov_synthetic (fc_provenance r))
          ''Synthetic authored classification must retain SAMPLE/synthetic provenance'') (\<lambda>_.
        raises (cpv_truth_class (fc_provenance r) \<noteq> Some ''POC_SCENARIO'')
          ''Synthetic authored classification requires POC_SCENARIO truth class''))))"

definition check_values :: "factor_classification \<Rightarrow> (py_error, unit) result" where
  "check_values r =
     (let populated = of_bool (fc_bin_value r \<noteq> None) + of_bool (fc_raw_input r \<noteq> None) :: int in
      bind_r (raises (1 < populated \<or> fc_state r = ''CURRENT'' \<and> populated \<noteq> 1 \<or> fc_state r \<noteq> ''CURRENT'' \<and> populated \<noteq> 0)
        ''A current classification requires exactly one value; missing/stale/conflicting have none'') (\<lambda>_.
      bind_r (raises (fc_bin_value r \<noteq> None \<and> (fc_value_kind r \<noteq> ''BIN'' \<or> \<not> truthy (fc_bin_value r)))
        ''Bin classifications require a nonempty bin literal'') (\<lambda>_.
      raises (fc_raw_input r \<noteq> None \<and> (fc_value_kind r = ''BIN'' \<or> \<not> truthy (fc_raw_input r)))
        ''Raw classifications require nonempty input'')))"

definition check_vocabulary :: "factor_classification \<Rightarrow> (py_error, unit) result" where
  "check_vocabulary r =
     bind_r (raises (\<not> list_all (\<lambda>s. s \<noteq> []) [fc_classification_id r, fc_subject_kind r, fc_subject_id r,
         fc_family r, fc_factor_path r, fc_scorer_rule_version r])
       ''Classification identity, scope, and scorer version are required'') (\<lambda>_.
     bind_r (raises (fc_method r \<notin> {''DETERMINISTIC'', ''SYNTHETIC_AUTHORED''}) ''Unknown classification method'') (\<lambda>_.
     bind_r (raises (fc_state r \<notin> {''CURRENT'', ''MISSING'', ''STALE'', ''CONFLICTING''}) ''Unknown classification state'') (\<lambda>_.
     raises (fc_value_kind r \<notin> {''BIN'', ''RAW_INPUT'', ''REVIEWED_CLAIMS''}) ''Unknown classification value kind'')))"

definition check_clocks :: "factor_classification \<Rightarrow> (py_error, unit) result" where
  "check_clocks r =
     bind_r (raises (\<not> aware (fc_classified_at r)) ''classified_at must be timezone-aware'') (\<lambda>_.
     bind_r (raises (\<not> aware_option (fc_observed_as_of r)) ''observed_as_of must be timezone-aware'') (\<lambda>_.
     raises (\<not> aware_option (fc_authored_at r)) ''authored_at must be timezone-aware''))"

definition validate_classification :: "factor_classification \<Rightarrow> (py_error, unit) result" where
  "validate_classification r =
     bind_r (check_vocabulary r) (\<lambda>_. bind_r (check_values r) (\<lambda>_. bind_r (check_clocks r) (\<lambda>_.
     bind_r (check_method r) (\<lambda>_.
     raises (prov_data_mode (fc_provenance r) = SAMPLE \<and> \<not> prov_synthetic (fc_provenance r))
       ''SAMPLE classification outputs must remain synthetic''))))"

definition make_classification :: "factor_classification \<Rightarrow> (py_error, factor_classification) result" where
  \<comment> \<open>\<open>FactorClassification(...)\<close>, whose \<open>__post_init__\<close> validates\<close>
  "make_classification r = bind_r (validate_classification r) (\<lambda>_. Inr r)"

definition make_provenance :: "classification_provenance \<Rightarrow> (py_error, classification_provenance) result" where
  "make_provenance p = bind_r (provenance_post_init (provenance.truncate p)) (\<lambda>_. Inr p)"

definition with_note :: "string \<Rightarrow> (py_error, factor_classification) result \<Rightarrow> (py_error, factor_classification) result" where
  \<comment> \<open>\<open>replace(record, note=...)\<close>\<close>
  "with_note note m = bind_r m (\<lambda>r. make_classification (r\<lparr>fc_note := Some note\<rparr>))"

section \<open>The JSON sidecar\<close>

fun data_mode_value :: "data_mode \<Rightarrow> string" where
  "data_mode_value SAMPLE = ''SAMPLE''"
| "data_mode_value CONNECTED = ''CONNECTED''"
| "data_mode_value IMPORTED = ''IMPORTED''"

fun classification_value :: "classification \<Rightarrow> string" where
  "classification_value PUBLIC = ''PUBLIC''"
| "classification_value INTERNAL_COMMERCIAL = ''INTERNAL_COMMERCIAL''"
| "classification_value CONFIDENTIAL = ''CONFIDENTIAL''"
| "classification_value CONTROLLED = ''CONTROLLED''"
| "classification_value CUI = ''CUI''"
| "classification_value ITAR = ''ITAR''"
| "classification_value UNKNOWN_REQUIRES_REVIEW = ''UNKNOWN_REQUIRES_REVIEW''"

fun sensitivity_value :: "sensitivity_tag \<Rightarrow> string" where
  "sensitivity_value CUSTOMER_CONFIDENTIAL = ''CUSTOMER_CONFIDENTIAL''"
| "sensitivity_value FINANCIAL = ''FINANCIAL''"
| "sensitivity_value PII = ''PII''"
| "sensitivity_value DRAWING = ''DRAWING''"
| "sensitivity_value CAD = ''CAD''"
| "sensitivity_value RESTRICTED_TECHNICAL = ''RESTRICTED_TECHNICAL''"

definition j_strs :: "string list \<Rightarrow> json" where
  "j_strs xs = J_arr (map J_str xs)"

definition provenance_payload :: "classification_provenance \<Rightarrow> json" where
  "provenance_payload p = J_obj ([(''source_system'', J_str (prov_source_system p)),
     (''source_record_id'', J_str (prov_source_record_id p)), (''source_url'', j_opt J_str (prov_source_url p)),
     (''observed_at'', J_str (iso_datetime (prov_observed_at p))), (''recorded_at'', J_str (iso_datetime (prov_recorded_at p))),
     (''classification'', J_str (classification_value (prov_classification p))),
     (''evidence_state'', J_str (evidence_class_value (prov_evidence_state p))),
     (''data_mode'', J_str (data_mode_value (prov_data_mode p))), (''synthetic'', J_bool (prov_synthetic p)),
     (''sensitivity_tags'', j_strs (map sensitivity_value (filter (\<lambda>t. t \<in> prov_sensitivity_tags p)
        [CAD, CUSTOMER_CONFIDENTIAL, DRAWING, FINANCIAL, PII, RESTRICTED_TECHNICAL]))),
     (''missing_fields'', j_strs (prov_missing_fields p))]
     @ (case cpv_truth_class p of None \<Rightarrow> [] | Some t \<Rightarrow> [(''truth_class'', J_str t)]))"

definition classification_payload :: "factor_classification \<Rightarrow> json" where
  "classification_payload r = J_obj [(''classification_id'', J_str (fc_classification_id r)),
     (''subject_kind'', J_str (fc_subject_kind r)), (''subject_id'', J_str (fc_subject_id r)),
     (''family'', J_str (fc_family r)), (''factor_path'', J_str (fc_factor_path r)), (''value_kind'', J_str (fc_value_kind r)),
     (''bin_value'', j_opt J_str (fc_bin_value r)), (''raw_input'', j_opt J_obj (fc_raw_input r)),
     (''state'', J_str (fc_state r)), (''method'', J_str (fc_method r)),
     (''classifier_rule_version'', j_opt J_str (fc_classifier_rule_version r)),
     (''scorer_rule_version'', J_str (fc_scorer_rule_version r)), (''evidence_ids'', j_strs (fc_evidence_ids r)),
     (''source_revision_ids'', j_strs (fc_source_revision_ids r)), (''authored_by'', j_opt J_str (fc_authored_by r)),
     (''authored_at'', j_opt (\<lambda>t. J_str (iso_datetime t)) (fc_authored_at r)), (''note'', j_opt J_str (fc_note r)),
     (''observed_as_of'', j_opt (\<lambda>t. J_str (iso_datetime t)) (fc_observed_as_of r)),
     (''classified_at'', J_str (iso_datetime (fc_classified_at r))), (''provenance'', provenance_payload (fc_provenance r))]"

section \<open>Deterministic leaves\<close>

definition SAMPLE_CLASSIFIER_RULE_VERSION :: string where "SAMPLE_CLASSIFIER_RULE_VERSION = ''BTX_SAMPLE_CLASSIFIER_V1''"
definition FACILITY_CLASSIFIER_RULE_VERSION :: string where "FACILITY_CLASSIFIER_RULE_VERSION = ''BTX_SAMPLE_CLASSIFIER_V2''"

record leaf =
  lf_opportunity_id :: string
  lf_path :: string
  lf_evidence_ids :: "string list"
  lf_missing_fields :: "string list"
  lf_as_of :: date
  lf_rule_version :: string

definition leaf_provenance :: "leaf \<Rightarrow> string \<Rightarrow> bool \<Rightarrow> classification_provenance" where
  "leaf_provenance l identity known = \<lparr>prov_source_system = ''sample-classifier'', prov_source_record_id = identity,
     prov_source_url = None, prov_observed_at = at_midnight_utc (lf_as_of l), prov_recorded_at = at_midnight_utc (lf_as_of l),
     prov_classification = INTERNAL_COMMERCIAL, prov_evidence_state = (if known then CONFIRMED else MISSING),
     prov_data_mode = SAMPLE, prov_synthetic = True, prov_sensitivity_tags = {}, prov_missing_fields = lf_missing_fields l,
     cpv_truth_class = Some ''POC_SCENARIO''\<rparr>"

definition leaf_record :: "leaf \<Rightarrow> string \<Rightarrow> string \<Rightarrow> string \<Rightarrow> string option \<Rightarrow> (string \<times> json) list option \<Rightarrow> factor_classification" where
  \<comment> \<open>the fields both builders fill alike\<close>
  "leaf_record l identity fam kind bin raw =
     (let known = bin \<noteq> None \<or> raw \<noteq> None in
      \<lparr>fc_classification_id = identity, fc_subject_kind = ''opportunity'', fc_subject_id = lf_opportunity_id l, fc_family = fam,
       fc_factor_path = lf_path l, fc_value_kind = kind, fc_bin_value = bin, fc_raw_input = raw,
       fc_state = (if known then ''CURRENT'' else ''MISSING''), fc_method = ''DETERMINISTIC'',
       fc_classifier_rule_version = Some (lf_rule_version l), fc_scorer_rule_version = VERSION,
       fc_evidence_ids = lf_evidence_ids l, fc_source_revision_ids = [], fc_authored_by = None, fc_authored_at = None, fc_note = None,
       fc_observed_as_of = Some (at_midnight_utc (lf_as_of l)), fc_classified_at = at_midnight_utc (lf_as_of l),
       fc_provenance = leaf_provenance l identity known\<rparr>)"

definition deterministic_bin :: "leaf \<Rightarrow> string option \<Rightarrow> (py_error, factor_classification) result" where
  "deterministic_bin l bin =
     (let identity = lf_opportunity_id l @ '':'' @ lf_path l @ '':'' @ lf_rule_version l in
      bind_r (make_provenance (leaf_provenance l identity (bin \<noteq> None))) (\<lambda>_.
      make_classification (leaf_record l identity ''opportunity_priority'' ''BIN'' bin None)))"

definition deterministic_raw :: "leaf \<Rightarrow> (string \<times> json) list option \<Rightarrow> (py_error, factor_classification) result" where
  "deterministic_raw l raw =
     (let identity = lf_opportunity_id l @ '':delivery_feasibility.'' @ lf_path l @ '':'' @ lf_rule_version l in
      bind_r (make_provenance (leaf_provenance l identity (raw \<noteq> None))) (\<lambda>_.
      make_classification (leaf_record l identity ''delivery_feasibility'' ''RAW_INPUT'' None raw)))"

lemma leaf_provenance_ok: "provenance_post_init (provenance.truncate (leaf_provenance l identity known)) = Inr (provenance.truncate (leaf_provenance l identity known))"
  by (simp add: res_simps provenance_ok_def leaf_provenance_def provenance.truncate_def aware_def at_midnight_utc_def)

lemma make_leaf_provenance [simp]: "make_provenance (leaf_provenance l identity known) = Inr (leaf_provenance l identity known)"
  by (simp add: make_provenance_def leaf_provenance_ok)

lemmas validation_defs = validate_classification_def check_vocabulary_def check_values_def check_clocks_def check_method_def Let_def

lemma make_leaf_record:
  assumes "bin = None \<or> raw = None" "kind = ''BIN'' \<and> raw = None \<or> kind = ''RAW_INPUT'' \<and> bin = None" "identity \<noteq> []" "fam \<noteq> []"
  shows "make_classification ((leaf_record l identity fam kind bin raw)\<lparr>fc_note := n\<rparr>) = Inr r \<longleftrightarrow>
    r = (leaf_record l identity fam kind bin raw)\<lparr>fc_note := n\<rparr> \<and> lf_opportunity_id l \<noteq> [] \<and> lf_path l \<noteq> [] \<and> lf_rule_version l \<noteq> []
    \<and> (bin \<noteq> None \<or> raw \<noteq> None \<longrightarrow> lf_evidence_ids l \<noteq> []) \<and> bin \<noteq> Some [] \<and> raw \<noteq> Some []"
  using assms
  by (cases bin; cases raw)
    (auto simp: make_classification_def validation_defs res_simps leaf_record_def leaf_provenance_def aware_option_def
      aware_def at_midnight_utc_def VERSION_def truthy_def)

definition leaf_ok :: "leaf \<Rightarrow> bool \<Rightarrow> bool" where
  "leaf_ok l known = (lf_opportunity_id l \<noteq> [] \<and> lf_path l \<noteq> [] \<and> lf_rule_version l \<noteq> [] \<and> (known \<longrightarrow> lf_evidence_ids l \<noteq> []))"

definition bin_record :: "leaf \<Rightarrow> string option \<Rightarrow> factor_classification" where
  "bin_record l bin = leaf_record l (lf_opportunity_id l @ '':'' @ lf_path l @ '':'' @ lf_rule_version l) ''opportunity_priority'' ''BIN'' bin None"

definition raw_record :: "leaf \<Rightarrow> (string \<times> json) list option \<Rightarrow> factor_classification" where
  "raw_record l raw = leaf_record l (lf_opportunity_id l @ '':delivery_feasibility.'' @ lf_path l @ '':'' @ lf_rule_version l)
     ''delivery_feasibility'' ''RAW_INPUT'' None raw"

lemma record_note_same: "r\<lparr>fc_note := fc_note r\<rparr> = (r :: factor_classification)"
  by simp

lemma deterministic_bin_Inr [res_simps]:
  "deterministic_bin l bin = Inr r \<longleftrightarrow> r = bin_record l bin \<and> leaf_ok l (bin \<noteq> None) \<and> bin \<noteq> Some []"
proof -
  let ?i = "lf_opportunity_id l @ '':'' @ lf_path l @ '':'' @ lf_rule_version l"
  have "make_classification (leaf_record l ?i ''opportunity_priority'' ''BIN'' bin None) = Inr r \<longleftrightarrow>
    r = leaf_record l ?i ''opportunity_priority'' ''BIN'' bin None \<and> leaf_ok l (bin \<noteq> None) \<and> bin \<noteq> Some []"
    using make_leaf_record[where bin = bin and raw = None and kind = "''BIN''" and identity = ?i and fam = "''opportunity_priority''" and l = l and n = "fc_note (leaf_record l ?i ''opportunity_priority'' ''BIN'' bin None)"]
    by (auto simp: leaf_ok_def record_note_same)
  then show ?thesis by (simp add: deterministic_bin_def Let_def bin_record_def)
qed

lemma deterministic_raw_Inr [res_simps]:
  "deterministic_raw l raw = Inr r \<longleftrightarrow> r = raw_record l raw \<and> leaf_ok l (raw \<noteq> None) \<and> raw \<noteq> Some []"
proof -
  let ?i = "lf_opportunity_id l @ '':delivery_feasibility.'' @ lf_path l @ '':'' @ lf_rule_version l"
  have "make_classification (leaf_record l ?i ''delivery_feasibility'' ''RAW_INPUT'' None raw) = Inr r \<longleftrightarrow>
    r = leaf_record l ?i ''delivery_feasibility'' ''RAW_INPUT'' None raw \<and> leaf_ok l (raw \<noteq> None) \<and> raw \<noteq> Some []"
    using make_leaf_record[where bin = None and raw = raw and kind = "''RAW_INPUT''" and identity = ?i and fam = "''delivery_feasibility''" and l = l and n = "fc_note (leaf_record l ?i ''delivery_feasibility'' ''RAW_INPUT'' None raw)"]
    by (auto simp: leaf_ok_def record_note_same)
  then show ?thesis by (simp add: deterministic_raw_def Let_def raw_record_def)
qed

end
