(* ===== verification/FacilityFit.thy ===== *)
theory FacilityFit
  imports ClassificationContract Reference_Records
begin

text \<open>
  \<^verbatim>\<open>modules/classification/facility_fit.py\<close>: the scope of a pursuit against the capability of
  its delivery facility. A pursuit is the dictionary the code reads; a requirement that is not of the type the code
  expects (a list of names, a number, ISO text) is outside the model. Names are ASCII but for the plus-minus
  sign of a tolerance, and a due date is at least 90 days before the last calendar day.
\<close>

section \<open>Reading a scope\<close>

definition SOURCE_NOTE :: string where
  "SOURCE_NOTE = ''Derived from authored SAMPLE scope and synthetic facility operations; not verified BTX evidence.''"

definition text_of :: "json \<Rightarrow> string" where
  "text_of j = default_to (j_text j) []"

definition texts :: "json \<Rightarrow> string list" where
  "texts j = map text_of (j_items j)"

definition scope_of :: "json \<Rightarrow> json" where
  "scope_of opp = j_read opp ''scope_requirements''"

fun is_object :: "json \<Rightarrow> bool" where
  "is_object (J_obj kvs) = True"
| "is_object _ = False"

definition fit_missing :: "json \<Rightarrow> btx_facility option \<Rightarrow> string \<Rightarrow> string list" where
  "fit_missing opp facility field =
     (case facility of
        None \<Rightarrow> [''delivery_facility_id'']
      | Some f \<Rightarrow>
          (if j_read opp ''delivery_facility_id'' \<noteq> J_str (bfa_id f) then [''delivery_facility_id'']
           else if \<not> is_object (scope_of opp) \<or> \<not> py_truth (j_read (scope_of opp) field) then [''scope_requirements.'' @ field]
           else []))"

definition facility_evidence :: "json \<Rightarrow> btx_facility option \<Rightarrow> string list \<Rightarrow> string list" where
  "facility_evidence opp facility ids =
     (text_of (j_read opp ''opportunity_id'') @ '':scope_requirements'')
     # (case facility of None \<Rightarrow> [] | Some f \<Rightarrow> [bfa_id f]) @ ids"

record fit_finding =
  ff_factor :: string
  ff_missing :: "string list"
  ff_ids :: "string list"

definition fit_leaf :: "json \<Rightarrow> btx_facility option \<Rightarrow> date \<Rightarrow> string \<Rightarrow> fit_finding \<Rightarrow> leaf" where
  "fit_leaf opp facility as_of path f = \<lparr>lf_opportunity_id = text_of (j_read opp ''opportunity_id''), lf_path = path,
     lf_evidence_ids = (if ff_missing f = [] then facility_evidence opp facility (ff_ids f) else []),
     lf_missing_fields = ff_missing f, lf_as_of = as_of, lf_rule_version = FACILITY_CLASSIFIER_RULE_VERSION\<rparr>"

type_synonym classified = "(py_error, factor_classification) result"

definition fit_bin :: "json \<Rightarrow> btx_facility option \<Rightarrow> date \<Rightarrow> fit_finding \<Rightarrow> string option \<Rightarrow> classified" where
  \<comment> \<open>\<open>_bin\<close>\<close>
  "fit_bin opp facility as_of f v = with_note SOURCE_NOTE
     (deterministic_bin (fit_leaf opp facility as_of (''btx_manufacturing_fit.'' @ ff_factor f) f) (if ff_missing f = [] then v else None))"

definition facility_raw :: "json \<Rightarrow> btx_facility option \<Rightarrow> date \<Rightarrow> fit_finding \<Rightarrow> (string \<times> json) list option \<Rightarrow> classified" where
  \<comment> \<open>\<open>_raw\<close>\<close>
  "facility_raw opp facility as_of f v = with_note SOURCE_NOTE
     (deterministic_raw (fit_leaf opp facility as_of (ff_factor f) f) (if ff_missing f = [] then v else None))"

definition finding :: "string \<Rightarrow> string list \<Rightarrow> string list \<Rightarrow> fit_finding" where
  "finding factor missing ids = \<lparr>ff_factor = factor, ff_missing = missing, ff_ids = ids\<rparr>"

section \<open>Keys\<close>

definition material_key :: "string \<Rightarrow> string" where
  "material_key v =
     (let key = filter (\<lambda>c. c \<noteq> CHR '' '') (strip (lower v))
      in if starts_with ''aluminum'' key then drop 8 key
         else if starts_with ''aluminium'' key then drop 9 key
         else if starts_with ''titanium'' key then ''ti-'' @ drop 8 key
         else key)"

definition starts_with_any :: "string list \<Rightarrow> string \<Rightarrow> bool" where
  "starts_with_any ps s = list_ex (\<lambda>p. starts_with p s) ps"

definition material_family :: "string \<Rightarrow> string" where
  "material_family v =
     (let key = material_key v
      in if starts_with_any [''6'', ''7'', ''2''] key \<and> 4 \<le> length key then ''aluminum''
         else if starts_with ''ti-'' key then ''titanium''
         else if starts_with ''inconel'' key then ''nickel''
         else if starts_with_any [''316'', ''304'', ''17-4'', ''15-5''] key then ''stainless''
         else takeWhile (\<lambda>c. c \<noteq> CHR ''-'') key)"

definition pattern_space :: "char \<Rightarrow> bool" where
  \<comment> \<open>\<open>\s\<close>\<close>
  "pattern_space c = (is_space c \<or> (of_char c :: nat) \<in> {133, 160})"

definition tolerance_number :: "string \<Rightarrow> decimal option" where
  \<comment> \<open>\<open>\s*(\d+(?:\.\d+)?)\<close> at the start of the text\<close>
  "tolerance_number s =
     (let t = dropWhile pattern_space s; whole = takeWhile is_digit t; tail = dropWhile is_digit t;
          frac = (case tail of c # cs \<Rightarrow> if c = CHR ''.'' then takeWhile is_digit cs else [] | [] \<Rightarrow> [])
      in if whole = [] then None else Some (of_nat (digits_value (whole @ frac)) / 10 ^ length frac))"

fun tolerance_search :: "string \<Rightarrow> decimal option" where
  "tolerance_search [] = None"
| "tolerance_search (c # cs) =
     (let here = (if (of_char c :: nat) = 177 then tolerance_number cs
                  else if starts_with ''+/-'' (c # cs) then tolerance_number (drop 2 cs) else None)
      in if here \<noteq> None then here else tolerance_search cs)"

definition tolerance :: "string option \<Rightarrow> decimal option" where
  "tolerance v = tolerance_search (default_to v [])"

definition cert_key :: "string \<Rightarrow> string" where
  "cert_key v = strip (lower (takeWhile (\<lambda>c. c \<noteq> CHR '':'') v))"

definition required_centers :: "json \<Rightarrow> btx_facility option \<Rightarrow> work_center_capacity list" where
  "required_centers opp facility =
     (case Option.bind facility bfa_capacity of
        None \<Rightarrow> []
      | Some cap \<Rightarrow> filter (\<lambda>ctr. wcc_process ctr \<in> set (texts (j_read (scope_of opp) ''required_processes''))) (fcp_work_centers cap))"

section \<open>Coverage\<close>

definition supported_materials :: "btx_facility \<Rightarrow> string list" where
  "supported_materials f = concat (map cpr_materials_supported (bfa_certified_processes f))"

definition material_verdict :: "string list \<Rightarrow> string list \<Rightarrow> string" where
  \<comment> \<open>the required materials against the supported ones\<close>
  "material_verdict required supported =
     (let keys = material_key ` set supported; families = material_family ` set supported
      in if list_all (\<lambda>m. material_key m \<in> keys) required then ''ROUTINE''
         else if list_all (\<lambda>m. material_key m \<in> keys \<or> material_family m \<in> families) required then ''EXTENDED_ANALOGOUS''
         else ''KNOWN_MISMATCH'')"

definition certified :: "btx_facility \<Rightarrow> (string, certified_process) dict" where
  \<comment> \<open>the last process of a name wins\<close>
  "certified f = foldl (\<lambda>d p. dset (cpr_process p) p d) [] (bfa_certified_processes f)"

definition tolerance_verdict :: "decimal \<Rightarrow> decimal list \<Rightarrow> string" where
  "tolerance_verdict required tolerances =
     (if list_all (\<lambda>t. t \<le> required) tolerances then ''ROUTINE''
      else if list_all (\<lambda>t. t \<le> dec28 (required * (125/100))) tolerances then ''EDGE_BUT_ANALOGOUS''
      else ''KNOWN_MISMATCH'')"

definition process_coverage :: "json \<Rightarrow> btx_facility option \<Rightarrow> string option \<times> string list" where
  "process_coverage opp facility =
     (case (fit_missing opp facility ''required_processes'', facility) of
        ([], Some f) \<Rightarrow>
          (let scope = scope_of opp; band = j_read scope ''required_tolerance_band'';
               names = texts (j_read scope ''required_processes'')
           in if \<not> py_truth band then (None, [''scope_requirements.required_tolerance_band''])
              else case tolerance (j_text band) of
                None \<Rightarrow> (None, [''scope_requirements.required_tolerance_band''])
              | Some required \<Rightarrow>
                  (if list_ex (\<lambda>n. dget (certified f) n = None) names then (Some ''KNOWN_MISMATCH'', [])
                   else let found = map (\<lambda>n. tolerance (cpr_tolerance_capability (the (dget (certified f) n)))) names
                     in if None \<in> set found then (None, [''facility.certified_processes.tolerance_capability''])
                        else (Some (tolerance_verdict required (map the found)), [])))
      | (missing, _) \<Rightarrow> (None, missing))"

definition held_certifications :: "btx_facility \<Rightarrow> (string, facility_certification) dict" where
  "held_certifications f = foldl (\<lambda>d ct. dset (cert_key (fct_name ct)) ct d) [] (bfa_certifications f)"

definition expiry_of :: "btx_facility \<Rightarrow> string \<Rightarrow> date option" where
  "expiry_of f name = Option.bind (dget (held_certifications f) (cert_key name)) fct_expires_on"

definition cert_verdict :: "date \<Rightarrow> date option list \<Rightarrow> string" where
  \<comment> \<open>the expiry of each required certification, \<open>None\<close> where it is not held or has none\<close>
  "cert_verdict due expiries =
     (if list_ex (\<lambda>e. case e of None \<Rightarrow> True | Some d \<Rightarrow> d < due) expiries then ''MAJOR_GAP''
      else if list_ex (\<lambda>e. days_between (the e) due \<le> 90) expiries then ''MINOR_GAP''
      else ''ALL_MET'')"

definition cert_coverage :: "json \<Rightarrow> btx_facility option \<Rightarrow> (py_error, string option \<times> string list) result" where
  "cert_coverage opp facility =
     (case (fit_missing opp facility ''required_certifications'', facility) of
        ([], Some f) \<Rightarrow>
          (let due = j_read (scope_of opp) ''required_by_date''
           in if \<not> py_truth due then Inr (None, [''scope_requirements.required_by_date''])
              else case Option.bind (j_text due) parse_date of
                None \<Rightarrow> Inl (ValueError ''Invalid isoformat string'')
              | Some d \<Rightarrow> Inr (Some (cert_verdict d (map (expiry_of f) (texts (j_read (scope_of opp) ''required_certifications'')))), []))
      | (missing, _) \<Rightarrow> Inr (None, missing))"

section \<open>Classifiers\<close>

definition process_names :: "json \<Rightarrow> string list" where
  "process_names opp = texts (j_read (scope_of opp) ''required_processes'')"

definition certification_names :: "btx_facility option \<Rightarrow> string list" where
  "certification_names facility = (case facility of None \<Rightarrow> [] | Some f \<Rightarrow> map fct_name (bfa_certifications f))"

definition classify_material_match :: "json \<Rightarrow> btx_facility option \<Rightarrow> date \<Rightarrow> classified" where
  "classify_material_match opp facility as_of =
     (case (fit_missing opp facility ''required_materials'', facility) of
        ([], Some f) \<Rightarrow>
          (if supported_materials f = []
           then fit_bin opp facility as_of (finding ''material_match'' [''facility.certified_processes.materials_supported''] []) None
           else fit_bin opp facility as_of (finding ''material_match'' [] (map cpr_process (bfa_certified_processes f)))
                  (Some (material_verdict (texts (j_read (scope_of opp) ''required_materials'')) (supported_materials f))))
      | (missing, _) \<Rightarrow> fit_bin opp facility as_of (finding ''material_match'' missing []) None)"

definition classify_process_tolerance_match :: "json \<Rightarrow> btx_facility option \<Rightarrow> date \<Rightarrow> classified" where
  "classify_process_tolerance_match opp facility as_of =
     (case process_coverage opp facility of (v, missing) \<Rightarrow>
        fit_bin opp facility as_of (finding ''process_tolerance_match'' missing (process_names opp)) v)"

definition classify_certification_compliance_fit :: "json \<Rightarrow> btx_facility option \<Rightarrow> date \<Rightarrow> classified" where
  "classify_certification_compliance_fit opp facility as_of =
     bind_r (cert_coverage opp facility) (\<lambda>(v, missing).
       fit_bin opp facility as_of (finding ''certification_compliance_fit'' missing (certification_names facility)) v)"

definition volume_verdict :: "decimal \<Rightarrow> decimal \<Rightarrow> int \<Rightarrow> string" where
  \<comment> \<open>\<open>hours\<close> are the available hours of the next 90 days\<close>
  "volume_verdict volume per_unit hours =
     (let required = dec28 (volume * per_unit); available = of_int (hours * 4)
      in if required \<le> dec28 (available * (8/10)) then ''NORMAL_RANGE''
         else if required \<le> available then ''WORKABLE_NOT_IDEAL'' else ''POOR_FIT'')"

definition center_hours :: "work_center_capacity list \<Rightarrow> int" where
  "center_hours centers = sum_list (map wcc_available_hours_next_90d centers)"

definition first_missing :: "(bool \<times> string) list \<Rightarrow> string list" where
  \<comment> \<open>a chain of \<open>if not missing and ...: missing = (...,)\<close>\<close>
  "first_missing checks = take 1 (map snd (filter fst checks))"

definition or_missing :: "string list \<Rightarrow> string list \<Rightarrow> string list" where
  "or_missing a b = (if a = [] then b else a)"

definition volume_missing :: "json \<Rightarrow> btx_facility option \<Rightarrow> string list" where
  "volume_missing opp facility = or_missing (fit_missing opp facility ''expected_volume_next_12m'')
     (first_missing [(\<not> py_truth (j_read (scope_of opp) ''expected_hours_per_unit''), ''scope_requirements.expected_hours_per_unit''),
       (\<not> py_truth (j_read (scope_of opp) ''required_processes''), ''scope_requirements.required_processes''),
       (required_centers opp facility = [], ''facility.capacity.required_process_work_centers'')])"

definition classify_volume_compatibility :: "json \<Rightarrow> btx_facility option \<Rightarrow> date \<Rightarrow> classified" where
  \<comment> \<open>a \<open>decimal.InvalidOperation\<close> is the \<open>ValueError\<close>\<close>
  "classify_volume_compatibility opp facility as_of =
     (let missing = volume_missing opp facility; centers = required_centers opp facility
      in if missing \<noteq> [] then fit_bin opp facility as_of (finding ''volume_compatibility'' missing []) None
         else case both_numbers (scope_of opp) ''expected_volume_next_12m'' ''expected_hours_per_unit'' of
           None \<Rightarrow> Inl (ValueError ''InvalidOperation'')
         | Some (volume, per_unit) \<Rightarrow>
             fit_bin opp facility as_of (finding ''volume_compatibility'' [] (map wcc_work_center_id centers))
               (Some (volume_verdict volume per_unit (center_hours centers))))"

definition classify_delivery_capability_match :: "json \<Rightarrow> btx_facility option \<Rightarrow> date \<Rightarrow> classified" where
  "classify_delivery_capability_match opp facility as_of =
     (case process_coverage opp facility of (coverage, missing) \<Rightarrow>
        let state = (if coverage = Some ''ROUTINE'' then ''ALL_AVAILABLE'' else ''UNAVAILABLE_BY_NEED'')
        in facility_raw opp facility as_of (finding ''capability_match'' missing (process_names opp))
             (if truthy coverage then Some [(''state'', J_str state)] else None))"

definition schedule_missing :: "json \<Rightarrow> btx_facility option \<Rightarrow> string list" where
  "schedule_missing opp facility = or_missing (fit_missing opp facility ''required_hours_next_90d'')
     (first_missing [(\<not> py_truth (j_read (scope_of opp) ''required_processes''), ''scope_requirements.required_processes''),
       (required_centers opp facility = [], ''facility.capacity.required_process_work_centers'')])"

definition classify_delivery_schedule_feasibility :: "json \<Rightarrow> btx_facility option \<Rightarrow> date \<Rightarrow> classified" where
  "classify_delivery_schedule_feasibility opp facility as_of =
     (let missing = schedule_missing opp facility; centers = required_centers opp facility
      in if missing \<noteq> [] then facility_raw opp facility as_of (finding ''schedule_feasibility'' missing []) None
         else facility_raw opp facility as_of (finding ''schedule_feasibility'' [] (map wcc_work_center_id centers))
           (Some [(''net_available_hours'', J_int (center_hours centers)),
             (''required_hours'', j_read (scope_of opp) ''required_hours_next_90d'')]))"

definition classify_delivery_quality_certification :: "json \<Rightarrow> btx_facility option \<Rightarrow> date \<Rightarrow> classified" where
  "classify_delivery_quality_certification opp facility as_of =
     bind_r (cert_coverage opp facility) (\<lambda>(coverage, missing).
       let state = (if coverage = Some ''MAJOR_GAP'' then ''MANDATORY_UNAVAILABLE_BY_START'' else ''UNDATED_PLAN'')
       in facility_raw opp facility as_of (finding ''quality_certification'' missing (certification_names facility))
            (if truthy coverage then Some [(''state'', J_str state)] else None))"

end
