(* ===== verification/PursuitClassification.thy ===== *)
theory PursuitClassification
  imports FacilityFit CommercialLedger
begin

text \<open>
  The other classifiers of \<^verbatim>\<open>modules/classification\<close> (\<^verbatim>\<open>program_horizon.py\<close>,
  \<^verbatim>\<open>cross_bu.py\<close>, \<^verbatim>\<open>component_content.py\<close>,
  \<^verbatim>\<open>commercial_adjacency.py\<close>), the refresh of authored bins
  (\<^verbatim>\<open>providers/sample/classifications.py\<close>) and \<open>_classify_named_pursuit\<close> of
  \<^verbatim>\<open>modules/commercial/projection.py\<close>, which writes the classifications into the pursuit the scorers
  read. A pursuit and its rows are dictionaries; a row the code changes in place is replaced in its list.
\<close>

section \<open>Program horizon and business units\<close>

definition plain_leaf :: "json \<Rightarrow> date \<Rightarrow> string \<Rightarrow> string \<Rightarrow> string list \<Rightarrow> string list \<Rightarrow> leaf" where
  "plain_leaf opp as_of path rule ids missing = \<lparr>lf_opportunity_id = text_of (j_read opp ''opportunity_id''), lf_path = path,
     lf_evidence_ids = ids, lf_missing_fields = missing, lf_as_of = as_of, lf_rule_version = rule\<rparr>"

definition horizon_bin :: "int \<Rightarrow> string" where
  "horizon_bin years = (if 10 \<le> years then ''TEN_PLUS_YEARS'' else if 5 \<le> years then ''FIVE_TO_NINE_YEARS''
     else if 2 \<le> years then ''TWO_TO_FOUR_YEARS'' else ''UNDER_TWO_YEARS_OR_ONE_OFF'')"

definition horizon_years :: "json \<Rightarrow> program option \<Rightarrow> int option" where
  \<comment> \<open>the years where they are valid\<close>
  "horizon_years opp program =
     (case program of
        None \<Rightarrow> None
      | Some p \<Rightarrow>
          (case prg_expected_production_horizon_years p of
             None \<Rightarrow> None
           | Some y \<Rightarrow> if J_str (prg_id p) = j_read opp ''program_id'' \<and> 0 \<le> y then Some y else None))"

definition classify_program_horizon :: "json \<Rightarrow> program option \<Rightarrow> date \<Rightarrow> classified" where
  "classify_program_horizon opp program as_of =
     (let years = horizon_years opp program in
      with_note ''Derived from an authored SAMPLE program horizon, not a verified Boeing production plan.''
        (deterministic_bin (plain_leaf opp as_of ''program_durability.expected_production_horizon'' FACILITY_CLASSIFIER_RULE_VERSION
            (if years \<noteq> None then [prg_id (the program)] else [])
            (if years \<noteq> None then [] else [''program.expected_production_horizon_years'']))
          (map_option horizon_bin years)))"

definition component_of :: "component_class list \<Rightarrow> json \<Rightarrow> component_class option" where
  "component_of components opp = first_match (\<lambda>cc. J_str (ccl_id cc) = j_read opp ''component_id'') components"

definition classify_cross_bu :: "json \<Rightarrow> component_class list \<Rightarrow> date \<Rightarrow> classified" where
  "classify_cross_bu opp components as_of =
     (let component = component_of components opp;
          units = (case component of None \<Rightarrow> {} | Some cc \<Rightarrow> set (ccl_business_unit_ids cc))
      in deterministic_bin (plain_leaf opp as_of ''addressable_btx_work.cross_bu_applicability'' SAMPLE_CLASSIFIER_RULE_VERSION
            (if units \<noteq> {} then [ccl_id (the component)] else [])
            (if units \<noteq> {} then [] else [''component_class.business_unit_ids'']))
          (if 2 \<le> card units then Some ''TWO_PLUS_BU'' else if card units = 1 then Some ''ONE_BU'' else None))"

section \<open>Component content and commercial adjacency\<close>

text \<open>
  The account fields these two read: the ledger collections by their key \<open>lr_id\<close>, and the months, whose
  two fields may be absent.
\<close>

record adjacency_month =
  am_revenue_minor :: "int option"
  am_snapshot_id :: "string option"

record pursuit_account =
  pa_quotes :: "quote_row list"
  pa_quote_revisions :: "quote_revision list"
  pa_quote_lines :: "quote_line list"
  pa_order_lines :: "order_line list"
  pa_revenue_events :: "revenue_event list"
  pa_months :: "adjacency_month list"
  pa_relationship_state :: "string option"

definition pursuit_revision :: "pursuit_account \<Rightarrow> json \<Rightarrow> quote_revision option" where
  "pursuit_revision a opp = first_match (\<lambda>r. J_str (lr_id r) = j_read opp ''quote_revision_id'') (pa_quote_revisions a)"

definition revision_lines :: "pursuit_account \<Rightarrow> quote_revision option \<Rightarrow> quote_line list" where
  "revision_lines a revision = (case revision of None \<Rightarrow> []
     | Some r \<Rightarrow> filter (\<lambda>l. lr_id l \<in> set (rv_line_ids r)) (pa_quote_lines a))"

definition content_families :: "component_class list \<Rightarrow> quote_line list \<Rightarrow> string set" where
  "content_families components lines = ql_component_id ` set lines \<inter> ccl_id ` set components"

definition content_complete :: "json \<Rightarrow> component_class list \<Rightarrow> quote_revision option \<Rightarrow> quote_line list \<Rightarrow> bool" where
  "content_complete opp components revision lines =
     (case revision of
        None \<Rightarrow> False
      | Some r \<Rightarrow>
          (let families = content_families components lines
           in lines \<noteq> [] \<and> length lines = length (rv_line_ids r) \<and> j_read opp ''component_id'' \<in> J_str ` families
              \<and> card families = card (ql_component_id ` set lines)))"

definition content_evidence :: "component_class list \<Rightarrow> quote_revision \<Rightarrow> quote_line list \<Rightarrow> string list" where
  "content_evidence components r lines =
     sort (lr_id r # map lr_id lines @ sorted_list_of_set (content_families components lines))"

definition classify_component_content :: "pursuit_account \<Rightarrow> json \<Rightarrow> component_class list \<Rightarrow> date \<Rightarrow> classified" where
  "classify_component_content a opp components as_of =
     (let revision = pursuit_revision a opp; lines = revision_lines a revision;
          complete = content_complete opp components revision lines
      in deterministic_bin (plain_leaf opp as_of ''addressable_btx_work.btx_relevant_component_content'' SAMPLE_CLASSIFIER_RULE_VERSION
            (if complete then content_evidence components (the revision) lines else [])
            (if complete then [] else [''scoped_quote_revision.component_class_ids'']))
          (if complete \<and> 2 \<le> card (content_families components lines) then Some ''MULTIPLE_FAMILIES''
           else if complete then Some ''ONE_FAMILY'' else None))"

definition recent_revenue :: "pursuit_account \<Rightarrow> date \<Rightarrow> revenue_event list" where
  \<comment> \<open>the last 365 days\<close>
  "recent_revenue a as_of = filter (\<lambda>e. 0 < re_revenue_minor e \<and> days_between as_of (re_recognized_date e) \<le> 365
     \<and> re_recognized_date e \<le> as_of) (pa_revenue_events a)"

definition line_of :: "pursuit_account \<Rightarrow> string \<Rightarrow> order_line option" where
  \<comment> \<open>the last line of an id, as in the dictionary the code builds\<close>
  "line_of a i = first_match (\<lambda>l. lr_id l = i) (rev (pa_order_lines a))"

definition active_units :: "pursuit_account \<Rightarrow> revenue_event list \<Rightarrow> string set" where
  "active_units a recent = set (List.map_filter (\<lambda>e. map_option ol_business_unit_id (line_of a (re_order_line_id e))) recent)"

definition months_complete :: "adjacency_month list \<Rightarrow> bool" where
  "months_complete months = (length months = 12 \<and> list_all (\<lambda>m. am_revenue_minor m \<noteq> None \<and> am_snapshot_id m \<noteq> None) months)"

definition adjacency_quote :: "pursuit_account \<Rightarrow> json \<Rightarrow> quote_row option" where
  "adjacency_quote a opp = (case pursuit_revision a opp of None \<Rightarrow> None
     | Some r \<Rightarrow> first_match (\<lambda>q. lr_id q = rv_quote_id r) (pa_quotes a))"

definition adjacency :: "pursuit_account \<Rightarrow> json \<Rightarrow> date \<Rightarrow> (string \<times> string list) option" where
  \<comment> \<open>the bin and its evidence\<close>
  "adjacency a opp as_of =
     (let recent = recent_revenue a as_of; units = active_units a recent; months = pa_months a
      in if months_complete months \<and> list_all (\<lambda>e. line_of a (re_order_line_id e) \<noteq> None) recent \<and> units \<noteq> {}
         then Some (if 2 \<le> card units then ''EXISTING_MULTI_BU_ACTIVE'' else ''EXISTING_ONE_BU_ACTIVE'', map lr_id recent)
         else if months_complete months \<and> recent = [] \<and> adjacency_quote a opp \<noteq> None \<and> list_all (\<lambda>m. am_revenue_minor m = Some 0) months
         then Some (''QUOTE_OR_WARM_NO_SALES'', lr_id (the (adjacency_quote a opp)) # map (\<lambda>m. default_to (am_snapshot_id m) []) months)
         else if months = [] \<and> pa_relationship_state a \<in> {Some ''PUBLIC_MARKET'', Some ''NO_RELATIONSHIP_EVIDENCE''}
         then Some (''COLD_PROSPECT'', [text_of (j_read opp ''opportunity_id'')])
         else None)"

definition classify_commercial_adjacency :: "pursuit_account \<Rightarrow> json \<Rightarrow> date \<Rightarrow> classified" where
  "classify_commercial_adjacency a opp as_of =
     (let found = adjacency a opp as_of
      in deterministic_bin (plain_leaf opp as_of ''btx_commercial_adjacency'' SAMPLE_CLASSIFIER_RULE_VERSION
            (case found of None \<Rightarrow> [] | Some (b, evidence) \<Rightarrow> evidence)
            (if found = None then [''commercial_history_or_scoped_quote''] else []))
          (map_option fst found))"

section \<open>Authored bins\<close>

definition AUTHORED_AT :: datetime where "AUTHORED_AT = at_midnight_utc (Date 2026 9 20)"

record authored_bin =
  ab_opportunity_id :: string
  ab_path :: string
  ab_bin_value :: string
  ab_as_of :: date
  ab_evidence_ids :: "string list"
  ab_note :: string

definition authored_identity :: "authored_bin \<Rightarrow> string" where
  "authored_identity b = ab_opportunity_id b @ '':'' @ ab_path b @ '':authored''"

definition sample_provenance :: "string \<Rightarrow> date \<Rightarrow> string list \<Rightarrow> classification_provenance" where
  "sample_provenance source_id day missing = \<lparr>prov_source_system = ''sample-classification'', prov_source_record_id = source_id,
     prov_source_url = None, prov_observed_at = at_midnight_utc day, prov_recorded_at = AUTHORED_AT,
     prov_classification = INTERNAL_COMMERCIAL, prov_evidence_state = (if missing \<noteq> [] then MISSING else CONFIRMED),
     prov_data_mode = SAMPLE, prov_synthetic = True, prov_sensitivity_tags = {}, prov_missing_fields = missing,
     cpv_truth_class = Some ''POC_SCENARIO''\<rparr>"

definition authored_record :: "authored_bin \<Rightarrow> factor_classification" where
  "authored_record b =
     \<lparr>fc_classification_id = authored_identity b, fc_subject_kind = ''opportunity'', fc_subject_id = ab_opportunity_id b,
      fc_family = ''opportunity_priority'', fc_factor_path = ab_path b, fc_value_kind = ''BIN'', fc_bin_value = Some (ab_bin_value b),
      fc_raw_input = None, fc_state = ''CURRENT'', fc_method = ''SYNTHETIC_AUTHORED'', fc_classifier_rule_version = None,
      fc_scorer_rule_version = VERSION, fc_evidence_ids = ab_evidence_ids b, fc_source_revision_ids = [],
      fc_authored_by = Some ''sample_fixture_author'', fc_authored_at = Some AUTHORED_AT, fc_note = Some (ab_note b),
      fc_observed_as_of = Some (at_midnight_utc (ab_as_of b)), fc_classified_at = at_midnight_utc (ab_as_of b),
      fc_provenance = sample_provenance (authored_identity b) (ab_as_of b) []\<rparr>"

definition authored_classification :: "authored_bin \<Rightarrow> (py_error, json) result" where
  \<comment> \<open>the \<open>classification\<close> of the row \<open>authored_bin_row\<close> returns\<close>
  "authored_classification b = bind_r (make_provenance (sample_provenance (authored_identity b) (ab_as_of b) [])) (\<lambda>_.
     bind_r (make_classification (authored_record b)) (\<lambda>r. Inr (classification_payload r)))"

fun j_set :: "string \<Rightarrow> json \<Rightarrow> json \<Rightarrow> json" where
  \<comment> \<open>\<open>d[key] = value\<close>\<close>
  "j_set k v (J_obj kvs) = J_obj (dset k v kvs)"
| "j_set k v j = j"

definition refresh_row :: "json \<Rightarrow> json \<Rightarrow> (py_error, json) result" where
  "refresh_row opp row =
     (let sidecar = j_read row ''classification''
      in if \<not> py_truth sidecar \<or> j_read sidecar ''method'' \<noteq> J_str ''SYNTHETIC_AUTHORED'' then Inr row
         else if j_read sidecar ''subject_id'' = j_read opp ''opportunity_id'' \<and> j_read sidecar ''bin_value'' = j_read row ''bin'' then Inr row
         else case parse_date (text_of (j_read row ''reviewed_as_of'')) of
           None \<Rightarrow> Inl (ValueError ''Invalid isoformat string'')
         | Some day \<Rightarrow>
             bind_r (authored_classification \<lparr>ab_opportunity_id = text_of (j_read opp ''opportunity_id''),
                 ab_path = text_of (j_read row ''path''), ab_bin_value = text_of (j_read row ''bin''), ab_as_of = day,
                 ab_evidence_ids = texts (j_read row ''evidence_ids''),
                 ab_note = ''Authored SAMPLE variant assumption; not a verified customer fact.''\<rparr>) (\<lambda>refreshed.
             Inr (j_set ''classification'' refreshed row)))"

definition refresh_authored_bins :: "json \<Rightarrow> (py_error, json) result" where
  \<comment> \<open>for one pursuit\<close>
  "refresh_authored_bins opp = bind_r (map_r (refresh_row opp) (j_items (j_read opp ''score_observations''))) (\<lambda>rows.
     Inr (if j_read opp ''score_observations'' = J_null then opp else j_set ''score_observations'' (J_arr rows) opp))"

section \<open>Writing classifications into a pursuit\<close>

definition note_missing :: "factor_classification \<Rightarrow> json \<Rightarrow> json" where
  "note_missing c opp = j_set ''missing_classifications''
     (J_arr (j_items (j_read opp ''missing_classifications'') @ [classification_payload c])) opp"

definition on_path :: "factor_classification \<Rightarrow> json \<Rightarrow> bool" where
  "on_path c row = (j_read row ''path'' = J_str (fc_factor_path c))"

fun change_first :: "('a \<Rightarrow> bool) \<Rightarrow> ('a \<Rightarrow> 'a list) \<Rightarrow> 'a list \<Rightarrow> 'a list" where
  \<comment> \<open>replaces the first element of the kind\<close>
  "change_first P f [] = []"
| "change_first P f (x # xs) = (if P x then f x @ xs else x # change_first P f xs)"

definition derived_row :: "json \<Rightarrow> string \<Rightarrow> factor_classification \<Rightarrow> json" where
  "derived_row opp as_of c = J_obj [(''opportunity_id'', j_read opp ''opportunity_id''), (''path'', J_str (fc_factor_path c)),
     (''reviewed_as_of'', J_str as_of), (''evidence_ids'', J_arr [j_read opp ''opportunity_id'']), (''data_mode'', J_str ''SAMPLE''),
     (''synthetic'', J_bool True), (''source'', J_str ''Derived SAMPLE classification'')]"

definition write_bin :: "factor_classification \<Rightarrow> json \<Rightarrow> json" where
  "write_bin c row = j_set ''classification'' (classification_payload c) (j_set ''bin'' (j_opt J_str (fc_bin_value c)) row)"

definition apply_bin :: "string \<Rightarrow> factor_classification \<Rightarrow> json \<Rightarrow> json" where
  "apply_bin as_of c opp =
     (let rows = j_items (j_read opp ''score_observations'')
      in if fc_state c \<noteq> ''CURRENT''
         then note_missing c (j_set ''score_observations'' (J_arr (change_first (on_path c) (\<lambda>_. []) rows)) opp)
         else j_set ''score_observations'' (J_arr (if list_ex (on_path c) rows
                then change_first (on_path c) (\<lambda>row. [write_bin c row]) rows else rows @ [write_bin c (derived_row opp as_of c)])) opp)"

definition delivery_row :: "json \<Rightarrow> string \<Rightarrow> json" where
  "delivery_row opp as_of = J_obj [(''opportunity_id'', j_read opp ''opportunity_id''),
     (''facility_id'', j_read opp ''delivery_facility_id''), (''reviewed_as_of'', J_str as_of),
     (''evidence_ids'', J_arr [j_read opp ''opportunity_id'']), (''data_mode'', J_str ''SAMPLE''), (''synthetic'', J_bool True),
     (''source'', J_str ''Derived SAMPLE classification from authored scope and facility overlay'')]"

fun j_fields :: "json \<Rightarrow> (string \<times> json) list" where
  "j_fields (J_obj kvs) = kvs"
| "j_fields _ = []"

definition write_raw :: "factor_classification \<Rightarrow> json \<Rightarrow> json" where
  "write_raw c row =
     (let kept = filter (\<lambda>(k, v). k \<notin> {''state'', ''net_available_hours'', ''required_hours''}) (j_fields row);
          updated = foldl (\<lambda>d (k, v). dset k v d) kept (default_to (fc_raw_input c) [])
      in J_obj (dset ''narrative'' (J_str ''Derived from authored SAMPLE scope and facility overlay; not a BTX delivery promise.'')
           (dset ''classification'' (classification_payload c) updated)))"

definition apply_delivery :: "string \<Rightarrow> factor_classification \<Rightarrow> json \<Rightarrow> json" where
  "apply_delivery as_of c opp =
     (let inputs = j_read opp ''scoring_inputs''; delivery = j_fields (j_read inputs ''delivery_feasibility'');
          put = (\<lambda>d. j_set ''scoring_inputs'' (j_set ''delivery_feasibility'' (J_obj d) inputs) opp)
      in if fc_state c \<noteq> ''CURRENT'' then note_missing c (put (dpop (fc_factor_path c) delivery))
         else put (dset (fc_factor_path c) (write_raw c (default_to (dget delivery (fc_factor_path c)) (delivery_row opp as_of))) delivery))"

record pursuit_context =
  pc_programs :: "program list"
  pc_facilities :: "btx_facility list"
  pc_components :: "component_class list"

definition bin_classifiers :: "pursuit_context \<Rightarrow> pursuit_account \<Rightarrow> json \<Rightarrow> date \<Rightarrow> classified list" where
  "bin_classifiers s a opp as_of =
     (let program = first_match (\<lambda>p. J_str (prg_id p) = j_read opp ''program_id'') (pc_programs s);
          facility = first_match (\<lambda>f. J_str (bfa_id f) = j_read opp ''delivery_facility_id'') (pc_facilities s)
      in [classify_commercial_adjacency a opp as_of, classify_cross_bu opp (pc_components s) as_of,
          classify_component_content a opp (pc_components s) as_of, classify_program_horizon opp program as_of,
          classify_material_match opp facility as_of, classify_process_tolerance_match opp facility as_of,
          classify_certification_compliance_fit opp facility as_of, classify_volume_compatibility opp facility as_of])"

definition delivery_classifiers :: "pursuit_context \<Rightarrow> json \<Rightarrow> date \<Rightarrow> classified list" where
  "delivery_classifiers s opp as_of =
     (let facility = first_match (\<lambda>f. J_str (bfa_id f) = j_read opp ''delivery_facility_id'') (pc_facilities s)
      in [classify_delivery_capability_match opp facility as_of, classify_delivery_schedule_feasibility opp facility as_of,
          classify_delivery_quality_certification opp facility as_of])"

definition classify_named_pursuit :: "pursuit_context \<Rightarrow> pursuit_account \<Rightarrow> string \<Rightarrow> json \<Rightarrow> (py_error, json) result" where
  \<comment> \<open>the written keys are none a classifier reads, so the classifications are those of the given pursuit\<close>
  "classify_named_pursuit s a as_of opp =
     bind_r (refresh_authored_bins opp) (\<lambda>opp1.
     case parse_date as_of of
       None \<Rightarrow> Inl (ValueError ''Invalid isoformat string'')
     | Some day \<Rightarrow>
         bind_r (map_r (\<lambda>m. m) (bin_classifiers s a opp1 day)) (\<lambda>bins.
         let opp2 = foldl (\<lambda>opp c. apply_bin as_of c opp) opp1 bins
         in bind_r (map_r (\<lambda>m. m) (delivery_classifiers s opp2 day)) (\<lambda>raws.
            Inr (foldl (\<lambda>opp c. apply_delivery as_of c opp) opp2 raws))))"

end
