(* ===== verification/ClassificationProps.thy ===== *)
theory ClassificationProps
  imports PursuitClassification PursuitProps
begin

text \<open>What the factor classifications of a pursuit promise, and what the scorer reads of them.\<close>

section \<open>Every classification is evidenced or names what is missing\<close>

definition evidenced :: "factor_classification \<Rightarrow> bool" where
  "evidenced c =
     (fc_state c = ''CURRENT'' \<and> (fc_bin_value c \<noteq> None) = (fc_raw_input c = None) \<and> fc_evidence_ids c \<noteq> []
        \<and> prov_missing_fields (fc_provenance c) = []
      \<or> fc_state c = ''MISSING'' \<and> fc_bin_value c = None \<and> fc_raw_input c = None \<and> fc_evidence_ids c = []
        \<and> prov_missing_fields (fc_provenance c) \<noteq> [])"

definition yields :: "classified \<Rightarrow> bool" where
  "yields m = (\<exists>c. m = Inr c \<and> evidenced c)"

lemma with_note_bin: "deterministic_bin l bin = Inr r \<Longrightarrow> with_note n (deterministic_bin l bin) = Inr (r\<lparr>fc_note := Some n\<rparr>)"
proof -
  assume a: "deterministic_bin l bin = Inr r"
  then have r: "r = bin_record l bin" "leaf_ok l (bin \<noteq> None)" "bin \<noteq> Some []" by (simp_all add: res_simps)
  have "make_classification (r\<lparr>fc_note := Some n\<rparr>) = Inr (r\<lparr>fc_note := Some n\<rparr>)"
    unfolding r(1) bin_record_def by (subst make_leaf_record) (use r in \<open>auto simp: leaf_ok_def\<close>)
  then show ?thesis by (simp add: with_note_def a)
qed

lemma with_note_raw: "deterministic_raw l raw = Inr r \<Longrightarrow> with_note n (deterministic_raw l raw) = Inr (r\<lparr>fc_note := Some n\<rparr>)"
proof -
  assume a: "deterministic_raw l raw = Inr r"
  then have r: "r = raw_record l raw" "leaf_ok l (raw \<noteq> None)" "raw \<noteq> Some []" by (simp_all add: res_simps)
  have "make_classification (r\<lparr>fc_note := Some n\<rparr>) = Inr (r\<lparr>fc_note := Some n\<rparr>)"
    unfolding r(1) raw_record_def by (subst make_leaf_record) (use r in \<open>auto simp: leaf_ok_def\<close>)
  then show ?thesis by (simp add: with_note_def a)
qed

definition leaf_sound :: "leaf \<Rightarrow> bool \<Rightarrow> bool" where
  \<comment> \<open>evidence exactly for a known value, missing fields exactly for an unknown one\<close>
  "leaf_sound l known = (lf_opportunity_id l \<noteq> [] \<and> lf_path l \<noteq> [] \<and> lf_rule_version l \<noteq> []
     \<and> (known \<longleftrightarrow> lf_evidence_ids l \<noteq> []) \<and> (known \<longleftrightarrow> lf_missing_fields l = []))"

lemma bin_yields: "leaf_sound l (bin \<noteq> None) \<Longrightarrow> bin \<noteq> Some [] \<Longrightarrow> yields (deterministic_bin l bin) \<and> yields (with_note n (deterministic_bin l bin))"
proof -
  assume a: "leaf_sound l (bin \<noteq> None)" "bin \<noteq> Some []"
  then have d: "deterministic_bin l bin = Inr (bin_record l bin)" by (simp add: res_simps leaf_ok_def leaf_sound_def)
  have "evidenced (bin_record l bin)"
    using a(1) by (cases bin) (auto simp: evidenced_def bin_record_def leaf_record_def leaf_provenance_def leaf_sound_def)
  then show ?thesis using d with_note_bin[OF d, of n] by (simp add: yields_def evidenced_def)
qed

lemma raw_yields: "leaf_sound l (raw \<noteq> None) \<Longrightarrow> raw \<noteq> Some [] \<Longrightarrow> yields (with_note n (deterministic_raw l raw))"
proof -
  assume a: "leaf_sound l (raw \<noteq> None)" "raw \<noteq> Some []"
  then have d: "deterministic_raw l raw = Inr (raw_record l raw)" by (simp add: res_simps leaf_ok_def leaf_sound_def)
  have "evidenced (raw_record l raw)"
    using a(1) by (cases raw) (auto simp: evidenced_def raw_record_def leaf_record_def leaf_provenance_def leaf_sound_def)
  then show ?thesis using with_note_raw[OF d, of n] by (simp add: yields_def evidenced_def)
qed

lemma fit_yields:
  assumes "text_of (j_read opp ''opportunity_id'') \<noteq> []" "ff_factor f \<noteq> []" "ff_missing f = [] \<Longrightarrow> truthy v"
  shows "yields (fit_bin opp facility as_of f v)"
  using assms unfolding fit_bin_def
  by (intro bin_yields[THEN conjunct2]) (auto simp: leaf_sound_def fit_leaf_def facility_evidence_def FACILITY_CLASSIFIER_RULE_VERSION_def truthy_def split: option.splits)

lemma fit_raw_yields:
  assumes "text_of (j_read opp ''opportunity_id'') \<noteq> []" "ff_factor f \<noteq> []" "ff_missing f = [] \<Longrightarrow> truthy v"
  shows "yields (facility_raw opp facility as_of f v)"
  using assms unfolding facility_raw_def
  by (intro raw_yields) (auto simp: leaf_sound_def fit_leaf_def facility_evidence_def FACILITY_CLASSIFIER_RULE_VERSION_def truthy_def split: option.splits)

lemma finding_simps [simp]: "ff_factor (finding f m i) = f" "ff_missing (finding f m i) = m"
  by (simp_all add: finding_def)

lemma verdicts_truthy [simp]: "truthy (Some (material_verdict r s))" "truthy (Some (tolerance_verdict q ts))"
  "truthy (Some (cert_verdict d es))" "truthy (Some (volume_verdict v p h))"
  by (simp_all add: material_verdict_def tolerance_verdict_def cert_verdict_def volume_verdict_def Let_def)

lemma fit_missing_None [simp]: "fit_missing opp None field \<noteq> []"
  by (simp add: fit_missing_def)

lemma process_coverage_cases: "process_coverage opp facility = (v, missing) \<Longrightarrow> missing = [] \<Longrightarrow> truthy v"
  by (auto simp: process_coverage_def Let_def split: list.splits option.splits if_splits)

lemma cert_coverage_cases: "cert_coverage opp facility = Inr (v, missing) \<Longrightarrow> missing = [] \<Longrightarrow> truthy v"
  by (auto simp: cert_coverage_def Let_def split: list.splits option.splits if_splits)

definition due_readable :: "json \<Rightarrow> bool" where
  "due_readable opp = (py_truth (j_read (scope_of opp) ''required_by_date'')
     \<longrightarrow> Option.bind (j_text (j_read (scope_of opp) ''required_by_date'')) parse_date \<noteq> None)"

definition volume_readable :: "json \<Rightarrow> bool" where
  "volume_readable opp = (py_truth (j_read (scope_of opp) ''expected_volume_next_12m'') \<and> py_truth (j_read (scope_of opp) ''expected_hours_per_unit'')
     \<longrightarrow> both_numbers (scope_of opp) ''expected_volume_next_12m'' ''expected_hours_per_unit'' \<noteq> None)"

lemma cert_coverage_total: "due_readable opp \<Longrightarrow> \<exists>v missing. cert_coverage opp facility = Inr (v, missing)"
  by (auto simp: cert_coverage_def due_readable_def Let_def split: list.splits option.splits)

lemma adjacency_evidence: "adjacency a opp as_of = Some (b, e) \<Longrightarrow> b \<noteq> [] \<and> e \<noteq> []"
  by (auto simp: adjacency_def active_units_def map_filter_def Let_def split: if_splits)

lemma card_two: "2 \<le> card A \<Longrightarrow> A \<noteq> {}" "card A = Suc 0 \<Longrightarrow> A \<noteq> {}"
  by auto

lemma commercial_classifiers_yield:
  assumes "text_of (j_read opp ''opportunity_id'') \<noteq> []"
  shows "yields (classify_commercial_adjacency a opp as_of)" "yields (classify_cross_bu opp components as_of)"
    "yields (classify_component_content a opp components as_of)" "yields (classify_program_horizon opp program as_of)"
proof -
  show "yields (classify_commercial_adjacency a opp as_of)"
    unfolding classify_commercial_adjacency_def Let_def
    by (rule bin_yields[THEN conjunct1])
      (use assms adjacency_evidence[of a opp as_of] in \<open>auto simp: leaf_sound_def plain_leaf_def SAMPLE_CLASSIFIER_RULE_VERSION_def split: option.splits\<close>)
  have f: "finite (case component_of components opp of None \<Rightarrow> {} | Some cc \<Rightarrow> set (ccl_business_unit_ids cc))"
    by (simp split: option.split)
  show "yields (classify_cross_bu opp components as_of)"
    unfolding classify_cross_bu_def Let_def
    by (rule bin_yields[THEN conjunct1])
      (use assms f in \<open>auto simp: leaf_sound_def plain_leaf_def SAMPLE_CLASSIFIER_RULE_VERSION_def not_le less_2_cases_iff card_two\<close>)
  show "yields (classify_component_content a opp components as_of)"
    unfolding classify_component_content_def Let_def
    by (rule bin_yields[THEN conjunct1])
      (use assms in \<open>auto simp: leaf_sound_def plain_leaf_def SAMPLE_CLASSIFIER_RULE_VERSION_def content_evidence_def\<close>)
  show "yields (classify_program_horizon opp program as_of)"
    unfolding classify_program_horizon_def Let_def
    by (rule bin_yields[THEN conjunct2])
      (use assms in \<open>auto simp: leaf_sound_def plain_leaf_def FACILITY_CLASSIFIER_RULE_VERSION_def horizon_bin_def\<close>)
qed

lemma facility_classifiers_yield:
  assumes "text_of (j_read opp ''opportunity_id'') \<noteq> []" "due_readable opp"
    "volume_readable opp"
  shows "yields (classify_material_match opp facility as_of)" "yields (classify_process_tolerance_match opp facility as_of)"
    "yields (classify_certification_compliance_fit opp facility as_of)" "yields (classify_volume_compatibility opp facility as_of)"
    "yields (classify_delivery_capability_match opp facility as_of)" "yields (classify_delivery_schedule_feasibility opp facility as_of)"
    "yields (classify_delivery_quality_certification opp facility as_of)"
proof -
  note y = fit_yields[OF assms(1)] fit_raw_yields[OF assms(1)]
  obtain v missing where c: "cert_coverage opp facility = Inr (v, missing)" using cert_coverage_total[OF assms(2)] by blast
  obtain pv pm where p: "process_coverage opp facility = (pv, pm)" by fastforce
  show "yields (classify_material_match opp facility as_of)"
    by (auto simp: classify_material_match_def intro!: y split: list.splits option.splits)
  show "yields (classify_process_tolerance_match opp facility as_of)"
    using process_coverage_cases[OF p] by (auto simp: classify_process_tolerance_match_def p intro!: y)
  show "yields (classify_certification_compliance_fit opp facility as_of)"
    using cert_coverage_cases[OF c] by (auto simp: classify_certification_compliance_fit_def c intro!: y)
  show "yields (classify_volume_compatibility opp facility as_of)"
  proof (cases "volume_missing opp facility = []")
    case False
    then show ?thesis unfolding classify_volume_compatibility_def Let_def by (simp, intro y) simp_all
  next
    case True
    then have "py_truth (j_read (scope_of opp) ''expected_volume_next_12m'')" "py_truth (j_read (scope_of opp) ''expected_hours_per_unit'')"
      by (auto simp: volume_missing_def or_missing_def first_missing_def fit_missing_def split: option.splits if_splits)
    then obtain volume hours where n: "both_numbers (scope_of opp) ''expected_volume_next_12m'' ''expected_hours_per_unit'' = Some (volume, hours)"
      using assms(3) by (auto simp: volume_readable_def)
    show ?thesis unfolding classify_volume_compatibility_def Let_def n option.case prod.case using True by (simp, intro y) simp_all
  qed
  show "yields (classify_delivery_capability_match opp facility as_of)"
    using process_coverage_cases[OF p] by (auto simp: classify_delivery_capability_match_def p Let_def intro!: y)
  show "yields (classify_delivery_schedule_feasibility opp facility as_of)"
    by (auto simp: classify_delivery_schedule_feasibility_def Let_def intro!: y)
  show "yields (classify_delivery_quality_certification opp facility as_of)"
    using cert_coverage_cases[OF c] by (auto simp: classify_delivery_quality_certification_def c Let_def intro!: y)
qed

lemma all_yield: "\<forall>m\<in>set ms. yields m \<Longrightarrow> \<exists>cs. map_r (\<lambda>m. m) ms = Inr cs \<and> length cs = length ms \<and> (\<forall>c\<in>set cs. evidenced c)"
  by (induction ms) (auto simp: yields_def)

lemma pursuit_classifications_exist:
  assumes "text_of (j_read opp ''opportunity_id'') \<noteq> []" "due_readable opp" "volume_readable opp"
  shows "\<exists>cs. map_r (\<lambda>m. m) (bin_classifiers s a opp as_of @ delivery_classifiers s opp as_of) = Inr cs \<and> length cs = 11
    \<and> (\<forall>c\<in>set cs. evidenced c)"
  using all_yield[of "bin_classifiers s a opp as_of @ delivery_classifiers s opp as_of"]
    commercial_classifiers_yield[OF assms(1)] facility_classifiers_yield[OF assms]
  by (auto simp: bin_classifiers_def delivery_classifiers_def Let_def)

section \<open>Each classifier speaks of its own factor\<close>

definition of_factor :: "string \<Rightarrow> string \<times> string \<Rightarrow> classified \<Rightarrow> bool" where
  "of_factor sid key m = (\<forall>c. m = Inr c \<longrightarrow> validate_classification c = Inr () \<and> fc_method c = ''DETERMINISTIC''
     \<and> fc_subject_id c = sid \<and> (fc_family c, fc_factor_path c) = key)"

lemma made_valid: "make_classification r = Inr c \<Longrightarrow> validate_classification c = Inr () \<and> c = r"
  by (auto simp: make_classification_def bind_r_Inr)

lemma of_bin: "lf_opportunity_id l = sid \<Longrightarrow> lf_path l = path \<Longrightarrow> of_factor sid (''opportunity_priority'', path) (deterministic_bin l b)"
  by (auto simp: of_factor_def deterministic_bin_def bind_r_Inr Let_def leaf_record_def dest!: made_valid)

lemma of_raw: "lf_opportunity_id l = sid \<Longrightarrow> lf_path l = path \<Longrightarrow> of_factor sid (''delivery_feasibility'', path) (deterministic_raw l b)"
  by (auto simp: of_factor_def deterministic_raw_def bind_r_Inr Let_def leaf_record_def dest!: made_valid)

lemma of_note: "of_factor sid key m \<Longrightarrow> of_factor sid key (with_note n m)"
  by (auto simp: of_factor_def with_note_def bind_r_Inr dest!: made_valid)

lemma of_fit: "text_of (j_read opp ''opportunity_id'') = sid \<Longrightarrow> ''btx_manufacturing_fit.'' @ ff_factor f = path \<Longrightarrow>
    of_factor sid (''opportunity_priority'', path) (fit_bin opp facility as_of f v)"
  unfolding fit_bin_def by (intro of_note of_bin) (simp_all add: fit_leaf_def)

lemma of_facility: "text_of (j_read opp ''opportunity_id'') = sid \<Longrightarrow> ff_factor f = path \<Longrightarrow>
    of_factor sid (''delivery_feasibility'', path) (facility_raw opp facility as_of f w)"
  unfolding facility_raw_def by (intro of_note of_raw) (simp_all add: fit_leaf_def)

definition BIN_PATHS :: "string list" where
  "BIN_PATHS = [''btx_commercial_adjacency'', ''addressable_btx_work.cross_bu_applicability'',
     ''addressable_btx_work.btx_relevant_component_content'', ''program_durability.expected_production_horizon'',
     ''btx_manufacturing_fit.material_match'', ''btx_manufacturing_fit.process_tolerance_match'',
     ''btx_manufacturing_fit.certification_compliance_fit'', ''btx_manufacturing_fit.volume_compatibility'']"

definition DELIVERY_PATHS :: "string list" where
  "DELIVERY_PATHS = [''capability_match'', ''schedule_feasibility'', ''quality_certification'']"

lemma bin_classifiers_factors:
  "list_all2 (of_factor (text_of (j_read opp ''opportunity_id''))) (map (Pair ''opportunity_priority'') BIN_PATHS) (bin_classifiers s a opp day)"
proof -
  let ?of = "\<lambda>path. of_factor (text_of (j_read opp ''opportunity_id'')) (''opportunity_priority'', path)"
  have plain: "?of path (deterministic_bin (plain_leaf opp day path rule ids missing) b)" for path rule ids missing b
    by (rule of_bin) (simp_all add: plain_leaf_def)
  have fit: "?of path (fit_bin opp facility day (finding f m i) v)" if "''btx_manufacturing_fit.'' @ f = path" for path facility f m i v
    by (rule of_fit) (use that in \<open>simp_all\<close>)
  have "?of ''btx_commercial_adjacency'' (classify_commercial_adjacency a opp day)"
    "?of ''addressable_btx_work.cross_bu_applicability'' (classify_cross_bu opp c day)"
    "?of ''addressable_btx_work.btx_relevant_component_content'' (classify_component_content a opp c day)"
    "?of ''program_durability.expected_production_horizon'' (classify_program_horizon opp program day)" for c program
    unfolding classify_commercial_adjacency_def classify_cross_bu_def classify_component_content_def classify_program_horizon_def Let_def
    by (intro of_note plain)+
  moreover have "?of ''btx_manufacturing_fit.material_match'' (classify_material_match opp facility day)"
    "?of ''btx_manufacturing_fit.process_tolerance_match'' (classify_process_tolerance_match opp facility day)" for facility
    by (auto simp: classify_material_match_def classify_process_tolerance_match_def split: list.split option.split prod.split intro!: fit)
  moreover have "?of ''btx_manufacturing_fit.certification_compliance_fit'' (classify_certification_compliance_fit opp facility day)" for facility
  proof (cases "cert_coverage opp facility")
    case (Inl e)
    then show ?thesis by (simp add: classify_certification_compliance_fit_def of_factor_def)
  next
    case (Inr vm)
    then show ?thesis by (cases vm) (auto simp: classify_certification_compliance_fit_def intro!: fit)
  qed
  moreover have "?of ''btx_manufacturing_fit.volume_compatibility'' (classify_volume_compatibility opp facility day)" for facility
  proof (cases "volume_missing opp facility = []")
    case True
    then show ?thesis unfolding classify_volume_compatibility_def
      by (cases "both_numbers (scope_of opp) ''expected_volume_next_12m'' ''expected_hours_per_unit''")
        (auto simp: Let_def of_factor_def[of _ _ "Inl _"] intro!: fit)
  qed (auto simp: classify_volume_compatibility_def Let_def intro!: fit)
  ultimately show ?thesis by (simp add: bin_classifiers_def Let_def BIN_PATHS_def)
qed

lemma delivery_classifiers_factors:
  "list_all2 (of_factor (text_of (j_read opp ''opportunity_id''))) (map (Pair ''delivery_feasibility'') DELIVERY_PATHS) (delivery_classifiers s opp day)"
proof -
  let ?of = "\<lambda>path. of_factor (text_of (j_read opp ''opportunity_id'')) (''delivery_feasibility'', path)"
  have fit: "?of path (facility_raw opp facility day (finding path m i) v)" for path facility m i v
    by (rule of_facility) simp_all
  have "?of ''capability_match'' (classify_delivery_capability_match opp facility day)"
    "?of ''schedule_feasibility'' (classify_delivery_schedule_feasibility opp facility day)" for facility
    by (auto simp: classify_delivery_capability_match_def classify_delivery_schedule_feasibility_def Let_def split: prod.split intro!: fit)
  moreover have "?of ''quality_certification'' (classify_delivery_quality_certification opp facility day)" for facility
  proof (cases "cert_coverage opp facility")
    case (Inl e)
    then show ?thesis by (simp add: classify_delivery_quality_certification_def of_factor_def)
  next
    case (Inr vm)
    then show ?thesis by (cases vm) (auto simp: classify_delivery_quality_certification_def Let_def intro!: fit)
  qed
  ultimately show ?thesis by (simp add: delivery_classifiers_def Let_def DELIVERY_PATHS_def)
qed

lemma factors_of:
  assumes "list_all2 (of_factor sid) keys ms" "map_r (\<lambda>m. m) ms = Inr cs"
  shows "map (\<lambda>c. (fc_family c, fc_factor_path c)) cs = keys
    \<and> (\<forall>c\<in>set cs. validate_classification c = Inr () \<and> fc_method c = ''DETERMINISTIC'' \<and> fc_subject_id c = sid)"
  using assms by (induction arbitrary: cs rule: list_all2_induct) (auto simp: of_factor_def bind_r_Inr)

section \<open>What the scorer reads\<close>

definition agrees_off :: "string set \<Rightarrow> json \<Rightarrow> json \<Rightarrow> bool" where
  \<comment> \<open>the same dictionary but for the keys of \<open>K\<close>\<close>
  "agrees_off K a b = (is_object a \<and> is_object b \<and> (\<forall>k. k \<notin> K \<longrightarrow> j_read a k = j_read b k))"

lemma j_read_set: "is_object d \<Longrightarrow> j_read (j_set k v d) k' = (if k = k' then v else j_read d k')"
  by (cases d) (auto simp: j_read_def update_conv')

lemma is_object_set [simp]: "is_object (j_set k v d) = is_object d"
  by (cases d) simp_all

lemma agrees_trans: "agrees_off K a b \<Longrightarrow> agrees_off K b d \<Longrightarrow> agrees_off K a d"
  by (auto simp: agrees_off_def)

lemma agrees_set: "is_object d \<Longrightarrow> k \<in> K \<Longrightarrow> agrees_off K d (j_set k v d)"
  by (auto simp: agrees_off_def j_read_set)

definition BIN_KEYS :: "string set" where "BIN_KEYS = {''score_observations'', ''missing_classifications''}"

lemma agrees_note: "is_object d \<Longrightarrow> agrees_off BIN_KEYS d (note_missing c d)"
  unfolding note_missing_def by (rule agrees_set) (simp_all add: BIN_KEYS_def)

lemma agrees_apply_bin: "is_object d \<Longrightarrow> agrees_off BIN_KEYS d (apply_bin as_of c d)"
proof -
  assume d: "is_object d"
  have s: "agrees_off BIN_KEYS d (j_set ''score_observations'' v d)" for v
    using d by (rule agrees_set) (simp add: BIN_KEYS_def)
  show ?thesis
    using s agrees_trans[OF s agrees_note] d by (simp add: apply_bin_def Let_def)
qed

lemma agrees_bins: "is_object d \<Longrightarrow> agrees_off BIN_KEYS d (foldl (\<lambda>x c. apply_bin as_of c x) d bins)"
proof (induction bins arbitrary: d)
  case Nil
  then show ?case by (simp add: agrees_off_def)
next
  case (Cons c bins)
  have "is_object (apply_bin as_of c d)" using agrees_apply_bin[OF Cons.prems, of as_of c] by (simp add: agrees_off_def)
  then show ?case using agrees_trans[OF agrees_apply_bin[OF Cons.prems, of as_of c] Cons.IH] by simp
qed

lemma agrees_refresh: "is_object d \<Longrightarrow> refresh_authored_bins d = Inr d' \<Longrightarrow> agrees_off BIN_KEYS d d'"
proof -
  assume d: "is_object d" and r: "refresh_authored_bins d = Inr d'"
  have "d' = d \<or> (\<exists>v. d' = j_set ''score_observations'' v d)"
    using r unfolding refresh_authored_bins_def bind_r_Inr by (auto split: if_splits)
  moreover have "agrees_off BIN_KEYS d (j_set ''score_observations'' v d)" for v
    using d by (rule agrees_set) (simp add: BIN_KEYS_def)
  ultimately show ?thesis using d by (auto simp: agrees_off_def)
qed

lemma delivery_classifiers_agree: "agrees_off BIN_KEYS a b \<Longrightarrow> delivery_classifiers s a day = delivery_classifiers s b day"
proof -
  assume "agrees_off BIN_KEYS a b"
  then have r: "j_read b ''opportunity_id'' = j_read a ''opportunity_id''" "j_read b ''scope_requirements'' = j_read a ''scope_requirements''"
    "j_read b ''delivery_facility_id'' = j_read a ''delivery_facility_id''"
    by (simp_all add: agrees_off_def BIN_KEYS_def)
  have sc: "scope_of b = scope_of a" unfolding scope_of_def r by (rule refl)
  have fm: "fit_missing b = fit_missing a" unfolding fit_missing_def fun_eq_iff sc r by simp
  have fl: "fit_leaf b = fit_leaf a" unfolding fit_leaf_def facility_evidence_def fun_eq_iff r by simp
  have rc: "required_centers b = required_centers a" unfolding required_centers_def fun_eq_iff sc by simp
  have pn: "process_names b = process_names a" unfolding process_names_def sc by simp
  have pc: "process_coverage b = process_coverage a" unfolding process_coverage_def fun_eq_iff sc fm by simp
  have cc: "cert_coverage b = cert_coverage a" unfolding cert_coverage_def fun_eq_iff sc fm by simp
  have fr: "facility_raw b = facility_raw a" unfolding facility_raw_def fun_eq_iff fl by simp
  have sm: "schedule_missing b = schedule_missing a" unfolding schedule_missing_def fun_eq_iff fm sc rc by simp
  show ?thesis
    unfolding delivery_classifiers_def classify_delivery_capability_match_def classify_delivery_schedule_feasibility_def
      classify_delivery_quality_certification_def sc rc pn pc cc fr sm r by (rule refl)
qed

lemma bin_classifiers_agree: "agrees_off BIN_KEYS a b \<Longrightarrow> bin_classifiers s acc a day = bin_classifiers s acc b day"
proof -
  assume "agrees_off BIN_KEYS a b"
  then have r: "j_read b ''opportunity_id'' = j_read a ''opportunity_id''" "j_read b ''scope_requirements'' = j_read a ''scope_requirements''"
    "j_read b ''delivery_facility_id'' = j_read a ''delivery_facility_id''" "j_read b ''program_id'' = j_read a ''program_id''"
    "j_read b ''component_id'' = j_read a ''component_id''" "j_read b ''quote_revision_id'' = j_read a ''quote_revision_id''"
    by (simp_all add: agrees_off_def BIN_KEYS_def)
  have sc: "scope_of b = scope_of a" unfolding scope_of_def r by (rule refl)
  have fm: "fit_missing b = fit_missing a" unfolding fit_missing_def fun_eq_iff sc r by simp
  have fl: "fit_leaf b = fit_leaf a" unfolding fit_leaf_def facility_evidence_def fun_eq_iff r by simp
  have fb: "fit_bin b = fit_bin a" unfolding fit_bin_def fun_eq_iff fl by simp
  have rc: "required_centers b = required_centers a" unfolding required_centers_def fun_eq_iff sc by simp
  have pn: "process_names b = process_names a" unfolding process_names_def sc by simp
  have pc: "process_coverage b = process_coverage a" unfolding process_coverage_def fun_eq_iff sc fm by simp
  have cc: "cert_coverage b = cert_coverage a" unfolding cert_coverage_def fun_eq_iff sc fm by simp
  have vm: "volume_missing b = volume_missing a" unfolding volume_missing_def fun_eq_iff fm sc rc by simp
  have pl: "plain_leaf b = plain_leaf a" unfolding plain_leaf_def fun_eq_iff r by simp
  have co: "component_of c b = component_of c a" for c unfolding component_of_def r by (rule refl)
  have pr: "pursuit_revision acc b = pursuit_revision acc a" unfolding pursuit_revision_def r by (rule refl)
  have ad: "adjacency acc b = adjacency acc a" unfolding adjacency_def adjacency_quote_def fun_eq_iff pr r by simp
  have hz: "horizon_years b = horizon_years a" unfolding horizon_years_def fun_eq_iff r by simp
  have ct: "content_complete b = content_complete a" unfolding content_complete_def fun_eq_iff r by simp
  show ?thesis
    unfolding bin_classifiers_def classify_commercial_adjacency_def classify_cross_bu_def classify_component_content_def
      classify_program_horizon_def classify_material_match_def classify_process_tolerance_match_def
      classify_certification_compliance_fit_def classify_volume_compatibility_def ad pl co pr ct hz fm fb pc pn cc vm rc sc r
    by (rule refl)
qed

definition delivery_of :: "json \<Rightarrow> json" where
  "delivery_of opp = j_read (j_read opp ''scoring_inputs'') ''delivery_feasibility''"

lemma j_read_obj: "j_read (J_obj d) k = (case dget d k of None \<Rightarrow> J_null | Some v \<Rightarrow> v)"
  by (simp add: j_read_def)

lemma apply_delivery_reads:
  assumes "is_object d" "is_object (j_read d ''scoring_inputs'')"
  shows "is_object (apply_delivery as_of c d) \<and> is_object (j_read (apply_delivery as_of c d) ''scoring_inputs'')
    \<and> j_read (delivery_of (apply_delivery as_of c d)) k =
      (if k \<noteq> fc_factor_path c then j_read (J_obj (j_fields (delivery_of d))) k
       else if fc_state c \<noteq> ''CURRENT'' then J_null
       else write_raw c (default_to (dget (j_fields (delivery_of d)) k) (delivery_row d as_of)))"
  using assms
  by (auto simp: apply_delivery_def Let_def delivery_of_def note_missing_def j_read_set j_read_obj dict_simps)

lemma classification_paths:
  assumes "map_r (\<lambda>m. m) (delivery_classifiers s opp day) = Inr raws"
  shows "map fc_factor_path raws = [''capability_match'', ''schedule_feasibility'', ''quality_certification'']"
  using arg_cong[OF conjunct1[OF factors_of[OF delivery_classifiers_factors assms]], of "map snd"]
  by (simp add: DELIVERY_PATHS_def o_def)

lemma write_raw_points:
  assumes "key \<in> {''capability_match'', ''schedule_feasibility'', ''quality_certification''}"
  shows "factor_points_of key (write_raw c row) = factor_points_of key (J_obj (foldl (\<lambda>d (k, v). dset k v d) [] (default_to (fc_raw_input c) [])))"
proof -
  have f: "dget (foldl (\<lambda>d (k, v). dset k v d) d kvs) k = (case dget (foldl (\<lambda>d (k, v). dset k v d) [] kvs) k of None \<Rightarrow> dget d k | Some v \<Rightarrow> Some v)"
    for d :: "(string, json) dict" and kvs k
  proof (induction kvs rule: rev_induct)
    case (snoc p kvs)
    then show ?case by (cases p) (auto simp: dict_simps split: option.splits)
  qed simp
  have n: "dget (filter (\<lambda>(k, v). k \<notin> {''state'', ''net_available_hours'', ''required_hours''}) kvs) k = None"
    if "k \<in> {''state'', ''net_available_hours'', ''required_hours''}" for kvs :: "(string, json) dict" and k
    using that by (induction kvs) auto
  have r: "j_read (write_raw c row) k = j_read (J_obj (foldl (\<lambda>d (k, v). dset k v d) [] (default_to (fc_raw_input c) []))) k"
    if "k \<in> {''state'', ''net_available_hours'', ''required_hours''}" for k
    using that n[OF that, of "j_fields row"] f[of "filter (\<lambda>(k, v). k \<notin> {''state'', ''net_available_hours'', ''required_hours''}) (j_fields row)" "default_to (fc_raw_input c) []" k]
    by (auto simp: write_raw_def Let_def j_read_def dict_simps split: option.splits)
  show ?thesis
    using assms by (auto simp: factor_points_of_def PURSUIT_BINS_def both_numbers_def r)
qed

lemma classified_raw_keys:
  assumes "map_r (\<lambda>m. m) (delivery_classifiers s opp day) = Inr raws" "c \<in> set raws"
  shows "distinct (map fst (default_to (fc_raw_input c) []))"
proof -
  have p: "facility_raw opp facility day f v = Inr c \<Longrightarrow> distinct (map fst (default_to v [])) \<Longrightarrow> distinct (map fst (default_to (fc_raw_input c) []))"
    for facility f v c
    by (auto simp: facility_raw_def with_note_def make_classification_def res_simps raw_record_def leaf_record_def fit_leaf_def Let_def split: if_splits)
  have a: "classify_delivery_capability_match opp facility day = Inr c \<Longrightarrow> distinct (map fst (default_to (fc_raw_input c) []))" for facility c
    unfolding classify_delivery_capability_match_def Let_def by (auto split: prod.splits if_splits dest!: p)
  have b: "classify_delivery_schedule_feasibility opp facility day = Inr c \<Longrightarrow> distinct (map fst (default_to (fc_raw_input c) []))" for facility c
    unfolding classify_delivery_schedule_feasibility_def Let_def by (auto split: if_splits dest!: p)
  have q: "classify_delivery_quality_certification opp facility day = Inr c \<Longrightarrow> distinct (map fst (default_to (fc_raw_input c) []))" for facility c
    unfolding classify_delivery_quality_certification_def Let_def by (auto simp: res_simps split: if_splits dest!: p)
  show ?thesis using assms a b q by (auto simp: delivery_classifiers_def Let_def res_simps)
qed

lemma dget_build: "distinct (map fst kvs) \<Longrightarrow> dget (foldl (\<lambda>d (k, v). dset k v d) [] kvs) k = dget kvs k"
proof (induction kvs rule: rev_induct)
  case (snoc p kvs)
  obtain a b where p: "p = (a, b)" by (cases p)
  have none: "dget kvs a = None" using snoc.prems p by (simp add: map_of_eq_None_iff)
  show ?case using snoc p none by (auto simp: dict_simps map_add_def split: option.splits)
qed simp

lemma factor_points_reads:
  assumes "key \<in> {''capability_match'', ''schedule_feasibility'', ''quality_certification''}"
    "\<And>k. j_read x k = j_read y k"
  shows "factor_points_of key x = factor_points_of key y"
  using assms by (auto simp: factor_points_of_def PURSUIT_BINS_def both_numbers_def)

lemma j_read_fields: "j_read (J_obj (j_fields x)) k = j_read x k"
  by (cases x) (simp_all add: j_read_def)

lemma written_delivery:
  assumes "is_object d" "is_object (j_read d ''scoring_inputs'')" "distinct (map fc_factor_path raws)" "c \<in> set raws"
  shows "\<exists>row. j_read (delivery_of (foldl (\<lambda>x c. apply_delivery as_of c x) d raws)) (fc_factor_path c)
    = (if fc_state c \<noteq> ''CURRENT'' then J_null else write_raw c row)"
proof -
  have keep: "j_read (delivery_of (foldl (\<lambda>x c. apply_delivery as_of c x) d raws)) k = j_read (delivery_of d) k"
    if "k \<notin> fc_factor_path ` set raws" "is_object d" "is_object (j_read d ''scoring_inputs'')" for k d raws
    using that by (induction raws arbitrary: d) (simp_all add: apply_delivery_reads j_read_fields)
  show ?thesis
    using assms
  proof (induction raws arbitrary: d)
    case (Cons x raws)
    have next_d: "is_object (apply_delivery as_of x d)" "is_object (j_read (apply_delivery as_of x d) ''scoring_inputs'')"
      using apply_delivery_reads Cons.prems by blast+
    show ?case
    proof (cases "c = x")
      case True
      then show ?thesis using keep[OF _ next_d, of "fc_factor_path c" raws] Cons.prems by (auto simp: apply_delivery_reads)
    next
      case False
      then show ?thesis using Cons.IH[OF next_d] Cons.prems by auto
    qed
  qed simp
qed

lemma map_r_append_Inr: "map_r f (xs @ ys) = Inr zs \<Longrightarrow> \<exists>us vs. map_r f xs = Inr us \<and> map_r f ys = Inr vs \<and> zs = us @ vs"
  by (induction xs arbitrary: zs) (fastforce simp: res_simps)+

definition classifiable :: "json \<Rightarrow> bool" where
  "classifiable opp = (text_of (j_read opp ''opportunity_id'') \<noteq> [] \<and> due_readable opp \<and> volume_readable opp)"

lemma classifiable_agrees: "agrees_off BIN_KEYS a b \<Longrightarrow> classifiable a \<Longrightarrow> classifiable b"
  by (simp add: agrees_off_def BIN_KEYS_def classifiable_def due_readable_def volume_readable_def scope_of_def)

lemma classified_exist:
  assumes "classifiable opp"
  shows "\<exists>bins. map_r (\<lambda>m. m) (bin_classifiers s a opp day) = Inr bins" "\<exists>raws. map_r (\<lambda>m. m) (delivery_classifiers s opp day) = Inr raws"
  using pursuit_classifications_exist[of opp s a day] assms by (auto simp: classifiable_def dest!: map_r_append_Inr)

lemma classify_named_pursuit_total:
  assumes "is_object opp" "classifiable opp" "refresh_authored_bins opp = Inr opp1" "parse_date as_of = Some day"
  shows "\<exists>opp'. classify_named_pursuit s a as_of opp = Inr opp'"
proof -
  have a1: "agrees_off BIN_KEYS opp opp1" by (rule agrees_refresh[OF assms(1,3)])
  then have c1: "classifiable opp1" "is_object opp1" using classifiable_agrees assms(2) by (auto simp: agrees_off_def)
  obtain bins where b: "map_r (\<lambda>m. m) (bin_classifiers s a opp1 day) = Inr bins" using classified_exist[OF c1(1)] by blast
  have c2: "classifiable (foldl (\<lambda>x c. apply_bin as_of c x) opp1 bins)"
    by (rule classifiable_agrees[OF agrees_bins[OF c1(2)] c1(1)])
  then obtain raws where "map_r (\<lambda>m. m) (delivery_classifiers s (foldl (\<lambda>x c. apply_bin as_of c x) opp1 bins) day) = Inr raws"
    using classified_exist by blast
  then show ?thesis using assms(3,4) b by (simp add: classify_named_pursuit_def Let_def)
qed

lemma row_validity:
  "pr_valid (read_pursuit demo sources account opp fam key raw) \<longleftrightarrow>
    fi_evidence_state (pursuit_factor render account key raw (read_pursuit demo sources account opp fam key raw)) = EV_CURRENT
    \<and> fi_evidence_ids (pursuit_factor render account key raw (read_pursuit demo sources account opp fam key raw)) \<noteq> []"
  by (auto simp: read_pursuit_def pursuit_factor_def Let_def raw_linked_def)

section \<open>What a pursuit keeps\<close>

definition rows_on :: "string \<Rightarrow> json \<Rightarrow> json list" where
  "rows_on path opp = filter (\<lambda>row. j_read row ''path'' = J_str path) (j_items (j_read opp ''score_observations''))"

definition missing_of :: "json \<Rightarrow> json list" where
  "missing_of opp = j_items (j_read opp ''missing_classifications'')"

definition reported :: "factor_classification list \<Rightarrow> json list" where
  "reported cs = map classification_payload (filter (\<lambda>c. fc_state c \<noteq> ''CURRENT'') cs)"

lemma path_is_object: "j_read row k = J_str t \<Longrightarrow> is_object row"
  by (cases row) (simp_all add: j_read_def)

lemma read_set_other: "k' \<noteq> k \<Longrightarrow> j_read (j_set k v row) k' = j_read row k'"
  by (cases row) (simp_all add: j_read_def update_conv')

lemma write_bin_path [simp]: "j_read (write_bin c row) ''path'' = j_read row ''path''"
  by (simp add: write_bin_def read_set_other)

lemma write_bin_reads:
  assumes "is_object row"
  shows "j_read (write_bin c row) ''bin'' = j_opt J_str (fc_bin_value c)"
    "j_read (write_bin c row) ''classification'' = classification_payload c"
  using assms by (simp_all add: write_bin_def j_read_set)

lemma derived_path [simp]: "j_read (derived_row opp as_of c) ''path'' = J_str (fc_factor_path c)" "is_object (derived_row opp as_of c)"
  by (simp_all add: derived_row_def j_read_obj)

lemma change_first_filter:
  "filter P (change_first P f xs) = (case filter P xs of [] \<Rightarrow> [] | y # ys \<Rightarrow> filter P (f y) @ ys)"
  by (induction xs) auto

lemma change_first_other:
  "(\<And>x. P x \<Longrightarrow> \<not> Q x \<and> filter Q (f x) = []) \<Longrightarrow> filter Q (change_first P f xs) = filter Q xs"
  by (induction xs) auto

lemma apply_bin_missing:
  "is_object d \<Longrightarrow> missing_of (apply_bin as_of c d) = missing_of d @ reported [c]"
  by (simp add: missing_of_def reported_def apply_bin_def Let_def note_missing_def j_read_set)

lemma apply_bin_rows:
  "is_object d \<Longrightarrow> j_items (j_read (apply_bin as_of c d) ''score_observations'') =
     (if fc_state c \<noteq> ''CURRENT'' then change_first (on_path c) (\<lambda>_. []) (j_items (j_read d ''score_observations''))
      else if list_ex (on_path c) (j_items (j_read d ''score_observations''))
      then change_first (on_path c) (\<lambda>row. [write_bin c row]) (j_items (j_read d ''score_observations''))
      else j_items (j_read d ''score_observations'') @ [write_bin c (derived_row d as_of c)])"
  by (simp add: apply_bin_def Let_def note_missing_def j_read_set)

lemma on_path_read: "on_path c = (\<lambda>row. j_read row ''path'' = J_str (fc_factor_path c))"
  by (simp add: on_path_def fun_eq_iff)

lemma apply_bin_other: "is_object d \<Longrightarrow> path \<noteq> fc_factor_path c \<Longrightarrow> rows_on path (apply_bin as_of c d) = rows_on path d"
  unfolding rows_on_def apply_bin_rows on_path_read by (auto intro!: change_first_other)

lemma filter_first: "filter P xs = y # ys \<Longrightarrow> P y"
  by (induction xs) (auto split: if_splits)

lemma apply_bin_own:
  assumes "is_object d"
  shows "rows_on (fc_factor_path c) (apply_bin as_of c d) = (if fc_state c \<noteq> ''CURRENT'' then tl (rows_on (fc_factor_path c) d)
     else case rows_on (fc_factor_path c) d of [] \<Rightarrow> [write_bin c (derived_row d as_of c)] | row # rows \<Rightarrow> write_bin c row # rows)"
proof -
  let ?P = "\<lambda>row. j_read row ''path'' = J_str (fc_factor_path c)" and ?rows = "j_items (j_read d ''score_observations'')"
  show ?thesis
  proof (cases "filter ?P ?rows")
    case Nil
    then have "\<not> list_ex ?P ?rows" by (auto simp: filter_empty_conv list_ex_iff)
    then show ?thesis unfolding rows_on_def apply_bin_rows[OF assms] on_path_read using Nil by (simp add: change_first_filter)
  next
    case (Cons row rows)
    then have "list_ex ?P ?rows" by (auto simp: list_ex_iff dest: filter_eq_ConsD)
    moreover have "?P row" by (rule filter_first[OF Cons])
    ultimately show ?thesis unfolding rows_on_def apply_bin_rows[OF assms] on_path_read using Cons by (simp add: change_first_filter)
  qed
qed

definition row_says :: "factor_classification \<Rightarrow> json list \<Rightarrow> nat \<Rightarrow> bool" where
  \<comment> \<open>of \<open>n\<close> rows on the path before\<close>
  "row_says c rows n = (if fc_state c = ''CURRENT''
     then length rows = max 1 n \<and> j_read (hd rows) ''bin'' = j_opt J_str (fc_bin_value c)
        \<and> j_read (hd rows) ''classification'' = classification_payload c
     else length rows = n - 1)"

lemma apply_bin_says:
  assumes "is_object d"
  shows "row_says c (rows_on (fc_factor_path c) (apply_bin as_of c d)) (length (rows_on (fc_factor_path c) d))"
proof (cases "rows_on (fc_factor_path c) d")
  case Nil
  then show ?thesis unfolding apply_bin_own[OF assms] by (simp add: row_says_def write_bin_reads)
next
  case (Cons row rows)
  then have "j_read row ''path'' = J_str (fc_factor_path c)" unfolding rows_on_def by (rule filter_first)
  then have "is_object row" by (rule path_is_object)
  then show ?thesis unfolding apply_bin_own[OF assms] using Cons by (simp add: row_says_def write_bin_reads)
qed

lemma apply_bins:
  assumes "is_object d" "distinct (map fc_factor_path bins)"
  shows "missing_of (foldl (\<lambda>x c. apply_bin as_of c x) d bins) = missing_of d @ reported bins
    \<and> (\<forall>path. path \<notin> fc_factor_path ` set bins \<longrightarrow> rows_on path (foldl (\<lambda>x c. apply_bin as_of c x) d bins) = rows_on path d)
    \<and> (\<forall>c\<in>set bins. row_says c (rows_on (fc_factor_path c) (foldl (\<lambda>x c. apply_bin as_of c x) d bins)) (length (rows_on (fc_factor_path c) d)))"
  using assms
proof (induction bins arbitrary: d)
  case (Cons b bins)
  let ?d = "apply_bin as_of b d" and ?last = "foldl (\<lambda>x c. apply_bin as_of c x) (apply_bin as_of b d) bins"
  have o: "is_object ?d" using agrees_apply_bin[of d as_of b] Cons.prems by (simp add: agrees_off_def)
  have dist: "distinct (map fc_factor_path bins)" and new: "fc_factor_path b \<notin> fc_factor_path ` set bins" using Cons.prems(2) by simp_all
  note IH = Cons.IH[OF o dist]
  have "missing_of ?last = missing_of d @ reported (b # bins)"
    using IH apply_bin_missing[OF Cons.prems(1), of as_of b] by (simp add: reported_def)
  moreover have "rows_on path ?last = rows_on path d" if "path \<notin> fc_factor_path ` set (b # bins)" for path
    using that IH apply_bin_other[OF Cons.prems(1), of path b as_of] by simp
  moreover have "row_says c (rows_on (fc_factor_path c) ?last) (length (rows_on (fc_factor_path c) d))" if "c \<in> set (b # bins)" for c
  proof (cases "c = b")
    case True
    then show ?thesis using IH new apply_bin_says[OF Cons.prems(1), of b as_of] by simp
  next
    case False
    then have c: "c \<in> set bins" using that by simp
    then have "fc_factor_path c \<noteq> fc_factor_path b" using new by (metis imageI)
    then show ?thesis using IH c apply_bin_other[OF Cons.prems(1), of "fc_factor_path c" b as_of] by auto
  qed
  ultimately show ?case by simp
qed (simp add: reported_def)

lemma apply_deliveries:
  assumes "is_object d" "is_object (j_read d ''scoring_inputs'')"
  shows "missing_of (foldl (\<lambda>x c. apply_delivery as_of c x) d raws) = missing_of d @ reported raws
    \<and> rows_on path (foldl (\<lambda>x c. apply_delivery as_of c x) d raws) = rows_on path d"
  using assms
proof (induction raws arbitrary: d)
  case (Cons x raws)
  have o: "is_object (apply_delivery as_of x d)" "is_object (j_read (apply_delivery as_of x d) ''scoring_inputs'')"
    using apply_delivery_reads[OF Cons.prems] by blast+
  have "missing_of (apply_delivery as_of x d) = missing_of d @ reported [x] \<and> rows_on path (apply_delivery as_of x d) = rows_on path d"
    using Cons.prems by (simp add: apply_delivery_def Let_def missing_of_def rows_on_def reported_def note_missing_def j_read_set)
  then show ?case using Cons.IH[OF o] by (simp add: reported_def)
qed (simp add: reported_def)

lemma refreshed_rows:
  assumes "is_object opp" "refresh_authored_bins opp = Inr opp1"
  shows "length (rows_on path opp1) = length (rows_on path opp)" "missing_of opp1 = missing_of opp"
proof -
  have row: "j_read row' ''path'' = j_read row ''path''" if "refresh_row opp row = Inr row'" for row row'
    using that unfolding refresh_row_def Let_def by (auto simp: bind_r_Inr read_set_other split: if_splits option.splits)
  have rows: "length (filter (\<lambda>row. j_read row ''path'' = J_str path) rows') = length (filter (\<lambda>row. j_read row ''path'' = J_str path) rows)"
    if "map_r (refresh_row opp) rows = Inr rows'" for rows rows'
    using that by (induction rows arbitrary: rows') (auto simp: bind_r_Inr row)
  show "length (rows_on path opp1) = length (rows_on path opp)" "missing_of opp1 = missing_of opp"
    using assms rows unfolding refresh_authored_bins_def bind_r_Inr
    by (auto simp: rows_on_def missing_of_def j_read_set)
qed

lemma delivery_points:
  assumes "classify_named_pursuit s a as_of opp = Inr opp'" "parse_date as_of = Some day"
    "is_object opp" "is_object (j_read opp ''scoring_inputs'')"
    "map_r (\<lambda>m. m) (delivery_classifiers s opp day) = Inr raws" "c \<in> set raws"
    "pursuit_inputs demo sources render account opp' ''delivery_feasibility'' = Inr (inputs, blocks, missing)"
    "dget inputs (fc_factor_path c) = Some i"
  shows "fi_points i = (if fc_state c = ''CURRENT'' \<and> fi_evidence_state i = EV_CURRENT \<and> fi_evidence_ids i \<noteq> []
    then factor_points_of (fc_factor_path c) (J_obj (default_to (fc_raw_input c) [])) else None)"
proof -
  let ?key = "fc_factor_path c"
  obtain opp1 bins raws' where r: "refresh_authored_bins opp = Inr opp1"
    "map_r (\<lambda>m. m) (delivery_classifiers s (foldl (\<lambda>x c. apply_bin as_of c x) opp1 bins) day) = Inr raws'"
    "opp' = foldl (\<lambda>x c. apply_delivery as_of c x) (foldl (\<lambda>x c. apply_bin as_of c x) opp1 bins) raws'"
    using assms(1,2) unfolding classify_named_pursuit_def by (auto simp: bind_r_Inr Let_def)
  let ?opp2 = "foldl (\<lambda>x c. apply_bin as_of c x) opp1 bins"
  have a1: "agrees_off BIN_KEYS opp opp1" using agrees_refresh[OF assms(3) r(1)] .
  then have agree: "agrees_off BIN_KEYS opp ?opp2"
    using agrees_trans agrees_bins[of opp1 as_of bins] by (auto simp: agrees_off_def)
  then have same: "raws' = raws" using r(2) assms(5) delivery_classifiers_agree[OF agree, of s day] by simp
  have objs: "is_object ?opp2" "is_object (j_read ?opp2 ''scoring_inputs'')"
    using agree assms(4) by (auto simp: agrees_off_def BIN_KEYS_def)
  have paths: "map fc_factor_path raws = [''capability_match'', ''schedule_feasibility'', ''quality_certification'']"
    by (rule classification_paths[OF assms(5)])
  obtain row where row: "j_read (delivery_of opp') ?key = (if fc_state c \<noteq> ''CURRENT'' then J_null else write_raw c row)"
    using written_delivery[OF objs _ assms(6), of as_of] paths r(3) same by auto
  have key: "?key \<in> {''capability_match'', ''schedule_feasibility'', ''quality_certification''}"
  proof -
    have "?key \<in> set (map fc_factor_path raws)" using assms(6) by simp
    then show ?thesis unfolding paths by simp
  qed
  obtain f where f: "family_of ''delivery_feasibility'' = Inr f"
    by (simp add: family_of_def FAMILIES_def family_default_def)
  have "inputs = map (\<lambda>(key, w). (key, pursuit_row demo sources render account opp' ''delivery_feasibility'' key)) (fam_weights f)"
    using pursuit_inputs_value[OF f, of demo sources render account opp'] assms(7) by auto
  then have "i = pursuit_row demo sources render account opp' ''delivery_feasibility'' ?key"
    using assms(8) by (auto dest!: map_of_SomeD)
  then have pts: "fi_points i = (if fi_evidence_state i = EV_CURRENT \<and> fi_evidence_ids i \<noteq> []
      then factor_points_of ?key (j_read (delivery_of opp') ?key) else None)"
    unfolding pursuit_row_def Let_def delivery_of_def
    by (simp only: row_validity[symmetric]) (simp add: pursuit_factor_def read_pursuit_def Let_def)
  have none: "factor_points_of ?key J_null = None" using key by (auto simp: factor_points_of_def PURSUIT_BINS_def both_numbers_def)
  have "factor_points_of ?key (write_raw c row) = factor_points_of ?key (J_obj (default_to (fc_raw_input c) []))"
    unfolding write_raw_points[OF key]
    by (rule factor_points_reads[OF key]) (simp add: j_read_obj dget_build[OF classified_raw_keys[OF assms(5,6)]])
  then show ?thesis using pts row none by simp
qed


text \<open>
  C12. What a classified pursuit keeps. After a named pursuit is classified, each of its eight bin factors
  that was classified CURRENT has a row whose bin and sidecar are the classified value, written over its row or added,
  and each other one has lost its row; the missing classifications it carries are those it had, and then exactly the
  classifications that are not CURRENT, in order. Each of the three delivery factors that the scorer reads has points
  exactly when it was classified CURRENT and its evidence is current and linked, and they are the points of exactly
  the classified input, whatever the pursuit held there before; so a missing fact never becomes points.
\<close>

theorem delivery_points_need_classification:
  assumes "classify_named_pursuit s a as_of opp = Inr opp'" "parse_date as_of = Some day"
    "is_object opp" "is_object (j_read opp ''scoring_inputs'')"
    "map_r (\<lambda>m. m) (bin_classifiers s a opp day) = Inr bins" "map_r (\<lambda>m. m) (delivery_classifiers s opp day) = Inr raws"
  shows "(\<forall>c\<in>set bins. let rows = rows_on (fc_factor_path c) opp'; before = length (rows_on (fc_factor_path c) opp)
       in if fc_state c = ''CURRENT''
          then length rows = max 1 before \<and> j_read (hd rows) ''bin'' = j_opt J_str (fc_bin_value c)
             \<and> j_read (hd rows) ''classification'' = classification_payload c
          else length rows = before - 1)
    \<and> j_items (j_read opp' ''missing_classifications'') = j_items (j_read opp ''missing_classifications'')
         @ map classification_payload (filter (\<lambda>c. fc_state c \<noteq> ''CURRENT'') (bins @ raws))
    \<and> (\<forall>c\<in>set raws. \<forall>demo sources render account inputs blocks missing i.
         pursuit_inputs demo sources render account opp' ''delivery_feasibility'' = Inr (inputs, blocks, missing)
         \<longrightarrow> dget inputs (fc_factor_path c) = Some i
         \<longrightarrow> fi_points i = (if fc_state c = ''CURRENT'' \<and> fi_evidence_state i = EV_CURRENT \<and> fi_evidence_ids i \<noteq> []
               then factor_points_of (fc_factor_path c) (J_obj (default_to (fc_raw_input c) [])) else None))"
proof (intro conjI)
  obtain opp1 bins' raws' where r: "refresh_authored_bins opp = Inr opp1"
    "map_r (\<lambda>m. m) (bin_classifiers s a opp1 day) = Inr bins'"
    "map_r (\<lambda>m. m) (delivery_classifiers s (foldl (\<lambda>x c. apply_bin as_of c x) opp1 bins') day) = Inr raws'"
    "opp' = foldl (\<lambda>x c. apply_delivery as_of c x) (foldl (\<lambda>x c. apply_bin as_of c x) opp1 bins') raws'"
    using assms(1,2) unfolding classify_named_pursuit_def by (auto simp: bind_r_Inr Let_def)
  have a1: "agrees_off BIN_KEYS opp opp1" using agrees_refresh[OF assms(3) r(1)] .
  then have b: "bins' = bins" and o1: "is_object opp1"
    using r(2) assms(5) bin_classifiers_agree[OF a1, of s a day] by (simp_all add: agrees_off_def)
  let ?opp2 = "foldl (\<lambda>x c. apply_bin as_of c x) opp1 bins"
  have agree: "agrees_off BIN_KEYS opp ?opp2" using agrees_trans[OF a1 agrees_bins[OF o1]] .
  then have d: "raws' = raws" using r(3) assms(6) delivery_classifiers_agree[OF agree, of s day] b by simp
  have objs: "is_object ?opp2" "is_object (j_read ?opp2 ''scoring_inputs'')"
    using agree assms(4) by (auto simp: agrees_off_def BIN_KEYS_def)
  have dist: "distinct (map fc_factor_path bins)"
    using arg_cong[OF conjunct1[OF factors_of[OF bin_classifiers_factors assms(5)]], of "map snd"] by (simp add: BIN_PATHS_def o_def)
  note B = apply_bins[OF o1 dist, where as_of = as_of] and D = apply_deliveries[OF objs, where as_of = as_of and raws = raws]
  have "row_says c (rows_on (fc_factor_path c) opp') (length (rows_on (fc_factor_path c) opp))" if "c \<in> set bins" for c
  proof -
    have "row_says c (rows_on (fc_factor_path c) ?opp2) (length (rows_on (fc_factor_path c) opp1))" using B that by blast
    then show ?thesis
      using D[of "fc_factor_path c"] refreshed_rows(1)[OF assms(3) r(1), of "fc_factor_path c"] by (simp add: r(4) b d)
  qed
  then show "\<forall>c\<in>set bins. let rows = rows_on (fc_factor_path c) opp'; before = length (rows_on (fc_factor_path c) opp)
       in if fc_state c = ''CURRENT''
          then length rows = max 1 before \<and> j_read (hd rows) ''bin'' = j_opt J_str (fc_bin_value c)
             \<and> j_read (hd rows) ''classification'' = classification_payload c
          else length rows = before - 1" by (simp add: row_says_def Let_def)
  show "j_items (j_read opp' ''missing_classifications'') = j_items (j_read opp ''missing_classifications'')
         @ map classification_payload (filter (\<lambda>c. fc_state c \<noteq> ''CURRENT'') (bins @ raws))"
    using B D refreshed_rows(2)[OF assms(3) r(1)] by (simp add: r(4) b d missing_of_def reported_def)
qed (use delivery_points[OF assms(1-4,6)] in blast)

definition demo_center :: work_center_capacity where
  "demo_center = \<lparr>wcc_work_center_id = ''wc1'', wcc_process = ''5AXIS'', wcc_machine_count = 2, wcc_shifts_per_day = 2,
     wcc_hours_per_shift = 8, wcc_operational_days_per_week = 5, wcc_nominal_hours_per_week = 160, wcc_committed_hours_next_90d = 1700,
     wcc_available_hours_next_90d = 300, wcc_utilisation_pct = 85, wcc_data_mode = Some SAMPLE, wcc_synthetic = Some True, wcc_source = None\<rparr>"

definition demo_facility :: btx_facility where
  "demo_facility = \<lparr>bfa_id = ''fac1'', bfa_business_unit_id = None, bfa_name = ''Facility'', bfa_city = None, bfa_region = None,
     bfa_country = None, bfa_latitude = None, bfa_longitude = None, bfa_verification_state = ''VERIFIED'', bfa_source_url = None,
     bfa_source_type = None, bfa_provenance = provenance.truncate (sample_provenance ''fac1'' (Date 2026 1 1) []), bfa_source_ids = [],
     bfa_certifications = [\<lparr>fct_name = ''AS9100: Rev D'', fct_scope = ''site'', fct_certifying_body = None, fct_certificate_id = None,
       fct_issued_on = None, fct_expires_on = Some (Date 2028 1 1), fct_renewal_lead_days = None, fct_data_mode = None,
       fct_synthetic = None, fct_source = None\<rparr>],
     bfa_certified_processes = [\<lparr>cpr_process = ''5AXIS'', cpr_certification_required = None, cpr_tolerance_capability = Some ''+/-0.0005 in'',
       cpr_materials_supported = [''Aluminum 7075''], cpr_max_part_envelope = None, cpr_data_mode = None, cpr_synthetic = None,
       cpr_source = None\<rparr>],
     bfa_capacity = Some \<lparr>fcp_as_of = Date 2026 1 1, fcp_work_centers = [demo_center]\<rparr>,
     bfa_data_mode = Some SAMPLE, bfa_synthetic = Some True, bfa_source = None\<rparr>"

definition demo_context :: pursuit_context where
  "demo_context = \<lparr>pc_programs = [], pc_facilities = [demo_facility], pc_components = []\<rparr>"

definition demo_history :: pursuit_account where
  "demo_history = \<lparr>pa_quotes = [], pa_quote_revisions = [], pa_quote_lines = [], pa_order_lines = [], pa_revenue_events = [],
     pa_months = [], pa_relationship_state = Some ''PUBLIC_MARKET''\<rparr>"

definition demo_scoped_pursuit :: json where
  "demo_scoped_pursuit = J_obj [(''opportunity_id'', J_str ''opp1''), (''delivery_facility_id'', J_str ''fac1''),
     (''scope_requirements'', J_obj [(''required_materials'', j_strs [''7075'']), (''required_processes'', j_strs [''5AXIS'']),
        (''required_tolerance_band'', J_str ''+/-0.001 in''), (''required_certifications'', j_strs [''AS9100'']),
        (''required_by_date'', J_str ''2027-03-31''), (''expected_volume_next_12m'', J_int 240),
        (''expected_hours_per_unit'', J_num (9/2)), (''required_hours_next_90d'', J_int 270)]),
     (''score_observations'', J_arr []), (''scoring_inputs'', J_obj [(''delivery_feasibility'', J_obj [])])]"

definition demo_scope_account :: json where
  "demo_scope_account = J_obj [(''as_of'', J_str ''2026-01-31''), (''opportunities'', J_arr [J_obj [(''opportunity_id'', J_str ''opp1'')]])]"

lemma demo_capability: "map_sum (\<lambda>_. ()) (map (\<lambda>c. (fc_factor_path c, fc_state c,
    factor_points_of (fc_factor_path c) (J_obj (default_to (fc_raw_input c) [])))))
    (map_r (\<lambda>m. m) (delivery_classifiers demo_context demo_scoped_pursuit (Date 2026 1 31)))
  = Inr [(''capability_match'', ''CURRENT'', Some 100), (''schedule_feasibility'', ''CURRENT'', Some 75),
      (''quality_certification'', ''CURRENT'', Some 25)]"
  by code_simp

lemma demo_pursuit_ok: "classifiable demo_scoped_pursuit \<and> is_object demo_scoped_pursuit
    \<and> is_object (j_read demo_scoped_pursuit ''scoring_inputs'') \<and> refresh_authored_bins demo_scoped_pursuit = Inr demo_scoped_pursuit
    \<and> parse_date ''2026-01-31'' = Some (Date 2026 1 31)"
  unfolding classifiable_def due_readable_def volume_readable_def by (intro conjI) code_simp+

theorem delivery_points_need_classification_witness:
  "\<exists>opp' inputs blocks missing i. classify_named_pursuit demo_context demo_history ''2026-01-31'' demo_scoped_pursuit = Inr opp'
    \<and> pursuit_inputs (Date 2026 1 31) (\<lambda>_. None) (\<lambda>_. []) demo_scope_account opp' ''delivery_feasibility'' = Inr (inputs, blocks, missing)
    \<and> dget inputs ''capability_match'' = Some i
    \<and> fi_points i = (if fi_evidence_state i = EV_CURRENT \<and> fi_evidence_ids i \<noteq> [] then Some 100 else None)"
proof -
  note d = demo_pursuit_ok
  obtain opp' where o: "classify_named_pursuit demo_context demo_history ''2026-01-31'' demo_scoped_pursuit = Inr opp'"
    using classify_named_pursuit_total d by blast
  obtain bins raws where b: "map_r (\<lambda>m. m) (bin_classifiers demo_context demo_history demo_scoped_pursuit (Date 2026 1 31)) = Inr bins"
    and r: "map_r (\<lambda>m. m) (delivery_classifiers demo_context demo_scoped_pursuit (Date 2026 1 31)) = Inr raws"
    using classified_exist d by blast
  have "map (\<lambda>c. (fc_factor_path c, fc_state c, factor_points_of (fc_factor_path c) (J_obj (default_to (fc_raw_input c) [])))) raws
      = [(''capability_match'', ''CURRENT'', Some 100), (''schedule_feasibility'', ''CURRENT'', Some 75),
      (''quality_certification'', ''CURRENT'', Some 25)]" using demo_capability r by simp
  then obtain c rest where "raws = c # rest" and c1: "fc_factor_path c = ''capability_match''" "fc_state c = ''CURRENT''"
    "factor_points_of ''capability_match'' (J_obj (default_to (fc_raw_input c) [])) = Some 100"
    by (cases raws) auto
  then have c: "c \<in> set raws" "fc_factor_path c = ''capability_match''" "fc_state c = ''CURRENT''"
    "factor_points_of ''capability_match'' (J_obj (default_to (fc_raw_input c) [])) = Some 100" by simp_all
  obtain f where f: "family_of ''delivery_feasibility'' = Inr f" "''capability_match'' \<in> fst ` set (fam_weights f)"
    by (simp add: family_of_def FAMILIES_def family_default_def)
  obtain inputs blocks missing where i:
    "pursuit_inputs (Date 2026 1 31) (\<lambda>_. None) (\<lambda>_. []) demo_scope_account opp' ''delivery_feasibility'' = Inr (inputs, blocks, missing)"
    "fst ` set inputs = fst ` set (fam_weights f)"
    proof -
    obtain blocks missing where r: "pursuit_inputs (Date 2026 1 31) (\<lambda>_. None) (\<lambda>_. []) demo_scope_account opp' ''delivery_feasibility''
      = Inr (map (\<lambda>(key, w). (key, pursuit_row (Date 2026 1 31) (\<lambda>_. None) (\<lambda>_. []) demo_scope_account opp' ''delivery_feasibility'' key)) (fam_weights f), blocks, missing)"
      using pursuit_inputs_value[OF f(1)] by blast
    show thesis by (rule that[OF r]) (simp add: image_image case_prod_beta)
  qed
  then obtain v where v: "dget inputs ''capability_match'' = Some v" using f(2) by (metis map_of_eq_None_iff option.exhaust)
  show ?thesis
    using delivery_points_need_classification[OF o _ _ _ b r] d v c o i(1) by fastforce
qed

text \<open>
  C34. A missing fact is never a low-valued bin: every pursuit with an id, whatever it lacks of scope, facility,
  program and history, gets its eleven classifications, one for each factor in order, provided the due date and the
  volume it does name can be read. Each is a valid deterministic classification of that pursuit on its own factor
  path, and is either CURRENT with exactly one value, evidence and nothing missing, or MISSING with no value and no
  evidence and the missing fields named.
\<close>

theorem pursuit_classifications_sound:
  assumes "text_of (j_read opp ''opportunity_id'') \<noteq> []"
    "py_truth (j_read (scope_of opp) ''required_by_date'')
     \<Longrightarrow> Option.bind (j_text (j_read (scope_of opp) ''required_by_date'')) parse_date \<noteq> None"
    "py_truth (j_read (scope_of opp) ''expected_volume_next_12m'') \<Longrightarrow> py_truth (j_read (scope_of opp) ''expected_hours_per_unit'')
     \<Longrightarrow> both_numbers (scope_of opp) ''expected_volume_next_12m'' ''expected_hours_per_unit'' \<noteq> None"
  shows "\<exists>cs. map_r (\<lambda>m. m) (bin_classifiers s a opp day @ delivery_classifiers s opp day) = Inr cs
    \<and> map (\<lambda>c. (fc_family c, fc_factor_path c)) cs = map (Pair ''opportunity_priority'')
         [''btx_commercial_adjacency'', ''addressable_btx_work.cross_bu_applicability'',
          ''addressable_btx_work.btx_relevant_component_content'', ''program_durability.expected_production_horizon'',
          ''btx_manufacturing_fit.material_match'', ''btx_manufacturing_fit.process_tolerance_match'',
          ''btx_manufacturing_fit.certification_compliance_fit'', ''btx_manufacturing_fit.volume_compatibility'']
       @ map (Pair ''delivery_feasibility'') [''capability_match'', ''schedule_feasibility'', ''quality_certification'']
    \<and> (\<forall>c\<in>set cs. validate_classification c = Inr () \<and> fc_method c = ''DETERMINISTIC''
        \<and> fc_subject_id c = text_of (j_read opp ''opportunity_id'')
        \<and> (fc_state c = ''CURRENT'' \<and> (fc_bin_value c \<noteq> None) = (fc_raw_input c = None) \<and> fc_evidence_ids c \<noteq> []
            \<and> prov_missing_fields (fc_provenance c) = []
          \<or> fc_state c = ''MISSING'' \<and> fc_bin_value c = None \<and> fc_raw_input c = None \<and> fc_evidence_ids c = []
            \<and> prov_missing_fields (fc_provenance c) \<noteq> []))"
proof -
  have ok: "due_readable opp" "volume_readable opp" using assms(2,3) by (simp_all add: due_readable_def volume_readable_def)
  obtain cs where cs: "map_r (\<lambda>m. m) (bin_classifiers s a opp day @ delivery_classifiers s opp day) = Inr cs" "\<forall>c\<in>set cs. evidenced c"
    using pursuit_classifications_exist[OF assms(1) ok, of s a day] by blast
  have "list_all2 (of_factor (text_of (j_read opp ''opportunity_id'')))
      (map (Pair ''opportunity_priority'') BIN_PATHS @ map (Pair ''delivery_feasibility'') DELIVERY_PATHS)
      (bin_classifiers s a opp day @ delivery_classifiers s opp day)"
    by (intro list_all2_appendI bin_classifiers_factors delivery_classifiers_factors)
  from factors_of[OF this cs(1)] show ?thesis
    using cs unfolding evidenced_def BIN_PATHS_def DELIVERY_PATHS_def by blast
qed

definition demo_unscoped_pursuit :: json where
  "demo_unscoped_pursuit = J_obj [(''opportunity_id'', J_str ''opp1'')]"

theorem pursuit_classifications_sound_witness:
  "\<exists>cs. map_r (\<lambda>m. m) (bin_classifiers demo_context demo_history demo_unscoped_pursuit (Date 2026 1 31)
      @ delivery_classifiers demo_context demo_unscoped_pursuit (Date 2026 1 31)) = Inr cs
    \<and> (\<forall>c\<in>set cs. validate_classification c = Inr ())"
proof -
  have o: "text_of (j_read demo_unscoped_pursuit ''opportunity_id'') \<noteq> []" "\<not> py_truth (j_read (scope_of demo_unscoped_pursuit) ''required_by_date'')"
    "\<not> py_truth (j_read (scope_of demo_unscoped_pursuit) ''expected_volume_next_12m'')" by code_simp+
  show ?thesis
    using pursuit_classifications_sound[of demo_unscoped_pursuit demo_context demo_history "Date 2026 1 31"] o by blast
qed

end
