(* ===== verification/Retry.thy ===== *)
theory Retry
  imports Prelude
begin

text \<open>
  Two contracts of stores that are written through requests which a client may repeat. In \<open>request_log\<close>
  the store remembers every request it answered by its key and a fingerprint of its content. In
  \<open>versioned_rows\<close> each row remembers its last request only, and a writer names the version it read.
\<close>

section \<open>Tables\<close>

text \<open>A table is a list of rows with a primary key \<open>idf\<close> and another key by which it is read.\<close>

definition row_by :: "('r \<Rightarrow> 'k) \<Rightarrow> 'r list \<Rightarrow> 'k \<Rightarrow> 'r option" where
  "row_by key rows k = first_match (\<lambda>r. key r = k) rows"

definition replace_row :: "('r \<Rightarrow> 'i) \<Rightarrow> 'r \<Rightarrow> 'r list \<Rightarrow> 'r list" where
  "replace_row idf r' rows = map (\<lambda>x. if idf x = idf r' then r' else x) rows"

definition table_ok :: "('r \<Rightarrow> 'i) \<Rightarrow> ('r \<Rightarrow> 'k) \<Rightarrow> 'r list \<Rightarrow> bool" where
  "table_ok idf key rows = (distinct (map idf rows) \<and> distinct (map key rows))"

lemma row_by_some: "row_by key rows k = Some r \<Longrightarrow> r \<in> set rows \<and> key r = k"
  unfolding row_by_def by (auto dest: first_match_Some)

lemma row_by_none: "row_by key rows k = None \<longleftrightarrow> k \<notin> key ` set rows"
  by (auto simp: row_by_def)

lemma row_by_append:
  "row_by key (rows @ [n]) u = (case row_by key rows u of Some r \<Rightarrow> Some r | None \<Rightarrow> if key n = u then Some n else None)"
  by (simp add: row_by_def first_match_append del: first_match_None split: option.split)

lemma table_ok_append:
  "table_ok idf key rows \<Longrightarrow> idf n \<notin> idf ` set rows \<Longrightarrow> row_by key rows (key n) = None \<Longrightarrow> table_ok idf key (rows @ [n])"
  by (auto simp: table_ok_def row_by_none)

lemma replace_keys:
  assumes "table_ok idf key rows" "row_by key rows k = Some r" "idf r' = idf r" "key r' = key r" "x \<in> set rows"
  shows "key (if idf x = idf r' then r' else x) = key x"
proof -
  have "inj_on idf (set rows)" using assms(1) by (simp add: table_ok_def distinct_map)
  moreover have "r \<in> set rows" using row_by_some[OF assms(2)] by simp
  ultimately show ?thesis using assms(3-5) by (metis inj_onD)
qed

lemma table_ok_replace:
  assumes "table_ok idf key rows" "row_by key rows k = Some r" "idf r' = idf r" "key r' = key r"
  shows "table_ok idf key (replace_row idf r' rows)"
proof -
  have "map key (replace_row idf r' rows) = map key rows" using replace_keys[OF assms] by (simp add: replace_row_def)
  moreover have "map idf (replace_row idf r' rows) = map idf rows" by (simp add: replace_row_def)
  ultimately show ?thesis using assms(1) by (simp add: table_ok_def)
qed

lemma row_by_unique: "distinct (map key rows) \<Longrightarrow> r \<in> set rows \<Longrightarrow> row_by key rows (key r) = Some r"
  unfolding row_by_def by (induction rows) (auto simp: image_iff)

lemma row_by_eq_iff: "distinct (map key rows) \<Longrightarrow> row_by key rows k = Some r \<longleftrightarrow> r \<in> set rows \<and> key r = k"
  using row_by_some row_by_unique by metis

lemma row_by_replace:
  assumes "table_ok idf key rows" "row_by key rows k = Some r" "idf r' = idf r" "key r' = key r"
  shows "row_by key (replace_row idf r' rows) u = (if u = k then Some r' else row_by key rows u)"
proof -
  have r: "r \<in> set rows" "key r = k" using row_by_some[OF assms(2)] by auto
  have d: "distinct (map key (replace_row idf r' rows))" using table_ok_replace[OF assms] by (simp add: table_ok_def)
  show ?thesis
  proof (cases "u = k")
    case True
    have "r' \<in> set (replace_row idf r' rows)" using r(1) assms(3) by (force simp: replace_row_def)
    then show ?thesis using row_by_unique[OF d, of r'] True r(2) assms(4) by simp
  next
    case False
    have "row_by key (replace_row idf r' rows) u = row_by key rows u"
    proof (cases "row_by key rows u")
      case None
      have "key ` set (replace_row idf r' rows) = key ` set rows"
        unfolding replace_row_def set_map image_image by (rule image_cong) (use replace_keys[OF assms] in simp_all)
      then have "row_by key (replace_row idf r' rows) u = None" using None by (simp add: row_by_none)
      then show ?thesis using None by simp
    next
      case (Some q)
      have q: "q \<in> set rows" "key q = u" using Some row_by_some[of key rows u q] by auto
      then have "idf q \<noteq> idf r'" using replace_keys[OF assms q(1)] False r(2) assms(4) by auto
      then have "q \<in> set (replace_row idf r' rows)" using q(1) by (force simp: replace_row_def)
      then show ?thesis using row_by_unique[OF d] Some q(2) by auto
    qed
    then show ?thesis using False by simp
  qed
qed

section \<open>A log of answered requests\<close>

locale request_log =
  fixes submit :: "'q \<Rightarrow> 's \<Rightarrow> ('e, 'r \<times> 's) result"
    and valid :: "'q \<Rightarrow> bool"
    and key_of :: "'q \<Rightarrow> 'k"
    and print_of :: "'q \<Rightarrow> 'p"
    and answered :: "'s \<Rightarrow> 'k \<Rightarrow> ('p \<times> 'r) option"
    and step :: "'op \<Rightarrow> 's \<Rightarrow> 's"
  assumes answers: "submit q st = Inr (r, st') \<Longrightarrow> answered st' (key_of q) = Some (print_of q, r)"
    and replays: "valid q \<Longrightarrow> answered st (key_of q) = Some (print_of q, r) \<Longrightarrow> submit q st = Inr (r, st)"
    and refuses: "answered st (key_of q) = Some (p, r) \<Longrightarrow> p \<noteq> print_of q \<Longrightarrow> \<exists>e. submit q st = Inl e"
    and keeps: "answered st k = Some x \<Longrightarrow> answered (step op st) k = Some x"
begin

lemma kept_by_run: "answered st k = Some x \<Longrightarrow> answered (foldl (\<lambda>st op. step op st) st ops) k = Some x"
  by (induction ops arbitrary: st) (simp_all add: keeps)

lemma retry_returns_first_answer:
  assumes "submit q st = Inr (r, st')" "valid q'" "key_of q' = key_of q" "print_of q' = print_of q"
  shows "submit q' (foldl (\<lambda>st op. step op st) st' ops) = Inr (r, foldl (\<lambda>st op. step op st) st' ops)"
proof -
  have "answered st' (key_of q') = Some (print_of q', r)" using answers[OF assms(1)] assms(3,4) by simp
  from kept_by_run[OF this] show ?thesis by (rule replays[OF assms(2)])
qed

lemma reused_key_is_refused:
  assumes "submit q st = Inr (r, st')" "key_of q' = key_of q" "print_of q' \<noteq> print_of q"
  shows "\<exists>e. submit q' (foldl (\<lambda>st op. step op st) st' ops) = Inl e"
proof -
  have "answered st' (key_of q') = Some (print_of q, r)" using answers[OF assms(1)] assms(2) by simp
  from kept_by_run[OF this] show ?thesis by (rule refuses) (use assms(3) in simp)
qed

end

section \<open>Rows with versions\<close>

locale versioned_rows =
  fixes save :: "'q \<Rightarrow> 's \<Rightarrow> ('e, 'row \<times> 's) result"
    and find :: "'s \<Rightarrow> 'k \<Rightarrow> 'row option"
    and inv :: "'s \<Rightarrow> bool"
    and key_of :: "'q \<Rightarrow> 'k"
    and token_of :: "'q \<Rightarrow> string"
    and print_of :: "'q \<Rightarrow> string"
    and expects :: "'q \<Rightarrow> int option"
    and row_token :: "'row \<Rightarrow> string"
    and row_print :: "'row \<Rightarrow> string"
    and row_version :: "'row \<Rightarrow> int"
  assumes saved: "inv st \<Longrightarrow> save q st = Inr (r, st') \<Longrightarrow> inv st' \<and> find st' (key_of q) = Some r
      \<and> row_token r = token_of q \<and> row_print r = print_of q \<and> (\<forall>k. k \<noteq> key_of q \<longrightarrow> find st' k = find st k)"
    and advances: "inv st \<Longrightarrow> save q st = Inr (r, st') \<Longrightarrow> st' = st \<and> find st (key_of q) = Some r
      \<or> expects q = map_option row_version (find st (key_of q)) \<and> row_version r = default_to (expects q) 0 + 1"
    and replays: "inv st \<Longrightarrow> find st (key_of q) = Some r \<Longrightarrow> row_token r = token_of q \<Longrightarrow> row_print r = print_of q
      \<Longrightarrow> save q st = Inr (r, st)"
    and stale: "find st (key_of q) = Some r \<Longrightarrow> row_token r \<noteq> token_of q \<Longrightarrow> expects q \<noteq> Some (row_version r)
      \<Longrightarrow> \<exists>e. save q st = Inl e"
begin

definition after_save :: "'q \<Rightarrow> 's \<Rightarrow> 's" where
  "after_save q st = (case save q st of Inl e \<Rightarrow> st | Inr (r, st') \<Rightarrow> st')"

lemma inv_after: "inv st \<Longrightarrow> inv (after_save q st)"
  using saved by (auto simp: after_save_def split: sum.splits)

lemma other_row: "inv st \<Longrightarrow> key_of q \<noteq> k \<Longrightarrow> find (after_save q st) k = find st k"
  using saved by (auto simp: after_save_def split: sum.splits)

lemma retry_of_last_request:
  assumes "inv st" "save q st = Inr (r, st')" "\<forall>p\<in>set others. key_of p \<noteq> key_of q"
    and "key_of q' = key_of q" "token_of q' = token_of q" "print_of q' = print_of q"
  shows "save q' (foldl (\<lambda>st q. after_save q st) st' others) = Inr (r, foldl (\<lambda>st q. after_save q st) st' others)"
proof -
  have f: "inv st'" "find st' (key_of q) = Some r" "row_token r = token_of q" "row_print r = print_of q"
    using saved[OF assms(1,2)] by auto
  have "inv (foldl (\<lambda>st q. after_save q st) st' others) \<and> find (foldl (\<lambda>st q. after_save q st) st' others) (key_of q) = Some r"
    using assms(3) f(1,2) by (induction others arbitrary: st') (simp_all add: inv_after other_row)
  then show ?thesis using f(3,4) assms(4-6) by (intro replays) auto
qed

lemma no_lost_update:
  \<comment> \<open>of two writers that read the same version only one can write\<close>
  assumes "inv st" "save q st = Inr (r, st')" "st' \<noteq> st" "key_of q' = key_of q" "token_of q' \<noteq> token_of q"
    "expects q' = expects q"
  shows "\<exists>e. save q' st' = Inl e"
proof -
  have f: "find st' (key_of q') = Some r" "row_token r = token_of q" using saved[OF assms(1,2)] assms(4) by auto
  have "row_version r = default_to (expects q) 0 + 1" using advances[OF assms(1,2)] assms(3) by blast
  then have "expects q' \<noteq> Some (row_version r)" using assms(6) by (cases "expects q") auto
  then show ?thesis using stale[OF f(1)] f(2) assms(5) by simp
qed

end

end
