(* ===== verification/SellerPlans.thy ===== *)
theory SellerPlans
  imports Retry ResearchJournal
begin

text \<open>
  \<^verbatim>\<open>persistence/itineraries.py\<close> and \<^verbatim>\<open>persistence/account_planning.py\<close>: a seller's
  itinerary and shortlist, and the shared partnership designations with their audit. Each table is a list of rows; a
  transaction gives an error and rolls back, or a value and the new tables. A violated key of a table is the
  error \<open>PlanIntegrity\<close>. \<open>c\<close> is the codec of JSON text and digests.
\<close>

datatype plan_error = PlanConflict string | PlanIntegrity | PlanDecode

section \<open>Itineraries\<close>

record itinerary_row =
  ir_id :: string
  ir_user_id :: string
  ir_title :: string
  ir_payload :: string
  ir_payload_hash :: string
  ir_idempotency_key :: string
  ir_version :: int
  ir_created_at :: datetime
  ir_updated_at :: datetime

record itinerary_view =
  iw_fields :: "(string, json) dict"  \<comment> \<open>id and title, and the keys of the payload over them\<close>
  iw_version :: int
  iw_created_at :: datetime
  iw_updated_at :: datetime

record itinerary_args =
  ia_user_id :: string
  ia_title :: string
  ia_payload :: json
  ia_idempotency_key :: string
  ia_expected_version :: "int option"
  ia_now :: datetime

definition itinerary_result :: "codec \<Rightarrow> itinerary_row \<Rightarrow> itinerary_view option" where
  \<comment> \<open>\<open>_result\<close>; \<open>None\<close> where the stored text is not an object\<close>
  "itinerary_result c row = (case co_parse c (ir_payload row) of
     Some (J_obj kvs) \<Rightarrow> Some \<lparr>iw_fields = foldl (\<lambda>d kv. dset (fst kv) (snd kv) d) [(''id'', J_str (ir_id row)), (''title'', J_str (ir_title row))] kvs,
       iw_version = ir_version row, iw_created_at = to_utc (ir_created_at row), iw_updated_at = to_utc (ir_updated_at row)\<rparr>
   | _ \<Rightarrow> None)"

definition find_itinerary :: "itinerary_row list \<Rightarrow> string \<Rightarrow> itinerary_row option" where
  "find_itinerary rows user = row_by ir_user_id rows user"

definition itinerary_get :: "codec \<Rightarrow> itinerary_row list \<Rightarrow> string \<Rightarrow> itinerary_view option" where
  "itinerary_get c rows user = Option.bind (find_itinerary rows user) (itinerary_result c)"

definition itinerary_fingerprint :: "codec \<Rightarrow> itinerary_args \<Rightarrow> string" where
  "itinerary_fingerprint c a = co_sha c (co_dump c (J_arr [J_str (ia_title a), J_str (co_dump c (ia_payload a))]))"

definition itinerary_identifier :: "codec \<Rightarrow> string \<Rightarrow> string" where
  "itinerary_identifier c user = ''itinerary-'' @ take 20 (co_sha c user)"

definition itinerary_new :: "codec \<Rightarrow> itinerary_args \<Rightarrow> itinerary_row" where
  "itinerary_new c a = \<lparr>ir_id = itinerary_identifier c (ia_user_id a), ir_user_id = ia_user_id a, ir_title = ia_title a,
     ir_payload = co_dump c (ia_payload a), ir_payload_hash = itinerary_fingerprint c a,
     ir_idempotency_key = ia_idempotency_key a, ir_version = 1, ir_created_at = ia_now a, ir_updated_at = ia_now a\<rparr>"

definition itinerary_changed :: "codec \<Rightarrow> itinerary_args \<Rightarrow> itinerary_row \<Rightarrow> itinerary_row" where
  "itinerary_changed c a row = row\<lparr>ir_title := ia_title a, ir_payload := co_dump c (ia_payload a),
     ir_payload_hash := itinerary_fingerprint c a, ir_idempotency_key := ia_idempotency_key a,
     ir_version := ir_version row + 1, ir_updated_at := ia_now a\<rparr>"

definition itinerary_save ::
  "codec \<Rightarrow> itinerary_args \<Rightarrow> itinerary_row list \<Rightarrow> (plan_error, itinerary_row \<times> itinerary_row list) result" where
  \<comment> \<open>the saved row, which the code returns as \<open>_result\<close>\<close>
  "itinerary_save c a rows =
     (case find_itinerary rows (ia_user_id a) of
        Some row \<Rightarrow>
          (if ir_idempotency_key row = ia_idempotency_key a
           then (if ir_payload_hash row \<noteq> itinerary_fingerprint c a
                 then Inl (PlanConflict ''Idempotency key was already used for different itinerary content.'')
                 else Inr (row, rows))
           else if ia_expected_version a \<noteq> Some (ir_version row)
           then Inl (PlanConflict ''Itinerary changed; reload it before saving.'')
           else Inr (itinerary_changed c a row, replace_row ir_id (itinerary_changed c a row) rows))
      | None \<Rightarrow>
          (if ia_expected_version a \<noteq> None then Inl (PlanConflict ''Itinerary does not exist; reload before saving.'')
           else if itinerary_identifier c (ia_user_id a) \<in> ir_id ` set rows then Inl PlanIntegrity
           else Inr (itinerary_new c a, rows @ [itinerary_new c a])))"

definition itineraries_ok :: "itinerary_row list \<Rightarrow> bool" where
  "itineraries_ok rows = table_ok ir_id ir_user_id rows"

lemma itinerary_new_fields [simp]: "ir_id (itinerary_new c a) = itinerary_identifier c (ia_user_id a)"
  "ir_user_id (itinerary_new c a) = ia_user_id a" "ir_idempotency_key (itinerary_new c a) = ia_idempotency_key a"
  "ir_payload_hash (itinerary_new c a) = itinerary_fingerprint c a"
  by (simp_all add: itinerary_new_def)

lemma itinerary_changed_fields [simp]: "ir_id (itinerary_changed c a r) = ir_id r" "ir_user_id (itinerary_changed c a r) = ir_user_id r"
  "ir_idempotency_key (itinerary_changed c a r) = ia_idempotency_key a" "ir_payload_hash (itinerary_changed c a r) = itinerary_fingerprint c a"
  by (simp_all add: itinerary_changed_def)

lemma itinerary_saved:
  assumes "itineraries_ok rows" "itinerary_save c a rows = Inr (r, rows')"
  shows "itineraries_ok rows' \<and> find_itinerary rows' (ia_user_id a) = Some r \<and> ir_idempotency_key r = ia_idempotency_key a
    \<and> ir_payload_hash r = itinerary_fingerprint c a \<and> (\<forall>u. u \<noteq> ia_user_id a \<longrightarrow> find_itinerary rows' u = find_itinerary rows u)"
  using assms table_ok_append[of ir_id ir_user_id rows "itinerary_new c a"]
    table_ok_replace[of ir_id ir_user_id rows "ia_user_id a" "the (find_itinerary rows (ia_user_id a))" r]
    row_by_replace[of ir_id ir_user_id rows "ia_user_id a" "the (find_itinerary rows (ia_user_id a))" r]
  by (auto simp: itinerary_save_def find_itinerary_def itineraries_ok_def row_by_append split: option.splits if_splits)

interpretation itin: versioned_rows "itinerary_save c" find_itinerary itineraries_ok ia_user_id ia_idempotency_key
    "itinerary_fingerprint c" ia_expected_version ir_idempotency_key ir_payload_hash ir_version for c
proof
  show "itineraries_ok st \<Longrightarrow> itinerary_save c q st = Inr (r, st') \<Longrightarrow> itineraries_ok st' \<and> find_itinerary st' (ia_user_id q) = Some r
      \<and> ir_idempotency_key r = ia_idempotency_key q \<and> ir_payload_hash r = itinerary_fingerprint c q
      \<and> (\<forall>k. k \<noteq> ia_user_id q \<longrightarrow> find_itinerary st' k = find_itinerary st k)" for st q r st'
    by (rule itinerary_saved)
  show "itineraries_ok st \<Longrightarrow> itinerary_save c q st = Inr (r, st') \<Longrightarrow> st' = st \<and> find_itinerary st (ia_user_id q) = Some r
      \<or> ia_expected_version q = map_option ir_version (find_itinerary st (ia_user_id q))
        \<and> ir_version r = default_to (ia_expected_version q) 0 + 1" for st q r st'
    by (auto simp: itinerary_save_def itinerary_new_def itinerary_changed_def split: option.splits if_splits)
  show "itineraries_ok st \<Longrightarrow> find_itinerary st (ia_user_id q) = Some r \<Longrightarrow> ir_idempotency_key r = ia_idempotency_key q
      \<Longrightarrow> ir_payload_hash r = itinerary_fingerprint c q \<Longrightarrow> itinerary_save c q st = Inr (r, st)" for st q r
    by (simp add: itinerary_save_def)
  show "find_itinerary st (ia_user_id q) = Some r \<Longrightarrow> ir_idempotency_key r \<noteq> ia_idempotency_key q
      \<Longrightarrow> ia_expected_version q \<noteq> Some (ir_version r) \<Longrightarrow> \<exists>e. itinerary_save c q st = Inl e" for st q r
    by (simp add: itinerary_save_def)
qed

section \<open>Partnerships and the shortlist\<close>

record designation =
  dg_account_id :: string
  dg_designated :: bool
  dg_reason :: string
  dg_version :: int
  dg_updated_by :: string
  dg_updated_at :: datetime
  dg_idempotency_key :: string
  dg_payload_hash :: string

record designation_audit =
  da_id :: string
  da_account_id :: string
  da_designated :: bool
  da_reason :: string
  da_version :: int
  da_actor_id :: string
  da_occurred_at :: datetime
  da_idempotency_key :: string
  da_payload_hash :: string

record shortlist_row =
  sl_id :: string
  sl_user_id :: string
  sl_account_id :: string
  sl_kind :: string
  sl_objective :: string
  sl_target_date :: "string option"
  sl_active :: bool
  sl_version :: int
  sl_idempotency_key :: string
  sl_payload_hash :: string
  sl_created_at :: datetime
  sl_updated_at :: datetime

record planning =
  pl_designations :: "designation list"
  pl_audit :: "designation_audit list"
  pl_shortlist :: "shortlist_row list"

record designation_view =
  dv_account_id :: string
  dv_designated :: bool
  dv_reason :: string
  dv_version :: int
  dv_updated_by :: string
  dv_updated_at :: datetime

record planning_view =
  pv_strategic_partnerships :: "designation list"
  pv_shortlist :: "shortlist_row list"
  pv_partnership_records :: "designation list"
  pv_shortlist_records :: "shortlist_row list"

definition planning_view_of :: "string \<Rightarrow> planning \<Rightarrow> planning_view" where
  \<comment> \<open>\<open>view\<close>: the active rows and all rows, each table in the order of its query\<close>
  "planning_view_of user st =
     (let designations = sort_key dg_account_id (pl_designations st);
          shortlist = sort_key (\<lambda>r. (sl_target_date r = None, default_to (sl_target_date r) [], sl_account_id r))
            (filter (\<lambda>r. sl_user_id r = user) (pl_shortlist st))
      in \<lparr>pv_strategic_partnerships = filter dg_designated designations, pv_shortlist = filter sl_active shortlist,
          pv_partnership_records = designations, pv_shortlist_records = shortlist\<rparr>)"

record designate_args =
  de_account_id :: string
  de_designated :: bool
  de_reason :: string
  de_actor_id :: string
  de_expected_version :: "int option"
  de_idempotency_key :: string
  de_now :: datetime

definition designation_fingerprint :: "codec \<Rightarrow> designate_args \<Rightarrow> string" where
  "designation_fingerprint c a = co_sha c (co_dump c (J_arr [J_str (de_account_id a), J_bool (de_designated a), J_str (de_reason a)]))"

definition audit_answer :: "designation_audit \<Rightarrow> designation_view" where
  "audit_answer r = \<lparr>dv_account_id = da_account_id r, dv_designated = da_designated r, dv_reason = da_reason r,
     dv_version = da_version r, dv_updated_by = da_actor_id r, dv_updated_at = da_occurred_at r\<rparr>"

definition next_designation :: "codec \<Rightarrow> designate_args \<Rightarrow> designation option \<Rightarrow> designation" where
  "next_designation c a current = \<lparr>dg_account_id = de_account_id a, dg_designated = de_designated a, dg_reason = de_reason a,
     dg_version = (case current of None \<Rightarrow> 1 | Some d \<Rightarrow> dg_version d + 1), dg_updated_by = de_actor_id a,
     dg_updated_at = de_now a, dg_idempotency_key = de_idempotency_key a, dg_payload_hash = designation_fingerprint c a\<rparr>"

definition audit_of :: "codec \<Rightarrow> designate_args \<Rightarrow> designation \<Rightarrow> designation_audit" where
  "audit_of c a d = \<lparr>da_id = ''partnership-audit-'' @ take 24 (co_sha c (de_idempotency_key a)), da_account_id = dg_account_id d,
     da_designated = dg_designated d, da_reason = dg_reason d, da_version = dg_version d, da_actor_id = de_actor_id a,
     da_occurred_at = de_now a, da_idempotency_key = de_idempotency_key a, da_payload_hash = dg_payload_hash d\<rparr>"

definition designate :: "codec \<Rightarrow> designate_args \<Rightarrow> planning \<Rightarrow> (plan_error, designation_view \<times> planning) result" where
  "designate c a st =
     (case row_by da_idempotency_key (pl_audit st) (de_idempotency_key a) of
        Some replay \<Rightarrow>
          (if da_payload_hash replay \<noteq> designation_fingerprint c a
           then Inl (PlanConflict ''Idempotency key was already used for another designation.'')
           else Inr (audit_answer replay, st))
      | None \<Rightarrow>
          (let current = row_by dg_account_id (pl_designations st) (de_account_id a);
               new = next_designation c a current; entry = audit_of c a new
           in if de_expected_version a \<noteq> map_option dg_version current
              then Inl (PlanConflict ''Partnership designation changed; reload before saving.'')
              else if da_id entry \<in> da_id ` set (pl_audit st) then Inl PlanIntegrity
              else Inr (audit_answer entry, st\<lparr>pl_designations := (if current = None then pl_designations st @ [new]
                       else replace_row dg_account_id new (pl_designations st)), pl_audit := pl_audit st @ [entry]\<rparr>)))"

record shortlist_args =
  sh_user_id :: string
  sh_account_id :: string
  sh_kind :: string
  sh_objective :: string
  sh_target_date :: "string option"
  sh_active :: bool
  sh_expected_version :: "int option"
  sh_idempotency_key :: string
  sh_now :: datetime

definition shortlist_fingerprint :: "codec \<Rightarrow> shortlist_args \<Rightarrow> string" where
  "shortlist_fingerprint c a = co_sha c (co_dump c (J_arr [J_str (sh_account_id a), J_str (sh_kind a), J_str (sh_objective a),
     j_opt J_str (sh_target_date a), J_bool (sh_active a)]))"

definition shortlist_identifier :: "codec \<Rightarrow> string \<Rightarrow> string \<Rightarrow> string" where
  "shortlist_identifier c user account = ''shortlist-'' @ take 24 (co_sha c (user @ '':'' @ account))"

definition shortlist_key :: "shortlist_row \<Rightarrow> string \<times> string" where
  "shortlist_key r = (sl_user_id r, sl_account_id r)"

definition shortlist_new :: "codec \<Rightarrow> shortlist_args \<Rightarrow> shortlist_row" where
  "shortlist_new c a = \<lparr>sl_id = shortlist_identifier c (sh_user_id a) (sh_account_id a), sl_user_id = sh_user_id a,
     sl_account_id = sh_account_id a, sl_kind = sh_kind a, sl_objective = sh_objective a, sl_target_date = sh_target_date a,
     sl_active = sh_active a, sl_version = 1, sl_idempotency_key = sh_idempotency_key a,
     sl_payload_hash = shortlist_fingerprint c a, sl_created_at = sh_now a, sl_updated_at = sh_now a\<rparr>"

definition shortlist_changed :: "codec \<Rightarrow> shortlist_args \<Rightarrow> shortlist_row \<Rightarrow> shortlist_row" where
  "shortlist_changed c a r = r\<lparr>sl_kind := sh_kind a, sl_objective := sh_objective a, sl_target_date := sh_target_date a,
     sl_active := sh_active a, sl_version := sl_version r + 1, sl_idempotency_key := sh_idempotency_key a,
     sl_payload_hash := shortlist_fingerprint c a, sl_updated_at := sh_now a\<rparr>"

definition save_shortlist :: "codec \<Rightarrow> shortlist_args \<Rightarrow> planning \<Rightarrow> (plan_error, shortlist_row \<times> planning) result" where
  "save_shortlist c a st =
     (case row_by shortlist_key (pl_shortlist st) (sh_user_id a, sh_account_id a) of
        Some row \<Rightarrow>
          (if sl_idempotency_key row = sh_idempotency_key a
           then (if sl_payload_hash row \<noteq> shortlist_fingerprint c a
                 then Inl (PlanConflict ''Idempotency key was already used for another shortlist change.'')
                 else Inr (row, st))
           else if sh_expected_version a \<noteq> Some (sl_version row)
           then Inl (PlanConflict ''Shortlist item changed; reload before saving.'')
           else Inr (shortlist_changed c a row, st\<lparr>pl_shortlist := replace_row sl_id (shortlist_changed c a row) (pl_shortlist st)\<rparr>))
      | None \<Rightarrow>
          (if sh_expected_version a \<noteq> None then Inl (PlanConflict ''Shortlist item changed; reload before saving.'')
           else if sl_id (shortlist_new c a) \<in> sl_id ` set (pl_shortlist st) then Inl PlanIntegrity
           else Inr (shortlist_new c a, st\<lparr>pl_shortlist := pl_shortlist st @ [shortlist_new c a]\<rparr>)))"

lemma shortlist_new_fields [simp]: "shortlist_key (shortlist_new c a) = (sh_user_id a, sh_account_id a)"
  "sl_idempotency_key (shortlist_new c a) = sh_idempotency_key a" "sl_payload_hash (shortlist_new c a) = shortlist_fingerprint c a"
  by (simp_all add: shortlist_new_def shortlist_key_def)

lemma shortlist_changed_fields [simp]: "sl_id (shortlist_changed c a r) = sl_id r" "shortlist_key (shortlist_changed c a r) = shortlist_key r"
  "sl_idempotency_key (shortlist_changed c a r) = sh_idempotency_key a" "sl_payload_hash (shortlist_changed c a r) = shortlist_fingerprint c a"
  by (simp_all add: shortlist_changed_def shortlist_key_def)

definition planning_ok :: "planning \<Rightarrow> bool" where
  "planning_ok st = table_ok sl_id shortlist_key (pl_shortlist st)"

lemma shortlist_saved:
  assumes "planning_ok st" "save_shortlist c a st = Inr (r, st')"
  shows "planning_ok st' \<and> row_by shortlist_key (pl_shortlist st') (sh_user_id a, sh_account_id a) = Some r
    \<and> sl_idempotency_key r = sh_idempotency_key a \<and> sl_payload_hash r = shortlist_fingerprint c a
    \<and> (\<forall>k. k \<noteq> (sh_user_id a, sh_account_id a) \<longrightarrow> row_by shortlist_key (pl_shortlist st') k = row_by shortlist_key (pl_shortlist st) k)"
  using assms table_ok_append[of sl_id shortlist_key "pl_shortlist st" "shortlist_new c a"]
    table_ok_replace[of sl_id shortlist_key "pl_shortlist st" "(sh_user_id a, sh_account_id a)"
      "the (row_by shortlist_key (pl_shortlist st) (sh_user_id a, sh_account_id a))" r]
    row_by_replace[of sl_id shortlist_key "pl_shortlist st" "(sh_user_id a, sh_account_id a)"
      "the (row_by shortlist_key (pl_shortlist st) (sh_user_id a, sh_account_id a))" r]
  by (auto simp: save_shortlist_def planning_ok_def row_by_append split: option.splits if_splits)

interpretation shortlist: versioned_rows "save_shortlist c" "\<lambda>st. row_by shortlist_key (pl_shortlist st)" planning_ok
    "\<lambda>a. (sh_user_id a, sh_account_id a)" sh_idempotency_key "shortlist_fingerprint c" sh_expected_version
    sl_idempotency_key sl_payload_hash sl_version for c
proof
  show "planning_ok st \<Longrightarrow> save_shortlist c q st = Inr (r, st') \<Longrightarrow> planning_ok st'
      \<and> row_by shortlist_key (pl_shortlist st') (sh_user_id q, sh_account_id q) = Some r
      \<and> sl_idempotency_key r = sh_idempotency_key q \<and> sl_payload_hash r = shortlist_fingerprint c q
      \<and> (\<forall>k. k \<noteq> (sh_user_id q, sh_account_id q) \<longrightarrow> row_by shortlist_key (pl_shortlist st') k = row_by shortlist_key (pl_shortlist st) k)"
    for st q r st'
    by (rule shortlist_saved)
  show "planning_ok st \<Longrightarrow> save_shortlist c q st = Inr (r, st')
      \<Longrightarrow> st' = st \<and> row_by shortlist_key (pl_shortlist st) (sh_user_id q, sh_account_id q) = Some r
      \<or> sh_expected_version q = map_option sl_version (row_by shortlist_key (pl_shortlist st) (sh_user_id q, sh_account_id q))
        \<and> sl_version r = default_to (sh_expected_version q) 0 + 1" for st q r st'
    by (auto simp: save_shortlist_def shortlist_new_def shortlist_changed_def split: option.splits if_splits)
qed (simp_all add: save_shortlist_def)

datatype planning_op = Pl_designate designate_args | Pl_shortlist shortlist_args

fun planning_step :: "codec \<Rightarrow> planning_op \<Rightarrow> planning \<Rightarrow> planning" where
  "planning_step c (Pl_designate a) st = (case designate c a st of Inl _ \<Rightarrow> st | Inr (_, st') \<Rightarrow> st')"
| "planning_step c (Pl_shortlist a) st = (case save_shortlist c a st of Inl _ \<Rightarrow> st | Inr (_, st') \<Rightarrow> st')"

definition designation_answer :: "planning \<Rightarrow> string \<Rightarrow> (string \<times> designation_view) option" where
  "designation_answer st key = map_option (\<lambda>r. (da_payload_hash r, audit_answer r)) (row_by da_idempotency_key (pl_audit st) key)"

lemma audit_grows: "pl_audit (planning_step c op st) = pl_audit st \<or>
    (\<exists>e. pl_audit (planning_step c op st) = pl_audit st @ [e])"
  by (cases op) (auto simp: designate_def save_shortlist_def Let_def split: sum.splits option.splits if_splits)

interpretation designations: request_log "designate c" "\<lambda>a. True" de_idempotency_key "designation_fingerprint c"
    designation_answer "planning_step c" for c
proof
  show "designate c q st = Inr (r, st') \<Longrightarrow> designation_answer st' (de_idempotency_key q) = Some (designation_fingerprint c q, r)" for q st r st'
    by (auto simp: designate_def designation_answer_def row_by_append audit_of_def next_designation_def audit_answer_def Let_def
        split: option.splits if_splits)
  show "designation_answer st (de_idempotency_key q) = Some (designation_fingerprint c q, r) \<Longrightarrow> designate c q st = Inr (r, st)" for q st r
    by (auto simp: designate_def designation_answer_def)
  show "designation_answer st (de_idempotency_key q) = Some (p, r) \<Longrightarrow> p \<noteq> designation_fingerprint c q \<Longrightarrow> \<exists>e. designate c q st = Inl e" for q st p r
    by (auto simp: designate_def designation_answer_def)
  show "designation_answer st k = Some x \<Longrightarrow> designation_answer (planning_step c op st) k = Some x" for st k x op
    using audit_grows[of c op st] by (auto simp: designation_answer_def row_by_append)
qed

section \<open>Properties\<close>

lemma planning_ok_step: "planning_ok st \<Longrightarrow> planning_ok (planning_step c op st)"
proof (cases op)
  case (Pl_designate a)
  assume "planning_ok st"
  then show ?thesis unfolding Pl_designate
    by (auto simp: designate_def planning_ok_def Let_def split: sum.splits option.splits)
next
  case (Pl_shortlist a)
  assume "planning_ok st"
  then show ?thesis using shortlist_saved unfolding Pl_shortlist by (auto split: sum.splits)
qed

definition planning_run :: "codec \<Rightarrow> planning_op list \<Rightarrow> planning \<Rightarrow> planning" where
  "planning_run c ops st = foldl (\<lambda>st op. planning_step c op st) st ops"

definition empty_planning :: planning where
  "empty_planning = \<lparr>pl_designations = [], pl_audit = [], pl_shortlist = []\<rparr>"

lemma planning_ok_run: "planning_ok st \<Longrightarrow> planning_ok (planning_run c ops st)"
  by (induction ops arbitrary: st) (simp_all add: planning_run_def planning_ok_step)

text \<open>
  C33. A designation request is answered once: its retry at any later time, whatever designations and shortlist
  changes came between, returns the first answer and changes nothing; a request that reuses its key for
  different content is refused.
\<close>

theorem designation_retry_returns_first_answer:
  assumes "designate c a st = Inr (answer, st')" "de_idempotency_key b = de_idempotency_key a"
  shows "if designation_fingerprint c b = designation_fingerprint c a
    then designate c b (planning_run c ops st') = Inr (answer, planning_run c ops st')
    else \<exists>e. designate c b (planning_run c ops st') = Inl e"
  using designations.retry_returns_first_answer[OF assms(1), of b] designations.reused_key_is_refused[OF assms(1,2)] assms(2)
  by (simp add: planning_run_def)

definition demo_codec :: codec where
  "demo_codec = \<lparr>co_dump = (\<lambda>_. ''{}''), co_parse = (\<lambda>_. Some (J_obj [])), co_sha = (\<lambda>s. s)\<rparr>"

definition demo_designation :: designate_args where
  "demo_designation = \<lparr>de_account_id = ''acct'', de_designated = True, de_reason = ''growth'', de_actor_id = ''mgr'',
     de_expected_version = None, de_idempotency_key = ''key-0001'', de_now = at_midnight_utc (Date 2026 1 31)\<rparr>"

theorem designation_retry_returns_first_answer_witness:
  "let withdrawn = demo_designation\<lparr>de_designated := False, de_expected_version := Some 1, de_idempotency_key := ''key-0002''\<rparr>;
       st' = planning_run demo_codec [Pl_designate demo_designation, Pl_designate withdrawn] empty_planning
   in map dg_version (pl_designations st') = [2] \<and> (\<exists>v. designate demo_codec demo_designation st' = Inr (v, st') \<and> dv_version v = 1)"
proof -
  let ?withdrawn = "demo_designation\<lparr>de_designated := False, de_expected_version := Some 1, de_idempotency_key := ''key-0002''\<rparr>"
  let ?st = "planning_run demo_codec [Pl_designate demo_designation, Pl_designate ?withdrawn] empty_planning"
  have "map_sum (\<lambda>_. ()) (\<lambda>(v, _). dv_version v) (designate demo_codec demo_designation empty_planning) = Inr 1" by code_simp
  then obtain v st1 where d: "designate demo_codec demo_designation empty_planning = Inr (v, st1)" "dv_version v = 1"
    by (cases "designate demo_codec demo_designation empty_planning") auto
  have "?st = planning_run demo_codec [Pl_designate ?withdrawn] st1" using d(1) by (simp add: planning_run_def)
  then have "designate demo_codec demo_designation ?st = Inr (v, ?st)"
    using designation_retry_returns_first_answer[OF d(1), of demo_designation "[Pl_designate ?withdrawn]"] by simp
  moreover have "map dg_version (pl_designations ?st) = [2]" by code_simp
  ultimately show ?thesis using d(2) by (auto simp: Let_def)
qed

text \<open>
  No shortlist change is lost: of two requests that read the same version of a seller's item only one is
  written, the other is told to reload, and the written one answers its own retry with the same item.
\<close>

theorem shortlist_changes_are_not_lost:
  assumes "st = planning_run c ops empty_planning" "save_shortlist c a st = Inr (r, st')" "st' \<noteq> st"
    "sh_user_id b = sh_user_id a" "sh_account_id b = sh_account_id a" "sh_expected_version b = sh_expected_version a"
    "sh_idempotency_key b \<noteq> sh_idempotency_key a"
  shows "(\<exists>e. save_shortlist c b st' = Inl e) \<and> save_shortlist c a st' = Inr (r, st')
    \<and> sl_version r = default_to (sh_expected_version a) 0 + 1"
proof -
  have ok: "planning_ok st" unfolding assms(1) by (rule planning_ok_run) (simp add: planning_ok_def empty_planning_def table_ok_def)
  have "\<exists>e. save_shortlist c b st' = Inl e"
    using shortlist.no_lost_update[OF ok assms(2,3), of b] assms(4-7) by simp
  moreover have "save_shortlist c a st' = Inr (r, st')"
    using shortlist.retry_of_last_request[OF ok assms(2), of "[]" a] by simp
  moreover have "sl_version r = default_to (sh_expected_version a) 0 + 1"
    using shortlist.advances[OF ok assms(2)] assms(3) by blast
  ultimately show ?thesis by simp
qed

definition demo_item :: shortlist_args where
  "demo_item = \<lparr>sh_user_id = ''u1'', sh_account_id = ''acct'', sh_kind = ''PURSUE'', sh_objective = ''visit'', sh_target_date = None,
     sh_active = True, sh_expected_version = None, sh_idempotency_key = ''key-0001'', sh_now = at_midnight_utc (Date 2026 1 31)\<rparr>"

theorem shortlist_changes_are_not_lost_witness:
  "\<exists>r st' e. save_shortlist demo_codec demo_item empty_planning = Inr (r, st') \<and> sl_version r = 1
    \<and> save_shortlist demo_codec (demo_item\<lparr>sh_idempotency_key := ''key-0002''\<rparr>) st' = Inl e"
proof -
  have "map_sum (\<lambda>_. ()) (\<lambda>(r, st'). length (pl_shortlist st')) (save_shortlist demo_codec demo_item empty_planning) = Inr 1" by code_simp
  then obtain r st' where s: "save_shortlist demo_codec demo_item empty_planning = Inr (r, st')" "length (pl_shortlist st') = 1"
    by (cases "save_shortlist demo_codec demo_item empty_planning") auto
  have n: "st' \<noteq> empty_planning" using s(2) by (auto simp: empty_planning_def)
  have "empty_planning = planning_run demo_codec [] empty_planning" by (simp add: planning_run_def)
  from shortlist_changes_are_not_lost[OF this s(1) n, of "demo_item\<lparr>sh_idempotency_key := ''key-0002''\<rparr>"]
  have "(\<exists>e. save_shortlist demo_codec (demo_item\<lparr>sh_idempotency_key := ''key-0002''\<rparr>) st' = Inl e) \<and> sl_version r = 1"
    by (simp add: demo_item_def)
  then show ?thesis using s(1) by blast
qed

end
