(* ===== verification/WorkFeedback.thy ===== *)
theory WorkFeedback
  imports SellerPlans
begin

text \<open>
  \<^verbatim>\<open>persistence/work_feedback.py\<close>: the append-only feedback of a user on suggestions. The table is
  the list of its rows in the order of insertion, the retired dismissals are another, and an append is an error
  or the stored row with the new table. A stored time is an aware one.
\<close>

section \<open>Rows\<close>

datatype feedback_error = FeedbackValue string | FeedbackConflict string | FeedbackIntegrity

record feedback_row =
  fb_id :: string
  fb_user_id :: string
  fb_suggestion_id :: string
  fb_account_id :: string
  fb_version :: int
  fb_reason :: string
  fb_note :: string
  fb_created_at :: datetime
  fb_snooze_until :: "datetime option"
  fb_previous_feedback_id :: "string option"
  fb_idempotency_key :: string
  fb_request_hash :: string
  fb_source_revision :: "string option"

record legacy_dismissal =
  ld_suggestion_id :: string
  ld_dismissed_by :: string
  ld_dismissed_at :: datetime

record append_args =
  ap_user_id :: string
  ap_suggestion_id :: string
  ap_account_id :: string
  ap_reason :: string
  ap_note :: string
  ap_now :: datetime
  ap_idempotency_key :: string
  ap_expected_feedback_id :: "string option"
  ap_snooze_until :: "datetime option"
  ap_source_revision :: "string option"
  ap_current_source_revision :: "string option"
  ap_new_id :: string

definition of_user :: "string \<Rightarrow> feedback_row list \<Rightarrow> feedback_row list" where
  "of_user user rows = filter (\<lambda>r. fb_user_id r = user) rows"

definition feedback_chain :: "feedback_row list \<Rightarrow> string \<Rightarrow> string \<Rightarrow> feedback_row list" where
  "feedback_chain rows user suggestion = filter (\<lambda>r. fb_user_id r = user \<and> fb_suggestion_id r = suggestion) rows"

definition latest_feedback :: "feedback_row list \<Rightarrow> string \<Rightarrow> string \<Rightarrow> feedback_row option" where
  \<comment> \<open>\<open>_latest\<close>: the row of the highest version\<close>
  "latest_feedback rows user suggestion =
     (case sort_key (\<lambda>r. - fb_version r) (feedback_chain rows user suggestion) of [] \<Rightarrow> None | r # _ \<Rightarrow> Some r)"

definition feedback_receipt :: "feedback_row list \<Rightarrow> string \<Rightarrow> string \<Rightarrow> feedback_row option" where
  "feedback_receipt rows user receipt = first_match (\<lambda>r. fb_user_id r = user \<and> fb_id r = receipt) rows"

section \<open>Appending\<close>

definition DAY :: int where "DAY = day_micros"

definition FEEDBACK_REASONS :: "string list" where
  "FEEDBACK_REASONS = [''WRONG_ACCOUNT'', ''SNOOZE'', ''ALREADY_DONE'', ''NOT_RELEVANT'', ''UNDO'']"

definition request_check :: "append_args \<Rightarrow> string option" where
  \<comment> \<open>the message of the first violated bound\<close>
  "request_check a =
     (if ap_reason a \<notin> set FEEDBACK_REASONS then Some ''Unsupported feedback reason.''
      else if \<not> aware (ap_now a) \<or> length (ap_idempotency_key a) < 8 \<or> 64 < length (ap_idempotency_key a) \<or> 500 < length (ap_note a)
      then Some ''Feedback needs a real aware clock and bounded request fields.''
      else if ap_reason a \<in> {''WRONG_ACCOUNT'', ''ALREADY_DONE''} \<and> blank (ap_note a)
      then Some ''Describe the correction or the declared completion source.''
      else if ap_reason a = ''SNOOZE''
      then (if (case ap_snooze_until a of None \<Rightarrow> True | Some t \<Rightarrow> \<not> aware t) then Some ''Snooze must end in the next 90 days.'' else None)
      else if ap_snooze_until a \<noteq> None then Some ''Only snooze feedback can change timing.''
      else None)"

definition feedback_fingerprint :: "codec \<Rightarrow> append_args \<Rightarrow> string" where
  "feedback_fingerprint c a = co_sha c (co_dump c (J_arr ([J_str (ap_suggestion_id a), J_str (ap_account_id a), J_str (ap_reason a),
     J_str (strip (ap_note a)), j_opt (\<lambda>t. J_str (iso_datetime t)) (ap_snooze_until a), j_opt J_str (ap_expected_feedback_id a)]
     @ (case ap_source_revision a of None \<Rightarrow> [] | Some v \<Rightarrow> [J_str v]))))"

definition feedback_key :: "feedback_row \<Rightarrow> string \<times> string" where
  "feedback_key r = (fb_user_id r, fb_idempotency_key r)"

definition snooze_in_window :: "append_args \<Rightarrow> bool" where
  "snooze_in_window a = (case ap_snooze_until a of None \<Rightarrow> False
     | Some t \<Rightarrow> instant (ap_now a) < instant t \<and> instant t \<le> instant (ap_now a) + 90 * DAY)"

definition legacy_of :: "legacy_dismissal list \<Rightarrow> string \<Rightarrow> string \<Rightarrow> bool" where
  "legacy_of legacy user suggestion = list_ex (\<lambda>d. ld_suggestion_id d = suggestion \<and> ld_dismissed_by d = user) legacy"

definition append_refusal :: "legacy_dismissal list \<Rightarrow> append_args \<Rightarrow> feedback_row list \<Rightarrow> feedback_error option" where
  \<comment> \<open>the checks of a request that was not answered before, in the order of the code\<close>
  "append_refusal legacy a rows =
     (let latest = latest_feedback rows (ap_user_id a) (ap_suggestion_id a)
      in if ap_source_revision a \<noteq> None \<and> ap_source_revision a \<noteq> ap_current_source_revision a
         then Some (FeedbackConflict ''Recommendation evidence changed; refresh and review before saving new feedback. Your draft is retained.'')
         else if ap_reason a = ''SNOOZE'' \<and> \<not> snooze_in_window a then Some (FeedbackValue ''Snooze must end in the next 90 days.'')
         else if ap_expected_feedback_id a \<noteq> map_option fb_id latest
         then Some (FeedbackConflict ''Feedback changed; refresh before editing or undoing it.'')
         else if ap_reason a = ''UNDO'' \<and> (case latest of Some l \<Rightarrow> fb_reason l = ''UNDO''
              | None \<Rightarrow> \<not> legacy_of legacy (ap_user_id a) (ap_suggestion_id a))
         then Some (FeedbackConflict ''No active feedback is available to undo.'')
         else if 1000 \<le> length (of_user (ap_user_id a) rows) \<and> ap_reason a \<noteq> ''UNDO''
         then Some (FeedbackConflict ''The bounded POC feedback audit limit has been reached; contact the operator.'')
         else if ap_new_id a \<in> fb_id ` set rows then Some FeedbackIntegrity
         else None)"

definition new_feedback :: "codec \<Rightarrow> append_args \<Rightarrow> feedback_row option \<Rightarrow> feedback_row" where
  "new_feedback c a latest = \<lparr>fb_id = ap_new_id a, fb_user_id = ap_user_id a, fb_suggestion_id = ap_suggestion_id a,
     fb_account_id = ap_account_id a, fb_version = (case latest of None \<Rightarrow> 1 | Some l \<Rightarrow> fb_version l + 1), fb_reason = ap_reason a,
     fb_note = strip (ap_note a), fb_created_at = ap_now a, fb_snooze_until = ap_snooze_until a,
     fb_previous_feedback_id = map_option fb_id latest, fb_idempotency_key = ap_idempotency_key a,
     fb_request_hash = feedback_fingerprint c a, fb_source_revision = ap_source_revision a\<rparr>"

definition append_feedback ::
  "codec \<Rightarrow> legacy_dismissal list \<Rightarrow> append_args \<Rightarrow> feedback_row list \<Rightarrow> (feedback_error, feedback_row \<times> feedback_row list) result" where
  "append_feedback c legacy a rows =
     (case request_check a of
        Some message \<Rightarrow> Inl (FeedbackValue message)
      | None \<Rightarrow>
          (case row_by feedback_key rows (ap_user_id a, ap_idempotency_key a) of
             Some replay \<Rightarrow>
               (if fb_request_hash replay \<noteq> feedback_fingerprint c a
                then Inl (FeedbackConflict ''This request key already belongs to different feedback.'')
                else Inr (replay, rows))
           | None \<Rightarrow>
               (case append_refusal legacy a rows of
                  Some e \<Rightarrow> Inl e
                | None \<Rightarrow> (let new = new_feedback c a (latest_feedback rows (ap_user_id a) (ap_suggestion_id a)) in Inr (new, rows @ [new])))))"

section \<open>Reading\<close>

record current_feedback =
  cf_row :: feedback_row
  cf_hidden :: bool
  cf_source_changed :: bool

definition hides :: "datetime \<Rightarrow> feedback_row \<Rightarrow> bool" where
  "hides now r = (fb_reason r \<in> {''WRONG_ACCOUNT'', ''ALREADY_DONE'', ''NOT_RELEVANT''}
     \<or> fb_reason r = ''SNOOZE'' \<and> (case fb_snooze_until r of None \<Rightarrow> False | Some t \<Rightarrow> instant now < instant t))"

definition current_of :: "datetime \<Rightarrow> (string, string) dict option \<Rightarrow> feedback_row \<Rightarrow> current_feedback" where
  "current_of now revisions r =
     (let changed = (case revisions of None \<Rightarrow> False | Some d \<Rightarrow> fb_source_revision r \<noteq> dget d (fb_suggestion_id r))
      in \<lparr>cf_row = r, cf_hidden = (hides now r \<and> \<not> changed), cf_source_changed = changed\<rparr>)"

definition current_feedbacks ::
  "feedback_row list \<Rightarrow> string \<Rightarrow> string list \<Rightarrow> datetime \<Rightarrow> (string, string) dict option \<Rightarrow>
   (feedback_error, (string, current_feedback) dict) result" where
  "current_feedbacks rows user suggestions now revisions =
     (if 500 < length suggestions then Inl (FeedbackValue ''Feedback scope exceeds the bounded suggestion window.'')
      else Inr (foldl (\<lambda>d r. if fb_suggestion_id r \<in> set (dkeys d) then d else d @ [(fb_suggestion_id r, current_of now revisions r)]) []
        (sort_key (\<lambda>r. - fb_version r) (filter (\<lambda>r. fb_user_id r = user \<and> fb_suggestion_id r \<in> set suggestions) rows))))"

record history_item =
  hi_row :: feedback_row
  hi_can_undo :: bool
  hi_identity_state :: string

record feedback_history =
  fh_items :: "history_item list"
  fh_total :: int
  fh_next_offset :: "int option"
  fh_legacy :: "legacy_dismissal list"

definition feedback_history_of ::
  "feedback_row list \<Rightarrow> legacy_dismissal list \<Rightarrow> string \<Rightarrow> int \<Rightarrow> int \<Rightarrow> (feedback_error, feedback_history) result" where
  "feedback_history_of rows legacy user offset limit =
     (if \<not> (0 \<le> offset \<and> offset \<le> 2000) \<or> \<not> (1 \<le> limit \<and> limit \<le> 50)
      then Inl (FeedbackValue ''Feedback history window is out of bounds.'')
      else let mine = of_user user rows;
               page = take (nat limit) (drop (nat offset)
                 (sort_key (\<lambda>r. (- instant (fb_created_at r), - fb_version r, fb_id r)) mine));
               item = (\<lambda>r. \<lparr>hi_row = r,
                 hi_can_undo = (map_option fb_id (latest_feedback rows user (fb_suggestion_id r)) = Some (fb_id r) \<and> fb_reason r \<noteq> ''UNDO''),
                 hi_identity_state = (if starts_with ''suggestion-v2-'' (fb_suggestion_id r) then ''CANONICAL_STABLE_ID''
                   else ''RETIRED_UNSTABLE_ID_NOT_REAPPLIED'')\<rparr>)
           in Inr \<lparr>fh_items = map item page, fh_total = int (length mine),
                fh_next_offset = (if offset + limit < int (length mine) then Some (offset + limit) else None),
                fh_legacy = take 20 (sort_key (\<lambda>d. - instant (ld_dismissed_at d)) (filter (\<lambda>d. ld_dismissed_by d = user) legacy))\<rparr>)"

section \<open>A log of requests\<close>

lemma new_feedback_simps [simp]: "feedback_key (new_feedback c a l) = (ap_user_id a, ap_idempotency_key a)"
  "fb_id (new_feedback c a l) = ap_new_id a" "fb_request_hash (new_feedback c a l) = feedback_fingerprint c a"
  "fb_user_id (new_feedback c a l) = ap_user_id a" "fb_suggestion_id (new_feedback c a l) = ap_suggestion_id a"
  "fb_reason (new_feedback c a l) = ap_reason a" "fb_previous_feedback_id (new_feedback c a l) = map_option fb_id l"
  "fb_version (new_feedback c a l) = (case l of None \<Rightarrow> 1 | Some r \<Rightarrow> fb_version r + 1)"
  by (simp_all add: new_feedback_def feedback_key_def)

definition feedback_step :: "codec \<Rightarrow> legacy_dismissal list \<Rightarrow> append_args \<Rightarrow> feedback_row list \<Rightarrow> feedback_row list" where
  "feedback_step c legacy a rows = (case append_feedback c legacy a rows of Inl e \<Rightarrow> rows | Inr (r, rows') \<Rightarrow> rows')"

lemma append_cases:
  assumes "append_feedback c legacy a rows = Inr (r, rows')"
  obtains (replayed) "rows' = rows" "row_by feedback_key rows (ap_user_id a, ap_idempotency_key a) = Some r"
      "fb_request_hash r = feedback_fingerprint c a" "request_check a = None"
    | (appended) "rows' = rows @ [r]" "r = new_feedback c a (latest_feedback rows (ap_user_id a) (ap_suggestion_id a))"
      "append_refusal legacy a rows = None" "row_by feedback_key rows (ap_user_id a, ap_idempotency_key a) = None" "request_check a = None"
proof -
  have v: "request_check a = None" using assms by (cases "request_check a") (simp_all add: append_feedback_def)
  show ?thesis
  proof (cases "row_by feedback_key rows (ap_user_id a, ap_idempotency_key a)")
    case (Some p)
    then have "fb_request_hash p = feedback_fingerprint c a \<and> r = p \<and> rows' = rows"
      using assms v by (cases "fb_request_hash p = feedback_fingerprint c a") (simp_all add: append_feedback_def)
    then show ?thesis using Some v by (intro replayed) simp_all
  next
    case None
    then have "append_refusal legacy a rows = None"
      using assms v by (cases "append_refusal legacy a rows") (simp_all add: append_feedback_def)
    then show ?thesis using assms v None by (intro appended) (auto simp: append_feedback_def Let_def)
  qed
qed

interpretation feedback: request_log "append_feedback c legacy" "\<lambda>a. request_check a = None" "\<lambda>a. (ap_user_id a, ap_idempotency_key a)"
    "feedback_fingerprint c" "\<lambda>rows k. map_option (\<lambda>r. (fb_request_hash r, r)) (row_by feedback_key rows k)" "feedback_step c legacy"
  for c legacy
proof
  show "append_feedback c legacy q st = Inr (r, st') \<Longrightarrow>
      map_option (\<lambda>r. (fb_request_hash r, r)) (row_by feedback_key st' (ap_user_id q, ap_idempotency_key q)) = Some (feedback_fingerprint c q, r)"
    for q st r st'
    by (erule append_cases) (auto simp: row_by_append)
  show "request_check q = None \<Longrightarrow>
      map_option (\<lambda>r. (fb_request_hash r, r)) (row_by feedback_key st (ap_user_id q, ap_idempotency_key q)) = Some (feedback_fingerprint c q, r)
      \<Longrightarrow> append_feedback c legacy q st = Inr (r, st)" for q st r
    by (auto simp: append_feedback_def)
  show "map_option (\<lambda>r. (fb_request_hash r, r)) (row_by feedback_key st (ap_user_id q, ap_idempotency_key q)) = Some (p, r)
      \<Longrightarrow> p \<noteq> feedback_fingerprint c q \<Longrightarrow> \<exists>e. append_feedback c legacy q st = Inl e" for q st p r
    by (auto simp: append_feedback_def split: option.split)
  show "map_option (\<lambda>r. (fb_request_hash r, r)) (row_by feedback_key st k) = Some x
      \<Longrightarrow> map_option (\<lambda>r. (fb_request_hash r, r)) (row_by feedback_key (feedback_step c legacy op st) k) = Some x" for st k x op
    by (auto simp: feedback_step_def row_by_append split: sum.split elim!: append_cases)
qed

end
