(* ===== verification/FeedbackProps.thy ===== *)
theory FeedbackProps
  imports WorkFeedback
begin

text \<open>The feedback log of every reachable table, and what a user can always do with it.\<close>

section \<open>Chains\<close>

fun chain_ok :: "bool \<Rightarrow> feedback_row option \<Rightarrow> feedback_row list \<Rightarrow> bool" where
  "chain_ok dismissed prev [] = True"
| "chain_ok dismissed prev (r # rs) =
     (fb_version r = (case prev of None \<Rightarrow> 1 | Some p \<Rightarrow> fb_version p + 1)
      \<and> fb_previous_feedback_id r = map_option fb_id prev
      \<and> (fb_reason r = ''UNDO'' \<longrightarrow> (case prev of None \<Rightarrow> dismissed | Some p \<Rightarrow> fb_reason p \<noteq> ''UNDO''))
      \<and> chain_ok dismissed (Some r) rs)"

definition last_of :: "feedback_row option \<Rightarrow> feedback_row list \<Rightarrow> feedback_row option" where
  "last_of prev rs = (if rs = [] then prev else Some (last rs))"

lemma chain_ok_append: "chain_ok d prev (rs @ [n]) \<longleftrightarrow> chain_ok d prev rs \<and> chain_ok d (last_of prev rs) [n]"
  by (induction rs arbitrary: prev) (auto simp: last_of_def)

lemma chain_versions: "chain_ok d prev rs \<Longrightarrow>
    map fb_version rs = map (\<lambda>i. (case prev of None \<Rightarrow> 0 | Some p \<Rightarrow> fb_version p) + 1 + int i) [0..<length rs]"
proof (induction rs arbitrary: prev)
  case (Cons r rs)
  then have "map fb_version rs = map (\<lambda>i. fb_version r + 1 + int i) [0..<length rs]" by force
  moreover have "fb_version r = (case prev of None \<Rightarrow> 0 | Some p \<Rightarrow> fb_version p) + 1"
    using Cons.prems by (simp split: option.splits)
  ultimately show ?case by (simp add: map_upt_Suc del: upt_Suc)
qed simp

lemma chain_latest: "chain_ok d None rs \<Longrightarrow> sort_key (\<lambda>r. - fb_version r) rs = rev rs"
proof -
  assume "chain_ok d None rs"
  from chain_versions[OF this] have v: "map fb_version rs = map (\<lambda>i. 1 + int i) [0..<length rs]" by simp
  have "distinct (map fb_version rs)" unfolding v by (simp add: distinct_map inj_on_def)
  then have inj: "inj_on (\<lambda>r. - fb_version r) (set rs)" by (simp add: distinct_map inj_on_def)
  have "sorted (map (\<lambda>r. - fb_version r) (rev rs))"
    using v by (simp add: sorted_iff_nth_mono rev_nth nth_map flip: nth_map[where f = fb_version])
  then show ?thesis by (intro sort_key_inj_key_eq inj) simp_all
qed

section \<open>The log\<close>

definition row_in_bounds :: "feedback_row \<Rightarrow> bool" where
  "row_in_bounds r = (fb_reason r \<in> {''WRONG_ACCOUNT'', ''SNOOZE'', ''ALREADY_DONE'', ''NOT_RELEVANT'', ''UNDO''}
     \<and> 8 \<le> length (fb_idempotency_key r) \<and> length (fb_idempotency_key r) \<le> 64 \<and> length (fb_note r) \<le> 500 \<and> strip (fb_note r) = fb_note r
     \<and> aware (fb_created_at r) \<and> (fb_reason r \<in> {''WRONG_ACCOUNT'', ''ALREADY_DONE''} \<longrightarrow> fb_note r \<noteq> [])
     \<and> (case fb_snooze_until r of None \<Rightarrow> fb_reason r \<noteq> ''SNOOZE''
        | Some t \<Rightarrow> fb_reason r = ''SNOOZE'' \<and> aware t \<and> instant (fb_created_at r) < instant t
            \<and> instant t - instant (fb_created_at r) \<le> 90 * 24 * 60 * 60 * 1000000))"

definition feedback_ok :: "legacy_dismissal list \<Rightarrow> feedback_row list \<Rightarrow> bool" where
  "feedback_ok legacy rows = ((\<forall>u s. chain_ok (legacy_of legacy u s) None (feedback_chain rows u s))
     \<and> table_ok fb_id feedback_key rows \<and> (\<forall>r\<in>set rows. row_in_bounds r)
     \<and> (\<forall>u. length (filter (\<lambda>r. fb_reason r \<noteq> ''UNDO'') (of_user u rows)) \<le> 1000))"

lemma latest_is_last:
  assumes "feedback_ok legacy rows"
  shows "latest_feedback rows u s = last_of None (feedback_chain rows u s)"
proof -
  have "sort_key (\<lambda>r. - fb_version r) (feedback_chain rows u s) = rev (feedback_chain rows u s)"
    using assms chain_latest unfolding feedback_ok_def by blast
  then show ?thesis unfolding latest_feedback_def last_of_def
    by (cases "feedback_chain rows u s" rule: rev_cases) simp_all
qed

lemma refusal_none:
  assumes "append_refusal legacy a rows = None"
  shows "ap_expected_feedback_id a = map_option fb_id (latest_feedback rows (ap_user_id a) (ap_suggestion_id a))"
    "ap_reason a = ''UNDO'' \<Longrightarrow> (case latest_feedback rows (ap_user_id a) (ap_suggestion_id a) of Some l \<Rightarrow> fb_reason l \<noteq> ''UNDO''
       | None \<Rightarrow> legacy_of legacy (ap_user_id a) (ap_suggestion_id a))"
    "ap_reason a \<noteq> ''UNDO'' \<Longrightarrow> length (of_user (ap_user_id a) rows) < 1000"
    "ap_new_id a \<notin> fb_id ` set rows"
    "ap_reason a = ''SNOOZE'' \<Longrightarrow> snooze_in_window a"
proof -
  note r = assms[unfolded append_refusal_def Let_def]
  show e: "ap_expected_feedback_id a = map_option fb_id (latest_feedback rows (ap_user_id a) (ap_suggestion_id a))"
    using r by (simp split: if_split_asm)
  show "ap_reason a = ''UNDO'' \<Longrightarrow> (case latest_feedback rows (ap_user_id a) (ap_suggestion_id a) of Some l \<Rightarrow> fb_reason l \<noteq> ''UNDO''
       | None \<Rightarrow> legacy_of legacy (ap_user_id a) (ap_suggestion_id a))"
    using r by (cases "latest_feedback rows (ap_user_id a) (ap_suggestion_id a)") (simp_all split: if_split_asm)
  show "ap_reason a \<noteq> ''UNDO'' \<Longrightarrow> length (of_user (ap_user_id a) rows) < 1000" using r by (simp split: if_split_asm)
  show "ap_new_id a \<notin> fb_id ` set rows" using r by (simp split: if_split_asm)
  show "ap_reason a = ''SNOOZE'' \<Longrightarrow> snooze_in_window a" using r by (simp split: if_split_asm)
qed

lemma dropWhile_id: "(s \<noteq> [] \<longrightarrow> \<not> p (hd s)) \<Longrightarrow> dropWhile p s = s"
  by (cases s) simp_all

lemma strip_idem: "strip (strip s) = strip s"
proof -
  let ?l = "dropWhile is_space s" and ?r = "dropWhile is_space (rev (dropWhile is_space s))"
  have r: "strip s = rev ?r" by (simp add: strip_def)
  have "\<not> is_space (hd (rev ?r))" if "?r \<noteq> []"
  proof -
    from that have l: "?l \<noteq> []" by (metis dropWhile.simps(1) rev.simps(1))
    have "rev ?l = takeWhile is_space (rev ?l) @ ?r" by simp
    then have "?l = rev ?r @ rev (takeWhile is_space (rev ?l))" by (metis rev_append rev_rev_ident)
    then have "hd ?l = hd (rev ?r)" using that by (metis hd_append2 rev_is_Nil_conv)
    then show ?thesis using hd_dropWhile[of is_space s] l by simp
  qed
  then have "dropWhile is_space (strip s) = strip s" unfolding r by (intro dropWhile_id) simp
  moreover have "dropWhile is_space (rev (strip s)) = rev (strip s)" unfolding r by (simp add: dropWhile_idem)
  ultimately show ?thesis by (simp add: strip_def)
qed

lemma strip_shorter: "length (strip s) \<le> length s"
  unfolding strip_def by (metis length_dropWhile_le length_rev order_trans)

lemma new_row_in_bounds:
  assumes "request_check a = None" "append_refusal legacy a rows = None"
  shows "row_in_bounds (new_feedback c a l)"
proof -
  note c = assms(1)[unfolded request_check_def]
  have reason: "ap_reason a \<in> set FEEDBACK_REASONS" using c by (simp split: if_split_asm)
  have bounds: "aware (ap_now a)" "8 \<le> length (ap_idempotency_key a)" "length (ap_idempotency_key a) \<le> 64" "length (ap_note a) \<le> 500"
    using c by (simp_all split: if_split_asm)
  have note_given: "ap_reason a \<in> {''WRONG_ACCOUNT'', ''ALREADY_DONE''} \<longrightarrow> strip (ap_note a) \<noteq> []"
    using c by (auto simp: blank_def split: if_split_asm)
  have snooze: "ap_reason a = ''SNOOZE'' \<longrightarrow> (\<exists>t. ap_snooze_until a = Some t \<and> aware t)" "ap_reason a \<noteq> ''SNOOZE'' \<longrightarrow> ap_snooze_until a = None"
    using c by (cases "ap_snooze_until a"; simp split: if_split_asm)+
  have window: "ap_reason a = ''SNOOZE'' \<longrightarrow> snooze_in_window a" using refusal_none(5)[OF assms(2)] by blast
  have until: "case ap_snooze_until a of None \<Rightarrow> ap_reason a \<noteq> ''SNOOZE'' | Some t \<Rightarrow> ap_reason a = ''SNOOZE'' \<and> aware t
      \<and> instant (ap_now a) < instant t \<and> instant t - instant (ap_now a) \<le> 90 * 24 * 60 * 60 * 1000000"
    using snooze window by (cases "ap_snooze_until a"; cases "ap_reason a = ''SNOOZE''") (simp_all add: snooze_in_window_def DAY_def day_micros_def)
  have "length (strip (ap_note a)) \<le> 500" using strip_shorter[of "ap_note a"] bounds(4) by linarith
  moreover have f: "fb_note (new_feedback c a l) = strip (ap_note a)" "fb_created_at (new_feedback c a l) = ap_now a"
    "fb_snooze_until (new_feedback c a l) = ap_snooze_until a" "fb_idempotency_key (new_feedback c a l) = ap_idempotency_key a"
    by (simp_all add: new_feedback_def)
  ultimately show ?thesis unfolding row_in_bounds_def f new_feedback_simps using reason bounds(1-3) note_given until
    by (simp add: strip_idem FEEDBACK_REASONS_def)
qed

lemma feedback_ok_step:
  assumes "feedback_ok legacy rows" "append_feedback c legacy a rows = Inr (r, rows')"
  shows "feedback_ok legacy rows'"
  using assms(2)
proof (cases rule: append_cases)
  case replayed
  then show ?thesis using assms(1) by simp
next
  case appended
  note n = refusal_none[OF appended(3)]
  let ?l = "latest_feedback rows (ap_user_id a) (ap_suggestion_id a)"
  have last: "?l = last_of None (feedback_chain rows (ap_user_id a) (ap_suggestion_id a))" by (rule latest_is_last[OF assms(1)])
  have chains: "chain_ok (legacy_of legacy u s) None (feedback_chain rows' u s)" for u s
  proof (cases "u = ap_user_id a \<and> s = ap_suggestion_id a")
    case True
    have "feedback_chain rows' u s = feedback_chain rows u s @ [r]" using True appended(1,2) by (simp add: feedback_chain_def)
    moreover have "chain_ok (legacy_of legacy u s) (last_of None (feedback_chain rows u s)) [r]"
    proof -
      have l: "last_of None (feedback_chain rows u s) = ?l" using last True by simp
      show ?thesis unfolding l using True n(2) appended(2) by (cases ?l) simp_all
    qed
    ultimately show ?thesis using assms(1) by (simp add: chain_ok_append feedback_ok_def)
  next
    case False
    then have "feedback_chain rows' u s = feedback_chain rows u s" using appended(1,2) by (auto simp: feedback_chain_def)
    then show ?thesis using assms(1) by (simp add: feedback_ok_def)
  qed
  have table: "table_ok fb_id feedback_key rows'"
    unfolding appended(1) by (rule table_ok_append) (use assms(1) appended(2,4) n(4) in \<open>simp_all add: feedback_ok_def\<close>)
  have cap: "length (filter (\<lambda>r. fb_reason r \<noteq> ''UNDO'') (of_user u rows')) \<le> 1000" for u
  proof (cases "u = ap_user_id a \<and> ap_reason a \<noteq> ''UNDO''")
    case True
    have "length (filter (\<lambda>r. fb_reason r \<noteq> ''UNDO'') (of_user u rows)) \<le> length (of_user u rows)" by simp
    then show ?thesis using True n(3) appended(1,2) by (simp add: of_user_def)
  next
    case False
    then have "filter (\<lambda>r. fb_reason r \<noteq> ''UNDO'') (of_user u rows') = filter (\<lambda>r. fb_reason r \<noteq> ''UNDO'') (of_user u rows)"
      using appended(1,2) by (auto simp: of_user_def)
    then show ?thesis using assms(1) by (simp add: feedback_ok_def)
  qed
  have bounds: "\<forall>r\<in>set rows'. row_in_bounds r"
    using assms(1) new_row_in_bounds[OF appended(5,3)] unfolding appended(1) by (simp add: appended(2) feedback_ok_def)
  show ?thesis using chains table cap bounds by (simp add: feedback_ok_def)
qed

definition feedback_run :: "codec \<Rightarrow> legacy_dismissal list \<Rightarrow> append_args list \<Rightarrow> feedback_row list \<Rightarrow> feedback_row list" where
  "feedback_run c legacy ops rows = foldl (\<lambda>rows a. feedback_step c legacy a rows) rows ops"

lemma feedback_ok_run: "feedback_ok legacy rows \<Longrightarrow> feedback_ok legacy (feedback_run c legacy ops rows)"
proof (induction ops arbitrary: rows)
  case (Cons a ops)
  have "feedback_ok legacy (feedback_step c legacy a rows)"
    using Cons.prems feedback_ok_step[OF Cons.prems] by (auto simp: feedback_step_def split: sum.split)
  then show ?case using Cons.IH by (simp add: feedback_run_def)
qed (simp add: feedback_run_def)

lemma feedback_ok_reachable: "feedback_ok legacy (feedback_run c legacy ops [])"
  by (rule feedback_ok_run) (simp add: feedback_ok_def feedback_chain_def table_ok_def of_user_def)

section \<open>Properties\<close>

text \<open>
  C16. The feedback log is sound after any requests: for each user and suggestion the versions are 1, 2, and so on
  in the order of insertion, each row names the row before it, an undo never follows an undo and opens a log only
  over a retired dismissal of that user; ids and request keys are unique, and a user has at most 1000 rows that
  are not undos. Every row keeps the bounds of a request: one of the five reasons, a request key of 8 to 64
  characters, a stripped note of at most 500, not empty where the reason declares a correction or a completion, an aware
  time, and an aware end exactly for a snooze, after the row's own time and at most 90 days later.
\<close>

theorem feedback_log_sound:
  assumes "rows = feedback_run c legacy ops []"
  shows "(let log = feedback_chain rows u s in
      map fb_version log = map (\<lambda>i. 1 + int i) [0..<length log]
      \<and> map fb_previous_feedback_id log = map (\<lambda>i. if i = 0 then None else Some (fb_id (log ! (i - 1)))) [0..<length log]
      \<and> (\<forall>i<length log. fb_reason (log ! i) = ''UNDO'' \<longrightarrow> (if i = 0 then legacy_of legacy u s else fb_reason (log ! (i - 1)) \<noteq> ''UNDO'')))
    \<and> distinct (map fb_id rows) \<and> distinct (map feedback_key rows)
    \<and> length (filter (\<lambda>r. fb_reason r \<noteq> ''UNDO'') (of_user u rows)) \<le> 1000
    \<and> (\<forall>r\<in>set rows. fb_reason r \<in> {''WRONG_ACCOUNT'', ''SNOOZE'', ''ALREADY_DONE'', ''NOT_RELEVANT'', ''UNDO''}
        \<and> 8 \<le> length (fb_idempotency_key r) \<and> length (fb_idempotency_key r) \<le> 64
        \<and> length (fb_note r) \<le> 500 \<and> strip (fb_note r) = fb_note r \<and> aware (fb_created_at r)
        \<and> (fb_reason r \<in> {''WRONG_ACCOUNT'', ''ALREADY_DONE''} \<longrightarrow> fb_note r \<noteq> [])
        \<and> (case fb_snooze_until r of None \<Rightarrow> fb_reason r \<noteq> ''SNOOZE''
           | Some t \<Rightarrow> fb_reason r = ''SNOOZE'' \<and> aware t \<and> instant (fb_created_at r) < instant t
               \<and> instant t - instant (fb_created_at r) \<le> 90 * 24 * 60 * 60 * 1000000))"
proof -
  have ok: "feedback_ok legacy rows" unfolding assms by (rule feedback_ok_reachable)
  let ?log = "feedback_chain rows u s"
  have c: "chain_ok (legacy_of legacy u s) None ?log" using ok by (simp add: feedback_ok_def)
  have nth: "chain_ok d prev rs \<Longrightarrow> i < length rs \<Longrightarrow>
      fb_previous_feedback_id (rs ! i) = (if i = 0 then map_option fb_id prev else Some (fb_id (rs ! (i - 1))))
      \<and> (fb_reason (rs ! i) = ''UNDO'' \<longrightarrow> (if i = 0 then (case prev of None \<Rightarrow> d | Some p \<Rightarrow> fb_reason p \<noteq> ''UNDO'')
           else fb_reason (rs ! (i - 1)) \<noteq> ''UNDO''))" for d prev rs i
  proof (induction rs arbitrary: prev i)
    case (Cons r rs)
    show ?case
    proof (cases i)
      case (Suc j)
      then show ?thesis using Cons.IH[of "Some r" j] Cons.prems by (cases j) auto
    qed (use Cons.prems in auto)
  qed simp
  have versions: "map fb_version ?log = map (\<lambda>i. 1 + int i) [0..<length ?log]" using chain_versions[OF c] by simp
  have previous: "map fb_previous_feedback_id ?log = map (\<lambda>i. if i = 0 then None else Some (fb_id (?log ! (i - 1)))) [0..<length ?log]"
    by (rule nth_equalityI) (use nth[OF c] in auto)
  have undos: "\<forall>i<length ?log. fb_reason (?log ! i) = ''UNDO'' \<longrightarrow> (if i = 0 then legacy_of legacy u s else fb_reason (?log ! (i - 1)) \<noteq> ''UNDO'')"
  proof (intro allI impI)
    fix i assume "i < length ?log" "fb_reason (?log ! i) = ''UNDO''"
    then show "if i = 0 then legacy_of legacy u s else fb_reason (?log ! (i - 1)) \<noteq> ''UNDO''"
      using nth[OF c, of i] by (simp split: if_splits)
  qed
  have unique: "distinct (map fb_id rows)" "distinct (map feedback_key rows)"
    and cap: "length (filter (\<lambda>r. fb_reason r \<noteq> ''UNDO'') (of_user u rows)) \<le> 1000"
    and bounds: "\<forall>r\<in>set rows. row_in_bounds r"
    using ok by (simp_all add: feedback_ok_def table_ok_def)
  show ?thesis unfolding Let_def
    by (rule conjI[OF conjI[OF versions conjI[OF previous undos]] conjI[OF unique(1) conjI[OF unique(2) conjI[OF cap bounds[unfolded row_in_bounds_def]]]]])
qed

definition demo_feedback :: append_args where
  "demo_feedback = \<lparr>ap_user_id = ''u1'', ap_suggestion_id = ''suggestion-v2-1'', ap_account_id = ''acct'', ap_reason = ''NOT_RELEVANT'',
     ap_note = [], ap_now = at_midnight_utc (Date 2026 1 31), ap_idempotency_key = ''key-0001'', ap_expected_feedback_id = None,
     ap_snooze_until = None, ap_source_revision = None, ap_current_source_revision = None, ap_new_id = ''f1''\<rparr>"

definition demo_undo :: append_args where
  "demo_undo = demo_feedback\<lparr>ap_reason := ''UNDO'', ap_idempotency_key := ''key-0002'', ap_expected_feedback_id := Some ''f1'', ap_new_id := ''f2''\<rparr>"

theorem feedback_log_sound_witness:
  "let rows = feedback_run demo_codec [] [demo_feedback, demo_undo, demo_undo\<lparr>ap_idempotency_key := ''key-0003''\<rparr>] []
   in length rows = 2 \<and> map fb_version (feedback_chain rows ''u1'' ''suggestion-v2-1'') = [1, 2]"
proof -
  let ?rows = "feedback_run demo_codec [] [demo_feedback, demo_undo, demo_undo\<lparr>ap_idempotency_key := ''key-0003''\<rparr>] []"
  have l: "length (feedback_chain ?rows ''u1'' ''suggestion-v2-1'') = 2" "length ?rows = 2" by code_simp+
  have "map fb_version (feedback_chain ?rows ''u1'' ''suggestion-v2-1'') = [1, 2]"
    using feedback_log_sound[OF refl, of demo_codec "[]" "[demo_feedback, demo_undo, demo_undo\<lparr>ap_idempotency_key := ''key-0003''\<rparr>]" "''u1''" "''suggestion-v2-1''"]
    unfolding Let_def l by (simp add: upt_rec)
  then show ?thesis using l by (simp add: Let_def)
qed

text \<open>
  C32. Active feedback can always be undone, also when the log is full: a well-formed undo that names the user's
  latest feedback, with a new request key, is appended, and the suggestion is no longer hidden from the user.
\<close>

theorem active_feedback_can_be_undone:
  assumes "rows = feedback_run c legacy ops []" "latest_feedback rows (ap_user_id a) (ap_suggestion_id a) = Some l"
    "fb_reason l \<noteq> ''UNDO''" "ap_reason a = ''UNDO''" "request_check a = None" "ap_expected_feedback_id a = Some (fb_id l)"
    "ap_source_revision a \<in> {None, ap_current_source_revision a}"
    "(ap_user_id a, ap_idempotency_key a) \<notin> feedback_key ` set rows" "ap_new_id a \<notin> fb_id ` set rows"
  shows "\<exists>r. append_feedback c legacy a rows = Inr (r, rows @ [r]) \<and> fb_version r = fb_version l + 1
    \<and> latest_feedback (rows @ [r]) (ap_user_id a) (ap_suggestion_id a) = Some r
    \<and> (\<exists>v. current_feedbacks (rows @ [r]) (ap_user_id a) [ap_suggestion_id a] now revisions = Inr [(ap_suggestion_id a, v)]
        \<and> cf_row v = r \<and> \<not> cf_hidden v)"
proof -
  have ok: "feedback_ok legacy rows" unfolding assms(1) by (rule feedback_ok_reachable)
  let ?r = "new_feedback c a (Some l)"
  have "append_refusal legacy a rows = None" using assms(2-7,9) by (auto simp: append_refusal_def Let_def)
  moreover have "row_by feedback_key rows (ap_user_id a, ap_idempotency_key a) = None" using assms(8) by (simp add: row_by_none)
  ultimately have run: "append_feedback c legacy a rows = Inr (?r, rows @ [?r])"
    using assms(2,5) by (simp add: append_feedback_def Let_def)
  have ok': "feedback_ok legacy (rows @ [?r])" by (rule feedback_ok_step[OF ok run])
  let ?log = "feedback_chain (rows @ [?r]) (ap_user_id a) (ap_suggestion_id a)"
  have log: "?log = feedback_chain rows (ap_user_id a) (ap_suggestion_id a) @ [?r]" by (simp add: feedback_chain_def)
  have latest: "latest_feedback (rows @ [?r]) (ap_user_id a) (ap_suggestion_id a) = Some ?r"
    unfolding latest_is_last[OF ok'] log by (simp add: last_of_def)
  have rev: "sort_key (\<lambda>r. - fb_version r) ?log = ?r # rev (feedback_chain rows (ap_user_id a) (ap_suggestion_id a))"
    using ok' chain_latest[of "legacy_of legacy (ap_user_id a) (ap_suggestion_id a)" ?log] unfolding log by (simp add: feedback_ok_def log[symmetric])
  have fold: "foldl (\<lambda>d r. if fb_suggestion_id r \<in> set (dkeys d) then d else d @ [(fb_suggestion_id r, current_of now revisions r)]) d rs = d"
    if "\<forall>r\<in>set rs. fb_suggestion_id r \<in> set (dkeys d)" for rs d
    using that by (induction rs) simp_all
  have "current_feedbacks (rows @ [?r]) (ap_user_id a) [ap_suggestion_id a] now revisions = Inr [(ap_suggestion_id a, current_of now revisions ?r)]"
  proof -
    have "filter (\<lambda>r. fb_user_id r = ap_user_id a \<and> fb_suggestion_id r \<in> set [ap_suggestion_id a]) (rows @ [?r]) = ?log"
      by (simp add: feedback_chain_def)
    then show ?thesis
      unfolding current_feedbacks_def by (simp add: rev) (subst fold, auto simp: feedback_chain_def dkeys_def)
  qed
  moreover have "\<not> hides now ?r" using assms(4) by (simp add: hides_def)
  ultimately show ?thesis using run latest by (auto simp: current_of_def Let_def assms(2))
qed

theorem active_feedback_can_be_undone_witness:
  "\<exists>r. append_feedback demo_codec [] demo_undo (feedback_run demo_codec [] [demo_feedback] [])
      = Inr (r, feedback_run demo_codec [] [demo_feedback] [] @ [r]) \<and> fb_version r = 2"
proof -
  let ?rows = "feedback_run demo_codec [] [demo_feedback] []"
  have f: "map_option (\<lambda>l. (fb_id l, fb_version l, fb_reason l)) (latest_feedback ?rows (ap_user_id demo_undo) (ap_suggestion_id demo_undo))
      = Some (''f1'', 1, ''NOT_RELEVANT'')"
    "request_check demo_undo = None" "ap_reason demo_undo = ''UNDO''" "ap_expected_feedback_id demo_undo = Some ''f1''"
    "ap_source_revision demo_undo = None" "ap_new_id demo_undo \<notin> fb_id ` set ?rows"
    "(ap_user_id demo_undo, ap_idempotency_key demo_undo) \<notin> feedback_key ` set ?rows"
    by code_simp+
  then obtain l where l: "latest_feedback ?rows (ap_user_id demo_undo) (ap_suggestion_id demo_undo) = Some l"
    "fb_id l = ''f1''" "fb_version l = 1" "fb_reason l = ''NOT_RELEVANT''" by auto
  show ?thesis
    using active_feedback_can_be_undone[OF refl l(1), where now = "at_midnight_utc (Date 2026 1 31)" and revisions = None] l f(2-7) by auto
qed

text \<open>The contract of \<open>request_log\<close> for feedback, written out.\<close>

lemma feedback_retry:
  assumes "append_feedback c legacy a rows = Inr (r, rows')" "request_check b = None" "ap_user_id b = ap_user_id a"
    "ap_idempotency_key b = ap_idempotency_key a" "feedback_fingerprint c b = feedback_fingerprint c a"
  shows "append_feedback c legacy b (feedback_run c legacy ops rows') = Inr (r, feedback_run c legacy ops rows')"
  using feedback.retry_returns_first_answer[OF assms(1,2)] assms(3-5) by (simp add: feedback_run_def)

end
