(* ===== verification/PrivateChat.thy ===== *)
theory PrivateChat
  imports WorkFeedback AiUsage
begin

text \<open>
  \<^verbatim>\<open>persistence/omni_runs.py\<close> and \<^verbatim>\<open>persistence/omni_conversations.py\<close>: the
  receipts of assistant requests and the private conversations. Tables are lists of rows; the turns of a
  conversation are the JSON list their text denotes. An operation that reads in one transaction and writes in
  another is two steps, so that others may come between. New ids are arguments; \<open>c\<close> is the codec of JSON text
  and digests.
\<close>

datatype chat_error = ChatKey string | ChatValue string | ChatIntegrity

section \<open>Run receipts\<close>

datatype omni_status = OMNI_RUNNING | OMNI_FAILED | OMNI_ANSWER_RECORDED

record omni_run =
  om_id :: string
  om_actor_id :: string
  om_request_hash :: string
  om_started_at :: datetime
  om_completed_at :: "datetime option"
  om_status :: omni_status
  om_result_hash :: "string option"
  om_result :: "string option"

record conversation =
  cv_id :: string
  cv_owner_key :: string
  cv_title :: string
  cv_turns :: "json list"
  cv_version :: int
  cv_updated_at :: datetime
  cv_expires_at :: datetime

record chat_feedback =
  cf_id :: string
  cf_conversation_id :: string
  cf_owner_key :: string
  cf_run_id :: string
  cf_rating :: string
  cf_reason :: string
  cf_created_at :: datetime

record chat_store =
  cs_runs :: "omni_run list"
  cs_conversations :: "conversation list"
  cs_feedback :: "chat_feedback list"

type_synonym 'a chat_tx = "chat_store \<Rightarrow> (chat_error, 'a \<times> chat_store) result"

definition start_run :: "codec \<Rightarrow> string \<Rightarrow> string \<Rightarrow> json \<Rightarrow> datetime \<Rightarrow> string chat_tx" where
  "start_run c new_id actor request now st =
     (if \<not> identity_valid actor 128 \<or> \<not> aware now then Inl (ChatValue ''Invalid private Omni run identity or clock.'')
      else if 40000 < int (length (co_dump c request)) then Inl (ChatValue ''Omni request audit exceeds its bounded input contract.'')
      else if new_id \<in> om_id ` set (cs_runs st) then Inl ChatIntegrity
      else Inr (new_id, st\<lparr>cs_runs := cs_runs st @ [\<lparr>om_id = new_id, om_actor_id = actor, om_request_hash = co_sha c (co_dump c request),
        om_started_at = to_utc now, om_completed_at = None, om_status = OMNI_RUNNING, om_result_hash = None, om_result = None\<rparr>]\<rparr>))"

definition run_scope :: "string \<Rightarrow> string \<Rightarrow> omni_run \<Rightarrow> bool" where
  "run_scope i actor r = (om_id r = i \<and> om_actor_id r = actor)"

definition finish_run :: "codec \<Rightarrow> string \<Rightarrow> string \<Rightarrow> json \<Rightarrow> datetime \<Rightarrow> bool \<Rightarrow> unit chat_tx" where
  "finish_run c i actor res now failed st =
     (let encoded = co_dump c res; fingerprint = co_sha c encoded; status = (if failed then OMNI_FAILED else OMNI_ANSWER_RECORDED)
      in if \<not> aware now then Inl (ChatValue ''Omni completion requires an aware clock.'')
         else if 160000 < int (length encoded) then Inl (ChatValue ''Omni audit output exceeds its bounded record contract.'')
         else case first_match (run_scope i actor) (cs_runs st) of
           None \<Rightarrow> Inl (ChatKey ''Omni run is unavailable in this user scope.'')
         | Some r \<Rightarrow>
             (if om_status r \<noteq> OMNI_RUNNING
              then (if om_result_hash r = Some fingerprint \<and> om_status r = status then Inr ((), st)
                    else Inl (ChatValue ''A completed Omni run receipt is immutable.''))
              else if instant now < instant (om_started_at r) then Inl (ChatValue ''Completion cannot precede the run start.'')
              else Inr ((), st\<lparr>cs_runs := map (\<lambda>x. if run_scope i actor x then x\<lparr>om_status := status, om_completed_at := Some now,
                     om_result_hash := Some fingerprint, om_result := Some encoded\<rparr> else x) (cs_runs st)\<rparr>)))"

datatype operational_state = OP_STATUS omni_status | INTERRUPTED_OUTCOME_UNKNOWN

record omni_run_view =
  ov_run :: omni_run
  ov_operational_state :: operational_state
  ov_result :: "json option"

definition get_run :: "codec \<Rightarrow> string \<Rightarrow> string \<Rightarrow> datetime \<Rightarrow> chat_store \<Rightarrow> omni_run_view option" where
  "get_run c i actor now st = map_option (\<lambda>r. \<lparr>ov_run = r,
       ov_operational_state = (if om_status r = OMNI_RUNNING \<and> 300 * 1000000 < instant now - instant (om_started_at r)
         then INTERRUPTED_OUTCOME_UNKNOWN else OP_STATUS (om_status r)),
       ov_result = decoded c (om_result r)\<rparr>) (first_match (run_scope i actor) (cs_runs st))"

section \<open>Conversations\<close>

definition owner_key :: "codec \<Rightarrow> principal \<Rightarrow> string" where
  "owner_key c p = co_sha c (co_dump c (J_arr [j_opt J_str (pr_tenant_id p), J_str (pr_user_id p)]))"

definition live_of :: "string \<Rightarrow> datetime \<Rightarrow> conversation \<Rightarrow> bool" where
  "live_of key now v = (cv_owner_key v = key \<and> instant now < instant (cv_expires_at v))"

definition turn_run :: "json \<Rightarrow> json" where
  "turn_run t = j_read (j_read t ''response'') ''run_id''"

definition remove_conversation :: "conversation \<Rightarrow> chat_store \<Rightarrow> chat_store" where
  \<comment> \<open>\<open>_remove\<close>\<close>
  "remove_conversation row st =
     (let runs = filter py_truth (map turn_run (cv_turns row))
      in \<lparr>cs_runs = filter (\<lambda>r. J_str (om_id r) \<notin> set runs) (cs_runs st),
          cs_conversations = filter (\<lambda>v. \<not> (cv_id v = cv_id row \<and> cv_owner_key v = cv_owner_key row)) (cs_conversations st),
          cs_feedback = filter (\<lambda>f. \<not> (cf_conversation_id f = cv_id row \<and> cf_owner_key f = cv_owner_key row)) (cs_feedback st)\<rparr>)"

definition list_conversations :: "string \<Rightarrow> datetime \<Rightarrow> chat_store \<Rightarrow> conversation list \<times> chat_store" where
  \<comment> \<open>removes what has expired; the rows, of which the caller sees id, title, time and version\<close>
  "list_conversations key now st =
     (let expired = filter (\<lambda>v. cv_owner_key v = key \<and> instant (cv_expires_at v) \<le> instant now) (cs_conversations st);
          st' = foldl (\<lambda>st v. remove_conversation v st) st expired
      in (take 50 (sort_key (\<lambda>v. - instant (cv_updated_at v)) (filter (live_of key now) (cs_conversations st'))), st'))"

definition get_conversation :: "string \<Rightarrow> string \<Rightarrow> datetime \<Rightarrow> chat_store \<Rightarrow> (chat_error, conversation) result" where
  "get_conversation i key now st =
     (case first_match (\<lambda>v. cv_id v = i \<and> live_of key now v) (cs_conversations st) of
        None \<Rightarrow> Inl (ChatKey ''Conversation not found.'') | Some v \<Rightarrow> Inr v)"

definition retention :: "int \<Rightarrow> datetime \<Rightarrow> datetime" where
  "retention kept_days now = shift (kept_days * day_micros) now"

definition create_conversation :: "int \<Rightarrow> string \<Rightarrow> string \<Rightarrow> datetime \<Rightarrow> conversation chat_tx" where
  "create_conversation kept_days new_id key now st =
     (if new_id \<in> cv_id ` set (cs_conversations st) then Inl ChatIntegrity
      else let st' = st\<lparr>cs_conversations := cs_conversations st @ [\<lparr>cv_id = new_id, cv_owner_key = key, cv_title = ''New conversation'',
             cv_turns = [], cv_version = 1, cv_updated_at = now, cv_expires_at = retention kept_days now\<rparr>]\<rparr>
           in map_sum id (\<lambda>v. (v, st')) (get_conversation new_id key now st'))"

definition appended_title :: "string \<Rightarrow> json list \<Rightarrow> string" where
  "appended_title current turns =
     (if current = ''New conversation''
      then (case first_match (\<lambda>t. j_read t ''role'' = J_str ''user'') turns of
              None \<Rightarrow> ''New conversation'' | Some t \<Rightarrow> take 80 (default_to (j_text (j_read t ''text'')) []))
      else current)"

definition append_write :: "codec \<Rightarrow> int \<Rightarrow> conversation \<Rightarrow> string \<Rightarrow> datetime \<Rightarrow> int \<Rightarrow> json list \<Rightarrow> unit chat_tx" where
  \<comment> \<open>the second transaction of \<open>append\<close>, with the conversation its first one read\<close>
  "append_write c kept_days current key now version turns st =
     (let combined = cv_turns current @ turns
      in if 100 < length combined \<or> 600000 < int (length (co_dump c (J_arr combined)))
         then Inl (ChatValue ''This conversation is full. Start a new conversation.'')
         else if \<not> list_ex (\<lambda>v. cv_id v = cv_id current \<and> live_of key now v \<and> cv_version v = version) (cs_conversations st)
         then Inl (ChatValue ''Conversation changed. Reload before retrying.'')
         else Inr ((), st\<lparr>cs_conversations := map (\<lambda>v. if cv_id v = cv_id current \<and> live_of key now v \<and> cv_version v = version
                then v\<lparr>cv_turns := combined, cv_title := appended_title (cv_title current) combined, cv_version := version + 1,
                  cv_updated_at := now, cv_expires_at := retention kept_days now\<rparr> else v) (cs_conversations st)\<rparr>))"

definition append_turns :: "codec \<Rightarrow> int \<Rightarrow> string \<Rightarrow> string \<Rightarrow> datetime \<Rightarrow> int \<Rightarrow> json list \<Rightarrow> conversation chat_tx" where
  "append_turns c kept_days i key now version turns st =
     bind_r (get_conversation i key now st) (\<lambda>current.
     bind_r (append_write c kept_days current key now version turns st) (\<lambda>(_, st').
     map_sum id (\<lambda>v. (v, st')) (get_conversation i key now st')))"

definition rename_conversation :: "string \<Rightarrow> string \<Rightarrow> datetime \<Rightarrow> string \<Rightarrow> conversation chat_tx" where
  "rename_conversation i key now title st =
     (if blank title \<or> 80 < length title then Inl (ChatValue ''Use a title of at most 80 characters.'')
      else bind_r (get_conversation i key now st) (\<lambda>_.
        let st' = st\<lparr>cs_conversations := map (\<lambda>v. if cv_id v = i \<and> cv_owner_key v = key
              then v\<lparr>cv_title := strip title, cv_updated_at := now\<rparr> else v) (cs_conversations st)\<rparr>
        in map_sum id (\<lambda>v. (v, st')) (get_conversation i key now st')))"

definition delete_conversation :: "string \<Rightarrow> string \<Rightarrow> datetime \<Rightarrow> unit chat_tx" where
  "delete_conversation i key now st =
     bind_r (get_conversation i key now st) (\<lambda>_.
       Inr ((), case first_match (\<lambda>v. cv_id v = i \<and> cv_owner_key v = key) (cs_conversations st) of
                  None \<Rightarrow> st | Some v \<Rightarrow> remove_conversation v st))"

definition rate_answer :: "string \<Rightarrow> string \<Rightarrow> string \<Rightarrow> datetime \<Rightarrow> string \<Rightarrow> string \<Rightarrow> string \<Rightarrow> string chat_tx" where
  "rate_answer new_id i key now run_id rating reason st =
     bind_r (get_conversation i key now st) (\<lambda>thread.
       if rating \<notin> {''up'', ''down''} \<or> 500 < length reason \<or> \<not> list_ex (\<lambda>t. turn_run t = J_str run_id) (cv_turns thread)
       then Inl (ChatValue ''Feedback must reference an answer in this conversation.'')
       else if new_id \<in> cf_id ` set (cs_feedback st) then Inl ChatIntegrity
       else Inr (new_id, st\<lparr>cs_feedback := cs_feedback st @ [\<lparr>cf_id = new_id, cf_conversation_id = i, cf_owner_key = key,
              cf_run_id = run_id, cf_rating = rating, cf_reason = reason, cf_created_at = now\<rparr>]\<rparr>))"

section \<open>Steps\<close>

datatype chat_op =
    Ch_start string string json datetime
  | Ch_finish string string json datetime bool
  | Ch_list string datetime
  | Ch_create string string datetime
  | Ch_append_write conversation string datetime int "json list"
  | Ch_rename string string datetime string
  | Ch_delete string string datetime
  | Ch_rate string string string datetime string string string

fun chat_step :: "codec \<Rightarrow> int \<Rightarrow> chat_op \<Rightarrow> chat_store \<Rightarrow> chat_store" where
  "chat_step c kept_days (Ch_start n actor request now) st = (case start_run c n actor request now st of Inl _ \<Rightarrow> st | Inr (_, st') \<Rightarrow> st')"
| "chat_step c kept_days (Ch_finish i actor res now failed) st = (case finish_run c i actor res now failed st of Inl _ \<Rightarrow> st | Inr (_, st') \<Rightarrow> st')"
| "chat_step c kept_days (Ch_list key now) st = snd (list_conversations key now st)"
| "chat_step c kept_days (Ch_create n key now) st = (case create_conversation kept_days n key now st of Inl _ \<Rightarrow> st | Inr (_, st') \<Rightarrow> st')"
| "chat_step c kept_days (Ch_append_write v key now version turns) st =
     (case append_write c kept_days v key now version turns st of Inl _ \<Rightarrow> st | Inr (_, st') \<Rightarrow> st')"
| "chat_step c kept_days (Ch_rename i key now title) st = (case rename_conversation i key now title st of Inl _ \<Rightarrow> st | Inr (_, st') \<Rightarrow> st')"
| "chat_step c kept_days (Ch_delete i key now) st = (case delete_conversation i key now st of Inl _ \<Rightarrow> st | Inr (_, st') \<Rightarrow> st')"
| "chat_step c kept_days (Ch_rate n i key now run_id rating reason) st =
     (case rate_answer n i key now run_id rating reason st of Inl _ \<Rightarrow> st | Inr (_, st') \<Rightarrow> st')"

text \<open>
  Windows at work: any number of appends are between their two transactions while other requests come in. An append
  writes what its own first transaction read, at the time it was called with and over the version its caller named;
  an append that never gets to write is one whose request died.
\<close>

record append_request =
  ar_read :: conversation
  ar_key :: string
  ar_now :: datetime
  ar_version :: int
  ar_turns :: "json list"

record chat_world =
  ch_store :: chat_store
  ch_appends :: "append_request list"

datatype chat_act =
    Ca_request chat_op
  | Ca_append string string datetime int "json list"
  | Ca_write nat

definition append_read :: "string \<Rightarrow> string \<Rightarrow> datetime \<Rightarrow> int \<Rightarrow> json list \<Rightarrow> chat_store \<Rightarrow> (chat_error, append_request) result" where
  "append_read i key now version turns st = bind_r (get_conversation i key now st) (\<lambda>current.
     Inr \<lparr>ar_read = current, ar_key = key, ar_now = now, ar_version = version, ar_turns = turns\<rparr>)"

definition write_of :: "codec \<Rightarrow> int \<Rightarrow> append_request \<Rightarrow> unit chat_tx" where
  "write_of c kept_days f = append_write c kept_days (ar_read f) (ar_key f) (ar_now f) (ar_version f) (ar_turns f)"

fun chat_do :: "codec \<Rightarrow> int \<Rightarrow> chat_act \<Rightarrow> chat_world \<Rightarrow> chat_world" where
  "chat_do c kept_days (Ca_request op) w =
     (case op of Ch_append_write v key now version turns \<Rightarrow> w | _ \<Rightarrow> w\<lparr>ch_store := chat_step c kept_days op (ch_store w)\<rparr>)"
| "chat_do c kept_days (Ca_append i key now version turns) w =
     (case append_read i key now version turns (ch_store w) of Inl _ \<Rightarrow> w | Inr f \<Rightarrow> w\<lparr>ch_appends := ch_appends w @ [f]\<rparr>)"
| "chat_do c kept_days (Ca_write n) w =
     (if n < length (ch_appends w)
      then w\<lparr>ch_store := (case write_of c kept_days (ch_appends w ! n) (ch_store w) of Inl _ \<Rightarrow> ch_store w | Inr (_, st') \<Rightarrow> st'),
             ch_appends := take n (ch_appends w) @ drop (Suc n) (ch_appends w)\<rparr>
      else w)"

text \<open>A run, its last act first.\<close>

fun chat_world_of :: "codec \<Rightarrow> int \<Rightarrow> chat_act list \<Rightarrow> chat_world" where
  "chat_world_of c kept_days [] = \<lparr>ch_store = \<lparr>cs_runs = [], cs_conversations = [], cs_feedback = []\<rparr>, ch_appends = []\<rparr>"
| "chat_world_of c kept_days (a # acts) = chat_do c kept_days a (chat_world_of c kept_days acts)"

end
