(* ===== verification/ChatProps.thy ===== *)
theory ChatProps
  imports PrivateChat
begin

text \<open>What holds however the requests of a user's windows and of other users interleave.\<close>

section \<open>Rows and runs\<close>

definition chat_run :: "codec \<Rightarrow> int \<Rightarrow> chat_op list \<Rightarrow> chat_store \<Rightarrow> chat_store" where
  "chat_run c kd ops st = foldl (\<lambda>st op. chat_step c kd op st) st ops"

definition find_conversation :: "chat_store \<Rightarrow> string \<Rightarrow> conversation option" where
  "find_conversation st i = first_match (\<lambda>v. cv_id v = i) (cs_conversations st)"

definition ids_unique :: "chat_store \<Rightarrow> bool" where
  "ids_unique st = distinct (map cv_id (cs_conversations st))"

fun created :: "chat_act list \<Rightarrow> string list" where
  \<comment> \<open>the ids given to new conversations\<close>
  "created [] = []"
| "created (Ca_request (Ch_create n key now) # acts) = n # created acts"
| "created (a # acts) = created acts"

fun starts :: "chat_op \<Rightarrow> string option" where
  "starts (Ch_start n actor request now) = Some n"
| "starts _ = None"

text \<open>How a request changes the table of conversations: it keeps rows as they are but for title and time, removes some or adds one.\<close>

inductive table_change :: "chat_op \<Rightarrow> conversation list \<Rightarrow> conversation list \<Rightarrow> bool" where
  same: "table_change op rows rows"
| removed: "table_change op rows (filter P rows)"
| updated: "(\<And>v. cv_id (f v) = cv_id v \<and> cv_owner_key (f v) = cv_owner_key v \<and> cv_version (f v) = cv_version v \<and> cv_turns (f v) = cv_turns v)
    \<Longrightarrow> table_change op rows (map f rows)"
| inserted: "cv_id n \<notin> cv_id ` set rows \<Longrightarrow> table_change (Ch_create (cv_id n) key now) rows (rows @ [n])"

lemma remove_conversations: "cs_conversations (foldl (\<lambda>st v. remove_conversation v st) st vs)
    = filter (\<lambda>v. \<forall>w\<in>set vs. \<not> (cv_id v = cv_id w \<and> cv_owner_key v = cv_owner_key w)) (cs_conversations st)"
proof (induction vs arbitrary: st)
  case (Cons w vs)
  then show ?case by (simp add: remove_conversation_def Let_def conj_commute)
qed simp

lemma map_sum_Inr: "map_sum id f m = Inr y \<longleftrightarrow> (\<exists>x. m = Inr x \<and> y = f x)"
  by (cases m) auto

lemma request_changes:
  assumes "\<And>v key now version turns. op \<noteq> Ch_append_write v key now version turns"
  shows "table_change op (cs_conversations st) (cs_conversations (chat_step c kd op st))"
proof (cases op)
  case (Ch_start n actor request now)
  then show ?thesis by (auto simp: start_run_def intro: table_change.same)
next
  case (Ch_finish i actor res now failed)
  then show ?thesis by (auto simp: finish_run_def Let_def intro: table_change.same split: option.split)
next
  case (Ch_list key now)
  then show ?thesis by (simp add: list_conversations_def Let_def remove_conversations table_change.removed)
next
  case (Ch_create n key now)
  then show ?thesis
    by (auto simp: create_conversation_def Let_def map_sum_Inr intro: table_change.same table_change.inserted[of "\<lparr>cv_id = n, cv_owner_key = key, cv_title = ''New conversation'',
        cv_turns = [], cv_version = 1, cv_updated_at = now, cv_expires_at = retention kd now\<rparr>", simplified] split: sum.split)
next
  case (Ch_append_write v key now version turns)
  then show ?thesis using assms by blast
next
  case (Ch_rename i key now title)
  have "table_change k rows (map (\<lambda>v. if cv_id v = i \<and> cv_owner_key v = key then v\<lparr>cv_title := strip title, cv_updated_at := now\<rparr> else v) rows)"
    for k rows by (rule table_change.updated) simp
  then show ?thesis using Ch_rename by (auto simp: rename_conversation_def Let_def map_sum_Inr bind_r_Inr intro: table_change.same split: sum.split)
next
  case (Ch_delete i key now)
  then show ?thesis
    by (auto simp: delete_conversation_def remove_conversation_def Let_def bind_r_Inr intro: table_change.same table_change.removed split: sum.split option.split)
next
  case (Ch_rate n i key now run_id rating reason)
  then show ?thesis by (auto simp: rate_answer_def bind_r_Inr intro: table_change.same split: sum.split)
qed

lemma change_ids: "table_change op rows rows' \<Longrightarrow> distinct (map cv_id rows) \<Longrightarrow> distinct (map cv_id rows')"
proof (induction rule: table_change.induct)
  case (removed op rows P)
  then show ?case by (simp add: distinct_map_filter)
next
  case (updated f op rows)
  have e: "map cv_id (map f rows) = map cv_id rows" using updated.hyps by simp
  show ?case unfolding e by (rule updated.prems)
qed auto

lemma find_member: "distinct (map cv_id rows) \<Longrightarrow> first_match (\<lambda>v. cv_id v = i) rows = Some v \<longleftrightarrow> v \<in> set rows \<and> cv_id v = i"
  using row_by_eq_iff[of cv_id rows i v] by (simp add: row_by_def)

lemma find_iff: "ids_unique st \<Longrightarrow> find_conversation st i = Some v \<longleftrightarrow> v \<in> set (cs_conversations st) \<and> cv_id v = i"
  unfolding find_conversation_def ids_unique_def by (rule find_member)

lemma change_back:
  assumes "table_change op rows rows'" "v' \<in> set rows'" "\<And>key now. op \<noteq> Ch_create (cv_id v') key now"
  shows "\<exists>v\<in>set rows. cv_id v = cv_id v' \<and> cv_owner_key v = cv_owner_key v' \<and> cv_version v = cv_version v' \<and> cv_turns v = cv_turns v'"
  using assms
proof (induction rule: table_change.induct)
  case (updated f op rows)
  then obtain x where x: "x \<in> set rows" "v' = f x" by auto
  then show ?case using updated.hyps[of x] by auto
qed auto

lemma write_effect:
  assumes "ids_unique st" "append_write c kd v key now version turns st = Inr (u, st')"
  shows "\<exists>w. find_conversation st (cv_id v) = Some w \<and> cv_version w = version
    \<and> (\<exists>w'. find_conversation st' (cv_id v) = Some w' \<and> cv_turns w' = cv_turns v @ turns \<and> cv_version w' = version + 1
          \<and> cv_owner_key w' = cv_owner_key w)
    \<and> (\<forall>x'\<in>set (cs_conversations st'). cv_id x' \<noteq> cv_id v \<longrightarrow> x' \<in> set (cs_conversations st))
    \<and> map cv_id (cs_conversations st') = map cv_id (cs_conversations st)"
proof -
  have r: "list_ex (\<lambda>x. cv_id x = cv_id v \<and> live_of key now x \<and> cv_version x = version) (cs_conversations st)"
    using assms(2) by (auto simp: append_write_def Let_def split: if_splits)
  then obtain w where w: "w \<in> set (cs_conversations st)" "cv_id w = cv_id v" "live_of key now w" "cv_version w = version"
    by (auto simp: list_ex_iff)
  let ?f = "\<lambda>x. if cv_id x = cv_id v \<and> live_of key now x \<and> cv_version x = version
      then x\<lparr>cv_turns := cv_turns v @ turns, cv_title := appended_title (cv_title v) (cv_turns v @ turns), cv_version := version + 1,
        cv_updated_at := now, cv_expires_at := retention kd now\<rparr> else x"
  have st': "st' = st\<lparr>cs_conversations := map ?f (cs_conversations st)\<rparr>"
    using assms(2) by (auto simp: append_write_def Let_def split: if_splits)
  have ids: "map cv_id (map ?f (cs_conversations st)) = map cv_id (cs_conversations st)" by simp
  have rows: "cs_conversations st' = map ?f (cs_conversations st)" by (simp add: st')
  have u': "ids_unique st'" unfolding ids_unique_def rows ids using assms(1) by (simp only: ids_unique_def)
  have "?f w \<in> set (cs_conversations st')" using w(1) unfolding st' by auto
  then have "find_conversation st' (cv_id v) = Some (?f w)"
    using w(2) unfolding find_iff[OF u'] by simp
  moreover have "find_conversation st (cv_id v) = Some w"
    using w(1,2) unfolding find_iff[OF assms(1)] by simp
  moreover have "\<forall>x'\<in>set (cs_conversations st'). cv_id x' \<noteq> cv_id v \<longrightarrow> x' \<in> set (cs_conversations st)"
    unfolding rows by auto
  moreover have "map cv_id (cs_conversations st') = map cv_id (cs_conversations st)" unfolding rows by (rule ids)
  moreover have "cv_turns (?f w) = cv_turns v @ turns" "cv_version (?f w) = version + 1" "cv_owner_key (?f w) = cv_owner_key w"
    using w by simp_all
  ultimately show ?thesis using w(4) by blast
qed

section \<open>Windows\<close>

text \<open>A caller names a version it has seen: none that is still to come when its append reads the conversation.\<close>

fun informed :: "codec \<Rightarrow> int \<Rightarrow> chat_act list \<Rightarrow> bool" where
  "informed c kd [] = True"
| "informed c kd (Ca_append i key now version turns # acts) = (informed c kd acts
     \<and> (case get_conversation i key now (ch_store (chat_world_of c kd acts)) of Inl _ \<Rightarrow> True | Inr v \<Rightarrow> version \<le> cv_version v))"
| "informed c kd (a # acts) = informed c kd acts"

definition append_ok :: "chat_act list \<Rightarrow> chat_store \<Rightarrow> append_request \<Rightarrow> bool" where
  "append_ok acts st f \<longleftrightarrow> cv_id (ar_read f) \<in> set (created acts) \<and> ar_version f \<le> cv_version (ar_read f)
     \<and> (\<forall>v. find_conversation st (cv_id (ar_read f)) = Some v \<longrightarrow> cv_version (ar_read f) \<le> cv_version v
          \<and> (cv_version (ar_read f) = cv_version v \<longrightarrow> cv_turns v = cv_turns (ar_read f)))"

definition chats_ok :: "chat_act list \<Rightarrow> chat_world \<Rightarrow> bool" where
  "chats_ok acts w \<longleftrightarrow> ids_unique (ch_store w) \<and> (\<forall>v\<in>set (cs_conversations (ch_store w)). cv_id v \<in> set (created acts))
     \<and> (\<forall>f\<in>set (ch_appends w). append_ok acts (ch_store w) f)"

lemma created_step: "set (created acts) \<subseteq> set (created (a # acts))" "created (later @ acts) = created later @ created acts"
proof -
  show "set (created acts) \<subseteq> set (created (a # acts))" by (cases "a # acts" rule: created.cases) auto
  show "created (later @ acts) = created later @ created acts" by (induction later rule: created.induct) simp_all
qed

text \<open>Under the invariant, a write that succeeds extends the stored turns.\<close>

lemma write_extends:
  assumes ok: "chats_ok acts w" and f: "f \<in> set (ch_appends w)" and x: "write_of c kd f (ch_store w) = Inr (u, st')"
  shows "\<exists>v v'. find_conversation (ch_store w) (cv_id (ar_read f)) = Some v \<and> find_conversation st' (cv_id (ar_read f)) = Some v'
    \<and> cv_turns v' = cv_turns v @ ar_turns f \<and> cv_version v' = cv_version v + 1 \<and> cv_owner_key v' = cv_owner_key v
    \<and> (\<forall>x'\<in>set (cs_conversations st'). cv_id x' \<noteq> cv_id (ar_read f) \<longrightarrow> x' \<in> set (cs_conversations (ch_store w)))
    \<and> map cv_id (cs_conversations st') = map cv_id (cs_conversations (ch_store w))"
proof -
  have u: "ids_unique (ch_store w)" and a: "append_ok acts (ch_store w) f" using ok f by (simp_all add: chats_ok_def)
  obtain v v' where v: "find_conversation (ch_store w) (cv_id (ar_read f)) = Some v" "cv_version v = ar_version f"
    "find_conversation st' (cv_id (ar_read f)) = Some v'" "cv_turns v' = cv_turns (ar_read f) @ ar_turns f"
    "cv_version v' = ar_version f + 1" "cv_owner_key v' = cv_owner_key v"
    and rest: "\<forall>x'\<in>set (cs_conversations st'). cv_id x' \<noteq> cv_id (ar_read f) \<longrightarrow> x' \<in> set (cs_conversations (ch_store w))"
    "map cv_id (cs_conversations st') = map cv_id (cs_conversations (ch_store w))"
    using write_effect[OF u x[unfolded write_of_def]] by blast
  have "cv_version (ar_read f) = cv_version v" using a v(1,2) by (auto simp: append_ok_def)
  then have "cv_turns v = cv_turns (ar_read f)" using a v(1) by (simp add: append_ok_def)
  then show ?thesis using v rest by auto
qed

text \<open>What one act does to a conversation it does not create.\<close>

definition grown_from :: "conversation \<Rightarrow> conversation \<Rightarrow> bool" where
  "grown_from v v' \<longleftrightarrow> cv_owner_key v' = cv_owner_key v \<and> cv_version v \<le> cv_version v'
     \<and> (\<exists>turns. cv_turns v' = cv_turns v @ turns \<and> (cv_version v' = cv_version v \<longrightarrow> turns = []))"

lemma grown_trans: "grown_from a b \<Longrightarrow> grown_from b d \<Longrightarrow> grown_from a d"
  by (auto simp: grown_from_def)

lemma grown_refl [simp]: "grown_from v v"
  by (simp add: grown_from_def)

lemma act_grows:
  assumes ok: "chats_ok acts w" and new: "i \<notin> set (created [a])"
    and v': "v' \<in> set (cs_conversations (ch_store (chat_do c kd a w)))" "cv_id v' = i"
  shows "\<exists>v\<in>set (cs_conversations (ch_store w)). cv_id v = i \<and> grown_from v v'"
proof (cases a)
  case (Ca_request op)
  show ?thesis
  proof (cases "\<exists>v key now version turns. op = Ch_append_write v key now version turns")
    case True
    then show ?thesis using v' Ca_request by (auto intro: bexI[of _ v'])
  next
    case False
    then have st: "ch_store (chat_do c kd a w) = chat_step c kd op (ch_store w)" using Ca_request by (cases op) simp_all
    have n: "op \<noteq> Ch_create (cv_id v') key now" for key now using new Ca_request v'(2) by auto
    have "\<exists>v\<in>set (cs_conversations (ch_store w)). cv_id v = cv_id v' \<and> cv_owner_key v = cv_owner_key v' \<and> cv_version v = cv_version v' \<and> cv_turns v = cv_turns v'"
      by (rule change_back[OF request_changes v'(1)[unfolded st] n]) (use False in auto)
    then show ?thesis using v'(2) by (auto simp: grown_from_def)
  qed
next
  case (Ca_append i' key now version turns)
  then show ?thesis using v' by (auto split: sum.splits intro: bexI[of _ v'])
next
  case (Ca_write n)
  show ?thesis
  proof (cases "n < length (ch_appends w) \<and> (\<exists>u st'. write_of c kd (ch_appends w ! n) (ch_store w) = Inr (u, st'))")
    case True
    then obtain u st' where n: "n < length (ch_appends w)" and x: "write_of c kd (ch_appends w ! n) (ch_store w) = Inr (u, st')" by blast
    let ?f = "ch_appends w ! n"
    have st: "ch_store (chat_do c kd a w) = st'" using Ca_write n x by simp
    obtain v0 v1 where e: "find_conversation (ch_store w) (cv_id (ar_read ?f)) = Some v0" "find_conversation st' (cv_id (ar_read ?f)) = Some v1"
      "cv_turns v1 = cv_turns v0 @ ar_turns ?f" "cv_version v1 = cv_version v0 + 1" "cv_owner_key v1 = cv_owner_key v0"
      and rest: "\<forall>x'\<in>set (cs_conversations st'). cv_id x' \<noteq> cv_id (ar_read ?f) \<longrightarrow> x' \<in> set (cs_conversations (ch_store w))"
      "map cv_id (cs_conversations st') = map cv_id (cs_conversations (ch_store w))"
      using write_extends[OF ok nth_mem[OF n] x] by blast
    have u: "ids_unique (ch_store w)" "ids_unique st'" using ok rest(2) by (simp_all add: chats_ok_def ids_unique_def)
    show ?thesis
    proof (cases "i = cv_id (ar_read ?f)")
      case True
      then have "v' = v1" using e(2) v' st find_iff[OF u(2)] by (metis option.inject)
      then show ?thesis using e True find_iff[OF u(1)] by (auto simp: grown_from_def)
    next
      case False
      then show ?thesis using rest(1) v' st by auto
    qed
  next
    case False
    then have "ch_store (chat_do c kd a w) = ch_store w" using Ca_write by (auto split: sum.splits)
    then show ?thesis using v' by auto
  qed
qed

lemma act_ids:
  assumes ok: "chats_ok acts w"
  shows "ids_unique (ch_store (chat_do c kd a w))"
proof (cases a)
  case (Ca_request op)
  show ?thesis
  proof (cases "\<exists>v key now version turns. op = Ch_append_write v key now version turns")
    case False
    then have st: "ch_store (chat_do c kd a w) = chat_step c kd op (ch_store w)" using Ca_request by (cases op) simp_all
    have "table_change op (cs_conversations (ch_store w)) (cs_conversations (chat_step c kd op (ch_store w)))"
      by (rule request_changes) (use False in auto)
    then show ?thesis using change_ids ok unfolding st by (auto simp: chats_ok_def ids_unique_def)
  qed (use ok Ca_request in \<open>auto simp: chats_ok_def\<close>)
next
  case (Ca_append i key now version turns)
  then show ?thesis using ok by (auto simp: chats_ok_def split: sum.splits)
next
  case (Ca_write n)
  show ?thesis
  proof (cases "n < length (ch_appends w) \<and> (\<exists>u st'. write_of c kd (ch_appends w ! n) (ch_store w) = Inr (u, st'))")
    case True
    then obtain u st' where x: "write_of c kd (ch_appends w ! n) (ch_store w) = Inr (u, st')" by blast
    have "map cv_id (cs_conversations st') = map cv_id (cs_conversations (ch_store w))"
      using write_extends[OF ok nth_mem x] True by blast
    then show ?thesis using ok True x Ca_write by (simp add: chats_ok_def ids_unique_def)
  next
    case False
    then have "ch_store (chat_do c kd a w) = ch_store w" using Ca_write by (auto split: sum.splits)
    then show ?thesis using ok by (simp add: chats_ok_def)
  qed
qed

lemma chats_ok_step:
  assumes ok: "chats_ok acts w" and w: "w = chat_world_of c kd acts"
    and seen: "informed c kd (a # acts)" and fresh: "distinct (created (a # acts))"
  shows "chats_ok (a # acts) (chat_do c kd a w)"
proof -
  have u: "ids_unique (ch_store w)" using ok by (simp add: chats_ok_def)
  have ids: "cv_id v' \<in> set (created (a # acts))" if "v' \<in> set (cs_conversations (ch_store (chat_do c kd a w)))" for v'
  proof (cases "cv_id v' \<in> set (created [a])")
    case True
    then show ?thesis using created_step(2)[of "[a]" acts] by simp
  next
    case False
    from act_grows[OF ok this that refl] show ?thesis using ok created_step(1)[of acts a] by (auto simp: chats_ok_def)
  qed
  have kept: "append_ok (a # acts) (ch_store (chat_do c kd a w)) f" if f: "f \<in> set (ch_appends w)" for f
  proof -
    let ?i = "cv_id (ar_read f)"
    have o: "append_ok acts (ch_store w) f" using ok f by (simp add: chats_ok_def)
    then have "?i \<notin> set (created [a])" using fresh created_step(2)[of "[a]" acts] by (auto simp: append_ok_def)
    then have "cv_version (ar_read f) \<le> cv_version v' \<and> (cv_version (ar_read f) = cv_version v' \<longrightarrow> cv_turns v' = cv_turns (ar_read f))"
      if "find_conversation (ch_store (chat_do c kd a w)) ?i = Some v'" for v'
    proof -
      have "v' \<in> set (cs_conversations (ch_store (chat_do c kd a w)))" "cv_id v' = ?i"
        using that find_iff[OF act_ids[OF ok]] by auto
      from act_grows[OF ok \<open>?i \<notin> _\<close> this] obtain v where v: "find_conversation (ch_store w) ?i = Some v" "grown_from v v'"
        using find_iff[OF u] by blast
      have r: "cv_version (ar_read f) \<le> cv_version v" "cv_version (ar_read f) = cv_version v \<longrightarrow> cv_turns v = cv_turns (ar_read f)"
        using o v(1) by (simp_all add: append_ok_def)
      obtain turns where g: "cv_version v \<le> cv_version v'" "cv_turns v' = cv_turns v @ turns" "cv_version v' = cv_version v \<longrightarrow> turns = []"
        using v(2) by (auto simp: grown_from_def)
      show ?thesis using r g by auto
    qed
    then show ?thesis using o created_step(1)[of acts a] by (auto simp: append_ok_def)
  qed
  have flights: "append_ok (a # acts) (ch_store (chat_do c kd a w)) f" if f: "f \<in> set (ch_appends (chat_do c kd a w))" for f
  proof (cases "f \<in> set (ch_appends w)")
    case False
    obtain i key now version turns where a: "a = Ca_append i key now version turns" "append_read i key now version turns (ch_store w) = Inr f"
    proof (cases a)
      case (Ca_request op)
      then show ?thesis using f False by (cases op) simp_all
    next
      case (Ca_append i key now version turns)
      then show ?thesis using f False that by (auto split: sum.splits)
    next
      case (Ca_write n)
      then show ?thesis using f False by (auto split: if_splits dest: in_set_takeD in_set_dropD)
    qed
    obtain v where v: "get_conversation i key now (ch_store w) = Inr v" "f = \<lparr>ar_read = v, ar_key = key, ar_now = now, ar_version = version, ar_turns = turns\<rparr>"
      using a(2) by (auto simp: append_read_def bind_r_Inr)
    have m: "v \<in> set (cs_conversations (ch_store w))"
      using v(1) by (auto simp: get_conversation_def dest!: first_match_Some split: option.splits)
    have "version \<le> cv_version v" using seen v(1) w a(1) by simp
    moreover have "cv_id v \<in> set (created acts)" using m ok by (simp add: chats_ok_def)
    moreover have "find_conversation (ch_store w) (cv_id v) = Some v" using m find_iff[OF u] by simp
    moreover have "ch_store (chat_do c kd a w) = ch_store w" using a by simp
    ultimately show ?thesis using v(2) a(1) by (simp add: append_ok_def)
  qed (rule kept)
  show ?thesis using act_ids[OF ok] ids flights by (simp add: chats_ok_def)
qed

lemma chats_ok_run: "informed c kd acts \<Longrightarrow> distinct (created acts) \<Longrightarrow> chats_ok acts (chat_world_of c kd acts)"
proof (induction acts)
  case Nil
  show ?case by (simp add: chats_ok_def ids_unique_def)
next
  case (Cons a acts)
  have "informed c kd acts" using Cons.prems(1) by (cases a) simp_all
  moreover have "distinct (created acts)" using Cons.prems(2) created_step(2)[of "[a]" acts] by simp
  ultimately show ?case using chats_ok_step[OF Cons.IH refl Cons.prems] by simp
qed

lemma informed_earlier: "informed c kd (later @ acts) \<Longrightarrow> informed c kd acts"
proof (induction later)
  case (Cons a later)
  then have "informed c kd (later @ acts)" by (cases a) simp_all
  then show ?case by (rule Cons.IH)
qed simp

lemma run_grows:
  assumes "informed c kd (later @ earlier)" "distinct (created (later @ earlier))" "i \<notin> set (created later)"
    "v' \<in> set (cs_conversations (ch_store (chat_world_of c kd (later @ earlier))))" "cv_id v' = i"
  shows "\<exists>v\<in>set (cs_conversations (ch_store (chat_world_of c kd earlier))). cv_id v = i \<and> grown_from v v'"
  using assms
proof (induction later arbitrary: v')
  case (Cons a later)
  have i: "informed c kd (later @ earlier)" using informed_earlier[of c kd "[a]"] Cons.prems(1) by simp
  have d: "distinct (created (later @ earlier))" using Cons.prems(2) created_step(2)[of "[a]" "later @ earlier"] by simp
  have n: "i \<notin> set (created [a])" "i \<notin> set (created later)" using Cons.prems(3) created_step(2)[of "[a]" later] by simp_all
  obtain w where w: "w \<in> set (cs_conversations (ch_store (chat_world_of c kd (later @ earlier))))" "cv_id w = i" "grown_from w v'"
    using act_grows[OF chats_ok_run[OF i d] n(1) _ Cons.prems(5)] Cons.prems(4) by auto
  from Cons.IH[OF i d n(2) w(1,2)] w(3) grown_trans show ?case by blast
qed auto

section \<open>Properties\<close>

text \<open>
  C15. No turn of a conversation is lost while it lives: however the requests of all windows and the two transactions
  of any number of appends interleave, when no caller names a version that is still to come and new conversations get
  new ids, the turns stored at any moment are a prefix of those stored at any later one, and the same as long as the
  version is; and a write that succeeds puts its turns right after all that are stored at that moment and raises the
  version by one.
\<close>

theorem appended_turns_are_never_lost:
  assumes "informed c kd (later @ earlier)" "distinct (created (later @ earlier))"
    and "find_conversation (ch_store (chat_world_of c kd earlier)) i = Some v"
    and "find_conversation (ch_store (chat_world_of c kd (later @ earlier))) i = Some v'"
  shows "cv_owner_key v' = cv_owner_key v \<and> cv_version v \<le> cv_version v'
    \<and> (\<exists>turns. cv_turns v' = cv_turns v @ turns \<and> (cv_version v' = cv_version v \<longrightarrow> turns = []))
    \<and> (\<forall>f\<in>set (ch_appends (chat_world_of c kd (later @ earlier))). \<forall>u st'.
         cv_id (ar_read f) = i \<and> write_of c kd f (ch_store (chat_world_of c kd (later @ earlier))) = Inr (u, st')
         \<longrightarrow> (\<exists>w. find_conversation st' i = Some w \<and> cv_turns w = cv_turns v' @ ar_turns f \<and> cv_version w = cv_version v' + 1))"
proof -
  note end_ok = chats_ok_run[OF assms(1,2)]
  have d: "distinct (created earlier)" using assms(2) unfolding created_step(2) by simp
  note start_ok = chats_ok_run[OF informed_earlier[OF assms(1)] d]
  have u: "ids_unique (ch_store (chat_world_of c kd earlier))" "ids_unique (ch_store (chat_world_of c kd (later @ earlier)))"
    using start_ok end_ok by (simp_all add: chats_ok_def)
  have v: "v \<in> set (cs_conversations (ch_store (chat_world_of c kd earlier)))" "cv_id v = i" using assms(3) find_iff[OF u(1)] by auto
  have "i \<in> set (created earlier)" using v start_ok by (auto simp: chats_ok_def)
  then have n: "i \<notin> set (created later)" using assms(2) unfolding created_step(2) by auto
  have v': "v' \<in> set (cs_conversations (ch_store (chat_world_of c kd (later @ earlier))))" "cv_id v' = i"
    using assms(4) find_iff[OF u(2)] by auto
  obtain x where x: "x \<in> set (cs_conversations (ch_store (chat_world_of c kd earlier)))" "cv_id x = i" "grown_from x v'"
    using run_grows[OF assms(1,2) n v'] by blast
  then have "x = v" using find_iff[OF u(1)] assms(3) by (metis option.inject)
  then have "grown_from v v'" using x(3) by simp
  moreover have "\<exists>w. find_conversation st' i = Some w \<and> cv_turns w = cv_turns v' @ ar_turns f \<and> cv_version w = cv_version v' + 1"
    if "f \<in> set (ch_appends (chat_world_of c kd (later @ earlier)))" "cv_id (ar_read f) = i"
      "write_of c kd f (ch_store (chat_world_of c kd (later @ earlier))) = Inr (u, st')" for f u st'
    using write_extends[OF end_ok that(1,3)] that(2) assms(4) by auto
  ultimately show ?thesis by (auto simp: grown_from_def)
qed

definition empty_chat :: chat_store where
  "empty_chat = \<lparr>cs_runs = [], cs_conversations = [], cs_feedback = []\<rparr>"

definition noon :: datetime where "noon = \<lparr>dt_local = 63900000000000000, dt_offset = Some 0\<rparr>"

definition user_turn :: "string \<Rightarrow> json" where
  "user_turn text = J_obj [(''role'', J_str ''user''), (''text'', J_str text)]"

definition demo_chat :: chat_store where
  "demo_chat = chat_step demo_codec 30 (Ch_create ''c1'' ''me'' noon) empty_chat"

definition demo_thread :: conversation where
  "demo_thread = \<lparr>cv_id = ''c1'', cv_owner_key = ''me'', cv_title = ''New conversation'', cv_turns = [], cv_version = 1,
     cv_updated_at = noon, cv_expires_at = retention 30 noon\<rparr>"

definition say :: "int \<Rightarrow> string \<Rightarrow> chat_act" where
  "say version text = Ca_append ''c1'' ''me'' noon version [user_turn text]"

text \<open>Two windows append at once; the second write is refused, and a third append follows.\<close>

definition demo_windows :: "chat_act list" where
  "demo_windows = [say 2 ''third'', Ca_write 0, Ca_write 0, Ca_request (Ch_rename ''c1'' ''me'' noon ''Boeing''), say 1 ''again'', say 1 ''hello'',
     Ca_request (Ch_create ''c1'' ''me'' noon)]"

lemma demo_windows_facts:
  "informed demo_codec 30 demo_windows" "distinct (created demo_windows)"
  "map_option cv_turns (find_conversation (ch_store (chat_world_of demo_codec 30 (drop 6 demo_windows))) ''c1'') = Some []"
  "map_option cv_turns (find_conversation (ch_store (chat_world_of demo_codec 30 demo_windows)) ''c1'') = Some [user_turn ''hello'']"
  "map (\<lambda>f. (cv_id (ar_read f), ar_turns f)) (ch_appends (chat_world_of demo_codec 30 demo_windows)) = [(''c1'', [user_turn ''third''])]"
  by code_simp+

theorem appended_turns_are_never_lost_witness:
  "\<exists>v v'. find_conversation (ch_store (chat_world_of demo_codec 30 (drop 6 demo_windows))) ''c1'' = Some v
    \<and> find_conversation (ch_store (chat_world_of demo_codec 30 demo_windows)) ''c1'' = Some v'
    \<and> cv_turns v' = [user_turn ''hello''] \<and> cv_version v \<le> cv_version v'"
proof -
  obtain v v' where v: "find_conversation (ch_store (chat_world_of demo_codec 30 (drop 6 demo_windows))) ''c1'' = Some v"
    "find_conversation (ch_store (chat_world_of demo_codec 30 demo_windows)) ''c1'' = Some v'" "cv_turns v' = [user_turn ''hello'']"
    using demo_windows_facts(3,4) by auto
  have s: "demo_windows = take 6 demo_windows @ drop 6 demo_windows" by simp
  have "cv_version v \<le> cv_version v'"
    using appended_turns_are_never_lost[of demo_codec 30 "take 6 demo_windows" "drop 6 demo_windows" "''c1''" v v'] demo_windows_facts(1,2) v
    by simp
  then show ?thesis using v by blast
qed

text \<open>
  The version an append names is compared with the stored one, not with the one it read: an append that names a
  version still to come, and is overtaken by the append that reaches it, writes over the turns it never read.
\<close>

lemma unread_turns_are_lost:
  "map_option cv_turns (find_conversation (ch_store (chat_world_of demo_codec 30
     [Ca_write 0, Ca_write 1, say 1 ''hello'', say 2 ''early'', Ca_request (Ch_create ''c1'' ''me'' noon)])) ''c1'') = Some [user_turn ''early'']"
  by code_simp

text \<open>
  A rename that comes between the two transactions of the first append is overwritten by the title the append
  computed from what it had read: renaming does not raise the version.
\<close>

lemma rename_is_lost_to_append:
  "map_option cv_title (find_conversation (ch_store (chat_world_of demo_codec 30
     [Ca_write 0, Ca_request (Ch_rename ''c1'' ''me'' noon ''Boeing''), say 1 ''hello'', Ca_request (Ch_create ''c1'' ''me'' noon)])) ''c1'')
    = Some ''hello''"
  by code_simp

section \<open>Receipts\<close>

definition runs_unique :: "chat_store \<Rightarrow> bool" where
  "runs_unique st = distinct (map om_id (cs_runs st))"

lemma remove_runs: "\<exists>P. cs_runs (foldl (\<lambda>st v. remove_conversation v st) st vs) = filter P (cs_runs st)"
proof (induction vs arbitrary: st)
  case Nil
  show ?case by (rule exI[of _ "\<lambda>_. True"]) simp
next
  case (Cons w vs)
  obtain P where "cs_runs (foldl (\<lambda>st v. remove_conversation v st) (remove_conversation w st) vs) = filter P (cs_runs (remove_conversation w st))"
    using Cons.IH by blast
  moreover have "\<exists>Q. cs_runs (remove_conversation w st) = filter Q (cs_runs st)" by (auto simp: remove_conversation_def Let_def)
  ultimately show ?case by (metis filter_filter foldl_Cons)
qed

inductive runs_change :: "string option \<Rightarrow> omni_run list \<Rightarrow> omni_run list \<Rightarrow> bool" where
  kept: "runs_change k rows (filter P rows)"
| finished: "first_match (run_scope i actor) rows = Some r \<Longrightarrow> om_status r = OMNI_RUNNING \<Longrightarrow> (\<And>x. om_id (f x) = om_id x)
    \<Longrightarrow> runs_change k rows (map (\<lambda>x. if run_scope i actor x then f x else x) rows)"
| started: "om_id n \<notin> om_id ` set rows \<Longrightarrow> runs_change (Some (om_id n)) rows (rows @ [n])"

lemma runs_same: "runs_change k rows rows"
  using runs_change.kept[of k rows "\<lambda>_. True"] by simp

lemma step_runs: "runs_change (starts op) (cs_runs st) (cs_runs (chat_step c kd op st))"
proof (cases op)
  case (Ch_start n actor request now)
  then show ?thesis
    by (auto simp: start_run_def intro: runs_same runs_change.started[of "\<lparr>om_id = n, om_actor_id = actor, om_request_hash = co_sha c (co_dump c request),
        om_started_at = to_utc now, om_completed_at = None, om_status = OMNI_RUNNING, om_result_hash = None, om_result = None\<rparr>", simplified])
next
  case (Ch_finish i actor res now failed)
  show ?thesis
  proof (cases "first_match (run_scope i actor) (cs_runs st)")
    case (Some r)
    then show ?thesis using Ch_finish
      by (auto simp: finish_run_def Let_def intro: runs_same intro!: runs_change.finished[OF Some])
  qed (use Ch_finish in \<open>simp add: finish_run_def Let_def runs_same del: first_match_None\<close>)
next
  case (Ch_list key now)
  then show ?thesis
    using remove_runs[of st "filter (\<lambda>v. cv_owner_key v = key \<and> instant (cv_expires_at v) \<le> instant now) (cs_conversations st)"]
    by (auto simp: list_conversations_def Let_def intro: runs_change.kept)
next
  case (Ch_delete i key now)
  then show ?thesis
    by (auto simp: delete_conversation_def remove_conversation_def Let_def bind_r_Inr intro: runs_same runs_change.kept split: sum.split option.split)
next
  case (Ch_create n key now)
  then show ?thesis by (auto simp: create_conversation_def Let_def map_sum_Inr intro: runs_same split: sum.split)
next
  case (Ch_append_write v key now version turns)
  then show ?thesis by (auto simp: append_write_def Let_def intro: runs_same)
next
  case (Ch_rename i key now title)
  then show ?thesis by (auto simp: rename_conversation_def Let_def map_sum_Inr bind_r_Inr intro: runs_same split: sum.split)
next
  case (Ch_rate n i key now run_id rating reason)
  then show ?thesis by (auto simp: rate_answer_def bind_r_Inr intro: runs_same split: sum.split)
qed

lemma runs_change_back:
  assumes "runs_change k rows rows'" "distinct (map om_id rows)"
  shows "distinct (map om_id rows') \<and> (\<forall>r'\<in>set rows'. k \<noteq> Some (om_id r') \<longrightarrow>
    (\<exists>r\<in>set rows. om_id r = om_id r' \<and> (om_status r \<noteq> OMNI_RUNNING \<longrightarrow> r' = r)))"
  using assms
proof (induction rule: runs_change.induct)
  case (kept k rows P)
  then show ?case by (auto simp: distinct_map_filter)
next
  case (finished i actor rows r f k)
  let ?g = "\<lambda>x. if run_scope i actor x then f x else x"
  have e: "map om_id (map ?g rows) = map om_id rows" using finished.hyps(3) by simp
  have "om_id r = i" "r \<in> set rows" using first_match_Some[OF finished.hyps(1)] by (auto simp: run_scope_def)
  then have "om_status x = OMNI_RUNNING" if "x \<in> set rows" "run_scope i actor x" for x
    using that finished.prems finished.hyps(2) by (metis distinct_map inj_onD run_scope_def)
  then have "\<forall>x\<in>set rows. om_id x = om_id (?g x) \<and> (om_status x \<noteq> OMNI_RUNNING \<longrightarrow> ?g x = x)" using finished.hyps(3) by auto
  then have "\<exists>x\<in>set rows. om_id x = om_id r' \<and> (om_status x \<noteq> OMNI_RUNNING \<longrightarrow> r' = x)" if m: "r' \<in> set (map ?g rows)" for r'
  proof -
    obtain x where "x \<in> set rows" "r' = ?g x" using m by auto
    then show ?thesis using \<open>\<forall>x\<in>set rows. om_id x = om_id (?g x) \<and> (om_status x \<noteq> OMNI_RUNNING \<longrightarrow> ?g x = x)\<close> by blast
  qed
  moreover have "distinct (map om_id (map ?g rows))" unfolding e by (rule finished.prems)
  ultimately show ?case by blast
next
  case (started n rows)
  then show ?case by auto
qed

text \<open>
  A completed run receipt is final: whatever requests follow, of any user and in any order, the receipt of a
  run that has its outcome is the same as long as it is kept.
\<close>

theorem completed_run_receipt_is_final:
  assumes "runs_unique st" "r \<in> set (cs_runs st)" "om_status r \<noteq> OMNI_RUNNING" "\<forall>op\<in>set ops. starts op \<noteq> Some (om_id r)"
    "r' \<in> set (cs_runs (chat_run c kd ops st))" "om_id r' = om_id r"
  shows "r' = r"
  using assms
proof (induction ops arbitrary: st)
  case Nil
  then show ?case by (auto simp: chat_run_def runs_unique_def distinct_map dest: inj_onD)
next
  case (Cons op ops)
  note before = runs_change_back[OF step_runs[of op st c kd] Cons.prems(1)[unfolded runs_unique_def]]
  have u: "runs_unique (chat_step c kd op st)" using before by (simp add: runs_unique_def)
  have run: "r' \<in> set (cs_runs (chat_run c kd ops (chat_step c kd op st)))" using Cons.prems(5) by (simp add: chat_run_def)
  have kept: "\<exists>x\<in>set (cs_runs st). om_id x = om_id r'" if "r' \<in> set (cs_runs (chat_run c kd ops st))" "runs_unique st" "\<forall>op\<in>set ops. starts op \<noteq> Some (om_id r')" for st ops
    using that
  proof (induction ops arbitrary: st)
    case (Cons op ops)
    note b = runs_change_back[OF step_runs[of op st c kd] Cons.prems(2)[unfolded runs_unique_def]]
    have "\<exists>x\<in>set (cs_runs (chat_step c kd op st)). om_id x = om_id r'"
      by (rule Cons.IH) (use Cons.prems b in \<open>simp_all add: chat_run_def runs_unique_def\<close>)
    then obtain x where "x \<in> set (cs_runs (chat_step c kd op st))" "om_id x = om_id r'" by blast
    then show ?case using b Cons.prems(3) by fastforce
  qed (auto simp: chat_run_def)
  obtain x where x: "x \<in> set (cs_runs (chat_step c kd op st))" "om_id x = om_id r'"
    using kept[OF run u] Cons.prems(4,6) by auto
  then obtain y where y: "y \<in> set (cs_runs st)" "om_id y = om_id x" "om_status y \<noteq> OMNI_RUNNING \<longrightarrow> x = y"
    using before Cons.prems(4,6) by fastforce
  have "y = r" using y x(2) Cons.prems(1,2,6) by (auto simp: runs_unique_def distinct_map dest: inj_onD)
  then have "r \<in> set (cs_runs (chat_step c kd op st))" using x(1) y(3) Cons.prems(3) by simp
  from Cons.IH[OF u this Cons.prems(3) _ run Cons.prems(6)] Cons.prems(4) show ?case by simp
qed

definition demo_runs :: chat_store where
  "demo_runs = chat_run demo_codec 30 [Ch_start ''r1'' ''u1'' J_null noon, Ch_finish ''r1'' ''u1'' J_null noon False] empty_chat"

theorem completed_run_receipt_is_final_witness:
  "map om_status (cs_runs demo_runs) = [OMNI_ANSWER_RECORDED]
    \<and> (\<forall>r'\<in>set (cs_runs (chat_run demo_codec 30 [Ch_finish ''r1'' ''u1'' (J_bool True) noon True, Ch_start ''r2'' ''u1'' J_null noon] demo_runs)).
        om_id r' = ''r1'' \<longrightarrow> om_status r' = OMNI_ANSWER_RECORDED)"
proof -
  have m: "map (\<lambda>r. (om_id r, om_status r)) (cs_runs demo_runs) = [(''r1'', OMNI_ANSWER_RECORDED)]" by code_simp
  then obtain r where r: "cs_runs demo_runs = [r]" "om_id r = ''r1''" "om_status r = OMNI_ANSWER_RECORDED" by auto
  have "runs_unique demo_runs" using r by (simp add: runs_unique_def)
  from completed_run_receipt_is_final[OF this, of r "[Ch_finish ''r1'' ''u1'' (J_bool True) noon True, Ch_start ''r2'' ''u1'' J_null noon]" _ demo_codec 30]
  show ?thesis using r by auto
qed

section \<open>Privacy\<close>

fun op_owner :: "chat_op \<Rightarrow> string option" where
  "op_owner (Ch_list key now) = Some key"
| "op_owner (Ch_create n key now) = Some key"
| "op_owner (Ch_append_write v key now version turns) = Some key"
| "op_owner (Ch_rename i key now title) = Some key"
| "op_owner (Ch_delete i key now) = Some key"
| "op_owner (Ch_rate n i key now run_id rating reason) = Some key"
| "op_owner (Ch_start n actor request now) = None"
| "op_owner (Ch_finish i actor res now failed) = None"

definition others :: "string option \<Rightarrow> chat_store \<Rightarrow> conversation list \<times> chat_feedback list" where
  "others k st = (filter (\<lambda>v. k \<noteq> Some (cv_owner_key v)) (cs_conversations st), filter (\<lambda>f. k \<noteq> Some (cf_owner_key f)) (cs_feedback st))"

lemma others_removed: "(\<forall>v\<in>set vs. cv_owner_key v = key) \<Longrightarrow> others (Some key) (foldl (\<lambda>st v. remove_conversation v st) st vs) = others (Some key) st"
proof (induction vs arbitrary: st)
  case (Cons w vs)
  have "others (Some key) (remove_conversation w st) = others (Some key) st"
  proof -
    have w: "cv_owner_key w = key" using Cons.prems by simp
    have v: "(\<not> (cv_id v = cv_id w \<and> cv_owner_key v = cv_owner_key w) \<and> Some key \<noteq> Some (cv_owner_key v)) = (Some key \<noteq> Some (cv_owner_key v))" for v
      unfolding w by auto
    have f: "(\<not> (cf_conversation_id f = cv_id w \<and> cf_owner_key f = cv_owner_key w) \<and> Some key \<noteq> Some (cf_owner_key f)) = (Some key \<noteq> Some (cf_owner_key f))" for f
      unfolding w by auto
    show ?thesis unfolding others_def remove_conversation_def Let_def chat_store.simps filter_filter v f by (rule refl)
  qed
  then show ?case using Cons by simp
qed simp

lemma others_map: "(\<And>v. v \<in> set rows \<Longrightarrow> cv_owner_key (f v) = cv_owner_key v \<and> (cv_owner_key v \<noteq> key \<longrightarrow> f v = v))
    \<Longrightarrow> filter (\<lambda>v. key \<noteq> cv_owner_key v) (map f rows) = filter (\<lambda>v. key \<noteq> cv_owner_key v) rows"
  by (induction rows) auto

text \<open>
  C35. Chats are private: a request writes nothing to a conversation or a rating of another owner, whatever ids and
  turns it names, and it is given only a conversation of its own owner that has not expired.
\<close>

theorem chats_are_private:
  "others (op_owner op) (chat_step c kd op st) = others (op_owner op) st
    \<and> (get_conversation i key now st = Inr v \<longrightarrow> cv_owner_key v = key \<and> instant now < instant (cv_expires_at v))"
proof
  show "others (op_owner op) (chat_step c kd op st) = others (op_owner op) st"
  proof (cases op)
    case (Ch_start n actor request now)
    then show ?thesis by (auto simp: others_def start_run_def)
  next
    case (Ch_finish i actor res now failed)
    then show ?thesis by (auto simp: others_def finish_run_def Let_def split: option.split)
  next
    case (Ch_list key now)
    then show ?thesis by (simp add: list_conversations_def Let_def others_removed)
  next
    case (Ch_create n key now)
    let ?row = "\<lparr>cv_id = n, cv_owner_key = key, cv_title = ''New conversation'', cv_turns = [], cv_version = 1,
      cv_updated_at = now, cv_expires_at = retention kd now\<rparr>"
    have "chat_step c kd op st \<in> {st, st\<lparr>cs_conversations := cs_conversations st @ [?row]\<rparr>}"
      using Ch_create by (auto simp: create_conversation_def Let_def map_sum_Inr split: sum.split)
    then show ?thesis using Ch_create by (auto simp: others_def)
  next
    case (Ch_append_write v key now version turns)
    have "filter (\<lambda>x. key \<noteq> cv_owner_key x) (map (\<lambda>x. if cv_id x = cv_id v \<and> live_of key now x \<and> cv_version x = version
        then x\<lparr>cv_turns := t, cv_title := h, cv_version := n, cv_updated_at := now, cv_expires_at := e\<rparr> else x) rows)
      = filter (\<lambda>x. key \<noteq> cv_owner_key x) rows" for rows t h n e
      by (rule others_map) (simp add: live_of_def)
    then show ?thesis using Ch_append_write by (simp add: others_def append_write_def Let_def)
  next
    case (Ch_rename i key now title)
    have "filter (\<lambda>x. key \<noteq> cv_owner_key x) (map (\<lambda>x. if cv_id x = i \<and> cv_owner_key x = key
        then x\<lparr>cv_title := t, cv_updated_at := now\<rparr> else x) rows) = filter (\<lambda>x. key \<noteq> cv_owner_key x) rows" for rows t
      by (rule others_map) simp
    then show ?thesis using Ch_rename
      by (auto simp: others_def rename_conversation_def Let_def map_sum_Inr bind_r_Inr split: sum.split)
  next
    case (Ch_delete i key now)
    have "others (Some key) (remove_conversation v st) = others (Some key) st" if "first_match (\<lambda>v. cv_id v = i \<and> cv_owner_key v = key) rows = Some v" for v rows
      using first_match_Some[OF that] others_removed[of "[v]" key st] by simp
    then show ?thesis using Ch_delete by (auto simp: delete_conversation_def bind_r_Inr split: sum.split option.split)
  next
    case (Ch_rate n i key now run_id rating reason)
    then show ?thesis by (auto simp: others_def rate_answer_def bind_r_Inr split: sum.split)
  qed
  show "get_conversation i key now st = Inr v \<longrightarrow> cv_owner_key v = key \<and> instant now < instant (cv_expires_at v)"
    by (auto simp: get_conversation_def live_of_def dest!: first_match_Some split: option.splits)
qed

theorem chats_are_private_witness:
  "others (Some ''you'') (chat_step demo_codec 30 (Ch_delete ''c1'' ''you'' noon) demo_chat) = ([demo_thread], [])
    \<and> (\<exists>v. get_conversation ''c1'' ''me'' noon demo_chat = Inr v \<and> cv_owner_key v = ''me'')"
proof -
  have g: "get_conversation ''c1'' ''me'' noon demo_chat = Inr demo_thread" "others (Some ''you'') demo_chat = ([demo_thread], [])" by code_simp+
  show ?thesis
    using chats_are_private[of "Ch_delete ''c1'' ''you'' noon" demo_codec 30 demo_chat "''c1''" "''me''" noon demo_thread] g by auto
qed

end
