(* ===== verification/OmniMemory.thy ===== *)
theory OmniMemory
  imports WorkFeedback AiUsage
begin

text \<open>
  \<^verbatim>\<open>persistence/omni_memory.py\<close>: the private, expiring preferences of a user, and the receipts of
  their creation that outlive them. Both tables are lists of rows; an operation is an error, which rolls back, or a
  value with the new tables. \<open>c\<close> is the codec of JSON text and digests, and a new id is an argument.
\<close>

datatype memory_error = MemoryValue string | MemoryConflict string | MemoryIntegrity

record omni_memory =
  me_id :: string
  me_user_id :: string
  me_account_id :: "string option"
  me_kind :: string
  me_content :: string
  me_version :: int
  me_created_at :: datetime
  me_updated_at :: datetime
  me_expires_at :: datetime

record create_receipt =
  cr_user_id :: string
  cr_key_hash :: string
  cr_request_hash :: string
  cr_memory_id :: string
  cr_created_at :: datetime

record memory_store =
  ms_memories :: "omni_memory list"
  ms_receipts :: "create_receipt list"

record memory_args =
  ma_user_id :: string
  ma_account_id :: "string option"
  ma_kind :: string
  ma_content :: string
  ma_ttl_days :: int
  ma_now :: datetime
  ma_memory_id :: "string option"
  ma_expected_version :: "int option"
  ma_idempotency_key :: "string option"
  ma_new_id :: string

definition memories_of :: "string \<Rightarrow> memory_store \<Rightarrow> omni_memory list" where
  "memories_of user st = filter (\<lambda>m. me_user_id m = user) (ms_memories st)"

definition list_memories :: "string \<Rightarrow> datetime \<Rightarrow> string option \<Rightarrow> bool \<Rightarrow> memory_store \<Rightarrow> (omni_memory \<times> bool) list" where
  \<comment> \<open>each with whether it has expired\<close>
  "list_memories user now account for_context st =
     map (\<lambda>m. (m, instant (me_expires_at m) \<le> instant now))
       (take 25 (sort_key (\<lambda>m. (- instant (me_updated_at m), me_id m))
         (filter (\<lambda>m. for_context \<longrightarrow> instant now < instant (me_expires_at m) \<and> (me_account_id m = None \<or> me_account_id m = account))
           (memories_of user st))))"

definition request_key_ok :: "string \<Rightarrow> bool" where
  \<comment> \<open>\<open>[A-Za-z0-9._-]{8,64}\<close>\<close>
  "request_key_ok key = (8 \<le> length key \<and> length key \<le> 64 \<and> list_all reason_char key)"

definition memory_check :: "memory_args \<Rightarrow> string option" where
  "memory_check a =
     (if ma_kind a \<notin> {''ANSWER_STYLE'', ''WORK_PREFERENCE''} \<or> length (strip (ma_content a)) < 1 \<or> 600 < length (strip (ma_content a))
        \<or> ma_ttl_days a < 1 \<or> 365 < ma_ttl_days a
      then Some ''Invalid bounded memory preference.''
      else if \<not> aware (ma_now a) then Some ''Memory expiry requires an aware real clock.''
      else if (case ma_idempotency_key a of None \<Rightarrow> False | Some k \<Rightarrow> truthy (ma_memory_id a) \<or> \<not> request_key_ok k)
      then Some ''A bounded create request key cannot be used for an edit.''
      else None)"

definition memory_fingerprint :: "codec \<Rightarrow> memory_args \<Rightarrow> string" where
  "memory_fingerprint c a = co_sha c (co_dump c (J_arr [j_opt J_str (ma_account_id a), J_str (ma_kind a),
     J_str (strip (ma_content a)), J_int (ma_ttl_days a)]))"

definition find_receipt :: "memory_store \<Rightarrow> string \<Rightarrow> string \<Rightarrow> create_receipt option" where
  "find_receipt st user key_hash = first_match (\<lambda>r. cr_user_id r = user \<and> cr_key_hash r = key_hash) (ms_receipts st)"

definition find_memory :: "memory_store \<Rightarrow> string \<Rightarrow> string \<Rightarrow> omni_memory option" where
  "find_memory st user i = first_match (\<lambda>m. me_user_id m = user \<and> me_id m = i) (ms_memories st)"

definition memory_expiry :: "memory_args \<Rightarrow> datetime" where
  "memory_expiry a = shift (ma_ttl_days a * day_micros) (ma_now a)"

definition edited_memory :: "memory_args \<Rightarrow> omni_memory \<Rightarrow> omni_memory" where
  "edited_memory a m = m\<lparr>me_account_id := ma_account_id a, me_kind := ma_kind a, me_content := strip (ma_content a),
     me_updated_at := ma_now a, me_expires_at := memory_expiry a, me_version := me_version m + 1\<rparr>"

definition new_memory :: "memory_args \<Rightarrow> omni_memory" where
  "new_memory a = \<lparr>me_id = ma_new_id a, me_user_id = ma_user_id a, me_account_id = ma_account_id a, me_kind = ma_kind a,
     me_content = strip (ma_content a), me_version = 1, me_created_at = ma_now a, me_updated_at = ma_now a, me_expires_at = memory_expiry a\<rparr>"

definition edit_memory :: "memory_args \<Rightarrow> string \<Rightarrow> memory_store \<Rightarrow> (memory_error, omni_memory \<times> memory_store) result" where
  \<comment> \<open>the update where \<open>id\<close>, \<open>user_id\<close> and \<open>version\<close> match\<close>
  "edit_memory a i st =
     (case ma_expected_version a of
        None \<Rightarrow> Inl (MemoryConflict ''An inspected version is required.'')
      | Some v \<Rightarrow>
          (case find_memory st (ma_user_id a) i of
             Some m \<Rightarrow>
               (if me_version m = v
                then Inr (edited_memory a m, st\<lparr>ms_memories := replace_row me_id (edited_memory a m) (ms_memories st)\<rparr>)
                else Inl (MemoryConflict ''Memory is unavailable or changed; refresh your memories.''))
           | None \<Rightarrow> Inl (MemoryConflict ''Memory is unavailable or changed; refresh your memories.'')))"

definition create_memory :: "codec \<Rightarrow> memory_args \<Rightarrow> memory_store \<Rightarrow> (memory_error, omni_memory \<times> memory_store) result" where
  "create_memory c a st =
     (if 25 \<le> length (memories_of (ma_user_id a) st)
      then Inl (MemoryConflict ''Delete an unused or expired preference before adding another (limit 25).'')
      else if ma_new_id a \<in> me_id ` set (ms_memories st) then Inl MemoryIntegrity
      else Inr (new_memory a, \<lparr>ms_memories = ms_memories st @ [new_memory a],
             ms_receipts = ms_receipts st @ (case ma_idempotency_key a of None \<Rightarrow> []
               | Some k \<Rightarrow> [\<lparr>cr_user_id = ma_user_id a, cr_key_hash = co_sha c k, cr_request_hash = memory_fingerprint c a,
                   cr_memory_id = ma_new_id a, cr_created_at = ma_now a\<rparr>])\<rparr>))"

definition save_memory :: "codec \<Rightarrow> memory_args \<Rightarrow> memory_store \<Rightarrow> (memory_error, omni_memory \<times> memory_store) result" where
  "save_memory c a st =
     (case memory_check a of
        Some message \<Rightarrow> Inl (MemoryValue message)
      | None \<Rightarrow>
          (case Option.bind (ma_idempotency_key a) (\<lambda>k. find_receipt st (ma_user_id a) (co_sha c k)) of
             Some replay \<Rightarrow>
               (if cr_request_hash replay \<noteq> memory_fingerprint c a
                then Inl (MemoryConflict ''This save request already belongs to different preference content.'')
                else case find_memory st (ma_user_id a) (cr_memory_id replay) of
                  None \<Rightarrow> Inl (MemoryConflict ''This preference was deleted; retrying its original request will not recreate it.'')
                | Some m \<Rightarrow> Inr (m, st))
           | None \<Rightarrow>
               (if ma_idempotency_key a \<noteq> None \<and> 1000 \<le> length (filter (\<lambda>r. cr_user_id r = ma_user_id a) (ms_receipts st))
                then Inl (MemoryConflict ''The bounded POC preference-create receipt limit is reached; contact the operator.'')
                else if truthy (ma_memory_id a) then edit_memory a (the (ma_memory_id a)) st
                else create_memory c a st)))"

definition delete_memory :: "string \<Rightarrow> string \<Rightarrow> int \<Rightarrow> memory_store \<Rightarrow> (memory_error, memory_store) result" where
  "delete_memory i user v st =
     (case find_memory st user i of
        Some m \<Rightarrow>
          (if me_version m = v then Inr (st\<lparr>ms_memories := filter (\<lambda>x. me_id x \<noteq> i) (ms_memories st)\<rparr>)
           else Inl (MemoryConflict ''Memory is unavailable or changed; refresh your memories.''))
      | None \<Rightarrow> Inl (MemoryConflict ''Memory is unavailable or changed; refresh your memories.''))"

datatype memory_op = Me_save memory_args | Me_delete string string int

fun memory_step :: "codec \<Rightarrow> memory_op \<Rightarrow> memory_store \<Rightarrow> memory_store" where
  "memory_step c (Me_save a) st = (case save_memory c a st of Inl _ \<Rightarrow> st | Inr (_, st') \<Rightarrow> st')"
| "memory_step c (Me_delete i user v) st = (case delete_memory i user v st of Inl _ \<Rightarrow> st | Inr st' \<Rightarrow> st')"

definition memory_run :: "codec \<Rightarrow> memory_op list \<Rightarrow> memory_store \<Rightarrow> memory_store" where
  "memory_run c ops st = foldl (\<lambda>st op. memory_step c op st) st ops"

definition empty_memory :: memory_store where
  "empty_memory = \<lparr>ms_memories = [], ms_receipts = []\<rparr>"

section \<open>Reachable tables\<close>

definition receipt_key :: "create_receipt \<Rightarrow> string \<times> string" where
  "receipt_key r = (cr_user_id r, cr_key_hash r)"

definition memory_ok :: "memory_store \<Rightarrow> bool" where
  "memory_ok st = (distinct (map me_id (ms_memories st)) \<and> (\<forall>u. length (memories_of u st) \<le> 25)
     \<and> (\<forall>u. length (filter (\<lambda>r. cr_user_id r = u) (ms_receipts st)) \<le> 1000) \<and> distinct (map receipt_key (ms_receipts st)))"

lemma save_cases:
  assumes "save_memory c a st = Inr (m, st')"
  obtains (replayed) replay k where "st' = st" "ma_idempotency_key a = Some k" "find_receipt st (ma_user_id a) (co_sha c k) = Some replay"
      "cr_request_hash replay = memory_fingerprint c a" "find_memory st (ma_user_id a) (cr_memory_id replay) = Some m"
    | (edited) old where "find_memory st (ma_user_id a) (me_id m) = Some old" "m = edited_memory a old" "ma_expected_version a = Some (me_version old)"
      "st' = st\<lparr>ms_memories := replace_row me_id m (ms_memories st)\<rparr>" "ma_memory_id a = Some (me_id m)" "me_id m \<noteq> []"
    | (created) "m = new_memory a" "length (memories_of (ma_user_id a) st) < 25" "ma_new_id a \<notin> me_id ` set (ms_memories st)"
      "ms_memories st' = ms_memories st @ [m]" "create_memory c a st = Inr (m, st')"
      "\<forall>k. ma_idempotency_key a = Some k \<longrightarrow> find_receipt st (ma_user_id a) (co_sha c k) = None
         \<and> length (filter (\<lambda>r. cr_user_id r = ma_user_id a) (ms_receipts st)) < 1000"
proof -
  have v: "memory_check a = None" using assms by (cases "memory_check a") (simp_all add: save_memory_def)
  show ?thesis
  proof (cases "Option.bind (ma_idempotency_key a) (\<lambda>k. find_receipt st (ma_user_id a) (co_sha c k))")
    case (Some replay)
    then obtain k where "ma_idempotency_key a = Some k" "find_receipt st (ma_user_id a) (co_sha c k) = Some replay"
      by (auto simp: bind_eq_Some_conv)
    moreover have "cr_request_hash replay = memory_fingerprint c a \<and> find_memory st (ma_user_id a) (cr_memory_id replay) = Some m \<and> st' = st"
      using assms v Some by (auto simp: save_memory_def split: if_split_asm option.split_asm)
    ultimately show ?thesis by (intro replayed) auto
  next
    case None
    have cap: "\<not> (ma_idempotency_key a \<noteq> None \<and> 1000 \<le> length (filter (\<lambda>r. cr_user_id r = ma_user_id a) (ms_receipts st)))"
      using assms v None by (auto simp: save_memory_def split: if_split_asm)
    have body: "(if truthy (ma_memory_id a) then edit_memory a (the (ma_memory_id a)) st else create_memory c a st) = Inr (m, st')"
      using assms unfolding save_memory_def v None option.case if_not_P[OF cap] .
    show ?thesis
    proof (cases "truthy (ma_memory_id a)")
      case True
      then obtain i where i: "ma_memory_id a = Some i" by (cases "ma_memory_id a") auto
      have "edit_memory a i st = Inr (m, st')" using body True i by simp
      then obtain old where o: "find_memory st (ma_user_id a) i = Some old" "m = edited_memory a old" "ma_expected_version a = Some (me_version old)"
        "st' = st\<lparr>ms_memories := replace_row me_id m (ms_memories st)\<rparr>"
        by (auto simp: edit_memory_def split: option.split_asm if_split_asm)
      have "me_id m = i" using o(1,2) first_match_Some unfolding find_memory_def edited_memory_def by fastforce
      moreover have "i \<noteq> []" using True i by auto
      ultimately show ?thesis using o i by (intro edited) auto
    next
      case False
      have r: "create_memory c a st = Inr (m, st')" using body False by simp
      then have "m = new_memory a" "length (memories_of (ma_user_id a) st) < 25" "ma_new_id a \<notin> me_id ` set (ms_memories st)"
        "ms_memories st' = ms_memories st @ [m]"
        by (auto simp: create_memory_def split: if_split_asm)
      moreover have "\<forall>k. ma_idempotency_key a = Some k \<longrightarrow> find_receipt st (ma_user_id a) (co_sha c k) = None
         \<and> length (filter (\<lambda>r. cr_user_id r = ma_user_id a) (ms_receipts st)) < 1000" using None cap by auto
      ultimately show ?thesis using r by (intro created) auto
    qed
  qed
qed

end
