(* ===== verification/MemoryProps.thy ===== *)
theory MemoryProps
  imports OmniMemory
begin

text \<open>The preference tables of every reachable state.\<close>

lemma edited_fields [simp]: "me_id (edited_memory a m) = me_id m" "me_user_id (edited_memory a m) = me_user_id m"
  "me_version (edited_memory a m) = me_version m + 1"
  by (simp_all add: edited_memory_def)

lemma new_memory_fields [simp]: "me_id (new_memory a) = ma_new_id a" "me_user_id (new_memory a) = ma_user_id a"
  by (simp_all add: new_memory_def)

lemma find_memory_some: "find_memory st u i = Some m \<Longrightarrow> m \<in> set (ms_memories st) \<and> me_user_id m = u \<and> me_id m = i"
  by (auto simp: find_memory_def dest!: first_match_Some)

lemma replace_length:
  assumes "distinct (map idf rows)" "r \<in> set rows" "idf r' = idf r" "p r' = p r"
  shows "length (filter p (replace_row idf r' rows)) = length (filter p rows)"
proof -
  have "map p (replace_row idf r' rows) = map p rows"
    unfolding replace_row_def map_map by (rule map_cong) (use assms in \<open>auto simp: distinct_map dest: inj_onD\<close>)
  then have "filter id (map p (replace_row idf r' rows)) = filter id (map p rows)" by simp
  then show ?thesis unfolding filter_map comp_def id_def by (metis length_map)
qed

lemma created_receipts:
  "create_memory c a st = Inr (m, st') \<Longrightarrow> ms_receipts st' = ms_receipts st @ (case ma_idempotency_key a of None \<Rightarrow> []
     | Some k \<Rightarrow> [\<lparr>cr_user_id = ma_user_id a, cr_key_hash = co_sha c k, cr_request_hash = memory_fingerprint c a,
         cr_memory_id = me_id m, cr_created_at = ma_now a\<rparr>])"
  by (auto simp: create_memory_def split: if_split_asm option.split)

lemma find_receipt_none: "find_receipt st u k = None \<longleftrightarrow> (u, k) \<notin> receipt_key ` set (ms_receipts st)"
  by (auto simp: find_receipt_def receipt_key_def)

lemma memory_ok_save:
  assumes "memory_ok st" "save_memory c a st = Inr (m, st')"
  shows "memory_ok st'"
  using assms(2)
proof (cases rule: save_cases)
  case replayed
  then show ?thesis using assms(1) by simp
next
  case (edited old)
  have o: "old \<in> set (ms_memories st)" "me_id old = me_id m" "me_user_id m = me_user_id old"
    using find_memory_some[OF edited(1)] edited(2) by auto
  have d: "distinct (map me_id (ms_memories st))" using assms(1) by (simp add: memory_ok_def)
  have "length (memories_of u st') = length (memories_of u st)" for u
    unfolding memories_of_def edited(4) by (simp add: replace_length[OF d o(1) o(2)[symmetric]] o(3))
  moreover have "map me_id (ms_memories st') = map me_id (ms_memories st)" unfolding edited(4) by (simp add: replace_row_def)
  ultimately show ?thesis using assms(1) edited(4) by (simp add: memory_ok_def)
next
  case created
  note r = created_receipts[OF created(5)]
  have k: "distinct (map receipt_key (ms_receipts st'))"
  proof (cases "ma_idempotency_key a")
    case (Some key)
    then have "(ma_user_id a, co_sha c key) \<notin> receipt_key ` set (ms_receipts st)"
      using created(6) by (simp add: find_receipt_none)
    then show ?thesis using assms(1) Some r by (simp add: memory_ok_def receipt_key_def)
  qed (use assms(1) r in \<open>simp add: memory_ok_def\<close>)
  have n: "length (filter (\<lambda>r. cr_user_id r = u) (ms_receipts st')) \<le> 1000" for u
    using assms(1) r created(6) by (cases "ma_idempotency_key a") (auto simp: memory_ok_def Suc_le_eq)
  have "length (memories_of u st') \<le> 25" for u
    using assms(1) created(1,2,4) by (auto simp: memory_ok_def memories_of_def Suc_le_eq)
  then show ?thesis using k n assms(1) created(1,3,4) by (auto simp: memory_ok_def)
qed

lemma memory_ok_step: "memory_ok st \<Longrightarrow> memory_ok (memory_step c op st)"
proof (cases op)
  case (Me_save a)
  assume "memory_ok st"
  then show ?thesis using memory_ok_save unfolding Me_save by (auto split: sum.split)
next
  case (Me_delete i user v)
  assume ok: "memory_ok st"
  have "length (filter (\<lambda>x. q x \<and> p x) xs) \<le> length (filter p xs)" for p q and xs :: "omni_memory list"
    by (induction xs) auto
  then have "length (filter (\<lambda>x. me_id x \<noteq> i \<and> me_user_id x = u) (ms_memories st)) \<le> length (memories_of u st)" for u
    unfolding memories_of_def .
  moreover have "length (memories_of u st) \<le> 25" for u using ok by (simp add: memory_ok_def)
  ultimately have "length (filter (\<lambda>x. me_id x \<noteq> i \<and> me_user_id x = u) (ms_memories st)) \<le> 25" for u
    by (rule order_trans)
  then have "memory_ok (st\<lparr>ms_memories := filter (\<lambda>x. me_id x \<noteq> i) (ms_memories st)\<rparr>)"
    using ok by (auto simp: memory_ok_def memories_of_def distinct_map_filter)
  then show ?thesis using ok unfolding Me_delete by (auto simp: delete_memory_def split: option.split)
qed

lemma memory_ok_reachable: "memory_ok (memory_run c ops empty_memory)"
proof -
  have "memory_ok st \<Longrightarrow> memory_ok (memory_run c ops st)" for st
    by (induction ops arbitrary: st) (simp_all add: memory_run_def memory_ok_step)
  then show ?thesis by (simp add: memory_ok_def empty_memory_def memories_of_def)
qed

section \<open>Receipts outlive preferences\<close>

lemma receipt_kept: "find_receipt st u k = Some r \<Longrightarrow> find_receipt (memory_step c op st) u k = Some r"
proof (cases op)
  case (Me_save a)
  assume f: "find_receipt st u k = Some r"
  show ?thesis
  proof (cases "save_memory c a st")
    case (Inr p)
    obtain m st' where p: "p = (m, st')" by (cases p)
    have s: "save_memory c a st = Inr (m, st')" using Inr p by simp
    then have "find_receipt st' u k = Some r"
    proof (cases rule: save_cases)
      case created
      then show ?thesis using f created_receipts[OF created(5)] by (simp add: find_receipt_def first_match_append)
    qed (use f in \<open>auto simp: find_receipt_def\<close>)
    then show ?thesis using s Me_save by simp
  qed (use f Me_save in simp)
next
  case (Me_delete i user v)
  assume "find_receipt st u k = Some r"
  then show ?thesis using Me_delete by (auto simp: delete_memory_def find_receipt_def split: option.split)
qed

lemma receipt_kept_run: "find_receipt st u k = Some r \<Longrightarrow> find_receipt (memory_run c ops st) u k = Some r"
  by (induction ops arbitrary: st) (simp_all add: memory_run_def receipt_kept)

lemma saved_receipt:
  assumes "save_memory c a st = Inr (m, st')" "ma_idempotency_key a = Some k"
  shows "\<exists>r. find_receipt st' (ma_user_id a) (co_sha c k) = Some r \<and> cr_memory_id r = me_id m \<and> cr_request_hash r = memory_fingerprint c a"
  using assms(1)
proof (cases rule: save_cases)
  case (replayed replay key)
  then show ?thesis using assms(2) find_memory_some[OF replayed(5)] by auto
next
  case (edited old)
  have "memory_check a = None" using assms(1) by (cases "memory_check a") (simp_all add: save_memory_def)
  then have "\<not> truthy (ma_memory_id a)" using assms(2) by (auto simp: memory_check_def split: if_split_asm)
  then have False using edited(5,6) by (cases "me_id m") auto
  then show ?thesis ..
next
  case created
  then have "find_receipt st (ma_user_id a) (co_sha c k) = None" using assms(2) by simp
  then show ?thesis using created_receipts[OF created(5)] assms(2)
    by (simp add: find_receipt_def first_match_append del: first_match_None)
qed

section \<open>Properties\<close>

text \<open>
  A deleted preference stays deleted: after a preference was created under a request key, every later request
  with that key, whatever happened in between, writes nothing; it is given the preference of that creation as it
  is now, and once that preference is deleted every such request is refused.
\<close>

theorem retried_create_never_writes:
  assumes "save_memory c a st = Inr (m, st')" "ma_idempotency_key a = Some k" "ma_user_id b = ma_user_id a" "ma_idempotency_key b = Some k"
    "now_st = memory_run c ops st'"
  shows "(case save_memory c b now_st of Inl e \<Rightarrow> True | Inr (m', st2) \<Rightarrow> st2 = now_st \<and> find_memory now_st (ma_user_id a) (me_id m) = Some m')
    \<and> (find_memory now_st (ma_user_id a) (me_id m) = None \<longrightarrow> (\<exists>e. save_memory c b now_st = Inl e))"
proof -
  obtain r where r: "find_receipt now_st (ma_user_id b) (co_sha c k) = Some r" "cr_memory_id r = me_id m"
    using saved_receipt[OF assms(1,2)] receipt_kept_run assms(3) unfolding assms(5) by metis
  have "save_memory c b now_st = Inr (m', st2) \<Longrightarrow> st2 = now_st \<and> find_memory now_st (ma_user_id a) (me_id m) = Some m'" for m' st2
    using r assms(3,4) by (auto simp: save_memory_def split: option.split_asm if_split_asm)
  then show ?thesis by (cases "save_memory c b now_st") auto
qed

definition demo_preference :: memory_args where
  "demo_preference = \<lparr>ma_user_id = ''u1'', ma_account_id = None, ma_kind = ''ANSWER_STYLE'', ma_content = ''short answers'', ma_ttl_days = 30,
     ma_now = at_midnight_utc (Date 2026 1 31), ma_memory_id = None, ma_expected_version = None, ma_idempotency_key = Some ''key-0001'', ma_new_id = ''m1''\<rparr>"

theorem retried_create_never_writes_witness:
  "\<exists>e. save_memory demo_codec (demo_preference\<lparr>ma_new_id := ''m2''\<rparr>)
     (memory_run demo_codec [Me_save demo_preference, Me_delete ''m1'' ''u1'' 1] empty_memory) = Inl e"
proof -
  have "map_sum (\<lambda>_. ()) (\<lambda>(m, st). me_id m) (save_memory demo_codec demo_preference empty_memory) = Inr ''m1''" by code_simp
  then obtain m st' where s: "save_memory demo_codec demo_preference empty_memory = Inr (m, st')" "me_id m = ''m1''"
    by (cases "save_memory demo_codec demo_preference empty_memory") auto
  have k: "ma_idempotency_key demo_preference = Some ''key-0001''" "ma_user_id (demo_preference\<lparr>ma_new_id := ''m2''\<rparr>) = ma_user_id demo_preference"
    "ma_idempotency_key (demo_preference\<lparr>ma_new_id := ''m2''\<rparr>) = Some ''key-0001''" "ma_user_id demo_preference = ''u1''"
    by (simp_all add: demo_preference_def)
  have run: "memory_run demo_codec [Me_delete ''m1'' ''u1'' 1] st' = memory_run demo_codec [Me_save demo_preference, Me_delete ''m1'' ''u1'' 1] empty_memory"
    using s(1) by (simp add: memory_run_def)
  have "find_memory (memory_run demo_codec [Me_save demo_preference, Me_delete ''m1'' ''u1'' 1] empty_memory) ''u1'' ''m1'' = None" by code_simp
  then show ?thesis
    using retried_create_never_writes[OF s(1) k(1) k(2) k(3) refl, of "[Me_delete ''m1'' ''u1'' 1]"] unfolding run s(2) k(4) by blast
qed

text \<open>
  In every reachable state a user has at most 25 preferences and 1000 creation receipts, ids and receipt keys
  are unique, and the list a user is shown, which the query cuts at 25 rows, shows all the user's preferences.
\<close>

theorem preferences_are_bounded:
  assumes "st = memory_run c ops empty_memory"
  shows "length (memories_of u st) \<le> 25 \<and> length (filter (\<lambda>r. cr_user_id r = u) (ms_receipts st)) \<le> 1000
    \<and> distinct (map me_id (ms_memories st)) \<and> distinct (map receipt_key (ms_receipts st))
    \<and> mset (map fst (list_memories u now account False st)) = mset (memories_of u st)"
proof -
  have ok: "memory_ok st" unfolding assms by (rule memory_ok_reachable)
  then have "length (sort_key (\<lambda>m. (- instant (me_updated_at m), me_id m)) (memories_of u st)) \<le> 25" by (simp add: memory_ok_def)
  then have "map fst (list_memories u now account False st) = sort_key (\<lambda>m. (- instant (me_updated_at m), me_id m)) (memories_of u st)"
    by (simp add: list_memories_def comp_def)
  then show ?thesis using ok by (simp add: memory_ok_def)
qed

theorem preferences_are_bounded_witness:
  "length (list_memories ''u1'' (at_midnight_utc (Date 2026 1 31)) None False (memory_run demo_codec [Me_save demo_preference] empty_memory)) = 1"
proof -
  have "length (memories_of ''u1'' (memory_run demo_codec [Me_save demo_preference] empty_memory)) = 1" by code_simp
  then show ?thesis
    using preferences_are_bounded[OF refl, where c = demo_codec and ops = "[Me_save demo_preference]" and u = "''u1''" and now = "at_midnight_utc (Date 2026 1 31)" and account = None]
    by (metis length_map size_mset)
qed

end
