(* ===== verification/MarketSeries.thy ===== *)
theory MarketSeries
  imports CommercialEvidence ResearchJournal
begin

text \<open>
  \<^verbatim>\<open>modules/markets/registry.py\<close> and \<^verbatim>\<open>modules/markets/g17.py\<close>: the reviewed
  public series, the parser of the Federal Reserve table and the displayed transformations. A downloaded body is
  its size, the text it decodes to (\<open>None\<close> where it is not UTF-8) and its digest. A month is the date of
  its first day and, as text, the first seven characters of that date.
\<close>

section \<open>Registry\<close>

record series =
  sr_id :: string
  sr_native_code :: string
  sr_title :: string
  sr_naics :: string
  sr_markets :: "string list"
  sr_limitation :: string
  sr_metric :: string
  sr_unit :: string
  sr_index_base :: string
  sr_taxonomy :: string
  sr_frequency :: string
  sr_seasonal_adjustment :: string
  sr_geography :: string
  sr_publisher :: string
  sr_source_url :: string
  sr_metadata_url :: string
  sr_license :: string
  sr_registry_version :: string

definition REGISTRY_VERSION :: string where "REGISTRY_VERSION = ''BTX_MARKET_SERIES_1''"
definition G17_URL :: string where "G17_URL = ''https://www.federalreserve.gov/releases/g17/Current/ipdisk/ip_sa.txt''"
definition G17_METADATA_URL :: string where
  "G17_METADATA_URL = ''https://www.federalreserve.gov/releases/g17/Current/ipdisk/g17sup_tab1.txt''"

definition new_series :: "string \<Rightarrow> string \<Rightarrow> string \<Rightarrow> string \<Rightarrow> string list \<Rightarrow> string \<Rightarrow> series" where
  "new_series i code title naics markets limitation =
     \<lparr>sr_id = i, sr_native_code = code, sr_title = title, sr_naics = naics, sr_markets = markets, sr_limitation = limitation,
      sr_metric = ''INDUSTRIAL_PRODUCTION'', sr_unit = ''INDEX'', sr_index_base = ''2017=100'', sr_taxonomy = ''NAICS2022'',
      sr_frequency = ''MONTHLY'', sr_seasonal_adjustment = ''SEASONALLY_ADJUSTED'', sr_geography = ''US_NATIONAL_EXCLUDING_TERRITORIES'',
      sr_publisher = ''Board of Governors of the Federal Reserve System'', sr_source_url = G17_URL, sr_metadata_url = G17_METADATA_URL,
      sr_license = ''PUBLIC_DOMAIN_UNLESS_OTHERWISE_INDICATED; cite Federal Reserve Board'', sr_registry_version = REGISTRY_VERSION\<rparr>"

definition SERIES :: "series list" where
  "SERIES =
     [new_series ''FED_G17_IP_SA_G3364'' ''G3364'' ''Aerospace product and parts'' ''3364'' [''Commercial Aerospace'', ''Defense'', ''Space'']
        ''One shared aerospace proxy includes civil, military and space products; not separate market totals or all defense.'',
      new_series ''FED_G17_IP_SA_G3344'' ''G3344'' ''Semiconductor and other electronic component'' ''3344'' [''Semiconductor'']
        ''Includes other electronic components; not semiconductor-equipment orders.'',
      new_series ''FED_G17_IP_SA_N3391'' ''N3391'' ''Medical equipment and supplies'' ''3391'' [''Medical'']
        ''Manufactured equipment and supplies, not medical services or an individual customer order.'',
      new_series ''FED_G17_IP_SA_G3353'' ''G3353'' ''Electrical equipment'' ''3353'' [''Energy'']
        ''Electrical-equipment manufacturing subset; not energy output or the entire energy supply chain.'']"

definition series_json :: "series \<Rightarrow> json" where
  \<comment> \<open>\<open>metadata()\<close>\<close>
  "series_json s = J_obj [(''id'', J_str (sr_id s)), (''native_code'', J_str (sr_native_code s)), (''title'', J_str (sr_title s)),
     (''naics'', J_str (sr_naics s)), (''markets'', J_arr (map J_str (sr_markets s))), (''limitation'', J_str (sr_limitation s)),
     (''metric'', J_str (sr_metric s)), (''unit'', J_str (sr_unit s)), (''index_base'', J_str (sr_index_base s)),
     (''taxonomy'', J_str (sr_taxonomy s)), (''frequency'', J_str (sr_frequency s)),
     (''seasonal_adjustment'', J_str (sr_seasonal_adjustment s)), (''geography'', J_str (sr_geography s)),
     (''publisher'', J_str (sr_publisher s)), (''source_url'', J_str (sr_source_url s)), (''metadata_url'', J_str (sr_metadata_url s)),
     (''license'', J_str (sr_license s)), (''registry_version'', J_str (sr_registry_version s))]"

definition by_code :: "string \<Rightarrow> series option" where
  "by_code code = first_match (\<lambda>s. sr_native_code s = code) SERIES"

definition series_by_id :: "string \<Rightarrow> series option" where
  "series_by_id i = first_match (\<lambda>s. sr_id s = i) SERIES"

definition CODES :: "string list" where
  "CODES = map sr_native_code SERIES"

record market_coverage =
  mk_market :: string
  mk_series_ids :: "string list"
  mk_status :: string
  mk_missing_reason :: "string option"

definition market_coverage_list :: "market_coverage list" where
  "market_coverage_list = map (\<lambda>m. \<lparr>mk_market = m,
     mk_series_ids = map sr_id (filter (\<lambda>s. m \<in> set (sr_markets s)) SERIES),
     mk_status = (if list_ex (\<lambda>s. m \<in> set (sr_markets s)) SERIES then ''BROAD_PROXY'' else ''UNAVAILABLE''),
     mk_missing_reason = (if m \<noteq> ''Robotics'' then None else Some ''No sufficiently specific production series verified.'')\<rparr>) PRIMARY_MARKET_ORDER"

section \<open>Months and lines\<close>

datatype market_fail = MarketValue string | MarketIntegrity

definition month_offset :: "date \<Rightarrow> int \<Rightarrow> date" where
  \<comment> \<open>within the years of the calendar\<close>
  "month_offset month delta = (let ordinal = d_year month * 12 + d_month month - 1 + delta in Date (ordinal div 12) (ordinal mod 12 + 1) 1)"

definition month_text :: "date \<Rightarrow> string" where
  "month_text d = take 7 (iso_date d)"

definition line_break :: "char \<Rightarrow> bool" where
  \<comment> \<open>the boundaries of \<open>str.splitlines\<close> below code point 256\<close>
  "line_break c = (of_char c \<in> {10, 11, 12, 13, 28, 29, 30, 133 :: nat})"

definition drop_lf :: "string \<Rightarrow> string" where
  "drop_lf s = (case s of [] \<Rightarrow> [] | c # cs \<Rightarrow> if of_char c = (10 :: nat) then cs else s)"

lemma drop_lf_length: "length (drop_lf s) \<le> length s"
  by (simp add: drop_lf_def split: list.split)

function split_lines :: "string \<Rightarrow> string \<Rightarrow> string list" where
  "split_lines cur [] = (if cur = [] then [] else [rev cur])"
| "split_lines cur (c # cs) =
     (if line_break c then rev cur # split_lines [] (if of_char c = (13 :: nat) then drop_lf cs else cs) else split_lines (c # cur) cs)"
  by pat_completeness auto
termination by (relation "measure (\<lambda>(cur, s). length s)") (auto simp: le_imp_less_Suc drop_lf_length)

definition splitlines :: "string \<Rightarrow> string list" where
  "splitlines s = split_lines [] s"

section \<open>Parsing\<close>

definition QUOTE :: char where "QUOTE = char_of (34 :: nat)"

definition parse_header :: "string \<Rightarrow> (string \<times> string) option" where
  \<comment> \<open>\<open>^"([^:]+): (.+)"$\<close> on a whole line\<close>
  "parse_header line =
     (case line of
        [] \<Rightarrow> None
      | q # s \<Rightarrow>
          (let code = takeWhile (\<lambda>c. c \<noteq> CHR '':'') s; tail = dropWhile (\<lambda>c. c \<noteq> CHR '':'') s
           in if q = QUOTE \<and> code \<noteq> [] \<and> starts_with '': '' tail \<and> 4 \<le> length tail \<and> last tail = QUOTE
              then Some (code, butlast (drop 2 tail)) else None))"

definition parse_row :: "string \<Rightarrow> (string \<times> string \<times> string) option" where
  \<comment> \<open>\<open>^"([^"\r\n]+)" +([0-9]{4})(.*)$\<close> on a whole line\<close>
  "parse_row line =
     (case line of
        [] \<Rightarrow> None
      | q # s \<Rightarrow>
          (let code = takeWhile (\<lambda>c. c \<noteq> QUOTE) s; tail = dropWhile (\<lambda>c. c \<noteq> QUOTE) s;
               after = dropWhile (\<lambda>c. c = CHR '' '') (drop 1 tail)
           in if q = QUOTE \<and> code \<noteq> [] \<and> tail \<noteq> [] \<and> starts_with '' '' (drop 1 tail) \<and> 4 \<le> length after \<and> list_all is_digit (take 4 after)
              then Some (code, take 4 after, drop 4 after) else None))"

definition MISSING_TOKENS :: "string list" where
  "MISSING_TOKENS = ['''', ''NA'', ''N.A.'', ''ND'', ''n.a.'', ''.'']"

definition number_token :: "string \<Rightarrow> bool" where
  \<comment> \<open>\<open>[0-9]+(?:\.[0-9]{1,4})?\<close>\<close>
  "number_token t =
     (let whole = takeWhile is_digit t; tail = dropWhile is_digit t
      in whole \<noteq> [] \<and> (tail = [] \<or> (hd tail = CHR ''.'' \<and> 1 \<le> length (tl tail) \<and> length (tl tail) \<le> 4 \<and> list_all is_digit (tl tail))))"

definition number_text :: "string \<Rightarrow> string" where
  \<comment> \<open>\<open>str(Decimal(token))\<close> of such a token\<close>
  "number_text t =
     (let whole = dropWhile (\<lambda>c. c = CHR ''0'') (takeWhile is_digit t)
      in (if whole = [] then ''0'' else whole) @ dropWhile is_digit t)"

record observation =
  ob_period :: string
  ob_value :: "string option"
  ob_source_line :: nat

definition observed :: "observation \<Rightarrow> string" where
  \<comment> \<open>its \<open>status\<close>\<close>
  "observed o' = (if ob_value o' = None then ''UNAVAILABLE'' else ''OBSERVED'')"

record g17_state =
  gs_headers :: "(string, string) dict"
  gs_observations :: "(string, (string, observation) dict) dict"
  gs_seen :: "(string \<times> string) list"

definition cell :: "date \<Rightarrow> date \<Rightarrow> string \<Rightarrow> (market_fail, string option) result" where
  \<comment> \<open>the value of a stripped cell of the month\<close>
  "cell as_of period token =
     (if token \<in> set MISSING_TOKENS then Inr None
      else if \<not> number_token token then Inl (MarketValue ''G17 numeric notation changed; source review required.'')
      else if as_of < period then Inl (MarketValue ''G17 contains a future observation.'')
      else Inr (Some (number_text token)))"

definition month_cell :: "date \<Rightarrow> date \<Rightarrow> nat \<Rightarrow> int \<Rightarrow> string \<Rightarrow> nat \<Rightarrow> (market_fail, (string \<times> observation) list) result" where
  "month_cell as_of earliest line_number year cells index =
     (let period = Date year (int index + 1) 1
      in bind_r (cell as_of period (strip (take 10 (drop (index * 10) cells)))) (\<lambda>v.
           Inr (if earliest \<le> period \<and> period \<le> as_of
                then [(month_text period, \<lparr>ob_period = month_text period, ob_value = v, ob_source_line = line_number\<rparr>)] else [])))"

definition row_cells :: "date \<Rightarrow> date \<Rightarrow> nat \<Rightarrow> string \<Rightarrow> string \<Rightarrow> (market_fail, (string \<times> observation) list) result" where
  "row_cells as_of earliest line_number year_text tail =
     (if \<not> starts_with ''   '' tail \<or> length (drop 3 tail) mod 10 \<noteq> 0 \<or> 120 < length (drop 3 tail)
      then Inl (MarketValue (''G17 monthly cell alignment changed at line '' @ show_nat line_number @ ''.''))
      else let year = int (digits_value year_text)
           in if \<not> (1900 \<le> year \<and> year \<le> d_year as_of) then Inl (MarketValue ''G17 observation year outside supported historical range.'')
              else map_sum id concat (map_r (month_cell as_of earliest line_number year (drop 3 tail)) [0..<12]))"

definition g17_row :: "date \<Rightarrow> date \<Rightarrow> nat \<Rightarrow> string \<Rightarrow> g17_state \<Rightarrow> (market_fail, g17_state) result" where
  "g17_row as_of earliest line_number line st =
     (case parse_row line of
        None \<Rightarrow>
          (if list_ex (\<lambda>code. starts_with (QUOTE # code @ [QUOTE]) line) CODES
           then Inl (MarketValue (''Malformed selected G17 row at line '' @ show_nat line_number @ ''.'')) else Inr st)
      | Some (code, year_text, tail) \<Rightarrow>
          (if code \<notin> set CODES then Inr st
           else if (code, year_text) \<in> set (gs_seen st) then Inl (MarketValue ''G17 duplicates a selected series year.'')
           else bind_r (row_cells as_of earliest line_number year_text tail) (\<lambda>found.
             Inr (st\<lparr>gs_seen := (code, year_text) # gs_seen st,
               gs_observations := dset code (foldl (\<lambda>d (p, v). dset p v d) (default_to (dget (gs_observations st) code) []) found) (gs_observations st)\<rparr>))))"

definition g17_line :: "date \<Rightarrow> date \<Rightarrow> nat \<Rightarrow> string \<Rightarrow> g17_state \<Rightarrow> (market_fail, g17_state) result" where
  "g17_line as_of earliest line_number line st =
     (case parse_header line of
        Some (code, title) \<Rightarrow>
          (if code \<in> set CODES
           then (if dget (gs_headers st) code \<noteq> None then Inl (MarketValue ''G17 repeats a selected series header.'')
                 else Inr (st\<lparr>gs_headers := dset code title (gs_headers st)\<rparr>))
           else g17_row as_of earliest line_number line st)
      | None \<Rightarrow> g17_row as_of earliest line_number line st)"

fun fold_lines :: "date \<Rightarrow> date \<Rightarrow> nat \<Rightarrow> string list \<Rightarrow> g17_state \<Rightarrow> (market_fail, g17_state) result" where
  "fold_lines as_of earliest n [] st = Inr st"
| "fold_lines as_of earliest n (l # ls) st = bind_r (g17_line as_of earliest n l st) (fold_lines as_of earliest (Suc n) ls)"

record market_body =
  bd_size :: nat
  bd_text :: "string option"
  bd_sha256 :: string

record parsed_series =
  ps_metadata :: series
  ps_source_title :: string
  ps_observations :: "observation list"

definition ADAPTER_VERSION :: string where "ADAPTER_VERSION = ''BTX_G17_FIXED_MONTHS_1''"

record parsed_g17 =
  pg_adapter_version :: string
  pg_source_sha256 :: string
  pg_series :: "parsed_series list"

definition expected_title :: "series \<Rightarrow> string" where
  "expected_title s = sr_title s @ ''  NAICS='' @ sr_naics s"

definition parsed_of :: "market_body \<Rightarrow> g17_state \<Rightarrow> (market_fail, parsed_g17) result" where
  \<comment> \<open>the checks after the last line, and the result\<close>
  "parsed_of body st =
     (if list_ex (\<lambda>s. dget (gs_headers st) (sr_native_code s) = None
           \<or> default_to (dget (gs_observations st) (sr_native_code s)) [] = []) SERIES
      then Inl (MarketValue ''G17 source lacks required selected series or observation history.'')
      else if list_ex (\<lambda>s. dget (gs_headers st) (sr_native_code s) \<noteq> Some (expected_title s)) SERIES
      then Inl (MarketValue ''G17 selected classification changed; registry review required.'')
      else Inr \<lparr>pg_adapter_version = ADAPTER_VERSION, pg_source_sha256 = bd_sha256 body, pg_series = map (\<lambda>s. \<lparr>ps_metadata = s,
             ps_source_title = default_to (dget (gs_headers st) (sr_native_code s)) [],
             ps_observations = map snd (sort_key fst (default_to (dget (gs_observations st) (sr_native_code s)) []))\<rparr>) SERIES\<rparr>)"

definition parse_g17 :: "market_body \<Rightarrow> date \<Rightarrow> int \<Rightarrow> (market_fail, parsed_g17) result" where
  "parse_g17 body as_of history_months =
     (if \<not> (48 \<le> history_months \<and> history_months \<le> 120) \<or> bd_size body = 0 \<or> 5000000 < int (bd_size body)
      then Inl (MarketValue ''G17 source/history budget is invalid.'')
      else case bd_text body of
        None \<Rightarrow> Inl (MarketValue ''G17 source is not UTF-8 text.'')
      | Some text \<Rightarrow>
          bind_r (fold_lines as_of (month_offset (Date (d_year as_of) (d_month as_of) 1) (- history_months)) 1 (splitlines text)
              \<lparr>gs_headers = [], gs_observations = [], gs_seen = []\<rparr>) (parsed_of body))"

section \<open>Transformations\<close>

datatype transform_kind = LEVEL | MOM_PERCENT | YOY_PERCENT

record market_point =
  pt_period :: string
  pt_value :: "decimal option"

definition quantize4 :: "decimal \<Rightarrow> decimal" where
  \<comment> \<open>\<open>quantize(Decimal('0.0001'))\<close>, ties to even\<close>
  "quantize4 x = of_int (round_half_even (x * 10000)) / 10000"

definition level :: "observation list \<Rightarrow> date \<Rightarrow> decimal option" where
  "level rows period = (case first_match (\<lambda>r. ob_period r = month_text period) rows of
     None \<Rightarrow> None | Some r \<Rightarrow> Option.bind (ob_value r) parse_decimal)"

definition point_value :: "transform_kind \<Rightarrow> observation list \<Rightarrow> date \<Rightarrow> decimal option" where
  "point_value kind rows period =
     (case level rows period of
        None \<Rightarrow> None
      | Some current \<Rightarrow>
          (if kind = LEVEL then Some current
           else case level rows (month_offset period (if kind = YOY_PERCENT then - 12 else - 1)) of
             None \<Rightarrow> None
           | Some previous \<Rightarrow> if previous = 0 then None else Some (dec28 (dec28 (ddiv current previous - 1) * 100))))"

definition averaged :: "decimal option list \<Rightarrow> decimal option" where
  "averaged vs = (if None \<in> set vs then None else Some (ddiv (foldl (\<lambda>acc v. dec28 (acc + the v)) 0 vs) (of_nat (length vs))))"

definition market_transform ::
  "observation list \<Rightarrow> transform_kind \<Rightarrow> int \<Rightarrow> bool \<Rightarrow> (market_fail, market_point list) result" where
  "market_transform rows kind periods moving_average =
     (if \<not> (1 \<le> periods \<and> periods \<le> 60) then Inl (MarketValue ''Unsupported market transformation/window.'')
      else if \<not> distinct (map ob_period rows) then Inl (MarketValue ''Duplicate market observation period.'')
      else let published = map ob_period (filter (\<lambda>r. ob_value r \<noteq> None) rows)
           in if published = [] then Inr []
              else case parse_date (foldl max (hd published) published @ ''-01'') of
                None \<Rightarrow> Inl (MarketValue ''Invalid isoformat string'')
              | Some latest \<Rightarrow>
                  Inr (map (\<lambda>delta. let period = month_offset latest delta;
                        vs = map (\<lambda>k. point_value kind rows (month_offset period (- int k))) [0..<(if moving_average then 3 else 1)]
                      in \<lparr>pt_period = month_text period, pt_value = map_option quantize4 (averaged vs)\<rparr>) [- periods + 1..0]))"

end
