(* ===== verification/MarketStore.thy ===== *)
theory MarketStore
  imports MarketSeries Retry
begin

text \<open>
  \<^verbatim>\<open>persistence/market_series.py\<close> and \<^verbatim>\<open>modules/markets/service.py\<close>: the stored
  vintages of the series, the pointer to the current one, the log of refreshes and the service that reads and
  refreshes them. A table is the list of its rows in the order of insertion. The payload of a vintage and the
  report of a run are kept as values instead of the JSON text that only this module writes and reads; the digest
  of a vintage is that of \<open>codec\<close>. The download, the clock readings and new identifiers are arguments.
\<close>

section \<open>Tables\<close>

record vintage_payload =
  vp_series :: parsed_series
  vp_adapter_version :: string
  vp_retrieval_kind :: string
  vp_source_url :: string
  vp_source_sha256 :: string
  vp_last_modified :: "string option"

record vintage =
  vt_id :: string
  vt_series_id :: string
  vt_retrieved_at :: datetime
  vt_release_date :: "string option"
  vt_payload :: vintage_payload

record current_vintage =
  cv_series_id :: string
  cv_vintage_id :: string
  cv_last_verified_at :: datetime

record stored_report =
  sp_id :: string
  sp_source_url :: string
  sp_retrieval_kind :: string
  sp_retrieved_at :: datetime
  sp_source_sha256 :: string
  sp_last_modified :: "string option"
  sp_created_vintages :: int
  sp_replayed_series :: int
  sp_series :: "(string \<times> string \<times> int) list"  \<comment> \<open>series, vintage and its number of observations\<close>

datatype market_report =
    Report_succeeded stored_report
  | Report_failed string string datetime  \<comment> \<open>identifier, reason, completion\<close>

record refresh_run =
  mr_id :: string
  mr_completed_at :: datetime
  mr_status :: string
  mr_report :: market_report

record market_db =
  md_vintages :: "vintage list"
  md_current :: "current_vintage list"
  md_runs :: "refresh_run list"

definition empty_market :: market_db where
  "empty_market = \<lparr>md_vintages = [], md_current = [], md_runs = []\<rparr>"

definition current_of_series :: "market_db \<Rightarrow> string \<Rightarrow> current_vintage option" where
  "current_of_series db sid = row_by cv_series_id (md_current db) sid"

definition vintage_of :: "market_db \<Rightarrow> string \<Rightarrow> vintage option" where
  "vintage_of db vid = row_by vt_id (md_vintages db) vid"

definition insert_run_row :: "refresh_run \<Rightarrow> market_db \<Rightarrow> (market_fail, market_db) result" where
  "insert_run_row r db = (if mr_id r \<in> mr_id ` set (md_runs db) then Inl MarketIntegrity else Inr (db\<lparr>md_runs := md_runs db @ [r]\<rparr>))"

section \<open>Storing\<close>

record store_args =
  sa_retrieved_at :: datetime
  sa_source_url :: string
  sa_last_modified :: "string option"
  sa_retrieval_kind :: string
  sa_run_id :: string

definition semantic_json :: "parsed_series \<Rightarrow> json" where
  "semantic_json item = J_obj [(''metadata'', series_json (ps_metadata item)), (''source_title'', J_str (ps_source_title item)),
     (''observations'', J_arr (map (\<lambda>o'. J_obj [(''period'', J_str (ob_period o')), (''value'', j_opt J_str (ob_value o')),
        (''status'', J_str (observed o'))]) (ps_observations item))), (''adapter_version'', J_str ADAPTER_VERSION)]"

definition vintage_digest :: "codec \<Rightarrow> parsed_series \<Rightarrow> string" where
  "vintage_digest c item = co_sha c (co_dump c (semantic_json item))"

definition RETRIEVAL_KINDS :: "string list" where
  "RETRIEVAL_KINDS = [''PROVIDED_SOURCE_NOT_LIVE_FETCH'', ''LIVE_PUBLIC_DOWNLOAD'', ''CI_HISTORICAL_PUBLIC_EXCERPT'']"

definition store_check :: "store_args \<Rightarrow> parsed_g17 \<Rightarrow> string option" where
  "store_check a parsed =
     (let ids = map (sr_id \<circ> ps_metadata) (pg_series parsed)
      in if sa_retrieval_kind a \<notin> set RETRIEVAL_KINDS then Some ''Unsupported market retrieval provenance.''
         else if \<not> aware (sa_retrieved_at a) \<or> pg_adapter_version parsed \<noteq> ADAPTER_VERSION
         then Some ''Market import requires an aware clock and supported adapter.''
         else if length (pg_series parsed) \<noteq> length SERIES \<or> set ids \<noteq> set (map sr_id SERIES)
         then Some ''Market import requires the complete reviewed series set.''
         else if list_ex (\<lambda>item. Some (ps_metadata item) \<noteq> series_by_id (sr_id (ps_metadata item))) (pg_series parsed)
         then Some ''Market metadata differs from the reviewed registry.''
         else None)"

definition new_vintage :: "store_args \<Rightarrow> string \<Rightarrow> string \<Rightarrow> parsed_series \<Rightarrow> vintage" where
  "new_vintage a digest source_sha item = \<lparr>vt_id = digest, vt_series_id = sr_id (ps_metadata item), vt_retrieved_at = sa_retrieved_at a,
     vt_release_date = None, vt_payload = \<lparr>vp_series = item, vp_adapter_version = ADAPTER_VERSION, vp_retrieval_kind = sa_retrieval_kind a,
       vp_source_url = sa_source_url a, vp_source_sha256 = source_sha, vp_last_modified = sa_last_modified a\<rparr>\<rparr>"

definition point_current :: "current_vintage \<Rightarrow> market_db \<Rightarrow> market_db" where
  "point_current r db = (if current_of_series db (cv_series_id r) = None then db\<lparr>md_current := md_current db @ [r]\<rparr>
     else db\<lparr>md_current := replace_row cv_series_id r (md_current db)\<rparr>)"

definition report_series :: "bool \<Rightarrow> string \<Rightarrow> parsed_series \<Rightarrow> stored_report \<Rightarrow> stored_report" where
  "report_series created digest item report = report\<lparr>sp_created_vintages := sp_created_vintages report + (if created then 1 else 0),
     sp_replayed_series := sp_replayed_series report + (if created then 0 else 1),
     sp_series := sp_series report @ [(sr_id (ps_metadata item), digest, int (length (ps_observations item)))]\<rparr>"

definition store_series ::
  "codec \<Rightarrow> store_args \<Rightarrow> string \<Rightarrow> parsed_series \<Rightarrow> stored_report \<times> market_db \<Rightarrow> (market_fail, stored_report \<times> market_db) result" where
  "store_series c a source_sha item st =
     (let (report, db) = st; sid = sr_id (ps_metadata item); digest = vintage_digest c item; created = (vintage_of db digest = None)
      in if (case current_of_series db sid of None \<Rightarrow> False | Some r \<Rightarrow> instant (sa_retrieved_at a) < instant (cv_last_verified_at r))
         then Inl (MarketValue ''Stale market refresh cannot replace a newer verified snapshot.'')
         else Inr (report_series created digest item report,
           point_current \<lparr>cv_series_id = sid, cv_vintage_id = digest, cv_last_verified_at = sa_retrieved_at a\<rparr>
             (if created then db\<lparr>md_vintages := md_vintages db @ [new_vintage a digest source_sha item]\<rparr> else db)))"

fun store_all ::
  "codec \<Rightarrow> store_args \<Rightarrow> string \<Rightarrow> parsed_series list \<Rightarrow> stored_report \<times> market_db \<Rightarrow> (market_fail, stored_report \<times> market_db) result" where
  "store_all c a source_sha [] st = Inr st"
| "store_all c a source_sha (item # items) st = bind_r (store_series c a source_sha item st) (store_all c a source_sha items)"

definition new_report :: "store_args \<Rightarrow> parsed_g17 \<Rightarrow> stored_report" where
  "new_report a parsed = \<lparr>sp_id = sa_run_id a, sp_source_url = sa_source_url a, sp_retrieval_kind = sa_retrieval_kind a,
     sp_retrieved_at = sa_retrieved_at a, sp_source_sha256 = pg_source_sha256 parsed, sp_last_modified = sa_last_modified a,
     sp_created_vintages = 0, sp_replayed_series = 0, sp_series = []\<rparr>"

definition store_market :: "codec \<Rightarrow> store_args \<Rightarrow> parsed_g17 \<Rightarrow> market_db \<Rightarrow> (market_fail, stored_report \<times> market_db) result" where
  "store_market c a parsed db =
     (case store_check a parsed of
        Some message \<Rightarrow> Inl (MarketValue message)
      | None \<Rightarrow> bind_r (store_all c a (pg_source_sha256 parsed) (pg_series parsed) (new_report a parsed, db)) (\<lambda>(report, db').
          map_sum id (Pair report) (insert_run_row \<lparr>mr_id = sa_run_id a, mr_completed_at = sa_retrieved_at a, mr_status = ''SUCCEEDED'',
            mr_report = Report_succeeded report\<rparr> db')))"

definition FAILURE_CODES :: "string list" where
  "FAILURE_CODES = [''SOURCE_UNAVAILABLE'', ''SOURCE_CONTRACT_CHANGED'', ''REFRESH_DEADLINE'']"

definition market_failed :: "datetime \<Rightarrow> string \<Rightarrow> string \<Rightarrow> market_db \<Rightarrow> (market_fail, market_report \<times> market_db) result" where
  "market_failed completed_at reason run_id db =
     (if reason \<notin> set FAILURE_CODES then Inl (MarketValue ''Unsupported public market failure code.'')
      else map_sum id (Pair (Report_failed run_id reason completed_at)) (insert_run_row \<lparr>mr_id = run_id, mr_completed_at = completed_at,
        mr_status = ''FAILED'', mr_report = Report_failed run_id reason completed_at\<rparr> db))"

section \<open>Reading\<close>

record market_snapshot =
  sn_payload :: vintage_payload
  sn_vintage_id :: string
  sn_is_current :: bool
  sn_retrieved_at :: datetime
  sn_release_date :: "string option"
  sn_last_verified_at :: "datetime option"

definition snapshot_of :: "market_db \<Rightarrow> string \<Rightarrow> current_vintage option \<Rightarrow> string \<Rightarrow> market_snapshot option" where
  "snapshot_of db sid current vid =
     (case first_match (\<lambda>v. vt_id v = vid \<and> vt_series_id v = sid) (md_vintages db) of
        None \<Rightarrow> None
      | Some v \<Rightarrow>
          (let is_current = (map_option cv_vintage_id current = Some vid)
           in Some \<lparr>sn_payload = vt_payload v, sn_vintage_id = vt_id v, sn_is_current = is_current, sn_retrieved_at = vt_retrieved_at v,
                sn_release_date = vt_release_date v, sn_last_verified_at = (if is_current then map_option cv_last_verified_at current else None)\<rparr>))"

definition snapshot :: "market_db \<Rightarrow> string \<Rightarrow> string option \<Rightarrow> (market_fail, market_snapshot option) result" where
  "snapshot db sid vintage_id =
     (if series_by_id sid = None then Inl (MarketValue ''Unknown market series.'')
      else let current = current_of_series db sid;
               selected = (case vintage_id of Some v \<Rightarrow> if v \<noteq> [] then Some v else map_option cv_vintage_id current | None \<Rightarrow> map_option cv_vintage_id current)
           in Inr (case selected of None \<Rightarrow> None | Some v \<Rightarrow> snapshot_of db sid current v))"

definition vintages :: "market_db \<Rightarrow> string \<Rightarrow> (market_fail, (string \<times> datetime) list) result" where
  "vintages db sid =
     (if series_by_id sid = None then Inl (MarketValue ''Unknown market series.'')
      else Inr (map (\<lambda>v. (vt_id v, vt_retrieved_at v)) (take 24 (sort_key (\<lambda>v. - instant (vt_retrieved_at v))
        (sort_key vt_id (filter (\<lambda>v. vt_series_id v = sid) (md_vintages db)))))))"

definition last_run :: "market_db \<Rightarrow> market_report option" where
  \<comment> \<open>\<open>health()['last_run']\<close>\<close>
  "last_run db = (case sort_key (\<lambda>r. - instant (mr_completed_at r)) (sort_key mr_id (md_runs db)) of [] \<Rightarrow> None | r # _ \<Rightarrow> Some (mr_report r))"

section \<open>Service\<close>

record market_response =
  ms_status :: int
  ms_content_type :: "string option"
  ms_last_modified :: "string option"
  ms_final_url :: string
  ms_body :: market_body

datatype market_fetch = Read_deadline | Read_failed | Read_response market_response

datatype refresh_outcome =
    Market_disabled
  | Start_skipped
  | Not_due string int
  | Deadline_skipped
  | Refresh_failed market_report
  | Refresh_stored stored_report

record refresh_args =
  ra_fetch :: market_fetch
  ra_clock :: datetime             \<comment> \<open>the clock after the download\<close>
  ra_deadline :: "int option"
  ra_monotonic :: int              \<comment> \<open>the monotonic clock after parsing\<close>
  ra_run_id :: string

definition failed_refresh :: "refresh_args \<Rightarrow> string \<Rightarrow> market_db \<Rightarrow> (market_fail, refresh_outcome \<times> market_db) result" where
  "failed_refresh a reason db = map_sum id (map_prod Refresh_failed id) (market_failed (ra_clock a) reason (ra_run_id a) db)"

definition refresh_market :: "codec \<Rightarrow> refresh_args \<Rightarrow> market_db \<Rightarrow> (market_fail, refresh_outcome \<times> market_db) result" where
  "refresh_market c a db =
     (case ra_fetch a of
        Read_deadline \<Rightarrow> failed_refresh a ''REFRESH_DEADLINE'' db
      | Read_failed \<Rightarrow> failed_refresh a ''SOURCE_UNAVAILABLE'' db
      | Read_response r \<Rightarrow>
          (if ms_status r \<noteq> 200 \<or> \<not> starts_with ''text/'' (default_to (ms_content_type r) []) then failed_refresh a ''SOURCE_UNAVAILABLE'' db
           else case parse_g17 (ms_body r) (date_of (ra_clock a)) 60 of
             Inl e \<Rightarrow> failed_refresh a ''SOURCE_CONTRACT_CHANGED'' db
           | Inr parsed \<Rightarrow>
               (if (case ra_deadline a of None \<Rightarrow> False | Some d \<Rightarrow> d \<le> ra_monotonic a) then Inr (Deadline_skipped, db)
                else map_sum id (map_prod Refresh_stored id) (store_market c \<lparr>sa_retrieved_at = ra_clock a, sa_source_url = ms_final_url r,
                  sa_last_modified = ms_last_modified r, sa_retrieval_kind = ''LIVE_PUBLIC_DOWNLOAD'', sa_run_id = ra_run_id a\<rparr> parsed db))))"

record worker_args =
  wa_enabled :: bool
  wa_deadline :: int       \<comment> \<open>monotonic times are in seconds\<close>
  wa_started :: int
  wa_checked :: int        \<comment> \<open>after the health query\<close>
  wa_clock :: datetime     \<comment> \<open>the clock of the due check\<close>
  wa_refresh :: refresh_args

definition report_time :: "market_report \<Rightarrow> datetime" where
  "report_time r = (case r of Report_succeeded s \<Rightarrow> sp_retrieved_at s | Report_failed _ _ t \<Rightarrow> t)"

definition report_id :: "market_report \<Rightarrow> string" where
  "report_id r = (case r of Report_succeeded s \<Rightarrow> sp_id s | Report_failed i _ _ \<Rightarrow> i)"

definition poll_interval :: "market_report \<Rightarrow> int" where
  "poll_interval r = (case r of Report_failed _ _ _ \<Rightarrow> 3600 | Report_succeeded _ \<Rightarrow> 86400)"

definition not_due :: "datetime \<Rightarrow> market_report \<Rightarrow> bool" where
  "not_due now r = (instant now - instant (report_time r) < seconds (poll_interval r))"

definition worker_refresh :: "codec \<Rightarrow> worker_args \<Rightarrow> market_db \<Rightarrow> (market_fail, refresh_outcome \<times> market_db) result" where
  "worker_refresh c a db =
     (if \<not> wa_enabled a then Inr (Market_disabled, db)
      else if wa_deadline a - wa_started a < 20 then Inr (Start_skipped, db)
      else case last_run db of
        Some r \<Rightarrow>
          (if not_due (wa_clock a) r then Inr (Not_due (report_id r) (poll_interval r), db)
           else if wa_deadline a - wa_checked a < 20 then Inr (Start_skipped, db)
           else refresh_market c ((wa_refresh a)\<lparr>ra_deadline := Some (wa_deadline a)\<rparr>) db)
      | None \<Rightarrow>
          (if wa_deadline a - wa_checked a < 20 then Inr (Start_skipped, db)
           else refresh_market c ((wa_refresh a)\<lparr>ra_deadline := Some (wa_deadline a)\<rparr>) db))"

record overview_item =
  ov_metadata :: series
  ov_status :: string
  ov_latest :: "market_point option"
  ov_points :: "market_point list"
  ov_vintage_id :: "string option"
  ov_last_verified_at :: "datetime option"

definition overview_series :: "market_db \<Rightarrow> transform_kind \<Rightarrow> bool \<Rightarrow> series \<Rightarrow> (market_fail, overview_item) result" where
  "overview_series db kind avg s =
     bind_r (snapshot db (sr_id s) None) (\<lambda>snap.
       case snap of
         None \<Rightarrow> Inr \<lparr>ov_metadata = s, ov_status = ''NOT_COLLECTED'', ov_latest = None, ov_points = [], ov_vintage_id = None, ov_last_verified_at = None\<rparr>
       | Some v \<Rightarrow>
           bind_r (market_transform (ps_observations (vp_series (sn_payload v))) LEVEL 1 False) (\<lambda>latest.
           bind_r (market_transform (ps_observations (vp_series (sn_payload v))) kind 36 avg) (\<lambda>points.
             Inr \<lparr>ov_metadata = s, ov_status = ''AVAILABLE'', ov_latest = (case latest of [] \<Rightarrow> None | p # _ \<Rightarrow> Some p), ov_points = points,
               ov_vintage_id = Some (sn_vintage_id v), ov_last_verified_at = sn_last_verified_at v\<rparr>)))"

definition overview :: "market_db \<Rightarrow> transform_kind \<Rightarrow> bool \<Rightarrow> (market_fail, overview_item list) result" where
  "overview db kind avg = map_r (overview_series db kind avg) SERIES"

record market_detail =
  dt_snapshot :: market_snapshot
  dt_display_unit :: string
  dt_points :: "market_point list"
  dt_vintages :: "(string \<times> datetime) list"

definition market_detail_of :: "market_db \<Rightarrow> string \<Rightarrow> transform_kind \<Rightarrow> bool \<Rightarrow> string option \<Rightarrow> (market_fail, market_detail option) result" where
  "market_detail_of db sid kind avg vintage_id =
     bind_r (snapshot db sid vintage_id) (\<lambda>snap.
       case snap of
         None \<Rightarrow> Inr None
       | Some v \<Rightarrow>
           bind_r (market_transform (ps_observations (vp_series (sn_payload v))) kind 36 avg) (\<lambda>points.
           bind_r (vintages db sid) (\<lambda>vs.
             Inr (Some \<lparr>dt_snapshot = v, dt_display_unit = (if kind = LEVEL then ''INDEX_2017_100'' else ''PERCENT_CHANGE''),
               dt_points = points, dt_vintages = vs\<rparr>))))"

end
