(* ===== verification/IsoText.thy ===== *)
theory IsoText
  imports CommercialEvidence
begin

text \<open>ISO text of dates: what is printed is read back, and decimal digits determine their number.\<close>

lemma digits_value_append: "digits_value (s @ [ch]) = digits_value s * 10 + (of_char ch - 48)"
  by (simp add: digits_value_def)

lemma digits_padded_length [simp]: "length (digits_padded k n) = k"
  by (induction k arbitrary: n) simp_all

lemma digit_char: "d < 10 \<Longrightarrow> (of_char (char_of (48 + d :: nat)) :: nat) = 48 + d"
  by simp

lemma digit_is_digit: "d < 10 \<Longrightarrow> is_digit (char_of (48 + d :: nat))"
  by (simp add: is_digit_def Let_def)

lemma mod_ten: "nat (n mod 10) < 10" for n :: int
  using pos_mod_bound[of 10 n] by simp

lemma digits_padded_digits: "list_all is_digit (digits_padded k n)"
  by (induction k arbitrary: n) (simp_all add: digit_is_digit[OF mod_ten])

lemma digits_value_padded: "0 \<le> n \<Longrightarrow> n < 10 ^ k \<Longrightarrow> int (digits_value (digits_padded k n)) = n"
proof (induction k arbitrary: n)
  case (Suc k)
  have "n div 10 < 10 ^ k" using Suc.prems by (simp add: div_less_iff_less_mult mult.commute)
  then have "int (digits_value (digits_padded k (n div 10))) = n div 10" using Suc by simp
  moreover have "(of_char (char_of (48 + nat (n mod 10)) :: char) :: nat) = 48 + nat (n mod 10)" by (rule digit_char[OF mod_ten])
  ultimately show ?case by (simp add: digits_value_append)
qed (simp add: digits_value_def)

lemma iso_parts: "take 4 (iso_date d) = digits_padded 4 (d_year d)" "iso_date d ! 4 = CHR ''-''"
  "take 2 (drop 5 (iso_date d)) = digits_padded 2 (d_month d)" "iso_date d ! 7 = CHR ''-''" "drop 8 (iso_date d) = digits_padded 2 (d_day d)"
  "length (iso_date d) = 10"
  by (simp_all add: iso_date_def nth_append)

lemma parse_iso_date:
  assumes "valid_date d"
  shows "parse_date (iso_date d) = Some d"
proof -
  have b: "0 \<le> d_year d" "d_year d < 10 ^ 4" "0 \<le> d_month d" "d_month d < 10 ^ 2" "0 \<le> d_day d" "d_day d < 10 ^ 2"
    using assms by (auto simp: valid_date_def days_in_month_def split: if_splits)
  have "two_digits (digits_padded 2 (d_month d)) = Some (d_month d)" "two_digits (digits_padded 2 (d_day d)) = Some (d_day d)"
    using digits_value_padded[OF b(3,4)] digits_value_padded[OF b(5,6)] by (simp_all add: two_digits_def digits_padded_digits)
  moreover have "int (digits_value (digits_padded 4 (d_year d))) = d_year d" by (rule digits_value_padded[OF b(1,2)])
  ultimately show ?thesis using assms by (simp add: parse_date_def iso_parts digits_padded_digits)
qed

lemma iso_date_inject: "valid_date a \<Longrightarrow> valid_date b \<Longrightarrow> iso_date a = iso_date b \<longleftrightarrow> a = b"
  using parse_iso_date by (metis option.inject)

end
