(* ===== verification/MarketProps.thy ===== *)
theory MarketProps
  imports MarketSeries IsoText
begin

text \<open>What every accepted table promises, and that a printed table is read back.\<close>

section \<open>Months as text\<close>

definition is_month :: "date \<Rightarrow> bool" where
  "is_month d = (d_day d = 1 \<and> 1 \<le> d_month d \<and> d_month d \<le> 12 \<and> 1 \<le> d_year d \<and> d_year d \<le> 9999)"

lemma month_valid: "is_month d \<Longrightarrow> valid_date d"
  by (auto simp: is_month_def valid_date_def days_in_month_def)

lemma month_iso: "is_month d \<Longrightarrow> month_text d @ ''-01'' = iso_date d"
proof -
  assume m: "is_month d"
  have "iso_date d = take 7 (iso_date d) @ drop 7 (iso_date d)" by simp
  moreover have "digits_padded 2 1 = ''01''" by code_simp
  then have "drop 7 (iso_date d) = ''-01''" using m by (simp add: iso_date_def is_month_def)
  ultimately show ?thesis by (simp add: month_text_def)
qed

lemma parse_month_text: "is_month d \<Longrightarrow> parse_date (month_text d @ ''-01'') = Some d"
  by (simp add: month_iso parse_iso_date month_valid)

lemma month_text_inject: "is_month a \<Longrightarrow> is_month b \<Longrightarrow> month_text a = month_text b \<longleftrightarrow> a = b"
  using parse_month_text by (metis option.inject)

section \<open>Numbers\<close>

lemma digit_not_space: "is_digit c \<Longrightarrow> \<not> is_space c" "is_digit c \<Longrightarrow> c \<noteq> CHR ''_''" "is_digit c \<Longrightarrow> c \<noteq> CHR ''e'' \<and> c \<noteq> CHR ''E'' \<and> c \<noteq> CHR ''.''"
  "is_digit c \<Longrightarrow> c \<noteq> CHR ''-'' \<and> c \<noteq> CHR ''+''"
  by (auto simp: is_digit_def is_space_def Let_def)

definition number_shape :: "string \<Rightarrow> string \<Rightarrow> string \<Rightarrow> bool" where
  "number_shape t units fraction = (units \<noteq> [] \<and> list_all is_digit units \<and> list_all is_digit fraction
     \<and> (t = units \<and> fraction = [] \<or> t = units @ ''.'' @ fraction \<and> fraction \<noteq> [] \<and> length fraction \<le> 4))"

lemma takeWhile_digits: "list_all is_digit w \<Longrightarrow> takeWhile is_digit (w @ CHR ''.'' # r) = w" "list_all is_digit w \<Longrightarrow> dropWhile is_digit (w @ CHR ''.'' # r) = CHR ''.'' # r"
  "list_all is_digit w \<Longrightarrow> takeWhile is_digit w = w" "list_all is_digit w \<Longrightarrow> dropWhile is_digit w = []"
  by (induction w) (auto simp: is_digit_def)

lemma number_token_shape: "number_token t \<Longrightarrow> \<exists>units fraction. number_shape t units fraction"
proof -
  assume n: "number_token t"
  let ?w = "takeWhile is_digit t" and ?r = "dropWhile is_digit t"
  have w: "list_all is_digit ?w" by (auto simp: list_all_iff dest: set_takeWhileD)
  have t: "t = ?w @ ?r" by simp
  show ?thesis
  proof (cases "?r = []")
    case True
    then have u: "?w = t" using t by simp
    have "?w \<noteq> []" using n by (simp add: number_token_def Let_def)
    then have "number_shape t t []" using w unfolding u by (simp add: number_shape_def)
    then show ?thesis by blast
  next
    case False
    then obtain x xs where r: "?r = x # xs" by (cases ?r) auto
    then have "x = CHR ''.''" "xs \<noteq> []" "length xs \<le> 4" "list_all is_digit xs" "?w \<noteq> []"
      using n by (auto simp: number_token_def Let_def)
    then show ?thesis using w t r by (intro exI[of _ ?w] exI[of _ xs]) (simp add: number_shape_def)
  qed
qed

lemma number_text_shape: "number_shape t units fraction \<Longrightarrow> \<exists>w. number_shape (number_text t) w fraction"
proof -
  assume s: "number_shape t units fraction"
  let ?z = "dropWhile (\<lambda>c. c = CHR ''0'') units"
  have z: "list_all is_digit ?z" using s set_dropWhileD by (fastforce simp: number_shape_def list_all_iff)
  have d0: "is_digit (CHR ''0'')" by (simp add: is_digit_def)
  have u: "takeWhile is_digit t = units" "dropWhile is_digit t = (if fraction = [] then [] else ''.'' @ fraction)"
    using s takeWhile_digits[of units] by (auto simp: number_shape_def)
  have n: "number_text t = (if ?z = [] then ''0'' else ?z) @ (if fraction = [] then [] else ''.'' @ fraction)"
    unfolding number_text_def u Let_def by (rule refl)
  have "number_shape (number_text t) (if ?z = [] then ''0'' else ?z) fraction"
    using s z d0 unfolding n number_shape_def by (cases "fraction = []"; cases "?z = []") simp_all
  then show ?thesis by blast
qed

lemma strip_nonspace: "\<forall>c\<in>set s. \<not> is_space c \<Longrightarrow> strip s = s"
proof -
  assume a: "\<forall>c\<in>set s. \<not> is_space c"
  have d: "dropWhile is_space xs = xs" if "\<forall>c\<in>set xs. \<not> is_space c" for xs using that by (cases xs) auto
  have "dropWhile is_space (rev s) = rev s" by (rule d) (use a in simp)
  then show ?thesis using d[OF a] by (simp add: strip_def)
qed

lemma shape_parses:
  assumes "number_shape t units fraction"
  shows "parse_decimal t = Some (of_nat (digits_value (units @ fraction)) / 10 ^ length fraction)"
proof -
  have chars: "\<forall>c\<in>set t. is_digit c \<or> c = CHR ''.''" using assms by (auto simp: number_shape_def list_all_iff)
  have s: "strip t = t" by (rule strip_nonspace) (use chars digit_not_space in \<open>auto simp: is_space_def\<close>)
  have f: "filter (\<lambda>c. c \<noteq> CHR ''_'') t = t" by (rule filter_True) (use chars digit_not_space in auto)
  obtain c cs where w: "units = c # cs" "is_digit c" using assms by (cases units) (auto simp: number_shape_def)
  have sg: "split_sign t = (False, t)" using assms w digit_not_space(4)[OF w(2)] by (auto simp: number_shape_def split_sign_def)
  have e: "takeWhile (\<lambda>c. c \<noteq> CHR ''e'' \<and> c \<noteq> CHR ''E'') t = t" "dropWhile (\<lambda>c. c \<noteq> CHR ''e'' \<and> c \<noteq> CHR ''E'') t = []"
    using chars digit_not_space by (auto simp: takeWhile_eq_all_conv dropWhile_eq_Nil_conv)
  have dots: "\<forall>c\<in>set units. c \<noteq> CHR ''.''" using assms digit_not_space(3) by (auto simp: number_shape_def list_all_iff)
  have tw: "takeWhile (\<lambda>c. c \<noteq> CHR ''.'') units = units" "dropWhile (\<lambda>c. c \<noteq> CHR ''.'') units = []"
    using dots by (simp_all add: takeWhile_eq_all_conv)
  have tws: "takeWhile (\<lambda>c. c \<noteq> CHR ''.'') (units @ CHR ''.'' # fraction) = units"
    "dropWhile (\<lambda>c. c \<noteq> CHR ''.'') (units @ CHR ''.'' # fraction) = CHR ''.'' # fraction"
    using dots by (simp_all add: takeWhile_append2 dropWhile_append2)
  have p: "takeWhile (\<lambda>c. c \<noteq> CHR ''.'') t = units \<and> drop 1 (dropWhile (\<lambda>c. c \<noteq> CHR ''.'') t) = fraction"
  proof -
    consider "t = units" "fraction = []" | "t = units @ CHR ''.'' # fraction" using assms by (auto simp: number_shape_def)
    then show ?thesis
    proof cases
      case 1
      show ?thesis unfolding 1 tw by simp
    next
      case 2
      show ?thesis unfolding 2 tws by simp
    qed
  qed
  have a: "units @ fraction \<noteq> []" "list_all is_digit (units @ fraction)" using assms by (auto simp: number_shape_def)
  show ?thesis
    unfolding parse_decimal_def s f sg prod.case Let_def e conjunct1[OF p] conjunct2[OF p]
    using a by (simp add: parse_exponent_def)
qed

lemma number_text_parses: "number_token t \<Longrightarrow> \<exists>v\<ge>0. parse_decimal (number_text t) = Some v"
proof -
  assume "number_token t"
  then obtain units fraction where "number_shape t units fraction" using number_token_shape by blast
  then obtain w where "number_shape (number_text t) w fraction" using number_text_shape by blast
  from shape_parses[OF this] show ?thesis by (simp add: exI[of _ "of_nat (digits_value (w @ fraction)) / 10 ^ length fraction"])
qed

section \<open>The table\<close>

definition entry_ok :: "date \<Rightarrow> date \<Rightarrow> string \<times> observation \<Rightarrow> bool" where
  "entry_ok as_of earliest e = (ob_period (snd e) = fst e
     \<and> (\<exists>m. is_month m \<and> fst e = month_text m \<and> earliest \<le> m \<and> m \<le> as_of)
     \<and> (\<forall>t. ob_value (snd e) = Some t \<longrightarrow> (\<exists>v\<ge>0. parse_decimal t = Some v)))"

definition g17_ok :: "date \<Rightarrow> date \<Rightarrow> g17_state \<Rightarrow> bool" where
  "g17_ok as_of earliest st = (\<forall>code d. dget (gs_observations st) code = Some d \<longrightarrow> dict_wf d \<and> (\<forall>e\<in>set d. entry_ok as_of earliest e))"

lemma month_cell_ok:
  assumes "month_cell as_of earliest n year cells index = Inr es" "1900 \<le> year" "year \<le> 9999" "index < 12" "e \<in> set es"
  shows "entry_ok as_of earliest e"
proof -
  let ?p = "Date year (int index + 1) 1"
  obtain v where v: "cell as_of ?p (strip (take 10 (drop (index * 10) cells))) = Inr v" "e = (month_text ?p, \<lparr>ob_period = month_text ?p, ob_value = v, ob_source_line = n\<rparr>)"
    "earliest \<le> ?p" "?p \<le> as_of"
    using assms(1,5) by (auto simp: month_cell_def Let_def bind_r_Inr split: if_splits)
  have "is_month ?p" using assms(2-4) by (simp add: is_month_def)
  moreover have "\<exists>x\<ge>0. parse_decimal t = Some x" if "v = Some t" for t
    using v(1) that number_text_parses by (auto simp: cell_def split: if_splits)
  ultimately show ?thesis using v by (auto simp: entry_ok_def)
qed

lemma row_cells_ok:
  assumes "row_cells as_of earliest n year_text tail = Inr es" "d_year as_of \<le> 9999" "e \<in> set es"
  shows "entry_ok as_of earliest e"
proof -
  let ?y = "int (digits_value year_text)"
  have y: "1900 \<le> ?y" "?y \<le> 9999" using assms(1,2) by (auto simp: row_cells_def Let_def split: if_splits)
  obtain ess where r: "map_r (month_cell as_of earliest n ?y (drop 3 tail)) [0..<12] = Inr ess" "es = concat ess"
    using assms(1) by (cases "map_r (month_cell as_of earliest n ?y (drop 3 tail)) [0..<12]") (auto simp: row_cells_def Let_def split: if_splits)
  then obtain xs where x: "xs \<in> set ess" "e \<in> set xs" using assms(3) by auto
  from map_r_all[OF r(1)] x(1) obtain i where "i < 12" "month_cell as_of earliest n ?y (drop 3 tail) i = Inr xs"
    by (auto simp: list_all2_conv_all_nth in_set_conv_nth)
  then show ?thesis using month_cell_ok y x(2) by blast
qed

lemma fold_entries:
  "dict_wf d \<Longrightarrow> \<forall>e\<in>set d. P e \<Longrightarrow> \<forall>e\<in>set es. P e \<Longrightarrow>
    dict_wf (foldl (\<lambda>d (p, v). dset p v d) d es) \<and> (\<forall>e\<in>set (foldl (\<lambda>d (p, v). dset p v d) d es). P e)"
proof (induction es arbitrary: d)
  case (Cons e es)
  obtain p v where e: "e = (p, v)" by (cases e)
  have "set (dset p v d) \<subseteq> insert (p, v) (set d)" by (induction d) auto
  then have "\<forall>x\<in>set (dset p v d). P x" using Cons.prems e by auto
  then show ?case using Cons.IH[OF dict_wf_dset[OF Cons.prems(1)]] Cons.prems(3) e by auto
qed simp

lemma g17_row_ok:
  assumes "g17_ok as_of earliest st" "d_year as_of \<le> 9999" "g17_row as_of earliest n line st = Inr st'"
  shows "g17_ok as_of earliest st'"
proof (cases "parse_row line")
  case None
  then show ?thesis using assms(1,3) by (simp add: g17_row_def split: if_splits)
next
  case (Some q)
  obtain code year_text tail where q: "q = (code, year_text, tail)" by (cases q)
  show ?thesis
  proof (cases "st' = st")
    case False
    then obtain es where es: "row_cells as_of earliest n year_text tail = Inr es"
      "st' = st\<lparr>gs_seen := (code, year_text) # gs_seen st,
         gs_observations := dset code (foldl (\<lambda>d (p, v). dset p v d) (default_to (dget (gs_observations st) code) []) es) (gs_observations st)\<rparr>"
      using assms(3) Some q by (auto simp: g17_row_def bind_r_Inr split: if_splits)
    let ?d = "default_to (dget (gs_observations st) code) []"
    have "dict_wf ?d \<and> (\<forall>e\<in>set ?d. entry_ok as_of earliest e)"
      using assms(1) by (cases "dget (gs_observations st) code") (auto simp: g17_ok_def dict_wf_Nil)
    then have "dict_wf (foldl (\<lambda>d (p, v). dset p v d) ?d es) \<and> (\<forall>e\<in>set (foldl (\<lambda>d (p, v). dset p v d) ?d es). entry_ok as_of earliest e)"
      using fold_entries[of ?d "entry_ok as_of earliest" es] row_cells_ok[OF es(1) assms(2)] by blast
    then show ?thesis using assms(1) es(2) by (auto simp: g17_ok_def dict_simps)
  qed (use assms(1) in simp)
qed

lemma g17_line_ok:
  "g17_ok as_of earliest st \<Longrightarrow> d_year as_of \<le> 9999 \<Longrightarrow> g17_line as_of earliest n line st = Inr st' \<Longrightarrow> g17_ok as_of earliest st'"
  using g17_row_ok[of as_of earliest st n line st']
  by (auto simp: g17_line_def g17_ok_def split: option.splits if_splits)

lemma fold_lines_ok:
  "g17_ok as_of earliest st \<Longrightarrow> d_year as_of \<le> 9999 \<Longrightarrow> fold_lines as_of earliest n ls st = Inr st' \<Longrightarrow> g17_ok as_of earliest st'"
proof (induction ls arbitrary: n st)
  case (Cons l ls)
  then obtain s1 where "g17_line as_of earliest n l st = Inr s1" "fold_lines as_of earliest (Suc n) ls s1 = Inr st'"
    by (auto simp: bind_r_Inr)
  then show ?case using Cons.IH g17_line_ok Cons.prems by blast
qed simp

lemma sorted_keys_strict: "dict_wf d \<Longrightarrow> sorted_wrt (<) (map fst (sort_key fst d))"
  by (simp add: dict_wf_def strict_sorted_iff distinct_map)

section \<open>Displaying a series\<close>

lemma max_member: "foldl max (x::'a::linorder) xs \<in> insert x (set xs)"
proof (induction xs arbitrary: x)
  case (Cons y xs)
  then have "foldl max (max x y) xs \<in> insert (max x y) (set xs)" .
  then show ?case by (cases "x \<le> y") (auto simp: max_absorb1 max_absorb2)
qed simp

lemma transform_succeeds:
  assumes "distinct (map ob_period rows)" "\<forall>r\<in>set rows. \<exists>m. is_month m \<and> ob_period r = month_text m" "1 \<le> periods" "periods \<le> 60"
  shows "\<exists>points. market_transform rows kind periods avg = Inr points"
proof -
  let ?pub = "map ob_period (filter (\<lambda>r. ob_value r \<noteq> None) rows)"
  show ?thesis
  proof (cases "?pub = []")
    case False
    then have "insert (hd ?pub) (set ?pub) = set ?pub" using hd_in_set[OF False] by blast
    then have "foldl max (hd ?pub) ?pub \<in> set ?pub" using max_member[of "hd ?pub" ?pub] by simp
    then obtain r where "r \<in> set rows" "foldl max (hd ?pub) ?pub = ob_period r" by auto
    then obtain m where "is_month m" "foldl max (hd ?pub) ?pub = month_text m" using assms(2) by auto
    then have "parse_date (foldl max (hd ?pub) ?pub @ ''-01'') = Some m" by (simp add: parse_month_text)
    then show ?thesis using assms(1,3,4) False by (simp add: market_transform_def Let_def del: map_is_Nil_conv filter_empty_conv)
  qed (use assms in \<open>simp add: market_transform_def Let_def\<close>)
qed

lemma accepted_tables:
  assumes "parse_g17 body as_of history_months = Inr r" "d_year as_of \<le> 9999"
  shows "map ps_metadata (pg_series r) = SERIES \<and> (\<forall>s\<in>set (pg_series r).
      ps_source_title s = expected_title (ps_metadata s) \<and> ps_observations s \<noteq> []
      \<and> sorted_wrt (<) (map ob_period (ps_observations s))
      \<and> (\<forall>o'\<in>set (ps_observations s).
          (\<exists>m. ob_period o' = month_text m \<and> month_offset (Date (d_year as_of) (d_month as_of) 1) (- history_months) \<le> m \<and> m \<le> as_of)
          \<and> (\<forall>t. ob_value o' = Some t \<longrightarrow> (\<exists>v\<ge>0. parse_decimal t = Some v)))
      \<and> (\<forall>kind periods avg. 1 \<le> periods \<and> periods \<le> 60 \<longrightarrow> (\<exists>points. market_transform (ps_observations s) kind periods avg = Inr points)))"
proof -
  let ?e = "month_offset (Date (d_year as_of) (d_month as_of) 1) (- history_months)"
  obtain tx st where st: "fold_lines as_of ?e 1 (splitlines tx) \<lparr>gs_headers = [], gs_observations = [], gs_seen = []\<rparr> = Inr st"
    "parsed_of body st = Inr r"
    using assms(1) by (auto simp: parse_g17_def bind_r_Inr split: if_splits option.splits)
  have ok: "g17_ok as_of ?e st" by (rule fold_lines_ok[OF _ assms(2) st(1)]) (simp add: g17_ok_def)
  let ?d = "\<lambda>s. default_to (dget (gs_observations st) (sr_native_code s)) []"
  have r: "r = \<lparr>pg_adapter_version = ADAPTER_VERSION, pg_source_sha256 = bd_sha256 body, pg_series = map (\<lambda>s. \<lparr>ps_metadata = s,
             ps_source_title = default_to (dget (gs_headers st) (sr_native_code s)) [], ps_observations = map snd (sort_key fst (?d s))\<rparr>) SERIES\<rparr>"
    and full: "\<And>s. s \<in> set SERIES \<Longrightarrow> ?d s \<noteq> [] \<and> dget (gs_headers st) (sr_native_code s) = Some (expected_title s)"
    using st(2) by (auto simp: parsed_of_def list_ex_iff split: if_splits)
  have each: "sorted_wrt (<) (map ob_period (map snd (sort_key fst (?d s)))) \<and> (\<forall>e\<in>set (?d s). entry_ok as_of ?e e)" for s
  proof -
    have d: "dict_wf (?d s) \<and> (\<forall>e\<in>set (?d s). entry_ok as_of ?e e)"
      using ok by (cases "dget (gs_observations st) (sr_native_code s)") (auto simp: g17_ok_def dict_wf_Nil)
    have "map ob_period (map snd (sort_key fst (?d s))) = map fst (sort_key fst (?d s))" using d by (auto simp: entry_ok_def)
    then show ?thesis using d sorted_keys_strict[of "?d s"] by (simp del: map_map)
  qed
  have display: "\<exists>points. market_transform (map snd (sort_key fst (?d s))) kind periods avg = Inr points"
    if "1 \<le> periods" "periods \<le> 60" for s kind periods avg
  proof (rule transform_succeeds)
    show "distinct (map ob_period (map snd (sort_key fst (?d s))))" using each[of s] by (simp add: strict_sorted_iff)
    show "\<forall>r\<in>set (map snd (sort_key fst (?d s))). \<exists>m. is_month m \<and> ob_period r = month_text m"
      using each[of s] by (force simp: entry_ok_def)
  qed (use that in auto)
  have obs: "(\<exists>m. ob_period o' = month_text m \<and> ?e \<le> m \<and> m \<le> as_of) \<and> (\<forall>t. ob_value o' = Some t \<longrightarrow> (\<exists>v\<ge>0. parse_decimal t = Some v))"
    if "o' \<in> set (map snd (sort_key fst (?d s)))" for s o'
    using each[of s] that by (fastforce simp: entry_ok_def)
  have "\<forall>s\<in>set SERIES. default_to (dget (gs_headers st) (sr_native_code s)) [] = expected_title s \<and> map snd (sort_key fst (?d s)) \<noteq> []
      \<and> sorted_wrt (<) (map ob_period (map snd (sort_key fst (?d s))))
      \<and> (\<forall>o'\<in>set (map snd (sort_key fst (?d s))). (\<exists>m. ob_period o' = month_text m \<and> ?e \<le> m \<and> m \<le> as_of)
          \<and> (\<forall>t. ob_value o' = Some t \<longrightarrow> (\<exists>v\<ge>0. parse_decimal t = Some v)))
      \<and> (\<forall>kind periods avg. 1 \<le> periods \<and> periods \<le> 60 \<longrightarrow> (\<exists>points. market_transform (map snd (sort_key fst (?d s))) kind periods avg = Inr points))"
    (is "\<forall>s\<in>set SERIES. ?sound s")
  proof
    fix s assume s: "s \<in> set SERIES"
    have "map snd (sort_key fst (?d s)) \<noteq> []" using full[OF s] by (metis map_is_Nil_conv set_empty set_sort)
    then show "?sound s" using full[OF s] each[of s] obs[of _ s] display[of _ s] by (auto simp del: map_map set_map)
  qed
  note sound = this
  define F where "F s = \<lparr>ps_metadata = s, ps_source_title = default_to (dget (gs_headers st) (sr_native_code s)) [],
             ps_observations = map snd (sort_key fst (?d s))\<rparr>" for s
  have r': "pg_series r = map F SERIES" unfolding r F_def by simp
  have "map ps_metadata (pg_series r) = SERIES" unfolding r' by (simp add: comp_def F_def)
  moreover have "ps_metadata (F s) = s" "ps_source_title (F s) = default_to (dget (gs_headers st) (sr_native_code s)) []"
    "ps_observations (F s) = map snd (sort_key fst (?d s))" for s by (simp_all add: F_def)
  ultimately show ?thesis using sound r' by (simp del: map_map)
qed

section \<open>Properties\<close>

text \<open>
  C29. Whatever bytes are downloaded, a table that is accepted gives exactly the reviewed series, in their order and
  under their expected titles; the observations of each are there, in the strict order of their periods, each a
  month of the window that has begun, with no value or a non-negative number; and every transformation of them
  within the display bounds succeeds.
\<close>

theorem accepted_tables_are_sound:
  assumes "parse_g17 body as_of history_months = Inr r" "d_year as_of \<le> 9999"
  shows "map ps_metadata (pg_series r) = SERIES \<and> (\<forall>s\<in>set (pg_series r).
      ps_source_title s = expected_title (ps_metadata s) \<and> ps_observations s \<noteq> []
      \<and> sorted_wrt (<) (map ob_period (ps_observations s))
      \<and> (\<forall>o'\<in>set (ps_observations s).
          (\<exists>m. ob_period o' = month_text m \<and> month_offset (Date (d_year as_of) (d_month as_of) 1) (- history_months) \<le> m \<and> m \<le> as_of)
          \<and> (\<forall>t. ob_value o' = Some t \<longrightarrow> (\<exists>v\<ge>0. parse_decimal t = Some v)))
      \<and> (\<forall>kind periods avg. 1 \<le> periods \<and> periods \<le> 60 \<longrightarrow> (\<exists>points. market_transform (ps_observations s) kind periods avg = Inr points)))"
  using accepted_tables[OF assms] .


definition demo_line :: "string \<Rightarrow> string \<Rightarrow> string" where
  "demo_line quoted tail = QUOTE # quoted @ QUOTE # tail @ [CHR 0x0A]"

definition demo_table :: market_body where
  "demo_table = \<lparr>bd_size = 300, bd_text = Some (concat (map (\<lambda>s. demo_line (sr_native_code s @ '': '' @ expected_title s) []
       @ demo_line (sr_native_code s) '' 2025        98.25        NA'') SERIES)), bd_sha256 = ''digest''\<rparr>"

lemma CODES_list [code]: "CODES = [''G3364'', ''G3344'', ''N3391'', ''G3353'']"
  by (simp add: CODES_def SERIES_def new_series_def)

lemma demo_text_list [code]: "demo_table = \<lparr>bd_size = 300, bd_text = Some (concat
  [demo_line ''G3364: Aerospace product and parts  NAICS=3364'' [], demo_line ''G3364'' '' 2025        98.25        NA'',
   demo_line ''G3344: Semiconductor and other electronic component  NAICS=3344'' [], demo_line ''G3344'' '' 2025        98.25        NA'',
   demo_line ''N3391: Medical equipment and supplies  NAICS=3391'' [], demo_line ''N3391'' '' 2025        98.25        NA'',
   demo_line ''G3353: Electrical equipment  NAICS=3353'' [], demo_line ''G3353'' '' 2025        98.25        NA'']), bd_sha256 = ''digest''\<rparr>"
  by (simp add: demo_table_def SERIES_def new_series_def expected_title_def)

lemma demo_table_parses: "\<exists>r. parse_g17 demo_table (Date 2025 7 20) 60 = Inr r"
proof -
  have "\<not> isl (parse_g17 demo_table (Date 2025 7 20) 60)" by code_simp
  then show ?thesis by (cases "parse_g17 demo_table (Date 2025 7 20) 60") auto
qed

theorem accepted_tables_are_sound_witness:
  "\<exists>r. parse_g17 demo_table (Date 2025 7 20) 60 = Inr r \<and> map ps_metadata (pg_series r) = SERIES"
  using demo_table_parses accepted_tables_are_sound[of demo_table "Date 2025 7 20" 60] by auto

end
