(* ===== verification/MarketStoreProps.thy ===== *)
theory MarketStoreProps
  imports MarketStore MarketProps SellerPlans
begin

text \<open>
  The market store under any sequence of refreshes: what it keeps, what it serves and when it asks the source.
\<close>

section \<open>Runs\<close>

datatype market_op = Mo_refresh refresh_args | Mo_worker worker_args

definition market_result :: "codec \<Rightarrow> market_op \<Rightarrow> market_db \<Rightarrow> (market_fail, refresh_outcome \<times> market_db) result" where
  "market_result c op db = (case op of Mo_refresh a \<Rightarrow> refresh_market c a db | Mo_worker a \<Rightarrow> worker_refresh c a db)"

definition market_step :: "codec \<Rightarrow> market_db \<Rightarrow> market_op \<Rightarrow> market_db" where
  "market_step c db op = (case market_result c op db of Inl _ \<Rightarrow> db | Inr (_, db') \<Rightarrow> db')"

definition market_run :: "codec \<Rightarrow> market_op list \<Rightarrow> market_db \<Rightarrow> market_db" where
  "market_run c ops db = foldl (market_step c) db ops"

definition op_refresh :: "market_op \<Rightarrow> refresh_args" where
  "op_refresh op = (case op of Mo_refresh a \<Rightarrow> a | Mo_worker a \<Rightarrow> wa_refresh a)"

definition in_calendar :: "market_op \<Rightarrow> bool" where
  "in_calendar op = (d_year (date_of (ra_clock (op_refresh op))) \<le> 9999)"

section \<open>The invariant\<close>

definition displayable :: "observation list \<Rightarrow> bool" where
  "displayable rows = (\<forall>kind periods avg. 1 \<le> periods \<and> periods \<le> 60 \<longrightarrow> (\<exists>points. market_transform rows kind periods avg = Inr points))"

definition item_ok :: "parsed_series \<Rightarrow> bool" where
  "item_ok item = (ps_metadata item \<in> set SERIES \<and> displayable (ps_observations item))"

definition vintage_ok :: "codec \<Rightarrow> vintage \<Rightarrow> bool" where
  "vintage_ok c v = (item_ok (vp_series (vt_payload v)) \<and> vt_id v = vintage_digest c (vp_series (vt_payload v))
     \<and> vt_series_id v = sr_id (ps_metadata (vp_series (vt_payload v))))"

definition market_ok :: "codec \<Rightarrow> market_db \<Rightarrow> bool" where
  "market_ok c db = (distinct (map vt_id (md_vintages db)) \<and> (\<forall>v\<in>set (md_vintages db). vintage_ok c v)
     \<and> distinct (map cv_series_id (md_current db)) \<and> (\<forall>r\<in>set (md_current db). vintage_of db (cv_vintage_id r) \<noteq> None)
     \<and> distinct (map mr_id (md_runs db)))"

lemma current_point:
  assumes "distinct (map cv_series_id (md_current db))"
  shows "current_of_series (point_current r db) u = (if u = cv_series_id r then Some r else current_of_series db u)"
    "distinct (map cv_series_id (md_current (point_current r db)))"
proof -
  have ok: "table_ok cv_series_id cv_series_id (md_current db)" using assms by (simp add: table_ok_def)
  show "current_of_series (point_current r db) u = (if u = cv_series_id r then Some r else current_of_series db u)"
  proof (cases "current_of_series db (cv_series_id r)")
    case None
    then show ?thesis by (cases "current_of_series db u") (auto simp: point_current_def current_of_series_def row_by_append)
  next
    case (Some q)
    then have q: "row_by cv_series_id (md_current db) (cv_series_id r) = Some q" by (simp add: current_of_series_def)
    then have "cv_series_id r = cv_series_id q" using row_by_some[OF q] by simp
    then show ?thesis using row_by_replace[OF ok q, of r] Some by (simp add: point_current_def current_of_series_def)
  qed
  show "distinct (map cv_series_id (md_current (point_current r db)))"
  proof (cases "current_of_series db (cv_series_id r)")
    case None
    then show ?thesis using assms by (simp add: point_current_def current_of_series_def row_by_none)
  next
    case (Some q)
    then have q: "row_by cv_series_id (md_current db) (cv_series_id r) = Some q" by (simp add: current_of_series_def)
    then have "cv_series_id r = cv_series_id q" using row_by_some[OF q] by simp
    then show ?thesis using table_ok_replace[OF ok q, of r] Some by (simp add: point_current_def table_ok_def)
  qed
qed

lemma point_current_set: "set (md_current (point_current r db)) \<subseteq> insert r (set (md_current db))"
  by (auto simp: point_current_def replace_row_def split: if_splits)

lemma point_current_others [simp]: "md_vintages (point_current r db) = md_vintages db" "md_runs (point_current r db) = md_runs db"
  by (simp_all add: point_current_def)

definition stored_item :: "codec \<Rightarrow> store_args \<Rightarrow> market_db \<Rightarrow> parsed_series \<Rightarrow> bool" where
  "stored_item c a db item =
     (current_of_series db (sr_id (ps_metadata item))
        = Some \<lparr>cv_series_id = sr_id (ps_metadata item), cv_vintage_id = vintage_digest c item, cv_last_verified_at = sa_retrieved_at a\<rparr>
      \<and> vintage_of db (vintage_digest c item) \<noteq> None)"

definition grows :: "market_db \<Rightarrow> market_db \<Rightarrow> bool" where
  \<comment> \<open>vintages are only added and no verification time goes back\<close>
  "grows db db' = ((\<exists>vs. md_vintages db' = md_vintages db @ vs)
     \<and> (\<forall>sid r. current_of_series db sid = Some r \<longrightarrow>
          (\<exists>r'. current_of_series db' sid = Some r' \<and> instant (cv_last_verified_at r) \<le> instant (cv_last_verified_at r'))))"

lemma grows_refl [simp]: "grows db db"
  by (simp add: grows_def)

lemma grows_trans: "grows a b \<Longrightarrow> grows b d \<Longrightarrow> grows a d"
  unfolding grows_def by (elim conjE exE, intro conjI) (simp, meson order_trans)

lemma row_by_kept: "row_by key rows k = Some r \<Longrightarrow> row_by key (rows @ extra) k = Some r"
  by (simp add: row_by_def first_match_append)

lemma grows_vintage:
  assumes "grows db db'" "vintage_of db i = Some v"
  shows "vintage_of db' i = Some v"
proof -
  obtain vs where "md_vintages db' = md_vintages db @ vs" using assms(1) by (auto simp: grows_def)
  then show ?thesis using assms(2) by (simp add: vintage_of_def row_by_kept)
qed

lemma store_series_effect:
  assumes ok: "market_ok c db" and item: "item_ok item" and st: "store_series c a sha item (report, db) = Inr (report', db')"
  shows "market_ok c db' \<and> grows db db' \<and> stored_item c a db' item \<and> md_runs db' = md_runs db
    \<and> (\<forall>u. u \<noteq> sr_id (ps_metadata item) \<longrightarrow> current_of_series db' u = current_of_series db u)"
proof -
  let ?sid = "sr_id (ps_metadata item)" and ?d = "vintage_digest c item"
  let ?r = "\<lparr>cv_series_id = ?sid, cv_vintage_id = ?d, cv_last_verified_at = sa_retrieved_at a\<rparr>"
  define db1 where "db1 = (if vintage_of db ?d = None then db\<lparr>md_vintages := md_vintages db @ [new_vintage a ?d sha item]\<rparr> else db)"
  have db': "db' = point_current ?r db1" and old: "\<And>r. current_of_series db ?sid = Some r \<Longrightarrow> instant (cv_last_verified_at r) \<le> instant (sa_retrieved_at a)"
    using st by (auto simp: store_series_def Let_def db1_def split: if_splits option.splits)
  have cur1: "current_of_series db1 u = current_of_series db u" "md_current db1 = md_current db" "md_runs db1 = md_runs db" for u
    by (simp_all add: db1_def current_of_series_def)
  have dist: "distinct (map cv_series_id (md_current db1))" using ok cur1 by (simp add: market_ok_def)
  note cur = current_point[OF dist, of ?r]
  have vs: "\<exists>vs. md_vintages db' = md_vintages db @ vs" by (simp add: db' db1_def)
  have grown: "grows db db'" unfolding grows_def using vs cur(1) old by (auto simp: db' cur1)
  have v: "vintage_of db' ?d \<noteq> None"
    by (auto simp: db' db1_def vintage_of_def row_by_append new_vintage_def split: option.splits)
  have "vintage_of db' (cv_vintage_id r) \<noteq> None" if "r \<in> set (md_current db')" for r
  proof (cases "r = ?r")
    case False
    then have "r \<in> set (md_current db)" using that point_current_set[of ?r db1] cur1 db' by auto
    then show ?thesis using ok grows_vintage[OF grown] by (auto simp: market_ok_def)
  qed (use v in simp)
  moreover have "distinct (map vt_id (md_vintages db')) \<and> (\<forall>v\<in>set (md_vintages db'). vintage_ok c v)"
    using ok item by (auto simp: db' db1_def market_ok_def vintage_of_def row_by_none new_vintage_def vintage_ok_def)
  ultimately have "market_ok c db'" using ok cur(2) by (simp add: market_ok_def db' cur1)
  then show ?thesis using grown v cur(1) by (simp add: stored_item_def db' cur1)
qed

lemma store_all_effect:
  assumes "market_ok c db" "\<forall>item\<in>set items. item_ok item" "distinct (map (sr_id \<circ> ps_metadata) items)"
    and "store_all c a sha items (report, db) = Inr (report', db')"
  shows "market_ok c db' \<and> grows db db' \<and> (\<forall>item\<in>set items. stored_item c a db' item) \<and> md_runs db' = md_runs db
    \<and> (\<forall>u. u \<notin> (sr_id \<circ> ps_metadata) ` set items \<longrightarrow> current_of_series db' u = current_of_series db u)"
  using assms
proof (induction items arbitrary: report db)
  case (Cons item items)
  obtain rep1 db1 where s: "store_series c a sha item (report, db) = Inr (rep1, db1)" "store_all c a sha items (rep1, db1) = Inr (report', db')"
    using Cons.prems(4) by (auto simp: bind_r_Inr)
  have e: "market_ok c db1 \<and> grows db db1 \<and> stored_item c a db1 item \<and> md_runs db1 = md_runs db
    \<and> (\<forall>u. u \<noteq> sr_id (ps_metadata item) \<longrightarrow> current_of_series db1 u = current_of_series db u)"
    by (rule store_series_effect[OF Cons.prems(1) _ s(1)]) (use Cons.prems(2) in simp)
  have f: "market_ok c db' \<and> grows db1 db' \<and> (\<forall>item\<in>set items. stored_item c a db' item) \<and> md_runs db' = md_runs db1
    \<and> (\<forall>u. u \<notin> (sr_id \<circ> ps_metadata) ` set items \<longrightarrow> current_of_series db' u = current_of_series db1 u)"
    by (rule Cons.IH[OF _ _ _ s(2)]) (use e Cons.prems in auto)
  have "stored_item c a db' item"
  proof -
    have "current_of_series db' (sr_id (ps_metadata item)) = current_of_series db1 (sr_id (ps_metadata item))" using f Cons.prems(3) by auto
    then show ?thesis using e f grows_vintage by (fastforce simp: stored_item_def)
  qed
  then show ?case using e f grows_trans by auto
qed simp


lemma series_ids: "distinct (map sr_id SERIES)" "length SERIES = 4"
  by (simp_all add: SERIES_def new_series_def)

lemma by_id_some: "series_by_id i = Some s \<Longrightarrow> s \<in> set SERIES \<and> sr_id s = i"
  unfolding series_by_id_def by (auto dest: first_match_Some)

lemma by_id_series: "s \<in> set SERIES \<Longrightarrow> series_by_id (sr_id s) = Some s"
  using row_by_unique[OF series_ids(1)] by (simp add: row_by_def series_by_id_def)

lemma checked_items:
  assumes "store_check a parsed = None"
  shows "distinct (map (sr_id \<circ> ps_metadata) (pg_series parsed))" "\<forall>item\<in>set (pg_series parsed). ps_metadata item \<in> set SERIES"
    "(sr_id \<circ> ps_metadata) ` set (pg_series parsed) = sr_id ` set SERIES"
proof -
  have c: "length (pg_series parsed) = length SERIES" "set (map (sr_id \<circ> ps_metadata) (pg_series parsed)) = set (map sr_id SERIES)"
    "\<forall>item\<in>set (pg_series parsed). Some (ps_metadata item) = series_by_id (sr_id (ps_metadata item))"
    using assms by (auto simp: store_check_def Let_def list_ex_iff split: if_splits)
  then have "card (set (map (sr_id \<circ> ps_metadata) (pg_series parsed))) = length (map (sr_id \<circ> ps_metadata) (pg_series parsed))"
    using distinct_card[OF series_ids(1)] by simp
  then show "distinct (map (sr_id \<circ> ps_metadata) (pg_series parsed))" by (rule card_distinct)
  show "\<forall>item\<in>set (pg_series parsed). ps_metadata item \<in> set SERIES" using c(3) by_id_some by metis
  show "(sr_id \<circ> ps_metadata) ` set (pg_series parsed) = sr_id ` set SERIES" using c(2) by simp
qed

lemma map_sum_Inr_iff: "map_sum id f r = Inr y \<longleftrightarrow> (\<exists>x. r = Inr x \<and> y = f x)"
  by (cases r) auto

lemma insert_run_effect:
  assumes "market_ok c db" "insert_run_row r db = Inr db'"
  shows "market_ok c db' \<and> grows db db' \<and> md_runs db' = md_runs db @ [r] \<and> md_vintages db' = md_vintages db \<and> md_current db' = md_current db"
  using assms by (auto simp: insert_run_row_def market_ok_def grows_def current_of_series_def vintage_of_def split: if_splits)

lemma store_market_effect:
  assumes "market_ok c db" "\<forall>item\<in>set (pg_series parsed). displayable (ps_observations item)" "store_market c a parsed db = Inr (report, db')"
  shows "market_ok c db' \<and> grows db db' \<and> (\<forall>item\<in>set (pg_series parsed). stored_item c a db' item)
    \<and> md_runs db' = md_runs db @ [\<lparr>mr_id = sa_run_id a, mr_completed_at = sa_retrieved_at a, mr_status = ''SUCCEEDED'', mr_report = Report_succeeded report\<rparr>]"
proof -
  obtain db1 where s: "store_check a parsed = None"
    "store_all c a (pg_source_sha256 parsed) (pg_series parsed) (new_report a parsed, db) = Inr (report, db1)"
    "insert_run_row \<lparr>mr_id = sa_run_id a, mr_completed_at = sa_retrieved_at a, mr_status = ''SUCCEEDED'', mr_report = Report_succeeded report\<rparr> db1 = Inr db'"
    using assms(3) by (auto simp: store_market_def bind_r_Inr map_sum_Inr_iff split: option.splits)
  have items: "\<forall>item\<in>set (pg_series parsed). item_ok item" using checked_items(2)[OF s(1)] assms(2) by (simp add: item_ok_def)
  note e = store_all_effect[OF assms(1) items checked_items(1)[OF s(1)] s(2)]
  have f: "market_ok c db' \<and> grows db1 db' \<and> md_runs db' = md_runs db1 @ [\<lparr>mr_id = sa_run_id a, mr_completed_at = sa_retrieved_at a,
      mr_status = ''SUCCEEDED'', mr_report = Report_succeeded report\<rparr>] \<and> md_vintages db' = md_vintages db1 \<and> md_current db' = md_current db1"
    by (rule insert_run_effect[OF _ s(3)]) (use e in simp)
  then show ?thesis using e grows_trans by (auto simp: stored_item_def current_of_series_def vintage_of_def)
qed

lemma market_failed_effect:
  assumes "market_ok c db" "market_failed t reason i db = Inr (report, db')"
  shows "market_ok c db' \<and> grows db db' \<and> md_vintages db' = md_vintages db \<and> md_current db' = md_current db
    \<and> md_runs db' = md_runs db @ [\<lparr>mr_id = i, mr_completed_at = t, mr_status = ''FAILED'', mr_report = Report_failed i reason t\<rparr>]"
proof -
  have "insert_run_row \<lparr>mr_id = i, mr_completed_at = t, mr_status = ''FAILED'', mr_report = Report_failed i reason t\<rparr> db = Inr db'"
    using assms(2) by (auto simp: market_failed_def map_sum_Inr_iff split: if_splits)
  from insert_run_effect[OF assms(1) this] show ?thesis by simp
qed


section \<open>Refreshes\<close>

lemma store_all_report:
  "store_all c a sha items (report, db) = Inr (report', db') \<Longrightarrow> sp_retrieved_at report' = sp_retrieved_at report \<and> sp_id report' = sp_id report
     \<and> sp_created_vintages report' + sp_replayed_series report' = sp_created_vintages report + sp_replayed_series report + int (length items)
     \<and> int (length (md_vintages db')) = int (length (md_vintages db)) + (sp_created_vintages report' - sp_created_vintages report)"
proof (induction items arbitrary: report db)
  case (Cons item items)
  obtain rep1 db1 where s: "store_series c a sha item (report, db) = Inr (rep1, db1)" "store_all c a sha items (rep1, db1) = Inr (report', db')"
    using Cons.prems by (auto simp: bind_r_Inr)
  have "sp_retrieved_at rep1 = sp_retrieved_at report \<and> sp_id rep1 = sp_id report
     \<and> sp_created_vintages rep1 + sp_replayed_series rep1 = sp_created_vintages report + sp_replayed_series report + 1
     \<and> int (length (md_vintages db1)) = int (length (md_vintages db)) + (sp_created_vintages rep1 - sp_created_vintages report)"
    using s(1) by (auto simp: store_series_def Let_def report_series_def split: if_splits)
  then show ?case using Cons.IH[OF s(2)] by simp
qed simp

lemma parsed_displayable:
  assumes "parse_g17 body as_of history_months = Inr parsed" "d_year as_of \<le> 9999"
  shows "map ps_metadata (pg_series parsed) = SERIES" "\<forall>item\<in>set (pg_series parsed). displayable (ps_observations item)"
  using accepted_tables[OF assms] unfolding displayable_def by (simp, blast)

lemma store_market_report:
  assumes "store_market c a parsed db = Inr (report, db')"
  shows "sp_retrieved_at report = sa_retrieved_at a \<and> sp_created_vintages report + sp_replayed_series report = 4
     \<and> int (length (md_vintages db')) = int (length (md_vintages db)) + sp_created_vintages report"
proof -
  obtain db1 where s: "store_check a parsed = None"
    "store_all c a (pg_source_sha256 parsed) (pg_series parsed) (new_report a parsed, db) = Inr (report, db1)"
    "md_vintages db' = md_vintages db1"
    using assms by (auto simp: store_market_def insert_run_row_def bind_r_Inr map_sum_Inr_iff split: option.splits if_splits)
  have "length (pg_series parsed) = 4" using s(1) by (auto simp: store_check_def Let_def series_ids split: if_splits)
  then show ?thesis using store_all_report[OF s(2)] s(3) by (simp add: new_report_def)
qed

definition logged :: "refresh_args \<Rightarrow> market_db \<Rightarrow> market_db \<Rightarrow> bool" where
  "logged a db db' = (\<exists>row. md_runs db' = md_runs db @ [row] \<and> mr_completed_at row = ra_clock a \<and> report_time (mr_report row) = ra_clock a
     \<and> (mr_status row = ''FAILED'' \<longleftrightarrow> poll_interval (mr_report row) = 3600)
     \<and> (mr_status row = ''FAILED'' \<longrightarrow> md_vintages db' = md_vintages db \<and> md_current db' = md_current db))"

definition live_args :: "refresh_args \<Rightarrow> market_response \<Rightarrow> store_args" where
  "live_args a r = \<lparr>sa_retrieved_at = ra_clock a, sa_source_url = ms_final_url r, sa_last_modified = ms_last_modified r,
     sa_retrieval_kind = ''LIVE_PUBLIC_DOWNLOAD'', sa_run_id = ra_run_id a\<rparr>"

lemma failed_refresh_effect:
  assumes "market_ok c db" "failed_refresh a reason db = Inr (out, db')"
  shows "market_ok c db' \<and> grows db db' \<and> logged a db db' \<and> (\<forall>report. out \<noteq> Refresh_stored report)"
proof -
  obtain report where r: "market_failed (ra_clock a) reason (ra_run_id a) db = Inr (report, db')" "out = Refresh_failed report"
    using assms(2) by (auto simp: failed_refresh_def map_sum_Inr_iff)
  show ?thesis using market_failed_effect[OF assms(1) r(1)] r(2) by (simp add: logged_def report_time_def poll_interval_def)
qed

lemma refresh_cases:
  assumes "refresh_market c a db = Inr (out, db')"
  obtains (failed) reason where "failed_refresh a reason db = Inr (out, db')"
  | (skipped) "out = Deadline_skipped" "db' = db"
  | (stored) r parsed report where "ra_fetch a = Read_response r" "parse_g17 (ms_body r) (date_of (ra_clock a)) 60 = Inr parsed"
      "out = Refresh_stored report" "store_market c (live_args a r) parsed db = Inr (report, db')"
proof (cases "ra_fetch a")
  case (Read_response r)
  show ?thesis
  proof (cases "ms_status r \<noteq> 200 \<or> \<not> starts_with ''text/'' (default_to (ms_content_type r) [])")
    case False
    note r = assms[unfolded refresh_market_def Read_response market_fetch.case if_not_P[OF False]]
    show ?thesis
    proof (cases "parse_g17 (ms_body r) (date_of (ra_clock a)) 60")
      case (Inl e)
      then show ?thesis using r by (intro failed) simp
    next
      case (Inr parsed)
      show ?thesis
      proof (cases "case ra_deadline a of None \<Rightarrow> False | Some d \<Rightarrow> d \<le> ra_monotonic a")
        case True
        then show ?thesis using r Inr by (intro skipped) simp_all
      next
        case False
        then obtain report where "out = Refresh_stored report" "store_market c (live_args a r) parsed db = Inr (report, db')"
          using r Inr by (auto simp: live_args_def map_sum_Inr_iff)
        then show ?thesis using Read_response Inr stored by blast
      qed
    qed
  next
    case True
    then show ?thesis using assms Read_response by (intro failed) (simp add: refresh_market_def)
  qed
next
  case Read_deadline
  then show ?thesis using assms by (intro failed) (simp add: refresh_market_def)
next
  case Read_failed
  then show ?thesis using assms by (intro failed) (simp add: refresh_market_def)
qed

lemma refresh_effect:
  assumes "market_ok c db" "d_year (date_of (ra_clock a)) \<le> 9999" "refresh_market c a db = Inr (out, db')"
  shows "market_ok c db' \<and> grows db db' \<and> (db' = db \<or> logged a db db')"
  using assms(3)
proof (cases rule: refresh_cases)
  case (failed reason)
  then show ?thesis using failed_refresh_effect[OF assms(1)] by blast
next
  case skipped
  then show ?thesis using assms(1) by simp
next
  case (stored r parsed report)
  note e = store_market_effect[OF assms(1) parsed_displayable(2)[OF stored(2) assms(2)] stored(4)]
  note f = store_market_report[OF stored(4)]
  show ?thesis using e f by (simp add: logged_def live_args_def report_time_def poll_interval_def)
qed

lemma worker_refreshes:
  assumes "worker_refresh c a db = Inr (out, db')"
  shows "db' = db \<or> (refresh_market c ((wa_refresh a)\<lparr>ra_deadline := Some (wa_deadline a)\<rparr>) db = Inr (out, db')
    \<and> (\<forall>r. last_run db = Some r \<longrightarrow> \<not> not_due (wa_clock a) r))"
  using assms by (auto simp: worker_refresh_def split: if_splits option.splits)

lemma market_step_effect:
  assumes "market_ok c db" "in_calendar op"
  shows "market_ok c (market_step c db op) \<and> grows db (market_step c db op)
    \<and> (market_step c db op = db \<or> logged (op_refresh op) db (market_step c db op))"
proof (cases "market_result c op db")
  case (Inr p)
  obtain out db' where p: "p = (out, db')" by (cases p)
  have l: "logged (x\<lparr>ra_deadline := d\<rparr>) db db' = logged x db db'" for x d by (simp add: logged_def)
  have "db' = db \<or> (\<exists>x d. refresh_market c (x\<lparr>ra_deadline := d\<rparr>) db = Inr (out, db') \<and> x = op_refresh op)"
  proof (cases op)
    case (Mo_refresh a)
    then have "refresh_market c (a\<lparr>ra_deadline := ra_deadline a\<rparr>) db = Inr (out, db')" using Inr p by (simp add: market_result_def)
    then have "refresh_market c (a\<lparr>ra_deadline := ra_deadline a\<rparr>) db = Inr (out, db') \<and> a = op_refresh op" using Mo_refresh by (simp add: op_refresh_def)
    then show ?thesis by blast
  next
    case (Mo_worker a)
    then show ?thesis using Inr p worker_refreshes[of c a db out db'] by (auto simp: market_result_def op_refresh_def)
  qed
  then show ?thesis
  proof (elim disjE exE conjE)
    fix x d
    assume r: "refresh_market c (x\<lparr>ra_deadline := d\<rparr>) db = Inr (out, db')" "x = op_refresh op"
    have "market_ok c db' \<and> grows db db' \<and> (db' = db \<or> logged (x\<lparr>ra_deadline := d\<rparr>) db db')"
      by (rule refresh_effect[OF assms(1) _ r(1)]) (use assms(2) r(2) in \<open>simp add: in_calendar_def\<close>)
    then show ?thesis using Inr p r(2) l by (simp add: market_step_def)
  qed (use assms(1) Inr p in \<open>simp add: market_step_def\<close>)
qed (simp add: market_step_def assms(1))

lemma market_run_effect:
  assumes "market_ok c db" "\<forall>op\<in>set ops. in_calendar op"
  shows "market_ok c (market_run c ops db) \<and> grows db (market_run c ops db)"
  using assms
proof (induction ops arbitrary: db)
  case (Cons op ops)
  have e: "market_ok c (market_step c db op) \<and> grows db (market_step c db op)" using market_step_effect[OF Cons.prems(1), of op] Cons.prems(2) by simp
  then show ?case using Cons.IH[of "market_step c db op"] Cons.prems(2) grows_trans by (auto simp: market_run_def)
qed (simp add: market_run_def)

lemma empty_market_ok: "market_ok c empty_market"
  by (simp add: market_ok_def empty_market_def)


section \<open>Pacing\<close>

definition spaced :: "refresh_run list \<Rightarrow> bool" where
  "spaced rows = (sorted_wrt (\<lambda>r r'. instant (mr_completed_at r) + seconds (poll_interval (mr_report r)) \<le> instant (mr_completed_at r')) rows
     \<and> (\<forall>r\<in>set rows. report_time (mr_report r) = mr_completed_at r))"

lemma sort_key_least: "sort_key k xs = y # ys \<Longrightarrow> y \<in> set xs \<and> (\<forall>x\<in>set xs. k y \<le> k x)"
proof -
  assume s: "sort_key k xs = y # ys"
  have "sorted (map k (y # ys))" using s sorted_sort_key[of k xs] by simp
  moreover have "set xs = set (y # ys)" using s set_sort[of k xs] by simp
  ultimately show ?thesis by auto
qed

lemma retry_positive: "0 < seconds (poll_interval r)"
  by (simp add: seconds_def poll_interval_def split: market_report.split)

lemma last_run_spaced:
  assumes "spaced (rows @ [r])" "md_runs db = rows @ [r]"
  shows "last_run db = Some (mr_report r)"
proof -
  let ?k = "\<lambda>r. - instant (mr_completed_at r)"
  have older: "\<forall>x\<in>set rows. ?k r < ?k x"
  proof
    fix x
    assume "x \<in> set rows"
    then have "instant (mr_completed_at x) + seconds (poll_interval (mr_report x)) \<le> instant (mr_completed_at r)"
      using assms(1) by (simp add: spaced_def sorted_wrt_append)
    then show "?k r < ?k x" using retry_positive[of "mr_report x"] by linarith
  qed
  obtain y ys where y: "sort_key ?k (sort_key mr_id (md_runs db)) = y # ys"
    using assms(2) by (cases "sort_key ?k (sort_key mr_id (md_runs db))") (auto dest: arg_cong[of _ _ length])
  have "y \<in> set (rows @ [r]) \<and> ?k y \<le> ?k r" using sort_key_least[OF y] assms(2) by simp
  then have "y = r" using older by force
  then show ?thesis using y by (simp add: last_run_def)
qed

definition own_clock :: "worker_args \<Rightarrow> bool" where
  "own_clock w = (instant (wa_clock w) \<le> instant (ra_clock (wa_refresh w)) \<and> d_year (date_of (ra_clock (wa_refresh w))) \<le> 9999)"

lemma worker_step_spaced:
  assumes "market_ok c db" "spaced (md_runs db)" "own_clock w"
  shows "spaced (md_runs (market_step c db (Mo_worker w))) \<and> market_ok c (market_step c db (Mo_worker w))
    \<and> (\<forall>r\<in>set (md_runs (market_step c db (Mo_worker w))). r \<in> set (md_runs db) \<or> mr_completed_at r = ra_clock (wa_refresh w))"
proof -
  have cal: "in_calendar (Mo_worker w)" using assms(3) by (simp add: in_calendar_def own_clock_def op_refresh_def)
  let ?db = "market_step c db (Mo_worker w)"
  note e = market_step_effect[OF assms(1) cal]
  show ?thesis
  proof (cases "?db = db")
    case False
    then obtain row where row: "md_runs ?db = md_runs db @ [row]" "mr_completed_at row = ra_clock (wa_refresh w)" "report_time (mr_report row) = ra_clock (wa_refresh w)"
      using e by (auto simp: logged_def op_refresh_def)
    obtain out where "worker_refresh c w db = Inr (out, ?db)"
      using False by (auto simp: market_step_def market_result_def split: sum.splits)
    then have due: "\<forall>r. last_run db = Some r \<longrightarrow> \<not> not_due (wa_clock w) r" using worker_refreshes False by blast
    have "spaced (md_runs db @ [row])"
    proof (cases "md_runs db" rule: rev_cases)
      case (snoc rows r)
      have "last_run db = Some (mr_report r)" using last_run_spaced assms(2) snoc by simp
      then have "instant (mr_completed_at r) + seconds (poll_interval (mr_report r)) \<le> instant (mr_completed_at row)"
        using due row(2) assms(2,3) snoc by (auto simp: not_due_def spaced_def own_clock_def)
      then show ?thesis using assms(2) snoc row(2,3) retry_positive[of "mr_report r"]
        by (fastforce simp: spaced_def sorted_wrt_append)
    qed (simp add: spaced_def row)
    then show ?thesis using e row by auto
  qed (use assms in simp)
qed

lemma worker_run_spaced:
  assumes "market_ok c db" "spaced (md_runs db)" "\<forall>w\<in>set ws. own_clock w"
  shows "spaced (md_runs (market_run c (map Mo_worker ws) db))"
  using assms
proof (induction ws arbitrary: db)
  case (Cons w ws)
  have "spaced (md_runs (market_step c db (Mo_worker w))) \<and> market_ok c (market_step c db (Mo_worker w))"
    using worker_step_spaced[OF Cons.prems(1,2), of w] Cons.prems(3) by simp
  then show ?case using Cons.IH[of "market_step c db (Mo_worker w)"] Cons.prems(3) by (simp add: market_run_def)
qed (simp add: market_run_def)


section \<open>Serving\<close>

text \<open>The series of the acceptable tables an operation downloads, and the absence of a digest collision among such series.\<close>

definition table_items :: "refresh_args \<Rightarrow> parsed_series set" where
  "table_items a = (case ra_fetch a of
     Read_response r \<Rightarrow> (case parse_g17 (ms_body r) (date_of (ra_clock a)) 60 of Inl _ \<Rightarrow> {} | Inr parsed \<Rightarrow> set (pg_series parsed))
   | _ \<Rightarrow> {})"

definition downloads :: "market_op \<Rightarrow> parsed_series set" where
  "downloads op = table_items (op_refresh op)"

lemma table_items_deadline [simp]: "table_items (a\<lparr>ra_deadline := d\<rparr>) = table_items a"
  by (cases "ra_fetch a") (simp_all add: table_items_def)

definition collision_free :: "codec \<Rightarrow> parsed_series set \<Rightarrow> bool" where
  "collision_free c X = (\<forall>x\<in>X. \<forall>y\<in>X. vintage_digest c x = vintage_digest c y \<longrightarrow> semantic_json x = semantic_json y)"

text \<open>What is stored was downloaded, and so was what a current pointer names.\<close>

definition from_source :: "codec \<Rightarrow> parsed_series set \<Rightarrow> market_db \<Rightarrow> bool" where
  "from_source c X db = ((\<forall>v\<in>set (md_vintages db). vp_series (vt_payload v) \<in> X)
     \<and> (\<forall>r\<in>set (md_current db). \<exists>x\<in>X. cv_vintage_id r = vintage_digest c x \<and> sr_id (ps_metadata x) = cv_series_id r))"

definition collected :: "market_db \<Rightarrow> bool" where
  "collected db = (\<exists>row\<in>set (md_runs db). mr_status row = ''SUCCEEDED'')"

definition pointers_complete :: "market_db \<Rightarrow> bool" where
  "pointers_complete db = (\<forall>s\<in>set SERIES. current_of_series db (sr_id s) \<noteq> None \<longleftrightarrow> collected db)"

lemma store_all_from_source:
  assumes "store_all c a sha items (report, db) = Inr (report', db')" "set items \<subseteq> X" "from_source c X db"
  shows "from_source c X db'"
  using assms
proof (induction items arbitrary: report db)
  case (Cons item items)
  obtain rep1 db1 where s: "store_series c a sha item (report, db) = Inr (rep1, db1)" "store_all c a sha items (rep1, db1) = Inr (report', db')"
    using Cons.prems(1) by (auto simp: bind_r_Inr)
  let ?r = "\<lparr>cv_series_id = sr_id (ps_metadata item), cv_vintage_id = vintage_digest c item, cv_last_verified_at = sa_retrieved_at a\<rparr>"
  have v: "set (md_vintages db1) \<subseteq> insert (new_vintage a (vintage_digest c item) sha item) (set (md_vintages db))"
    using s(1) by (auto simp: store_series_def Let_def split: if_splits)
  have r: "set (md_current db1) \<subseteq> insert ?r (set (md_current db))"
    using s(1) by (auto simp: store_series_def Let_def split: if_splits option.splits dest!: subsetD[OF point_current_set])
  have i: "item \<in> X" using Cons.prems(2) by simp
  have old: "\<forall>v\<in>set (md_vintages db). vp_series (vt_payload v) \<in> X"
    "\<forall>q\<in>set (md_current db). \<exists>x\<in>X. cv_vintage_id q = vintage_digest c x \<and> sr_id (ps_metadata x) = cv_series_id q"
    using Cons.prems(3) by (simp_all add: from_source_def)
  have new: "vp_series (vt_payload (new_vintage a (vintage_digest c item) sha item)) \<in> X" using i by (simp add: new_vintage_def)
  have "\<exists>x\<in>X. cv_vintage_id q = vintage_digest c x \<and> sr_id (ps_metadata x) = cv_series_id q" if "q \<in> set (md_current db1)" for q
  proof (cases "q = ?r")
    case True
    then show ?thesis using i by auto
  next
    case False
    then show ?thesis using r that old(2) by auto
  qed
  moreover have "vp_series (vt_payload w) \<in> X" if "w \<in> set (md_vintages db1)" for w
    using subsetD[OF v that] old(1) new by auto
  ultimately have "from_source c X db1" by (simp add: from_source_def)
  then show ?case using Cons.IH[OF s(2)] Cons.prems(2) by simp
qed simp

lemma store_market_from_source:
  assumes "store_market c a parsed db = Inr (report, db')" "set (pg_series parsed) \<subseteq> X" "from_source c X db"
  shows "from_source c X db'"
proof -
  obtain db1 where s: "store_all c a (pg_source_sha256 parsed) (pg_series parsed) (new_report a parsed, db) = Inr (report, db1)"
    "md_vintages db' = md_vintages db1" "md_current db' = md_current db1"
    using assms(1) by (auto simp: store_market_def insert_run_row_def bind_r_Inr map_sum_Inr_iff split: option.splits if_splits)
  then show ?thesis using store_all_from_source[OF s(1) assms(2,3)] by (simp add: from_source_def)
qed

lemma store_market_complete:
  assumes "market_ok c db" "\<forall>item\<in>set (pg_series parsed). displayable (ps_observations item)" "store_market c a parsed db = Inr (report, db')"
  shows "pointers_complete db' \<and> collected db'"
proof -
  note e = store_market_effect[OF assms]
  have "store_check a parsed = None" using assms(3) by (auto simp: store_market_def split: option.splits)
  then have "sr_id ` set SERIES = (sr_id \<circ> ps_metadata) ` set (pg_series parsed)" using checked_items(3) by blast
  moreover have "current_of_series db' ((sr_id \<circ> ps_metadata) item) \<noteq> None" if "item \<in> set (pg_series parsed)" for item
    using e that by (simp add: stored_item_def)
  ultimately have "\<forall>s\<in>set SERIES. current_of_series db' (sr_id s) \<noteq> None" by (metis imageE imageI)
  moreover have "collected db'" using e by (simp add: collected_def)
  ultimately show ?thesis by (simp add: pointers_complete_def)
qed

lemma refresh_kept:
  assumes ok: "market_ok c db" "from_source c X db" "pointers_complete db" and cal: "d_year (date_of (ra_clock a)) \<le> 9999"
    and src: "downloads (Mo_refresh a) \<subseteq> X" and x: "refresh_market c a db = Inr (out, db')"
  shows "from_source c X db' \<and> pointers_complete db'"
  using x
proof (cases rule: refresh_cases)
  case (failed reason)
  obtain report where "market_failed (ra_clock a) reason (ra_run_id a) db = Inr (report, db')"
    using failed by (auto simp: failed_refresh_def map_sum_Inr_iff)
  from market_failed_effect[OF ok(1) this] show ?thesis
    using ok by (simp add: from_source_def pointers_complete_def collected_def current_of_series_def)
next
  case (stored r parsed report)
  have "set (pg_series parsed) \<subseteq> X" using src stored by (simp add: downloads_def table_items_def op_refresh_def)
  then show ?thesis
    using store_market_from_source[OF stored(4) _ ok(2)] store_market_complete[OF ok(1) parsed_displayable(2)[OF stored(2) cal] stored(4)]
    by blast
qed (use ok in simp)

lemma market_step_kept:
  assumes ok: "market_ok c db" "from_source c X db" "pointers_complete db" and op: "in_calendar op" "downloads op \<subseteq> X"
  shows "from_source c X (market_step c db op) \<and> pointers_complete (market_step c db op)"
proof (cases "market_result c op db")
  case (Inr p)
  obtain out db' where p: "p = (out, db')" by (cases p)
  have "from_source c X db' \<and> pointers_complete db'"
  proof (cases op)
    case (Mo_refresh a)
    then show ?thesis using Inr p op refresh_kept[OF ok, of a out db'] by (simp add: market_result_def in_calendar_def op_refresh_def)
  next
    case (Mo_worker w)
    let ?a = "(wa_refresh w)\<lparr>ra_deadline := Some (wa_deadline w)\<rparr>"
    have a: "d_year (date_of (ra_clock ?a)) \<le> 9999" "downloads (Mo_refresh ?a) \<subseteq> X"
      using op Mo_worker by (simp_all add: in_calendar_def op_refresh_def downloads_def)
    have "db' = db \<or> refresh_market c ?a db = Inr (out, db')"
      using Inr p Mo_worker worker_refreshes[of c w db out db'] by (auto simp: market_result_def)
    then show ?thesis using ok refresh_kept[OF ok a] by blast
  qed
  then show ?thesis using Inr p by (simp add: market_step_def)
qed (use ok in \<open>simp add: market_step_def\<close>)

lemma market_run_kept:
  assumes "market_ok c db" "from_source c X db" "pointers_complete db" "\<forall>op\<in>set ops. in_calendar op \<and> downloads op \<subseteq> X"
  shows "from_source c X (market_run c ops db) \<and> pointers_complete (market_run c ops db)"
  using assms
proof (induction ops arbitrary: db)
  case (Cons op ops)
  have "market_ok c (market_step c db op)" "from_source c X (market_step c db op)" "pointers_complete (market_step c db op)"
    using market_step_effect[OF Cons.prems(1), of op] market_step_kept[OF Cons.prems(1-3), of op] Cons.prems(4) by simp_all
  then show ?case using Cons.IH[of "market_step c db op"] Cons.prems(4) by (simp add: market_run_def)
qed (simp add: market_run_def)

lemma empty_market_kept: "from_source c X empty_market" "pointers_complete empty_market"
  by (simp_all add: from_source_def pointers_complete_def collected_def empty_market_def current_of_series_def row_by_def)

definition published_values :: "parsed_series \<Rightarrow> (string \<times> string option) list" where
  "published_values item = map (\<lambda>o'. (ob_period o', ob_value o')) (ps_observations item)"

lemma map_eq_transfer: "map f xs = map f ys \<Longrightarrow> (\<And>x y. f x = f y \<Longrightarrow> g x = g y) \<Longrightarrow> map g xs = map g ys"
proof (induction xs arbitrary: ys)
  case (Cons x xs)
  from Cons.prems(1) obtain y zs where y: "ys = y # zs" "f x = f y" "map f xs = map f zs" by (cases ys) simp_all
  show ?case unfolding y(1) using Cons.IH[OF y(3) Cons.prems(2)] Cons.prems(2)[OF y(2)] by simp
qed simp

lemma j_opt_str_inject: "j_opt J_str a = j_opt J_str b \<longleftrightarrow> a = b"
  by (cases a; cases b) (simp_all add: j_opt_def)

lemma semantic_values:
  assumes "semantic_json a = semantic_json b"
  shows "sr_id (ps_metadata a) = sr_id (ps_metadata b) \<and> published_values a = published_values b"
proof -
  let ?row = "\<lambda>o'. J_obj [(''period'', J_str (ob_period o')), (''value'', j_opt J_str (ob_value o')), (''status'', J_str (observed o'))]"
  have "map ?row (ps_observations a) = map ?row (ps_observations b)" using assms by (simp add: semantic_json_def)
  then have "published_values a = published_values b" unfolding published_values_def
    by (rule map_eq_transfer) (simp add: j_opt_str_inject)
  then show ?thesis using assms by (simp add: semantic_json_def series_json_def)
qed


lemma store_all_succeeds:
  assumes "\<forall>row\<in>set (md_current db). instant (cv_last_verified_at row) \<le> instant (sa_retrieved_at a)"
  shows "\<exists>report' db'. store_all c a sha items (report, db) = Inr (report', db') \<and> md_runs db' = md_runs db"
  using assms
proof (induction items arbitrary: report db)
  case (Cons item items)
  let ?old = "\<lambda>db. \<forall>row\<in>set (md_current db). instant (cv_last_verified_at row) \<le> instant (sa_retrieved_at a)"
  have "\<not> (case current_of_series db (sr_id (ps_metadata item)) of None \<Rightarrow> False | Some r \<Rightarrow> instant (sa_retrieved_at a) < instant (cv_last_verified_at r))"
    using Cons.prems row_by_some by (fastforce simp: current_of_series_def split: option.splits)
  then have fresh: "isl (store_series c a sha item (report, db)) = False" by (simp add: store_series_def Let_def)
  then obtain rep1 db1 where s: "store_series c a sha item (report, db) = Inr (rep1, db1)"
    by (cases "store_series c a sha item (report, db)") auto
  have "set (md_current db1) \<subseteq> insert \<lparr>cv_series_id = sr_id (ps_metadata item), cv_vintage_id = vintage_digest c item,
      cv_last_verified_at = sa_retrieved_at a\<rparr> (set (md_current db)) \<and> md_runs db1 = md_runs db"
    using s by (auto simp: store_series_def Let_def split: if_splits option.splits dest!: subsetD[OF point_current_set])
  then have "?old db1" "md_runs db1 = md_runs db" using Cons.prems by auto
  then show ?case using Cons.IH[of db1 rep1] s by simp
qed simp

lemma store_market_succeeds:
  assumes "map ps_metadata (pg_series parsed) = SERIES" "pg_adapter_version parsed = ADAPTER_VERSION" "sa_retrieval_kind a \<in> set RETRIEVAL_KINDS"
    "aware (sa_retrieved_at a)" "sa_run_id a \<notin> mr_id ` set (md_runs db)"
    "\<forall>row\<in>set (md_current db). instant (cv_last_verified_at row) \<le> instant (sa_retrieved_at a)"
  shows "\<exists>report db'. store_market c a parsed db = Inr (report, db')"
proof -
  have m: "\<forall>item\<in>set (pg_series parsed). ps_metadata item \<in> set SERIES" using assms(1) by (metis imageI set_map)
  have "store_check a parsed = None"
    using assms(2-4) m by_id_series arg_cong[OF assms(1), of length] arg_cong[OF assms(1), of "\<lambda>xs. sr_id ` set xs"]
    by (auto simp: store_check_def Let_def list_ex_iff image_image)
  moreover obtain report db' where "store_all c a (pg_source_sha256 parsed) (pg_series parsed) (new_report a parsed, db) = Inr (report, db')"
    "md_runs db' = md_runs db"
    using store_all_succeeds[OF assms(6)] by blast
  ultimately show ?thesis using assms(5) by (auto simp: store_market_def insert_run_row_def)
qed

lemma parsed_adapter: "parse_g17 body as_of history_months = Inr parsed \<Longrightarrow> pg_adapter_version parsed = ADAPTER_VERSION"
  by (auto simp: parse_g17_def parsed_of_def bind_r_Inr split: if_splits option.splits)

text \<open>Without a collision the vintage a current pointer names is of its series, and has the contents that were verified.\<close>

lemma pointer_served:
  assumes ok: "market_ok c db" "from_source c X db" "collision_free c X" and s: "s \<in> set SERIES"
    and cur: "current_of_series db (sr_id s) = Some r" and x: "x \<in> X" "cv_vintage_id r = vintage_digest c x"
  shows "\<exists>v. snapshot_of db (sr_id s) (current_of_series db (sr_id s)) (cv_vintage_id r) = Some v \<and> sn_vintage_id v = cv_vintage_id r
    \<and> sn_is_current v \<and> sn_last_verified_at v = Some (cv_last_verified_at r) \<and> published_values (vp_series (sn_payload v)) = published_values x"
proof -
  let ?d = "vintage_digest c x"
  have r: "r \<in> set (md_current db)" "cv_series_id r = sr_id s" using row_by_some cur by (fastforce simp: current_of_series_def)+
  have same: "sr_id (ps_metadata (vp_series (vt_payload v))) = sr_id (ps_metadata y) \<and> published_values (vp_series (vt_payload v)) = published_values y"
    if "v \<in> set (md_vintages db)" "vt_id v = ?d" "y \<in> X" "vintage_digest c y = ?d" for v y
  proof (rule semantic_values)
    have "vintage_ok c v" using ok(1) that(1) by (simp add: market_ok_def)
    then have "vintage_digest c (vp_series (vt_payload v)) = vintage_digest c y" using that(2,4) by (simp add: vintage_ok_def)
    moreover have "vp_series (vt_payload v) \<in> X" using ok(2) that(1) by (simp add: from_source_def)
    ultimately show "semantic_json (vp_series (vt_payload v)) = semantic_json y" using ok(3) that(3) unfolding collision_free_def by blast
  qed
  obtain y where y: "y \<in> X" "?d = vintage_digest c y" "sr_id (ps_metadata y) = sr_id s"
    using ok(2) r x(2) unfolding from_source_def by metis
  obtain v where v: "vintage_of db ?d = Some v" using ok(1) r(1) x(2) unfolding market_ok_def by fastforce
  have vin: "v \<in> set (md_vintages db)" "vt_id v = ?d" using row_by_some v by (fastforce simp: vintage_of_def)+
  have "vintage_ok c v" using ok(1) vin(1) by (simp add: market_ok_def)
  then have "vt_series_id v = sr_id s" using same[OF vin y(1)] y(2,3) by (simp add: vintage_ok_def)
  then have "first_match (\<lambda>v. vt_id v = ?d \<and> vt_series_id v = sr_id s) (md_vintages db) \<noteq> None" using vin by auto
  then obtain w where w: "first_match (\<lambda>v. vt_id v = ?d \<and> vt_series_id v = sr_id s) (md_vintages db) = Some w" by blast
  then have "w \<in> set (md_vintages db)" "vt_id w = ?d" by (auto dest: first_match_Some)
  then have "published_values (vp_series (vt_payload w)) = published_values x" using same x(1) by blast
  then show ?thesis using w \<open>vt_id w = ?d\<close> cur x(2) by (simp add: snapshot_of_def)
qed

lemma served_item:
  assumes "market_ok c db" "from_source c X db" "collision_free c X" "stored_item c a db item" "ps_metadata item \<in> set SERIES" "item \<in> X"
  shows "\<exists>v. snapshot db (sr_id (ps_metadata item)) None = Inr (Some v) \<and> sn_is_current v \<and> sn_last_verified_at v = Some (sa_retrieved_at a)
    \<and> published_values (vp_series (sn_payload v)) = published_values item"
proof -
  obtain r where r: "current_of_series db (sr_id (ps_metadata item)) = Some r" "cv_vintage_id r = vintage_digest c item"
    "cv_last_verified_at r = sa_retrieved_at a" using assms(4) by (simp add: stored_item_def)
  have "snapshot db (sr_id (ps_metadata item)) None
      = Inr (snapshot_of db (sr_id (ps_metadata item)) (current_of_series db (sr_id (ps_metadata item))) (cv_vintage_id r))"
    using assms(5) r(1) by (simp add: snapshot_def by_id_series)
  then show ?thesis using pointer_served[OF assms(1-3,5) r(1) assms(6) r(2)] r(3) by auto
qed

lemma stored_times:
  assumes "store_market c a parsed db = Inr (report, db')" "\<forall>row\<in>set (md_current db). instant (cv_last_verified_at row) \<le> instant (sa_retrieved_at a)"
  shows "\<forall>row\<in>set (md_current db'). instant (cv_last_verified_at row) \<le> instant (sa_retrieved_at a)"
proof -
  have step: "\<forall>row\<in>set (md_current db1). instant (cv_last_verified_at row) \<le> instant (sa_retrieved_at a)"
    if "store_all c a sha items (rep, db0) = Inr (rep1, db1)" "\<forall>row\<in>set (md_current db0). instant (cv_last_verified_at row) \<le> instant (sa_retrieved_at a)"
    for sha items rep db0 rep1 db1
    using that
  proof (induction items arbitrary: rep db0)
    case (Cons item items)
    obtain rep2 db2 where s: "store_series c a sha item (rep, db0) = Inr (rep2, db2)" "store_all c a sha items (rep2, db2) = Inr (rep1, db1)"
      using Cons.prems(1) by (auto simp: bind_r_Inr)
    have "set (md_current db2) \<subseteq> insert \<lparr>cv_series_id = sr_id (ps_metadata item), cv_vintage_id = vintage_digest c item,
        cv_last_verified_at = sa_retrieved_at a\<rparr> (set (md_current db0))"
      using s(1) by (auto simp: store_series_def Let_def split: if_splits option.splits dest!: subsetD[OF point_current_set])
    then have "\<forall>row\<in>set (md_current db2). instant (cv_last_verified_at row) \<le> instant (sa_retrieved_at a)" using Cons.prems(2) by auto
    then show ?case by (rule Cons.IH[OF s(2)])
  qed simp
  show ?thesis using assms step by (auto simp: store_market_def insert_run_row_def bind_r_Inr map_sum_Inr_iff split: option.splits if_splits)
qed

lemma replayed_vintages:
  assumes "store_all c a sha items (report, db) = Inr (report', db')" "\<forall>item\<in>set items. vintage_of db (vintage_digest c item) \<noteq> None"
  shows "md_vintages db' = md_vintages db"
  using assms
proof (induction items arbitrary: report db)
  case (Cons item items)
  obtain rep1 db1 where s: "store_series c a sha item (report, db) = Inr (rep1, db1)" "store_all c a sha items (rep1, db1) = Inr (report', db')"
    using Cons.prems(1) by (auto simp: bind_r_Inr)
  have "md_vintages db1 = md_vintages db" using s(1) Cons.prems(2) by (auto simp: store_series_def Let_def split: if_splits)
  then show ?case using Cons.IH[OF s(2)] Cons.prems(2) by (simp add: vintage_of_def)
qed simp


section \<open>Demonstration\<close>

definition injective_codec :: codec where
  "injective_codec = \<lparr>co_dump = (\<lambda>j. replicate (to_nat j) (CHR ''x'')), co_parse = (\<lambda>_. None), co_sha = (\<lambda>s. s)\<rparr>"

lemma injective_codec_distinct: "collision_free injective_codec X"
proof -
  have "x = y" if "replicate (to_nat x) (CHR ''x'') = replicate (to_nat y) (CHR ''x'')" for x y :: json
    using arg_cong[OF that, of length] by simp
  then show ?thesis by (simp add: collision_free_def vintage_digest_def injective_codec_def)
qed

definition market_time :: datetime where
  "market_time = at_midnight_utc (Date 2025 7 20)"

definition market_response_demo :: market_response where
  "market_response_demo = \<lparr>ms_status = 200, ms_content_type = Some ''text/plain'', ms_last_modified = None, ms_final_url = G17_URL,
     ms_body = demo_table\<rparr>"

definition market_refresh_demo :: refresh_args where
  "market_refresh_demo = \<lparr>ra_fetch = Read_response market_response_demo, ra_clock = market_time, ra_deadline = None, ra_monotonic = 0,
     ra_run_id = ''run-1''\<rparr>"

definition market_worker_demo :: worker_args where
  "market_worker_demo = \<lparr>wa_enabled = True, wa_deadline = 60, wa_started = 0, wa_checked = 1, wa_clock = market_time, wa_refresh = market_refresh_demo\<rparr>"

lemma market_demo_day: "date_of market_time = Date 2025 7 20" "aware market_time"
  by code_simp+

lemma market_demo_calendar: "in_calendar (Mo_refresh market_refresh_demo)" "own_clock market_worker_demo"
  by (simp_all add: in_calendar_def own_clock_def op_refresh_def market_refresh_demo_def market_worker_demo_def market_demo_day)

lemma stored_observations_display:
  assumes "market_ok c db" "snapshot db sid vintage_id = Inr (Some v)"
  shows "displayable (ps_observations (vp_series (sn_payload v)))"
proof -
  obtain i where "snapshot_of db sid (current_of_series db sid) i = Some v"
    using assms(2) by (auto simp: snapshot_def Let_def split: if_splits option.splits)
  then obtain w where w: "first_match (\<lambda>v. vt_id v = i \<and> vt_series_id v = sid) (md_vintages db) = Some w" "sn_payload v = vt_payload w"
    by (auto simp: snapshot_of_def Let_def split: option.splits)
  have "w \<in> set (md_vintages db)" using first_match_Some[OF w(1)] by simp
  then show ?thesis using assms(1) w(2) by (simp add: market_ok_def vintage_ok_def item_ok_def)
qed

lemma current_snapshot:
  assumes ok: "market_ok c db" "from_source c X db" "collision_free c X" "pointers_complete db" and s: "s \<in> set SERIES"
  shows "\<exists>v. snapshot db (sr_id s) None = Inr v \<and> (v \<noteq> None \<longleftrightarrow> collected db)"
proof (cases "current_of_series db (sr_id s)")
  case None
  then show ?thesis using ok(4) s by (auto simp: snapshot_def by_id_series pointers_complete_def)
next
  case (Some r)
  then have "r \<in> set (md_current db)" using row_by_some by (fastforce simp: current_of_series_def)
  then obtain x where "x \<in> X" "cv_vintage_id r = vintage_digest c x" using ok(2) by (auto simp: from_source_def)
  from pointer_served[OF ok(1-3) s Some this] have "\<exists>v. snapshot db (sr_id s) None = Inr (Some v)"
    using s Some by (auto simp: snapshot_def by_id_series)
  moreover have "collected db" using ok(4) s Some by (auto simp: pointers_complete_def)
  ultimately show ?thesis by auto
qed

lemma any_snapshot:
  assumes "market_ok c db" "from_source c X db" "collision_free c X" "pointers_complete db" and s: "s \<in> set SERIES"
  shows "\<exists>v. snapshot db (sr_id s) vid = Inr v \<and> (v \<noteq> None \<longleftrightarrow>
    (if vid \<in> {None, Some []} then collected db else \<exists>w\<in>set (md_vintages db). vid = Some (vt_id w) \<and> vt_series_id w = sr_id s))"
proof (cases "vid \<in> {None, Some []}")
  case True
  then have "snapshot db (sr_id s) vid = snapshot db (sr_id s) None" by (auto simp: snapshot_def)
  then show ?thesis using True current_snapshot[OF assms] by simp
next
  case False
  then obtain i where i: "vid = Some i" "i \<noteq> []" by (cases vid) auto
  have "snapshot db (sr_id s) vid = Inr (snapshot_of db (sr_id s) (current_of_series db (sr_id s)) i)"
    using s i by (simp add: snapshot_def by_id_series Let_def)
  moreover have "snapshot_of db (sr_id s) cur i \<noteq> None \<longleftrightarrow> (\<exists>w\<in>set (md_vintages db). i = vt_id w \<and> vt_series_id w = sr_id s)" for cur
    using first_match_None[of "\<lambda>v. vt_id v = i \<and> vt_series_id v = sr_id s" "md_vintages db"]
    by (auto simp: snapshot_of_def Let_def split: option.splits dest!: first_match_Some)
  ultimately show ?thesis using False i by simp
qed

lemma transforms_shown:
  assumes "market_ok c db" "snapshot db sid vid = Inr (Some x)"
  obtains latest points where "market_transform (ps_observations (vp_series (sn_payload x))) LEVEL 1 False = Inr latest"
    "market_transform (ps_observations (vp_series (sn_payload x))) kind 36 avg = Inr points"
proof -
  have "displayable (ps_observations (vp_series (sn_payload x)))" by (rule stored_observations_display[OF assms])
  moreover have "1 \<le> (36 :: int) \<and> (36 :: int) \<le> 60 \<and> 1 \<le> (1 :: int) \<and> (1 :: int) \<le> 60" by simp
  ultimately show thesis using that unfolding displayable_def by blast
qed

lemma overview_series_shown:
  assumes ok: "market_ok c db" "from_source c X db" "collision_free c X" "pointers_complete db" and s: "s \<in> set SERIES"
  shows "\<exists>item. overview_series db kind avg s = Inr item
    \<and> (ov_metadata item, ov_status item) = (s, if collected db then ''AVAILABLE'' else ''NOT_COLLECTED'')"
proof -
  obtain v where v: "snapshot db (sr_id s) None = Inr v" "v \<noteq> None \<longleftrightarrow> collected db" using current_snapshot[OF ok s] by blast
  show ?thesis
  proof (cases v)
    case (Some x)
    obtain latest points where "market_transform (ps_observations (vp_series (sn_payload x))) LEVEL 1 False = Inr latest"
      "market_transform (ps_observations (vp_series (sn_payload x))) kind 36 avg = Inr points"
      by (rule transforms_shown[OF ok(1)]) (use v(1) Some in auto)
    then show ?thesis using v Some by (simp add: overview_series_def)
  qed (use v in \<open>simp add: overview_series_def\<close>)
qed

lemma detail_shown:
  assumes ok: "market_ok c db" "from_source c X db" "collision_free c X" "pointers_complete db" and s: "s \<in> set SERIES"
  shows "\<exists>res. market_detail_of db (sr_id s) kind avg vid = Inr res
    \<and> (res \<noteq> None \<longleftrightarrow> (if vid \<in> {None, Some []} then collected db
         else \<exists>w\<in>set (md_vintages db). vid = Some (vt_id w) \<and> vt_series_id w = sr_id s))
    \<and> (\<forall>d. res = Some d \<longrightarrow> snapshot db (sr_id s) vid = Inr (Some (dt_snapshot d))
         \<and> market_transform (ps_observations (vp_series (sn_payload (dt_snapshot d)))) kind 36 avg = Inr (dt_points d))"
proof -
  obtain v where v: "snapshot db (sr_id s) vid = Inr v" "v \<noteq> None \<longleftrightarrow> (if vid \<in> {None, Some []} then collected db
      else \<exists>w\<in>set (md_vintages db). vid = Some (vt_id w) \<and> vt_series_id w = sr_id s)" using any_snapshot[OF ok s] by blast
  show ?thesis
  proof (cases v)
    case None
    then have "market_detail_of db (sr_id s) kind avg vid = Inr None" using v(1) by (simp add: market_detail_of_def)
    then show ?thesis using v(2) None by blast
  next
    case (Some x)
    obtain latest points where t: "market_transform (ps_observations (vp_series (sn_payload x))) kind 36 avg = Inr points"
      by (rule transforms_shown[OF ok(1)]) (use v(1) Some in auto)
    then obtain d where d: "market_detail_of db (sr_id s) kind avg vid = Inr (Some d)" "dt_snapshot d = x" "dt_points d = points"
      using v(1) Some s by (simp add: market_detail_of_def vintages_def by_id_series)
    show ?thesis
      by (intro exI[of _ "Some d"] conjI d(1)) (use v d t Some in \<open>simp_all del: insert_iff\<close>)
  qed
qed

lemma map_r_shown:
  assumes "\<And>x. x \<in> set xs \<Longrightarrow> \<exists>y. f x = Inr y \<and> g y = h x"
  shows "\<exists>ys. map_r f xs = Inr ys \<and> map g ys = map h xs"
  using assms
proof (induction xs)
  case (Cons x xs)
  obtain y where "f x = Inr y" "g y = h x" using Cons.prems[of x] by auto
  moreover obtain ys where "map_r f xs = Inr ys" "map g ys = map h xs" using Cons.IH Cons.prems by auto
  ultimately show ?case by simp
qed simp

section \<open>Properties\<close>

text \<open>
  The history of the market series is kept: whatever is refreshed and however it fails, stored vintages stay as
  they are in their order, no verification time of a series goes back, and every current pointer names a stored
  vintage of distinct identifier.
\<close>

theorem market_history_is_kept:
  assumes "\<forall>op\<in>set (first @ later). in_calendar op" "db = market_run c first empty_market" "db' = market_run c later db"
  shows "(\<exists>vs. md_vintages db' = md_vintages db @ vs) \<and> distinct (map vt_id (md_vintages db'))
    \<and> (\<forall>sid r. current_of_series db sid = Some r \<longrightarrow>
         (\<exists>r'. current_of_series db' sid = Some r' \<and> instant (cv_last_verified_at r) \<le> instant (cv_last_verified_at r')))
    \<and> (\<forall>r\<in>set (md_current db'). vintage_of db' (cv_vintage_id r) \<noteq> None)"
proof -
  have "market_ok c db" using market_run_effect[OF empty_market_ok, of first c] assms(1,2) by simp
  then have "market_ok c db' \<and> grows db db'" using market_run_effect[of c db later] assms(1,3) by simp
  then show ?thesis by (simp add: market_ok_def grows_def)
qed

theorem market_history_is_kept_witness:
  "\<exists>vs. md_vintages (market_run demo_codec [Mo_refresh market_refresh_demo, Mo_refresh market_refresh_demo] empty_market)
     = md_vintages (market_run demo_codec [Mo_refresh market_refresh_demo] empty_market) @ vs"
  using market_history_is_kept[of "[Mo_refresh market_refresh_demo]" "[Mo_refresh market_refresh_demo]"
      "market_run demo_codec [Mo_refresh market_refresh_demo] empty_market" demo_codec
      "market_run demo_codec [Mo_refresh market_refresh_demo, Mo_refresh market_refresh_demo] empty_market"]
  by (simp add: market_demo_calendar market_run_def)

lemma run_kept:
  assumes "\<forall>op\<in>set ops. in_calendar op" "db = market_run c ops empty_market" "(\<Union>op\<in>set ops. downloads op) \<subseteq> X"
  shows "market_ok c db" "from_source c X db" "pointers_complete db"
  using market_run_effect[OF empty_market_ok assms(1)] market_run_kept[OF empty_market_ok empty_market_kept, of ops X c] assms by auto

text \<open>
  C30. The market page always opens: after any sequence of refreshes, when no two of the downloaded series share a
  digest, the overview lists the four reviewed series in their order, all available once one refresh has been stored
  and none before. The detail of each of them never fails, under every transformation: the current one is there exactly
  when a refresh has been stored, a requested one exactly when such a vintage of that series is stored, and it shows
  that snapshot with its transformed points.
\<close>

theorem market_page_always_opens:
  assumes "\<forall>op\<in>set ops. in_calendar op" "db = market_run c ops empty_market" "collision_free c (\<Union>op\<in>set ops. downloads op)"
  shows "(\<exists>items. overview db kind avg = Inr items \<and> map ov_metadata items = SERIES
       \<and> (\<forall>item\<in>set items. ov_status item = (if collected db then ''AVAILABLE'' else ''NOT_COLLECTED'')))
    \<and> (\<forall>s\<in>set SERIES. \<forall>vid. \<exists>res. market_detail_of db (sr_id s) kind avg vid = Inr res
       \<and> (res \<noteq> None \<longleftrightarrow> (if vid \<in> {None, Some []} then collected db
            else \<exists>w\<in>set (md_vintages db). vid = Some (vt_id w) \<and> vt_series_id w = sr_id s))
       \<and> (\<forall>d. res = Some d \<longrightarrow> snapshot db (sr_id s) vid = Inr (Some (dt_snapshot d))
            \<and> market_transform (ps_observations (vp_series (sn_payload (dt_snapshot d)))) kind 36 avg = Inr (dt_points d)))"
proof -
  note ok = run_kept[OF assms(1,2) order_refl]
  let ?status = "if collected db then ''AVAILABLE'' else ''NOT_COLLECTED''"
  have "\<exists>items. map_r (overview_series db kind avg) SERIES = Inr items
      \<and> map (\<lambda>i. (ov_metadata i, ov_status i)) items = map (\<lambda>s. (s, ?status)) SERIES"
    by (rule map_r_shown) (rule overview_series_shown[OF ok(1,2) assms(3) ok(3)])
  then obtain items where items: "overview db kind avg = Inr items"
    "map (\<lambda>i. (ov_metadata i, ov_status i)) items = map (\<lambda>s. (s, ?status)) SERIES" by (auto simp: overview_def)
  have "map ov_metadata items = SERIES" using arg_cong[OF items(2), of "map fst"] by (simp add: o_def)
  moreover have "\<forall>item\<in>set items. ov_status item = ?status"
    using arg_cong[OF items(2), of set] by (fastforce simp: image_iff)
  ultimately show ?thesis using items(1) detail_shown[OF ok(1,2) assms(3) ok(3)] by blast
qed

theorem market_page_always_opens_witness:
  "\<exists>items. overview (market_run injective_codec [Mo_refresh market_refresh_demo] empty_market) YOY_PERCENT True = Inr items \<and> map ov_metadata items = SERIES"
  using market_page_always_opens[OF _ refl injective_codec_distinct, of "[Mo_refresh market_refresh_demo]" YOY_PERCENT True]
    market_demo_calendar by auto

text \<open>
  C11. An accepted table is served: when no two series of the run share a digest, a refresh that downloads an
  acceptable table before its deadline, with an aware clock that is not behind any stored verification and a run
  identifier that is not in use, stores it, and from then on each
  reviewed series shows as current, verified at that time, exactly the published periods and values.
\<close>

theorem accepted_table_is_served:
  assumes "\<forall>op\<in>set ops. in_calendar op" "db = market_run c ops empty_market" "in_calendar (Mo_refresh a)"
    and "collision_free c (\<Union>op\<in>set (Mo_refresh a # ops). downloads op)"
    and "ra_fetch a = Read_response r" "ms_status r = 200" "starts_with ''text/'' (default_to (ms_content_type r) [])"
    and "parse_g17 (ms_body r) (date_of (ra_clock a)) 60 = Inr parsed"
    and "\<And>d. ra_deadline a = Some d \<Longrightarrow> ra_monotonic a < d" "aware (ra_clock a)"
    and "ra_run_id a \<notin> mr_id ` set (md_runs db)"
    and "\<forall>row\<in>set (md_current db). instant (cv_last_verified_at row) \<le> instant (ra_clock a)"
  shows "\<exists>report db'. refresh_market c a db = Inr (Refresh_stored report, db') \<and> map ps_metadata (pg_series parsed) = SERIES
    \<and> (\<forall>item\<in>set (pg_series parsed). \<exists>v. snapshot db' (sr_id (ps_metadata item)) None = Inr (Some v)
         \<and> sn_is_current v \<and> sn_last_verified_at v = Some (ra_clock a) \<and> published_values (vp_series (sn_payload v)) = published_values item)"
proof -
  let ?X = "\<Union>op\<in>set (Mo_refresh a # ops). downloads op"
  have sub: "(\<Union>op\<in>set ops. downloads op) \<subseteq> ?X" by auto
  note ok = run_kept[OF assms(1,2) sub]
  have cal: "d_year (date_of (ra_clock a)) \<le> 9999" using assms(3) by (simp add: in_calendar_def op_refresh_def)
  have new: "set (pg_series parsed) \<subseteq> ?X" using assms(5,8) by (simp add: downloads_def table_items_def op_refresh_def)
  note p = parsed_displayable[OF assms(8) cal]
  have "\<exists>report db'. store_market c (live_args a r) parsed db = Inr (report, db')"
    by (rule store_market_succeeds[OF p(1) parsed_adapter[OF assms(8)]]) (use assms(10-12) in \<open>simp_all add: live_args_def RETRIEVAL_KINDS_def\<close>)
  then obtain report db' where s: "store_market c (live_args a r) parsed db = Inr (report, db')" by blast
  have "\<not> (case ra_deadline a of None \<Rightarrow> False | Some d \<Rightarrow> d \<le> ra_monotonic a)" using assms(9) by (fastforce split: option.splits)
  then have stored: "refresh_market c a db = Inr (Refresh_stored report, db')"
    using s assms(5-8) by (simp add: refresh_market_def live_args_def)
  note e = store_market_effect[OF ok(1) p(2) s]
  have m: "\<forall>item\<in>set (pg_series parsed). ps_metadata item \<in> set SERIES" using p(1) by (metis imageI set_map)
  have src: "from_source c ?X db'" by (rule store_market_from_source[OF s new ok(2)])
  have "\<exists>v. snapshot db' (sr_id (ps_metadata item)) None = Inr (Some v) \<and> sn_is_current v
      \<and> sn_last_verified_at v = Some (sa_retrieved_at (live_args a r)) \<and> published_values (vp_series (sn_payload v)) = published_values item"
    if "item \<in> set (pg_series parsed)" for item
    by (rule served_item[OF _ src assms(4)]) (use e m new that in auto)
  then show ?thesis using stored p(1) by (simp add: live_args_def)
qed

theorem accepted_table_is_served_witness:
  "\<exists>report db'. refresh_market injective_codec market_refresh_demo empty_market = Inr (Refresh_stored report, db')"
proof -
  obtain parsed where p: "parse_g17 demo_table (Date 2025 7 20) 60 = Inr parsed" using demo_table_parses by blast
  have "empty_market = market_run injective_codec [] empty_market" by (simp add: market_run_def)
  from accepted_table_is_served[OF _ this market_demo_calendar(1) injective_codec_distinct, of market_response_demo parsed]
  show ?thesis using p market_demo_day
    by (auto simp: market_refresh_demo_def market_response_demo_def empty_market_def starts_with_def)
qed

text \<open>
  A copy of the same numbers is no revision: storing a table whose series have the same contents as the one
  stored before, whatever its lines, bytes and provenance, adds no vintage, and the four series are reported as
  replayed.
\<close>

theorem same_numbers_add_no_vintage:
  assumes "\<forall>op\<in>set ops. in_calendar op" "db = market_run c ops empty_market" "in_calendar (Mo_refresh a)"
    and "refresh_market c a db = Inr (Refresh_stored report, db1)" "ra_fetch a = Read_response r"
    and "parse_g17 (ms_body r) (date_of (ra_clock a)) 60 = Inr parsed"
    and "map semantic_json (pg_series parsed2) = map semantic_json (pg_series parsed)"
    and "store_market c a2 parsed2 db1 = Inr (report2, db2)"
  shows "md_vintages db2 = md_vintages db1 \<and> sp_created_vintages report2 = 0 \<and> sp_replayed_series report2 = 4"
proof -
  have ok: "market_ok c db" using market_run_effect[OF empty_market_ok assms(1)] assms(2) by simp
  have cal: "d_year (date_of (ra_clock a)) \<le> 9999" using assms(3) by (simp add: in_calendar_def op_refresh_def)
  have s: "store_market c (live_args a r) parsed db = Inr (report, db1)"
    using assms(4) by (cases rule: refresh_cases) (use assms(5,6) in \<open>auto simp: failed_refresh_def map_sum_Inr_iff\<close>)
  have "\<forall>item\<in>set (pg_series parsed). vintage_of db1 (vintage_digest c item) \<noteq> None"
    using store_market_effect[OF ok parsed_displayable(2)[OF assms(6) cal] s] by (simp add: stored_item_def)
  moreover have "vintage_digest c ` set (pg_series parsed2) = vintage_digest c ` set (pg_series parsed)"
    using arg_cong[OF assms(7), of "\<lambda>xs. (\<lambda>j. co_sha c (co_dump c j)) ` set xs"] by (simp add: image_image vintage_digest_def)
  ultimately have known: "\<forall>item\<in>set (pg_series parsed2). vintage_of db1 (vintage_digest c item) \<noteq> None" by (metis imageE imageI)
  obtain db' where "store_all c a2 (pg_source_sha256 parsed2) (pg_series parsed2) (new_report a2 parsed2, db1) = Inr (report2, db')" "md_vintages db2 = md_vintages db'"
    using assms(8) by (auto simp: store_market_def insert_run_row_def bind_r_Inr map_sum_Inr_iff split: option.splits if_splits)
  then have "md_vintages db2 = md_vintages db1" using replayed_vintages known by metis
  then show ?thesis using store_market_report[OF assms(8)] by simp
qed

theorem same_numbers_add_no_vintage_witness:
  "\<exists>report db1 parsed report2 db2. refresh_market injective_codec market_refresh_demo empty_market = Inr (Refresh_stored report, db1)
     \<and> store_market injective_codec ((live_args market_refresh_demo market_response_demo)\<lparr>sa_run_id := ''run-2''\<rparr>) parsed db1 = Inr (report2, db2)
     \<and> sp_created_vintages report2 = 0"
proof -
  let ?c = injective_codec and ?a = market_refresh_demo and ?l = "live_args market_refresh_demo market_response_demo"
  obtain parsed where p: "parse_g17 demo_table (Date 2025 7 20) 60 = Inr parsed" using demo_table_parses by blast
  note d = parsed_displayable[OF p] parsed_adapter[OF p]
  have l: "sa_retrieval_kind ?l \<in> set RETRIEVAL_KINDS" "aware (sa_retrieved_at ?l)" "sa_run_id ?l = ''run-1''"
    by (simp_all add: live_args_def RETRIEVAL_KINDS_def market_refresh_demo_def market_demo_day)
  have "\<exists>report db1. store_market ?c ?l parsed empty_market = Inr (report, db1)"
    by (rule store_market_succeeds[OF d(1) d(3) l(1,2)]) (simp_all add: empty_market_def)
  then obtain report db1 where s: "store_market ?c ?l parsed empty_market = Inr (report, db1)" by blast
  then have r: "refresh_market ?c ?a empty_market = Inr (Refresh_stored report, db1)"
    using p market_demo_day by (simp add: refresh_market_def live_args_def market_refresh_demo_def market_response_demo_def starts_with_def)
  note e = store_market_effect[OF empty_market_ok d(2) s]
  let ?l2 = "?l\<lparr>sa_run_id := ''run-2''\<rparr>"
  have late: "\<forall>row\<in>set (md_current db1). instant (cv_last_verified_at row) \<le> instant (sa_retrieved_at ?l2)"
    using stored_times[OF s] by (simp add: empty_market_def)
  have "\<exists>report2 db2. store_market ?c ?l2 parsed db1 = Inr (report2, db2)"
    by (rule store_market_succeeds[OF d(1) d(3)]) (use l e late in \<open>simp_all add: empty_market_def\<close>)
  then obtain report2 db2 where s2: "store_market ?c ?l2 parsed db1 = Inr (report2, db2)" by blast
  have "empty_market = market_run ?c [] empty_market" by (simp add: market_run_def)
  from same_numbers_add_no_vintage[OF _ this market_demo_calendar(1) r, of market_response_demo parsed parsed ?l2 report2 db2]
  have "sp_created_vintages report2 = 0" using p s2 market_demo_day by (simp add: market_refresh_demo_def market_response_demo_def)
  then show ?thesis using r s2 by blast
qed

text \<open>
  The public source is asked at a bounded pace: however often workers call, as long as each one's clock does
  not run backwards, two attempts that are logged are at least an hour apart, and a whole day after a success.
\<close>

theorem source_polling_is_paced:
  assumes "\<forall>w\<in>set ws. own_clock w" "rows = md_runs (market_run c (map Mo_worker ws) empty_market)" "i < j" "j < length rows"
  shows "instant (mr_completed_at (rows ! i)) + seconds (case mr_report (rows ! i) of Report_succeeded _ \<Rightarrow> 86400 | Report_failed _ _ _ \<Rightarrow> 3600)
    \<le> instant (mr_completed_at (rows ! j))"
proof -
  have "spaced rows" using worker_run_spaced[OF empty_market_ok _ assms(1)] assms(2) by (simp add: spaced_def empty_market_def)
  then have "instant (mr_completed_at (rows ! i)) + seconds (poll_interval (mr_report (rows ! i))) \<le> instant (mr_completed_at (rows ! j))"
    using assms(3,4) by (simp add: spaced_def sorted_wrt_iff_nth_less)
  moreover have "poll_interval x = (case x of Report_succeeded _ \<Rightarrow> 86400 | Report_failed _ _ _ \<Rightarrow> 3600)" for x
    by (simp add: poll_interval_def split: market_report.split)
  ultimately show ?thesis by simp
qed

definition failing_worker :: "int \<Rightarrow> string \<Rightarrow> worker_args" where
  "failing_worker n i = market_worker_demo\<lparr>wa_clock := shift (seconds n) market_time,
     wa_refresh := market_refresh_demo\<lparr>ra_fetch := Read_failed, ra_clock := shift (seconds n) market_time, ra_run_id := i\<rparr>\<rparr>"

lemma failing_runs:
  "map (\<lambda>r. instant (mr_completed_at r) - instant market_time)
     (md_runs (market_run demo_codec (map Mo_worker [failing_worker 0 ''a'', failing_worker 60 ''b'', failing_worker 4000 ''c'']) empty_market)) = [0, seconds 4000]"
  by code_simp

theorem source_polling_is_paced_witness:
  "let rows = md_runs (market_run demo_codec (map Mo_worker [failing_worker 0 ''a'', failing_worker 60 ''b'', failing_worker 4000 ''c'']) empty_market)
   in length rows = 2 \<and> instant (mr_completed_at (rows ! 0)) + seconds 3600 \<le> instant (mr_completed_at (rows ! 1))"
proof -
  let ?ws = "[failing_worker 0 ''a'', failing_worker 60 ''b'', failing_worker 4000 ''c'']"
  let ?rows = "md_runs (market_run demo_codec (map Mo_worker ?ws) empty_market)"
  have n: "length ?rows = 2" using arg_cong[OF failing_runs, of length] by simp
  have second: "1 < length ?rows" using n by linarith
  have o: "\<forall>w\<in>set ?ws. own_clock w" by code_simp
  have f: "case mr_report (?rows ! 0) of Report_succeeded _ \<Rightarrow> False | Report_failed _ _ _ \<Rightarrow> True" by code_simp
  have "instant (mr_completed_at (?rows ! 0)) + seconds (case mr_report (?rows ! 0) of Report_succeeded _ \<Rightarrow> 86400 | Report_failed _ _ _ \<Rightarrow> 3600)
    \<le> instant (mr_completed_at (?rows ! 1))" by (rule source_polling_is_paced[OF o refl zero_less_one second])
  then show ?thesis using n f by (simp add: Let_def split: market_report.splits)
qed

end
