(* ===== verification/RouteGraph.thy ===== *)
theory RouteGraph
  imports RouteRubric Text_Json Dates Core
begin

text \<open>
  \<^verbatim>\<open>modules/relationships/routes.py\<close>: the typed graph of relationships, the permissions of a
  query, the factors of a path and the bounded depth-first search. The clock and the cancellation are one
  argument: \<open>interrupt n\<close> is the reason to stop, if any, seen when \<open>n\<close> edges have been examined.
  The search is total: every step of its loop spends an edge of the budget or shortens the stack.
\<close>

section \<open>Nodes, edges, queries\<close>

datatype route_error = RoutePermission string | RouteFault py_error

record route_node =
  nd_scope_id :: string
  nd_kind :: string
  nd_canonical_id :: string
  nd_label :: string
  nd_account_id :: "string option"
  nd_resolved :: bool
  nd_contact_count :: "int option"
  nd_senior_contact_count :: "int option"
  nd_source_people :: "string list"
  nd_unvalidated :: bool
  nd_role_family :: "string option"
  nd_seniority_tier :: "string option"
  nd_profile_url :: "string option"
  nd_raw_title :: "string option"
  nd_provenance_label :: "string option"
  nd_exported_on :: "date option"
  nd_resolution_method :: "string option"

definition node_id :: "route_node \<Rightarrow> string" where
  "node_id n = nd_scope_id n @ '':'' @ nd_kind n @ '':'' @ nd_canonical_id n"

record route_edge =
  eg_id :: string
  eg_source :: string
  eg_target :: string
  eg_predicate :: string
  eg_evidence_ids :: "string list"
  eg_lineage_groups :: "string list"
  eg_source_lineage :: "string list"
  eg_truth_class :: string
  eg_observed_on :: "date option"
  eg_account_id :: "string option"
  eg_component_id :: "string option"
  eg_program_id :: "string option"
  eg_facility_id :: "string option"
  eg_valid_from :: "date option"
  eg_valid_until :: "date option"
  eg_accepted_order_ids :: "string list"
  eg_inverse_modes :: "string list"
  eg_conflicting :: bool
  eg_constraint_ids :: "string list"
  eg_derivation_rule :: string
  eg_relevance_score :: "int option"

record route_query =
  rq_scope_id :: string
  rq_source_id :: string
  rq_target_ids :: "string list"
  rq_mode :: string
  rq_as_of :: date
  rq_authorized_account_ids :: "string list"
  rq_source_component_id :: "string option"
  rq_target_component_id :: "string option"
  rq_max_depth :: int
  rq_lookback_days :: int
  rq_max_expansions :: int
  rq_max_candidates :: int
  rq_deadline_seconds :: rat

definition ROUTE_MODES :: "string list" where
  "ROUTE_MODES = [''commercial_fit'', ''cross_account_experience'', ''contact_candidates'', ''documented_access'']"

definition STRUCTURAL :: "string list" where
  "STRUCTURAL = [''ACCOUNT_PROGRAM'', ''PROGRAM_COMPONENT'', ''FACILITY_BU'', ''ACCOUNT_COMPONENT'']"

definition templates :: "string \<Rightarrow> string list list" where
  "templates mode =
     (if mode = ''cross_account_experience'' then
        [[''SCENARIO_SUPPLIER_FOR_COMPONENT:inverse'', ''SCENARIO_SUPPLIER_FOR_COMPONENT''],
         [''ACCOUNT_COMPONENT'', ''PRODUCED_ACCEPTED_COMPONENT:inverse'', ''FACILITY_BU'', ''SCENARIO_SUPPLIER_FOR_COMPONENT''],
         [''ACCOUNT_PROGRAM'', ''PROGRAM_COMPONENT'', ''PRODUCED_ACCEPTED_COMPONENT:inverse'', ''FACILITY_BU'', ''SCENARIO_SUPPLIER_FOR_COMPONENT''],
         [''ACCOUNT_COMPONENT'', ''PRODUCED_ACCEPTED_COMPONENT:inverse'', ''PRODUCED_ACCEPTED_COMPONENT'', ''ACCOUNT_COMPONENT:inverse''],
         [''ACCOUNT_PROGRAM'', ''PROGRAM_COMPONENT'', ''PRODUCED_ACCEPTED_COMPONENT:inverse'', ''PRODUCED_ACCEPTED_COMPONENT'',
          ''PROGRAM_COMPONENT:inverse'', ''ACCOUNT_PROGRAM:inverse'']]
      else if mode = ''commercial_fit'' then
        [[''ACCOUNT_COMPONENT'', ''PLAUSIBLE_CAPABILITY_FIT:inverse''],
         [''ACCOUNT_COMPONENT'', ''PRODUCED_ACCEPTED_COMPONENT:inverse''],
         [''ACCOUNT_PROGRAM'', ''PROGRAM_COMPONENT'', ''PLAUSIBLE_CAPABILITY_FIT:inverse''],
         [''ACCOUNT_PROGRAM'', ''PROGRAM_COMPONENT'', ''PRODUCED_ACCEPTED_COMPONENT:inverse''],
         [''ACCOUNT_PROGRAM'', ''PROGRAM_COMPONENT'', ''PRODUCED_ACCEPTED_COMPONENT:inverse'', ''COORDINATED_HANDOFF'']]
      else if mode = ''contact_candidates'' then [[''PUBLISHED_ROLE_AT:inverse''], [''WORKS_AT:inverse'']]
      else map (\<lambda>n. replicate n ''EXPLICIT_INTRODUCTION'') [1, 2, 3, 4, 5, 6] @ [[''WORKS_AT:inverse'', ''KNOWS:inverse'']])"

definition route_query_post_init :: "route_query \<Rightarrow> (py_error, route_query) result" where
  "route_query_post_init q =
     (if rq_mode q \<notin> set ROUTE_MODES \<or> \<not> (1 \<le> rq_max_depth q \<and> rq_max_depth q \<le> 6)
         \<or> \<not> (1 \<le> rq_max_expansions q \<and> rq_max_expansions q \<le> 50000) \<or> \<not> (1 \<le> rq_max_candidates q \<and> rq_max_candidates q \<le> 5000)
         \<or> \<not> (0 < rq_deadline_seconds q \<and> rq_deadline_seconds q \<le> 5) \<or> \<not> (1 \<le> rq_lookback_days q \<and> rq_lookback_days q \<le> 3650)
      then Inl (ValueError ''Invalid bounded relationship query'') else Inr q)"

section \<open>The graph\<close>

type_synonym hop = "route_edge \<times> bool"  \<comment> \<open>an edge, and whether it is walked from its target\<close>

record route_graph =
  gr_nodes :: "(string, route_node) dict"
  gr_edges :: "(string, route_edge) dict"
  gr_adjacency :: "(string, hop list) dict"
  gr_revision :: string

definition adjacent :: "route_graph \<Rightarrow> string \<Rightarrow> hop list" where
  "adjacent g i = default_to (dget (gr_adjacency g) i) []"

definition append_hop :: "string \<Rightarrow> hop \<Rightarrow> (string, hop list) dict \<Rightarrow> (string, hop list) dict" where
  "append_hop i h d = dset i (default_to (dget d i) [] @ [h]) d"

definition add_edge :: "route_edge \<Rightarrow> route_graph \<Rightarrow> (py_error, route_graph) result" where
  "add_edge e g =
     (case (dget (gr_nodes g) (eg_source e), dget (gr_nodes g) (eg_target e)) of
        (Some s, Some t) \<Rightarrow>
          (if nd_scope_id s \<noteq> nd_scope_id t then Inl (ValueError ''Cross-environment assertion rejected'')
           else case dget (gr_edges g) (eg_id e) of
             Some previous \<Rightarrow>
               (if previous \<noteq> e then Inl (ValueError ''Conflicting versions require canonical resolution'') else Inr g)
           | None \<Rightarrow> Inr (g\<lparr>gr_edges := dset (eg_id e) e (gr_edges g),
               gr_adjacency := (if eg_inverse_modes e \<noteq> [] then append_hop (eg_target e) (e, True) else id)
                 (append_hop (eg_source e) (e, False) (gr_adjacency g))\<rparr>))
      | _ \<Rightarrow> Inl (ValueError ''Unresolved edge endpoint''))"

fun add_edges :: "route_edge list \<Rightarrow> route_graph \<Rightarrow> (py_error, route_graph) result" where
  "add_edges [] g = Inr g"
| "add_edges (e # es) g = bind_r (add_edge e g) (add_edges es)"

definition new_graph :: "route_node list \<Rightarrow> route_edge list \<Rightarrow> string \<Rightarrow> (py_error, route_graph) result" where
  "new_graph nodes edges revision =
     (if \<not> distinct (map node_id nodes) then Inl (ValueError ''Duplicate canonical node'')
      else add_edges (sort_key eg_id edges)
        \<lparr>gr_nodes = map (\<lambda>n. (node_id n, n)) nodes, gr_edges = [], gr_adjacency = [], gr_revision = revision\<rparr>)"

section \<open>Permissions\<close>

definition node_allowed :: "route_graph \<Rightarrow> route_query \<Rightarrow> string \<Rightarrow> bool" where
  "node_allowed g q i =
     (case dget (gr_nodes g) i of
        None \<Rightarrow> False
      | Some n \<Rightarrow> nd_resolved n \<and> nd_scope_id n = rq_scope_id q
          \<and> (case nd_account_id n of None \<Rightarrow> True | Some a \<Rightarrow> a \<in> set (rq_authorized_account_ids q))
          \<and> nd_kind n \<notin> {''industry'', ''naics'', ''geography''})"

definition node_account :: "route_graph \<Rightarrow> string \<Rightarrow> string option" where
  "node_account g i = Option.bind (dget (gr_nodes g) i) nd_account_id"

definition target_accounts :: "route_graph \<Rightarrow> route_query \<Rightarrow> string option list" where
  "target_accounts g q = map (node_account g) (filter (\<lambda>t. dget (gr_nodes g) t \<noteq> None) (rq_target_ids q))"

definition in_validity :: "route_edge \<Rightarrow> date \<Rightarrow> bool" where
  "in_validity e as_of =
     ((case eg_valid_from e of None \<Rightarrow> True | Some d \<Rightarrow> d \<le> as_of)
    \<and> (case eg_valid_until e of None \<Rightarrow> True | Some d \<Rightarrow> as_of \<le> d)
    \<and> (case eg_observed_on e of None \<Rightarrow> True | Some d \<Rightarrow> d \<le> as_of))"

definition other_component :: "route_graph \<Rightarrow> route_query \<Rightarrow> route_edge \<Rightarrow> bool" where
  \<comment> \<open>a substantive edge of an endpoint's account about another component than the one asked for\<close>
  "other_component g q e = (eg_predicate e \<notin> set STRUCTURAL \<and>
     (truthy (rq_source_component_id q) \<and> eg_account_id e = node_account g (rq_source_id q) \<and> eg_component_id e \<noteq> rq_source_component_id q
    \<or> truthy (rq_target_component_id q) \<and> eg_account_id e \<in> set (target_accounts g q)
        \<and> eg_account_id e \<noteq> node_account g (rq_source_id q) \<and> eg_component_id e \<noteq> rq_target_component_id q))"

definition access_documented :: "route_edge \<Rightarrow> bool" where
  "access_documented e = (eg_predicate e \<in> {''KNOWS'', ''WORKS_AT''} \<and> eg_truth_class e = ''ANALYST_INFERENCE''
     \<or> eg_predicate e = ''EXPLICIT_INTRODUCTION'' \<and> eg_valid_until e \<noteq> None \<and> eg_observed_on e \<noteq> None)"

definition orders_recent :: "route_query \<Rightarrow> route_edge \<Rightarrow> bool" where
  \<comment> \<open>dates within the calendar: the lookback is compared in days\<close>
  "orders_recent q e = (eg_accepted_order_ids e = [] \<or>
     (case eg_observed_on e of None \<Rightarrow> False | Some d \<Rightarrow> toordinal (rq_as_of q) - rq_lookback_days q \<le> toordinal d))"

definition edge_allowed :: "route_graph \<Rightarrow> route_query \<Rightarrow> route_edge \<Rightarrow> bool \<Rightarrow> bool" where
  "edge_allowed g q e backward =
     ((backward \<longrightarrow> rq_mode q \<in> set (eg_inverse_modes e)) \<and> \<not> eg_conflicting e \<and> eg_evidence_ids e \<noteq> []
    \<and> node_allowed g q (eg_source e) \<and> node_allowed g q (eg_target e)
    \<and> (truthy (eg_account_id e) \<longrightarrow> the (eg_account_id e) \<in> set (rq_authorized_account_ids q))
    \<and> in_validity e (rq_as_of q) \<and> \<not> other_component g q e
    \<and> (rq_mode q = ''documented_access'' \<longrightarrow> access_documented e) \<and> orders_recent q e)"

section \<open>Factors of a path\<close>

record factor_reason =
  fr_edge_id :: string
  fr_B :: int
  fr_E :: int
  fr_F :: int
  fr_present_fields :: "string list"
  fr_reason :: string
  fr_truth_class :: string

definition edge_strength :: "route_query \<Rightarrow> route_edge \<Rightarrow> int" where
  "edge_strength q e =
     (if rq_mode q = ''documented_access'' \<and> eg_predicate e \<noteq> ''EXPLICIT_INTRODUCTION'' then 0
      else if 2 \<le> card (set (eg_accepted_order_ids e)) \<or> eg_predicate e = ''EXPLICIT_INTRODUCTION'' then 3
      else if eg_accepted_order_ids e \<noteq> [] then 2 else 1)"

definition truth_points :: "string \<Rightarrow> int" where
  "truth_points t = (if t \<in> {''POC_SCENARIO_RECORD'', ''SOURCED_PUBLIC_FACT''} then 3 else if t = ''SCOPED_PUBLIC_CLAIM'' then 2
     else if t \<in> {''ANALYST_INFERENCE'', ''POC_ASSUMPTION''} then 1 else 0)"

definition edge_age :: "route_query \<Rightarrow> route_edge \<Rightarrow> int option" where
  "edge_age q e = map_option (\<lambda>d. toordinal (rq_as_of q) - toordinal d) (eg_observed_on e)"

definition aged :: "int option \<Rightarrow> int \<Rightarrow> bool" where
  "aged age limit = (case age of None \<Rightarrow> False | Some n \<Rightarrow> 0 \<le> n \<and> n \<le> limit)"

definition edge_freshness :: "route_query \<Rightarrow> route_edge \<Rightarrow> int" where
  "edge_freshness q e =
     (let tolerance = (if eg_predicate e = ''PUBLISHED_ROLE_AT'' then 90 else if eg_accepted_order_ids e \<noteq> [] then rq_lookback_days q else 365)
      in if (case eg_valid_until e of None \<Rightarrow> False | Some d \<Rightarrow> rq_as_of q \<le> d) then 2
         else if eg_accepted_order_ids e \<noteq> [] \<and> aged (edge_age q e) 90 then 2
         else if aged (edge_age q e) tolerance then 1 else 0)"

definition present_fields :: "route_edge \<Rightarrow> string list" where
  "present_fields e = (if eg_observed_on e \<noteq> None then [''date''] else []) @ [''evidence'', ''identity'']
     @ (if truthy (eg_component_id e) \<or> eg_predicate e \<in> {''PUBLISHED_ROLE_AT'', ''EXPLICIT_INTRODUCTION''} then [''scope''] else [])"

definition reason_text :: "route_edge \<Rightarrow> string" where
  "reason_text e =
     (if eg_accepted_order_ids e \<noteq> []
      then show_nat (card (set (eg_accepted_order_ids e))) @ '' distinct accepted orders support scoped experience.''
      else if eg_predicate e = ''PUBLISHED_ROLE_AT'' then ''Published role candidate; no introduction is established.''
      else if eg_predicate e = ''EXPLICIT_INTRODUCTION'' then ''Explicit introduction evidence is valid for the scoped query date.''
      else ''Traced fit inference requires technical review.'')"

definition edge_reason :: "route_query \<Rightarrow> route_edge \<Rightarrow> factor_reason" where
  "edge_reason q e = \<lparr>fr_edge_id = eg_id e, fr_B = edge_strength q e, fr_E = truth_points (eg_truth_class e), fr_F = edge_freshness q e,
     fr_present_fields = present_fields e, fr_reason = reason_text e, fr_truth_class = eg_truth_class e\<rparr>"

definition least :: "int list \<Rightarrow> int" where
  "least xs = foldl min (hd xs) (tl xs)"

definition path_relevance :: "route_query \<Rightarrow> route_edge list \<Rightarrow> int" where
  "path_relevance q es =
     (let imported = map the (filter is_some (map eg_relevance_score es))
      in if imported \<noteq> [] then least imported
         else if truthy (rq_source_component_id q)
              \<and> list_all (\<lambda>e. eg_component_id e \<in> {rq_source_component_id q, rq_target_component_id q}) es then 3
         else 2)"

definition path_factors :: "route_query \<Rightarrow> hop list \<Rightarrow> (py_error, route_factors \<times> factor_reason list) result" where
  \<comment> \<open>\<open>_factors\<close>\<close>
  "path_factors q hops =
     (let es = filter (\<lambda>e. eg_predicate e \<notin> set STRUCTURAL) (map fst hops); rows = map (edge_reason q) es
      in if es = [] then Inl (ValueError ''Structural paths cannot manufacture relationship strength'')
         else map_sum id (\<lambda>f. (f, rows)) (route_factors_post_init
           \<lparr>rf_bottleneck = least (map fr_B rows), rf_relevance = path_relevance q es, rf_evidence = least (map fr_E rows),
            rf_freshness = least (map fr_F rows),
            rf_coverage = ddiv (of_nat (sum_list (map (length \<circ> fr_present_fields) rows))) (of_nat (4 * length rows))\<rparr>))"

section \<open>Search\<close>

record found_route =
  fo_route :: route
  fo_edge_ids :: "string list"
  fo_inverse_steps :: "bool list"
  fo_factor_reasons :: "factor_reason list"
  fo_constraint_ids :: "string list"
  fo_evidence_ids :: "string list"

record frame =
  fm_current :: string
  fm_hops :: "hop list"
  fm_nodes :: "string list"
  fm_sequence :: "string list"

record search_state =
  ss_paths :: "found_route list"
  ss_examined :: nat
  ss_stop :: "string option"

definition hop_end :: "hop \<Rightarrow> string" where
  "hop_end h = (if snd h then eg_source (fst h) else eg_target (fst h))"

definition token :: "hop \<Rightarrow> string" where
  "token h = eg_predicate (fst h) @ (if snd h then '':inverse'' else [])"

definition extend_frame :: "frame \<Rightarrow> hop \<Rightarrow> frame" where
  "extend_frame f h = \<lparr>fm_current = hop_end h, fm_hops = fm_hops f @ [h], fm_nodes = fm_nodes f @ [hop_end h],
     fm_sequence = fm_sequence f @ [token h]\<rparr>"

definition admits :: "route_graph \<Rightarrow> route_query \<Rightarrow> frame \<Rightarrow> hop \<Rightarrow> bool" where
  "admits g q f h = (hop_end h \<notin> set (fm_nodes f)
     \<and> list_ex (\<lambda>t. take (Suc (length (fm_sequence f))) t = fm_sequence f @ [token h]) (templates (rq_mode q))
     \<and> edge_allowed g q (fst h) (snd h))"

definition sorted_unique :: "string list list \<Rightarrow> string list" where
  "sorted_unique xss = sort (remdups (concat xss))"

definition path_text :: "hop list \<Rightarrow> string" where
  "path_text hops = concat (map (\<lambda>(i, h). (if i = 0 then [] else ''|'') @ eg_id (fst h) @ (if snd h then '':inverse'' else [])) (enumerate 0 hops))"

definition new_route :: "(string \<Rightarrow> string) \<Rightarrow> route_query \<Rightarrow> frame \<Rightarrow> (py_error, found_route) result" where
  \<comment> \<open>\<open>sha\<close> is \<open>sha256(text.encode()).hexdigest()\<close>\<close>
  "new_route sha q f =
     bind_r (path_factors q (fm_hops f)) (\<lambda>(factors, reasons).
     bind_r (route_utility COEFFICIENTS factors (int (length (fm_hops f)))) (\<lambda>utility.
       let es = map fst (fm_hops f); constraints = sorted_unique (map eg_constraint_ids es)
       in Inr \<lparr>fo_route = \<lparr>rt_path_id = ''path:'' @ take 32 (sha (path_text (fm_hops f))), rt_mode = rq_mode q,
                 rt_execution_status = (if constraints \<noteq> [] then ''BLOCKED'' else ''NEEDS_CHECK''), rt_eligible = (1 \<le> rf_evidence factors),
                 rt_factors = factors, rt_hop_count = int (length (fm_hops f)), rt_utility = utility,
                 rt_edge_lineage = sorted_unique (map eg_lineage_groups es), rt_node_ids = fm_nodes f,
                 rt_source_lineage = sorted_unique (map eg_source_lineage es)\<rparr>,
               fo_edge_ids = map eg_id es, fo_inverse_steps = map snd (fm_hops f), fo_factor_reasons = reasons,
               fo_constraint_ids = constraints, fo_evidence_ids = sorted_unique (map eg_evidence_ids es)\<rparr>))"

definition halts :: "route_query \<Rightarrow> (nat \<Rightarrow> string option) \<Rightarrow> nat \<Rightarrow> string option" where
  "halts q interrupt n = (case interrupt n of Some reason \<Rightarrow> Some reason
     | None \<Rightarrow> if rq_max_expansions q \<le> int n then Some ''EXPANSION_LIMIT'' else None)"

definition arrives :: "route_query \<Rightarrow> frame \<Rightarrow> bool" where
  "arrives q f = (fm_current f \<in> set (rq_target_ids q) \<and> fm_sequence f \<in> set (templates (rq_mode q)))"

fun scan ::
  "route_graph \<Rightarrow> route_query \<Rightarrow> (string \<Rightarrow> string) \<Rightarrow> (nat \<Rightarrow> string option) \<Rightarrow> frame \<Rightarrow> hop list \<Rightarrow> search_state
    \<Rightarrow> (py_error, search_state \<times> frame list) result" where
  \<comment> \<open>one pass over the edges of a node: the new state and the children, in order\<close>
  "scan g q sha interrupt f [] st = Inr (st, [])"
| "scan g q sha interrupt f (h # hs) st =
     (case halts q interrupt (ss_examined st) of
        Some reason \<Rightarrow> Inr (st\<lparr>ss_stop := Some reason\<rparr>, [])
      | None \<Rightarrow>
          (let st1 = st\<lparr>ss_examined := Suc (ss_examined st)\<rparr>; child = extend_frame f h
           in if \<not> admits g q f h then scan g q sha interrupt f hs st1
              else if arrives q child
              then bind_r (new_route sha q child) (\<lambda>r.
                     let st2 = st1\<lparr>ss_paths := ss_paths st1 @ [r]\<rparr>
                     in if rq_max_candidates q \<le> int (length (ss_paths st2)) then Inr (st2\<lparr>ss_stop := Some ''CANDIDATE_LIMIT''\<rparr>, [])
                        else bind_r (scan g q sha interrupt f hs st2) (\<lambda>(st', children). Inr (st', child # children)))
              else bind_r (scan g q sha interrupt f hs st1) (\<lambda>(st', children). Inr (st', child # children))))"

lemma scan_progress:
  "scan g q sha interrupt f hs st = Inr (st', children) \<Longrightarrow>
     ss_examined st + length children \<le> ss_examined st' \<and> ss_examined st' \<le> max (ss_examined st) (nat (rq_max_expansions q))"
proof (induction hs arbitrary: st st' children)
  case (Cons h hs)
  show ?case
  proof (cases "halts q interrupt (ss_examined st)")
    case None
    then have lim: "Suc (ss_examined st) \<le> nat (rq_max_expansions q)" by (auto simp: halts_def split: option.splits if_splits)
    let ?st1 = "st\<lparr>ss_examined := Suc (ss_examined st)\<rparr>"
    have IH: "Suc (ss_examined st) + length cs \<le> ss_examined s' \<and> ss_examined s' \<le> nat (rq_max_expansions q)"
      if "scan g q sha interrupt f hs s = Inr (s', cs)" "ss_examined s = Suc (ss_examined st)" for s s' cs
      using Cons.IH[OF that(1)] that(2) lim by auto
    show ?thesis using Cons.prems None lim
      by (auto simp: Let_def bind_r_Inr split: if_splits dest!: IH)
  qed (use Cons.prems in auto)
qed simp

function search_loop ::
  "route_graph \<Rightarrow> route_query \<Rightarrow> (string \<Rightarrow> string) \<Rightarrow> (nat \<Rightarrow> string option) \<Rightarrow> frame list \<Rightarrow> search_state
    \<Rightarrow> (py_error, search_state) result" where
  \<comment> \<open>the head is the top of the stack\<close>
  "search_loop g q sha interrupt [] st = Inr st"
| "search_loop g q sha interrupt (f # stack) st =
     (if ss_stop st \<noteq> None then Inr st
      else if rq_max_depth q \<le> int (length (fm_hops f)) then search_loop g q sha interrupt stack st
      else case scan g q sha interrupt f (adjacent g (fm_current f)) st of
        Inl e \<Rightarrow> Inl e
      | Inr (st', children) \<Rightarrow> search_loop g q sha interrupt (children @ stack) st')"
  by pat_completeness auto
termination
proof (relation "measure (\<lambda>(g, q, sha, interrupt, stack, st). length stack + (nat (rq_max_expansions q) - ss_examined st))")
  fix g q sha interrupt f stack st x and st' :: search_state and children
  assume "scan g q sha interrupt f (adjacent g (fm_current f)) st = Inr x" "(st', children) = x"
  then have "ss_examined st + length children \<le> ss_examined st' \<and> ss_examined st' \<le> max (ss_examined st) (nat (rq_max_expansions q))"
    using scan_progress by blast
  then show "((g, q, sha, interrupt, children @ stack, st'), (g, q, sha, interrupt, f # stack, st))
      \<in> measure (\<lambda>(g, q, sha, interrupt, stack, st). length stack + (nat (rq_max_expansions q) - ss_examined st))" by auto
qed auto

definition first_frame :: "route_query \<Rightarrow> frame" where
  "first_frame q = \<lparr>fm_current = rq_source_id q, fm_hops = [], fm_nodes = [rq_source_id q], fm_sequence = []\<rparr>"

definition search_paths ::
  "route_graph \<Rightarrow> route_query \<Rightarrow> (string \<Rightarrow> string) \<Rightarrow> (nat \<Rightarrow> string option) \<Rightarrow> (route_error, search_state) result" where
  "search_paths g q sha interrupt =
     (if \<not> node_allowed g q (rq_source_id q) \<or> list_ex (\<lambda>t. \<not> node_allowed g q t) (rq_target_ids q)
      then Inl (RoutePermission ''Unresolved or unauthorized relationship scope'')
      else map_sum RouteFault id (search_loop g q sha interrupt (if rq_target_ids q \<noteq> [] then [first_frame q] else [])
        \<lparr>ss_paths = [], ss_examined = 0, ss_stop = None\<rparr>))"

record route_group =
  rg_status :: string
  rg_routes :: selection
  rg_sensitivity :: sensitivity

record search_result =
  sr_groups :: "route_group list"
  sr_research_candidates :: "found_route list"
  sr_evaluated_routes :: "found_route list"
  sr_additional_route_count :: int
  sr_candidate_count :: int
  sr_search_complete :: bool
  sr_examined_count :: int
  sr_stop_reason :: "string option"
  sr_revision :: string
  sr_result_label :: string

definition route_group_of :: "route list \<Rightarrow> string \<Rightarrow> (py_error, route_group) result option" where
  "route_group_of routes status =
     (let members = filter (\<lambda>r. rt_execution_status r = status) routes
      in case (select_alternatives members 3, sensitivity_report members) of
           (Some sel, Some report) \<Rightarrow> Some (bind_r sel (\<lambda>s. bind_r report (\<lambda>r. Inr \<lparr>rg_status = status, rg_routes = s, rg_sensitivity = r\<rparr>)))
         | _ \<Rightarrow> None)"

definition weak_route :: "found_route \<Rightarrow> bool" where
  "weak_route p = (\<not> rt_eligible (fo_route p) \<or> rf_bottleneck (rt_factors (fo_route p)) < 2 \<or> rf_relevance (rt_factors (fo_route p)) < 2)"

definition ranked_paths :: "found_route list \<Rightarrow> found_route list" where
  "ranked_paths ps = sort_key (\<lambda>p. (- rt_utility (fo_route p), rt_path_id (fo_route p))) ps"

definition search_routes ::
  "route_graph \<Rightarrow> route_query \<Rightarrow> (string \<Rightarrow> string) \<Rightarrow> (nat \<Rightarrow> string option) \<Rightarrow> (route_error, search_result) result option" where
  \<comment> \<open>\<open>None\<close>: a selection does not end\<close>
  "search_routes g q sha interrupt =
     (case search_paths g q sha interrupt of
        Inl e \<Rightarrow> Some (Inl e)
      | Inr st \<Rightarrow>
          (let paths = ranked_paths (ss_paths st); group = route_group_of (map fo_route paths)
           in case (group ''FEASIBLE'', group ''NEEDS_CHECK'', group ''BLOCKED'') of
                (Some a, Some b, Some c) \<Rightarrow>
                  Some (map_sum RouteFault id (bind_r a (\<lambda>a. bind_r b (\<lambda>b. bind_r c (\<lambda>c.
                    Inr \<lparr>sr_groups = [a, b, c], sr_research_candidates = take 3 (filter weak_route paths), sr_evaluated_routes = take 25 paths,
                      sr_additional_route_count = max 0 (int (length paths) - 25), sr_candidate_count = int (length paths),
                      sr_search_complete = (ss_stop st = None), sr_examined_count = int (ss_examined st), sr_stop_reason = ss_stop st,
                      sr_revision = gr_revision g, sr_result_label = (if ss_stop st = None then ''Ranked eligible routes''
                        else ''Best paths found; search incomplete'')\<rparr>)))))
              | _ \<Rightarrow> None))"

end
