(* ===== verification/RouteSearchProps.thy ===== *)
theory RouteSearchProps
  imports RouteGraph
begin

text \<open>
  The search of routes against its specification: the simple permitted walks from the source to a target whose
  predicates spell a template. A complete search finds each of them once, an incomplete one finds some of them.
\<close>

section \<open>Specification\<close>

fun walks :: "route_graph \<Rightarrow> string \<Rightarrow> hop list \<Rightarrow> bool" where
  "walks g i [] = True"
| "walks g i (h # hs) = (h \<in> set (adjacent g i) \<and> walks g (hop_end h) hs)"

definition permitted :: "route_graph \<Rightarrow> route_query \<Rightarrow> hop list \<Rightarrow> bool" where
  "permitted g q hops = (walks g (rq_source_id q) hops \<and> distinct (rq_source_id q # map hop_end hops)
     \<and> (\<forall>h\<in>set hops. edge_allowed g q (fst h) (snd h)))"

definition admissible :: "route_graph \<Rightarrow> route_query \<Rightarrow> hop list \<Rightarrow> bool" where
  "admissible g q hops = (permitted g q hops \<and> hops \<noteq> [] \<and> map token hops \<in> set (templates (rq_mode q))
     \<and> hop_end (last hops) \<in> set (rq_target_ids q) \<and> int (length hops) \<le> rq_max_depth q)"

definition steps_of :: "hop list \<Rightarrow> string list \<times> bool list" where
  "steps_of hops = (map (eg_id \<circ> fst) hops, map snd hops)"

definition found_steps :: "found_route \<Rightarrow> string list \<times> bool list" where
  "found_steps p = (fo_edge_ids p, fo_inverse_steps p)"

definition graph_ok :: "route_graph \<Rightarrow> bool" where
  "graph_ok g = ((\<forall>i. distinct (adjacent g i)) \<and> (\<forall>i. \<forall>h\<in>set (adjacent g i). dget (gr_edges g) (eg_id (fst h)) = Some (fst h)))"

section \<open>A built graph is well formed\<close>

lemma adjacent_append_hop: "default_to (dget (append_hop i h d) j) [] = default_to (dget d j) [] @ (if j = i then [h] else [])"
  by (simp add: append_hop_def dict_simps)

lemma add_edge_ok:
  assumes "graph_ok g" "add_edge e g = Inr g'"
  shows "graph_ok g'"
proof (cases "dget (gr_edges g) (eg_id e)")
  case (Some x)
  then show ?thesis using assms by (auto simp: add_edge_def split: option.splits if_splits)
next
  case None
  have new: "h \<notin> set (adjacent g i)" if "fst h = e" for h i using assms(1) None that by (auto simp: graph_ok_def)
  have g': "gr_edges g' = dset (eg_id e) e (gr_edges g)"
    "adjacent g' i = adjacent g i @ (if i = eg_source e then [(e, False)] else []) @ (if eg_inverse_modes e \<noteq> [] \<and> i = eg_target e then [(e, True)] else [])" for i
    using assms(2) None by (auto simp: add_edge_def adjacent_def adjacent_append_hop split: option.splits if_splits)
  have "distinct (adjacent g' i)" for i
  proof -
    have "distinct (adjacent g i)" "(e, False) \<notin> set (adjacent g i)" "(e, True) \<notin> set (adjacent g i)"
      using assms(1) new[of "(e, False)" i] new[of "(e, True)" i] by (simp_all add: graph_ok_def)
    then show ?thesis unfolding g'(2) by (cases "i = eg_source e"; cases "i = eg_target e") auto
  qed
  moreover have "dget (gr_edges g') (eg_id (fst h)) = Some (fst h)" if "h \<in> set (adjacent g' i)" for i h
  proof (cases "h \<in> set (adjacent g i)")
    case True
    then have "dget (gr_edges g) (eg_id (fst h)) = Some (fst h)" using assms(1) by (simp add: graph_ok_def)
    then show ?thesis using None by (cases "eg_id (fst h) = eg_id e") (simp_all add: g'(1) dict_simps)
  next
    case False
    then have "fst h = e" using that unfolding g'(2) by (auto split: if_splits)
    then show ?thesis by (simp add: g'(1) dict_simps)
  qed
  ultimately show ?thesis by (simp add: graph_ok_def)
qed

lemma new_graph_ok: "new_graph nodes edges revision = Inr g \<Longrightarrow> graph_ok g"
proof -
  have "graph_ok g'" if "add_edges es g0 = Inr g'" "graph_ok g0" for es g0 g'
    using that
  proof (induction es arbitrary: g0)
    case (Cons e es)
    then obtain g1 where "add_edge e g0 = Inr g1" "add_edges es g1 = Inr g'" by (auto simp: bind_r_Inr)
    then show ?case using Cons.IH[of g1] add_edge_ok[OF Cons.prems(2)] by simp
  qed simp
  note step = this
  assume n: "new_graph nodes edges revision = Inr g"
  let ?g0 = "\<lparr>gr_nodes = map (\<lambda>n. (node_id n, n)) nodes, gr_edges = [], gr_adjacency = [], gr_revision = revision\<rparr>"
  have "graph_ok ?g0" by (simp add: graph_ok_def adjacent_def)
  moreover have "add_edges (sort_key eg_id edges) ?g0 = Inr g" using n by (simp add: new_graph_def split: if_splits)
  ultimately show "graph_ok g" using step by blast
qed

lemma walks_edges: "graph_ok g \<Longrightarrow> walks g i hops \<Longrightarrow> h \<in> set hops \<Longrightarrow> dget (gr_edges g) (eg_id (fst h)) = Some (fst h)"
  by (induction hops arbitrary: i) (auto simp: graph_ok_def)

lemma steps_of_inject:
  assumes "graph_ok g" "walks g i xs" "walks g j ys" "steps_of xs = steps_of ys"
  shows "xs = ys"
proof -
  have len: "length xs = length ys" using arg_cong[OF assms(4), of "\<lambda>p. length (snd p)"] by (simp add: steps_of_def)
  show ?thesis
  proof (rule nth_equalityI[OF len])
    fix k assume k: "k < length xs"
    have e: "eg_id (fst (xs ! k)) = eg_id (fst (ys ! k))" "snd (xs ! k) = snd (ys ! k)"
      using k len arg_cong[OF assms(4), of "\<lambda>p. fst p ! k"] arg_cong[OF assms(4), of "\<lambda>p. snd p ! k"] by (simp_all add: steps_of_def)
    have "dget (gr_edges g) (eg_id (fst (xs ! k))) = Some (fst (xs ! k))" using walks_edges[OF assms(1,2) nth_mem[OF k]] .
    moreover have "dget (gr_edges g) (eg_id (fst (ys ! k))) = Some (fst (ys ! k))"
      by (rule walks_edges[OF assms(1,3)]) (use k len in simp)
    ultimately have "Some (fst (xs ! k)) = Some (fst (ys ! k))" unfolding e(1) by (rule trans[OF sym])
    then show "xs ! k = ys ! k" using e(2) by (simp add: prod_eq_iff)
  qed
qed

section \<open>Frames\<close>

definition frame_ok :: "route_graph \<Rightarrow> route_query \<Rightarrow> frame \<Rightarrow> bool" where
  "frame_ok g q f = (permitted g q (fm_hops f) \<and> fm_nodes f = rq_source_id q # map hop_end (fm_hops f)
     \<and> fm_sequence f = map token (fm_hops f) \<and> fm_current f = last (fm_nodes f))"

definition beyond :: "route_graph \<Rightarrow> route_query \<Rightarrow> frame \<Rightarrow> hop list set" where
  "beyond g q f = {hops. admissible g q hops \<and> (\<exists>r. r \<noteq> [] \<and> hops = fm_hops f @ r)}"

lemma walks_append: "walks g i (xs @ ys) \<longleftrightarrow> walks g i xs \<and> walks g (last (i # map hop_end xs)) ys"
  by (induction xs arbitrary: i) auto

lemma first_frame_ok: "frame_ok g q (first_frame q)"
  by (simp add: frame_ok_def first_frame_def permitted_def)

lemma extend_frame_ok:
  assumes "frame_ok g q f" "h \<in> set (adjacent g (fm_current f))" "admits g q f h"
  shows "frame_ok g q (extend_frame f h)"
  using assms by (auto simp: frame_ok_def extend_frame_def permitted_def walks_append admits_def)

lemma admissible_step:
  assumes "frame_ok g q f" "admissible g q (fm_hops f @ h # r)"
  shows "h \<in> set (adjacent g (fm_current f)) \<and> admits g q f h"
proof -
  have p: "permitted g q (fm_hops f @ h # r)" and t: "map token (fm_hops f @ h # r) \<in> set (templates (rq_mode q))"
    using assms(2) by (auto simp: admissible_def)
  have "take (Suc (length (fm_sequence f))) (map token (fm_hops f @ h # r)) = fm_sequence f @ [token h]"
    using assms(1) by (simp add: frame_ok_def)
  then have "list_ex (\<lambda>t. take (Suc (length (fm_sequence f))) t = fm_sequence f @ [token h]) (templates (rq_mode q))"
    using t unfolding list_ex_iff by blast
  then show ?thesis using p assms(1) by (auto simp: frame_ok_def permitted_def walks_append admits_def)
qed

lemma arrival_admissible:
  assumes "frame_ok g q f" "h \<in> set (adjacent g (fm_current f))" "admits g q f h" "int (length (fm_hops f)) < rq_max_depth q"
  shows "admissible g q (fm_hops f @ [h]) \<longleftrightarrow> arrives q (extend_frame f h)"
  using extend_frame_ok[OF assms(1-3)] assms(4)
  by (auto simp: admissible_def arrives_def frame_ok_def extend_frame_def)

lemma beyond_split:
  assumes "frame_ok g q f" "int (length (fm_hops f)) < rq_max_depth q"
  defines "hs \<equiv> filter (admits g q f) (adjacent g (fm_current f))"
  shows "beyond g q f = (\<lambda>h. fm_hops f @ [h]) ` {h \<in> set hs. arrives q (extend_frame f h)} \<union> (\<Union>h\<in>set hs. beyond g q (extend_frame f h))"
proof (intro equalityI subsetI)
  fix hops assume "hops \<in> beyond g q f"
  then obtain h r where h: "hops = fm_hops f @ h # r" "admissible g q hops" by (auto simp: beyond_def neq_Nil_conv)
  note s = admissible_step[OF assms(1), of h r]
  have hs: "h \<in> set hs" using s h by (simp add: hs_def)
  show "hops \<in> (\<lambda>h. fm_hops f @ [h]) ` {h \<in> set hs. arrives q (extend_frame f h)} \<union> (\<Union>h\<in>set hs. beyond g q (extend_frame f h))"
  proof (cases "r = []")
    case True
    then show ?thesis using h hs arrival_admissible[OF assms(1) _ _ assms(2), of h] s by auto
  next
    case False
    then have "hops \<in> beyond g q (extend_frame f h)" using h by (auto simp: beyond_def extend_frame_def)
    then show ?thesis using hs by blast
  qed
next
  fix hops assume "hops \<in> (\<lambda>h. fm_hops f @ [h]) ` {h \<in> set hs. arrives q (extend_frame f h)} \<union> (\<Union>h\<in>set hs. beyond g q (extend_frame f h))"
  then show "hops \<in> beyond g q f"
    using arrival_admissible[OF assms(1) _ _ assms(2)] by (auto simp: beyond_def extend_frame_def hs_def)
qed

lemma beyond_deep: "rq_max_depth q \<le> int (length (fm_hops f)) \<Longrightarrow> beyond g q f = {}"
proof -
  assume d: "rq_max_depth q \<le> int (length (fm_hops f))"
  have "\<not> admissible g q (fm_hops f @ r)" if "r \<noteq> []" for r
  proof -
    have "0 < length r" using that by simp
    then show ?thesis using d by (simp add: admissible_def del: length_greater_0_conv)
  qed
  then show ?thesis by (auto simp: beyond_def)
qed


section \<open>The search\<close>

definition paths_found :: "search_state \<Rightarrow> (string list \<times> bool list) list" where
  "paths_found st = map found_steps (ss_paths st)"

lemma new_route_steps: "new_route sha q f = Inr r \<Longrightarrow> found_steps r = steps_of (fm_hops f)"
  by (auto simp: new_route_def bind_r_Inr Let_def found_steps_def steps_of_def split: prod.splits)

lemma extend_hops [simp]: "fm_hops (extend_frame f h) = fm_hops f @ [h]"
  by (simp add: extend_frame_def)

text \<open>What a pass adds when it is not cut short, and that it adds no more when it is.\<close>

lemma scan_some:
  "scan g q sha interrupt f hs st = Inr (st', children) \<Longrightarrow>
     (\<exists>done. paths_found st' = paths_found st @ map (\<lambda>h. steps_of (fm_hops f @ [h])) done
        \<and> set done \<subseteq> {h \<in> set hs. admits g q f h \<and> arrives q (extend_frame f h)})
   \<and> set children \<subseteq> extend_frame f ` {h \<in> set hs. admits g q f h}"
proof (induction hs arbitrary: st st' children)
  case (Cons h hs)
  show ?case
  proof (cases "halts q interrupt (ss_examined st)")
    case None
    let ?st1 = "st\<lparr>ss_examined := Suc (ss_examined st)\<rparr>"
    consider (skip) "\<not> admits g q f h" "scan g q sha interrupt f hs ?st1 = Inr (st', children)"
      | (last) r where "admits g q f h" "arrives q (extend_frame f h)" "new_route sha q (extend_frame f h) = Inr r"
          "st' = ?st1\<lparr>ss_paths := ss_paths st @ [r], ss_stop := Some ''CANDIDATE_LIMIT''\<rparr>" "children = []"
      | (hit) r cs where "admits g q f h" "arrives q (extend_frame f h)" "new_route sha q (extend_frame f h) = Inr r"
          "scan g q sha interrupt f hs (?st1\<lparr>ss_paths := ss_paths st @ [r]\<rparr>) = Inr (st', cs)" "children = extend_frame f h # cs"
      | (pass) cs where "admits g q f h" "scan g q sha interrupt f hs ?st1 = Inr (st', cs)" "children = extend_frame f h # cs"
      using Cons.prems None by (auto simp: Let_def bind_r_Inr split: if_splits)
    then show ?thesis
    proof cases
      case skip
      then show ?thesis using Cons.IH[OF skip(2)] by (auto simp: paths_found_def)
    next
      case (last r)
      then show ?thesis using new_route_steps[OF last(3)] by (intro conjI exI[of _ "[h]"]) (auto simp: paths_found_def)
    next
      case (hit r cs)
      obtain xs where "paths_found st' = paths_found st @ map (\<lambda>h. steps_of (fm_hops f @ [h])) (h # xs)"
        "set xs \<subseteq> {h \<in> set hs. admits g q f h \<and> arrives q (extend_frame f h)}"
        using Cons.IH[OF hit(4)] new_route_steps[OF hit(3)] by (auto simp: paths_found_def)
      then show ?thesis using Cons.IH[OF hit(4)] hit by (intro conjI exI[of _ "h # xs"]) auto
    next
      case (pass cs)
      then show ?thesis using Cons.IH[OF pass(2)] by (auto simp: paths_found_def)
    qed
  qed (use Cons.prems in \<open>auto simp: paths_found_def\<close>)
qed (simp add: paths_found_def)


lemma scan_all:
  "scan g q sha interrupt f hs st = Inr (st', children) \<Longrightarrow> ss_stop st' = None \<Longrightarrow>
     paths_found st' = paths_found st @ map (\<lambda>h. steps_of (fm_hops f @ [h])) (filter (\<lambda>h. admits g q f h \<and> arrives q (extend_frame f h)) hs)
   \<and> children = map (extend_frame f) (filter (admits g q f) hs)"
proof (induction hs arbitrary: st st' children)
  case (Cons h hs)
  have none: "halts q interrupt (ss_examined st) = None" using Cons.prems by (auto split: option.splits)
  let ?st1 = "st\<lparr>ss_examined := Suc (ss_examined st)\<rparr>"
  consider (skip) "\<not> admits g q f h" "scan g q sha interrupt f hs ?st1 = Inr (st', children)"
    | (hit) r cs where "admits g q f h" "arrives q (extend_frame f h)" "new_route sha q (extend_frame f h) = Inr r"
        "scan g q sha interrupt f hs (?st1\<lparr>ss_paths := ss_paths st @ [r]\<rparr>) = Inr (st', cs)" "children = extend_frame f h # cs"
    | (pass) cs where "admits g q f h" "\<not> arrives q (extend_frame f h)" "scan g q sha interrupt f hs ?st1 = Inr (st', cs)"
        "children = extend_frame f h # cs"
    using Cons.prems none by (auto simp: Let_def bind_r_Inr split: if_splits)
  then show ?case
  proof cases
    case skip
    then show ?thesis using Cons.IH[OF skip(2) Cons.prems(2)] by (simp add: paths_found_def)
  next
    case (hit r cs)
    then show ?thesis using Cons.IH[OF hit(4) Cons.prems(2)] new_route_steps[OF hit(3)] by (simp add: paths_found_def)
  next
    case (pass cs)
    then show ?thesis using Cons.IH[OF pass(3) Cons.prems(2)] by (simp add: paths_found_def)
  qed
qed (simp add: paths_found_def)

lemma extend_all_ok:
  assumes "frame_ok g q f" "set children \<subseteq> extend_frame f ` {h \<in> set (adjacent g (fm_current f)). admits g q f h}"
  shows "\<forall>c\<in>set children. frame_ok g q c"
  using assms extend_frame_ok[OF assms(1)] by auto

lemma subset_cut: "A \<subseteq> B \<union> C \<Longrightarrow> C \<subseteq> U \<Longrightarrow> B \<subseteq> S \<union> U \<Longrightarrow> A \<subseteq> S \<union> U"
  by blast

lemma disjoint_union: "A \<inter> C = {} \<Longrightarrow> B \<inter> C = {} \<Longrightarrow> (A \<union> B) \<inter> C = {}"
  by blast

lemma search_loop_sound:
  "search_loop g q sha interrupt stack st = Inr st' \<Longrightarrow> \<forall>f\<in>set stack. frame_ok g q f \<Longrightarrow>
     set (paths_found st') \<subseteq> set (paths_found st) \<union> steps_of ` (\<Union>f\<in>set stack. beyond g q f)"
proof (induction g q sha interrupt stack st rule: search_loop.induct)
  case (2 g q sha interrupt f stack st)
  have ok: "frame_ok g q f" "\<forall>f\<in>set stack. frame_ok g q f" using 2(4) by simp_all
  show ?case
  proof (cases "ss_stop st = None \<and> int (length (fm_hops f)) < rq_max_depth q")
    case False
    show ?thesis
    proof (cases "ss_stop st = None")
      case True
      then have "search_loop g q sha interrupt stack st = Inr st'" using 2(3) False by simp
      then have "set (paths_found st') \<subseteq> set (paths_found st) \<union> steps_of ` (\<Union>f\<in>set stack. beyond g q f)"
        using 2(1) True False ok(2) by simp
      then show ?thesis by auto
    qed (use 2(3) in simp)
  next
    case True
    then obtain st1 children where s: "scan g q sha interrupt f (adjacent g (fm_current f)) st = Inr (st1, children)"
      "search_loop g q sha interrupt (children @ stack) st1 = Inr st'"
      using 2(3) by (auto split: sum.splits)
    obtain xs where xs: "paths_found st1 = paths_found st @ map (\<lambda>h. steps_of (fm_hops f @ [h])) xs"
      "set xs \<subseteq> {h \<in> set (adjacent g (fm_current f)). admits g q f h \<and> arrives q (extend_frame f h)}"
      "set children \<subseteq> extend_frame f ` {h \<in> set (adjacent g (fm_current f)). admits g q f h}"
      using scan_some[OF s(1)] by auto
    note split = beyond_split[OF ok(1) conjunct2[OF True]]
    have new: "set (map (\<lambda>h. steps_of (fm_hops f @ [h])) xs) \<subseteq> steps_of ` beyond g q f" using xs(2) unfolding split by auto
    have deeper: "(\<Union>c\<in>set children. beyond g q c) \<subseteq> beyond g q f" using xs(3) unfolding split by auto
    have "\<forall>c\<in>set (children @ stack). frame_ok g q c" using extend_all_ok[OF ok(1) xs(3)] ok(2) by auto
    then have "set (paths_found st') \<subseteq> set (paths_found st1) \<union> steps_of ` (\<Union>f\<in>set (children @ stack). beyond g q f)"
      by (intro 2(2)[OF _ _ s(1) refl s(2)]) (use True in auto)
    moreover have "steps_of ` (\<Union>f\<in>set (children @ stack). beyond g q f) \<subseteq> steps_of ` (\<Union>f\<in>set (f # stack). beyond g q f)"
      by (rule image_mono) (use deeper in auto)
    moreover have "set (paths_found st1) \<subseteq> set (paths_found st) \<union> steps_of ` (\<Union>f\<in>set (f # stack). beyond g q f)"
      using new unfolding xs(1) set_append by auto
    ultimately show ?thesis by (rule subset_cut)
  qed
qed simp

definition apart :: "route_graph \<Rightarrow> route_query \<Rightarrow> frame list \<Rightarrow> (string list \<times> bool list) list \<Rightarrow> bool" where
  \<comment> \<open>nothing is found twice\<close>
  "apart g q stack found = (distinct found \<and> (\<forall>f\<in>set stack. set found \<inter> steps_of ` beyond g q f = {})
     \<and> sorted_wrt (\<lambda>f f'. beyond g q f \<inter> beyond g q f' = {}) stack)"

lemma beyond_walks: "hops \<in> beyond g q f \<Longrightarrow> walks g (rq_source_id q) hops"
  by (auto simp: beyond_def admissible_def permitted_def)

lemma steps_apart:
  assumes "graph_ok g" "beyond g q f \<inter> beyond g q f' = {}"
  shows "steps_of ` beyond g q f \<inter> steps_of ` beyond g q f' = {}"
  using steps_of_inject[OF assms(1)] beyond_walks assms(2) by blast

lemma search_loop_complete:
  "search_loop g q sha interrupt stack st = Inr st' \<Longrightarrow> ss_stop st' = None \<Longrightarrow> graph_ok g \<Longrightarrow> \<forall>f\<in>set stack. frame_ok g q f \<Longrightarrow>
     apart g q stack (paths_found st) \<Longrightarrow>
     set (paths_found st') = set (paths_found st) \<union> steps_of ` (\<Union>f\<in>set stack. beyond g q f) \<and> distinct (paths_found st')"
proof (induction g q sha interrupt stack st rule: search_loop.induct)
  case (2 g q sha interrupt f stack st)
  have ok: "frame_ok g q f" "\<forall>f\<in>set stack. frame_ok g q f" using 2(6) by simp_all
  have run: "ss_stop st = None" using 2(3,4) by (cases "ss_stop st") auto
  have ap: "apart g q stack (paths_found st)" "\<forall>f'\<in>set stack. beyond g q f \<inter> beyond g q f' = {}"
    "set (paths_found st) \<inter> steps_of ` beyond g q f = {}" using 2(7) by (auto simp: apart_def)
  show ?case
  proof (cases "int (length (fm_hops f)) < rq_max_depth q")
    case False
    then have "search_loop g q sha interrupt stack st = Inr st'" using 2(3) run by simp
    then have "set (paths_found st') = set (paths_found st) \<union> steps_of ` (\<Union>f\<in>set stack. beyond g q f) \<and> distinct (paths_found st')"
      using 2(1)[OF _ _ _ 2(4,5) ok(2) ap(1)] run False by simp
    then show ?thesis using False by (simp add: beyond_deep)
  next
    case True
    then obtain st1 children where s: "scan g q sha interrupt f (adjacent g (fm_current f)) st = Inr (st1, children)"
      "search_loop g q sha interrupt (children @ stack) st1 = Inr st'"
      using 2(3) run by (auto split: sum.splits)
    have run1: "ss_stop st1 = None"
    proof (rule ccontr)
      assume "ss_stop st1 \<noteq> None"
      then have "st' = st1" using s(2) by (cases "children @ stack") auto
      then show False using \<open>ss_stop st1 \<noteq> None\<close> 2(4) by simp
    qed
    let ?adm = "filter (admits g q f) (adjacent g (fm_current f))"
    let ?hits = "filter (\<lambda>h. admits g q f h \<and> arrives q (extend_frame f h)) (adjacent g (fm_current f))"
    have all: "paths_found st1 = paths_found st @ map (\<lambda>h. steps_of (fm_hops f @ [h])) ?hits" "children = map (extend_frame f) ?adm"
      using scan_all[OF s(1) run1] by blast+
    have split: "beyond g q f = (\<lambda>h. fm_hops f @ [h]) ` set ?hits \<union> (\<Union>c\<in>set children. beyond g q c)"
      unfolding beyond_split[OF ok(1) True] all(2) by auto
    have dist: "distinct (adjacent g (fm_current f))" using 2(5) by (simp add: graph_ok_def)
    have deep: "hops \<in> beyond g q (extend_frame f h) \<Longrightarrow> hops ! length (fm_hops f) = h \<and> Suc (length (fm_hops f)) < length hops" for hops h
      by (auto simp: beyond_def nth_append)
    have inner: "sorted_wrt (\<lambda>f f'. beyond g q f \<inter> beyond g q f' = {}) (map (extend_frame f) ?adm)"
      unfolding sorted_wrt_map unfolding sorted_wrt_iff_nth_less
    proof (intro allI impI)
      fix i j assume ij: "i < j" "j < length ?adm"
      then have "?adm ! i \<noteq> ?adm ! j" using dist nth_eq_iff_index_eq[of ?adm i j] by simp
      then show "beyond g q (extend_frame f (?adm ! i)) \<inter> beyond g q (extend_frame f (?adm ! j)) = {}"
        using deep[of _ "?adm ! i"] deep[of _ "?adm ! j"] by (metis disjoint_iff)
    qed
    have hit_walk: "h \<in> set ?hits \<Longrightarrow> walks g (rq_source_id q) (fm_hops f @ [h])" for h
      using beyond_walks[of "fm_hops f @ [h]" g q f] split by auto
    have hits_distinct: "distinct (map (\<lambda>h. steps_of (fm_hops f @ [h])) ?hits)"
      unfolding distinct_map using dist steps_of_inject[OF 2(5) hit_walk hit_walk] by (auto intro!: inj_onI)
    have hits_new: "set (map (\<lambda>h. steps_of (fm_hops f @ [h])) ?hits) \<inter> steps_of ` beyond g q c = {}" if c: "c \<in> set children" for c
    proof -
      obtain h' where h': "c = extend_frame f h'" using c all(2) by auto
      have "steps_of (fm_hops f @ [h]) \<noteq> steps_of hops" if "hops \<in> beyond g q c" for h hops
      proof
        assume e: "steps_of (fm_hops f @ [h]) = steps_of hops"
        have "length (snd (steps_of (fm_hops f @ [h]))) = length (snd (steps_of hops))" unfolding e ..
        then show False using deep[of hops h'] that h' by (simp add: steps_of_def)
      qed
      then show ?thesis unfolding disjoint_iff by (metis (no_types, lifting) imageE list.set_map)
    qed
    have sub: "c \<in> set children \<Longrightarrow> beyond g q c \<subseteq> beyond g q f" for c using split by auto
    have old: "set (paths_found st) \<inter> steps_of ` beyond g q c = {}" if "c \<in> set children" for c using ap(3) sub[OF that] by blast
    have rest: "set (map (\<lambda>h. steps_of (fm_hops f @ [h])) ?hits) \<inter> steps_of ` beyond g q f' = {}" if "f' \<in> set stack" for f'
      using steps_apart[OF 2(5), of q f f'] ap(2) that split by auto
    have "apart g q (children @ stack) (paths_found st1)"
      unfolding apart_def sorted_wrt_append
    proof (intro conjI ballI)
      show "distinct (paths_found st1)" using ap(1,3) hits_distinct split unfolding all(1) apart_def by auto
      show "sorted_wrt (\<lambda>f f'. beyond g q f \<inter> beyond g q f' = {}) children" using inner all(2) by simp
      show "sorted_wrt (\<lambda>f f'. beyond g q f \<inter> beyond g q f' = {}) stack" using ap(1) by (simp add: apart_def)
    next
      fix c f' assume "c \<in> set children" "f' \<in> set stack"
      then show "beyond g q c \<inter> beyond g q f' = {}" using sub ap(2) by blast
    next
      fix c assume c: "c \<in> set (children @ stack)"
      then show "set (paths_found st1) \<inter> steps_of ` beyond g q c = {}"
        unfolding all(1) set_append
      proof (intro disjoint_union)
        show "set (paths_found st) \<inter> steps_of ` beyond g q c = {}"
          using c old ap(1) by (cases "c \<in> set children") (simp_all add: apart_def)
        show "set (map (\<lambda>h. steps_of (fm_hops f @ [h])) ?hits) \<inter> steps_of ` beyond g q c = {}"
          using c hits_new[of c] rest[of c] by (cases "c \<in> set children") (simp_all del: set_map)
      qed
    qed
    moreover have "\<forall>c\<in>set (children @ stack). frame_ok g q c" using extend_frame_ok[OF ok(1)] ok(2) all(2) by auto
    ultimately have "set (paths_found st') = set (paths_found st1) \<union> steps_of ` (\<Union>f\<in>set (children @ stack). beyond g q f) \<and> distinct (paths_found st')"
      using 2(2)[OF _ _ s(1) refl s(2) 2(4,5)] run True by simp
    moreover have "steps_of ` beyond g q f = set (map (\<lambda>h. steps_of (fm_hops f @ [h])) ?hits) \<union> steps_of ` (\<Union>c\<in>set children. beyond g q c)"
      by (subst split) (simp only: image_Un image_image set_map)
    ultimately show ?thesis by (simp only: all(1) set_append list.set(2) UN_insert UN_Un image_Un Union_Un_distrib Un_assoc simp_thms)
  qed
qed (auto simp: apart_def)


section \<open>Bounds\<close>

lemma scan_candidates:
  "scan g q sha interrupt f hs st = Inr (st', children) \<Longrightarrow> int (length (ss_paths st)) < rq_max_candidates q \<Longrightarrow>
     int (length (ss_paths st')) \<le> rq_max_candidates q \<and> (ss_stop st' = None \<longrightarrow> ss_stop st = None \<and> int (length (ss_paths st')) < rq_max_candidates q)"
proof (induction hs arbitrary: st st' children)
  case (Cons h hs)
  show ?case
  proof (cases "halts q interrupt (ss_examined st)")
    case None
    let ?st1 = "st\<lparr>ss_examined := Suc (ss_examined st)\<rparr>"
    consider (skip) cs where "scan g q sha interrupt f hs ?st1 = Inr (st', cs)"
      | (last) r where "st' = ?st1\<lparr>ss_paths := ss_paths st @ [r], ss_stop := Some ''CANDIDATE_LIMIT''\<rparr>"
      | (hit) r cs where "scan g q sha interrupt f hs (?st1\<lparr>ss_paths := ss_paths st @ [r]\<rparr>) = Inr (st', cs)"
          "int (length (ss_paths st @ [r])) < rq_max_candidates q"
      using Cons.prems None by (auto simp: Let_def bind_r_Inr split: if_splits)
    then show ?thesis
    proof cases
      case skip
      then show ?thesis using Cons.IH[OF skip] Cons.prems(2) by simp
    next
      case (last r)
      then show ?thesis using Cons.prems(2) by simp
    next
      case (hit r cs)
      then show ?thesis using Cons.IH[OF hit(1)] by simp
    qed
  qed (use Cons.prems in auto)
qed simp

lemma search_loop_bounds:
  "search_loop g q sha interrupt stack st = Inr st' \<Longrightarrow> int (length (ss_paths st)) \<le> rq_max_candidates q \<Longrightarrow>
     ss_stop st = None \<longrightarrow> int (length (ss_paths st)) < rq_max_candidates q \<Longrightarrow> int (ss_examined st) \<le> max 0 (rq_max_expansions q) \<Longrightarrow>
     int (length (ss_paths st')) \<le> rq_max_candidates q \<and> int (ss_examined st') \<le> max 0 (rq_max_expansions q)"
proof (induction g q sha interrupt stack st rule: search_loop.induct)
  case (2 g q sha interrupt f stack st)
  show ?case
  proof (cases "ss_stop st = None \<and> \<not> rq_max_depth q \<le> int (length (fm_hops f))")
    case True
    then obtain st1 children where s: "scan g q sha interrupt f (adjacent g (fm_current f)) st = Inr (st1, children)"
      "search_loop g q sha interrupt (children @ stack) st1 = Inr st'"
      using 2(3) by (auto split: sum.splits)
    have c: "int (length (ss_paths st1)) \<le> rq_max_candidates q \<and> (ss_stop st1 = None \<longrightarrow> int (length (ss_paths st1)) < rq_max_candidates q)"
      using scan_candidates[OF s(1)] 2(5) True by simp
    have "int (ss_examined st1) \<le> max 0 (rq_max_expansions q)" using scan_progress[OF s(1)] 2(6) by linarith
    then show ?thesis by (intro 2(2)[OF _ _ s(1) refl s(2)]) (use True c in auto)
  next
    case False
    then show ?thesis using 2 by (cases "ss_stop st = None") auto
  qed
qed simp

section \<open>A search does not fault\<close>

definition relevance_ok :: "route_graph \<Rightarrow> bool" where
  "relevance_ok g = (\<forall>i. \<forall>h\<in>set (adjacent g i). case eg_relevance_score (fst h) of None \<Rightarrow> True | Some s \<Rightarrow> 0 \<le> s \<and> s \<le> 3)"

lemma templates_checked:
  "mode \<in> set ROUTE_MODES \<Longrightarrow>
     list_all (list_ex (\<lambda>s. s \<notin> set (STRUCTURAL @ map (\<lambda>p. p @ '':inverse'') STRUCTURAL))) (templates mode)"
proof -
  have "list_all (\<lambda>mode. list_all (list_ex (\<lambda>s. s \<notin> set (STRUCTURAL @ map (\<lambda>p. p @ '':inverse'') STRUCTURAL))) (templates mode)) ROUTE_MODES"
    by code_simp
  then show "mode \<in> set ROUTE_MODES \<Longrightarrow> ?thesis" by (simp add: list_all_iff)
qed

lemma templates_substantive:
  assumes "t \<in> set (templates mode)"
  shows "\<exists>s\<in>set t. s \<notin> set STRUCTURAL \<and> s \<notin> (\<lambda>p. p @ '':inverse'') ` set STRUCTURAL"
proof -
  obtain m where "m \<in> set ROUTE_MODES" "templates mode = templates m"
  proof (cases "mode \<in> {''cross_account_experience'', ''commercial_fit'', ''contact_candidates''}")
    case True
    then have "mode \<in> set ROUTE_MODES" by (simp add: ROUTE_MODES_def) blast
    then show ?thesis using that by blast
  next
    case False
    then have "templates mode = templates ''documented_access''" by (simp add: templates_def)
    then show ?thesis using that[of "''documented_access''"] by (simp add: ROUTE_MODES_def)
  qed
  then have "list_ex (\<lambda>s. s \<notin> set (STRUCTURAL @ map (\<lambda>p. p @ '':inverse'') STRUCTURAL)) t"
    using templates_checked[of m] assms by (simp only: list_all_iff)
  then show ?thesis by (simp only: list_ex_iff set_append set_map Un_iff de_Morgan_disj)
qed

lemma least_in: "xs \<noteq> [] \<Longrightarrow> least xs \<in> set xs"
proof -
  have "foldl min a ys \<in> set (a # ys)" for a :: int and ys
    by (induction ys arbitrary: a) (auto simp: min_def split: if_splits)
  then show "xs \<noteq> [] \<Longrightarrow> least xs \<in> set xs" unfolding least_def by (metis hd_Cons_tl)
qed

lemma least_map: "xs \<noteq> [] \<Longrightarrow> \<forall>x\<in>set xs. P (f x) \<Longrightarrow> P (least (map f xs))"
  using least_in[of "map f xs"] by auto

lemma short_one: "short_decimal 1"
  using scaled_short[of 1 0] by simp

lemma coverage_range:
  assumes "0 < n" "m \<le> (n::nat)"
  shows "0 \<le> ddiv (of_nat m) (of_nat n) \<and> ddiv (of_nat m) (of_nat n) \<le> 1"
proof -
  have "(0::rat) \<le> of_nat m / of_nat n" "(of_nat m / of_nat n :: rat) \<le> 1" using assms by simp_all
  then show ?thesis using dec28_mono[of 0 "of_nat m / of_nat n"] ctx28.rnd_upper[OF short_one] by (simp add: ddiv_def)
qed

lemma coefficients_sum: "foldl dadd 0 COEFFICIENTS = 1"
  by code_simp

lemma present_sum: "sum_list (map (length \<circ> fr_present_fields) (map (edge_reason q) es)) \<le> 4 * length es"
  by (induction es) (auto simp: edge_reason_def present_fields_def)

lemma factors_accepted:
  "0 \<le> rf_bottleneck f \<and> rf_bottleneck f \<le> 3 \<Longrightarrow> 0 \<le> rf_relevance f \<and> rf_relevance f \<le> 3 \<Longrightarrow> 0 \<le> rf_evidence f \<and> rf_evidence f \<le> 3 \<Longrightarrow>
     0 \<le> rf_freshness f \<and> rf_freshness f \<le> 2 \<Longrightarrow> 0 \<le> rf_coverage f \<and> rf_coverage f \<le> 1 \<Longrightarrow> route_factors_post_init f = Inr f"
  by (simp add: route_factors_post_init_def)

lemma path_coverage:
  assumes "es \<noteq> []"
  shows "0 \<le> ddiv (of_nat (sum_list (map (length \<circ> fr_present_fields) (map (edge_reason q) es)))) (of_nat (4 * length (map (edge_reason q) es)))
    \<and> ddiv (of_nat (sum_list (map (length \<circ> fr_present_fields) (map (edge_reason q) es)))) (of_nat (4 * length (map (edge_reason q) es))) \<le> 1"
  using present_sum[of q es] assms by (intro coverage_range) simp_all

lemma path_factors_defined:
  assumes "\<exists>h\<in>set hops. eg_predicate (fst h) \<notin> set STRUCTURAL"
    "\<forall>h\<in>set hops. case eg_relevance_score (fst h) of None \<Rightarrow> True | Some s \<Rightarrow> 0 \<le> s \<and> s \<le> 3"
  shows "\<exists>r. path_factors q hops = Inr r"
proof -
  let ?es = "filter (\<lambda>e. eg_predicate e \<notin> set STRUCTURAL) (map fst hops)"
  let ?rows = "map (edge_reason q) ?es"
  have ne: "?es \<noteq> []" using assms(1) by (auto simp: filter_empty_conv)
  have B: "0 \<le> least (map fr_B ?rows) \<and> least (map fr_B ?rows) \<le> 3"
    by (rule least_map) (use ne in \<open>auto simp: edge_reason_def edge_strength_def\<close>)
  have E: "0 \<le> least (map fr_E ?rows) \<and> least (map fr_E ?rows) \<le> 3"
    by (rule least_map) (use ne in \<open>auto simp: edge_reason_def truth_points_def\<close>)
  have F: "0 \<le> least (map fr_F ?rows) \<and> least (map fr_F ?rows) \<le> 2"
    by (rule least_map) (use ne in \<open>auto simp: edge_reason_def edge_freshness_def Let_def\<close>)
  have R: "0 \<le> path_relevance q ?es \<and> path_relevance q ?es \<le> 3"
  proof (cases "filter is_some (map eg_relevance_score ?es) = []")
    case False
    have "\<forall>s\<in>set (map the (filter is_some (map eg_relevance_score ?es))). 0 \<le> s \<and> s \<le> 3"
      using assms(2) by (force simp: is_some_def split: option.splits)
    then have "0 \<le> least (map the (filter is_some (map eg_relevance_score ?es))) \<and> least (map the (filter is_some (map eg_relevance_score ?es))) \<le> 3"
      using least_in[of "map the (filter is_some (map eg_relevance_score ?es))"] False by (simp only: map_is_Nil_conv not_False_eq_True)
    then show ?thesis using False unfolding path_relevance_def Let_def by (simp only: map_is_Nil_conv not_False_eq_True if_True)
  qed (simp add: path_relevance_def Let_def)
  have C: "0 \<le> ddiv (of_nat (sum_list (map (length \<circ> fr_present_fields) ?rows))) (of_nat (4 * length ?rows))
      \<and> ddiv (of_nat (sum_list (map (length \<circ> fr_present_fields) ?rows))) (of_nat (4 * length ?rows)) \<le> 1"
    by (rule path_coverage[OF ne])
  have "route_factors_post_init \<lparr>rf_bottleneck = least (map fr_B ?rows), rf_relevance = path_relevance q ?es,
      rf_evidence = least (map fr_E ?rows), rf_freshness = least (map fr_F ?rows),
      rf_coverage = ddiv (of_nat (sum_list (map (length \<circ> fr_present_fields) ?rows))) (of_nat (4 * length ?rows))\<rparr> = Inr
      \<lparr>rf_bottleneck = least (map fr_B ?rows), rf_relevance = path_relevance q ?es,
      rf_evidence = least (map fr_E ?rows), rf_freshness = least (map fr_F ?rows),
      rf_coverage = ddiv (of_nat (sum_list (map (length \<circ> fr_present_fields) ?rows))) (of_nat (4 * length ?rows))\<rparr>"
    by (rule factors_accepted) (use B E F R C in simp_all)
  then show ?thesis unfolding path_factors_def Let_def using ne by simp
qed

lemma new_route_defined:
  assumes "frame_ok g q f" "relevance_ok g" "arrives q f" "1 \<le> length (fm_hops f)" "length (fm_hops f) \<le> 6"
  shows "\<exists>r. new_route sha q f = Inr r"
proof -
  have seq: "map token (fm_hops f) \<in> set (templates (rq_mode q))" and walk: "walks g (rq_source_id q) (fm_hops f)"
    using assms(1,3) by (simp_all add: frame_ok_def arrives_def permitted_def)
  obtain h where h: "h \<in> set (fm_hops f)" "token h \<notin> set STRUCTURAL" "token h \<notin> (\<lambda>p. p @ '':inverse'') ` set STRUCTURAL"
    using templates_substantive[OF seq] by auto
  then have "eg_predicate (fst h) \<notin> set STRUCTURAL" by (auto simp: token_def split: if_splits)
  moreover have "walks g i hs \<Longrightarrow> h \<in> set hs \<Longrightarrow> \<exists>j. h \<in> set (adjacent g j)" for i hs h
    by (induction hs arbitrary: i) auto
  then have "\<forall>h\<in>set (fm_hops f). case eg_relevance_score (fst h) of None \<Rightarrow> True | Some s \<Rightarrow> 0 \<le> s \<and> s \<le> 3"
    using walk assms(2) unfolding relevance_ok_def by blast
  ultimately obtain factors reasons where "path_factors q (fm_hops f) = Inr (factors, reasons)"
    using path_factors_defined[of "fm_hops f" q] h(1) by auto
  moreover have "\<exists>u. route_utility COEFFICIENTS factors (int (length (fm_hops f))) = Inr u"
    using assms(4,5) coefficients_sum by (simp add: route_utility_def) (simp add: COEFFICIENTS_def)
  ultimately show ?thesis by (auto simp: new_route_def Let_def)
qed

lemma scan_defined:
  assumes "frame_ok g q f" "relevance_ok g" "int (length (fm_hops f)) < rq_max_depth q" "rq_max_depth q \<le> 6"
  shows "set hs \<subseteq> set (adjacent g (fm_current f)) \<Longrightarrow> \<exists>r. scan g q sha interrupt f hs st = Inr r"
proof (induction hs arbitrary: st)
  case (Cons h hs)
  have route: "\<exists>r. new_route sha q (extend_frame f h) = Inr r" if "admits g q f h" "arrives q (extend_frame f h)"
    by (rule new_route_defined[OF extend_frame_ok[OF assms(1) _ that(1)] assms(2) that(2)]) (use Cons.prems assms(3,4) in auto)
  have rest: "\<exists>r. bind_r (scan g q sha interrupt f hs s) (\<lambda>(st', children). Inr (st', extend_frame f h # children)) = Inr r" for s
  proof -
    obtain s' cs where "scan g q sha interrupt f hs s = Inr (s', cs)" using Cons.IH[of s] Cons.prems by auto
    then show ?thesis by simp
  qed
  have "\<exists>r. scan g q sha interrupt f hs s = Inr r" for s using Cons.IH[of s] Cons.prems by simp
  then show ?case using rest route
    by (cases "halts q interrupt (ss_examined st)"; cases "admits g q f h"; cases "arrives q (extend_frame f h)")
      (auto simp: Let_def simp del: split_paired_Ex)
qed simp

lemma search_loop_defined:
  "\<forall>f\<in>set stack. frame_ok g q f \<Longrightarrow> relevance_ok g \<Longrightarrow> rq_max_depth q \<le> 6 \<Longrightarrow> \<exists>st'. search_loop g q sha interrupt stack st = Inr st'"
proof (induction g q sha interrupt stack st rule: search_loop.induct)
  case (2 g q sha interrupt f stack st)
  show ?case
  proof (cases "ss_stop st = None \<and> \<not> rq_max_depth q \<le> int (length (fm_hops f))")
    case True
    then obtain st1 children where s: "scan g q sha interrupt f (adjacent g (fm_current f)) st = Inr (st1, children)"
      using scan_defined[of g q f "adjacent g (fm_current f)" sha interrupt st] 2(3-5) by auto
    obtain xs where "set children \<subseteq> extend_frame f ` {h \<in> set (adjacent g (fm_current f)). admits g q f h}"
      using scan_some[OF s] by auto
    then have "\<forall>c\<in>set (children @ stack). frame_ok g q c" using extend_all_ok[of g q f children] 2(3) by auto
    then have "\<exists>st'. search_loop g q sha interrupt (children @ stack) st1 = Inr st'"
      by (intro 2(2)[OF _ _ s refl]) (use True 2(4,5) in auto)
    then show ?thesis using True s by simp
  next
    case False
    then show ?thesis using 2 by (cases "ss_stop st = None") auto
  qed
qed simp

lemma add_edges_hops:
  "add_edges es g = Inr g' \<Longrightarrow> h \<in> set (adjacent g' i) \<Longrightarrow> h \<in> set (adjacent g i) \<or> fst h \<in> set es"
proof (induction es arbitrary: g)
  case (Cons e es)
  then obtain g1 where g1: "add_edge e g = Inr g1" "add_edges es g1 = Inr g'" by (auto simp: bind_r_Inr)
  have "h \<in> set (adjacent g1 i) \<Longrightarrow> h \<in> set (adjacent g i) \<or> fst h = e"
    using g1(1) by (auto simp: add_edge_def adjacent_def adjacent_append_hop split: option.splits if_splits)
  then show ?case using Cons.IH[OF g1(2) Cons.prems(2)] by auto
qed simp

lemma new_graph_relevance:
  assumes "new_graph nodes edges revision = Inr g" "\<forall>e\<in>set edges. \<forall>s. eg_relevance_score e = Some s \<longrightarrow> 0 \<le> s \<and> s \<le> 3"
  shows "relevance_ok g"
proof -
  have "add_edges (sort_key eg_id edges) \<lparr>gr_nodes = map (\<lambda>n. (node_id n, n)) nodes, gr_edges = [], gr_adjacency = [], gr_revision = revision\<rparr> = Inr g"
    using assms(1) by (simp add: new_graph_def split: if_splits)
  from add_edges_hops[OF this] have "fst h \<in> set edges" if "h \<in> set (adjacent g i)" for h i
    using that by (fastforce simp: adjacent_def)
  then show ?thesis using assms(2) unfolding relevance_ok_def by (intro allI ballI) (simp split: option.splits, blast)
qed

section \<open>Properties\<close>

definition demo_node :: "string \<Rightarrow> string \<Rightarrow> string option \<Rightarrow> route_node" where
  "demo_node kind i account = \<lparr>nd_scope_id = ''s'', nd_kind = kind, nd_canonical_id = i, nd_label = i, nd_account_id = account,
     nd_resolved = True, nd_contact_count = None, nd_senior_contact_count = None, nd_source_people = [], nd_unvalidated = False,
     nd_role_family = None, nd_seniority_tier = None, nd_profile_url = None, nd_raw_title = None, nd_provenance_label = None,
     nd_exported_on = None, nd_resolution_method = None\<rparr>"

definition demo_edge :: route_edge where
  "demo_edge = \<lparr>eg_id = ''1'', eg_source = ''s:c:b'', eg_target = ''s:a:a'', eg_predicate = ''WORKS_AT'', eg_evidence_ids = [''ev''],
     eg_lineage_groups = [''g''], eg_source_lineage = [], eg_truth_class = ''ANALYST_INFERENCE'', eg_observed_on = None,
     eg_account_id = Some ''a'', eg_component_id = None, eg_program_id = None, eg_facility_id = None, eg_valid_from = None,
     eg_valid_until = None, eg_accepted_order_ids = [], eg_inverse_modes = [''contact_candidates''], eg_conflicting = False, eg_constraint_ids = [],
     eg_derivation_rule = [], eg_relevance_score = None\<rparr>"

definition demo_graph :: route_graph where
  "demo_graph = \<lparr>gr_nodes = [(''s:a:a'', demo_node ''a'' ''a'' (Some ''a'')), (''s:c:b'', demo_node ''c'' ''b'' None)],
     gr_edges = [(''1'', demo_edge)], gr_adjacency = [(''s:c:b'', [(demo_edge, False)]), (''s:a:a'', [(demo_edge, True)])], gr_revision = ''r''\<rparr>"

definition demo_query :: route_query where
  "demo_query = \<lparr>rq_scope_id = ''s'', rq_source_id = ''s:a:a'', rq_target_ids = [''s:c:b''], rq_mode = ''contact_candidates'',
     rq_as_of = Date 2026 1 1, rq_authorized_account_ids = [''a''], rq_source_component_id = None, rq_target_component_id = None,
     rq_max_depth = 4, rq_lookback_days = 365, rq_max_expansions = 10, rq_max_candidates = 5, rq_deadline_seconds = 1 / 4\<rparr>"

definition demo_search :: search_state where
  "demo_search = projr (search_paths demo_graph demo_query id (\<lambda>_. None))"

lemma demo_new_graph: "new_graph [demo_node ''a'' ''a'' (Some ''a''), demo_node ''c'' ''b'' None] [demo_edge] ''r'' = Inr demo_graph"
proof -
  have n: "node_id (demo_node ''a'' ''a'' (Some ''a'')) = ''s:a:a''" "node_id (demo_node ''c'' ''b'' None) = ''s:c:b''"
    "nd_scope_id (demo_node k i a) = ''s''" for k i a
    by (simp_all add: node_id_def demo_node_def)
  have e: "eg_id demo_edge = ''1''" "eg_source demo_edge = ''s:c:b''" "eg_target demo_edge = ''s:a:a''" "eg_inverse_modes demo_edge \<noteq> []"
    by (simp_all add: demo_edge_def)
  show ?thesis by (simp add: new_graph_def add_edge_def append_hop_def n e demo_graph_def dict_simps)
qed

lemma demo_relevance: "relevance_ok demo_graph"
  by (simp add: relevance_ok_def adjacent_def demo_graph_def demo_edge_def)

lemma demo_adjacent: "adjacent demo_graph ''s:a:a'' = [(demo_edge, True)]" "adjacent demo_graph ''s:c:b'' = [(demo_edge, False)]"
  by (simp_all add: adjacent_def demo_graph_def)

lemma demo_nodes: "node_allowed demo_graph demo_query ''s:a:a''" "node_allowed demo_graph demo_query ''s:c:b''"
  by (simp_all add: node_allowed_def demo_graph_def demo_node_def demo_query_def)

lemma demo_edge_allowed: "edge_allowed demo_graph demo_query demo_edge True"
proof -
  have "eg_source demo_edge = ''s:c:b''" "eg_target demo_edge = ''s:a:a''" by (simp_all add: demo_edge_def)
  then show ?thesis using demo_nodes unfolding edge_allowed_def
    by (simp add: in_validity_def other_component_def orders_recent_def) (simp add: demo_edge_def demo_query_def)
qed

lemma demo_admits: "admits demo_graph demo_query (first_frame demo_query) (demo_edge, True)"
  using demo_edge_allowed by (simp add: admits_def first_frame_def hop_end_def token_def) (simp add: demo_edge_def demo_query_def templates_def)

lemma demo_arrives: "arrives demo_query (extend_frame (first_frame demo_query) (demo_edge, True))"
  by (simp add: arrives_def extend_frame_def first_frame_def hop_end_def token_def demo_edge_def demo_query_def templates_def)

lemma demo_stuck: "\<not> admits demo_graph demo_query (extend_frame (first_frame demo_query) (demo_edge, True)) (demo_edge, False)"
  by (simp add: admits_def extend_frame_def first_frame_def hop_end_def demo_edge_def demo_query_def)

lemma demo_search_runs:
  "\<exists>st. search_paths demo_graph demo_query id (\<lambda>_. None) = Inr st \<and> ss_stop st = None
     \<and> map found_steps (ss_paths st) = [([''1''], [True])]"
proof -
  let ?f = "first_frame demo_query"
  let ?c = "extend_frame ?f (demo_edge, True)"
  have "adjacent demo_graph (fm_current ?f) = [(demo_edge, True)]" by (simp add: first_frame_def demo_query_def demo_adjacent)
  then have "frame_ok demo_graph demo_query ?c"
    by (intro extend_frame_ok[OF first_frame_ok _ demo_admits]) simp
  then obtain r where r: "new_route id demo_query ?c = Inr r"
    using new_route_defined[OF _ demo_relevance demo_arrives] by (auto simp: first_frame_def)
  have steps: "found_steps r = ([''1''], [True])"
    using new_route_steps[OF r] by (simp add: steps_of_def first_frame_def demo_edge_def)
  have q: "rq_source_id demo_query = ''s:a:a''" "rq_target_ids demo_query = [''s:c:b'']" "rq_max_depth demo_query = 4"
    "rq_max_expansions demo_query = 10" "rq_max_candidates demo_query = 5" by (simp_all add: demo_query_def)
  have c: "fm_current ?f = ''s:a:a''" "fm_hops ?f = []" "fm_current ?c = ''s:c:b''"
    by (simp_all add: first_frame_def extend_frame_def q hop_end_def demo_edge_def)
  show ?thesis
    using steps by (simp add: search_paths_def q demo_nodes c demo_adjacent halts_def demo_admits demo_arrives demo_stuck r Let_def)
qed

lemma demo_run: "search_paths demo_graph demo_query id (\<lambda>_. None) = Inr demo_search"
  and demo_found: "ss_stop demo_search = None \<and> map found_steps (ss_paths demo_search) = [([''1''], [True])]"
  using demo_search_runs by (auto simp: demo_search_def)

text \<open>
  C22. A complete search is exactly its specification: on a built graph, when the search was not cut short, the routes
  it found are the simple permitted walks from the source to a target that spell a template within the depth, each
  once.
\<close>

theorem complete_search_is_exact:
  assumes "new_graph nodes edges revision = Inr g" "rq_target_ids q \<noteq> []" "search_paths g q sha interrupt = Inr st" "ss_stop st = None"
  shows "set (map found_steps (ss_paths st)) = steps_of ` {hops. admissible g q hops} \<and> distinct (map found_steps (ss_paths st))
    \<and> inj_on steps_of {hops. admissible g q hops}"
proof -
  have ok: "graph_ok g" by (rule new_graph_ok[OF assms(1)])
  have loop: "search_loop g q sha interrupt [first_frame q] \<lparr>ss_paths = [], ss_examined = 0, ss_stop = None\<rparr> = Inr st"
    using assms(2,3) by (auto simp: search_paths_def split: if_splits sum.splits)
      (cases "search_loop g q sha interrupt [first_frame q] \<lparr>ss_paths = [], ss_examined = 0, ss_stop = None\<rparr>", auto)
  have all: "beyond g q (first_frame q) = {hops. admissible g q hops}"
    by (auto simp: beyond_def first_frame_def admissible_def)
  have "set (paths_found st) = steps_of ` beyond g q (first_frame q) \<and> distinct (paths_found st)"
    using search_loop_complete[OF loop assms(4) ok] first_frame_ok by (simp add: apart_def paths_found_def)
  moreover have "inj_on steps_of {hops. admissible g q hops}"
    using steps_of_inject[OF ok] by (auto intro!: inj_onI simp: admissible_def permitted_def)
  ultimately show ?thesis unfolding all by (simp add: paths_found_def)
qed

corollary complete_search_is_exact_witness:
  "steps_of ` {hops. admissible demo_graph demo_query hops} = {([''1''], [True])}"
  using complete_search_is_exact[OF demo_new_graph _ demo_run] demo_found by (simp add: demo_query_def)

text \<open>
  C23. No route leaves the authorized scope: whatever cuts a search short, every route it found walks permitted edges
  between resolved nodes of the query's own environment and of authorized accounts, visits no node twice, joins the
  source to a target, and stays within the depth; and the search examined no more edges and kept no more routes than
  the query allows.
\<close>

theorem found_routes_are_permitted:
  assumes "search_paths g q sha interrupt = Inr st" "0 \<le> rq_max_expansions q" "1 \<le> rq_max_candidates q"
  shows "(\<forall>p\<in>set (ss_paths st). \<exists>hops. found_steps p = steps_of hops \<and> admissible g q hops
      \<and> (\<forall>i\<in>set (rq_source_id q # map hop_end hops). \<exists>n. dget (gr_nodes g) i = Some n \<and> nd_resolved n \<and> nd_scope_id n = rq_scope_id q
           \<and> (\<forall>a. nd_account_id n = Some a \<longrightarrow> a \<in> set (rq_authorized_account_ids q)))
      \<and> (\<forall>h\<in>set hops. \<forall>a. eg_account_id (fst h) = Some a \<and> a \<noteq> [] \<longrightarrow> a \<in> set (rq_authorized_account_ids q)))
    \<and> int (ss_examined st) \<le> rq_max_expansions q \<and> int (length (ss_paths st)) \<le> rq_max_candidates q"
proof -
  let ?stack = "if rq_target_ids q \<noteq> [] then [first_frame q] else []"
  let ?st0 = "\<lparr>ss_paths = [], ss_examined = 0, ss_stop = None\<rparr>"
  have src: "node_allowed g q (rq_source_id q)" and loop: "search_loop g q sha interrupt ?stack ?st0 = Inr st"
    using assms(1) by (auto simp: search_paths_def split: if_splits)
      (cases "search_loop g q sha interrupt ?stack ?st0"; simp)+
  have bounds: "int (length (ss_paths st)) \<le> rq_max_candidates q \<and> int (ss_examined st) \<le> max 0 (rq_max_expansions q)"
    by (rule search_loop_bounds[OF loop]) (use assms(3) in simp_all)
  have sound: "set (paths_found st) \<subseteq> steps_of ` beyond g q (first_frame q)"
    using search_loop_sound[OF loop] first_frame_ok by (auto simp: paths_found_def split: if_splits)
  have node: "\<exists>n. dget (gr_nodes g) i = Some n \<and> nd_resolved n \<and> nd_scope_id n = rq_scope_id q
      \<and> (\<forall>a. nd_account_id n = Some a \<longrightarrow> a \<in> set (rq_authorized_account_ids q))" if "node_allowed g q i" for i
    using that by (auto simp: node_allowed_def split: option.splits)
  have "\<exists>hops. found_steps p = steps_of hops \<and> admissible g q hops
      \<and> (\<forall>i\<in>set (rq_source_id q # map hop_end hops). \<exists>n. dget (gr_nodes g) i = Some n \<and> nd_resolved n \<and> nd_scope_id n = rq_scope_id q
           \<and> (\<forall>a. nd_account_id n = Some a \<longrightarrow> a \<in> set (rq_authorized_account_ids q)))
      \<and> (\<forall>h\<in>set hops. \<forall>a. eg_account_id (fst h) = Some a \<and> a \<noteq> [] \<longrightarrow> a \<in> set (rq_authorized_account_ids q))"
    if p: "p \<in> set (ss_paths st)" for p
  proof -
    have "found_steps p \<in> steps_of ` beyond g q (first_frame q)" using sound p by (auto simp: paths_found_def)
    then obtain hops where h: "found_steps p = steps_of hops" "admissible g q hops" by (auto simp: beyond_def)
    have e: "\<forall>x\<in>set hops. edge_allowed g q (fst x) (snd x)" using h(2) by (simp add: admissible_def permitted_def)
    then have "\<forall>x\<in>set hops. node_allowed g q (hop_end x)" by (auto simp: edge_allowed_def hop_end_def)
    then have "\<forall>i\<in>set (rq_source_id q # map hop_end hops). node_allowed g q i" using src by auto
    moreover have "\<forall>x\<in>set hops. \<forall>a. eg_account_id (fst x) = Some a \<and> a \<noteq> [] \<longrightarrow> a \<in> set (rq_authorized_account_ids q)"
      using e by (auto simp: edge_allowed_def truthy_def)
    ultimately show ?thesis using h node by blast
  qed
  then show ?thesis using bounds assms(2) by auto
qed

corollary found_routes_are_permitted_witness:
  "ss_paths demo_search \<noteq> [] \<and> int (ss_examined demo_search) \<le> 10 \<and> int (length (ss_paths demo_search)) \<le> 5"
  using found_routes_are_permitted[OF demo_run] demo_found by (auto simp: demo_query_def)

text \<open>
  C28. A search always returns: whatever the graph, the query and the interruptions, it ends with a result or an error.
\<close>

theorem route_search_returns: "\<exists>r. search_routes g q sha interrupt = Some r"
proof -
  have group: "\<exists>x. route_group_of routes status = Some x" for routes status
  proof -
    let ?m = "filter (\<lambda>r. rt_execution_status r = status) routes"
    obtain a where a: "select_alternatives ?m 3 = Some a" using select_returns[of ?m 3] by blast
    obtain b where b: "sensitivity_report ?m = Some b"
      using run_variants_return[of ?m VARIANTS] by (auto simp: sensitivity_report_def)
    show ?thesis using a b by (simp add: route_group_of_def Let_def)
  qed
  show ?thesis
  proof (cases "search_paths g q sha interrupt")
    case (Inr st)
    let ?paths = "map fo_route (ranked_paths (ss_paths st))"
    obtain a b c where "route_group_of ?paths ''FEASIBLE'' = Some a" "route_group_of ?paths ''NEEDS_CHECK'' = Some b"
      "route_group_of ?paths ''BLOCKED'' = Some c" using group by metis
    then show ?thesis using Inr by (simp add: search_routes_def Let_def)
  qed (simp add: search_routes_def)
qed

text \<open>
  C31. A search fails only on scope: on a built graph whose imported relevance scores are in range, a query within the
  depth limit gives its paths, however it is interrupted, exactly when the source and every target are permitted nodes,
  and is refused with the permission error otherwise: no template is structural only, and the factors of a path always
  make a valid rubric input.
\<close>

theorem search_refuses_only_scope:
  assumes "new_graph nodes edges revision = Inr g" "\<forall>e\<in>set edges. \<forall>s. eg_relevance_score e = Some s \<longrightarrow> 0 \<le> s \<and> s \<le> 3" "rq_max_depth q \<le> 6"
  shows "if list_all (node_allowed g q) (rq_source_id q # rq_target_ids q) then \<exists>st. search_paths g q sha interrupt = Inr st
    else search_paths g q sha interrupt = Inl (RoutePermission ''Unresolved or unauthorized relationship scope'')"
proof -
  have "\<exists>st. search_loop g q sha interrupt (if rq_target_ids q \<noteq> [] then [first_frame q] else []) st0 = Inr st" for st0
    by (rule search_loop_defined) (simp_all add: first_frame_ok new_graph_relevance[OF assms(1,2)] assms(3))
  then have "\<exists>st. map_sum RouteFault id (search_loop g q sha interrupt (if rq_target_ids q \<noteq> [] then [first_frame q] else []) st0) = Inr st" for st0
    by (metis map_sum.simps(2))
  then show ?thesis unfolding search_paths_def list_all_iff list_ex_iff by (simp del: map_sum.simps)
qed

corollary search_refuses_only_scope_witness:
  "search_paths demo_graph (demo_query\<lparr>rq_authorized_account_ids := []\<rparr>) id (\<lambda>_. None)
     = Inl (RoutePermission ''Unresolved or unauthorized relationship scope'')"
  using search_refuses_only_scope[OF demo_new_graph, of "demo_query\<lparr>rq_authorized_account_ids := []\<rparr>" id "\<lambda>_. None"]
  by (simp add: demo_query_def demo_edge_def node_allowed_def demo_graph_def demo_node_def)

end
