(* ===== verification/SqlActions.thy ===== *)
theory SqlActions
  imports WorkProofs Retry IsoText ResearchJournal
begin

text \<open>
  \<^verbatim>\<open>persistence/actions.py\<close>: the Action repository over SQL (PostgreSQL and SQLite). A table is a
  list of rows; a transaction gives an error and the old tables, or a value and the new ones. A reader takes the
  row of an Action in one transaction and its subtasks in another, so the reading operations take the tables seen by each.
  \<open>co_dump\<close> is \<open>json.dumps\<close> with sorted keys.
\<close>

section \<open>Rows\<close>

record work_row =
  wr_id :: string
  wr_account_id :: "string option"
  wr_summary :: string
  wr_description :: "string option"
  wr_owner_id :: "string option"
  wr_priority :: string
  wr_due_date :: "string option"
  wr_status :: string
  wr_approval_status :: string
  wr_source_suggestion_id :: "string option"
  wr_evidence_ids :: string
  wr_context_referents :: string
  wr_created_by :: string
  wr_created_at :: datetime
  wr_updated_at :: datetime
  wr_completed_at :: "datetime option"
  wr_canceled_at :: "datetime option"
  wr_version :: int
  wr_previous_status :: "string option"
  wr_approval_requested_by :: "string option"
  wr_approval_comment :: "string option"
  wr_idempotency_key :: string

record child_row =
  cr_id :: string
  cr_parent_id :: string
  cr_title :: string
  cr_done :: bool
  cr_due_date :: "string option"
  cr_owner_id :: "string option"
  cr_removed :: bool

record audit_row =
  ar_id :: int
  ar_work_item_id :: string
  ar_event :: string
  ar_actor_id :: string
  ar_occurred_at :: datetime
  ar_metadata :: string

record decision_row =
  dr_suggestion_id :: string
  dr_dismissed_by :: string
  dr_dismissed_at :: datetime

record work_db =
  wd_items :: "work_row list"
  wd_children :: "child_row list"
  wd_audit :: "audit_row list"
  wd_decisions :: "decision_row list"

definition empty_work_db :: work_db where
  "empty_work_db = \<lparr>wd_items = [], wd_children = [], wd_audit = [], wd_decisions = []\<rparr>"

datatype sql_error =
    SqlWork work_error
  | SqlDecode string      \<comment> \<open>a stored text the reader refuses\<close>
  | SqlIntegrity          \<comment> \<open>a violated key\<close>

section \<open>Reading\<close>

definition aware_utc :: "datetime \<Rightarrow> datetime" where
  \<comment> \<open>\<open>aware\<close>\<close>
  "aware_utc t = (if aware t then t else t\<lparr>dt_offset := Some 0\<rparr>)"

definition parse_enum :: "('a \<Rightarrow> string) \<Rightarrow> 'a list \<Rightarrow> string \<Rightarrow> (sql_error, 'a) result" where
  "parse_enum value members text =
     (case first_match (\<lambda>m. value m = text) members of None \<Rightarrow> Inl (SqlDecode text) | Some m \<Rightarrow> Inr m)"

definition parse_status :: "string \<Rightarrow> (sql_error, action_status) result" where
  "parse_status = parse_enum status_value [OPEN, IN_PROGRESS, COMPLETED, CANCELED]"

definition parse_priority :: "string \<Rightarrow> (sql_error, action_priority) result" where
  "parse_priority = parse_enum priority_value [P_HIGH, P_MEDIUM, P_LOW]"

definition parse_approval :: "string \<Rightarrow> (sql_error, approval_status) result" where
  "parse_approval = parse_enum approval_value [NOT_REQUIRED, PENDING, APPROVED, REJECTED, REQUESTED, CHANGES_REQUESTED]"

definition parse_due :: "string option \<Rightarrow> (sql_error, date option) result" where
  "parse_due text = (if \<not> truthy text then Inr None
     else case parse_date (the text) of None \<Rightarrow> Inl (SqlDecode (the text)) | Some d \<Rightarrow> Inr (Some d))"

definition parse_previous :: "string option \<Rightarrow> (sql_error, action_status option) result" where
  "parse_previous text = (if \<not> truthy text then Inr None else bind_r (parse_status (the text)) (\<lambda>s. Inr (Some s)))"

fun json_text :: "json \<Rightarrow> string option" where
  "json_text (J_str s) = Some s"
| "json_text _ = None"

fun json_pair :: "json \<Rightarrow> (string \<times> string) option" where
  "json_pair (J_arr [J_str a, J_str b]) = Some (a, b)"
| "json_pair _ = None"

definition parse_items :: "codec \<Rightarrow> (json \<Rightarrow> 'a option) \<Rightarrow> string \<Rightarrow> (sql_error, 'a list) result" where
  \<comment> \<open>an array of the items the repository writes\<close>
  "parse_items c item text = (case co_parse c text of
     Some (J_arr js) \<Rightarrow> (if list_all (\<lambda>j. item j \<noteq> None) js then Inr (map (the \<circ> item) js) else Inl (SqlDecode text))
   | _ \<Rightarrow> Inl (SqlDecode text))"

definition child_of :: "child_row \<Rightarrow> (sql_error, subtask) result" where
  "child_of r = bind_r (parse_due (cr_due_date r)) (\<lambda>due.
     map_sum SqlWork id (subtask_post_init \<lparr>sub_id = cr_id r, sub_parent_id = cr_parent_id r, sub_title = cr_title r, sub_done = cr_done r,
       sub_due_date = due, sub_owner_id = cr_owner_id r, sub_removed = cr_removed r\<rparr>))"

definition child_rows :: "work_db \<Rightarrow> string \<Rightarrow> child_row list" where
  "child_rows db i = sort_key cr_id (filter (\<lambda>r. cr_parent_id r = i) (wd_children db))"

definition action_of :: "codec \<Rightarrow> work_db \<Rightarrow> work_row \<Rightarrow> (sql_error, action) result" where
  \<comment> \<open>\<open>_action\<close>: \<open>db\<close> is what its own connection sees\<close>
  "action_of c db w =
     bind_r (parse_priority (wr_priority w)) (\<lambda>priority.
     bind_r (parse_due (wr_due_date w)) (\<lambda>due.
     bind_r (parse_status (wr_status w)) (\<lambda>status.
     bind_r (parse_approval (wr_approval_status w)) (\<lambda>approval.
     bind_r (parse_items c json_text (wr_evidence_ids w)) (\<lambda>evidence.
     bind_r (parse_items c json_pair (if wr_context_referents w = [] then ''[]'' else wr_context_referents w)) (\<lambda>referents.
     bind_r (parse_previous (wr_previous_status w)) (\<lambda>previous.
     bind_r (map_r child_of (child_rows db (wr_id w))) (\<lambda>subtasks.
     map_sum SqlWork id (action_post_init
       \<lparr>act_id = wr_id w, act_account_id = wr_account_id w, act_title = wr_summary w, act_description = wr_description w,
        act_owner_id = wr_owner_id w, act_priority = priority, act_due_date = due, act_status = status,
        act_approval_status = approval, act_source_suggestion_id = wr_source_suggestion_id w, act_evidence_ids = evidence,
        act_created_by = wr_created_by w, act_created_at = aware_utc (wr_created_at w), act_updated_at = aware_utc (wr_updated_at w),
        act_completed_at = map_option aware_utc (wr_completed_at w), act_canceled_at = map_option aware_utc (wr_canceled_at w),
        act_version = wr_version w, act_context_referents = referents, act_previous_status = previous,
        act_approval_requested_by = wr_approval_requested_by w, act_approval_comment = wr_approval_comment w,
        act_subtasks = subtasks\<rparr>)))))))))"

definition read_row :: "codec \<Rightarrow> work_db \<Rightarrow> work_row option \<Rightarrow> (sql_error, action option) result" where
  "read_row c db row = (case row of None \<Rightarrow> Inr None | Some w \<Rightarrow> bind_r (action_of c db w) (\<lambda>a. Inr (Some a)))"

definition sql_get :: "codec \<Rightarrow> work_db \<Rightarrow> work_db \<Rightarrow> string \<Rightarrow> (sql_error, action option) result" where
  "sql_get c db later i = read_row c later (row_by wr_id (wd_items db) i)"

definition sql_by_suggestion :: "codec \<Rightarrow> work_db \<Rightarrow> work_db \<Rightarrow> string \<Rightarrow> (sql_error, action option) result" where
  "sql_by_suggestion c db later s = read_row c later (row_by wr_source_suggestion_id (wd_items db) (Some s))"

definition sql_list :: "codec \<Rightarrow> work_db \<Rightarrow> (string \<Rightarrow> work_db) \<Rightarrow> (sql_error, action list) result" where
  \<comment> \<open>\<open>later i\<close>: the tables when the subtasks of \<open>i\<close> are read\<close>
  "sql_list c db later = map_r (\<lambda>w. action_of c (later (wr_id w)) w) (wd_items db)"

definition event_of :: "codec \<Rightarrow> audit_row \<Rightarrow> (sql_error, audit_event) result" where
  "event_of c r = (case (if ar_metadata r = [] then Some (J_obj []) else co_parse c (ar_metadata r)) of
     Some (J_obj md) \<Rightarrow> map_sum SqlWork id (audit_event_post_init
       \<lparr>ev_id = Some (ar_id r), ev_action_id = ar_work_item_id r, ev_actor_id = ar_actor_id r, ev_event = ar_event r,
        ev_occurred_at = aware_utc (ar_occurred_at r), ev_metadata = md\<rparr>)
   | _ \<Rightarrow> Inl (SqlDecode (ar_metadata r)))"

definition sql_history :: "codec \<Rightarrow> work_db \<Rightarrow> string \<Rightarrow> (sql_error, audit_event list) result" where
  "sql_history c db i = map_r (event_of c) (sort_key ar_id (filter (\<lambda>r. ar_work_item_id r = i) (wd_audit db)))"

section \<open>Writing\<close>

definition row_values :: "codec \<Rightarrow> action \<Rightarrow> work_row" where
  \<comment> \<open>\<open>values\<close>, and the id\<close>
  "row_values c a = \<lparr>wr_id = act_id a, wr_account_id = act_account_id a, wr_summary = act_title a, wr_description = act_description a,
     wr_owner_id = act_owner_id a, wr_priority = priority_value (act_priority a), wr_due_date = map_option iso_date (act_due_date a),
     wr_status = status_value (act_status a), wr_approval_status = approval_value (act_approval_status a),
     wr_source_suggestion_id = act_source_suggestion_id a, wr_evidence_ids = co_dump c (J_arr (map J_str (act_evidence_ids a))),
     wr_context_referents = co_dump c (J_arr (map (\<lambda>(k, v). J_arr [J_str k, J_str v]) (act_context_referents a))),
     wr_created_by = act_created_by a, wr_created_at = act_created_at a, wr_updated_at = act_updated_at a,
     wr_completed_at = act_completed_at a, wr_canceled_at = act_canceled_at a, wr_version = act_version a,
     wr_previous_status = map_option status_value (act_previous_status a), wr_approval_requested_by = act_approval_requested_by a,
     wr_approval_comment = act_approval_comment a, wr_idempotency_key = act_id a\<rparr>"

definition child_values :: "action \<Rightarrow> subtask \<Rightarrow> child_row" where
  "child_values a s = \<lparr>cr_id = sub_id s, cr_parent_id = act_id a, cr_title = sub_title s, cr_done = sub_done s,
     cr_due_date = map_option iso_date (sub_due_date s), cr_owner_id = sub_owner_id s, cr_removed = sub_removed s\<rparr>"

definition upsert_child :: "child_row \<Rightarrow> child_row list \<Rightarrow> child_row list" where
  "upsert_child r rows = (if row_by cr_id rows (cr_id r) = None then rows @ [r] else replace_row cr_id r rows)"

definition audit_entry :: "codec \<Rightarrow> string \<Rightarrow> audit_event \<Rightarrow> audit_row list \<Rightarrow> audit_row" where
  \<comment> \<open>the key is the next of the sequence\<close>
  "audit_entry c i e rows = \<lparr>ar_id = int (length rows) + 1, ar_work_item_id = i, ar_event = ev_event e, ar_actor_id = ev_actor_id e,
     ar_occurred_at = ev_occurred_at e, ar_metadata = co_dump c (J_obj (ev_metadata e))\<rparr>"

definition clashes :: "work_row \<Rightarrow> work_row \<Rightarrow> bool" where
  \<comment> \<open>the unique columns beside the key\<close>
  "clashes w r = (wr_idempotency_key r = wr_idempotency_key w
     \<or> wr_source_suggestion_id w \<noteq> None \<and> wr_source_suggestion_id r = wr_source_suggestion_id w)"

definition changed :: work_error where
  "changed = ActionConflict ''Action has changed; reload it before saving.''"

definition sql_update :: "codec \<Rightarrow> action \<Rightarrow> audit_event \<Rightarrow> int option \<Rightarrow> work_db \<Rightarrow> (sql_error, action) result \<times> work_db" where
  "sql_update c a e expected db =
     (let w = row_values c a
      in case row_by wr_id (wd_items db) (act_id a) of
           None \<Rightarrow> (Inl (SqlWork changed), db)
         | Some r \<Rightarrow>
             (if (case expected of None \<Rightarrow> False | Some v \<Rightarrow> wr_version r \<noteq> v) then (Inl (SqlWork changed), db)
              else if list_ex (\<lambda>x. wr_id x \<noteq> act_id a \<and> clashes w x) (wd_items db) then (Inl SqlIntegrity, db)
              else (Inr a, db\<lparr>wd_items := replace_row wr_id w (wd_items db),
                wd_children := fold (\<lambda>s. upsert_child (child_values a s)) (act_subtasks a) (wd_children db),
                wd_audit := wd_audit db @ [audit_entry c (ev_action_id e) e (wd_audit db)]\<rparr>)))"

definition sql_insert :: "codec \<Rightarrow> action \<Rightarrow> audit_event \<Rightarrow> work_db \<Rightarrow> (sql_error, action) result \<times> work_db" where
  "sql_insert c a e db =
     (let w = row_values c a
      in if list_ex (\<lambda>x. wr_id x = act_id a \<or> clashes w x) (wd_items db)
         then (case (case row_by wr_id (wd_items db) (act_id a) of
                       Some r \<Rightarrow> Some r
                     | None \<Rightarrow> if truthy (act_source_suggestion_id a)
                         then row_by wr_source_suggestion_id (wd_items db) (act_source_suggestion_id a) else None) of
                 None \<Rightarrow> (Inl (SqlWork (WorkInvalid (ValueError ''Conflicting work identity; reload before retrying.''))), db)
               | Some r \<Rightarrow> (action_of c db r, db))
         else (Inr a, db\<lparr>wd_items := wd_items db @ [w], wd_audit := wd_audit db @ [audit_entry c (ev_action_id e) e (wd_audit db)]\<rparr>))"

definition sql_save :: "codec \<Rightarrow> action \<Rightarrow> audit_event \<Rightarrow> int option \<Rightarrow> work_db \<Rightarrow> (sql_error, action) result \<times> work_db" where
  "sql_save c a e expected db = (if ev_event e \<noteq> ''CREATED'' then sql_update c a e expected db else sql_insert c a e db)"

definition sql_transact_audit ::
  "codec \<Rightarrow> string \<Rightarrow> (action \<Rightarrow> audit_event list \<Rightarrow> (work_error, audit_event option \<times> 'x) result) \<Rightarrow> work_db
    \<Rightarrow> (sql_error, 'x) result \<times> work_db" where
  \<comment> \<open>the row is locked until the transaction ends\<close>
  "sql_transact_audit c i operation db =
     (case row_by wr_id (wd_items db) i of
        None \<Rightarrow> (Inl (SqlWork (ActionNotFound i)), db)
      | Some w \<Rightarrow>
          (case bind_r (sql_history c db i) (\<lambda>history. bind_r (action_of c db w) (\<lambda>a. map_sum SqlWork id (operation a history))) of
             Inl err \<Rightarrow> (Inl err, db)
           | Inr (None, x) \<Rightarrow> (Inr x, db)
           | Inr (Some ev, x) \<Rightarrow> (Inr x, db\<lparr>wd_audit := wd_audit db @ [audit_entry c i ev (wd_audit db)]\<rparr>)))"

definition sql_dismiss :: "string \<Rightarrow> string \<Rightarrow> datetime \<Rightarrow> work_db \<Rightarrow> work_db" where
  "sql_dismiss s actor now db =
     (if row_by dr_suggestion_id (wd_decisions db) s = None
      then db\<lparr>wd_decisions := wd_decisions db @ [\<lparr>dr_suggestion_id = s, dr_dismissed_by = actor, dr_dismissed_at = now\<rparr>]\<rparr> else db)"

definition sql_dismissed :: "string option \<Rightarrow> work_db \<Rightarrow> string set" where
  "sql_dismissed actor db = dr_suggestion_id ` set (filter (\<lambda>r. case actor of None \<Rightarrow> True | Some u \<Rightarrow> dr_dismissed_by r = u) (wd_decisions db))"

end
