(* ===== verification/SqlActionProps.thy ===== *)
theory SqlActionProps
  imports SqlActions
begin

text \<open>
  The Action workflow over SQL with several workers: each reads rows and subtasks in separate transactions, plans with
  the operations of the service on what it read, and saves later. The version check of the save keeps every stored
  Action inside its lifecycle, and its version counts its workflow events.
\<close>

section \<open>Round trip of a row\<close>

definition codec_ok :: "codec \<Rightarrow> bool" where
  \<comment> \<open>\<open>json.loads(json.dumps(x)) == x\<close> on arrays\<close>
  "codec_ok c = (\<forall>js. co_parse c (co_dump c (J_arr js)) = Some (J_arr js) \<and> co_dump c (J_arr js) \<noteq> [])"

definition due_ok :: "date option \<Rightarrow> bool" where
  "due_ok d = (case d of None \<Rightarrow> True | Some x \<Rightarrow> valid_date x)"

definition values_ok :: "action \<Rightarrow> bool" where
  \<comment> \<open>dates that Python's \<open>date\<close> can hold, and no blank subtask\<close>
  "values_ok a = (due_ok (act_due_date a) \<and> (\<forall>s\<in>set (act_subtasks a). due_ok (sub_due_date s) \<and> \<not> blank (sub_title s) \<and> sub_parent_id s = act_id a))"

lemma parse_status_value [simp]: "parse_status (status_value s) = Inr s"
  by (cases s) (simp_all add: parse_status_def parse_enum_def)

lemma parse_priority_value [simp]: "parse_priority (priority_value p) = Inr p"
  by (cases p) (simp_all add: parse_priority_def parse_enum_def)

lemma parse_approval_value [simp]: "parse_approval (approval_value p) = Inr p"
  by (cases p) (simp_all add: parse_approval_def parse_enum_def)

lemma parse_due_iso [simp]: "due_ok d \<Longrightarrow> parse_due (map_option iso_date d) = Inr d"
proof (cases d)
  case (Some x)
  have "iso_date x \<noteq> []" using iso_parts(6)[of x] by auto
  then show "due_ok d \<Longrightarrow> ?thesis" using Some by (simp add: parse_due_def due_ok_def truthy_def parse_iso_date)
qed (simp add: parse_due_def truthy_def)

lemma parse_previous_value [simp]: "parse_previous (map_option status_value p) = Inr p"
proof (cases p)
  case (Some s)
  have "status_value s \<noteq> []" by (cases s) simp_all
  then show ?thesis using Some by (simp add: parse_previous_def truthy_def)
qed (simp add: parse_previous_def truthy_def)

lemma parse_texts [simp]: "codec_ok c \<Longrightarrow> parse_items c json_text (co_dump c (J_arr (map J_str xs))) = Inr xs"
  by (simp add: parse_items_def codec_ok_def list_all_iff comp_def)

lemma parse_pairs [simp]:
  "codec_ok c \<Longrightarrow> parse_items c json_pair (co_dump c (J_arr (map (\<lambda>(k, v). J_arr [J_str k, J_str v]) xs))) = Inr xs"
  by (auto simp: parse_items_def codec_ok_def list_all_iff comp_def case_prod_unfold)

lemma child_of_values:
  "due_ok (sub_due_date s) \<Longrightarrow> \<not> blank (sub_title s) \<Longrightarrow> sub_parent_id s = act_id a \<Longrightarrow> child_of (child_values a s) = Inr s"
  by (simp add: child_of_def child_values_def subtask_post_init_def)

lemma aware_utc_id [simp]: "aware t \<Longrightarrow> aware_utc t = t"
  by (simp add: aware_utc_def)

lemma aware_utc_opt [simp]: "opt_is_aware t \<Longrightarrow> map_option aware_utc t = t"
  by (cases t) (simp_all add: opt_is_aware_def)

text \<open>What is read back of a written Action: the Action, with the subtasks that are stored.\<close>

lemma action_of_values:
  assumes "codec_ok c" "action_ok a" "values_ok a" "map_r child_of (child_rows db (act_id a)) = Inr subs"
  shows "action_of c db (row_values c a) = Inr (a\<lparr>act_subtasks := subs\<rparr>)"
proof -
  have "wr_context_referents (row_values c a) \<noteq> []" using assms(1) by (simp add: row_values_def codec_ok_def)
  moreover have "action_ok b \<Longrightarrow> action_post_init b = Inr b" for b by (simp add: action_post_init_Inr)
  ultimately show ?thesis using assms
    by (cases a) (simp add: action_of_def row_values_def values_ok_def action_ok_def)
qed

section \<open>Plans of the service\<close>

fun plan_for :: "hashing \<Rightarrow> work_op \<Rightarrow> action \<Rightarrow> audit_event list \<Rightarrow> (work_error, plan) result" where
  \<comment> \<open>what an operation of the service decides on the Action it has read\<close>
  "plan_for h (Op_create c) a hist = Inr (Keep a)"
| "plan_for h (Op_edit i p now v ch) a hist = edit_plan a p now v ch"
| "plan_for h (Op_transition i st p now v fin) a hist = transition_plan a st p now v fin"
| "plan_for h (Op_decide i d p now v cm) a hist = bind_r (require_manager p) (\<lambda>_. decide_plan a d p now v cm)"
| "plan_for h (Op_request i p now v) a hist = request_plan a p now v"
| "plan_for h (Op_subtask i sid p now v key ch) a hist = subtask_plan h hist a sid p now v key ch"

lemma plan_for_step:
  assumes "plan_for h op a hist = Inr pl" "lifecycle_ok a"
  shows "step_of a pl"
proof (cases op)
  case (Op_transition i st p now v fin)
  then show ?thesis using transition_plan_step[OF _ assms(2)] assms(1) by simp
next
  case (Op_subtask i sid p now v key ch)
  then show ?thesis using subtask_plan_step[OF _ assms(2)] assms(1) by simp
qed (use assms edit_plan_step decide_plan_step request_plan_step in \<open>auto simp: res_simps\<close>)

text \<open>The frame of a plan, for any Action: its identity, the version it names, and its subtasks.\<close>

definition same_children :: "action \<Rightarrow> action \<Rightarrow> bool" where
  "same_children a u = ((\<exists>new. map sub_id (act_subtasks u) = map sub_id (act_subtasks a) @ new)
     \<and> (\<forall>s\<in>set (act_subtasks u). (\<exists>s'\<in>set (act_subtasks a). sub_parent_id s = sub_parent_id s') \<or> sub_parent_id s = act_id a)
     \<and> ((\<forall>s\<in>set (act_subtasks a). \<not> blank (sub_title s)) \<longrightarrow> (\<forall>s\<in>set (act_subtasks u). \<not> blank (sub_title s))))"

lemma same_childrenI: "act_subtasks u = act_subtasks a \<Longrightarrow> same_children a u"
  by (auto simp: same_children_def)

lemma transition_children: "same_children a (transition_updated a st now fin)"
proof -
  have "map sub_id (act_subtasks (transition_updated a st now fin)) = map sub_id (act_subtasks a)"
    by (simp add: transition_updated_def)
  then show ?thesis unfolding same_children_def
    by (intro conjI exI[of _ "[]"]) (auto simp: transition_updated_def)
qed

lemma subtask_children:
  assumes "subtask_plan h hist a sid p now v key ch = Inr (Store u ev w)"
  shows "same_children a u"
proof (cases "first_match (\<lambda>s. Some (sub_id s) = sid) (act_subtasks a)")
  case None
  have fresh: "prior_mutation hist p key = None"
    using assms by (cases "prior_mutation hist p key") (auto simp: subtask_plan_def res_simps Let_def split: if_splits)
  then have "\<exists>child i. act_subtasks u = act_subtasks a @ [child] \<and> subtask_new i (act_id a) ch = Inr child"
    using assms fresh None by (auto simp: subtask_plan_def res_simps Let_def simp del: first_match_None)
  then show ?thesis
    by (auto simp: same_children_def subtask_new_def subtask_post_init_Inr split: option.splits)
next
  case (Some s)
  have s: "s \<in> set (act_subtasks a)" using Some by (auto dest: first_match_Some)
  let ?c = "subtask_updated s ch"
  have fresh: "prior_mutation hist p key = None"
    using assms by (cases "prior_mutation hist p key") (auto simp: subtask_plan_def res_simps Let_def split: if_splits)
  have u: "act_subtasks u = map (\<lambda>cur. if sub_id cur = sub_id ?c then ?c else cur) (act_subtasks a)" "\<not> blank (sub_title ?c)"
    using assms Some fresh by (auto simp: subtask_plan_def res_simps Let_def)
  have "map sub_id (act_subtasks u) = map sub_id (act_subtasks a)" unfolding u by simp
  moreover have "sub_parent_id ?c = sub_parent_id s" by (simp add: subtask_updated_def)
  ultimately show ?thesis unfolding same_children_def
    by (intro conjI exI[of _ "[]"]) (use s u in auto)
qed

lemma plan_for_frame:
  assumes "plan_for h op a hist = Inr (Store u ev v)"
  shows "act_id u = act_id a \<and> act_version u = act_version a + 1 \<and> v = Some (act_version a) \<and> ev_event ev \<noteq> ''CREATED''
    \<and> act_source_suggestion_id u = act_source_suggestion_id a \<and> ev_action_id ev = act_id a \<and> same_children a u"
proof (cases op)
  case (Op_edit i p now w ch)
  then show ?thesis using assms
    by (auto simp: edit_plan_def res_simps Let_def same_childrenI split: if_splits)
next
  case (Op_transition i st p now w fin)
  then show ?thesis using assms transition_children
    by (simp add: transition_plan_Inr) (simp add: transition_updated_def)
next
  case (Op_decide i d p now w cm)
  then show ?thesis using assms by (auto simp: decide_plan_def res_simps same_childrenI)
next
  case (Op_request i p now w)
  then show ?thesis using assms by (auto simp: request_plan_def res_simps same_childrenI)
next
  case (Op_subtask i sid p now w key ch)
  have p: "subtask_plan h hist a sid p now w key ch = Inr (Store u ev v)" using assms Op_subtask by simp
  show ?thesis using subtask_children[OF p] p
    by (auto simp: subtask_plan_def res_simps Let_def split: option.splits if_splits)
qed (use assms in simp)

section \<open>Subtask rows\<close>

lemma upsert_set: "set (upsert_child r rows) = {x \<in> set rows. cr_id x \<noteq> cr_id r} \<union> {r}"
proof (cases "row_by cr_id rows (cr_id r) = None")
  case True
  then show ?thesis by (auto simp: upsert_child_def row_by_none image_iff)
next
  case False
  then have "cr_id r \<in> cr_id ` set rows" by (simp add: row_by_none)
  then show ?thesis using False by (auto simp: upsert_child_def replace_row_def image_iff)
qed

lemma upsert_ids: "distinct (map cr_id rows) \<Longrightarrow> distinct (map cr_id (upsert_child r rows))"
proof -
  have "map cr_id (replace_row cr_id r rows) = map cr_id rows" by (simp add: replace_row_def)
  then show "distinct (map cr_id rows) \<Longrightarrow> ?thesis" by (auto simp: upsert_child_def row_by_none)
qed

lemma upsert_others:
  assumes "\<forall>x\<in>set rows. cr_parent_id x = j \<longrightarrow> cr_id x \<noteq> cr_id r" "cr_parent_id r \<noteq> j"
  shows "filter (\<lambda>x. cr_parent_id x = j) (upsert_child r rows) = filter (\<lambda>x. cr_parent_id x = j) rows"
proof -
  have "filter (\<lambda>x. cr_parent_id x = j) (replace_row cr_id r rows) = filter (\<lambda>x. cr_parent_id x = j) rows"
    using assms unfolding replace_row_def by (induction rows) auto
  then show ?thesis using assms(2) by (simp add: upsert_child_def)
qed

definition upsert_all :: "action \<Rightarrow> subtask list \<Rightarrow> child_row list \<Rightarrow> child_row list" where
  "upsert_all u ss rows = fold (\<lambda>s. upsert_child (child_values u s)) ss rows"

lemma upsert_all_set:
  "distinct (map sub_id ss) \<Longrightarrow> set (upsert_all u ss rows) = {x \<in> set rows. cr_id x \<notin> sub_id ` set ss} \<union> child_values u ` set ss"
proof (induction ss arbitrary: rows)
  case (Cons s ss)
  have id: "cr_id (child_values u s) = sub_id s" for s by (simp add: child_values_def)
  show ?case using Cons.IH[of "upsert_child (child_values u s) rows"] Cons.prems
    by (auto simp: upsert_all_def upsert_set id)
qed (simp add: upsert_all_def)

lemma upsert_all_ids: "distinct (map cr_id rows) \<Longrightarrow> distinct (map cr_id (upsert_all u ss rows))"
  unfolding upsert_all_def by (induction ss arbitrary: rows) (simp_all add: upsert_ids)

lemma upsert_all_others:
  assumes "\<forall>x\<in>set (filter (\<lambda>x. cr_parent_id x = j) rows). cr_id x \<notin> sub_id ` set ss" "act_id u \<noteq> j"
  shows "filter (\<lambda>x. cr_parent_id x = j) (upsert_all u ss rows) = filter (\<lambda>x. cr_parent_id x = j) rows"
  using assms(1)
proof (induction ss arbitrary: rows)
  case (Cons s ss)
  have "filter (\<lambda>x. cr_parent_id x = j) (upsert_child (child_values u s) rows) = filter (\<lambda>x. cr_parent_id x = j) rows"
    by (rule upsert_others) (use Cons.prems assms(2) in \<open>auto simp: child_values_def\<close>)
  then show ?case using Cons.IH[of "upsert_child (child_values u s) rows"] Cons.prems by (simp add: upsert_all_def)
qed (simp add: upsert_all_def)

lemma map_r_total: "\<forall>x\<in>set xs. \<exists>y. f x = Inr y \<Longrightarrow> \<exists>ys. map_r f xs = Inr ys \<and> (\<forall>y. y \<in> set ys \<longleftrightarrow> (\<exists>x\<in>set xs. f x = Inr y))"
  by (induction xs) (auto simp: bind_r_Inr)

lemma map_r_elem: "map_r f xs = Inr ys \<Longrightarrow> y \<in> set ys \<longleftrightarrow> (\<exists>x\<in>set xs. f x = Inr y)"
  by (induction xs arbitrary: ys) (auto simp: bind_r_Inr)

lemma map_r_defined: "map_r f xs = Inr ys \<Longrightarrow> x \<in> set xs \<Longrightarrow> \<exists>y\<in>set ys. f x = Inr y"
  by (induction xs arbitrary: ys) (auto simp: bind_r_Inr)

lemma lifted_Inr: "map_sum SqlWork id m = Inr x \<longleftrightarrow> m = Inr x"
  by (cases m) auto

lemma child_of_frame: "child_of r = Inr s \<Longrightarrow> sub_id s = cr_id r \<and> sub_parent_id s = cr_parent_id r \<and> \<not> blank (sub_title s)"
  by (auto simp: child_of_def bind_r_Inr lifted_Inr subtask_post_init_Inr)

lemma action_of_Inr:
  assumes "action_of c db w = Inr a"
  shows "act_id a = wr_id w \<and> act_version a = wr_version w \<and> act_source_suggestion_id a = wr_source_suggestion_id w
    \<and> map_r child_of (child_rows db (wr_id w)) = Inr (act_subtasks a) \<and> action_ok a"
  using assms
  by (auto simp: action_of_def bind_r_Inr lifted_Inr action_post_init_Inr)

lemma child_rows_iff: "r \<in> set (child_rows db i) \<longleftrightarrow> r \<in> set (wd_children db) \<and> cr_parent_id r = i"
  by (simp add: child_rows_def)

section \<open>The system\<close>

definition no_collision :: "work_db \<Rightarrow> action \<Rightarrow> bool" where
  \<comment> \<open>the digest in the id of a new subtask is new\<close>
  "no_collision db u = (distinct (map sub_id (act_subtasks u))
     \<and> (\<forall>r\<in>set (wd_children db). cr_parent_id r \<noteq> act_id u \<longrightarrow> cr_id r \<notin> sub_id ` set (act_subtasks u)))"

definition dates_ok :: "action \<Rightarrow> bool" where
  "dates_ok a = (due_ok (act_due_date a) \<and> (\<forall>s\<in>set (act_subtasks a). due_ok (sub_due_date s)))"

record sql_sys =
  sy_db :: work_db
  sy_rows :: "work_row set"   \<comment> \<open>rows read whose subtasks are not\<close>
  sy_seen :: "action set"     \<comment> \<open>Actions read\<close>

inductive sql_step :: "codec \<Rightarrow> hashing \<Rightarrow> sql_sys \<Rightarrow> sql_sys \<Rightarrow> bool" for c h where
  st_row: "w \<in> set (wd_items (sy_db s)) \<Longrightarrow> sql_step c h s (s\<lparr>sy_rows := insert w (sy_rows s)\<rparr>)"
| st_children: "w \<in> sy_rows s \<Longrightarrow> action_of c (sy_db s) w = Inr a \<Longrightarrow> sql_step c h s (s\<lparr>sy_seen := insert a (sy_seen s)\<rparr>)"
| st_write: "a \<in> sy_seen s \<Longrightarrow> plan_for h op a hist = Inr (Store u ev v) \<Longrightarrow> dates_ok u \<Longrightarrow> no_collision (sy_db s) u \<Longrightarrow>
    sql_save c u ev v (sy_db s) = (res, db') \<Longrightarrow> sql_step c h s (s\<lparr>sy_db := db'\<rparr>)"
| st_create: "action_ok (new_action h args p) \<Longrightarrow> dates_ok (new_action h args p) \<Longrightarrow>
    mk_event (act_id (new_action h args p)) p ''CREATED'' (ca_occurred_at args) md = Inr ev \<Longrightarrow>
    sql_save c (new_action h args p) ev None (sy_db s) = (res, db') \<Longrightarrow> sql_step c h s (s\<lparr>sy_db := db'\<rparr>)"
| st_audit: "\<forall>a hist ev x. operation a hist = Inr (Some ev, x) \<longrightarrow> ev_event ev \<notin> workflow_events \<Longrightarrow>
    sql_transact_audit c i (operation :: action \<Rightarrow> audit_event list \<Rightarrow> (work_error, audit_event option \<times> json) result) (sy_db s) = (r, db') \<Longrightarrow>
    sql_step c h s (s\<lparr>sy_db := db'\<rparr>)"
| st_dismiss: "sql_step c h s (s\<lparr>sy_db := sql_dismiss sid actor now (sy_db s)\<rparr>)"

inductive sql_reachable :: "codec \<Rightarrow> hashing \<Rightarrow> sql_sys \<Rightarrow> bool" for c h where
  sys_start: "sql_reachable c h \<lparr>sy_db = empty_work_db, sy_rows = {}, sy_seen = {}\<rparr>"
| sys_step: "sql_reachable c h s \<Longrightarrow> sql_step c h s s' \<Longrightarrow> sql_reachable c h s'"

section \<open>The invariant\<close>

definition workflow_count :: "work_db \<Rightarrow> string \<Rightarrow> nat" where
  "workflow_count db i = length (filter (\<lambda>r. ar_work_item_id r = i \<and> ar_event r \<in> workflow_events) (wd_audit db))"

definition row_sound :: "codec \<Rightarrow> work_db \<Rightarrow> work_row \<Rightarrow> bool" where
  "row_sound c db w = (\<exists>a. action_of c db w = Inr a \<and> lifecycle_ok a \<and> act_version a = int (workflow_count db (wr_id w)))"

definition suggestions_unique :: "work_row list \<Rightarrow> bool" where
  "suggestions_unique rows = (\<forall>w\<in>set rows. \<forall>w'\<in>set rows. wr_source_suggestion_id w \<noteq> None
     \<and> wr_source_suggestion_id w = wr_source_suggestion_id w' \<longrightarrow> w = w')"

definition db_sound :: "codec \<Rightarrow> work_db \<Rightarrow> bool" where
  "db_sound c db = (distinct (map wr_id (wd_items db)) \<and> distinct (map cr_id (wd_children db)) \<and> suggestions_unique (wd_items db)
     \<and> (\<forall>r\<in>set (wd_audit db). ar_work_item_id r \<in> wr_id ` set (wd_items db))
     \<and> (\<forall>r\<in>set (wd_children db). cr_parent_id r \<in> wr_id ` set (wd_items db)) \<and> (\<forall>w\<in>set (wd_items db). row_sound c db w))"

definition row_current :: "work_db \<Rightarrow> work_row \<Rightarrow> bool" where
  \<comment> \<open>a row that was read: unless its version is past, it is the stored one\<close>
  "row_current db w = (\<exists>x\<in>set (wd_items db). wr_id x = wr_id w \<and> wr_version w \<le> wr_version x \<and> (wr_version x = wr_version w \<longrightarrow> x = w))"

definition action_current :: "codec \<Rightarrow> work_db \<Rightarrow> action \<Rightarrow> bool" where
  "action_current c db a = (\<exists>x\<in>set (wd_items db). wr_id x = act_id a \<and> act_version a \<le> wr_version x
     \<and> (wr_version x = act_version a \<longrightarrow> action_of c db x = Inr a))"

definition sys_sound :: "codec \<Rightarrow> sql_sys \<Rightarrow> bool" where
  "sys_sound c s = (db_sound c (sy_db s) \<and> (\<forall>w\<in>sy_rows s. row_current (sy_db s) w) \<and> (\<forall>a\<in>sy_seen s. action_current c (sy_db s) a))"

definition advances :: "work_db \<Rightarrow> work_db \<Rightarrow> bool" where
  \<comment> \<open>every row and its subtasks are kept, or the row has a higher version\<close>
  "advances db db' = (\<forall>x\<in>set (wd_items db). \<exists>x'\<in>set (wd_items db'). wr_id x' = wr_id x
     \<and> (x' = x \<and> child_rows db' (wr_id x) = child_rows db (wr_id x) \<or> wr_version x < wr_version x'))"

lemma action_of_cong: "child_rows db' (wr_id w) = child_rows db (wr_id w) \<Longrightarrow> action_of c db' w = action_of c db w"
  by (simp add: action_of_def)

lemma row_current_advances: "row_current db w \<Longrightarrow> advances db db' \<Longrightarrow> row_current db' w"
  unfolding row_current_def advances_def by (metis less_le_not_le order_trans)

lemma action_current_advances:
  assumes "action_current c db a" "advances db db'"
  shows "action_current c db' a"
proof -
  obtain x where x: "x \<in> set (wd_items db)" "wr_id x = act_id a" "act_version a \<le> wr_version x"
    "wr_version x = act_version a \<longrightarrow> action_of c db x = Inr a" using assms(1) by (auto simp: action_current_def)
  then obtain x' where x': "x' \<in> set (wd_items db')" "wr_id x' = wr_id x"
    "x' = x \<and> child_rows db' (wr_id x) = child_rows db (wr_id x) \<or> wr_version x < wr_version x'"
    using assms(2) by (auto simp: advances_def)
  show ?thesis using x x' action_of_cong[of db' x db c] unfolding action_current_def by (intro bexI[of _ x']) auto
qed

lemma unique_row: "distinct (map wr_id rows) \<Longrightarrow> x \<in> set rows \<Longrightarrow> y \<in> set rows \<Longrightarrow> wr_id x = wr_id y \<Longrightarrow> x = y"
  by (auto simp: distinct_map inj_on_def)

lemma stored_children:
  assumes "codec_ok c" "db_sound c db" "x \<in> set (wd_items db)" "wr_id x = act_id a" "action_of c db x = Inr a"
    "same_children a u" "act_id u = act_id a" "dates_ok u" "no_collision db u" "action_ok u"
    "wd_children db' = upsert_all u (act_subtasks u) (wd_children db)"
  shows "\<exists>ys. set ys = set (act_subtasks u) \<and> action_of c db' (row_values c u) = Inr (u\<lparr>act_subtasks := ys\<rparr>)"
proof -
  have kids: "map_r child_of (child_rows db (act_id a)) = Inr (act_subtasks a)" using action_of_Inr[OF assms(5)] assms(4) by simp
  have sub: "sub_parent_id s = act_id a \<and> \<not> blank (sub_title s)" if "s \<in> set (act_subtasks a)" for s
    using that map_r_elem[OF kids] child_of_frame child_rows_iff by metis
  have parents: "sub_parent_id s = act_id u" and titles: "\<not> blank (sub_title s)" if "s \<in> set (act_subtasks u)" for s
    using assms(6,7) sub that unfolding same_children_def by metis+
  have vals: "values_ok u" using assms(8) parents titles by (simp add: values_ok_def dates_ok_def)
  have covered: "cr_id r \<in> sub_id ` set (act_subtasks u)" if r: "r \<in> set (wd_children db)" "cr_parent_id r = act_id u" for r
  proof -
    obtain s where "s \<in> set (act_subtasks a)" "child_of r = Inr s"
      using map_r_defined[OF kids] r assms(7) by (metis child_rows_iff)
    then have "cr_id r \<in> set (map sub_id (act_subtasks a))" using child_of_frame[of r s] by (auto intro!: image_eqI[of _ _ s])
    moreover obtain new where "map sub_id (act_subtasks u) = map sub_id (act_subtasks a) @ new"
      using assms(6) by (auto simp: same_children_def)
    then have "sub_id ` set (act_subtasks u) = sub_id ` set (act_subtasks a) \<union> set new" by (metis set_append set_map)
    ultimately show ?thesis by auto
  qed
  have mine: "r \<in> set (child_rows db' (act_id u)) \<longleftrightarrow> r \<in> child_values u ` set (act_subtasks u)" for r
    using upsert_all_set[of "act_subtasks u" u "wd_children db"] assms(9,11) covered
    by (auto simp: child_rows_iff no_collision_def child_values_def)
  have reread: "child_of (child_values u s) = Inr s" if "s \<in> set (act_subtasks u)" for s
    using vals that by (intro child_of_values) (auto simp: values_ok_def)
  have "\<forall>r\<in>set (child_rows db' (act_id u)). \<exists>s. child_of r = Inr s" using mine reread by auto
  from map_r_total[OF this] obtain ys where ys: "map_r child_of (child_rows db' (act_id u)) = Inr ys"
    "\<forall>y. y \<in> set ys \<longleftrightarrow> (\<exists>r\<in>set (child_rows db' (act_id u)). child_of r = Inr y)" by blast
  have "set ys = set (act_subtasks u)" using ys(2) mine reread by (auto simp: image_iff)
  then show ?thesis using action_of_values[OF assms(1,10) vals ys(1)] by blast
qed

lemma lifecycle_children: "set ys = set (act_subtasks u) \<Longrightarrow> lifecycle_ok (u\<lparr>act_subtasks := ys\<rparr>) \<longleftrightarrow> lifecycle_ok u"
  by (simp add: lifecycle_ok_def)

lemma update_sound:
  assumes c: "codec_ok c" and ok: "db_sound c db" and cur: "action_current c db a"
    and plan: "plan_for h op a hist = Inr (Store u ev v)" and d: "dates_ok u" "no_collision db u"
    and save: "sql_save c u ev v db = (res, db')"
  shows "db_sound c db' \<and> advances db db'"
proof (cases "db' = db")
  case True
  then show ?thesis using ok by (auto simp: advances_def)
next
  case False
  note P = plan_for_frame[OF plan]
  obtain r where r: "row_by wr_id (wd_items db) (act_id u) = Some r" "wr_version r = act_version a"
    "\<not> list_ex (\<lambda>x. wr_id x \<noteq> act_id u \<and> clashes (row_values c u) x) (wd_items db)"
    "db' = db\<lparr>wd_items := replace_row wr_id (row_values c u) (wd_items db),
       wd_children := upsert_all u (act_subtasks u) (wd_children db),
       wd_audit := wd_audit db @ [audit_entry c (ev_action_id ev) ev (wd_audit db)]\<rparr>"
    using save P False by (auto simp: sql_save_def sql_update_def Let_def upsert_all_def split: option.splits if_splits)
  have ids: "distinct (map wr_id (wd_items db))" using ok by (simp add: db_sound_def)
  have rm: "r \<in> set (wd_items db)" "wr_id r = act_id a" using row_by_some[OF r(1)] P by auto
  obtain x where x: "x \<in> set (wd_items db)" "wr_id x = act_id a" "wr_version x = act_version a \<longrightarrow> action_of c db x = Inr a"
    using cur by (auto simp: action_current_def)
  have "x = r" by (rule unique_row[OF ids x(1) rm(1)]) (simp add: x(2) rm(2))
  then have read: "action_of c db r = Inr a" using x(3) r(2) by blast
  obtain a' where a': "action_of c db r = Inr a'" "lifecycle_ok a'" "act_version a' = int (workflow_count db (wr_id r))"
    using ok rm(1) by (auto simp: db_sound_def row_sound_def)
  have "a' = a" using a'(1) unfolding read by simp
  then have life: "lifecycle_ok a" "act_version a = int (workflow_count db (act_id a))" using a'(2,3) unfolding rm(2) by blast+
  have st: "action_ok u" "lifecycle_ok u" "ev_event ev \<in> workflow_events"
    using plan_for_step[OF plan life(1)] by auto
  have id: "act_id u = act_id a" using P by simp
  obtain ys where ys: "set ys = set (act_subtasks u)" "action_of c db' (row_values c u) = Inr (u\<lparr>act_subtasks := ys\<rparr>)"
    using stored_children[OF c ok rm read _ id d st(1), of db'] P r(4) by auto
  have kids: "child_rows db' j = child_rows db j" if "j \<noteq> act_id u" for j
  proof -
    have "\<forall>x\<in>set (filter (\<lambda>x. cr_parent_id x = j) (wd_children db)). cr_id x \<notin> sub_id ` set (act_subtasks u)"
      using d(2) that unfolding no_collision_def by auto
    from upsert_all_others[OF this] that show ?thesis by (simp add: child_rows_def r(4))
  qed
  have items: "x \<in> set (wd_items db') \<longleftrightarrow> x = row_values c u \<or> x \<in> set (wd_items db) \<and> wr_id x \<noteq> act_id u" for x
    using rm id by (auto simp: r(4) replace_row_def row_values_def image_iff)
  have count: "workflow_count db' j = workflow_count db j + (if j = act_id u then 1 else 0)" for j
    using st(3) P by (simp add: workflow_count_def r(4) audit_entry_def)
  have "row_sound c db' x" if x: "x \<in> set (wd_items db')" for x
  proof (cases "x = row_values c u")
    case True
    have "wr_id x = act_id u" using True by (simp add: row_values_def)
    then show ?thesis unfolding row_sound_def True using ys st(2) life(2) P lifecycle_children[OF ys(1)] count[of "act_id u"] id
      by (intro exI[of _ "u\<lparr>act_subtasks := ys\<rparr>"]) (simp add: row_values_def)
  next
    case False
    then have "x \<in> set (wd_items db)" "wr_id x \<noteq> act_id u" using x items by auto
    then show ?thesis using ok kids[of "wr_id x"] count[of "wr_id x"] action_of_cong[of db' x db c]
      by (auto simp: db_sound_def row_sound_def)
  qed
  moreover have wid: "map wr_id (wd_items db') = map wr_id (wd_items db)" by (simp add: r(4) replace_row_def)
  moreover have wids: "wr_id ` set (wd_items db') = wr_id ` set (wd_items db)" using arg_cong[OF wid, of set] by simp
  moreover have "suggestions_unique (wd_items db')"
  proof -
    have clash: "wr_source_suggestion_id y \<noteq> wr_source_suggestion_id (row_values c u)"
      if "y \<in> set (wd_items db)" "wr_id y \<noteq> act_id u" "wr_source_suggestion_id (row_values c u) \<noteq> None" for y
      using r(3) that by (auto simp: list_ex_iff clashes_def)
    have old: "suggestions_unique (wd_items db)" using ok by (simp add: db_sound_def)
    show ?thesis unfolding suggestions_unique_def
    proof (intro ballI impI)
      fix y z assume "y \<in> set (wd_items db')" "z \<in> set (wd_items db')"
        "wr_source_suggestion_id y \<noteq> None \<and> wr_source_suggestion_id y = wr_source_suggestion_id z"
      then show "y = z" using clash[of y] clash[of z] old unfolding items suggestions_unique_def by metis
    qed
  qed
  moreover have "\<forall>q\<in>set (wd_audit db'). ar_work_item_id q \<in> wr_id ` set (wd_items db')"
    using ok P rm unfolding wids by (auto simp: db_sound_def r(4) audit_entry_def intro!: image_eqI[of _ _ r])
  moreover have here: "act_id u \<in> wr_id ` set (wd_items db)" using rm id by (metis image_eqI)
  then have "\<forall>q\<in>set (wd_children db'). cr_parent_id q \<in> wr_id ` set (wd_items db')"
    using ok unfolding wids by (auto simp: db_sound_def r(4) upsert_all_set[of "act_subtasks u" u] d(2)[unfolded no_collision_def] child_values_def)
  moreover have "distinct (map cr_id (wd_children db'))" using ok by (simp add: db_sound_def r(4) upsert_all_ids)
  ultimately have "db_sound c db'" using ok by (simp add: db_sound_def)
  moreover have "advances db db'" unfolding advances_def
  proof
    fix x assume x: "x \<in> set (wd_items db)"
    show "\<exists>x'\<in>set (wd_items db'). wr_id x' = wr_id x \<and> (x' = x \<and> child_rows db' (wr_id x) = child_rows db (wr_id x) \<or> wr_version x < wr_version x')"
    proof (cases "wr_id x = act_id u")
      case True
      then have "x = r" using unique_row[OF ids x rm(1)] rm(2) id by simp
      then show ?thesis using items True r(2) P by (intro bexI[of _ "row_values c u"]) (simp_all add: row_values_def)
    next
      case False
      then show ?thesis using x items kids[OF False] by (intro bexI[of _ x]) auto
    qed
  qed
  ultimately show ?thesis by simp
qed

lemma insert_sound:
  assumes c: "codec_ok c" and ok: "db_sound c db" and a: "action_ok u" "dates_ok u" "lifecycle_ok u" "act_version u = 1" "act_subtasks u = []"
    and ev: "ev_event ev = ''CREATED''" "ev_action_id ev = act_id u" and save: "sql_save c u ev v db = (res, db')"
  shows "db_sound c db' \<and> advances db db'"
proof (cases "db' = db")
  case True
  then show ?thesis using ok by (auto simp: advances_def)
next
  case False
  have n: "\<not> list_ex (\<lambda>x. wr_id x = act_id u \<or> clashes (row_values c u) x) (wd_items db)"
    "db' = db\<lparr>wd_items := wd_items db @ [row_values c u], wd_audit := wd_audit db @ [audit_entry c (ev_action_id ev) ev (wd_audit db)]\<rparr>"
    using save False ev by (auto simp: sql_save_def sql_insert_def Let_def split: option.splits if_splits)
  have id: "wr_id (row_values c u) = act_id u" by (simp add: row_values_def)
  have new: "act_id u \<notin> wr_id ` set (wd_items db)" using n(1) by (auto simp: list_ex_iff)
  have "filter (\<lambda>r. cr_parent_id r = act_id u) (wd_children db) = []"
    "filter (\<lambda>r. ar_work_item_id r = act_id u \<and> ar_event r \<in> workflow_events) (wd_audit db) = []"
    using ok new unfolding db_sound_def filter_empty_conv by metis+
  then have none: "child_rows db (act_id u) = []" "workflow_count db (act_id u) = 0"
    by (simp_all only: child_rows_def workflow_count_def) simp_all
  have kids: "child_rows db' j = child_rows db j" for j by (simp add: n(2) child_rows_def)
  have count: "workflow_count db' j = workflow_count db j + (if j = act_id u then 1 else 0)" for j
    using ev by (simp add: workflow_count_def n(2) audit_entry_def workflow_events_def)
  have "values_ok u" using a(2,5) by (simp add: values_ok_def dates_ok_def)
  then have "action_of c db' (row_values c u) = Inr (u\<lparr>act_subtasks := []\<rparr>)"
    by (intro action_of_values[OF c a(1)]) (simp_all add: kids none)
  then have mine: "row_sound c db' (row_values c u)" unfolding row_sound_def id
    using a(3,4) count[of "act_id u"] none(2) lifecycle_children[of "[]" u] a(5) by simp
  have "row_sound c db' x" if x: "x \<in> set (wd_items db)" for x
  proof -
    have "wr_id x \<noteq> act_id u" using x new by (metis image_eqI)
    then show ?thesis using ok x count[of "wr_id x"] action_of_cong[OF kids] by (auto simp: db_sound_def row_sound_def)
  qed
  moreover have "suggestions_unique (wd_items db')"
    using ok n(1) by (auto simp: db_sound_def suggestions_unique_def n(2) list_ex_iff clashes_def)
  ultimately have "db_sound c db'" using ok mine new by (auto simp: db_sound_def n(2) id audit_entry_def ev)
  moreover have "advances db db'" using kids by (auto simp: advances_def n(2))
  ultimately show ?thesis by simp
qed

lemma audit_sound:
  assumes ok: "db_sound c db" and quiet: "\<forall>a hist ev x. operation a hist = Inr (Some ev, x) \<longrightarrow> ev_event ev \<notin> workflow_events"
    and run: "sql_transact_audit c i operation db = (res, db')"
  shows "db_sound c db' \<and> advances db db'"
proof (cases "db' = db")
  case True
  then show ?thesis using ok by (auto simp: advances_def)
next
  case False
  obtain w ev where w: "row_by wr_id (wd_items db) i = Some w" "ev_event ev \<notin> workflow_events"
    "db' = db\<lparr>wd_audit := wd_audit db @ [audit_entry c i ev (wd_audit db)]\<rparr>"
    using run False quiet by (auto simp: sql_transact_audit_def bind_r_Inr lifted_Inr split: option.splits sum.splits prod.splits) blast
  have i: "i \<in> wr_id ` set (wd_items db)" using row_by_some[OF w(1)] by auto
  have kids: "child_rows db' j = child_rows db j" and count: "workflow_count db' j = workflow_count db j" for j
    using w(2) by (simp_all add: w(3) child_rows_def workflow_count_def audit_entry_def)
  have "row_sound c db' x" if "x \<in> set (wd_items db)" for x
    using ok that count[of "wr_id x"] action_of_cong[OF kids] by (auto simp: db_sound_def row_sound_def)
  then have "db_sound c db'" using ok i by (auto simp: db_sound_def w(3) audit_entry_def)
  moreover have "advances db db'" using kids by (auto simp: advances_def w(3))
  ultimately show ?thesis by simp
qed

lemma dismiss_sound: "db_sound c db \<Longrightarrow> db_sound c (sql_dismiss sid actor now db) \<and> advances db (sql_dismiss sid actor now db)"
  by (auto simp: sql_dismiss_def db_sound_def row_sound_def advances_def workflow_count_def child_rows_def cong: action_of_cong)

lemma sys_advance:
  assumes "sys_sound c s" "db_sound c db' \<and> advances (sy_db s) db'"
  shows "sys_sound c (s\<lparr>sy_db := db'\<rparr>)"
  using assms row_current_advances[of "sy_db s" _ db'] action_current_advances[of c "sy_db s" _ db']
  by (auto simp: sys_sound_def)

lemma sql_step_sound: "sql_step c h s s' \<Longrightarrow> codec_ok c \<Longrightarrow> sys_sound c s \<Longrightarrow> sys_sound c s'"
proof (induction rule: sql_step.induct)
  case (st_row w s)
  then show ?case by (auto simp: sys_sound_def row_current_def)
next
  case (st_children w s a)
  have "row_current (sy_db s) w" using st_children by (simp add: sys_sound_def)
  then have "action_current c (sy_db s) a" using action_of_Inr[OF st_children(2)] st_children(2)
    unfolding row_current_def action_current_def by metis
  then show ?case using st_children by (simp add: sys_sound_def)
next
  case (st_write a s op hist u ev v res db')
  then show ?case by (intro sys_advance update_sound[OF _ _ _ st_write(2-5)]) (simp_all add: sys_sound_def)
next
  case (st_create args p md ev s res db')
  have "ev_event ev = ''CREATED'' \<and> ev_action_id ev = act_id (new_action h args p)" using st_create(3) by (simp add: mk_event_Inr)
  then show ?case using st_create
    by (intro sys_advance insert_sound[OF _ _ st_create(1,2) _ _ _ _ _ st_create(4)]) (simp_all add: sys_sound_def new_action_def lifecycle_ok_def)
next
  case (st_audit operation i s r db')
  then show ?case by (intro sys_advance audit_sound[OF _ st_audit(1,2)]) (simp_all add: sys_sound_def)
next
  case (st_dismiss s sid actor now)
  then show ?case by (intro sys_advance dismiss_sound) (simp_all add: sys_sound_def)
qed

lemma sql_reachable_sound: "sql_reachable c h s \<Longrightarrow> codec_ok c \<Longrightarrow> sys_sound c s"
proof (induction rule: sql_reachable.induct)
  case sys_start
  show ?case by (simp add: sys_sound_def db_sound_def empty_work_db_def suggestions_unique_def)
next
  case (sys_step s s')
  then show ?case using sql_step_sound by blast
qed

section \<open>Properties\<close>

lemma sql_get_row:
  assumes "distinct (map wr_id (wd_items db))" "x \<in> set (wd_items db)" "action_of c db x = Inr a"
  shows "sql_get c db db (wr_id x) = Inr (Some a)"
  using row_by_unique[OF assms(1,2)] assms(3) by (simp add: sql_get_def read_row_def)

text \<open>
  C5. The SQL store keeps the lifecycle under races: however workers interleave their reads of rows, their reads of
  subtasks, their saves, creations and audit entries, every stored Action can be read, is inside its lifecycle, has the
  version that counts its workflow events, and no suggestion has two Actions.
\<close>

theorem sql_actions_survive_races:
  assumes "codec_ok c" "sql_reachable c h s"
  shows "(\<forall>w\<in>set (wd_items (sy_db s)). \<exists>a. sql_get c (sy_db s) (sy_db s) (wr_id w) = Inr (Some a) \<and> action_ok a \<and> lifecycle_ok a
        \<and> act_version a = int (workflow_count (sy_db s) (wr_id w)))
    \<and> (\<forall>w\<in>set (wd_items (sy_db s)). \<forall>w'\<in>set (wd_items (sy_db s)). wr_source_suggestion_id w \<noteq> None
        \<and> wr_source_suggestion_id w = wr_source_suggestion_id w' \<longrightarrow> w = w')"
proof -
  have ok: "db_sound c (sy_db s)" using sql_reachable_sound[OF assms(2,1)] by (simp add: sys_sound_def)
  have "\<exists>a. sql_get c (sy_db s) (sy_db s) (wr_id w) = Inr (Some a) \<and> action_ok a \<and> lifecycle_ok a
        \<and> act_version a = int (workflow_count (sy_db s) (wr_id w))" if w: "w \<in> set (wd_items (sy_db s))" for w
  proof -
    obtain a where "action_of c (sy_db s) w = Inr a" "lifecycle_ok a" "act_version a = int (workflow_count (sy_db s) (wr_id w))"
      using ok w by (auto simp: db_sound_def row_sound_def)
    then show ?thesis using ok w sql_get_row action_of_Inr unfolding db_sound_def by metis
  qed
  moreover have "suggestions_unique (wd_items (sy_db s))" using ok by (simp add: db_sound_def)
  ultimately show ?thesis unfolding suggestions_unique_def by blast
qed

text \<open>
  C6. No update is lost: a plan made from an Action that was read, its row and its subtasks perhaps at different times,
  is saved only over exactly that Action, and then the store gives back what the plan says, up to the order of the
  subtasks; in every other case the save gives an error and changes nothing.
\<close>

theorem saved_over_what_was_read:
  assumes "codec_ok c" "sql_reachable c h s" "a \<in> sy_seen s" "plan_for h op a hist = Inr (Store u ev v)"
    "dates_ok u" "no_collision (sy_db s) u" "sql_save c u ev v (sy_db s) = (res, db')"
  shows "(case res of
      Inl e \<Rightarrow> db' = sy_db s
    | Inr r \<Rightarrow> r = u \<and> sql_get c (sy_db s) (sy_db s) (act_id a) = Inr (Some a)
        \<and> (\<exists>ys. set ys = set (act_subtasks u) \<and> sql_get c db' db' (act_id a) = Inr (Some (u\<lparr>act_subtasks := ys\<rparr>))))"
proof -
  have ok: "db_sound c (sy_db s)" and cur: "action_current c (sy_db s) a"
    using sql_reachable_sound[OF assms(2,1)] assms(3) by (simp_all add: sys_sound_def)
  have ids: "distinct (map wr_id (wd_items (sy_db s)))" using ok by (simp add: db_sound_def)
  note P = plan_for_frame[OF assms(4)]
  show ?thesis
  proof (cases res)
    case (Inl e)
    then show ?thesis using assms(7) P by (auto simp: sql_save_def sql_update_def Let_def split: option.splits if_splits)
  next
    case (Inr r)
    obtain w where w: "row_by wr_id (wd_items (sy_db s)) (act_id u) = Some w" "wr_version w = act_version a" "r = u"
      "db' = (sy_db s)\<lparr>wd_items := replace_row wr_id (row_values c u) (wd_items (sy_db s)),
       wd_children := upsert_all u (act_subtasks u) (wd_children (sy_db s)),
       wd_audit := wd_audit (sy_db s) @ [audit_entry c (ev_action_id ev) ev (wd_audit (sy_db s))]\<rparr>"
      using assms(7) P Inr by (auto simp: sql_save_def sql_update_def Let_def upsert_all_def split: option.splits if_splits)
    have m: "w \<in> set (wd_items (sy_db s))" "wr_id w = act_id a" using row_by_some[OF w(1)] P by auto
    obtain x where x: "x \<in> set (wd_items (sy_db s))" "wr_id x = act_id a" "wr_version x = act_version a \<longrightarrow> action_of c (sy_db s) x = Inr a"
      using cur by (auto simp: action_current_def)
    have "x = w" by (rule unique_row[OF ids x(1) m(1)]) (simp add: x(2) m(2))
    then have read: "action_of c (sy_db s) w = Inr a" using x(3) w(2) by blast
    have "lifecycle_ok a" using ok m(1) read by (auto simp: db_sound_def row_sound_def)
    then have "action_ok u" using plan_for_step[OF assms(4)] by simp
    then obtain ys where ys: "set ys = set (act_subtasks u)" "action_of c db' (row_values c u) = Inr (u\<lparr>act_subtasks := ys\<rparr>)"
      using stored_children[OF assms(1) ok m read _ _ assms(5,6), of db'] P w(4) by auto
    have "row_values c u \<in> set (wd_items db')" "wr_id (row_values c u) = act_id a"
      using m P by (auto simp: w(4) replace_row_def row_values_def image_iff)
    moreover have "distinct (map wr_id (wd_items db'))"
      using update_sound[OF assms(1) ok cur assms(4-7)] by (simp add: db_sound_def)
    ultimately have "sql_get c db' db' (act_id a) = Inr (Some (u\<lparr>act_subtasks := ys\<rparr>))" using sql_get_row ys(2) by metis
    moreover have "sql_get c (sy_db s) (sy_db s) (act_id a) = Inr (Some a)" using sql_get_row[OF ids m(1) read] m(2) by simp
    ultimately show ?thesis using Inr w(3) ys(1) by auto
  qed
qed

section \<open>A run\<close>

definition counting_codec :: codec where
  "counting_codec = \<lparr>co_dump = (\<lambda>j. CHR ''x'' # replicate (to_nat j) (CHR ''x'')), co_parse = (\<lambda>s. Some (from_nat (length (tl s)))), co_sha = id\<rparr>"

lemma counting_codec_ok: "codec_ok counting_codec"
  by (simp add: codec_ok_def counting_codec_def)

definition run_hash :: hashing where
  "run_hash = \<lparr>h_text = id, h_json = (\<lambda>_. ''0'')\<rparr>"

definition run_time :: datetime where
  "run_time = \<lparr>dt_local = 0, dt_offset = Some 0\<rparr>"

definition run_manager :: principal where
  "run_manager = \<lparr>pr_user_id = ''m'', pr_display_name = ''m'', pr_role = MANAGER, pr_tenant_id = None\<rparr>"

definition run_args :: create_args where
  "run_args = \<lparr>ca_account_id = None, ca_occurred_at = run_time, ca_title = Some ''t'', ca_principal = None, ca_summary = None,
     ca_actor_id = None, ca_description = None, ca_owner_id = None, ca_priority = P_HIGH, ca_due_date = None, ca_evidence_ids = [],
     ca_context_referents = [], ca_source_suggestion_id = None, ca_approval_required = False, ca_idempotency_key = Some ''k''\<rparr>"

definition run_action :: action where
  "run_action = new_action run_hash run_args run_manager"

definition run_closed :: action where
  "run_closed = transition_updated run_action COMPLETED run_time False"

definition run_reopened :: action where
  "run_reopened = transition_updated run_closed IN_PROGRESS run_time False"

lemma blank_examples: "strip ''t'' = ''t''" "\<not> blank ''t''" "\<not> blank ''k''"
  by code_simp+

lemma run_fields:
  "act_subtasks run_action = []" "act_status run_action = OPEN" "act_version run_action = 1" "act_due_date run_action = None"
  "act_approval_status run_action = NOT_REQUIRED" "action_ok run_action" "act_source_suggestion_id run_action = None"
  "act_completed_at run_action = None" "act_canceled_at run_action = None"
  by (simp_all add: run_action_def new_action_def run_args_def action_ok_def run_time_def aware_def opt_is_aware_def create_title_def
    first_truthy_def blank_examples)

lemma run_created:
  assumes "codec_ok c"
  shows "\<exists>s. sql_reachable c run_hash s \<and> wd_items (sy_db s) = [row_values c run_action] \<and> wd_children (sy_db s) = []"
proof -
  obtain ev where ev: "mk_event (act_id run_action) run_manager ''CREATED'' (ca_occurred_at run_args) [] = Inr ev"
    by (auto simp: mk_event_Inr run_args_def run_time_def aware_def)
  let ?s0 = "\<lparr>sy_db = empty_work_db, sy_rows = {}, sy_seen = {}\<rparr>"
  obtain db where db: "sql_save c run_action ev None empty_work_db = (Inr run_action, db)" "wd_items db = [row_values c run_action]" "wd_children db = []"
    using ev by (auto simp: mk_event_Inr sql_save_def sql_insert_def Let_def empty_work_db_def)
  have "sql_step c run_hash ?s0 (?s0\<lparr>sy_db := db\<rparr>)"
    by (rule st_create[of run_hash run_args run_manager "[]" ev c ?s0 "Inr run_action"])
      (use ev db in \<open>simp_all add: run_fields run_action_def[symmetric] dates_ok_def due_ok_def\<close>)
  then have "sql_reachable c run_hash (?s0\<lparr>sy_db := db\<rparr>)" using sys_start sys_step by blast
  then show ?thesis using db by (intro exI[of _ "?s0\<lparr>sy_db := db\<rparr>"]) simp
qed

text \<open>One worker reads the Action, decides and saves, and then starts to read it again.\<close>

lemma run_read:
  assumes "codec_ok c" "sql_reachable c h s" "wd_items (sy_db s) = [row_values c a]" "wd_children (sy_db s) = []" "act_subtasks a = []"
    "action_ok a" "act_due_date a = None"
  shows "\<exists>s'. sql_reachable c h s' \<and> sy_db s' = sy_db s \<and> sy_rows s' = insert (row_values c a) (sy_rows s) \<and> a \<in> sy_seen s'"
proof -
  let ?s1 = "s\<lparr>sy_rows := insert (row_values c a) (sy_rows s)\<rparr>"
  have s1: "sql_reachable c h ?s1" by (rule sys_step[OF assms(2) st_row]) (simp add: assms(3))
  have "action_of c (sy_db s) (row_values c a) = Inr (a\<lparr>act_subtasks := []\<rparr>)"
    by (rule action_of_values[OF assms(1)]) (use assms in \<open>simp_all add: values_ok_def due_ok_def child_rows_def\<close>)
  then have "action_of c (sy_db ?s1) (row_values c a) = Inr a" using assms(5) by (cases a) simp
  from sys_step[OF s1 st_children[OF _ this]] show ?thesis by (intro exI[of _ "?s1\<lparr>sy_seen := insert a (sy_seen ?s1)\<rparr>"]) simp
qed

lemma run_write:
  assumes "sql_reachable c h s" "wd_items (sy_db s) = [row_values c a]" "wd_children (sy_db s) = []" "a \<in> sy_seen s"
    "plan_for h op a [] = Inr (Store u ev v)" "dates_ok u" "distinct (map sub_id (act_subtasks u))"
  shows "\<exists>s'. sql_reachable c h s' \<and> wd_items (sy_db s') = [row_values c u] \<and> sy_rows s' = sy_rows s \<and> sy_seen s' = sy_seen s
    \<and> wd_children (sy_db s') = upsert_all u (act_subtasks u) []"
proof -
  note P = plan_for_frame[OF assms(5)]
  have "wr_id (row_values c a) = act_id a" "wr_version (row_values c a) = act_version a" by (simp_all add: row_values_def)
  then obtain db where db: "sql_save c u ev v (sy_db s) = (Inr u, db)" "wd_items db = [row_values c u]" "wd_children db = upsert_all u (act_subtasks u) []"
    using P assms(2,3)
    by (auto simp: sql_save_def sql_update_def Let_def row_by_def upsert_all_def replace_row_def) (auto simp: row_values_def)
  have "no_collision (sy_db s) u" using assms(3,7) by (simp add: no_collision_def)
  from sys_step[OF assms(1) st_write[OF assms(4,5,6) this db(1)]] db(2,3) show ?thesis
    by (intro exI[of _ "s\<lparr>sy_db := db\<rparr>"]) simp
qed

lemma run_closed_fields:
  "act_subtasks run_closed = []" "act_status run_closed = COMPLETED" "act_version run_closed = 2" "act_due_date run_closed = None"
  "act_approval_status run_closed = NOT_REQUIRED" "action_ok run_closed" "act_id run_closed = act_id run_action"
  using run_fields by (simp_all add: run_closed_def transition_updated_def action_ok_def opt_is_aware_def) (simp_all add: run_time_def aware_def)

lemma run_reopened_fields:
  "act_subtasks run_reopened = []" "act_status run_reopened = IN_PROGRESS" "act_version run_reopened = 3" "act_due_date run_reopened = None"
  "act_approval_status run_reopened = NOT_REQUIRED" "action_ok run_reopened" "act_id run_reopened = act_id run_action"
  using run_closed_fields by (simp_all add: run_reopened_def transition_updated_def action_ok_def opt_is_aware_def) (simp_all add: run_time_def aware_def)

lemma run_may: "may_manage run_manager a" "aware run_time"
  by (simp_all add: may_manage_def run_manager_def run_time_def aware_def)

lemma run_close: "\<exists>ev. plan_for run_hash (Op_transition i COMPLETED run_manager run_time None False) run_action hist = Inr (Store run_closed ev (Some 1))"
  using run_closed_fields(6) run_may run_fields
  by (simp add: transition_plan_Inr run_closed_def allowed_transitions_def)

lemma run_reopen: "\<exists>ev. plan_for run_hash (Op_transition i IN_PROGRESS run_manager run_time None False) run_closed hist = Inr (Store run_reopened ev (Some 2))"
  using run_reopened_fields(6) run_may run_closed_fields
  by (simp add: transition_plan_Inr run_reopened_def allowed_transitions_def)

definition run_changes :: subtask_changes where
  "run_changes = \<lparr>sc_title_arg = Some ''t'', sc_done_arg = None, sc_due_date_arg = None, sc_owner_id_arg = None, sc_removed_arg = None, sc_other_args = []\<rparr>"

lemma run_subtask:
  "\<exists>u ev n. plan_for run_hash (Op_subtask i None run_manager run_time 3 ''k'' run_changes) run_reopened [] = Inr (Store u ev (Some 3))
     \<and> act_subtasks u = [n] \<and> open_child n \<and> sub_due_date n = None \<and> sub_parent_id n = act_id run_action \<and> \<not> blank (sub_title n) \<and> act_id u = act_id run_action
     \<and> act_due_date u = None"
proof -
  have "action_ok (run_reopened\<lparr>act_subtasks := xs, act_updated_at := run_time, act_version := 4\<rparr>)" for xs
    using run_reopened_fields(6) run_may(2) by (simp add: action_ok_def)
  then show ?thesis using run_may run_reopened_fields
    by (simp add: subtask_plan_def res_simps Let_def run_changes_def prior_mutation_def blank_examples guard_r_def require_manage_def
      require_version_def subtask_new_def subtask_post_init_def truthy_def open_child_def run_manager_def action_post_init_Inr mk_event_Inr)
qed

lemma torn_read_is_possible:
  assumes "codec_ok c"
  shows "\<exists>s a. sql_reachable c run_hash s \<and> a \<in> sy_seen s \<and> act_status a = COMPLETED \<and> (\<exists>x\<in>set (act_subtasks a). open_child x)"
proof -
  obtain s1 where s1: "sql_reachable c run_hash s1" "wd_items (sy_db s1) = [row_values c run_action]" "wd_children (sy_db s1) = []"
    using run_created[OF assms] by auto
  obtain s2 where s2: "sql_reachable c run_hash s2" "sy_db s2 = sy_db s1" "run_action \<in> sy_seen s2"
    using run_read[OF assms s1 run_fields(1,6,4)] by auto
  obtain ev1 where p1: "plan_for run_hash (Op_transition [] COMPLETED run_manager run_time None False) run_action [] = Inr (Store run_closed ev1 (Some 1))"
    using run_close by blast
  obtain s3 where s3: "sql_reachable c run_hash s3" "wd_items (sy_db s3) = [row_values c run_closed]" "wd_children (sy_db s3) = []"
    using run_write[OF s2(1) _ _ s2(3) p1] s1 s2(2) run_closed_fields by (auto simp: dates_ok_def due_ok_def upsert_all_def)
  obtain s4 where s4: "sql_reachable c run_hash s4" "sy_db s4 = sy_db s3" "row_values c run_closed \<in> sy_rows s4" "run_closed \<in> sy_seen s4"
    using run_read[OF assms s3 run_closed_fields(1,6,4)] by auto
  obtain ev2 where p2: "plan_for run_hash (Op_transition [] IN_PROGRESS run_manager run_time None False) run_closed [] = Inr (Store run_reopened ev2 (Some 2))"
    using run_reopen by blast
  obtain s5 where s5: "sql_reachable c run_hash s5" "wd_items (sy_db s5) = [row_values c run_reopened]" "wd_children (sy_db s5) = []"
    "sy_rows s5 = sy_rows s4"
    using run_write[OF s4(1) _ _ s4(4) p2] s3 s4(2) run_reopened_fields by (auto simp: dates_ok_def due_ok_def upsert_all_def)
  obtain s6 where s6: "sql_reachable c run_hash s6" "sy_db s6 = sy_db s5" "row_values c run_closed \<in> sy_rows s6" "run_reopened \<in> sy_seen s6"
    using run_read[OF assms s5(1-3) run_reopened_fields(1,6,4)] s5(4) s4(3) by auto
  obtain u ev3 n where p3: "plan_for run_hash (Op_subtask [] None run_manager run_time 3 ''k'' run_changes) run_reopened [] = Inr (Store u ev3 (Some 3))"
    and n: "act_subtasks u = [n]" "open_child n" "sub_due_date n = None" "sub_parent_id n = act_id run_action" "\<not> blank (sub_title n)"
      "act_id u = act_id run_action" "act_due_date u = None"
    using run_subtask[of "[]"] by blast
  obtain s7 where s7: "sql_reachable c run_hash s7" "sy_rows s7 = sy_rows s6" "wd_children (sy_db s7) = [child_values u n]"
    using run_write[OF s6(1) _ _ s6(4) p3] s5 s6(2) n by (auto simp: dates_ok_def due_ok_def upsert_all_def upsert_child_def row_by_def)
  have "child_of (child_values u n) = Inr n" by (rule child_of_values) (use n in \<open>simp_all add: due_ok_def\<close>)
  then have "map_r child_of (child_rows (sy_db s7) (act_id run_closed)) = Inr [n]"
    using s7(3) n run_closed_fields by (simp add: child_rows_def child_values_def)
  then have "action_of c (sy_db s7) (row_values c run_closed) = Inr (run_closed\<lparr>act_subtasks := [n]\<rparr>)"
    by (intro action_of_values[OF assms]) (use run_closed_fields in \<open>simp_all add: values_ok_def due_ok_def\<close>)
  from sys_step[OF s7(1) st_children[OF _ this]] s7(2) s6(3) n(2) run_closed_fields show ?thesis
    by (intro exI[of _ "s7\<lparr>sy_seen := insert (run_closed\<lparr>act_subtasks := [n]\<rparr>) (sy_seen s7)\<rparr>"] exI[of _ "run_closed\<lparr>act_subtasks := [n]\<rparr>"]) simp
qed

corollary sql_actions_survive_races_witness:
  "\<exists>s. sql_reachable counting_codec run_hash s \<and> (\<exists>a. sql_get counting_codec (sy_db s) (sy_db s) (act_id run_action) = Inr (Some a) \<and> lifecycle_ok a)"
proof -
  obtain s where s: "sql_reachable counting_codec run_hash s" "wd_items (sy_db s) = [row_values counting_codec run_action]"
    using run_created[OF counting_codec_ok] by auto
  have "wr_id (row_values counting_codec run_action) = act_id run_action" by (simp add: row_values_def)
  then show ?thesis using sql_actions_survive_races[OF counting_codec_ok s(1)] s by auto
qed

corollary saved_over_what_was_read_witness:
  "\<exists>s ev db' ys. sql_reachable counting_codec run_hash s \<and> sql_save counting_codec run_closed ev (Some 1) (sy_db s) = (Inr run_closed, db')
     \<and> sql_get counting_codec db' db' (act_id run_action) = Inr (Some (run_closed\<lparr>act_subtasks := ys\<rparr>))"
proof -
  obtain s1 where s1: "sql_reachable counting_codec run_hash s1" "wd_items (sy_db s1) = [row_values counting_codec run_action]" "wd_children (sy_db s1) = []"
    using run_created[OF counting_codec_ok] by auto
  obtain s where s: "sql_reachable counting_codec run_hash s" "sy_db s = sy_db s1" "run_action \<in> sy_seen s"
    using run_read[OF counting_codec_ok s1 run_fields(1,6,4)] by auto
  obtain ev where p: "plan_for run_hash (Op_transition [] COMPLETED run_manager run_time None False) run_action [] = Inr (Store run_closed ev (Some 1))"
    using run_close by blast
  have ok: "dates_ok run_closed" "no_collision (sy_db s) run_closed"
    using run_closed_fields s1 s by (simp_all add: dates_ok_def due_ok_def no_collision_def)
  have "ev_event ev \<noteq> ''CREATED''" "act_id run_closed = act_id run_action" using plan_for_frame[OF p] by simp_all
  then obtain db' where d: "sql_save counting_codec run_closed ev (Some 1) (sy_db s) = (Inr run_closed, db')"
    using s1 s run_fields by (auto simp: sql_save_def sql_update_def Let_def row_by_def row_values_def)
  show ?thesis using saved_over_what_was_read[OF counting_codec_ok s(1,3) p ok d] s(1) d by auto
qed

end
