(* ===== verification/Spec2Isabelle.thy ===== *)
theory Spec2Isabelle
  imports CrmProps FamilyProps AttractivenessProps ActionQueue PriorityOrdering ProspectFit LedgerProps PublicRules
    PursuitProps Matching Alerts Sessions CommRaces Drafting Reference_Records HealthProps Followup Suggestions
    RouteRubric MonitorProps JournalProps AiUsage ClassificationProps FeedbackProps ChatProps MemoryProps MarketStoreProps
    RouteSearchProps SqlActionProps
begin

text \<open>
  \<^bold>\<open>BTX Omni Prospect: the commercial core.\<close> The backend under
  \<^verbatim>\<open>src/backend/src/btx_omni\<close> turns commercial records, public evidence and human
  decisions into scores, queues and governed actions. This library models its pure core and its
  stateful workflows, one theory per component, each in the order of its source file.

  \<^bold>\<open>Foundations.\<close>
  \<open>Prelude\<close>: results of fallible code (\<open>Inl\<close> an error, \<open>Inr\<close> a value),
  insertion-ordered dictionaries, first match, removal of duplicates.
  \<open>Pystd\<close>, \<open>Dates\<close>, \<open>Text_Json\<close>, \<open>Json_Read\<close>: the part of
  the Python library in use: Decimal with its two roundings (and the contract \<open>rounding\<close> they keep),
  dates, date-times, strings, JSON values and their truth.
  \<open>Core\<close>, \<open>Domain\<close>, \<open>Reference_Records\<close>:
  \<^verbatim>\<open>core/{classification,policy,provenance,clock}.py\<close> and the dataclasses of \<^verbatim>\<open>domain/\<close>; a \<open>_post_init\<close> function is a constructor check.

  \<^bold>\<open>Workflows.\<close>
  \<open>Work\<close>, \<open>WorkService\<close>: \<^verbatim>\<open>domain/work.py\<close> and
  \<^verbatim>\<open>modules/work/service.py\<close>. The service is a function of the repository operations; the
  in-memory repository is their instance. \<open>WorkProofs\<close> states the repository contract as the locale
  \<open>action_store\<close>, proves the service against it and interprets it on the in-memory repository;
  \<open>WorkProps\<close> holds the promises over every reachable store. \<open>SqlActions\<close>
  (\<^verbatim>\<open>persistence/actions.py\<close>) is the repository over SQL, whose readers take a row and its
  subtasks in two transactions; \<open>SqlActionProps\<close> runs the plans of the service on what several workers
  have read and shows that the version check keeps the same invariant.
  \<open>CrmProposals\<close>, \<open>CrmProps\<close>: \<^verbatim>\<open>modules/work/crm_proposals.py\<close> with
  the sample adapter of \<^verbatim>\<open>integrations/hubspot/contracts.py\<close>; its state lives in the audit
  history of an Action, and its invariants hold over interleavings with the Action workflow; an attempt is traced back
  to the manager's operation that approved it.
  \<open>Sessions\<close>: \<^verbatim>\<open>security/sessions.py\<close> and the settings it reads
  (\<^verbatim>\<open>core/config.py\<close>), with runs of its operations as sequences.
  \<open>Communications\<close>, \<open>CommProps\<close>: the drafts and their log
  (\<^verbatim>\<open>domain/communications.py\<close>, \<^verbatim>\<open>persistence/communications.py\<close>,
  \<^verbatim>\<open>integrations/communications.py\<close>, \<^verbatim>\<open>modules/communications/service.py\<close>), the
  delivery port a parameter; every operation refines a small lifecycle machine. \<open>CommRaces\<close> cuts each
  method of the service at its reads, its provider call and its write, lets any number of them interleave and stop
  anywhere, and shows that whatever the provider accepted is what a manager had approved. \<open>Drafting\<close>:
  \<^verbatim>\<open>modules/communications/drafting.py\<close> with its contracts of \<^verbatim>\<open>ai/contracts.py\<close>, the
  language provider a parameter.
  \<open>Followup\<close>: \<^verbatim>\<open>modules/work/{commercial_followup,planning_gaps}.py\<close>, which turns an open
  source follow-up into an Action of the service above after a preview. \<open>Suggestions\<close>:
  \<^verbatim>\<open>modules/work/suggestions.py\<close>, the items made from the alerts.

  \<^bold>\<open>Scoring.\<close>
  \<open>Rubric\<close> is the contract of weighted indices (locales \<open>weighted_index\<close>, \<open>ranged_index\<close>):
  \<open>Attractiveness\<close> (\<^verbatim>\<open>modules/scoring/account_attractiveness.py\<close>) and \<open>ProspectFit\<close>
  (\<^verbatim>\<open>prospect_fit.py\<close>) interpret it. \<open>Families\<close> is \<^verbatim>\<open>families.py\<close>: the decision
  families, the public roll-up and the combined customer risk. \<open>PublicRules\<close>
  (\<^verbatim>\<open>public_rules.py\<close>) and \<open>PursuitInputs\<close> (\<^verbatim>\<open>pursuit_inputs.py\<close>,
  \<^verbatim>\<open>opportunity_gates.py\<close>) produce factor inputs and gates. \<open>CustomerHealth\<close>,
  \<open>HealthProps\<close> (\<^verbatim>\<open>customer_health.py\<close>, \<^verbatim>\<open>internal_risk.py\<close>) read one account of
  the runtime tables into the inputs of two families. \<open>RouteRubric\<close>
  (\<^verbatim>\<open>modules/relationships/rubric.py\<close>) scores and selects routes to a buyer;
  \<open>RouteGraph\<close> (\<^verbatim>\<open>modules/relationships/routes.py\<close>) is the typed graph and the
  bounded search that finds them, and \<open>RouteSearchProps\<close> its specification by simple permitted walks:
  soundness whatever interrupts the search, completeness when nothing does.

  \<^bold>\<open>Queues.\<close> \<open>Ranked_Queue\<close> is the contract filter, sort, deduplicate;
  \<open>ActionQueue\<close> (\<^verbatim>\<open>action_priority.py\<close>) and \<open>PriorityOrdering\<close>
  (\<^verbatim>\<open>modules/priority_ordering.py\<close>) interpret it.

  \<^bold>\<open>Commercial records.\<close> \<open>CommercialLedger\<close>, \<open>Lifecycle\<close>,
  \<open>LedgerProps\<close>: \<^verbatim>\<open>modules/commercial/{ledger,lifecycle}.py\<close>, validation of the
  transactional ledger and the fulfilment projection over it. \<open>CommercialEvidence\<close>: resolution of
  evidence references. \<open>Matching\<close>: \<^verbatim>\<open>modules/matching/commercial.py\<close>.
  \<open>Alerts\<close>: \<^verbatim>\<open>modules/alerts/commercial.py\<close>, with the rule of each kind of alert
  (\<open>alert_due\<close>) over dates, amounts and statuses; the engine returns exactly the alerts that are due.

  \<^bold>\<open>Factor classification.\<close> \<open>ClassificationContract\<close>
  (\<^verbatim>\<open>modules/classification/{records,contract}.py\<close>) is the record of a classified factor and its
  validation; \<open>FacilityFit\<close> and \<open>PursuitClassification\<close> hold the classifiers of
  \<^verbatim>\<open>facility_fit.py\<close>, \<^verbatim>\<open>program_horizon.py\<close>, \<^verbatim>\<open>cross_bu.py\<close>,
  \<^verbatim>\<open>component_content.py\<close> and \<^verbatim>\<open>commercial_adjacency.py\<close>, the authored sidecars of
  \<^verbatim>\<open>providers/sample/classifications.py\<close> and their injection into a pursuit
  (\<^verbatim>\<open>_classify_named_pursuit\<close> of \<^verbatim>\<open>modules/commercial/projection.py\<close>).
  \<open>ClassificationProps\<close>: every pursuit gets its eleven valid records, the bins and delivery inputs kept are
  exactly the classified ones, and the missing ones are listed.

  \<^bold>\<open>SQL repositories.\<close> A table is the list of its rows in the order of insertion; a transaction is an
  error, which rolls back, or a value with the new tables; a stored time is an aware one. \<open>Retry\<close> has the
  lemmas of keyed tables and two contracts as locales: \<open>request_log\<close>, a store that remembers every
  request it answered, and \<open>versioned_rows\<close>, where a row remembers its last request and a writer names
  the version it read. \<open>SellerPlans\<close> (\<^verbatim>\<open>persistence/{itineraries,account_planning}.py\<close>) and
  \<open>WorkFeedback\<close>, \<open>FeedbackProps\<close> (\<^verbatim>\<open>work_feedback.py\<close>) interpret them.
  \<open>PrivateChat\<close>, \<open>ChatProps\<close>: \<^verbatim>\<open>omni_runs.py\<close> and
  \<^verbatim>\<open>omni_conversations.py\<close>; in \<open>chat_world\<close> any number of appends are between their read
  and their write while other requests come in. \<open>OmniMemory\<close>,
  \<open>MemoryProps\<close>: \<^verbatim>\<open>omni_memory.py\<close>. \<open>AiUsage\<close>: \<^verbatim>\<open>ai_usage.py\<close>, the call
  budget. \<open>ResearchJournal\<close>, \<open>JournalProps\<close>: \<^verbatim>\<open>monitor/research_state.py\<close>, leased
  research runs and their steps.

  \<^bold>\<open>Market series.\<close> \<open>MarketSeries\<close> is \<^verbatim>\<open>modules/markets/{registry,g17}.py\<close>: the
  registry, the parser of the published table and the transformations. \<open>MarketStore\<close> is
  \<^verbatim>\<open>persistence/market_series.py\<close> and \<^verbatim>\<open>modules/markets/service.py\<close>, the download an
  argument. \<open>MarketProps\<close> proves the parser against what the display needs, \<open>MarketStoreProps\<close> the
  store under any sequence of refreshes; where a property rests on digests, it assumes that no two different series
  downloaded in the run at hand collide (\<open>collision_free\<close>). \<open>IsoText\<close> reads printed dates back.

  \<^bold>\<open>Monitor.\<close> \<open>MonitorContracts\<close>, \<open>MonitorPolicy\<close>, \<open>Resolution\<close>,
  \<open>Candidates\<close> are \<^verbatim>\<open>monitor/{ontology,contracts,policy,clustering,procurement,resolution,candidates}.py\<close>:
  what a public event is, who sees it, which observations are one event, which account it names and what is
  kept for review. \<open>MonitorProps\<close> holds their promises.

  \<^bold>\<open>What the lemmas show.\<close> Invariants over reachable stores (Action lifecycle, versions, CRM
  log, communications, sessions), refinement of the draft lifecycle, termination of route selection, bounds and monotonicity of scores, exact characterisations of verdicts and errors,
  independence from order and duplicates, idempotence of retries, and safety of approvals.

  \<^bold>\<open>Modelling choices.\<close> Decimals are exact rationals; only division rounds, to 28 digits, and
  \<^verbatim>\<open>quantize\<close> to cents (the route rubric, whose values are not short, rounds every sum and product too). Floats are their exact values. ISO text is the date or date-time it denotes.
  Untyped dictionaries that the code only reads are \<open>json\<close> values; dictionaries with fixed keys are
  records. Text is ASCII. \<^verbatim>\<open>sha256\<close>, \<^verbatim>\<open>json.dumps\<close>, \<^verbatim>\<open>repr\<close> and random tokens are
  arguments (several of them together a \<open>codec\<close>), and no theorem assumes anything of them unless it says so. Recursion is structural and needs no
  fuel; the one open loop, of the route selection, is a \<open>while_option\<close> that is proved to end. Concurrency is interleaving: locks and transactions make each repository or session operation one step, and what a
  service method does in several transactions is several steps where a property depends on it
  (\<open>SqlActionProps\<close>, \<open>CommRaces\<close>, \<open>chat_world\<close>).

  \<^bold>\<open>Not modelled.\<close> HTTP routing, the SQL layer itself and the remaining repositories, the
  monitor's collection from public services and its storage, the assistant and the AI clients (their behaviour rests on an
  external model), sample data, and read models that only reshape modelled results for display.
\<close>

end
